(* ===== verification/Prelude.thy ===== *)
theory Prelude
  imports Main "HOL-Library.Monad_Syntax" "HOL-Library.Word"
begin

text \<open>
  Shared material of the development: the C execution model used by every
  component and the generic lemmas that carry the component proofs.

  \<^item> A C function that may run into undefined behaviour (a null or dangling
    pointer dereference, \<^verbatim>\<open>strcmp\<close> on a null pointer, signed overflow, an
    out-of-bounds read) returns an \<open>option\<close>: \<open>None\<close> is "the C execution is
    undefined here". Functions are composed with \<open>Option.bind\<close> in do-notation.
    A loop that may run forever is a \<open>partial_function (option)\<close>, so that not
    returning is \<open>None\<close> as well, and every claim that a loop returns is proved.
  \<^item> C strings are \<open>string\<close> values, a \<^verbatim>\<open>char *\<close> that may be null is a
    \<open>string option\<close>. The functions of \<^verbatim>\<open>string.h\<close> and \<^verbatim>\<open>stdlib.h\<close> that the
    server calls are defined here.
  \<^item> An \<^verbatim>\<open>int\<close> is an \<open>int\<close> in the 32-bit range; additions whose overflow the
    server does not exclude go through \<open>add_int\<close>, which is undefined outside it.
\<close>

section \<open>Named theorem collections\<close>

named_theorems cstr_simps \<open>evaluation rules of the C string functions\<close>
named_theorems code_defs \<open>definitions of straight-line C functions\<close>

section \<open>Machine integers\<close>

definition INT_MAX :: int where "INT_MAX = 2147483647"
definition INT_MIN :: int where "INT_MIN = - 2147483648"

definition in_int :: "int \<Rightarrow> bool" where
  "in_int n \<longleftrightarrow> INT_MIN \<le> n \<and> n \<le> INT_MAX"

text \<open>Signed addition: undefined when the result leaves the range of \<^verbatim>\<open>int\<close>.\<close>

definition add_int :: "int \<Rightarrow> int \<Rightarrow> int option" where
  "add_int a b = (if in_int (a + b) then Some (a + b) else None)"

lemma add_int_Some [simp]: "add_int a b = Some c \<longleftrightarrow> c = a + b \<and> in_int (a + b)"
  by (auto simp: add_int_def)

lemma add_int_in: "in_int (a + b) \<Longrightarrow> add_int a b = Some (a + b)"
  by simp

lemma in_int_small: "- 2000000000 \<le> n \<Longrightarrow> n \<le> 2000000000 \<Longrightarrow> in_int n"
  by (simp add: in_int_def INT_MAX_def INT_MIN_def)

text \<open>Conversion of a wider value to a 32-bit \<^verbatim>\<open>int\<close> keeps the low 32 bits.\<close>

definition to_int32 :: "int \<Rightarrow> int" where
  "to_int32 n = sint (word_of_int n :: 32 word)"

lemma in_int_to_int32: "in_int (to_int32 n)"
proof -
  have "- (2 ^ 31) \<le> sint (word_of_int n :: 32 word)"
    using sint_greater_eq [of "word_of_int n :: 32 word"] by simp
  moreover have "sint (word_of_int n :: 32 word) < 2 ^ 31"
    using sint_less [of "word_of_int n :: 32 word"] by simp
  ultimately show ?thesis
    by (simp add: to_int32_def in_int_def INT_MAX_def INT_MIN_def)
qed

text \<open>Bitwise operations on non-negative \<^verbatim>\<open>int\<close> bit sets (\<^verbatim>\<open>acop\<close> masks).\<close>

lemma or_subset_int:
  fixes a b m :: int
  assumes "and a m = m"
  shows "and (or a b) m = m" and "and (or b a) m = m"
  using assms by (simp_all add: bit_eq_iff bit_and_iff bit_or_iff) blast+

section \<open>C strings\<close>

fun strcmp :: "string \<Rightarrow> string \<Rightarrow> int" where
  "strcmp [] [] = 0"
| "strcmp [] (d # t) = - 1"
| "strcmp (c # s) [] = 1"
| "strcmp (c # s) (d # t) =
     (if c = d then strcmp s t
      else if (of_char c :: nat) < of_char d then - 1 else 1)"

lemma strcmp_eq_0 [simp]: "strcmp s t = 0 \<longleftrightarrow> s = t"
  by (induction s t rule: strcmp.induct) auto

lemma strcmp_refl [simp]: "strcmp s s = 0"
  by simp

lemma strcmp_neg: "strcmp s t = - strcmp t s"
  by (induction s t rule: strcmp.induct) (auto simp: not_less_iff_gr_or_eq)

lemma strcmp_range: "strcmp s t \<in> {- 1, 0, 1}"
  by (induction s t rule: strcmp.induct) auto

lemma strcmp_trans:
  "strcmp s t \<le> 0 \<Longrightarrow> strcmp t u \<le> 0 \<Longrightarrow> strcmp s u \<le> 0"
proof (induction s t arbitrary: u rule: strcmp.induct)
  case 1
  then show ?case by simp
next
  case (2 d t)
  then show ?case by (cases u) auto
next
  case (3 c s)
  then show ?case by simp
next
  case (4 c s d t)
  then show ?case by (cases u) (auto split: if_splits)
qed

definition strncmp :: "string \<Rightarrow> string \<Rightarrow> nat \<Rightarrow> int" where
  [cstr_simps]: "strncmp s t n = strcmp (take n s) (take n t)"

lemma strncmp_eq_0: "strncmp s t n = 0 \<longleftrightarrow> take n s = take n t"
  by (simp add: strncmp_def)

text \<open>\<^verbatim>\<open>strncmp(s, p, strlen(p)) == 0\<close> is the prefix test.\<close>

definition starts_with :: "string \<Rightarrow> string \<Rightarrow> bool" where
  [cstr_simps]: "starts_with s p \<longleftrightarrow> take (length p) s = p"

lemma starts_with_strncmp: "strncmp s p (length p) = 0 \<longleftrightarrow> starts_with s p"
  by (simp add: strncmp_def starts_with_def)

lemma starts_with_append [simp]: "starts_with (p @ s) p"
  by (simp add: starts_with_def)

lemma starts_with_iff: "starts_with s p \<longleftrightarrow> (\<exists>t. s = p @ t)"
  by (metis append_eq_conv_conj append_take_drop_id starts_with_def)

text \<open>\<^verbatim>\<open>strchr\<close> and \<^verbatim>\<open>strstr\<close> return the suffix that starts at the match.\<close>

fun strchr :: "string \<Rightarrow> char \<Rightarrow> string option" where
  "strchr [] c = None"
| "strchr (x # xs) c = (if x = c then Some (x # xs) else strchr xs c)"

lemma strchr_None [simp]: "strchr s c = None \<longleftrightarrow> c \<notin> set s"
  by (induction s) auto

lemma strchr_absent [simp]: "c \<notin> set s \<Longrightarrow> strchr s c = None"
  by simp

lemma strchr_Some_split:
  "strchr s c = Some t \<Longrightarrow> \<exists>p r. s = p @ t \<and> c \<notin> set p \<and> t = c # r"
proof (induction s)
  case Nil
  then show ?case by simp
next
  case (Cons x xs)
  show ?case
  proof (cases "x = c")
    case True
    with Cons.prems have "x # xs = [] @ t \<and> t = c # xs" by simp
    then show ?thesis by (metis empty_iff list.set(1))
  next
    case False
    with Cons obtain p r where "xs = p @ t" "c \<notin> set p" "t = c # r" by auto
    with False have "x # xs = (x # p) @ t \<and> c \<notin> set (x # p) \<and> t = c # r" by simp
    then show ?thesis by blast
  qed
qed

lemma strchr_append [simp]: "c \<notin> set p \<Longrightarrow> strchr (p @ c # r) c = Some (c # r)"
  by (induction p) auto

text \<open>The part of a string in front of the first occurrence of a character.\<close>

definition before :: "char \<Rightarrow> string \<Rightarrow> string" where
  [cstr_simps]: "before c s = takeWhile (\<lambda>x. x \<noteq> c) s"

lemma before_append [simp]: "c \<notin> set p \<Longrightarrow> before c (p @ c # r) = p"
  by (induction p) (auto simp: before_def)

lemma before_id [simp]: "c \<notin> set s \<Longrightarrow> before c s = s"
  by (auto simp: before_def takeWhile_eq_all_conv)

fun strstr :: "string \<Rightarrow> string \<Rightarrow> string option" where
  "strstr [] p = (if p = [] then Some [] else None)"
| "strstr (x # xs) p =
     (if starts_with (x # xs) p then Some (x # xs) else strstr xs p)"

lemma strstr_Some_suffix:
  "strstr s p = Some t \<Longrightarrow> (\<exists>q. s = q @ t) \<and> starts_with t p"
  by (induction s p rule: strstr.induct)
    (auto split: if_splits simp: starts_with_def intro: exI [of _ "_ # _"])

definition strrchr :: "string \<Rightarrow> char \<Rightarrow> string option" where
  [cstr_simps]: "strrchr s c =
     (if c \<in> set s then Some (c # rev (takeWhile (\<lambda>x. x \<noteq> c) (rev s))) else None)"

lemma takeWhile_before:
  "c \<notin> set r \<Longrightarrow> takeWhile (\<lambda>x. x \<noteq> c) (r @ c # q) = r"
  by (induction r) auto

lemma strrchr_append [simp]:
  "c \<notin> set r \<Longrightarrow> strrchr (p @ c # r) c = Some (c # r)"
  by (simp add: strrchr_def takeWhile_before)

text \<open>
  Successive calls of \<^verbatim>\<open>strtok_r\<close> with one delimiter return the maximal
  non-empty runs of other characters, in order.
\<close>

fun split_on :: "char \<Rightarrow> string \<Rightarrow> string list" where
  "split_on d [] = [[]]"
| "split_on d (c # s) =
     (if c = d then [] # split_on d s
      else (case split_on d s of [] \<Rightarrow> [[c]] | t # ts \<Rightarrow> (c # t) # ts))"

definition strtok :: "char \<Rightarrow> string \<Rightarrow> string list" where
  [cstr_simps]: "strtok d s = filter (\<lambda>t. t \<noteq> []) (split_on d s)"

lemma split_on_nonempty [simp]: "split_on d s \<noteq> []"
  by (induction s) (auto split: list.splits)

lemma split_on_no_delim: "d \<notin> set s \<Longrightarrow> split_on d s = [s]"
  by (induction s) auto

lemma split_on_append:
  "d \<notin> set s \<Longrightarrow> split_on d (s @ d # t) = s # split_on d t"
  by (induction s) auto

lemma strtok_tokens: "t \<in> set (strtok d s) \<Longrightarrow> t \<noteq> [] \<and> d \<notin> set t"
proof -
  have "\<forall>t \<in> set (split_on d s). d \<notin> set t"
    by (induction s) (auto split: list.splits)
  then show "t \<in> set (strtok d s) \<Longrightarrow> t \<noteq> [] \<and> d \<notin> set t"
    by (auto simp: strtok_def)
qed

lemma strtok_cons:
  "d \<notin> set s \<Longrightarrow> s \<noteq> [] \<Longrightarrow> strtok d (s @ d # t) = s # strtok d t"
  by (simp add: strtok_def split_on_append)

lemma strtok_single: "d \<notin> set s \<Longrightarrow> s \<noteq> [] \<Longrightarrow> strtok d s = [s]"
  by (simp add: strtok_def split_on_no_delim)

text \<open>Joining path segments with a separator, and the round trip with \<open>strtok\<close>.\<close>

fun join_with :: "char \<Rightarrow> string list \<Rightarrow> string" where
  "join_with d [] = []"
| "join_with d [t] = t"
| "join_with d (t # u # ts) = t @ d # join_with d (u # ts)"

lemma strtok_join:
  "(\<And>t. t \<in> set ts \<Longrightarrow> t \<noteq> [] \<and> d \<notin> set t) \<Longrightarrow> strtok d (join_with d ts) = ts"
proof (induction d ts rule: join_with.induct)
  case (1 d)
  then show ?case by (simp add: strtok_def)
next
  case (2 d t)
  then show ?case by (simp add: strtok_single)
next
  case (3 d t u ts)
  then show ?case by (simp add: strtok_cons)
qed

subsection \<open>Characters and numbers\<close>

definition is_digit :: "char \<Rightarrow> bool" where
  [cstr_simps]: "is_digit c \<longleftrightarrow> 48 \<le> (of_char c :: nat) \<and> (of_char c :: nat) \<le> 57"

text \<open>\<^verbatim>\<open>isspace\<close> in the C locale: blank, tab, newline, vertical tab, form feed, return.\<close>

definition isspace :: "char \<Rightarrow> bool" where
  [cstr_simps]: "isspace c \<longleftrightarrow> (of_char c :: nat) = 32 \<or>
     (9 \<le> (of_char c :: nat) \<and> (of_char c :: nat) \<le> 13)"

definition tolower :: "char \<Rightarrow> char" where
  [cstr_simps]: "tolower c =
     (if 65 \<le> (of_char c :: nat) \<and> (of_char c :: nat) \<le> 90
      then char_of ((of_char c :: nat) + 32) else c)"

fun digits_val :: "int \<Rightarrow> string \<Rightarrow> int" where
  "digits_val acc [] = acc"
| "digits_val acc (c # s) =
     (if is_digit c then digits_val (10 * acc + (int (of_char c) - 48)) s else acc)"

definition LONG_MAX :: int where "LONG_MAX = 9223372036854775807"
definition LONG_MIN :: int where "LONG_MIN = - 9223372036854775808"

text \<open>
  \<^verbatim>\<open>strtol(s, &end, 10)\<close>: the value clamped to \<^verbatim>\<open>long\<close>, whether it was
  clamped (\<^verbatim>\<open>errno == ERANGE\<close>), and the rest of the string at \<^verbatim>\<open>end\<close>; without a
  digit the value is 0 and \<^verbatim>\<open>end\<close> is the start of the string.
\<close>

definition strtol :: "string \<Rightarrow> int \<times> bool \<times> string" where
  "strtol s =
     (let t = dropWhile isspace s;
          neg = (case t of c # _ \<Rightarrow> c = CHR ''-'' | [] \<Rightarrow> False);
          u = (case t of c # r \<Rightarrow> if c = CHR ''-'' \<or> c = CHR ''+'' then r else t | [] \<Rightarrow> [])
      in if takeWhile is_digit u = [] then (0, False, s)
         else let v = (if neg then - digits_val 0 u else digits_val 0 u)
              in (max LONG_MIN (min LONG_MAX v), v < LONG_MIN \<or> LONG_MAX < v,
                  dropWhile is_digit u))"

definition atoi :: "string \<Rightarrow> int" where
  "atoi s = to_int32 (fst (strtol s))"

lemma in_int_atoi: "in_int (atoi s)"
  by (simp add: atoi_def in_int_to_int32)

section \<open>Association tables\<close>

text \<open>A \<^verbatim>\<open>switch\<close> over constants with a default is a lookup in a table.\<close>

definition switch :: "('k \<times> 'v) list \<Rightarrow> 'v \<Rightarrow> 'k \<Rightarrow> 'v" where
  "switch tab dflt k = (case map_of tab k of Some v \<Rightarrow> v | None \<Rightarrow> dflt)"

lemma switch_Nil [simp]: "switch [] d k = d"
  by (simp add: switch_def)

lemma switch_Cons [simp]:
  "switch ((a, v) # tab) d k = (if k = a then v else switch tab d k)"
  by (simp add: switch_def)

lemma switch_in: "switch tab d k \<in> insert d (snd ` set tab)"
  by (cases "map_of tab k") (auto simp: switch_def dest: map_of_SomeD intro: rev_image_eqI)

text \<open>Table rows for several \<^verbatim>\<open>case\<close> labels that share a result.\<close>

definition cases_to :: "'v \<Rightarrow> 'k list \<Rightarrow> ('k \<times> 'v) list" where
  "cases_to v ks = map (\<lambda>k. (k, v)) ks"

lemma cases_to_simps [simp]:
  "cases_to v [] = []" "cases_to v (k # ks) = (k, v) # cases_to v ks"
  by (simp_all add: cases_to_def)

section \<open>Options and lists\<close>

lemma bind_eq_Some [simp]:
  "Option.bind m f = Some y \<longleftrightarrow> (\<exists>x. m = Some x \<and> f x = Some y)"
  by (cases m) auto

lemma map_option_case_None: "(case m of None \<Rightarrow> None | Some x \<Rightarrow> Some (f x)) = map_option f m"
  by (cases m) auto

end
