(* ===== verification/CJson.thy ===== *)
theory CJson
  imports Prelude
begin

text \<open>
  The JSON values of \<^verbatim>\<open>cJSON.c\<close> and the operations on them that the server uses.

  A \<^verbatim>\<open>cJSON\<close> item is a value of the datatype \<open>cjson\<close>; the children of an object are a
  list of (name, value) pairs in insertion order, so duplicate names and names
  that differ only in case are represented. A \<^verbatim>\<open>cJSON *\<close> that may be null is a
  \<open>cjson option\<close>. The server owns every tree it mutates, so an update through a
  pointer to a member is the update of that member in its parent, and
  \<^verbatim>\<open>cJSON_Duplicate\<close> is the identity. Numbers are integers: the server's numeric
  attributes are integral; \<^verbatim>\<open>valueint\<close> is the number clamped to \<^verbatim>\<open>int\<close>. The
  members of a string, number, boolean or null do not exist.

  The locale \<open>attr_map\<close> is the contract of an attribute object (what a lookup
  returns after an insertion, a deletion or a replacement); it is interpreted on
  the cJSON operations, and its lemma on folding a list of changes gives the
  semantics of \<^verbatim>\<open>update_resource\<close> of \<^verbatim>\<open>util.c\<close>.
\<close>

section \<open>Values\<close>

datatype cjson =
    JNull
  | JFalse
  | JTrue
  | JNumber int
  | JString string
  | JArray "cjson list"
  | JObject "(string \<times> cjson) list"

datatype jtype = T_Null | T_False | T_True | T_Number | T_String | T_Array | T_Object

fun cJSON_type :: "cjson \<Rightarrow> jtype" where
  "cJSON_type JNull = T_Null"
| "cJSON_type JFalse = T_False"
| "cJSON_type JTrue = T_True"
| "cJSON_type (JNumber n) = T_Number"
| "cJSON_type (JString s) = T_String"
| "cJSON_type (JArray xs) = T_Array"
| "cJSON_type (JObject kvs) = T_Object"

definition cJSON_IsNull :: "cjson option \<Rightarrow> bool" where
  [code_defs]: "cJSON_IsNull j \<longleftrightarrow> (case j of Some JNull \<Rightarrow> True | _ \<Rightarrow> False)"

definition cJSON_IsNumber :: "cjson option \<Rightarrow> bool" where
  [code_defs]: "cJSON_IsNumber j \<longleftrightarrow> (case j of Some (JNumber n) \<Rightarrow> True | _ \<Rightarrow> False)"

definition cJSON_IsString :: "cjson option \<Rightarrow> bool" where
  [code_defs]: "cJSON_IsString j \<longleftrightarrow> (case j of Some (JString s) \<Rightarrow> True | _ \<Rightarrow> False)"

definition cJSON_IsArray :: "cjson option \<Rightarrow> bool" where
  [code_defs]: "cJSON_IsArray j \<longleftrightarrow> (case j of Some (JArray xs) \<Rightarrow> True | _ \<Rightarrow> False)"

definition cJSON_IsObject :: "cjson option \<Rightarrow> bool" where
  [code_defs]: "cJSON_IsObject j \<longleftrightarrow> (case j of Some (JObject kvs) \<Rightarrow> True | _ \<Rightarrow> False)"

text \<open>The field \<^verbatim>\<open>valuestring\<close>, null for every item that is not a string.\<close>

fun valuestring :: "cjson \<Rightarrow> string option" where
  "valuestring (JString s) = Some s"
| "valuestring _ = None"

text \<open>
  The field \<^verbatim>\<open>valueint\<close>: clamped for a number; the parser leaves 1 in it for the
  literal \<open>true\<close>; 0 for every other item.
\<close>

fun valueint :: "cjson \<Rightarrow> int" where
  "valueint (JNumber n) = (if INT_MAX \<le> n then INT_MAX else if n \<le> INT_MIN then INT_MIN else n)"
| "valueint JTrue = 1"
| "valueint _ = 0"

lemma in_int_valueint: "in_int (valueint j)"
  by (cases j) (auto simp: in_int_def INT_MAX_def INT_MIN_def)

lemma valueint_in_int [simp]: "in_int n \<Longrightarrow> valueint (JNumber n) = n"
  by (auto simp: in_int_def)

text \<open>\<^verbatim>\<open>cJSON_GetNumberValue\<close>: \<open>None\<close> stands for the NaN it returns on other items.\<close>

fun cJSON_GetNumberValue :: "cjson \<Rightarrow> int option" where
  "cJSON_GetNumberValue (JNumber n) = Some n"
| "cJSON_GetNumberValue _ = None"

text \<open>The members visited by \<^verbatim>\<open>cJSON_ArrayForEach\<close>, with their field \<^verbatim>\<open>string\<close>.\<close>

fun items :: "cjson \<Rightarrow> (string option \<times> cjson) list" where
  "items (JArray xs) = map (\<lambda>x. (None, x)) xs"
| "items (JObject kvs) = map (\<lambda>(k, v). (Some k, v)) kvs"
| "items _ = []"

definition elems :: "cjson option \<Rightarrow> cjson list" where
  [code_defs]: "elems j = (case j of None \<Rightarrow> [] | Some v \<Rightarrow> map snd (items v))"

lemma elems_simps [simp]:
  "elems None = []" "elems (Some (JArray xs)) = xs"
  "elems (Some (JObject kvs)) = map snd kvs"
  by (auto simp: elems_def o_def)

definition cJSON_GetArraySize :: "cjson option \<Rightarrow> nat" where
  [code_defs]: "cJSON_GetArraySize j = length (elems j)"

definition cJSON_GetArrayItem :: "cjson option \<Rightarrow> nat \<Rightarrow> cjson option" where
  [code_defs]: "cJSON_GetArrayItem j i = (if i < length (elems j) then Some (elems j ! i) else None)"

section \<open>Members of objects\<close>

definition ci_eq :: "string \<Rightarrow> string \<Rightarrow> bool" where
  "ci_eq a b \<longleftrightarrow> map tolower a = map tolower b"

lemma ci_eq_refl [simp]: "ci_eq a a"
  by (simp add: ci_eq_def)

lemma ci_eq_sym: "ci_eq a b = ci_eq b a"
  by (auto simp: ci_eq_def)

lemma ci_eq_trans: "ci_eq a b \<Longrightarrow> ci_eq a c = ci_eq b c"
  by (auto simp: ci_eq_def)

fun find_member :: "(string \<times> cjson) list \<Rightarrow> string \<Rightarrow> cjson option" where
  "find_member [] k = None"
| "find_member ((k', v) # kvs) k = (if ci_eq k k' then Some v else find_member kvs k)"

definition cJSON_GetObjectItem :: "cjson option \<Rightarrow> string \<Rightarrow> cjson option" where
  "cJSON_GetObjectItem j k = (case j of Some (JObject kvs) \<Rightarrow> find_member kvs k | _ \<Rightarrow> None)"

lemma GetObjectItem_simps [simp]:
  "cJSON_GetObjectItem None k = None"
  "cJSON_GetObjectItem (Some JNull) k = None"
  "cJSON_GetObjectItem (Some JFalse) k = None"
  "cJSON_GetObjectItem (Some JTrue) k = None"
  "cJSON_GetObjectItem (Some (JNumber n)) k = None"
  "cJSON_GetObjectItem (Some (JString s)) k = None"
  "cJSON_GetObjectItem (Some (JArray xs)) k = None"
  "cJSON_GetObjectItem (Some (JObject kvs)) k = find_member kvs k"
  by (simp_all add: cJSON_GetObjectItem_def)

text \<open>\<^verbatim>\<open>obj->member->valuestring\<close>: undefined when the member is missing.\<close>

definition member_string :: "cjson option \<Rightarrow> string \<Rightarrow> string option" where
  "member_string j k = do { v \<leftarrow> cJSON_GetObjectItem j k; valuestring v }"

definition member_int :: "cjson option \<Rightarrow> string \<Rightarrow> int option" where
  "member_int j k = map_option valueint (cJSON_GetObjectItem j k)"

fun cJSON_AddItemToObject :: "cjson \<Rightarrow> string \<Rightarrow> cjson \<Rightarrow> cjson" where
  "cJSON_AddItemToObject (JObject kvs) k v = JObject (kvs @ [(k, v)])"
| "cJSON_AddItemToObject j k v = j"

fun del_member :: "(string \<times> cjson) list \<Rightarrow> string \<Rightarrow> (string \<times> cjson) list" where
  "del_member [] k = []"
| "del_member ((k', v) # kvs) k = (if ci_eq k k' then kvs else (k', v) # del_member kvs k)"

fun cJSON_DeleteItemFromObject :: "cjson \<Rightarrow> string \<Rightarrow> cjson" where
  "cJSON_DeleteItemFromObject (JObject kvs) k = JObject (del_member kvs k)"
| "cJSON_DeleteItemFromObject j k = j"

text \<open>\<^verbatim>\<open>cJSON_ReplaceItemInObject\<close> also renames the member to the given name.\<close>

fun repl_member :: "(string \<times> cjson) list \<Rightarrow> string \<Rightarrow> cjson \<Rightarrow> (string \<times> cjson) list" where
  "repl_member [] k v = []"
| "repl_member ((k', v') # kvs) k v =
     (if ci_eq k k' then (k, v) # kvs else (k', v') # repl_member kvs k v)"

fun cJSON_ReplaceItemInObject :: "cjson \<Rightarrow> string \<Rightarrow> cjson \<Rightarrow> cjson" where
  "cJSON_ReplaceItemInObject (JObject kvs) k v = JObject (repl_member kvs k v)"
| "cJSON_ReplaceItemInObject j k v = j"

text \<open>
  \<^verbatim>\<open>cJSON_SetIntValue(cJSON_GetObjectItem(obj, k), n)\<close>: the number of the
  member changes, its type and name do not.
\<close>

fun set_int_member :: "(string \<times> cjson) list \<Rightarrow> string \<Rightarrow> int \<Rightarrow> (string \<times> cjson) list" where
  "set_int_member [] k n = []"
| "set_int_member ((k', v) # kvs) k n =
     (if ci_eq k k'
      then (k', (case v of JNumber m \<Rightarrow> JNumber n | _ \<Rightarrow> v)) # kvs
      else (k', v) # set_int_member kvs k n)"

fun set_int :: "cjson \<Rightarrow> string \<Rightarrow> int \<Rightarrow> cjson" where
  "set_int (JObject kvs) k n = JObject (set_int_member kvs k n)"
| "set_int j k n = j"

fun cJSON_DeleteItemFromArray :: "cjson \<Rightarrow> nat \<Rightarrow> cjson" where
  "cJSON_DeleteItemFromArray (JArray xs) i = JArray (take i xs @ drop (Suc i) xs)"
| "cJSON_DeleteItemFromArray (JObject kvs) i = JObject (take i kvs @ drop (Suc i) kvs)"
| "cJSON_DeleteItemFromArray j i = j"

text \<open>
  \<^verbatim>\<open>cJSON_AddItemToArray\<close>; the children of an item that is no container are never read, so
  adding to it changes nothing.
\<close>

fun cJSON_AddItemToArray :: "cjson \<Rightarrow> cjson \<Rightarrow> cjson" where
  "cJSON_AddItemToArray (JArray xs) v = JArray (xs @ [v])"
| "cJSON_AddItemToArray (JObject kvs) v = JObject (kvs @ [([], v)])"
| "cJSON_AddItemToArray j v = j"

text \<open>A change made through the pointer that \<^verbatim>\<open>cJSON_GetObjectItem(obj, k)\<close> returns.\<close>

fun mod_member :: "(string \<times> cjson) list \<Rightarrow> string \<Rightarrow> (cjson \<Rightarrow> cjson) \<Rightarrow> (string \<times> cjson) list" where
  "mod_member [] k f = []"
| "mod_member ((k', v) # kvs) k f = (if ci_eq k k' then (k', f v) # kvs else (k', v) # mod_member kvs k f)"

fun modify_member :: "cjson \<Rightarrow> string \<Rightarrow> (cjson \<Rightarrow> cjson) \<Rightarrow> cjson" where
  "modify_member (JObject kvs) k f = JObject (mod_member kvs k f)"
| "modify_member j k f = j"

text \<open>
  \<^verbatim>\<open>cJSON_getArrayIdx\<close> of \<^verbatim>\<open>onem2m.c\<close>: the index of a string in an array.
  \<^verbatim>\<open>strcmp\<close> on an element without a \<^verbatim>\<open>valuestring\<close> is undefined.
\<close>

fun array_idx :: "cjson list \<Rightarrow> string \<Rightarrow> nat \<Rightarrow> int option" where
  "array_idx [] v i = Some (- 1)"
| "array_idx (x # xs) v i =
     do { s \<leftarrow> valuestring x; if s = v then Some (int i) else array_idx xs v (Suc i) }"

definition cJSON_getArrayIdx :: "cjson option \<Rightarrow> string \<Rightarrow> int option" where
  "cJSON_getArrayIdx arr v = (case arr of None \<Rightarrow> Some (- 1) | Some a \<Rightarrow> array_idx (elems (Some a)) v 0)"

lemma array_idx_strings:
  "array_idx (map JString ss) v i =
     Some (if v \<in> set ss then int (i + length (takeWhile (\<lambda>s. s \<noteq> v) ss)) else - 1)"
  by (induction ss arbitrary: i) auto

lemma getArrayIdx_strings:
  "cJSON_getArrayIdx (Some (JArray (map JString ss))) v \<noteq> Some (- 1) \<longleftrightarrow> v \<in> set ss"
  by (simp add: cJSON_getArrayIdx_def array_idx_strings)

section \<open>Attribute objects\<close>

subsection \<open>The contract\<close>

text \<open>
  A store of named attributes: \<open>get\<close> looks a name up, \<open>add\<close> appends a new
  attribute, \<open>del\<close> removes one and \<open>repl\<close> overwrites one. Names are compared by
  \<open>same\<close>. The laws are those the server relies on when it merges a request into
  a stored resource.
\<close>

locale attr_map =
  fixes invar :: "'m \<Rightarrow> bool"
    and get :: "'m \<Rightarrow> 'k \<Rightarrow> 'v option"
    and add :: "'m \<Rightarrow> 'k \<Rightarrow> 'v \<Rightarrow> 'm"
    and del :: "'m \<Rightarrow> 'k \<Rightarrow> 'm"
    and repl :: "'m \<Rightarrow> 'k \<Rightarrow> 'v \<Rightarrow> 'm"
    and same :: "'k \<Rightarrow> 'k \<Rightarrow> bool"
    and null :: "'v"
  assumes get_add: "invar m \<Longrightarrow> get m k = None \<Longrightarrow>
      get (add m k v) k' = (if same k k' then Some v else get m k')"
    and get_del: "invar m \<Longrightarrow> get (del m k) k' = (if same k k' then None else get m k')"
    and get_repl: "invar m \<Longrightarrow> get m k \<noteq> None \<Longrightarrow>
      get (repl m k v) k' = (if same k k' then Some v else get m k')"
    and invar_add: "invar m \<Longrightarrow> get m k = None \<Longrightarrow> invar (add m k v)"
    and invar_del: "invar m \<Longrightarrow> invar (del m k)"
    and invar_repl: "invar m \<Longrightarrow> invar (repl m k v)"
begin

definition apply_change :: "'m \<Rightarrow> 'k \<times> 'v \<Rightarrow> 'm" where
  "apply_change m c =
     (case get m (fst c) of
        Some _ \<Rightarrow> if snd c = null then del m (fst c) else repl m (fst c) (snd c)
      | None \<Rightarrow> if snd c = null then m else add m (fst c) (snd c))"

definition apply_changes :: "'m \<Rightarrow> ('k \<times> 'v) list \<Rightarrow> 'm" where
  "apply_changes m cs = foldl apply_change m cs"

lemma invar_apply_change: "invar m \<Longrightarrow> invar (apply_change m c)"
  by (auto simp: apply_change_def invar_del invar_repl invar_add split: option.splits)

lemma get_apply_change:
  "invar m \<Longrightarrow> same (fst c) k \<Longrightarrow> (snd c = null \<Longrightarrow> get m (fst c) = get m k) \<Longrightarrow>
   get (apply_change m c) k = (if snd c = null then None else Some (snd c))"
  by (auto simp: apply_change_def get_del get_repl get_add split: option.splits)

lemma get_apply_change_other:
  "invar m \<Longrightarrow> \<not> same (fst c) k \<Longrightarrow> get (apply_change m c) k = get m k"
  by (auto simp: apply_change_def get_del get_repl get_add split: option.splits)

lemma invar_apply_changes: "invar m \<Longrightarrow> invar (apply_changes m cs)"
  unfolding apply_changes_def
  by (induction cs arbitrary: m) (simp_all add: invar_apply_change)

lemma get_apply_changes_other:
  "invar m \<Longrightarrow> (\<And>c. c \<in> set cs \<Longrightarrow> \<not> same (fst c) k) \<Longrightarrow> get (apply_changes m cs) k = get m k"
  unfolding apply_changes_def
  by (induction cs arbitrary: m) (simp_all add: invar_apply_change get_apply_change_other)

lemma get_apply_changes:
  assumes "invar m" "same (fst c) k"
    and "\<And>m. invar m \<Longrightarrow> get m (fst c) = get m k"
    and "\<And>d. d \<in> set cs1 \<union> set cs2 \<Longrightarrow> \<not> same (fst d) k"
  shows "get (apply_changes m (cs1 @ c # cs2)) k = (if snd c = null then None else Some (snd c))"
proof -
  let ?m1 = "apply_changes m cs1"
  have inv1: "invar ?m1" using assms(1) by (rule invar_apply_changes)
  have "get (apply_changes (apply_change ?m1 c) cs2) k = get (apply_change ?m1 c) k"
    using assms(4) inv1 by (intro get_apply_changes_other invar_apply_change) auto
  also have "\<dots> = (if snd c = null then None else Some (snd c))"
    using inv1 assms(2) assms(3) [OF inv1] by (rule get_apply_change)
  finally show ?thesis by (simp add: apply_changes_def)
qed

end

subsection \<open>The cJSON object is such a store\<close>

fun obj_keys :: "cjson \<Rightarrow> string list" where
  "obj_keys (JObject kvs) = map (\<lambda>p. map tolower (fst p)) kvs"
| "obj_keys _ = []"

text \<open>An object whose member names differ, also when case is ignored.\<close>

fun wf_obj :: "cjson \<Rightarrow> bool" where
  "wf_obj (JObject kvs) = distinct (obj_keys (JObject kvs))"
| "wf_obj _ = False"

lemma find_member_None:
  "find_member kvs k = None \<longleftrightarrow> map tolower k \<notin> (\<lambda>p. map tolower (fst p)) ` set kvs"
proof (induction kvs)
  case (Cons p kvs)
  then show ?case by (cases p) (simp add: ci_eq_def)
qed simp

lemma find_member_None_same:
  "find_member kvs k = None \<longleftrightarrow> (\<forall>p \<in> set kvs. \<not> ci_eq (fst p) k)"
proof (induction kvs)
  case (Cons p kvs)
  then show ?case by (cases p) (simp add: ci_eq_sym)
qed simp

lemma find_member_append:
  "find_member (xs @ ys) k = (case find_member xs k of None \<Rightarrow> find_member ys k | Some v \<Rightarrow> Some v)"
  by (induction xs) auto

lemma find_member_cong: "ci_eq k k' \<Longrightarrow> find_member kvs k = find_member kvs k'"
  by (induction kvs) (auto simp: ci_eq_def)

lemma find_member_in: "find_member kvs k = Some v \<Longrightarrow> \<exists>k'. ci_eq k k' \<and> (k', v) \<in> set kvs"
  by (induction kvs) (auto split: if_splits)

lemma set_del_member: "set (del_member kvs k) \<subseteq> set kvs"
  by (induction kvs) (auto split: if_splits)

lemma distinct_del_member:
  "distinct (obj_keys (JObject kvs)) \<Longrightarrow> distinct (obj_keys (JObject (del_member kvs k)))"
proof (induction kvs)
  case (Cons p kvs)
  have "(\<lambda>p. map tolower (fst p)) ` set (del_member kvs k) \<subseteq> (\<lambda>p. map tolower (fst p)) ` set kvs"
    using set_del_member by blast
  with Cons show ?case by (cases p) auto
qed simp

lemma find_del_member:
  "distinct (obj_keys (JObject kvs)) \<Longrightarrow>
   find_member (del_member kvs k) k' = (if ci_eq k k' then None else find_member kvs k')"
proof (induction kvs)
  case (Cons p kvs)
  obtain a v where p: "p = (a, v)" by (cases p)
  from Cons.prems have d: "distinct (obj_keys (JObject kvs))" by simp
  show ?case
  proof (cases "ci_eq k a")
    case True
    with Cons.prems p have none: "find_member kvs k = None"
      by (simp add: find_member_None ci_eq_def)
    show ?thesis
    proof (cases "ci_eq k k'")
      case True
      with none have "find_member kvs k' = None" using find_member_cong by metis
      with \<open>ci_eq k a\<close> True p show ?thesis by simp
    next
      case False
      with \<open>ci_eq k a\<close> have "\<not> ci_eq k' a" by (auto simp: ci_eq_def)
      with \<open>ci_eq k a\<close> False p show ?thesis by simp
    qed
  next
    case False
    show ?thesis
    proof (cases "ci_eq k' a")
      case True
      with False have "\<not> ci_eq k k'" by (auto simp: ci_eq_def)
      with True False p show ?thesis by simp
    next
      case F2: False
      with False p Cons.IH [OF d] show ?thesis by simp
    qed
  qed
qed simp

lemma keys_repl_member:
  "map (\<lambda>p. map tolower (fst p)) (repl_member kvs k v) = map (\<lambda>p. map tolower (fst p)) kvs"
  by (induction kvs) (auto simp: ci_eq_def)

lemma find_repl_member:
  "find_member kvs k \<noteq> None \<Longrightarrow>
   find_member (repl_member kvs k v) k' = (if ci_eq k k' then Some v else find_member kvs k')"
  by (induction kvs) (auto simp: ci_eq_def)

lemma find_set_int_member:
  "find_member (set_int_member kvs k n) k' =
     (if ci_eq k k'
      then map_option (\<lambda>v. case v of JNumber m \<Rightarrow> JNumber n | _ \<Rightarrow> v) (find_member kvs k)
      else find_member kvs k')"
  by (induction kvs) (auto simp: ci_eq_def)

lemma set_int_get:
  "cJSON_GetObjectItem (Some (set_int j k n)) k' =
     (if ci_eq k k'
      then map_option (\<lambda>v. case v of JNumber m \<Rightarrow> JNumber n | _ \<Rightarrow> v) (cJSON_GetObjectItem (Some j) k)
      else cJSON_GetObjectItem (Some j) k')"
  by (cases j) (auto simp: find_set_int_member)

lemma set_int_other [simp]:
  "\<not> ci_eq k k' \<Longrightarrow> cJSON_GetObjectItem (Some (set_int j k n)) k' = cJSON_GetObjectItem (Some j) k'"
  by (simp add: set_int_get)

interpretation jattr: attr_map wf_obj "\<lambda>j. cJSON_GetObjectItem (Some j)" cJSON_AddItemToObject
  cJSON_DeleteItemFromObject cJSON_ReplaceItemInObject ci_eq JNull
proof (unfold_locales, goal_cases)
  case (1 m k v k')
  then obtain kvs where m: "m = JObject kvs" by (cases m) auto
  show ?case
  proof (cases "ci_eq k k'")
    case True
    with 1 m have "find_member kvs k' = None" using find_member_cong by fastforce
    with True m show ?thesis by (simp add: find_member_append ci_eq_sym)
  next
    case False
    with m show ?thesis by (simp add: find_member_append ci_eq_sym split: option.split)
  qed
next
  case (2 m k k')
  then show ?case by (cases m) (auto simp: find_del_member)
next
  case (3 m k v k')
  then show ?case by (cases m) (auto simp: find_repl_member)
next
  case (4 m k v)
  then show ?case by (cases m) (auto simp: find_member_None)
next
  case (5 m k)
  then show ?case
    by (cases m) (simp_all add: distinct_del_member [unfolded obj_keys.simps])
next
  case (6 m k v)
  then show ?case by (cases m) (simp_all add: keys_repl_member)
qed

section \<open>Merging a request into a resource\<close>

text \<open>
  \<^verbatim>\<open>update_resource\<close> of \<^verbatim>\<open>util.c\<close>: for each member of \<open>new\<close>, an explicit null
  deletes the stored attribute (and is ignored when there is none), any other
  value replaces it or is appended.
\<close>

definition update_step :: "cjson \<Rightarrow> string \<times> cjson \<Rightarrow> cjson" where
  "update_step old p =
     (case cJSON_GetObjectItem (Some old) (fst p) of
        Some _ \<Rightarrow> if snd p = JNull then cJSON_DeleteItemFromObject old (fst p)
                  else cJSON_ReplaceItemInObject old (fst p) (snd p)
      | None \<Rightarrow> if snd p = JNull then old else cJSON_AddItemToObject old (fst p) (snd p))"

fun update_resource :: "cjson \<Rightarrow> cjson \<Rightarrow> cjson" where
  "update_resource old (JObject kvs) = foldl update_step old kvs"
| "update_resource old _ = old"

lemma update_step_change: "update_step = jattr.apply_change"
  by (rule ext, rule ext) (simp add: update_step_def jattr.apply_change_def)

lemma update_resource_changes: "update_resource old (JObject kvs) = jattr.apply_changes old kvs"
  by (simp add: update_step_change jattr.apply_changes_def)

lemma split_key:
  assumes "find_member kvs k = Some v" "distinct (obj_keys (JObject kvs))"
  shows "\<exists>xs k' ys. kvs = xs @ (k', v) # ys \<and> ci_eq k' k \<and>
    (\<forall>d \<in> set xs \<union> set ys. \<not> ci_eq (fst d) k)"
proof -
  from assms(1) obtain k' where k': "ci_eq k k'" and mem: "(k', v) \<in> set kvs"
    using find_member_in by blast
  from mem obtain xs ys where kvs: "kvs = xs @ (k', v) # ys" by (meson split_list)
  with assms(2) have "find_member xs k' = None" "find_member ys k' = None"
    by (simp_all add: find_member_None)
  with k' have "\<forall>d \<in> set xs \<union> set ys. \<not> ci_eq (fst d) k"
    by (metis UnE ci_eq_sym ci_eq_trans find_member_None_same)
  with kvs k' show ?thesis by (metis ci_eq_sym)
qed

lemma wf_update_resource: "wf_obj old \<Longrightarrow> wf_obj (update_resource old new)"
  by (cases new) (simp_all only: update_resource.simps update_resource_changes
      [unfolded update_resource.simps] jattr.invar_apply_changes)

lemma get_update_resource:
  assumes "wf_obj old" "wf_obj new"
  shows "cJSON_GetObjectItem (Some (update_resource old new)) k =
    (case cJSON_GetObjectItem (Some new) k of
       None \<Rightarrow> cJSON_GetObjectItem (Some old) k
     | Some v \<Rightarrow> if v = JNull then None else Some v)"
proof -
  from assms(2) obtain kvs where new: "new = JObject kvs" and d: "distinct (obj_keys (JObject kvs))"
    by (cases new) auto
  show ?thesis
  proof (cases "find_member kvs k")
    case None
    then have "\<not> ci_eq (fst c) k" if "c \<in> set kvs" for c
      using that by (auto simp: find_member_None_same)
    then show ?thesis
      using None new assms(1)
      by (simp add: update_resource_changes [unfolded update_resource.simps]
          jattr.get_apply_changes_other)
  next
    case (Some v)
    obtain xs k' ys where kvs: "kvs = xs @ (k', v) # ys" and k': "ci_eq k' k"
      and other: "\<forall>d \<in> set xs \<union> set ys. \<not> ci_eq (fst d) k"
      using split_key [OF Some d] by blast
    have cong: "cJSON_GetObjectItem (Some m) k' = cJSON_GetObjectItem (Some m) k" for m
      using k' by (cases m) (auto intro: find_member_cong)
    have "cJSON_GetObjectItem (Some (jattr.apply_changes old (xs @ (k', v) # ys))) k =
        (if v = JNull then None else Some v)"
      using jattr.get_apply_changes [of old "(k', v)" k xs ys] assms(1) k' cong other by simp
    then show ?thesis
      unfolding new using Some update_resource_changes [of old kvs] kvs by simp
  qed
qed

text \<open>
  C37. Merging an update request into a stored resource: \<^verbatim>\<open>update_resource\<close> keeps the
  object well formed (no two members with the same name up to case) and afterwards an
  attribute has the value of the request if the request gives one, is gone if the request
  gives \<^verbatim>\<open>null\<close>, and is unchanged if the request does not name it.
\<close>

theorem update_resource_merge:
  assumes "wf_obj old" "wf_obj new"
  shows "wf_obj (update_resource old new) \<and>
    cJSON_GetObjectItem (Some (update_resource old new)) k =
      (case cJSON_GetObjectItem (Some new) k of
         None \<Rightarrow> cJSON_GetObjectItem (Some old) k
       | Some v \<Rightarrow> if v = JNull then None else Some v)"
  using wf_update_resource [OF assms(1)] get_update_resource [OF assms] by simp

theorem update_resource_merge_witness:
  "cJSON_GetObjectItem (Some (update_resource
      (JObject [(''mni'', JNumber 5), (''lbl'', JArray []), (''rn'', JString ''a'')])
      (JObject [(''lbl'', JNull), (''mni'', JNumber 7)]))) ''mni'' = Some (JNumber 7)"
  using update_resource_merge
    [of "JObject [(''mni'', JNumber 5), (''lbl'', JArray []), (''rn'', JString ''a'')]"
        "JObject [(''lbl'', JNull), (''mni'', JNumber 7)]" "''mni''"]
  by (simp add: ci_eq_def tolower_def)

end
