(* ===== verification/Onem2mTypes.thy ===== *)
theory Onem2mTypes
  imports Prelude
begin

text \<open>
  The constants and code tables of \<^verbatim>\<open>onem2mTypes.h\<close> and \<^verbatim>\<open>config.h\<close> and the pure
  conversions between them in \<^verbatim>\<open>util.c\<close>: operations, release versions, resource
  types and their member names, response codes and the protocol statuses they
  are mapped to.

  Resource types and response codes are compared, ordered and added to as
  integers in the source (\<^verbatim>\<open>ty > 10000\<close>, \<^verbatim>\<open>ty + 10000\<close>, \<^verbatim>\<open>rsc >= 4000\<close>), and
  \<^verbatim>\<open>o2pt->ty\<close> is an \<^verbatim>\<open>int\<close> taken from a request, so they are \<open>int\<close> constants; the other
  enumerations are datatypes.
\<close>

section \<open>Configuration (\<^verbatim>\<open>config.h\<close>)\<close>

abbreviation (input) CSE_BASE_NAME :: string where "CSE_BASE_NAME \<equiv> ''TinyIoT''"
abbreviation (input) CSE_BASE_RI :: string where "CSE_BASE_RI \<equiv> ''tinyiot''"
abbreviation (input) CSE_BASE_SP_ID :: string where "CSE_BASE_SP_ID \<equiv> ''tinyiot.example.com''"
abbreviation (input) ADMIN_AE_ID :: string where "ADMIN_AE_ID \<equiv> ''CAdmin''"
abbreviation (input) DEFAULT_MAX_NR_INSTANCES :: int where "DEFAULT_MAX_NR_INSTANCES \<equiv> 1000"
abbreviation (input) MAX_ATTRIBUTE_SIZE :: nat where "MAX_ATTRIBUTE_SIZE \<equiv> 4096"
abbreviation (input) DEFAULT_MAX_BYTE_SIZE :: int where "DEFAULT_MAX_BYTE_SIZE \<equiv> 65536"

section \<open>Enumerations\<close>

datatype protocol = PROT_HTTP | PROT_MQTT | PROT_COAP | PROT_COAPS | PROT_WS | PROT_WSS

datatype operation =
    OP_NONE | OP_CREATE | OP_RETRIEVE | OP_UPDATE | OP_DELETE | OP_NOTIFY | OP_DISCOVERY
  | OP_VIEWER | OP_OPTIONS | OP_FORWARDING | OP_UPPERTESTER

datatype rvi = RVI_NONE | RVI_1 | RVI_2 | RVI_2a | RVI_3 | RVI_4 | RVI_5

text \<open>The order of release versions is the order of the enumeration's values.\<close>

fun rvi_code :: "rvi \<Rightarrow> int" where
  "rvi_code RVI_NONE = 0"
| "rvi_code RVI_1 = 1"
| "rvi_code RVI_2 = 2"
| "rvi_code RVI_2a = 3"
| "rvi_code RVI_3 = 4"
| "rvi_code RVI_4 = 5"
| "rvi_code RVI_5 = 6"

lemma rvi_code_inj: "rvi_code a = rvi_code b \<longleftrightarrow> a = b"
  by (cases a; cases b) simp_all

instantiation rvi :: linorder
begin

definition less_eq_rvi :: "rvi \<Rightarrow> rvi \<Rightarrow> bool" where
  "a \<le> b \<longleftrightarrow> rvi_code a \<le> rvi_code b"

definition less_rvi :: "rvi \<Rightarrow> rvi \<Rightarrow> bool" where
  "a < b \<longleftrightarrow> rvi_code a < rvi_code b"

instance
  by standard (auto simp: less_eq_rvi_def less_rvi_def rvi_code_inj)

end

lemmas rvi_order = less_eq_rvi_def less_rvi_def

abbreviation (input) CSE_RVI :: rvi where "CSE_RVI \<equiv> RVI_3"

datatype addressing = CSE_RELATIVE | SP_RELATIVE | ABSOLUTE | PROTOCOL_BINDING

abbreviation (input) ACOP_CREATE :: int where "ACOP_CREATE \<equiv> 1"
abbreviation (input) ACOP_RETRIEVE :: int where "ACOP_RETRIEVE \<equiv> 2"
abbreviation (input) ACOP_UPDATE :: int where "ACOP_UPDATE \<equiv> 4"
abbreviation (input) ACOP_DELETE :: int where "ACOP_DELETE \<equiv> 8"
abbreviation (input) ACOP_NOTIFY :: int where "ACOP_NOTIFY \<equiv> 16"
abbreviation (input) ACOP_DISCOVERY :: int where "ACOP_DISCOVERY \<equiv> 32"
abbreviation (input) ALL_ACOP :: int where "ALL_ACOP \<equiv> 63"
abbreviation (input) DEFAULT_ACOP :: int where "DEFAULT_ACOP \<equiv> ACOP_CREATE"

abbreviation (input) FO_AND :: int where "FO_AND \<equiv> 1"
abbreviation (input) FO_OR :: int where "FO_OR \<equiv> 2"
abbreviation (input) FO_XOR :: int where "FO_XOR \<equiv> 3"

abbreviation (input) AST_BI_DIRECTIONAL :: int where "AST_BI_DIRECTIONAL \<equiv> 2"
abbreviation (input) CSY_ABANDON_MEMBER :: int where "CSY_ABANDON_MEMBER \<equiv> 1"
abbreviation (input) CSY_ABANDON_GROUP :: int where "CSY_ABANDON_GROUP \<equiv> 2"
abbreviation (input) CSY_SET_MIXED :: int where "CSY_SET_MIXED \<equiv> 3"

subsection \<open>Resource types\<close>

abbreviation (input) RT_MIXED :: int where "RT_MIXED \<equiv> 0"
abbreviation (input) RT_ACP :: int where "RT_ACP \<equiv> 1"
abbreviation (input) RT_AE :: int where "RT_AE \<equiv> 2"
abbreviation (input) RT_CNT :: int where "RT_CNT \<equiv> 3"
abbreviation (input) RT_CIN :: int where "RT_CIN \<equiv> 4"
abbreviation (input) RT_CSE :: int where "RT_CSE \<equiv> 5"
abbreviation (input) RT_GRP :: int where "RT_GRP \<equiv> 9"
abbreviation (input) RT_MGMTOBJ :: int where "RT_MGMTOBJ \<equiv> 13"
abbreviation (input) RT_NOD :: int where "RT_NOD \<equiv> 14"
abbreviation (input) RT_PCH :: int where "RT_PCH \<equiv> 15"
abbreviation (input) RT_CSR :: int where "RT_CSR \<equiv> 16"
abbreviation (input) RT_REQ :: int where "RT_REQ \<equiv> 17"
abbreviation (input) RT_SUB :: int where "RT_SUB \<equiv> 23"
abbreviation (input) RT_SMD :: int where "RT_SMD \<equiv> 24"
abbreviation (input) RT_FCNT :: int where "RT_FCNT \<equiv> 28"
abbreviation (input) RT_TS :: int where "RT_TS \<equiv> 29"
abbreviation (input) RT_TSI :: int where "RT_TSI \<equiv> 30"
abbreviation (input) RT_CRS :: int where "RT_CRS \<equiv> 48"
abbreviation (input) RT_FCIN :: int where "RT_FCIN \<equiv> 58"
abbreviation (input) RT_FCNT_LA :: int where "RT_FCNT_LA \<equiv> 20058"
abbreviation (input) RT_FCNT_OL :: int where "RT_FCNT_OL \<equiv> 20059"
abbreviation (input) RT_TSB :: int where "RT_TSB \<equiv> 60"
abbreviation (input) RT_ACTR :: int where "RT_ACTR \<equiv> 63"
abbreviation (input) RT_ACPA :: int where "RT_ACPA \<equiv> 10001"
abbreviation (input) RT_AEA :: int where "RT_AEA \<equiv> 10002"
abbreviation (input) RT_CNTA :: int where "RT_CNTA \<equiv> 10003"
abbreviation (input) RT_CINA :: int where "RT_CINA \<equiv> 10004"
abbreviation (input) RT_CBA :: int where "RT_CBA \<equiv> 10005"
abbreviation (input) RT_GRPA :: int where "RT_GRPA \<equiv> 10009"
abbreviation (input) RT_FCNTA :: int where "RT_FCNTA \<equiv> 10028"
abbreviation (input) RT_TSA :: int where "RT_TSA \<equiv> 10029"

text \<open>Every value of the enumeration \<^verbatim>\<open>ResourceType\<close>.\<close>

definition resource_types :: "int list" where
  "resource_types =
   [RT_MIXED, RT_ACP, RT_AE, RT_CNT, RT_CIN, RT_CSE,
    RT_GRP, RT_MGMTOBJ, RT_NOD, RT_PCH, RT_CSR, RT_REQ,
    RT_SUB, RT_SMD, RT_FCNT, RT_TS, RT_TSI, RT_CRS,
    RT_FCIN, RT_FCNT_LA, RT_FCNT_OL, RT_TSB, RT_ACTR, RT_ACPA,
    RT_AEA, RT_CNTA, RT_CINA, RT_CBA, RT_GRPA, RT_FCNTA,
    RT_TSA]"

subsection \<open>Response status codes\<close>

abbreviation (input) RSC_ACCEPTED :: int where "RSC_ACCEPTED \<equiv> 1000"
abbreviation (input) RSC_ACCEPTED_NONBLOCKING_REQUEST_SYNCH :: int where "RSC_ACCEPTED_NONBLOCKING_REQUEST_SYNCH \<equiv> 1001"
abbreviation (input) RSC_ACCEPTED_NONBLOCKING_REQUEST_ASYNCH :: int where "RSC_ACCEPTED_NONBLOCKING_REQUEST_ASYNCH \<equiv> 1002"
abbreviation (input) RSC_OK :: int where "RSC_OK \<equiv> 2000"
abbreviation (input) RSC_CREATED :: int where "RSC_CREATED \<equiv> 2001"
abbreviation (input) RSC_DELETED :: int where "RSC_DELETED \<equiv> 2002"
abbreviation (input) RSC_UPDATED :: int where "RSC_UPDATED \<equiv> 2004"
abbreviation (input) RSC_BAD_REQUEST :: int where "RSC_BAD_REQUEST \<equiv> 4000"
abbreviation (input) RSC_RELEASE_VERSION_NOT_SUPPORTED :: int where "RSC_RELEASE_VERSION_NOT_SUPPORTED \<equiv> 4001"
abbreviation (input) RSC_NOT_FOUND :: int where "RSC_NOT_FOUND \<equiv> 4004"
abbreviation (input) RSC_OPERATION_NOT_ALLOWED :: int where "RSC_OPERATION_NOT_ALLOWED \<equiv> 4005"
abbreviation (input) RSC_REQUEST_TIMEOUT :: int where "RSC_REQUEST_TIMEOUT \<equiv> 4008"
abbreviation (input) RSC_UNSUPPORTED_MEDIATYPE :: int where "RSC_UNSUPPORTED_MEDIATYPE \<equiv> 4015"
abbreviation (input) RSC_SUBSCRIPTION_CREATOR_HAS_NO_PRIVILEGE :: int where "RSC_SUBSCRIPTION_CREATOR_HAS_NO_PRIVILEGE \<equiv> 4101"
abbreviation (input) RSC_CONTENTS_UNACCEPTABLE :: int where "RSC_CONTENTS_UNACCEPTABLE \<equiv> 4102"
abbreviation (input) RSC_ORIGINATOR_HAS_NO_PRIVILEGE :: int where "RSC_ORIGINATOR_HAS_NO_PRIVILEGE \<equiv> 4103"
abbreviation (input) RSC_GROUP_REQUEST_IDENTIFIER_EXISTS :: int where "RSC_GROUP_REQUEST_IDENTIFIER_EXISTS \<equiv> 4104"
abbreviation (input) RSC_CONFLICT :: int where "RSC_CONFLICT \<equiv> 4105"
abbreviation (input) RSC_ORIGINATOR_HAS_NOT_REGISTERED :: int where "RSC_ORIGINATOR_HAS_NOT_REGISTERED \<equiv> 4106"
abbreviation (input) RSC_SECURITY_ASSOCIATION_REQUIRED :: int where "RSC_SECURITY_ASSOCIATION_REQUIRED \<equiv> 4107"
abbreviation (input) RSC_INVALID_CHILD_RESOURCETYPE :: int where "RSC_INVALID_CHILD_RESOURCETYPE \<equiv> 4108"
abbreviation (input) RSC_NO_MEMBERS :: int where "RSC_NO_MEMBERS \<equiv> 4109"
abbreviation (input) RSC_GROUPMEMBER_TYPE_INCONSISTENT :: int where "RSC_GROUPMEMBER_TYPE_INCONSISTENT \<equiv> 4110"
abbreviation (input) RSC_ESPRIM_UNSUPPORTED_OPTION :: int where "RSC_ESPRIM_UNSUPPORTED_OPTION \<equiv> 4111"
abbreviation (input) RSC_ESPRIM_UNKNOWN_KEY_ID :: int where "RSC_ESPRIM_UNKNOWN_KEY_ID \<equiv> 4112"
abbreviation (input) RSC_ESPRIM_UNKNOWN_ORIG_RAND_ID :: int where "RSC_ESPRIM_UNKNOWN_ORIG_RAND_ID \<equiv> 4113"
abbreviation (input) RSC_ESPRIM_UNKNOWN_RECV_RAND_ID :: int where "RSC_ESPRIM_UNKNOWN_RECV_RAND_ID \<equiv> 4114"
abbreviation (input) RSC_ESPRIM_BAD_MAC :: int where "RSC_ESPRIM_BAD_MAC \<equiv> 4115"
abbreviation (input) RSC_ESPRIM_IMPERSONATION_ERROR :: int where "RSC_ESPRIM_IMPERSONATION_ERROR \<equiv> 4116"
abbreviation (input) RSC_ORIGINATOR_HAS_ALREADY_REGISTERD :: int where "RSC_ORIGINATOR_HAS_ALREADY_REGISTERD \<equiv> 4117"
abbreviation (input) RSC_ONTOLOGY_NOT_AVAILABLE :: int where "RSC_ONTOLOGY_NOT_AVAILABLE \<equiv> 4118"
abbreviation (input) RSC_LINKED_SEMANTICS_NOT_AVAILABLE :: int where "RSC_LINKED_SEMANTICS_NOT_AVAILABLE \<equiv> 4119"
abbreviation (input) RSC_INVALID_SEMANTICS :: int where "RSC_INVALID_SEMANTICS \<equiv> 4120"
abbreviation (input) RSC_MASHUP_MEMBER_NOT_FOUND :: int where "RSC_MASHUP_MEMBER_NOT_FOUND \<equiv> 4121"
abbreviation (input) RSC_INVALID_TRIGGER_PURPOSE :: int where "RSC_INVALID_TRIGGER_PURPOSE \<equiv> 4122"
abbreviation (input) RSC_ILLEGAL_TRANSACTION_STATE_TRANSITION_ATTEMPTED :: int where "RSC_ILLEGAL_TRANSACTION_STATE_TRANSITION_ATTEMPTED \<equiv> 4123"
abbreviation (input) RSC_BLOCKING_SUBSCRIPTION_ALREADY_EXISTS :: int where "RSC_BLOCKING_SUBSCRIPTION_ALREADY_EXISTS \<equiv> 4124"
abbreviation (input) RSC_SPECIALIZATION_SCHEMA_NOT_FOUND :: int where "RSC_SPECIALIZATION_SCHEMA_NOT_FOUND \<equiv> 4125"
abbreviation (input) RSC_APP_RULE_VALIDATION_FAILED :: int where "RSC_APP_RULE_VALIDATION_FAILED \<equiv> 4126"
abbreviation (input) RSC_OPERATION_DENIED_BY_REMOTE_ENTITY :: int where "RSC_OPERATION_DENIED_BY_REMOTE_ENTITY \<equiv> 4127"
abbreviation (input) RSC_SERVICE_SUBSCRIPTION_NOT_ESTABLISHED :: int where "RSC_SERVICE_SUBSCRIPTION_NOT_ESTABLISHED \<equiv> 4128"
abbreviation (input) RSC_ONTOLOGY_MAPPING_ALGORITHM_NOT_AVAILABLE :: int where "RSC_ONTOLOGY_MAPPING_ALGORITHM_NOT_AVAILABLE \<equiv> 4130"
abbreviation (input) RSC_ONTOLOGY_MAPPING_POLICY_NOT_MATCHED :: int where "RSC_ONTOLOGY_MAPPING_POLICY_NOT_MATCHED \<equiv> 4131"
abbreviation (input) RSC_ONTOLOGY_MAPPING_NOT_AVAILABLE :: int where "RSC_ONTOLOGY_MAPPING_NOT_AVAILABLE \<equiv> 4132"
abbreviation (input) RSC_BAD_FACT_INPUTS_FOR_REASONING :: int where "RSC_BAD_FACT_INPUTS_FOR_REASONING \<equiv> 4133"
abbreviation (input) RSC_BAD_RULE_INPUTS_FOR_REASONING :: int where "RSC_BAD_RULE_INPUTS_FOR_REASONING \<equiv> 4134"
abbreviation (input) RSC_DISCOVERY_LIMIT_EXCEEDED :: int where "RSC_DISCOVERY_LIMIT_EXCEEDED \<equiv> 4135"
abbreviation (input) RSC_PRIMITIVE_PROFILE_NOT_ACCESSIBLE :: int where "RSC_PRIMITIVE_PROFILE_NOT_ACCESSIBLE \<equiv> 4136"
abbreviation (input) RSC_PRIMITIVE_PROFILE_BAD_REQUEST :: int where "RSC_PRIMITIVE_PROFILE_BAD_REQUEST \<equiv> 4137"
abbreviation (input) RSC_UNAUTHORIZED_USER :: int where "RSC_UNAUTHORIZED_USER \<equiv> 4138"
abbreviation (input) RSC_SERVICE_SUBSCRIPTION_NOT_ACTIVE :: int where "RSC_SERVICE_SUBSCRIPTION_NOT_ACTIVE \<equiv> 4139"
abbreviation (input) RSC_SOFTWARE_CAMPAIGN_CONFLICT :: int where "RSC_SOFTWARE_CAMPAIGN_CONFLICT \<equiv> 4140"
abbreviation (input) RSC_INVALID_SPARQL_QUERY :: int where "RSC_INVALID_SPARQL_QUERY \<equiv> 4143"
abbreviation (input) RSC_INTERNAL_SERVER_ERROR :: int where "RSC_INTERNAL_SERVER_ERROR \<equiv> 5000"
abbreviation (input) RSC_NOT_IMPLEMENTED :: int where "RSC_NOT_IMPLEMENTED \<equiv> 5001"
abbreviation (input) RSC_TARGET_NOT_REACHABLE :: int where "RSC_TARGET_NOT_REACHABLE \<equiv> 5103"
abbreviation (input) RSC_RECEIVER_HAS_NO_PRIVILEGES :: int where "RSC_RECEIVER_HAS_NO_PRIVILEGES \<equiv> 5105"
abbreviation (input) RSC_ALREADY_EXISTS :: int where "RSC_ALREADY_EXISTS \<equiv> 5106"
abbreviation (input) RSC_REMOTE_ENTITY_NOT_REACHABLE :: int where "RSC_REMOTE_ENTITY_NOT_REACHABLE \<equiv> 5107"
abbreviation (input) RSC_TARGET_NOT_SUBSCRIBABLE :: int where "RSC_TARGET_NOT_SUBSCRIBABLE \<equiv> 5203"
abbreviation (input) RSC_SUBSCRIPTION_VERIFICATION_INITIATION_FAILED :: int where "RSC_SUBSCRIPTION_VERIFICATION_INITIATION_FAILED \<equiv> 5204"
abbreviation (input) RSC_SUBSCRIPTION_HOST_HAS_NO_PRIVILEGE :: int where "RSC_SUBSCRIPTION_HOST_HAS_NO_PRIVILEGE \<equiv> 5205"
abbreviation (input) RSC_NON_BLOCKING_SYNCH_REQUEST_NOT_SUPPORTED :: int where "RSC_NON_BLOCKING_SYNCH_REQUEST_NOT_SUPPORTED \<equiv> 5206"
abbreviation (input) RSC_NOT_ACCEPTABLE :: int where "RSC_NOT_ACCEPTABLE \<equiv> 5207"
abbreviation (input) RSC_DISCOVERY_DENIED_BY_IPE :: int where "RSC_DISCOVERY_DENIED_BY_IPE \<equiv> 5208"
abbreviation (input) RSC_GROUP_MEMBERS_NOT_RESPONDED :: int where "RSC_GROUP_MEMBERS_NOT_RESPONDED \<equiv> 5209"
abbreviation (input) RSC_ESPRIM_DECRYPTION_ERROR :: int where "RSC_ESPRIM_DECRYPTION_ERROR \<equiv> 5210"
abbreviation (input) RSC_ESPRIM_ENCRYPTION_ERROR :: int where "RSC_ESPRIM_ENCRYPTION_ERROR \<equiv> 5211"
abbreviation (input) RSC_SPARQL_UPDATE_ERROR :: int where "RSC_SPARQL_UPDATE_ERROR \<equiv> 5212"
abbreviation (input) RSC_TARGET_HAS_NO_SESSION_CAPABILITY :: int where "RSC_TARGET_HAS_NO_SESSION_CAPABILITY \<equiv> 5214"
abbreviation (input) RSC_SESSION_IS_ONLINE :: int where "RSC_SESSION_IS_ONLINE \<equiv> 5215"
abbreviation (input) RSC_JOIN_MULTICAST_GROUP_FAILED :: int where "RSC_JOIN_MULTICAST_GROUP_FAILED \<equiv> 5216"
abbreviation (input) RSC_LEAVE_MULTICAST_GROUP_FAILED :: int where "RSC_LEAVE_MULTICAST_GROUP_FAILED \<equiv> 5217"
abbreviation (input) RSC_TRIGGERING_DISABLED_FOR_RECIPIENT :: int where "RSC_TRIGGERING_DISABLED_FOR_RECIPIENT \<equiv> 5218"
abbreviation (input) RSC_UNABLE_TO_REPLACE_GROUP_MEMBER :: int where "RSC_UNABLE_TO_REPLACE_GROUP_MEMBER \<equiv> 5219"
abbreviation (input) RSC_UNABLE_TO_RECALL_REQUEST :: int where "RSC_UNABLE_TO_RECALL_REQUEST \<equiv> 5220"
abbreviation (input) RSC_CROSS_RESOURCE_OPERATION_FAILURE :: int where "RSC_CROSS_RESOURCE_OPERATION_FAILURE \<equiv> 5221"
abbreviation (input) RSC_TRANSACTION_PROCESSING_IS_INCOMPLETE :: int where "RSC_TRANSACTION_PROCESSING_IS_INCOMPLETE \<equiv> 5222"
abbreviation (input) RSC_ONTOLOGY_MAPPING_ALGORITHM_FAILED :: int where "RSC_ONTOLOGY_MAPPING_ALGORITHM_FAILED \<equiv> 5230"
abbreviation (input) RSC_ONTOLOGY_CONVERSION_FAILED :: int where "RSC_ONTOLOGY_CONVERSION_FAILED \<equiv> 5231"
abbreviation (input) RSC_REASONING_PROCESSING_FAILED :: int where "RSC_REASONING_PROCESSING_FAILED \<equiv> 5232"
abbreviation (input) RSC_EXTERNAL_OBJECT_NOT_REACHABLE :: int where "RSC_EXTERNAL_OBJECT_NOT_REACHABLE \<equiv> 6003"
abbreviation (input) RSC_EXTERNAL_OBJECT_NOT_FOUND :: int where "RSC_EXTERNAL_OBJECT_NOT_FOUND \<equiv> 6005"
abbreviation (input) RSC_MAX_NUMBER_OF_MEMBER_EXCEEDED :: int where "RSC_MAX_NUMBER_OF_MEMBER_EXCEEDED \<equiv> 6010"
abbreviation (input) RSC_MGMT_SESSION_CANNOT_BE_ESTABLISHED :: int where "RSC_MGMT_SESSION_CANNOT_BE_ESTABLISHED \<equiv> 6020"
abbreviation (input) RSC_MGMT_SESSION_ESTABLISHMENT_TIMEOUT :: int where "RSC_MGMT_SESSION_ESTABLISHMENT_TIMEOUT \<equiv> 6021"
abbreviation (input) RSC_INVALID_CMDTYPE :: int where "RSC_INVALID_CMDTYPE \<equiv> 6022"
abbreviation (input) RSC_INVALID_ARGUMENTS :: int where "RSC_INVALID_ARGUMENTS \<equiv> 6023"
abbreviation (input) RSC_INSUFFICIENT_ARGUMENTS :: int where "RSC_INSUFFICIENT_ARGUMENTS \<equiv> 6024"
abbreviation (input) RSC_MGMT_CONVERSION_ERROR :: int where "RSC_MGMT_CONVERSION_ERROR \<equiv> 6025"
abbreviation (input) RSC_MGMT_CANCELLATION_FAILED :: int where "RSC_MGMT_CANCELLATION_FAILED \<equiv> 6026"
abbreviation (input) RSC_ALREADY_COMPLETE :: int where "RSC_ALREADY_COMPLETE \<equiv> 6028"
abbreviation (input) RSC_MGMT_COMMAND_NOT_CANCELLABLE :: int where "RSC_MGMT_COMMAND_NOT_CANCELLABLE \<equiv> 6029"
abbreviation (input) RSC_EXTERNAL_OBJECT_NOT_REACHABLE_BEFORE_RQET_TIMEOUT :: int where "RSC_EXTERNAL_OBJECT_NOT_REACHABLE_BEFORE_RQET_TIMEOUT \<equiv> 6030"
abbreviation (input) RSC_EXTERNAL_OBJECT_NOT_REACHABLE_BEFORE_OET_TIMEOUT :: int where "RSC_EXTERNAL_OBJECT_NOT_REACHABLE_BEFORE_OET_TIMEOUT \<equiv> 6031"
abbreviation (input) RSC_NETWORK_QOS_CONFIG_ERROR :: int where "RSC_NETWORK_QOS_CONFIG_ERROR \<equiv> 6033"
abbreviation (input) RSC_REQUESTED_ACTIVITY_PATTERN_NOT_PERMITTED :: int where "RSC_REQUESTED_ACTIVITY_PATTERN_NOT_PERMITTED \<equiv> 6034"

text \<open>Every value of the enumeration \<^verbatim>\<open>ResponseStatusCode\<close>.\<close>

definition response_codes :: "int list" where
  "response_codes =
   [RSC_ACCEPTED, RSC_ACCEPTED_NONBLOCKING_REQUEST_SYNCH,
    RSC_ACCEPTED_NONBLOCKING_REQUEST_ASYNCH, RSC_OK,
    RSC_CREATED, RSC_DELETED,
    RSC_UPDATED, RSC_BAD_REQUEST,
    RSC_RELEASE_VERSION_NOT_SUPPORTED, RSC_NOT_FOUND,
    RSC_OPERATION_NOT_ALLOWED, RSC_REQUEST_TIMEOUT,
    RSC_UNSUPPORTED_MEDIATYPE, RSC_SUBSCRIPTION_CREATOR_HAS_NO_PRIVILEGE,
    RSC_CONTENTS_UNACCEPTABLE, RSC_ORIGINATOR_HAS_NO_PRIVILEGE,
    RSC_GROUP_REQUEST_IDENTIFIER_EXISTS, RSC_CONFLICT,
    RSC_ORIGINATOR_HAS_NOT_REGISTERED, RSC_SECURITY_ASSOCIATION_REQUIRED,
    RSC_INVALID_CHILD_RESOURCETYPE, RSC_NO_MEMBERS,
    RSC_GROUPMEMBER_TYPE_INCONSISTENT, RSC_ESPRIM_UNSUPPORTED_OPTION,
    RSC_ESPRIM_UNKNOWN_KEY_ID, RSC_ESPRIM_UNKNOWN_ORIG_RAND_ID,
    RSC_ESPRIM_UNKNOWN_RECV_RAND_ID, RSC_ESPRIM_BAD_MAC,
    RSC_ESPRIM_IMPERSONATION_ERROR, RSC_ORIGINATOR_HAS_ALREADY_REGISTERD,
    RSC_ONTOLOGY_NOT_AVAILABLE, RSC_LINKED_SEMANTICS_NOT_AVAILABLE,
    RSC_INVALID_SEMANTICS, RSC_MASHUP_MEMBER_NOT_FOUND,
    RSC_INVALID_TRIGGER_PURPOSE, RSC_ILLEGAL_TRANSACTION_STATE_TRANSITION_ATTEMPTED,
    RSC_BLOCKING_SUBSCRIPTION_ALREADY_EXISTS, RSC_SPECIALIZATION_SCHEMA_NOT_FOUND,
    RSC_APP_RULE_VALIDATION_FAILED, RSC_OPERATION_DENIED_BY_REMOTE_ENTITY,
    RSC_SERVICE_SUBSCRIPTION_NOT_ESTABLISHED, RSC_ONTOLOGY_MAPPING_ALGORITHM_NOT_AVAILABLE,
    RSC_ONTOLOGY_MAPPING_POLICY_NOT_MATCHED, RSC_ONTOLOGY_MAPPING_NOT_AVAILABLE,
    RSC_BAD_FACT_INPUTS_FOR_REASONING, RSC_BAD_RULE_INPUTS_FOR_REASONING,
    RSC_DISCOVERY_LIMIT_EXCEEDED, RSC_PRIMITIVE_PROFILE_NOT_ACCESSIBLE,
    RSC_PRIMITIVE_PROFILE_BAD_REQUEST, RSC_UNAUTHORIZED_USER,
    RSC_SERVICE_SUBSCRIPTION_NOT_ACTIVE, RSC_SOFTWARE_CAMPAIGN_CONFLICT,
    RSC_INVALID_SPARQL_QUERY, RSC_INTERNAL_SERVER_ERROR,
    RSC_NOT_IMPLEMENTED, RSC_TARGET_NOT_REACHABLE,
    RSC_RECEIVER_HAS_NO_PRIVILEGES, RSC_ALREADY_EXISTS,
    RSC_REMOTE_ENTITY_NOT_REACHABLE, RSC_TARGET_NOT_SUBSCRIBABLE,
    RSC_SUBSCRIPTION_VERIFICATION_INITIATION_FAILED, RSC_SUBSCRIPTION_HOST_HAS_NO_PRIVILEGE,
    RSC_NON_BLOCKING_SYNCH_REQUEST_NOT_SUPPORTED, RSC_NOT_ACCEPTABLE,
    RSC_DISCOVERY_DENIED_BY_IPE, RSC_GROUP_MEMBERS_NOT_RESPONDED,
    RSC_ESPRIM_DECRYPTION_ERROR, RSC_ESPRIM_ENCRYPTION_ERROR,
    RSC_SPARQL_UPDATE_ERROR, RSC_TARGET_HAS_NO_SESSION_CAPABILITY,
    RSC_SESSION_IS_ONLINE, RSC_JOIN_MULTICAST_GROUP_FAILED,
    RSC_LEAVE_MULTICAST_GROUP_FAILED, RSC_TRIGGERING_DISABLED_FOR_RECIPIENT,
    RSC_UNABLE_TO_REPLACE_GROUP_MEMBER, RSC_UNABLE_TO_RECALL_REQUEST,
    RSC_CROSS_RESOURCE_OPERATION_FAILURE, RSC_TRANSACTION_PROCESSING_IS_INCOMPLETE,
    RSC_ONTOLOGY_MAPPING_ALGORITHM_FAILED, RSC_ONTOLOGY_CONVERSION_FAILED,
    RSC_REASONING_PROCESSING_FAILED, RSC_EXTERNAL_OBJECT_NOT_REACHABLE,
    RSC_EXTERNAL_OBJECT_NOT_FOUND, RSC_MAX_NUMBER_OF_MEMBER_EXCEEDED,
    RSC_MGMT_SESSION_CANNOT_BE_ESTABLISHED, RSC_MGMT_SESSION_ESTABLISHMENT_TIMEOUT,
    RSC_INVALID_CMDTYPE, RSC_INVALID_ARGUMENTS,
    RSC_INSUFFICIENT_ARGUMENTS, RSC_MGMT_CONVERSION_ERROR,
    RSC_MGMT_CANCELLATION_FAILED, RSC_ALREADY_COMPLETE,
    RSC_MGMT_COMMAND_NOT_CANCELLABLE, RSC_EXTERNAL_OBJECT_NOT_REACHABLE_BEFORE_RQET_TIMEOUT,
    RSC_EXTERNAL_OBJECT_NOT_REACHABLE_BEFORE_OET_TIMEOUT, RSC_NETWORK_QOS_CONFIG_ERROR,
    RSC_REQUESTED_ACTIVITY_PATTERN_NOT_PERMITTED]"

section \<open>Operations and release versions\<close>

fun op_to_acop :: "operation \<Rightarrow> int" where
  "op_to_acop OP_CREATE = ACOP_CREATE"
| "op_to_acop OP_RETRIEVE = ACOP_RETRIEVE"
| "op_to_acop OP_UPDATE = ACOP_UPDATE"
| "op_to_acop OP_DELETE = ACOP_DELETE"
| "op_to_acop OP_DISCOVERY = ACOP_DISCOVERY"
| "op_to_acop OP_NOTIFY = ACOP_NOTIFY"
| "op_to_acop _ = 0"

definition to_rvi :: "string option \<Rightarrow> rvi" where
  "to_rvi str =
     (case str of
        None \<Rightarrow> RVI_NONE
      | Some s \<Rightarrow>
          if s = ''2a'' then RVI_2a
          else if s = ''3'' then RVI_3
          else if s = ''1'' then RVI_1
          else if s = ''2'' then RVI_2
          else if s = ''4'' then RVI_4
          else if s = ''5'' then RVI_5
          else RVI_NONE)"

fun from_rvi :: "rvi \<Rightarrow> string option" where
  "from_rvi RVI_1 = Some ''1''"
| "from_rvi RVI_2 = Some ''2''"
| "from_rvi RVI_2a = Some ''2a''"
| "from_rvi RVI_3 = Some ''3''"
| "from_rvi RVI_4 = Some ''4''"
| "from_rvi RVI_5 = Some ''5''"
| "from_rvi RVI_NONE = None"

text \<open>Printing a release version and parsing it again gives the same version.\<close>

lemma to_from_rvi: "to_rvi (from_rvi v) = v"
  by (cases v) (simp_all add: to_rvi_def)

lemma from_to_rvi: "to_rvi str \<noteq> RVI_NONE \<Longrightarrow> from_rvi (to_rvi str) = str"
  by (auto simp: to_rvi_def split: option.splits if_splits)

section \<open>Protocol statuses of a response code\<close>

text \<open>
  \<^verbatim>\<open>rsc_to_http_status\<close> returns the HTTP status and, through \<^verbatim>\<open>*msg\<close>, its reason
  phrase; the default branch leaves \<^verbatim>\<open>*msg\<close> untouched (\<open>None\<close>).
\<close>

definition http_status_table :: "(int \<times> (string option \<times> int)) list" where
  "http_status_table =
     (cases_to (Some ''OK'', 200)
       [RSC_OK, RSC_DELETED, RSC_UPDATED] @
      cases_to (Some ''Created'', 201)
       [RSC_CREATED] @
      cases_to (Some ''Accepted'', 202)
       [RSC_ACCEPTED, RSC_ACCEPTED_NONBLOCKING_REQUEST_SYNCH, RSC_ACCEPTED_NONBLOCKING_REQUEST_ASYNCH] @
      cases_to (Some ''Bad Request'', 400)
       [RSC_BAD_REQUEST, RSC_CONTENTS_UNACCEPTABLE, RSC_GROUPMEMBER_TYPE_INCONSISTENT,
        RSC_INVALID_SEMANTICS, RSC_INVALID_TRIGGER_PURPOSE, RSC_ILLEGAL_TRANSACTION_STATE_TRANSITION_ATTEMPTED,
        RSC_ONTOLOGY_NOT_AVAILABLE, RSC_INVALID_SPARQL_QUERY, RSC_MAX_NUMBER_OF_MEMBER_EXCEEDED,
        RSC_INVALID_ARGUMENTS, RSC_INSUFFICIENT_ARGUMENTS] @
      cases_to (Some ''Forbidden'', 403)
       [RSC_SUBSCRIPTION_CREATOR_HAS_NO_PRIVILEGE, RSC_ORIGINATOR_HAS_NO_PRIVILEGE, RSC_RECEIVER_HAS_NO_PRIVILEGES,
        RSC_TARGET_NOT_SUBSCRIBABLE, RSC_SUBSCRIPTION_HOST_HAS_NO_PRIVILEGE, RSC_ORIGINATOR_HAS_NOT_REGISTERED,
        RSC_SECURITY_ASSOCIATION_REQUIRED, RSC_INVALID_CHILD_RESOURCETYPE, RSC_NO_MEMBERS,
        RSC_ESPRIM_UNSUPPORTED_OPTION, RSC_ESPRIM_UNKNOWN_KEY_ID, RSC_ESPRIM_UNKNOWN_ORIG_RAND_ID,
        RSC_ESPRIM_UNKNOWN_RECV_RAND_ID, RSC_ESPRIM_BAD_MAC, RSC_ESPRIM_IMPERSONATION_ERROR,
        RSC_ORIGINATOR_HAS_ALREADY_REGISTERD, RSC_APP_RULE_VALIDATION_FAILED, RSC_OPERATION_DENIED_BY_REMOTE_ENTITY,
        RSC_SERVICE_SUBSCRIPTION_NOT_ESTABLISHED, RSC_DISCOVERY_DENIED_BY_IPE] @
      cases_to (Some ''Not Found'', 404)
       [RSC_NOT_FOUND, RSC_LINKED_SEMANTICS_NOT_AVAILABLE, RSC_MASHUP_MEMBER_NOT_FOUND,
        RSC_TARGET_NOT_REACHABLE] @
      cases_to (Some ''Method Not Allowed'', 405)
       [RSC_OPERATION_NOT_ALLOWED] @
      cases_to (Some ''Not Acceptable'', 406)
       [RSC_NOT_ACCEPTABLE] @
      cases_to (Some ''Conflict'', 409)
       [RSC_GROUP_REQUEST_IDENTIFIER_EXISTS, RSC_CONFLICT, RSC_BLOCKING_SUBSCRIPTION_ALREADY_EXISTS,
        RSC_ALREADY_EXISTS] @
      cases_to (Some ''Unsupported Media Type'', 415)
       [RSC_UNSUPPORTED_MEDIATYPE] @
      cases_to (Some ''Internal Server Error'', 500)
       [RSC_INTERNAL_SERVER_ERROR, RSC_SUBSCRIPTION_VERIFICATION_INITIATION_FAILED, RSC_GROUP_MEMBERS_NOT_RESPONDED,
        RSC_CROSS_RESOURCE_OPERATION_FAILURE] @
      cases_to (Some ''Not Implemented'', 501)
       [RSC_RELEASE_VERSION_NOT_SUPPORTED, RSC_NOT_IMPLEMENTED, RSC_SPECIALIZATION_SCHEMA_NOT_FOUND,
        RSC_NON_BLOCKING_SYNCH_REQUEST_NOT_SUPPORTED] @
      cases_to (Some ''Gateway Timeout'', 504)
       [RSC_REQUEST_TIMEOUT])"

definition rsc_to_http_status :: "int \<Rightarrow> string option \<times> int" where
  "rsc_to_http_status rsc = switch http_status_table (None, 200) rsc"

definition coap_status_table :: "(int \<times> int) list" where
  "coap_status_table =
     (cases_to 201
       [RSC_ACCEPTED_NONBLOCKING_REQUEST_SYNCH, RSC_ACCEPTED_NONBLOCKING_REQUEST_ASYNCH, RSC_CREATED] @
      cases_to 202
       [RSC_DELETED] @
      cases_to 204
       [RSC_UPDATED] @
      cases_to 205
       [RSC_OK] @
      cases_to 400
       [RSC_BAD_REQUEST, RSC_CONTENTS_UNACCEPTABLE, RSC_GROUP_REQUEST_IDENTIFIER_EXISTS,
        RSC_GROUPMEMBER_TYPE_INCONSISTENT, RSC_ILLEGAL_TRANSACTION_STATE_TRANSITION_ATTEMPTED, RSC_BLOCKING_SUBSCRIPTION_ALREADY_EXISTS,
        RSC_ONTOLOGY_MAPPING_POLICY_NOT_MATCHED, RSC_BAD_FACT_INPUTS_FOR_REASONING, RSC_BAD_RULE_INPUTS_FOR_REASONING,
        RSC_PRIMITIVE_PROFILE_BAD_REQUEST, RSC_INVALID_SPARQL_QUERY, RSC_ALREADY_EXISTS,
        RSC_MAX_NUMBER_OF_MEMBER_EXCEEDED, RSC_INVALID_CMDTYPE, RSC_INVALID_ARGUMENTS,
        RSC_INSUFFICIENT_ARGUMENTS, RSC_ALREADY_COMPLETE, RSC_MGMT_COMMAND_NOT_CANCELLABLE] @
      cases_to 402
       [RSC_INVALID_SEMANTICS, RSC_INVALID_TRIGGER_PURPOSE] @
      cases_to 403
       [RSC_SUBSCRIPTION_CREATOR_HAS_NO_PRIVILEGE, RSC_ORIGINATOR_HAS_NO_PRIVILEGE, RSC_CONFLICT,
        RSC_ORIGINATOR_HAS_NOT_REGISTERED, RSC_SECURITY_ASSOCIATION_REQUIRED, RSC_INVALID_CHILD_RESOURCETYPE,
        RSC_NO_MEMBERS, RSC_ESPRIM_UNSUPPORTED_OPTION, RSC_ESPRIM_UNKNOWN_KEY_ID,
        RSC_ESPRIM_UNKNOWN_ORIG_RAND_ID, RSC_ESPRIM_UNKNOWN_RECV_RAND_ID, RSC_ESPRIM_BAD_MAC,
        RSC_ESPRIM_IMPERSONATION_ERROR, RSC_ORIGINATOR_HAS_ALREADY_REGISTERD, RSC_APP_RULE_VALIDATION_FAILED,
        RSC_OPERATION_DENIED_BY_REMOTE_ENTITY, RSC_SERVICE_SUBSCRIPTION_NOT_ESTABLISHED, RSC_DISCOVERY_LIMIT_EXCEEDED,
        RSC_PRIMITIVE_PROFILE_NOT_ACCESSIBLE, RSC_UNAUTHORIZED_USER, RSC_SERVICE_SUBSCRIPTION_NOT_ACTIVE,
        RSC_SOFTWARE_CAMPAIGN_CONFLICT, RSC_RECEIVER_HAS_NO_PRIVILEGES, RSC_TARGET_NOT_SUBSCRIBABLE,
        RSC_SUBSCRIPTION_HOST_HAS_NO_PRIVILEGE, RSC_DISCOVERY_DENIED_BY_IPE, RSC_TARGET_HAS_NO_SESSION_CAPABILITY,
        RSC_SESSION_IS_ONLINE, RSC_TRANSACTION_PROCESSING_IS_INCOMPLETE, RSC_REQUESTED_ACTIVITY_PATTERN_NOT_PERMITTED] @
      cases_to 404
       [RSC_NOT_FOUND, RSC_ONTOLOGY_NOT_AVAILABLE, RSC_LINKED_SEMANTICS_NOT_AVAILABLE,
        RSC_MASHUP_MEMBER_NOT_FOUND, RSC_ONTOLOGY_MAPPING_ALGORITHM_NOT_AVAILABLE, RSC_ONTOLOGY_MAPPING_NOT_AVAILABLE,
        RSC_TARGET_NOT_REACHABLE, RSC_REMOTE_ENTITY_NOT_REACHABLE, RSC_EXTERNAL_OBJECT_NOT_REACHABLE,
        RSC_EXTERNAL_OBJECT_NOT_FOUND] @
      cases_to 405
       [RSC_OPERATION_NOT_ALLOWED] @
      cases_to 406
       [RSC_NOT_ACCEPTABLE] @
      cases_to 415
       [RSC_UNSUPPORTED_MEDIATYPE] @
      cases_to 500
       [RSC_INTERNAL_SERVER_ERROR, RSC_SUBSCRIPTION_VERIFICATION_INITIATION_FAILED, RSC_GROUP_MEMBERS_NOT_RESPONDED,
        RSC_ESPRIM_DECRYPTION_ERROR, RSC_ESPRIM_ENCRYPTION_ERROR, RSC_SPARQL_UPDATE_ERROR,
        RSC_JOIN_MULTICAST_GROUP_FAILED, RSC_LEAVE_MULTICAST_GROUP_FAILED, RSC_CROSS_RESOURCE_OPERATION_FAILURE,
        RSC_ONTOLOGY_MAPPING_ALGORITHM_FAILED, RSC_ONTOLOGY_CONVERSION_FAILED, RSC_REASONING_PROCESSING_FAILED,
        RSC_MGMT_SESSION_CANNOT_BE_ESTABLISHED, RSC_MGMT_SESSION_ESTABLISHMENT_TIMEOUT, RSC_MGMT_CONVERSION_ERROR,
        RSC_MGMT_CANCELLATION_FAILED] @
      cases_to 501
       [RSC_RELEASE_VERSION_NOT_SUPPORTED, RSC_SPECIALIZATION_SCHEMA_NOT_FOUND, RSC_NOT_IMPLEMENTED,
        RSC_NON_BLOCKING_SYNCH_REQUEST_NOT_SUPPORTED] @
      cases_to 503
       [RSC_TRIGGERING_DISABLED_FOR_RECIPIENT, RSC_UNABLE_TO_REPLACE_GROUP_MEMBER, RSC_UNABLE_TO_RECALL_REQUEST,
        RSC_NETWORK_QOS_CONFIG_ERROR] @
      cases_to 504
       [RSC_REQUEST_TIMEOUT, RSC_EXTERNAL_OBJECT_NOT_REACHABLE_BEFORE_RQET_TIMEOUT, RSC_EXTERNAL_OBJECT_NOT_REACHABLE_BEFORE_OET_TIMEOUT])"

definition rsc_to_coap_status :: "int \<Rightarrow> int" where
  "rsc_to_coap_status rsc = switch coap_status_table 0 rsc"

text \<open>
  On the codes they handle, both conversions keep the class of the response: a
  success code (below 4000) becomes a 2xx status and an error code a 4xx or 5xx
  status.
\<close>

lemma http_table_class:
  "list_all (\<lambda>(rsc, msg, st). (rsc < 4000 \<longrightarrow> 200 \<le> st \<and> st < 300) \<and> (4000 \<le> rsc \<longrightarrow> 400 \<le> st \<and> st < 600))
     http_status_table"
  by (simp add: http_status_table_def)

lemma coap_table_class:
  "list_all (\<lambda>(rsc, st). (rsc < 4000 \<longrightarrow> 200 \<le> st \<and> st < 300) \<and> (4000 \<le> rsc \<longrightarrow> 400 \<le> st \<and> st < 600))
     coap_status_table"
  by (simp add: coap_status_table_def)

lemma switch_mem: "k \<in> fst ` set tab \<Longrightarrow> (k, switch tab d k) \<in> set tab"
  using map_of_eq_None_iff [of tab k]
  by (auto simp: switch_def dest: map_of_SomeD split: option.splits)

text \<open>
  Every response code listed in \<^verbatim>\<open>rsc_to_http_status\<close> is mapped to an HTTP status of
  the same class, with a reason phrase: success codes to 2xx, error codes to 4xx or 5xx.
\<close>

theorem http_status_class:
  assumes "rsc \<in> fst ` set http_status_table"
  shows "fst (rsc_to_http_status rsc) \<noteq> None \<and>
    (rsc < 4000 \<longleftrightarrow> snd (rsc_to_http_status rsc) < 300) \<and>
    (4000 \<le> rsc \<longleftrightarrow> 400 \<le> snd (rsc_to_http_status rsc))"
proof -
  have "list_all (\<lambda>p. fst (snd p) \<noteq> None) http_status_table"
    by (simp add: http_status_table_def)
  with assms http_table_class switch_mem [OF assms, of "(None, 200)"]
  show ?thesis
    by (fastforce simp: rsc_to_http_status_def list_all_iff)
qed

theorem http_status_class_witness:
  "snd (rsc_to_http_status RSC_ORIGINATOR_HAS_NO_PRIVILEGE) = 403 \<and>
   400 \<le> snd (rsc_to_http_status RSC_ORIGINATOR_HAS_NO_PRIVILEGE)"
proof -
  have mem: "RSC_ORIGINATOR_HAS_NO_PRIVILEGE \<in> fst ` set http_status_table"
    by (simp add: http_status_table_def)
  have "snd (rsc_to_http_status RSC_ORIGINATOR_HAS_NO_PRIVILEGE) = 403"
    by (simp add: rsc_to_http_status_def http_status_table_def)
  with http_status_class [OF mem] show ?thesis by simp
qed

end
