(* ===== verification/Decimal.thy ===== *)
theory Decimal
  imports Prelude
begin

text \<open>
  Decimal printing as \<^verbatim>\<open>printf\<close> does it (\<open>%d\<close> and \<open>%0wd\<close> on non-negative numbers),
  the timestamps of \<^verbatim>\<open>get_local_time\<close>, and the facts that make the server's use of
  \<^verbatim>\<open>strcmp\<close> on timestamps correct.
\<close>

section \<open>Digits\<close>

definition digit :: "nat \<Rightarrow> char" where
  "digit d = char_of (48 + d)"

lemma of_char_digit [simp]: "d < 10 \<Longrightarrow> (of_char (digit d) :: nat) = 48 + d"
  by (simp add: digit_def)

lemma digit_inj [simp]: "d < 10 \<Longrightarrow> e < 10 \<Longrightarrow> digit d = digit e \<longleftrightarrow> d = e"
  by (metis add_left_cancel of_char_digit)

lemma is_digit_digit [simp]: "d < 10 \<Longrightarrow> is_digit (digit d)"
  by (simp add: is_digit_def)

fun dec :: "nat \<Rightarrow> string" where
  "dec n = (if n < 10 then [digit n] else dec (n div 10) @ [digit (n mod 10)])"

declare dec.simps [simp del]

lemma dec_small: "n < 10 \<Longrightarrow> dec n = [digit n]"
  by (subst dec.simps) simp

lemma dec_large: "10 \<le> n \<Longrightarrow> dec n = dec (n div 10) @ [digit (n mod 10)]"
  by (subst dec.simps) simp

lemma dec_nonempty [simp]: "dec n \<noteq> []"
  by (subst dec.simps) simp

lemma dec_digits: "c \<in> set (dec n) \<Longrightarrow> is_digit c"
proof (induction n rule: dec.induct)
  case (1 n)
  then show ?case by (cases "n < 10") (auto simp: dec_small dec_large)
qed

lemma digits_val_append:
  "(\<And>c. c \<in> set s \<Longrightarrow> is_digit c) \<Longrightarrow> digits_val a (s @ t) = digits_val (digits_val a s) t"
  by (induction s arbitrary: a) auto

lemma digits_val_dec: "digits_val 0 (dec n) = int n"
proof (induction n rule: dec.induct)
  case (1 n)
  show ?case
  proof (cases "n < 10")
    case True
    then show ?thesis by (simp add: dec_small)
  next
    case False
    then have "digits_val 0 (dec n) = digits_val (digits_val 0 (dec (n div 10))) [digit (n mod 10)]"
      by (simp add: dec_large digits_val_append dec_digits)
    also have "\<dots> = 10 * int (n div 10) + int (n mod 10)"
      using 1 [OF False] by simp
    also have "\<dots> = int n"
      by (metis mult_div_mod_eq of_nat_add of_nat_mult of_nat_numeral)
    finally show ?thesis .
  qed
qed

text \<open>Printing a number with \<open>%d\<close> and reading it with \<^verbatim>\<open>atoi\<close> is the identity.\<close>

lemma strtol_dec: "n \<le> 2147483647 \<Longrightarrow> strtol (dec n) = (int n, False, [])"
proof -
  assume n: "n \<le> 2147483647"
  obtain c s where cs: "dec n = c # s" by (cases "dec n") auto
  with dec_digits [of c n] have c: "is_digit c" by simp
  then have nc: "\<not> isspace c" "c \<noteq> CHR ''-''" "c \<noteq> CHR ''+''"
    by (auto simp: is_digit_def isspace_def)
  have "takeWhile is_digit (dec n) = dec n" "dropWhile is_digit (dec n) = []"
    using dec_digits by (auto simp: takeWhile_eq_all_conv)
  with nc cs n show ?thesis
    using digits_val_dec [of n] by (simp add: strtol_def LONG_MAX_def LONG_MIN_def)
qed

lemma atoi_dec: "n \<le> 2147483647 \<Longrightarrow> atoi (dec n) = int n"
proof -
  assume n: "n \<le> 2147483647"
  then have "sint (word_of_int (int n) :: 32 word) = int n"
    by (simp only: sint_sbintrunc') (simp add: signed_take_bit_int_eq_self)
  with n show ?thesis by (simp add: atoi_def strtol_dec to_int32_def)
qed

section \<open>Fixed width\<close>

definition pad0 :: "nat \<Rightarrow> string \<Rightarrow> string" where
  "pad0 w s = replicate (w - length s) (CHR ''0'') @ s"

text \<open>The same digits from the left, for exactly \<open>w\<close> columns.\<close>

fun fixdec :: "nat \<Rightarrow> nat \<Rightarrow> string" where
  "fixdec 0 n = []"
| "fixdec (Suc w) n = fixdec w (n div 10) @ [digit (n mod 10)]"

lemma length_fixdec [simp]: "length (fixdec w n) = w"
  by (induction w arbitrary: n) auto

lemma fixdec_digits: "c \<in> set (fixdec w n) \<Longrightarrow> is_digit c"
  by (induction w arbitrary: n) auto

lemma digits_val_fixdec: "n < 10 ^ w \<Longrightarrow> digits_val 0 (fixdec w n) = int n"
proof (induction w arbitrary: n)
  case (Suc w)
  then have "n div 10 < 10 ^ w" by (simp add: less_mult_imp_div_less mult.commute)
  then have "digits_val 0 (fixdec (Suc w) n) = 10 * int (n div 10) + int (n mod 10)"
    using Suc.IH [of "n div 10"] by (simp add: digits_val_append fixdec_digits)
  also have "\<dots> = int n" by (metis mult_div_mod_eq of_nat_add of_nat_mult of_nat_numeral)
  finally show ?case .
qed simp

lemma fixdec_zero: "fixdec w 0 = replicate w (CHR ''0'')"
proof (induction w)
  case (Suc w)
  have "(of_char (digit 0) :: nat) = of_char (CHR ''0'')" by simp
  then have "digit 0 = CHR ''0''" by (simp only: of_char_eq_iff)
  with Suc show ?case by (simp add: replicate_append_same)
qed simp

lemma length_dec_le: "n < 10 ^ w \<Longrightarrow> 0 < w \<Longrightarrow> length (dec n) \<le> w"
proof (induction w arbitrary: n)
  case (Suc w)
  show ?case
  proof (cases "n < 10")
    case False
    with Suc.prems have "n div 10 < 10 ^ w" "0 < w"
      by (auto simp: less_mult_imp_div_less mult.commute intro: Nat.gr0I)
    with Suc.IH False show ?thesis by (simp add: dec_large)
  qed (simp add: dec_small)
qed simp

lemma pad0_fixdec: "n < 10 ^ w \<Longrightarrow> 0 < w \<Longrightarrow> pad0 w (dec n) = fixdec w n"
proof (induction w arbitrary: n)
  case (Suc w)
  show ?case
  proof (cases "n < 10")
    case True
    then show ?thesis by (simp add: dec_small pad0_def fixdec_zero)
  next
    case False
    with Suc.prems have small: "n div 10 < 10 ^ w" and w: "0 < w"
      by (auto simp: less_mult_imp_div_less mult.commute intro: Nat.gr0I)
    have "pad0 (Suc w) (dec n) = pad0 w (dec (n div 10)) @ [digit (n mod 10)]"
      using False by (simp add: dec_large pad0_def)
    with Suc.IH [OF small w] show ?thesis by simp
  qed
qed simp

lemma fixdec_inj: "m < 10 ^ w \<Longrightarrow> n < 10 ^ w \<Longrightarrow> fixdec w m = fixdec w n \<longleftrightarrow> m = n"
proof (induction w arbitrary: m n)
  case (Suc w)
  then have "m div 10 < 10 ^ w" "n div 10 < 10 ^ w"
    by (auto simp: less_mult_imp_div_less mult.commute)
  with Suc.IH show ?case
    by (auto simp: ) (metis div_mult_mod_eq)
qed simp

definition cmp :: "nat \<Rightarrow> nat \<Rightarrow> int" where
  "cmp m n = (if m = n then 0 else if m < n then - 1 else 1)"

lemma cmp_div:
  "cmp m n = (if m div 10 = n div 10 then cmp (m mod 10) (n mod 10) else cmp (m div 10) (n div 10))"
proof -
  obtain a i where m: "m = 10 * a + i" "i < 10"
    using mult_div_mod_eq [of 10 m] by (metis mod_less_divisor zero_less_numeral)
  obtain b j where n: "n = 10 * b + j" "j < 10"
    using mult_div_mod_eq [of 10 n] by (metis mod_less_divisor zero_less_numeral)
  have "m div 10 = a" "m mod 10 = i" "n div 10 = b" "n mod 10 = j" using m n by auto
  with m n show ?thesis by (auto simp: cmp_def)
qed

lemma strcmp_append:
  "length a = length b \<Longrightarrow> strcmp (a @ x) (b @ y) = (if a = b then strcmp x y else strcmp a b)"
  by (induction a b rule: list_induct2) auto

lemma strcmp_fixdec:
  "m < 10 ^ w \<Longrightarrow> n < 10 ^ w \<Longrightarrow> strcmp (fixdec w m) (fixdec w n) = cmp m n"
proof (induction w arbitrary: m n)
  case (Suc w)
  have small: "m div 10 < 10 ^ w" "n div 10 < 10 ^ w"
    using Suc.prems by (auto simp: less_mult_imp_div_less mult.commute)
  have step: "strcmp (fixdec (Suc w) m) (fixdec (Suc w) n) =
      (if m div 10 = n div 10 then strcmp [digit (m mod 10)] [digit (n mod 10)]
       else cmp (m div 10) (n div 10))"
    using Suc.IH [OF small] small by (simp add: strcmp_append fixdec_inj)
  have "cmp m n = (if m div 10 = n div 10 then cmp (m mod 10) (n mod 10)
      else cmp (m div 10) (n div 10))"
    by (rule cmp_div)
  with step show ?case by (simp add: cmp_def)
qed (simp add: cmp_def)

lemma fixdec_append:
  "n < 10 ^ b \<Longrightarrow> fixdec a m @ fixdec b n = fixdec (a + b) (m * 10 ^ b + n)"
proof (induction b arbitrary: n)
  case (Suc b)
  then have small: "n div 10 < 10 ^ b" by (simp add: less_mult_imp_div_less mult.commute)
  have "(m * 10 ^ Suc b + n) div 10 = m * 10 ^ b + n div 10"
    by (simp add: algebra_simps)
  moreover have "(m * 10 ^ Suc b + n) mod 10 = n mod 10"
    by (simp add: mod_add_eq [symmetric] del: mod_add_eq)
  ultimately show ?case using Suc.IH [OF small] by simp
qed simp

section \<open>Timestamps\<close>

text \<open>
  The broken-down UTC time that \<^verbatim>\<open>gmtime_r\<close> returns, and the milliseconds of the
  same clock reading. \<open>format_time\<close> is the formatting done by \<^verbatim>\<open>get_local_time\<close>.
\<close>

record tm =
  tm_year :: nat
  tm_mon :: nat
  tm_mday :: nat
  tm_hour :: nat
  tm_min :: nat
  tm_sec :: nat
  tm_ms :: nat

definition format_time :: "tm \<Rightarrow> string" where
  "format_time t =
     dec (tm_year t + 1900) @ pad0 2 (dec (tm_mon t + 1)) @ pad0 2 (dec (tm_mday t)) @ ''T'' @
     pad0 2 (dec (tm_hour t)) @ pad0 2 (dec (tm_min t)) @ pad0 2 (dec (tm_sec t)) @ '','' @
     pad0 3 (dec (tm_ms t))"

text \<open>The ranges that \<^verbatim>\<open>struct tm\<close> guarantees, for years of four digits.\<close>

definition valid_tm :: "tm \<Rightarrow> bool" where
  "valid_tm t \<longleftrightarrow> tm_year t < 8100 \<and> tm_mon t < 12 \<and> tm_mday t \<le> 31 \<and>
     tm_hour t < 24 \<and> tm_min t < 60 \<and> tm_sec t \<le> 60 \<and> tm_ms t < 1000"

text \<open>The time as one number whose decimal digits are the fields.\<close>

definition stamp :: "tm \<Rightarrow> nat" where
  "stamp t =
     ((((((tm_year t + 1900) * 100 + (tm_mon t + 1)) * 100 + tm_mday t) * 100 + tm_hour t) * 100
       + tm_min t) * 100 + tm_sec t) * 1000 + tm_ms t"

lemma length_dec_ge: "10 ^ w \<le> n \<Longrightarrow> Suc w \<le> length (dec n)"
proof (induction w arbitrary: n)
  case 0
  have "length (dec n) \<noteq> 0" by simp
  then show ?case by linarith
next
  case (Suc w)
  then have n: "10 \<le> n" by (metis le_trans one_le_numeral power_increasing power_one_right
        le_add1 plus_1_eq_Suc)
  have "10 ^ w \<le> n div 10" using Suc.prems by (simp add: less_eq_div_iff_mult_less_eq mult.commute)
  with Suc.IH n show ?case by (simp add: dec_large)
qed

lemma dec_year: "y < 8100 \<Longrightarrow> dec (y + 1900) = fixdec 4 (y + 1900)"
proof -
  assume y: "y < 8100"
  have "4 \<le> length (dec (y + 1900))"
    using length_dec_ge [of 3 "y + 1900"] by simp
  then have "pad0 4 (dec (y + 1900)) = dec (y + 1900)" by (simp add: pad0_def)
  with pad0_fixdec [of "y + 1900" 4] y show ?thesis by simp
qed

lemma fixdec_fields:
  "m < 100 \<Longrightarrow> d < 100 \<Longrightarrow> fixdec a y @ fixdec 2 m @ fixdec 2 d =
     fixdec (a + 4) ((y * 100 + m) * 100 + d)"
proof -
  assume b: "m < 100" "d < 100"
  have p: "10 ^ 2 = (100 :: nat)" by simp
  have "fixdec a y @ fixdec 2 m = fixdec (a + 2) (y * 100 + m)"
    using fixdec_append [of m 2 a y, unfolded p, OF b(1)] .
  moreover have "fixdec (a + 2) (y * 100 + m) @ fixdec 2 d = fixdec (a + 2 + 2) ((y * 100 + m) * 100 + d)"
    using fixdec_append [of d 2 "a + 2" "y * 100 + m", unfolded p, OF b(2)] .
  moreover have "a + 2 + 2 = a + 4" by simp
  ultimately show ?thesis by (metis append_assoc)
qed

lemma format_time_fixdec:
  assumes "valid_tm t"
  shows "format_time t =
    fixdec 8 (((tm_year t + 1900) * 100 + (tm_mon t + 1)) * 100 + tm_mday t) @ ''T'' @
    fixdec 6 ((tm_hour t * 100 + tm_min t) * 100 + tm_sec t) @ '','' @ fixdec 3 (tm_ms t)"
proof -
  have d: "dec (tm_year t + 1900) @ pad0 2 (dec (tm_mon t + 1)) @ pad0 2 (dec (tm_mday t)) =
      fixdec 8 (((tm_year t + 1900) * 100 + (tm_mon t + 1)) * 100 + tm_mday t)"
    using assms fixdec_fields [of "tm_mon t + 1" "tm_mday t" 4 "tm_year t + 1900"]
    by (simp only: valid_tm_def dec_year) (simp add: pad0_fixdec)
  have h: "pad0 2 (dec (tm_hour t)) @ pad0 2 (dec (tm_min t)) @ pad0 2 (dec (tm_sec t)) =
      fixdec 6 ((tm_hour t * 100 + tm_min t) * 100 + tm_sec t)"
    using assms fixdec_fields [of "tm_min t" "tm_sec t" 2 "tm_hour t"]
    by (simp add: valid_tm_def pad0_fixdec)
  have m: "pad0 3 (dec (tm_ms t)) = fixdec 3 (tm_ms t)"
    using assms by (simp add: valid_tm_def pad0_fixdec)
  show ?thesis
    unfolding format_time_def m d [symmetric] h [symmetric] by (simp only: append_assoc)
qed

lemma length_format_time: "valid_tm t \<Longrightarrow> length (format_time t) = 19"
  by (simp add: format_time_fixdec)

lemma strcmp_separators:
  assumes "length a = length a'" "length b = length b'"
  shows "strcmp (a @ x # b @ y # c) (a' @ x # b' @ y # c') = strcmp (a @ b @ c) (a' @ b' @ c')"
  using assms by (simp add: strcmp_append)

lemma stamp_fixdec:
  assumes "valid_tm t"
  shows "fixdec 17 (stamp t) =
      fixdec 8 (((tm_year t + 1900) * 100 + (tm_mon t + 1)) * 100 + tm_mday t) @
      fixdec 6 ((tm_hour t * 100 + tm_min t) * 100 + tm_sec t) @ fixdec 3 (tm_ms t)"
    and "stamp t < 10 ^ 17"
proof -
  let ?d = "((tm_year t + 1900) * 100 + (tm_mon t + 1)) * 100 + tm_mday t"
  let ?h = "(tm_hour t * 100 + tm_min t) * 100 + tm_sec t"
  have b: "?h < 10 ^ 6" "tm_ms t < 10 ^ 3" "?d < 10 ^ 8" using assms by (auto simp: valid_tm_def)
  have st: "stamp t = (?d * 10 ^ 6 + ?h) * 10 ^ 3 + tm_ms t" by (simp add: stamp_def)
  show "fixdec 17 (stamp t) = fixdec 8 ?d @ fixdec 6 ?h @ fixdec 3 (tm_ms t)"
  proof -
    have "fixdec 8 ?d @ fixdec 6 ?h = fixdec 14 (?d * 10 ^ 6 + ?h)"
      using fixdec_append [OF b(1), of 8 ?d] by (simp only: semiring_norm numeral_plus_numeral)
    moreover have "fixdec 14 (?d * 10 ^ 6 + ?h) @ fixdec 3 (tm_ms t) = fixdec 17 (stamp t)"
      using fixdec_append [OF b(2), of 14 "?d * 10 ^ 6 + ?h"] unfolding st
      by (simp only: semiring_norm numeral_plus_numeral)
    ultimately show ?thesis by (metis append_assoc)
  qed
  show "stamp t < 10 ^ 17" unfolding st using b by simp
qed

lemma format_time_order:
  assumes "valid_tm t" "valid_tm u"
  shows "strcmp (format_time t) (format_time u) = cmp (stamp t) (stamp u)"
proof -
  have "strcmp (format_time t) (format_time u) = strcmp (fixdec 17 (stamp t)) (fixdec 17 (stamp u))"
    unfolding format_time_fixdec [OF assms(1)] format_time_fixdec [OF assms(2)]
      stamp_fixdec(1) [OF assms(1)] stamp_fixdec(1) [OF assms(2)] append_Cons append_Nil
    by (rule strcmp_separators) simp_all
  also have "\<dots> = cmp (stamp t) (stamp u)"
    using stamp_fixdec(2) [OF assms(1)] stamp_fixdec(2) [OF assms(2)] by (rule strcmp_fixdec)
  finally show ?thesis .
qed

end
