(* ===== verification/ResourceTypes.thy ===== *)
theory ResourceTypes
  imports CJson Onem2mTypes Decimal
begin

text \<open>
  The pure functions of \<^verbatim>\<open>util.c\<close> on resource types: the type named by a request
  (HTTP \<^verbatim>\<open>content-type\<close>, CoAP option, JSON member), the member name of a type, the
  resource found under it, the resource identifiers handed out at creation and
  the parent-child relation; and the list conversions of \<^verbatim>\<open>jsonparser.c\<close>.
\<close>

section \<open>The type named by a request\<close>

text \<open>
  \<^verbatim>\<open>search_header\<close> of \<^verbatim>\<open>httpd.c\<close>: header names are compared without regard to case
  (\<^verbatim>\<open>strcasecmp\<close>).
\<close>

fun search_header :: "(string \<times> string) list \<Rightarrow> string \<Rightarrow> string option" where
  "search_header [] name = None"
| "search_header ((n, v) # hs) name =
     (if map tolower n = map tolower name then Some v else search_header hs name)"

text \<open>
  The table of the \<^verbatim>\<open>switch\<close> in \<^verbatim>\<open>http_parse_object_type\<close>. \<^verbatim>\<open>case 58\<close> has no
  \<^verbatim>\<open>break\<close> and falls through to \<^verbatim>\<open>case 29\<close>.
\<close>

definition http_type_table :: "(int \<times> int) list" where
  "http_type_table =
     [(1, RT_ACP), (2, RT_AE), (3, RT_CNT), (4, RT_CIN), (5, RT_CSE), (9, RT_GRP), (16, RT_CSR),
      (23, RT_SUB), (28, RT_FCNT), (58, RT_TS), (29, RT_TS), (30, RT_TSI), (10001, RT_ACPA),
      (10002, RT_AEA), (10003, RT_CNTA), (10004, RT_CINA), (10005, RT_CBA), (10009, RT_GRPA),
      (10029, RT_TSA)]"

definition http_parse_object_type :: "(string \<times> string) list \<Rightarrow> int" where
  "http_parse_object_type headers =
     (case search_header headers ''content-type'' of
        None \<Rightarrow> RT_MIXED
      | Some content_type \<Rightarrow>
          (case strstr content_type ''ty='' of
             None \<Rightarrow> RT_MIXED
           | Some str_ty \<Rightarrow> switch http_type_table RT_MIXED (atoi (drop 3 str_ty))))"

text \<open>The CoAP option carries the type or the type plus 48; 58 and 106 fall through.\<close>

definition coap_type_table :: "(int \<times> int) list" where
  "coap_type_table =
     [(1, RT_ACP), (49, RT_ACP), (2, RT_AE), (50, RT_AE), (3, RT_CNT), (51, RT_CNT),
      (4, RT_CIN), (52, RT_CIN), (5, RT_CSE), (53, RT_CSE), (9, RT_GRP), (57, RT_GRP),
      (16, RT_CSR), (64, RT_CSR), (23, RT_SUB), (71, RT_SUB), (28, RT_FCNT), (76, RT_FCNT),
      (58, RT_TS), (106, RT_TS), (29, RT_TS), (77, RT_TS), (30, RT_TSI), (78, RT_TSI)]"

definition coap_parse_object_type :: "int \<Rightarrow> int" where
  "coap_parse_object_type object_type = switch coap_type_table RT_MIXED object_type"

section \<open>Member names\<close>

definition resource_key_table :: "(int \<times> string) list" where
  "resource_key_table =
     [(RT_CSE, ''m2m:cb''), (RT_AE, ''m2m:ae''), (RT_CNT, ''m2m:cnt''), (RT_CIN, ''m2m:cin''),
      (RT_SUB, ''m2m:sub''), (RT_GRP, ''m2m:grp''), (RT_ACP, ''m2m:acp''), (RT_CSR, ''m2m:csr''),
      (RT_ACPA, ''m2m:acpA''), (RT_AEA, ''m2m:aeA''), (RT_CNTA, ''m2m:cntA''),
      (RT_CINA, ''m2m:cinA''), (RT_TS, ''m2m:ts''), (RT_TSI, ''m2m:tsi''), (RT_CBA, ''m2m:cbA''),
      (RT_FCNTA, ''m2m:fcntA''), (RT_FCNT, ''m2m:fcnt''), (RT_FCIN, ''m2m:fcin''),
      (RT_GRPA, ''m2m:grpA''), (RT_TSA, ''m2m:tsA'')]"

definition get_resource_key :: "int \<Rightarrow> string" where
  "get_resource_key ty = switch resource_key_table ''general'' ty"

text \<open>
  \<^verbatim>\<open>parse_object_type_cjson\<close>: the first of these names that is a member decides; a
  member that is an object and has a colon in its name is taken for a
  flexContainer.
\<close>

definition object_type_keys :: "(string \<times> int) list" where
  "object_type_keys =
     [(''m2m:cb'', RT_CSE), (''m2m:cse'', RT_CSE), (''m2m:ae'', RT_AE), (''m2m:cnt'', RT_CNT),
      (''m2m:cin'', RT_CIN), (''m2m:sub'', RT_SUB), (''m2m:ts'', RT_TS), (''m2m:tsi'', RT_TSI),
      (''m2m:grp'', RT_GRP), (''m2m:acp'', RT_ACP), (''m2m:csr'', RT_CSR), (''m2m:cba'', RT_CBA),
      (''m2m:aea'', RT_AEA), (''m2m:cnta'', RT_CNTA), (''m2m:grpa'', RT_GRPA),
      (''m2m:tsa'', RT_TSA), (''m2m:cina'', RT_CINA), (''m2m:fcnt'', RT_FCNT),
      (''m2m:acpa'', RT_ACPA)]"

fun first_key :: "cjson \<Rightarrow> (string \<times> int) list \<Rightarrow> int option" where
  "first_key j [] = None"
| "first_key j ((k, ty) # rest) =
     (if cJSON_GetObjectItem (Some j) k \<noteq> None then Some ty else first_key j rest)"

fun has_fcnt_member :: "(string option \<times> cjson) list \<Rightarrow> bool" where
  "has_fcnt_member [] = False"
| "has_fcnt_member ((name, v) # rest) =
     (case name of
        Some k \<Rightarrow> if cJSON_type v = T_Object \<and> strchr k CHR '':'' \<noteq> None then True
                   else has_fcnt_member rest
      | None \<Rightarrow> has_fcnt_member rest)"

definition parse_object_type_cjson :: "cjson option \<Rightarrow> int" where
  "parse_object_type_cjson cj =
     (case cj of
        None \<Rightarrow> RT_MIXED
      | Some j \<Rightarrow>
          (case first_key j object_type_keys of
             Some ty \<Rightarrow> ty
           | None \<Rightarrow> if has_fcnt_member (items j) then RT_FCNT else RT_MIXED))"

text \<open>\<^verbatim>\<open>getResource\<close>: the resource of the given type in a request body.\<close>

definition get_resource_table :: "(int \<times> string) list" where
  "get_resource_table =
     [(RT_CSE, ''m2m:cse''), (RT_AE, ''m2m:ae''), (RT_CNT, ''m2m:cnt''), (RT_CIN, ''m2m:cin''),
      (RT_ACP, ''m2m:acp''), (RT_SUB, ''m2m:sub''), (RT_GRP, ''m2m:grp''), (RT_CSR, ''m2m:csr''),
      (RT_ACPA, ''m2m:acpA''), (RT_AEA, ''m2m:aeA''), (RT_CBA, ''m2m:cbA''), (RT_CINA, ''m2m:cinA''),
      (RT_CNTA, ''m2m:cntA''), (RT_GRPA, ''m2m:grpA''), (RT_TSA, ''m2m:tsA''), (RT_FCIN, ''m2m:fcin''),
      (RT_FCNTA, ''m2m:fcntA''), (RT_TS, ''m2m:ts''), (RT_TSI, ''m2m:tsi'')]"

fun first_cnd_member :: "(string option \<times> cjson) list \<Rightarrow> cjson option" where
  "first_cnd_member [] = None"
| "first_cnd_member ((name, v) # rest) =
     (case name of
        Some k \<Rightarrow>
          if cJSON_type v = T_Object \<and> strchr k CHR '':'' \<noteq> None
             \<and> cJSON_IsString (cJSON_GetObjectItem (Some v) ''cnd'')
          then Some v else first_cnd_member rest
      | None \<Rightarrow> first_cnd_member rest)"

text \<open>For a flexContainer the body is dereferenced (\<^verbatim>\<open>root->child\<close>), so it must not be null.\<close>

definition getResource :: "cjson option \<Rightarrow> int \<Rightarrow> cjson option option" where
  "getResource root ty =
     (if ty = RT_FCNT then
        (case cJSON_GetObjectItem root ''m2m:fcnt'' of
           Some r \<Rightarrow> Some (Some r)
         | None \<Rightarrow> do { j \<leftarrow> root; Some (first_cnd_member (items j)) })
      else
        (case map_of get_resource_table ty of
           Some k \<Rightarrow> Some (cJSON_GetObjectItem root k)
         | None \<Rightarrow> Some None))"

text \<open>The types a body can name by its member name.\<close>

definition body_types :: "int list" where
  "body_types = [RT_CSE, RT_AE, RT_CNT, RT_CIN, RT_SUB, RT_GRP, RT_ACP, RT_CSR, RT_ACPA, RT_AEA,
     RT_CNTA, RT_CINA, RT_TS, RT_TSI, RT_CBA, RT_FCNT, RT_GRPA, RT_TSA]"

lemma tolower_eval [simp]:
  "tolower (CHR ''A'') = CHR ''a''" "tolower CHR '':'' = CHR '':''" "tolower CHR ''m'' = CHR ''m''"
  "tolower CHR ''2'' = CHR ''2''" "tolower CHR ''c'' = CHR ''c''" "tolower CHR ''b'' = CHR ''b''"
  by (simp_all add: tolower_def char_of_def bit_Suc_0_iff)

lemma parse_object_type_table:
  "list_all (\<lambda>ty. parse_object_type_cjson (Some (JObject [(get_resource_key ty, JObject kvs)])) = ty)
     body_types"
  by (simp add: body_types_def get_resource_key_def resource_key_table_def parse_object_type_cjson_def
      object_type_keys_def ci_eq_def tolower_def char_of_def bit_Suc_0_iff)

section \<open>Resource identifiers\<close>

definition ri_prefix_table :: "(int \<times> string) list" where
  "ri_prefix_table =
     [(RT_AE, ''CAE''), (RT_CNT, ''3-''), (RT_CIN, ''4-''), (RT_SUB, ''23-''), (RT_TS, ''29-''),
      (RT_TSI, ''30-''), (RT_ACP, ''1-''), (RT_GRP, ''9-''), (RT_CSR, ''16-''), (RT_ACPA, ''10001-''),
      (RT_CBA, ''10005-''), (RT_AEA, ''10002-''), (RT_CNTA, ''10003-''), (RT_GRPA, ''10009-''),
      (RT_TSA, ''10029-''), (RT_CINA, ''10004-''), (RT_FCNTA, ''10028-''), (RT_FCNT, ''28-''),
      (RT_FCIN, ''58-'')]"

text \<open>
  \<^verbatim>\<open>resource_identifier\<close> appends the creation time and a four-digit counter that is
  a static variable of the function: the new counter is returned with the identifier.
\<close>

definition resource_identifier :: "int \<Rightarrow> string \<Rightarrow> nat \<Rightarrow> string \<times> nat" where
  "resource_identifier ty ct n =
     (switch ri_prefix_table [] ty @ ct @ pad0 4 (dec n), (n + 1) mod 10000)"

fun resource_identifiers :: "(int \<times> string) list \<Rightarrow> nat \<Rightarrow> string list" where
  "resource_identifiers [] n = []"
| "resource_identifiers ((ty, ct) # rs) n =
     (let (ri, n') = resource_identifier ty ct n in ri # resource_identifiers rs n')"

lemma ri_prefix_length: "length (switch ri_prefix_table [] ty) \<le> 6"
  by (simp add: ri_prefix_table_def)

lemma resource_identifier_length:
  "n < 10000 \<Longrightarrow> length (fst (resource_identifier ty ct n)) = length (switch ri_prefix_table [] ty) + length ct + 4"
  by (simp add: resource_identifier_def pad0_fixdec)

text \<open>The buffers \<^verbatim>\<open>ri\<close> and \<^verbatim>\<open>buf\<close> of 32 bytes are large enough for a timestamp.\<close>

lemma resource_identifier_fits:
  "valid_tm t \<Longrightarrow> n < 10000 \<Longrightarrow> length (fst (resource_identifier ty (format_time t) n)) < 32"
  using ri_prefix_length [of ty] by (simp add: resource_identifier_length length_format_time)

lemma resource_identifier_suffix:
  assumes "m < 10000" "n < 10000"
    and "fst (resource_identifier ty ct m) = fst (resource_identifier ty' ct' n)"
  shows "m = n"
proof -
  have "drop (length s - 4) s = fixdec 4 k"
    if "s = fst (resource_identifier t c k)" "k < 10000" for s t c k
    using that by (simp add: resource_identifier_def pad0_fixdec)
  with assms have "fixdec 4 m = fixdec 4 n" by metis
  with assms show ?thesis by (simp add: fixdec_inj)
qed

lemma resource_identifiers_nth:
  "i < length rs \<Longrightarrow>
   resource_identifiers rs n ! i = fst (resource_identifier (fst (rs ! i)) (snd (rs ! i)) ((n + i) mod 10000))"
  if "n < 10000"
  using that
proof (induction rs arbitrary: n i)
  case (Cons r rs)
  obtain ty ct where r: "r = (ty, ct)" by (cases r)
  show ?case
  proof (cases i)
    case 0
    with r Cons.prems show ?thesis by (simp add: resource_identifier_def)
  next
    case (Suc j)
    with r Cons show ?thesis
      by (simp add: resource_identifier_def mod_simps)
  qed
qed simp

lemma length_resource_identifiers [simp]: "length (resource_identifiers rs n) = length rs"
  by (induction rs arbitrary: n) (auto simp: resource_identifier_def)

lemma add_mod_distinct:
  fixes n i j k :: nat
  assumes "i < k" "j < k" "i \<noteq> j"
  shows "(n + i) mod k \<noteq> (n + j) mod k"
  proof
  assume eq: "(n + i) mod k = (n + j) mod k"
  have "i = j" if "i \<le> j" "(n + i) mod k = (n + j) mod k" "j < k" for i j
  proof -
    have "k dvd (n + j) - (n + i)"
      using that mod_eq_dvd_iff_nat [of "n + i" "n + j" k] by simp
    then have "k dvd j - i" by simp
    then have "j - i = 0 \<or> k \<le> j - i" using dvd_imp_le by blast
    with that show ?thesis by linarith
  qed
  from this [of i j] this [of j i] eq assms show False
    by (cases "i \<le> j") auto
qed

text \<open>
  Among any 10000 consecutive resource identifiers handed out by one run of the
  server no two are equal, whatever their types and creation times, also across the
  wrap-around of the four-digit counter.
\<close>

theorem resource_identifiers_distinct:
  assumes n: "n < 10000" and len: "length rs \<le> 10000"
  shows "distinct (resource_identifiers rs n)"
  unfolding distinct_conv_nth
proof (intro allI impI)
  fix i j
  assume ij: "i < length (resource_identifiers rs n)" "j < length (resource_identifiers rs n)" "i \<noteq> j"
  then have il: "i < length rs" and jl: "j < length rs" by simp_all
  with len ij(3) have "(n + i) mod 10000 \<noteq> (n + j) mod 10000"
    by (intro add_mod_distinct) linarith+
  moreover have "(n + i) mod 10000 < 10000" "(n + j) mod 10000 < 10000" by simp_all
  ultimately show "resource_identifiers rs n ! i \<noteq> resource_identifiers rs n ! j"
    unfolding resource_identifiers_nth [OF n il] resource_identifiers_nth [OF n jl]
    using resource_identifier_suffix by blast
qed

theorem resource_identifiers_distinct_witness:
  "distinct (resource_identifiers
     (replicate 3 (RT_CNT, ''20250101T000000'') @ [(RT_AE, ''20250101T000000'')]) 9998)"
  by (rule resource_identifiers_distinct) simp_all

section \<open>Parents and children\<close>

definition child_table :: "(int \<times> int list) list" where
  "child_table =
     [(RT_ACP, [RT_SUB]),
      (RT_AE, [RT_CNT, RT_SUB, RT_ACP, RT_GRP, RT_TS, RT_FCNT]),
      (RT_CNT, [RT_CIN, RT_SUB, RT_CNT, RT_SMD, RT_FCNT, RT_TS]),
      (RT_TS, [RT_TSI, RT_SUB]),
      (RT_TSI, [RT_SUB]),
      (RT_CIN, [RT_SMD]),
      (RT_CSE, [RT_ACP, RT_AE, RT_CNT, RT_GRP, RT_SUB, RT_CSR, RT_NOD, RT_MGMTOBJ, RT_CBA, RT_FCNT,
                RT_AEA, RT_CNTA, RT_GRPA, RT_ACPA, RT_TSA, RT_FCNTA]),
      (RT_GRP, [RT_SUB, RT_SMD]),
      (RT_CSR, [RT_CNT, RT_CNTA, RT_FCNT, RT_GRP, RT_GRPA, RT_ACP, RT_ACPA, RT_AE, RT_SUB, RT_AEA]),
      (RT_SUB, []),
      (RT_ACPA, [RT_SUB]),
      (RT_AEA, [RT_SUB, RT_CNTA, RT_GRPA, RT_ACPA, RT_TSA, RT_FCNTA, RT_CNT, RT_GRP, RT_ACP, RT_TS]),
      (RT_CNTA, [RT_SUB, RT_CNTA, RT_CINA, RT_TSA, RT_FCNTA, RT_CNT, RT_CIN, RT_TS]),
      (RT_TSA, [RT_SUB]),
      (RT_CBA, [RT_SUB, RT_AEA, RT_CNTA, RT_GRPA, RT_ACPA, RT_TSA, RT_FCNTA, RT_CNT, RT_GRP, RT_ACP]),
      (RT_GRPA, [RT_SUB]),
      (RT_FCNT, [RT_SUB, RT_FCNT, RT_SMD, RT_CNT, RT_FCIN, RT_FCNT_LA, RT_FCNT_OL])]"

definition isValidChildType :: "int \<Rightarrow> int \<Rightarrow> bool" where
  "isValidChildType parent child \<longleftrightarrow> child \<in> set (switch child_table [] parent)"

section \<open>Comma-separated lists (\<^verbatim>\<open>jsonparser.c\<close>)\<close>

text \<open>
  The printers append to a buffer of \<^verbatim>\<open>MAX_ATTRIBUTE_SIZE\<close> bytes with \<^verbatim>\<open>strcat\<close>, and the
  parsers copy their argument into such a buffer: beyond it the behaviour is
  undefined. The result type \<open>'a option option\<close> has the undefined execution outside
  and the null pointer inside.
\<close>

definition fits :: "string \<Rightarrow> string option" where
  "fits s = (if length s < MAX_ATTRIBUTE_SIZE then Some s else None)"

lemma fits_Some [simp]: "fits s = Some t \<longleftrightarrow> t = s \<and> length s < MAX_ATTRIBUTE_SIZE"
  by (auto simp: fits_def)

text \<open>The loop of \<^verbatim>\<open>cjson_string_list_item_to_string\<close>; it returns null at an item that
  is not a string, is empty or starts with white space.\<close>

fun cat_strings :: "string \<Rightarrow> cjson list \<Rightarrow> string option option" where
  "cat_strings item_str [] = Some (Some item_str)"
| "cat_strings item_str (x # xs) =
     (case valuestring x of
        None \<Rightarrow> Some None
      | Some [] \<Rightarrow> Some None
      | Some (c # s) \<Rightarrow>
          if isspace c then Some None
          else do {
            item_str \<leftarrow> fits (item_str @ c # s);
            item_str \<leftarrow> (if xs = [] then Some item_str else fits (item_str @ '',''));
            cat_strings item_str xs })"

definition cjson_string_list_item_to_string :: "cjson option \<Rightarrow> string option option" where
  "cjson_string_list_item_to_string key =
     (if elems key = [] then Some None else cat_strings [] (elems key))"

text \<open>\<open>%d\<close> of a possibly negative number, and the list printer that uses it.\<close>

definition dec_int :: "int \<Rightarrow> string" where
  "dec_int n = (if n < 0 then CHR ''-'' # dec (nat (- n)) else dec (nat n))"

fun cat_ints :: "string \<Rightarrow> cjson list \<Rightarrow> string option" where
  "cat_ints item_str [] = Some item_str"
| "cat_ints item_str (x # xs) =
     do {
       item_str \<leftarrow> fits (item_str @ dec_int (valueint x));
       item_str \<leftarrow> (if xs = [] then Some item_str else fits (item_str @ '',''));
       cat_ints item_str xs }"

definition cjson_int_list_item_to_string :: "cjson option \<Rightarrow> string option option" where
  "cjson_int_list_item_to_string key =
     (if elems key = [] then Some None else map_option Some (cat_ints [] (elems key)))"

text \<open>
  The do-while loops of the parsers handle the first token before testing it: for a
  string without a token \<^verbatim>\<open>cJSON_CreateString(NULL)\<close> gives no item, whereas
  \<^verbatim>\<open>atoi(NULL)\<close> is undefined.
\<close>

definition string_to_cjson_string_list_item :: "string option \<Rightarrow> cjson option" where
  "string_to_cjson_string_list_item str =
     (case str of
        None \<Rightarrow> Some (JArray [])
      | Some s \<Rightarrow> do { buf \<leftarrow> fits s; Some (JArray (map JString (strtok CHR '','' buf))) })"

definition string_to_cjson_int_list_item :: "string option \<Rightarrow> cjson option" where
  "string_to_cjson_int_list_item str =
     (case str of
        None \<Rightarrow> Some (JArray [])
      | Some s \<Rightarrow> do {
          buf \<leftarrow> fits s;
          if strtok CHR '','' buf = [] then None
          else Some (JArray (map (\<lambda>t. JNumber (atoi t)) (strtok CHR '','' buf))) })"

definition list_item :: "string \<Rightarrow> bool" where
  "list_item s \<longleftrightarrow> s \<noteq> [] \<and> \<not> isspace (hd s) \<and> CHR '','' \<notin> set s"

lemma length_join_hd: "length t \<le> length (join_with d (t # ts))"
  by (cases ts) auto

lemma cat_strings_items:
  "\<lbrakk>\<And>s. s \<in> set ss \<Longrightarrow> list_item s; length (acc @ join_with CHR '','' ss) < MAX_ATTRIBUTE_SIZE\<rbrakk>
   \<Longrightarrow> cat_strings acc (map JString ss) = Some (Some (acc @ join_with CHR '','' ss))"
proof (induction ss arbitrary: acc)
  case (Cons s ss)
  obtain c s' where s: "s = c # s'" "\<not> isspace c"
    using Cons.prems(1) [of s] by (cases s) (auto simp: list_item_def)
  show ?case
  proof (cases "ss = []")
    case True
    with Cons.prems s show ?thesis by simp
  next
    case False
    then have j: "join_with CHR '','' (s # ss) = s @ CHR '','' # join_with CHR '','' ss"
      by (cases ss) simp_all
    have "cat_strings ((acc @ s) @ '','') (map JString ss) =
        Some (Some (((acc @ s) @ '','') @ join_with CHR '','' ss))"
      using Cons.prems j by (intro Cons.IH) auto
    with False s j Cons.prems(2) show ?thesis by simp
  qed
qed simp

text \<open>
  Round trip of string lists: a list of attribute values that are not empty, do not
  start with white space and contain no comma, printed by
  \<^verbatim>\<open>cjson_string_list_item_to_string\<close> within the buffer, is read back unchanged by
  \<^verbatim>\<open>string_to_cjson_string_list_item\<close>.
\<close>

theorem string_list_roundtrip:
  assumes "ss \<noteq> []" "\<And>s. s \<in> set ss \<Longrightarrow> list_item s"
    and "length (join_with CHR '','' ss) < MAX_ATTRIBUTE_SIZE"
  shows "Option.bind (cjson_string_list_item_to_string (Some (JArray (map JString ss))))
      string_to_cjson_string_list_item = Some (JArray (map JString ss))"
proof -
  have "strtok CHR '','' (join_with CHR '','' ss) = ss"
    by (rule strtok_join) (use assms(2) in \<open>auto simp: list_item_def\<close>)
  moreover have "cjson_string_list_item_to_string (Some (JArray (map JString ss))) =
      Some (Some (join_with CHR '','' ss))"
    using assms cat_strings_items [of ss "[]"]
    by (simp add: cjson_string_list_item_to_string_def)
  ultimately show ?thesis
    using assms(3) by (simp add: string_to_cjson_string_list_item_def)
qed

theorem string_list_roundtrip_witness:
  "Option.bind (cjson_string_list_item_to_string (Some (JArray (map JString [''a/b'', ''c'']))))
     string_to_cjson_string_list_item = Some (JArray (map JString [''a/b'', ''c'']))"
  by (rule string_list_roundtrip) (auto simp: list_item_def isspace_def)

end
