(* ===== verification/Addressing.thy ===== *)
theory Addressing
  imports Onem2mTypes Decimal
begin

text \<open>
  The address forms of \<^verbatim>\<open>util.c\<close>: the classification of a target as CSE-relative,
  SP-relative, absolute or bound to a protocol, the tests whether an address belongs to
  this CSE, the parser of points of access, and the small tests on names.

  A character read at the end of a string is the terminating zero, so \<^verbatim>\<open>uri[1]\<close> is
  modelled by a pattern on the list.
\<close>

section \<open>Classification\<close>

text \<open>\<open>None\<close> stands for the \<^verbatim>\<open>-1\<close> that is returned for a null pointer.\<close>

definition checkResourceAddressingType :: "string option \<Rightarrow> addressing option" where
  "checkResourceAddressingType uri =
     (case uri of
        None \<Rightarrow> None
      | Some u \<Rightarrow>
          if starts_with u ''//'' then Some ABSOLUTE
          else if starts_with u ''/'' then Some SP_RELATIVE
          else if strncmp u ''http://'' 7 = 0 \<or> strncmp u ''mqtt://'' 7 = 0 \<or> strncmp u ''coap://'' 7 = 0
               \<or> strncmp u ''coaps://'' 8 = 0 \<or> strncmp u ''wss://'' 6 = 0 \<or> strncmp u ''ws://'' 5 = 0
          then Some PROTOCOL_BINDING
          else Some CSE_RELATIVE)"

text \<open>
  The identifier between the leading slashes and the next slash; the local buffer of
  128 bytes rejects longer ones.
\<close>

definition local_id :: "string \<Rightarrow> string option" where
  "local_id start =
     (let len = (case strchr start CHR ''/'' of Some slash \<Rightarrow> length start - length slash
                 | None \<Rightarrow> length start)
      in if len = 0 \<or> 128 \<le> len then None else Some (take len start))"

definition isSPIDLocal :: "string option \<Rightarrow> bool" where
  "isSPIDLocal address =
     (case address of
        None \<Rightarrow> False
      | Some a \<Rightarrow> if \<not> starts_with a ''//'' then False
                  else local_id (drop 2 a) = Some CSE_BASE_SP_ID)"

definition isSpRelativeLocal :: "string option \<Rightarrow> bool" where
  "isSpRelativeLocal address =
     (case address of
        None \<Rightarrow> False
      | Some a \<Rightarrow> if \<not> starts_with a ''/'' then False
                  else local_id (drop 1 a) = Some CSE_BASE_RI \<or> local_id (drop 1 a) = Some CSE_BASE_NAME)"

definition checkResourceCseID :: "string \<Rightarrow> string \<Rightarrow> bool" where
  "checkResourceCseID resourceUri cseID =
     (if length resourceUri \<le> length cseID then False
      else resourceUri ! length cseID = CHR ''/'' \<and> strncmp cseID resourceUri (length cseID) = 0)"

definition isUriFopt :: "string option \<Rightarrow> bool" where
  "isUriFopt str =
     (case str of
        None \<Rightarrow> False
      | Some u \<Rightarrow> (case strrchr u CHR ''/'' of None \<Rightarrow> False | Some s \<Rightarrow> strcmp s ''/fopt'' = 0))"

text \<open>
  \<^verbatim>\<open>endswith\<close> returns the result of \<^verbatim>\<open>strncmp\<close> itself, which is zero when the suffix
  matches. A match longer than the string points before its start.
\<close>

definition endswith :: "string option \<Rightarrow> string option \<Rightarrow> bool option" where
  "endswith str match =
     (case (str, match) of
        (Some s, Some m) \<Rightarrow>
          if s = [] \<or> m = [] then Some False
          else if length s < length m then None
          else Some (strncmp (drop (length s - length m) s) m (length m) \<noteq> 0)
      | _ \<Rightarrow> Some False)"

lemma local_id_eq:
  assumes "i \<noteq> []" "length i < 128" "CHR ''/'' \<notin> set i"
  shows "local_id s = Some i \<longleftrightarrow> s = i \<or> (\<exists>r. s = i @ CHR ''/'' # r)"
proof (cases "strchr s CHR ''/''")
  case None
  with assms show ?thesis by (auto simp: local_id_def Let_def)
next
  case (Some t)
  then obtain p r where s: "s = p @ CHR ''/'' # r" "CHR ''/'' \<notin> set p" "t = CHR ''/'' # r"
    using strchr_Some_split by fastforce
  then have "local_id s = (if p = [] \<or> 128 \<le> length p then None else Some p)"
    using Some by (simp add: local_id_def Let_def)
  moreover have "p = i" if "p @ CHR ''/'' # r = i @ CHR ''/'' # r'" for r'
    using that s(2) assms(3) by (metis before_append)
  ultimately show ?thesis using s assms by auto
qed

text \<open>
  \<^verbatim>\<open>isSpRelativeLocal\<close> accepts exactly the addresses \<open>/id\<close> and \<open>/id/...\<close> where \<open>id\<close> is the
  resource identifier or the resource name of this CSE.
\<close>

theorem isSpRelativeLocal_iff:
  "isSpRelativeLocal (Some a) \<longleftrightarrow>
     (\<exists>i r. i \<in> {CSE_BASE_RI, CSE_BASE_NAME} \<and> (r = [] \<or> (\<exists>r'. r = CHR ''/'' # r')) \<and> a = ''/'' @ i @ r)"
proof -
  have id: "local_id s = Some CSE_BASE_RI \<longleftrightarrow> s = CSE_BASE_RI \<or> (\<exists>r. s = CSE_BASE_RI @ CHR ''/'' # r)"
    "local_id s = Some CSE_BASE_NAME \<longleftrightarrow> s = CSE_BASE_NAME \<or> (\<exists>r. s = CSE_BASE_NAME @ CHR ''/'' # r)" for s
    by (rule local_id_eq; simp)+
  show ?thesis
  proof (cases "starts_with a ''/''")
    case False
    then show ?thesis by (auto simp: isSpRelativeLocal_def starts_with_def)
  next
    case True
    then obtain s where "a = CHR ''/'' # s" by (auto simp: starts_with_iff)
    then show ?thesis by (auto simp: isSpRelativeLocal_def starts_with_def id)
  qed
qed

lemma isSPIDLocal_iff:
  "isSPIDLocal (Some a) \<longleftrightarrow>
     (\<exists>r. (r = [] \<or> (\<exists>r'. r = CHR ''/'' # r')) \<and> a = ''//'' @ CSE_BASE_SP_ID @ r)"
proof -
  have id: "local_id s = Some CSE_BASE_SP_ID \<longleftrightarrow>
      s = CSE_BASE_SP_ID \<or> (\<exists>r. s = CSE_BASE_SP_ID @ CHR ''/'' # r)" for s
    by (rule local_id_eq) simp_all
  show ?thesis
  proof (cases "starts_with a ''//''")
    case False
    then show ?thesis by (auto simp: isSPIDLocal_def starts_with_def)
  next
    case True
    then obtain s where "a = CHR ''/'' # CHR ''/'' # s" by (auto simp: starts_with_iff)
    then show ?thesis by (auto simp: isSPIDLocal_def starts_with_def id)
  qed
qed

lemma checkResourceCseID_iff:
  "checkResourceCseID u c \<longleftrightarrow> (\<exists>r. u = c @ CHR ''/'' # r)"
proof
  assume "checkResourceCseID u c"
  then have u: "length c < length u" "u ! length c = CHR ''/''" "take (length c) u = c"
    by (auto simp: checkResourceCseID_def strncmp_eq_0 split: if_splits)
  then have "u = take (length c) u @ u ! length c # drop (Suc (length c)) u"
    by (metis id_take_nth_drop)
  with u show "\<exists>r. u = c @ CHR ''/'' # r" by metis
qed (auto simp: checkResourceCseID_def strncmp_eq_0)

text \<open>The result of \<^verbatim>\<open>endswith\<close> is the negation of what its name says.\<close>

lemma endswith_inverted:
  "s \<noteq> [] \<Longrightarrow> m \<noteq> [] \<Longrightarrow> length m \<le> length s \<Longrightarrow>
   endswith (Some s) (Some m) = Some (\<not> (\<exists>p. s = p @ m))"
  by (auto simp: endswith_def strncmp_eq_0) (metis append_take_drop_id)

section \<open>Points of access\<close>

text \<open>
  \<^verbatim>\<open>parsePoa\<close> writes its results through pointers; \<open>port\<close> is the value of \<^verbatim>\<open>*port\<close> before
  the call, which stays when the address names no port: the tests \<^verbatim>\<open>port == 0\<close> at the
  end compare the pointer, which is not null. The scheme \<^verbatim>\<open>wss://\<close> has six characters but
  seven are skipped. \<open>Some None\<close> is the return value \<^verbatim>\<open>-1\<close>.
\<close>

definition poa_protocol :: "string \<Rightarrow> protocol option" where
  "poa_protocol s =
     (if strncmp s ''http://'' 7 = 0 then Some PROT_HTTP
      else if strncmp s ''mqtt://'' 7 = 0 then Some PROT_MQTT
      else if strncmp s ''coap://'' 7 = 0 then Some PROT_COAP
      else if strncmp s ''coaps://'' 8 = 0 then Some PROT_COAPS
      else if strncmp s ''wss://'' 6 = 0 then Some PROT_WSS
      else if strncmp s ''ws://'' 5 = 0 then Some PROT_WS
      else None)"

definition poa_skip :: "protocol \<Rightarrow> nat" where
  "poa_skip prot = (case prot of PROT_COAPS \<Rightarrow> 8 | PROT_WS \<Rightarrow> 5 | _ \<Rightarrow> 7)"

definition parsePoa :: "string \<Rightarrow> int \<Rightarrow> (protocol \<times> string \<times> int \<times> string) option option" where
  "parsePoa poa_str port =
     (case poa_protocol poa_str of
        None \<Rightarrow> Some None
      | Some prot \<Rightarrow>
          if length poa_str < poa_skip prot then None
          else let p = drop (poa_skip prot) poa_str;
                   port' = (case strchr p CHR '':'' of Some ptr \<Rightarrow> atoi (drop 1 ptr) | None \<Rightarrow> port);
                   host = before CHR '':'' p;
                   path = (case strchr p CHR ''/'' of Some ptr \<Rightarrow> ptr | None \<Rightarrow> ''/'')
               in Some (Some (prot, host, port', path)))"

definition scheme :: "protocol \<Rightarrow> string" where
  "scheme prot = (case prot of PROT_HTTP \<Rightarrow> ''http://'' | PROT_MQTT \<Rightarrow> ''mqtt://'' | PROT_COAP \<Rightarrow> ''coap://''
     | PROT_COAPS \<Rightarrow> ''coaps://'' | PROT_WS \<Rightarrow> ''ws://'' | PROT_WSS \<Rightarrow> ''wss://'')"

lemma poa_protocol_scheme: "poa_protocol (scheme prot @ s) = Some prot"
  by (cases prot) (simp_all add: poa_protocol_def scheme_def strncmp_def)

lemma poa_skip_scheme: "prot \<noteq> PROT_WSS \<Longrightarrow> poa_skip prot = length (scheme prot)"
  by (cases prot) (simp_all add: poa_skip_def scheme_def)

lemma digits_val_stop:
  "(\<And>c. c \<in> set s \<Longrightarrow> is_digit c) \<Longrightarrow> (t = [] \<or> \<not> is_digit (hd t)) \<Longrightarrow>
   digits_val a (s @ t) = digits_val a s"
  by (induction s arbitrary: a) (cases t; auto)+

lemma atoi_dec_slash: "n \<le> 65535 \<Longrightarrow> atoi (dec n @ CHR ''/'' # r) = int n"
proof -
  assume n: "n \<le> 65535"
  let ?t = "CHR ''/'' # r"
  obtain c s where cs: "dec n = c # s" by (cases "dec n") auto
  with dec_digits [of c n] have c: "is_digit c" by simp
  then have nc: "\<not> isspace c" "c \<noteq> CHR ''-''" "c \<noteq> CHR ''+''"
    by (auto simp: is_digit_def isspace_def)
  have "takeWhile is_digit (dec n @ ?t) \<noteq> []" using cs c by simp
  moreover have "digits_val 0 (dec n @ ?t) = int n"
    using digits_val_stop [of "dec n" ?t 0] dec_digits by (simp add: digits_val_dec is_digit_def)
  ultimately have "fst (strtol (dec n @ ?t)) = fst (strtol (dec n))"
    using nc cs n strtol_dec [of n] by (simp add: strtol_def LONG_MAX_def LONG_MIN_def)
  then show ?thesis using atoi_dec [of n] n by (simp add: atoi_def)
qed

text \<open>
  A point of access \<open>scheme://host:port/path\<close> of every supported scheme but \<^verbatim>\<open>wss\<close> is
  split into its protocol, host, port and path, where the host has no colon and no slash
  and the port is a 16-bit number in decimal.
\<close>

theorem parsePoa_components:
  assumes "prot \<noteq> PROT_WSS" "n \<le> 65535" "CHR '':'' \<notin> set host" "CHR ''/'' \<notin> set host"
  shows "parsePoa (scheme prot @ host @ '':'' @ dec n @ ''/'' @ path) port =
    Some (Some (prot, host, int n, ''/'' @ path))"
proof -
  have "\<not> is_digit CHR ''/''" by (simp add: is_digit_def)
  then have nos: "CHR ''/'' \<notin> set (host @ CHR '':'' # dec n)"
    using assms(4) dec_digits [of "CHR ''/''" n] by auto
  have "strchr ((host @ CHR '':'' # dec n) @ CHR ''/'' # path) CHR ''/'' = Some (CHR ''/'' # path)"
    using nos by (rule strchr_append)
  with assms show ?thesis
    by (simp add: parsePoa_def poa_protocol_scheme poa_skip_scheme atoi_dec_slash)
qed

theorem parsePoa_components_witness:
  "parsePoa (scheme PROT_HTTP @ ''10.0.0.1'' @ '':'' @ dec 8080 @ ''/'' @ ''noti'') 0 =
     Some (Some (PROT_HTTP, ''10.0.0.1'', 8080, ''/noti''))"
  using parsePoa_components [of PROT_HTTP 8080 "''10.0.0.1''" "''noti''" 0] by simp

lemma parsePoa_no_port:
  assumes "prot \<noteq> PROT_WSS" "CHR '':'' \<notin> set rest"
  shows "\<exists>path. parsePoa (scheme prot @ rest) port = Some (Some (prot, rest, port, path))"
  using assms by (simp add: parsePoa_def poa_protocol_scheme poa_skip_scheme)

section \<open>Names\<close>

definition is_json_valid_char :: "char \<Rightarrow> bool" where
  "is_json_valid_char c \<longleftrightarrow>
     (of_char CHR ''!'' \<le> (of_char c :: nat) \<and> (of_char c :: nat) \<le> of_char CHR ''~'') \<or> c = CHR '' ''"

definition is_rn_valid_char :: "char \<Rightarrow> bool" where
  "is_rn_valid_char c \<longleftrightarrow>
     (let n = (of_char c :: nat) in
      (48 \<le> n \<and> n \<le> 57) \<or> (65 \<le> n \<and> n \<le> 90) \<or> (97 \<le> n \<and> n \<le> 122) \<or> c = CHR ''_'' \<or> c = CHR ''-'')"

definition is_blank_string :: "string option \<Rightarrow> bool" where
  "is_blank_string s = (case s of None \<Rightarrow> True | Some t \<Rightarrow> list_all isspace t)"

lemma rn_valid_no_separator: "is_rn_valid_char c \<Longrightarrow> c \<noteq> CHR ''/'' \<and> c \<noteq> CHR '','' \<and> \<not> isspace c"
  by (auto simp: is_rn_valid_char_def isspace_def Let_def)

end
