(* ===== verification/Primitive.thy ===== *)
theory Primitive
  imports ResourceTypes Addressing
begin

text \<open>
  The request and response primitive \<^verbatim>\<open>oneM2MPrimitive\<close> of \<^verbatim>\<open>onem2m.h\<close> and the checks of
  \<^verbatim>\<open>util.c\<close> that run before a request is dispatched. Every field name carries the prefix
  \<open>p_\<close>. A check takes the primitive and returns its result together with the primitive,
  which \<^verbatim>\<open>handle_error\<close> has changed on the error paths.
\<close>

section \<open>The record\<close>

record oneM2MPrimitive =
  p_to :: "string option"
  p_fr :: "string option"
  p_rqi :: "string option"
  p_rvi :: rvi
  p_op :: operation
  p_request_pc :: "cjson option"
  p_response_pc :: "cjson option"
  p_rcn :: int
  p_rcn_explicit :: bool
  p_rsc :: int
  p_coap_rsc :: int
  p_ty :: int
  p_isFopt :: bool
  p_isForwarding :: bool
  p_fopt :: "string option"
  p_errFlag :: bool
  p_ip :: "string option"
  p_mqtt_origin :: "string option"
  p_websocket_origin :: "string option"
  p_cnst :: int
  p_cnot :: int
  p_fc :: "cjson option"
  p_drt :: int
  p_utcmd :: "string option"

text \<open>The primitive that \<^verbatim>\<open>calloc\<close> returns.\<close>

definition empty_o2pt :: oneM2MPrimitive where
  "empty_o2pt = \<lparr>p_to = None, p_fr = None, p_rqi = None, p_rvi = RVI_NONE, p_op = OP_NONE,
     p_request_pc = None, p_response_pc = None, p_rcn = 0, p_rcn_explicit = False, p_rsc = 0,
     p_coap_rsc = 0, p_ty = 0, p_isFopt = False, p_isForwarding = False, p_fopt = None,
     p_errFlag = False, p_ip = None, p_mqtt_origin = None, p_websocket_origin = None, p_cnst = 0,
     p_cnot = 0, p_fc = None, p_drt = 0, p_utcmd = None\<rparr>"

definition handle_error :: "oneM2MPrimitive \<Rightarrow> int \<Rightarrow> string \<Rightarrow> oneM2MPrimitive" where
  "handle_error o2pt rsc err =
     o2pt\<lparr>p_rsc := rsc, p_errFlag := True,
          p_response_pc := Some (JObject [(''m2m:dbg'', JString err)])\<rparr>"

lemma handle_error_simps [simp]:
  "p_rsc (handle_error o2pt rsc err) = rsc"
  "p_errFlag (handle_error o2pt rsc err)"
  "p_fr (handle_error o2pt rsc err) = p_fr o2pt"
  "p_to (handle_error o2pt rsc err) = p_to o2pt"
  "p_ty (handle_error o2pt rsc err) = p_ty o2pt"
  "p_op (handle_error o2pt rsc err) = p_op o2pt"
  "p_rvi (handle_error o2pt rsc err) = p_rvi o2pt"
  "p_request_pc (handle_error o2pt rsc err) = p_request_pc o2pt"
  by (simp_all add: handle_error_def)

text \<open>
  Outcome of a check: the C result 0 or -1 and the primitive. \<open>fail\<close> is
  \<^verbatim>\<open>handle_error(...); return -1;\<close>.
\<close>

type_synonym checked = "int \<times> oneM2MPrimitive"

abbreviation pass :: "oneM2MPrimitive \<Rightarrow> checked" where
  "pass o2pt \<equiv> (0, o2pt)"

abbreviation fail :: "oneM2MPrimitive \<Rightarrow> int \<Rightarrow> string \<Rightarrow> checked" where
  "fail o2pt rsc err \<equiv> (- 1, handle_error o2pt rsc err)"

text \<open>\<^verbatim>\<open>return handle_error(...);\<close>, which returns the response code.\<close>

abbreviation reject :: "oneM2MPrimitive \<Rightarrow> int \<Rightarrow> string \<Rightarrow> checked" where
  "reject o2pt rsc err \<equiv> (rsc, handle_error o2pt rsc err)"

section \<open>Checks\<close>

definition result_parse_uri :: "oneM2MPrimitive \<Rightarrow> 'n option \<Rightarrow> checked" where
  "result_parse_uri o2pt rtnode =
     (case rtnode of None \<Rightarrow> fail o2pt RSC_NOT_FOUND ''URI is invalid'' | Some _ \<Rightarrow> pass o2pt)"

definition check_mandatory_attributes :: "oneM2MPrimitive \<Rightarrow> checked" where
  "check_mandatory_attributes o2pt =
     (if p_rvi o2pt = RVI_NONE then fail o2pt RSC_BAD_REQUEST ''rvi is mandatory''
      else if (p_fr o2pt = None \<or> p_fr o2pt = Some []) \<and>
              \<not> (p_op o2pt = OP_CREATE \<and> p_ty o2pt = RT_AE)
      then fail o2pt RSC_BAD_REQUEST ''originator is mandatory''
      else pass o2pt)"

definition check_payload_empty :: "oneM2MPrimitive \<Rightarrow> checked" where
  "check_payload_empty o2pt =
     (case p_request_pc o2pt of
        None \<Rightarrow> fail o2pt RSC_INTERNAL_SERVER_ERROR ''payload is empty''
      | Some _ \<Rightarrow> pass o2pt)"

text \<open>\<^verbatim>\<open>strlen\<close> of an \<^verbatim>\<open>rn\<close> that is not a string is undefined.\<close>

definition check_rn_invalid :: "oneM2MPrimitive \<Rightarrow> int \<Rightarrow> checked option" where
  "check_rn_invalid o2pt ty =
     do {
       resource \<leftarrow> getResource (p_request_pc o2pt) ty;
       case cJSON_GetObjectItem resource ''rn'' of
         None \<Rightarrow> Some (pass o2pt)
       | Some rn \<Rightarrow> do {
           resource_name \<leftarrow> valuestring rn;
           if list_all is_rn_valid_char resource_name then Some (pass o2pt)
           else Some (fail o2pt RSC_BAD_REQUEST ''attribute `rn` is invalid'') } }"

definition check_resource_type_equal :: "oneM2MPrimitive \<Rightarrow> checked" where
  "check_resource_type_equal o2pt =
     (if p_ty o2pt = RT_FCIN then pass o2pt
      else if p_ty o2pt \<noteq> parse_object_type_cjson (p_request_pc o2pt)
      then fail o2pt RSC_BAD_REQUEST ''resource type is invalid''
      else pass o2pt)"

definition check_resource_type_invalid :: "oneM2MPrimitive \<Rightarrow> checked" where
  "check_resource_type_invalid o2pt =
     (if p_ty o2pt = RT_MIXED
      then fail o2pt RSC_BAD_REQUEST ''resource type is missing or invalid''
      else if p_ty o2pt = RT_CSE
      then fail o2pt RSC_OPERATION_NOT_ALLOWED ''resource type can't be 5(CSEBase)''
      else pass o2pt)"

definition set_o2pt_rsc :: "oneM2MPrimitive \<Rightarrow> int \<Rightarrow> oneM2MPrimitive" where
  "set_o2pt_rsc o2pt rsc = o2pt\<lparr>p_rsc := rsc\<rparr>"

section \<open>Conversion and copy\<close>

text \<open>
  \<^verbatim>\<open>cJSON_AddStringToObject\<close> with a null string adds no member.
\<close>

definition add_string :: "cjson \<Rightarrow> string \<Rightarrow> string option \<Rightarrow> cjson" where
  "add_string obj k s = (case s of None \<Rightarrow> obj | Some t \<Rightarrow> cJSON_AddItemToObject obj k (JString t))"

definition o2pt_to_json :: "oneM2MPrimitive \<Rightarrow> cjson" where
  "o2pt_to_json o2pt =
     (let json = JObject [];
          json = cJSON_AddItemToObject json ''rsc'' (JNumber (p_rsc o2pt));
          json = add_string json ''rqi'' (p_rqi o2pt);
          json = add_string json ''to'' (p_to o2pt);
          json = add_string json ''fr'' (p_fr o2pt);
          json = add_string json ''rvi'' (from_rvi (p_rvi o2pt));
          json = (case p_response_pc o2pt of None \<Rightarrow> json
                  | Some pc \<Rightarrow> cJSON_AddItemToObject json ''pc'' pc);
          json = (if p_cnst o2pt \<noteq> 0 then cJSON_AddItemToObject json ''cnst'' (JNumber (p_cnst o2pt)) else json);
          json = (if p_cnot o2pt \<noteq> 0 then cJSON_AddItemToObject json ''cnot'' (JNumber (p_cnot o2pt)) else json)
      in json)"

text \<open>\<^verbatim>\<open>o2ptcpy\<close> calls \<^verbatim>\<open>strdup\<close> on \<^verbatim>\<open>fr\<close> and \<^verbatim>\<open>to\<close> without a null test.\<close>

definition o2ptcpy :: "oneM2MPrimitive \<Rightarrow> oneM2MPrimitive option" where
  "o2ptcpy src =
     do {
       fr \<leftarrow> p_fr src;
       to \<leftarrow> p_to src;
       Some (empty_o2pt\<lparr>p_fr := Some fr, p_to := Some to, p_rqi := p_rqi src,
         p_request_pc := p_request_pc src, p_fopt := p_fopt src, p_ip := p_ip src,
         p_rvi := p_rvi src, p_rcn := p_rcn src, p_rcn_explicit := p_rcn_explicit src,
         p_ty := p_ty src, p_op := p_op src, p_isFopt := p_isFopt src, p_rsc := p_rsc src,
         p_cnot := p_cnot src, p_fc := p_fc src\<rparr>) }"

section \<open>The contract of a check\<close>

text \<open>
  A check returns 0 and leaves the primitive alone, or returns -1 with the error recorded:
  the flag is set and the response code is an error code (at least 4000). The locale gives
  what a client that runs checks one after the other knows of the outcome.
\<close>

definition reports :: "oneM2MPrimitive \<Rightarrow> checked \<Rightarrow> bool" where
  "reports o2pt r \<longleftrightarrow>
     r = pass o2pt \<or> (fst r = - 1 \<and> p_errFlag (snd r) \<and> 4000 \<le> p_rsc (snd r) \<and>
       p_response_pc (snd r) \<noteq> None \<and> p_fr (snd r) = p_fr o2pt \<and> p_to (snd r) = p_to o2pt)"

lemma reports_pass [simp]: "reports o2pt (pass o2pt)"
  by (simp add: reports_def)

lemma reports_fail [simp]: "4000 \<le> rsc \<Longrightarrow> reports o2pt (fail o2pt rsc err)"
  by (simp add: reports_def) (simp add: handle_error_def)

locale request_check =
  fixes check :: "oneM2MPrimitive \<Rightarrow> checked"
  assumes check_reports: "reports o2pt (check o2pt)"
begin

lemma check_ok_unchanged: "fst (check o2pt) = 0 \<Longrightarrow> check o2pt = pass o2pt"
  using check_reports [of o2pt] by (auto simp: reports_def)

lemma check_result: "fst (check o2pt) = 0 \<or> fst (check o2pt) = - 1"
  using check_reports [of o2pt] by (auto simp: reports_def)

lemma check_error: "fst (check o2pt) = - 1 \<Longrightarrow> p_errFlag (snd (check o2pt)) \<and> 4000 \<le> p_rsc (snd (check o2pt))"
  using check_reports [of o2pt] by (auto simp: reports_def)

end

interpretation mand: request_check check_mandatory_attributes
  by unfold_locales (simp add: check_mandatory_attributes_def)

interpretation payl: request_check check_payload_empty
  by unfold_locales (simp add: check_payload_empty_def split: option.splits)

interpretation teq: request_check check_resource_type_equal
  by unfold_locales (simp add: check_resource_type_equal_def)

interpretation tinv: request_check check_resource_type_invalid
  by unfold_locales (simp add: check_resource_type_invalid_def)

lemma check_rn_invalid_reports: "check_rn_invalid o2pt ty = Some r \<Longrightarrow> reports o2pt r"
  by (auto simp: check_rn_invalid_def split: option.splits if_splits)

text \<open>A name that passes the check has no path separator, so it stays one segment of a URI.\<close>

lemma rn_valid_segment:
  "check_rn_invalid o2pt ty = Some (pass o2pt) \<Longrightarrow> getResource (p_request_pc o2pt) ty = Some r \<Longrightarrow>
   member_string r ''rn'' = Some rn \<Longrightarrow> CHR ''/'' \<notin> set rn"
  by (auto simp: check_rn_invalid_def member_string_def list_all_iff split: if_splits)
    (blast dest: rn_valid_no_separator)

end
