(* ===== verification/Sdt.thy ===== *)
theory Sdt
  imports CJson Onem2mTypes
begin

text \<open>
  The schemas of flexContainer specialisations (\<^verbatim>\<open>sdt.c\<close>): removal of comments from a schema
  file, the registry of schema definitions, and the validation of custom attributes against
  a schema.

  The registry \<^verbatim>\<open>g_sdt\<close> is filled once at start from a directory; here it is an argument, null
  (\<open>None\<close>) when loading failed. Reading the files and the JSON parser are not modelled. A
  validator returns the error message, \<open>None\<close> for \<^verbatim>\<open>RSC_OK\<close>.
\<close>

section \<open>Comments\<close>

text \<open>
  The loop keeps the position \<^verbatim>\<open>src\<close> and looks back one character; \<open>prev\<close> is that character. A
  quotation mark after a backslash does not end a string.
\<close>

fun close_comment :: "string \<Rightarrow> string" where
  "close_comment [] = []"
| "close_comment (c # cs) =
     (if c = CHR ''*'' \<and> take 1 cs = ''/'' then drop 1 cs else close_comment cs)"

lemma length_close_comment: "length (close_comment cs) \<le> length cs"
  by (induction cs) auto

abbreviation (input) newline :: char where "newline \<equiv> CHR 10"
abbreviation (input) quote :: char where "quote \<equiv> CHR 34"
abbreviation (input) backslash :: char where "backslash \<equiv> CHR 92"

function strip_comments :: "char option \<Rightarrow> bool \<Rightarrow> string \<Rightarrow> string" where
  "strip_comments prev in_string [] = []"
| "strip_comments prev in_string (c # cs) =
     (if c = quote \<and> prev \<noteq> Some backslash then c # strip_comments (Some c) (\<not> in_string) cs
      else if \<not> in_string \<and> (c = CHR ''/'' \<and> take 1 cs = ''/'' \<or> c = CHR ''#'')
      then strip_comments (Some (last (takeWhile (\<lambda>d. d \<noteq> newline) (c # cs)))) in_string (dropWhile (\<lambda>d. d \<noteq> newline) cs)
      else if \<not> in_string \<and> c = CHR ''/'' \<and> take 1 cs = ''*''
      then strip_comments (Some CHR ''/'') in_string (close_comment (drop 1 cs))
      else c # strip_comments (Some c) in_string cs)"
  by pat_completeness auto
termination strip_comments
  by (relation "measure (\<lambda>(p, q, s). length s)")
    (auto simp: less_Suc_eq_le length_dropWhile_le intro: order_trans [OF length_close_comment])

definition remove_json_comments :: "string option \<Rightarrow> string option" where
  "remove_json_comments input = map_option (strip_comments None False) input"

section \<open>Registry\<close>

record sdtdef =
  sd_type :: "string option"
  sd_cnd :: "string option"
  sd_lname :: "string option"
  sd_sdttype :: "string option"
  sd_attributes :: "cjson option"
  sd_children :: "cjson option"

text \<open>\<^verbatim>\<open>strdup(item->valuestring)\<close> on an item that is not a string is undefined.\<close>

definition dup_member :: "cjson \<Rightarrow> string \<Rightarrow> string option option" where
  "dup_member json k =
     (case cJSON_GetObjectItem (Some json) k of
        None \<Rightarrow> Some None
      | Some item \<Rightarrow> map_option Some (valuestring item))"

definition parse_sdt_def :: "cjson \<Rightarrow> sdtdef option" where
  "parse_sdt_def json =
     do {
       type \<leftarrow> dup_member json ''type'';
       cnd \<leftarrow> dup_member json ''cnd'';
       lname \<leftarrow> dup_member json ''lname'';
       sdttype \<leftarrow> dup_member json ''sdttype'';
       Some \<lparr>sd_type = type, sd_cnd = cnd, sd_lname = lname, sd_sdttype = sdttype,
         sd_attributes = cJSON_GetObjectItem (Some json) ''attributes'',
         sd_children = cJSON_GetObjectItem (Some json) ''children''\<rparr> }"

type_synonym sdt_registry = "sdtdef list option"

definition find_def :: "(sdtdef \<Rightarrow> bool) \<Rightarrow> sdt_registry \<Rightarrow> sdtdef option" where
  "find_def p g_sdt = (case g_sdt of None \<Rightarrow> None | Some defs \<Rightarrow> find p defs)"

definition sdt_find_by_type :: "sdt_registry \<Rightarrow> string \<Rightarrow> sdtdef option" where
  "sdt_find_by_type g_sdt type = find_def (\<lambda>d. sd_type d = Some type) g_sdt"

definition sdt_find_by_cnd :: "sdt_registry \<Rightarrow> string \<Rightarrow> sdtdef option" where
  "sdt_find_by_cnd g_sdt cnd = find_def (\<lambda>d. sd_cnd d = Some cnd) g_sdt"

definition sdt_find_by_type_and_cnd :: "sdt_registry \<Rightarrow> string \<Rightarrow> string \<Rightarrow> sdtdef option" where
  "sdt_find_by_type_and_cnd g_sdt type cnd = find_def (\<lambda>d. sd_type d = Some type \<and> sd_cnd d = Some cnd) g_sdt"

section \<open>Attribute values\<close>

definition is_valid_timestamp :: "string \<Rightarrow> bool" where
  "is_valid_timestamp s \<longleftrightarrow> 15 \<le> length s \<and> list_all (\<lambda>c. c = CHR ''-'' \<or> is_digit c) (take 8 s)"

definition is_valid_date :: "string \<Rightarrow> bool" where
  "is_valid_date s \<longleftrightarrow> 8 \<le> length s \<and> list_all (\<lambda>c. c = CHR ''-'' \<or> is_digit c) (take 8 s)"

definition is_valid_time :: "string \<Rightarrow> bool" where
  "is_valid_time s \<longleftrightarrow> 6 \<le> length s \<and> list_all (\<lambda>c. c = CHR '':'' \<or> is_digit c) (take 6 s)"

definition char_between :: "char \<Rightarrow> char \<Rightarrow> char \<Rightarrow> bool" where
  "char_between a b c \<longleftrightarrow> of_char a \<le> (of_char c :: nat) \<and> of_char c \<le> (of_char b :: nat)"

definition is_valid_base64 :: "string \<Rightarrow> bool" where
  "is_valid_base64 s \<longleftrightarrow>
     list_all (\<lambda>c. char_between CHR ''A'' CHR ''Z'' c \<or> char_between CHR ''a'' CHR ''z'' c \<or> is_digit c \<or>
       c \<in> set ''+/= '' \<or> c \<in> {CHR 9, CHR 10, CHR 13}) s"

fun token_chars :: "string \<Rightarrow> bool" where
  "token_chars [] = True"
| "token_chars (c # cs) =
     (if c \<in> {CHR 9, CHR 10, CHR 13} then False
      else if c = CHR '' '' \<and> take 1 cs = '' '' then False
      else token_chars cs)"

definition is_valid_token :: "string \<Rightarrow> bool" where
  "is_valid_token s \<longleftrightarrow> s \<noteq> [] \<and> token_chars s"

definition is_valid_ncname :: "string \<Rightarrow> bool" where
  "is_valid_ncname s =
     (case s of
        [] \<Rightarrow> False
      | c # _ \<Rightarrow> \<not> (is_digit c \<or> c = CHR ''-'' \<or> c = CHR ''.'') \<and>
          list_all (\<lambda>d. d \<notin> {CHR '' '', CHR 9, CHR 10, CHR 13}) s)"

definition is_valid_duration :: "string \<Rightarrow> bool" where
  "is_valid_duration s \<longleftrightarrow> 2 \<le> length s \<and> hd s \<in> {CHR ''P'', CHR ''p''}"

text \<open>A value that must be a string in a format, or a number in a range.\<close>

definition string_check :: "string \<Rightarrow> (string \<Rightarrow> bool) \<Rightarrow> string \<Rightarrow> cjson \<Rightarrow> string option" where
  "string_check expected valid invalid v =
     (case v of JString s \<Rightarrow> if valid s then None else Some invalid | _ \<Rightarrow> Some expected)"

definition number_check :: "string \<Rightarrow> (int \<Rightarrow> bool) \<Rightarrow> string \<Rightarrow> cjson \<Rightarrow> string option" where
  "number_check expected valid invalid v =
     (case v of JNumber n \<Rightarrow> if valid n then None else Some invalid | _ \<Rightarrow> Some expected)"

definition require :: "(cjson option \<Rightarrow> bool) \<Rightarrow> string \<Rightarrow> cjson \<Rightarrow> string option" where
  "require is_type expected v = (if is_type (Some v) then None else Some expected)"

definition sdt_type_checks :: "(string list \<times> (cjson \<Rightarrow> string option)) list" where
  "sdt_type_checks =
    [([''string'', ''anyURI'', ''anyuri'', ''ID'', ''imsi'', ''iccid'', ''ipv4Address'', ''ipv6Address''],
        require cJSON_IsString ''Expected string value''),
     ([''token''], string_check ''Expected token string'' is_valid_token ''Invalid token format''),
     ([''ncname''], string_check ''Expected NCName string'' is_valid_ncname ''Invalid NCName format''),
     ([''base64''], string_check ''Expected base64 string'' is_valid_base64 ''Invalid base64 encoding''),
     ([''integer'', ''enum''], require cJSON_IsNumber ''Expected integer value''),
     ([''positiveInteger''], number_check ''Expected positive integer value'' (\<lambda>n. 0 < n) ''Value must be positive''),
     ([''nonNegInteger'', ''unsignedInt'', ''unsignedLong''],
        number_check ''Expected non-negative integer value'' (\<lambda>n. 0 \<le> n) ''Value must be non-negative''),
     ([''float''], require cJSON_IsNumber ''Expected float value''),
     ([''boolean''], require (\<lambda>v. v = Some JTrue \<or> v = Some JFalse) ''Expected boolean value''),
     ([''timestamp'', ''dateTime''], string_check ''Expected timestamp string'' is_valid_timestamp ''Invalid timestamp format''),
     ([''absRelTimestamp''], require (\<lambda>v. cJSON_IsString v \<or> cJSON_IsNumber v) ''Expected timestamp string or integer''),
     ([''duration''], string_check ''Expected duration string'' is_valid_duration ''Invalid duration format''),
     ([''date''], string_check ''Expected date string'' is_valid_date ''Invalid date format''),
     ([''time''], string_check ''Expected time string'' is_valid_time ''Invalid time format''),
     ([''list''], require cJSON_IsArray ''Expected array value''),
     ([''listNE''], \<lambda>v. if \<not> cJSON_IsArray (Some v) then Some ''Expected non-empty array value''
        else if cJSON_GetArraySize (Some v) = 0 then Some ''Array must not be empty'' else None),
     ([''complex'', ''dict''], require cJSON_IsObject ''Expected object value''),
     ([''schedule'', ''geoJsonCoordinate''], require cJSON_IsString ''Expected string value''),
     ([''jsonLike'', ''any'', ''void''], \<lambda>v. None)]"

definition sdt_validate_attr_type :: "string \<Rightarrow> cjson \<Rightarrow> string option" where
  "sdt_validate_attr_type sdt_type value =
     (case find (\<lambda>(ts, chk). sdt_type \<in> set ts) sdt_type_checks of
        Some (ts, chk) \<Rightarrow> chk value
      | None \<Rightarrow> Some ''Unknown attribute type'')"

section \<open>Custom attributes\<close>

text \<open>The definition with the name of an attribute; a name that is no string is undefined.\<close>

fun match_attr :: "cjson list \<Rightarrow> string \<Rightarrow> cjson option option" where
  "match_attr [] name = Some None"
| "match_attr (d # ds) name =
     (case cJSON_GetObjectItem (Some d) ''sname'' of
        None \<Rightarrow> match_attr ds name
      | Some j \<Rightarrow> do { sname \<leftarrow> valuestring j; if sname = name then Some (Some d) else match_attr ds name })"

definition string_member :: "cjson \<Rightarrow> string \<Rightarrow> string option" where
  "string_member d k = (case cJSON_GetObjectItem (Some d) k of Some (JString s) \<Rightarrow> Some s | _ \<Rightarrow> None)"

definition attr_error :: "operation \<Rightarrow> cjson \<Rightarrow> cjson \<Rightarrow> string option" where
  "attr_error op d v =
     (case (case string_member d ''type'' of None \<Rightarrow> None | Some t \<Rightarrow> sdt_validate_attr_type t v) of
        Some err \<Rightarrow> Some err
      | None \<Rightarrow>
          if op = OP_UPDATE \<and> string_member d ''ou'' = Some ''NP'' then Some ''Attribute is not allowed in UPDATE''
          else if string_member d ''car'' \<in> {Some ''1'', Some ''1N''} \<and> cJSON_IsNull (Some v)
          then Some ''Attribute with cardinality 1 cannot be null''
          else None)"

fun custom_error :: "operation \<Rightarrow> cjson list \<Rightarrow> (string option \<times> cjson) list \<Rightarrow> string option option" where
  "custom_error op ds [] = Some None"
| "custom_error op ds ((k, v) # kvs) =
     (case k of
        None \<Rightarrow> custom_error op ds kvs
      | Some name \<Rightarrow> do {
          m \<leftarrow> match_attr ds name;
          case m of
            None \<Rightarrow> Some (Some ''Unknown attribute in FlexContainer'')
          | Some d \<Rightarrow> (case attr_error op d v of Some err \<Rightarrow> Some (Some err) | None \<Rightarrow> custom_error op ds kvs) })"

fun missing_error :: "cjson list \<Rightarrow> cjson option \<Rightarrow> string option option" where
  "missing_error [] custom_attrs = Some None"
| "missing_error (d # ds) custom_attrs =
     (case cJSON_GetObjectItem (Some d) ''sname'' of
        None \<Rightarrow> missing_error ds custom_attrs
      | Some sn \<Rightarrow> do {
          oc \<leftarrow> (case cJSON_GetObjectItem (Some d) ''oc'' of None \<Rightarrow> Some ''O'' | Some j \<Rightarrow> valuestring j);
          if oc \<noteq> ''M'' then missing_error ds custom_attrs
          else (case custom_attrs of
                  None \<Rightarrow> Some (Some ''Missing mandatory attribute'')
                | Some c \<Rightarrow> do {
                    sname \<leftarrow> valuestring sn;
                    if cJSON_GetObjectItem (Some c) sname = None then Some (Some ''Missing mandatory attribute'')
                    else missing_error ds custom_attrs }) })"

text \<open>The schema for a short name and a container definition, or the response code and error.\<close>

definition find_schema :: "sdt_registry \<Rightarrow> string option \<Rightarrow> string \<Rightarrow> (int \<times> string) + sdtdef" where
  "find_schema g_sdt shortname cnd =
     (let named = (case shortname of
                     None \<Rightarrow> None
                   | Some t \<Rightarrow> (case sdt_find_by_type_and_cnd g_sdt t cnd of
                                  Some d \<Rightarrow> Some d | None \<Rightarrow> sdt_find_by_type g_sdt t));
          found = (case named of
                     Some d \<Rightarrow> Inr d
                   | None \<Rightarrow>
                       if shortname \<noteq> None then Inl (RSC_SPECIALIZATION_SCHEMA_NOT_FOUND, ''unknown resource type'')
                       else (case sdt_find_by_cnd g_sdt cnd of
                               None \<Rightarrow> Inl (RSC_SPECIALIZATION_SCHEMA_NOT_FOUND, ''Schema not found for containerDefinition'')
                             | Some d \<Rightarrow> Inr d))
      in case found of
           Inl e \<Rightarrow> Inl e
         | Inr d \<Rightarrow>
             (case sd_cnd d of
                None \<Rightarrow> Inr d
              | Some c \<Rightarrow>
                  if c = [] \<or> c = cnd then Inr d
                  else if sdt_find_by_cnd g_sdt cnd = None
                  then Inl (RSC_SPECIALIZATION_SCHEMA_NOT_FOUND, ''Schema not found for containerDefinition'')
                  else Inl (RSC_BAD_REQUEST, ''Mismatch between shortname and containerDefinition'')))"

definition sdt_validate_fcnt ::
    "sdt_registry \<Rightarrow> string option \<Rightarrow> string option \<Rightarrow> cjson option \<Rightarrow> operation \<Rightarrow> (int \<times> string option) option" where
  "sdt_validate_fcnt g_sdt shortname cnd_opt custom_attrs op =
     (case cnd_opt of
        None \<Rightarrow> Some (RSC_BAD_REQUEST, Some ''Missing containerDefinition'')
      | Some cnd \<Rightarrow>
          (case find_schema g_sdt shortname cnd of
             Inl (rsc, err) \<Rightarrow> Some (rsc, Some err)
           | Inr d \<Rightarrow>
               (case sd_attributes d of
                  None \<Rightarrow>
                    if 0 < cJSON_GetArraySize custom_attrs
                    then Some (RSC_BAD_REQUEST, Some ''Unknown attribute in FlexContainer'') else Some (RSC_OK, None)
                | Some attributes \<Rightarrow> do {
                    let ds = elems (Some attributes);
                    e \<leftarrow> custom_error op ds (case custom_attrs of None \<Rightarrow> [] | Some c \<Rightarrow> items c);
                    e \<leftarrow> (if e = None \<and> op = OP_CREATE then missing_error ds custom_attrs else Some e);
                    Some (if e = None then RSC_OK else RSC_BAD_REQUEST, e) })))"

section \<open>What removal of comments keeps\<close>

datatype jtoken = Plain string | Literal string | Line_Comment string | Hash_Comment string | Block_Comment string

fun render :: "jtoken \<Rightarrow> string" where
  "render (Plain s) = s"
| "render (Literal s) = quote # s @ [quote]"
| "render (Line_Comment s) = ''//'' @ s @ [newline]"
| "render (Hash_Comment s) = ''#'' @ s @ [newline]"
| "render (Block_Comment s) = ''/*'' @ s @ ''*/''"

text \<open>A comment disappears; the end of line after it stays.\<close>

fun without_comment :: "jtoken \<Rightarrow> string" where
  "without_comment (Plain s) = s"
| "without_comment (Literal s) = quote # s @ [quote]"
| "without_comment (Line_Comment s) = [newline]"
| "without_comment (Hash_Comment s) = [newline]"
| "without_comment (Block_Comment s) = []"

text \<open>
  In the body of a literal a quotation mark comes after a backslash, and the last character
  is no backslash.
\<close>

fun literal_body :: "char \<Rightarrow> string \<Rightarrow> bool" where
  "literal_body prev [] \<longleftrightarrow> prev \<noteq> backslash"
| "literal_body prev (c # cs) \<longleftrightarrow> (c = quote \<longrightarrow> prev = backslash) \<and> literal_body c cs"

fun block_body :: "string \<Rightarrow> bool" where
  "block_body [] \<longleftrightarrow> True"
| "block_body (c # cs) \<longleftrightarrow> \<not> (c = CHR ''*'' \<and> take 1 cs = ''/'') \<and> block_body cs"

fun token_ok :: "jtoken \<Rightarrow> bool" where
  "token_ok (Plain s) \<longleftrightarrow> list_all (\<lambda>c. c \<notin> {quote, backslash, CHR ''#'', CHR ''/''}) s"
| "token_ok (Literal s) \<longleftrightarrow> literal_body quote s"
| "token_ok (Line_Comment s) \<longleftrightarrow> newline \<notin> set s"
| "token_ok (Hash_Comment s) \<longleftrightarrow> newline \<notin> set s"
| "token_ok (Block_Comment s) \<longleftrightarrow> block_body s"

lemma strip_plain:
  "list_all (\<lambda>c. c \<notin> {quote, backslash, CHR ''#'', CHR ''/''}) s \<Longrightarrow> prev \<noteq> Some backslash \<Longrightarrow>
   \<exists>prev'. prev' \<noteq> Some backslash \<and> strip_comments prev False (s @ r) = s @ strip_comments prev' False r"
  by (induction s arbitrary: prev) auto

lemma strip_literal:
  "literal_body p s \<Longrightarrow> strip_comments (Some p) True (s @ quote # r) = s @ quote # strip_comments (Some quote) False r"
  by (induction s arbitrary: p) auto

lemma dropWhile_line: "x \<notin> set s \<Longrightarrow> dropWhile (\<lambda>d. d \<noteq> x) (s @ x # r) = x # r"
  by (induction s) auto

lemma close_comment_body: "block_body s \<Longrightarrow> close_comment (s @ CHR ''*'' # CHR ''/'' # r) = r"
proof (induction s)
  case (Cons c s)
  then show ?case by (cases s) auto
qed simp

lemma strip_line:
  assumes "newline \<notin> set s"
  shows "strip_comments prev False (''//'' @ s @ newline # r) = newline # strip_comments (Some newline) False r"
    and "strip_comments prev False (''#'' @ s @ newline # r) = newline # strip_comments (Some newline) False r"
  using dropWhile_line [OF assms, of r] by simp_all

lemma strip_block: "block_body s \<Longrightarrow> strip_comments prev False (''/*'' @ s @ ''*/'' @ r) = strip_comments (Some CHR ''/'') False r"
  using close_comment_body [of s r] by simp

lemma strip_tokens:
  "list_all token_ok ts \<Longrightarrow> prev \<noteq> Some backslash \<Longrightarrow>
   strip_comments prev False (concat (map render ts)) = concat (map without_comment ts)"
proof (induction ts arbitrary: prev)
  case (Cons t ts)
  let ?r = "concat (map render ts)"
  have IH: "strip_comments p False ?r = concat (map without_comment ts)" if "p \<noteq> Some backslash" for p
    using Cons that by simp
  show ?case
  proof (cases t)
    case (Plain s)
    with Cons.prems strip_plain [of s prev ?r] IH show ?thesis by fastforce
  next
    case (Literal s)
    with Cons.prems strip_literal [of quote s ?r] IH show ?thesis by simp
  next
    case (Line_Comment s)
    with Cons.prems strip_line(1) [of s prev ?r] IH show ?thesis by simp
  next
    case (Hash_Comment s)
    with Cons.prems strip_line(2) [of s prev ?r] IH show ?thesis by simp
  next
    case (Block_Comment s)
    with Cons.prems strip_block [of s prev ?r] IH show ?thesis by simp
  qed
qed simp

text \<open>
  Comments in schema files: a text that is a sequence of plain JSON text, string literals and
  comments of the three kinds is turned into the same sequence without the comments. String
  literals are kept as they are, with comment marks and escaped quotation marks inside them.
\<close>

theorem remove_json_comments_tokens:
  assumes "list_all token_ok ts"
  shows "remove_json_comments (Some (concat (map render ts))) = Some (concat (map without_comment ts))"
  using strip_tokens [OF assms, of None] by (simp add: remove_json_comments_def)

theorem remove_json_comments_tokens_witness:
  "remove_json_comments (Some (concat (map render [Plain ''[ '', Literal ''//'', Block_Comment ''a*b'', Hash_Comment ''x'', Plain '']'']))) =
     Some (''[ '' @ [quote] @ ''//'' @ [quote] @ [newline] @ '']'')"
  using remove_json_comments_tokens
    [of "[Plain ''[ '', Literal ''//'', Block_Comment ''a*b'', Hash_Comment ''x'', Plain '']'']"] by simp

section \<open>Which custom attributes are accepted\<close>

text \<open>A schema whose names and occurrence marks are strings.\<close>

definition schema_typed :: "cjson list \<Rightarrow> bool" where
  "schema_typed ds \<longleftrightarrow>
     list_all (\<lambda>d. (\<exists>s. cJSON_GetObjectItem (Some d) ''sname'' = Some (JString s)) \<and>
       (cJSON_GetObjectItem (Some d) ''oc'' = None \<or> (\<exists>s. cJSON_GetObjectItem (Some d) ''oc'' = Some (JString s)))) ds"

lemma match_attr_find:
  "schema_typed ds \<Longrightarrow> match_attr ds name = Some (find (\<lambda>d. string_member d ''sname'' = Some name) ds)"
  by (induction ds) (auto simp: schema_typed_def string_member_def)

text \<open>
  The values of the attribute types, written out type by type. Formats are looked at only as far
  as they are stated: a time stamp has at least fifteen characters of which the first eight are digits or dashes.
\<close>

inductive sdt_value :: "string \<Rightarrow> cjson \<Rightarrow> bool" where
  Text: "t \<in> {''string'', ''anyURI'', ''anyuri'', ''ID'', ''imsi'', ''iccid'', ''ipv4Address'', ''ipv6Address'',
      ''schedule'', ''geoJsonCoordinate'', ''absRelTimestamp''} \<Longrightarrow> sdt_value t (JString s)"
| Token: "s \<noteq> [] \<Longrightarrow> set s \<inter> {CHR 9, CHR 10, CHR 13} = {} \<Longrightarrow>
    (\<And>i. Suc i < length s \<Longrightarrow> \<not> (s ! i = CHR '' '' \<and> s ! Suc i = CHR '' '')) \<Longrightarrow> sdt_value ''token'' (JString s)"
| Ncname: "\<not> is_digit c \<Longrightarrow> c \<noteq> CHR ''-'' \<Longrightarrow> c \<noteq> CHR ''.'' \<Longrightarrow>
    set (c # cs) \<inter> {CHR '' '', CHR 9, CHR 10, CHR 13} = {} \<Longrightarrow> sdt_value ''ncname'' (JString (c # cs))"
| Base64: "(\<And>c. c \<in> set s \<Longrightarrow> char_between CHR ''A'' CHR ''Z'' c \<or> char_between CHR ''a'' CHR ''z'' c \<or> is_digit c \<or>
      c \<in> {CHR ''+'', CHR ''/'', CHR ''='', CHR '' '', CHR 9, CHR 10, CHR 13}) \<Longrightarrow> sdt_value ''base64'' (JString s)"
| Number: "t \<in> {''integer'', ''enum'', ''float'', ''absRelTimestamp''} \<Longrightarrow> sdt_value t (JNumber n)"
| Positive: "0 < n \<Longrightarrow> sdt_value ''positiveInteger'' (JNumber n)"
| Non_negative: "t \<in> {''nonNegInteger'', ''unsignedInt'', ''unsignedLong''} \<Longrightarrow> 0 \<le> n \<Longrightarrow> sdt_value t (JNumber n)"
| Boolean: "v = JTrue \<or> v = JFalse \<Longrightarrow> sdt_value ''boolean'' v"
| Timestamp: "t \<in> {''timestamp'', ''dateTime''} \<Longrightarrow> 15 \<le> length s \<Longrightarrow>
    (\<And>i. i < 8 \<Longrightarrow> s ! i = CHR ''-'' \<or> is_digit (s ! i)) \<Longrightarrow> sdt_value t (JString s)"
| Duration: "c = CHR ''P'' \<or> c = CHR ''p'' \<Longrightarrow> cs \<noteq> [] \<Longrightarrow> sdt_value ''duration'' (JString (c # cs))"
| Date: "8 \<le> length s \<Longrightarrow> (\<And>i. i < 8 \<Longrightarrow> s ! i = CHR ''-'' \<or> is_digit (s ! i)) \<Longrightarrow> sdt_value ''date'' (JString s)"
| Time: "6 \<le> length s \<Longrightarrow> (\<And>i. i < 6 \<Longrightarrow> s ! i = CHR '':'' \<or> is_digit (s ! i)) \<Longrightarrow> sdt_value ''time'' (JString s)"
| Array: "sdt_value ''list'' (JArray xs)"
| Non_empty: "sdt_value ''listNE'' (JArray (x # xs))"
| Object: "t \<in> {''complex'', ''dict''} \<Longrightarrow> sdt_value t (JObject kvs)"
| Anything: "t \<in> {''jsonLike'', ''any'', ''void''} \<Longrightarrow> sdt_value t v"

inductive_simps sdt_value_kinds:
  "sdt_value t (JString s)" "sdt_value t (JNumber n)" "sdt_value t (JArray xs)" "sdt_value t (JObject kvs)"
  "sdt_value t JTrue" "sdt_value t JFalse" "sdt_value t JNull"

lemma token_chars_iff:
  "token_chars s \<longleftrightarrow> set s \<inter> {CHR 9, CHR 10, CHR 13} = {} \<and>
     (\<forall>i. Suc i < length s \<longrightarrow> \<not> (s ! i = CHR '' '' \<and> s ! Suc i = CHR '' ''))"
proof (induction s)
  case (Cons c s)
  have "(\<forall>i. Suc i < length (c # s) \<longrightarrow> \<not> ((c # s) ! i = CHR '' '' \<and> (c # s) ! Suc i = CHR '' '')) \<longleftrightarrow>
      \<not> (c = CHR '' '' \<and> take 1 s = '' '') \<and> (\<forall>i. Suc i < length s \<longrightarrow> \<not> (s ! i = CHR '' '' \<and> s ! Suc i = CHR '' ''))"
    by (cases s) (auto simp: nth_Cons All_less_Suc2 split: nat.splits)
  with Cons show ?case by auto
qed simp

lemma list_all_take: "n \<le> length s \<Longrightarrow> list_all P (take n s) \<longleftrightarrow> (\<forall>i < n. P (s ! i))"
  by (auto simp: list_all_length)

lemma format_iff:
  "is_valid_token s \<longleftrightarrow> s \<noteq> [] \<and> set s \<inter> {CHR 9, CHR 10, CHR 13} = {} \<and>
     (\<forall>i. Suc i < length s \<longrightarrow> \<not> (s ! i = CHR '' '' \<and> s ! Suc i = CHR '' ''))"
  "is_valid_ncname s \<longleftrightarrow> (\<exists>c cs. s = c # cs \<and> \<not> is_digit c \<and> c \<noteq> CHR ''-'' \<and> c \<noteq> CHR ''.'' \<and>
     set (c # cs) \<inter> {CHR '' '', CHR 9, CHR 10, CHR 13} = {})"
  "is_valid_base64 s \<longleftrightarrow> (\<forall>c \<in> set s. char_between CHR ''A'' CHR ''Z'' c \<or> char_between CHR ''a'' CHR ''z'' c \<or> is_digit c \<or>
     c \<in> {CHR ''+'', CHR ''/'', CHR ''='', CHR '' '', CHR 9, CHR 10, CHR 13})"
  "is_valid_timestamp s \<longleftrightarrow> 15 \<le> length s \<and> (\<forall>i < 8. s ! i = CHR ''-'' \<or> is_digit (s ! i))"
  "is_valid_duration s \<longleftrightarrow> (\<exists>c cs. s = c # cs \<and> (c = CHR ''P'' \<or> c = CHR ''p'') \<and> cs \<noteq> [])"
  "is_valid_date s \<longleftrightarrow> 8 \<le> length s \<and> (\<forall>i < 8. s ! i = CHR ''-'' \<or> is_digit (s ! i))"
  "is_valid_time s \<longleftrightarrow> 6 \<le> length s \<and> (\<forall>i < 6. s ! i = CHR '':'' \<or> is_digit (s ! i))"
proof -
  show "is_valid_ncname s \<longleftrightarrow> (\<exists>c cs. s = c # cs \<and> \<not> is_digit c \<and> c \<noteq> CHR ''-'' \<and> c \<noteq> CHR ''.'' \<and>
      set (c # cs) \<inter> {CHR '' '', CHR 9, CHR 10, CHR 13} = {})"
    by (cases s) (auto simp: is_valid_ncname_def list_all_iff)
  show "is_valid_duration s \<longleftrightarrow> (\<exists>c cs. s = c # cs \<and> (c = CHR ''P'' \<or> c = CHR ''p'') \<and> cs \<noteq> [])"
    by (cases s; cases "tl s") (auto simp: is_valid_duration_def)
qed (auto simp: is_valid_token_def token_chars_iff is_valid_base64_def is_valid_timestamp_def is_valid_date_def is_valid_time_def
    list_all_take list_all_iff [of _ s])

lemma check_None:
  "require cJSON_IsString m v = None \<longleftrightarrow> (\<exists>s. v = JString s)" "require cJSON_IsNumber m v = None \<longleftrightarrow> (\<exists>n. v = JNumber n)"
  "require cJSON_IsArray m v = None \<longleftrightarrow> (\<exists>xs. v = JArray xs)" "require cJSON_IsObject m v = None \<longleftrightarrow> (\<exists>kvs. v = JObject kvs)"
  "require (\<lambda>v. cJSON_IsString v \<or> cJSON_IsNumber v) m v = None \<longleftrightarrow> (\<exists>s. v = JString s) \<or> (\<exists>n. v = JNumber n)"
  "require (\<lambda>v. v = Some JTrue \<or> v = Some JFalse) m v = None \<longleftrightarrow> v = JTrue \<or> v = JFalse"
  "string_check m valid m' v = None \<longleftrightarrow> (\<exists>s. v = JString s \<and> valid s)"
  "number_check m good m' v = None \<longleftrightarrow> (\<exists>n. v = JNumber n \<and> good n)"
  "(if \<not> cJSON_IsArray (Some v) then Some m else if cJSON_GetArraySize (Some v) = 0 then Some m' else None) = None \<longleftrightarrow>
     (\<exists>x xs. v = JArray (x # xs))"
  by (cases v; auto simp: require_def string_check_def number_check_def cJSON_IsString_def cJSON_IsNumber_def cJSON_IsArray_def
      cJSON_IsObject_def cJSON_GetArraySize_def neq_Nil_conv)+

lemmas sdt_type_row = sdt_validate_attr_type_def sdt_type_checks_def

lemma sdt_value_accepted: "sdt_value t v \<Longrightarrow> sdt_validate_attr_type t v = None"
proof (induction rule: sdt_value.induct)
  case (Text t s)
  then show ?case by (elim insertE emptyE; simp add: sdt_type_row check_None)
next
  case (Number t n)
  then show ?case by (elim insertE emptyE; simp add: sdt_type_row check_None)
next
  case (Non_negative t n)
  then show ?case by (elim insertE emptyE; simp add: sdt_type_row check_None)
next
  case (Timestamp t s)
  then show ?case by (elim insertE emptyE; simp add: sdt_type_row check_None format_iff)
next
  case (Object t kvs)
  then show ?case by (elim insertE emptyE; simp add: sdt_type_row check_None)
next
  case (Anything t v)
  then show ?case by (elim insertE emptyE; simp add: sdt_type_row)
next
  case (Token s)
  then have "is_valid_token s" unfolding format_iff by blast
  then show ?case by (simp add: sdt_type_row check_None)
next
  case (Ncname c cs)
  then have "is_valid_ncname (c # cs)" unfolding format_iff by blast
  then show ?case by (simp add: sdt_type_row check_None)
next
  case (Base64 s)
  then have "is_valid_base64 s" unfolding format_iff by blast
  then show ?case by (simp add: sdt_type_row check_None)
next
  case (Duration c cs)
  then have "is_valid_duration (c # cs)" unfolding format_iff by blast
  then show ?case by (simp add: sdt_type_row check_None)
next
  case (Date s)
  then have "is_valid_date s" unfolding format_iff by blast
  then show ?case by (simp add: sdt_type_row check_None)
next
  case (Time s)
  then have "is_valid_time s" unfolding format_iff by blast
  then show ?case by (simp add: sdt_type_row check_None)
qed (simp_all add: sdt_type_row check_None)

definition row_sound :: "string list \<times> (cjson \<Rightarrow> string option) \<Rightarrow> bool" where
  "row_sound r \<longleftrightarrow> (\<forall>v. snd r v = None \<longrightarrow> (\<forall>t \<in> set (fst r). sdt_value t v))"

lemma row_soundI: "(\<And>t v. chk v = None \<Longrightarrow> t \<in> set ts \<Longrightarrow> sdt_value t v) \<Longrightarrow> row_sound (ts, chk)"
  by (simp add: row_sound_def)

lemma sdt_rows_sound: "list_all row_sound sdt_type_checks"
  unfolding sdt_type_checks_def list.pred_inject
  apply (intro conjI list.pred_inject(1) row_soundI; (simp only: check_None format_iff list.set)?)
  subgoal by (elim exE conjE insertE emptyE; simp add: sdt_value.Text)
  subgoal by (elim exE conjE insertE emptyE; simp only:; rule sdt_value.Token; blast)
  subgoal by (elim exE conjE insertE emptyE; hypsubst; rule sdt_value.Ncname; (assumption | simp only: list.set))
  subgoal by (elim exE conjE insertE emptyE; hypsubst; rule sdt_value.Base64; drule bspec; assumption)
  subgoal by (elim exE conjE insertE emptyE; simp add: sdt_value.Number)
  subgoal by (elim exE conjE insertE emptyE; simp only:; rule sdt_value.Positive; blast)
  subgoal by (elim exE conjE insertE emptyE; simp add: sdt_value.Non_negative)
  subgoal by (elim exE conjE insertE emptyE; simp add: sdt_value.Number)
  subgoal by (elim exE conjE insertE emptyE; simp only:; rule sdt_value.Boolean; blast)
  subgoal by (elim exE conjE insertE emptyE; simp add: sdt_value.Timestamp)
  subgoal by (elim disjE exE insertE emptyE) (simp_all add: sdt_value.Text sdt_value.Number)
  subgoal by (elim exE conjE insertE emptyE; hypsubst; rule sdt_value.Duration; assumption)
  subgoal by (elim exE conjE insertE emptyE; simp only:; rule sdt_value.Date; blast)
  subgoal by (elim exE conjE insertE emptyE; simp only:; rule sdt_value.Time; blast)
  subgoal by (elim exE conjE insertE emptyE; simp only:; rule sdt_value.Array; blast)
  subgoal by (elim exE conjE insertE emptyE; simp only:; rule sdt_value.Non_empty; blast)
  subgoal by (elim exE conjE insertE emptyE; simp add: sdt_value.Object)
  subgoal by (elim exE conjE insertE emptyE; simp add: sdt_value.Text)
  subgoal by (elim exE conjE insertE emptyE; simp add: sdt_value.Anything)
  done

lemma sdt_accepted_value:
  assumes "(ts, chk) \<in> set sdt_type_checks" "t \<in> set ts" "chk v = None"
  shows "sdt_value t v"
  using assms sdt_rows_sound by (fastforce simp: list_all_iff row_sound_def)

lemma sdt_validate_attr_type_iff: "sdt_validate_attr_type t v = None \<longleftrightarrow> sdt_value t v"
proof
  assume "sdt_validate_attr_type t v = None"
  then obtain ts chk where "find (\<lambda>(ts, chk). t \<in> set ts) sdt_type_checks = Some (ts, chk)" "chk v = None"
    by (auto simp: sdt_validate_attr_type_def split: option.splits)
  moreover from this(1) have "(ts, chk) \<in> set sdt_type_checks" "t \<in> set ts" by (auto simp: find_Some_iff) (metis nth_mem)
  ultimately show "sdt_value t v" using sdt_accepted_value by blast
qed (rule sdt_value_accepted)

text \<open>
  What the schema asks of an attribute of a new resource: the first definition of its name has no type or the type the value
  belongs to, and an attribute of cardinality one is not null.
\<close>

definition fits_definition :: "cjson \<Rightarrow> cjson \<Rightarrow> bool" where
  "fits_definition d v \<longleftrightarrow>
     (\<forall>t. string_member d ''type'' = Some t \<longrightarrow> sdt_value t v) \<and>
     (string_member d ''car'' = Some ''1'' \<or> string_member d ''car'' = Some ''1N'' \<longrightarrow> v \<noteq> JNull)"

lemma attr_error_iff: "attr_error OP_CREATE d v = None \<longleftrightarrow> fits_definition d v"
proof -
  have "cJSON_IsNull (Some v) \<longleftrightarrow> v = JNull" by (cases v) (simp_all add: cJSON_IsNull_def)
  then show ?thesis
    by (cases "string_member d ''type''"; cases "sdt_validate_attr_type (the (string_member d ''type'')) v")
      (auto simp: attr_error_def fits_definition_def simp flip: sdt_validate_attr_type_iff)
qed

definition accepted_attr :: "cjson list \<Rightarrow> string \<Rightarrow> cjson \<Rightarrow> bool" where
  "accepted_attr ds name v \<longleftrightarrow>
     (\<exists>d. find (\<lambda>d. string_member d ''sname'' = Some name) ds = Some d \<and> fits_definition d v)"

lemma custom_error_iff:
  "schema_typed ds \<Longrightarrow> \<exists>e. custom_error OP_CREATE ds (map (\<lambda>(k, v). (Some k, v)) kvs) = Some e \<and>
     (e = None \<longleftrightarrow> (\<forall>(k, v) \<in> set kvs. accepted_attr ds k v))"
proof (induction kvs)
  case (Cons kv kvs)
  obtain k v where kv: "kv = (k, v)" by (cases kv)
  from Cons obtain e where e: "custom_error OP_CREATE ds (map (\<lambda>(k, v). (Some k, v)) kvs) = Some e"
    "e = None \<longleftrightarrow> (\<forall>(k, v) \<in> set kvs. accepted_attr ds k v)" by blast
  show ?case
  proof (cases "accepted_attr ds k v")
    case True
    then obtain d where "find (\<lambda>d. string_member d ''sname'' = Some k) ds = Some d" "attr_error OP_CREATE d v = None"
      by (auto simp: accepted_attr_def attr_error_iff)
    with e kv True show ?thesis by (simp add: match_attr_find [OF Cons.prems])
  next
    case False
    with kv show ?thesis
      by (auto simp: match_attr_find [OF Cons.prems] accepted_attr_def simp flip: attr_error_iff split: option.splits)
  qed
qed simp

definition mandatory_given :: "cjson \<Rightarrow> cjson \<Rightarrow> bool" where
  "mandatory_given c d \<longleftrightarrow>
     (\<forall>n. string_member d ''sname'' = Some n \<longrightarrow> string_member d ''oc'' = Some ''M'' \<longrightarrow> cJSON_GetObjectItem (Some c) n \<noteq> None)"

lemma missing_error_iff:
  "schema_typed ds \<Longrightarrow> \<exists>e. missing_error ds (Some c) = Some e \<and> (e = None \<longleftrightarrow> (\<forall>d \<in> set ds. mandatory_given c d))"
proof (induction ds)
  case (Cons d ds)
  then obtain s where s: "cJSON_GetObjectItem (Some d) ''sname'' = Some (JString s)"
    and oc: "cJSON_GetObjectItem (Some d) ''oc'' = None \<or> (\<exists>s. cJSON_GetObjectItem (Some d) ''oc'' = Some (JString s))"
    by (auto simp: schema_typed_def)
  from Cons obtain e where e: "missing_error ds (Some c) = Some e" "e = None \<longleftrightarrow> (\<forall>d \<in> set ds. mandatory_given c d)"
    by (auto simp: schema_typed_def)
  show ?case
  proof (cases "cJSON_GetObjectItem (Some d) ''oc'' = Some (JString ''M'')")
    case True
    then have "mandatory_given c d \<longleftrightarrow> cJSON_GetObjectItem (Some c) s \<noteq> None"
      using s by (simp add: mandatory_given_def string_member_def)
    with True s e show ?thesis by simp
  next
    case False
    then have "mandatory_given c d" using oc by (auto simp: mandatory_given_def string_member_def)
    moreover have "missing_error (d # ds) (Some c) = missing_error ds (Some c)" using False oc s by auto
    ultimately show ?thesis using e by simp
  qed
qed simp


definition ex_sdt :: sdtdef where
  "ex_sdt = \<lparr>sd_type = Some ''cod:binSh'', sd_cnd = Some ''org.x.binarySwitch'', sd_lname = None, sd_sdttype = None,
     sd_attributes = Some (JArray [JObject [(''sname'', JString ''powSe''), (''type'', JString ''boolean''), (''oc'', JString ''M'')]]),
     sd_children = None\<rparr>"


end
