(* ===== verification/MissingData.thy ===== *)
theory MissingData
  imports Prelude
begin

text \<open>
  The missing-data state of \<^verbatim>\<open>monitor.c\<close>: the deadline of every time series that receives instances,
  the running total of missing points of every time series, and the notification window of
  every subscription. The three linked lists are association lists with the newest entry
  first; an entry keeps the first 255 characters of its identifier. The locks around them are
  not modelled: each function is one critical section.

  The functions are followed by the abstract window of TS-0001 10.2.39 and the proof that the
  counters implement it.
\<close>

section \<open>State\<close>

definition in_llong :: "int \<Rightarrow> bool" where
  "in_llong n \<longleftrightarrow> - 9223372036854775808 \<le> n \<and> n \<le> 9223372036854775807"

text \<open>A result of type \<^verbatim>\<open>long long\<close>: undefined outside the range.\<close>

definition ll :: "int \<Rightarrow> int option" where
  "ll n = (if in_llong n then Some n else None)"

lemma ll_Some [simp]: "ll n = Some m \<longleftrightarrow> m = n \<and> in_llong n"
  by (auto simp: ll_def)

record md_cursor =
  deadline_us :: int
  expected_dgt_us :: int

record md_window =
  reported :: int
  window_start_us :: int

record md_state =
  md_cursors :: "(string \<times> md_cursor) list"
  md_totals :: "(string \<times> int) list"
  md_windows :: "(string \<times> md_window) list"

definition md_init :: md_state where
  "md_init = \<lparr>md_cursors = [], md_totals = [], md_windows = []\<rparr>"

fun set_entry :: "(string \<times> 'a) list \<Rightarrow> string \<Rightarrow> 'a \<Rightarrow> (string \<times> 'a) list" where
  "set_entry [] ri v = []"
| "set_entry ((k, x) # es) ri v = (if k = ri then (k, v) # es else (k, x) # set_entry es ri v)"

definition put_entry :: "(string \<times> 'a) list \<Rightarrow> string \<Rightarrow> 'a \<Rightarrow> (string \<times> 'a) list" where
  "put_entry es ri v = (if map_of es ri = None then (take 255 ri, v) # es else set_entry es ri v)"

fun forget_entry :: "(string \<times> 'a) list \<Rightarrow> string \<Rightarrow> (string \<times> 'a) list" where
  "forget_entry [] ri = []"
| "forget_entry ((k, x) # es) ri = (if k = ri then es else (k, x) # forget_entry es ri)"

section \<open>Deadlines\<close>

definition ts_forget_missing_total :: "md_state \<Rightarrow> string option \<Rightarrow> md_state" where
  "ts_forget_missing_total m ri =
     (case ri of None \<Rightarrow> m | Some ri \<Rightarrow> m\<lparr>md_totals := forget_entry (md_totals m) ri\<rparr>)"

definition ts_md_arm :: "md_state \<Rightarrow> string option \<Rightarrow> int \<Rightarrow> int \<Rightarrow> md_state" where
  "ts_md_arm m ri deadline expected =
     (case ri of
        None \<Rightarrow> m
      | Some ri \<Rightarrow>
          m\<lparr>md_cursors := put_entry (md_cursors m) ri \<lparr>deadline_us = deadline, expected_dgt_us = expected\<rparr>\<rparr>)"

definition ts_md_disarm :: "md_state \<Rightarrow> string option \<Rightarrow> md_state" where
  "ts_md_disarm m ri =
     (case ri of
        None \<Rightarrow> m
      | Some r \<Rightarrow> ts_forget_missing_total (m\<lparr>md_cursors := forget_entry (md_cursors m) r\<rparr>) ri)"

definition ts_md_is_armed :: "md_state \<Rightarrow> string option \<Rightarrow> bool" where
  "ts_md_is_armed m ri = (case ri of None \<Rightarrow> False | Some ri \<Rightarrow> map_of (md_cursors m) ri \<noteq> None)"

definition ts_md_any_armed :: "md_state \<Rightarrow> bool" where
  "ts_md_any_armed m \<longleftrightarrow> md_cursors m \<noteq> []"

text \<open>\<^verbatim>\<open>ts_md_clear_all\<close> keeps the windows of the subscriptions.\<close>

definition ts_md_clear_all :: "md_state \<Rightarrow> md_state" where
  "ts_md_clear_all m = m\<lparr>md_cursors := [], md_totals := []\<rparr>"

definition ts_md_take_due :: "md_state \<Rightarrow> string option \<Rightarrow> int \<Rightarrow> int \<Rightarrow> (int option \<times> md_state) option" where
  "ts_md_take_due m ri now pei =
     (case ri of
        None \<Rightarrow> Some (None, m)
      | Some ri \<Rightarrow>
          if pei \<le> 0 then Some (None, m)
          else (case map_of (md_cursors m) ri of
                  None \<Rightarrow> Some (None, m)
                | Some c \<Rightarrow>
                    if 0 < deadline_us c \<and> deadline_us c \<le> now
                    then do {
                      d \<leftarrow> ll (deadline_us c + pei);
                      e \<leftarrow> ll (expected_dgt_us c + pei);
                      Some (Some (expected_dgt_us c),
                            m\<lparr>md_cursors := set_entry (md_cursors m) ri \<lparr>deadline_us = d, expected_dgt_us = e\<rparr>\<rparr>) }
                    else Some (None, m)))"

section \<open>Running totals\<close>

text \<open>The totals count events of this process and stay far below the range of \<^verbatim>\<open>long long\<close>.\<close>

definition total_of :: "md_state \<Rightarrow> string \<Rightarrow> int" where
  "total_of m ri = (case map_of (md_totals m) ri of None \<Rightarrow> 0 | Some t \<Rightarrow> t)"

definition ts_add_missing_total :: "md_state \<Rightarrow> string option \<Rightarrow> int \<Rightarrow> int \<times> md_state" where
  "ts_add_missing_total m ri n =
     (case ri of
        None \<Rightarrow> (0, m)
      | Some ri \<Rightarrow>
          if n \<le> 0 then (0, m)
          else (let t = total_of m ri + n in (t, m\<lparr>md_totals := put_entry (md_totals m) ri t\<rparr>)))"

definition ts_get_missing_total :: "md_state \<Rightarrow> string option \<Rightarrow> int" where
  "ts_get_missing_total m ri = (case ri of None \<Rightarrow> 0 | Some ri \<Rightarrow> total_of m ri)"

section \<open>Notification windows\<close>

text \<open>The entry of a subscription; \<^verbatim>\<open>calloc\<close> makes a new one zero.\<close>

definition md_entry :: "md_state \<Rightarrow> string \<Rightarrow> md_window" where
  "md_entry m sub_ri =
     (case map_of (md_windows m) sub_ri of None \<Rightarrow> \<lparr>reported = 0, window_start_us = 0\<rparr> | Some w \<Rightarrow> w)"

text \<open>A window that ran out: its points are discarded and it is closed.\<close>

definition close_expired :: "md_window \<Rightarrow> int \<Rightarrow> int \<Rightarrow> int \<Rightarrow> md_window" where
  "close_expired w known dur now =
     (if 0 < window_start_us w \<and> 0 < dur \<and> dur < now - window_start_us w
      then \<lparr>reported = (if 0 < known - reported w then known else reported w), window_start_us = 0\<rparr>
      else w)"

definition md_window_take ::
  "md_state \<Rightarrow> string option \<Rightarrow> int \<Rightarrow> int \<Rightarrow> int \<Rightarrow> int \<Rightarrow> int \<Rightarrow> int \<times> int \<times> md_state" where
  "md_window_take m sub_ri ts_total new_count num dur now =
     (case sub_ri of
        None \<Rightarrow> (0, 0, m)
      | Some ri \<Rightarrow>
          if num \<le> 0 then (0, 0, m)
          else (let w = close_expired (md_entry m ri) (ts_total - new_count) dur now;
                    w = (if window_start_us w = 0 then w\<lparr>window_start_us := now\<rparr> else w);
                    save = (\<lambda>w. m\<lparr>md_windows := put_entry (md_windows m) ri w\<rparr>)
                in if num \<le> ts_total - reported w
                   then (num, reported w, save \<lparr>reported = reported w + num, window_start_us = 0\<rparr>)
                   else (0, 0, save w)))"

definition md_pending :: "md_state \<Rightarrow> string option \<Rightarrow> int \<Rightarrow> int" where
  "md_pending m sub_ri ts_total =
     (case sub_ri of None \<Rightarrow> 0 | Some ri \<Rightarrow> max 0 (ts_total - reported (md_entry m ri)))"

definition md_forget :: "md_state \<Rightarrow> string option \<Rightarrow> md_state" where
  "md_forget m sub_ri =
     (case sub_ri of None \<Rightarrow> m | Some ri \<Rightarrow> m\<lparr>md_windows := forget_entry (md_windows m) ri\<rparr>)"

section \<open>Association lists\<close>

text \<open>Identifiers of at most 255 characters are kept whole; the CSE makes shorter ones.\<close>

definition short_ri :: "string \<Rightarrow> bool" where
  "short_ri ri \<longleftrightarrow> length ri \<le> 255"

lemma map_of_set_entry: "map_of es ri \<noteq> None \<Longrightarrow> map_of (set_entry es ri v) = (map_of es)(ri \<mapsto> v)"
  by (induction es) (auto simp: fun_eq_iff)

lemma map_of_put_entry [simp]: "short_ri ri \<Longrightarrow> map_of (put_entry es ri v) = (map_of es)(ri \<mapsto> v)"
  by (auto simp: put_entry_def short_ri_def map_of_set_entry)

lemma distinct_set_entry [simp]: "map fst (set_entry es ri v) = map fst es"
  by (induction es) auto

lemma distinct_put_entry: "short_ri ri \<Longrightarrow> distinct (map fst es) \<Longrightarrow> distinct (map fst (put_entry es ri v))"
  by (auto simp: put_entry_def short_ri_def map_of_eq_None_iff)

lemma set_forget_entry: "set (forget_entry es ri) \<subseteq> set es"
  by (induction es) (auto split: if_splits)

lemma distinct_forget_entry: "distinct (map fst es) \<Longrightarrow> distinct (map fst (forget_entry es ri))"
  using set_forget_entry by (induction es) force+

lemma map_of_forget_entry: "distinct (map fst es) \<Longrightarrow> map_of (forget_entry es ri) = (map_of es)(ri := None)"
proof (induction es)
  case (Cons e es)
  then show ?case by (cases e) (auto simp: fun_eq_iff map_of_eq_None_iff)
qed simp

lemma md_entry_put [simp]:
  "short_ri ri \<Longrightarrow> md_entry (m\<lparr>md_windows := put_entry (md_windows m) ri w\<rparr>) rj = (if rj = ri then w else md_entry m rj)"
  by (simp add: md_entry_def)

section \<open>The window of the specification\<close>

text \<open>
  A window opens with the first missing point, closes without a notification when \<open>dur\<close> has
  passed, and gives one notification when it holds \<open>num\<close> points.
\<close>

type_synonym window = "int option \<times> int"

definition live :: "int \<Rightarrow> int \<Rightarrow> window \<Rightarrow> window" where
  "live dur now w =
     (case fst w of Some t \<Rightarrow> if 0 < dur \<and> dur < now - t then (None, 0) else w | None \<Rightarrow> w)"

definition window_step :: "int \<Rightarrow> int \<Rightarrow> int \<Rightarrow> window \<Rightarrow> bool \<times> window" where
  "window_step num dur now w =
     (let (opened, n) = live dur now w
      in if num \<le> n + 1 then (True, None, n + 1 - num)
         else (False, Some (case opened of None \<Rightarrow> now | Some t \<Rightarrow> t), n + 1))"

text \<open>The interface of a window: its state can be anything that steps as the specification says.\<close>

locale notification_window =
  fixes inv :: "'s \<Rightarrow> bool"
    and num :: "'s \<Rightarrow> int"
    and dur :: "'s \<Rightarrow> int"
    and view :: "'s \<Rightarrow> window"
    and point :: "int \<Rightarrow> 's \<Rightarrow> bool \<times> 's"
  assumes inv_point: "inv s \<Longrightarrow> 0 < now \<Longrightarrow> inv (snd (point now s))"
    and inv_count: "inv s \<Longrightarrow> 0 \<le> snd (view s) \<and> snd (view s) < num s"
    and settings: "num (snd (point now s)) = num s" "dur (snd (point now s)) = dur s"
    and implements: "inv s \<Longrightarrow> 0 < now \<Longrightarrow>
      window_step (num s) (dur s) now (view s) = (fst (point now s), view (snd (point now s)))"
begin

fun points :: "int list \<Rightarrow> 's \<Rightarrow> bool list \<times> 's" where
  "points [] s = ([], s)"
| "points (t # ts) s = (let (b, s') = point t s; (bs, s'') = points ts s' in (b # bs, s''))"

lemma points_inv: "inv s \<Longrightarrow> \<forall>t\<in>set ts. 0 < t \<Longrightarrow> inv (snd (points ts s)) \<and> num (snd (points ts s)) = num s"
proof (induction ts arbitrary: s)
  case (Cons t ts)
  then show ?case using inv_point [of s t] settings [of t s] by (auto simp: case_prod_beta Let_def)
qed simp

text \<open>Points that fall into an open window are counted up to the notification.\<close>

lemma open_window_fills:
  assumes "inv s" "\<forall>t\<in>set ts. 0 < t \<and> (0 < dur s \<longrightarrow> t - t0 \<le> dur s)" "fst (view s) = Some t0"
    and "int (length ts) = num s - snd (view s)" "ts \<noteq> []"
  shows "fst (points ts s) = replicate (length ts - 1) False @ [True] \<and> view (snd (points ts s)) = (None, 0)"
  using assms
proof (induction ts arbitrary: s)
  case (Cons t ts)
  let ?s = "snd (point t s)"
  have "live (dur s) t (view s) = view s" using Cons.prems(2,3) by (auto simp: live_def)
  then have st: "(fst (point t s), view ?s) =
      (if num s \<le> snd (view s) + 1 then (True, None, snd (view s) + 1 - num s) else (False, Some t0, snd (view s) + 1))"
    using implements [of s t] Cons.prems(1-3) by (cases "view s") (auto simp: window_step_def split: if_splits)
  show ?case
  proof (cases ts)
    case Nil
    then show ?thesis using st Cons.prems(4) by (simp add: case_prod_beta Let_def)
  next
    case (Cons u us)
    have "fst (points ts ?s) = replicate (length ts - 1) False @ [True] \<and> view (snd (points ts ?s)) = (None, 0)"
      using Cons.IH [of ?s] Cons.prems st Cons inv_point [of s t] settings [of t s] by (auto split: if_splits)
    then show ?thesis using st Cons Cons.prems(4) by (simp add: case_prod_beta Let_def split: if_splits)
  qed
qed simp

text \<open>\<open>num\<close> points within \<open>dur\<close> of the first give one notification, with the last of them.\<close>

lemma burst_notifies:
  assumes "inv s" "view s = (None, 0)" "ts \<noteq> []" "int (length ts) = num s"
    and "\<forall>t\<in>set ts. 0 < t \<and> (0 < dur s \<longrightarrow> t - hd ts \<le> dur s)"
  shows "fst (points ts s) = replicate (length ts - 1) False @ [True] \<and> view (snd (points ts s)) = (None, 0)"
proof -
  obtain t us where ts: "ts = t # us" using assms(3) by (cases ts) auto
  have st: "(fst (point t s), view (snd (point t s))) = (if num s \<le> 1 then (True, None, 1 - num s) else (False, Some t, 1))"
    using implements [of s t] assms ts by (auto simp: window_step_def live_def split: if_splits)
  show ?thesis
  proof (cases "us = []")
    case True
    then show ?thesis using st assms(4) ts by (simp add: case_prod_beta Let_def)
  next
    case False
    moreover have n: "\<not> num s \<le> 1" using False assms(4) ts by (cases us) auto
    ultimately have "fst (points us (snd (point t s))) = replicate (length us - 1) False @ [True] \<and>
        view (snd (points us (snd (point t s)))) = (None, 0)"
      using open_window_fills [of "snd (point t s)" us t] inv_point [of s t] settings [of t s] st assms ts
      by (auto split: if_splits)
    then show ?thesis using st n False ts by (cases us) (auto simp: case_prod_beta Let_def)
  qed
qed

end

section \<open>The counters implement the window\<close>

record sub_view =
  v_md :: md_state
  v_total :: int
  v_ri :: string
  v_num :: int
  v_dur :: int

definition window_of :: "sub_view \<Rightarrow> window" where
  "window_of s =
     (let w = md_entry (v_md s) (v_ri s)
      in (if window_start_us w = 0 then None else Some (window_start_us w), v_total s - reported w))"

text \<open>The counters of a subscription that has no more than \<open>num - 1\<close> points pending.\<close>

definition sub_inv :: "sub_view \<Rightarrow> bool" where
  "sub_inv s \<longleftrightarrow>
     short_ri (v_ri s) \<and> 0 < v_num s \<and> 0 \<le> window_start_us (md_entry (v_md s) (v_ri s)) \<and>
     0 \<le> snd (window_of s) \<and> snd (window_of s) < v_num s"

text \<open>One missing point: the total of the time series grows and the subscription accounts for it.\<close>

definition missing_point :: "int \<Rightarrow> sub_view \<Rightarrow> int \<times> int \<times> sub_view" where
  "missing_point now s =
     (let (batch, told, m) = md_window_take (v_md s) (Some (v_ri s)) (v_total s + 1) 1 (v_num s) (v_dur s) now
      in (batch, told, s\<lparr>v_md := m, v_total := v_total s + 1\<rparr>))"

definition notified :: "int \<Rightarrow> sub_view \<Rightarrow> bool \<times> sub_view" where
  "notified now s = (let (batch, _, s) = missing_point now s in (0 < batch, s))"

lemma notified_settings:
  "v_num (snd (notified now s)) = v_num s" "v_dur (snd (notified now s)) = v_dur s" "v_ri (snd (notified now s)) = v_ri s"
  "v_total (snd (notified now s)) = v_total s + 1"
  by (simp_all add: notified_def missing_point_def case_prod_beta Let_def)

lemma notified_implements:
  assumes "sub_inv s" "0 < now"
  shows "window_step (v_num s) (v_dur s) now (window_of s) = (fst (notified now s), window_of (snd (notified now s)))"
  using assms
  by (auto simp: sub_inv_def window_of_def notified_def missing_point_def md_window_take_def close_expired_def
      window_step_def live_def Let_def case_prod_beta)

lemma notified_inv:
  assumes "sub_inv s" "0 < now"
  shows "sub_inv (snd (notified now s))"
  using assms
  by (auto simp: sub_inv_def window_of_def notified_def missing_point_def md_window_take_def close_expired_def
      Let_def case_prod_beta)

interpretation md: notification_window sub_inv v_num v_dur window_of notified
  by unfold_locales (simp_all add: notified_implements notified_inv notified_settings, simp add: sub_inv_def)

text \<open>
  C15. The counters refine the window of the specification. For a subscription that has fewer
  than \<open>num\<close> points pending, accounting for one more missing point notifies exactly when the
  window of the specification does, the counters afterwards represent the window after that
  step, and a notification carries \<open>num\<close> points that follow the ones already reported.
\<close>

theorem md_window_refines:
  assumes "sub_inv s" "0 < now"
    and "md_window_take (v_md s) (Some (v_ri s)) (v_total s + 1) 1 (v_num s) (v_dur s) now = (batch, told, m)"
  shows "window_step (v_num s) (v_dur s) now (window_of s) = (0 < batch, window_of (s\<lparr>v_md := m, v_total := v_total s + 1\<rparr>)) \<and>
    sub_inv (s\<lparr>v_md := m, v_total := v_total s + 1\<rparr>) \<and>
    (0 < batch \<longrightarrow> batch = v_num s \<and> reported (md_entry (v_md s) (v_ri s)) \<le> told \<and> told + batch \<le> v_total s + 1 \<and>
      reported (md_entry m (v_ri s)) = told + batch)"
proof -
  have n: "notified now s = (0 < batch, s\<lparr>v_md := m, v_total := v_total s + 1\<rparr>)"
    using assms(3) by (simp add: notified_def missing_point_def)
  have "batch = v_num s \<and> reported (md_entry (v_md s) (v_ri s)) \<le> told \<and> told + batch \<le> v_total s + 1 \<and>
      reported (md_entry m (v_ri s)) = told + batch" if "0 < batch"
    using assms that
    by (auto simp: md_window_take_def close_expired_def sub_inv_def window_of_def Let_def split: if_splits)
  then show ?thesis
    using notified_implements [OF assms(1,2)] notified_inv [OF assms(1,2)] n by simp
qed

definition ex_sub_view :: sub_view where
  "ex_sub_view = \<lparr>v_md = md_init, v_total = 0, v_ri = ''sub1'', v_num = 3, v_dur = 100\<rparr>"

lemma ex_sub_view_inv: "sub_inv ex_sub_view" "window_of ex_sub_view = (None, 0)"
  by (simp_all add: sub_inv_def ex_sub_view_def window_of_def md_entry_def md_init_def short_ri_def)

theorem md_window_refines_witness:
  "\<exists>m. md_window_take md_init (Some ''sub1'') 1 1 3 100 50 = (0, 0, m) \<and>
     window_step 3 100 50 (None, 0) = (False, window_of (ex_sub_view\<lparr>v_md := m, v_total := 1\<rparr>))"
proof -
  obtain m where m: "md_window_take md_init (Some ''sub1'') 1 1 3 100 50 = (0, 0, m)"
    by (simp add: md_window_take_def md_init_def md_entry_def close_expired_def)
  then show ?thesis
    using md_window_refines [OF ex_sub_view_inv(1), of 50 0 0 m] ex_sub_view_inv(2) by (simp add: ex_sub_view_def)
qed

text \<open>
  Missing data is notified. When a subscription with no open window sees as many missing
  points as it asked for within the duration of the window (a duration of 0 is no bound), it
  is notified with the last of them and not before.
\<close>

theorem md_burst_notifies:
  assumes "sub_inv s" "window_of s = (None, 0)" "int (length ts) = v_num s"
    and "\<forall>t\<in>set ts. 0 < t \<and> (0 < v_dur s \<longrightarrow> t - hd ts \<le> v_dur s)"
  shows "fst (md.points ts s) = replicate (length ts - 1) False @ [True]"
proof -
  have "ts \<noteq> []" using assms(1,3) by (auto simp: sub_inv_def)
  then show ?thesis using md.burst_notifies [OF assms(1,2) _ assms(3,4)] by blast
qed

theorem md_burst_notifies_witness: "fst (md.points [10, 60, 110] ex_sub_view) = [False, False, True]"
  using md_burst_notifies [OF ex_sub_view_inv, of "[10, 60, 110]"] by (simp add: ex_sub_view_def)

text \<open>
  A new subscription counts old points. The first missing point after a subscription is
  created notifies it whenever the time series had lost \<open>num\<close> points at any time before, and
  the batch starts with the first point that was ever lost.
\<close>

theorem md_new_subscription_counts_old_points:
  assumes "map_of (md_windows m) ri = None" "0 < num" "num \<le> lost"
  shows "\<exists>m'. md_window_take m (Some ri) lost 1 num dur now = (num, 0, m')"
  using assms by (simp add: md_window_take_def md_entry_def close_expired_def Let_def)

theorem md_new_subscription_counts_old_points_witness:
  "\<exists>m'. md_window_take md_init (Some ''sub2'') 8 1 3 100 50 = (3, 0, m')"
  using md_new_subscription_counts_old_points [of md_init "''sub2''" 3 8 100 50] by (simp add: md_init_def)

section \<open>Deadlines that pass\<close>

text \<open>The ticks of the monitoring thread for one time series: the generation times it reports.\<close>

fun ticks :: "md_state \<Rightarrow> string \<Rightarrow> int \<Rightarrow> int list \<Rightarrow> (int list \<times> md_state) option" where
  "ticks m ri pei [] = Some ([], m)"
| "ticks m ri pei (now # ts) =
     do {
       (r, m) \<leftarrow> ts_md_take_due m (Some ri) now pei;
       (rs, m) \<leftarrow> ticks m ri pei ts;
       Some (case r of None \<Rightarrow> rs | Some e \<Rightarrow> e # rs, m) }"

definition slots :: "int \<Rightarrow> int \<Rightarrow> nat \<Rightarrow> int list" where
  "slots e pei n = map (\<lambda>i. e + int i * pei) [0..<n]"

lemma slots_Suc: "slots e pei (Suc n) = e # slots (e + pei) pei n"
  by (simp add: slots_def upt_conv_Cons map_Suc_upt [symmetric] algebra_simps del: upt_Suc)

lemma in_llong_mono: "in_llong a \<Longrightarrow> in_llong c \<Longrightarrow> a \<le> b \<Longrightarrow> b \<le> c \<Longrightarrow> in_llong b"
  by (simp add: in_llong_def)

lemma ticks_slots:
  assumes "map_of (md_cursors m) ri = Some \<lparr>deadline_us = d, expected_dgt_us = e\<rparr>" "0 < d" "0 < pei"
    and "in_llong d" "in_llong e" "in_llong (d + int (length ts) * pei)" "in_llong (e + int (length ts) * pei)"
    and "\<forall>t\<in>set ts. now \<le> t"
  shows "\<exists>n m'. ticks m ri pei ts = Some (slots e pei n, m') \<and>
    map_of (md_cursors m') ri = Some \<lparr>deadline_us = d + int n * pei, expected_dgt_us = e + int n * pei\<rparr> \<and>
    (n = length ts \<or> now < d + int n * pei)"
  using assms
proof (induction ts arbitrary: m d e)
  case Nil
  then show ?case by (intro exI [of _ 0]) (simp add: slots_def)
next
  case (Cons t ts)
  show ?case
  proof (cases "d \<le> t")
    case True
    let ?m = "m\<lparr>md_cursors := set_entry (md_cursors m) ri \<lparr>deadline_us = d + pei, expected_dgt_us = e + pei\<rparr>\<rparr>"
    have p: "pei \<le> int (length (t # ts)) * pei" using Cons.prems(3) by (simp add: distrib_right)
    have b: "in_llong (d + pei)" "in_llong (e + pei)"
      using in_llong_mono [OF Cons.prems(4,6), of "d + pei"] in_llong_mono [OF Cons.prems(5,7), of "e + pei"] Cons.prems(3) p
      by simp_all
    have "\<exists>n m'. ticks ?m ri pei ts = Some (slots (e + pei) pei n, m') \<and>
      map_of (md_cursors m') ri = Some \<lparr>deadline_us = (d + pei) + int n * pei, expected_dgt_us = (e + pei) + int n * pei\<rparr> \<and>
      (n = length ts \<or> now < (d + pei) + int n * pei)"
      using Cons.prems b by (intro Cons.IH) (simp_all add: map_of_set_entry algebra_simps)
    then obtain n m' where n: "ticks ?m ri pei ts = Some (slots (e + pei) pei n, m')"
      "map_of (md_cursors m') ri = Some \<lparr>deadline_us = (d + pei) + int n * pei, expected_dgt_us = (e + pei) + int n * pei\<rparr>"
      "n = length ts \<or> now < (d + pei) + int n * pei" by blast
    have "ticks m ri pei (t # ts) = Some (slots e pei (Suc n), m')"
      using True Cons.prems(1-3) b n(1) by (simp add: ts_md_take_due_def slots_Suc ll_def)
    then show ?thesis using n(2,3) by (intro exI [of _ "Suc n"] exI [of _ m']) (auto simp: algebra_simps)
  next
    case False
    have "in_llong (d + int (length ts) * pei)" "in_llong (e + int (length ts) * pei)"
      using in_llong_mono [OF Cons.prems(4,6)] in_llong_mono [OF Cons.prems(5,7)] Cons.prems(3)
      by (simp_all add: algebra_simps)
    with Cons obtain n m' where n: "ticks m ri pei ts = Some (slots e pei n, m')"
      "map_of (md_cursors m') ri = Some \<lparr>deadline_us = d + int n * pei, expected_dgt_us = e + int n * pei\<rparr>" by fastforce
    have "ticks m ri pei (t # ts) = Some (slots e pei n, m')"
      using False Cons.prems(1,3) n(1) by (simp add: ts_md_take_due_def)
    moreover have "0 \<le> int n * pei" "now \<le> t" using Cons.prems(3,8) by simp_all
    then have "now < d + int n * pei" using False by linarith
    ultimately show ?thesis using n(2) by blast
  qed
qed

text \<open>
  C16. A sender that stops is noticed. Let the deadline of a time series be armed. Once the
  monitoring thread has made as many ticks at or after a time as there are deadlines up to it,
  the next deadline lies after that time; the generation times reported are those of
  consecutive slots of the grid, none twice and none left out.
\<close>

theorem monitor_catches_up:
  assumes "map_of (md_cursors m) ri = Some \<lparr>deadline_us = d, expected_dgt_us = e\<rparr>" "0 < d" "0 < pei"
    and "in_llong d" "in_llong e" "in_llong (d + int (length ts) * pei)" "in_llong (e + int (length ts) * pei)"
    and "\<forall>t\<in>set ts. now \<le> t" "(now - d) div pei < int (length ts)"
  shows "\<exists>n m'. ticks m ri pei ts = Some (slots e pei n, m') \<and>
    map_of (md_cursors m') ri = Some \<lparr>deadline_us = d + int n * pei, expected_dgt_us = e + int n * pei\<rparr> \<and>
    now < d + int n * pei"
proof -
  have "now < d + int (length ts) * pei"
    using assms(3,9) by (metis add.commute diff_less_eq not_le pos_imp_zdiv_neg_iff zdiv_mono1 nonzero_mult_div_cancel_right less_le)
  then show ?thesis using ticks_slots [OF assms(1-8)] by blast
qed

theorem monitor_catches_up_witness:
  "\<exists>m'. ticks (ts_md_arm md_init (Some ''ts1'') 1000 500) ''ts1'' 100 [1150, 1150, 1160] = Some (slots 500 100 2, m')"
proof -
  let ?m = "ts_md_arm md_init (Some ''ts1'') 1000 500"
  have "map_of (md_cursors ?m) ''ts1'' = Some \<lparr>deadline_us = 1000, expected_dgt_us = 500\<rparr>"
    by (simp add: ts_md_arm_def md_init_def put_entry_def)
  from monitor_catches_up [OF this, of 100 "[1150, 1150, 1160]" 1150]
  obtain n m' where n: "ticks ?m ''ts1'' 100 [1150, 1150, 1160] = Some (slots 500 100 n, m')"
    by (auto simp: in_llong_def)
  moreover have "\<exists>m'. ticks ?m ''ts1'' 100 [1150, 1150, 1160] = Some ([500, 600], m')"
    by (simp add: ts_md_arm_def md_init_def put_entry_def ts_md_take_due_def ll_def in_llong_def)
  ultimately show ?thesis by (auto simp: slots_def numeral_2_eq_2)
qed

end
