(* ===== verification/ResourceTree.thy ===== *)
theory ResourceTree
  imports Primitive Sdt MissingData
begin

text \<open>
  The resource tree of \<^verbatim>\<open>onem2m.h\<close>, \<^verbatim>\<open>onem2m.c\<close> and \<^verbatim>\<open>rtManager.c\<close> as a heap of nodes.

  A \<^verbatim>\<open>RTNode\<close> is a value of the record \<open>rtnode\<close> (field prefix \<open>n_\<close>) stored at an address; a
  pointer is \<open>addr option\<close> with \<open>None\<close> for null; reading or writing through a null or freed
  pointer is undefined (\<open>None\<close> in the option monad). The cells of a \<^verbatim>\<open>NodeList\<close> are owned by
  the list they are in, so a \<^verbatim>\<open>NodeList *\<close> is a list of (node, uri) pairs. Loops and
  recursion over pointers are \<open>partial_function (option)\<close>; that they terminate on well-formed
  trees is proved in the theory \<open>TreeInvariant\<close>.

  The state \<open>cse\<close> holds the heap, the global \<^verbatim>\<open>ResourceTree\<close> \<^verbatim>\<open>rt\<close>, the counter of
  \<^verbatim>\<open>resource_identifier\<close> and the database. The database behind \<^verbatim>\<open>dbmanager.h\<close> (PostgreSQL or
  SQLite) and the clock are parameters, the fields of the record \<open>env\<close>.
\<close>

section \<open>Heap\<close>

type_synonym addr = nat
type_synonym ptr = "addr option"
type_synonym nodelist = "(addr \<times> string) list"

record rtnode =
  n_parent :: ptr
  n_child :: ptr
  n_subs :: nodelist
  n_memberOf :: "cjson option"
  n_sibling_left :: ptr
  n_sibling_right :: ptr
  n_rn :: "string option"
  n_uri :: "string option"
  n_sub_cnt :: int
  n_ty :: int
  n_obj :: "cjson option"
  n_obj_string :: "string option"

text \<open>
  \<open>n_obj_string\<close> is the field \<^verbatim>\<open>string\<close> of the object, the name it had in the request it was taken
  from. Only the code of flexContainers reads it, and only theirs is recorded.
\<close>

type_synonym heap = "addr \<rightharpoonup> rtnode"

definition deref :: "heap \<Rightarrow> ptr \<Rightarrow> rtnode option" where
  "deref h p = Option.bind p h"

lemma deref_simps [simp]: "deref h None = None" "deref h (Some a) = h a"
  by (simp_all add: deref_def)

text \<open>\<^verbatim>\<open>p->field = v\<close>.\<close>

definition upd :: "heap \<Rightarrow> addr \<Rightarrow> (rtnode \<Rightarrow> rtnode) \<Rightarrow> heap option" where
  "upd h a f = map_option (\<lambda>n. h(a \<mapsto> f n)) (h a)"

lemma upd_Some [simp]: "h a = Some n \<Longrightarrow> upd h a f = Some (h(a \<mapsto> f n))"
  by (simp add: upd_def)

text \<open>\<^verbatim>\<open>if (p) p->field = v\<close>.\<close>

definition upd_if :: "heap \<Rightarrow> ptr \<Rightarrow> (rtnode \<Rightarrow> rtnode) \<Rightarrow> heap option" where
  "upd_if h p f = (case p of None \<Rightarrow> Some h | Some a \<Rightarrow> upd h a f)"

lemma upd_if_simps [simp]: "upd_if h None f = Some h" "upd_if h (Some a) f = upd h a f"
  by (simp_all add: upd_if_def)

section \<open>State and environment\<close>

record 'd cse =
  heap :: heap
  brk :: addr
  cb :: ptr
  registrar_csr :: ptr
  csr_list :: nodelist
  ri_count :: nat
  md :: md_state
  db :: 'd

record 'd env =
  e_time :: "int \<Rightarrow> string"
  e_now :: int
  e_now_us :: int
  e_strtod_us :: "string \<Rightarrow> (int \<times> string) option"
  e_print :: "cjson \<Rightarrow> string"
  e_db_get_resource :: "'d \<Rightarrow> string \<Rightarrow> int \<Rightarrow> cjson option"
  e_db_get_resource_by_uri :: "'d \<Rightarrow> string \<Rightarrow> int \<Rightarrow> cjson option"
  e_db_get_cin_rtnode_list :: "'d \<Rightarrow> rtnode \<Rightarrow> rtnode list"
  e_db_delete_one_cin_mni :: "'d \<Rightarrow> rtnode \<Rightarrow> int \<times> 'd"
  e_db_get_cin_laol :: "'d \<Rightarrow> rtnode \<Rightarrow> int \<Rightarrow> cjson option"
  e_db_get_fcin_laol :: "'d \<Rightarrow> rtnode \<Rightarrow> int \<Rightarrow> cjson option"
  e_db_get_tsi_laol :: "'d \<Rightarrow> rtnode \<Rightarrow> int \<Rightarrow> cjson option"
  e_db_store_resource :: "'d \<Rightarrow> cjson \<Rightarrow> string \<Rightarrow> int \<times> 'd"
  e_db_update_resource :: "'d \<Rightarrow> cjson \<Rightarrow> string \<Rightarrow> int \<Rightarrow> int \<times> 'd"
  e_db_delete_onem2m_resource :: "'d \<Rightarrow> rtnode \<Rightarrow> int \<times> 'd"
  e_db_begin_tx :: "'d \<Rightarrow> int \<times> 'd"
  e_db_commit_tx :: "'d \<Rightarrow> int \<times> 'd"
  e_db_rollback_tx :: "'d \<Rightarrow> int \<times> 'd"
  e_db_clear_attribute :: "'d \<Rightarrow> string \<Rightarrow> int \<Rightarrow> string \<Rightarrow> int \<times> 'd"
  e_db_get_fcin_rtnode_list :: "'d \<Rightarrow> rtnode \<Rightarrow> rtnode list"
  e_db_general_set_lt :: "'d \<Rightarrow> string \<Rightarrow> string \<Rightarrow> int \<times> 'd"
  e_db_check_cin_rn_dup :: "'d \<Rightarrow> string \<Rightarrow> string \<Rightarrow> bool"
  e_db_get_descendants :: "'d \<Rightarrow> oneM2MPrimitive \<Rightarrow> rtnode \<Rightarrow> bool \<Rightarrow> cjson option"
  e_db_tsi_check_dgt_dup :: "'d \<Rightarrow> string \<Rightarrow> string \<Rightarrow> bool"
  e_db_tsi_get_max_snr :: "'d \<Rightarrow> string \<Rightarrow> int"
  e_db_tsi_get_min_snr :: "'d \<Rightarrow> string \<Rightarrow> int"
  e_db_tsi_get_count :: "'d \<Rightarrow> string \<Rightarrow> int"
  e_db_tsi_get_first_ct :: "'d \<Rightarrow> string \<Rightarrow> string option"
  e_db_ts_clear_mdlt :: "'d \<Rightarrow> string \<Rightarrow> 'd"
  e_db_store_fcnt_custom_attributes :: "'d \<Rightarrow> string \<Rightarrow> cjson \<Rightarrow> 'd"
  e_db_update_fcnt_custom_attributes :: "'d \<Rightarrow> string \<Rightarrow> cjson \<Rightarrow> 'd"
  e_http_send :: "'d \<Rightarrow> string \<Rightarrow> int \<Rightarrow> string \<Rightarrow> oneM2MPrimitive \<Rightarrow> string option \<times> 'd"
  e_http_forwarding :: "'d \<Rightarrow> string \<Rightarrow> int \<Rightarrow> oneM2MPrimitive \<Rightarrow> oneM2MPrimitive \<times> 'd"
  e_sdt :: sdt_registry

text \<open>
  \<open>e_http_send\<close> sends a request to a host, port and path and returns the value of the header
  \<^verbatim>\<open>x-m2m-rsc\<close> of the answer, if there is one. \<open>e_print\<close> is \<^verbatim>\<open>cJSON_PrintUnformatted\<close>;
  \<open>e_strtod_us\<close> reads a number with \<^verbatim>\<open>strtod\<close> and gives it in millionths, truncated, with the rest
  of the string.
  \<open>e_http_forwarding\<close> sends a request to another CSE and returns the primitive with the answer; the
  outside world it depends on is part of the database argument. \<open>e_sdt\<close> is the registry of
  flexContainer schemas loaded at start.
  \<open>e_time diff\<close> is the string \<^verbatim>\<open>get_local_time(diff)\<close> returns, \<open>e_now\<close> the value of
  \<^verbatim>\<open>time(NULL)\<close> and \<open>e_now_us\<close> the time of \<^verbatim>\<open>gettimeofday\<close> in microseconds; one request sees one clock reading.
\<close>

section \<open>Attributes of a node\<close>

text \<open>The getters return the null pointer (\<open>None\<close>) for an attribute that is missing or no string.\<close>

definition get_ri_rtnode :: "rtnode \<Rightarrow> string option" where
  [code_defs]: "get_ri_rtnode n = member_string (n_obj n) ''ri''"

definition get_rn_rtnode :: "rtnode \<Rightarrow> string option" where
  [code_defs]: "get_rn_rtnode n = member_string (n_obj n) ''rn''"

definition get_ct_rtnode :: "rtnode \<Rightarrow> string option" where
  [code_defs]: "get_ct_rtnode n = member_string (n_obj n) ''ct''"

definition get_et_rtnode :: "rtnode \<Rightarrow> string option" where
  [code_defs]: "get_et_rtnode n = member_string (n_obj n) ''et''"

definition get_lt_rtnode :: "rtnode \<Rightarrow> string option" where
  [code_defs]: "get_lt_rtnode n = member_string (n_obj n) ''lt''"

definition get_acpi_rtnode :: "rtnode \<Rightarrow> cjson option" where
  [code_defs]: "get_acpi_rtnode n = cJSON_GetObjectItem (n_obj n) ''acpi''"

definition get_pi_rtnode :: "rtnode \<Rightarrow> string option" where
  [code_defs]: "get_pi_rtnode n =
     (case cJSON_GetObjectItem (n_obj n) ''pi'' of Some j \<Rightarrow> valuestring j | None \<Rightarrow> Some [])"

definition get_uri_rtnode :: "rtnode \<Rightarrow> string option" where
  [code_defs]: "get_uri_rtnode n = n_uri n"

section \<open>Creation\<close>

text \<open>
  Restoring a boolean attribute that the database returns as a number.
\<close>

definition restore_bool :: "cjson \<Rightarrow> string \<Rightarrow> cjson" where
  "restore_bool obj k =
     (case cJSON_GetObjectItem (Some obj) k of
        None \<Rightarrow> obj
      | Some pjson \<Rightarrow>
          if cJSON_type pjson \<noteq> T_True \<and> cJSON_type pjson \<noteq> T_False
          then cJSON_ReplaceItemInObject obj k (if valueint pjson = 1 then JTrue else JFalse)
          else obj)"

definition take_member :: "cjson \<Rightarrow> string \<Rightarrow> cjson option \<times> cjson" where
  "take_member obj k = (cJSON_GetObjectItem (Some obj) k, cJSON_DeleteItemFromObject obj k)"

definition new_rtnode :: "cjson \<Rightarrow> int \<Rightarrow> rtnode option" where
  "new_rtnode obj ty =
     do {
       (uri, obj) \<leftarrow>
         (case cJSON_GetObjectItem (Some obj) ''uri'' of
            None \<Rightarrow> Some (None, obj)
          | Some j \<Rightarrow> do {
              u \<leftarrow> valuestring j;
              Some (Some u, cJSON_DeleteItemFromObject obj ''uri'') });
       let (memberOf, obj) = take_member obj ''memberOf'';
       let obj = restore_bool obj ''rr'';
       let obj = restore_bool obj ''mtv'';
       let obj = restore_bool obj ''mdd'';
       rn \<leftarrow> member_string (Some obj) ''rn'';
       Some \<lparr>n_parent = None, n_child = None, n_subs = [],
         n_memberOf = Some (case memberOf of Some m \<Rightarrow> m | None \<Rightarrow> JArray []),
         n_sibling_left = None, n_sibling_right = None, n_rn = Some rn, n_uri = uri,
         n_sub_cnt = 0, n_ty = ty, n_obj = Some obj, n_obj_string = None\<rparr> }"

definition create_rtnode :: "'d cse \<Rightarrow> cjson \<Rightarrow> int \<Rightarrow> (addr \<times> 'd cse) option" where
  "create_rtnode s obj ty =
     do {
       n \<leftarrow> new_rtnode obj ty;
       Some (brk s, s\<lparr>heap := (heap s)(brk s \<mapsto> n), brk := Suc (brk s)\<rparr>) }"

section \<open>Search by resource identifier\<close>

partial_function (option) rt_search_ri :: "heap \<Rightarrow> ptr \<Rightarrow> string \<Rightarrow> ptr option" where
  "rt_search_ri h rtnode ri =
     (case rtnode of
        None \<Rightarrow> Some None
      | Some a \<Rightarrow> do {
          n \<leftarrow> h a;
          nri \<leftarrow> get_ri_rtnode n;
          if nri = ri then Some (Some a)
          else do {
            ret \<leftarrow> (case n_child n of None \<Rightarrow> Some None | Some c \<Rightarrow> rt_search_ri h (Some c) ri);
            case ret of
              Some r \<Rightarrow> Some (Some r)
            | None \<Rightarrow> rt_search_ri h (n_sibling_right n) ri } })"

section \<open>Node lists\<close>

text \<open>
  The lists of subscriptions of a node (\<^verbatim>\<open>subs\<close>) and of registered remote CSEs
  (\<^verbatim>\<open>csr_list\<close>) share their operations: append at the end, and remove the first cell that
  holds a node.
\<close>

definition nl_append :: "nodelist \<Rightarrow> addr \<Rightarrow> string \<Rightarrow> nodelist" where
  "nl_append l a uri = l @ [(a, uri)]"

fun nl_detach :: "nodelist \<Rightarrow> addr \<Rightarrow> nodelist" where
  "nl_detach [] a = []"
| "nl_detach ((b, u) # l) a = (if b = a then l else (b, u) # nl_detach l a)"

definition nl_has :: "nodelist \<Rightarrow> addr \<Rightarrow> bool" where
  "nl_has l a \<longleftrightarrow> a \<in> fst ` set l"

definition add_subs :: "heap \<Rightarrow> addr \<Rightarrow> addr \<Rightarrow> heap option" where
  "add_subs h parent sub =
     do {
       p \<leftarrow> h parent;
       n \<leftarrow> h sub;
       uri \<leftarrow> n_uri n;
       cnt \<leftarrow> add_int (n_sub_cnt p) 1;
       upd h parent (\<lambda>p. p\<lparr>n_subs := nl_append (n_subs p) sub uri, n_sub_cnt := cnt\<rparr>) }"

definition detach_subs :: "heap \<Rightarrow> addr \<Rightarrow> addr \<Rightarrow> heap option" where
  "detach_subs h parent sub =
     do {
       p \<leftarrow> h parent;
       if nl_has (n_subs p) sub
       then do {
         cnt \<leftarrow> add_int (n_sub_cnt p) (- 1);
         upd h parent (\<lambda>p. p\<lparr>n_subs := nl_detach (n_subs p) sub, n_sub_cnt := cnt\<rparr>) }
       else Some h }"

definition add_csrlist :: "'d cse \<Rightarrow> addr \<Rightarrow> 'd cse option" where
  "add_csrlist s csr =
     do {
       n \<leftarrow> heap s csr;
       uri \<leftarrow> n_uri n;
       Some (s\<lparr>csr_list := nl_append (csr_list s) csr uri\<rparr>) }"

definition detach_csrlist :: "'d cse \<Rightarrow> addr \<Rightarrow> 'd cse" where
  "detach_csrlist s csr = s\<lparr>csr_list := nl_detach (csr_list s) csr\<rparr>"

section \<open>Insertion\<close>

text \<open>The loop that looks for the sibling after which a child of type \<open>ty\<close> is inserted.\<close>

partial_function (option) insert_pos :: "heap \<Rightarrow> addr \<Rightarrow> int \<Rightarrow> addr option" where
  "insert_pos h node ty =
     do {
       n \<leftarrow> h node;
       case n_sibling_right n of
         None \<Rightarrow> Some node
       | Some r \<Rightarrow> do {
           m \<leftarrow> h r;
           if n_ty m \<le> ty then insert_pos h r ty else Some node } }"

definition link_child :: "heap \<Rightarrow> addr \<Rightarrow> addr \<Rightarrow> ptr \<Rightarrow> heap option" where
  "link_child h parent child first =
     do {
       c \<leftarrow> h child;
       case first of
         None \<Rightarrow> upd h parent (\<lambda>p. p\<lparr>n_child := Some child\<rparr>)
       | Some f \<Rightarrow> do {
           node \<leftarrow> insert_pos h f (n_ty c);
           n \<leftarrow> h node;
           p \<leftarrow> h parent;
           if n_child p = Some node \<and> n_ty c < n_ty n
           then do {
             h \<leftarrow> upd h parent (\<lambda>p. p\<lparr>n_child := Some child\<rparr>);
             h \<leftarrow> upd h child (\<lambda>c. c\<lparr>n_parent := Some parent, n_sibling_right := Some node\<rparr>);
             upd h node (\<lambda>n. n\<lparr>n_sibling_left := Some child\<rparr>) }
           else do {
             h \<leftarrow> (case n_sibling_right n of
                     None \<Rightarrow> Some h
                   | Some r \<Rightarrow> do {
                       h \<leftarrow> upd h r (\<lambda>m. m\<lparr>n_sibling_left := Some child\<rparr>);
                       upd h child (\<lambda>c. c\<lparr>n_sibling_right := Some r\<rparr>) });
             h \<leftarrow> upd h node (\<lambda>n. n\<lparr>n_sibling_right := Some child\<rparr>);
             upd h child (\<lambda>c. c\<lparr>n_sibling_left := Some node\<rparr>) } } }"

definition add_child_resource_tree :: "'d cse \<Rightarrow> addr \<Rightarrow> addr \<Rightarrow> 'd cse option" where
  "add_child_resource_tree s parent child =
     do {
       p \<leftarrow> heap s parent;
       let first = n_child p;
       h \<leftarrow> upd (heap s) child (\<lambda>c. c\<lparr>n_parent := Some parent\<rparr>);
       p \<leftarrow> h parent;
       c \<leftarrow> h child;
       puri \<leftarrow> n_uri p;
       crn \<leftarrow> n_rn c;
       h \<leftarrow> upd h child (\<lambda>c. c\<lparr>n_uri := Some (puri @ ''/'' @ crn)\<rparr>);
       h \<leftarrow> link_child h parent child first;
       let s = s\<lparr>heap := h\<rparr>;
       s \<leftarrow> (if n_ty c = RT_CSR then add_csrlist s child else Some s);
       if n_ty c = RT_SUB
       then do { h \<leftarrow> add_subs (heap s) parent child; Some (s\<lparr>heap := h\<rparr>) }
       else Some s }"

section \<open>Release\<close>

text \<open>
  \<^verbatim>\<open>free_rtnode\<close> unlinks a node, frees its first child until there is none, and frees the
  node. The recursive function and its inner loop are the two tasks of one function.
\<close>

datatype free_task = Node addr | Kids addr

definition unlink :: "heap \<Rightarrow> addr \<Rightarrow> heap option" where
  "unlink h a =
     do {
       h \<leftarrow> upd h a (\<lambda>n. n\<lparr>n_uri := None, n_rn := None, n_obj := None\<rparr>);
       n \<leftarrow> h a;
       h \<leftarrow> (case n_parent n of
               None \<Rightarrow> Some h
             | Some q \<Rightarrow> do {
                 p \<leftarrow> h q;
                 if n_child p = Some a then upd h q (\<lambda>p. p\<lparr>n_child := n_sibling_right n\<rparr>) else Some h });
       h \<leftarrow> upd_if h (n_sibling_left n) (\<lambda>l. l\<lparr>n_sibling_right := n_sibling_right n\<rparr>);
       n \<leftarrow> h a;
       upd_if h (n_sibling_right n) (\<lambda>r. r\<lparr>n_sibling_left := n_sibling_left n\<rparr>) }"

partial_function (option) free_run :: "heap \<Rightarrow> free_task \<Rightarrow> heap option" where
  "free_run h t =
     (case t of
        Node a \<Rightarrow> do {
          h \<leftarrow> unlink h a;
          h \<leftarrow> free_run h (Kids a);
          _ \<leftarrow> h a;
          Some (h(a := None)) }
      | Kids a \<Rightarrow> do {
          n \<leftarrow> h a;
          case n_child n of
            None \<Rightarrow> Some h
          | Some c \<Rightarrow> do { h \<leftarrow> free_run h (Node c); free_run h (Kids a) } })"

definition free_rtnode :: "heap \<Rightarrow> addr \<Rightarrow> heap option" where
  "free_rtnode h a = free_run h (Node a)"

partial_function (option) free_rtnode_list :: "heap \<Rightarrow> ptr \<Rightarrow> heap option" where
  "free_rtnode_list h rtnode =
     (case rtnode of
        None \<Rightarrow> Some h
      | Some a \<Rightarrow> do {
          n \<leftarrow> h a;
          h \<leftarrow> free_rtnode h a;
          free_rtnode_list h (n_sibling_right n) })"

section \<open>Expiry\<close>

definition isExpired :: "'d env \<Rightarrow> rtnode option \<Rightarrow> bool" where
  "isExpired E rtnode =
     (case rtnode of
        None \<Rightarrow> False
      | Some n \<Rightarrow> (case member_string (n_obj n) ''et'' of
                     None \<Rightarrow> False
                   | Some et \<Rightarrow> strcmp (e_time E 0) et > 0))"

definition isETvalid :: "'d env \<Rightarrow> string option \<Rightarrow> bool" where
  "isETvalid E et = (case et of None \<Rightarrow> False | Some t \<Rightarrow> \<not> strcmp t (e_time E 0) < 0)"

end
