(* ===== verification/TreeInvariant.thy ===== *)
theory TreeInvariant
  imports ResourceTree "HOL-Library.Multiset"
begin

text \<open>
  The shape of the resource tree and what the pointer operations do to it.

  \<open>rtree\<close> is the abstract tree of addresses. \<open>seg h par left p ts q\<close> says that the heap holds,
  from pointer \<open>p\<close> along \<^verbatim>\<open>sibling_right\<close> up to \<open>q\<close>, the trees \<open>ts\<close> as children of \<open>par\<close>, with
  consistent \<^verbatim>\<open>parent\<close>, \<^verbatim>\<open>child\<close> and \<^verbatim>\<open>sibling_left\<close> links, the first one having \<open>left\<close> as its
  left sibling. The theory shows that on such heaps the search terminates and is the
  preorder search, that insertion keeps the shape and the order of siblings by resource
  type, and that releasing a node removes exactly its subtree.
\<close>

section \<open>Abstract trees\<close>

datatype rtree = T addr "rtree list"

fun root :: "rtree \<Rightarrow> addr" where
  "root (T a cs) = a"

fun kids :: "rtree \<Rightarrow> rtree list" where
  "kids (T a cs) = cs"

text \<open>The nodes of a forest in preorder, each with its children.\<close>

fun nodes :: "rtree list \<Rightarrow> (addr \<times> rtree list) list" where
  "nodes [] = []"
| "nodes (T a cs # ts) = (a, cs) # nodes cs @ nodes ts"

definition addrs :: "rtree list \<Rightarrow> addr list" where
  "addrs ts = map fst (nodes ts)"

lemma addrs_simps [simp]:
  "addrs [] = []" "addrs (T a cs # ts) = a # addrs cs @ addrs ts"
  by (simp_all add: addrs_def)

lemma nodes_append [simp]: "nodes (ts @ us) = nodes ts @ nodes us"
  by (induction ts rule: nodes.induct) auto

lemma addrs_append [simp]: "addrs (ts @ us) = addrs ts @ addrs us"
  by (simp add: addrs_def)

lemma addrs_Cons: "addrs (t # ts) = root t # addrs (kids t) @ addrs ts"
  by (cases t) simp

lemma root_in_addrs: "t \<in> set ts \<Longrightarrow> root t \<in> set (addrs ts)"
  by (induction ts) (auto simp: addrs_Cons)

lemma nodes_kids_sub: "(a, cs) \<in> set (nodes ts) \<Longrightarrow> set (addrs cs) \<subseteq> set (addrs ts)"
  by (induction ts rule: nodes.induct) auto

lemma nodes_addr: "(a, cs) \<in> set (nodes ts) \<Longrightarrow> a \<in> set (addrs ts)"
  by (force simp: addrs_def)

section \<open>Shape\<close>

fun seg :: "heap \<Rightarrow> ptr \<Rightarrow> ptr \<Rightarrow> ptr \<Rightarrow> rtree list \<Rightarrow> ptr \<Rightarrow> bool" where
  "seg h par left p [] q = (p = q)"
| "seg h par left p (T a cs # ts) q =
     (p = Some a \<and>
      (case h a of
         None \<Rightarrow> False
       | Some n \<Rightarrow>
           n_parent n = par \<and> n_sibling_left n = left \<and>
           seg h (Some a) None (n_child n) cs None \<and>
           seg h par (Some a) (n_sibling_right n) ts q))"

text \<open>The left neighbour of whatever follows the forest.\<close>

definition last_of :: "ptr \<Rightarrow> rtree list \<Rightarrow> ptr" where
  "last_of left ts = (if ts = [] then left else Some (root (last ts)))"

lemma last_of_simps [simp]:
  "last_of left [] = left" "last_of left (T a cs # ts) = last_of (Some a) ts"
  "last_of left (ts @ [t]) = Some (root t)"
  by (simp_all add: last_of_def)

lemma seg_append:
  "seg h par left p (ts @ us) q \<longleftrightarrow>
     (\<exists>m. seg h par left p ts m \<and> seg h par (last_of left ts) m us q)"
proof (induction ts arbitrary: left p)
  case Nil
  then show ?case by simp
next
  case (Cons t ts)
  then show ?case by (cases t) (auto split: option.splits)
qed

definition links :: "rtnode \<Rightarrow> ptr \<times> ptr \<times> ptr \<times> ptr" where
  "links n = (n_parent n, n_child n, n_sibling_left n, n_sibling_right n)"

text \<open>The shape depends on the link fields of the nodes of the forest only.\<close>

lemma seg_cong:
  "(\<And>a. a \<in> set (addrs ts) \<Longrightarrow> map_option links (h' a) = map_option links (h a)) \<Longrightarrow>
   seg h' par left p ts q = seg h par left p ts q"
proof (induction h par left p ts q rule: seg.induct)
  case (1 h par left p q)
  then show ?case by simp
next
  case (2 h par left p a cs ts q)
  have la: "map_option links (h' a) = map_option links (h a)" using 2(3) by simp
  show ?case
  proof (cases "h a")
    case None
    with la show ?thesis by simp
  next
    case (Some n)
    with la obtain n' where n': "h' a = Some n'" "links n' = links n" by auto
    then have l: "n_parent n' = n_parent n" "n_child n' = n_child n"
      "n_sibling_left n' = n_sibling_left n" "n_sibling_right n' = n_sibling_right n"
      by (auto simp: links_def)
    have "seg h' (Some a) None (n_child n) cs None = seg h (Some a) None (n_child n) cs None"
      using Some 2(3) by (intro 2(1)) auto
    moreover have "seg h' par (Some a) (n_sibling_right n) ts q = seg h par (Some a) (n_sibling_right n) ts q"
      using Some 2(3) by (intro 2(2)) auto
    ultimately show ?thesis using Some n' l by simp
  qed
qed

lemma seg_upd_other: "a \<notin> set (addrs ts) \<Longrightarrow> seg (h(a := x)) par left p ts q = seg h par left p ts q"
  by (rule seg_cong) auto

lemma seg_upd_same:
  "h a = Some n \<Longrightarrow> links n' = links n \<Longrightarrow> seg (h(a \<mapsto> n')) par left p ts q = seg h par left p ts q"
  by (rule seg_cong) auto

lemma seg_allocated: "seg h par left p ts q \<Longrightarrow> a \<in> set (addrs ts) \<Longrightarrow> h a \<noteq> None"
  by (induction h par left p ts q rule: seg.induct) (auto split: option.splits)

lemma seg_node:
  "seg h par left p ts q \<Longrightarrow> (a, cs) \<in> set (nodes ts) \<Longrightarrow>
   \<exists>n. h a = Some n \<and> seg h (Some a) None (n_child n) cs None"
  by (induction h par left p ts q rule: seg.induct) (auto split: option.splits)

lemma seg_parent: "seg h par left p ts q \<Longrightarrow> T a cs \<in> set ts \<Longrightarrow> \<exists>n. h a = Some n \<and> n_parent n = par"
proof (induction ts arbitrary: left p)
  case (Cons t ts)
  then show ?case by (cases t) (auto split: option.splits)
qed simp

lemma seg_first: "seg h par left p (t # ts) q \<Longrightarrow> p = Some (root t)"
  by (cases t) simp

section \<open>Search\<close>

lemma find_append: "find P (xs @ ys) = (case find P xs of Some x \<Rightarrow> Some x | None \<Rightarrow> find P ys)"
  by (induction xs) auto

definition ri_is :: "heap \<Rightarrow> string \<Rightarrow> addr \<Rightarrow> bool" where
  "ri_is h ri a \<longleftrightarrow> (case h a of None \<Rightarrow> False | Some n \<Rightarrow> get_ri_rtnode n = Some ri)"

definition has_ri :: "heap \<Rightarrow> addr \<Rightarrow> bool" where
  "has_ri h a \<longleftrightarrow> (case h a of None \<Rightarrow> False | Some n \<Rightarrow> get_ri_rtnode n \<noteq> None)"

lemma rt_search_ri_find:
  "seg h par left p ts None \<Longrightarrow> (\<And>a. a \<in> set (addrs ts) \<Longrightarrow> has_ri h a) \<Longrightarrow>
   rt_search_ri h p ri = Some (find (ri_is h ri) (addrs ts))"
proof (induction h par left p ts "None :: ptr" rule: seg.induct)
  case (1 h par left p)
  then show ?case by (simp add: rt_search_ri.simps)
next
  case (2 h par left p a cs ts)
  from 2(3) obtain n where n: "h a = Some n" "p = Some a"
    "seg h (Some a) None (n_child n) cs None" "seg h par (Some a) (n_sibling_right n) ts None"
    by (auto split: option.splits)
  from 2(4) [of a] n obtain r where r: "get_ri_rtnode n = Some r" by (auto simp: has_ri_def)
  have kids: "rt_search_ri h (n_child n) ri = Some (find (ri_is h ri) (addrs cs))"
    using n 2(4) by (intro 2(1)) auto
  have sib: "rt_search_ri h (n_sibling_right n) ri = Some (find (ri_is h ri) (addrs ts))"
    using n 2(4) by (intro 2(2)) auto
  have kids': "(case n_child n of None \<Rightarrow> Some None | Some c \<Rightarrow> rt_search_ri h (Some c) ri) =
      Some (find (ri_is h ri) (addrs cs))"
    using kids by (cases "n_child n") (simp_all add: rt_search_ri.simps)
  show ?case
    using n r kids' sib
    by (subst rt_search_ri.simps) (auto simp: ri_is_def find_append split: option.splits)
qed

section \<open>Insertion\<close>

definition tyof :: "heap \<Rightarrow> addr \<Rightarrow> int" where
  "tyof h a = (case h a of None \<Rightarrow> 0 | Some n \<Rightarrow> n_ty n)"

text \<open>The fields of a node that are not links.\<close>

definition payload :: "rtnode \<Rightarrow> rtnode" where
  "payload n = n\<lparr>n_parent := None, n_child := None, n_sibling_left := None, n_sibling_right := None\<rparr>"

lemma payload_simps [simp]:
  "payload (n\<lparr>n_parent := p\<rparr>) = payload n" "payload (n\<lparr>n_child := p\<rparr>) = payload n"
  "payload (n\<lparr>n_sibling_left := p\<rparr>) = payload n" "payload (n\<lparr>n_sibling_right := p\<rparr>) = payload n"
  by (simp_all add: payload_def)

definition same_payload :: "heap \<Rightarrow> heap \<Rightarrow> bool" where
  "same_payload h h' \<longleftrightarrow> (\<forall>a. map_option payload (h' a) = map_option payload (h a))"

lemma same_payload_refl [simp]: "same_payload h h"
  by (simp add: same_payload_def)

lemma same_payload_trans: "same_payload h h' \<Longrightarrow> same_payload h' h'' \<Longrightarrow> same_payload h h''"
  by (simp add: same_payload_def)

lemma same_payload_upd:
  "h a = Some n \<Longrightarrow> payload n' = payload n \<Longrightarrow> same_payload h (h(a \<mapsto> n'))"
  by (simp add: same_payload_def)

lemma same_payloadD:
  "same_payload h h' \<Longrightarrow> h a = Some n \<Longrightarrow> \<exists>n'. h' a = Some n' \<and> payload n' = payload n"
  unfolding same_payload_def by (metis map_option_eq_Some)

lemma payload_ty: "payload n = payload m \<Longrightarrow> n_ty n = n_ty m"
  by (metis (no_types, lifting) payload_def rtnode.select_convs(10) rtnode.surjective
      rtnode.update_convs(1,2,5,6))

text \<open>The place a child gets among its siblings: behind the last one whose type is not larger.\<close>

definition ins_sib :: "(addr \<Rightarrow> int) \<Rightarrow> rtree \<Rightarrow> rtree list \<Rightarrow> rtree list" where
  "ins_sib ty t ts =
     takeWhile (\<lambda>u. ty (root u) \<le> ty (root t)) ts @ t # dropWhile (\<lambda>u. ty (root u) \<le> ty (root t)) ts"

definition ty_sorted :: "(addr \<Rightarrow> int) \<Rightarrow> rtree list \<Rightarrow> bool" where
  "ty_sorted ty ts \<longleftrightarrow> sorted (map (\<lambda>t. ty (root t)) ts)"

lemma insert_pos_last:
  "seg h par left (Some f) (T f cs # ts) None \<Longrightarrow>
   insert_pos h f ty =
     Some (root (last (T f cs # takeWhile (\<lambda>u. tyof h (root u) \<le> ty) ts)))"
proof (induction ts arbitrary: f cs left)
  case Nil
  then show ?case by (subst insert_pos.simps) (auto split: option.splits)
next
  case (Cons t ts)
  obtain b ds where t: "t = T b ds" by (cases t)
  from Cons.prems t obtain n m where n: "h f = Some n" "n_sibling_right n = Some b" and m: "h b = Some m"
    and s: "seg h par (Some f) (Some b) (T b ds # ts) None"
    by (auto split: option.splits)
  from Cons.IH [OF s] n m t show ?case
    by (subst insert_pos.simps) (simp add: tyof_def)
qed

lemma seg_set_right:
  assumes "seg h par left p (ts @ [T a cs]) q" "distinct (addrs (ts @ [T a cs]))" "h a = Some n"
  shows "seg (h(a \<mapsto> n\<lparr>n_sibling_right := q'\<rparr>)) par left p (ts @ [T a cs]) q'"
  using assms by (auto simp: seg_append seg_upd_other)

lemma seg_set_left:
  assumes "seg h par left p (T a cs # ts) q" "distinct (addrs (T a cs # ts))" "h a = Some n"
  shows "seg (h(a \<mapsto> n\<lparr>n_sibling_left := l\<rparr>)) par l p (T a cs # ts) q"
  using assms by (auto simp: seg_upd_other)

text \<open>A heap that differs from \<open>h\<close> in the right link of the last, or the left link of the first tree.\<close>

lemma seg_relink_right:
  assumes seg: "seg h par left p us q" and dist: "distinct (addrs us)"
    and a: "\<And>us' b bs. us = us' @ [T b bs] \<Longrightarrow> \<exists>k. h b = Some k \<and> h' b = Some (k\<lparr>n_sibling_right := m\<rparr>)"
    and same: "\<And>x. x \<in> set (addrs us) \<Longrightarrow> (us \<noteq> [] \<Longrightarrow> x \<noteq> root (last us)) \<Longrightarrow> h' x = h x"
  shows "seg h' par left (if us = [] then m else p) us m"
proof (cases us rule: rev_cases)
  case (snoc us0 t)
  obtain x bs where t: "t = T x bs" by (cases t)
  with a snoc obtain k where k: "h x = Some k" "h' x = Some (k\<lparr>n_sibling_right := m\<rparr>)" by blast
  let ?h = "h(x \<mapsto> k\<lparr>n_sibling_right := m\<rparr>)"
  have "seg ?h par left p us m"
    using seg dist k(1) unfolding snoc t by (intro seg_set_right) auto
  moreover have "h' y = ?h y" if "y \<in> set (addrs us)" for y
    using that k(2) same [of y] snoc t by (cases "y = x") auto
  then have "seg h' par left p us m = seg ?h par left p us m"
    by (intro seg_cong) simp
  ultimately show ?thesis using snoc by simp
qed simp

lemma seg_relink_left:
  assumes seg: "seg h par l m vs None" and dist: "distinct (addrs vs)"
    and b: "\<And>b bs vs'. vs = T b bs # vs' \<Longrightarrow> \<exists>k. h b = Some k \<and> h' b = Some (k\<lparr>n_sibling_left := l'\<rparr>)"
    and same: "\<And>x. x \<in> set (addrs vs) \<Longrightarrow> (vs \<noteq> [] \<Longrightarrow> x \<noteq> root (hd vs)) \<Longrightarrow> h' x = h x"
  shows "seg h' par l' m vs None"
proof (cases vs)
  case Nil
  with seg show ?thesis by simp
next
  case (Cons t vs0)
  obtain x bs where t: "t = T x bs" by (cases t)
  with b Cons obtain k where k: "h x = Some k" "h' x = Some (k\<lparr>n_sibling_left := l'\<rparr>)" by blast
  let ?h = "h(x \<mapsto> k\<lparr>n_sibling_left := l'\<rparr>)"
  have "seg ?h par l' m vs None"
    using seg dist k(1) unfolding Cons t by (intro seg_set_left) auto
  moreover have "h' y = ?h y" if "y \<in> set (addrs vs)" for y
    using that k(2) same [of y] Cons t by (cases "y = x") auto
  then have "seg h' par l' m vs None = seg ?h par l' m vs None"
    by (intro seg_cong) simp
  ultimately show ?thesis by simp
qed

text \<open>Putting a tree between two parts of a sibling list.\<close>

lemma seg_splice:
  assumes seg: "seg h par left p us m" "seg h par (last_of left us) m vs None"
    and dist: "distinct (c # addrs ds @ addrs us @ addrs vs)"
    and c: "h' c = Some n'" "n_parent n' = par" "n_sibling_left n' = last_of left us"
      "n_sibling_right n' = m" "n_child n' = n_child n"
    and ds: "seg h (Some c) None (n_child n) ds None"
    and a: "\<And>us' b bs. us = us' @ [T b bs] \<Longrightarrow>
      \<exists>k. h b = Some k \<and> h' b = Some (k\<lparr>n_sibling_right := Some c\<rparr>)"
    and b: "\<And>b bs vs'. vs = T b bs # vs' \<Longrightarrow>
      \<exists>k. h b = Some k \<and> h' b = Some (k\<lparr>n_sibling_left := Some c\<rparr>)"
    and same: "\<And>x. x \<in> set (addrs ds @ addrs us @ addrs vs) \<Longrightarrow>
      (us \<noteq> [] \<Longrightarrow> x \<noteq> root (last us)) \<Longrightarrow> (vs \<noteq> [] \<Longrightarrow> x \<noteq> root (hd vs)) \<Longrightarrow> h' x = h x"
  shows "seg h' par left (if us = [] then Some c else p) (us @ T c ds # vs) None"
proof -
  have roots: "us \<noteq> [] \<Longrightarrow> root (last us) \<in> set (addrs us)" "vs \<noteq> [] \<Longrightarrow> root (hd vs) \<in> set (addrs vs)"
    by (auto intro: root_in_addrs)
  have "seg h' (Some c) None (n_child n) ds None = seg h (Some c) None (n_child n) ds None"
    using dist roots by (intro seg_cong arg_cong [of _ _ "map_option links"] same) auto
  then have ds': "seg h' (Some c) None (n_child n') ds None" using ds c by simp
  have us': "seg h' par left (if us = [] then Some c else p) us (Some c)"
    using dist roots a by (intro seg_relink_right [OF seg(1)] same) auto
  have vs': "seg h' par (Some c) m vs None"
    using dist roots b by (intro seg_relink_left [OF seg(2)] same) auto
  show ?thesis
    using us' ds' vs' c by (auto simp: seg_append)
qed

text \<open>What \<open>link_child\<close> achieves on a list of siblings.\<close>

definition linked :: "heap \<Rightarrow> heap \<Rightarrow> addr \<Rightarrow> rtnode \<Rightarrow> addr \<Rightarrow> rtree list \<Rightarrow> rtree list \<Rightarrow> bool" where
  "linked h h' parent p child ts ts' \<longleftrightarrow>
     (\<exists>q. h' parent = Some (p\<lparr>n_child := q\<rparr>) \<and> seg h' (Some parent) None q ts' None) \<and>
     same_payload h h' \<and> (\<forall>x. x \<notin> set (parent # child # addrs ts) \<longrightarrow> h' x = h x)"

lemma link_child_first:
  assumes "h parent = Some p" "n_child p = None" "h child = Some c" "n_parent c = Some parent"
    and "n_sibling_left c = None" "n_sibling_right c = None"
    and "seg h (Some child) None (n_child c) ds None" "distinct (parent # child # addrs ds)"
  shows "\<exists>h'. link_child h parent child None = Some h' \<and> linked h h' parent p child [] [T child ds]"
proof -
  let ?h = "h(parent \<mapsto> p\<lparr>n_child := Some child\<rparr>)"
  have "link_child h parent child None = Some ?h"
    using assms by (simp add: link_child_def)
  moreover have "seg ?h (Some parent) None (Some child) [T child ds] None"
    using assms by (simp add: seg_upd_other)
  ultimately show ?thesis
    using assms by (simp add: linked_def same_payload_upd)
qed

lemma link_child_front:
  assumes "h parent = Some p" "n_child p = Some f" "seg h (Some parent) None (Some f) (T f fs # ts) None"
    and "h child = Some c" "n_parent c = Some parent"
    and "n_sibling_left c = None" "n_sibling_right c = None"
    and "seg h (Some child) None (n_child c) ds None"
    and d: "distinct (parent # child # addrs ds @ addrs (T f fs # ts))"
    and pos: "insert_pos h f (n_ty c) = Some f" and lt: "n_ty c < tyof h f"
  shows "\<exists>h'. link_child h parent child (Some f) = Some h' \<and>
     linked h h' parent p child (T f fs # ts) (T child ds # T f fs # ts)"
proof -
  from assms(3) obtain n where n: "h f = Some n" by (auto split: option.splits)
  let ?h = "h(parent \<mapsto> p\<lparr>n_child := Some child\<rparr>,
    child \<mapsto> c\<lparr>n_parent := Some parent, n_sibling_right := Some f\<rparr>, f \<mapsto> n\<lparr>n_sibling_left := Some child\<rparr>)"
  have run: "link_child h parent child (Some f) = Some ?h"
    using assms n by (simp add: link_child_def tyof_def)
  have "seg ?h (Some parent) None (if [] = ([] :: rtree list) then Some child else Some f)
      ([] @ T child ds # T f fs # ts) None"
    by (rule seg_splice [where h = h and m = "Some f" and n = c
        and n' = "c\<lparr>n_parent := Some parent, n_sibling_right := Some f\<rparr>"])
      (use assms n in \<open>auto\<close>)
  moreover have "same_payload h ?h"
    using assms n by (auto simp: same_payload_def)
  ultimately show ?thesis
    using run d by (auto simp: linked_def)
qed

lemma link_child_after:
  assumes "h parent = Some p" "n_child p = Some f"
    and seg: "seg h (Some parent) None (Some f) (us @ [T a cs]) m"
      "seg h (Some parent) (Some a) m vs None"
    and "h child = Some c" "n_parent c = Some parent"
    and "n_sibling_left c = None" "n_sibling_right c = None"
    and "seg h (Some child) None (n_child c) ds None"
    and d: "distinct (parent # child # addrs ds @ addrs ((us @ [T a cs]) @ vs))"
    and pos: "insert_pos h f (n_ty c) = Some a" and le: "tyof h a \<le> n_ty c"
  shows "\<exists>h'. link_child h parent child (Some f) = Some h' \<and>
     linked h h' parent p child ((us @ [T a cs]) @ vs) ((us @ [T a cs]) @ T child ds # vs)"
proof -
  from seg(1) obtain n where n: "h a = Some n" "n_sibling_right n = m"
    by (auto simp: seg_append split: option.splits)
  define c' where "c' = c\<lparr>n_sibling_right := m, n_sibling_left := Some a\<rparr>"
  have "\<exists>h'. link_child h parent child (Some f) = Some h' \<and> h' parent = Some p \<and> h' child = Some c' \<and>
    h' a = Some (n\<lparr>n_sibling_right := Some child\<rparr>) \<and>
    (\<forall>b bs vs'. vs = T b bs # vs' \<longrightarrow> (\<exists>k. h b = Some k \<and> h' b = Some (k\<lparr>n_sibling_left := Some child\<rparr>))) \<and>
    (\<forall>x. x \<noteq> child \<longrightarrow> x \<noteq> a \<longrightarrow> (vs = [] \<or> x \<noteq> root (hd vs)) \<longrightarrow> h' x = h x)"
  proof (cases vs)
    case Nil
    with seg(2) have "m = None" by simp
    with assms n Nil le show ?thesis
      by (auto simp: link_child_def tyof_def c'_def)
  next
    case (Cons v vs')
    obtain b bs where v: "v = T b bs" by (cases v)
    with Cons seg(2) obtain k where k: "h b = Some k" "m = Some b" by (auto split: option.splits)
    with assms n Cons v le show ?thesis
      by (auto simp: link_child_def tyof_def c'_def)
  qed
  then obtain h' where run: "link_child h parent child (Some f) = Some h'" and p': "h' parent = Some p"
    and c: "h' child = Some c'" and a: "h' a = Some (n\<lparr>n_sibling_right := Some child\<rparr>)"
    and b: "\<And>b bs vs'. vs = T b bs # vs' \<Longrightarrow> \<exists>k. h b = Some k \<and> h' b = Some (k\<lparr>n_sibling_left := Some child\<rparr>)"
    and o: "\<And>x. x \<noteq> child \<Longrightarrow> x \<noteq> a \<Longrightarrow> vs = [] \<or> x \<noteq> root (hd vs) \<Longrightarrow> h' x = h x"
    by blast
  have o': "h' x = h x" if "x \<in> set (addrs ds @ addrs (us @ [T a cs]) @ addrs vs)"
      "x \<noteq> root (last (us @ [T a cs]))" "vs \<noteq> [] \<Longrightarrow> x \<noteq> root (hd vs)" for x
    using that d by (intro o) auto
  have "seg h' (Some parent) None (if us @ [T a cs] = [] then Some child else Some f)
      ((us @ [T a cs]) @ T child ds # vs) None"
    by (rule seg_splice [where h = h and m = m and n = c and n' = c'])
      (use assms n c a b o' in \<open>simp_all add: c'_def\<close>)
  moreover have "same_payload h h'"
    unfolding same_payload_def
  proof
    fix x
    show "map_option payload (h' x) = map_option payload (h x)"
      using o [of x] c a n assms(5) b by (cases vs; cases "hd vs") (force simp: c'_def)+
  qed
  moreover have "p\<lparr>n_child := Some f\<rparr> = p" using assms(2) by simp
  moreover have "h' x = h x" if "x \<notin> set (parent # child # addrs ((us @ [T a cs]) @ vs))" for x
    using that root_in_addrs [of "hd vs" vs] by (intro o) auto
  ultimately show ?thesis
    using run p' by (auto simp: linked_def intro!: exI [of _ "Some f"])
qed

lemma link_child_sorted:
  assumes p: "h parent = Some p" "seg h (Some parent) None (n_child p) ts None"
    and c: "h child = Some c" "n_parent c = Some parent" "n_sibling_left c = None" "n_sibling_right c = None"
      "seg h (Some child) None (n_child c) ds None"
    and d: "distinct (parent # child # addrs ds @ addrs ts)" and sorted: "ty_sorted (tyof h) ts"
  shows "\<exists>h'. link_child h parent child (n_child p) = Some h' \<and>
     linked h h' parent p child ts (ins_sib (tyof h) (T child ds) ts)"
proof (cases ts)
  case Nil
  with p have n: "n_child p = None" by simp
  with assms Nil show ?thesis
    using link_child_first [OF p(1) n c] by (simp add: ins_sib_def)
next
  case (Cons t rest)
  obtain f fs where t: "t = T f fs" by (cases t)
  with Cons p(2) have f: "n_child p = Some f" by simp
  let ?P = "\<lambda>u. tyof h (root u) \<le> n_ty c"
  have tyc: "tyof h child = n_ty c" using c by (simp add: tyof_def)
  have segf: "seg h (Some parent) None (Some f) (T f fs # rest) None" using p(2) f Cons t by simp
  note pos = insert_pos_last [OF segf, of "n_ty c"]
  show ?thesis
  proof (cases "tyof h f \<le> n_ty c")
    case True
    then have w: "takeWhile ?P ts = T f fs # takeWhile ?P rest" using Cons t by simp
    then obtain us u where us: "takeWhile ?P ts = us @ [u]" by (metis list.distinct(1) rev_exhaust)
    obtain a cs where u: "u = T a cs" by (cases u)
    have ts: "ts = (us @ [T a cs]) @ dropWhile ?P ts" using us u by (metis takeWhile_dropWhile_id)
    have "u \<in> set (takeWhile ?P ts)" using us by simp
    then have le: "tyof h a \<le> n_ty c" using u by (auto dest: set_takeWhileD)
    have "insert_pos h f (n_ty c) = Some a" using pos w us u by (metis last_snoc root.simps)
    moreover obtain m where "seg h (Some parent) None (Some f) (us @ [T a cs]) m"
      "seg h (Some parent) (Some a) m (dropWhile ?P ts) None"
      using p(2) f ts seg_append [of h "Some parent" None "Some f" "us @ [T a cs]" "dropWhile ?P ts" None]
      by auto
    ultimately obtain h' where "link_child h parent child (Some f) = Some h'"
      "linked h h' parent p child ((us @ [T a cs]) @ dropWhile ?P ts) ((us @ [T a cs]) @ T child ds # dropWhile ?P ts)"
      using link_child_after [OF p(1) f _ _ c, of us a cs m "dropWhile ?P ts"] d ts le by metis
    with f ts us u tyc show ?thesis by (simp add: ins_sib_def)
  next
    case False
    with sorted Cons t have "takeWhile ?P rest = []"
      by (cases rest) (auto simp: ty_sorted_def)
    with pos have "insert_pos h f (n_ty c) = Some f" by simp
    with False assms f Cons t segf tyc show ?thesis
      using link_child_front [OF p(1) f segf c] by (simp add: ins_sib_def)
  qed
qed

subsection \<open>Inside the whole tree\<close>

fun set_kids :: "addr \<Rightarrow> rtree list \<Rightarrow> rtree list \<Rightarrow> rtree list" where
  "set_kids a ks [] = []"
| "set_kids a ks (T b cs # ts) = T b (if b = a then ks else set_kids a ks cs) # set_kids a ks ts"

lemma set_kids_absent: "a \<notin> set (addrs ts) \<Longrightarrow> set_kids a ks ts = ts"
  by (induction a ks ts rule: set_kids.induct) auto

lemma seg_set_kids:
  "\<lbrakk>seg h par left p ts q; distinct (addrs ts); (a, cs) \<in> set (nodes ts); h a = Some n; h' a = Some n';
    n_parent n' = n_parent n; n_sibling_left n' = n_sibling_left n; n_sibling_right n' = n_sibling_right n;
    seg h' (Some a) None (n_child n') cs' None;
    \<And>x. x \<in> set (addrs ts) \<Longrightarrow> x \<noteq> a \<Longrightarrow> x \<notin> set (addrs cs) \<Longrightarrow> map_option links (h' x) = map_option links (h x)\<rbrakk>
   \<Longrightarrow> seg h' par left p (set_kids a cs' ts) q"
proof (induction h par left p ts q rule: seg.induct)
  case (1 h par left p q)
  then show ?case by simp
next
  case (2 h par left p b bs ts q)
  note prems = 2(3-12)
  from prems(1) obtain m where m: "p = Some b" "h b = Some m" "n_parent m = par" "n_sibling_left m = left"
    "seg h (Some b) None (n_child m) bs None" "seg h par (Some b) (n_sibling_right m) ts q"
    by (auto split: option.splits)
  have cong_ts: "seg h' par (Some b) (n_sibling_right m) ts q"
    if "a \<notin> set (addrs ts)" "set (addrs cs) \<inter> set (addrs ts) = {}"
  proof -
    have "seg h' par (Some b) (n_sibling_right m) ts q = seg h par (Some b) (n_sibling_right m) ts q"
      using that by (intro seg_cong prems(10)) auto
    with m show ?thesis by simp
  qed
  consider "b = a" | "b \<noteq> a" "(a, cs) \<in> set (nodes bs)" | "b \<noteq> a" "(a, cs) \<in> set (nodes ts)"
    using prems(3) by auto
  then show ?case
  proof cases
    case 1
    then have "cs = bs" using prems(2,3) nodes_addr by fastforce
    then have "seg h' par (Some b) (n_sibling_right m) ts q"
      using 1 prems(2) by (intro cong_ts) auto
    with 1 m prems show ?thesis by (simp add: set_kids_absent)
  next
    case 2
    have sub: "a \<in> set (addrs bs)" "set (addrs cs) \<subseteq> set (addrs bs)"
      using 2 nodes_addr nodes_kids_sub by auto
    then have "a \<notin> set (addrs ts)" "set (addrs cs) \<inter> set (addrs ts) = {}" "b \<notin> set (addrs cs)"
      using prems(2) by auto
    moreover have "map_option links (h' b) = map_option links (h b)"
      using 2 calculation by (intro prems(10)) auto
    moreover have "seg h' (Some b) None (n_child m) (set_kids a cs' bs) None"
      using 2 m prems sub by (intro "2.IH"(1)) auto
    ultimately show ?thesis
      using 2 m cong_ts by (auto simp: set_kids_absent links_def)
  next
    case 3
    have sub: "a \<in> set (addrs ts)" "set (addrs cs) \<subseteq> set (addrs ts)"
      using 3 nodes_addr nodes_kids_sub by auto
    then have nb: "a \<notin> set (addrs bs)" "set (addrs cs) \<inter> set (addrs bs) = {}" "b \<notin> set (addrs cs)"
      using prems(2) by auto
    moreover have "map_option links (h' b) = map_option links (h b)"
      using 3 nb by (intro prems(10)) auto
    moreover have "seg h' (Some b) None (n_child m) bs None = seg h (Some b) None (n_child m) bs None"
      using nb by (intro seg_cong prems(10)) auto
    moreover have "seg h' par (Some b) (n_sibling_right m) (set_kids a cs' ts) q"
      using 3 m prems sub by (intro "2.IH"(2)) auto
    ultimately show ?thesis
      using 3 m by (auto simp: set_kids_absent links_def)
  qed
qed

lemma mset_set_kids:
  "distinct (addrs ts) \<Longrightarrow> (a, cs) \<in> set (nodes ts) \<Longrightarrow>
   mset (addrs (set_kids a cs' ts)) + mset (addrs cs) = mset (addrs ts) + mset (addrs cs')"
proof (induction a cs' ts rule: set_kids.induct)
  case (2 a ks b bs ts)
  consider "b = a" | "b \<noteq> a" "(a, cs) \<in> set (nodes bs)" | "b \<noteq> a" "(a, cs) \<in> set (nodes ts)"
    using 2(4) by auto
  then show ?case
  proof cases
    case 1
    then have "cs = bs" using 2(3,4) nodes_addr by fastforce
    with 1 2(3) show ?thesis by (simp add: set_kids_absent)
  next
    case 2
    then have "a \<notin> set (addrs ts)" using "2.prems" nodes_addr by fastforce
    with 2 "2.IH"(1) "2.prems" show ?thesis by (simp add: set_kids_absent add.commute add.left_commute)
  next
    case 3
    then have "a \<notin> set (addrs bs)" using "2.prems" nodes_addr by fastforce
    with 3 "2.IH"(2) "2.prems" show ?thesis by (simp add: set_kids_absent add.commute add.left_commute)
  qed
qed simp

lemma map_root_set_kids [simp]: "map root (set_kids a ks ts) = map root ts"
  by (induction a ks ts rule: set_kids.induct) auto

definition kids_sorted :: "(addr \<Rightarrow> int) \<Rightarrow> rtree list \<Rightarrow> bool" where
  "kids_sorted ty ts \<longleftrightarrow> list_all (\<lambda>(a, cs). ty_sorted ty cs) (nodes ts)"

lemma kids_sorted_simps [simp]:
  "kids_sorted ty []" "kids_sorted ty (T a cs # ts) \<longleftrightarrow> ty_sorted ty cs \<and> kids_sorted ty cs \<and> kids_sorted ty ts"
  "kids_sorted ty (ts @ us) \<longleftrightarrow> kids_sorted ty ts \<and> kids_sorted ty us"
  by (auto simp: kids_sorted_def)

lemma kids_sortedD: "kids_sorted ty ts \<Longrightarrow> (a, cs) \<in> set (nodes ts) \<Longrightarrow> ty_sorted ty cs \<and> kids_sorted ty cs"
  by (induction ts rule: nodes.induct) auto

lemma ty_sorted_roots: "map root ts = map root us \<Longrightarrow> ty_sorted ty ts = ty_sorted ty us"
  by (metis (no_types, lifting) list.map_comp map_eq_conv comp_apply ty_sorted_def)

lemma kids_sorted_set_kids:
  "kids_sorted ty ts \<Longrightarrow> ty_sorted ty ks \<Longrightarrow> kids_sorted ty ks \<Longrightarrow> kids_sorted ty (set_kids a ks ts)"
proof (induction a ks ts rule: set_kids.induct)
  case (2 a ks b cs ts)
  moreover have "ty_sorted ty (set_kids a ks cs) = ty_sorted ty cs"
    by (rule ty_sorted_roots) simp
  ultimately show ?case by auto
qed simp

lemma kids_sorted_cong:
  "(\<And>x. x \<in> set (addrs ts) \<Longrightarrow> ty' x = ty x) \<Longrightarrow> kids_sorted ty' ts = kids_sorted ty ts"
proof (induction ts rule: nodes.induct)
  case (2 a cs ts)
  have "map (\<lambda>t. ty' (root t)) cs = map (\<lambda>t. ty (root t)) cs"
    using 2(3) root_in_addrs [of _ cs] by auto
  then have "ty_sorted ty' cs = ty_sorted ty cs" by (simp only: ty_sorted_def)
  with 2 show ?case by simp
qed simp

lemma mset_ins_sib: "mset (addrs (ins_sib ty (T c ds) ts)) = mset (addrs ts) + mset (c # addrs ds)"
proof -
  have "mset (addrs ts) = mset (addrs (takeWhile P ts)) + mset (addrs (dropWhile P ts))" for P
    by (metis addrs_append mset_append takeWhile_dropWhile_id)
  then show ?thesis by (simp add: ins_sib_def)
qed

lemma ty_sorted_ins_sib: "ty_sorted ty ts \<Longrightarrow> ty_sorted ty (ins_sib ty t ts)"
proof (induction ts)
  case Nil
  then show ?case by (simp add: ins_sib_def ty_sorted_def)
next
  case (Cons u ts)
  show ?case
  proof (cases "ty (root u) \<le> ty (root t)")
    case True
    then have "ins_sib ty t (u # ts) = u # ins_sib ty t ts" by (simp add: ins_sib_def)
    moreover have "set (ins_sib ty t ts) = insert t (set ts)"
      by (simp add: ins_sib_def) (metis set_append takeWhile_dropWhile_id)
    ultimately show ?thesis using Cons True by (auto simp: ty_sorted_def)
  next
    case False
    with Cons show ?thesis by (auto simp: ins_sib_def ty_sorted_def)
  qed
qed

lemma kids_sorted_ins_sib:
  "kids_sorted ty ts \<Longrightarrow> ty_sorted ty ds \<Longrightarrow> kids_sorted ty ds \<Longrightarrow> kids_sorted ty (ins_sib ty (T c ds) ts)"
proof -
  assume a: "kids_sorted ty ts" "ty_sorted ty ds" "kids_sorted ty ds"
  have "kids_sorted ty (takeWhile P ts) \<and> kids_sorted ty (dropWhile P ts)" for P
    using a(1) by (metis kids_sorted_simps(3) takeWhile_dropWhile_id)
  with a show ?thesis by (simp add: ins_sib_def)
qed

section \<open>The invariant of the resource tree\<close>

definition wf_rt :: "heap \<Rightarrow> ptr \<Rightarrow> rtree \<Rightarrow> bool" where
  "wf_rt h root_ptr t \<longleftrightarrow>
     seg h None None root_ptr [t] None \<and> distinct (addrs [t]) \<and> kids_sorted (tyof h) [t]"

lemma tyof_payload: "same_payload h h' \<Longrightarrow> tyof h' = tyof h"
proof
  fix a
  assume "same_payload h h'"
  then have "map_option payload (h' a) = map_option payload (h a)" by (simp add: same_payload_def)
  then show "tyof h' a = tyof h a"
    by (auto simp: tyof_def map_option_case split: option.splits dest: payload_ty)
qed

text \<open>Linking a new leaf below any node of a well-formed tree.\<close>

lemma link_child_wf:
  assumes wf: "wf_rt h r t" and par: "(parent, cs) \<in> set (nodes [t])" "h parent = Some p"
    and c: "h child = Some c" "n_parent c = Some parent" "n_sibling_left c = None"
      "n_sibling_right c = None" "n_child c = None" "child \<notin> set (addrs [t])"
  shows "\<exists>h' t'. link_child h parent child (n_child p) = Some h' \<and>
    set_kids parent (ins_sib (tyof h) (T child []) cs) [t] = [t'] \<and> wf_rt h' r t' \<and>
    mset (addrs [t']) = add_mset child (mset (addrs [t])) \<and> same_payload h h' \<and>
    (\<exists>c'. h' child = Some c' \<and> n_parent c' = Some parent)"
proof -
  let ?ks = "ins_sib (tyof h) (T child []) cs"
  have t: "seg h None None r [t] None" "distinct (addrs [t])" "kids_sorted (tyof h) [t]"
    using wf by (auto simp: wf_rt_def)
  have kids: "seg h (Some parent) None (n_child p) cs None"
    using seg_node [OF t(1) par(1)] par(2) by auto
  have sub: "parent \<in> set (addrs [t])" "set (addrs cs) \<subseteq> set (addrs [t])"
    using par(1) nodes_addr nodes_kids_sub by auto
  have "distinct (addrs ts) \<Longrightarrow> (parent, cs) \<in> set (nodes ts) \<Longrightarrow> distinct (parent # addrs cs)" for ts
    by (induction ts rule: nodes.induct) auto
  with t(2) par(1) have dk: "distinct (parent # addrs cs)" by blast
  then have d: "distinct (parent # child # addrs [] @ addrs cs)" using sub c(6) by auto
  have sorted: "ty_sorted (tyof h) cs" "kids_sorted (tyof h) cs" using kids_sortedD [OF t(3) par(1)] by auto
  have "seg h (Some child) None (n_child c) [] None" using c by simp
  then obtain h' where run: "link_child h parent child (n_child p) = Some h'"
    and l: "linked h h' parent p child cs ?ks"
    using link_child_sorted [OF par(2) kids c(1-4) _ d sorted(1)] by blast
  then obtain q where q: "h' parent = Some (p\<lparr>n_child := q\<rparr>)" "seg h' (Some parent) None q ?ks None"
    and pay: "same_payload h h'" and same: "\<And>x. x \<notin> set (parent # child # addrs cs) \<Longrightarrow> h' x = h x"
    by (auto simp: linked_def)
  have same': "h' x = h x" if "x \<in> set (addrs [t])" "x \<noteq> parent" "x \<notin> set (addrs cs)" for x
    using that c(6) by (intro same) (auto simp del: addrs_simps)
  obtain t' where t': "set_kids parent ?ks [t] = [t']" by (cases t) simp
  have "seg h' None None r [t'] None"
    unfolding t' [symmetric]
    by (rule seg_set_kids [OF t(1,2) par, where h' = h' and n' = "p\<lparr>n_child := q\<rparr>"])
      (use q same' in auto)
  moreover have m: "mset (addrs [t']) = add_mset child (mset (addrs [t]))"
    using mset_set_kids [OF t(2) par(1), of ?ks] t' by (simp add: mset_ins_sib)
  moreover have "distinct (addrs [t'])"
    using mset_eq_imp_distinct_iff [of "addrs [t']" "child # addrs [t]"] m t(2) c(6) by simp
  moreover have "kids_sorted (tyof h') [t']"
    unfolding tyof_payload [OF pay] t' [symmetric] using t(3) sorted
    by (intro kids_sorted_set_kids ty_sorted_ins_sib kids_sorted_ins_sib) (auto simp: ty_sorted_def)
  moreover have "\<exists>c'. h' child = Some c' \<and> n_parent c' = Some parent"
    using seg_parent [OF q(2), of child "[]"] by (simp add: ins_sib_def)
  ultimately show ?thesis
    using run t' pay by (auto simp: wf_rt_def)
qed

lemma wf_rt_cong:
  assumes "\<And>a. a \<in> set (addrs [t]) \<Longrightarrow> map_option links (h' a) = map_option links (h a) \<and> tyof h' a = tyof h a"
  shows "wf_rt h' r t = wf_rt h r t"
proof -
  have "seg h' None None r [t] None = seg h None None r [t] None"
    using assms by (intro seg_cong) auto
  moreover have "kids_sorted (tyof h') [t] = kids_sorted (tyof h) [t]"
    using assms by (intro kids_sorted_cong) auto
  ultimately show ?thesis by (simp add: wf_rt_def)
qed

lemma wf_rt_upd_other: "a \<notin> set (addrs [t]) \<Longrightarrow> wf_rt (h(a := x)) r t = wf_rt h r t"
  by (rule wf_rt_cong) (auto simp: tyof_def)

lemma wf_rt_upd_data:
  "h a = Some n \<Longrightarrow> links n' = links n \<Longrightarrow> n_ty n' = n_ty n \<Longrightarrow> wf_rt (h(a \<mapsto> n')) r t = wf_rt h r t"
  by (rule wf_rt_cong) (auto simp: tyof_def)

lemma link_fields [simp]:
  "links (n\<lparr>n_uri := u\<rparr>) = links n" "links (n\<lparr>n_subs := l\<rparr>) = links n"
  "links (n\<lparr>n_sub_cnt := k\<rparr>) = links n" "links (n\<lparr>n_obj := j\<rparr>) = links n"
  "links (n\<lparr>n_memberOf := j\<rparr>) = links n"
  by (simp_all add: links_def)

lemma payload_fields:
  assumes "payload n = payload m"
  shows "n_uri n = n_uri m" "n_rn n = n_rn m" "n_obj n = n_obj m" "n_subs n = n_subs m"
    "n_sub_cnt n = n_sub_cnt m" "n_memberOf n = n_memberOf m"
  using assms by (cases n; cases m; simp add: payload_def)+

text \<open>The state after the subscription and remote CSE lists have been brought up to date.\<close>

lemma add_subs_wf:
  assumes "wf_rt h r t" "h parent = Some p" "h sub = Some n" "n_uri n = Some u" "in_int (n_sub_cnt p + 1)"
  shows "\<exists>h'. add_subs h parent sub = Some h' \<and> wf_rt h' r t \<and>
    h' = h(parent \<mapsto> p\<lparr>n_subs := n_subs p @ [(sub, u)], n_sub_cnt := n_sub_cnt p + 1\<rparr>)"
  using assms by (simp add: add_subs_def nl_append_def add_int_in wf_rt_upd_data)

text \<open>A node that has just been created: allocated, not in the tree, without links.\<close>

definition fresh_leaf :: "heap \<Rightarrow> rtree \<Rightarrow> addr \<Rightarrow> rtnode \<Rightarrow> bool" where
  "fresh_leaf h t child c \<longleftrightarrow>
     h child = Some c \<and> child \<notin> set (addrs [t]) \<and> n_child c = None \<and>
     n_sibling_left c = None \<and> n_sibling_right c = None"

text \<open>The data of a node that lookups read.\<close>

definition names :: "heap \<Rightarrow> addr \<Rightarrow> (string option \<times> string option \<times> int \<times> cjson option) option" where
  "names h a = map_option (\<lambda>n. (n_rn n, n_uri n, n_ty n, n_obj n)) (h a)"

lemma names_payload: "map_option payload (h' a) = map_option payload (h a) \<Longrightarrow> names h' a = names h a"
proof (cases "h a")
  case (Some n)
  moreover assume "map_option payload (h' a) = map_option payload (h a)"
  ultimately obtain n' where "h' a = Some n'" "payload n' = payload n" by auto
  with Some payload_fields [of n' n] payload_ty [of n' n] show ?thesis by (simp add: names_def)
qed (simp add: names_def)

lemma add_child_effect:
  assumes wf: "wf_rt (heap s) (cb s) t" and par: "(parent, cs) \<in> set (nodes [t])"
    "heap s parent = Some p" "n_uri p = Some puri" "in_int (n_sub_cnt p + 1)"
    and c: "fresh_leaf (heap s) t child c" "n_rn c = Some rn"
  shows "\<exists>s' t' c' p'. add_child_resource_tree s parent child = Some s' \<and>
    set_kids parent (ins_sib (tyof (heap s)) (T child []) cs) [t] = [t'] \<and>
    wf_rt (heap s') (cb s') t' \<and> mset (addrs [t']) = add_mset child (mset (addrs [t])) \<and>
    heap s' child = Some c' \<and> n_parent c' = Some parent \<and> n_uri c' = Some (puri @ ''/'' @ rn) \<and>
    n_rn c' = Some rn \<and> heap s' parent = Some p' \<and>
    n_subs p' = n_subs p @ (if n_ty c = RT_SUB then [(child, puri @ ''/'' @ rn)] else []) \<and>
    (\<forall>x. x \<noteq> child \<longrightarrow> names (heap s') x = names (heap s) x) \<and> cb s' = cb s \<and>
    names (heap s') child = Some (Some rn, Some (puri @ ''/'' @ rn), n_ty c, n_obj c) \<and> db s' = db s"
proof -
  let ?u = "puri @ ''/'' @ rn"
  let ?c = "c\<lparr>n_parent := Some parent, n_uri := Some ?u\<rparr>"
  let ?h = "(heap s)(child \<mapsto> ?c)"
  have leaf: "heap s child = Some c" "child \<notin> set (addrs [t])" "n_child c = None"
    "n_sibling_left c = None" "n_sibling_right c = None"
    using c(1) by (auto simp: fresh_leaf_def)
  have ne: "parent \<noteq> child" using par(1) leaf(2) nodes_addr by blast
  have wf': "wf_rt ?h (cb s) t" using wf leaf(2) by (simp add: wf_rt_upd_other del: addrs_simps)
  have ty: "tyof ?h = tyof (heap s)" using leaf(1) by (auto simp: tyof_def)
  obtain h' t' where l: "link_child ?h parent child (n_child p) = Some h'"
    "set_kids parent (ins_sib (tyof (heap s)) (T child []) cs) [t] = [t']" "wf_rt h' (cb s) t'"
    "mset (addrs [t']) = add_mset child (mset (addrs [t]))" and pay: "same_payload ?h h'"
    and cp: "\<exists>c'. h' child = Some c' \<and> n_parent c' = Some parent"
    using link_child_wf [OF wf' par(1), of p child ?c] par(2) ne leaf unfolding ty by auto
  from pay ne par(2) obtain p' c' where p': "h' parent = Some p'" "payload p' = payload p"
    and c': "h' child = Some c'" "payload c' = payload ?c"
    using same_payloadD [OF pay, of parent p] same_payloadD [OF pay, of child ?c] by auto
  have pf: "n_subs p' = n_subs p" "n_sub_cnt p' = n_sub_cnt p" using payload_fields [OF p'(2)] by auto
  have cf: "n_uri c' = Some ?u" "n_rn c' = Some rn" using payload_fields [OF c'(2)] c(2) by simp_all
  have nm0: "names h' x = names ?h x" for x
    using pay names_payload [of h' x ?h] by (simp add: same_payload_def)
  then have nm: "names h' x = names (heap s) x" if "x \<noteq> child" for x
    using that by (simp add: names_def)
  have nmc: "names h' child = Some (Some rn, Some ?u, n_ty c, n_obj c)"
    using nm0 [of child] c(2) by (simp add: names_def)
  have run: "add_child_resource_tree s parent child =
      do {
        s1 \<leftarrow> (if n_ty c = RT_CSR then add_csrlist (s\<lparr>heap := h'\<rparr>) child else Some (s\<lparr>heap := h'\<rparr>));
        if n_ty c = RT_SUB
        then do { h1 \<leftarrow> add_subs (heap s1) parent child; Some (s1\<lparr>heap := h1\<rparr>) } else Some s1 }"
    using par ne leaf(1) c(2) l(1) by (simp add: add_child_resource_tree_def)
  show ?thesis
  proof (cases "n_ty c = RT_SUB")
    case True
    obtain h1 where "add_subs h' parent child = Some h1" "wf_rt h1 (cb s) t'"
      "h1 = h'(parent \<mapsto> p'\<lparr>n_subs := n_subs p' @ [(child, ?u)], n_sub_cnt := n_sub_cnt p' + 1\<rparr>)"
      using add_subs_wf [OF l(3) p'(1) c'(1) cf(1)] par(4) pf by auto
    moreover have "names (h'(parent \<mapsto> p'\<lparr>n_subs := l, n_sub_cnt := k\<rparr>)) x = names h' x" for x l k
      using p'(1) by (simp add: names_def)
    ultimately show ?thesis using True run l(2-4) c' cp cf pf ne nm nmc by simp
  next
    case False
    with run l(2-4) c'(1) cp cf p'(1) pf nm nmc show ?thesis
      by (auto simp: add_csrlist_def)
  qed
qed

text \<open>
  C12. Insertion into the resource tree: adding a new node below any resource of a
  well-formed tree succeeds and leaves a well-formed tree (consistent parent, child and
  sibling links, no node reached twice, siblings ordered by resource type) whose nodes are
  the old ones and the new one; the new node is placed behind the siblings whose type is
  not larger, its URI is the URI of the parent extended by its resource name, and a
  subscription is registered with its parent.
\<close>

theorem add_child_resource_tree_wf:
  assumes wf: "wf_rt (heap s) (cb s) t" and par: "(parent, cs) \<in> set (nodes [t])"
    "heap s parent = Some p" "n_uri p = Some puri" "in_int (n_sub_cnt p + 1)"
    and c: "fresh_leaf (heap s) t child c" "n_rn c = Some rn"
  shows "\<exists>s' t' c' p'. add_child_resource_tree s parent child = Some s' \<and>
    set_kids parent (ins_sib (tyof (heap s)) (T child []) cs) [t] = [t'] \<and>
    wf_rt (heap s') (cb s') t' \<and> mset (addrs [t']) = add_mset child (mset (addrs [t])) \<and>
    heap s' child = Some c' \<and> n_parent c' = Some parent \<and> n_uri c' = Some (puri @ ''/'' @ rn) \<and>
    heap s' parent = Some p' \<and>
    n_subs p' = n_subs p @ (if n_ty c = RT_SUB then [(child, puri @ ''/'' @ rn)] else [])"
  using add_child_effect [OF assms] by fast

section \<open>Release\<close>

text \<open>Taking a tree out from between two parts of a sibling list.\<close>

lemma seg_unsplice:
  assumes seg: "seg h par left p us q" "seg h par l m vs None"
    and dist: "distinct (addrs us @ addrs vs)"
    and a: "\<And>us' b bs. us = us' @ [T b bs] \<Longrightarrow> \<exists>k. h b = Some k \<and> h' b = Some (k\<lparr>n_sibling_right := m\<rparr>)"
    and b: "\<And>b bs vs'. vs = T b bs # vs' \<Longrightarrow>
      \<exists>k. h b = Some k \<and> h' b = Some (k\<lparr>n_sibling_left := last_of left us\<rparr>)"
    and same: "\<And>x. x \<in> set (addrs us @ addrs vs) \<Longrightarrow>
      (us \<noteq> [] \<Longrightarrow> x \<noteq> root (last us)) \<Longrightarrow> (vs \<noteq> [] \<Longrightarrow> x \<noteq> root (hd vs)) \<Longrightarrow> h' x = h x"
  shows "seg h' par left (if us = [] then m else p) (us @ vs) None"
proof -
  have roots: "us \<noteq> [] \<Longrightarrow> root (last us) \<in> set (addrs us)" "vs \<noteq> [] \<Longrightarrow> root (hd vs) \<in> set (addrs vs)"
    by (auto intro: root_in_addrs)
  have us': "seg h' par left (if us = [] then m else p) us m"
    using dist roots a by (intro seg_relink_right [OF seg(1)] same) auto
  have vs': "seg h' par (last_of left us) m vs None"
    using dist roots b by (intro seg_relink_left [OF seg(2)] same) auto
  from us' vs' show ?thesis by (auto simp: seg_append)
qed

definition cleared :: "rtnode \<Rightarrow> rtnode" where
  "cleared n = n\<lparr>n_uri := None, n_rn := None, n_obj := None\<rparr>"

lemma cleared_simps [simp]:
  "n_child (cleared n) = n_child n" "n_parent (cleared n) = n_parent n"
  "n_sibling_left (cleared n) = n_sibling_left n" "n_sibling_right (cleared n) = n_sibling_right n"
  "links (cleared n) = links n"
  by (simp_all add: cleared_def links_def)

text \<open>
  The heap after unlinking: the cleared node, its parent and its two neighbours.
\<close>

lemma unlink_run:
  assumes q: "h q = Some p" and n: "h a = Some n" "n_parent n = Some q" "n_sibling_left n = last_of None us"
    and seg: "seg h (Some q) None (n_child p) us (Some a)" "seg h (Some q) (Some a) (n_sibling_right n) vs None"
    and d: "distinct (q # a # addrs us @ addrs vs)"
  shows "\<exists>h'. unlink h a = Some h' \<and> h' a = Some (cleared n) \<and>
    h' q = Some (p\<lparr>n_child := (if us = [] then n_sibling_right n else n_child p)\<rparr>) \<and>
    (\<forall>us' b bs. us = us' @ [T b bs] \<longrightarrow> (\<exists>k. h b = Some k \<and> h' b = Some (k\<lparr>n_sibling_right := n_sibling_right n\<rparr>))) \<and>
    (\<forall>b bs vs'. vs = T b bs # vs' \<longrightarrow> (\<exists>k. h b = Some k \<and> h' b = Some (k\<lparr>n_sibling_left := last_of None us\<rparr>))) \<and>
    (\<forall>x. x \<noteq> q \<longrightarrow> x \<noteq> a \<longrightarrow> (us = [] \<or> x \<noteq> root (last us)) \<longrightarrow> (vs = [] \<or> x \<noteq> root (hd vs)) \<longrightarrow> h' x = h x)"
proof -
  have first: "n_child p = Some a \<longleftrightarrow> us = []"
    using seg(1) d by (cases us; cases "hd us") auto
  have lft: "\<exists>k. h b = Some k" if "us = us' @ [T b bs]" for us' b bs
    using seg(1) that by (auto simp: seg_append split: option.splits)
  have rgt: "\<exists>k. h b = Some k \<and> n_sibling_right n = Some b" if "vs = T b bs # vs'" for b bs vs'
    using seg(2) that by (auto split: option.splits)
  have nil: "vs = [] \<Longrightarrow> n_sibling_right n = None" using seg(2) by simp
  show ?thesis
  proof (cases us rule: rev_cases)
    case Nil
    then have u: "us = []" "n_child p = Some a" "n_sibling_left n = None" using first n by auto
    show ?thesis
    proof (cases vs)
      case Nil
      with u q n d nil show ?thesis by (simp add: unlink_def cleared_def)
    next
      case (Cons v vs')
      then obtain b bs k where v: "v = T b bs" "h b = Some k" "n_sibling_right n = Some b"
        using rgt by (cases v) blast
      with u q n d Cons show ?thesis by (auto simp: unlink_def cleared_def)
    qed
  next
    case (snoc us0 t)
    then obtain b bs k where t: "t = T b bs" "h b = Some k" using lft by (cases t) blast
    then have u: "us \<noteq> []" "n_child p \<noteq> Some a" "n_sibling_left n = Some b" using snoc first n by auto
    show ?thesis
    proof (cases vs)
      case Nil
      with snoc t u q n d nil show ?thesis by (auto simp: unlink_def cleared_def)
    next
      case (Cons v vs')
      then obtain b' bs' k' where v: "v = T b' bs'" "h b' = Some k'" "n_sibling_right n = Some b'"
        using rgt by (cases v) blast
      with snoc t u q n d Cons show ?thesis by (auto simp: unlink_def cleared_def)
    qed
  qed
qed

text \<open>\<open>unlinked\<close> collects what is known of the heap after unlinking the node \<open>a\<close>, a child of \<open>q\<close>.\<close>

definition unlinked :: "heap \<Rightarrow> heap \<Rightarrow> addr \<Rightarrow> rtnode \<Rightarrow> addr \<Rightarrow> rtree list \<Rightarrow> rtree list \<Rightarrow> bool" where
  "unlinked h h' q p a cs ks \<longleftrightarrow>
     (\<exists>n. h a = Some n \<and> h' a = Some (cleared n) \<and> seg h' (Some a) None (n_child n) cs None) \<and>
     (\<exists>m. h' q = Some (p\<lparr>n_child := m\<rparr>) \<and> seg h' (Some q) None m ks None) \<and>
     (\<forall>x. x \<notin> set (q # a # addrs ks) \<longrightarrow> h' x = h x) \<and>
     (\<forall>x. x \<noteq> a \<longrightarrow> map_option payload (h' x) = map_option payload (h x))"

lemma unlink_seg:
  assumes q: "h q = Some p" and seg: "seg h (Some q) None (n_child p) (us @ T a cs # vs) None"
    and d: "distinct (q # addrs (us @ T a cs # vs))"
  shows "\<exists>h'. unlink h a = Some h' \<and> unlinked h h' q p a cs (us @ vs)"
proof -
  from seg obtain n where n: "h a = Some n" "n_parent n = Some q" "n_sibling_left n = last_of None us"
    and s: "seg h (Some q) None (n_child p) us (Some a)" "seg h (Some q) (Some a) (n_sibling_right n) vs None"
      "seg h (Some a) None (n_child n) cs None"
    by (auto simp: seg_append split: option.splits)
  have d': "distinct (q # a # addrs us @ addrs vs)" using d by auto
  obtain h' where run: "unlink h a = Some h'" and a': "h' a = Some (cleared n)"
    and q': "h' q = Some (p\<lparr>n_child := (if us = [] then n_sibling_right n else n_child p)\<rparr>)"
    and l: "\<And>us' b bs. us = us' @ [T b bs] \<Longrightarrow> \<exists>k. h b = Some k \<and> h' b = Some (k\<lparr>n_sibling_right := n_sibling_right n\<rparr>)"
    and r: "\<And>b bs vs'. vs = T b bs # vs' \<Longrightarrow> \<exists>k. h b = Some k \<and> h' b = Some (k\<lparr>n_sibling_left := last_of None us\<rparr>)"
    and o: "\<And>x. x \<noteq> q \<Longrightarrow> x \<noteq> a \<Longrightarrow> us = [] \<or> x \<noteq> root (last us) \<Longrightarrow> vs = [] \<or> x \<noteq> root (hd vs) \<Longrightarrow> h' x = h x"
    using unlink_run [OF q n s(1,2) d'] by blast
  have roots: "us \<noteq> [] \<Longrightarrow> root (last us) \<in> set (addrs us)" "vs \<noteq> [] \<Longrightarrow> root (hd vs) \<in> set (addrs vs)"
    by (auto intro: root_in_addrs)
  have out: "h' x = h x" if "x \<notin> set (q # a # addrs (us @ vs))" for x
    using that roots by (intro o) auto
  have "seg h' (Some q) None (if us = [] then n_sibling_right n else n_child p) (us @ vs) None"
    using d' l r by (intro seg_unsplice [OF s(1,2)] o) auto
  moreover have "seg h' (Some a) None (n_child n) cs None"
  proof -
    have "seg h' (Some a) None (n_child n) cs None = seg h (Some a) None (n_child n) cs None"
      using d by (intro seg_cong arg_cong [of _ _ "map_option links"] out) auto
    with s(3) show ?thesis by simp
  qed
  moreover have "map_option payload (h' x) = map_option payload (h x)" if "x \<noteq> a" for x
  proof -
    consider "x = q" | us' b bs where "us = us' @ [T b bs]" "x = b" | b bs vs' where "vs = T b bs # vs'" "x = b"
      | "x \<noteq> q" "us = [] \<or> x \<noteq> root (last us)" "vs = [] \<or> x \<noteq> root (hd vs)"
      by (metis append_butlast_last_id list.collapse root.simps rtree.exhaust)
    then show ?thesis
      by cases (use that q q' l r o in fastforce)+
  qed
  moreover have "\<exists>m. h' q = Some (p\<lparr>n_child := m\<rparr>) \<and> seg h' (Some q) None m (us @ vs) None"
    using q' calculation(1) by blast
  ultimately show ?thesis
    using run a' n(1) out by (auto simp: unlinked_def)
qed

lemma free_kids:
  "seg h (Some a) None (n_child n) cs None \<Longrightarrow> h a = Some n \<Longrightarrow> distinct (a # addrs cs) \<Longrightarrow>
   free_run h (Kids a) = Some ((h(a \<mapsto> n\<lparr>n_child := None\<rparr>)) |` (- set (addrs cs)))"
proof (induction "length (addrs cs)" arbitrary: h a n cs rule: less_induct)
  case less
  show ?case
  proof (cases cs)
    case Nil
    with less.prems have "n\<lparr>n_child := None\<rparr> = n" by simp
    with less.prems Nil show ?thesis
      by (subst free_run.simps) (auto simp: fun_upd_idem restrict_map_def)
  next
    case (Cons t ts)
    obtain b bs where t: "t = T b bs" by (cases t)
    have child: "n_child n = Some b" using less.prems(1) Cons t by simp
    obtain h1 where h1: "unlink h b = Some h1" and u: "unlinked h h1 a n b bs ([] @ ts)"
      using unlink_seg [of h a n "[]" b bs ts] less.prems Cons t by auto
    then obtain k m where k: "h1 b = Some (cleared k)" "seg h1 (Some b) None (n_child (cleared k)) bs None"
      and m: "h1 a = Some (n\<lparr>n_child := m\<rparr>)" "seg h1 (Some a) None m ts None"
      and o: "\<And>x. x \<notin> set (a # b # addrs ts) \<Longrightarrow> h1 x = h x"
      by (auto simp: unlinked_def)
    have "free_run h1 (Kids b) = Some ((h1(b \<mapsto> (cleared k)\<lparr>n_child := None\<rparr>)) |` (- set (addrs bs)))"
      using less.prems(3) Cons t k by (intro less.hyps) auto
    moreover define h2 where "h2 = h1 |` (- set (b # addrs bs))"
    moreover have "((h1(b \<mapsto> (cleared k)\<lparr>n_child := None\<rparr>)) |` (- set (addrs bs)))(b := None) = h2"
      by (auto simp: h2_def restrict_map_def)
    ultimately have run_b: "free_run h (Node b) = Some h2"
      using h1 less.prems(3) Cons t by (subst free_run.simps) (simp add: restrict_map_def)
    have h2a: "h2 a = Some (n\<lparr>n_child := m\<rparr>)"
      using m less.prems(3) Cons t by (simp add: h2_def)
    have "seg h2 (Some a) None m ts None = seg h1 (Some a) None m ts None"
      using less.prems(3) Cons t by (intro seg_cong) (auto simp: h2_def restrict_map_def)
    then have "free_run h2 (Kids a) =
        Some ((h2(a \<mapsto> n\<lparr>n_child := m, n_child := None\<rparr>)) |` (- set (addrs ts)))"
      using m h2a less.prems(3) Cons t by (intro less.hyps) auto
    moreover have "(h2(a \<mapsto> n\<lparr>n_child := None\<rparr>)) |` (- set (addrs ts)) =
        (h(a \<mapsto> n\<lparr>n_child := None\<rparr>)) |` (- set (addrs cs))"
      using o less.prems(3) Cons t by (auto simp: h2_def restrict_map_def)
    ultimately show ?thesis
      using less.prems(2) child run_b by (subst free_run.simps) simp
  qed
qed

lemma free_rtnode_run:
  assumes "h q = Some p" "seg h (Some q) None (n_child p) (us @ T a cs # vs) None"
    and d: "distinct (q # addrs (us @ T a cs # vs))"
  shows "\<exists>h1. unlinked h h1 q p a cs (us @ vs) \<and> free_rtnode h a = Some (h1 |` (- set (a # addrs cs)))"
proof -
  obtain h1 where h1: "unlink h a = Some h1" and u: "unlinked h h1 q p a cs (us @ vs)"
    using unlink_seg [OF assms] by blast
  then obtain n where n: "h1 a = Some (cleared n)" "seg h1 (Some a) None (n_child (cleared n)) cs None"
    by (auto simp: unlinked_def)
  then have "free_run h1 (Kids a) = Some ((h1(a \<mapsto> (cleared n)\<lparr>n_child := None\<rparr>)) |` (- set (addrs cs)))"
    using d by (intro free_kids) auto
  moreover have "((h1(a \<mapsto> (cleared n)\<lparr>n_child := None\<rparr>)) |` (- set (addrs cs)))(a := None) =
      h1 |` (- set (a # addrs cs))"
    by (auto simp: restrict_map_def)
  ultimately show ?thesis
    using h1 u d unfolding free_rtnode_def
    by (subst free_run.simps) (auto simp: restrict_map_def)
qed

lemma ty_sorted_remove: "ty_sorted ty (us @ t # vs) \<Longrightarrow> ty_sorted ty (us @ vs)"
  by (auto simp: ty_sorted_def sorted_append)

lemma distinct_node_kids: "distinct (addrs ts) \<Longrightarrow> (a, cs) \<in> set (nodes ts) \<Longrightarrow> distinct (a # addrs cs)"
  by (induction ts rule: nodes.induct) auto

lemma free_rtnode_subtree_aux:
  assumes wf: "wf_rt h r t" and q: "(q, us @ T a cs # vs) \<in> set (nodes [t])"
  shows "\<exists>h' t'. free_rtnode h a = Some h' \<and> set_kids q (us @ vs) [t] = [t'] \<and> wf_rt h' r t' \<and>
    mset (addrs [t]) = mset (addrs [t']) + mset (a # addrs cs) \<and>
    (\<forall>x. x \<in> set (a # addrs cs) \<longrightarrow> h' x = None) \<and>
    (\<forall>x. x \<notin> set (a # addrs cs) \<longrightarrow> map_option payload (h' x) = map_option payload (h x))"
proof -
  let ?ks = "us @ T a cs # vs"
  have t: "seg h None None r [t] None" "distinct (addrs [t])" "kids_sorted (tyof h) [t]"
    using wf by (auto simp: wf_rt_def)
  from seg_node [OF t(1) q] obtain p where p: "h q = Some p" "seg h (Some q) None (n_child p) ?ks None" by auto
  have d: "distinct (q # addrs ?ks)" using distinct_node_kids [OF t(2) q] .
  obtain h1 where run: "free_rtnode h a = Some (h1 |` (- set (a # addrs cs)))"
    and u: "unlinked h h1 q p a cs (us @ vs)"
    using free_rtnode_run [OF p d] by blast
  from u obtain m where m: "h1 q = Some (p\<lparr>n_child := m\<rparr>)" "seg h1 (Some q) None m (us @ vs) None"
    and o: "\<And>x. x \<notin> set (q # a # addrs (us @ vs)) \<Longrightarrow> h1 x = h x"
    and pay: "\<And>x. x \<noteq> a \<Longrightarrow> map_option payload (h1 x) = map_option payload (h x)"
    by (auto simp: unlinked_def)
  let ?h = "h1 |` (- set (a # addrs cs))"
  obtain t' where t': "set_kids q (us @ vs) [t] = [t']" by (cases t) simp
  have seg1: "seg h1 None None r [t'] None"
    unfolding t' [symmetric]
    by (rule seg_set_kids [OF t(1,2) q p(1), where h' = h1 and n' = "p\<lparr>n_child := m\<rparr>"]) (use m o in auto)
  have mset: "mset (addrs [t]) = mset (addrs [t']) + mset (a # addrs cs)"
    using mset_set_kids [OF t(2) q, of "us @ vs"] t' by (simp add: union_assoc [symmetric])
  then have "distinct (addrs [t'] @ a # addrs cs)"
    using t(2) mset_eq_imp_distinct_iff [of "addrs [t]" "addrs [t'] @ a # addrs cs"]
    by (simp del: addrs_simps)
  then have d': "distinct (addrs [t'])" "set (addrs [t']) \<inter> set (a # addrs cs) = {}" by auto
  have ty: "tyof ?h x = tyof h x" if "x \<in> set (addrs [t'])" for x
    using pay [of x] that d'(2)
    by (auto simp: tyof_def restrict_map_def map_option_case split: option.splits dest: payload_ty)
  have "seg ?h None None r [t'] None = seg h1 None None r [t'] None"
    using d'(2) by (intro seg_cong) (auto simp: restrict_map_def)
  moreover have "kids_sorted (tyof ?h) [t'] = kids_sorted (tyof h) [t']"
    using ty by (intro kids_sorted_cong)
  moreover have "kids_sorted (tyof h) [t']"
    unfolding t' [symmetric] using t(3) kids_sortedD [OF t(3) q]
    by (intro kids_sorted_set_kids) (auto dest: ty_sorted_remove)
  ultimately have "wf_rt ?h r t'" using seg1 d' by (simp add: wf_rt_def)
  with run t' mset pay show ?thesis by (auto simp: restrict_map_def)
qed

text \<open>
  C13. Releasing a resource: \<^verbatim>\<open>free_rtnode\<close> on any resource but the CSEBase of a well-formed
  tree terminates without touching a null or freed pointer. Afterwards the tree is well
  formed, exactly the resource and its descendants are gone from it and freed, and no
  other node has lost anything but its links.
\<close>

theorem free_rtnode_subtree:
  assumes wf: "wf_rt h r t" and q: "(q, us @ T a cs # vs) \<in> set (nodes [t])"
  shows "\<exists>h' t'. free_rtnode h a = Some h' \<and> set_kids q (us @ vs) [t] = [t'] \<and> wf_rt h' r t' \<and>
    mset (addrs [t]) = mset (addrs [t']) + mset (a # addrs cs) \<and>
    (\<forall>x. x \<in> set (a # addrs cs) \<longrightarrow> h' x = None) \<and>
    (\<forall>x. x \<notin> set (a # addrs cs) \<longrightarrow> map_option payload (h' x) = map_option payload (h x))"
  using assms by (rule free_rtnode_subtree_aux)

text \<open>
  Search by resource identifier: on a well-formed tree whose resources all have an
  identifier, \<^verbatim>\<open>rt_search_ri\<close> terminates and returns the first node in preorder with the
  given identifier, or null exactly when there is none.
\<close>

theorem rt_search_ri_preorder:
  assumes "wf_rt h r t" "list_all (has_ri h) (addrs [t])"
  shows "rt_search_ri h r ri = Some (find (ri_is h ri) (addrs [t]))"
  using assms by (intro rt_search_ri_find) (auto simp: wf_rt_def list_all_iff simp del: addrs_simps)

section \<open>A concrete tree\<close>

text \<open>
  A CSEBase (address 0) with an AE (1), which has a container (3), and a container (2); an
  AE (4) that has been created and is not yet in the tree.
\<close>

definition mk_node :: "int \<Rightarrow> string \<Rightarrow> string \<Rightarrow> string option \<Rightarrow> ptr \<Rightarrow> ptr \<Rightarrow> ptr \<Rightarrow> ptr \<Rightarrow> rtnode" where
  "mk_node ty rn ri uri parent child left right =
     \<lparr>n_parent = parent, n_child = child, n_subs = [], n_memberOf = Some (JArray []),
      n_sibling_left = left, n_sibling_right = right, n_rn = Some rn, n_uri = uri, n_sub_cnt = 0, n_ty = ty,
      n_obj = Some (JObject [(''rn'', JString rn), (''ri'', JString ri), (''ty'', JNumber ty)]), n_obj_string = None\<rparr>"

definition ex_heap :: heap where
  "ex_heap =
     [0 \<mapsto> mk_node RT_CSE ''TinyIoT'' ''tinyiot'' (Some ''TinyIoT'') None (Some 1) None None,
      1 \<mapsto> mk_node RT_AE ''ae1'' ''CAE1'' (Some ''TinyIoT/ae1'') (Some 0) (Some 3) None (Some 2),
      2 \<mapsto> mk_node RT_CNT ''cnt1'' ''3-1'' (Some ''TinyIoT/cnt1'') (Some 0) None (Some 1) None,
      3 \<mapsto> mk_node RT_CNT ''cnt2'' ''3-2'' (Some ''TinyIoT/ae1/cnt2'') (Some 1) None None None,
      4 \<mapsto> mk_node RT_AE ''ae2'' ''CAE2'' None None None None None]"

definition ex_tree :: rtree where
  "ex_tree = T 0 [T 1 [T 3 []], T 2 []]"

definition ex_cse :: "'d \<Rightarrow> 'd cse" where
  "ex_cse d = \<lparr>heap = ex_heap, brk = 5, cb = Some 0, registrar_csr = None, csr_list = [], ri_count = 0, md = md_init, db = d\<rparr>"

lemma ex_wf: "wf_rt ex_heap (Some 0) ex_tree"
  by (simp add: wf_rt_def ex_tree_def ex_heap_def mk_node_def ty_sorted_def tyof_def)

theorem add_child_resource_tree_wf_witness:
  "\<exists>s' t'. add_child_resource_tree (ex_cse ()) 0 4 = Some s' \<and> wf_rt (heap s') (cb s') t' \<and>
     t' = T 0 [T 1 [T 3 []], T 4 [], T 2 []]"
proof -
  have "wf_rt (heap (ex_cse ())) (cb (ex_cse ())) ex_tree" using ex_wf by (simp add: ex_cse_def)
  moreover have "(0, [T 1 [T 3 []], T 2 []]) \<in> set (nodes [ex_tree])" by (simp add: ex_tree_def)
  ultimately show ?thesis
    using add_child_resource_tree_wf [of "ex_cse ()" ex_tree 0 "[T 1 [T 3 []], T 2 []]" _ "''TinyIoT''" 4 _ "''ae2''"]
    by (fastforce simp: ex_cse_def ex_heap_def ex_tree_def mk_node_def fresh_leaf_def ins_sib_def tyof_def
        in_int_def INT_MAX_def INT_MIN_def)
qed

theorem free_rtnode_subtree_witness:
  "\<exists>h' t'. free_rtnode ex_heap 1 = Some h' \<and> wf_rt h' (Some 0) t' \<and> t' = T 0 [T 2 []] \<and> h' 3 = None"
proof -
  have "(0, [] @ T 1 [T 3 []] # [T 2 []]) \<in> set (nodes [ex_tree])" by (simp add: ex_tree_def)
  from free_rtnode_subtree [OF ex_wf this] show ?thesis by (auto simp: ex_tree_def)
qed

theorem rt_search_ri_preorder_witness:
  "rt_search_ri ex_heap (Some 0) ''3-2'' = Some (Some 3)"
proof -
  have "list_all (has_ri ex_heap) (addrs [ex_tree])"
    by (simp add: ex_tree_def ex_heap_def mk_node_def has_ri_def get_ri_rtnode_def member_string_def ci_eq_def tolower_def)
  from rt_search_ri_preorder [OF ex_wf this, of "''3-2''"] show ?thesis
    by (simp add: ex_tree_def ex_heap_def mk_node_def ri_is_def get_ri_rtnode_def member_string_def ci_eq_def tolower_def)
qed

end
