(* ===== verification/Container.thy ===== *)
theory Container
  imports TreeInvariant
begin

text \<open>
  The instance counters of containers and flexContainers (\<^verbatim>\<open>onem2m.c\<close>, \<^verbatim>\<open>util.c\<close>):
  \<^verbatim>\<open>cni\<close> (current number of instances), \<^verbatim>\<open>cbs\<close> (current byte size) and \<^verbatim>\<open>st\<close> (state tag),
  and the eviction of the oldest instances when \<^verbatim>\<open>mni\<close> or \<^verbatim>\<open>mbs\<close> is exceeded.

  The instances live in the database, which is a parameter. What eviction relies on is
  written as the predicate \<open>cin_store_ok\<close>: the listing returns the stored instances oldest
  first, and a deletion removes the instance it is given.
\<close>

section \<open>Updating the object of a node\<close>

definition node_obj :: "heap \<Rightarrow> addr \<Rightarrow> cjson option" where
  "node_obj h a = Option.bind (h a) n_obj"

definition put_obj :: "heap \<Rightarrow> addr \<Rightarrow> cjson \<Rightarrow> heap option" where
  "put_obj h a j = upd h a (\<lambda>n. n\<lparr>n_obj := Some j\<rparr>)"

definition db_save :: "'d env \<Rightarrow> 'd cse \<Rightarrow> addr \<Rightarrow> int \<Rightarrow> 'd cse option" where
  "db_save E s a ty =
     do {
       n \<leftarrow> heap s a;
       obj \<leftarrow> n_obj n;
       ri \<leftarrow> get_ri_rtnode n;
       Some (s\<lparr>db := snd (e_db_update_resource E (db s) obj ri ty)\<rparr>) }"

text \<open>\<^verbatim>\<open>v + sign * cs\<close> on \<^verbatim>\<open>int\<close>.\<close>

definition add_signed :: "int \<Rightarrow> int \<Rightarrow> int \<Rightarrow> int option" where
  "add_signed v sign cs = (if in_int (sign * cs) then add_int v (sign * cs) else None)"

section \<open>flexContainer counters\<close>

definition update_fcnt_fcin :: "'d env \<Rightarrow> 'd cse \<Rightarrow> ptr \<Rightarrow> ptr \<Rightarrow> int \<Rightarrow> (int \<times> 'd cse) option" where
  "update_fcnt_fcin E s fcnt_rtnode fcin_rtnode sign =
     (case (fcnt_rtnode, fcin_rtnode) of
        (Some f, Some i) \<Rightarrow> do {
          fn \<leftarrow> heap s f;
          fi \<leftarrow> heap s i;
          case (n_obj fn, n_obj fi) of
            (Some fcnt, Some fcin) \<Rightarrow>
              (case (cJSON_GetObjectItem (Some fcnt) ''cni'', cJSON_GetObjectItem (Some fcnt) ''cbs'',
                     cJSON_GetObjectItem (Some fcin) ''cs'') of
                 (Some cni, Some cbs, Some cs) \<Rightarrow> do {
                   cni' \<leftarrow> add_int (valueint cni) sign;
                   cbs' \<leftarrow> add_signed (valueint cbs) sign (valueint cs);
                   h \<leftarrow> put_obj (heap s) f (set_int (set_int fcnt ''cni'' cni') ''cbs'' cbs');
                   s \<leftarrow> db_save E (s\<lparr>heap := h\<rparr>) f RT_FCNT;
                   Some (0, s) }
               | _ \<Rightarrow> Some (- 1, s))
          | _ \<Rightarrow> Some (- 1, s) }
      | _ \<Rightarrow> Some (- 1, s))"

text \<open>
  The loop of \<^verbatim>\<open>delete_oldest_fcin_rtnode\<close>: the flexContainerInstance with the least state tag,
  or the first one without a state tag if no smaller tag has been seen.
\<close>

definition oldest_step :: "rtnode \<Rightarrow> addr \<Rightarrow> ptr \<times> int \<Rightarrow> ptr \<times> int" where
  "oldest_step n a best =
     (if n_ty n = RT_FCIN
      then (case cJSON_GetObjectItem (n_obj n) ''st'' of
              Some (JNumber st) \<Rightarrow>
                if valueint (JNumber st) < snd best then (Some a, valueint (JNumber st)) else best
            | _ \<Rightarrow> if fst best = None then (Some a, snd best) else best)
      else best)"

partial_function (option) oldest_fcin :: "heap \<Rightarrow> ptr \<Rightarrow> ptr \<times> int \<Rightarrow> ptr option" where
  "oldest_fcin h child best =
     (case child of
        None \<Rightarrow> Some (fst best)
      | Some a \<Rightarrow> do { n \<leftarrow> h a; oldest_fcin h (n_sibling_right n) (oldest_step n a best) })"

definition delete_oldest_fcin_rtnode :: "'d env \<Rightarrow> 'd cse \<Rightarrow> ptr \<Rightarrow> (int \<times> 'd cse) option" where
  "delete_oldest_fcin_rtnode E s fcnt_rtnode =
     (case fcnt_rtnode of
        None \<Rightarrow> Some (- 1, s)
      | Some f \<Rightarrow> do {
          fn \<leftarrow> heap s f;
          oldest \<leftarrow> oldest_fcin (heap s) (n_child fn) (None, INT_MAX);
          case oldest of
            None \<Rightarrow> Some (- 1, s)
          | Some a \<Rightarrow> do {
              n \<leftarrow> heap s a;
              let deleted_cs = (case cJSON_GetObjectItem (n_obj n) ''cs'' of
                                  Some (JNumber c) \<Rightarrow> valueint (JNumber c) | _ \<Rightarrow> 0);
              let s = s\<lparr>db := snd (e_db_delete_onem2m_resource E (db s) n)\<rparr>;
              h \<leftarrow> free_rtnode (heap s) a;
              Some (deleted_cs, s\<lparr>heap := h\<rparr>) } })"

section \<open>Eviction in a container\<close>

text \<open>
  The loop that deletes instances from the head of the list while a limit is exceeded; a
  negative limit is no limit. The nodes of the list are private to the function.
\<close>

fun evict :: "'d env \<Rightarrow> int \<Rightarrow> int \<Rightarrow> 'd \<Rightarrow> int \<Rightarrow> int \<Rightarrow> rtnode list \<Rightarrow> ('d \<times> int \<times> int) option" where
  "evict E mni mbs d cni cbs [] = Some (d, cni, cbs)"
| "evict E mni mbs d cni cbs (n # rest) =
     (if (0 \<le> mni \<and> mni < cni) \<or> (0 \<le> mbs \<and> mbs < cbs)
      then do {
        cs \<leftarrow> member_int (n_obj n) ''cs'';
        cbs' \<leftarrow> add_int cbs (- cs);
        cni' \<leftarrow> add_int cni (- 1);
        evict E mni mbs (snd (e_db_delete_onem2m_resource E d n)) cni' cbs' rest }
      else Some (d, cni, cbs))"

text \<open>
  \<^verbatim>\<open>delete_cin_under_cnt_mni_mbs\<close>. \<^verbatim>\<open>cni\<close> and \<^verbatim>\<open>cbs\<close> are uninitialised when the attribute is
  missing, so both must be there. The value \<^verbatim>\<open>-1\<close> that \<^verbatim>\<open>db_delete_one_cin_mni\<close> returns on
  failure is subtracted from \<^verbatim>\<open>cbs\<close> like a size.
\<close>

definition limit_or :: "cjson \<Rightarrow> string \<Rightarrow> int \<Rightarrow> int" where
  "limit_or cnt k dflt = (case cJSON_GetObjectItem (Some cnt) k of Some j \<Rightarrow> valueint j | None \<Rightarrow> dflt)"

definition evict_one :: "'d env \<Rightarrow> rtnode \<Rightarrow> int \<Rightarrow> 'd \<Rightarrow> int \<Rightarrow> int \<Rightarrow> ('d \<times> int \<times> int) option" where
  "evict_one E n mni d cni cbs =
     do {
       mni1 \<leftarrow> add_int mni 1;
       if cni = mni1
       then (let (tmp, d) = e_db_delete_one_cin_mni E d n
             in do { cbs' \<leftarrow> add_int cbs (- tmp); cni' \<leftarrow> add_int cni (- 1); Some (d, cni', cbs') })
       else Some (d, cni, cbs) }"

definition evict_rest :: "'d env \<Rightarrow> rtnode \<Rightarrow> int \<Rightarrow> int \<Rightarrow> 'd \<Rightarrow> int \<Rightarrow> int \<Rightarrow> ('d \<times> int \<times> int) option" where
  "evict_rest E n mni mbs d cni cbs =
     (if mni < cni \<or> mbs < cbs
      then evict E mni mbs d cni cbs (e_db_get_cin_rtnode_list E d n)
      else Some (d, cni, cbs))"

definition delete_cin_under_cnt_mni_mbs :: "'d env \<Rightarrow> 'd cse \<Rightarrow> addr \<Rightarrow> 'd cse option" where
  "delete_cin_under_cnt_mni_mbs E s a =
     do {
       n \<leftarrow> heap s a;
       cnt \<leftarrow> n_obj n;
       cni \<leftarrow> member_int (Some cnt) ''cni'';
       cbs \<leftarrow> member_int (Some cnt) ''cbs'';
       let mni = limit_or cnt ''mni'' DEFAULT_MAX_NR_INSTANCES;
       let mbs = limit_or cnt ''mbs'' DEFAULT_MAX_BYTE_SIZE;
       if cni \<le> mni \<and> cbs \<le> mbs then Some s
       else do {
         (d, cni, cbs) \<leftarrow> evict_one E n mni (db s) cni cbs;
         (d, cni, cbs) \<leftarrow> evict_rest E n mni mbs d cni cbs;
         let cnt = set_int (set_int cnt ''cni'' cni) ''cbs'' cbs;
         st \<leftarrow> member_int (Some cnt) ''st'';
         st' \<leftarrow> add_int st 1;
         h \<leftarrow> put_obj (heap s) a (set_int cnt ''st'' st');
         db_save E (s\<lparr>heap := h, db := d\<rparr>) a RT_CNT } }"

section \<open>Container counters\<close>

text \<open>
  The age test of \<^verbatim>\<open>update_cnt_cin\<close>: \<^verbatim>\<open>strptime\<close> with \<^verbatim>\<open>%Y%m%dT%H%M%S\<close> followed by \<^verbatim>\<open>timegm\<close>,
  on strings that start with such a timestamp (others are outside the model).
\<close>

definition num :: "string \<Rightarrow> int" where
  "num ds = digits_val 0 ds"

fun days_before_month :: "int \<Rightarrow> int" where
  "days_before_month m =
     switch [(1, 0), (2, 31), (3, 59), (4, 90), (5, 120), (6, 151), (7, 181), (8, 212), (9, 243),
             (10, 273), (11, 304)] 334 m"

definition leap_year :: "int \<Rightarrow> bool" where
  "leap_year y \<longleftrightarrow> y mod 4 = 0 \<and> (y mod 100 \<noteq> 0 \<or> y mod 400 = 0)"

text \<open>Seconds since 1970-01-01T00:00:00 of a broken-down UTC time.\<close>

definition utc_seconds :: "int \<Rightarrow> int \<Rightarrow> int \<Rightarrow> int \<Rightarrow> int \<Rightarrow> int \<Rightarrow> int" where
  "utc_seconds y mo d hh mi se =
     (let leaps = (y - 1) div 4 - (y - 1) div 100 + (y - 1) div 400 - (1969 div 4 - 1969 div 100 + 1969 div 400);
          days = 365 * (y - 1970) + leaps + days_before_month mo +
                 (if leap_year y \<and> 2 < mo then 1 else 0) + (d - 1)
      in ((days * 24 + hh) * 60 + mi) * 60 + se)"

definition parse_ct :: "string \<Rightarrow> int option" where
  "parse_ct s =
     (if 15 \<le> length s \<and> list_all is_digit (take 8 s) \<and> s ! 8 = CHR ''T'' \<and> list_all is_digit (take 6 (drop 9 s))
      then Some (utc_seconds (num (take 4 s)) (num (take 2 (drop 4 s))) (num (take 2 (drop 6 s)))
             (num (take 2 (drop 9 s))) (num (take 2 (drop 11 s))) (num (take 2 (drop 13 s))))
      else None)"

text \<open>The expired children, at most 128 of them.\<close>

partial_function (option) expired_cins :: "heap \<Rightarrow> int \<Rightarrow> int \<Rightarrow> ptr \<Rightarrow> addr list \<Rightarrow> addr list option" where
  "expired_cins h now mia child acc =
     (case child of
        None \<Rightarrow> Some acc
      | Some a \<Rightarrow> do {
          n \<leftarrow> h a;
          acc \<leftarrow>
            (if n_ty n = RT_CIN
             then do {
               ct \<leftarrow> member_string (n_obj n) ''ct'';
               created \<leftarrow> parse_ct ct;
               Some (if mia < now - created \<and> length acc < 128 then acc @ [a] else acc) }
             else Some acc);
          expired_cins h now mia (n_sibling_right n) acc })"

text \<open>The part of \<^verbatim>\<open>update_cnt_cin\<close> after the age test.\<close>

definition count_cin :: "'d env \<Rightarrow> 'd cse \<Rightarrow> addr \<Rightarrow> cjson \<Rightarrow> int \<Rightarrow> 'd cse option" where
  "count_cin E s c cin sign =
     do {
       cnt \<leftarrow> node_obj (heap s) c;
       cni \<leftarrow> member_int (Some cnt) ''cni'';
       cni' \<leftarrow> add_int cni sign;
       cbs \<leftarrow> member_int (Some cnt) ''cbs'';
       cs \<leftarrow> member_int (Some cin) ''cs'';
       cbs' \<leftarrow> add_signed cbs sign cs;
       st \<leftarrow> member_int (Some cnt) ''st'';
       st' \<leftarrow> add_int st 1;
       h \<leftarrow> put_obj (heap s) c (set_int (set_int (set_int cnt ''cni'' cni') ''cbs'' cbs') ''st'' st');
       let s = s\<lparr>heap := h\<rparr>;
       s \<leftarrow> (if sign = 1 then delete_cin_under_cnt_mni_mbs E s c else Some s);
       db_save E s c RT_CNT }"

text \<open>The loop over the expired instances; the inner call has sign -1 and does no age test.\<close>

fun drop_expired :: "'d env \<Rightarrow> 'd cse \<Rightarrow> addr \<Rightarrow> addr list \<Rightarrow> 'd cse option" where
  "drop_expired E s c [] = Some s"
| "drop_expired E s c (a # rest) =
     do {
       n \<leftarrow> heap s a;
       cn \<leftarrow> heap s c;
       s \<leftarrow> (case (n_obj cn, n_obj n) of (Some _, Some cin) \<Rightarrow> count_cin E s c cin (- 1) | _ \<Rightarrow> Some s);
       n \<leftarrow> heap s a;
       let s = s\<lparr>db := snd (e_db_delete_onem2m_resource E (db s) n)\<rparr>;
       h \<leftarrow> free_rtnode (heap s) a;
       drop_expired E (s\<lparr>heap := h\<rparr>) c rest }"

definition update_cnt_cin :: "'d env \<Rightarrow> 'd cse \<Rightarrow> ptr \<Rightarrow> ptr \<Rightarrow> int \<Rightarrow> (int \<times> 'd cse) option" where
  "update_cnt_cin E s cnt_rtnode cin_rtnode sign =
     (case (cnt_rtnode, cin_rtnode) of
        (Some c, Some i) \<Rightarrow> do {
          cn \<leftarrow> heap s c;
          ci \<leftarrow> heap s i;
          case (n_obj cn, n_obj ci) of
            (Some cnt, Some cin) \<Rightarrow> do {
              s \<leftarrow>
                (case cJSON_GetObjectItem (Some cnt) ''mia'' of
                   Some mia \<Rightarrow>
                     if 0 < valueint mia \<and> sign = 1
                     then do {
                       expired \<leftarrow> expired_cins (heap s) (e_now E) (valueint mia) (n_child cn) [];
                       drop_expired E s c expired }
                     else Some s
                 | None \<Rightarrow> Some s);
              s \<leftarrow> count_cin E s c cin sign;
              Some (0, s) }
          | _ \<Rightarrow> Some (- 1, s) }
      | _ \<Rightarrow> Some (- 1, s))"

section \<open>The limits hold after eviction\<close>

text \<open>A counter attribute: a number in the range of \<^verbatim>\<open>int\<close>.\<close>

definition counter :: "cjson \<Rightarrow> string \<Rightarrow> int \<Rightarrow> bool" where
  "counter j k v \<longleftrightarrow> cJSON_GetObjectItem (Some j) k = Some (JNumber v) \<and> in_int v"

lemma counter_member_int: "counter j k v \<Longrightarrow> member_int (Some j) k = Some v"
  by (simp add: counter_def member_int_def del: valueint.simps)

lemma counter_set_int: "counter j k v \<Longrightarrow> in_int w \<Longrightarrow> counter (set_int j k w) k w"
  by (simp add: counter_def set_int_get)

lemma counter_set_int_other: "counter j k v \<Longrightarrow> \<not> ci_eq k' k \<Longrightarrow> counter (set_int j k' w) k v"
  by (simp add: counter_def set_int_get)

lemma counter_names [simp]:
  "\<not> ci_eq ''cni'' ''cbs''" "\<not> ci_eq ''cbs'' ''cni''" "\<not> ci_eq ''cni'' ''st''" "\<not> ci_eq ''st'' ''cni''"
  "\<not> ci_eq ''cbs'' ''st''" "\<not> ci_eq ''st'' ''cbs''" "\<not> ci_eq ''cni'' ''ri''" "\<not> ci_eq ''cbs'' ''ri''"
  "\<not> ci_eq ''st'' ''ri''" "\<not> ci_eq ''cni'' ''mni''" "\<not> ci_eq ''cbs'' ''mni''" "\<not> ci_eq ''st'' ''mni''"
  "\<not> ci_eq ''cni'' ''mbs''" "\<not> ci_eq ''cbs'' ''mbs''" "\<not> ci_eq ''st'' ''mbs''"
  by (simp_all add: ci_eq_def tolower_def)

definition cin_size :: "rtnode \<Rightarrow> int" where
  "cin_size n = (case member_int (n_obj n) ''cs'' of Some c \<Rightarrow> c | None \<Rightarrow> 0)"

definition sized :: "rtnode list \<Rightarrow> bool" where
  "sized ns \<longleftrightarrow> list_all (\<lambda>n. member_int (n_obj n) ''cs'' \<noteq> None \<and> 0 \<le> cin_size n) ns"

definition total :: "rtnode list \<Rightarrow> int" where
  "total ns = sum_list (map cin_size ns)"

lemma sized_simps [simp]: "sized []"
  "sized (n # ns) \<longleftrightarrow> member_int (n_obj n) ''cs'' = Some (cin_size n) \<and> 0 \<le> cin_size n \<and> sized ns"
  by (auto simp: sized_def cin_size_def)

lemma total_simps [simp]: "total [] = 0" "total (n # ns) = cin_size n + total ns"
  by (simp_all add: total_def)

lemma total_nonneg: "sized ns \<Longrightarrow> 0 \<le> total ns"
  by (induction ns) auto

text \<open>
  What eviction relies on of the database: \<open>stored d\<close> are the instances of the container
  \<open>cnt\<close>, oldest first; the listing returns them, the deletions remove the oldest, and
  storing the container itself does not change them.
\<close>

definition cin_store_ok :: "'d env \<Rightarrow> rtnode \<Rightarrow> ('d \<Rightarrow> rtnode list) \<Rightarrow> bool" where
  "cin_store_ok E cnt stored \<longleftrightarrow>
     (\<forall>d. e_db_get_cin_rtnode_list E d cnt = stored d) \<and>
     (\<forall>d n ns. stored d = n # ns \<longrightarrow> stored (snd (e_db_delete_onem2m_resource E d n)) = ns) \<and>
     (\<forall>d n ns. stored d = n # ns \<longrightarrow> fst (e_db_delete_one_cin_mni E d cnt) = cin_size n \<and>
        stored (snd (e_db_delete_one_cin_mni E d cnt)) = ns) \<and>
     (\<forall>d obj ri. stored (snd (e_db_update_resource E d obj ri RT_CNT)) = stored d)"

lemma evict_limits:
  assumes ok: "cin_store_ok E cnt stored" and lim: "0 \<le> mni" "0 \<le> mbs"
  shows "stored d = ns \<Longrightarrow> sized ns \<Longrightarrow> int (length ns) \<le> INT_MAX \<Longrightarrow> total ns \<le> INT_MAX \<Longrightarrow>
    \<exists>d' k. evict E mni mbs d (int (length ns)) (total ns) ns =
      Some (d', int (length (drop k ns)), total (drop k ns)) \<and> stored d' = drop k ns \<and>
      int (length (drop k ns)) \<le> mni \<and> total (drop k ns) \<le> mbs"
proof (induction ns arbitrary: d)
  case Nil
  then show ?case using lim by auto
next
  case (Cons n ns)
  let ?over = "(0 \<le> mni \<and> mni < int (length (n # ns))) \<or> (0 \<le> mbs \<and> mbs < total (n # ns))"
  show ?case
  proof (cases ?over)
    case False
    with lim Cons.prems have "evict E mni mbs d (int (length (n # ns))) (total (n # ns)) (n # ns) =
        Some (d, int (length (drop 0 (n # ns))), total (drop 0 (n # ns)))"
      by simp
    with False lim Cons.prems(1) show ?thesis by (intro exI [of _ d] exI [of _ 0]) auto
  next
    case True
    let ?d = "snd (e_db_delete_onem2m_resource E d n)"
    have st: "stored ?d = ns" using ok Cons.prems(1) by (simp add: cin_store_ok_def)
    have t: "0 \<le> total ns" using Cons.prems(2) total_nonneg by simp
    with True Cons.prems have "evict E mni mbs d (int (length (n # ns))) (total (n # ns)) (n # ns) =
        evict E mni mbs ?d (int (length ns)) (total ns) ns"
      by (auto simp: add_int_def in_int_def INT_MIN_def)
    moreover obtain d' k where "evict E mni mbs ?d (int (length ns)) (total ns) ns =
        Some (d', int (length (drop k ns)), total (drop k ns))" "stored d' = drop k ns"
      "int (length (drop k ns)) \<le> mni" "total (drop k ns) \<le> mbs"
      using Cons.IH [OF st] Cons.prems t by auto
    ultimately show ?thesis by (intro exI [of _ d'] exI [of _ "Suc k"]) simp
  qed
qed

text \<open>The single deletion at the limit of instances, then the loop.\<close>

lemma first_eviction:
  assumes ok: "cin_store_ok E n stored" and ns: "stored d = ns" "sized ns" and mni: "0 \<le> mni" "mni < INT_MAX"
    and rng: "int (length ns) \<le> INT_MAX" "total ns \<le> INT_MAX"
  shows "\<exists>d' j. evict_one E n mni d (int (length ns)) (total ns) =
      Some (d', int (length (drop j ns)), total (drop j ns)) \<and> stored d' = drop j ns"
proof (cases "int (length ns) = mni + 1")
  case True
  with mni obtain x xs where x: "ns = x # xs" by (cases ns) auto
  obtain tmp d' where d': "e_db_delete_one_cin_mni E d n = (tmp, d')" by fastforce
  with ok ns(1) x have "tmp = cin_size x" "stored d' = xs" by (auto simp: cin_store_ok_def dest!: spec)
  moreover have "0 \<le> total xs" "0 \<le> cin_size x" using ns(2) x total_nonneg by simp_all
  ultimately show ?thesis
    using True d' x rng mni
    by (intro exI [of _ d'] exI [of _ "Suc 0"]) (auto simp: evict_one_def add_int_def in_int_def INT_MIN_def)
next
  case False
  with ns mni show ?thesis
    by (intro exI [of _ d] exI [of _ 0]) (simp add: evict_one_def add_int_def in_int_def INT_MIN_def)
qed

lemma second_eviction:
  assumes ok: "cin_store_ok E n stored" and ns: "stored d = ns" "sized ns" and lim: "0 \<le> mni" "0 \<le> mbs"
    and rng: "int (length ns) \<le> INT_MAX" "total ns \<le> INT_MAX"
  shows "\<exists>d' k. evict_rest E n mni mbs d (int (length ns)) (total ns) =
      Some (d', int (length (drop k ns)), total (drop k ns)) \<and>
    stored d' = drop k ns \<and> int (length (drop k ns)) \<le> mni \<and> total (drop k ns) \<le> mbs"
proof -
  have "e_db_get_cin_rtnode_list E d n = ns" using ok ns(1) by (simp add: cin_store_ok_def)
  then show ?thesis
    using evict_limits [OF ok lim ns rng] ns(1) unfolding evict_rest_def
    by (cases "mni < int (length ns) \<or> mbs < total ns") (auto intro: exI [of _ 0])
qed

lemma total_drop: "sized ns \<Longrightarrow> total (drop k ns) \<le> total ns \<and> sized (drop k ns) \<and> 0 \<le> total (drop k ns)"
proof (induction ns arbitrary: k)
  case (Cons n ns)
  show ?case
  proof (cases k)
    case 0
    with Cons.prems total_nonneg [of ns] show ?thesis by simp
  next
    case (Suc i)
    with Cons.prems Cons.IH [of i] show ?thesis by simp
  qed
qed simp

lemma delete_cin_limits_aux:
  assumes n: "heap s a = Some n" "n_obj n = Some cnt" "get_ri_rtnode n = Some ri"
    and ok: "cin_store_ok E n stored" and ns: "stored (db s) = ns" "sized ns"
    and cnt: "counter cnt ''cni'' (int (length ns))" "counter cnt ''cbs'' (total ns)" "counter cnt ''st'' st" "in_int (st + 1)"
    and lim: "limit_or cnt ''mni'' DEFAULT_MAX_NR_INSTANCES = mni" "limit_or cnt ''mbs'' DEFAULT_MAX_BYTE_SIZE = mbs"
      "0 \<le> mni" "mni < INT_MAX" "0 \<le> mbs"
  shows "\<exists>s' cnt' k. delete_cin_under_cnt_mni_mbs E s a = Some s' \<and> node_obj (heap s') a = Some cnt' \<and>
    stored (db s') = drop k ns \<and> counter cnt' ''cni'' (int (length (drop k ns))) \<and>
    counter cnt' ''cbs'' (total (drop k ns)) \<and> int (length (drop k ns)) \<le> mni \<and> total (drop k ns) \<le> mbs"
proof (cases "int (length ns) \<le> mni \<and> total ns \<le> mbs")
  case True
  then have "delete_cin_under_cnt_mni_mbs E s a = Some s"
    using n cnt lim by (simp add: delete_cin_under_cnt_mni_mbs_def counter_member_int)
  with True n cnt ns show ?thesis
    by (intro exI [of _ s] exI [of _ cnt] exI [of _ 0]) (simp add: node_obj_def)
next
  case False
  have rng: "int (length ns) \<le> INT_MAX" "total ns \<le> INT_MAX" using cnt by (auto simp: counter_def in_int_def)
  obtain d1 j where d1: "stored d1 = drop j ns"
    and r1: "evict_one E n mni (db s) (int (length ns)) (total ns) = Some (d1, int (length (drop j ns)), total (drop j ns))"
    using first_eviction [OF ok ns lim(3,4) rng] by blast
  have "int (length (drop j ns)) \<le> INT_MAX" "total (drop j ns) \<le> INT_MAX" "sized (drop j ns)"
    using rng total_drop [OF ns(2), of j] by auto
  then obtain d2 k where d2: "stored d2 = drop (j + k) ns" "int (length (drop (j + k) ns)) \<le> mni" "total (drop (j + k) ns) \<le> mbs"
    and r2: "evict_rest E n mni mbs d1 (int (length (drop j ns))) (total (drop j ns)) =
      Some (d2, int (length (drop (j + k) ns)), total (drop (j + k) ns))"
    using second_eviction [OF ok d1 _ lim(3,5)] by (auto simp: add.commute)
  let ?c = "int (length (drop (j + k) ns))" and ?b = "total (drop (j + k) ns)"
  have small: "in_int ?c" "in_int ?b" "in_int (mni + 1)"
    using d2 lim total_drop [OF ns(2), of "j + k"] rng by (auto simp: in_int_def INT_MIN_def)
  define cnt1 where "cnt1 = set_int (set_int cnt ''cni'' ?c) ''cbs'' ?b"
  define cnt2 where "cnt2 = set_int cnt1 ''st'' (st + 1)"
  have c1: "counter cnt1 ''cni'' ?c" "counter cnt1 ''cbs'' ?b" "counter cnt1 ''st'' st"
    unfolding cnt1_def
    by (rule counter_set_int_other counter_set_int cnt(1-3) small(1,2) counter_names)+
  have c2: "counter cnt2 ''cni'' ?c" "counter cnt2 ''cbs'' ?b"
    using c1 unfolding cnt2_def by (simp_all add: counter_set_int_other)
  have ri: "member_string (Some cnt2) ''ri'' = Some ri"
    using n by (simp add: cnt2_def cnt1_def member_string_def get_ri_rtnode_def)
  let ?h = "(heap s)(a \<mapsto> n\<lparr>n_obj := Some cnt2\<rparr>)"
  let ?s = "s\<lparr>heap := ?h, db := snd (e_db_update_resource E d2 cnt2 ri RT_CNT)\<rparr>"
  have "delete_cin_under_cnt_mni_mbs E s a = Some ?s"
    using n cnt lim False small r1 r2 c1(3) ri
    unfolding delete_cin_under_cnt_mni_mbs_def
    by (simp add: counter_member_int put_obj_def db_save_def get_ri_rtnode_def add_int_in
        cnt1_def [symmetric] cnt2_def [symmetric] del: add_int_Some length_drop) blast
  moreover have "stored (db ?s) = drop (j + k) ns" using ok d2 by (simp add: cin_store_ok_def)
  ultimately show ?thesis
    using c2 d2 by (intro exI [of _ ?s] exI [of _ cnt2] exI [of _ "j + k"]) (simp add: node_obj_def)
qed

text \<open>
  C31. Eviction: when the counters of a container agree with its stored instances,
  \<^verbatim>\<open>delete_cin_under_cnt_mni_mbs\<close> removes instances from the oldest on until neither
  \<^verbatim>\<open>maxNrOfInstances\<close> nor \<^verbatim>\<open>maxByteSize\<close> is exceeded, and the counters \<^verbatim>\<open>cni\<close> and \<^verbatim>\<open>cbs\<close> agree
  with the remaining instances again.
\<close>

theorem delete_cin_limits:
  assumes n: "heap s a = Some n" "n_obj n = Some cnt" "get_ri_rtnode n = Some ri"
    and ok: "cin_store_ok E n stored" and ns: "stored (db s) = ns" "sized ns"
    and cnt: "counter cnt ''cni'' (int (length ns))" "counter cnt ''cbs'' (total ns)" "counter cnt ''st'' st" "in_int (st + 1)"
    and lim: "limit_or cnt ''mni'' DEFAULT_MAX_NR_INSTANCES = mni" "limit_or cnt ''mbs'' DEFAULT_MAX_BYTE_SIZE = mbs"
      "0 \<le> mni" "mni < INT_MAX" "0 \<le> mbs"
  shows "\<exists>s' cnt' k. delete_cin_under_cnt_mni_mbs E s a = Some s' \<and> node_obj (heap s') a = Some cnt' \<and>
    stored (db s') = drop k ns \<and> counter cnt' ''cni'' (int (length (drop k ns))) \<and>
    counter cnt' ''cbs'' (total (drop k ns)) \<and> int (length (drop k ns)) \<le> mni \<and> total (drop k ns) \<le> mbs"
  using assms by (rule delete_cin_limits_aux)

text \<open>A database that is the list of the instances of one container.\<close>

definition list_env :: "rtnode list env" where
  "list_env =
     \<lparr>e_time = (\<lambda>diff. ''20250101T000000,000''), e_now = 0,
      e_now_us = 0, e_strtod_us = (\<lambda>s. None), e_print = (\<lambda>j. []),
      e_db_get_resource = (\<lambda>d ri ty. None), e_db_get_resource_by_uri = (\<lambda>d uri ty. None),
      e_db_get_cin_rtnode_list = (\<lambda>d n. d),
      e_db_delete_one_cin_mni = (\<lambda>d n. (case d of [] \<Rightarrow> 0 | x # xs \<Rightarrow> cin_size x, tl d)),
      e_db_get_cin_laol = (\<lambda>d n f. None), e_db_get_fcin_laol = (\<lambda>d n f. None),
      e_db_get_tsi_laol = (\<lambda>d n f. None), e_db_store_resource = (\<lambda>d j u. (1, d)),
      e_db_update_resource = (\<lambda>d j ri ty. (1, d)), e_db_delete_onem2m_resource = (\<lambda>d n. (1, tl d)),
      e_db_begin_tx = (\<lambda>d. (1, d)), e_db_commit_tx = (\<lambda>d. (1, d)), e_db_rollback_tx = (\<lambda>d. (1, d)),
      e_db_clear_attribute = (\<lambda>d ri ty k. (1, d)), e_db_get_fcin_rtnode_list = (\<lambda>d n. []),
      e_db_general_set_lt = (\<lambda>d ri lt. (1, d)), e_db_check_cin_rn_dup = (\<lambda>d rn pi. False),
      e_db_get_descendants = (\<lambda>d p n b. Some (JArray [])), 
      e_db_tsi_check_dgt_dup = (\<lambda>d ri t. False), e_db_tsi_get_max_snr = (\<lambda>d ri. 0), e_db_tsi_get_min_snr = (\<lambda>d ri. 0),
      e_db_tsi_get_count = (\<lambda>d ri. 0), e_db_tsi_get_first_ct = (\<lambda>d ri. None), e_db_ts_clear_mdlt = (\<lambda>d ri. d),
      e_db_store_fcnt_custom_attributes = (\<lambda>d ri j. d), e_db_update_fcnt_custom_attributes = (\<lambda>d ri j. d),
      e_http_send = (\<lambda>d host port path p. (Some ''2000'', d)),
      e_http_forwarding = (\<lambda>d host port p. (p, d)), e_sdt = None\<rparr>"

definition ex_cin :: "int \<Rightarrow> rtnode" where
  "ex_cin cs = (mk_node RT_CIN ''la'' ''4-1'' None None None None None)
     \<lparr>n_obj := Some (JObject [(''cs'', JNumber cs)])\<rparr>"

definition ex_cnt :: rtnode where
  "ex_cnt = (mk_node RT_CNT ''c'' ''3-1'' None None None None None)
     \<lparr>n_obj := Some (JObject [(''ri'', JString ''3-1''), (''cni'', JNumber 3), (''cbs'', JNumber 12),
        (''st'', JNumber 0), (''mni'', JNumber 5), (''mbs'', JNumber 7)])\<rparr>"

theorem delete_cin_limits_witness:
  "\<exists>s' k. delete_cin_under_cnt_mni_mbs list_env
      \<lparr>heap = [0 \<mapsto> ex_cnt], brk = 1, cb = Some 0, registrar_csr = None, csr_list = [], ri_count = 0, md = md_init,
       db = map ex_cin [4, 6, 2]\<rparr> 0 = Some s' \<and>
     db s' = drop k (map ex_cin [4, 6, 2]) \<and> total (drop k (map ex_cin [4, 6, 2])) \<le> 7"
proof -
  let ?s = "\<lparr>heap = [0 \<mapsto> ex_cnt], brk = 1, cb = Some 0, registrar_csr = None, csr_list = [], ri_count = 0, md = md_init,
       db = map ex_cin [4, 6, 2]\<rparr>"
  let ?cnt = "JObject [(''ri'', JString ''3-1''), (''cni'', JNumber 3), (''cbs'', JNumber 12),
        (''st'', JNumber 0), (''mni'', JNumber 5), (''mbs'', JNumber 7)]"
  have sz: "cin_size (ex_cin c) = c" "member_int (n_obj (ex_cin c)) ''cs'' = Some c" if "0 \<le> c" "c \<le> 100" for c
    using that by (simp_all add: cin_size_def ex_cin_def member_int_def INT_MAX_def INT_MIN_def)
  have ok: "cin_store_ok list_env ex_cnt (\<lambda>d. d)"
    by (auto simp: cin_store_ok_def list_env_def)
  have "counter ?cnt ''cni'' (int (length (map ex_cin [4, 6, 2])))"
    "counter ?cnt ''cbs'' (total (map ex_cin [4, 6, 2]))" "counter ?cnt ''st'' 0"
    by (simp_all add: counter_def ci_eq_def tolower_def in_int_def INT_MAX_def INT_MIN_def sz)
  moreover have "limit_or ?cnt ''mni'' DEFAULT_MAX_NR_INSTANCES = 5" "limit_or ?cnt ''mbs'' DEFAULT_MAX_BYTE_SIZE = 7"
    by (simp_all add: limit_or_def ci_eq_def tolower_def INT_MAX_def INT_MIN_def)
  moreover have "get_ri_rtnode ex_cnt = Some ''3-1''" "n_obj ex_cnt = Some ?cnt"
    by (simp_all add: get_ri_rtnode_def ex_cnt_def member_string_def)
  moreover have "sized (map ex_cin [4, 6, 2])" by (simp add: sz)
  ultimately show ?thesis
    using delete_cin_limits [of ?s 0 ex_cnt ?cnt "''3-1''" list_env "\<lambda>d. d" "map ex_cin [4, 6, 2]" 0 5 7] ok
    by (fastforce simp: in_int_def INT_MAX_def INT_MIN_def)
qed

end
