(* ===== verification/Lookup.thy ===== *)
theory Lookup
  imports Container
begin

text \<open>
  Resolution of addresses to resources (\<^verbatim>\<open>rtManager.c\<close>): by hierarchical name, by resource
  identifier, by the hybrid form \<open>ri/virtual\<close>, and \<^verbatim>\<open>find_rtnode\<close>, which chooses among them and
  removes an expired resource.

  A resource that is only in the database (a contentInstance, a flexContainerInstance or a
  timeSeriesInstance) is returned as a fresh node whose parent is set but which is not
  linked into the tree. The functions return the pointer and the new state.
\<close>

section \<open>Virtual resources\<close>

text \<open>\<^verbatim>\<open>la\<close> and \<^verbatim>\<open>ol\<close>: 0 for the latest, 1 for the oldest, -1 for another name.\<close>

definition laol_flag :: "string \<Rightarrow> int" where
  "laol_flag ptr =
     (if ptr = ''la'' \<or> ptr = ''latest'' then 0
      else if ptr = ''ol'' \<or> ptr = ''oldest'' then 1 else - 1)"

definition wrap_child :: "'d cse \<Rightarrow> cjson option \<Rightarrow> int \<Rightarrow> addr \<Rightarrow> (ptr \<times> 'd cse) option" where
  "wrap_child s obj ty parent =
     (case obj of
        None \<Rightarrow> Some (None, s)
      | Some j \<Rightarrow> do {
          (a, s) \<leftarrow> create_rtnode s j ty;
          h \<leftarrow> upd (heap s) a (\<lambda>n. n\<lparr>n_parent := Some parent\<rparr>);
          Some (Some a, s\<lparr>heap := h\<rparr>) })"

definition db_laol :: "'d env \<Rightarrow> int \<Rightarrow> 'd \<Rightarrow> rtnode \<Rightarrow> int \<Rightarrow> cjson option" where
  "db_laol E ty =
     (if ty = RT_CIN then e_db_get_cin_laol E
      else if ty = RT_FCIN then e_db_get_fcin_laol E
      else e_db_get_tsi_laol E)"

text \<open>The instance type a parent of the given type has virtual children of.\<close>

definition instance_ty :: "int \<Rightarrow> int option" where
  "instance_ty ty =
     (if ty = RT_CNT then Some RT_CIN else if ty = RT_FCNT then Some RT_FCIN
      else if ty = RT_TS then Some RT_TSI else None)"

section \<open>By hierarchical name\<close>

text \<open>The inner loop over the siblings; \<^verbatim>\<open>strcmp\<close> on a node without \<^verbatim>\<open>rn\<close> is undefined.\<close>

partial_function (option) find_sibling :: "heap \<Rightarrow> ptr \<Rightarrow> string \<Rightarrow> ptr option" where
  "find_sibling h rtnode ptr =
     (case rtnode of
        None \<Rightarrow> Some None
      | Some a \<Rightarrow> do {
          n \<leftarrow> h a;
          rn \<leftarrow> n_rn n;
          if rn = ptr then Some (Some a) else find_sibling h (n_sibling_right n) ptr })"

text \<open>
  The outer loop: the node that was reached (null when a segment is missing), the last node
  that was entered, and the segments from the missing one on.
\<close>

fun walk :: "heap \<Rightarrow> ptr \<Rightarrow> ptr \<Rightarrow> string list \<Rightarrow> (ptr \<times> ptr \<times> string list) option" where
  "walk h rtnode parent [] = Some (rtnode, parent, [])"
| "walk h rtnode parent (t # ts) =
     do {
       r \<leftarrow> find_sibling h rtnode t;
       case r of
         None \<Rightarrow> Some (None, parent, t # ts)
       | Some a \<Rightarrow>
           if ts = [] then Some (Some a, parent, [])
           else do { n \<leftarrow> h a; walk h (n_child n) (Some a) ts } }"

definition find_rtnode_by_rn :: "'d env \<Rightarrow> 'd cse \<Rightarrow> string \<Rightarrow> (ptr \<times> 'd cse) option" where
  "find_rtnode_by_rn E s rn =
     (case strtok CHR ''/'' rn of
        [] \<Rightarrow> Some (None, s)
      | t # ts \<Rightarrow> do {
          (start, segments) \<leftarrow>
            (if t = ''-'' then do { c \<leftarrow> deref (heap s) (cb s); Some (n_child c, ts) }
             else Some (cb s, t # ts));
          (rtnode, parent, rest) \<leftarrow> walk (heap s) start None segments;
          case (rtnode, parent, rest) of
            (None, Some p, ptr # later) \<Rightarrow> do {
              pn \<leftarrow> heap s p;
              case instance_ty (n_ty pn) of
                None \<Rightarrow> Some (None, s)
              | Some ty \<Rightarrow> do {
                  latest \<leftarrow>
                    (if n_ty pn = RT_CNT
                     then (case n_child pn of
                             None \<Rightarrow> Some False
                           | Some c \<Rightarrow> do { cn \<leftarrow> heap s c; crn \<leftarrow> member_string (n_obj cn) ''rn''; Some (crn = ptr) })
                     else Some False);
                  if latest then Some (n_child pn, s)
                  else if later \<noteq> [] then Some (None, s)
                  else wrap_child s
                         (if laol_flag ptr = 0 \<or> laol_flag ptr = 1
                          then db_laol E ty (db s) pn (laol_flag ptr)
                          else e_db_get_resource_by_uri E (db s) rn ty)
                         ty p } }
          | _ \<Rightarrow> Some (rtnode, s) })"

section \<open>By resource identifier\<close>

definition find_rtnode_by_ri :: "'d env \<Rightarrow> 'd cse \<Rightarrow> string \<Rightarrow> (ptr \<times> 'd cse) option" where
  "find_rtnode_by_ri E s ri =
     (if strncmp ri ''4-'' 2 = 0
      then (case e_db_get_resource E (db s) ri RT_CIN of
              None \<Rightarrow> Some (None, s)
            | Some resource \<Rightarrow> do {
                (a, s) \<leftarrow> create_rtnode s resource RT_CIN;
                n \<leftarrow> heap s a;
                uri \<leftarrow> n_uri n;
                (p, s) \<leftarrow> find_rtnode_by_rn E s uri;
                h \<leftarrow> upd (heap s) a (\<lambda>n. n\<lparr>n_parent := p\<rparr>);
                Some (Some a, s\<lparr>heap := h\<rparr>) })
      else do { r \<leftarrow> rt_search_ri (heap s) (cb s) ri; Some (r, s) })"

section \<open>Hybrid addresses\<close>

text \<open>The last loop skips nodes without a name.\<close>

partial_function (option) find_named :: "heap \<Rightarrow> ptr \<Rightarrow> string \<Rightarrow> ptr option" where
  "find_named h rtnode name =
     (case rtnode of
        None \<Rightarrow> Some None
      | Some a \<Rightarrow> do {
          n \<leftarrow> h a;
          if n_rn n = Some name then Some (Some a) else find_named h (n_sibling_right n) name })"

definition find_rtnode_by_hybrid :: "'d env \<Rightarrow> 'd cse \<Rightarrow> string option \<Rightarrow> (ptr \<times> 'd cse) option" where
  "find_rtnode_by_hybrid E s hb =
     (case hb of
        None \<Rightarrow> Some (None, s)
      | Some target_uri \<Rightarrow>
          (case strchr target_uri CHR ''/'' of
             None \<Rightarrow> Some (None, s)
           | Some slash \<Rightarrow>
               (let parent_ri = before CHR ''/'' target_uri;
                    rest = drop 1 slash;
                    virtual_rn = before CHR ''/'' rest;
                    suffix = (case strchr rest CHR ''/'' of None \<Rightarrow> [] | Some t \<Rightarrow> drop 1 t)
                in if parent_ri = [] \<or> rest = [] then Some (None, s)
                   else do {
                     (parent, s) \<leftarrow> find_rtnode_by_ri E s parent_ri;
                     case parent of
                       None \<Rightarrow> Some (None, s)
                     | Some p \<Rightarrow> do {
                         pn \<leftarrow> heap s p;
                         if virtual_rn = ''fopt'' \<or> virtual_rn = ''sfop''
                         then Some (if n_ty pn = RT_GRP then Some p else None, s)
                         else if suffix \<noteq> [] then Some (None, s)
                         else (case instance_ty (n_ty pn) of
                                 Some ty \<Rightarrow>
                                   if laol_flag virtual_rn = 0 \<or> laol_flag virtual_rn = 1
                                   then wrap_child s (db_laol E ty (db s) pn (laol_flag virtual_rn)) ty p
                                   else do { r \<leftarrow> find_named (heap s) (n_child pn) virtual_rn; Some (r, s) }
                               | None \<Rightarrow> do { r \<leftarrow> find_named (heap s) (n_child pn) virtual_rn; Some (r, s) }) } })))"

section \<open>\<^verbatim>\<open>find_rtnode\<close>\<close>

text \<open>A URI up to the first \<^verbatim>\<open>/fopt\<close>.\<close>

definition cut_fopt :: "string \<Rightarrow> string" where
  "cut_fopt a = (case strstr a ''/fopt'' of None \<Rightarrow> a | Some t \<Rightarrow> take (length a - length t) a)"

definition structured :: "string \<Rightarrow> bool" where
  "structured a \<longleftrightarrow> starts_with a (CSE_BASE_NAME @ ''/'') \<or> starts_with a ''-/''"

text \<open>
  Removal of an expired resource; the counters of the parent are updated for a
  flexContainerInstance only.
\<close>

definition drop_if_expired :: "'d env \<Rightarrow> 'd cse \<Rightarrow> ptr \<Rightarrow> (ptr \<times> 'd cse) option" where
  "drop_if_expired E s rtnode =
     (case rtnode of
        None \<Rightarrow> Some (None, s)
      | Some a \<Rightarrow> do {
          n \<leftarrow> heap s a;
          if isExpired E (Some n)
          then do {
            s \<leftarrow> (if n_ty n = RT_FCIN \<and> n_parent n \<noteq> None
                   then map_option snd (update_fcnt_fcin E s (n_parent n) (Some a) (- 1))
                   else Some s);
            n \<leftarrow> heap s a;
            let s = s\<lparr>db := snd (e_db_delete_onem2m_resource E (db s) n)\<rparr>;
            h \<leftarrow> free_rtnode (heap s) a;
            Some (None, s\<lparr>heap := h\<rparr>) }
          else Some (Some a, s) })"

definition find_rtnode :: "'d env \<Rightarrow> 'd cse \<Rightarrow> string option \<Rightarrow> (ptr \<times> 'd cse) option" where
  "find_rtnode E s addr =
     (case addr of
        None \<Rightarrow> Some (None, s)
      | Some a \<Rightarrow>
          if a = CSE_BASE_NAME \<or> a = ''-'' then Some (cb s, s)
          else do {
            (rtnode, s) \<leftarrow>
              (if structured a then find_rtnode_by_rn E s (cut_fopt a)
               else if strchr a CHR ''/'' \<noteq> None then find_rtnode_by_hybrid E s (Some a)
               else find_rtnode_by_ri E s a);
            drop_if_expired E s rtnode })"

text \<open>\<^verbatim>\<open>ri_to_uri\<close> of \<^verbatim>\<open>util.c\<close>.\<close>

definition ri_to_uri :: "'d env \<Rightarrow> 'd cse \<Rightarrow> string \<Rightarrow> (string option \<times> 'd cse) option" where
  "ri_to_uri E s ri =
     do {
       (rtnode, s) \<leftarrow> find_rtnode_by_ri E s ri;
       case rtnode of None \<Rightarrow> Some (None, s) | Some a \<Rightarrow> do { n \<leftarrow> heap s a; Some (n_uri n, s) } }"

section \<open>Names in the tree\<close>

definition rn_of :: "heap \<Rightarrow> addr \<Rightarrow> string option" where
  "rn_of h a = Option.bind (h a) n_rn"

definition segment :: "string \<Rightarrow> bool" where
  "segment rn \<longleftrightarrow> rn \<noteq> [] \<and> CHR ''/'' \<notin> set rn"

text \<open>
  The naming invariant of a list of siblings whose parent has the URI \<open>u\<close>: every node has a
  one-segment name that no sibling shares, and its URI is the path to it.
\<close>

fun named :: "heap \<Rightarrow> string \<Rightarrow> rtree list \<Rightarrow> bool" where
  "named h u [] = True"
| "named h u (T a cs # ts) =
     (case rn_of h a of
        None \<Rightarrow> False
      | Some rn \<Rightarrow>
          segment rn \<and> Option.bind (h a) n_uri = Some (u @ ''/'' @ rn) \<and>
          list_all (\<lambda>t. rn_of h (root t) \<noteq> Some rn) ts \<and>
          named h (u @ ''/'' @ rn) cs \<and> named h u ts)"

text \<open>The whole tree: the root is the CSEBase and has its name as URI.\<close>

definition named_rt :: "heap \<Rightarrow> rtree \<Rightarrow> bool" where
  "named_rt h t \<longleftrightarrow>
     rn_of h (root t) = Some CSE_BASE_NAME \<and> Option.bind (h (root t)) n_uri = Some CSE_BASE_NAME \<and>
     named h CSE_BASE_NAME (kids t)"

lemma find_sibling_first:
  "rn_of h a = Some rn \<Longrightarrow> find_sibling h (Some a) name =
     (if rn = name then Some (Some a) else Option.bind (h a) (\<lambda>n. find_sibling h (n_sibling_right n) name))"
  by (subst find_sibling.simps) (auto simp: rn_of_def)

lemma find_sibling_find:
  "seg h par left p ts None \<Longrightarrow> list_all (\<lambda>t. rn_of h (root t) \<noteq> None) ts \<Longrightarrow>
   find_sibling h p name = Some (map_option root (find (\<lambda>t. rn_of h (root t) = Some name) ts))"
proof (induction ts arbitrary: left p)
  case Nil
  then show ?case by (simp add: find_sibling.simps)
next
  case (Cons t ts)
  obtain a cs where t: "t = T a cs" by (cases t)
  with Cons.prems obtain n where n: "h a = Some n" "p = Some a"
    "seg h par (Some a) (n_sibling_right n) ts None"
    by (auto split: option.splits)
  from Cons.prems(2) t obtain rn where rn: "rn_of h a = Some rn" by auto
  from Cons.IH [OF n(3)] Cons.prems(2) have
    "find_sibling h (n_sibling_right n) name = Some (map_option root (find (\<lambda>t. rn_of h (root t) = Some name) ts))"
    by simp
  with n rn t show ?case by (simp add: find_sibling_first)
qed

lemma named_rn: "named h u ts \<Longrightarrow> t \<in> set ts \<Longrightarrow> \<exists>rn. rn_of h (root t) = Some rn \<and> segment rn"
  by (induction h u ts rule: named.induct) (auto split: option.splits)

definition path :: "string list \<Rightarrow> string" where
  "path segs = concat (map (\<lambda>x. CHR ''/'' # x) segs)"

lemma path_simps [simp]: "path [] = []" "path (x # xs) = CHR ''/'' # x @ path xs"
  by (simp_all add: path_def)

lemma join_with_path: "join_with CHR ''/'' (x # xs) = x @ path xs"
  by (induction xs arbitrary: x) auto

text \<open>What the walk along the path of a node finds, whatever node was entered before.\<close>

definition reaches :: "heap \<Rightarrow> ptr \<Rightarrow> string list \<Rightarrow> addr \<Rightarrow> bool" where
  "reaches h p segs a \<longleftrightarrow> segs \<noteq> [] \<and> list_all segment segs \<and>
     (\<forall>parent. \<exists>parent'. walk h p parent segs = Some (Some a, parent', []))"

lemma reaches_self:
  assumes "rn_of h a = Some rn" "segment rn"
  shows "reaches h (Some a) [rn] a"
  using assms by (simp add: reaches_def find_sibling_first)

lemma reaches_child:
  assumes "rn_of h b = Some rn" "segment rn" "h b = Some n" "reaches h (n_child n) segs a"
  shows "reaches h (Some b) (rn # segs) a"
  using assms by (simp add: reaches_def find_sibling_first)

lemma reaches_sibling:
  assumes "rn_of h b = Some rn" "h b = Some n" "reaches h (n_sibling_right n) segs a" "hd segs \<noteq> rn"
  shows "reaches h (Some b) segs a"
  using assms by (cases segs) (auto simp: reaches_def find_sibling_first)

lemma walk_uri:
  "seg h par left p ts None \<Longrightarrow> named h u ts \<Longrightarrow> (a, cs) \<in> set (nodes ts) \<Longrightarrow>
   \<exists>segs. reaches h p segs a \<and> Option.bind (h a) n_uri = Some (u @ path segs) \<and>
     (\<exists>t \<in> set ts. rn_of h (root t) = Some (hd segs))"
proof (induction h u ts arbitrary: par left p rule: named.induct)
  case (1 h u)
  then show ?case by simp
next
  case (2 h u b bs ts)
  from 2(4) obtain rn where rn: "rn_of h b = Some rn" "segment rn"
    "Option.bind (h b) n_uri = Some (u @ ''/'' @ rn)" "named h (u @ ''/'' @ rn) bs" "named h u ts"
    "list_all (\<lambda>t. rn_of h (root t) \<noteq> Some rn) ts"
    by (auto split: option.splits)
  from 2(3) obtain n where n: "p = Some b" "h b = Some n" "seg h (Some b) None (n_child n) bs None"
    "seg h par (Some b) (n_sibling_right n) ts None"
    by (auto split: option.splits)
  from 2(5) consider "a = b" | "(a, cs) \<in> set (nodes bs)" | "(a, cs) \<in> set (nodes ts)" by auto
  then show ?case
  proof cases
    case 1
    with rn n show ?thesis by (intro exI [of _ "[rn]"]) (simp add: reaches_self)
  next
    case 2
    from "2.IH"(1) [OF rn(1) n(3) rn(4) 2] obtain segs where
      s: "reaches h (n_child n) segs a" "Option.bind (h a) n_uri = Some ((u @ ''/'' @ rn) @ path segs)" by blast
    with rn n show ?thesis by (intro exI [of _ "rn # segs"]) (simp add: reaches_child)
  next
    case 3
    from "2.IH"(2) [OF rn(1) n(4) rn(5) 3] obtain segs t where
      s: "reaches h (n_sibling_right n) segs a" "Option.bind (h a) n_uri = Some (u @ path segs)"
      and t: "t \<in> set ts" "rn_of h (root t) = Some (hd segs)" by blast
    then have "hd segs \<noteq> rn" using rn(6) by (auto simp: list_all_iff)
    with s t rn n show ?thesis by (intro exI [of _ segs]) (auto intro: reaches_sibling)
  qed
qed

lemma find_by_segments:
  assumes "reaches (heap s) (cb s) (x # segs) a" "x \<noteq> ''-''"
  shows "find_rtnode_by_rn E s (x @ path segs) = Some (Some a, s)"
proof -
  have "strtok CHR ''/'' (join_with CHR ''/'' (x # segs)) = x # segs"
    using assms(1) by (intro strtok_join) (auto simp: reaches_def list_all_iff segment_def)
  then have "strtok CHR ''/'' (x @ path segs) = x # segs" by (simp only: join_with_path)
  moreover obtain p where "walk (heap s) (cb s) None (x # segs) = Some (Some a, p, [])"
    using assms(1) unfolding reaches_def by blast
  ultimately show ?thesis using assms(2) by (simp add: find_rtnode_by_rn_def del: walk.simps)
qed

text \<open>The walk along the stored URI of any node of the tree.\<close>

lemma uri_resolves_aux:
  assumes "wf_rt (heap s) (cb s) t" "named_rt (heap s) t" "(a, cs) \<in> set (nodes [t])"
    and "Option.bind (heap s a) n_uri = Some u"
  shows "find_rtnode_by_rn E s u = Some (Some a, s)"
proof -
  obtain b bs where t: "t = T b bs" by (cases t)
  let ?h = "heap s"
  have b: "rn_of ?h b = Some CSE_BASE_NAME" "Option.bind (?h b) n_uri = Some CSE_BASE_NAME" "named ?h CSE_BASE_NAME bs"
    using assms(2) t by (auto simp: named_rt_def)
  from assms(1) t obtain n where n: "cb s = Some b" "?h b = Some n" "seg ?h (Some b) None (n_child n) bs None"
    by (auto simp: wf_rt_def split: option.splits)
  have seg: "segment CSE_BASE_NAME" by (simp add: segment_def)
  show ?thesis
  proof (cases "a = b")
    case True
    then have "u = CSE_BASE_NAME" using b(2) assms(4) by auto
    then show ?thesis
      using find_by_segments [of s CSE_BASE_NAME "[]" a E] reaches_self [OF b(1) seg] n True by simp
  next
    case False
    with assms(3) t have "(a, cs) \<in> set (nodes bs)" by auto
    from walk_uri [OF n(3) b(3) this] obtain segs where
      "reaches ?h (n_child n) segs a" "Option.bind (?h a) n_uri = Some (CSE_BASE_NAME @ path segs)" by blast
    with assms(4) n show ?thesis
      using find_by_segments [of s CSE_BASE_NAME segs a E] reaches_child [OF b(1) seg n(2)] by simp
  qed
qed

text \<open>
  C27. Every resource is reachable by its hierarchical address: in a well-formed tree whose
  names are one-segment and distinct among siblings, \<^verbatim>\<open>find_rtnode_by_rn\<close> applied to the URI
  stored in a node returns that node, without a database access and without changing the
  state.
\<close>

theorem uri_resolves:
  assumes "wf_rt (heap s) (cb s) t" "named_rt (heap s) t" "(a, cs) \<in> set (nodes [t])"
    and "Option.bind (heap s a) n_uri = Some u"
  shows "find_rtnode_by_rn E s u = Some (Some a, s)"
  using assms by (rule uri_resolves_aux)

lemma ex_cse_wf: "wf_rt (heap (ex_cse d)) (cb (ex_cse d)) ex_tree"
  using ex_wf by (simp add: ex_cse_def)

lemma ex_named: "named_rt (heap (ex_cse d)) ex_tree"
  by (simp add: named_rt_def rn_of_def ex_cse_def ex_heap_def ex_tree_def mk_node_def segment_def)

lemma ex_nodes:
  "heap (ex_cse d) 0 = Some (mk_node RT_CSE ''TinyIoT'' ''tinyiot'' (Some ''TinyIoT'') None (Some 1) None None)"
  "heap (ex_cse d) 3 = Some (mk_node RT_CNT ''cnt2'' ''3-2'' (Some ''TinyIoT/ae1/cnt2'') (Some 1) None None None)"
  "cb (ex_cse d) = Some 0"
  by (simp_all add: ex_cse_def ex_heap_def)

theorem uri_resolves_witness:
  "find_rtnode_by_rn list_env (ex_cse []) ''TinyIoT/ae1/cnt2'' = Some (Some 3, ex_cse [])"
proof (rule uri_resolves)
  show "wf_rt (heap (ex_cse ([] :: rtnode list))) (cb (ex_cse ([] :: rtnode list))) ex_tree" by (rule ex_cse_wf)
  show "named_rt (heap (ex_cse ([] :: rtnode list))) ex_tree" by (rule ex_named)
  show "(3, []) \<in> set (nodes [ex_tree])" by (simp add: ex_tree_def)
  show "Option.bind (heap (ex_cse ([] :: rtnode list)) 3) n_uri = Some ''TinyIoT/ae1/cnt2''"
    by (simp add: ex_cse_def ex_heap_def mk_node_def)
qed

section \<open>Lookup after insertion\<close>

definition uri_of :: "heap \<Rightarrow> addr \<Rightarrow> string option" where
  "uri_of h a = Option.bind (h a) n_uri"

lemma names_rn_uri: "names h' a = names h a \<Longrightarrow> rn_of h' a = rn_of h a \<and> uri_of h' a = uri_of h a"
  by (cases "h a"; cases "h' a") (auto simp: names_def rn_of_def uri_of_def)

definition named1 :: "heap \<Rightarrow> string \<Rightarrow> rtree \<Rightarrow> bool" where
  "named1 h u t \<longleftrightarrow> (\<exists>rn. rn_of h (root t) = Some rn \<and> segment rn \<and>
     uri_of h (root t) = Some (u @ ''/'' @ rn) \<and> named h (u @ ''/'' @ rn) (kids t))"

lemma named_iff:
  "named h u ts \<longleftrightarrow> list_all (named1 h u) ts \<and> distinct (map (\<lambda>t. rn_of h (root t)) ts)"
proof (induction ts)
  case (Cons t ts)
  obtain a cs where t: "t = T a cs" by (cases t)
  have "list_all (\<lambda>t. rn_of h (root t) \<noteq> Some rn) ts \<longleftrightarrow> Some rn \<notin> (\<lambda>t. rn_of h (root t)) ` set ts" for rn
    by (fastforce simp: list_all_iff image_iff)
  with Cons t show ?case
    by (cases "rn_of h a") (auto simp: named1_def uri_of_def)
qed simp

lemma named_cong:
  "(\<And>x. x \<in> set (addrs ts) \<Longrightarrow> rn_of h' x = rn_of h x \<and> uri_of h' x = uri_of h x) \<Longrightarrow>
   named h' u ts = named h u ts"
proof (induction h u ts rule: named.induct)
  case (2 h u a cs ts)
  have a: "rn_of h' a = rn_of h a" "uri_of h' a = uri_of h a" using 2(3) by auto
  have "list_all (\<lambda>t. rn_of h' (root t) \<noteq> rn) ts = list_all (\<lambda>t. rn_of h (root t) \<noteq> rn) ts" for rn
    using 2(3) root_in_addrs [of _ ts] by (auto simp: list_all_iff)
  moreover have "named h' u ts = named h u ts" if "rn_of h a = Some rn" for rn
    using that 2(3) by (intro 2(2)) auto
  moreover have "named h' (u @ ''/'' @ rn) cs = named h (u @ ''/'' @ rn) cs" if "rn_of h a = Some rn" for rn
    using that 2(3) by (intro 2(1)) auto
  ultimately show ?case
    using a by (auto simp: uri_of_def split: option.splits)
qed simp

lemma named_node: "named h u ts \<Longrightarrow> (a, cs) \<in> set (nodes ts) \<Longrightarrow> \<exists>v. uri_of h a = Some v \<and> named h v cs"
  by (induction h u ts rule: named.induct) (auto simp: uri_of_def split: option.splits)

lemma named_set_kids:
  "named h u ts \<Longrightarrow> (a, cs) \<in> set (nodes ts) \<Longrightarrow> distinct (addrs ts) \<Longrightarrow> uri_of h a = Some v \<Longrightarrow> named h v ks \<Longrightarrow>
   named h u (set_kids a ks ts)"
proof (induction h u ts rule: named.induct)
  case (2 h u b bs ts)
  from 2(3) obtain rn where rn: "rn_of h b = Some rn" "segment rn" "uri_of h b = Some (u @ ''/'' @ rn)"
    "list_all (\<lambda>t. rn_of h (root t) \<noteq> Some rn) ts" "named h (u @ ''/'' @ rn) bs" "named h u ts"
    by (auto simp: uri_of_def split: option.splits)
  have roots: "list_all (\<lambda>t. rn_of h (root t) \<noteq> Some rn) (set_kids a ks ts)"
    using rn(4) map_root_set_kids [of a ks ts] unfolding list_all_iff
    by (metis (no_types, lifting) imageE imageI set_map)
  have ts: "named h u (set_kids a ks ts)"
  proof (cases "a \<in> set (addrs ts)")
    case True
    then have "(a, cs) \<in> set (nodes ts)" using 2(4,5) nodes_addr by fastforce
    with rn 2 show ?thesis by auto
  qed (use rn in \<open>simp add: set_kids_absent\<close>)
  moreover have "named h (u @ ''/'' @ rn) (set_kids a ks bs)" if "a \<noteq> b"
  proof (cases "a \<in> set (addrs bs)")
    case True
    then have "(a, cs) \<in> set (nodes bs)" using 2(4,5) that nodes_addr by fastforce
    with rn 2 show ?thesis by auto
  qed (use rn in \<open>simp add: set_kids_absent\<close>)
  ultimately show ?case using rn roots 2(6,7) by (auto simp: uri_of_def)
qed simp

lemma named_rt_iff:
  "named_rt h (T b bs) \<longleftrightarrow> rn_of h b = Some CSE_BASE_NAME \<and> uri_of h b = Some CSE_BASE_NAME \<and> named h CSE_BASE_NAME bs"
  by (simp add: named_rt_def uri_of_def)

lemma named_rt_node:
  "named_rt h t \<Longrightarrow> (a, cs) \<in> set (nodes [t]) \<Longrightarrow> \<exists>v. uri_of h a = Some v \<and> named h v cs"
  by (cases t) (auto simp: named_rt_iff dest: named_node)

lemma named_rt_set_kids:
  assumes "named_rt h t" "(a, cs) \<in> set (nodes [t])" "distinct (addrs [t])" "uri_of h a = Some v" "named h v ks"
    and "set_kids a ks [t] = [t']"
  shows "named_rt h t'"
proof -
  obtain b bs where t: "t = T b bs" by (cases t)
  show ?thesis
  proof (cases "a = b")
    case True
    with assms t show ?thesis by (auto simp: named_rt_iff)
  next
    case False
    with assms t have "named h CSE_BASE_NAME (set_kids a ks bs)"
      by (intro named_set_kids) (auto simp: named_rt_iff)
    with False assms t show ?thesis by (auto simp: named_rt_iff)
  qed
qed

lemma named_ins_sib:
  assumes "named h u ts" "rn_of h c = Some rn" "segment rn" "uri_of h c = Some (u @ ''/'' @ rn)"
    and "list_all (\<lambda>t. rn_of h (root t) \<noteq> Some rn) ts"
  shows "named h u (ins_sib ty (T c []) ts)"
proof -
  obtain xs ys where ts: "ts = xs @ ys" "ins_sib ty (T c []) ts = xs @ T c [] # ys"
    unfolding ins_sib_def by (metis takeWhile_dropWhile_id)
  have "Some rn \<notin> (\<lambda>t. rn_of h (root t)) ` set ts" using assms(5) by (fastforce simp: list_all_iff)
  then show ?thesis
    using assms(1-4) unfolding ts(2) unfolding ts(1) by (auto simp: named_iff named1_def)
qed

lemma lookup_after_insert_aux:
  assumes wf: "wf_rt (heap s) (cb s) t" "named_rt (heap s) t" and par: "(parent, cs) \<in> set (nodes [t])"
    "heap s parent = Some p" "in_int (n_sub_cnt p + 1)"
    and c: "fresh_leaf (heap s) t child c" "n_rn c = Some rn" "segment rn"
    "list_all (\<lambda>t. rn_of (heap s) (root t) \<noteq> Some rn) cs"
  shows "\<exists>s' t' puri. add_child_resource_tree s parent child = Some s' \<and> n_uri p = Some puri \<and>
    wf_rt (heap s') (cb s') t' \<and> named_rt (heap s') t' \<and>
    find_rtnode_by_rn E s' (puri @ ''/'' @ rn) = Some (Some child, s') \<and>
    (\<forall>a ds u. (a, ds) \<in> set (nodes [t]) \<longrightarrow> uri_of (heap s) a = Some u \<longrightarrow>
       find_rtnode_by_rn E s' u = Some (Some a, s')) \<and>
    names (heap s') child = Some (Some rn, Some (puri @ ''/'' @ rn), n_ty c, n_obj c) \<and> db s' = db s \<and>
    (\<forall>x. x \<noteq> child \<longrightarrow> names (heap s') x = names (heap s) x)"
proof -
  obtain puri where puri: "uri_of (heap s) parent = Some puri" "named (heap s) puri cs"
    using named_rt_node [OF wf(2) par(1)] by blast
  then have "n_uri p = Some puri" using par(2) by (simp add: uri_of_def)
  from add_child_effect [OF wf(1) par(1,2) this par(3) c(1,2)] obtain s' t' c' where
    run: "add_child_resource_tree s parent child = Some s'"
    and t': "set_kids parent (ins_sib (tyof (heap s)) (T child []) cs) [t] = [t']"
    and wf': "wf_rt (heap s') (cb s') t'" and ms: "mset (addrs [t']) = add_mset child (mset (addrs [t]))"
    and c': "heap s' child = Some c'" "n_uri c' = Some (puri @ ''/'' @ rn)" "n_rn c' = Some rn"
    and same: "\<And>x. x \<noteq> child \<Longrightarrow> names (heap s') x = names (heap s) x"
    and data: "names (heap s') child = Some (Some rn, Some (puri @ ''/'' @ rn), n_ty c, n_obj c)" "db s' = db s"
    by blast
  have fresh: "child \<notin> set (addrs [t])" using c(1) by (simp add: fresh_leaf_def)
  have rnu: "rn_of (heap s') x = rn_of (heap s) x \<and> uri_of (heap s') x = uri_of (heap s) x"
    if "x \<in> set (addrs [t])" for x
    using that fresh by (intro names_rn_uri same) auto
  have sub: "set (addrs cs) \<subseteq> set (addrs [t])" "parent \<in> set (addrs [t])"
    using par(1) nodes_kids_sub nodes_addr by auto
  have nt: "named_rt (heap s') t"
    using wf(2) rnu named_cong [of "kids t" "heap s'" "heap s" CSE_BASE_NAME]
    by (cases t) (simp add: named_rt_iff)
  have ncs: "named (heap s') puri cs"
    using puri(2) rnu sub named_cong [of cs "heap s'" "heap s" puri] by blast
  have free: "list_all (\<lambda>t. rn_of (heap s') (root t) \<noteq> Some rn) cs"
    unfolding list_all_iff
  proof
    fix u
    assume u: "u \<in> set cs"
    then have "root u \<in> set (addrs [t])" using sub(1) root_in_addrs by blast
    with u c(4) rnu show "rn_of (heap s') (root u) \<noteq> Some rn" by (simp add: list_all_iff)
  qed
  have "rn_of (heap s') child = Some rn" "uri_of (heap s') child = Some (puri @ ''/'' @ rn)"
    using c' by (simp_all add: rn_of_def uri_of_def)
  then have "named (heap s') puri (ins_sib (tyof (heap s)) (T child []) cs)"
    using named_ins_sib [OF ncs _ c(3) _ free] by blast
  moreover have "uri_of (heap s') parent = Some puri" using puri rnu sub by simp
  moreover have "distinct (addrs [t])" using wf(1) by (simp add: wf_rt_def)
  ultimately have named': "named_rt (heap s') t'"
    using named_rt_set_kids [OF nt par(1) _ _ _ t'] by blast
  have node: "\<exists>ds. (x, ds) \<in> set (nodes [t'])" if "x \<in> insert child (set (addrs [t]))" for x
  proof -
    have "x \<in># mset (addrs [t'])" using that ms by auto
    then show ?thesis by (auto simp: addrs_def)
  qed
  have res: "find_rtnode_by_rn E s' u = Some (Some x, s')"
    if "x \<in> insert child (set (addrs [t]))" "uri_of (heap s') x = Some u" for x u
    using node [OF that(1)] uri_resolves_aux [OF wf' named'] that(2) by (auto simp: uri_of_def)
  have "find_rtnode_by_rn E s' (puri @ ''/'' @ rn) = Some (Some child, s')"
    using res [of child] c' by (simp add: uri_of_def)
  moreover have "find_rtnode_by_rn E s' u = Some (Some a, s')"
    if "(a, ds) \<in> set (nodes [t])" "uri_of (heap s) a = Some u" for a ds u
    using that res [of a u] rnu [of a] nodes_addr by fastforce
  ultimately show ?thesis
    using run wf' named' puri par(2) data same by (auto simp: uri_of_def)
qed

text \<open>
  C28. Lookup after insertion: when a new resource with a legal name that no sibling has is
  added below a resource of a well-formed and correctly named tree, the tree stays well
  formed and correctly named, the URI of the new resource resolves to it, and the URI of
  every other resource still resolves to that resource.
\<close>

theorem lookup_after_insert:
  assumes wf: "wf_rt (heap s) (cb s) t" "named_rt (heap s) t" and par: "(parent, cs) \<in> set (nodes [t])"
    "heap s parent = Some p" "in_int (n_sub_cnt p + 1)"
    and c: "fresh_leaf (heap s) t child c" "n_rn c = Some rn" "segment rn"
    "list_all (\<lambda>t. rn_of (heap s) (root t) \<noteq> Some rn) cs"
  shows "\<exists>s' t' puri. add_child_resource_tree s parent child = Some s' \<and> n_uri p = Some puri \<and>
    wf_rt (heap s') (cb s') t' \<and> named_rt (heap s') t' \<and>
    find_rtnode_by_rn E s' (puri @ ''/'' @ rn) = Some (Some child, s') \<and>
    (\<forall>a ds u. (a, ds) \<in> set (nodes [t]) \<longrightarrow> uri_of (heap s) a = Some u \<longrightarrow>
       find_rtnode_by_rn E s' u = Some (Some a, s'))"
  using lookup_after_insert_aux [OF assms] by blast

theorem lookup_after_insert_witness:
  "\<exists>s'. add_child_resource_tree (ex_cse []) 0 4 = Some s' \<and>
     find_rtnode_by_rn list_env s' ''TinyIoT/ae2'' = Some (Some 4, s')"
proof -
  have "(0, [T 1 [T 3 []], T 2 []]) \<in> set (nodes [ex_tree])" by (simp add: ex_tree_def)
  moreover have "fresh_leaf (heap (ex_cse ([] :: rtnode list))) ex_tree 4
      (mk_node RT_AE ''ae2'' ''CAE2'' None None None None None)"
    by (simp add: fresh_leaf_def ex_cse_def ex_heap_def ex_tree_def mk_node_def)
  moreover have "list_all (\<lambda>t. rn_of (heap (ex_cse ([] :: rtnode list))) (root t) \<noteq> Some ''ae2'') [T 1 [T 3 []], T 2 []]"
    by (simp add: rn_of_def ex_cse_def ex_heap_def mk_node_def)
  ultimately have "\<exists>s' t' puri. add_child_resource_tree (ex_cse []) 0 4 = Some s' \<and> puri = ''TinyIoT'' \<and>
      find_rtnode_by_rn list_env s' (puri @ ''/'' @ ''ae2'') = Some (Some 4, s')"
    using lookup_after_insert [where E = list_env, OF ex_cse_wf ex_named _ ex_nodes(1)]
    by (fastforce simp: mk_node_def segment_def in_int_def INT_MAX_def INT_MIN_def)
  then show ?thesis by simp
qed

section \<open>Addresses with \<^verbatim>\<open>/fopt\<close>\<close>

lemma cut_fopt_none: "strstr u ''/fopt'' = None \<Longrightarrow> cut_fopt u = u"
  by (simp add: cut_fopt_def)

text \<open>
  \<^verbatim>\<open>find_rtnode\<close> resolves the URI of a resource to the resource itself when the URI does not
  contain \<^verbatim>\<open>/fopt\<close> and the resource has not expired; the state does not change.
\<close>

theorem find_rtnode_uri:
  assumes "wf_rt (heap s) (cb s) t" "named_rt (heap s) t" "(a, cs) \<in> set (nodes [t])"
    and n: "heap s a = Some n" "n_uri n = Some u" "\<not> isExpired E (Some n)"
    and u: "starts_with u (CSE_BASE_NAME @ ''/'')" "strstr u ''/fopt'' = None"
  shows "find_rtnode E s (Some u) = Some (Some a, s)"
proof -
  obtain r where r: "u = CSE_BASE_NAME @ ''/'' @ r" using u(1) by (auto simp: starts_with_iff)
  then have "u \<noteq> CSE_BASE_NAME" "u \<noteq> ''-''" by simp_all
  moreover have "find_rtnode_by_rn E s u = Some (Some a, s)"
    using uri_resolves_aux
      [OF assms(1-3), of u E] n by simp
  ultimately show ?thesis
    using u n by (simp add: find_rtnode_def structured_def cut_fopt_none drop_if_expired_def)
qed

lemma mk_node_not_expired: "\<not> isExpired E (Some (mk_node ty rn ri uri p c l r))"
  by (simp add: isExpired_def mk_node_def member_string_def ci_eq_def tolower_def)

theorem find_rtnode_uri_witness:
  "find_rtnode list_env (ex_cse []) (Some ''TinyIoT/ae1/cnt2'') = Some (Some 3, ex_cse [])"
  by (rule find_rtnode_uri [OF ex_cse_wf ex_named _ ex_nodes(2) _ mk_node_not_expired, of "[]"])
    (simp_all add: ex_tree_def mk_node_def starts_with_def)

text \<open>
  The cut at \<^verbatim>\<open>/fopt\<close> is not limited to a whole segment: every address
  \<open>TinyIoT/fopt...\<close>, also that of an ordinary resource whose name merely starts with
  \<open>fopt\<close>, resolves to the CSEBase.
\<close>

theorem fopt_prefix_resolves_to_base:
  assumes "wf_rt (heap s) (cb s) t" "named_rt (heap s) t" "cb s = Some b" "heap s b = Some n" "\<not> isExpired E (Some n)"
  shows "find_rtnode E s (Some (CSE_BASE_NAME @ ''/fopt'' @ rest)) = Some (cb s, s)"
proof -
  obtain cs where t: "t = T b cs" using assms(1,3) by (cases t) (auto simp: wf_rt_def)
  have "Option.bind (heap s b) n_uri = Some CSE_BASE_NAME" using assms(2) t by (simp add: named_rt_def)
  with uri_resolves_aux [OF assms(1,2), of b cs CSE_BASE_NAME E] t
  have "find_rtnode_by_rn E s CSE_BASE_NAME = Some (Some b, s)" by simp
  moreover have "cut_fopt (CSE_BASE_NAME @ ''/fopt'' @ rest) = CSE_BASE_NAME"
    by (simp add: cut_fopt_def starts_with_def)
  ultimately show ?thesis
    using assms(3-5) by (simp add: find_rtnode_def structured_def starts_with_def drop_if_expired_def)
qed

theorem fopt_prefix_resolves_to_base_witness:
  "find_rtnode list_env (ex_cse []) (Some ''TinyIoT/foptical'') = Some (Some 0, ex_cse [])"
  using fopt_prefix_resolves_to_base
    [OF ex_cse_wf ex_named ex_nodes(3,1) mk_node_not_expired, of list_env "[]" "''ical''"]
  by (simp add: ex_nodes)

end
