(* ===== verification/AccessControl.thy ===== *)
theory AccessControl
  imports Lookup
begin

text \<open>
  Access control (\<^verbatim>\<open>util.c\<close>): the operations an access control policy grants to an originator,
  the policy that applies to a resource, and the checks the request handlers call.

  \<^verbatim>\<open>find_rtnode\<close> may create nodes and remove expired resources, so every function that calls
  it passes the state on. The object of a policy is read once when it is entered. Results
  of the checks are 0 (granted) or -1 with the error recorded in the primitive.
\<close>

section \<open>IPv4 contexts\<close>

text \<open>
  \<^verbatim>\<open>inet_pton(AF_INET, ...)\<close>: four decimal numbers up to 255 without leading zeros, separated
  by dots; \<^verbatim>\<open>s_addr\<close> is in network byte order, read here on a little-endian host.
\<close>

definition octet :: "string \<Rightarrow> nat option" where
  "octet s =
     (if s \<noteq> [] \<and> length s \<le> 3 \<and> list_all is_digit s \<and> digits_val 0 s \<le> 255 \<and> (s = ''0'' \<or> hd s \<noteq> CHR ''0'')
      then Some (nat (digits_val 0 s)) else None)"

definition inet_pton :: "string \<Rightarrow> 32 word option" where
  "inet_pton s =
     (case split_on CHR ''.'' s of
        [a, b, c, d] \<Rightarrow> do {
          a \<leftarrow> octet a;
          b \<leftarrow> octet b;
          c \<leftarrow> octet c;
          d \<leftarrow> octet d;
          Some (word_of_nat (a + 256 * (b + 256 * (c + 256 * d)))) }
      | _ \<Rightarrow> None)"

text \<open>The mask loop: \<open>i\<close> rounds of shifting in a one, from 1.\<close>

fun acco_mask :: "nat \<Rightarrow> 32 word" where
  "acco_mask 0 = 1"
| "acco_mask (Suc i) = or (push_bit 1 (acco_mask i)) 1"

text \<open>One entry of \<^verbatim>\<open>ipv4\<close> against the address of the originator.\<close>

definition ipv4_match :: "string \<Rightarrow> string \<Rightarrow> bool" where
  "ipv4_match entry ip =
     (case strchr entry CHR ''/'' of
        None \<Rightarrow> entry = ip
      | Some t \<Rightarrow>
          (case (inet_pton (before CHR ''/'' entry), inet_pton ip) of
             (Some addr, Some addr2) \<Rightarrow>
               (let mask = acco_mask (nat (atoi (drop 1 t) - 1)) in and addr mask = and addr2 mask)
           | _ \<Rightarrow> False))"

fun any_ipv4 :: "cjson list \<Rightarrow> string \<Rightarrow> bool option" where
  "any_ipv4 [] ip = Some False"
| "any_ipv4 (e # es) ip =
     do { entry \<leftarrow> valuestring e; if ipv4_match entry ip then Some True else any_ipv4 es ip }"

fun any_acco :: "cjson list \<Rightarrow> string \<Rightarrow> bool option" where
  "any_acco [] ip = Some False"
| "any_acco (a # as) ip =
     do {
       r \<leftarrow> any_ipv4 (elems (cJSON_GetObjectItem (cJSON_GetObjectItem (Some a) ''acip'') ''ipv4'')) ip;
       if r then Some True else any_acco as ip }"

definition check_acco :: "cjson option \<Rightarrow> string option \<Rightarrow> bool option" where
  "check_acco accos ip =
     (if accos = None \<or> cJSON_GetArraySize accos = 0 then Some True
      else case ip of None \<Rightarrow> Some True | Some i \<Rightarrow> any_acco (elems accos) i)"

section \<open>Originators of a rule\<close>

text \<open>An \<^verbatim>\<open>acor\<close> entry without the SP-relative prefix of this CSE.\<close>

definition strip_local :: "string \<Rightarrow> string" where
  "strip_local acor =
     (if strncmp acor (''/'' @ CSE_BASE_RI @ ''/'') (length CSE_BASE_RI + 2) = 0
      then drop (length CSE_BASE_RI + 2) acor else acor)"

text \<open>
  The wildcard test: the part before the first \<open>*\<close> is a prefix and the part behind it a suffix
  of the originator. When the prefix matches and the suffix is longer than the originator,
  the comparison reads in front of the string. Prefix and suffix may overlap.
\<close>

definition wildcard_match :: "string \<Rightarrow> string \<Rightarrow> bool option" where
  "wildcard_match acor origin =
     (case strchr acor CHR ''*'' of
        None \<Rightarrow> Some False
      | Some t \<Rightarrow>
          (let k = length acor - length t; suffix = drop 1 t in
           if strncmp acor origin k \<noteq> 0 then Some False
           else if length origin < length suffix then None
           else Some (suffix = drop (length origin - length suffix) origin)))"

definition acor_matches_group_member ::
    "'d env \<Rightarrow> 'd cse \<Rightarrow> string \<Rightarrow> string \<Rightarrow> (bool \<times> 'd cse) option" where
  "acor_matches_group_member E s acor origin =
     do {
       (grp, s) \<leftarrow> find_rtnode E s (Some acor);
       case grp of
         None \<Rightarrow> Some (False, s)
       | Some g \<Rightarrow> do {
           n \<leftarrow> heap s g;
           if n_ty n \<noteq> RT_GRP then Some (False, s)
           else (let mid = cJSON_GetObjectItem (n_obj n) ''mid'' in
                 if cJSON_IsArray mid
                 then do { i \<leftarrow> cJSON_getArrayIdx mid origin; Some (i \<noteq> - 1, s) }
                 else Some (False, s)) } }"

text \<open>Whether one \<^verbatim>\<open>acor\<close> entry names the originator; the tests in the order of the code.\<close>

definition acor_match :: "'d env \<Rightarrow> 'd cse \<Rightarrow> string \<Rightarrow> string \<Rightarrow> (bool \<times> 'd cse) option" where
  "acor_match E s acor origin =
     (if strchr acor CHR ''*'' \<noteq> None
      then do { m \<leftarrow> wildcard_match acor origin; Some (m, s) }
      else if acor = origin then Some (True, s)
      else do {
        (m, s) \<leftarrow> acor_matches_group_member E s acor origin;
        Some (m \<or> acor = ''all'', s) })"

text \<open>The inner loop: the first matching entry adds the operations of the rule and ends it.\<close>

fun rule_acop :: "'d env \<Rightarrow> 'd cse \<Rightarrow> string option \<Rightarrow> string \<Rightarrow> cjson \<Rightarrow> cjson list \<Rightarrow> (int \<times> 'd cse) option" where
  "rule_acop E s ip origin acr [] = Some (0, s)"
| "rule_acop E s ip origin acr (e # es) =
     do {
       acor \<leftarrow> valuestring e;
       (m, s) \<leftarrow> acor_match E s (strip_local acor) origin;
       if m
       then do {
         c \<leftarrow> check_acco (cJSON_GetObjectItem (Some acr) ''acco'') ip;
         if c then do { acop \<leftarrow> member_int (Some acr) ''acop''; Some (acop, s) } else Some (0, s) }
       else rule_acop E s ip origin acr es }"

fun rules_acop :: "'d env \<Rightarrow> 'd cse \<Rightarrow> string option \<Rightarrow> string \<Rightarrow> cjson list \<Rightarrow> int \<Rightarrow> (int \<times> 'd cse) option" where
  "rules_acop E s ip origin [] ret = Some (ret, s)"
| "rules_acop E s ip origin (acr # acrs) ret =
     do {
       (a, s) \<leftarrow> rule_acop E s ip origin acr (elems (cJSON_GetObjectItem (Some acr) ''acor''));
       rules_acop E s ip origin acrs (or ret a) }"

definition acr_list :: "rtnode \<Rightarrow> bool \<Rightarrow> cjson list" where
  "acr_list acp flag =
     elems (cJSON_GetObjectItem (cJSON_GetObjectItem (n_obj acp) (if flag then ''pvs'' else ''pv'')) ''acr'')"

definition get_acop_origin ::
    "'d env \<Rightarrow> 'd cse \<Rightarrow> oneM2MPrimitive \<Rightarrow> string \<Rightarrow> ptr \<Rightarrow> bool \<Rightarrow> (int \<times> 'd cse) option" where
  "get_acop_origin E s o2pt origin acp_rtnode flag =
     do {
       acp \<leftarrow> deref (heap s) acp_rtnode;
       if origin = ADMIN_AE_ID then Some (ALL_ACOP, s)
       else rules_acop E s (p_ip o2pt) origin (acr_list acp flag) 0 }"

section \<open>Policies of a resource\<close>

text \<open>
  The loop over a list of references to policies: the operations granted so far, and whether
  one of the references was a policy.
\<close>

fun acpi_acop :: "'d env \<Rightarrow> 'd cse \<Rightarrow> oneM2MPrimitive \<Rightarrow> string \<Rightarrow> cjson list \<Rightarrow> int \<Rightarrow> bool \<Rightarrow>
    (int \<times> bool \<times> 'd cse) option" where
  "acpi_acop E s o2pt origin [] acop valid = Some (acop, valid, s)"
| "acpi_acop E s o2pt origin (e # es) acop valid =
     (case valuestring e of
        None \<Rightarrow> acpi_acop E s o2pt origin es acop valid
      | Some acpi \<Rightarrow> do {
          (acp, s) \<leftarrow> find_rtnode E s (Some acpi);
          is_acp \<leftarrow> (case acp of None \<Rightarrow> Some False | Some a \<Rightarrow> do { n \<leftarrow> heap s a; Some (n_ty n = RT_ACP) });
          if is_acp
          then do {
            (a, s) \<leftarrow> get_acop_origin E s o2pt origin acp False;
            acpi_acop E s o2pt origin es (or acop a) True }
          else acpi_acop E s o2pt origin es acop valid })"

definition get_acop_from_acpi_list ::
    "'d env \<Rightarrow> 'd cse \<Rightarrow> oneM2MPrimitive \<Rightarrow> string option \<Rightarrow> cjson option \<Rightarrow> (int \<times> 'd cse) option" where
  "get_acop_from_acpi_list E s o2pt origin acpi_list =
     (case (origin, cJSON_IsArray acpi_list) of
        (Some orig, True) \<Rightarrow> do {
          (acop, valid, s) \<leftarrow> acpi_acop E s o2pt orig (elems acpi_list) 0 False;
          Some (acop, s) }
      | _ \<Rightarrow> Some (0, s))"

definition get_acop :: "'d env \<Rightarrow> 'd cse \<Rightarrow> oneM2MPrimitive \<Rightarrow> string \<Rightarrow> addr \<Rightarrow> (int \<times> 'd cse) option" where
  "get_acop E s o2pt corigin rtnode =
     (if corigin = ADMIN_AE_ID then Some (ALL_ACOP, s)
      else do {
        n \<leftarrow> heap s rtnode;
        if n_ty n = RT_ACP then get_acop_origin E s o2pt corigin (Some rtnode) True
        else (case get_acpi_rtnode n of
                None \<Rightarrow> Some (DEFAULT_ACOP, s)
              | Some acpiArr \<Rightarrow> do {
                  (acop, valid, s) \<leftarrow> acpi_acop E s o2pt corigin (elems (Some acpiArr)) 0 False;
                  Some (if valid then acop else DEFAULT_ACOP, s) }) })"

definition get_acop_macp :: "'d env \<Rightarrow> 'd cse \<Rightarrow> oneM2MPrimitive \<Rightarrow> addr \<Rightarrow> (int \<times> 'd cse) option" where
  "get_acop_macp E s o2pt rtnode =
     (if p_fr o2pt = Some ADMIN_AE_ID then Some (ALL_ACOP, s)
      else do {
        n \<leftarrow> heap s rtnode;
        case cJSON_GetObjectItem (n_obj n) ''macp'' of
          None \<Rightarrow> Some (0, s)
        | Some macp \<Rightarrow> get_acop_from_acpi_list E s o2pt (p_fr o2pt) (Some macp) })"

definition has_privilege :: "'d env \<Rightarrow> 'd cse \<Rightarrow> oneM2MPrimitive \<Rightarrow> string option \<Rightarrow> int \<Rightarrow> (bool \<times> 'd cse) option" where
  "has_privilege E s o2pt acpi acop =
     (case p_fr o2pt of
        None \<Rightarrow> Some (False, s)
      | Some origin \<Rightarrow>
          (case acpi of
             None \<Rightarrow> Some (True, s)
           | Some a \<Rightarrow> do {
               (acp, s) \<leftarrow> find_rtnode E s (Some a);
               (result, s) \<leftarrow> get_acop_origin E s o2pt origin acp False;
               Some (and result acop = acop, s) }))"

section \<open>The check of a request\<close>

type_synonym 'd outcome = "(int \<times> oneM2MPrimitive \<times> 'd cse) option"

definition deny_privilege :: "oneM2MPrimitive \<Rightarrow> checked" where
  "deny_privilege o2pt = fail o2pt RSC_ORIGINATOR_HAS_NO_PRIVILEGE ''originator has no privilege''"

abbreviation granted :: "oneM2MPrimitive \<Rightarrow> 'd cse \<Rightarrow> 'd outcome" where
  "granted o2pt s \<equiv> Some (0, o2pt, s)"

abbreviation denied :: "oneM2MPrimitive \<Rightarrow> 'd cse \<Rightarrow> 'd outcome" where
  "denied o2pt s \<equiv> Some (fst (deny_privilege o2pt), snd (deny_privilege o2pt), s)"

definition get_normalized_originator :: "'d env \<Rightarrow> 'd cse \<Rightarrow> oneM2MPrimitive \<Rightarrow> (string option \<times> 'd cse) option" where
  "get_normalized_originator E s o2pt =
     (case p_fr o2pt of
        None \<Rightarrow> Some (None, s)
      | Some fr \<Rightarrow>
          if isSPIDLocal (Some fr)
          then do {
            (r, s) \<leftarrow> find_rtnode E s (Some fr);
            case r of
              None \<Rightarrow> Some (Some fr, s)
            | Some a \<Rightarrow> do {
                n \<leftarrow> heap s a;
                Some (case get_ri_rtnode n of Some ri \<Rightarrow> Some ri | None \<Rightarrow> Some fr, s) } }
          else Some (Some fr, s))"

text \<open>
  The loop that looks for the effective policy: the nearest node with \<^verbatim>\<open>acpi\<close>, unless an AE
  without one is met first, whose creator alone has access.
\<close>

datatype policy = Policy_At addr | Policy_Owner bool | No_Policy

partial_function (option) effective_policy :: "heap \<Rightarrow> string \<Rightarrow> ptr \<Rightarrow> policy option" where
  "effective_policy h origin p =
     (case p of
        None \<Rightarrow> Some No_Policy
      | Some a \<Rightarrow> do {
          n \<leftarrow> h a;
          if cJSON_GetObjectItem (n_obj n) ''acpi'' \<noteq> None then Some (Policy_At a)
          else if n_ty n = RT_AE then Some (Policy_Owner (get_ri_rtnode n = Some origin))
          else effective_policy h origin (n_parent n) })"

text \<open>The announcement shortcuts. \<open>fr\<close> is the originator as it stands in the request.\<close>

definition annc_owner :: "rtnode \<Rightarrow> string \<Rightarrow> int \<Rightarrow> bool option" where
  "annc_owner n fr acop =
     (if acop \<noteq> ACOP_CREATE \<and> 10000 < n_ty n \<and> n_ty n < 20000
      then do {
        lnk \<leftarrow> cJSON_GetObjectItem (n_obj n) ''lnk'';
        if acop = ACOP_UPDATE \<or> acop = ACOP_DELETE
        then do { l \<leftarrow> valuestring lnk; Some (checkResourceCseID l fr) }
        else Some False }
      else Some False)"

fun any_cse_id :: "cjson list \<Rightarrow> string \<Rightarrow> bool option" where
  "any_cse_id [] fr = Some False"
| "any_cse_id (e # es) fr =
     do { t \<leftarrow> valuestring e; if checkResourceCseID t fr then Some True else any_cse_id es fr }"

definition annc_target :: "rtnode \<Rightarrow> string \<Rightarrow> int \<Rightarrow> bool option" where
  "annc_target n fr acop =
     (case cJSON_GetObjectItem (n_obj n) ''ast'' of
        None \<Rightarrow> Some False
      | Some ast \<Rightarrow> do {
          v \<leftarrow> cJSON_GetNumberValue ast;
          if \<not> in_int v then None
          else if acop = ACOP_UPDATE \<and> v = AST_BI_DIRECTIONAL
          then any_cse_id (elems (cJSON_GetObjectItem (n_obj n) ''at'')) fr
          else Some False })"

text \<open>The decision by the effective policy, the last part of \<^verbatim>\<open>check_privilege\<close>.\<close>

definition policy_decision ::
    "'d env \<Rightarrow> 'd cse \<Rightarrow> oneM2MPrimitive \<Rightarrow> string \<Rightarrow> addr \<Rightarrow> int \<Rightarrow> (bool \<times> 'd cse) option" where
  "policy_decision E s o2pt origin a acop =
     do {
       pol \<leftarrow> effective_policy (heap s) origin (Some a);
       case pol of
         Policy_Owner b \<Rightarrow> Some (b, s)
       | Policy_At q \<Rightarrow> do {
           (r, s) \<leftarrow> get_acop E s o2pt origin q;
           Some (and r acop = acop, s) }
       | No_Policy \<Rightarrow> do {
           n \<leftarrow> heap s a;
           Some (cJSON_GetObjectItem (n_obj n) ''cr'' = Some (JString origin), s) } }"

definition decide :: "oneM2MPrimitive \<Rightarrow> bool \<times> 'd cse \<Rightarrow> 'd outcome" where
  "decide o2pt r = (if fst r then granted o2pt (snd r) else denied o2pt (snd r))"

definition check_privilege :: "'d env \<Rightarrow> 'd cse \<Rightarrow> oneM2MPrimitive \<Rightarrow> ptr \<Rightarrow> int \<Rightarrow> 'd outcome" where
  "check_privilege E s o2pt rtnode acop =
     (case rtnode of
        None \<Rightarrow> denied o2pt s
      | Some a \<Rightarrow> do {
          n \<leftarrow> heap s a;
          if n_obj n = None then denied o2pt s
          else
            (let effective_acop =
                   (if p_op o2pt = OP_CREATE \<and> p_ty o2pt = RT_SUB then or acop ACOP_RETRIEVE else acop)
             in
             if p_fr o2pt = Some ADMIN_AE_ID then granted o2pt s
             else if p_fr o2pt = None \<or> p_fr o2pt = Some [] \<or> p_fr o2pt = Some ''C''
             then (if p_op o2pt = OP_CREATE \<and> p_ty o2pt = RT_AE then granted o2pt s else denied o2pt s)
             else do {
               fr \<leftarrow> p_fr o2pt;
               (norm, s) \<leftarrow> get_normalized_originator E s o2pt;
               case norm of
                 None \<Rightarrow> denied o2pt s
               | Some origin \<Rightarrow> do {
                   n \<leftarrow> heap s a;
                   if n_ty n = RT_ACP
                   then do {
                     (pvs, s) \<leftarrow> get_acop_origin E s o2pt origin (Some a) True;
                     decide o2pt (and pvs effective_acop = effective_acop, s) }
                   else do {
                     self \<leftarrow> (if acop \<noteq> ACOP_CREATE \<and> n_ty n = RT_CSR
                              then do { csi \<leftarrow> member_string (n_obj n) ''csi''; Some (origin = csi) }
                              else Some False);
                     if self then granted o2pt s
                     else do {
                       own \<leftarrow> annc_owner n fr acop;
                       if own then granted o2pt s
                       else do {
                         tgt \<leftarrow> annc_target n fr acop;
                         if tgt then granted o2pt s
                         else do {
                           r \<leftarrow> policy_decision E s o2pt origin a effective_acop;
                           decide o2pt r } } } } } }) })"

definition check_macp_privilege :: "'d env \<Rightarrow> 'd cse \<Rightarrow> oneM2MPrimitive \<Rightarrow> ptr \<Rightarrow> int \<Rightarrow> 'd outcome" where
  "check_macp_privilege E s o2pt rtnode acop =
     (let refuse = (\<lambda>s. Some (RSC_ORIGINATOR_HAS_NO_PRIVILEGE,
            handle_error o2pt RSC_ORIGINATOR_HAS_NO_PRIVILEGE ''originator has no privilege'', s))
      in case (rtnode, p_fr o2pt) of
        (Some a, Some origin) \<Rightarrow> do {
          n \<leftarrow> heap s a;
          if n_obj n = None then refuse s
          else if origin = ADMIN_AE_ID then granted o2pt s
          else (let macp = cJSON_GetObjectItem (n_obj n) ''macp'' in
                if cJSON_IsArray macp \<and> 0 < cJSON_GetArraySize macp
                then do {
                  (r, s) \<leftarrow> get_acop_from_acpi_list E s o2pt (Some origin) macp;
                  if and r acop = acop then granted o2pt s else refuse s }
                else check_privilege E s o2pt rtnode acop) }
      | _ \<Rightarrow> refuse s)"

section \<open>Changing the policy references\<close>

fun any_self_privilege ::
    "'d env \<Rightarrow> 'd cse \<Rightarrow> oneM2MPrimitive \<Rightarrow> string \<Rightarrow> cjson list \<Rightarrow> (bool \<times> 'd cse) option" where
  "any_self_privilege E s o2pt origin [] = Some (False, s)"
| "any_self_privilege E s o2pt origin (e # es) =
     (case valuestring e of
        None \<Rightarrow> any_self_privilege E s o2pt origin es
      | Some acpi \<Rightarrow> do {
          (acp, s) \<leftarrow> find_rtnode E s (Some acpi);
          is_acp \<leftarrow> (case acp of None \<Rightarrow> Some False | Some a \<Rightarrow> do { n \<leftarrow> heap s a; Some (n_ty n = RT_ACP) });
          if is_acp
          then do {
            (pvs, s) \<leftarrow> get_acop_origin E s o2pt origin acp True;
            if and pvs ACOP_UPDATE = ACOP_UPDATE then Some (True, s)
            else any_self_privilege E s o2pt origin es }
          else any_self_privilege E s o2pt origin es })"

definition check_acpi_update_privilege :: "'d env \<Rightarrow> 'd cse \<Rightarrow> oneM2MPrimitive \<Rightarrow> ptr \<Rightarrow> 'd outcome" where
  "check_acpi_update_privilege E s o2pt target =
     (case target of
        None \<Rightarrow> denied o2pt s
      | Some a \<Rightarrow> do {
          n \<leftarrow> heap s a;
          if n_obj n = None then denied o2pt s
          else if p_fr o2pt = Some ADMIN_AE_ID then granted o2pt s
          else do {
            (norm, s) \<leftarrow> get_normalized_originator E s o2pt;
            case norm of
              None \<Rightarrow> denied o2pt s
            | Some origin \<Rightarrow> do {
                n \<leftarrow> heap s a;
                let current = cJSON_GetObjectItem (n_obj n) ''acpi'';
                if current = None \<or> cJSON_IsNull current then check_privilege E s o2pt target ACOP_UPDATE
                else if \<not> cJSON_IsArray current \<or> cJSON_GetArraySize current = 0 then denied o2pt s
                else do {
                  r \<leftarrow> any_self_privilege E s o2pt origin (elems current);
                  decide o2pt r } } } })"

section \<open>Duplicates\<close>

partial_function (option) ae_with_ri :: "heap \<Rightarrow> ptr \<Rightarrow> string \<Rightarrow> bool option" where
  "ae_with_ri h child aei =
     (case child of
        None \<Rightarrow> Some False
      | Some a \<Rightarrow> do {
          n \<leftarrow> h a;
          if n_ty n \<noteq> RT_AE then ae_with_ri h (n_sibling_right n) aei
          else do {
            ri \<leftarrow> get_ri_rtnode n;
            if ri = aei then Some True else ae_with_ri h (n_sibling_right n) aei } })"

text \<open>
  The originator is appended to a buffer of 1024 bytes. \<open>cin_dup\<close> stands for
  \<^verbatim>\<open>db_check_cin_rn_dup\<close> of the database layer.
\<close>

definition check_aei_duplicate :: "heap \<Rightarrow> oneM2MPrimitive \<Rightarrow> ptr \<Rightarrow> checked option" where
  "check_aei_duplicate h o2pt rtnode =
     (case (rtnode, p_fr o2pt) of
        (Some a, Some fr) \<Rightarrow> do {
          n \<leftarrow> h a;
          if 1024 \<le> length fr then None
          else do {
            d \<leftarrow> ae_with_ri h (n_child n) fr;
            Some (if d then fail o2pt RSC_ORIGINATOR_HAS_ALREADY_REGISTERD ''attribute `aei` is duplicated''
                  else pass o2pt) } }
      | _ \<Rightarrow> Some (pass o2pt))"

definition check_rn_duplicate :: "(string \<Rightarrow> string \<Rightarrow> bool) \<Rightarrow> heap \<Rightarrow> oneM2MPrimitive \<Rightarrow> ptr \<Rightarrow> checked option" where
  "check_rn_duplicate cin_dup h o2pt rtnode =
     (case rtnode of
        None \<Rightarrow> Some (pass o2pt)
      | Some a \<Rightarrow> do {
          resource \<leftarrow> getResource (p_request_pc o2pt) (p_ty o2pt);
          n \<leftarrow> h a;
          case cJSON_GetObjectItem resource ''rn'' of
            None \<Rightarrow> Some (pass o2pt)
          | Some rn \<Rightarrow> do {
              name \<leftarrow> (case n_child n of None \<Rightarrow> Some [] | Some _ \<Rightarrow> valuestring rn);
              found \<leftarrow> find_sibling h (n_child n) name;
              dup \<leftarrow> (if p_ty o2pt = RT_CIN
                     then do {
                       v \<leftarrow> valuestring rn;
                       ri \<leftarrow> member_string (n_obj n) ''ri'';
                       Some (cin_dup v ri) }
                     else Some False);
              Some (if found \<noteq> None \<or> dup then fail o2pt RSC_CONFLICT ''attribute `rn` is duplicated''
                    else pass o2pt) } })"

end
