(* ===== verification/AccessProps.thy ===== *)
theory AccessProps
  imports AccessControl
begin

text \<open>
  Properties of access control: the outcome of a check, the effective policy as the nearest
  policy on the way to the root, the operations a policy grants as the union of its matching
  rules, and the IPv4 contexts.
\<close>

section \<open>Originators\<close>

text \<open>
  An absolute originator is not resolved: \<^verbatim>\<open>find_rtnode\<close> treats \<open>//sp/...\<close> as a hybrid address
  with an empty identifier, so the normalised originator is always the one of the request.
\<close>

lemma find_rtnode_absolute:
  assumes "starts_with a ''//''"
  shows "find_rtnode E s (Some a) = Some (None, s)"
proof -
  obtain r where a: "a = CHR ''/'' # CHR ''/'' # r" using assms by (auto simp: starts_with_iff)
  then have "find_rtnode_by_hybrid E s (Some a) = Some (None, s)"
    by (simp add: find_rtnode_by_hybrid_def before_def Let_def)
  with a show ?thesis
    by (simp add: find_rtnode_def structured_def starts_with_def drop_if_expired_def)
qed

lemma normalized_originator [simp]: "get_normalized_originator E s o2pt = Some (p_fr o2pt, s)"
proof (cases "p_fr o2pt")
  case (Some fr)
  show ?thesis
  proof (cases "isSPIDLocal (Some fr)")
    case True
    then have "starts_with fr ''//''" by (simp add: isSPIDLocal_def split: if_splits)
    with True Some show ?thesis by (simp add: get_normalized_originator_def find_rtnode_absolute)
  qed (simp add: Some get_normalized_originator_def)
qed (simp add: get_normalized_originator_def)

section \<open>Outcome of the checks\<close>

lemma deny_reports [simp]: "reports o2pt (fst (deny_privilege o2pt), snd (deny_privilege o2pt))"
  by (simp add: deny_privilege_def)

definition refused :: "oneM2MPrimitive \<Rightarrow> int \<Rightarrow> oneM2MPrimitive \<Rightarrow> bool" where
  "refused o2pt rc o2pt' \<longleftrightarrow> (rc, o2pt') = deny_privilege o2pt"

text \<open>A grant leaves the primitive as it is, a refusal is \<^verbatim>\<open>deny_privilege\<close>.\<close>

definition decided :: "oneM2MPrimitive \<Rightarrow> 'd outcome \<Rightarrow> bool" where
  "decided o2pt r \<longleftrightarrow> (\<forall>rc o2pt' s'. r = Some (rc, o2pt', s') \<longrightarrow> (rc = 0 \<and> o2pt' = o2pt) \<or> refused o2pt rc o2pt')"

lemma decided_simps [simp]:
  "decided o2pt (granted o2pt s)" "decided o2pt (denied o2pt s)" "decided o2pt None" "decided o2pt (decide o2pt r)"
  by (auto simp: decided_def refused_def decide_def)

lemma decided_bind [intro!]: "(\<And>x. m = Some x \<Longrightarrow> decided o2pt (f x)) \<Longrightarrow> decided o2pt (Option.bind m f)"
  by (cases m) auto

lemma check_privilege_decided: "decided o2pt (check_privilege E s o2pt r acop)"
  unfolding check_privilege_def Let_def
  by (auto split: option.split prod.split if_splits simp del: not_None_eq)

lemma check_acpi_update_decided: "decided o2pt (check_acpi_update_privilege E s o2pt r)"
  unfolding check_acpi_update_privilege_def Let_def
  by (auto split: option.split prod.split simp: check_privilege_decided simp del: not_None_eq)

section \<open>What a check may change\<close>

text \<open>
  The effects of resolving an address: nodes are made at new addresses for instances read from the
  database, and an expired resource is removed. Every other field of the state and every node that
  was there is kept by the first.
\<close>

definition fetched :: "'d cse \<Rightarrow> 'd cse \<Rightarrow> bool" where
  "fetched s s' \<longleftrightarrow>
     brk s \<le> brk s' \<and> (\<forall>a < brk s. heap s' a = heap s a) \<and> s' = s\<lparr>heap := heap s', brk := brk s'\<rparr>"

inductive lookup_effect :: "'d env \<Rightarrow> 'd cse \<Rightarrow> 'd cse \<Rightarrow> bool" for E where
  Fetch: "fetched s s' \<Longrightarrow> lookup_effect E s s'"
| Expire: "heap s a = Some n \<Longrightarrow> isExpired E (Some n) \<Longrightarrow> drop_if_expired E s (Some a) = Some (None, s') \<Longrightarrow>
    lookup_effect E s s'"

abbreviation lookups :: "'d env \<Rightarrow> 'd cse \<Rightarrow> 'd cse \<Rightarrow> bool" where
  "lookups E \<equiv> (lookup_effect E)\<^sup>*\<^sup>*"

lemma fetched_refl [simp]: "fetched s s"
  by (simp add: fetched_def)

lemma fetched_trans: "fetched s s1 \<Longrightarrow> fetched s1 s2 \<Longrightarrow> fetched s s2"
  unfolding fetched_def by (metis (no_types, lifting) cse.surjective cse.update_convs(1,2) order_less_le_trans order_trans)

lemma create_fetched: "create_rtnode s j ty = Some (a, s') \<Longrightarrow> fetched s s' \<and> a = brk s \<and> brk s' = Suc a"
  by (auto simp: create_rtnode_def fetched_def bind_eq_Some_conv)

lemma upd_fetched:
  assumes "fetched s s'" "brk s \<le> a" "upd (heap s') a f = Some h"
  shows "fetched s (s'\<lparr>heap := h\<rparr>)"
proof -
  obtain n where "h = (heap s')(a \<mapsto> f n)" using assms(3) by (auto simp: upd_def)
  with assms(1,2) show ?thesis by (cases s; cases s') (auto simp: fetched_def)
qed

lemma wrap_child_fetched: "wrap_child s obj ty parent = Some (p, s') \<Longrightarrow> fetched s s'"
  by (auto simp: wrap_child_def bind_eq_Some_conv split: option.splits dest!: create_fetched intro: upd_fetched)

lemma find_by_rn_fetched: "find_rtnode_by_rn E s rn = Some (p, s') \<Longrightarrow> fetched s s'"
  by (auto simp: find_rtnode_by_rn_def bind_eq_Some_conv split: list.splits option.splits prod.splits if_splits
      dest: wrap_child_fetched)

lemma find_by_ri_fetched: "find_rtnode_by_ri E s ri = Some (p, s') \<Longrightarrow> fetched s s'"
  by (auto simp: find_rtnode_by_ri_def bind_eq_Some_conv split: if_splits option.splits
      dest!: create_fetched find_by_rn_fetched intro: upd_fetched fetched_trans)

lemma find_by_hybrid_fetched:
  assumes "find_rtnode_by_hybrid E s hb = Some (p, s')"
  shows "fetched s s'"
proof -
  define only where "only m \<longleftrightarrow> (\<forall>q s2. m = Some (q, s2) \<longrightarrow> fetched s s2)" for m :: "(ptr \<times> 'a cse) option"
  have only_bind: "only (Option.bind m f)" if "\<And>x. m = Some x \<Longrightarrow> only (f x)" for m :: "'x option" and f
    using that by (cases m) (auto simp: only_def)
  have simps: "only None" "only (Some (q, s1)) \<longleftrightarrow> fetched s s1" for q s1 by (simp_all add: only_def)
  have only_wrap: "only (wrap_child s1 obj ty q)" if "fetched s s1" for s1 obj ty q
    using that wrap_child_fetched fetched_trans by (fastforce simp: only_def)
  have "only (find_rtnode_by_hybrid E s hb)"
    unfolding find_rtnode_by_hybrid_def Let_def
    by (auto simp: simps split: option.split intro!: only_wrap only_bind) (metis find_by_ri_fetched)+
  with assms show ?thesis by (simp add: only_def)
qed

lemma find_rtnode_lookups:
  assumes "find_rtnode E s addr = Some (p, s')"
  shows "lookups E s s'"
proof -
  have d: "lookups E s1 s'" if "drop_if_expired E s1 q = Some (p, s')" for s1 q
  proof (cases q)
    case (Some a)
    with that obtain n where n: "heap s1 a = Some n" by (auto simp: drop_if_expired_def bind_eq_Some_conv)
    show ?thesis
    proof (cases "isExpired E (Some n)")
      case True
      with that Some n have "p = None" by (auto simp: drop_if_expired_def bind_eq_Some_conv Let_def)
      with that Some n True show ?thesis by (auto intro: lookup_effect.Expire)
    qed (use that Some n in \<open>simp add: drop_if_expired_def\<close>)
  qed (use that in \<open>simp add: drop_if_expired_def\<close>)
  show ?thesis
  proof (cases "addr = None \<or> addr = Some CSE_BASE_NAME \<or> addr = Some ''-''")
    case False
    with assms obtain q s1 where "fetched s s1" "drop_if_expired E s1 q = Some (p, s')"
      by (auto simp: find_rtnode_def bind_eq_Some_conv split: option.splits if_splits
          dest: find_by_rn_fetched find_by_ri_fetched find_by_hybrid_fetched)
    with d show ?thesis by (meson converse_rtranclp_into_rtranclp lookup_effect.Fetch)
  qed (use assms in \<open>auto simp: find_rtnode_def\<close>)
qed

text \<open>The evaluation of policies changes the state by lookups only.\<close>

lemma acor_match_lookups: "acor_match E s x origin = Some (m, s') \<Longrightarrow> lookups E s s'"
  by (auto simp: acor_match_def acor_matches_group_member_def bind_eq_Some_conv Let_def split: if_splits option.splits
      dest!: find_rtnode_lookups)

lemma rule_acop_lookups: "rule_acop E s ip origin acr es = Some (r, s') \<Longrightarrow> lookups E s s'"
proof (induction es arbitrary: s)
  case (Cons e es)
  then show ?case
    by (auto simp: bind_eq_Some_conv split: if_splits dest!: acor_match_lookups intro: rtranclp_trans)
qed simp

lemma rules_acop_lookups: "rules_acop E s ip origin acrs ret = Some (r, s') \<Longrightarrow> lookups E s s'"
proof (induction acrs arbitrary: s ret)
  case (Cons acr acrs)
  then show ?case by (auto simp: bind_eq_Some_conv dest!: rule_acop_lookups intro: rtranclp_trans)
qed simp

lemma get_acop_origin_lookups: "get_acop_origin E s o2pt origin p flag = Some (r, s') \<Longrightarrow> lookups E s s'"
  by (auto simp: get_acop_origin_def bind_eq_Some_conv split: if_splits dest: rules_acop_lookups)

lemmas policy_lookups = find_rtnode_lookups get_acop_origin_lookups

lemma acpi_acop_lookups: "acpi_acop E s o2pt origin es acop valid = Some (r, v, s') \<Longrightarrow> lookups E s s'"
proof (induction es arbitrary: s acop valid)
  case (Cons e es)
  from Cons.prems show ?case
    by (auto simp: bind_eq_Some_conv split: option.splits if_splits dest!: policy_lookups Cons.IH
        intro: rtranclp_trans)
qed simp

lemma get_acop_lookups: "get_acop E s o2pt origin a = Some (r, s') \<Longrightarrow> lookups E s s'"
  by (auto simp: get_acop_def bind_eq_Some_conv split: if_splits option.splits
      dest: get_acop_origin_lookups acpi_acop_lookups)

lemma any_self_privilege_lookups: "any_self_privilege E s o2pt origin es = Some (b, s') \<Longrightarrow> lookups E s s'"
proof (induction es arbitrary: s)
  case (Cons e es)
  from Cons.prems show ?case
    by (auto simp: bind_eq_Some_conv split: option.splits if_splits dest!: policy_lookups Cons.IH
        intro: rtranclp_trans)
qed simp

lemma policy_decision_lookups: "policy_decision E s o2pt origin a acop = Some (b, s') \<Longrightarrow> lookups E s s'"
  by (cases "effective_policy (heap s) origin (Some a)"; cases "the (effective_policy (heap s) origin (Some a))")
    (auto simp: policy_decision_def bind_eq_Some_conv dest: get_acop_lookups)

lemma decide_state: "decide o2pt r = Some (rc, o2pt', s') \<Longrightarrow> s' = snd r"
  by (auto simp: decide_def split: if_splits)

lemma check_privilege_lookups: "check_privilege E s o2pt p acop = Some (rc, o2pt', s') \<Longrightarrow> lookups E s s'"
  by (auto simp: check_privilege_def bind_eq_Some_conv Let_def split: option.splits if_splits
      dest!: decide_state policy_decision_lookups get_acop_origin_lookups)

lemma check_acpi_update_lookups: "check_acpi_update_privilege E s o2pt p = Some (rc, o2pt', s') \<Longrightarrow> lookups E s s'"
  by (auto simp: check_acpi_update_privilege_def bind_eq_Some_conv Let_def split: option.splits if_splits
      dest!: decide_state any_self_privilege_lookups check_privilege_lookups)

section \<open>The effective policy\<close>

text \<open>The addresses from a node up to the root.\<close>

fun lineage :: "addr \<Rightarrow> addr list \<Rightarrow> rtree list \<Rightarrow> addr list option" where
  "lineage a acc [] = None"
| "lineage a acc (T b cs # ts) =
     (if a = b then Some (b # acc)
      else case lineage a (b # acc) cs of Some l \<Rightarrow> Some l | None \<Rightarrow> lineage a acc ts)"

text \<open>
  The specification: the first node on the way up that has \<^verbatim>\<open>acpi\<close> or is an AE decides.
\<close>

fun first_policy :: "heap \<Rightarrow> string \<Rightarrow> addr list \<Rightarrow> policy" where
  "first_policy h origin [] = No_Policy"
| "first_policy h origin (a # as) =
     (case h a of
        None \<Rightarrow> No_Policy
      | Some n \<Rightarrow>
          if cJSON_GetObjectItem (n_obj n) ''acpi'' \<noteq> None then Policy_At a
          else if n_ty n = RT_AE then Policy_Owner (get_ri_rtnode n = Some origin)
          else first_policy h origin as)"

lemma lineage_exists: "a \<in> set (addrs ts) \<Longrightarrow> \<exists>l. lineage a acc ts = Some l"
  by (induction a acc ts rule: lineage.induct) (auto split: option.split)

lemma effective_policy_lineage:
  "seg h par left p ts q \<Longrightarrow> lineage a acc ts = Some l \<Longrightarrow>
   effective_policy h origin par = Some (first_policy h origin acc) \<Longrightarrow>
   effective_policy h origin (Some a) = Some (first_policy h origin l)"
proof (induction a acc ts arbitrary: par left p q rule: lineage.induct)
  case (1 a acc)
  then show ?case by simp
next
  case (2 a acc b cs ts)
  from 2(3) obtain n where n: "h b = Some n" "n_parent n = par"
    "seg h (Some b) None (n_child n) cs None" "seg h par (Some b) (n_sibling_right n) ts q"
    by (auto split: option.splits)
  have b: "effective_policy h origin (Some b) = Some (first_policy h origin (b # acc))"
    using n(1,2) 2(5) by (subst effective_policy.simps) simp
  show ?case
  proof (cases "a = b")
    case True
    with 2(4) b show ?thesis by simp
  next
    case False
    show ?thesis
    proof (cases "lineage a (b # acc) cs")
      case None
      with False 2(4) have "lineage a acc ts = Some l" by simp
      with 2(2) [OF False None n(4)] 2(5) show ?thesis by blast
    next
      case (Some l')
      with False 2(4) have "l' = l" by simp
      with 2(1) [OF False n(3)] Some b show ?thesis by blast
    qed
  qed
qed

lemma effective_policy_first:
  assumes "wf_rt h r t" "lineage a [] [t] = Some l"
  shows "effective_policy h origin (Some a) = Some (first_policy h origin l)"
proof -
  have "effective_policy h origin None = Some (first_policy h origin [])"
    by (simp add: effective_policy.simps)
  with assms show ?thesis
    using effective_policy_lineage [of h None None r "[t]" None a "[]" l origin] by (simp add: wf_rt_def)
qed

text \<open>
  Requests and resources to which only the policy applies: the originator is a plain one, and
  the resource is neither an ACP nor a remote CSE nor involved in an announcement.
\<close>

definition plain_originator :: "oneM2MPrimitive \<Rightarrow> string \<Rightarrow> bool" where
  "plain_originator o2pt origin \<longleftrightarrow>
     p_fr o2pt = Some origin \<and> origin \<noteq> ADMIN_AE_ID \<and> origin \<noteq> [] \<and> origin \<noteq> ''C''"

definition plain_resource :: "rtnode \<Rightarrow> bool" where
  "plain_resource n \<longleftrightarrow>
     n_obj n \<noteq> None \<and> n_ty n \<noteq> RT_ACP \<and> n_ty n \<noteq> RT_CSR \<and> \<not> (10000 < n_ty n \<and> n_ty n < 20000) \<and>
     cJSON_GetObjectItem (n_obj n) ''ast'' = None"

definition needed :: "oneM2MPrimitive \<Rightarrow> int \<Rightarrow> int" where
  "needed o2pt acop = (if p_op o2pt = OP_CREATE \<and> p_ty o2pt = RT_SUB then or acop ACOP_RETRIEVE else acop)"

lemma check_privilege_plain:
  assumes "plain_originator o2pt origin" "heap s a = Some n" "plain_resource n"
  shows "check_privilege E s o2pt (Some a) acop =
    Option.bind (policy_decision E s o2pt origin a (needed o2pt acop)) (decide o2pt)"
proof -
  have "annc_owner n fr acop = Some False" "annc_target n fr acop = Some False" for fr
    using assms(3) by (auto simp: plain_resource_def annc_owner_def annc_target_def)
  moreover have "n_obj n \<noteq> None" "n_ty n \<noteq> RT_ACP" "n_ty n \<noteq> RT_CSR"
    using assms(3) by (simp_all add: plain_resource_def)
  ultimately show ?thesis
    using assms(1,2) by (auto simp: check_privilege_def plain_originator_def needed_def Let_def)
qed

text \<open>
  C11. The policy that decides: for a plain resource of a well-formed tree the walk to the
  root terminates, and the request is decided by the nearest resource that has \<^verbatim>\<open>acpi\<close> or is
  an AE. An explicit policy must grant every needed operation; an AE without \<^verbatim>\<open>acpi\<close> grants
  everything to its own identifier and nothing to others; without any policy the creator
  of the resource alone has access.
\<close>

theorem check_privilege_policy:
  assumes "wf_rt (heap s) (cb s) t" "lineage a [] [t] = Some l"
    and "plain_originator o2pt origin" "heap s a = Some n" "plain_resource n"
  shows "check_privilege E s o2pt (Some a) acop =
    (case first_policy (heap s) origin l of
       Policy_Owner b \<Rightarrow> decide o2pt (b, s)
     | Policy_At q \<Rightarrow>
         Option.bind (get_acop E s o2pt origin q)
           (\<lambda>(r, s'). decide o2pt (and r (needed o2pt acop) = needed o2pt acop, s'))
     | No_Policy \<Rightarrow> decide o2pt (cJSON_GetObjectItem (n_obj n) ''cr'' = Some (JString origin), s))"
proof -
  have pol: "effective_policy (heap s) origin (Some a) = Some (first_policy (heap s) origin l)"
    using effective_policy_first [OF assms(1,2)] .
  show ?thesis
  proof (cases "first_policy (heap s) origin l")
    case (Policy_At q)
    then show ?thesis
      unfolding check_privilege_plain [OF assms(3-5)] policy_decision_def pol
      by (cases "get_acop E s o2pt origin q") auto
  qed (use assms(4) in \<open>simp_all add: check_privilege_plain [OF assms(3-5)] policy_decision_def pol\<close>)
qed

definition ex_request :: "string \<Rightarrow> oneM2MPrimitive" where
  "ex_request fr = empty_o2pt\<lparr>p_fr := Some fr, p_op := OP_RETRIEVE, p_rvi := RVI_3\<rparr>"

theorem check_privilege_policy_witness:
  "check_privilege list_env (ex_cse []) (ex_request ''CAE1'') (Some 3) ACOP_RETRIEVE =
     granted (ex_request ''CAE1'') (ex_cse []) \<and>
   check_privilege list_env (ex_cse []) (ex_request ''CAE9'') (Some 3) ACOP_RETRIEVE =
     denied (ex_request ''CAE9'') (ex_cse [])"
proof -
  have l: "lineage 3 [] [ex_tree] = Some [3, 1, 0]" by (simp add: ex_tree_def)
  have "plain_originator (ex_request ''CAE1'') ''CAE1''" "plain_originator (ex_request ''CAE9'') ''CAE9''"
    by (simp_all add: plain_originator_def ex_request_def)
  note o = this
  have r: "plain_resource (mk_node RT_CNT ''cnt2'' ''3-2'' (Some ''TinyIoT/ae1/cnt2'') (Some 1) None None None)"
    by (simp add: plain_resource_def mk_node_def ci_eq_def tolower_def)
  have p: "first_policy (heap (ex_cse d)) fr [3, 1, 0] = Policy_Owner (''CAE1'' = fr)" for d fr
    by (simp add: ex_cse_def ex_heap_def mk_node_def ci_eq_def tolower_def get_ri_rtnode_def member_string_def)
  show ?thesis
    using check_privilege_policy [OF ex_cse_wf l o(1) ex_nodes(2) r, where E = list_env and acop = ACOP_RETRIEVE]
      check_privilege_policy [OF ex_cse_wf l o(2) ex_nodes(2) r, where E = list_env and acop = ACOP_RETRIEVE]
    by (simp add: p decide_def del: first_policy.simps One_nat_def)
qed

section \<open>What a policy grants\<close>

text \<open>
  A lookup that finds its answer without changing the state. The locale gives the client
  of such lookups, the evaluation of rules, what it relies on: the state stays as it is.
\<close>

definition acor_quiet :: "'d env \<Rightarrow> 'd cse \<Rightarrow> string \<Rightarrow> cjson \<Rightarrow> bool" where
  "acor_quiet E s origin e \<longleftrightarrow>
     (\<exists>acor m. valuestring e = Some acor \<and> acor_match E s (strip_local acor) origin = Some (m, s))"

definition names_originator :: "'d env \<Rightarrow> 'd cse \<Rightarrow> string \<Rightarrow> cjson \<Rightarrow> bool" where
  "names_originator E s origin e \<longleftrightarrow>
     (\<exists>acor. valuestring e = Some acor \<and> acor_match E s (strip_local acor) origin = Some (True, s))"

definition acors :: "cjson \<Rightarrow> cjson list" where
  "acors acr = elems (cJSON_GetObjectItem (Some acr) ''acor'')"

text \<open>A rule whose evaluation is defined and needs no change of the state.\<close>

definition rule_quiet :: "'d env \<Rightarrow> 'd cse \<Rightarrow> string option \<Rightarrow> string \<Rightarrow> cjson \<Rightarrow> bool" where
  "rule_quiet E s ip origin acr \<longleftrightarrow>
     list_all (acor_quiet E s origin) (acors acr) \<and>
     check_acco (cJSON_GetObjectItem (Some acr) ''acco'') ip \<noteq> None \<and> member_int (Some acr) ''acop'' \<noteq> None"

definition rule_applies :: "'d env \<Rightarrow> 'd cse \<Rightarrow> string option \<Rightarrow> string \<Rightarrow> cjson \<Rightarrow> bool" where
  "rule_applies E s ip origin acr \<longleftrightarrow>
     list_ex (names_originator E s origin) (acors acr) \<and>
     check_acco (cJSON_GetObjectItem (Some acr) ''acco'') ip = Some True"

definition rule_bits :: "cjson \<Rightarrow> int" where
  "rule_bits acr = (case member_int (Some acr) ''acop'' of Some a \<Rightarrow> a | None \<Rightarrow> 0)"

lemma rule_acop_value_aux:
  assumes "check_acco (cJSON_GetObjectItem (Some acr) ''acco'') ip = Some c" "member_int (Some acr) ''acop'' = Some b"
  shows "list_all (acor_quiet E s origin) es \<Longrightarrow> rule_acop E s ip origin acr es =
    Some (if list_ex (names_originator E s origin) es \<and> c then b else 0, s)"
proof (induction es)
  case (Cons e es)
  then obtain acor m where m: "valuestring e = Some acor" "acor_match E s (strip_local acor) origin = Some (m, s)"
    by (auto simp: acor_quiet_def)
  then have "names_originator E s origin e = m" by (auto simp: names_originator_def)
  with m Cons assms show ?case by auto
qed simp

lemma rule_acop_value:
  assumes "rule_quiet E s ip origin acr"
  shows "rule_acop E s ip origin acr (elems (cJSON_GetObjectItem (Some acr) ''acor'')) =
    Some (if rule_applies E s ip origin acr then rule_bits acr else 0, s)"
proof -
  from assms obtain c b where "check_acco (cJSON_GetObjectItem (Some acr) ''acco'') ip = Some c"
    "member_int (Some acr) ''acop'' = Some b" by (auto simp: rule_quiet_def)
  with rule_acop_value_aux [OF this, of E s origin "acors acr"] assms show ?thesis
    by (auto simp: rule_quiet_def rule_applies_def rule_bits_def acors_def)
qed

lemma rules_acop_bits:
  "list_all (rule_quiet E s ip origin) acrs \<Longrightarrow>
   \<exists>r. rules_acop E s ip origin acrs ret = Some (r, s) \<and>
     (\<forall>i. bit r i \<longleftrightarrow> bit ret i \<or> (\<exists>acr \<in> set acrs. rule_applies E s ip origin acr \<and> bit (rule_bits acr) i))"
proof (induction acrs arbitrary: ret)
  case (Cons acr acrs)
  let ?a = "if rule_applies E s ip origin acr then rule_bits acr else 0"
  from Cons obtain r where "rules_acop E s ip origin acrs (or ret ?a) = Some (r, s)"
    "\<forall>i. bit r i \<longleftrightarrow> bit (or ret ?a) i \<or> (\<exists>acr \<in> set acrs. rule_applies E s ip origin acr \<and> bit (rule_bits acr) i)"
    by fastforce
  with Cons.prems show ?case by (auto simp: rule_acop_value bit_or_iff)
qed simp

text \<open>
  The operations an access control policy grants are exactly the union over its rules
  that apply: an operation is granted to an originator other than the administrator if and
  only if some rule names the originator (exactly, by wildcard, as member of a group, or
  \<open>all\<close>), accepts the address of the originator, and lists the operation.
\<close>

theorem get_acop_origin_union:
  assumes "heap s a = Some acp" "origin \<noteq> ADMIN_AE_ID"
    and "list_all (rule_quiet E s (p_ip o2pt) origin) (acr_list acp flag)"
  shows "\<exists>r. get_acop_origin E s o2pt origin (Some a) flag = Some (r, s) \<and>
    (\<forall>i. bit r i \<longleftrightarrow> (\<exists>acr \<in> set (acr_list acp flag).
       rule_applies E s (p_ip o2pt) origin acr \<and> bit (rule_bits acr) i))"
  using rules_acop_bits [OF assms(3), of 0] assms(1,2) by (simp add: get_acop_origin_def)

text \<open>
  The references of a resource to policies: those that resolve to an ACP, in a state that
  the lookups leave alone.
\<close>

definition ref_quiet :: "'d env \<Rightarrow> 'd cse \<Rightarrow> oneM2MPrimitive \<Rightarrow> string \<Rightarrow> cjson \<Rightarrow> bool" where
  "ref_quiet E s o2pt origin e \<longleftrightarrow>
     (case valuestring e of
        None \<Rightarrow> True
      | Some acpi \<Rightarrow>
          (case find_rtnode E s (Some acpi) of
             None \<Rightarrow> False
           | Some (p, s') \<Rightarrow> s' = s \<and> (case p of None \<Rightarrow> True | Some a \<Rightarrow> heap s a \<noteq> None \<and>
               (\<exists>r. get_acop_origin E s o2pt origin p False = Some (r, s)))))"

definition refers_to :: "'d env \<Rightarrow> 'd cse \<Rightarrow> cjson \<Rightarrow> addr \<Rightarrow> bool" where
  "refers_to E s e a \<longleftrightarrow>
     (\<exists>acpi n. valuestring e = Some acpi \<and> find_rtnode E s (Some acpi) = Some (Some a, s) \<and>
       heap s a = Some n \<and> n_ty n = RT_ACP)"

definition pv_bits :: "'d env \<Rightarrow> 'd cse \<Rightarrow> oneM2MPrimitive \<Rightarrow> string \<Rightarrow> addr \<Rightarrow> int" where
  "pv_bits E s o2pt origin a =
     (case get_acop_origin E s o2pt origin (Some a) False of Some (r, _) \<Rightarrow> r | None \<Rightarrow> 0)"

lemma acpi_acop_bits:
  "list_all (ref_quiet E s o2pt origin) es \<Longrightarrow>
   \<exists>r v. acpi_acop E s o2pt origin es acop valid = Some (r, v, s) \<and>
     (v \<longleftrightarrow> valid \<or> (\<exists>e \<in> set es. \<exists>a. refers_to E s e a)) \<and>
     (\<forall>i. bit r i \<longleftrightarrow> bit acop i \<or> (\<exists>e \<in> set es. \<exists>a. refers_to E s e a \<and> bit (pv_bits E s o2pt origin a) i))"
proof (induction es arbitrary: acop valid)
  case (Cons e es)
  note IH = Cons.IH [of "or acop b" True for b] Cons.IH [of acop valid]
  show ?case
  proof (cases "\<exists>a. refers_to E s e a")
    case True
    then obtain a acpi n where a: "valuestring e = Some acpi" "find_rtnode E s (Some acpi) = Some (Some a, s)"
      "heap s a = Some n" "n_ty n = RT_ACP" by (auto simp: refers_to_def)
    then obtain b where b: "get_acop_origin E s o2pt origin (Some a) False = Some (b, s)"
      using Cons.prems by (auto simp: ref_quiet_def)
    have only: "refers_to E s e x \<longleftrightarrow> x = a" for x using a by (auto simp: refers_to_def)
    obtain r v where "acpi_acop E s o2pt origin es (or acop b) True = Some (r, v, s)" "v"
      "\<forall>i. bit r i \<longleftrightarrow> bit (or acop b) i \<or> (\<exists>e \<in> set es. \<exists>a. refers_to E s e a \<and> bit (pv_bits E s o2pt origin a) i)"
      using IH(1) [of b] Cons.prems by auto
    moreover have "pv_bits E s o2pt origin a = b" using b by (simp add: pv_bits_def)
    ultimately show ?thesis using a b only by (auto simp: bit_or_iff)
  next
    case False
    have "acpi_acop E s o2pt origin (e # es) acop valid = acpi_acop E s o2pt origin es acop valid"
    proof (cases "valuestring e")
      case (Some acpi)
      then obtain p where p: "find_rtnode E s (Some acpi) = Some (p, s)" "p \<noteq> None \<Longrightarrow> deref (heap s) p \<noteq> None"
        using Cons.prems by (auto simp: ref_quiet_def split: option.splits)
      with Some False show ?thesis by (cases p) (auto simp: refers_to_def)
    qed simp
    with IH(2) Cons.prems False show ?thesis by auto
  qed
qed simp

text \<open>
  C29. The operations granted through \<^verbatim>\<open>acpi\<close>: if at least one reference of a resource resolves
  to an access control policy, the operations granted to an originator are the union of
  what those policies grant. If none does (every referenced policy was deleted or has
  expired, or the list is empty), CREATE is granted to everyone.
\<close>

theorem get_acop_union:
  assumes "heap s a = Some n" "n_ty n \<noteq> RT_ACP" "get_acpi_rtnode n = Some acpi" "origin \<noteq> ADMIN_AE_ID"
    and "list_all (ref_quiet E s o2pt origin) (elems (Some acpi))"
  shows "\<exists>r. get_acop E s o2pt origin a = Some (r, s) \<and>
    (if \<exists>e \<in> set (elems (Some acpi)). \<exists>p. refers_to E s e p
     then \<forall>i. bit r i \<longleftrightarrow> (\<exists>e \<in> set (elems (Some acpi)). \<exists>p. refers_to E s e p \<and> bit (pv_bits E s o2pt origin p) i)
     else r = ACOP_CREATE)"
proof -
  obtain r v where r: "acpi_acop E s o2pt origin (elems (Some acpi)) 0 False = Some (r, v, s)"
    "v \<longleftrightarrow> (\<exists>e \<in> set (elems (Some acpi)). \<exists>p. refers_to E s e p)"
    "\<forall>i. bit r i \<longleftrightarrow> (\<exists>e \<in> set (elems (Some acpi)). \<exists>p. refers_to E s e p \<and> bit (pv_bits E s o2pt origin p) i)"
    using acpi_acop_bits [OF assms(5), of 0 False] by auto
  with assms(1-4) have "get_acop E s o2pt origin a = Some (if v then r else ACOP_CREATE, s)"
    by (simp add: get_acop_def)
  with r(2,3) show ?thesis by auto
qed

subsection \<open>A concrete policy\<close>

text \<open>
  The CSEBase (0) refers to one policy (1) that lets \<open>CAE1\<close> and every originator \<open>CB*\<close> create and
  retrieve; its second reference does not resolve.
\<close>

definition ex_acr :: cjson where
  "ex_acr = JObject [(''acor'', JArray [JString ''CAE1'', JString ''CB*'']), (''acop'', JNumber 3)]"

definition ex_acp_heap :: heap where
  "ex_acp_heap =
     [0 \<mapsto> (mk_node RT_CSE ''TinyIoT'' ''tinyiot'' (Some ''TinyIoT'') None (Some 1) None None)
        \<lparr>n_obj := Some (JObject [(''ri'', JString ''tinyiot''),
           (''acpi'', JArray [JString ''TinyIoT/acp1'', JString ''gone''])])\<rparr>,
      1 \<mapsto> (mk_node RT_ACP ''acp1'' ''1-1'' (Some ''TinyIoT/acp1'') (Some 0) None None None)
        \<lparr>n_obj := Some (JObject [(''ri'', JString ''1-1''), (''pv'', JObject [(''acr'', JArray [ex_acr])])])\<rparr>]"

definition ex_acp_cse :: "rtnode list cse" where
  "ex_acp_cse = \<lparr>heap = ex_acp_heap, brk = 2, cb = Some 0, registrar_csr = None, csr_list = [], ri_count = 0, md = md_init, db = []\<rparr>"

lemmas ex_eval = ci_eq_def tolower_def member_string_def member_int_def

lemma ex_acr_items:
  "cJSON_GetObjectItem (Some ex_acr) ''acor'' = Some (JArray [JString ''CAE1'', JString ''CB*''])"
  "cJSON_GetObjectItem (Some ex_acr) ''acco'' = None"
  "member_int (Some ex_acr) ''acop'' = Some 3"
  by (simp_all add: ex_acr_def ex_eval INT_MAX_def INT_MIN_def)

lemma ex_acor_match:
  "acor_match E s (strip_local ''CAE1'') ''CAE1'' = Some (True, s)"
  "acor_match E s (strip_local ''CB*'') ''CAE1'' = Some (False, s)"
  by (simp_all add: acor_match_def strip_local_def wildcard_match_def strncmp_def Let_def)

lemma ex_rule_quiet: "rule_quiet E s ip ''CAE1'' ex_acr" "rule_applies E s ip ''CAE1'' ex_acr" "rule_bits ex_acr = 3"
proof -
  have "list_all (acor_quiet E s ''CAE1'') (acors ex_acr)" "list_ex (names_originator E s ''CAE1'') (acors ex_acr)"
    by (auto simp: acors_def ex_acr_items acor_quiet_def names_originator_def ex_acor_match)
  then show "rule_quiet E s ip ''CAE1'' ex_acr" "rule_applies E s ip ''CAE1'' ex_acr" "rule_bits ex_acr = 3"
    by (simp_all add: rule_quiet_def rule_applies_def rule_bits_def ex_acr_items check_acco_def)
qed

lemma ex_acp_nodes:
  "heap ex_acp_cse 1 = Some ((mk_node RT_ACP ''acp1'' ''1-1'' (Some ''TinyIoT/acp1'') (Some 0) None None None)
     \<lparr>n_obj := Some (JObject [(''ri'', JString ''1-1''), (''pv'', JObject [(''acr'', JArray [ex_acr])])])\<rparr>)"
  "heap ex_acp_cse 0 = Some ((mk_node RT_CSE ''TinyIoT'' ''tinyiot'' (Some ''TinyIoT'') None (Some 1) None None)
        \<lparr>n_obj := Some (JObject [(''ri'', JString ''tinyiot''),
           (''acpi'', JArray [JString ''TinyIoT/acp1'', JString ''gone''])])\<rparr>)"
  by (simp_all add: ex_acp_cse_def ex_acp_heap_def)

theorem get_acop_origin_union_witness:
  "\<exists>r. get_acop_origin list_env ex_acp_cse (ex_request ''CAE1'') ''CAE1'' (Some 1) False = Some (r, ex_acp_cse) \<and>
     bit r 0 \<and> bit r 1 \<and> \<not> bit r 2"
proof -
  let ?acp = "(mk_node RT_ACP ''acp1'' ''1-1'' (Some ''TinyIoT/acp1'') (Some 0) None None None)
     \<lparr>n_obj := Some (JObject [(''ri'', JString ''1-1''), (''pv'', JObject [(''acr'', JArray [ex_acr])])])\<rparr>"
  have l: "acr_list ?acp False = [ex_acr]" by (simp add: acr_list_def ex_eval)
  then have "list_all (rule_quiet list_env ex_acp_cse (p_ip (ex_request ''CAE1'')) ''CAE1'') (acr_list ?acp False)"
    by (simp add: ex_rule_quiet)
  from get_acop_origin_union [OF ex_acp_nodes(1) _ this] show ?thesis
    by (fastforce simp: l ex_rule_quiet bit_numeral_rec)
qed

lemma ex_acp_lookup:
  "find_rtnode E ex_acp_cse (Some ''TinyIoT/acp1'') = Some (Some 1, ex_acp_cse)"
  "find_rtnode E ex_acp_cse (Some ''gone'') = Some (None, ex_acp_cse)"
proof -
  have seg: "seg ex_acp_heap None None (Some 0) [T 0 [T 1 []]] None"
    by (simp add: ex_acp_heap_def mk_node_def)
  have "reaches ex_acp_heap (Some 0) [''TinyIoT'', ''acp1''] 1"
    by (rule reaches_child reaches_self, auto simp: rn_of_def ex_acp_heap_def mk_node_def segment_def intro!: reaches_self)
  then have "find_rtnode_by_rn E ex_acp_cse (''TinyIoT'' @ path [''acp1'']) = Some (Some 1, ex_acp_cse)"
    by (intro find_by_segments) (simp_all add: ex_acp_cse_def)
  moreover have "\<not> isExpired E (heap ex_acp_cse 1)"
    by (simp add: ex_acp_nodes isExpired_def ex_eval del: One_nat_def)
  ultimately show "find_rtnode E ex_acp_cse (Some ''TinyIoT/acp1'') = Some (Some 1, ex_acp_cse)"
    using ex_acp_nodes(1)
    by (simp add: find_rtnode_def structured_def starts_with_def cut_fopt_def drop_if_expired_def del: One_nat_def)
  have "rt_search_ri ex_acp_heap (Some 0) ''gone'' = Some (find (ri_is ex_acp_heap ''gone'') (addrs [T 0 [T 1 []]]))"
    by (rule rt_search_ri_find [OF seg]) (auto simp: has_ri_def get_ri_rtnode_def ex_acp_heap_def ex_eval)
  also have "find (ri_is ex_acp_heap ''gone'') (addrs [T 0 [T 1 []]]) = None"
    by (simp add: ri_is_def get_ri_rtnode_def ex_acp_heap_def ex_eval)
  finally show "find_rtnode E ex_acp_cse (Some ''gone'') = Some (None, ex_acp_cse)"
    by (simp add: find_rtnode_def structured_def starts_with_def find_rtnode_by_ri_def strncmp_def
        drop_if_expired_def ex_acp_cse_def)
qed

lemma ex_acp_bits: "get_acop_origin E ex_acp_cse (ex_request ''CAE1'') ''CAE1'' (Some 1) False = Some (3, ex_acp_cse)"
  using rule_acop_value [OF ex_rule_quiet(1), of E ex_acp_cse] ex_rule_quiet
  by (simp add: get_acop_origin_def ex_acp_nodes acr_list_def ex_eval del: One_nat_def)

theorem get_acop_union_witness:
  "\<exists>r. get_acop list_env ex_acp_cse (ex_request ''CAE1'') ''CAE1'' 0 = Some (r, ex_acp_cse) \<and> bit r 1 \<and> \<not> bit r 2"
proof -
  let ?l = "[JString ''TinyIoT/acp1'', JString ''gone'']"
  have q: "list_all (ref_quiet list_env ex_acp_cse (ex_request ''CAE1'') ''CAE1'') (elems (Some (JArray ?l)))"
    using ex_acp_nodes by (simp add: ref_quiet_def ex_acp_lookup ex_acp_bits del: One_nat_def)
  have r: "refers_to list_env ex_acp_cse e p \<longleftrightarrow> e = JString ''TinyIoT/acp1'' \<and> p = 1"
    if "e \<in> set ?l" for e p
    using that ex_acp_nodes by (auto simp: refers_to_def ex_acp_lookup mk_node_def)
  have "pv_bits list_env ex_acp_cse (ex_request ''CAE1'') ''CAE1'' 1 = 3"
    using ex_acp_bits by (simp add: pv_bits_def)
  then have bits: "(\<exists>e \<in> set ?l. \<exists>p. refers_to list_env ex_acp_cse e p \<and>
      bit (pv_bits list_env ex_acp_cse (ex_request ''CAE1'') ''CAE1'' p) i) \<longleftrightarrow> bit (3 :: int) i" for i
    using r by auto
  have ex: "\<exists>e \<in> set ?l. \<exists>p. refers_to list_env ex_acp_cse e p" using r by auto
  have "\<exists>r. get_acop list_env ex_acp_cse (ex_request ''CAE1'') ''CAE1'' 0 = Some (r, ex_acp_cse) \<and>
      (\<forall>i. bit r i \<longleftrightarrow> bit (3 :: int) i)"
    using get_acop_union [OF ex_acp_nodes(2) _ _ _ q] ex bits
    by (simp add: mk_node_def get_acpi_rtnode_def ci_eq_def tolower_def)
  then show ?thesis by (auto simp: bit_numeral_rec)
qed

section \<open>Policies protect themselves\<close>

text \<open>
  Who an entry of \<^verbatim>\<open>acor\<close> names, read off the tree: an entry with a wildcard every originator
  that starts with the part before the first \<open>*\<close> and ends with the part behind it, \<open>all\<close> everybody,
  and any other entry the originator itself or the members of the group with that identifier.
\<close>

definition group_member :: "heap \<Rightarrow> string \<Rightarrow> addr \<Rightarrow> bool" where
  "group_member h origin g \<longleftrightarrow>
     (\<exists>n ms. h g = Some n \<and> n_ty n = RT_GRP \<and> cJSON_GetObjectItem (n_obj n) ''mid'' = Some (JArray ms) \<and>
        JString origin \<in> set ms)"

definition acor_names :: "heap \<Rightarrow> addr list \<Rightarrow> string \<Rightarrow> string \<Rightarrow> bool" where
  "acor_names h as origin acor \<longleftrightarrow>
     (\<exists>p q. acor = p @ CHR ''*'' # q \<and> CHR ''*'' \<notin> set p \<and> (\<exists>x. origin = p @ x) \<and> (\<exists>y. origin = y @ q)) \<or>
     acor = origin \<or> acor = ''all'' \<or>
     CHR ''*'' \<notin> set acor \<and> (\<exists>g. find (ri_is h acor) as = Some g \<and> group_member h origin g)"

text \<open>
  A tree no lookup by identifier changes: well-formed, every resource has its identifier and has
  not expired, and the members of the groups are strings.
\<close>

definition fresh_tree :: "'d env \<Rightarrow> 'd cse \<Rightarrow> rtree \<Rightarrow> bool" where
  "fresh_tree E s t \<longleftrightarrow>
     wf_rt (heap s) (cb s) t \<and>
     (\<forall>a \<in> set (addrs [t]). has_ri (heap s) a \<and> \<not> isExpired E (heap s a) \<and>
        (\<forall>n. heap s a = Some n \<longrightarrow> n_ty n = RT_GRP \<longrightarrow>
           (\<forall>e \<in> set (elems (cJSON_GetObjectItem (n_obj n) ''mid'')). valuestring e \<noteq> None)))"

text \<open>
  A well-formed rule: its entries of \<^verbatim>\<open>acor\<close> are identifiers (not of a contentInstance) or patterns whose last part is not longer
  than the originator, its addresses are strings and \<^verbatim>\<open>acop\<close> is an integer.
\<close>

definition plain_acor :: "string \<Rightarrow> cjson \<Rightarrow> bool" where
  "plain_acor origin e \<longleftrightarrow>
     (case valuestring e of
        None \<Rightarrow> False
      | Some acor \<Rightarrow>
          (let x = strip_local acor in
           if CHR ''*'' \<in> set x then length x \<le> length (before CHR ''*'' x) + length origin
           else x = origin \<or>
             CHR ''/'' \<notin> set x \<and> \<not> starts_with x ''4-'' \<and> x \<noteq> CSE_BASE_NAME \<and> x \<noteq> ''-''))"

definition plain_rule :: "string \<Rightarrow> cjson \<Rightarrow> bool" where
  "plain_rule origin acr \<longleftrightarrow>
     list_all (plain_acor origin) (acors acr) \<and>
     (\<forall>a \<in> set (elems (cJSON_GetObjectItem (Some acr) ''acco'')).
        \<forall>e \<in> set (elems (cJSON_GetObjectItem (cJSON_GetObjectItem (Some a) ''acip'') ''ipv4'')). valuestring e \<noteq> None) \<and>
     member_int (Some acr) ''acop'' \<noteq> None"

text \<open>A rule grants an operation if it names the originator, accepts its address and lists the operation.\<close>

definition rule_names :: "heap \<Rightarrow> addr list \<Rightarrow> string option \<Rightarrow> string \<Rightarrow> cjson \<Rightarrow> bool" where
  "rule_names h as ip origin acr \<longleftrightarrow>
     (\<exists>acor. JString acor \<in> set (acors acr) \<and> acor_names h as origin (strip_local acor)) \<and>
     check_acco (cJSON_GetObjectItem (Some acr) ''acco'') ip = Some True"

definition rules_grant :: "heap \<Rightarrow> addr list \<Rightarrow> string option \<Rightarrow> string \<Rightarrow> cjson list \<Rightarrow> int \<Rightarrow> bool" where
  "rules_grant h as ip origin acrs acop \<longleftrightarrow>
     (\<forall>i. bit acop i \<longrightarrow> (\<exists>acr \<in> set acrs. rule_names h as ip origin acr \<and> bit (rule_bits acr) i))"

lemma fresh_search:
  assumes "fresh_tree E s t"
  shows "rt_search_ri (heap s) (cb s) ri = Some (find (ri_is (heap s) ri) (addrs [t]))"
  using assms by (intro rt_search_ri_find [where par = None and left = None]) (auto simp: fresh_tree_def wf_rt_def)

lemma fresh_lookup:
  assumes "fresh_tree E s t" "CHR ''/'' \<notin> set x" "\<not> starts_with x ''4-''" "x \<noteq> CSE_BASE_NAME" "x \<noteq> ''-''"
  shows "find_rtnode E s (Some x) = Some (find (ri_is (heap s) x) (addrs [t]), s)"
proof -
  have st: "\<not> structured x" using assms(2) by (auto simp: structured_def starts_with_iff)
  have ri: "find_rtnode_by_ri E s x = Some (find (ri_is (heap s) x) (addrs [t]), s)"
    using assms(3) starts_with_strncmp [of x "''4-''"] by (simp add: find_rtnode_by_ri_def fresh_search [OF assms(1)] numeral_2_eq_2)
  have "drop_if_expired E s (find (ri_is (heap s) x) (addrs [t])) = Some (find (ri_is (heap s) x) (addrs [t]), s)"
  proof (cases "find (ri_is (heap s) x) (addrs [t])")
    case (Some g)
    then have g: "g \<in> set (addrs [t])" "ri_is (heap s) x g" by (auto simp: find_Some_iff)
    then obtain n where n: "heap s g = Some n" by (auto simp: ri_is_def split: option.splits)
    then have "\<not> isExpired E (Some n)" using assms(1) g(1) by (auto simp: fresh_tree_def)
    then show ?thesis using n Some by (simp add: drop_if_expired_def)
  qed (simp add: drop_if_expired_def)
  with st ri assms(2,4,5) show ?thesis by (simp add: find_rtnode_def)
qed

lemma array_idx_member:
  "(\<And>e. e \<in> set es \<Longrightarrow> valuestring e \<noteq> None) \<Longrightarrow>
   \<exists>j. array_idx es v i = Some j \<and> (j \<noteq> - 1 \<longleftrightarrow> JString v \<in> set es)"
proof (induction es arbitrary: i)
  case (Cons e es)
  from Cons.prems [of e] obtain x where "e = JString x" by (cases e) auto
  with Cons show ?case by auto
qed simp

lemma group_member_match:
  assumes "fresh_tree E s t" "CHR ''/'' \<notin> set x" "\<not> starts_with x ''4-''" "x \<noteq> CSE_BASE_NAME" "x \<noteq> ''-''"
  shows "acor_matches_group_member E s x origin =
    Some (\<exists>g. find (ri_is (heap s) x) (addrs [t]) = Some g \<and> group_member (heap s) origin g, s)"
proof (cases "find (ri_is (heap s) x) (addrs [t])")
  case (Some g)
  then have g: "g \<in> set (addrs [t])" "ri_is (heap s) x g" by (auto simp: find_Some_iff)
  then obtain n where n: "heap s g = Some n" by (auto simp: ri_is_def split: option.splits)
  let ?mid = "cJSON_GetObjectItem (n_obj n) ''mid''"
  have "\<exists>j. cJSON_getArrayIdx ?mid origin = Some j \<and> (j \<noteq> - 1 \<longleftrightarrow> JString origin \<in> set (elems ?mid))"
    if "n_ty n = RT_GRP" "cJSON_IsArray ?mid"
    using array_idx_member [of "elems ?mid" origin 0] assms(1) g n that
    by (cases ?mid) (auto simp: fresh_tree_def cJSON_getArrayIdx_def)
  then show ?thesis
    using fresh_lookup [OF assms] Some n
    by (cases ?mid; cases "the ?mid") (auto simp: acor_matches_group_member_def group_member_def cJSON_IsArray_def Let_def)
qed (simp add: acor_matches_group_member_def fresh_lookup [OF assms])

lemma wildcard_split: "CHR ''*'' \<in> set x \<Longrightarrow> \<exists>p q. x = p @ CHR ''*'' # q \<and> CHR ''*'' \<notin> set p"
  by (metis split_list_first)

lemma wildcard_unique:
  "CHR ''*'' \<notin> set p \<Longrightarrow> CHR ''*'' \<notin> set p' \<Longrightarrow> p @ CHR ''*'' # q = p' @ CHR ''*'' # q' \<longleftrightarrow> p = p' \<and> q = q'"
  by (auto simp: append_eq_append_conv2 append_eq_Cons_conv Cons_eq_append_conv)

lemma wildcard_names:
  assumes "CHR ''*'' \<notin> set p" "length q \<le> length origin"
  shows "wildcard_match (p @ CHR ''*'' # q) origin = Some ((\<exists>x. origin = p @ x) \<and> (\<exists>y. origin = y @ q))"
proof -
  have "strncmp (p @ CHR ''*'' # q) origin (length p) = 0 \<longleftrightarrow> (\<exists>x. origin = p @ x)"
    by (auto simp: strncmp_eq_0) (metis append_take_drop_id)
  moreover have "q = drop (length origin - length q) origin \<longleftrightarrow> (\<exists>y. origin = y @ q)"
    using assms(2) by auto (metis append_take_drop_id)
  ultimately show ?thesis using assms by (auto simp: wildcard_match_def Let_def)
qed

lemma plain_acor_match:
  assumes "fresh_tree E s t" "plain_acor origin e" "valuestring e = Some acor"
  shows "acor_match E s (strip_local acor) origin = Some (acor_names (heap s) (addrs [t]) origin (strip_local acor), s)"
proof -
  let ?x = "strip_local acor"
  show ?thesis
  proof (cases "CHR ''*'' \<in> set ?x")
    case True
    then obtain p q where x: "?x = p @ CHR ''*'' # q" "CHR ''*'' \<notin> set p" using wildcard_split by blast
    have "before CHR ''*'' ?x = p" using x by (auto simp: before_def takeWhile_tail)
    then have "length q \<le> length origin" using assms(2,3) True x(1) by (simp add: plain_acor_def Let_def)
    moreover have "acor_names (heap s) (addrs [t]) origin ?x \<longleftrightarrow> (\<exists>x. origin = p @ x) \<and> (\<exists>y. origin = y @ q)"
    proof
      assume "acor_names (heap s) (addrs [t]) origin ?x"
      then show "(\<exists>x. origin = p @ x) \<and> (\<exists>y. origin = y @ q)"
        using x wildcard_unique [OF x(2)] by (auto simp: acor_names_def Cons_eq_append_conv dest: sym)
    qed (use x in \<open>auto simp: acor_names_def\<close>)
    ultimately show ?thesis
      using True wildcard_names [OF x(2), of q origin] by (simp add: acor_match_def x(1))
  next
    case False
    then have "?x \<noteq> p @ CHR ''*'' # q" for p q by (metis in_set_conv_decomp)
    then have n: "acor_names (heap s) (addrs [t]) origin ?x \<longleftrightarrow> ?x = origin \<or> ?x = ''all'' \<or>
        (\<exists>g. find (ri_is (heap s) ?x) (addrs [t]) = Some g \<and> group_member (heap s) origin g)"
      using False by (simp add: acor_names_def)
    show ?thesis
      using False assms(2,3) group_member_match [OF assms(1), of ?x origin]
      by (auto simp: acor_match_def n plain_acor_def Let_def)
  qed
qed

lemma any_ipv4_defined: "(\<And>e. e \<in> set es \<Longrightarrow> valuestring e \<noteq> None) \<Longrightarrow> any_ipv4 es ip \<noteq> None"
proof (induction es)
  case (Cons e es)
  from Cons.prems [of e] obtain x where "valuestring e = Some x" by auto
  with Cons.IH Cons.prems show ?case by (cases "ipv4_match x ip") simp_all
qed simp

lemma any_acco_defined:
  "(\<And>a e. a \<in> set as \<Longrightarrow> e \<in> set (elems (cJSON_GetObjectItem (cJSON_GetObjectItem (Some a) ''acip'') ''ipv4'')) \<Longrightarrow>
      valuestring e \<noteq> None) \<Longrightarrow> any_acco as ip \<noteq> None"
proof (induction as)
  case (Cons a as)
  let ?l = "elems (cJSON_GetObjectItem (cJSON_GetObjectItem (Some a) ''acip'') ''ipv4'')"
  have "any_ipv4 ?l ip \<noteq> None" by (rule any_ipv4_defined) (use Cons.prems in auto)
  then obtain b where "any_ipv4 ?l ip = Some b" by blast
  with Cons.IH Cons.prems show ?case by (cases b) (simp_all, blast)
qed simp

text \<open>Well-formed rules are evaluated without a change of such a tree, and apply to whom they name.\<close>

lemma plain_rule_applies:
  assumes "fresh_tree E s t" "plain_rule origin acr"
  shows "rule_quiet E s ip origin acr" "rule_applies E s ip origin acr \<longleftrightarrow> rule_names (heap s) (addrs [t]) ip origin acr"
proof -
  have m: "acor_match E s (strip_local acor) origin = Some (acor_names (heap s) (addrs [t]) origin (strip_local acor), s)"
    if "JString acor \<in> set (acors acr)" for acor
    using that assms(2) by (intro plain_acor_match [OF assms(1), of origin "JString acor"]) (auto simp: plain_rule_def list_all_iff)
  have str: "\<exists>acor. e = JString acor" if "e \<in> set (acors acr)" for e
  proof -
    have "plain_acor origin e" using that assms(2) by (simp add: plain_rule_def list_all_iff)
    then show ?thesis by (cases e) (simp_all add: plain_acor_def)
  qed
  have "check_acco (cJSON_GetObjectItem (Some acr) ''acco'') ip \<noteq> None"
    using any_acco_defined assms(2) by (auto simp: check_acco_def plain_rule_def split: option.split)
  moreover have "acor_quiet E s origin e" if "e \<in> set (acors acr)" for e
    using str [OF that] m that by (auto simp: acor_quiet_def)
  ultimately show "rule_quiet E s ip origin acr"
    using assms(2) by (auto simp: rule_quiet_def list_all_iff plain_rule_def)
  have "list_ex (names_originator E s origin) (acors acr) \<longleftrightarrow>
      (\<exists>acor. JString acor \<in> set (acors acr) \<and> acor_names (heap s) (addrs [t]) origin (strip_local acor))"
  proof
    assume "list_ex (names_originator E s origin) (acors acr)"
    then obtain e acor where "e \<in> set (acors acr)" "valuestring e = Some acor"
      "acor_match E s (strip_local acor) origin = Some (True, s)" by (auto simp: list_ex_iff names_originator_def)
    with str m show "\<exists>acor. JString acor \<in> set (acors acr) \<and> acor_names (heap s) (addrs [t]) origin (strip_local acor)"
      by fastforce
  next
    assume "\<exists>acor. JString acor \<in> set (acors acr) \<and> acor_names (heap s) (addrs [t]) origin (strip_local acor)"
    then obtain acor where "JString acor \<in> set (acors acr)" "names_originator E s origin (JString acor)"
      by (auto simp: names_originator_def m)
    then show "list_ex (names_originator E s origin) (acors acr)" by (auto simp: list_ex_iff)
  qed
  then show "rule_applies E s ip origin acr \<longleftrightarrow> rule_names (heap s) (addrs [t]) ip origin acr"
    by (simp add: rule_applies_def rule_names_def)
qed

lemma and_covers: "and r acop = acop \<longleftrightarrow> (\<forall>i. bit acop i \<longrightarrow> bit r i)" for r acop :: int
  by (auto simp: bit_eq_iff bit_and_iff)

lemma get_acop_origin_grants:
  assumes "fresh_tree E s t" "heap s a = Some acp" "origin \<noteq> ADMIN_AE_ID" "list_all (plain_rule origin) (acr_list acp flag)"
  shows "\<exists>r. get_acop_origin E s o2pt origin (Some a) flag = Some (r, s) \<and>
    (\<forall>acop. and r acop = acop \<longleftrightarrow> rules_grant (heap s) (addrs [t]) (p_ip o2pt) origin (acr_list acp flag) acop)"
proof -
  have p: "plain_rule origin acr" if "acr \<in> set (acr_list acp flag)" for acr using assms(4) that by (simp add: list_all_iff)
  have "list_all (rule_quiet E s (p_ip o2pt) origin) (acr_list acp flag)"
    using plain_rule_applies(1) [OF assms(1) p] by (simp add: list_all_iff)
  from rules_acop_bits [OF this, of 0] obtain r where
    r: "rules_acop E s (p_ip o2pt) origin (acr_list acp flag) 0 = Some (r, s)" and
    b: "\<forall>i. bit r i \<longleftrightarrow> (\<exists>acr \<in> set (acr_list acp flag). rule_applies E s (p_ip o2pt) origin acr \<and> bit (rule_bits acr) i)"
    by auto
  from b plain_rule_applies(2) [OF assms(1) p] have
    "\<forall>i. bit r i \<longleftrightarrow> (\<exists>acr \<in> set (acr_list acp flag). rule_names (heap s) (addrs [t]) (p_ip o2pt) origin acr \<and> bit (rule_bits acr) i)"
    by auto
  with r assms(2,3) show ?thesis by (auto simp: get_acop_origin_def and_covers rules_grant_def)
qed

text \<open>
  C30. An access control policy is protected by its own \<^verbatim>\<open>pvs\<close> alone. For an originator other than
  the administrator, on a tree in which no resource has expired, and for rules whose
  entries of \<^verbatim>\<open>acor\<close> are identifiers or patterns: the check returns, grants the request exactly if each
  needed operation is listed by some rule of \<^verbatim>\<open>pvs\<close> that names the originator (itself, by a pattern, by \<open>all\<close> or as
  member of the group the entry identifies) and accepts its address, and otherwise refuses it with
  ORIGINATOR_HAS_NO_PRIVILEGE, whatever the policies of the ancestors grant; the state is left as it was.
\<close>

theorem acp_self_protection:
  assumes "plain_originator o2pt origin" "heap s a = Some acp" "n_ty acp = RT_ACP" "n_obj acp \<noteq> None"
    and "fresh_tree E s t" "list_all (plain_rule origin) (acr_list acp True)"
  shows "check_privilege E s o2pt (Some a) acop =
    (if rules_grant (heap s) (addrs [t]) (p_ip o2pt) origin (acr_list acp True) (needed o2pt acop)
     then Some (0, o2pt, s)
     else Some (- 1, handle_error o2pt RSC_ORIGINATOR_HAS_NO_PRIVILEGE ''originator has no privilege'', s))"
proof -
  obtain r where r: "get_acop_origin E s o2pt origin (Some a) True = Some (r, s)"
    "and r (needed o2pt acop) = needed o2pt acop \<longleftrightarrow>
       rules_grant (heap s) (addrs [t]) (p_ip o2pt) origin (acr_list acp True) (needed o2pt acop)"
    using get_acop_origin_grants [OF assms(5,2) _ assms(6), where o2pt = o2pt] assms(1) by (auto simp: plain_originator_def)
  have "check_privilege E s o2pt (Some a) acop = decide o2pt (and r (needed o2pt acop) = needed o2pt acop, s)"
    using assms(1-4) r(1) by (auto simp: check_privilege_def plain_originator_def needed_def Let_def)
  then show ?thesis using r(2) by (simp add: decide_def deny_privilege_def)
qed

text \<open>
  A tree with one policy (1), whose own privileges let \<open>CAE1\<close> and every originator \<open>CB*\<close> create and retrieve.
\<close>

definition ex_pvs_node :: rtnode where
  "ex_pvs_node = (mk_node RT_ACP ''acp1'' ''1-1'' (Some ''TinyIoT/acp1'') (Some 0) None None None)
     \<lparr>n_obj := Some (JObject [(''ri'', JString ''1-1''), (''pvs'', JObject [(''acr'', JArray [ex_acr])])])\<rparr>"

definition ex_pvs_cse :: "rtnode list cse" where
  "ex_pvs_cse = ex_acp_cse\<lparr>heap := (heap ex_acp_cse)(1 \<mapsto> ex_pvs_node)\<rparr>"

lemma ex_fresh: "fresh_tree E ex_acp_cse (T 0 [T 1 []])" "fresh_tree E ex_pvs_cse (T 0 [T 1 []])"
  by (auto simp: fresh_tree_def wf_rt_def ex_pvs_cse_def ex_pvs_node_def ex_acp_cse_def ex_acp_heap_def mk_node_def
      ty_sorted_def has_ri_def get_ri_rtnode_def isExpired_def ex_eval)

lemma ex_plain_rule: "plain_rule ''CAE1'' ex_acr"
  by (simp add: plain_rule_def acors_def ex_acr_items plain_acor_def strip_local_def strncmp_def before_def Let_def)

lemma ex_rules_grant:
  assumes "fresh_tree E s (T 0 [T 1 []])"
  shows "rules_grant (heap s) (addrs [T 0 [T 1 []]]) ip ''CAE1'' [ex_acr] acop \<longleftrightarrow> and 3 acop = acop"
  using plain_rule_applies(2) [OF assms ex_plain_rule, of ip] ex_rule_quiet(2,3)
  by (auto simp: rules_grant_def and_covers)

theorem acp_self_protection_witness:
  "check_privilege list_env ex_pvs_cse (ex_request ''CAE1'') (Some 1) ACOP_RETRIEVE = Some (0, ex_request ''CAE1'', ex_pvs_cse) \<and>
   check_privilege list_env ex_pvs_cse (ex_request ''CAE1'') (Some 1) (ACOP_RETRIEVE + ACOP_DELETE) =
     Some (- 1, handle_error (ex_request ''CAE1'') RSC_ORIGINATOR_HAS_NO_PRIVILEGE ''originator has no privilege'', ex_pvs_cse)"
proof -
  have acrs: "acr_list ex_pvs_node True = [ex_acr]" by (simp add: ex_pvs_node_def acr_list_def ex_eval)
  have "check_privilege list_env ex_pvs_cse (ex_request ''CAE1'') (Some 1) acop =
      (if and 3 acop = acop then Some (0, ex_request ''CAE1'', ex_pvs_cse)
       else Some (- 1, handle_error (ex_request ''CAE1'') RSC_ORIGINATOR_HAS_NO_PRIVILEGE ''originator has no privilege'', ex_pvs_cse))" for acop
  proof -
    have n: "needed (ex_request ''CAE1'') acop = acop" by (simp add: needed_def ex_request_def)
    have "list_all (plain_rule ''CAE1'') (acr_list ex_pvs_node True)" by (simp add: acrs ex_plain_rule)
    from acp_self_protection [OF _ _ _ _ ex_fresh(2) this, of "ex_request ''CAE1''" 1 list_env acop] show ?thesis
      unfolding acrs n ex_rules_grant [OF ex_fresh(2)]
      by (simp add: plain_originator_def ex_request_def ex_pvs_cse_def ex_pvs_node_def mk_node_def)
  qed
  then show ?thesis by simp
qed

text \<open>
  The outcome of a privilege check is a decision: it either grants and leaves the
  primitive untouched, or refuses with -1, the error flag, the response code
  ORIGINATOR_HAS_NO_PRIVILEGE and a debug message, and changes nothing else of the request.
\<close>

theorem check_privilege_outcome:
  assumes "check_privilege E s o2pt r acop = Some (rc, o2pt', s')"
  shows "(rc = 0 \<and> o2pt' = o2pt) \<or>
    (rc = - 1 \<and> p_rsc o2pt' = RSC_ORIGINATOR_HAS_NO_PRIVILEGE \<and> p_errFlag o2pt' \<and>
     p_response_pc o2pt' = Some (JObject [(''m2m:dbg'', JString ''originator has no privilege'')]) \<and>
     o2pt'\<lparr>p_rsc := p_rsc o2pt, p_errFlag := p_errFlag o2pt, p_response_pc := p_response_pc o2pt\<rparr> = o2pt)"
  using check_privilege_decided [of o2pt E s r acop] assms
  by (auto simp: decided_def refused_def deny_privilege_def handle_error_def)

theorem check_privilege_outcome_witness:
  "p_rsc (snd (deny_privilege (ex_request ''CAE9''))) = RSC_ORIGINATOR_HAS_NO_PRIVILEGE"
proof -
  have "check_privilege list_env ex_acp_cse (ex_request ''CAE9'') None ACOP_RETRIEVE = denied (ex_request ''CAE9'') ex_acp_cse"
    by (simp add: check_privilege_def)
  from check_privilege_outcome [OF this] show ?thesis by (auto simp: deny_privilege_def)
qed

section \<open>IPv4 prefixes\<close>

lemma acco_mask_mask: "acco_mask i = mask (Suc i)"
proof (induction i)
  case (Suc i)
  have "acco_mask (Suc i) = or (push_bit 1 (mask (Suc i))) (1 :: 32 word)" using Suc by simp
  also have "\<dots> = mask (Suc (Suc i))"
    by (simp add: mask_Suc_double [of "Suc i"] or.commute push_bit_eq_mult mult.commute)
  finally show ?case .
qed (simp add: mask_Suc_0)

lemma octet_dec: "n < 256 \<Longrightarrow> octet (dec n) = Some n"
proof -
  assume n: "n < 256"
  have len: "length (dec n) \<le> 3" using n length_dec_le [of n 3] by simp
  have "dec n = ''0'' \<or> hd (dec n) \<noteq> CHR ''0''"
  proof (cases "n = 0")
    case True
    then have "(of_char (digit n) :: nat) = of_char (CHR ''0'')" by simp
    then have "digit n = CHR ''0''" by (simp only: of_char_eq_iff)
    with True show ?thesis by (simp add: dec_small)
  next
    case False
    have "0 < n \<Longrightarrow> hd (dec n) \<noteq> CHR ''0''" for n
    proof (induction n rule: dec.induct)
      case (1 n)
      show ?case
      proof (cases "n < 10")
        case True
        then have "(of_char (digit n) :: nat) \<noteq> of_char (CHR ''0'')" using 1(2) by simp
        then have "digit n \<noteq> CHR ''0''" by metis
        with True show ?thesis by (simp add: dec_small)
      next
        case False
        with 1 show ?thesis by (simp add: dec_large)
      qed
    qed
    with False show ?thesis by simp
  qed
  with n len show ?thesis
    using dec_digits by (auto simp: octet_def digits_val_dec list_all_iff)
qed

definition ip4 :: "nat \<Rightarrow> nat \<Rightarrow> nat \<Rightarrow> nat \<Rightarrow> string" where
  "ip4 a b c d = dec a @ ''.'' @ dec b @ ''.'' @ dec c @ ''.'' @ dec d"

lemma dec_no_char: "\<not> is_digit x \<Longrightarrow> x \<notin> set (dec n)"
  using dec_digits by blast

lemma inet_pton_ip4:
  assumes "a < 256" "b < 256" "c < 256" "d < 256"
  shows "inet_pton (ip4 a b c d) = Some (word_of_nat (a + 256 * (b + 256 * (c + 256 * d))))"
proof -
  have dot: "CHR ''.'' \<notin> set (dec n)" for n by (rule dec_no_char) (simp add: is_digit_def)
  have "split_on CHR ''.'' (ip4 a b c d) = [dec a, dec b, dec c, dec d]"
    by (simp add: ip4_def split_on_append dot split_on_no_delim)
  with assms show ?thesis by (simp add: inet_pton_def octet_dec)
qed

lemma and_mask_octets:
  fixes x y :: nat
  assumes "n \<le> 32"
  shows "and (word_of_nat x :: 32 word) (mask n) = and (word_of_nat y) (mask n) \<longleftrightarrow> x mod 2 ^ n = y mod 2 ^ n"
proof -
  have a: "and (word_of_nat z :: 32 word) (mask n) = word_of_nat (take_bit n z)" for z
    by (simp only: take_bit_of_nat take_bit_eq_mask [symmetric])
  have b: "take_bit 32 (take_bit n z) = take_bit n z" for z :: nat
    using assms by (simp only: take_bit_take_bit min_absorb2)
  have "LENGTH(32) = 32" by simp
  then have c: "(word_of_nat u = (word_of_nat v :: 32 word)) \<longleftrightarrow> take_bit 32 u = take_bit 32 v" for u v
    by (simp only: word_of_nat_eq_iff)
  show ?thesis by (simp only: a c b) (simp only: take_bit_eq_mod)
qed

lemma peel_octet: "x < 256 \<Longrightarrow> (x + 256 * y) mod (256 * m) = x + 256 * (y mod m)" for x y m :: nat
  by (simp add: mod_mult2_eq)

lemma octet_inj: "x < 256 \<Longrightarrow> x' < 256 \<Longrightarrow> x + 256 * y = x' + 256 * y' \<longleftrightarrow> x = x' \<and> y = y'" for x x' y y' :: nat
  by (metis mod_less mod_mult_self2 add_left_cancel mult_cancel1 zero_neq_numeral)

lemma octet_pow: "(2 :: nat) ^ (8 * Suc i) = 256 * 2 ^ (8 * i)"
  by (simp add: power_add)

lemma octet_step:
  fixes x y :: nat
  assumes "x < 256" "x' < 256"
  shows "(x + 256 * y) mod 2 ^ (8 * Suc i) = (x' + 256 * y') mod 2 ^ (8 * Suc i) \<longleftrightarrow> x = x' \<and> y mod 2 ^ (8 * i) = y' mod 2 ^ (8 * i)"
  unfolding octet_pow peel_octet [OF assms(1)] peel_octet [OF assms(2)] by (rule octet_inj [OF assms])

lemma radix_digits:
  fixes a b c d :: nat
  assumes "a < 256" "b < 256" "c < 256" "d < 256" "a' < 256" "b' < 256" "c' < 256" "d' < 256" "k \<in> {1, 2, 3, 4}"
  shows "(a + 256 * (b + 256 * (c + 256 * d))) mod 2 ^ (8 * k) = (a' + 256 * (b' + 256 * (c' + 256 * d'))) mod 2 ^ (8 * k) \<longleftrightarrow>
    take k [a, b, c, d] = take k [a', b', c', d']"
proof -
  note s = octet_step [OF assms(1,5)] octet_step [OF assms(2,6)] octet_step [OF assms(3,7)]
    octet_step [where y = 0 and y' = 0, OF assms(4,8), unfolded mult_0_right add_0_right]
  from assms(9) consider "k = Suc 0" | "k = Suc (Suc 0)" | "k = Suc (Suc (Suc 0))" | "k = Suc (Suc (Suc (Suc 0)))" by force
  then show ?thesis
    by cases (simp_all only: s mult_0_right power_0 mod_by_1 take_Suc_Cons take_0 list.inject simp_thms)
qed

lemma ipv4_match_ip4:
  assumes "a < 256" "b < 256" "c < 256" "d < 256" "a' < 256" "b' < 256" "c' < 256" "d' < 256" "1 \<le> n" "n \<le> 32"
  shows "ipv4_match (ip4 a b c d @ ''/'' @ dec n) (ip4 a' b' c' d') \<longleftrightarrow>
    (a + 256 * (b + 256 * (c + 256 * d))) mod 2 ^ n = (a' + 256 * (b' + 256 * (c' + 256 * d'))) mod 2 ^ n"
proof -
  have "CHR ''/'' \<notin> set (dec i)" for i by (rule dec_no_char) (simp add: is_digit_def)
  then have "CHR ''/'' \<notin> set (ip4 a b c d)" by (simp add: ip4_def)
  then have *: "strchr (ip4 a b c d @ CHR ''/'' # dec n) CHR ''/'' = Some (CHR ''/'' # dec n)"
    "before CHR ''/'' (ip4 a b c d @ CHR ''/'' # dec n) = ip4 a b c d"
    by simp_all
  have "atoi (dec n) = int n" using assms(10) by (intro atoi_dec) auto
  then have m: "acco_mask (nat (atoi (dec n) - 1)) = mask n"
    using assms(9,10) by (auto simp: acco_mask_mask nat_diff_distrib)
  have "ipv4_match (ip4 a b c d @ ''/'' @ dec n) (ip4 a' b' c' d') \<longleftrightarrow>
      and (word_of_nat (a + 256 * (b + 256 * (c + 256 * d))) :: 32 word) (mask n) =
      and (word_of_nat (a' + 256 * (b' + 256 * (c' + 256 * d')))) (mask n)"
    using assms by (simp add: ipv4_match_def * inet_pton_ip4 m Let_def)
  then show ?thesis by (simp only: and_mask_octets [OF assms(10)])
qed

text \<open>
  For the prefix lengths 8, 16, 24 and 32 an \<^verbatim>\<open>ipv4\<close> entry \<open>a.b.c.d/n\<close> of an access control
  context matches an originator address exactly when its first \<open>n/8\<close> octets agree.
\<close>

theorem ipv4_prefix_octets:
  assumes "a < 256" "b < 256" "c < 256" "d < 256" "a' < 256" "b' < 256" "c' < 256" "d' < 256" "k \<in> {1, 2, 3, 4}"
  shows "ipv4_match (ip4 a b c d @ ''/'' @ dec (8 * k)) (ip4 a' b' c' d') \<longleftrightarrow>
    take k [a, b, c, d] = take k [a', b', c', d']"
proof -
  have "1 \<le> 8 * k" "8 * k \<le> 32" using assms(9) by auto
  then show ?thesis
    unfolding ipv4_match_ip4 [OF assms(1-8) \<open>1 \<le> 8 * k\<close> \<open>8 * k \<le> 32\<close>] using assms by (intro radix_digits)
qed

theorem ipv4_prefix_octets_witness:
  "ipv4_match (ip4 10 0 7 1 @ ''/'' @ dec (8 * 2)) (ip4 10 0 9 200)"
proof -
  have "ipv4_match (ip4 10 0 7 1 @ ''/'' @ dec (8 * 2)) (ip4 10 0 9 200) \<longleftrightarrow>
      take 2 [10, 0, 7, 1 :: nat] = take 2 [10, 0, 9, 200]"
    by (rule ipv4_prefix_octets) simp_all
  then show ?thesis by simp
qed

text \<open>
  Between two octets the mask is built from the low bits of the address in network byte order, so the
  prefix \<^verbatim>\<open>10.0.0.16/28\<close> rejects \<^verbatim>\<open>10.0.0.17\<close>, which is inside the block, and accepts \<^verbatim>\<open>10.0.0.32\<close>, which is not.
\<close>

theorem ipv4_prefix_within_octet:
  "\<not> ipv4_match ''10.0.0.16/28'' ''10.0.0.17'' \<and> ipv4_match ''10.0.0.16/28'' ''10.0.0.32''"
proof -
  have ip: "ip4 10 0 0 16 = ''10.0.0.16''" "ip4 10 0 0 17 = ''10.0.0.17''" "ip4 10 0 0 32 = ''10.0.0.32''" "dec 28 = ''28''"
    by code_simp+
  from ipv4_match_ip4 [of 10 0 0 16 10 0 0 17 28] ipv4_match_ip4 [of 10 0 0 16 10 0 0 32 28]
  show ?thesis unfolding ip by simp
qed

end
