(* ===== verification/FilterCriteria.thy ===== *)
theory FilterCriteria
  imports AccessProps
begin

text \<open>
  Filter criteria (\<^verbatim>\<open>filterCriteria.c\<close>): the table of supported tags, the conversion of the
  query string and of a JSON \<^verbatim>\<open>fc\<close>, the validation of a request's criteria, and the test
  whether a resource satisfies them.

  A query string is the JSON object \<^verbatim>\<open>qs_to_json\<close> made of it. \<^verbatim>\<open>parse_qs\<close> changes that
  object in place and keeps the changes when it fails, so the model returns the object
  with both results. \<^verbatim>\<open>strcmp\<close> and \<^verbatim>\<open>sscanf\<close> on an item without a string are undefined.
\<close>

section \<open>The tags\<close>

datatype fc_value_type =
    FC_TYPE_TIMESTAMP
  | FC_TYPE_NON_NEG_INT
  | FC_TYPE_POS_INT
  | FC_TYPE_ENUM
  | FC_TYPE_STRING
  | FC_TYPE_INT_ARRAY
  | FC_TYPE_STRING_ARRAY
  | FC_TYPE_BOOLEAN

definition FC_TAG_TABLE :: "(string \<times> fc_value_type) list" where
  "FC_TAG_TABLE =
    [(''fu'', FC_TYPE_ENUM), (''crb'', FC_TYPE_TIMESTAMP), (''cra'', FC_TYPE_TIMESTAMP),
     (''ms'', FC_TYPE_TIMESTAMP), (''us'', FC_TYPE_TIMESTAMP), (''exb'', FC_TYPE_TIMESTAMP),
     (''exa'', FC_TYPE_TIMESTAMP), (''sts'', FC_TYPE_POS_INT), (''stb'', FC_TYPE_NON_NEG_INT),
     (''sza'', FC_TYPE_NON_NEG_INT), (''szb'', FC_TYPE_POS_INT), (''lbl'', FC_TYPE_STRING_ARRAY),
     (''clbl'', FC_TYPE_STRING_ARRAY), (''palb'', FC_TYPE_STRING_ARRAY), (''lbq'', FC_TYPE_STRING),
     (''ty'', FC_TYPE_INT_ARRAY), (''chty'', FC_TYPE_INT_ARRAY), (''pty'', FC_TYPE_INT_ARRAY),
     (''cty'', FC_TYPE_STRING), (''ops'', FC_TYPE_ENUM), (''fo'', FC_TYPE_ENUM),
     (''cfs'', FC_TYPE_ENUM), (''lim'', FC_TYPE_NON_NEG_INT), (''lvl'', FC_TYPE_POS_INT),
     (''ofst'', FC_TYPE_POS_INT), (''cfq'', FC_TYPE_STRING), (''arp'', FC_TYPE_STRING),
     (''gq'', FC_TYPE_STRING), (''smf'', FC_TYPE_STRING), (''rn'', FC_TYPE_STRING),
     (''ri'', FC_TYPE_STRING), (''pi'', FC_TYPE_STRING), (''cr'', FC_TYPE_STRING),
     (''or'', FC_TYPE_STRING), (''apn'', FC_TYPE_STRING), (''api'', FC_TYPE_STRING),
     (''aei'', FC_TYPE_STRING), (''rr'', FC_TYPE_BOOLEAN), (''nl'', FC_TYPE_STRING),
     (''poa'', FC_TYPE_STRING), (''mni'', FC_TYPE_NON_NEG_INT), (''mbs'', FC_TYPE_NON_NEG_INT),
     (''mia'', FC_TYPE_NON_NEG_INT), (''cni'', FC_TYPE_NON_NEG_INT), (''cbs'', FC_TYPE_NON_NEG_INT),
     (''disr'', FC_TYPE_BOOLEAN), (''con'', FC_TYPE_STRING), (''dlc'', FC_TYPE_POS_INT),
     (''cnd'', FC_TYPE_STRING), (''lnk'', FC_TYPE_STRING)]"

definition isValidFcAttr :: "string \<Rightarrow> bool" where
  "isValidFcAttr attr \<longleftrightarrow> list_ex (\<lambda>(name, _). attr = name) FC_TAG_TABLE"

section \<open>Validation\<close>

text \<open>
  The conversion \<^verbatim>\<open>%\<open>w\<close>d\<close> of \<^verbatim>\<open>sscanf\<close>, whose value is not used: white space, then at most \<open>w\<close>
  characters, an optional sign and at least one digit.
\<close>

definition scan_digits :: "nat \<Rightarrow> string \<Rightarrow> string option" where
  "scan_digits w s =
     (case takeWhile is_digit (take w s) of [] \<Rightarrow> None | ds \<Rightarrow> Some (drop (length ds) s))"

definition scan_d :: "nat \<Rightarrow> string \<Rightarrow> string option" where
  "scan_d w s =
     (case dropWhile isspace s of
        [] \<Rightarrow> None
      | c # t \<Rightarrow> if c = CHR ''-'' \<or> c = CHR ''+'' then scan_digits (w - 1) t else scan_digits w (c # t))"

definition scan_char :: "char \<Rightarrow> string \<Rightarrow> string option" where
  "scan_char d s = (case s of c # t \<Rightarrow> if c = d then Some t else None | [] \<Rightarrow> None)"

text \<open>\<^verbatim>\<open>sscanf(s, "%4d%2d%2dT%2d%2d%2d%n", ...) == 6\<close> and the rest of the string behind it.\<close>

definition scan_timestamp :: "string \<Rightarrow> string option" where
  "scan_timestamp s =
     do {
       s \<leftarrow> scan_d 4 s;
       s \<leftarrow> scan_d 2 s;
       s \<leftarrow> scan_d 2 s;
       s \<leftarrow> scan_char (CHR ''T'') s;
       s \<leftarrow> scan_d 2 s;
       s \<leftarrow> scan_d 2 s;
       scan_d 2 s }"

definition timestamp_valid :: "string \<Rightarrow> bool" where
  "timestamp_valid s =
     (case scan_timestamp s of
        None \<Rightarrow> False
      | Some ptr \<Rightarrow>
          length s - length ptr = 15 \<and>
          (let ptr = (case ptr of c # t \<Rightarrow> if c = CHR '','' \<or> c = CHR ''.'' then t else ptr | [] \<Rightarrow> ptr)
           in length (takeWhile is_digit ptr) \<le> 6))"

text \<open>
  The value of one tag of the table. \<^verbatim>\<open>cJSON_GetNumberValue\<close> of an item that is no number is
  NaN, which no comparison rejects.
\<close>

definition tag_value_valid :: "fc_value_type \<Rightarrow> cjson \<Rightarrow> bool option" where
  "tag_value_valid type item =
     (case type of
        FC_TYPE_TIMESTAMP \<Rightarrow> do { s \<leftarrow> valuestring item; Some (timestamp_valid s) }
      | FC_TYPE_NON_NEG_INT \<Rightarrow> Some (case cJSON_GetNumberValue item of Some v \<Rightarrow> \<not> v \<le> 0 | None \<Rightarrow> True)
      | FC_TYPE_POS_INT \<Rightarrow> Some (case cJSON_GetNumberValue item of Some v \<Rightarrow> \<not> v < 0 | None \<Rightarrow> True)
      | _ \<Rightarrow> Some True)"

fun tags_valid :: "(string \<times> fc_value_type) list \<Rightarrow> string \<Rightarrow> cjson \<Rightarrow> bool option" where
  "tags_valid [] key item = Some True"
| "tags_valid ((name, type) # tab) key item =
     (if key \<noteq> name then tags_valid tab key item
      else do { b \<leftarrow> tag_value_valid type item; if b then tags_valid tab key item else Some False })"

text \<open>
  The elements of \<^verbatim>\<open>ty\<close>, \<^verbatim>\<open>chty\<close> and \<^verbatim>\<open>pty\<close>. \<^verbatim>\<open>is_in\<close> is not reset between the elements. A
  number outside the range of \<^verbatim>\<open>int\<close> has no conversion.
\<close>

fun types_valid :: "bool \<Rightarrow> cjson list \<Rightarrow> bool option" where
  "types_valid is_in [] = Some True"
| "types_valid is_in (e # es) =
     (case cJSON_GetNumberValue e of
        None \<Rightarrow> Some False
      | Some val \<Rightarrow>
          if \<not> in_int val then None
          else if is_in \<or> val \<in> set resource_types then types_valid True es else Some False)"

definition fo_valid :: "cjson \<Rightarrow> bool option" where
  "fo_valid item =
     (case cJSON_GetNumberValue item of
        None \<Rightarrow> Some False
      | Some fo \<Rightarrow> if \<not> in_int fo then None else Some (0 \<le> fo \<and> fo \<le> 3))"

definition item_valid :: "string \<Rightarrow> cjson \<Rightarrow> bool option" where
  "item_valid key item =
     (if key = ''fo'' then fo_valid item
      else if key = ''ty'' \<or> key = ''chty'' \<or> key = ''pty'' then types_valid False (elems (Some item))
      else tags_valid FC_TAG_TABLE key item)"

fun items_valid :: "(string option \<times> cjson) list \<Rightarrow> bool option" where
  "items_valid [] = Some True"
| "items_valid ((k, item) # rest) =
     do { key \<leftarrow> k; b \<leftarrow> item_valid key item; if b then items_valid rest else Some False }"

definition isFCAttrValid :: "cjson \<Rightarrow> bool option" where
  "isFCAttrValid fc = items_valid (items fc)"

text \<open>The first member of the criteria that is no tag; its name goes into a buffer of 256 bytes.\<close>

fun first_unknown :: "(string option \<times> cjson) list \<Rightarrow> string option option" where
  "first_unknown [] = Some None"
| "first_unknown ((k, _) # rest) =
     do { key \<leftarrow> k; if isValidFcAttr key then first_unknown rest else Some (Some key) }"

definition validate_filter_criteria :: "oneM2MPrimitive \<Rightarrow> checked option" where
  "validate_filter_criteria o2pt =
     (case p_fc o2pt of
        None \<Rightarrow> Some (pass o2pt)
      | Some fc \<Rightarrow> do {
          u \<leftarrow> first_unknown (items fc);
          case u of
            Some key \<Rightarrow>
              (let buf = ''attr `'' @ key @ ''` is not valid(or supported)''
               in if length buf < 256 then Some (reject o2pt RSC_BAD_REQUEST buf) else None)
          | None \<Rightarrow> do {
              b \<leftarrow> isFCAttrValid fc;
              Some (if b then (RSC_OK, o2pt) else reject o2pt RSC_BAD_REQUEST ''Invalid Filter Criteria'') } })"

section \<open>Conversion\<close>

definition int_Attrs :: "string list" where
  "int_Attrs = [''ty'', ''sts'', ''stb'', ''sza'', ''szb'', ''lim'', ''fo'', ''fu'', ''lvl'',
     ''ofst'', ''ops'', ''la'', ''pty'', ''chty'']"

definition to_number :: "string \<Rightarrow> cjson \<Rightarrow> cjson" where
  "to_number k fc =
     (case cJSON_GetObjectItem (Some fc) k of
        Some (JString s) \<Rightarrow> cJSON_ReplaceItemInObject fc k (JNumber (atoi s))
      | _ \<Rightarrow> fc)"

definition parse_filter_criteria :: "cjson \<Rightarrow> cjson" where
  "parse_filter_criteria fc =
     (let fc = fold to_number int_Attrs fc
      in if cJSON_GetObjectItem (Some fc) ''fo'' = None then cJSON_AddItemToObject fc ''fo'' (JNumber 1) else fc)"

text \<open>The checked conversion of \<^verbatim>\<open>parse_qs\<close>: the whole string is one number that fits \<^verbatim>\<open>int\<close>.\<close>

definition parse_long :: "string \<Rightarrow> int option" where
  "parse_long s =
     (let (v, erange, rest) = strtol s
      in if erange \<or> INT_MAX < v \<or> v < INT_MIN then None
         else if rest = s \<or> rest \<noteq> [] then None
         else Some v)"

text \<open>Replacing the value of a member in place, without renaming it.\<close>

fun put_member :: "(string \<times> cjson) list \<Rightarrow> string \<Rightarrow> cjson \<Rightarrow> (string \<times> cjson) list" where
  "put_member [] k v = []"
| "put_member ((k', v') # kvs) k v = (if ci_eq k k' then (k', v) # kvs else (k', v') # put_member kvs k v)"

fun put_value :: "cjson \<Rightarrow> string \<Rightarrow> cjson \<Rightarrow> cjson" where
  "put_value (JObject kvs) k v = JObject (put_member kvs k v)"
| "put_value j k v = j"

definition convert_number :: "cjson \<Rightarrow> string \<Rightarrow> bool \<times> cjson" where
  "convert_number qs k =
     (case cJSON_GetObjectItem (Some qs) k of
        Some (JString s) \<Rightarrow>
          (case parse_long s of
             None \<Rightarrow> (False, qs)
           | Some v \<Rightarrow> (True, cJSON_ReplaceItemInObject qs k (JNumber v)))
      | _ \<Rightarrow> (True, qs))"

text \<open>The elements of an array up to the first that is no number are converted.\<close>

fun convert_elems :: "cjson list \<Rightarrow> bool \<times> cjson list" where
  "convert_elems [] = (True, [])"
| "convert_elems (JString s # es) =
     (case parse_long s of
        None \<Rightarrow> (False, JString s # es)
      | Some v \<Rightarrow> (let (ok, es) = convert_elems es in (ok, JNumber v # es)))"
| "convert_elems (e # es) = (let (ok, es) = convert_elems es in (ok, e # es))"

definition convert_tag :: "cjson \<Rightarrow> string \<Rightarrow> fc_value_type \<Rightarrow> bool \<times> cjson" where
  "convert_tag qs k type =
     (case cJSON_GetObjectItem (Some qs) k of
        None \<Rightarrow> (True, if k = ''fo'' then cJSON_AddItemToObject qs ''fo'' (JNumber 1) else qs)
      | Some pjson \<Rightarrow>
          if type \<in> {FC_TYPE_NON_NEG_INT, FC_TYPE_POS_INT, FC_TYPE_ENUM} then convert_number qs k
          else if type = FC_TYPE_INT_ARRAY
          then (case pjson of
                  JArray es \<Rightarrow> (let (ok, es) = convert_elems es in (ok, put_value qs k (JArray es)))
                | _ \<Rightarrow> convert_number qs k)
          else if type = FC_TYPE_STRING_ARRAY
          then (case pjson of
                  JString s \<Rightarrow> (True, cJSON_ReplaceItemInObject qs k (JArray [JString s]))
                | _ \<Rightarrow> (True, qs))
          else (True, qs))"

fun convert_tags :: "(string \<times> fc_value_type) list \<Rightarrow> cjson \<Rightarrow> bool \<times> cjson" where
  "convert_tags [] qs = (True, qs)"
| "convert_tags ((k, type) # tab) qs =
     (let (ok, qs) = convert_tag qs k type in if ok then convert_tags tab qs else (False, qs))"

definition parse_qs :: "cjson \<Rightarrow> bool \<times> cjson" where
  "parse_qs qs =
     (let (ok, qs) = convert_tags FC_TAG_TABLE qs in
      if \<not> ok then (False, qs)
      else let (ok, qs) = convert_number qs ''rcn'' in
      if \<not> ok then (False, qs)
      else convert_number qs ''drt'')"

section \<open>Single criteria\<close>

definition FC_isAptCrb :: "string \<Rightarrow> rtnode \<Rightarrow> bool option" where
  "FC_isAptCrb fcCrb n = do { ct \<leftarrow> member_string (n_obj n) ''ct''; Some (strcmp fcCrb ct > 0) }"

definition FC_isAptCra :: "string \<Rightarrow> rtnode \<Rightarrow> bool option" where
  "FC_isAptCra fcCra n = do { ct \<leftarrow> member_string (n_obj n) ''ct''; Some (strcmp fcCra ct \<le> 0) }"

definition FC_isAptMs :: "string \<Rightarrow> rtnode \<Rightarrow> bool option" where
  "FC_isAptMs fcMs n = do { lt \<leftarrow> member_string (n_obj n) ''lt''; Some (strcmp fcMs lt \<le> 0) }"

definition FC_isAptUs :: "string \<Rightarrow> rtnode \<Rightarrow> bool option" where
  "FC_isAptUs fcUs n = do { lt \<leftarrow> member_string (n_obj n) ''lt''; Some (strcmp fcUs lt > 0) }"

definition FC_isAptStb :: "int \<Rightarrow> rtnode \<Rightarrow> bool" where
  "FC_isAptStb fcStb n = (case member_int (n_obj n) ''st'' of None \<Rightarrow> False | Some st \<Rightarrow> fcStb \<le> st)"

definition FC_isAptSts :: "int \<Rightarrow> rtnode \<Rightarrow> bool" where
  "FC_isAptSts fcSts n = (case member_int (n_obj n) ''st'' of None \<Rightarrow> False | Some st \<Rightarrow> st < fcSts)"

definition FC_isAptExa :: "string \<Rightarrow> rtnode \<Rightarrow> bool option" where
  "FC_isAptExa fcExa n =
     (case cJSON_GetObjectItem (n_obj n) ''et'' of
        None \<Rightarrow> Some False
      | Some j \<Rightarrow> do { et \<leftarrow> valuestring j; Some (\<not> strcmp fcExa et \<ge> 0) })"

definition FC_isAptExb :: "string \<Rightarrow> rtnode \<Rightarrow> bool option" where
  "FC_isAptExb fcExb n =
     (case cJSON_GetObjectItem (n_obj n) ''et'' of
        None \<Rightarrow> Some False
      | Some j \<Rightarrow> do { et \<leftarrow> valuestring j; Some (\<not> strcmp fcExb et < 0) })"

fun label_in :: "cjson list \<Rightarrow> cjson \<Rightarrow> bool option" where
  "label_in [] l = Some False"
| "label_in (f # fs) l =
     do { a \<leftarrow> valuestring f; b \<leftarrow> valuestring l; if a = b then Some True else label_in fs l }"

fun any_label :: "cjson list \<Rightarrow> cjson list \<Rightarrow> bool option" where
  "any_label fs [] = Some False"
| "any_label fs (l # ls) = do { b \<leftarrow> label_in fs l; if b then Some True else any_label fs ls }"

definition FC_isAptLbl :: "cjson \<Rightarrow> rtnode \<Rightarrow> bool option" where
  "FC_isAptLbl fcLbl n = any_label (elems (Some fcLbl)) (elems (cJSON_GetObjectItem (n_obj n) ''lbl''))"

definition FC_isAptPalb :: "heap \<Rightarrow> cjson \<Rightarrow> rtnode \<Rightarrow> bool option" where
  "FC_isAptPalb h fcPalb n =
     (case n_parent n of
        None \<Rightarrow> Some False
      | Some q \<Rightarrow> do { p \<leftarrow> h q; FC_isAptLbl fcPalb p })"

partial_function (option) any_child_label :: "heap \<Rightarrow> cjson \<Rightarrow> ptr \<Rightarrow> bool option" where
  "any_child_label h fcClbl prt =
     (case prt of
        None \<Rightarrow> Some False
      | Some a \<Rightarrow> do {
          n \<leftarrow> h a;
          b \<leftarrow> FC_isAptLbl fcClbl n;
          if b then Some True else any_child_label h fcClbl (n_sibling_right n) })"

definition FC_isAptClbl :: "heap \<Rightarrow> cjson \<Rightarrow> rtnode \<Rightarrow> bool option" where
  "FC_isAptClbl h fcClbl n = any_child_label h fcClbl (n_child n)"

definition FC_isAptTy :: "cjson option \<Rightarrow> int \<Rightarrow> bool" where
  "FC_isAptTy ty_list ty \<longleftrightarrow> list_ex (\<lambda>e. ty = valueint e) (elems ty_list)"

definition FC_isAptChty :: "cjson option \<Rightarrow> int \<Rightarrow> bool" where
  "FC_isAptChty chty_list ty \<longleftrightarrow> list_ex (\<lambda>e. ty = valueint e) (elems chty_list)"

definition FC_isAptPty :: "cjson option \<Rightarrow> int \<Rightarrow> bool" where
  "FC_isAptPty fcPty ty \<longleftrightarrow> list_ex (\<lambda>e. ty = valueint e) (elems fcPty)"

definition FC_isAptSza :: "int \<Rightarrow> rtnode \<Rightarrow> bool" where
  "FC_isAptSza fcSza n = (case member_int (n_obj n) ''cs'' of None \<Rightarrow> False | Some cs \<Rightarrow> fcSza \<le> cs)"

definition FC_isAptSzb :: "int \<Rightarrow> rtnode \<Rightarrow> bool" where
  "FC_isAptSzb fcSzb n = (case member_int (n_obj n) ''cs'' of None \<Rightarrow> False | Some cs \<Rightarrow> cs < fcSzb)"

definition FC_isAptOps ::
    "'d env \<Rightarrow> 'd cse \<Rightarrow> oneM2MPrimitive \<Rightarrow> int \<Rightarrow> addr \<Rightarrow> (bool \<times> oneM2MPrimitive \<times> 'd cse) option" where
  "FC_isAptOps E s o2pt fcAcop a =
     do { (rc, o2pt, s) \<leftarrow> check_privilege E s o2pt (Some a) fcAcop; Some (rc \<noteq> - 1, o2pt, s) }"

section \<open>All criteria\<close>

text \<open>
  A test of the sequence in \<^verbatim>\<open>isResourceAptFC\<close> returns from the function (\<open>Some (Some b)\<close>), goes on
  (\<open>Some None\<close>) or is undefined (\<open>None\<close>).
\<close>

type_synonym verdict = "bool option option"


definition fo_step :: "int \<Rightarrow> bool \<Rightarrow> bool option" where
  "fo_step fo apt =
     (if \<not> apt then (if fo = FO_AND then Some False else None)
      else (if fo = FO_OR then Some True else None))"

definition when_given :: "int \<Rightarrow> cjson option \<Rightarrow> (cjson \<Rightarrow> bool option) \<Rightarrow> verdict" where
  "when_given fo pjson apt =
     (case pjson of None \<Rightarrow> Some None | Some j \<Rightarrow> do { b \<leftarrow> apt j; Some (fo_step fo b) })"

definition empty_range :: "int \<Rightarrow> cjson option \<Rightarrow> cjson option \<Rightarrow> (cjson \<Rightarrow> cjson \<Rightarrow> bool option) \<Rightarrow> verdict" where
  "empty_range fo pjson pjson2 reversed =
     (case (pjson, pjson2) of
        (Some j, Some j2) \<Rightarrow> do { b \<leftarrow> reversed j j2; Some (if b \<and> fo = FO_AND then Some False else None) }
      | _ \<Rightarrow> Some None)"

definition strings_reversed :: "cjson \<Rightarrow> cjson \<Rightarrow> bool option" where
  "strings_reversed j j2 = do { a \<leftarrow> valuestring j; b \<leftarrow> valuestring j2; Some (strcmp a b \<ge> 0) }"

definition ints_reversed :: "cjson \<Rightarrow> cjson \<Rightarrow> bool option" where
  "ints_reversed j j2 = Some (valueint j \<ge> valueint j2)"

text \<open>A null \<^verbatim>\<open>valuestring\<close> makes the time criteria answer false.\<close>

definition on_string :: "(string \<Rightarrow> bool option) \<Rightarrow> cjson \<Rightarrow> bool option" where
  "on_string f j = (case valuestring j of None \<Rightarrow> Some False | Some v \<Rightarrow> f v)"

partial_function (option) any_child_type :: "heap \<Rightarrow> cjson \<Rightarrow> ptr \<Rightarrow> bool option" where
  "any_child_type h chty prt =
     (case prt of
        None \<Rightarrow> Some False
      | Some a \<Rightarrow> do {
          n \<leftarrow> h a;
          if FC_isAptChty (Some chty) (n_ty n) then Some True
          else any_child_type h chty (n_sibling_right n) })"

text \<open>Without a parent the test of \<^verbatim>\<open>pty\<close> goes on to read the parent when the operation is not AND.\<close>

definition pty_verdict :: "int \<Rightarrow> heap \<Rightarrow> rtnode \<Rightarrow> cjson option \<Rightarrow> verdict" where
  "pty_verdict fo h n pjson =
     (case pjson of
        None \<Rightarrow> Some None
      | Some j \<Rightarrow>
          if n_parent n = None \<and> fo = FO_AND then Some (Some False)
          else do { p \<leftarrow> deref h (n_parent n); Some (fo_step fo (FC_isAptPty (Some j) (n_ty p))) })"

fun first_verdict :: "verdict list \<Rightarrow> verdict" where
  "first_verdict [] = Some None"
| "first_verdict (v # vs) =
     do { r \<leftarrow> v; case r of Some b \<Rightarrow> Some (Some b) | None \<Rightarrow> first_verdict vs }"

definition attribute_tests :: "heap \<Rightarrow> rtnode \<Rightarrow> cjson \<Rightarrow> int \<Rightarrow> verdict list" where
  "attribute_tests h n fc fo =
     (let get = cJSON_GetObjectItem (Some fc) in
      [empty_range fo (get ''cra'') (get ''crb'') strings_reversed,
       when_given fo (get ''cra'') (on_string (\<lambda>v. FC_isAptCra v n)),
       when_given fo (get ''crb'') (on_string (\<lambda>v. FC_isAptCrb v n)),
       empty_range fo (get ''ms'') (get ''us'') strings_reversed,
       when_given fo (get ''ms'') (on_string (\<lambda>v. FC_isAptMs v n)),
       when_given fo (get ''us'') (on_string (\<lambda>v. FC_isAptUs v n)),
       empty_range fo (get ''stb'') (get ''sts'') ints_reversed,
       when_given fo (get ''stb'') (\<lambda>j. Some (FC_isAptStb (valueint j) n)),
       when_given fo (get ''sts'') (\<lambda>j. Some (FC_isAptSts (valueint j) n)),
       empty_range fo (get ''exa'') (get ''exb'') strings_reversed,
       when_given fo (get ''exa'') (on_string (\<lambda>v. FC_isAptExa v n)),
       when_given fo (get ''exb'') (on_string (\<lambda>v. FC_isAptExb v n)),
       when_given fo (get ''lbl'') (\<lambda>j. FC_isAptLbl j n),
       when_given fo (get ''clbl'') (\<lambda>j. FC_isAptClbl h j n),
       when_given fo (get ''palb'') (\<lambda>j. FC_isAptPalb h j n)])"

definition relation_tests :: "heap \<Rightarrow> rtnode \<Rightarrow> cjson \<Rightarrow> int \<Rightarrow> verdict list" where
  "relation_tests h n fc fo =
     (let get = cJSON_GetObjectItem (Some fc) in
      [when_given fo (get ''ty'') (\<lambda>j. Some (FC_isAptTy (Some j) (n_ty n))),
       when_given fo (get ''chty'') (\<lambda>j. any_child_type h j (n_child n)),
       pty_verdict fo h n (get ''pty''),
       empty_range fo (get ''sza'') (get ''szb'') ints_reversed,
       when_given fo (get ''sza'') (\<lambda>j. Some (FC_isAptSza (valueint j) n)),
       when_given fo (get ''szb'') (\<lambda>j. Some (FC_isAptSzb (valueint j) n))])"

definition fc_tests :: "heap \<Rightarrow> rtnode \<Rightarrow> cjson \<Rightarrow> int \<Rightarrow> verdict list" where
  "fc_tests h n fc fo = attribute_tests h n fc fo @ relation_tests h n fc fo"

definition isResourceAptFC ::
    "'d env \<Rightarrow> 'd cse \<Rightarrow> oneM2MPrimitive \<Rightarrow> ptr \<Rightarrow> cjson option \<Rightarrow> (bool \<times> oneM2MPrimitive \<times> 'd cse) option" where
  "isResourceAptFC E s o2pt rtnode fc =
     do {
       fo \<leftarrow> member_int fc ''fo'';
       case (rtnode, fc) of
         (Some a, Some fc) \<Rightarrow> do {
           n \<leftarrow> heap s a;
           v \<leftarrow> first_verdict (fc_tests (heap s) n fc fo);
           case v of
             Some b \<Rightarrow> Some (b, o2pt, s)
           | None \<Rightarrow>
               (case cJSON_GetObjectItem (Some fc) ''ops'' of
                  None \<Rightarrow> Some (True, o2pt, s)
                | Some j \<Rightarrow> do {
                    (b, o2pt, s) \<leftarrow> FC_isAptOps E s o2pt (valueint j) a;
                    Some (case fo_step fo b of Some r \<Rightarrow> r | None \<Rightarrow> True, o2pt, s) }) }
       | _ \<Rightarrow> Some (False, o2pt, s) }"

end
