(* ===== verification/FilterProps.thy ===== *)
theory FilterProps
  imports FilterCriteria
begin

text \<open>
  What the filter criteria mean: under AND a resource passes exactly when it satisfies every
  given criterion and grants the operations \<^verbatim>\<open>ops\<close>; under every other operation it passes
  always. The conversion of a query string gives every tag a value of its type and changes
  nothing else, and the timestamps of this CSE are accepted as criteria.
\<close>

section \<open>Criteria as predicates\<close>

definition string_elems :: "cjson option \<Rightarrow> string set" where
  "string_elems j = {v. JString v \<in> set (elems j)}"

definition labels :: "rtnode \<Rightarrow> string set" where
  "labels n = string_elems (cJSON_GetObjectItem (n_obj n) ''lbl'')"

definition int_elems :: "cjson \<Rightarrow> int set" where
  "int_elems j = valueint ` set (elems (Some j))"

text \<open>\<open>rel\<close> between the attribute \<open>k\<close> of the resource and the value of the criterion.\<close>

definition text_rel :: "(int \<Rightarrow> bool) \<Rightarrow> string \<Rightarrow> rtnode \<Rightarrow> cjson \<Rightarrow> bool" where
  "text_rel rel k n j \<longleftrightarrow> (\<exists>a v. member_string (n_obj n) k = Some a \<and> j = JString v \<and> rel (strcmp v a))"

definition int_rel :: "(int \<Rightarrow> int \<Rightarrow> bool) \<Rightarrow> string \<Rightarrow> rtnode \<Rightarrow> cjson \<Rightarrow> bool" where
  "int_rel rel k n j \<longleftrightarrow> (\<exists>a. member_int (n_obj n) k = Some a \<and> rel (valueint j) a)"

definition criteria :: "heap \<Rightarrow> rtnode \<Rightarrow> rtree list \<Rightarrow> (string \<times> (cjson \<Rightarrow> bool)) list" where
  "criteria h n cs =
    [(''cra'', text_rel (\<lambda>c. c \<le> 0) ''ct'' n), (''crb'', text_rel (\<lambda>c. 0 < c) ''ct'' n),
     (''ms'', text_rel (\<lambda>c. c \<le> 0) ''lt'' n), (''us'', text_rel (\<lambda>c. 0 < c) ''lt'' n),
     (''stb'', int_rel (\<le>) ''st'' n), (''sts'', int_rel (>) ''st'' n),
     (''exa'', text_rel (\<lambda>c. c < 0) ''et'' n), (''exb'', text_rel (\<lambda>c. 0 \<le> c) ''et'' n),
     (''lbl'', \<lambda>j. string_elems (Some j) \<inter> labels n \<noteq> {}),
     (''clbl'', \<lambda>j. \<exists>t \<in> set cs. \<exists>m. h (root t) = Some m \<and> string_elems (Some j) \<inter> labels m \<noteq> {}),
     (''palb'', \<lambda>j. \<exists>q p. n_parent n = Some q \<and> h q = Some p \<and> string_elems (Some j) \<inter> labels p \<noteq> {}),
     (''ty'', \<lambda>j. n_ty n \<in> int_elems j),
     (''chty'', \<lambda>j. \<exists>t \<in> set cs. \<exists>m. h (root t) = Some m \<and> n_ty m \<in> int_elems j),
     (''pty'', \<lambda>j. \<exists>q p. n_parent n = Some q \<and> h q = Some p \<and> n_ty p \<in> int_elems j),
     (''sza'', int_rel (\<le>) ''cs'' n), (''szb'', int_rel (>) ''cs'' n)]"

definition meets :: "cjson \<Rightarrow> (string \<times> (cjson \<Rightarrow> bool)) \<Rightarrow> bool" where
  "meets fc c \<longleftrightarrow> (case cJSON_GetObjectItem (Some fc) (fst c) of None \<Rightarrow> True | Some j \<Rightarrow> snd c j)"

text \<open>The types the tests rely on: times and labels are strings, the parent exists.\<close>

definition all_strings :: "cjson option \<Rightarrow> bool" where
  "all_strings j \<longleftrightarrow> list_all (\<lambda>e. valuestring e \<noteq> None) (elems j)"

definition lbl_typed :: "rtnode \<Rightarrow> bool" where
  "lbl_typed n \<longleftrightarrow> all_strings (cJSON_GetObjectItem (n_obj n) ''lbl'')"

definition res_typed :: "heap \<Rightarrow> rtnode \<Rightarrow> rtree list \<Rightarrow> bool" where
  "res_typed h n cs \<longleftrightarrow>
     member_string (n_obj n) ''ct'' \<noteq> None \<and> member_string (n_obj n) ''lt'' \<noteq> None \<and>
     (cJSON_GetObjectItem (n_obj n) ''et'' \<noteq> None \<longrightarrow> member_string (n_obj n) ''et'' \<noteq> None) \<and>
     lbl_typed n \<and> (\<forall>t \<in> set cs. \<exists>m. h (root t) = Some m \<and> lbl_typed m) \<and>
     (\<forall>q. n_parent n = Some q \<longrightarrow> (\<exists>p. h q = Some p \<and> lbl_typed p))"

definition fc_typed :: "cjson \<Rightarrow> bool" where
  "fc_typed fc \<longleftrightarrow>
     list_all (\<lambda>k. cJSON_GetObjectItem (Some fc) k \<noteq> None \<longrightarrow> member_string (Some fc) k \<noteq> None)
       [''cra'', ''crb'', ''ms'', ''us'', ''exa'', ''exb''] \<and>
     list_all (\<lambda>k. all_strings (cJSON_GetObjectItem (Some fc) k)) [''lbl'', ''clbl'', ''palb'']"

lemmas fc_tests_defs = fc_tests_def attribute_tests_def relation_tests_def

section \<open>The tests compute the predicates\<close>

lemma label_in_strings:
  "all_strings (Some (JArray fs)) \<Longrightarrow> label_in fs (JString l) = Some (JString l \<in> set fs)"
proof (induction fs)
  case (Cons f fs)
  then obtain v where "f = JString v" by (cases f) (auto simp: all_strings_def)
  with Cons show ?case by (auto simp: all_strings_def)
qed simp

lemma any_label_strings:
  "all_strings (Some (JArray fs)) \<Longrightarrow> all_strings (Some (JArray ls)) \<Longrightarrow>
   any_label fs ls = Some (\<exists>v. JString v \<in> set fs \<and> JString v \<in> set ls)"
proof (induction ls)
  case (Cons l ls)
  then obtain v where v: "l = JString v" by (cases l) (auto simp: all_strings_def)
  from Cons have "any_label fs ls = Some (\<exists>v. JString v \<in> set fs \<and> JString v \<in> set ls)"
    by (simp add: all_strings_def)
  with v Cons.prems show ?case by (auto simp: label_in_strings)
qed simp

lemma FC_isAptLbl_iff:
  assumes "all_strings (Some j)" "lbl_typed n"
  shows "FC_isAptLbl j n = Some (string_elems (Some j) \<inter> labels n \<noteq> {})"
proof -
  have "all_strings (Some (JArray (elems (Some j))))"
    "all_strings (Some (JArray (elems (cJSON_GetObjectItem (n_obj n) ''lbl''))))"
    using assms by (auto simp: all_strings_def lbl_typed_def)
  from any_label_strings [OF this] show ?thesis
    by (auto simp: FC_isAptLbl_def labels_def string_elems_def)
qed

lemma any_child_label_iff:
  assumes "all_strings (Some j)"
  shows "seg h par left p cs None \<Longrightarrow> \<forall>t \<in> set cs. \<exists>m. h (root t) = Some m \<and> lbl_typed m \<Longrightarrow>
    any_child_label h j p = Some (\<exists>t \<in> set cs. \<exists>m. h (root t) = Some m \<and> string_elems (Some j) \<inter> labels m \<noteq> {})"
proof (induction cs arbitrary: left p)
  case Nil
  then show ?case by (simp add: any_child_label.simps)
next
  case (Cons t cs)
  obtain a ds where t: "t = T a ds" by (cases t)
  with Cons.prems obtain m where m: "h a = Some m" "lbl_typed m" "p = Some a"
    "seg h par (Some a) (n_sibling_right m) cs None" by (auto split: option.splits)
  have "any_child_label h j (n_sibling_right m) =
      Some (\<exists>t \<in> set cs. \<exists>m. h (root t) = Some m \<and> string_elems (Some j) \<inter> labels m \<noteq> {})"
    using Cons.IH [OF m(4)] Cons.prems(2) by simp
  with m t show ?case
    by (auto simp: any_child_label.simps [of h j "Some a"] FC_isAptLbl_iff [OF assms])
qed

lemma type_tests:
  "FC_isAptTy (Some j) ty \<longleftrightarrow> ty \<in> int_elems j" "FC_isAptChty (Some j) ty \<longleftrightarrow> ty \<in> int_elems j"
  "FC_isAptPty (Some j) ty \<longleftrightarrow> ty \<in> int_elems j"
  by (auto simp: FC_isAptTy_def FC_isAptChty_def FC_isAptPty_def list_ex_iff int_elems_def)

lemma any_child_type_iff:
  "seg h par left p cs None \<Longrightarrow>
   any_child_type h j p = Some (\<exists>t \<in> set cs. \<exists>m. h (root t) = Some m \<and> n_ty m \<in> int_elems j)"
proof (induction cs arbitrary: left p)
  case Nil
  then show ?case by (simp add: any_child_type.simps)
next
  case (Cons t cs)
  obtain a ds where t: "t = T a ds" by (cases t)
  with Cons.prems obtain m where m: "h a = Some m" "p = Some a"
    "seg h par (Some a) (n_sibling_right m) cs None" by (auto split: option.splits)
  show ?case using m t Cons.IH [OF m(3)]
    by (auto simp: any_child_type.simps [of h j "Some a"] type_tests)
qed

section \<open>Conjunction\<close>

text \<open>A test that either goes on or refuses, as all do under AND.\<close>

definition conj_test :: "bool \<Rightarrow> verdict" where
  "conj_test b = Some (if b then None else Some False)"

lemma first_verdict_conj:
  "first_verdict (map conj_test bs) = conj_test (list_all id bs)"
  by (induction bs) (auto simp: conj_test_def)

lemma when_given_conj:
  assumes "\<And>j. cJSON_GetObjectItem (Some fc) k = Some j \<Longrightarrow> f j = Some (P j)"
  shows "when_given 1 (cJSON_GetObjectItem (Some fc) k) f = conj_test (meets fc (k, P))"
  using assms by (auto simp: when_given_def conj_test_def meets_def fo_step_def split: option.splits)

definition range_ok :: "cjson \<Rightarrow> string \<Rightarrow> string \<Rightarrow> (cjson \<Rightarrow> cjson \<Rightarrow> bool option) \<Rightarrow> bool" where
  "range_ok fc k l reversed \<longleftrightarrow>
     (case (cJSON_GetObjectItem (Some fc) k, cJSON_GetObjectItem (Some fc) l) of
        (Some i, Some j) \<Rightarrow> reversed i j \<noteq> Some True | _ \<Rightarrow> True)"

lemma empty_range_conj:
  assumes "\<And>i j. cJSON_GetObjectItem (Some fc) k = Some i \<Longrightarrow> cJSON_GetObjectItem (Some fc) l = Some j \<Longrightarrow> reversed i j \<noteq> None"
  shows "empty_range 1 (cJSON_GetObjectItem (Some fc) k) (cJSON_GetObjectItem (Some fc) l) reversed = conj_test (range_ok fc k l reversed)"
  using assms by (fastforce simp: empty_range_def conj_test_def range_ok_def split: option.splits)

lemma range_text:
  assumes "\<And>c d. r c \<Longrightarrow> q d \<Longrightarrow> c \<le> 0 \<and> 0 \<le> d \<and> (c < 0 \<or> 0 < d)"
    and "meets fc (k, text_rel r x n)" "meets fc (l, text_rel q x n)"
  shows "range_ok fc k l strings_reversed"
proof -
  have "\<not> strcmp v w \<ge> 0" if "r (strcmp v a)" "q (strcmp w a)" for v w a
  proof
    assume "strcmp v w \<ge> 0"
    with strcmp_neg [of v w] have le: "strcmp w v \<le> 0" by simp
    have c: "strcmp v a \<le> 0" "0 \<le> strcmp w a" "strcmp v a < 0 \<or> 0 < strcmp w a"
      using assms(1) [OF that] by auto
    from strcmp_trans [OF le c(1)] c(2) have "strcmp w a = 0" by simp
    with c(3) le have "strcmp v a < 0" "strcmp a v \<le> 0" by auto
    with strcmp_neg [of v a] show False by simp
  qed
  with assms(2,3) show ?thesis
    by (auto simp: meets_def text_rel_def range_ok_def strings_reversed_def split: option.splits)
qed

lemma range_int:
  "meets fc (k, int_rel (\<le>) x n) \<Longrightarrow> meets fc (l, int_rel (>) x n) \<Longrightarrow> range_ok fc k l ints_reversed"
  by (auto simp: meets_def int_rel_def range_ok_def ints_reversed_def split: option.splits)

lemma text_criterion:
  assumes "fc_typed fc" "k \<in> set [''cra'', ''crb'', ''ms'', ''us'', ''exa'', ''exb'']" "cJSON_GetObjectItem (Some fc) k = Some j"
  shows "\<exists>v. j = JString v"
proof -
  have "member_string (Some fc) k \<noteq> None"
    using assms unfolding fc_typed_def list_all_iff by blast
  with assms(3) show ?thesis by (cases j) (auto simp: member_string_def)
qed

lemma text_tests:
  assumes "res_typed h n cs"
  shows "on_string (\<lambda>v. FC_isAptCra v n) (JString v) = Some (text_rel (\<lambda>c. c \<le> 0) ''ct'' n (JString v))"
    "on_string (\<lambda>v. FC_isAptCrb v n) (JString v) = Some (text_rel (\<lambda>c. 0 < c) ''ct'' n (JString v))"
    "on_string (\<lambda>v. FC_isAptMs v n) (JString v) = Some (text_rel (\<lambda>c. c \<le> 0) ''lt'' n (JString v))"
    "on_string (\<lambda>v. FC_isAptUs v n) (JString v) = Some (text_rel (\<lambda>c. 0 < c) ''lt'' n (JString v))"
    "on_string (\<lambda>v. FC_isAptExa v n) (JString v) = Some (text_rel (\<lambda>c. c < 0) ''et'' n (JString v))"
    "on_string (\<lambda>v. FC_isAptExb v n) (JString v) = Some (text_rel (\<lambda>c. 0 \<le> c) ''et'' n (JString v))"
  using assms
  by (auto simp: on_string_def text_rel_def FC_isAptCra_def FC_isAptCrb_def FC_isAptMs_def FC_isAptUs_def
      FC_isAptExa_def FC_isAptExb_def res_typed_def member_string_def split: option.splits)

lemma int_tests:
  "FC_isAptStb (valueint j) n = int_rel (\<le>) ''st'' n j" "FC_isAptSts (valueint j) n = int_rel (>) ''st'' n j"
  "FC_isAptSza (valueint j) n = int_rel (\<le>) ''cs'' n j" "FC_isAptSzb (valueint j) n = int_rel (>) ''cs'' n j"
  by (auto simp: FC_isAptStb_def FC_isAptSts_def FC_isAptSza_def FC_isAptSzb_def int_rel_def split: option.splits)

lemma palb_test:
  assumes "res_typed h n cs" "all_strings (Some j)"
  shows "FC_isAptPalb h j n =
    Some (\<exists>q p. n_parent n = Some q \<and> h q = Some p \<and> string_elems (Some j) \<inter> labels p \<noteq> {})"
  using assms by (cases "n_parent n") (auto simp: FC_isAptPalb_def res_typed_def FC_isAptLbl_iff)

lemma pty_conj:
  assumes "res_typed h n cs"
  shows "pty_verdict 1 h n (cJSON_GetObjectItem (Some fc) k) =
    conj_test (meets fc (k, \<lambda>j. \<exists>q p. n_parent n = Some q \<and> h q = Some p \<and> n_ty p \<in> int_elems j))"
proof (cases "cJSON_GetObjectItem (Some fc) k")
  case (Some j)
  with assms show ?thesis
    by (cases "n_parent n") (auto simp: pty_verdict_def conj_test_def meets_def fo_step_def deref_def res_typed_def type_tests)
qed (simp add: pty_verdict_def conj_test_def meets_def)

lemma strings_reversed_defined:
  assumes "fc_typed fc" "k \<in> set [''cra'', ''crb'', ''ms'', ''us'', ''exa'', ''exb'']"
    "l \<in> set [''cra'', ''crb'', ''ms'', ''us'', ''exa'', ''exb'']"
    "cJSON_GetObjectItem (Some fc) k = Some i" "cJSON_GetObjectItem (Some fc) l = Some j"
  shows "strings_reversed i j \<noteq> None"
  using text_criterion [OF assms(1,2,4)] text_criterion [OF assms(1,3,5)] by (auto simp: strings_reversed_def)

definition fc_bits :: "heap \<Rightarrow> rtnode \<Rightarrow> rtree list \<Rightarrow> cjson \<Rightarrow> bool list" where
  "fc_bits h n cs fc =
    (let c = (\<lambda>i. meets fc (criteria h n cs ! i)) in
     [range_ok fc ''cra'' ''crb'' strings_reversed, c 0, c 1,
      range_ok fc ''ms'' ''us'' strings_reversed, c 2, c 3,
      range_ok fc ''stb'' ''sts'' ints_reversed, c 4, c 5,
      range_ok fc ''exa'' ''exb'' strings_reversed, c 6, c 7, c 8, c 9, c 10, c 11, c 12, c 13,
      range_ok fc ''sza'' ''szb'' ints_reversed, c 14, c 15])"

lemma fc_tests_conj:
  assumes "seg h (Some a) None (n_child n) cs None" "res_typed h n cs" "fc_typed fc"
  shows "fc_tests h n fc 1 = map conj_test (fc_bits h n cs fc)"
proof -
  have time: "when_given 1 (cJSON_GetObjectItem (Some fc) k) f = conj_test (meets fc (k, P))"
    if "k \<in> set [''cra'', ''crb'', ''ms'', ''us'', ''exa'', ''exb'']" "\<And>v. f (JString v) = Some (P (JString v))" for k f P
    using text_criterion [OF assms(3) that(1)] that(2) by (intro when_given_conj) auto
  have range: "empty_range 1 (cJSON_GetObjectItem (Some fc) k) (cJSON_GetObjectItem (Some fc) l) strings_reversed =
      conj_test (range_ok fc k l strings_reversed)"
    if "k \<in> set [''cra'', ''crb'', ''ms'', ''us'', ''exa'', ''exb'']"
      "l \<in> set [''cra'', ''crb'', ''ms'', ''us'', ''exa'', ''exb'']" for k l
    using strings_reversed_defined [OF assms(3) that] by (intro empty_range_conj)
  have ints: "empty_range 1 (cJSON_GetObjectItem (Some fc) k) (cJSON_GetObjectItem (Some fc) l) ints_reversed =
      conj_test (range_ok fc k l ints_reversed)" for k l
    by (rule empty_range_conj) (simp add: ints_reversed_def)
  have val: "when_given 1 (cJSON_GetObjectItem (Some fc) k) (\<lambda>j. Some (P j)) = conj_test (meets fc (k, P))" for k P
    by (rule when_given_conj) simp
  have strs: "all_strings (Some j)"
    if "k \<in> set [''lbl'', ''clbl'', ''palb'']" "cJSON_GetObjectItem (Some fc) k = Some j" for k j
    using assms(3) that unfolding fc_typed_def list_all_iff by metis
  have lbl: "when_given 1 (cJSON_GetObjectItem (Some fc) ''lbl'') (\<lambda>j. FC_isAptLbl j n) =
      conj_test (meets fc (''lbl'', \<lambda>j. string_elems (Some j) \<inter> labels n \<noteq> {}))"
    using strs assms(2) by (intro when_given_conj FC_isAptLbl_iff) (auto simp: res_typed_def)
  have clbl: "when_given 1 (cJSON_GetObjectItem (Some fc) ''clbl'') (\<lambda>j. FC_isAptClbl h j n) =
      conj_test (meets fc (''clbl'', \<lambda>j. \<exists>t \<in> set cs. \<exists>m. h (root t) = Some m \<and> string_elems (Some j) \<inter> labels m \<noteq> {}))"
    unfolding FC_isAptClbl_def using strs assms(1,2)
    by (intro when_given_conj any_child_label_iff [where left = None and par = "Some a"]) (auto simp: res_typed_def)
  have palb: "when_given 1 (cJSON_GetObjectItem (Some fc) ''palb'') (\<lambda>j. FC_isAptPalb h j n) =
      conj_test (meets fc (''palb'', \<lambda>j. \<exists>q p. n_parent n = Some q \<and> h q = Some p \<and> string_elems (Some j) \<inter> labels p \<noteq> {}))"
    using strs by (intro when_given_conj palb_test [OF assms(2)]) auto
  show ?thesis
    unfolding fc_tests_defs Let_def any_child_type_iff [OF assms(1)]
    by (simp add: fc_bits_def criteria_def time range ints val lbl clbl palb text_tests [OF assms(2)] int_tests type_tests
        pty_conj [OF assms(2)])
qed

lemma fc_bits_all: "list_all id (fc_bits h n cs fc) \<longleftrightarrow> list_all (meets fc) (criteria h n cs)"
proof -
  have "range_ok fc ''cra'' ''crb'' strings_reversed"
    if "meets fc (''cra'', text_rel (\<lambda>c. c \<le> 0) ''ct'' n)" "meets fc (''crb'', text_rel (\<lambda>c. 0 < c) ''ct'' n)"
    by (rule range_text [OF _ that]) auto
  moreover have "range_ok fc ''ms'' ''us'' strings_reversed"
    if "meets fc (''ms'', text_rel (\<lambda>c. c \<le> 0) ''lt'' n)" "meets fc (''us'', text_rel (\<lambda>c. 0 < c) ''lt'' n)"
    by (rule range_text [OF _ that]) auto
  moreover have "range_ok fc ''exa'' ''exb'' strings_reversed"
    if "meets fc (''exa'', text_rel (\<lambda>c. c < 0) ''et'' n)" "meets fc (''exb'', text_rel (\<lambda>c. 0 \<le> c) ''et'' n)"
    by (rule range_text [OF _ that]) auto
  moreover note range_int [of fc "''stb''" "''st''" n "''sts''"] range_int [of fc "''sza''" "''cs''" n "''szb''"]
  ultimately show ?thesis
    unfolding fc_bits_def criteria_def Let_def by simp blast
qed

text \<open>
  C33. Filtering under AND: a resource of a well-formed tree passes the criteria if and only if
  it meets every criterion that is given (creation, modification and expiry times, state
  tag, labels of the resource, its parent and its children, types of the three, size), and
  grants the operations of \<^verbatim>\<open>ops\<close> to the originator. In particular the tests for an empty
  range never refuse a resource that meets both bounds.
\<close>

theorem isResourceAptFC_and:
  assumes "heap s a = Some n" "seg (heap s) (Some a) None (n_child n) cs None" "res_typed (heap s) n cs"
    and "fc_typed fc" "member_int (Some fc) ''fo'' = Some FO_AND"
  shows "isResourceAptFC E s o2pt (Some a) (Some fc) =
    (if list_all (meets fc) (criteria (heap s) n cs)
     then case cJSON_GetObjectItem (Some fc) ''ops'' of
            None \<Rightarrow> Some (True, o2pt, s)
          | Some j \<Rightarrow> map_option (\<lambda>(rc, o2pt', s'). (rc \<noteq> - 1, o2pt', s')) (check_privilege E s o2pt (Some a) (valueint j))
     else Some (False, o2pt, s))"
proof -
  have "first_verdict (fc_tests (heap s) n fc 1) = conj_test (list_all (meets fc) (criteria (heap s) n cs))"
    unfolding fc_tests_conj [OF assms(2-4)] first_verdict_conj fc_bits_all ..
  moreover have "(case fo_step 1 b of None \<Rightarrow> True | Some r \<Rightarrow> r) = b" for b
    by (simp add: fo_step_def)
  ultimately show ?thesis
    using assms(1,5)
    by (cases "cJSON_GetObjectItem (Some fc) ''ops''";
        cases "check_privilege E s o2pt (Some a) (valueint (the (cJSON_GetObjectItem (Some fc) ''ops'')))")
      (auto simp: isResourceAptFC_def conj_test_def FC_isAptOps_def)
qed

text \<open>A container with a child of type CIN, and criteria on its type, its children and its creation time.\<close>

definition ex_fc_heap :: heap where
  "ex_fc_heap =
     [0 \<mapsto> (mk_node RT_CNT ''cnt1'' ''3-1'' (Some ''TinyIoT/cnt1'') None (Some 1) None None)\<lparr>n_obj :=
        Some (JObject [(''ct'', JString ''20250101T000000,000''), (''lt'', JString ''20250101T000000,000''), (''st'', JNumber 4)])\<rparr>,
      1 \<mapsto> mk_node RT_CIN ''cin1'' ''4-1'' (Some ''TinyIoT/cnt1/cin1'') (Some 0) None None None]"

definition ex_fc_cse :: "rtnode list cse" where
  "ex_fc_cse = \<lparr>heap = ex_fc_heap, brk = 2, cb = Some 0, registrar_csr = None, csr_list = [], ri_count = 0, md = md_init, db = []\<rparr>"

definition ex_fc :: "int \<Rightarrow> int \<Rightarrow> cjson" where
  "ex_fc fo ty =
     JObject [(''ty'', JArray [JNumber ty]), (''chty'', JArray [JNumber RT_CIN]),
       (''crb'', JString ''20260101T000000''), (''fo'', JNumber fo)]"

lemmas ex_fc_eval = ex_fc_cse_def ex_fc_heap_def ex_fc_def mk_node_def ex_eval INT_MAX_def INT_MIN_def

theorem isResourceAptFC_and_witness:
  "isResourceAptFC list_env ex_fc_cse (ex_request ''CAE1'') (Some 0) (Some (ex_fc FO_AND RT_CNT)) =
     Some (True, ex_request ''CAE1'', ex_fc_cse)"
proof -
  let ?n = "the (ex_fc_heap 0)"
  have "isResourceAptFC list_env ex_fc_cse (ex_request ''CAE1'') (Some 0) (Some (ex_fc FO_AND RT_CNT)) =
      (if list_all (meets (ex_fc FO_AND RT_CNT)) (criteria (heap ex_fc_cse) ?n [T 1 []])
       then case cJSON_GetObjectItem (Some (ex_fc FO_AND RT_CNT)) ''ops'' of
              None \<Rightarrow> Some (True, ex_request ''CAE1'', ex_fc_cse)
            | Some j \<Rightarrow> map_option (\<lambda>(rc, o2pt', s'). (rc \<noteq> - 1, o2pt', s'))
                (check_privilege list_env ex_fc_cse (ex_request ''CAE1'') (Some 0) (valueint j))
       else Some (False, ex_request ''CAE1'', ex_fc_cse))"
    by (rule isResourceAptFC_and)
      (simp_all add: ex_fc_eval res_typed_def fc_typed_def lbl_typed_def all_strings_def)
  moreover have "list_all (meets (ex_fc FO_AND RT_CNT)) (criteria (heap ex_fc_cse) ?n [T 1 []])"
    by (simp add: ex_fc_eval criteria_def meets_def text_rel_def int_elems_def)
  ultimately show ?thesis by (simp add: ex_fc_def ex_eval)
qed

section \<open>Other operations\<close>

lemma first_verdict_positive:
  "first_verdict vs = Some (Some b) \<Longrightarrow> \<forall>v \<in> set vs. v \<noteq> Some (Some False) \<Longrightarrow> b"
  by (induction vs) (auto split: option.splits)

text \<open>
  Filtering under OR and XOR: whenever the operation is not AND and the test is defined at
  all, every resource passes, also one that meets none of the criteria.
\<close>

theorem isResourceAptFC_not_and:
  assumes "member_int (Some fc) ''fo'' = Some fo" "fo \<noteq> FO_AND"
    and "isResourceAptFC E s o2pt (Some a) (Some fc) = Some (b, o2pt', s')"
  shows "b"
proof -
  have step: "fo_step fo c \<noteq> Some False" for c using assms(2) by (simp add: fo_step_def)
  have "when_given fo j f \<noteq> Some (Some False)" "empty_range fo j j' r \<noteq> Some (Some False)"
    "pty_verdict fo h n j \<noteq> Some (Some False)" for j f j' r h n
    using assms(2) step
    by (auto simp: when_given_def empty_range_def pty_verdict_def split: option.splits prod.splits)
  then have "\<forall>v \<in> set (fc_tests h n fc fo). v \<noteq> Some (Some False)" for h n
    unfolding fc_tests_defs Let_def by simp
  moreover have "(case fo_step fo c of None \<Rightarrow> True | Some r \<Rightarrow> r)" for c
    using step [of c] by (auto split: option.split)
  moreover from assms(3) obtain n v where v: "heap s a = Some n" "first_verdict (fc_tests (heap s) n fc fo) = Some v"
    "(case v of Some r \<Rightarrow> Some (r, o2pt, s)
      | None \<Rightarrow> (case cJSON_GetObjectItem (Some fc) ''ops'' of
           None \<Rightarrow> Some (True, o2pt, s)
         | Some j \<Rightarrow> do { (c, o2pt, s) \<leftarrow> FC_isAptOps E s o2pt (valueint j) a;
             Some (case fo_step fo c of Some r \<Rightarrow> r | None \<Rightarrow> True, o2pt, s) })) = Some (b, o2pt', s')"
    unfolding isResourceAptFC_def assms(1) bind_eq_Some by clarsimp
  ultimately show ?thesis
  proof (cases v)
    case None
    with v(3) show ?thesis
      using \<open>\<And>c. case fo_step fo c of None \<Rightarrow> True | Some r \<Rightarrow> r\<close>
      by (cases "cJSON_GetObjectItem (Some fc) ''ops''") auto
  qed (use v first_verdict_positive [of "fc_tests (heap s) n fc fo"] in auto)
qed

theorem isResourceAptFC_not_and_witness:
  "\<exists>o2pt' s'. isResourceAptFC list_env ex_fc_cse (ex_request ''CAE1'') (Some 0)
     (Some (JObject [(''ty'', JArray [JNumber RT_AE]), (''fo'', JNumber FO_OR)])) = Some (True, o2pt', s')"
proof -
  let ?fc = "JObject [(''ty'', JArray [JNumber RT_AE]), (''fo'', JNumber FO_OR)]"
  have "isResourceAptFC list_env ex_fc_cse (ex_request ''CAE1'') (Some 0) (Some ?fc) \<noteq> None"
    by (simp add: isResourceAptFC_def fc_tests_defs Let_def when_given_def empty_range_def pty_verdict_def fo_step_def
        FC_isAptTy_def ex_fc_eval)
  then obtain b o2pt' s' where r: "isResourceAptFC list_env ex_fc_cse (ex_request ''CAE1'') (Some 0) (Some ?fc) = Some (b, o2pt', s')"
    by auto
  have "b" by (rule isResourceAptFC_not_and [OF _ _ r, of FO_OR]) (simp_all add: ex_eval INT_MAX_def INT_MIN_def)
  with r show ?thesis by auto
qed

section \<open>Query strings\<close>

fun conv_number :: "cjson \<Rightarrow> cjson option" where
  "conv_number (JString s) = map_option JNumber (parse_long s)"
| "conv_number j = Some j"

text \<open>\<open>j'\<close> is the converted value of a tag of the type whose value in the query string is \<open>j\<close>.\<close>

fun converted :: "fc_value_type \<Rightarrow> cjson \<Rightarrow> cjson \<Rightarrow> bool" where
  "converted FC_TYPE_INT_ARRAY (JArray es) j' \<longleftrightarrow>
     (\<exists>es'. j' = JArray es' \<and> list_all2 (\<lambda>e e'. conv_number e = Some e') es es')"
| "converted FC_TYPE_STRING_ARRAY (JString s) j' \<longleftrightarrow> j' = JArray [JString s]"
| "converted type j j' \<longleftrightarrow>
     (if type \<in> {FC_TYPE_NON_NEG_INT, FC_TYPE_POS_INT, FC_TYPE_ENUM, FC_TYPE_INT_ARRAY}
      then conv_number j = Some j' else j' = j)"

definition qs_tags :: "(string \<times> fc_value_type) list" where
  "qs_tags = FC_TAG_TABLE @ [(''rcn'', FC_TYPE_ENUM), (''drt'', FC_TYPE_ENUM)]"

text \<open>The value of a tag after the conversion; a missing \<^verbatim>\<open>fo\<close> becomes AND.\<close>

definition tag_result :: "string \<Rightarrow> fc_value_type \<Rightarrow> cjson option \<Rightarrow> cjson option \<Rightarrow> bool" where
  "tag_result k type v v' \<longleftrightarrow>
     (case v of
        None \<Rightarrow> v' = (if k = ''fo'' then Some (JNumber FO_AND) else None)
      | Some j \<Rightarrow> \<exists>j'. v' = Some j' \<and> converted type j j')"

definition convertible :: "string \<Rightarrow> fc_value_type \<Rightarrow> cjson option \<Rightarrow> bool" where
  "convertible k type v \<longleftrightarrow> (\<exists>v'. tag_result k type v v')"

lemma convert_elems_iff:
  "(case convert_elems es of (ok, es') \<Rightarrow>
     (if ok then list_all2 (\<lambda>e e'. conv_number e = Some e') es es'
      else \<not> (\<exists>es'. list_all2 (\<lambda>e e'. conv_number e = Some e') es es')))"
  by (induction es rule: convert_elems.induct) (auto simp: list_all2_Cons1 split: prod.splits option.splits if_splits)

lemma put_value_get:
  "cJSON_GetObjectItem (Some j) k \<noteq> None \<Longrightarrow>
   cJSON_GetObjectItem (Some (put_value j k v)) k' = (if ci_eq k k' then Some v else cJSON_GetObjectItem (Some j) k')"
proof (cases j)
  case (JObject kvs)
  have "find_member kvs k \<noteq> None \<Longrightarrow>
      find_member (put_member kvs k v) k' = (if ci_eq k k' then Some v else find_member kvs k')"
    by (induction kvs) (auto simp: ci_eq_def)
  then show "cJSON_GetObjectItem (Some j) k \<noteq> None \<Longrightarrow> ?thesis" using JObject by simp
qed simp_all

lemma replace_get:
  "cJSON_GetObjectItem (Some j) k \<noteq> None \<Longrightarrow>
   cJSON_GetObjectItem (Some (cJSON_ReplaceItemInObject j k v)) k' =
     (if ci_eq k k' then Some v else cJSON_GetObjectItem (Some j) k')"
  by (cases j) (auto simp: find_repl_member)

lemma add_get:
  "cJSON_GetObjectItem (Some (JObject kvs)) k = None \<Longrightarrow>
   cJSON_GetObjectItem (Some (cJSON_AddItemToObject (JObject kvs) k v)) k' =
     (if ci_eq k k' then Some v else cJSON_GetObjectItem (Some (JObject kvs)) k')"
  using find_member_cong [of k k' kvs] by (auto simp: find_member_append ci_eq_sym split: option.splits)

text \<open>One step of the conversion, as an update of the map from names to values.\<close>

definition updates_to :: "cjson \<Rightarrow> string \<Rightarrow> cjson option \<Rightarrow> cjson \<Rightarrow> bool" where
  "updates_to qs k v qs' \<longleftrightarrow> (\<exists>kvs. qs' = JObject kvs) \<and>
     (\<forall>k'. cJSON_GetObjectItem (Some qs') k' = (if ci_eq k k' then v else cJSON_GetObjectItem (Some qs) k'))"

lemma updates_to_same:
  assumes "qs = JObject kvs"
  shows "updates_to qs k (cJSON_GetObjectItem (Some qs) k) qs"
  using assms find_member_cong [of k] by (auto simp: updates_to_def)

lemma updates_to_replace:
  "qs = JObject kvs \<Longrightarrow> cJSON_GetObjectItem (Some qs) k \<noteq> None \<Longrightarrow>
   updates_to qs k (Some v) (cJSON_ReplaceItemInObject qs k v)"
  using replace_get [of qs k v] by (auto simp: updates_to_def)

lemma updates_to_put:
  "qs = JObject kvs \<Longrightarrow> cJSON_GetObjectItem (Some qs) k \<noteq> None \<Longrightarrow> updates_to qs k (Some v) (put_value qs k v)"
  using put_value_get [of qs k v] by (auto simp: updates_to_def)

lemma updates_to_add:
  "qs = JObject kvs \<Longrightarrow> cJSON_GetObjectItem (Some qs) k = None \<Longrightarrow>
   updates_to qs k (Some v) (cJSON_AddItemToObject qs k v)"
  using add_get [of kvs k v] by (auto simp: updates_to_def)

lemma convert_number_tag:
  assumes "qs = JObject kvs" "cJSON_GetObjectItem (Some qs) k = Some j" "convert_number qs k = (ok, qs')"
  shows "if ok then \<exists>j'. conv_number j = Some j' \<and> updates_to qs k (Some j') qs' else conv_number j = None"
proof (cases j)
  case (JString s)
  with assms show ?thesis
    using updates_to_replace [OF assms(1), of k] by (cases "parse_long s") (auto simp: convert_number_def)
qed (use assms updates_to_same [OF assms(1), of k] in \<open>auto simp: convert_number_def\<close>)

lemma convert_tag_result:
  assumes "qs = JObject kvs" "convert_tag qs k type = (ok, qs')"
  shows "if ok then \<exists>v. tag_result k type (cJSON_GetObjectItem (Some qs) k) v \<and> updates_to qs k v qs'
    else \<not> convertible k type (cJSON_GetObjectItem (Some qs) k)"
proof (cases "cJSON_GetObjectItem (Some qs) k")
  case None
  with assms show ?thesis
    using updates_to_add [OF assms(1) None] updates_to_same [OF assms(1), of k]
    by (auto simp: convert_tag_def tag_result_def)
next
  case (Some j)
  note same = updates_to_same [OF assms(1), of k, unfolded Some]
  consider "type \<in> {FC_TYPE_NON_NEG_INT, FC_TYPE_POS_INT, FC_TYPE_ENUM}" | es where "type = FC_TYPE_INT_ARRAY" "j = JArray es"
    | "type = FC_TYPE_INT_ARRAY" "\<nexists>es. j = JArray es" | s where "type = FC_TYPE_STRING_ARRAY" "j = JString s"
    | "type = FC_TYPE_STRING_ARRAY" "\<nexists>s. j = JString s" | "type \<in> {FC_TYPE_TIMESTAMP, FC_TYPE_STRING, FC_TYPE_BOOLEAN}"
    by (cases type) auto
  then show ?thesis
  proof cases
    case 1
    with assms Some have "convert_number qs k = (ok, qs')" by (simp add: convert_tag_def)
    from convert_number_tag [OF assms(1) Some this] 1 Some show ?thesis
      by (auto simp: tag_result_def convertible_def split: if_splits)
  next
    case 2
    with assms Some obtain es' where c: "convert_elems es = (ok, es')" "qs' = put_value qs k (JArray es')"
      by (auto simp: convert_tag_def split: prod.splits)
    with 2 Some convert_elems_iff [of es] show ?thesis
      using updates_to_put [OF assms(1), of k "JArray es'"]
      by (cases ok) (auto simp: tag_result_def convertible_def intro!: exI [of _ "Some (JArray es')"])
  next
    case 3
    then have "converted type j j' \<longleftrightarrow> conv_number j = Some j'" for j' by (cases j) auto
    moreover have "convert_number qs k = (ok, qs')" using 3 assms Some by (cases j) (auto simp: convert_tag_def)
    ultimately show ?thesis
      using convert_number_tag [OF assms(1) Some, of ok qs'] Some by (auto simp: tag_result_def convertible_def)
  next
    case 4
    with assms Some show ?thesis
      using updates_to_replace [OF assms(1), of k "JArray [JString s]"] by (auto simp: convert_tag_def tag_result_def)
  next
    case 5
    then have "converted type j j" by (cases j) auto
    with 5 assms Some same show ?thesis by (cases j) (auto simp: convert_tag_def tag_result_def)
  next
    case 6
    with assms Some same show ?thesis by (auto simp: convert_tag_def tag_result_def)
  qed
qed

lemma convert_tags_result:
  "qs = JObject kvs \<Longrightarrow> convert_tags tab qs = (ok, qs') \<Longrightarrow> distinct (map (\<lambda>p. map tolower (fst p)) tab) \<Longrightarrow>
   (if ok then (\<forall>(k, type) \<in> set tab. tag_result k type (cJSON_GetObjectItem (Some qs) k) (cJSON_GetObjectItem (Some qs') k)) \<and>
      (\<forall>k'. (\<forall>(k, _) \<in> set tab. \<not> ci_eq k k') \<longrightarrow> cJSON_GetObjectItem (Some qs') k' = cJSON_GetObjectItem (Some qs) k')
    else \<exists>(k, type) \<in> set tab. \<not> convertible k type (cJSON_GetObjectItem (Some qs) k))"
proof (induction tab arbitrary: qs kvs)
  case Nil
  then show ?case by simp
next
  case (Cons p tab)
  obtain k type where p: "p = (k, type)" by (cases p)
  obtain ok1 qs1 where c: "convert_tag qs k type = (ok1, qs1)" by fastforce
  have apart: "\<not> ci_eq k k'" if "(k', t) \<in> set tab" for k' t
    using Cons.prems(3) that p by (force simp: ci_eq_def)
  show ?case
  proof (cases ok1)
    case False
    with convert_tag_result [OF Cons.prems(1) c] Cons.prems(2) p c show ?thesis by auto
  next
    case True
    with convert_tag_result [OF Cons.prems(1) c] obtain v where
      v: "tag_result k type (cJSON_GetObjectItem (Some qs) k) v" "updates_to qs k v qs1" by auto
    from v(2) obtain kvs1 where o: "qs1 = JObject kvs1"
      and get1: "\<And>k'. cJSON_GetObjectItem (Some qs1) k' = (if ci_eq k k' then v else cJSON_GetObjectItem (Some qs) k')"
      by (auto simp: updates_to_def)
    have r: "convert_tags tab qs1 = (ok, qs')" using Cons.prems(2) p c True by simp
    note IH = Cons.IH [OF o r] and same = apart [unfolded ci_eq_sym [of k]]
    show ?thesis
    proof (cases ok)
      case True
      with IH Cons.prems(3) have
        all: "\<forall>(k, type) \<in> set tab. tag_result k type (cJSON_GetObjectItem (Some qs1) k) (cJSON_GetObjectItem (Some qs') k)"
        and rest: "\<And>k'. (\<forall>(k, _) \<in> set tab. \<not> ci_eq k k') \<Longrightarrow> cJSON_GetObjectItem (Some qs') k' = cJSON_GetObjectItem (Some qs1) k'"
        by auto
      have "cJSON_GetObjectItem (Some qs') k = v" using rest [of k] same get1 [of k] by auto
      with v(1) all rest get1 apart p True show ?thesis by fastforce
    next
      case False
      with IH Cons.prems(3) obtain k' t where "(k', t) \<in> set tab" "\<not> convertible k' t (cJSON_GetObjectItem (Some qs1) k')"
        by auto
      with get1 apart False p show ?thesis by fastforce
    qed
  qed
qed

lemma convert_tags_append:
  "convert_tags (xs @ ys) qs = (let (ok, qs) = convert_tags xs qs in if ok then convert_tags ys qs else (False, qs))"
  by (induction xs arbitrary: qs) (auto split: prod.splits)

lemma parse_qs_tags: "parse_qs qs = convert_tags qs_tags qs"
proof -
  have "convert_number qs k = convert_tag qs k FC_TYPE_ENUM" if "k \<noteq> ''fo''" for qs k
    using that by (auto simp: convert_tag_def convert_number_def split: option.split)
  then show ?thesis
    unfolding parse_qs_def qs_tags_def convert_tags_append
    by (auto simp: Let_def case_prod_beta prod_eq_iff)
qed

text \<open>
  Conversion of a query string: \<^verbatim>\<open>parse_qs\<close> succeeds exactly when every tag that is given
  has a value of its type. On success every tag has its converted value (a decimal string
  becomes the number it denotes, a single label becomes a list of one), a missing filter
  operation becomes AND, and members that are no tags keep their values.
\<close>

theorem parse_qs_converts:
  "(fst (parse_qs (JObject kvs)) \<longleftrightarrow>
      (\<forall>(k, type) \<in> set qs_tags. convertible k type (find_member kvs k))) \<and>
   (fst (parse_qs (JObject kvs)) \<longrightarrow>
      (\<forall>(k, type) \<in> set qs_tags. tag_result k type (find_member kvs k)
         (cJSON_GetObjectItem (Some (snd (parse_qs (JObject kvs)))) k)) \<and>
      (\<forall>k'. (\<forall>(k, _) \<in> set qs_tags. \<not> ci_eq k k') \<longrightarrow>
         cJSON_GetObjectItem (Some (snd (parse_qs (JObject kvs)))) k' = find_member kvs k'))"
proof -
  have d: "distinct (map (\<lambda>p. map tolower (fst p)) qs_tags)" by code_simp
  obtain ok qs' where r: "parse_qs (JObject kvs) = (ok, qs')" by fastforce
  show ?thesis
    using convert_tags_result [OF refl r [unfolded parse_qs_tags] d] r
    by (cases ok) (fastforce simp: convertible_def)+
qed

theorem parse_qs_converts_witness:
  "cJSON_GetObjectItem (Some (snd (parse_qs (JObject [(''lbl'', JString ''a''), (''x'', JNull), (''lim'', JString ''10'')])))) ''lim'' =
     Some (JNumber 10)"
proof -
  let ?kvs = "[(''lbl'', JString ''a''), (''x'', JNull), (''lim'', JString ''10'')]"
  have ok: "fst (parse_qs (JObject ?kvs))" "parse_long ''10'' = Some 10" by code_simp+
  have "(''lim'', FC_TYPE_NON_NEG_INT) \<in> set qs_tags" by (simp add: qs_tags_def FC_TAG_TABLE_def)
  with parse_qs_converts [of ?kvs] ok(1)
  have "tag_result ''lim'' FC_TYPE_NON_NEG_INT (find_member ?kvs ''lim'')
      (cJSON_GetObjectItem (Some (snd (parse_qs (JObject ?kvs)))) ''lim'')" by blast
  then show ?thesis by (simp add: tag_result_def ok(2) ci_eq_def tolower_def)
qed

section \<open>Timestamps\<close>

lemma scan_digits_prefix:
  assumes "\<And>c. c \<in> set ds \<Longrightarrow> is_digit c" "ds \<noteq> []"
  shows "scan_digits (length ds) (ds @ s) = Some s"
proof -
  have "takeWhile is_digit ds = ds" using assms(1) by simp
  moreover obtain c cs where "ds = c # cs" using assms(2) by (cases ds) auto
  ultimately show ?thesis by (simp add: scan_digits_def)
qed

lemma scan_d_fixdec [simp]: "scan_d (Suc w) (fixdec (Suc w) n @ s) = Some s"
proof -
  have "fixdec (Suc w) n \<noteq> []" by simp
  then obtain c cs where c: "fixdec (Suc w) n = c # cs" by (meson neq_Nil_conv)
  then have "is_digit c" using fixdec_digits [of c "Suc w" n] by simp
  then have "\<not> isspace c" "c \<noteq> CHR ''-''" "c \<noteq> CHR ''+''" by (auto simp: is_digit_def isspace_def)
  then have "scan_d (Suc w) (fixdec (Suc w) n @ s) = scan_digits (Suc w) (fixdec (Suc w) n @ s)"
    unfolding c by (simp add: scan_d_def)
  also have "\<dots> = Some s"
    using scan_digits_prefix [of "fixdec (Suc w) n" s] fixdec_digits [of _ "Suc w" n] by (metis length_fixdec \<open>fixdec (Suc w) n \<noteq> []\<close>)
  finally show ?thesis .
qed

lemma scan_d_widths: "scan_d 4 (fixdec 4 n @ s) = Some s" "scan_d 2 (fixdec 2 n @ s) = Some s"
proof -
  have "4 = Suc 3" "2 = Suc 1" by simp_all
  then show "scan_d 4 (fixdec 4 n @ s) = Some s" "scan_d 2 (fixdec 2 n @ s) = Some s"
    by (simp_all only: scan_d_fixdec)
qed

lemma format_time_fields:
  "valid_tm t \<Longrightarrow> format_time t =
     fixdec 4 (tm_year t + 1900) @ fixdec 2 (tm_mon t + 1) @ fixdec 2 (tm_mday t) @ CHR ''T'' #
     fixdec 2 (tm_hour t) @ fixdec 2 (tm_min t) @ fixdec 2 (tm_sec t) @ CHR '','' # fixdec 3 (tm_ms t)"
  unfolding format_time_def valid_tm_def by (elim conjE, simp only: dec_year) (simp add: pad0_fixdec)

text \<open>
  The timestamps this CSE writes are accepted as filter criteria: every time formatted by
  \<^verbatim>\<open>get_local_time\<close> is a valid value of a time criterion.
\<close>

theorem local_time_valid_criterion:
  assumes "valid_tm t" "k \<in> set [''crb'', ''cra'', ''ms'', ''us'', ''exb'', ''exa'']"
  shows "item_valid k (JString (format_time t)) = Some True"
proof -
  let ?rest = "CHR '','' # fixdec 3 (tm_ms t)"
  have "scan_timestamp (format_time t) = Some ?rest"
    unfolding format_time_fields [OF assms(1)] scan_timestamp_def
    by (simp only: scan_d_widths scan_char_def Option.bind.bind_lunit list.case if_True simp_thms)
  moreover have "length (takeWhile is_digit (fixdec 3 (tm_ms t))) \<le> 6"
    using length_takeWhile_le [of is_digit "fixdec 3 (tm_ms t)"] by simp
  ultimately have "timestamp_valid (format_time t)"
    by (simp add: timestamp_valid_def length_format_time [OF assms(1)])
  with assms(2) show ?thesis
    by (auto simp: item_valid_def FC_TAG_TABLE_def tag_value_valid_def)
qed

theorem local_time_valid_criterion_witness:
  "item_valid ''cra'' (JString (format_time
     \<lparr>tm_year = 125, tm_mon = 0, tm_mday = 31, tm_hour = 23, tm_min = 59, tm_sec = 60, tm_ms = 7\<rparr>)) = Some True"
  by (rule local_time_valid_criterion) (simp_all add: valid_tm_def)

text \<open>
  The names of the two integer types of the table are swapped with respect to their tests:
  a size of at least 0 is refused and a size below 0 is not.
\<close>

lemma int_criteria_swapped:
  "item_valid ''sza'' (JNumber 0) = Some False" "item_valid ''szb'' (JNumber 0) = Some True"
  by (simp_all add: item_valid_def FC_TAG_TABLE_def tag_value_valid_def)

end
