(* ===== verification/Announce.thy ===== *)
theory Announce
  imports FilterProps
begin

text \<open>
  Resource announcement (\<^verbatim>\<open>util.c\<close>, tables of \<^verbatim>\<open>main.c\<close>): which attributes of a resource are
  copied to its announced copies on other CSEs, and which update is sent to the copies
  when the resource changes. Sending is left to the transport: \<open>announce_to_annc\<close> returns the
  requests that the code hands to \<^verbatim>\<open>forwarding_onem2m_resource\<close>, whose answers it ignores.

  The theory shows that the attributes of a copy are those the specification of the tables
  ks, and that the update keeps a copy in step with the original.
\<close>

section \<open>Attribute tables\<close>

definition ANNC_ATTR_TABLE :: "(int \<times> string list \<times> string list) list" where
  "ANNC_ATTR_TABLE =
    [(RT_AE, [''et'', ''acpi'', ''lbl'', ''ast'', ''srv''],
       [''daci'', ''loc'', ''apn'', ''api'', ''aei'', ''poa'', ''or'', ''nl'', ''rr'', ''csz'', ''regs'', ''trps'', ''scp'']),
     (RT_CNT, [''et'', ''acpi'', ''lbl'', ''ast''],
       [''daci'', ''loc'', ''mni'', ''mbs'', ''mia'', ''li'', ''or'', ''disr'']),
     (RT_CIN, [''lbl'', ''ast''], [''loc'', ''cnf'', ''conr'', ''or'', ''con'']),
     (RT_GRP, [''et'', ''acpi'', ''lbl'', ''ast''],
       [''daci'', ''spty'', ''cnm'', ''mnm'', ''mid'', ''macp'', ''mtv'', ''csy'', ''gn'', ''ssi'', ''nar'', ''scen'',
        ''scal'', ''mt'']),
     (RT_ACP, [''et'', ''lbl'', ''ast'', ''pv'', ''pvs'', ''adri'', ''apri'', ''airi''], []),
     (RT_TS, [''et'', ''acpi'', ''lbl'', ''ast''],
       [''daci'', ''loc'', ''mni'', ''mbs'', ''mia'', ''pei'', ''peid'', ''mdn'', ''mdt'', ''or'', ''cnf'']),
     (RT_FCNT, [''et'', ''acpi'', ''lbl'', ''ast'', ''cnd''],
       [''daci'', ''loc'', ''or'', ''nl'', ''mni'', ''mia'', ''mbs'', ''cni'', ''cbs'']),
     (RT_CSE, [''acpi'', ''lbl'', ''srv''], [])]"

definition annc_ma_fields :: "int \<Rightarrow> string list option" where
  "annc_ma_fields ty = map_option fst (map_of ANNC_ATTR_TABLE ty)"

definition annc_oa_fields :: "int \<Rightarrow> string list option" where
  "annc_oa_fields ty = map_option snd (map_of ANNC_ATTR_TABLE ty)"

definition str_in :: "string list option \<Rightarrow> string \<Rightarrow> bool" where
  "str_in l n = (case l of None \<Rightarrow> False | Some xs \<Rightarrow> list_ex (\<lambda>x. x = n) xs)"

definition annc_attr_is_ma :: "int \<Rightarrow> string \<Rightarrow> bool" where
  "annc_attr_is_ma ty n = str_in (annc_ma_fields ty) n"

definition annc_attr_is_oa :: "int \<Rightarrow> string \<Rightarrow> bool" where
  "annc_attr_is_oa ty n = str_in (annc_oa_fields ty) n"

section \<open>The announced copy\<close>

definition annc_copy :: "cjson \<Rightarrow> cjson \<Rightarrow> string \<Rightarrow> cjson" where
  "annc_copy dst src name =
     (if cJSON_GetObjectItem (Some dst) name = None
      then (case cJSON_GetObjectItem (Some src) name of
              Some v \<Rightarrow> cJSON_AddItemToObject dst name v
            | None \<Rightarrow> dst)
      else dst)"

definition copy_oa :: "int \<Rightarrow> cjson \<Rightarrow> cjson \<Rightarrow> cjson \<Rightarrow> cjson" where
  "copy_oa ty src a dst =
     (case a of
        JString v \<Rightarrow> if annc_attr_is_oa ty v then annc_copy dst src v else dst
      | _ \<Rightarrow> dst)"

definition build_annc_attrs :: "cjson \<Rightarrow> cjson \<Rightarrow> int \<Rightarrow> cjson" where
  "build_annc_attrs dst src ty =
     (let dst = foldl (\<lambda>d name. annc_copy d src name) dst
                  (case annc_ma_fields ty of None \<Rightarrow> [] | Some ma \<Rightarrow> ma)
      in foldl (\<lambda>d a. copy_oa ty src a d) dst (elems (cJSON_GetObjectItem (Some src) ''aa'')))"

text \<open>\<^verbatim>\<open>validate_aa\<close> keeps the entries of \<^verbatim>\<open>aa\<close> that may be announced.\<close>

definition kept_aa :: "int \<Rightarrow> cjson list \<Rightarrow> cjson list" where
  "kept_aa ty es = filter (\<lambda>e. case e of JString v \<Rightarrow> annc_attr_is_oa ty v | _ \<Rightarrow> False) es"

definition validate_aa :: "oneM2MPrimitive \<Rightarrow> cjson \<Rightarrow> int \<Rightarrow> cjson" where
  "validate_aa o2pt resource ty =
     (case cJSON_GetObjectItem (Some resource) ''aa'' of
        None \<Rightarrow> resource
      | Some aa \<Rightarrow>
          if aa = JNull then resource
          else let kept = kept_aa ty (elems (Some aa)) in
               if kept \<noteq> [] then cJSON_ReplaceItemInObject resource ''aa'' (JArray kept)
               else if p_op o2pt = OP_UPDATE then cJSON_ReplaceItemInObject resource ''aa'' JNull
               else cJSON_DeleteItemFromObject resource ''aa'')"

section \<open>Updates of the copies\<close>

definition push_ma :: "int \<Rightarrow> cjson \<Rightarrow> string option \<times> cjson \<Rightarrow> cjson \<Rightarrow> cjson" where
  "push_ma ty src it resource =
     (case fst it of
        None \<Rightarrow> resource
      | Some key \<Rightarrow>
          if \<not> annc_attr_is_ma ty key then resource
          else (case cJSON_GetObjectItem (Some src) key of
                  Some v \<Rightarrow> cJSON_AddItemToObject resource key v
                | None \<Rightarrow> if snd it = JNull then cJSON_AddItemToObject resource key JNull else resource))"

definition push_oa :: "int \<Rightarrow> cjson \<Rightarrow> cjson option \<Rightarrow> cjson \<Rightarrow> cjson \<Rightarrow> cjson" where
  "push_oa ty src upd_body it resource =
     (case it of
        JString k \<Rightarrow>
          if \<not> annc_attr_is_oa ty k then resource
          else if cJSON_GetObjectItem (Some resource) k \<noteq> None then resource
          else (case cJSON_GetObjectItem (Some src) k of
                  Some v \<Rightarrow> cJSON_AddItemToObject resource k v
                | None \<Rightarrow> if cJSON_IsNull (cJSON_GetObjectItem upd_body k)
                          then cJSON_AddItemToObject resource k JNull else resource)
      | _ \<Rightarrow> resource)"

fun push_removed :: "cjson option \<Rightarrow> cjson list \<Rightarrow> cjson \<Rightarrow> cjson option" where
  "push_removed new_aa [] resource = Some resource"
| "push_removed new_aa (it # its) resource =
     (case it of
        JString k \<Rightarrow> do {
          i \<leftarrow> cJSON_getArrayIdx new_aa k;
          if i \<noteq> - 1 then push_removed new_aa its resource
          else if cJSON_GetObjectItem (Some resource) k \<noteq> None then push_removed new_aa its resource
          else push_removed new_aa its (cJSON_AddItemToObject resource k JNull) }
      | _ \<Rightarrow> push_removed new_aa its resource)"

text \<open>The attributes of the update: changed MA attributes, announced OA attributes, withdrawn OA attributes.\<close>

definition annc_update :: "int \<Rightarrow> cjson \<Rightarrow> cjson option \<Rightarrow> cjson option \<Rightarrow> cjson option" where
  "annc_update ty src prev_aa upd_body =
     (let new_aa = cJSON_GetObjectItem (Some src) ''aa'';
          r1 = foldl (\<lambda>r it. push_ma ty src it r) (JObject []) (case upd_body of None \<Rightarrow> [] | Some b \<Rightarrow> items b);
          r2 = foldl (\<lambda>r it. push_oa ty src upd_body it r) r1 (elems new_aa)
      in push_removed new_aa (elems prev_aa) r2)"

fun announce_targets :: "string \<Rightarrow> cjson list \<Rightarrow> string list" where
  "announce_targets come_from [] = []"
| "announce_targets come_from (at # ats) =
     (case at of
        JString t \<Rightarrow>
          if take 1 t \<noteq> ''/'' then announce_targets come_from ats
          else if checkResourceCseID t come_from then announce_targets come_from ats
          else t # announce_targets come_from ats
      | _ \<Rightarrow> announce_targets come_from ats)"

definition announce_to_annc ::
    "oneM2MPrimitive \<Rightarrow> rtnode \<Rightarrow> cjson option \<Rightarrow> cjson option \<Rightarrow> oneM2MPrimitive list option" where
  "announce_to_annc o2pt n prev_aa upd_body =
     (if 10000 \<le> n_ty n then Some []
      else do {
        src \<leftarrow> n_obj n;
        let at_list = cJSON_GetObjectItem (Some src) ''at'';
        if cJSON_GetArraySize at_list = 0 then Some []
        else do {
          resource \<leftarrow> annc_update (n_ty n) src prev_aa upd_body;
          if cJSON_GetArraySize (Some resource) = 0 then Some []
          else (let req = empty_o2pt\<lparr>p_op := OP_UPDATE, p_fr := Some (''/'' @ CSE_BASE_RI), p_ty := n_ty n + 10000,
                            p_rvi := RVI_3, p_rqi := Some ''update_announce'',
                            p_request_pc := Some (JObject [(get_resource_key (n_ty n + 10000), resource)]),
                            p_isForwarding := True\<rparr>;
                    come_from = (case p_fr o2pt of None \<Rightarrow> [] | Some fr \<Rightarrow> fr)
                in Some (map (\<lambda>t. req\<lparr>p_to := Some t\<rparr>) (announce_targets come_from (elems at_list)))) } })"

section \<open>Names\<close>

definition lower :: "string \<Rightarrow> bool" where
  "lower s \<longleftrightarrow> map tolower s = s"

lemma ci_eq_lower: "lower a \<Longrightarrow> lower b \<Longrightarrow> ci_eq a b \<longleftrightarrow> a = b"
  by (auto simp: lower_def ci_eq_def)

lemma table_names:
  "list_all (\<lambda>(ty, ma, oa). list_all lower ma \<and> list_all lower oa \<and> list_all (\<lambda>k. k \<notin> set oa) ma) ANNC_ATTR_TABLE"
  by code_simp

lemma table_entry:
  assumes "map_of ANNC_ATTR_TABLE ty = Some (ma, oa)"
  shows "list_all lower ma" "list_all lower oa" "list_all (\<lambda>k. k \<notin> set oa) ma"
  using table_names map_of_SomeD [OF assms] by (auto simp: list_all_iff)

lemma is_ma_iff: "annc_attr_is_ma ty k \<longleftrightarrow> (\<exists>ma oa. map_of ANNC_ATTR_TABLE ty = Some (ma, oa) \<and> k \<in> set ma)"
  by (auto simp: annc_attr_is_ma_def annc_ma_fields_def str_in_def list_ex_iff split: option.splits)

lemma is_oa_iff: "annc_attr_is_oa ty k \<longleftrightarrow> (\<exists>ma oa. map_of ANNC_ATTR_TABLE ty = Some (ma, oa) \<and> k \<in> set oa)"
  by (auto simp: annc_attr_is_oa_def annc_oa_fields_def str_in_def list_ex_iff split: option.splits)

lemma ma_fields_set: "set (case annc_ma_fields ty of None \<Rightarrow> [] | Some ma \<Rightarrow> ma) = {k. annc_attr_is_ma ty k}"
  by (cases "map_of ANNC_ATTR_TABLE ty") (auto simp: is_ma_iff annc_ma_fields_def)

lemma announced_lower: "annc_attr_is_ma ty k \<or> annc_attr_is_oa ty k \<Longrightarrow> lower k"
  using table_entry by (fastforce simp: is_ma_iff is_oa_iff list_all_iff)

lemma ma_oa_disjoint: "annc_attr_is_ma ty k \<Longrightarrow> \<not> annc_attr_is_oa ty k"
  using table_entry(3) by (fastforce simp: is_ma_iff is_oa_iff list_all_iff)

section \<open>Copies in step with their originals\<close>

text \<open>
  The value a copy should have for an attribute: mandatory attributes always, optional ones
  when \<^verbatim>\<open>aa\<close> lists them, as far as the original has them.
\<close>

definition announced :: "int \<Rightarrow> cjson \<Rightarrow> string \<Rightarrow> cjson option" where
  "announced ty src k =
     (if annc_attr_is_ma ty k \<or> (annc_attr_is_oa ty k \<and> JString k \<in> set (elems (cJSON_GetObjectItem (Some src) ''aa'')))
      then cJSON_GetObjectItem (Some src) k else None)"

definition in_step :: "int \<Rightarrow> cjson \<Rightarrow> cjson \<Rightarrow> bool" where
  "in_step ty src copy \<longleftrightarrow>
     (\<forall>k. annc_attr_is_ma ty k \<or> annc_attr_is_oa ty k \<longrightarrow> cJSON_GetObjectItem (Some copy) k = announced ty src k)"

lemma get_cong: "ci_eq k k' \<Longrightarrow> cJSON_GetObjectItem j k = cJSON_GetObjectItem j k'"
  using find_member_cong by (auto simp: cJSON_GetObjectItem_def split: option.splits cjson.splits)

lemma annc_copy_get:
  assumes "wf_obj dst"
  shows "wf_obj (annc_copy dst src name) \<and>
    cJSON_GetObjectItem (Some (annc_copy dst src name)) k =
      (if cJSON_GetObjectItem (Some dst) k = None \<and> ci_eq name k then cJSON_GetObjectItem (Some src) k
       else cJSON_GetObjectItem (Some dst) k)"
  using assms get_cong [of name k "Some dst"] get_cong [of name k "Some src"]
    jattr.get_add [OF assms, of name] jattr.invar_add [OF assms, of name]
  by (auto simp: annc_copy_def split: option.splits)

lemma annc_copies_get:
  "wf_obj dst \<Longrightarrow> wf_obj (foldl (\<lambda>d name. annc_copy d src name) dst ks) \<and>
   cJSON_GetObjectItem (Some (foldl (\<lambda>d name. annc_copy d src name) dst ks)) k =
     (if cJSON_GetObjectItem (Some dst) k = None \<and> list_ex (\<lambda>n. ci_eq n k) ks then cJSON_GetObjectItem (Some src) k
      else cJSON_GetObjectItem (Some dst) k)"
proof (induction ks arbitrary: dst)
  case (Cons n ks)
  from annc_copy_get [OF Cons.prems, of src n k] Cons.IH [of "annc_copy dst src n"]
  show ?case by auto
qed simp

text \<open>The optional attributes are copied by the same steps, for the names that pass the test.\<close>

definition oa_names :: "int \<Rightarrow> cjson list \<Rightarrow> string list" where
  "oa_names ty es = concat (map (\<lambda>a. case a of JString v \<Rightarrow> if annc_attr_is_oa ty v then [v] else [] | _ \<Rightarrow> []) es)"

lemma copy_oa_names:
  "foldl (\<lambda>d a. copy_oa ty src a d) dst es = foldl (\<lambda>d name. annc_copy d src name) dst (oa_names ty es)"
  by (induction es arbitrary: dst) (auto simp: copy_oa_def oa_names_def split: cjson.splits)

lemma set_oa_names: "set (oa_names ty es) = {k. annc_attr_is_oa ty k \<and> JString k \<in> set es}"
  by (induction es) (auto simp: oa_names_def split: cjson.splits if_splits)

lemma list_ex_ci_eq:
  assumes "\<And>n. n \<in> set ks \<Longrightarrow> lower n" "lower k"
  shows "list_ex (\<lambda>n. ci_eq n k) ks \<longleftrightarrow> k \<in> set ks"
  using assms ci_eq_lower by (auto simp: list_ex_iff)

lemma build_in_step:
  "in_step ty src (build_annc_attrs (JObject []) src ty)"
  unfolding in_step_def
proof (intro allI impI)
  fix k
  assume k: "annc_attr_is_ma ty k \<or> annc_attr_is_oa ty k"
  let ?ma = "case annc_ma_fields ty of None \<Rightarrow> [] | Some ma \<Rightarrow> ma"
  let ?oa = "oa_names ty (elems (cJSON_GetObjectItem (Some src) ''aa''))"
  have "wf_obj (JObject [])" by simp
  then have "cJSON_GetObjectItem (Some (build_annc_attrs (JObject []) src ty)) k =
      (if list_ex (\<lambda>n. ci_eq n k) ?ma \<or> list_ex (\<lambda>n. ci_eq n k) ?oa then cJSON_GetObjectItem (Some src) k else None)"
    using annc_copies_get [of "JObject []" src ?ma] annc_copies_get [of _ src ?oa k]
    by (auto simp: build_annc_attrs_def Let_def copy_oa_names)
  moreover have "list_ex (\<lambda>n. ci_eq n k) ?ma \<longleftrightarrow> annc_attr_is_ma ty k"
    by (subst list_ex_ci_eq) (auto simp: ma_fields_set intro: announced_lower announced_lower [OF k])
  moreover have "list_ex (\<lambda>n. ci_eq n k) ?oa \<longleftrightarrow>
      annc_attr_is_oa ty k \<and> JString k \<in> set (elems (cJSON_GetObjectItem (Some src) ''aa''))"
    by (subst list_ex_ci_eq) (auto simp: set_oa_names intro: announced_lower announced_lower [OF k])
  ultimately show "cJSON_GetObjectItem (Some (build_annc_attrs (JObject []) src ty)) k = announced ty src k"
    by (auto simp: announced_def)
qed

text \<open>
  A new announced copy is in step with its original: \<^verbatim>\<open>build_annc_attrs\<close> gives it exactly the
  mandatory attributes and the optional attributes listed in \<^verbatim>\<open>aa\<close> that the original has, with
  the values of the original.
\<close>

theorem build_annc_attrs_in_step:
  "in_step ty src (build_annc_attrs (JObject []) src ty)"
  by (rule build_in_step)

subsection \<open>Updates\<close>

text \<open>An item is added to the update when its name is not there yet.\<close>

lemma add_new:
  assumes "wf_obj r" "cJSON_GetObjectItem (Some r) n = None"
  shows "wf_obj (cJSON_AddItemToObject r n v)"
    "cJSON_GetObjectItem (Some (cJSON_AddItemToObject r n v)) k = (if ci_eq n k then Some v else cJSON_GetObjectItem (Some r) k)"
  using jattr.invar_add [OF assms] jattr.get_add [OF assms] by auto

text \<open>\<open>exact ty kvs\<close>: the members that name an announced attribute name it in lower case.\<close>

definition exact :: "int \<Rightarrow> (string \<times> cjson) list \<Rightarrow> bool" where
  "exact ty kvs \<longleftrightarrow> (\<forall>(n, _) \<in> set kvs. \<forall>k. annc_attr_is_ma ty k \<or> annc_attr_is_oa ty k \<longrightarrow> ci_eq n k \<longrightarrow> n = k)"

definition sent :: "cjson \<Rightarrow> string \<Rightarrow> bool \<Rightarrow> cjson option" where
  "sent src k null = (case cJSON_GetObjectItem (Some src) k of Some v \<Rightarrow> Some v | None \<Rightarrow> if null then Some JNull else None)"

lemma push_ma_get:
  assumes "wf_obj r" "cJSON_GetObjectItem (Some r) n = None"
  shows "wf_obj (push_ma ty src (Some n, it) r) \<and>
    cJSON_GetObjectItem (Some (push_ma ty src (Some n, it) r)) k =
      (if ci_eq n k \<and> annc_attr_is_ma ty n then sent src n (it = JNull) else cJSON_GetObjectItem (Some r) k)"
  using assms get_cong [of n k "Some r"]
  by (auto simp: push_ma_def sent_def add_new split: option.splits)

lemma push_mas_get:
  assumes "annc_attr_is_ma ty k \<or> annc_attr_is_oa ty k"
  shows "wf_obj r \<Longrightarrow> distinct (obj_keys (JObject kvs)) \<Longrightarrow> exact ty kvs \<Longrightarrow>
    (\<forall>(n, _) \<in> set kvs. cJSON_GetObjectItem (Some r) n = None) \<Longrightarrow>
    (let r' = foldl (\<lambda>r it. push_ma ty src it r) r (items (JObject kvs)) in
     wf_obj r' \<and>
     cJSON_GetObjectItem (Some r') k =
       (case find_member kvs k of
          None \<Rightarrow> cJSON_GetObjectItem (Some r) k
        | Some it \<Rightarrow> if annc_attr_is_ma ty k then sent src k (it = JNull) else cJSON_GetObjectItem (Some r) k))"
proof (induction kvs arbitrary: r)
  case (Cons p kvs)
  obtain n it where p: "p = (n, it)" by (cases p)
  let ?r = "push_ma ty src (Some n, it) r"
  have none: "cJSON_GetObjectItem (Some r) n = None" using Cons.prems(4) p by auto
  note step = push_ma_get [OF Cons.prems(1) none, of ty src it]
  have apart: "\<not> ci_eq n m" if "(m, x) \<in> set kvs" for m x
    using Cons.prems(2) that p by (force simp: ci_eq_def)
  have IH: "let r' = foldl (\<lambda>r it. push_ma ty src it r) ?r (items (JObject kvs)) in wf_obj r' \<and>
      cJSON_GetObjectItem (Some r') k =
       (case find_member kvs k of
          None \<Rightarrow> cJSON_GetObjectItem (Some ?r) k
        | Some it \<Rightarrow> if annc_attr_is_ma ty k then sent src k (it = JNull) else cJSON_GetObjectItem (Some ?r) k)"
  proof (rule Cons.IH)
    show "\<forall>(m, _) \<in> set kvs. cJSON_GetObjectItem (Some ?r) m = None"
      using Cons.prems(4) p apart step by fastforce
  qed (use Cons.prems step p in \<open>auto simp: exact_def\<close>)
  show ?case
  proof (cases "ci_eq n k")
    case True
    then have "n = k" using Cons.prems(3) p assms by (auto simp: exact_def)
    moreover have "find_member kvs k = None"
      using apart \<open>n = k\<close> by (auto simp: find_member_None_same ci_eq_sym)
    ultimately show ?thesis using IH step none p by (auto simp: Let_def)
  next
    case False
    then have "\<not> ci_eq k n" by (simp add: ci_eq_sym)
    with False IH step p show ?thesis by (auto simp: Let_def split: option.splits)
  qed
qed simp

lemma push_oa_get:
  assumes "wf_obj r"
  shows "wf_obj (push_oa ty src body (JString n) r) \<and>
    cJSON_GetObjectItem (Some (push_oa ty src body (JString n) r)) k =
      (if ci_eq n k \<and> annc_attr_is_oa ty n \<and> cJSON_GetObjectItem (Some r) k = None
       then sent src n (cJSON_GetObjectItem body n = Some JNull) else cJSON_GetObjectItem (Some r) k)"
  using assms get_cong [of n k "Some r"]
  by (auto simp: push_oa_def sent_def add_new cJSON_IsNull_def split: option.splits cjson.splits)

lemma push_oas_get:
  assumes "annc_attr_is_ma ty k \<or> annc_attr_is_oa ty k"
  shows "wf_obj r \<Longrightarrow>
    (let r' = foldl (\<lambda>r it. push_oa ty src body it r) r es in
     wf_obj r' \<and>
     cJSON_GetObjectItem (Some r') k =
       (if cJSON_GetObjectItem (Some r) k = None \<and> annc_attr_is_oa ty k \<and> JString k \<in> set es
        then sent src k (cJSON_GetObjectItem body k = Some JNull) else cJSON_GetObjectItem (Some r) k))"
proof (induction es arbitrary: r)
  case (Cons e es)
  show ?case
  proof (cases e)
    case (JString n)
    have eq: "ci_eq n k \<and> annc_attr_is_oa ty n \<longleftrightarrow> n = k \<and> annc_attr_is_oa ty k"
      using announced_lower [of ty n] announced_lower [OF assms] ci_eq_lower by auto
    show ?thesis
      using Cons.IH [of "push_oa ty src body e r"] push_oa_get [OF Cons.prems, of ty src body n k] eq JString
      by (auto simp: Let_def)
  qed (use Cons in \<open>simp_all add: push_oa_def\<close>)
qed simp

lemma array_idx_all_strings:
  "list_all (\<lambda>e. valuestring e \<noteq> None) es \<Longrightarrow>
   \<exists>j. array_idx es v i = Some j \<and> (j = - 1 \<longleftrightarrow> JString v \<notin> set es)"
proof (induction es arbitrary: i)
  case (Cons e es)
  then obtain s where "e = JString s" by (cases e) auto
  with Cons show ?case by auto
qed simp

lemma getArrayIdx_all_strings:
  "all_strings arr \<Longrightarrow> \<exists>j. cJSON_getArrayIdx arr v = Some j \<and> (j = - 1 \<longleftrightarrow> JString v \<notin> set (elems arr))"
  using array_idx_all_strings [of "elems arr" v 0]
  by (cases arr) (auto simp: cJSON_getArrayIdx_def all_strings_def)

lemma push_removed_defined: "all_strings new_aa \<Longrightarrow> push_removed new_aa es r \<noteq> None"
proof (induction es arbitrary: r)
  case (Cons e es)
  show ?case
  proof (cases e)
    case (JString n)
    obtain i where "cJSON_getArrayIdx new_aa n = Some i" using getArrayIdx_all_strings [OF Cons.prems] by blast
    with JString Cons show ?thesis by auto
  qed (use Cons in auto)
qed simp

lemma push_removed_get:
  assumes "annc_attr_is_ma ty k \<or> annc_attr_is_oa ty k" "all_strings new_aa"
  shows "wf_obj r \<Longrightarrow> (\<forall>n. JString n \<in> set es \<longrightarrow> annc_attr_is_oa ty n) \<Longrightarrow>
    \<exists>r'. push_removed new_aa es r = Some r' \<and> wf_obj r' \<and>
      cJSON_GetObjectItem (Some r') k =
        (if cJSON_GetObjectItem (Some r) k = None \<and> JString k \<in> set es \<and> JString k \<notin> set (elems new_aa)
         then Some JNull else cJSON_GetObjectItem (Some r) k)"
proof (induction es arbitrary: r)
  case (Cons e es)
  show ?case
  proof (cases e)
    case (JString n)
    then have n: "annc_attr_is_oa ty n" using Cons.prems(2) by simp
    have eq: "ci_eq n k \<longleftrightarrow> n = k"
      using announced_lower [of ty n] announced_lower [OF assms(1)] ci_eq_lower n by auto
    obtain i where i: "cJSON_getArrayIdx new_aa n = Some i" "i = - 1 \<longleftrightarrow> JString n \<notin> set (elems new_aa)"
      using getArrayIdx_all_strings [OF assms(2), of n] by auto
    let ?r = "if i \<noteq> - 1 \<or> cJSON_GetObjectItem (Some r) n \<noteq> None then r else cJSON_AddItemToObject r n JNull"
    have r: "push_removed new_aa (e # es) r = push_removed new_aa es ?r" using JString i(1) by simp
    have wf: "wf_obj ?r" using Cons.prems(1) add_new by auto
    have "cJSON_GetObjectItem (Some ?r) k =
        (if n = k \<and> cJSON_GetObjectItem (Some r) k = None \<and> JString k \<notin> set (elems new_aa) then Some JNull
         else cJSON_GetObjectItem (Some r) k)"
      using Cons.prems(1) add_new [of r n JNull] eq i(2) by auto
    with Cons.IH [OF wf] Cons.prems(2) r JString show ?thesis by auto
  qed (use Cons in \<open>simp_all\<close>)
qed simp

text \<open>
  C34. An update keeps the copies in step. Let a copy be in step with the original, and let the
  original change on its announced attributes as the request says (a value replaces, null
  deletes, everything else stays), while \<^verbatim>\<open>aa\<close> may change to any list of announceable names.
  Then applying the update that is sent to the copy brings the copy in step with the
  changed original.
\<close>

theorem announce_keeps_in_step:
  assumes "in_step ty old copy" "wf_obj copy" "wf_obj (JObject body)" "exact ty body"
    and new: "\<forall>k. annc_attr_is_ma ty k \<or> annc_attr_is_oa ty k \<longrightarrow>
      cJSON_GetObjectItem (Some new) k =
        (case find_member body k of
           None \<Rightarrow> cJSON_GetObjectItem (Some old) k
         | Some v \<Rightarrow> if v = JNull then None else Some v)"
    and stored: "\<forall>k. cJSON_GetObjectItem (Some old) k \<noteq> Some JNull"
    and "\<forall>n. JString n \<in> set (elems (cJSON_GetObjectItem (Some old) ''aa'')) \<longrightarrow> annc_attr_is_oa ty n"
    and "all_strings (cJSON_GetObjectItem (Some new) ''aa'')"
  shows "\<exists>r. annc_update ty new (cJSON_GetObjectItem (Some old) ''aa'') (Some (JObject body)) = Some r \<and>
    in_step ty new (update_resource copy r)"
proof -
  let ?old_aa = "cJSON_GetObjectItem (Some old) ''aa''" and ?new_aa = "cJSON_GetObjectItem (Some new) ''aa''"
  define r1 where "r1 = foldl (\<lambda>r it. push_ma ty new it r) (JObject []) (items (JObject body))"
  define r2 where "r2 = foldl (\<lambda>r it. push_oa ty new (Some (JObject body)) it r) r1 (elems ?new_aa)"
  obtain r where r0: "push_removed ?new_aa (elems ?old_aa) r2 = Some r"
    using push_removed_defined [OF assms(8)] by blast
  have "cJSON_GetObjectItem (Some (update_resource copy r)) k = announced ty new k"
    if k: "annc_attr_is_ma ty k \<or> annc_attr_is_oa ty k" for k
  proof -
    have 1: "wf_obj r1" "cJSON_GetObjectItem (Some r1) k =
        (case find_member body k of None \<Rightarrow> None | Some it \<Rightarrow> if annc_attr_is_ma ty k then sent new k (it = JNull) else None)"
      using push_mas_get [OF k, of "JObject []" body new] assms(3,4) by (auto simp: r1_def Let_def split: option.splits)
    have 2: "wf_obj r2" "cJSON_GetObjectItem (Some r2) k =
        (if cJSON_GetObjectItem (Some r1) k = None \<and> annc_attr_is_oa ty k \<and> JString k \<in> set (elems ?new_aa)
         then sent new k (find_member body k = Some JNull) else cJSON_GetObjectItem (Some r1) k)"
      using push_oas_get [OF k 1(1), of new "Some (JObject body)" "elems ?new_aa"] by (auto simp: r2_def Let_def)
    have r: "wf_obj r" "cJSON_GetObjectItem (Some r) k =
        (if cJSON_GetObjectItem (Some r2) k = None \<and> JString k \<in> set (elems ?old_aa) \<and> JString k \<notin> set (elems ?new_aa)
         then Some JNull else cJSON_GetObjectItem (Some r2) k)"
      using push_removed_get [OF k assms(8) 2(1) assms(7)] r0 by auto
    have "cJSON_GetObjectItem (Some copy) k = announced ty old k" using assms(1) k unfolding in_step_def by blast
    moreover have "cJSON_GetObjectItem (Some new) k =
        (case find_member body k of None \<Rightarrow> cJSON_GetObjectItem (Some old) k | Some v \<Rightarrow> if v = JNull then None else Some v)"
      using new k by blast
    moreover have "cJSON_GetObjectItem (Some old) k \<noteq> Some JNull" using stored by blast
    moreover have "annc_attr_is_ma ty k \<Longrightarrow> \<not> annc_attr_is_oa ty k \<and> JString k \<notin> set (elems ?old_aa)"
      using ma_oa_disjoint assms(7) by blast
    ultimately show ?thesis
      unfolding get_update_resource [OF assms(2) r(1)] r(2) 2(2) 1(2)
      using k by (auto simp: announced_def sent_def split: option.splits if_splits)
  qed
  with r0 show ?thesis by (auto simp: annc_update_def Let_def r1_def r2_def in_step_def)
qed

text \<open>A container that announces \<^verbatim>\<open>mni\<close>; the update changes its labels and withdraws \<^verbatim>\<open>mni\<close>.\<close>

definition ex_annc_old :: cjson where
  "ex_annc_old = JObject [(''rn'', JString ''c''), (''lbl'', JArray []), (''mni'', JNumber 5), (''aa'', JArray [JString ''mni''])]"

definition ex_annc_new :: cjson where
  "ex_annc_new = JObject [(''rn'', JString ''c''), (''lbl'', JArray [JString ''x'']), (''mni'', JNumber 5)]"

theorem announce_keeps_in_step_witness:
  "\<exists>r. annc_update RT_CNT ex_annc_new (cJSON_GetObjectItem (Some ex_annc_old) ''aa'')
      (Some (JObject [(''lbl'', JArray [JString ''x'']), (''aa'', JNull)])) = Some r \<and>
    in_step RT_CNT ex_annc_new (update_resource (build_annc_attrs (JObject []) ex_annc_old RT_CNT) r)"
proof (rule announce_keeps_in_step)
  show "in_step RT_CNT ex_annc_old (build_annc_attrs (JObject []) ex_annc_old RT_CNT)" by (rule build_in_step)
  show "wf_obj (build_annc_attrs (JObject []) ex_annc_old RT_CNT)" by code_simp
  show "exact RT_CNT [(''lbl'', JArray [JString ''x'']), (''aa'', JNull)]"
    by (auto simp: exact_def ci_eq_def is_ma_iff is_oa_iff ANNC_ATTR_TABLE_def tolower_def)
  show "\<forall>k. annc_attr_is_ma RT_CNT k \<or> annc_attr_is_oa RT_CNT k \<longrightarrow>
      cJSON_GetObjectItem (Some ex_annc_new) k =
        (case find_member [(''lbl'', JArray [JString ''x'']), (''aa'', JNull)] k of
           None \<Rightarrow> cJSON_GetObjectItem (Some ex_annc_old) k | Some v \<Rightarrow> if v = JNull then None else Some v)"
    by (auto simp: is_ma_iff is_oa_iff ANNC_ATTR_TABLE_def ex_annc_new_def ex_annc_old_def ci_eq_def tolower_def)
qed (auto simp: ex_annc_old_def ex_annc_new_def ci_eq_def tolower_def all_strings_def is_oa_iff ANNC_ATTR_TABLE_def)

end
