(* ===== verification/Validation.thy ===== *)
theory Validation
  imports Announce
begin

text \<open>
  Validation of request contents (\<^verbatim>\<open>util.c\<close>, \<^verbatim>\<open>resources/acp.c\<close>, \<^verbatim>\<open>resources/cnt.c\<close>,
  \<^verbatim>\<open>resources/cin.c\<close>, \<^verbatim>\<open>resources/ae.c\<close>, tables of \<^verbatim>\<open>main.c\<close>): the attributes a resource type
  may have, the mandatory ones, references to access control policies, access control
  rules, and the checks of single resource types.

  A validator returns the response code and the primitive, which carries the error, and
  where it changes the contents (\<^verbatim>\<open>validate_aa\<close>) or resolves addresses also the contents and
  the state. \<^verbatim>\<open>err_msg\<close> is a buffer of 256 bytes; a longer message is undefined.
\<close>

section \<open>Attribute tables\<close>

definition acr_schema :: cjson where
  "acr_schema = JObject [(''acr'', JArray [JObject [(''acor'', JArray [JString []]), (''acop'', JNumber 0),
     (''acco'', JArray [JObject [(''acip'', JObject [(''ipv4'', JArray [JString []]), (''ipv6'', JArray [JString []])])]])]])]"

abbreviation (input) strs :: cjson where "strs \<equiv> JArray [JString []]"
abbreviation (input) str :: cjson where "str \<equiv> JString []"
abbreviation (input) number :: cjson where "number \<equiv> JNumber 0"

definition ATTRIBUTES :: cjson where
  "ATTRIBUTES = JObject
    [(''general'', JObject [(''rn'', str), (''ri'', str), (''pi'', str), (''ct'', str), (''et'', str), (''lt'', str),
       (''uri'', str), (''acpi'', strs), (''lbl'', strs), (''ty'', number), (''memberOf'', strs)]),
     (''m2m:ae'', JObject [(''api'', str), (''aei'', str), (''rr'', JTrue), (''poa'', strs), (''apn'', str), (''srv'', strs),
       (''at'', strs), (''aa'', strs), (''ast'', number)]),
     (''m2m:cnt'', JObject [(''cr'', JNull), (''mni'', number), (''mbs'', number), (''mia'', number), (''st'', number),
       (''cni'', number), (''cbs'', number), (''at'', strs), (''aa'', strs), (''ast'', number)]),
     (''m2m:cin'', JObject [(''cs'', number), (''cr'', JNull), (''con'', str), (''cnf'', str), (''st'', str), (''at'', strs),
       (''aa'', strs), (''ast'', number)]),
     (''m2m:acp'', JObject [(''pv'', acr_schema), (''pvs'', acr_schema), (''at'', strs), (''aa'', strs), (''ast'', number)]),
     (''m2m:sub'', JObject [(''enc'', JObject [(''net'', JArray [JNumber 1]), (''atr'', strs), (''chty'', JArray [number]),
         (''md'', JObject [(''num'', number), (''dur'', str)])]), (''exc'', number), (''nu'', strs), (''gpi'', number),
       (''nfu'', number), (''bn'', number), (''rl'', number), (''sur'', number), (''nct'', number), (''cr'', str), (''su'', str)]),
     (''m2m:grp'', JObject [(''gn'', str), (''cr'', str), (''mt'', number), (''cnm'', number), (''mnm'', number), (''mid'', strs),
       (''macp'', strs), (''mtv'', JTrue), (''csy'', number), (''at'', strs), (''aa'', strs), (''ast'', number)]),
     (''m2m:csr'', JObject [(''cst'', number), (''poa'', strs), (''cb'', str), (''dcse'', strs), (''csi'', str), (''mei'', str),
       (''tri'', str), (''csz'', strs), (''rr'', JTrue), (''nl'', str), (''srv'', strs), (''spi'', str)]),
     (''m2m:cb'', JObject [(''cst'', number), (''csi'', str), (''srt'', strs), (''rr'', JTrue), (''poa'', strs),
       (''srv'', JArray [number]), (''at'', JArray []), (''aa'', JArray []), (''ast'', number),
       (''spi'', JString (''//'' @ CSE_BASE_SP_ID))]),
     (''m2m:acpA'', JObject [(''lnk'', str), (''pv'', acr_schema), (''pvs'', acr_schema), (''ast'', number)]),
     (''m2m:cbA'', JObject [(''lnk'', str), (''cst'', number), (''csi'', str), (''srt'', strs), (''poa'', strs), (''srv'', strs),
       (''rr'', JTrue), (''ast'', number)]),
     (''m2m:aeA'', JObject [(''lnk'', str), (''api'', str), (''aei'', str), (''rr'', JTrue), (''poa'', strs), (''apn'', str),
       (''srv'', strs), (''ast'', number)]),
     (''m2m:cntA'', JObject [(''lnk'', str), (''cr'', str), (''mni'', number), (''mbs'', number), (''st'', number), (''cni'', number),
       (''cbs'', number), (''ast'', number)]),
     (''m2m:grpA'', JObject [(''lnk'', str), (''cr'', str), (''mt'', number), (''cnm'', number), (''mnm'', number), (''mid'', strs),
       (''macp'', strs), (''mtv'', JTrue), (''csy'', number), (''gn'', str), (''at'', strs), (''aa'', strs), (''ast'', number)]),
     (''m2m:cinA'', JObject [(''lnk'', str), (''cs'', number), (''cr'', str), (''con'', str), (''cnf'', str), (''st'', str),
       (''ast'', number)]),
     (''m2m:fcnt'', JObject [(''cnd'', str), (''oref'', str), (''nl'', str), (''cr'', JNull), (''at'', strs), (''aa'', strs),
       (''ast'', number), (''st'', number), (''cs'', number), (''fcied'', number), (''mni'', number), (''mbs'', number),
       (''mia'', number), (''cni'', number), (''cbs'', number), (''loc'', str), (''daci'', strs)]),
     (''m2m:fcin'', JObject [(''cs'', number), (''st'', number), (''org'', str), (''loc'', str), (''at'', strs), (''aa'', strs),
       (''ast'', number)]),
     (''m2m:ts'', JObject [(''cr'', JNull), (''mni'', number), (''mbs'', number), (''mia'', number), (''cni'', number),
       (''cbs'', number), (''cnf'', str), (''pei'', number), (''peid'', number), (''mdd'', JFalse), (''mdn'', number),
       (''mdt'', number), (''mdc'', number), (''mdlt'', strs), (''at'', strs), (''aa'', strs), (''ast'', number)]),
     (''m2m:tsA'', JObject [(''lnk'', str), (''cr'', str), (''mni'', number), (''mbs'', number), (''mia'', number),
       (''cni'', number), (''cbs'', number), (''cnf'', str), (''pei'', number), (''peid'', number), (''mdd'', JFalse),
       (''mdn'', number), (''mdt'', number), (''ast'', number)]),
     (''m2m:tsi'', JObject [(''dgt'', str), (''con'', str), (''snr'', number), (''cs'', number)])]"

text \<open>The create-mandatory attributes; the optional ones of the table are not used by the code.\<close>

definition M_TABLE :: "(int \<times> string list option) list" where
  "M_TABLE =
    [(RT_AE, Some [''api'', ''rr'']), (RT_ACP, Some [''pv'', ''pvs'']), (RT_SUB, Some [''nu'']), (RT_GRP, Some [''mid'']),
     (RT_CSR, Some [''cb'', ''rr'', ''srv'']), (RT_CNT, None), (RT_CIN, Some [''con'']), (RT_TS, None),
     (RT_TSI, Some [''dgt'', ''con'']), (RT_FCNT, Some [''cnd''])]"

definition get_create_m_fields :: "int \<Rightarrow> string list option" where
  "get_create_m_fields ty = (case map_of M_TABLE ty of Some m \<Rightarrow> m | None \<Rightarrow> None)"

section \<open>Attribute types\<close>

type_synonym attr_check = "(bool \<times> string) option"

definition complain :: "string \<Rightarrow> string \<Rightarrow> attr_check" where
  "complain what key = (if length (what @ key) < 256 then Some (False, what @ key) else None)"

text \<open>The loops over members and elements, which stop at the first that is refused.\<close>

fun each :: "('a \<Rightarrow> string \<Rightarrow> attr_check) \<Rightarrow> 'a list \<Rightarrow> string \<Rightarrow> attr_check" where
  "each f [] err = Some (True, err)"
| "each f (x # xs) err = do { (ok, err) \<leftarrow> f x err; if ok then each f xs err else Some (False, err) }"

lemma each_cong [fundef_cong]:
  "xs = ys \<Longrightarrow> err = err' \<Longrightarrow> (\<And>y e. y \<in> set ys \<Longrightarrow> f y e = g y e) \<Longrightarrow> each f xs err = each g ys err'"
proof (induction xs arbitrary: ys err err')
  case (Cons x xs)
  then show ?case by (cases ys) (auto intro!: Option.bind_cong split: prod.split)
qed simp

definition type_matches :: "cjson \<Rightarrow> cjson \<Rightarrow> bool" where
  "type_matches verifier attr \<longleftrightarrow>
     attr = JNull \<or> cJSON_type verifier = cJSON_type attr \<or>
     (cJSON_type verifier \<in> {T_True, T_False} \<and> cJSON_type attr \<in> {T_True, T_False})"

definition find_verifier :: "cjson \<Rightarrow> string \<Rightarrow> cjson option" where
  "find_verifier obj key =
     (case cJSON_GetObjectItem (Some obj) key of
        Some v \<Rightarrow> Some v
      | None \<Rightarrow> if cJSON_type obj = T_Array then Some obj else None)"

lemma member_size: "(k, v) \<in> set kvs \<Longrightarrow> size v < size (JObject kvs)"
  by (induction kvs) auto

lemma elem_size: "x \<in> set xs \<Longrightarrow> size x < size (JArray xs)"
  by (induction xs) auto

function (sequential) validate_sub_attr :: "cjson \<Rightarrow> string \<Rightarrow> cjson \<Rightarrow> string \<Rightarrow> attr_check" where
  "validate_sub_attr obj key attr err =
     (case find_verifier obj key of
        None \<Rightarrow> complain ''invalid attribute : '' key
      | Some verifier \<Rightarrow>
          if \<not> type_matches verifier attr then complain ''invalid attribute type : '' key
          else (case attr of
                  JObject kvs \<Rightarrow>
                    each (\<lambda>p err. if cJSON_GetArraySize (Some (snd p)) > 0
                                  then validate_sub_attr verifier (fst p) (snd p) err else Some (True, err)) kvs err
                | JArray xs \<Rightarrow>
                    each (\<lambda>x err. do {
                        child \<leftarrow> cJSON_GetArrayItem (Some verifier) 0;
                        if cJSON_type x \<noteq> cJSON_type child then complain ''invalid attribute type : '' key
                        else (case x of
                                JObject kvs \<Rightarrow> each (\<lambda>p err. validate_sub_attr child (fst p) (snd p) err) kvs err
                              | _ \<Rightarrow> Some (True, err)) }) xs err
                | _ \<Rightarrow> Some (True, err)))"
  by pat_completeness auto

termination validate_sub_attr
proof (relation "measure (\<lambda>(obj, key, attr, err). size attr)", goal_cases)
  case (3 obj key attr err verifier kvs p e)
  then show ?case using member_size [of "fst p" "snd p" kvs] by simp
next
  case (2 obj key attr err verifier xs x e child kvs p e')
  then show ?case using member_size [of "fst p" "snd p" kvs] elem_size [of x xs] by simp
qed simp

text \<open>An attribute is tried with the attributes of the type first, then with the general ones.\<close>

definition attr_valid :: "cjson \<Rightarrow> cjson \<Rightarrow> string option \<times> cjson \<Rightarrow> string \<Rightarrow> attr_check" where
  "attr_valid attrs general_attrs p err =
     do {
       key \<leftarrow> fst p;
       (ok, err) \<leftarrow> validate_sub_attr attrs key (snd p) err;
       if ok then Some (True, err) else validate_sub_attr general_attrs key (snd p) err }"

definition is_attr_valid :: "cjson option \<Rightarrow> int \<Rightarrow> attr_check" where
  "is_attr_valid obj ty =
     (case (cJSON_GetObjectItem (Some ATTRIBUTES) (get_resource_key ty), cJSON_GetObjectItem (Some ATTRIBUTES) ''general'') of
        (Some attrs, Some general_attrs) \<Rightarrow>
          if \<not> cJSON_IsObject (Some attrs) then Some (False, [])
          else (case cJSON_GetObjectItem obj (get_resource_key ty) of
                  None \<Rightarrow> Some (False, [])
                | Some body \<Rightarrow> each (attr_valid attrs general_attrs) (items body) [])
      | _ \<Rightarrow> Some (False, []))"

section \<open>Mandatory attributes\<close>

text \<open>The error message, or \<open>None\<close> for \<^verbatim>\<open>RSC_OK\<close>; the response code of an error is \<^verbatim>\<open>RSC_BAD_REQUEST\<close>.\<close>

fun check_mandatory :: "string list \<Rightarrow> cjson \<Rightarrow> operation \<Rightarrow> string option" where
  "check_mandatory [] obj op = None"
| "check_mandatory (k # ks) obj op =
     (let item = cJSON_GetObjectItem (Some obj) k in
      if op = OP_CREATE \<and> (item = None \<or> cJSON_IsNull item) then Some ''insufficient mandatory attribute(s)''
      else if op = OP_UPDATE \<and> cJSON_IsNull item then Some ''mandatory attribute cannot be null''
      else check_mandatory ks obj op)"

definition validate_mandatory_attrs :: "int \<Rightarrow> cjson option \<Rightarrow> operation \<Rightarrow> string option" where
  "validate_mandatory_attrs ty obj op =
     (case (get_create_m_fields ty, obj) of
        (Some ks, Some j) \<Rightarrow> check_mandatory ks j op
      | _ \<Rightarrow> None)"

section \<open>Access control references and rules\<close>

fun check_acpi_entries :: "'d env \<Rightarrow> 'd cse \<Rightarrow> oneM2MPrimitive \<Rightarrow> cjson list \<Rightarrow> 'd outcome" where
  "check_acpi_entries E s o2pt [] = Some (RSC_OK, o2pt, s)"
| "check_acpi_entries E s o2pt (e # es) =
     (case valuestring e of
        None \<Rightarrow> Some (RSC_BAD_REQUEST,
          handle_error o2pt RSC_BAD_REQUEST ''attribute `acpi` contains an invalid resource identifier'', s)
      | Some acpi \<Rightarrow>
          if is_blank_string (Some acpi)
          then Some (RSC_BAD_REQUEST,
            handle_error o2pt RSC_BAD_REQUEST ''attribute `acpi` contains an invalid resource identifier'', s)
          else do {
            (acp, s) \<leftarrow> find_rtnode E s (Some acpi);
            case acp of
              None \<Rightarrow> Some (RSC_BAD_REQUEST, handle_error o2pt RSC_BAD_REQUEST ''resource `acp` is not found'', s)
            | Some a \<Rightarrow> do {
                n \<leftarrow> heap s a;
                if n_ty n \<noteq> RT_ACP
                then Some (RSC_BAD_REQUEST, handle_error o2pt RSC_BAD_REQUEST
                  ''attribute `acpi` does not reference an accessControlPolicy resource'', s)
                else check_acpi_entries E s o2pt es } })"

definition validate_acpi :: "'d env \<Rightarrow> 'd cse \<Rightarrow> oneM2MPrimitive \<Rightarrow> cjson option \<Rightarrow> operation \<Rightarrow> 'd outcome" where
  "validate_acpi E s o2pt acpiAttr op =
     (case acpiAttr of
        None \<Rightarrow> Some (RSC_OK, o2pt, s)
      | Some j \<Rightarrow>
          if j = JNull
          then (if op = OP_UPDATE then Some (RSC_OK, o2pt, s)
                else Some (RSC_BAD_REQUEST, handle_error o2pt RSC_BAD_REQUEST ''attribute `acpi` is null'', s))
          else if \<not> cJSON_IsArray (Some j)
          then Some (RSC_BAD_REQUEST, handle_error o2pt RSC_BAD_REQUEST ''attribute `acpi` is in invalid form'', s)
          else if cJSON_GetArraySize (Some j) = 0
          then Some (RSC_BAD_REQUEST, handle_error o2pt RSC_BAD_REQUEST ''attribute `acpi` is empty'', s)
          else check_acpi_entries E s o2pt (elems (Some j)))"

definition ipv4_entry_valid :: "cjson \<Rightarrow> bool" where
  "ipv4_entry_valid e =
     (case valuestring e of
        None \<Rightarrow> False
      | Some v \<Rightarrow>
          (case strchr v CHR ''/'' of
             None \<Rightarrow> inet_pton v \<noteq> None
           | Some t \<Rightarrow> (let mask = atoi (drop 1 t) in mask \<le> 32 \<and> 0 \<le> mask \<and> inet_pton (before CHR ''/'' v) \<noteq> None)))"

fun acr_error :: "cjson list \<Rightarrow> string option" where
  "acr_error [] = None"
| "acr_error (acr # acrs) =
     (let acor = cJSON_GetObjectItem (Some acr) ''acor''; acop = cJSON_GetObjectItem (Some acr) ''acop'' in
      if \<not> cJSON_IsObject (Some acr) then Some ''attribute `acr` is in invalid form''
      else if \<not> cJSON_IsArray acor \<or> cJSON_GetArraySize acor = 0 then Some ''attribute `acor` is invalid''
      else if \<not> (case acop of Some (JNumber n) \<Rightarrow> valueint (JNumber n) \<le> 63 \<and> 0 \<le> valueint (JNumber n) | _ \<Rightarrow> False)
      then Some ''attribute `acop` is invalid''
      else if \<not> list_all ipv4_entry_valid
        (elems (cJSON_GetObjectItem (cJSON_GetObjectItem (cJSON_GetObjectItem (Some acr) ''acco'') ''acip'') ''ipv4''))
      then Some ''ip in attribute `acip` is invalid''
      else acr_error acrs)"

definition validate_acr :: "oneM2MPrimitive \<Rightarrow> cjson option \<Rightarrow> checked" where
  "validate_acr o2pt acr_attr =
     (if \<not> cJSON_IsArray acr_attr then reject o2pt RSC_BAD_REQUEST ''attribute `acr` is in invalid form''
      else case acr_error (elems acr_attr) of
             None \<Rightarrow> (RSC_OK, o2pt)
           | Some err \<Rightarrow> reject o2pt RSC_BAD_REQUEST err)"

definition validate_acp_acr :: "oneM2MPrimitive \<Rightarrow> cjson option \<Rightarrow> string \<Rightarrow> bool \<Rightarrow> checked" where
  "validate_acp_acr o2pt privilege name require_non_empty =
     (let acr = cJSON_GetObjectItem privilege ''acr'' in
      if \<not> cJSON_IsObject privilege
      then reject o2pt RSC_BAD_REQUEST (take 127 (''attribute `'' @ name @ ''` is in invalid form''))
      else if \<not> cJSON_IsArray acr then reject o2pt RSC_BAD_REQUEST ''insufficient mandatory attribute(s)''
      else if require_non_empty \<and> cJSON_GetArraySize acr = 0
      then reject o2pt RSC_BAD_REQUEST ''empty `acr` is not allowed''
      else let (rsc, o2pt) = validate_acr o2pt acr in
           if rsc \<noteq> RSC_OK then (p_rsc o2pt, o2pt) else (RSC_OK, o2pt))"

text \<open>\<^verbatim>\<open>validate_acp\<close> returns the changed contents with the code and the primitive.\<close>

definition acp_privileges :: "oneM2MPrimitive \<Rightarrow> cjson \<Rightarrow> operation \<Rightarrow> checked" where
  "acp_privileges o2pt acp op =
     (let pv = cJSON_GetObjectItem (Some acp) ''pv''; pvs = cJSON_GetObjectItem (Some acp) ''pvs'';
          (rsc, o2pt) = (if op = OP_CREATE \<or> (op = OP_UPDATE \<and> pv \<noteq> None)
                         then validate_acp_acr o2pt pv ''pv'' False else (RSC_OK, o2pt))
      in if rsc \<noteq> RSC_OK then (p_rsc o2pt, o2pt)
         else let (rsc, o2pt) = (if op = OP_CREATE \<or> (op = OP_UPDATE \<and> pvs \<noteq> None)
                                 then validate_acp_acr o2pt pvs ''pvs'' True else (RSC_OK, o2pt))
              in if rsc \<noteq> RSC_OK then (p_rsc o2pt, o2pt) else (RSC_OK, o2pt))"

definition validate_acp :: "oneM2MPrimitive \<Rightarrow> cjson option \<Rightarrow> operation \<Rightarrow> int \<times> oneM2MPrimitive \<times> cjson option" where
  "validate_acp o2pt acp op =
     (case acp of
        None \<Rightarrow> (RSC_BAD_REQUEST, handle_error o2pt RSC_BAD_REQUEST ''insufficient mandatory attribute(s)'', acp)
      | Some j \<Rightarrow>
          (case validate_mandatory_attrs RT_ACP acp op of
             Some err \<Rightarrow> (RSC_BAD_REQUEST, handle_error o2pt RSC_BAD_REQUEST err, acp)
           | None \<Rightarrow>
               (let (rsc, o2pt) = acp_privileges o2pt j op in
                if rsc \<noteq> RSC_OK then (rsc, o2pt, acp)
                else (RSC_OK, o2pt, Some (validate_aa o2pt j RT_ACP)))))"

section \<open>Containers and their instances\<close>

type_synonym 'd validated = "(int \<times> oneM2MPrimitive \<times> cjson \<times> 'd cse) option"

definition cnt_acpi :: "'d env \<Rightarrow> 'd cse \<Rightarrow> oneM2MPrimitive \<Rightarrow> cjson \<Rightarrow> operation \<Rightarrow> 'd outcome" where
  "cnt_acpi E s o2pt cnt op =
     (case cJSON_GetObjectItem (Some cnt) ''acpi'' of
        None \<Rightarrow> Some (RSC_OK, o2pt, s)
      | Some j \<Rightarrow>
          if op = OP_CREATE then validate_acpi E s o2pt (Some j) op
          else if op = OP_UPDATE
          then (if cJSON_GetArraySize (Some cnt) > 1
                then Some (RSC_BAD_REQUEST, handle_error o2pt RSC_BAD_REQUEST
                       ''only attribute `acpi` is allowed when updating `acpi`'', s)
                else validate_acpi E s o2pt (Some j) op)
          else Some (RSC_OK, o2pt, s))"

definition negative_attr :: "cjson \<Rightarrow> string \<Rightarrow> bool" where
  "negative_attr cnt k = (case cJSON_GetObjectItem (Some cnt) k of None \<Rightarrow> False | Some j \<Rightarrow> valueint j < 0)"

definition reserved_rn :: "cjson \<Rightarrow> bool option" where
  "reserved_rn j =
     (case cJSON_GetObjectItem (Some j) ''rn'' of
        None \<Rightarrow> Some False
      | Some r \<Rightarrow> do { rn \<leftarrow> valuestring r; Some (rn \<in> {''la'', ''ol'', ''latest'', ''oldest''}) })"

text \<open>
  A reserved name is recorded in the primitive as OPERATION\_NOT\_ALLOWED and returned as
  BAD\_REQUEST. \<^verbatim>\<open>rvi >= 3\<close> compares with the number 3, which is release 2a.
\<close>

definition validate_cnt :: "'d env \<Rightarrow> 'd cse \<Rightarrow> oneM2MPrimitive \<Rightarrow> cjson option \<Rightarrow> operation \<Rightarrow> 'd validated" where
  "validate_cnt E s o2pt cnt_opt op =
     (case cnt_opt of
        None \<Rightarrow>
          (let rsc = (if 3 \<le> rvi_code (p_rvi o2pt) then RSC_CONTENTS_UNACCEPTABLE else RSC_BAD_REQUEST)
           in Some (rsc, handle_error o2pt rsc ''insufficient mandatory attribute(s)'', JNull, s))
      | Some cnt \<Rightarrow>
          (case validate_mandatory_attrs RT_CNT cnt_opt op of
             Some err \<Rightarrow> Some (RSC_BAD_REQUEST, handle_error o2pt RSC_BAD_REQUEST err, cnt, s)
           | None \<Rightarrow> do {
               reserved \<leftarrow> reserved_rn cnt;
               if reserved
               then Some (RSC_BAD_REQUEST, handle_error o2pt RSC_OPERATION_NOT_ALLOWED ''attribute `rn` is invalid'', cnt, s)
               else do {
                 (rsc, o2pt, s) \<leftarrow> cnt_acpi E s o2pt cnt op;
                 if rsc \<noteq> RSC_OK then Some (rsc, o2pt, cnt, s)
                 else if negative_attr cnt ''mia''
                 then Some (RSC_BAD_REQUEST, handle_error o2pt RSC_BAD_REQUEST ''attribute `mia` is invalid'', cnt, s)
                 else if negative_attr cnt ''mni''
                 then Some (RSC_BAD_REQUEST, handle_error o2pt RSC_BAD_REQUEST ''attribute `mni` is invalid'', cnt, s)
                 else if negative_attr cnt ''mbs''
                 then Some (RSC_BAD_REQUEST, handle_error o2pt RSC_BAD_REQUEST ''attribute `mbs` is invalid'', cnt, s)
                 else Some (RSC_OK, o2pt, validate_aa o2pt cnt RT_CNT, s) } }))"

text \<open>The regular expression \<^verbatim>\<open>^[^:/]+/[^:/]+:[0-2](:[0-5])?$\<close>.\<close>

definition cnf_char :: "char \<Rightarrow> bool" where
  "cnf_char c \<longleftrightarrow> c \<noteq> CHR '':'' \<and> c \<noteq> CHR ''/''"

definition cnf_encoding :: "string \<Rightarrow> bool" where
  "cnf_encoding s =
     (case s of
        c # d # r \<Rightarrow> c = CHR '':'' \<and> d \<in> set ''012'' \<and>
          (r = [] \<or> (case r of [e, f] \<Rightarrow> e = CHR '':'' \<and> f \<in> set ''012345'' | _ \<Rightarrow> False))
      | _ \<Rightarrow> False)"

definition validate_cnf :: "string \<Rightarrow> bool" where
  "validate_cnf cnf =
     (takeWhile cnf_char cnf \<noteq> [] \<and>
      (case dropWhile cnf_char cnf of
         c # t \<Rightarrow> c = CHR ''/'' \<and> takeWhile cnf_char t \<noteq> [] \<and> cnf_encoding (dropWhile cnf_char t)
       | [] \<Rightarrow> False))"

definition cin_too_large :: "cjson option \<Rightarrow> cjson \<Rightarrow> bool" where
  "cin_too_large parent_cnt cin =
     (case (cJSON_GetObjectItem parent_cnt ''mbs'', cJSON_GetObjectItem (Some cin) ''cs'') of
        (Some mbs, Some cs) \<Rightarrow> 0 \<le> valueint mbs \<and> valueint mbs < valueint cs
      | _ \<Rightarrow> False)"

definition validate_cin ::
    "oneM2MPrimitive \<Rightarrow> cjson option \<Rightarrow> cjson option \<Rightarrow> operation \<Rightarrow> (int \<times> oneM2MPrimitive \<times> cjson option) option" where
  "validate_cin o2pt parent_cnt cin_opt op =
     (case validate_mandatory_attrs RT_CIN cin_opt op of
        Some err \<Rightarrow> Some (RSC_BAD_REQUEST, handle_error o2pt RSC_BAD_REQUEST err, cin_opt)
      | None \<Rightarrow>
          (case cin_opt of
             None \<Rightarrow> Some (RSC_OK, o2pt, None)
           | Some cin \<Rightarrow> do {
               reserved \<leftarrow> reserved_rn cin;
               if reserved
               then Some (RSC_BAD_REQUEST, handle_error o2pt RSC_NOT_ACCEPTABLE ''attribute `rn` is invalid'', cin_opt)
               else if cJSON_GetObjectItem (Some cin) ''acpi'' \<noteq> None
               then Some (RSC_BAD_REQUEST,
                 handle_error o2pt RSC_BAD_REQUEST ''attribute `acpi` for `cin` is not supported'', cin_opt)
               else if cin_too_large parent_cnt cin
               then Some (RSC_NOT_ACCEPTABLE, handle_error o2pt RSC_NOT_ACCEPTABLE ''contentInstance size exceed `mbs`'', cin_opt)
               else do {
                 ok \<leftarrow> (case cJSON_GetObjectItem (Some cin) ''cnf'' of
                         None \<Rightarrow> Some True
                       | Some j \<Rightarrow> do { cnf \<leftarrow> valuestring j; Some (validate_cnf cnf) });
                 if \<not> ok then Some (RSC_BAD_REQUEST, handle_error o2pt RSC_BAD_REQUEST ''attribute `cnf` is invalid'', cin_opt)
                 else Some (RSC_OK, o2pt, Some (validate_aa o2pt cin RT_CIN)) } }))"

section \<open>Application entities\<close>

definition check_aei_invalid :: "oneM2MPrimitive \<Rightarrow> checked" where
  "check_aei_invalid o2pt =
     (if p_fr o2pt = Some CSE_BASE_RI
      then fail o2pt RSC_SECURITY_ASSOCIATION_REQUIRED ''originator is CSE-ID without secure context''
      else pass o2pt)"

definition api_prefix_valid :: "rvi \<Rightarrow> string \<Rightarrow> bool" where
  "api_prefix_valid rvi api =
     (if rvi \<le> RVI_3 then take 1 api \<in> {''R'', ''N'', ''r''}
      else if RVI_4 \<le> rvi then take 1 api \<in> {''R'', ''N''} else True)"

definition ae_acpi :: "'d env \<Rightarrow> 'd cse \<Rightarrow> oneM2MPrimitive \<Rightarrow> cjson \<Rightarrow> operation \<Rightarrow> 'd outcome" where
  "ae_acpi E s o2pt ae op =
     (case cJSON_GetObjectItem (Some ae) ''acpi'' of
        None \<Rightarrow> Some (RSC_OK, o2pt, s)
      | Some j \<Rightarrow> do {
          (rsc, o2pt, s) \<leftarrow> (if op = OP_CREATE \<or> op = OP_UPDATE then validate_acpi E s o2pt (Some j) op else Some (RSC_OK, o2pt, s));
          if rsc \<noteq> RSC_OK then Some (rsc, o2pt, s)
          else if j \<noteq> JNull \<and> cJSON_GetArraySize (Some j) = 0
          then Some (RSC_BAD_REQUEST, handle_error o2pt RSC_BAD_REQUEST ''empty `acpi` is not allowed'', s)
          else Some (RSC_OK, o2pt, s) })"

definition validate_ae :: "'d env \<Rightarrow> 'd cse \<Rightarrow> oneM2MPrimitive \<Rightarrow> cjson option \<Rightarrow> operation \<Rightarrow> 'd validated" where
  "validate_ae E s o2pt ae_opt op =
     (case ae_opt of
        None \<Rightarrow>
          (let rsc = (if RVI_3 \<le> p_rvi o2pt then RSC_CONTENTS_UNACCEPTABLE else RSC_BAD_REQUEST)
           in Some (rsc, handle_error o2pt rsc ''insufficient mandatory attribute(s)'', JNull, s))
      | Some ae \<Rightarrow>
          if cJSON_GetObjectItem (Some ae) ''aei'' \<noteq> None
          then Some (RSC_BAD_REQUEST, handle_error o2pt RSC_BAD_REQUEST ''attribute `aei` is not allowed'', ae, s)
          else (case validate_mandatory_attrs RT_AE ae_opt op of
             Some err \<Rightarrow> Some (RSC_BAD_REQUEST, handle_error o2pt RSC_BAD_REQUEST err, ae, s)
           | None \<Rightarrow> do {
               api_ok \<leftarrow> (if op = OP_CREATE
                          then do { api \<leftarrow> member_string (Some ae) ''api''; Some (api_prefix_valid (p_rvi o2pt) api) }
                          else Some True);
               if \<not> api_ok then Some (RSC_BAD_REQUEST, handle_error o2pt RSC_BAD_REQUEST ''attribute `api` prefix is invalid'', ae, s)
               else do {
                 rn_ok \<leftarrow> (case cJSON_GetObjectItem (Some ae) ''rn'' of
                            None \<Rightarrow> Some True
                          | Some j \<Rightarrow> do { rn \<leftarrow> valuestring j; Some (CHR ''/'' \<notin> set rn) });
                 if \<not> rn_ok then Some (RSC_BAD_REQUEST, handle_error o2pt RSC_BAD_REQUEST ''attribute `rn` is invalid'', ae, s)
                 else do {
                   let ae = validate_aa o2pt ae RT_AE;
                   (rsc, o2pt, s) \<leftarrow> ae_acpi E s o2pt ae op;
                   Some (rsc, o2pt, ae, s) } } }))"

end
