(* ===== verification/ValidationProps.thy ===== *)
theory ValidationProps
  imports Validation
begin

text \<open>
  What a successful validation guarantees: every member of a resource is a known attribute
  of its type, a reference list names existing access control policies, and an access
  control rule has originators and operations in range.
\<close>

section \<open>Attribute types\<close>

text \<open>
  The values an entry of the attribute tables describes, written out kind by kind. The entry of a
  list describes its elements by its first element: an element has the same kind, and each member of an
  element that is an object is described in turn. Of the members of an object only those that have members or elements
  themselves are looked at. Null stands for every attribute.
\<close>

inductive typed_value :: "cjson \<Rightarrow> cjson \<Rightarrow> bool" where
  Absent: "typed_value e JNull"
| String: "typed_value (JString a) (JString b)"
| Number: "typed_value (JNumber m) (JNumber n)"
| Truth: "e = JTrue \<or> e = JFalse \<Longrightarrow> v = JTrue \<or> v = JFalse \<Longrightarrow> typed_value e v"
| Object: "\<forall>(k, w) \<in> set kvs. elems (Some w) \<noteq> [] \<longrightarrow>
      (\<exists>e. cJSON_GetObjectItem (Some (JObject es)) k = Some e \<and> typed_value e w) \<Longrightarrow>
    typed_value (JObject es) (JObject kvs)"
| List: "\<forall>x \<in> set xs. \<exists>c cs. es = c # cs \<and> cJSON_type x = cJSON_type c \<and>
      (\<forall>kvs. x = JObject kvs \<longrightarrow> (\<forall>(k, w) \<in> set kvs. \<exists>e. cJSON_GetObjectItem (Some c) k = Some e \<and> typed_value e w)) \<Longrightarrow>
    typed_value (JArray es) (JArray xs)"

inductive_simps typed_value_kinds:
  "typed_value e JNull" "typed_value e (JString s)" "typed_value e (JNumber n)" "typed_value e JTrue" "typed_value e JFalse"
  "typed_value e (JObject kvs)" "typed_value e (JArray xs)"

definition typed_member :: "cjson \<Rightarrow> string \<Rightarrow> cjson \<Rightarrow> bool" where
  "typed_member table k v \<longleftrightarrow> (\<exists>e. cJSON_GetObjectItem (Some table) k = Some e \<and> typed_value e v)"

lemma each_iff:
  "(\<And>x e b e'. x \<in> set xs \<Longrightarrow> f x e = Some (b, e') \<Longrightarrow> b = P x) \<Longrightarrow> each f xs err = Some (b, err') \<Longrightarrow>
   b = (\<forall>x \<in> set xs. P x)"
proof (induction xs arbitrary: err)
  case (Cons x xs)
  from Cons.prems(2) obtain b1 e1 where x: "f x err = Some (b1, e1)" by (auto simp: bind_eq_Some_conv)
  then have "b1 = P x" using Cons.prems(1) by simp
  then show ?case using Cons x by (cases b1) auto
qed simp

lemma complain_True [simp]: "complain what key \<noteq> Some (True, err)"
  by (simp add: complain_def)

lemma kind_object: "cJSON_type c = T_Object \<longleftrightarrow> cJSON_IsObject (Some c)"
  by (cases c) (simp_all add: cJSON_IsObject_def)

lemma validate_sub_attr_iff:
  "cJSON_IsObject (Some table) \<Longrightarrow> validate_sub_attr table k v err = Some (b, err') \<Longrightarrow> b = typed_member table k v"
proof (induction v arbitrary: table k err b err' rule: measure_induct_rule [of size])
  case (less v)
  show ?case
  proof (cases "cJSON_GetObjectItem (Some table) k")
    case None
    moreover have "cJSON_type table \<noteq> T_Array" using less.prems(1) by (cases table) (auto simp: cJSON_IsObject_def)
    ultimately show ?thesis
      using less.prems(2) by (auto simp: find_verifier_def typed_member_def complain_def split: if_splits)
  next
    case (Some e)
    then have fv: "find_verifier table k = Some e" and m: "typed_member table k v \<longleftrightarrow> typed_value e v"
      by (auto simp: find_verifier_def typed_member_def)
    show ?thesis
    proof (cases "type_matches e v")
      case False
      then have "\<not> typed_value e v" by (auto simp: type_matches_def elim: typed_value.cases)
      with False fv m less.prems(2) show ?thesis by (auto simp: complain_def split: if_splits)
    next
      case match: True
      show ?thesis
      proof (cases v)
        case (JObject kvs)
        with match obtain es where e: "e = JObject es" by (cases e) (auto simp: type_matches_def)
        have "b = (\<forall>p \<in> set kvs. elems (Some (snd p)) \<noteq> [] \<longrightarrow> typed_member e (fst p) (snd p))"
        proof (rule each_iff)
          show "each (\<lambda>p err. if cJSON_GetArraySize (Some (snd p)) > 0 then validate_sub_attr e (fst p) (snd p) err
              else Some (True, err)) kvs err = Some (b, err')"
            using less.prems(2) fv match JObject by simp
          fix p err1 b1 err2
          assume p: "p \<in> set kvs" "(if cJSON_GetArraySize (Some (snd p)) > 0 then validate_sub_attr e (fst p) (snd p) err1
              else Some (True, err1)) = Some (b1, err2)"
          have "size (snd p) < size v" using member_size [of "fst p" "snd p" kvs] p(1) JObject by simp
          from less.IH [OF this, of e "fst p" err1 b1 err2] p(2) e
          show "b1 = (elems (Some (snd p)) \<noteq> [] \<longrightarrow> typed_member e (fst p) (snd p))"
            by (auto simp: cJSON_GetArraySize_def cJSON_IsObject_def simp del: validate_sub_attr.simps split: if_splits)
        qed
        then show ?thesis using m JObject e by (auto simp: typed_value_kinds typed_member_def)
      next
        case (JArray xs)
        with match obtain es where e: "e = JArray es" by (cases e) (auto simp: type_matches_def)
        let ?P = "\<lambda>x. \<exists>c cs. es = c # cs \<and> cJSON_type x = cJSON_type c \<and>
            (\<forall>kvs. x = JObject kvs \<longrightarrow> (\<forall>p \<in> set kvs. typed_member c (fst p) (snd p)))"
        have "b = (\<forall>x \<in> set xs. ?P x)"
        proof (rule each_iff)
          show "each (\<lambda>x err. do {
              child \<leftarrow> cJSON_GetArrayItem (Some e) 0;
              if cJSON_type x \<noteq> cJSON_type child then complain ''invalid attribute type : '' k
              else (case x of
                      JObject kvs \<Rightarrow> each (\<lambda>p err. validate_sub_attr child (fst p) (snd p) err) kvs err
                    | _ \<Rightarrow> Some (True, err)) }) xs err = Some (b, err')"
            using less.prems(2) fv match JArray by simp
          fix x err1 b1 err2
          assume x: "x \<in> set xs" "(do {
              child \<leftarrow> cJSON_GetArrayItem (Some e) 0;
              if cJSON_type x \<noteq> cJSON_type child then complain ''invalid attribute type : '' k
              else (case x of
                      JObject kvs \<Rightarrow> each (\<lambda>p err. validate_sub_attr child (fst p) (snd p) err) kvs err1
                    | _ \<Rightarrow> Some (True, err1)) }) = Some (b1, err2)"
          then obtain c cs where c: "es = c # cs" using e by (cases es) (auto simp: cJSON_GetArrayItem_def)
          show "b1 = ?P x"
          proof (cases x)
            case (JObject kvs)
            show ?thesis
            proof (cases "cJSON_type c = T_Object")
              case True
              have "b1 = (\<forall>p \<in> set kvs. typed_member c (fst p) (snd p))"
              proof (rule each_iff)
                show "each (\<lambda>p err. validate_sub_attr c (fst p) (snd p) err) kvs err1 = Some (b1, err2)"
                  using x(2) e c JObject True by (simp add: cJSON_GetArrayItem_def del: validate_sub_attr.simps)
                fix p err3 b2 err4
                assume p: "p \<in> set kvs" "validate_sub_attr c (fst p) (snd p) err3 = Some (b2, err4)"
                have "size (snd p) < size v"
                  using member_size [of "fst p" "snd p" kvs] elem_size [OF x(1)] p(1) JObject JArray by simp
                from less.IH [OF this _ p(2)] True show "b2 = typed_member c (fst p) (snd p)" by (simp add: kind_object)
              qed
              with True JObject c show ?thesis by auto
            qed (use x(2) e c JObject in \<open>auto simp: cJSON_GetArrayItem_def complain_def split: if_splits\<close>)
          qed (use x(2) e c in \<open>auto simp: cJSON_GetArrayItem_def complain_def split: if_splits\<close>)
        qed
        then show ?thesis using m JArray e by (fastforce simp: typed_value_kinds typed_member_def)
      qed (use match fv m less.prems(2) in \<open>cases e; auto simp: type_matches_def typed_value_kinds\<close>)+
    qed
  qed
qed

lemma attr_valid_iff:
  assumes "cJSON_IsObject (Some attrs)" "cJSON_IsObject (Some general)" "attr_valid attrs general p err = Some (b, err')"
  shows "b = (\<exists>n. fst p = Some n \<and> (typed_member attrs n (snd p) \<or> typed_member general n (snd p)))"
proof -
  from assms(3) obtain n b1 e1 where n: "fst p = Some n" "validate_sub_attr attrs n (snd p) err = Some (b1, e1)"
    "if b1 then b \<and> err' = e1 else validate_sub_attr general n (snd p) e1 = Some (b, err')"
    by (auto simp: attr_valid_def bind_eq_Some_conv simp del: validate_sub_attr.simps split: if_splits)
  with validate_sub_attr_iff [OF assms(1) n(2)] validate_sub_attr_iff [OF assms(2), of n "snd p" e1 b err'] show ?thesis
    by (auto simp del: validate_sub_attr.simps split: if_splits)
qed

text \<open>
  C35. Attribute check: when \<^verbatim>\<open>is_attr_valid\<close> returns (its message fits the buffer), it accepts the contents of a request if and
  only if the resource is there and each of its members is an attribute of the resource type or a general attribute with a value
  of the kind its entry in the attribute tables describes: null, a text for a text, a number for a number, a truth value for
  a truth value, a list whose elements have the kind of the first element of the entry, an object.
\<close>

theorem is_attr_valid_conforms:
  assumes "is_attr_valid (Some pc) ty = Some (ok, err)"
  shows "ok \<longleftrightarrow> (\<exists>as gs body. cJSON_GetObjectItem (Some ATTRIBUTES) (get_resource_key ty) = Some (JObject as) \<and>
    cJSON_GetObjectItem (Some ATTRIBUTES) ''general'' = Some (JObject gs) \<and>
    cJSON_GetObjectItem (Some pc) (get_resource_key ty) = Some body \<and>
    (\<forall>(k, v) \<in> set (items body). \<exists>n. k = Some n \<and> (typed_member (JObject as) n v \<or> typed_member (JObject gs) n v)))"
proof -
  obtain gs where gs: "cJSON_GetObjectItem (Some ATTRIBUTES) ''general'' = Some (JObject gs)"
    by (simp add: ATTRIBUTES_def ci_eq_def tolower_def)
  show ?thesis
  proof (cases "\<exists>as body. cJSON_GetObjectItem (Some ATTRIBUTES) (get_resource_key ty) = Some (JObject as) \<and>
      cJSON_GetObjectItem (Some pc) (get_resource_key ty) = Some body")
    case True
    then obtain as body where b: "cJSON_GetObjectItem (Some ATTRIBUTES) (get_resource_key ty) = Some (JObject as)"
      "cJSON_GetObjectItem (Some pc) (get_resource_key ty) = Some body" by blast
    have "ok = (\<forall>p \<in> set (items body). \<exists>n. fst p = Some n \<and>
        (typed_member (JObject as) n (snd p) \<or> typed_member (JObject gs) n (snd p)))"
    proof (rule each_iff)
      show "each (attr_valid (JObject as) (JObject gs)) (items body) [] = Some (ok, err)"
        using assms b gs by (simp add: is_attr_valid_def cJSON_IsObject_def)
    qed (rule attr_valid_iff, auto simp: cJSON_IsObject_def)
    with b gs show ?thesis by (auto simp: split_beta)
  next
    case False
    then have "\<not> ok" using assms gs
      by (auto simp: is_attr_valid_def cJSON_IsObject_def split: option.splits cjson.splits if_splits)
    with False show ?thesis by blast
  qed
qed

theorem is_attr_valid_conforms_witness:
  "(\<exists>err. is_attr_valid (Some (JObject [(''m2m:cnt'', JObject [(''lbl'', JArray [JString ''x''])])])) RT_CNT = Some (True, err)) \<and>
   (\<exists>err. is_attr_valid (Some (JObject [(''m2m:cnt'', JObject [(''lbl'', JNumber 1)])])) RT_CNT = Some (False, err)) \<and>
   (\<exists>gs. cJSON_GetObjectItem (Some ATTRIBUTES) ''general'' = Some (JObject gs) \<and>
     (\<exists>as. cJSON_GetObjectItem (Some ATTRIBUTES) ''m2m:cnt'' = Some (JObject as) \<and>
       (typed_member (JObject as) ''lbl'' (JArray [JString ''x'']) \<or> typed_member (JObject gs) ''lbl'' (JArray [JString ''x''])) \<and>
       \<not> typed_member (JObject gs) ''lbl'' (JNumber 1)))"
proof -
  have key: "get_resource_key RT_CNT = ''m2m:cnt''" by (simp add: get_resource_key_def resource_key_table_def)
  have yes: "is_attr_valid (Some (JObject [(''m2m:cnt'', JObject [(''lbl'', JArray [JString ''x''])])])) RT_CNT =
      Some (True, ''invalid attribute : lbl'')" by code_simp
  have no: "is_attr_valid (Some (JObject [(''m2m:cnt'', JObject [(''lbl'', JNumber 1)])])) RT_CNT =
      Some (False, ''invalid attribute type : lbl'')" by code_simp
  from is_attr_valid_conforms [OF yes] is_attr_valid_conforms [OF no] yes no show ?thesis
    unfolding key by (auto simp: ci_eq_def tolower_def simp del: validate_sub_attr.simps)
qed

section \<open>References to policies\<close>

definition quiet_refs :: "'d env \<Rightarrow> 'd cse \<Rightarrow> cjson list \<Rightarrow> bool" where
  "quiet_refs E s es \<longleftrightarrow>
     (\<forall>acpi. JString acpi \<in> set es \<longrightarrow>
        (\<exists>p. find_rtnode E s (Some acpi) = Some (p, s) \<and> (\<forall>a. p = Some a \<longrightarrow> heap s a \<noteq> None)))"

definition names_policy :: "'d env \<Rightarrow> 'd cse \<Rightarrow> cjson \<Rightarrow> bool" where
  "names_policy E s e \<longleftrightarrow>
     (\<exists>acpi a n. e = JString acpi \<and> \<not> is_blank_string (Some acpi) \<and>
        find_rtnode E s (Some acpi) = Some (Some a, s) \<and> heap s a = Some n \<and> n_ty n = RT_ACP)"

lemma check_acpi_entries_iff:
  fixes o2pt :: oneM2MPrimitive
  shows "quiet_refs E s es \<Longrightarrow>
   (if list_all (names_policy E s) es then check_acpi_entries E s o2pt es = Some (RSC_OK, o2pt, s)
    else \<exists>err. check_acpi_entries E s o2pt es = Some (RSC_BAD_REQUEST, handle_error o2pt RSC_BAD_REQUEST err, s))"
proof (induction es)
  case (Cons e es)
  then have IH: "if list_all (names_policy E s) es then check_acpi_entries E s o2pt es = Some (RSC_OK, o2pt, s)
      else \<exists>err. check_acpi_entries E s o2pt es = Some (RSC_BAD_REQUEST, handle_error o2pt RSC_BAD_REQUEST err, s)"
    by (simp add: quiet_refs_def)
  show ?case
  proof (cases e)
    case (JString acpi)
    then obtain p where p: "find_rtnode E s (Some acpi) = Some (p, s)" "\<And>a. p = Some a \<Longrightarrow> heap s a \<noteq> None"
      using Cons.prems by (auto simp: quiet_refs_def)
    show ?thesis
    proof (cases p)
      case None
      with p JString show ?thesis by (cases "is_blank_string (Some acpi)") (auto simp: names_policy_def)
    next
      case (Some a)
      with p(2) obtain n where n: "heap s a = Some n" by blast
      have "names_policy E s e \<longleftrightarrow> \<not> is_blank_string (Some acpi) \<and> n_ty n = RT_ACP"
        using p(1) Some JString n by (auto simp: names_policy_def)
      with p(1) Some JString n IH show ?thesis by auto
    qed
  qed (auto simp: names_policy_def)
qed simp

text \<open>
  References to access control policies: in a state that the lookups leave alone, an \<^verbatim>\<open>acpi\<close>
  attribute of a CREATE request is accepted if and only if it is a non-empty list whose
  entries are all strings that resolve to existing access control policies. Everything else
  is refused with BAD\_REQUEST and the error recorded in the primitive.
\<close>

theorem validate_acpi_create:
  assumes "quiet_refs E s (elems (Some j))"
  shows "(validate_acpi E s o2pt (Some j) OP_CREATE = Some (RSC_OK, o2pt, s) \<longleftrightarrow>
      (\<exists>es. j = JArray es \<and> es \<noteq> [] \<and> list_all (names_policy E s) es)) \<and>
    (validate_acpi E s o2pt (Some j) OP_CREATE = Some (RSC_OK, o2pt, s) \<or>
     (\<exists>err. validate_acpi E s o2pt (Some j) OP_CREATE = Some (RSC_BAD_REQUEST, handle_error o2pt RSC_BAD_REQUEST err, s)))"
proof (cases j)
  case (JArray es)
  with assms check_acpi_entries_iff [of E s es o2pt] show ?thesis
    by (cases "list_all (names_policy E s) es")
      (auto simp: validate_acpi_def cJSON_IsArray_def cJSON_GetArraySize_def)
qed (auto simp: validate_acpi_def cJSON_IsArray_def)

theorem validate_acpi_create_witness:
  "validate_acpi list_env ex_acp_cse (ex_request ''CAE1'') (Some (JArray [JString ''TinyIoT/acp1''])) OP_CREATE = Some (RSC_OK, (ex_request ''CAE1''), ex_acp_cse)"
proof -
  let ?es = "[JString ''TinyIoT/acp1'']"
  have "quiet_refs list_env ex_acp_cse (elems (Some (JArray ?es)))"
    using ex_acp_nodes(1) by (simp add: quiet_refs_def ex_acp_lookup del: One_nat_def)
  moreover have "list_all (names_policy list_env ex_acp_cse) ?es"
    using ex_acp_nodes(1) by (simp add: names_policy_def ex_acp_lookup mk_node_def is_blank_string_def isspace_def del: One_nat_def)
  ultimately show ?thesis using validate_acpi_create [of list_env ex_acp_cse "JArray ?es" "ex_request ''CAE1''"] by blast
qed

end
