(* ===== verification/Remote.thy ===== *)
theory Remote
  imports Announce
begin

text \<open>
  Requests to other CSEs (\<^verbatim>\<open>onem2m.c\<close>, \<^verbatim>\<open>rtManager.c\<close>, \<^verbatim>\<open>util.c\<close>): the choice of the remote CSE, forwarding,
  and the creation, update and removal of announced copies.

  The transport is the parameter \<open>e_http_forwarding\<close>. The build configuration enables HTTP only
  (\<^verbatim>\<open>config.h\<close>), so a point of access of another protocol is passed over without sending
  anything. A fixed buffer that is too small is undefined.
\<close>

section \<open>The next hop\<close>

text \<open>\<^verbatim>\<open>strtok_r(p, "/", ...)\<close> on the text after a prefix cuts the whole string after the first token.\<close>

definition first_token_cut :: "string \<Rightarrow> string \<Rightarrow> string option" where
  "first_token_cut prefix r =
     (let sl = takeWhile (\<lambda>c. c = CHR ''/'') r; tok = takeWhile (\<lambda>c. c \<noteq> CHR ''/'') (drop (length sl) r)
      in if tok = [] then None else Some (prefix @ sl @ tok))"

fun any_string_eq :: "cjson list \<Rightarrow> string \<Rightarrow> bool option" where
  "any_string_eq [] v = Some False"
| "any_string_eq (e # es) v = do { s \<leftarrow> valuestring e; if s = v then Some True else any_string_eq es v }"

fun find_csr :: "heap \<Rightarrow> string \<Rightarrow> nodelist \<Rightarrow> ptr option" where
  "find_csr h target_uri [] = Some None"
| "find_csr h target_uri ((a, u) # l) =
     do {
       n \<leftarrow> h a;
       csi \<leftarrow> member_string (n_obj n) ''csi'';
       if csi = target_uri then Some (Some a)
       else do {
         d \<leftarrow> any_string_eq (elems (cJSON_GetObjectItem (n_obj n) ''dcse'')) target_uri;
         if d then Some (Some a) else find_csr h target_uri l } }"

text \<open>
  An absolute address is not compared with the identifier of this service provider: the test
  is made on a variable that is still null.
\<close>

definition find_csr_rtnode_by_uri :: "'d cse \<Rightarrow> string option \<Rightarrow> ptr option" where
  "find_csr_rtnode_by_uri s uri_opt =
     (case uri_opt of
        None \<Rightarrow> Some None
      | Some uri \<Rightarrow> do {
          target \<leftarrow>
            (case checkResourceAddressingType (Some uri) of
               Some SP_RELATIVE \<Rightarrow> Some (first_token_cut ''/'' (drop 1 uri))
             | Some ABSOLUTE \<Rightarrow> do {
                 r \<leftarrow> strchr (drop 2 uri) CHR ''/'';
                 Some (first_token_cut (''//'' @ before CHR ''/'' (drop 2 uri) @ ''/'') (drop 1 r)) }
             | _ \<Rightarrow> Some None);
          case target of
            None \<Rightarrow> Some None
          | Some target_uri \<Rightarrow> do {
              r \<leftarrow> find_csr (heap s) target_uri (csr_list s);
              Some (case r of Some a \<Rightarrow> Some a | None \<Rightarrow> registrar_csr s) } })"

section \<open>Forwarding\<close>

text \<open>
  The loop over the points of access. The port of an address that names none is the one of the
  address before it.
\<close>

fun forward_poas :: "'d env \<Rightarrow> 'd \<Rightarrow> oneM2MPrimitive \<Rightarrow> int \<Rightarrow> cjson list \<Rightarrow> (oneM2MPrimitive \<times> 'd) option" where
  "forward_poas E d o2pt port [] = Some (o2pt, d)"
| "forward_poas E d o2pt port (poa # poas) =
     do {
       v \<leftarrow> valuestring poa;
       r \<leftarrow> parsePoa v port;
       case r of
         None \<Rightarrow> forward_poas E d o2pt port poas
       | Some (prot, host, port, _) \<Rightarrow>
           (let (o2pt, d) = (if prot = PROT_HTTP then e_http_forwarding E d host port o2pt else (o2pt, d))
            in if p_rsc o2pt \<noteq> RSC_TARGET_NOT_REACHABLE then Some (o2pt, d)
               else forward_poas E d o2pt port poas) }"

definition global_originator :: "oneM2MPrimitive \<Rightarrow> oneM2MPrimitive option" where
  "global_originator o2pt =
     (case p_fr o2pt of
        None \<Rightarrow> Some o2pt
      | Some fr \<Rightarrow>
          if checkResourceAddressingType (Some fr) = Some CSE_RELATIVE
          then (let buf = ''/'' @ CSE_BASE_RI @ ''/'' @ fr
                in if length buf < 256 then Some (o2pt\<lparr>p_fr := Some buf\<rparr>) else None)
          else Some o2pt)"

definition forwarding_onem2m_resource :: "'d env \<Rightarrow> 'd cse \<Rightarrow> oneM2MPrimitive \<Rightarrow> ptr \<Rightarrow> 'd outcome" where
  "forwarding_onem2m_resource E s o2pt target_rtnode =
     (case target_rtnode of
        None \<Rightarrow> Some (RSC_NOT_FOUND, o2pt\<lparr>p_rsc := RSC_NOT_FOUND\<rparr>, s)
      | Some a \<Rightarrow> do {
          n \<leftarrow> heap s a;
          if n_ty n \<noteq> RT_CSR then Some (RSC_NOT_FOUND, o2pt\<lparr>p_rsc := RSC_NOT_FOUND\<rparr>, s)
          else do {
            o2pt \<leftarrow> global_originator o2pt;
            (o2pt, d) \<leftarrow> forward_poas E (db s) o2pt 0 (elems (cJSON_GetObjectItem (n_obj n) ''poa''));
            Some (p_rsc o2pt, o2pt, s\<lparr>db := d\<rparr>) } })"

text \<open>\<open>rsc\<close> is the value of \<^verbatim>\<open>*rsc\<close> before the call, which stays when nothing is sent.\<close>

definition get_remote_resource :: "'d env \<Rightarrow> 'd cse \<Rightarrow> string option \<Rightarrow> string option \<Rightarrow> int \<Rightarrow> (ptr \<times> int \<times> 'd cse) option" where
  "get_remote_resource E s address originator rsc =
     (case address of
        None \<Rightarrow> Some (None, rsc, s)
      | Some adr \<Rightarrow>
          if \<not> starts_with adr ''/'' then Some (None, rsc, s)
          else do {
            csr \<leftarrow> find_csr_rtnode_by_uri s (Some adr);
            if csr = None then Some (None, rsc, s)
            else do {
              let fr = (case originator of Some (c # cs) \<Rightarrow> c # cs | _ \<Rightarrow> ''/'' @ CSE_BASE_RI);
              (_, o2pt, s) \<leftarrow> forwarding_onem2m_resource E s
                (empty_o2pt\<lparr>p_fr := Some fr, p_to := Some adr, p_op := OP_RETRIEVE,
                   p_rqi := Some ''retrieve remote resource'', p_rvi := RVI_3\<rparr>) csr;
              if p_rsc o2pt \<noteq> RSC_OK then Some (None, p_rsc o2pt, s)
              else do {
                let ty = parse_object_type_cjson (p_response_pc o2pt);
                resource \<leftarrow> cJSON_GetObjectItem (p_response_pc o2pt) (get_resource_key ty);
                (a, s) \<leftarrow> create_rtnode s resource ty;
                h \<leftarrow> upd (heap s) a (\<lambda>n. n\<lparr>n_uri := Some adr\<rparr>);
                Some (Some a, p_rsc o2pt, s\<lparr>heap := h\<rparr>) } } })"

section \<open>Announced copies\<close>

definition cba_url_from_response :: "string \<Rightarrow> cjson option \<Rightarrow> string option" where
  "cba_url_from_response poa response_pc =
     (case cJSON_GetObjectItem (cJSON_GetObjectItem response_pc (get_resource_key RT_CBA)) ''ri'' of
        Some (JString ri) \<Rightarrow> Some (take 1023 (poa @ ''/'' @ ri))
      | _ \<Rightarrow> None)"

fun cached_cba :: "string \<Rightarrow> cjson list \<Rightarrow> string option" where
  "cached_cba poa [] = None"
| "cached_cba poa (e # es) =
     (case e of
        JString v \<Rightarrow> if checkResourceCseID v poa then Some v else cached_cba poa es
      | _ \<Rightarrow> cached_cba poa es)"

abbreviation (input) DEFAULT_EXPIRE_TIME :: int where "DEFAULT_EXPIRE_TIME \<equiv> - 63072000"

definition cba_rn :: string where
  "cba_rn = CSE_BASE_RI @ ''_cba''"

definition cba_payload :: "'d env \<Rightarrow> cjson option \<Rightarrow> cjson" where
  "cba_payload E cb_obj =
     JObject [(get_resource_key RT_CBA, JObject
       ([(''lnk'', JString (''/'' @ CSE_BASE_RI @ ''/'' @ CSE_BASE_NAME))] @
        (case cJSON_GetObjectItem cb_obj ''srv'' of None \<Rightarrow> [] | Some srv \<Rightarrow> [(''srv'', srv)]) @
        [(''et'', JString (e_time E DEFAULT_EXPIRE_TIME))]))]"

definition new_cba_url :: "'d env \<Rightarrow> 'd cse \<Rightarrow> string \<Rightarrow> ptr \<Rightarrow> cjson option \<Rightarrow> (string option \<times> 'd cse) option" where
  "new_cba_url E s poa csr cb_obj =
     (let target_cb = take 511 (poa @ ''/-'') in
      if checkResourceAddressingType (Some poa) \<noteq> Some SP_RELATIVE then Some (None, s)
      else do {
        (crsc, o2pt, s) \<leftarrow> forwarding_onem2m_resource E s
          (empty_o2pt\<lparr>p_fr := Some (''/'' @ CSE_BASE_RI), p_to := Some target_cb, p_op := OP_CREATE, p_ty := RT_CBA,
             p_rqi := Some ''create-cba'', p_rvi := RVI_3, p_request_pc := Some (cba_payload E cb_obj)\<rparr>) csr;
        Some (if crsc = RSC_CONFLICT then Some (target_cb @ ''/'' @ cba_rn)
              else if crsc < 4000 then cba_url_from_response poa (p_response_pc o2pt)
              else None, s) })"

definition add_announced :: "cjson \<Rightarrow> string \<Rightarrow> cjson" where
  "add_announced obj url =
     (if cJSON_GetObjectItem (Some obj) ''at'' = None then cJSON_AddItemToObject obj ''at'' (JArray [JString url])
      else modify_member obj ''at'' (\<lambda>at. cJSON_AddItemToArray at (JString url)))"

definition create_remote_cba :: "'d env \<Rightarrow> 'd cse \<Rightarrow> string \<Rightarrow> (string option \<times> 'd cse) option" where
  "create_remote_cba E s poa =
     do {
       csr \<leftarrow> find_csr_rtnode_by_uri s (Some poa);
       if csr = None then Some (None, s)
       else do {
         cbn \<leftarrow> deref (heap s) (cb s);
         case cached_cba poa (elems (cJSON_GetObjectItem (n_obj cbn) ''at'')) of
           Some url \<Rightarrow> Some (Some url, s)
         | None \<Rightarrow> do {
             (url, s) \<leftarrow> new_cba_url E s poa csr (n_obj cbn);
             case url of
               None \<Rightarrow> Some (None, s)
             | Some u \<Rightarrow> do {
                 b \<leftarrow> cb s;
                 n \<leftarrow> heap s b;
                 obj \<leftarrow> n_obj n;
                 let obj = add_announced obj u;
                 h \<leftarrow> put_obj (heap s) b obj;
                 Some (Some u, s\<lparr>heap := h, db := snd (e_db_update_resource E (db s) obj CSE_BASE_RI RT_CSE)\<rparr>) } } } }"

text \<open>
  The identifier of the CSE an \<^verbatim>\<open>at\<close> entry names and, when the entry is the address of a resource,
  that address; \<open>Some None\<close> when the entry is neither SP-relative nor absolute.
\<close>

definition annc_address :: "string \<Rightarrow> string \<Rightarrow> (string option \<times> string) option option" where
  "annc_address at0 at =
     (case checkResourceAddressingType (Some at0) of
        Some ABSOLUTE \<Rightarrow> do {
          ptr \<leftarrow> strchr (drop 2 at) CHR ''/'';
          if strchr (drop 1 ptr) CHR ''/'' \<noteq> None
          then Some (Some (Some at, case first_token_cut ''//'' (drop 2 at) of Some c \<Rightarrow> c | None \<Rightarrow> at))
          else Some (Some (None, if isSPIDLocal (Some at) then ptr else at)) }
      | Some SP_RELATIVE \<Rightarrow>
          if strchr (drop 1 at) CHR ''/'' \<noteq> None
          then Some (Some (Some at, case first_token_cut ''/'' (drop 1 at) of Some c \<Rightarrow> c | None \<Rightarrow> at))
          else Some (Some (None, at))
      | _ \<Rightarrow> Some None)"

fun announced_under :: "string \<Rightarrow> cjson list \<Rightarrow> string option option" where
  "announced_under csi [] = Some None"
| "announced_under csi (e # es) =
     do { v \<leftarrow> valuestring e; if checkResourceCseID v csi then Some (Some v) else announced_under csi es }"

text \<open>The address below which the copy is created, announcing this CSE first where necessary.\<close>

definition annc_parent :: "'d env \<Rightarrow> 'd cse \<Rightarrow> addr \<Rightarrow> int \<Rightarrow> string option \<Rightarrow> string \<Rightarrow> (string option \<times> 'd cse) option" where
  "annc_parent E s parent ty parent_target csi =
     (case parent_target of
        Some t \<Rightarrow> Some (Some t, s)
      | None \<Rightarrow>
          if Some parent = cb s then create_remote_cba E s csi
          else do {
            p \<leftarrow> heap s parent;
            found \<leftarrow> announced_under csi (elems (cJSON_GetObjectItem (n_obj p) ''at''));
            case found of
              Some t \<Rightarrow> Some (Some t, s)
            | None \<Rightarrow> if ty \<in> {RT_CIN, RT_TSI, RT_FCIN} then Some (None, s) else create_remote_cba E s csi })"

definition send_annc :: "'d env \<Rightarrow> 'd cse \<Rightarrow> addr \<Rightarrow> cjson \<Rightarrow> int \<Rightarrow> string \<Rightarrow> string \<Rightarrow> string \<Rightarrow> (string option \<times> 'd cse) option" where
  "send_annc E s parent obj ty target csi at =
     do {
       p \<leftarrow> heap s parent;
       puri \<leftarrow> n_uri p;
       rn \<leftarrow> member_string (Some obj) ''rn'';
       let lnk = ''/'' @ CSE_BASE_RI @ ''/'' @ puri @ ''/'' @ rn;
       if 256 \<le> length lnk then None
       else do {
         let annc = build_annc_attrs (JObject [(''lnk'', JString lnk)]) obj ty;
         csr \<leftarrow> find_csr_rtnode_by_uri s (Some at);
         if csr = None then Some (None, s)
         else do {
           (rsc, o2pt, s) \<leftarrow> forwarding_onem2m_resource E s
             (empty_o2pt\<lparr>p_fr := Some (''/'' @ CSE_BASE_RI), p_to := Some target, p_op := OP_CREATE, p_ty := ty + 10000,
                p_rqi := Some ''create-annc'', p_rvi := RVI_3, p_isForwarding := True,
                p_request_pc := Some (JObject [(get_resource_key (ty + 10000), annc)])\<rparr>) csr;
           if 4000 \<le> rsc then Some (None, s)
           else do {
             ri \<leftarrow> member_string (cJSON_GetObjectItem (p_response_pc o2pt) (get_resource_key (ty + 10000))) ''ri'';
             if length (csi @ ''/'' @ ri) < 256 then Some (Some (csi @ ''/'' @ ri), s) else None } } } }"

definition create_remote_annc :: "'d env \<Rightarrow> 'd cse \<Rightarrow> addr \<Rightarrow> cjson \<Rightarrow> string \<Rightarrow> (string option \<times> 'd cse) option" where
  "create_remote_annc E s parent obj at0 =
     do {
       ty \<leftarrow> member_int (Some obj) ''ty'';
       if at0 = [] then None
       else do {
         let at = (if last at0 = CHR ''/'' then butlast at0 else at0);
         adr \<leftarrow> annc_address at0 at;
         case adr of
           None \<Rightarrow> Some (None, s)
         | Some (parent_target, csi) \<Rightarrow> do {
             (target, s) \<leftarrow> annc_parent E s parent ty parent_target csi;
             case target of
               None \<Rightarrow> Some (None, s)
             | Some t \<Rightarrow>
                 if checkResourceAddressingType (Some at0) = Some SP_RELATIVE
                 then send_annc E s parent obj ty t csi at
                 else Some (None, s) } } }"

section \<open>Creation and update of \<^verbatim>\<open>at\<close>\<close>

fun register_annc :: "'d env \<Rightarrow> 'd cse \<Rightarrow> addr \<Rightarrow> cjson \<Rightarrow> cjson list \<Rightarrow> cjson list \<Rightarrow> (cjson list \<times> 'd cse) option" where
  "register_annc E s parent obj [] final_at = Some (final_at, s)"
| "register_annc E s parent obj (at # ats) final_at =
     do {
       v \<leftarrow> valuestring at;
       (url, s) \<leftarrow> create_remote_annc E s parent obj v;
       register_annc E s parent obj ats (case url of None \<Rightarrow> final_at | Some u \<Rightarrow> final_at @ [JString u]) }"

text \<open>\<^verbatim>\<open>handle_annc_create\<close> always succeeds; the result is the list \<^verbatim>\<open>final_at\<close>.\<close>

definition handle_annc_create :: "'d env \<Rightarrow> 'd cse \<Rightarrow> addr \<Rightarrow> cjson \<Rightarrow> (cjson list \<times> 'd cse) option" where
  "handle_annc_create E s parent resource_obj =
     register_annc E s parent resource_obj (elems (cJSON_GetObjectItem (Some resource_obj) ''at'')) []"

text \<open>An entry of the new list: the address of a resource, the identifier of a CSE, or neither.\<close>

datatype at_entry = At_Uri string | At_Cse string | At_Other

definition at_entry :: "string \<Rightarrow> at_entry option" where
  "at_entry v =
     (case checkResourceAddressingType (Some v) of
        Some ABSOLUTE \<Rightarrow> do {
          ptr \<leftarrow> strchr (drop 2 v) CHR ''/'';
          Some (if strchr (drop 1 ptr) CHR ''/'' \<noteq> None then At_Uri v
                else At_Cse (if isSPIDLocal (Some v) then ptr else v)) }
      | Some SP_RELATIVE \<Rightarrow> Some (if strchr (drop 1 v) CHR ''/'' \<noteq> None then At_Uri v else At_Cse v)
      | _ \<Rightarrow> Some At_Other)"

text \<open>The first loop compares whole addresses, the second only the length of the old one.\<close>

fun already_at :: "at_entry \<Rightarrow> cjson list \<Rightarrow> bool option" where
  "already_at e [] = Some False"
| "already_at e (old # olds) =
     do {
       v \<leftarrow> valuestring old;
       let same = (case e of At_Uri u \<Rightarrow> u = v | At_Cse c \<Rightarrow> checkResourceCseID v c | At_Other \<Rightarrow> False);
       if same then Some True else already_at e olds }"

fun to_register :: "cjson list \<Rightarrow> cjson list \<Rightarrow> cjson list option" where
  "to_register olds [] = Some []"
| "to_register olds (new # news) =
     do {
       v \<leftarrow> valuestring new;
       e \<leftarrow> at_entry v;
       rest \<leftarrow> to_register olds news;
       if e = At_Other then Some rest
       else do { b \<leftarrow> already_at e olds; Some (if b then rest else JString v # rest) } }"

fun still_at :: "string \<Rightarrow> cjson list \<Rightarrow> bool option" where
  "still_at old [] = Some False"
| "still_at old (new # news) =
     do {
       v \<leftarrow> valuestring new;
       e \<leftarrow> at_entry v;
       b \<leftarrow> (case e of
              At_Uri u \<Rightarrow> Some (strncmp u old (length old) = 0)
            | At_Cse c \<Rightarrow> Some (checkResourceCseID old c)
            | At_Other \<Rightarrow> None);
       if b then Some True else still_at old news }"

fun split_old :: "cjson list \<Rightarrow> cjson list \<Rightarrow> (cjson list \<times> cjson list) option" where
  "split_old news [] = Some ([], [])"
| "split_old news (old # olds) =
     do {
       v \<leftarrow> valuestring old;
       b \<leftarrow> still_at v news;
       (kept, deleted) \<leftarrow> split_old news olds;
       Some (if b then (JString v # kept, deleted) else (kept, JString v # deleted)) }"

section \<open>Removal of announced copies\<close>

text \<open>The new value of an attribute \<^verbatim>\<open>at\<close>: without the entries that pass the test.\<close>

fun drop_at :: "(string \<Rightarrow> bool) \<Rightarrow> cjson list \<Rightarrow> cjson list option" where
  "drop_at p [] = Some []"
| "drop_at p (e # es) = do { v \<leftarrow> valuestring e; rest \<leftarrow> drop_at p es; Some (if p v then rest else JString v # rest) }"

definition shrink_at :: "'d env \<Rightarrow> 'd \<Rightarrow> (string \<Rightarrow> bool) \<Rightarrow> cjson \<Rightarrow> int \<Rightarrow> (cjson \<times> 'd) option" where
  "shrink_at E d p obj ty =
     (case cJSON_GetObjectItem (Some obj) ''at'' of
        None \<Rightarrow> Some (obj, d)
      | Some at \<Rightarrow> do {
          new_at \<leftarrow> drop_at p (elems (Some at));
          ri \<leftarrow> member_string (Some obj) ''ri'';
          let obj = cJSON_DeleteItemFromObject obj ''at'';
          let (obj, d) = (if new_at \<noteq> [] then (cJSON_AddItemToObject obj ''at'' (JArray new_at), d)
                          else (obj, snd (e_db_clear_attribute E d ri ty ''at'')));
          Some (obj, snd (e_db_update_resource E d obj ri ty)) })"

fun shrink_cins :: "'d env \<Rightarrow> 'd \<Rightarrow> string \<Rightarrow> rtnode list \<Rightarrow> 'd option" where
  "shrink_cins E d at [] = Some d"
| "shrink_cins E d at (n # ns) =
     do {
       obj \<leftarrow> n_obj n;
       (_, d) \<leftarrow> shrink_at E d (\<lambda>v. strncmp v at (length at) = 0) obj (n_ty n);
       shrink_cins E d at ns }"

partial_function (option) remove_annc :: "'d env \<Rightarrow> 'd cse \<Rightarrow> ptr \<Rightarrow> string \<Rightarrow> 'd cse option" where
  "remove_annc E s rtnode at =
     (case rtnode of
        None \<Rightarrow> Some s
      | Some a \<Rightarrow> do {
          n \<leftarrow> heap s a;
          s \<leftarrow> (if n_child n \<noteq> None then remove_annc E s (n_child n) at else Some s);
          n \<leftarrow> heap s a;
          d \<leftarrow> (if n_ty n = RT_CNT then shrink_cins E (db s) at (e_db_get_cin_rtnode_list E (db s) n) else Some (db s));
          obj \<leftarrow> n_obj n;
          (obj, d) \<leftarrow> shrink_at E d (\<lambda>v. checkResourceCseID v at) obj (n_ty n);
          h \<leftarrow> put_obj (heap s) a obj;
          remove_annc E (s\<lparr>heap := h, db := d\<rparr>) (n_sibling_right n) at })"

definition removeChildAnnc :: "'d env \<Rightarrow> 'd cse \<Rightarrow> addr \<Rightarrow> string \<Rightarrow> 'd cse option" where
  "removeChildAnnc E s parent at = do { p \<leftarrow> heap s parent; remove_annc E s (n_child p) at }"

text \<open>The entries whose removal failed are appended to \<open>keep\<close>.\<close>

fun deregister_remote_annc ::
    "'d env \<Rightarrow> 'd cse \<Rightarrow> addr \<Rightarrow> cjson list \<Rightarrow> cjson list \<Rightarrow> (cjson list \<times> 'd cse) option" where
  "deregister_remote_annc E s target [] keep = Some (keep, s)"
| "deregister_remote_annc E s target (at # ats) keep =
     do {
       v \<leftarrow> valuestring at;
       n \<leftarrow> heap s target;
       (failed, s) \<leftarrow>
         (if starts_with v ''/''
          then do {
            csr \<leftarrow> find_csr_rtnode_by_uri s (Some v);
            (_, o2pt, s) \<leftarrow> forwarding_onem2m_resource E s
              (empty_o2pt\<lparr>p_fr := Some (''/'' @ CSE_BASE_RI), p_to := Some v, p_op := OP_DELETE, p_ty := n_ty n + 10000,
                 p_rqi := Some ''delete-annc'', p_rvi := RVI_3\<rparr>) csr;
            Some (p_rsc o2pt \<noteq> RSC_DELETED \<and> p_rsc o2pt \<noteq> RSC_NOT_FOUND, s) }
          else Some (False, s));
       if failed then deregister_remote_annc E s target ats (keep @ [JString v])
       else if v = [] then None
       else do {
         cut \<leftarrow> first_token_cut (take 1 v) (drop 1 v);
         s \<leftarrow> removeChildAnnc E s target cut;
         deregister_remote_annc E s target ats keep } }"

definition handle_annc_update :: "'d env \<Rightarrow> 'd cse \<Rightarrow> addr \<Rightarrow> cjson \<Rightarrow> (cjson list \<times> 'd cse) option" where
  "handle_annc_update E s target at_obj =
     do {
       n \<leftarrow> heap s target;
       let olds = elems (cJSON_GetObjectItem (n_obj n) ''at'');
       let news = elems (Some at_obj);
       reg \<leftarrow> to_register olds news;
       (kept, deleted) \<leftarrow> split_old news olds;
       (final_at, s) \<leftarrow> deregister_remote_annc E s target deleted kept;
       if reg = [] then Some (final_at, s)
       else do {
         n \<leftarrow> heap s target;
         parent \<leftarrow> n_parent n;
         obj \<leftarrow> n_obj n;
         register_annc E s parent obj reg final_at } }"

definition process_annc_at_update :: "'d env \<Rightarrow> 'd cse \<Rightarrow> addr \<Rightarrow> cjson \<Rightarrow> (cjson \<times> 'd cse) option" where
  "process_annc_at_update E s target body =
     (case cJSON_GetObjectItem (Some body) ''at'' of
        None \<Rightarrow> Some (body, s)
      | Some at \<Rightarrow> do {
          (final_at, s) \<leftarrow> handle_annc_update E s target at;
          n \<leftarrow> heap s target;
          if at = JNull
          then Some (if final_at \<noteq> [] then cJSON_AddItemToObject (cJSON_DeleteItemFromObject body ''at'') ''at'' (JArray final_at)
                     else if cJSON_GetObjectItem (n_obj n) ''at'' = None then cJSON_DeleteItemFromObject body ''at'' else body, s)
          else do {
            let body = cJSON_DeleteItemFromObject body ''at'';
            if final_at \<noteq> [] then Some (cJSON_AddItemToObject body ''at'' (JArray final_at), s)
            else do {
              ri \<leftarrow> get_ri_rtnode n;
              Some (cJSON_AddItemToObject body ''at'' JNull,
                    s\<lparr>db := snd (e_db_clear_attribute E (db s) ri (n_ty n) ''at'')\<rparr>) } } })"

definition update_remote_csr_dcse :: "'d env \<Rightarrow> 'd cse \<Rightarrow> 'd cse option" where
  "update_remote_csr_dcse E s =
     (case registrar_csr s of
        None \<Rightarrow> Some s
      | Some a \<Rightarrow> do {
          cbn \<leftarrow> deref (heap s) (cb s);
          case cJSON_GetObjectItem (n_obj cbn) ''dcse'' of
            None \<Rightarrow> Some s
          | Some dcse \<Rightarrow> do {
              n \<leftarrow> heap s a;
              csi \<leftarrow> member_string (n_obj n) ''csi'';
              (_, _, s) \<leftarrow> forwarding_onem2m_resource E s
                (empty_o2pt\<lparr>p_op := OP_UPDATE, p_fr := Some (''/'' @ CSE_BASE_RI), p_rqi := Some ''update-csr'', p_rvi := RVI_3,
                   p_request_pc := Some (JObject [(get_resource_key RT_CSR, JObject [(''dcse'', dcse)])]),
                   p_to := Some (csi @ ''/'' @ CSE_BASE_RI)\<rparr>) (Some a);
              Some s } })"

section \<open>Which copies an update keeps\<close>

definition resource_address :: "string \<Rightarrow> bool" where
  "resource_address v \<longleftrightarrow> (\<exists>c r. v = ''/'' @ c @ ''/'' @ r \<and> c \<noteq> [] \<and> CHR ''/'' \<notin> set c)"

lemma at_entry_resource: "resource_address v \<Longrightarrow> at_entry v = Some (At_Uri v)"
proof -
  assume "resource_address v"
  then obtain c r where v: "v = ''/'' @ c @ ''/'' @ r" "c \<noteq> []" "CHR ''/'' \<notin> set c" by (auto simp: resource_address_def)
  then have "checkResourceAddressingType (Some v) = Some SP_RELATIVE"
    by (cases c) (auto simp: checkResourceAddressingType_def starts_with_def)
  moreover have "strchr (drop 1 v) CHR ''/'' \<noteq> None" using v by (simp add: strchr_append)
  ultimately show ?thesis by (simp add: at_entry_def)
qed

lemma already_at_uri: "already_at (At_Uri u) (map JString olds) = Some (u \<in> set olds)"
  by (induction olds) auto

lemma to_register_uris:
  "list_all resource_address news \<Longrightarrow>
   to_register (map JString olds) (map JString news) = Some (map JString (filter (\<lambda>v. v \<notin> set olds) news))"
  by (induction news) (auto simp: at_entry_resource already_at_uri)

lemma still_at_uris:
  "list_all resource_address news \<Longrightarrow>
   still_at old (map JString news) = Some (\<exists>n \<in> set news. \<exists>r. n = old @ r)"
proof (induction news)
  case (Cons n news)
  have "strncmp n old (length old) = 0 \<longleftrightarrow> (\<exists>r. n = old @ r)"
    by (auto simp: strncmp_eq_0) (metis append_take_drop_id)
  with Cons show ?case by (simp add: at_entry_resource)
qed simp

lemma split_old_uris:
  assumes "list_all resource_address news"
  shows "split_old (map JString news) (map JString olds) =
    Some (map JString (filter (\<lambda>v. \<exists>n \<in> set news. \<exists>r. n = v @ r) olds),
          map JString (filter (\<lambda>v. \<not> (\<exists>n \<in> set news. \<exists>r. n = v @ r)) olds))"
  by (induction olds) (simp_all add: still_at_uris [OF assms])

text \<open>
  An update of \<^verbatim>\<open>at\<close> with resource addresses: copies are requested for exactly the addresses that
  are not in the old list, but an old copy is withdrawn only when it is no prefix of a new
  address. Together the kept and the withdrawn addresses are the old ones, in their order.
\<close>

theorem annc_update_split:
  assumes "list_all resource_address news"
  shows "to_register (map JString olds) (map JString news) = Some (map JString (filter (\<lambda>v. v \<notin> set olds) news)) \<and>
    split_old (map JString news) (map JString olds) =
      Some (map JString (filter (\<lambda>v. \<exists>n \<in> set news. \<exists>r. n = v @ r) olds),
            map JString (filter (\<lambda>v. \<not> (\<exists>n \<in> set news. \<exists>r. n = v @ r)) olds))"
  using to_register_uris [OF assms] split_old_uris [OF assms] by blast

text \<open>The copy \<open>/id-in/1\<close> is kept although the new list has only \<open>/id-in/12\<close>.\<close>

theorem annc_update_split_witness:
  "to_register [JString ''/id-in/1''] [JString ''/id-in/12''] = Some [JString ''/id-in/12''] \<and>
   split_old [JString ''/id-in/12''] [JString ''/id-in/1''] = Some ([JString ''/id-in/1''], [])"
proof -
  have "resource_address ''/id-in/12''"
    unfolding resource_address_def by (rule exI [of _ "''id-in''"], rule exI [of _ "''12''"]) simp
  then show ?thesis using annc_update_split [of "[''/id-in/12'']" "[''/id-in/1'']"] by simp
qed

end
