(* ===== verification/Response.thy ===== *)
theory Response
  imports Remote
begin

text \<open>
  The contents of a response (\<^verbatim>\<open>util.c\<close>): the representations selected by the result content
  parameter \<^verbatim>\<open>rcn\<close>, with the attributes of the target, its child resources or references to
  them.

  A resource that lives only in the database is wrapped into a node for the time of a filter
  test. The counters \<^verbatim>\<open>ofst\<close> and \<^verbatim>\<open>lim\<close> of the C functions are part of the state of a traversal.
\<close>

abbreviation (input) RCN_NOTHING :: int where "RCN_NOTHING \<equiv> 0"
abbreviation (input) RCN_ATTRIBUTES :: int where "RCN_ATTRIBUTES \<equiv> 1"
abbreviation (input) RCN_HIERARCHICAL_ADDRESS :: int where "RCN_HIERARCHICAL_ADDRESS \<equiv> 2"
abbreviation (input) RCN_HIERARCHICAL_ADDRESS_ATTRIBUTES :: int where "RCN_HIERARCHICAL_ADDRESS_ATTRIBUTES \<equiv> 3"
abbreviation (input) RCN_ATTRIBUTES_AND_CHILD_RESOURCES :: int where "RCN_ATTRIBUTES_AND_CHILD_RESOURCES \<equiv> 4"
abbreviation (input) RCN_ATTRIBUTES_AND_CHILD_RESOURCE_REFERENCES :: int where "RCN_ATTRIBUTES_AND_CHILD_RESOURCE_REFERENCES \<equiv> 5"
abbreviation (input) RCN_CHILD_RESOURCE_REFERENCES :: int where "RCN_CHILD_RESOURCE_REFERENCES \<equiv> 6"
abbreviation (input) RCN_ORIGINAL_RESOURCE :: int where "RCN_ORIGINAL_RESOURCE \<equiv> 7"
abbreviation (input) RCN_CHILD_RESOURCES :: int where "RCN_CHILD_RESOURCES \<equiv> 8"
abbreviation (input) RCN_MODIFIED_ATTRIBUTES :: int where "RCN_MODIFIED_ATTRIBUTES \<equiv> 9"
abbreviation (input) RCN_SEMANTIC_CONTENT :: int where "RCN_SEMANTIC_CONTENT \<equiv> 10"
abbreviation (input) RCN_DISCOVERY_RESULT_REFERENCES :: int where "RCN_DISCOVERY_RESULT_REFERENCES \<equiv> 11"
abbreviation (input) RCN_PERMISSIONS :: int where "RCN_PERMISSIONS \<equiv> 12"
abbreviation (input) DRT_STRUCTURED :: int where "DRT_STRUCTURED \<equiv> 1"
abbreviation (input) CS_PARTIAL_CONTENT :: int where "CS_PARTIAL_CONTENT \<equiv> 1"
abbreviation (input) CS_FULL_CONTENT :: int where "CS_FULL_CONTENT \<equiv> 2"
abbreviation (input) DEFAULT_DISCOVERY_LIMIT :: int where "DEFAULT_DISCOVERY_LIMIT \<equiv> 150"

section \<open>flexContainers\<close>

definition sanitize_fcnt_response :: "cjson \<Rightarrow> cjson" where
  "sanitize_fcnt_response copy =
     (let copy = cJSON_DeleteItemFromObject copy ''_sn'' in
      case cJSON_GetObjectItem (Some copy) ''oref'' of
        None \<Rightarrow> copy
      | Some oref \<Rightarrow> cJSON_AddItemToObject (cJSON_DeleteItemFromObject copy ''oref'') ''or'' oref)"

definition get_fcnt_response_key :: "'d env \<Rightarrow> cjson option \<Rightarrow> int \<Rightarrow> string" where
  "get_fcnt_response_key E fcnt_obj ty =
     (case cJSON_GetObjectItem fcnt_obj ''cnd'' of
        Some (JString cnd) \<Rightarrow>
          (case sdt_find_by_cnd (e_sdt E) cnd of
             None \<Rightarrow> get_resource_key ty
           | Some d \<Rightarrow> (case sd_type d of Some t \<Rightarrow> t | None \<Rightarrow> get_resource_key ty))
      | _ \<Rightarrow> get_resource_key ty)"

definition get_fcin_response_key :: "'d env \<Rightarrow> cjson option \<Rightarrow> string" where
  "get_fcin_response_key E parent_fcnt_obj =
     (case cJSON_GetObjectItem parent_fcnt_obj ''cnd'' of
        Some (JString cnd) \<Rightarrow>
          (case Option.bind (sdt_find_by_cnd (e_sdt E) cnd) sd_type of
             None \<Rightarrow> get_resource_key RT_FCIN
           | Some t \<Rightarrow>
               (case Option.bind (sdt_find_by_type (e_sdt E) (take 127 (t @ ''Inst''))) sd_type of
                  None \<Rightarrow> get_resource_key RT_FCIN
                | Some t' \<Rightarrow> t'))
      | _ \<Rightarrow> get_resource_key RT_FCIN)"

definition copy_of :: "rtnode \<Rightarrow> cjson option" where
  "copy_of n = map_option (if n_ty n = RT_FCNT then sanitize_fcnt_response else id) (n_obj n)"

text \<open>Adding a null item to an object does nothing.\<close>

definition add_opt :: "cjson \<Rightarrow> string \<Rightarrow> cjson option \<Rightarrow> cjson" where
  "add_opt obj k v = (case v of None \<Rightarrow> obj | Some j \<Rightarrow> cJSON_AddItemToObject obj k j)"

section \<open>References to child resources\<close>

text \<open>A node of the database listings during the test of the filter.\<close>

definition apt_instance ::
    "'d env \<Rightarrow> 'd cse \<Rightarrow> oneM2MPrimitive \<Rightarrow> rtnode \<Rightarrow> (bool \<times> oneM2MPrimitive \<times> 'd cse) option" where
  "apt_instance E s o2pt n =
     do {
       let a = brk s;
       (b, o2pt, s) \<leftarrow> isResourceAptFC E (s\<lparr>heap := (heap s)(a \<mapsto> n), brk := Suc a\<rparr>) o2pt (Some a) (p_fc o2pt);
       Some (b, o2pt, s\<lparr>heap := (heap s)(a := None)\<rparr>) }"

type_synonym 'd refs = "oneM2MPrimitive \<times> 'd cse \<times> int \<times> cjson list"

text \<open>The name and type are those of \<open>n\<close>, the address is that of \<open>m\<close>.\<close>

definition reference :: "oneM2MPrimitive \<Rightarrow> rtnode \<Rightarrow> rtnode \<Rightarrow> cjson option" where
  "reference o2pt n m =
     do {
       val \<leftarrow> (if p_drt o2pt = DRT_STRUCTURED then Some (n_uri m)
               else map_option valuestring (cJSON_GetObjectItem (n_obj m) ''ri''));
       Some (add_string (cJSON_AddItemToObject (add_string (JObject []) ''nm'' (n_rn n)) ''typ'' (JNumber (n_ty n))) ''val'' val) }"

text \<open>
  A resource is listed while the offset is not positive; a resource that does not match
  decrements the offset, and \<^verbatim>\<open>lim\<close> is never decremented.
\<close>

definition list_if_apt :: "int \<Rightarrow> rtnode \<Rightarrow> rtnode \<Rightarrow> (bool \<times> oneM2MPrimitive \<times> 'd cse) option \<Rightarrow> 'd refs \<Rightarrow> (bool \<times> 'd refs) option" where
  "list_if_apt lim n m test st =
     (case st of (o2pt, s, ofst, refs) \<Rightarrow>
        if ofst \<le> 0 \<and> 0 < lim
        then do {
          (apt, o2pt, s) \<leftarrow> test;
          if apt then do { r \<leftarrow> reference o2pt n m; Some (True, o2pt, s, ofst, refs @ [r]) }
          else Some (False, o2pt, s, ofst - 1, refs) }
        else Some (False, st))"

fun list_instances :: "'d env \<Rightarrow> int \<Rightarrow> (rtnode \<Rightarrow> rtnode) \<Rightarrow> rtnode list \<Rightarrow> 'd refs \<Rightarrow> 'd refs option" where
  "list_instances E lim val_of [] st = Some st"
| "list_instances E lim val_of (n # ns) st =
     do {
       (_, st) \<leftarrow> list_if_apt lim n (val_of n) (case st of (o2pt, s, ofst, refs) \<Rightarrow> apt_instance E s o2pt n) st;
       list_instances E lim val_of ns st }"

text \<open>The instances of a container or flexContainer; those of the latter carry its own address.\<close>

definition own_instances :: "'d env \<Rightarrow> int \<Rightarrow> rtnode \<Rightarrow> 'd refs \<Rightarrow> 'd refs option" where
  "own_instances E lim n st =
     (case st of (o2pt, s, ofst, refs) \<Rightarrow>
        if n_ty n = RT_CNT then list_instances E lim id (e_db_get_cin_rtnode_list E (db s) n) st
        else if n_ty n = RT_FCNT then list_instances E lim (\<lambda>_. n) (e_db_get_fcin_rtnode_list E (db s) n) st
        else Some st)"

definition is_instance :: "rtnode \<Rightarrow> bool" where
  "is_instance n \<longleftrightarrow> n_ty n = RT_CIN \<or> n_ty n = RT_FCIN"

text \<open>
  The loop over the children of a node with the recursive call for each of them. The level
  is passed down and never tested.
\<close>

partial_function (option) child_references ::
    "'d env \<Rightarrow> int \<Rightarrow> int \<Rightarrow> ptr \<Rightarrow> 'd refs \<Rightarrow> 'd refs option" where
  "child_references E lim rcn child st =
     (case child of
        None \<Rightarrow> Some st
      | Some a \<Rightarrow> (case st of (o2pt, s, ofst, refs) \<Rightarrow> do {
          n \<leftarrow> heap s a;
          (apt, st) \<leftarrow>
            (if is_instance n then Some (False, st)
             else list_if_apt lim n n (isResourceAptFC E s o2pt (Some a) (p_fc o2pt)) st);
          st \<leftarrow> (if n_ty n = RT_FCNT then own_instances E lim n st else Some st);
          st \<leftarrow>
            (if rcn \<in> {RCN_CHILD_RESOURCES, RCN_CHILD_RESOURCE_REFERENCES} \<or>
                (rcn \<in> {RCN_ATTRIBUTES_AND_CHILD_RESOURCES, RCN_ATTRIBUTES_AND_CHILD_RESOURCE_REFERENCES} \<and> apt)
             then do { st \<leftarrow> child_references E lim rcn (n_child n) st; own_instances E lim n st }
             else Some st);
          child_references E lim rcn (n_sibling_right n) st }))"

definition get_child_references :: "'d env \<Rightarrow> int \<Rightarrow> int \<Rightarrow> rtnode \<Rightarrow> 'd refs \<Rightarrow> 'd refs option" where
  "get_child_references E lim rcn n st =
     do { st \<leftarrow> child_references E lim rcn (n_child n) st; own_instances E lim n st }"

section \<open>Child resources\<close>

text \<open>The state of the traversal: the primitive, the CSE, offset, limit and the object that is extended.\<close>

type_synonym 'd body = "oneM2MPrimitive \<times> 'd cse \<times> int \<times> int \<times> cjson"

definition put_child :: "cjson \<Rightarrow> string \<Rightarrow> cjson option \<Rightarrow> cjson" where
  "put_child obj key v =
     (if cJSON_GetObjectItem (Some obj) key \<noteq> None
      then (case v of None \<Rightarrow> obj | Some j \<Rightarrow> modify_member obj key (\<lambda>arr. cJSON_AddItemToArray arr j))
      else cJSON_AddItemToObject obj key (JArray (case v of None \<Rightarrow> [] | Some j \<Rightarrow> [j])))"

fun put_instances :: "'d env \<Rightarrow> rtnode list \<Rightarrow> 'd body \<Rightarrow> 'd body option" where
  "put_instances E [] st = Some st"
| "put_instances E (n # ns) st =
     (case st of (o2pt, s, ofst, lim, obj) \<Rightarrow>
        if ofst \<le> 0 \<and> 0 < lim
        then do {
          (apt, o2pt, s) \<leftarrow> apt_instance E s o2pt n;
          put_instances E ns
            (if apt then (o2pt, s, ofst, lim - 1, put_child obj (get_resource_key (n_ty n)) (n_obj n))
             else (o2pt, s, ofst, lim, obj)) }
        else put_instances E ns st)"

definition instances_of :: "'d env \<Rightarrow> 'd \<Rightarrow> rtnode \<Rightarrow> rtnode list" where
  "instances_of E d n =
     (if n_ty n = RT_CNT then e_db_get_cin_rtnode_list E d n
      else if n_ty n = RT_FCNT then e_db_get_fcin_rtnode_list E d n else [])"

text \<open>The copy of a matching resource that is past the offset, and the counters after it.\<close>

definition take_if_apt :: "'d env \<Rightarrow> addr \<Rightarrow> rtnode \<Rightarrow> 'd body \<Rightarrow> (cjson option \<times> 'd body) option" where
  "take_if_apt E a n st =
     (case st of (o2pt, s, ofst, lim, obj) \<Rightarrow> do {
        (apt, o2pt, s) \<leftarrow> isResourceAptFC E s o2pt (Some a) (p_fc o2pt);
        Some (if \<not> apt then (None, o2pt, s, ofst, lim, obj)
              else if 0 < ofst then (None, o2pt, s, ofst - 1, lim, obj)
              else (copy_of n, o2pt, s, ofst, lim - 1,
                    if n_obj n = None then put_child obj (get_resource_key (n_ty n)) None else obj)) })"

text \<open>
  \<^verbatim>\<open>build_child_structure\<close> for a node and its right siblings. A copy is extended before it is put
  into the object of its parent, which nothing else changes in between.
\<close>

partial_function (option) build_children ::
    "'d env \<Rightarrow> int \<Rightarrow> int \<Rightarrow> ptr \<Rightarrow> 'd body \<Rightarrow> 'd body option" where
  "build_children E rcn level child st =
     (case child of
        None \<Rightarrow> Some st
      | Some a \<Rightarrow> (case st of (o2pt, s, ofst, lim, obj) \<Rightarrow> do {
          n \<leftarrow> heap s a;
          st \<leftarrow>
            (if is_instance n \<or> level \<le> 0 then Some st
             else if lim \<le> 0 then Some (o2pt, s, ofst, - 1, obj)
             else do {
               (target, o2pt, s, ofst, lim, obj) \<leftarrow> take_if_apt E a n st;
               let sub = (case target of Some t \<Rightarrow> t | None \<Rightarrow> obj);
               (o2pt, s, ofst, lim, sub) \<leftarrow>
                 (if 0 < lim then put_instances E (instances_of E (db s) n) (o2pt, s, ofst, lim, sub)
                  else Some (o2pt, s, ofst, lim, sub));
               (o2pt, s, ofst, lim, sub) \<leftarrow>
                 (if target \<noteq> None \<or> rcn \<in> {RCN_CHILD_RESOURCES, RCN_CHILD_RESOURCE_REFERENCES}
                  then build_children E rcn (level - 1) (n_child n) (o2pt, s, ofst, lim, sub)
                  else Some (o2pt, s, ofst, lim, sub));
               Some (o2pt, s, ofst, lim,
                     if target \<noteq> None then put_child obj (get_resource_key (n_ty n)) (Some sub) else sub) });
          build_children E rcn level (n_sibling_right n) st }))"

text \<open>\<^verbatim>\<open>build_rcn4\<close> and \<^verbatim>\<open>build_rcn8\<close> differ in the object they start from.\<close>

definition build_below ::
    "'d env \<Rightarrow> 'd cse \<Rightarrow> oneM2MPrimitive \<Rightarrow> rtnode \<Rightarrow> int \<Rightarrow> cjson \<Rightarrow> int \<Rightarrow> int \<Rightarrow> int \<Rightarrow> (cjson \<times> oneM2MPrimitive \<times> 'd cse) option" where
  "build_below E s o2pt n rcn target ofst lim level =
     do {
       (o2pt, s, ofst, lim, target) \<leftarrow> build_children E rcn (level - 1) (n_child n) (o2pt, s, ofst, lim, target);
       (o2pt, s, ofst, lim, target) \<leftarrow> put_instances E (instances_of E (db s) n) (o2pt, s, ofst, lim, target);
       Some (JObject [(get_resource_key (n_ty n), target)],
             if lim < 0 then o2pt\<lparr>p_cnst := CS_PARTIAL_CONTENT\<rparr> else o2pt, s) }"

definition build_rcn8 ::
    "'d env \<Rightarrow> 'd cse \<Rightarrow> oneM2MPrimitive \<Rightarrow> rtnode \<Rightarrow> int \<Rightarrow> int \<Rightarrow> int \<Rightarrow> (cjson \<times> oneM2MPrimitive \<times> 'd cse) option" where
  "build_rcn8 E s o2pt n ofst lim level = build_below E s o2pt n RCN_CHILD_RESOURCES (JObject []) ofst lim level"

definition build_rcn4 ::
    "'d env \<Rightarrow> 'd cse \<Rightarrow> oneM2MPrimitive \<Rightarrow> rtnode \<Rightarrow> int \<Rightarrow> int \<Rightarrow> int \<Rightarrow> (cjson \<times> oneM2MPrimitive \<times> 'd cse) option" where
  "build_rcn4 E s o2pt n ofst lim level =
     build_below E s o2pt n RCN_ATTRIBUTES_AND_CHILD_RESOURCES
       (case copy_of n of Some c \<Rightarrow> c | None \<Rightarrow> JObject []) ofst lim level"

definition build_rcn6 ::
    "'d env \<Rightarrow> 'd cse \<Rightarrow> oneM2MPrimitive \<Rightarrow> rtnode \<Rightarrow> int \<Rightarrow> int \<Rightarrow> (cjson \<times> oneM2MPrimitive \<times> 'd cse) option" where
  "build_rcn6 E s o2pt n ofst lim =
     do {
       (o2pt, s, ofst, refs) \<leftarrow> get_child_references E lim RCN_CHILD_RESOURCE_REFERENCES n (o2pt, s, ofst, []);
       Some (JObject [(''m2m:rrl'', JObject [(''rrf'', JArray refs)])], o2pt, s) }"

definition build_rcn5 ::
    "'d env \<Rightarrow> 'd cse \<Rightarrow> oneM2MPrimitive \<Rightarrow> rtnode \<Rightarrow> int \<Rightarrow> int \<Rightarrow> (cjson \<times> oneM2MPrimitive \<times> 'd cse) option" where
  "build_rcn5 E s o2pt n ofst lim =
     do {
       (o2pt, s, ofst, refs) \<leftarrow>
         get_child_references E lim RCN_ATTRIBUTES_AND_CHILD_RESOURCE_REFERENCES n (o2pt, s, ofst, []);
       Some (add_opt (JObject []) (get_resource_key (n_ty n))
               (map_option (\<lambda>c. cJSON_AddItemToObject c ''ch'' (JArray refs)) (copy_of n)), o2pt, s) }"

section \<open>The body\<close>

definition attributes_body :: "'d env \<Rightarrow> heap \<Rightarrow> rtnode \<Rightarrow> cjson" where
  "attributes_body E h n =
     (if n_ty n = RT_FCNT then add_opt (JObject []) (get_fcnt_response_key E (n_obj n) (n_ty n)) (copy_of n)
      else if n_ty n = RT_FCIN
      then add_opt (JObject [])
             (case deref h (n_parent n) of
                Some p \<Rightarrow> if n_ty p = RT_FCNT then get_fcin_response_key E (n_obj p) else get_resource_key RT_FCIN
              | None \<Rightarrow> get_resource_key RT_FCIN) (n_obj n)
      else add_opt (JObject []) (get_resource_key (n_ty n)) (n_obj n))"

fun delete_members :: "cjson \<Rightarrow> (string option \<times> cjson) list \<Rightarrow> cjson" where
  "delete_members obj [] = obj"
| "delete_members obj ((k, v) # kvs) =
     delete_members (case k of None \<Rightarrow> obj | Some name \<Rightarrow> cJSON_DeleteItemFromObject obj name) kvs"

text \<open>What the request did not contain: the attributes the CSE has set.\<close>

definition modified_body :: "'d env \<Rightarrow> oneM2MPrimitive \<Rightarrow> cjson \<Rightarrow> rtnode \<Rightarrow> cjson" where
  "modified_body E o2pt pc n =
     (if p_op o2pt \<noteq> OP_CREATE then pc
      else let key = (if n_ty n = RT_FCNT then get_fcnt_response_key E (n_obj n) (n_ty n) else get_resource_key (n_ty n));
               given = (case cJSON_GetObjectItem (Some pc) key of
                          Some g \<Rightarrow> Some g
                        | None \<Rightarrow> if n_ty n = RT_FCNT then cJSON_GetObjectItem (Some pc) (get_resource_key (n_ty n)) else None)
           in add_opt (JObject []) key
                (map_option (\<lambda>c. case given of None \<Rightarrow> c | Some g \<Rightarrow> delete_members c (items g)) (copy_of n)))"

definition fc_int :: "oneM2MPrimitive \<Rightarrow> string \<Rightarrow> int \<Rightarrow> int" where
  "fc_int o2pt k dflt = (case member_int (p_fc o2pt) k of Some v \<Rightarrow> v | None \<Rightarrow> dflt)"

text \<open>The end of the function: the body is stored and the content status set.\<close>

definition finish_body :: "oneM2MPrimitive \<Rightarrow> 'd cse \<Rightarrow> cjson \<Rightarrow> 'd outcome" where
  "finish_body o2pt s contents =
     (let o2pt = o2pt\<lparr>p_response_pc := Some contents\<rparr> in
      if p_cnst o2pt = CS_PARTIAL_CONTENT
      then do { cnot \<leftarrow> add_int (fc_int o2pt ''ofst'' 0) (fc_int o2pt ''lim'' DEFAULT_DISCOVERY_LIMIT);
                Some (0, o2pt\<lparr>p_cnot := cnot\<rparr>, s) }
      else Some (0, if cJSON_GetObjectItem (p_fc o2pt) ''lim'' \<noteq> None then o2pt\<lparr>p_cnst := CS_FULL_CONTENT\<rparr> else o2pt, s))"

definition original_body :: "'d env \<Rightarrow> 'd cse \<Rightarrow> oneM2MPrimitive \<Rightarrow> rtnode \<Rightarrow> 'd outcome" where
  "original_body E s o2pt n =
     (if n_ty n < 10000 \<or> 20000 \<le> n_ty n
      then Some (RSC_BAD_REQUEST, handle_error o2pt RSC_BAD_REQUEST ''rcn 7 is not supported for non announced resources'', s)
      else (case cJSON_GetObjectItem (n_obj n) ''lnk'' of
              Some (JString lnk) \<Rightarrow> do {
                (remote, rsc, s) \<leftarrow> get_remote_resource E s (Some lnk) (p_fr o2pt) RSC_NOT_FOUND;
                case remote of
                  None \<Rightarrow> Some (rsc, handle_error o2pt rsc ''original resource is not reachable'', s)
                | Some a \<Rightarrow> do {
                    r \<leftarrow> heap s a;
                    h \<leftarrow> free_rtnode (heap s) a;
                    finish_body o2pt (s\<lparr>heap := h\<rparr>) (add_opt (JObject []) (get_resource_key (n_ty r)) (n_obj r)) } }
            | _ \<Rightarrow> Some (RSC_NOT_FOUND, handle_error o2pt RSC_NOT_FOUND ''announced resource has no lnk'', s)))"

definition make_response_body :: "'d env \<Rightarrow> 'd cse \<Rightarrow> oneM2MPrimitive \<Rightarrow> addr \<Rightarrow> 'd outcome" where
  "make_response_body E s o2pt a =
     (if p_rcn o2pt = RCN_NOTHING then Some (0, o2pt, s)
      else do {
        n \<leftarrow> heap s a;
        let lim = fc_int o2pt ''lim'' DEFAULT_DISCOVERY_LIMIT;
        let ofst = fc_int o2pt ''ofst'' 0;
        let lvl = fc_int o2pt ''lvl'' 99999;
        let finish = (\<lambda>(contents, o2pt, s). finish_body o2pt s contents);
        if p_rcn o2pt = RCN_ATTRIBUTES then finish_body o2pt s (attributes_body E (heap s) n)
        else if p_rcn o2pt = RCN_HIERARCHICAL_ADDRESS
        then finish_body o2pt s (add_string (JObject []) ''m2m:uri'' (n_uri n))
        else if p_rcn o2pt = RCN_HIERARCHICAL_ADDRESS_ATTRIBUTES
        then finish_body o2pt s (JObject [(''m2m:rce'',
               add_string (add_opt (JObject []) (get_resource_key (n_ty n)) (copy_of n)) ''uri'' (n_uri n))])
        else if p_rcn o2pt = RCN_ATTRIBUTES_AND_CHILD_RESOURCES
        then Option.bind (build_rcn4 E s o2pt n ofst lim lvl) finish
        else if p_rcn o2pt = RCN_ATTRIBUTES_AND_CHILD_RESOURCE_REFERENCES
        then Option.bind (build_rcn5 E s o2pt n ofst lim) finish
        else if p_rcn o2pt = RCN_CHILD_RESOURCE_REFERENCES
        then Option.bind (build_rcn6 E s o2pt n ofst lim) finish
        else if p_rcn o2pt = RCN_ORIGINAL_RESOURCE then original_body E s o2pt n
        else if p_rcn o2pt = RCN_CHILD_RESOURCES
        then Option.bind (build_rcn8 E s o2pt n ofst lim lvl) finish
        else if p_rcn o2pt = RCN_MODIFIED_ATTRIBUTES
        then (case p_request_pc o2pt of
                None \<Rightarrow> Some (RSC_INTERNAL_SERVER_ERROR,
                          handle_error o2pt RSC_INTERNAL_SERVER_ERROR ''Internal Server Error'', s)
              | Some pc \<Rightarrow> finish_body o2pt s (modified_body E o2pt pc n))
        else finish_body o2pt s (JObject []) })"

end
