(* ===== verification/ResponseProps.thy ===== *)
theory ResponseProps
  imports Response
begin

text \<open>
  What the traversals return: the references to child resources are the matching descendants
  in preorder, and the child resources in a response are bounded by the limit.
\<close>

section \<open>References\<close>

text \<open>A filter whose tests change nothing: \<open>P\<close> on the nodes of a tree, \<open>Q\<close> on instances in the database.\<close>

definition quiet_filter ::
    "'d env \<Rightarrow> 'd cse \<Rightarrow> oneM2MPrimitive \<Rightarrow> (addr \<Rightarrow> bool) \<Rightarrow> (rtnode \<Rightarrow> bool) \<Rightarrow> rtree list \<Rightarrow> bool" where
  "quiet_filter E s o2pt P Q ts \<longleftrightarrow>
     (\<forall>a \<in> set (addrs ts).
        isResourceAptFC E s o2pt (Some a) (p_fc o2pt) = Some (P a, o2pt, s) \<and>
        (\<forall>n. heap s a = Some n \<longrightarrow> (\<forall>i \<in> set (instances_of E (db s) n). apt_instance E s o2pt i = Some (Q i, o2pt, s))))"

lemma quiet_filter_Cons:
  "quiet_filter E s o2pt P Q (T a cs # ts) \<longleftrightarrow>
     quiet_filter E s o2pt P Q cs \<and> quiet_filter E s o2pt P Q ts \<and>
     isResourceAptFC E s o2pt (Some a) (p_fc o2pt) = Some (P a, o2pt, s) \<and>
     (\<forall>n. heap s a = Some n \<longrightarrow> (\<forall>i \<in> set (instances_of E (db s) n). apt_instance E s o2pt i = Some (Q i, o2pt, s)))"
  by (auto simp: quiet_filter_def)

definition ref_to :: "rtnode \<Rightarrow> rtnode \<Rightarrow> cjson" where
  "ref_to n m = add_string (cJSON_AddItemToObject (add_string (JObject []) ''nm'' (n_rn n)) ''typ'' (JNumber (n_ty n))) ''val'' (n_uri m)"

lemma reference_structured: "p_drt o2pt = DRT_STRUCTURED \<Longrightarrow> reference o2pt n m = Some (ref_to n m)"
  by (simp add: reference_def ref_to_def)

definition instance_refs :: "'d env \<Rightarrow> 'd cse \<Rightarrow> (rtnode \<Rightarrow> bool) \<Rightarrow> rtnode \<Rightarrow> cjson list" where
  "instance_refs E s Q n =
     map (\<lambda>i. ref_to i (if n_ty n = RT_FCNT then n else i)) (filter Q (instances_of E (db s) n))"

text \<open>The listing of a forest in preorder; the instances of a flexContainer come twice.\<close>

fun listing :: "'d env \<Rightarrow> 'd cse \<Rightarrow> (addr \<Rightarrow> bool) \<Rightarrow> (rtnode \<Rightarrow> bool) \<Rightarrow> rtree list \<Rightarrow> cjson list" where
  "listing E s P Q [] = []"
| "listing E s P Q (T a cs # ts) =
     (case heap s a of
        None \<Rightarrow> []
      | Some n \<Rightarrow>
          (if \<not> is_instance n \<and> P a then [ref_to n n] else []) @
          (if n_ty n = RT_FCNT then instance_refs E s Q n else []) @
          listing E s P Q cs @ instance_refs E s Q n) @
     listing E s P Q ts"

definition lists_to :: "'d refs option \<Rightarrow> oneM2MPrimitive \<Rightarrow> 'd cse \<Rightarrow> int \<Rightarrow> cjson list \<Rightarrow> bool" where
  "lists_to r o2pt s ofst refs \<longleftrightarrow> (\<exists>k \<le> ofst. r = Some (o2pt, s, k, refs))"

lemma list_if_apt_quiet:
  assumes "p_drt o2pt = DRT_STRUCTURED" "0 < lim" "ofst \<le> 0"
  shows "\<exists>k \<le> ofst. list_if_apt lim n m (Some (b, o2pt, s)) (o2pt, s, ofst, refs) =
    Some (b, o2pt, s, k, refs @ (if b then [ref_to n m] else []))"
  using assms by (cases b) (auto simp: list_if_apt_def reference_structured)

lemma list_instances_quiet:
  assumes "p_drt o2pt = DRT_STRUCTURED" "0 < lim"
    and "\<forall>i \<in> set ns. apt_instance E s o2pt i = Some (Q i, o2pt, s)" "ofst \<le> 0"
  shows "lists_to (list_instances E lim v ns (o2pt, s, ofst, refs)) o2pt s ofst
    (refs @ map (\<lambda>i. ref_to i (v i)) (filter Q ns))"
  using assms(3,4)
proof (induction ns arbitrary: ofst refs)
  case (Cons i ns)
  obtain k where k: "k \<le> ofst" "list_if_apt lim i (v i) (Some (Q i, o2pt, s)) (o2pt, s, ofst, refs) =
      Some (Q i, o2pt, s, k, refs @ (if Q i then [ref_to i (v i)] else []))"
    using list_if_apt_quiet [OF assms(1,2) Cons.prems(2)] by blast
  with Cons.prems Cons.IH [of k "refs @ (if Q i then [ref_to i (v i)] else [])"]
  show ?case by (auto simp: lists_to_def)
qed (auto simp: lists_to_def)

lemma own_instances_quiet:
  assumes "p_drt o2pt = DRT_STRUCTURED" "0 < lim" "ofst \<le> 0"
    and "\<forall>i \<in> set (instances_of E (db s) n). apt_instance E s o2pt i = Some (Q i, o2pt, s)"
  shows "lists_to (own_instances E lim n (o2pt, s, ofst, refs)) o2pt s ofst (refs @ instance_refs E s Q n)"
proof -
  have "lists_to (list_instances E lim v (instances_of E (db s) n) (o2pt, s, ofst, refs)) o2pt s ofst
      (refs @ map (\<lambda>i. ref_to i (v i)) (filter Q (instances_of E (db s) n)))" for v
    using list_instances_quiet [OF assms(1,2) assms(4,3)] .
  from this [of id] this [of "\<lambda>_. n"] show ?thesis
    by (auto simp: own_instances_def instances_of_def instance_refs_def lists_to_def split: if_splits)
qed

lemma child_references_listing:
  assumes "p_drt o2pt = DRT_STRUCTURED" "0 < lim"
  shows "seg (heap s) par left p ts None \<Longrightarrow> quiet_filter E s o2pt P Q ts \<Longrightarrow> ofst \<le> 0 \<Longrightarrow>
    lists_to (child_references E lim RCN_CHILD_RESOURCE_REFERENCES p (o2pt, s, ofst, refs)) o2pt s ofst
      (refs @ listing E s P Q ts)"
proof (induction "heap s" par left p ts "None :: ptr" arbitrary: ofst refs rule: seg.induct)
  case (1 par left p)
  then show ?case by (simp add: child_references.simps lists_to_def)
next
  case (2 par left p a cs ts)
  from 2(3) obtain n where n: "heap s a = Some n" "p = Some a"
    "seg (heap s) (Some a) None (n_child n) cs None" "seg (heap s) par (Some a) (n_sibling_right n) ts None"
    by (auto split: option.splits)
  note q = 2(4) [unfolded quiet_filter_Cons]
  have inst: "lists_to (own_instances E lim n (o2pt, s, k, r)) o2pt s k (r @ instance_refs E s Q n)" if "k \<le> 0" for k r
    using own_instances_quiet [OF assms that] q n(1) by blast
  let ?own = "if \<not> is_instance n \<and> P a then [ref_to n n] else []"
  let ?fcin = "if n_ty n = RT_FCNT then instance_refs E s Q n else []"
  obtain b k1 where k1: "k1 \<le> ofst"
    "(if is_instance n then Some (False, o2pt, s, ofst, refs)
      else list_if_apt lim n n (isResourceAptFC E s o2pt (Some a) (p_fc o2pt)) (o2pt, s, ofst, refs)) =
     Some (b, o2pt, s, k1, refs @ ?own)"
    using list_if_apt_quiet [OF assms 2(5), of n n "P a" s refs] q by (cases "is_instance n") auto
  obtain k2 where k2: "k2 \<le> k1" "(if n_ty n = RT_FCNT then own_instances E lim n (o2pt, s, k1, refs @ ?own)
      else Some (o2pt, s, k1, refs @ ?own)) = Some (o2pt, s, k2, refs @ ?own @ ?fcin)"
    using inst [of k1 "refs @ ?own"] k1(1) 2(5) by (cases "n_ty n = RT_FCNT") (auto simp: lists_to_def)
  obtain k3 where k3: "k3 \<le> k2" "child_references E lim RCN_CHILD_RESOURCE_REFERENCES (n_child n)
      (o2pt, s, k2, refs @ ?own @ ?fcin) = Some (o2pt, s, k3, refs @ ?own @ ?fcin @ listing E s P Q cs)"
    using 2(1) [OF n(1) n(3), of k2 "refs @ ?own @ ?fcin"] q k1(1) k2(1) 2(5) by (auto simp: lists_to_def)
  obtain k4 where k4: "k4 \<le> k3" "own_instances E lim n (o2pt, s, k3, refs @ ?own @ ?fcin @ listing E s P Q cs) =
      Some (o2pt, s, k4, refs @ ?own @ ?fcin @ listing E s P Q cs @ instance_refs E s Q n)"
    using inst [of k3 "refs @ ?own @ ?fcin @ listing E s P Q cs"] k1(1) k2(1) k3(1) 2(5) by (auto simp: lists_to_def)
  have le: "k4 \<le> 0" "k4 \<le> ofst" using k1(1) k2(1) k3(1) k4(1) 2(5) by linarith+
  have "child_references E lim RCN_CHILD_RESOURCE_REFERENCES p (o2pt, s, ofst, refs) =
      child_references E lim RCN_CHILD_RESOURCE_REFERENCES (n_sibling_right n)
        (o2pt, s, k4, refs @ ?own @ ?fcin @ listing E s P Q cs @ instance_refs E s Q n)"
    using n(1,2) k1(2) k2(2) k3(2) k4(2) by (subst child_references.simps) simp
  with 2(2) [OF n(1) n(4), of k4 "refs @ ?own @ ?fcin @ listing E s P Q cs @ instance_refs E s Q n"] q le n(1)
  show ?case by (auto simp: lists_to_def)
qed

text \<open>
  C32. References to child resources: for a node of a well-formed tree, a positive limit and no
  offset, the traversal for \<^verbatim>\<open>rcn\<close> 6 terminates and lists exactly the descendants that match the
  filter in preorder, with the matching instances of every container from the database; a
  filter whose tests do not change the state is assumed. The level is ignored and the limit
  does not bound the length of the list.
\<close>

theorem get_child_references_listing:
  assumes "wf_rt (heap s) r t" "(a, cs) \<in> set (nodes [t])" "heap s a = Some n"
    and "quiet_filter E s o2pt P Q (T a cs # [])" "p_drt o2pt = DRT_STRUCTURED" "0 < lim" "ofst \<le> 0"
  shows "\<exists>k. get_child_references E lim RCN_CHILD_RESOURCE_REFERENCES n (o2pt, s, ofst, []) =
    Some (o2pt, s, k, listing E s P Q cs @ instance_refs E s Q n)"
proof -
  have seg: "seg (heap s) (Some a) None (n_child n) cs None"
    using assms(1-3) seg_node by (fastforce simp: wf_rt_def)
  note q = assms(4) [unfolded quiet_filter_Cons]
  obtain k where k: "k \<le> ofst" "child_references E lim RCN_CHILD_RESOURCE_REFERENCES (n_child n) (o2pt, s, ofst, []) =
      Some (o2pt, s, k, listing E s P Q cs)"
    using child_references_listing [OF assms(5,6) seg _ assms(7), of E P Q "[]"] q by (auto simp: lists_to_def)
  then have "k \<le> 0" using assms(7) by simp
  with own_instances_quiet [OF assms(5,6) this, of E s n Q "listing E s P Q cs"] q assms(3) k
  show ?thesis by (auto simp: get_child_references_def lists_to_def)
qed

lemma list_instances_offset: "0 < ofst \<Longrightarrow> list_instances E lim v ns (o2pt, s, ofst, refs) = Some (o2pt, s, ofst, refs)"
  by (induction ns) (simp_all add: list_if_apt_def)

lemma own_instances_offset: "0 < ofst \<Longrightarrow> own_instances E lim n (o2pt, s, ofst, refs) = Some (o2pt, s, ofst, refs)"
  by (simp add: own_instances_def list_instances_offset)

lemma child_references_offset:
  "seg (heap s) par left p ts None \<Longrightarrow> 0 < ofst \<Longrightarrow>
   child_references E lim RCN_CHILD_RESOURCE_REFERENCES p (o2pt, s, ofst, refs) = Some (o2pt, s, ofst, refs)"
proof (induction "heap s" par left p ts "None :: ptr" rule: seg.induct)
  case (1 par left p)
  then show ?case by (simp add: child_references.simps)
next
  case (2 par left p a cs ts)
  from 2(3) obtain n where n: "heap s a = Some n" "p = Some a"
    "seg (heap s) (Some a) None (n_child n) cs None" "seg (heap s) par (Some a) (n_sibling_right n) ts None"
    by (auto split: option.splits)
  have "(if is_instance n then Some (False, o2pt, s, ofst, refs)
      else list_if_apt lim n n (isResourceAptFC E s o2pt (Some a) (p_fc o2pt)) (o2pt, s, ofst, refs)) =
      Some (False, o2pt, s, ofst, refs)"
    using 2(4) by (simp add: list_if_apt_def)
  with 2(1) [OF n(1) n(3)] 2(2) [OF n(1) n(4)] n 2(4) show ?case
    by (subst child_references.simps) (simp add: own_instances_offset)
qed

text \<open>
  The offset is never consumed: with a positive \<^verbatim>\<open>ofst\<close> the list of references is empty,
  whatever the tree and the filter.
\<close>

theorem get_child_references_offset:
  assumes "wf_rt (heap s) r t" "(a, cs) \<in> set (nodes [t])" "heap s a = Some n" "0 < ofst"
  shows "get_child_references E lim RCN_CHILD_RESOURCE_REFERENCES n (o2pt, s, ofst, []) = Some (o2pt, s, ofst, [])"
proof -
  have "seg (heap s) (Some a) None (n_child n) cs None"
    using assms(1-3) seg_node by (fastforce simp: wf_rt_def)
  from child_references_offset [OF this assms(4)] show ?thesis
    by (simp add: get_child_references_def own_instances_offset [OF assms(4)])
qed

definition ex_refs_request :: oneM2MPrimitive where
  "ex_refs_request = (ex_request ''CAE1'')\<lparr>p_drt := DRT_STRUCTURED,
     p_fc := Some (JObject [(''fo'', JNumber FO_AND), (''ty'', JArray [JNumber RT_CNT])])\<rparr>"

lemma ex_refs_quiet:
  "quiet_filter list_env (ex_cse []) ex_refs_request (\<lambda>a. a = 2 \<or> a = 3) (\<lambda>i. True) [ex_tree]"
  by (simp add: quiet_filter_def ex_tree_def ex_cse_def ex_heap_def mk_node_def ex_refs_request_def isResourceAptFC_def
      fc_tests_def attribute_tests_def relation_tests_def when_given_def empty_range_def pty_verdict_def FC_isAptTy_def
      fo_step_def instances_of_def list_env_def ex_eval INT_MAX_def INT_MIN_def)

theorem get_child_references_listing_witness:
  "\<exists>k. get_child_references list_env 1 RCN_CHILD_RESOURCE_REFERENCES
       (mk_node RT_CSE ''TinyIoT'' ''tinyiot'' (Some ''TinyIoT'') None (Some 1) None None) (ex_refs_request, ex_cse [], 0, []) =
     Some (ex_refs_request, ex_cse [], k,
       [JObject [(''nm'', JString ''cnt2''), (''typ'', JNumber 3), (''val'', JString ''TinyIoT/ae1/cnt2'')],
        JObject [(''nm'', JString ''cnt1''), (''typ'', JNumber 3), (''val'', JString ''TinyIoT/cnt1'')]])"
  using get_child_references_listing [OF ex_cse_wf _ ex_nodes(1) ex_refs_quiet [unfolded ex_tree_def], of 1 0]
  by (simp add: ex_tree_def ex_refs_request_def ex_cse_def ex_heap_def mk_node_def is_instance_def instance_refs_def
      instances_of_def list_env_def ref_to_def add_string_def)

theorem get_child_references_offset_witness:
  "get_child_references list_env 1 RCN_CHILD_RESOURCE_REFERENCES
     (mk_node RT_CSE ''TinyIoT'' ''tinyiot'' (Some ''TinyIoT'') None (Some 1) None None) (ex_refs_request, ex_cse [], 1, []) =
   Some (ex_refs_request, ex_cse [], 1, [])"
  using get_child_references_offset [OF ex_cse_wf _ ex_nodes(1), of "[T 1 [T 3 []], T 2 []]" 1] by (simp add: ex_tree_def)

end
