(* ===== verification/Lifecycle.thy ===== *)
theory Lifecycle
  imports Validation Response
begin

text \<open>
  The life cycle of resources (\<^verbatim>\<open>onem2m.c\<close>, \<^verbatim>\<open>resources/acp.c\<close>, \<^verbatim>\<open>resources/ae.c\<close>, \<^verbatim>\<open>resources/cnt.c\<close>,
  \<^verbatim>\<open>resources/cin.c\<close>): creation and update of policies, application entities, containers and
  content instances.

  A handler returns the response code, the primitive and the state. The C code works on a copy
  of the request contents, or for an update on the contents themselves, which then carry the
  changes.
\<close>

section \<open>General attributes\<close>

text \<open>
  The members are appended, also when the request already has a member of that name; a lookup
  finds the first one.
\<close>

definition add_general_attribute :: "'d env \<Rightarrow> 'd cse \<Rightarrow> cjson \<Rightarrow> addr \<Rightarrow> int \<Rightarrow> (cjson \<times> 'd cse) option" where
  "add_general_attribute E s obj parent ty =
     do {
       let ct = e_time E 0;
       let (ri, n) = resource_identifier ty ct (ri_count s);
       let s = s\<lparr>ri_count := n\<rparr>;
       let obj = cJSON_AddItemToObject obj ''ty'' (JNumber ty);
       let obj = cJSON_AddItemToObject obj ''ct'' (JString ct);
       let obj = cJSON_AddItemToObject obj ''ri'' (JString ri);
       let obj = (if cJSON_GetObjectItem (Some obj) ''rn'' = None then cJSON_AddItemToObject obj ''rn'' (JString ri) else obj);
       let obj = cJSON_AddItemToObject obj ''lt'' (JString ct);
       p \<leftarrow> heap s parent;
       pi \<leftarrow> cJSON_GetObjectItem (n_obj p) ''ri'';
       let obj = add_string obj ''pi'' (valuestring pi);
       Some (if cJSON_GetObjectItem (Some obj) ''et'' = None
             then cJSON_AddItemToObject obj ''et'' (JString (e_time E DEFAULT_EXPIRE_TIME)) else obj, s) }"

text \<open>A null creator is replaced by the originator, any other value is refused (\<open>None\<close>).\<close>

definition set_creator :: "oneM2MPrimitive \<Rightarrow> cjson \<Rightarrow> cjson option" where
  "set_creator o2pt obj =
     (case cJSON_GetObjectItem (Some obj) ''cr'' of
        None \<Rightarrow> Some obj
      | Some JNull \<Rightarrow> Some (add_string (cJSON_DeleteItemFromObject obj ''cr'') ''cr'' (p_fr o2pt))
      | Some _ \<Rightarrow> None)"

text \<open>The announcement of a new resource: \<^verbatim>\<open>at\<close> becomes the list of the copies that were created.\<close>

definition announce_new :: "'d env \<Rightarrow> 'd cse \<Rightarrow> addr \<Rightarrow> cjson \<Rightarrow> (cjson \<times> 'd cse) option" where
  "announce_new E s parent obj =
     do {
       (final_at, s) \<leftarrow> handle_annc_create E s parent obj;
       let obj = cJSON_DeleteItemFromObject obj ''at'';
       Some (if final_at \<noteq> [] then cJSON_AddItemToObject obj ''at'' (JArray final_at) else obj, s) }"

text \<open>The address of a new resource, in a buffer of 1024 bytes.\<close>

definition new_uri :: "'d cse \<Rightarrow> addr \<Rightarrow> cjson \<Rightarrow> string option" where
  "new_uri s parent obj =
     do {
       p \<leftarrow> heap s parent;
       puri \<leftarrow> n_uri p;
       rn \<leftarrow> member_string (Some obj) ''rn'';
       if length (puri @ ''/'' @ rn) < 1024 then Some (puri @ ''/'' @ rn) else None }"

text \<open>Storing, inserting and answering: the end of the creation of an AE, a container or a policy.\<close>

definition store_and_insert :: "'d env \<Rightarrow> 'd cse \<Rightarrow> oneM2MPrimitive \<Rightarrow> addr \<Rightarrow> cjson \<Rightarrow> int \<Rightarrow> 'd outcome" where
  "store_and_insert E s o2pt parent obj ty =
     do {
       uri \<leftarrow> new_uri s parent obj;
       let (result, d) = e_db_store_resource E (db s) obj uri;
       let s = s\<lparr>db := d\<rparr>;
       if result \<noteq> 1
       then Some (RSC_INTERNAL_SERVER_ERROR, handle_error o2pt RSC_INTERNAL_SERVER_ERROR ''DB store fail'', s)
       else do {
         (child, s) \<leftarrow> create_rtnode s obj ty;
         s \<leftarrow> add_child_resource_tree s parent child;
         (_, o2pt, s) \<leftarrow> make_response_body E s o2pt child;
         Some (RSC_CREATED, o2pt, s) } }"

section \<open>Containers\<close>

text \<open>\<^verbatim>\<open>create_cnt\<close> sets \<^verbatim>\<open>rsc\<close> before the body is made, \<^verbatim>\<open>create_acp\<close> and \<^verbatim>\<open>create_ae\<close> after it.\<close>

definition create_cnt :: "'d env \<Rightarrow> 'd cse \<Rightarrow> oneM2MPrimitive \<Rightarrow> addr \<Rightarrow> 'd outcome" where
  "create_cnt E s o2pt parent =
     do {
       (cnt, s) \<leftarrow>
         (case cJSON_GetObjectItem (p_request_pc o2pt) ''m2m:cnt'' of
            None \<Rightarrow> do { (_, s) \<leftarrow> add_general_attribute E s JNull parent RT_CNT; Some (None, s) }
          | Some c \<Rightarrow> do { (c, s) \<leftarrow> add_general_attribute E s c parent RT_CNT; Some (Some c, s) });
       (rsc, o2pt, cnt, s) \<leftarrow> validate_cnt E s o2pt cnt OP_CREATE;
       if rsc \<noteq> RSC_OK then Some (rsc, o2pt, s)
       else (case set_creator o2pt cnt of
               None \<Rightarrow> Some (RSC_BAD_REQUEST,
                 handle_error o2pt RSC_BAD_REQUEST ''creator attribute with arbitary value is not allowed'', s)
             | Some cnt \<Rightarrow> do {
                 let cnt = cJSON_AddItemToObject cnt ''st'' (JNumber 0);
                 let cnt = cJSON_AddItemToObject cnt ''cni'' (JNumber 0);
                 let cnt = cJSON_AddItemToObject cnt ''cbs'' (JNumber 0);
                 (cnt, s) \<leftarrow> announce_new E s parent cnt;
                 let cnt = (if cJSON_GetObjectItem (Some cnt) ''mni'' = None
                            then cJSON_AddItemToObject cnt ''mni'' (JNumber DEFAULT_MAX_NR_INSTANCES) else cnt);
                 store_and_insert E s (o2pt\<lparr>p_rsc := RSC_CREATED\<rparr>) parent cnt RT_CNT }) }"

text \<open>The common part of the updates: the first \<open>k\<close> members of the contents are removed again.\<close>

fun drop_members :: "nat \<Rightarrow> cjson \<Rightarrow> cjson" where
  "drop_members 0 j = j"
| "drop_members (Suc k) j = drop_members k (cJSON_DeleteItemFromArray j 0)"

definition has_any :: "cjson option \<Rightarrow> string list \<Rightarrow> bool" where
  "has_any j ks \<longleftrightarrow> list_ex (\<lambda>k. cJSON_GetObjectItem j k \<noteq> None) ks"

definition put_contents :: "oneM2MPrimitive \<Rightarrow> string \<Rightarrow> cjson \<Rightarrow> oneM2MPrimitive" where
  "put_contents o2pt key body = o2pt\<lparr>p_request_pc := map_option (\<lambda>pc. modify_member pc key (\<lambda>_. body)) (p_request_pc o2pt)\<rparr>"

definition merge_into :: "'d cse \<Rightarrow> addr \<Rightarrow> cjson \<Rightarrow> 'd cse option" where
  "merge_into s a body =
     do {
       n \<leftarrow> heap s a;
       obj \<leftarrow> n_obj n;
       h \<leftarrow> put_obj (heap s) a (update_resource obj body);
       Some (s\<lparr>heap := h\<rparr>) }"

definition save_update :: "'d env \<Rightarrow> 'd cse \<Rightarrow> addr \<Rightarrow> cjson \<Rightarrow> int \<Rightarrow> (int \<times> 'd cse) option" where
  "save_update E s a body ty =
     do {
       n \<leftarrow> heap s a;
       ri \<leftarrow> get_ri_rtnode n;
       let (result, d) = e_db_update_resource E (db s) body ri ty;
       Some (result, s\<lparr>db := d\<rparr>) }"

definition answer_update :: "'d env \<Rightarrow> 'd cse \<Rightarrow> oneM2MPrimitive \<Rightarrow> addr \<Rightarrow> string \<Rightarrow> cjson \<Rightarrow> nat \<Rightarrow> 'd outcome" where
  "answer_update E s o2pt a key body k =
     do {
       (_, o2pt, s) \<leftarrow> make_response_body E s (put_contents o2pt key (drop_members k body)) a;
       Some (RSC_UPDATED, o2pt\<lparr>p_rsc := RSC_UPDATED\<rparr>, s) }"

definition with_lt :: "'d env \<Rightarrow> cjson \<Rightarrow> cjson" where
  "with_lt E body = cJSON_AddItemToObject body ''lt'' (JString (e_time E 0))"

definition update_cnt :: "'d env \<Rightarrow> 'd cse \<Rightarrow> oneM2MPrimitive \<Rightarrow> addr \<Rightarrow> 'd outcome" where
  "update_cnt E s o2pt target =
     (let m2m_cnt = cJSON_GetObjectItem (p_request_pc o2pt) ''m2m:cnt'' in
      if has_any m2m_cnt [''ty'', ''pi'', ''ri'', ''rn'', ''ct'', ''cr'']
      then Some (RSC_BAD_REQUEST, handle_error o2pt RSC_BAD_REQUEST ''unsupported attribute on update'', s)
      else do {
        (rsc, o2pt, body, s) \<leftarrow> validate_cnt E s o2pt m2m_cnt OP_UPDATE;
        if rsc \<noteq> RSC_OK then Some (rsc, o2pt, s)
        else do {
          n \<leftarrow> heap s target;
          st \<leftarrow> member_int (n_obj n) ''st'';
          st' \<leftarrow> add_int st 1;
          (body, s) \<leftarrow> process_annc_at_update E s target (cJSON_AddItemToObject body ''st'' (JNumber st'));
          let body = with_lt E body;
          s \<leftarrow> merge_into s target body;
          s \<leftarrow> delete_cin_under_cnt_mni_mbs E s target;
          (_, s) \<leftarrow> save_update E s target body RT_CNT;
          answer_update E s o2pt target ''m2m:cnt'' body (cJSON_GetArraySize m2m_cnt) } })"

section \<open>Content instances\<close>

text \<open>
  The error paths after the node has been created free the contents twice, with the node and
  with the copy of the request that still holds them: undefined.
\<close>

abbreviation (input) double_free :: "'d outcome" where "double_free \<equiv> None"

definition latest_child :: "'d cse \<Rightarrow> addr \<Rightarrow> ptr option" where
  "latest_child s parent = do { p \<leftarrow> heap s parent; find_sibling (heap s) (n_child p) ''la'' }"

text \<open>The tree holds one instance per container, under the name \<^verbatim>\<open>la\<close>.\<close>

definition keep_latest :: "'d cse \<Rightarrow> addr \<Rightarrow> addr \<Rightarrow> 'd cse option" where
  "keep_latest s parent cin =
     do {
       la \<leftarrow> latest_child s parent;
       case la of
         None \<Rightarrow> do {
           s \<leftarrow> add_child_resource_tree s parent cin;
           h \<leftarrow> upd (heap s) cin (\<lambda>n. n\<lparr>n_rn := Some ''la''\<rparr>);
           Some (s\<lparr>heap := h\<rparr>) }
       | Some l \<Rightarrow> do {
           n \<leftarrow> heap s cin;
           h \<leftarrow> upd (heap s) l (\<lambda>m. m\<lparr>n_obj := n_obj n\<rparr>);
           h \<leftarrow> free_rtnode h cin;
           Some (s\<lparr>heap := h\<rparr>) } }"

definition cin_contents :: "'d env \<Rightarrow> 'd cse \<Rightarrow> cjson \<Rightarrow> addr \<Rightarrow> (cjson \<times> 'd cse) option" where
  "cin_contents E s cin parent =
     do {
       (cin, s) \<leftarrow> add_general_attribute E s cin parent RT_CIN;
       let cin = (case cJSON_GetObjectItem (Some cin) ''con'' of
                    Some (JString con) \<Rightarrow> cJSON_AddItemToObject cin ''cs'' (JNumber (int (length con)))
                  | _ \<Rightarrow> cin);
       p \<leftarrow> heap s parent;
       st \<leftarrow> member_int (n_obj p) ''st'';
       Some (cJSON_AddItemToObject cin ''st'' (JNumber st), s) }"

definition store_cin :: "'d env \<Rightarrow> 'd cse \<Rightarrow> oneM2MPrimitive \<Rightarrow> addr \<Rightarrow> addr \<Rightarrow> 'd outcome" where
  "store_cin E s o2pt parent cin =
     do {
       let (ok, d) = e_db_begin_tx E (db s);
       if ok = 0 then double_free
       else do {
         (rc, s) \<leftarrow> update_cnt_cin E (s\<lparr>db := d\<rparr>) (Some parent) (Some cin) 1;
         if rc \<noteq> 0 then double_free
         else do {
           (_, o2pt, s) \<leftarrow> make_response_body E s o2pt cin;
           let o2pt = o2pt\<lparr>p_rsc := RSC_CREATED\<rparr>;
           n \<leftarrow> heap s cin;
           obj \<leftarrow> n_obj n;
           uri \<leftarrow> new_uri s parent obj;
           let (result, d) = e_db_store_resource E (db s) obj uri;
           if result \<noteq> 1 then double_free
           else do {
             let (ok, d) = e_db_commit_tx E d;
             if ok = 0 then double_free
             else do { s \<leftarrow> keep_latest (s\<lparr>db := d\<rparr>) parent cin; Some (RSC_CREATED, o2pt, s) } } } } }"

definition create_cin :: "'d env \<Rightarrow> 'd cse \<Rightarrow> oneM2MPrimitive \<Rightarrow> addr \<Rightarrow> 'd outcome" where
  "create_cin E s o2pt parent =
     do {
       c \<leftarrow> cJSON_GetObjectItem (p_request_pc o2pt) ''m2m:cin'';
       (cin, s) \<leftarrow> cin_contents E s c parent;
       p \<leftarrow> heap s parent;
       (rsc, o2pt, cin) \<leftarrow> validate_cin o2pt (n_obj p) (Some cin) OP_CREATE;
       if rsc \<noteq> RSC_OK then Some (rsc, o2pt, s)
       else do {
         cin \<leftarrow> cin;
         case set_creator o2pt cin of
           None \<Rightarrow> Some (RSC_BAD_REQUEST,
             handle_error o2pt RSC_BAD_REQUEST ''creator attribute with arbitary value is not allowed'', s)
         | Some cin \<Rightarrow> do {
             (cin, s) \<leftarrow> announce_new E s parent cin;
             (a, s) \<leftarrow> create_rtnode s cin RT_CIN;
             store_cin E s o2pt parent a } } }"

section \<open>Access control policies\<close>

definition create_acp :: "'d env \<Rightarrow> 'd cse \<Rightarrow> oneM2MPrimitive \<Rightarrow> addr \<Rightarrow> 'd outcome" where
  "create_acp E s o2pt parent =
     do {
       p \<leftarrow> heap s parent;
       if n_ty p \<noteq> RT_CSE \<and> n_ty p \<noteq> RT_AE
       then Some (RSC_INVALID_CHILD_RESOURCETYPE, handle_error o2pt RSC_INVALID_CHILD_RESOURCETYPE ''child type is invalid'', s)
       else do {
         (acp, s) \<leftarrow>
           (case cJSON_GetObjectItem (p_request_pc o2pt) ''m2m:acp'' of
              None \<Rightarrow> do { (_, s) \<leftarrow> add_general_attribute E s JNull parent RT_ACP; Some (None, s) }
            | Some c \<Rightarrow> do { (c, s) \<leftarrow> add_general_attribute E s c parent RT_ACP; Some (Some c, s) });
         let (rsc, o2pt, acp) = validate_acp o2pt acp OP_CREATE;
         if rsc \<noteq> RSC_OK then Some (rsc, o2pt, s)
         else do {
           acp \<leftarrow> acp;
           (acp, s) \<leftarrow> announce_new E s parent acp;
           (rsc, o2pt, s) \<leftarrow> store_and_insert E s o2pt parent acp RT_ACP;
           Some (rsc, if rsc = RSC_CREATED then o2pt\<lparr>p_rsc := RSC_CREATED\<rparr> else o2pt, s) } } }"

definition update_acp :: "'d env \<Rightarrow> 'd cse \<Rightarrow> oneM2MPrimitive \<Rightarrow> addr \<Rightarrow> 'd outcome" where
  "update_acp E s o2pt target =
     (let m2m_acp = cJSON_GetObjectItem (p_request_pc o2pt) ''m2m:acp'' in
      if has_any m2m_acp [''ty'', ''pi'', ''ri'', ''rn'', ''ct'']
      then Some (RSC_BAD_REQUEST, handle_error o2pt RSC_BAD_REQUEST ''unsupported attribute on update'', s)
      else do {
        let (rsc, o2pt, acp) = validate_acp o2pt m2m_acp OP_UPDATE;
        if rsc \<noteq> RSC_OK then Some (rsc, o2pt, s)
        else do {
          body \<leftarrow> acp;
          (body, s) \<leftarrow> process_annc_at_update E s target body;
          let body = with_lt E body;
          s \<leftarrow> merge_into s target body;
          (result, s) \<leftarrow> save_update E s target body RT_ACP;
          if result \<noteq> 1
          then Some (RSC_INTERNAL_SERVER_ERROR,
                 handle_error (put_contents o2pt ''m2m:acp'' body) RSC_INTERNAL_SERVER_ERROR ''DB update fail'', s)
          else answer_update E s o2pt target ''m2m:acp'' body (cJSON_GetArraySize m2m_acp) } })"

section \<open>Application entities\<close>

text \<open>
  The identifier of an application entity: the originator when it is a full identifier, the
  generated one otherwise, which then becomes the originator. A single \<open>S\<close> only changes the
  first character.
\<close>

definition assign_aei :: "oneM2MPrimitive \<Rightarrow> cjson \<Rightarrow> (cjson \<times> oneM2MPrimitive) option" where
  "assign_aei o2pt ae =
     do {
       (ae, o2pt) \<leftarrow>
         (case p_fr o2pt of
            Some (c # cs) \<Rightarrow>
              if c = CHR ''C''
              then Some (if cs = [] then ae
                         else modify_member ae ''ri'' (\<lambda>j. case j of JString _ \<Rightarrow> JString (c # cs) | _ \<Rightarrow> j), o2pt)
              else if c = CHR ''S''
              then (if cs \<noteq> [] then Some (cJSON_ReplaceItemInObject ae ''ri'' (JString (c # cs)), o2pt)
                    else do {
                      ri \<leftarrow> member_string (Some ae) ''ri'';
                      if ri = [] then None else Some (modify_member ae ''ri'' (\<lambda>_. JString (CHR ''S'' # tl ri)), o2pt) })
              else do { ri \<leftarrow> member_string (Some ae) ''ri''; Some (ae, o2pt\<lparr>p_fr := Some ri\<rparr>) }
          | _ \<Rightarrow> do { ri \<leftarrow> member_string (Some ae) ''ri''; Some (ae, o2pt\<lparr>p_fr := Some ri\<rparr>) });
       ri \<leftarrow> cJSON_GetObjectItem (Some ae) ''ri'';
       Some (add_string ae ''aei'' (valuestring ri), o2pt) }"

definition ae_checks :: "'d env \<Rightarrow> 'd cse \<Rightarrow> oneM2MPrimitive \<Rightarrow> addr \<Rightarrow> checked option" where
  "ae_checks E s o2pt parent =
     do {
       (e, o2pt) \<leftarrow> check_aei_duplicate (heap s) o2pt (Some parent);
       if e = - 1 then Some (e, o2pt)
       else (let (e, o2pt) = check_aei_invalid o2pt in
             if e = - 1 then Some (e, o2pt) else check_rn_invalid o2pt RT_AE) }"

definition create_ae :: "'d env \<Rightarrow> 'd cse \<Rightarrow> oneM2MPrimitive \<Rightarrow> addr \<Rightarrow> 'd outcome" where
  "create_ae E s o2pt parent =
     do {
       (e, o2pt) \<leftarrow> ae_checks E s o2pt parent;
       if e = - 1 then Some (p_rsc o2pt, o2pt, s)
       else do {
         c \<leftarrow> cJSON_GetObjectItem (p_request_pc o2pt) ''m2m:ae'';
         (ae, s) \<leftarrow> add_general_attribute E s c parent RT_AE;
         (rsc, o2pt, ae, s) \<leftarrow> validate_ae E s o2pt (Some ae) OP_CREATE;
         (ae, o2pt) \<leftarrow> assign_aei o2pt ae;
         if rsc \<noteq> RSC_OK then Some (rsc, o2pt, s)
         else do {
           (ae, s) \<leftarrow> announce_new E s parent ae;
           (rsc, o2pt, s) \<leftarrow> store_and_insert E s o2pt parent ae RT_AE;
           Some (rsc, if rsc = RSC_CREATED then o2pt\<lparr>p_rsc := RSC_CREATED\<rparr> else o2pt, s) } } }"

definition update_ae :: "'d env \<Rightarrow> 'd cse \<Rightarrow> oneM2MPrimitive \<Rightarrow> addr \<Rightarrow> 'd outcome" where
  "update_ae E s o2pt target =
     (let m2m_ae = cJSON_GetObjectItem (p_request_pc o2pt) ''m2m:ae'' in
      if has_any m2m_ae [''ty'', ''pi'', ''ri'', ''rn'', ''ct'']
      then Some (RSC_BAD_REQUEST, handle_error o2pt RSC_BAD_REQUEST ''unsupported attribute on update'', s)
      else if cJSON_GetObjectItem m2m_ae ''acpi'' \<noteq> None \<and> 1 < cJSON_GetArraySize m2m_ae
      then Some (RSC_BAD_REQUEST, handle_error o2pt RSC_BAD_REQUEST ''only `acpi` should be updated'', s)
      else do {
        (rsc, o2pt, body, s) \<leftarrow> validate_ae E s o2pt m2m_ae OP_UPDATE;
        if rsc \<noteq> RSC_OK then Some (rsc, o2pt, s)
        else do {
          (body, s) \<leftarrow> process_annc_at_update E s target body;
          let body = with_lt E body;
          s \<leftarrow> merge_into s target body;
          n \<leftarrow> heap s target;
          obj \<leftarrow> n_obj n;
          h \<leftarrow> put_obj (heap s) target
            (if cJSON_IsNull (cJSON_GetObjectItem (Some obj) ''acpi'') then cJSON_DeleteItemFromObject obj ''acpi'' else obj);
          (_, s) \<leftarrow> save_update E (s\<lparr>heap := h\<rparr>) target body RT_AE;
          answer_update E s o2pt target ''m2m:ae'' body (cJSON_GetArraySize m2m_ae) } })"

end
