(* ===== verification/Notify.thy ===== *)
theory Notify
  imports Lifecycle
begin

text \<open>
  Notifications (\<^verbatim>\<open>util.c\<close>): which events a subscription asked for, and the delivery of a
  notification or a verification request to a notification target. MQTT, CoAP and WebSocket
  are disabled in \<^verbatim>\<open>config.h\<close>; a target of these protocols is skipped. The HTTP client is the
  parameter \<open>e_http_send\<close>.
\<close>

section \<open>Event types\<close>

abbreviation (input) NET_NONE :: int where "NET_NONE \<equiv> 0"
abbreviation (input) NET_UPDATE_OF_RESOURCE :: int where "NET_UPDATE_OF_RESOURCE \<equiv> 1"
abbreviation (input) NET_DELETE_OF_RESOURCE :: int where "NET_DELETE_OF_RESOURCE \<equiv> 2"
abbreviation (input) NET_CREATE_OF_DIRECT_CHILD_RESOURCE :: int where "NET_CREATE_OF_DIRECT_CHILD_RESOURCE \<equiv> 3"
abbreviation (input) NET_DELETE_OF_DIRECT_CHILD_RESOURCE :: int where "NET_DELETE_OF_DIRECT_CHILD_RESOURCE \<equiv> 4"
abbreviation (input) NET_RETRIEVE_OF_CONTAINER_RESOURCE_WITH_NO_CHILD_RESOURCE :: int where
  "NET_RETRIEVE_OF_CONTAINER_RESOURCE_WITH_NO_CHILD_RESOURCE \<equiv> 5"
abbreviation (input) NET_TRIGGER_RECIEVED_FOR_AE_RESOURCE :: int where "NET_TRIGGER_RECIEVED_FOR_AE_RESOURCE \<equiv> 6"
abbreviation (input) NET_BLOCKING_UPDATE :: int where "NET_BLOCKING_UPDATE \<equiv> 7"
abbreviation (input) NET_REPORT_ON_MISSING_DATA_POINTS :: int where "NET_REPORT_ON_MISSING_DATA_POINTS \<equiv> 8"

abbreviation (input) NCT_ALL_ATTRIBUTES :: int where "NCT_ALL_ATTRIBUTES \<equiv> 1"
abbreviation (input) NCT_MODIFIED_ATTRIBUTES :: int where "NCT_MODIFIED_ATTRIBUTES \<equiv> 2"
abbreviation (input) NCT_RESOURCE_ID :: int where "NCT_RESOURCE_ID \<equiv> 3"
abbreviation (input) NCT_TRIGGER_PAYLOAD :: int where "NCT_TRIGGER_PAYLOAD \<equiv> 4"
abbreviation (input) NCT_TIMESERIES_NOTIFICATION :: int where "NCT_TIMESERIES_NOTIFICATION \<equiv> 5"

text \<open>A subscription object may be wrapped in \<^verbatim>\<open>m2m:sub\<close>.\<close>

definition unwrap_sub :: "cjson option \<Rightarrow> cjson option" where
  "unwrap_sub obj =
     (let w = cJSON_GetObjectItem obj ''m2m:sub'' in if cJSON_IsObject w then w else obj)"

definition sub_has_net :: "cjson option \<Rightarrow> int \<Rightarrow> bool" where
  "sub_has_net obj net \<longleftrightarrow>
     (let enc = cJSON_GetObjectItem (unwrap_sub obj) ''enc''; arr = cJSON_GetObjectItem enc ''net''
      in cJSON_IsArray arr \<and> list_ex (\<lambda>v. cJSON_GetNumberValue v = Some net) (elems arr))"

text \<open>Every attribute named in \<^verbatim>\<open>atr\<close> has to be in the request; null when \<^verbatim>\<open>atr\<close> names no string.\<close>

fun names_all :: "cjson option \<Rightarrow> cjson list \<Rightarrow> bool option" where
  "names_all res [] = Some True"
| "names_all res (a # as) =
     (if res = None then Some False
      else do {
        k \<leftarrow> valuestring a;
        if cJSON_GetObjectItem res k = None then Some False else names_all res as })"

definition isAptEnc :: "oneM2MPrimitive \<Rightarrow> rtnode \<Rightarrow> rtnode \<Rightarrow> bool option" where
  "isAptEnc o2pt target sub =
     do {
       let enc = cJSON_GetObjectItem (n_obj sub) ''enc'';
       let chty = cJSON_GetObjectItem enc ''chty'';
       b \<leftarrow> names_all (cJSON_GetObjectItem (p_request_pc o2pt) (get_resource_key (n_ty target)))
         (elems (cJSON_GetObjectItem enc ''atr''));
       Some (b \<and> (chty = None \<or> FC_isAptChty chty (p_ty o2pt))) }"

section \<open>Delivery\<close>

text \<open>\<^verbatim>\<open>parsePoa\<close> with a variable for the port that may not be set yet.\<close>

definition poa_target :: "string \<Rightarrow> int option \<Rightarrow> (protocol \<times> string \<times> int option \<times> string) option option" where
  "poa_target v port =
     do {
       r \<leftarrow> parsePoa v 0;
       Some (case r of
               None \<Rightarrow> None
             | Some (prot, host, p, pth) \<Rightarrow>
                 Some (prot, host, if CHR '':'' \<in> set (drop (poa_skip prot) v) then Some p else port, pth)) }"

definition default_ws :: "string \<Rightarrow> bool" where
  "default_ws v \<longleftrightarrow> v \<in> {''ws://default'', ''ws://'', ''ws''}"

definition http_rsc :: "string option \<Rightarrow> int" where
  "http_rsc h = (case h of Some v \<Rightarrow> atoi v | None \<Rightarrow> RSC_BAD_REQUEST)"

text \<open>The request goes to every point of access; the last answer counts.\<close>

fun request_poas ::
  "'d env \<Rightarrow> 'd \<Rightarrow> oneM2MPrimitive \<Rightarrow> int option \<Rightarrow> int \<Rightarrow> cjson list \<Rightarrow> (int \<times> 'd) option" where
  "request_poas E d o2pt port rsc [] = Some (rsc, d)"
| "request_poas E d o2pt port rsc (poa # poas) =
     do {
       v \<leftarrow> valuestring poa;
       if default_ws v then Some (rsc, d)
       else do {
         r \<leftarrow> poa_target v port;
         case r of
           None \<Rightarrow> request_poas E d o2pt port rsc poas
         | Some (prot, host, port, pth) \<Rightarrow>
             if prot = PROT_HTTP
             then do {
               p \<leftarrow> port;
               _ \<leftarrow> p_request_pc o2pt;
               let (h, d) = e_http_send E d host p pth o2pt;
               request_poas E d o2pt port (http_rsc h) poas }
             else request_poas E d o2pt port rsc poas } }"

definition requestToResource :: "'d env \<Rightarrow> 'd cse \<Rightarrow> oneM2MPrimitive \<Rightarrow> ptr \<Rightarrow> (int \<times> 'd cse) option" where
  "requestToResource E s o2pt rtnode =
     (case rtnode of
        None \<Rightarrow> Some (RSC_NOT_FOUND, s)
      | Some a \<Rightarrow> do {
          n \<leftarrow> heap s a;
          if n_ty n \<noteq> RT_AE \<and> n_ty n \<noteq> RT_CSR then Some (0, s)
          else (case cJSON_GetObjectItem (n_obj n) ''rr'' of
                  None \<Rightarrow> Some (RSC_TARGET_NOT_REACHABLE, s)
                | Some JFalse \<Rightarrow> Some (RSC_TARGET_NOT_REACHABLE, s)
                | Some _ \<Rightarrow>
                    (case cJSON_GetObjectItem (n_obj n) ''poa'' of
                       None \<Rightarrow> Some (RSC_BAD_REQUEST, s)
                     | Some poa \<Rightarrow> do {
                         (rsc, d) \<leftarrow> request_poas E (db s) o2pt None 0 (elems (Some poa));
                         Some (rsc, s\<lparr>db := d\<rparr>) })) })"

definition make_subscription_reference :: "string option \<Rightarrow> string option" where
  "make_subscription_reference ri = map_option (\<lambda>r. ''/'' @ CSE_BASE_RI @ ''/'' @ r) ri"

text \<open>\<^verbatim>\<open>sur ? sur : uri\<close>.\<close>

definition subscription_reference :: "rtnode \<Rightarrow> string option" where
  "subscription_reference sub =
     (case make_subscription_reference (get_ri_rtnode sub) of None \<Rightarrow> n_uri sub | Some r \<Rightarrow> Some r)"

definition http_notify :: "'d env \<Rightarrow> 'd \<Rightarrow> oneM2MPrimitive \<Rightarrow> string \<Rightarrow> int \<Rightarrow> string \<Rightarrow> (int \<times> 'd) option" where
  "http_notify E d o2pt host port target =
     do {
       uri \<leftarrow> (if target \<noteq> [] then Some target else p_to o2pt);
       let (h, d) = e_http_send E d host port uri o2pt;
       Some (http_rsc h, d) }"

definition notify_primitive :: "cjson \<Rightarrow> oneM2MPrimitive" where
  "notify_primitive noti =
     empty_o2pt\<lparr>p_op := OP_NOTIFY, p_fr := Some (''/'' @ CSE_BASE_RI), p_rvi := RVI_3, p_rqi := Some ''notify'',
       p_request_pc := Some noti\<rparr>"

text \<open>The path is copied into a buffer of 256 bytes.\<close>

definition notify_url :: "'d env \<Rightarrow> 'd \<Rightarrow> oneM2MPrimitive \<Rightarrow> string \<Rightarrow> (int option \<times> 'd) option" where
  "notify_url E d o2pt uri =
     do {
       r \<leftarrow> poa_target uri None;
       case r of
         None \<Rightarrow> Some (None, d)
       | Some (prot, host, port, pth) \<Rightarrow>
           if prot = PROT_HTTP
           then do { p \<leftarrow> port; (rsc, d) \<leftarrow> http_notify E d o2pt host p (take 255 pth); Some (Some rsc, d) }
           else Some (Some 0, d) }"

definition send_verification_request ::
  "'d env \<Rightarrow> 'd cse \<Rightarrow> string option \<Rightarrow> string \<Rightarrow> cjson \<Rightarrow> (int \<times> 'd cse) option" where
  "send_verification_request E s to noti_uri noti =
     do {
       rat \<leftarrow> checkResourceAddressingType (Some noti_uri);
       let o2pt = notify_primitive noti;
       if rat = CSE_RELATIVE
       then do {
         (rtnode, s) \<leftarrow> find_rtnode E s (Some noti_uri);
         if rtnode = None then Some (RSC_NOT_FOUND, s)
         else requestToResource E s (o2pt\<lparr>p_to := Some noti_uri\<rparr>) rtnode }
       else if rat = SP_RELATIVE
       then do {
         csr \<leftarrow> find_csr_rtnode_by_uri s (Some noti_uri);
         (_, o2pt, s) \<leftarrow> forwarding_onem2m_resource E s (o2pt\<lparr>p_to := Some noti_uri\<rparr>) csr;
         Some (p_rsc o2pt, s) }
       else if rat = PROTOCOL_BINDING
       then (if default_ws noti_uri then do { _ \<leftarrow> to; Some (2000, s) }
             else do {
               (rsc, d) \<leftarrow> notify_url E (db s) (o2pt\<lparr>p_to := to\<rparr>) noti_uri;
               case rsc of
                 None \<Rightarrow> Some (RSC_BAD_REQUEST, s)
               | Some rsc \<Rightarrow> do { _ \<leftarrow> to; Some (rsc, s\<lparr>db := d\<rparr>) } })
       else Some (0, s) }"

text \<open>
  The delivery to the targets of a subscription; a target that cannot be reached is skipped
  and \<open>to\<close> is the path of the last HTTP target. The answers are not used.
\<close>

fun notify_targets :: "'d env \<Rightarrow> 'd cse \<Rightarrow> oneM2MPrimitive \<Rightarrow> cjson \<Rightarrow> cjson list \<Rightarrow> 'd cse option" where
  "notify_targets E s o2pt noti [] = Some s"
| "notify_targets E s o2pt noti (nu # nus) =
     do {
       v \<leftarrow> valuestring nu;
       if default_ws v then Some s
       else do {
         rat \<leftarrow> checkResourceAddressingType (Some v);
         if rat = CSE_RELATIVE
         then do {
           let o2pt = o2pt\<lparr>p_request_pc := map_option (\<lambda>pc. cJSON_DeleteItemFromObject pc ''vrq'') (p_request_pc o2pt)\<rparr>;
           (rtnode, s) \<leftarrow> find_rtnode E s (Some v);
           s \<leftarrow> (if rtnode = None then Some s else do { (_, s) \<leftarrow> requestToResource E s o2pt rtnode; Some s });
           notify_targets E s o2pt noti nus }
         else if rat = SP_RELATIVE
         then do {
           csr \<leftarrow> find_csr_rtnode_by_uri s (Some v);
           (_, _, s) \<leftarrow> forwarding_onem2m_resource E s ((notify_primitive noti)\<lparr>p_to := Some v\<rparr>) csr;
           notify_targets E s o2pt noti nus }
         else if rat = PROTOCOL_BINDING
         then do {
           r \<leftarrow> poa_target v None;
           let o2pt = (case r of None \<Rightarrow> o2pt | Some (_, _, _, pth) \<Rightarrow> o2pt\<lparr>p_to := Some pth\<rparr>);
           (_, d) \<leftarrow> notify_url E (db s) o2pt v;
           notify_targets E (s\<lparr>db := d\<rparr>) o2pt noti nus }
         else notify_targets E s o2pt noti nus } }"

definition notify_to_nu :: "'d env \<Rightarrow> 'd cse \<Rightarrow> rtnode \<Rightarrow> cjson \<Rightarrow> (int \<times> 'd cse) option" where
  "notify_to_nu E s sub noti =
     (case cJSON_GetObjectItem (n_obj sub) ''nu'' of
        None \<Rightarrow> Some (RSC_OK, s)
      | Some nu \<Rightarrow> do {
          s \<leftarrow> notify_targets E s ((notify_primitive noti)\<lparr>p_to := Some ''/''\<rparr>) noti (elems (Some nu));
          Some (RSC_OK, s) })"

end
