(* ===== verification/Calendar.thy ===== *)
theory Calendar
  imports Decimal
begin

text \<open>
  Times of the time series code (\<^verbatim>\<open>resources/tsi.c\<close>, \<^verbatim>\<open>monitor.c\<close>): microseconds since 1970 and their
  basic ISO 8601 form. \<^verbatim>\<open>timegm\<close> and \<^verbatim>\<open>gmtime_r\<close> of the C library are the proleptic Gregorian
  calendar without leap seconds; \<^verbatim>\<open>timegm\<close> accepts fields out of range.
\<close>

section \<open>Calendar\<close>

definition leap :: "int \<Rightarrow> bool" where
  "leap y \<longleftrightarrow> y mod 4 = 0 \<and> y mod 100 \<noteq> 0 \<or> y mod 400 = 0"

definition month_lengths :: "int \<Rightarrow> int list" where
  "month_lengths y = [31, if leap y then 29 else 28, 31, 30, 31, 30, 31, 31, 30, 31, 30, 31]"

definition year_length :: "int \<Rightarrow> int" where
  "year_length y = (if leap y then 366 else 365)"

text \<open>Days from 1970-01-01 to the first of January.\<close>

definition days_before_year :: "int \<Rightarrow> int" where
  "days_before_year y = 365 * (y - 1970) + (y - 1969) div 4 - (y - 1901) div 100 + (y - 1601) div 400"

definition timegm :: "int \<Rightarrow> int \<Rightarrow> int \<Rightarrow> int \<Rightarrow> int \<Rightarrow> int \<Rightarrow> int" where
  "timegm year mon mday hour mi sec =
     (let y = year + mon div 12;
          days = days_before_year y + sum_list (take (nat (mon mod 12)) (month_lengths y)) + mday - 1
      in ((days * 24 + hour) * 60 + mi) * 60 + sec)"

text \<open>The year of a day, counted from the first day of year \<open>y\<close>, and the day in that year.\<close>

function year_of :: "int \<Rightarrow> int \<Rightarrow> int \<times> int" where
  "year_of y d =
     (if d < 0 then year_of (y - 1) (d + year_length (y - 1))
      else if year_length y \<le> d then year_of (y + 1) (d - year_length y)
      else (y, d))"
  by pat_completeness auto
termination year_of
  by (relation "measure (\<lambda>(y, d). nat (if d < 0 then 400 - d else d))") (auto simp: year_length_def split: if_splits)

declare year_of.simps [simp del]

fun month_of :: "int list \<Rightarrow> int \<Rightarrow> nat \<times> int" where
  "month_of [] d = (0, d)"
| "month_of (l # ls) d = (if d < l then (0, d) else (let (m, r) = month_of ls (d - l) in (Suc m, r)))"

definition gmtime :: "int \<Rightarrow> int \<times> int \<times> int \<times> int \<times> int \<times> int" where
  "gmtime sec =
     (let (y, d) = year_of 1970 (sec div 86400);
          (m, r) = month_of (month_lengths y) d;
          s = sec mod 86400
      in (y, int m, r + 1, s div 3600, s div 60 mod 60, s mod 60))"

section \<open>Formatting and parsing\<close>

text \<open>\<^verbatim>\<open>printf\<close> with \<open>%0wd\<close>.\<close>

definition print0 :: "nat \<Rightarrow> int \<Rightarrow> string" where
  "print0 w n = (if n < 0 then CHR ''-'' # pad0 (w - 1) (dec (nat (- n))) else pad0 w (dec (nat n)))"

definition tdiv :: "int \<Rightarrow> int \<Rightarrow> int" where
  "tdiv a b = (if a < 0 then - ((- a) div b) else a div b)"

definition tmod :: "int \<Rightarrow> int \<Rightarrow> int" where
  "tmod a b = a - tdiv a b * b"

definition print_datetime :: "int \<Rightarrow> string" where
  "print_datetime sec =
     (let (y, mon, mday, h, mi, s) = gmtime sec
      in print0 4 y @ print0 2 (mon + 1) @ print0 2 mday @ ''T'' @ print0 2 h @ print0 2 mi @ print0 2 s)"

definition us_to_iso8601_tsi :: "int \<Rightarrow> string" where
  "us_to_iso8601_tsi us =
     (let sec = tdiv us 1000000; micro = tmod us 1000000
      in print_datetime sec @ (if micro \<noteq> 0 then '','' @ print0 6 micro else []))"

definition us_to_iso8601_monitor :: "int \<Rightarrow> string" where
  "us_to_iso8601_monitor us = print_datetime (tdiv us 1000000) @ '','' @ print0 6 (tmod us 1000000)"

text \<open>\<^verbatim>\<open>sscanf\<close> with \<open>%wd\<close>: white space, a sign that counts for the width, digits.\<close>

definition scan_digits_val :: "nat \<Rightarrow> int \<Rightarrow> string \<Rightarrow> (int \<times> string) option" where
  "scan_digits_val w sg s =
     (let ds = takeWhile is_digit (take w s)
      in if ds = [] then None else Some (sg * digits_val 0 ds, drop (length ds) s))"

definition scan_num :: "nat \<Rightarrow> string \<Rightarrow> (int \<times> string) option" where
  "scan_num w s =
     (case dropWhile isspace s of
        [] \<Rightarrow> None
      | c # t \<Rightarrow> if c = CHR ''-'' then scan_digits_val (w - 1) (- 1) t
                 else if c = CHR ''+'' then scan_digits_val (w - 1) 1 t
                 else scan_digits_val w 1 (c # t))"

definition scan_T :: "string \<Rightarrow> string option" where
  "scan_T s = (case s of c # t \<Rightarrow> if c = CHR ''T'' then Some t else None | [] \<Rightarrow> None)"

definition scan_datetime :: "string \<Rightarrow> (int \<times> int \<times> int \<times> int \<times> int \<times> int) option" where
  "scan_datetime s =
     do {
       (y, s) \<leftarrow> scan_num 4 s;
       (mon, s) \<leftarrow> scan_num 2 s;
       (mday, s) \<leftarrow> scan_num 2 s;
       s \<leftarrow> scan_T s;
       (h, s) \<leftarrow> scan_num 2 s;
       (mi, s) \<leftarrow> scan_num 2 s;
       (sec, s) \<leftarrow> scan_num 2 s;
       Some (y, mon, mday, h, mi, sec) }"

text \<open>The digits after the first comma, filled up with zeros to six.\<close>

definition micros :: "string \<Rightarrow> int" where
  "micros s =
     (case strchr s (CHR '','') of
        None \<Rightarrow> 0
      | Some t \<Rightarrow> (let ds = takeWhile is_digit (take 6 (tl t))
                   in digits_val 0 (ds @ replicate (6 - length ds) (CHR ''0''))))"

definition parse_time_to_us_tsi :: "string option \<Rightarrow> int" where
  "parse_time_to_us_tsi s =
     (case s of
        None \<Rightarrow> 0
      | Some s \<Rightarrow>
          if length s < 15 then 0
          else (case scan_datetime s of
                  None \<Rightarrow> 0
                | Some (y, mon, mday, h, mi, sec) \<Rightarrow>
                    (let epoch = timegm y (mon - 1) mday h mi sec
                     in if epoch = - 1 then 0 else epoch * 1000000 + micros s)))"

section \<open>The calendar is consistent\<close>

lemma div_succ: "0 < n \<Longrightarrow> (k + 1) div n = k div n + (if (k + 1) mod n = 0 then 1 else 0)" for k n :: int
proof -
  assume n: "0 < n"
  define q where "q = k div n"
  define r where "r = k mod n"
  have k: "k = n * q + r" "0 \<le> r" "r < n" using n by (simp_all add: q_def r_def)
  have "(k + 1) div n = (r + 1) div n + q" "(k + 1) mod n = (r + 1) mod n"
    unfolding k(1) using n by (simp_all add: add.assoc)
  moreover have "(r + 1) div n = (if r + 1 = n then 1 else 0)" "(r + 1) mod n = (if r + 1 = n then 0 else r + 1)"
    using k(2,3) n by (auto simp: div_pos_pos_trivial mod_pos_pos_trivial)
  ultimately show ?thesis using k(2) by (simp add: q_def [symmetric])
qed

lemma mod_shift: "(y - c * n) mod n = y mod n" for y c n :: int
  by (simp add: mod_diff_eq [symmetric, of y "c * n"])

lemma days_before_year_succ: "days_before_year (y + 1) = days_before_year y + year_length y"
proof -
  have e: "y + 1 - 1969 = (y - 1969) + 1" "y + 1 - 1901 = (y - 1901) + 1" "y + 1 - 1601 = (y - 1601) + 1" by simp_all
  have m: "(y - 1969 + 1) mod 4 = y mod 4" "(y - 1901 + 1) mod 100 = y mod 100" "(y - 1601 + 1) mod 400 = y mod 400"
    using mod_shift [of y 492 4] mod_shift [of y 19 100] mod_shift [of y 4 400] by simp_all
  have s: "y mod 400 = 0 \<Longrightarrow> y mod 100 = 0 \<and> y mod 4 = 0" "y mod 100 = 0 \<Longrightarrow> y mod 4 = 0"
    by presburger+
  show ?thesis
    unfolding days_before_year_def e div_succ [of 4, simplified] div_succ [of 100, simplified] div_succ [of 400, simplified] m
    using s by (auto simp: year_length_def leap_def)
qed

lemma year_length_pos: "0 < year_length y"
  by (simp add: year_length_def)

lemma days_before_year_mono: "y \<le> z \<Longrightarrow> days_before_year y \<le> days_before_year z"
proof (induction z rule: int_ge_induct)
  case (step z)
  then show ?case using year_length_pos [of z] by (simp add: days_before_year_succ)
qed simp

lemma year_of_days:
  "year_of y d = (y', d') \<Longrightarrow> days_before_year y' + d' = days_before_year y + d \<and> 0 \<le> d' \<and> d' < year_length y'"
proof (induction y d rule: year_of.induct)
  case (1 y d)
  show ?case
  proof (cases "d < 0")
    case True
    then have "year_of (y - 1) (d + year_length (y - 1)) = (y', d')" using 1(3) by (simp add: year_of.simps [of y d])
    from 1(1) [OF True this] show ?thesis using days_before_year_succ [of "y - 1"] by simp
  next
    case False
    show ?thesis
    proof (cases "year_length y \<le> d")
      case True
      then have "year_of (y + 1) (d - year_length y) = (y', d')" using 1(3) False by (simp add: year_of.simps [of y d])
      from 1(2) [OF False True this] show ?thesis by (simp add: days_before_year_succ)
    next
      case False
      with \<open>\<not> d < 0\<close> show ?thesis using 1(3) by (simp add: year_of.simps [of y d])
    qed
  qed
qed

lemma month_of_days:
  "month_of ls d = (m, r) \<Longrightarrow> d < sum_list ls \<Longrightarrow> 0 \<le> d \<Longrightarrow>
     m < length ls \<and> sum_list (take m ls) + r = d \<and> 0 \<le> r \<and> r < ls ! m"
proof (induction ls arbitrary: d m r)
  case (Cons l ls)
  show ?case
  proof (cases "d < l")
    case False
    then obtain k where k: "month_of ls (d - l) = (k, r)" "m = Suc k"
      using Cons.prems(1) by (cases "month_of ls (d - l)") auto
    then show ?thesis using Cons.IH [OF k(1)] Cons.prems(2) False by simp
  qed (use Cons.prems in auto)
qed simp

lemma month_lengths_sum: "sum_list (month_lengths y) = year_length y"
  by (simp add: month_lengths_def year_length_def)

lemma month_lengths_bounds: "m < 12 \<Longrightarrow> month_lengths y ! m \<le> 31"
  by (auto simp: month_lengths_def nth_Cons split: nat.splits)

lemma gmtime_fields:
  assumes "gmtime sec = (y, mon, mday, h, mi, s)"
  shows "timegm y mon mday h mi s = sec"
    and "0 \<le> mon" "mon < 12" "1 \<le> mday" "mday \<le> 31" "0 \<le> h" "h < 24" "0 \<le> mi" "mi < 60" "0 \<le> s" "s < 60"
    and "days_before_year y \<le> sec div 86400" "sec div 86400 < days_before_year (y + 1)"
proof -
  obtain d where d: "year_of 1970 (sec div 86400) = (y, d)" using assms by (cases "year_of 1970 (sec div 86400)") (auto simp: gmtime_def case_prod_beta Let_def)
  obtain m r where m: "month_of (month_lengths y) d = (m, r)" by (cases "month_of (month_lengths y) d")
  have f: "mon = int m" "mday = r + 1" "h = sec mod 86400 div 3600" "mi = sec mod 86400 div 60 mod 60" "s = sec mod 86400 mod 60"
    using assms d m by (auto simp: gmtime_def Let_def)
  have d': "days_before_year y + d = sec div 86400" "0 \<le> d" "d < year_length y"
    using year_of_days [OF d] by (simp_all add: days_before_year_def)
  have m': "m < 12" "sum_list (take m (month_lengths y)) + r = d" "0 \<le> r" "r < month_lengths y ! m"
    using month_of_days [OF m] d' by (simp_all add: month_lengths_sum, simp add: month_lengths_def)
  show "0 \<le> mon" "mon < 12" "1 \<le> mday" "mday \<le> 31" using f m' month_lengths_bounds [of m y] by simp_all
  show "0 \<le> h" "h < 24" "0 \<le> mi" "mi < 60" "0 \<le> s" "s < 60" using f by (simp_all add: pos_imp_zdiv_nonneg_iff)
  show "days_before_year y \<le> sec div 86400" "sec div 86400 < days_before_year (y + 1)"
    using d' by (simp_all add: days_before_year_succ)
  have t: "(k div 3600 * 60 + k div 60 mod 60) * 60 + k mod 60 = k" for k :: int
    using zdiv_zmult2_eq [of 60 k 60] by simp
  have q: "mon div 12 = 0" "nat (mon mod 12) = m" using f(1) m'(1) by simp_all
  have "days_before_year y + sum_list (take m (month_lengths y)) + mday - 1 = sec div 86400"
    using d'(1) m'(2) f(2) by linarith
  then have "timegm y mon mday h mi s = ((sec div 86400 * 24 + h) * 60 + mi) * 60 + s"
    unfolding timegm_def q Let_def by simp
  also have "\<dots> = sec div 86400 * 86400 + ((h * 60 + mi) * 60 + s)" by (simp add: distrib_right)
  also have "\<dots> = sec div 86400 * 86400 + sec mod 86400"
    using t [of "sec mod 86400"] unfolding f(3-5) by simp
  also have "\<dots> = sec" by simp
  finally show "timegm y mon mday h mi s = sec" .
qed

section \<open>Round trip\<close>

lemma print0_fixdec: "0 \<le> n \<Longrightarrow> n < 10 ^ w \<Longrightarrow> 0 < w \<Longrightarrow> print0 w n = fixdec w (nat n)"
proof -
  assume "0 \<le> n" "n < 10 ^ w" "0 < w"
  then have "nat n < 10 ^ w" by (simp add: nat_less_iff)
  then show ?thesis using \<open>0 \<le> n\<close> \<open>0 < w\<close> by (simp add: print0_def pad0_fixdec)
qed

lemma digit_is_no_space: "is_digit c \<Longrightarrow> \<not> isspace c \<and> c \<noteq> CHR ''-'' \<and> c \<noteq> CHR ''+''"
  by (auto simp: is_digit_def isspace_def)

lemma scan_num_fixdec:
  assumes "0 \<le> n" "n < 10 ^ w" "0 < w"
  shows "scan_num w (print0 w n @ s) = Some (n, s)"
proof -
  let ?f = "fixdec w (nat n)"
  have len: "length ?f = w" by simp
  then obtain c cs where c: "?f = c # cs" using assms(3) by (cases ?f) auto
  have d: "\<forall>x\<in>set ?f. is_digit x" using fixdec_digits [of _ w "nat n"] by blast
  then have "is_digit c" using c by simp
  with c have "scan_num w (?f @ s) = scan_digits_val w 1 (?f @ s)"
    using digit_is_no_space [of c] by (simp add: scan_num_def)
  also have "\<dots> = Some (n, s)"
    using d c len assms digits_val_fixdec [of "nat n" w]
    by (auto simp: scan_digits_val_def takeWhile_eq_all_conv [THEN iffD2] nat_less_iff)
  finally show ?thesis using print0_fixdec [OF assms] by simp
qed

lemma length_print0: "0 \<le> n \<Longrightarrow> n < 10 ^ w \<Longrightarrow> 0 < w \<Longrightarrow> length (print0 w n) = w"
  by (simp add: print0_fixdec)

lemma comma_not_in_print0: "0 \<le> n \<Longrightarrow> n < 10 ^ w \<Longrightarrow> 0 < w \<Longrightarrow> CHR '','' \<notin> set (print0 w n)"
  using fixdec_digits [of "CHR '',''" w "nat n"] by (auto simp: print0_fixdec is_digit_def)

lemma strchr_skip: "c \<notin> set p \<Longrightarrow> strchr (p @ s) c = strchr s c"
  by (induction p) auto

definition year_10000 :: int where
  "year_10000 = 253402300800"

lemma print_datetime_parts:
  assumes "0 \<le> sec" "sec < year_10000"
  shows "\<exists>y mon mday h mi s.
    scan_datetime (print_datetime sec @ r) = Some (y, mon + 1, mday, h, mi, s) \<and> timegm y mon mday h mi s = sec \<and>
    length (print_datetime sec) = 15 \<and> CHR '','' \<notin> set (print_datetime sec)"
proof -
  obtain y mon mday h mi s where g: "gmtime sec = (y, mon, mday, h, mi, s)" by (metis prod_cases6)
  note f = gmtime_fields [OF g]
  have day: "0 \<le> sec div 86400" "sec div 86400 < 2932897"
    using assms by (auto simp: year_10000_def pos_imp_zdiv_nonneg_iff)
  have y: "0 \<le> y" "y < 10000"
  proof -
    show "0 \<le> y" using f(13) day(1) days_before_year_mono [of "y + 1" 0] by (force simp: days_before_year_def)
    show "y < 10000" using f(12) day(2) days_before_year_mono [of 10000 y] by (force simp: days_before_year_def)
  qed
  have p: "print_datetime sec = print0 4 y @ print0 2 (mon + 1) @ print0 2 mday @ ''T'' @ print0 2 h @ print0 2 mi @ print0 2 s"
    by (simp add: print_datetime_def g)
  have "scan_datetime (print_datetime sec @ r) = Some (y, mon + 1, mday, h, mi, s)"
    using f(2-11) y by (simp add: p scan_datetime_def scan_num_fixdec scan_T_def)
  moreover have "length (print_datetime sec) = 15" "CHR '','' \<notin> set (print_datetime sec)"
    using f(2-11) y by (simp_all add: p length_print0 comma_not_in_print0)
  ultimately show ?thesis using f(1) by blast
qed

lemma micros_printed:
  assumes "0 \<le> n" "n < 1000000" "CHR '','' \<notin> set p"
  shows "micros (p @ CHR '','' # print0 6 n) = n"
proof -
  let ?f = "fixdec 6 (nat n)"
  have d: "takeWhile is_digit ?f = ?f" using fixdec_digits [of _ 6 "nat n"] by (simp add: takeWhile_eq_all_conv)
  have "micros (p @ CHR '','' # print0 6 n) = digits_val 0 (takeWhile is_digit ?f @ replicate (6 - length (takeWhile is_digit ?f)) (CHR ''0''))"
    using assms by (simp add: micros_def strchr_skip print0_fixdec Let_def)
  then show ?thesis using assms digits_val_fixdec [of "nat n" 6] unfolding d by (simp add: nat_less_iff)
qed

lemma parse_printed:
  assumes "0 \<le> sec" "sec < year_10000" "micros (print_datetime sec @ r) = n"
  shows "parse_time_to_us_tsi (Some (print_datetime sec @ r)) = sec * 1000000 + n"
  using print_datetime_parts [OF assms(1,2), of r] assms(1,3) by (auto simp: parse_time_to_us_tsi_def Let_def)

text \<open>
  C22. The two conversions of \<^verbatim>\<open>tsi.c\<close> are inverse, as its comment says: every time from 1970 to the
  end of the year 9999, printed with or without microseconds, is read back unchanged; the same
  holds for the format of the monitoring thread.
\<close>

theorem iso8601_roundtrip:
  assumes "0 \<le> us" "us < year_10000 * 1000000"
  shows "parse_time_to_us_tsi (Some (us_to_iso8601_tsi us)) = us \<and>
    parse_time_to_us_tsi (Some (us_to_iso8601_monitor us)) = us"
proof -
  let ?s = "us div 1000000" and ?m = "us mod 1000000"
  have b: "0 \<le> ?s" "?s < year_10000" "0 \<le> ?m" "?m < 1000000"
    using assms by (auto simp: pos_imp_zdiv_nonneg_iff year_10000_def)
  have e: "tdiv us 1000000 = ?s" "tmod us 1000000 = ?m"
    using assms(1) by (simp_all add: tdiv_def tmod_def minus_div_mult_eq_mod)
  have n: "CHR '','' \<notin> set (print_datetime ?s)" using print_datetime_parts [OF b(1,2)] by blast
  have r: "micros (print_datetime ?s @ CHR '','' # print0 6 ?m) = ?m" by (rule micros_printed [OF b(3,4) n])
  have "parse_time_to_us_tsi (Some (us_to_iso8601_monitor us)) = us"
    using parse_printed [OF b(1,2) r] by (simp add: us_to_iso8601_monitor_def e)
  moreover have "micros (print_datetime ?s) = 0" using strchr_skip [OF n, of "[]"] by (simp add: micros_def)
  then have "parse_time_to_us_tsi (Some (us_to_iso8601_tsi us)) = us"
    using parse_printed [OF b(1,2) r] parse_printed [OF b(1,2), of "[]" 0] by (auto simp: us_to_iso8601_tsi_def e Let_def)
  ultimately show ?thesis by blast
qed

theorem iso8601_roundtrip_witness:
  "parse_time_to_us_tsi (Some (us_to_iso8601_tsi 951782400500000)) = 951782400500000"
  using iso8601_roundtrip [of 951782400500000] by (simp add: year_10000_def)

end
