(* ===== verification/Monitor.thy ===== *)
theory Monitor
  imports Notify Calendar
begin

text \<open>
  Missing data of time series on the resource tree (\<^verbatim>\<open>monitor.c\<close>): the record \<^verbatim>\<open>mdlt\<close> of a time
  series, the notification of its subscriptions, the last notification of a subscription that
  is deleted, and the walk of the monitoring thread.
\<close>

section \<open>The record of missing points\<close>

definition keep_last :: "nat \<Rightarrow> cjson \<Rightarrow> cjson" where
  "keep_last k j = (case j of JArray xs \<Rightarrow> JArray (drop (length xs - k) xs) | _ \<Rightarrow> j)"

definition mdlt_array :: "cjson \<Rightarrow> cjson" where
  "mdlt_array ts =
     (case cJSON_GetObjectItem (Some ts) ''mdlt'' of
        None \<Rightarrow> cJSON_AddItemToObject ts ''mdlt'' (JArray [])
      | Some (JArray _) \<Rightarrow> ts
      | Some _ \<Rightarrow> cJSON_ReplaceItemInObject ts ''mdlt'' (JArray []))"

definition put_mdc :: "cjson \<Rightarrow> int \<Rightarrow> cjson" where
  "put_mdc ts n =
     (case cJSON_GetObjectItem (Some ts) ''mdc'' of
        None \<Rightarrow> cJSON_AddItemToObject ts ''mdc'' (JNumber n)
      | Some (JNumber _) \<Rightarrow> set_int ts ''mdc'' n
      | Some _ \<Rightarrow> cJSON_ReplaceItemInObject ts ''mdc'' (JNumber n))"

definition mdn_of :: "cjson \<Rightarrow> int" where
  "mdn_of ts = (case cJSON_GetObjectItem (Some ts) ''mdn'' of Some (JNumber n) \<Rightarrow> n | _ \<Rightarrow> 0)"

text \<open>A missing point is appended, the oldest entries above \<^verbatim>\<open>mdn\<close> are dropped, \<^verbatim>\<open>mdc\<close> is the size.\<close>

definition add_missing :: "cjson \<Rightarrow> string \<Rightarrow> cjson" where
  "add_missing ts time =
     (let ts = modify_member (mdlt_array ts) ''mdlt'' (\<lambda>a. cJSON_AddItemToArray a (JString time));
          ts = (if 0 < mdn_of ts then modify_member ts ''mdlt'' (keep_last (nat (mdn_of ts))) else ts)
      in put_mdc ts (int (cJSON_GetArraySize (cJSON_GetObjectItem (Some ts) ''mdlt''))))"

section \<open>Notification\<close>

definition parse_md_dur_to_us :: "'d env \<Rightarrow> string \<Rightarrow> int" where
  "parse_md_dur_to_us E dur =
     (if \<not> starts_with dur ''PT'' then 0
      else (case e_strtod_us E (drop 2 dur) of
              Some (us, CHR ''S'' # _) \<Rightarrow> max 0 us
            | _ \<Rightarrow> 0))"

definition md_batch :: "cjson option \<Rightarrow> nat \<Rightarrow> nat \<Rightarrow> cjson list" where
  "md_batch mdlt start len = filter (\<lambda>j. cJSON_IsString (Some j)) (take len (drop start (elems mdlt)))"

definition md_send_notification :: "'d env \<Rightarrow> 'd cse \<Rightarrow> rtnode \<Rightarrow> cjson option \<Rightarrow> int \<Rightarrow> int \<Rightarrow> 'd cse option" where
  "md_send_notification E s sub mdlt start len =
     (if mdlt = None \<or> len \<le> 0 then Some s
      else do {
        let batch = md_batch mdlt (nat start) (nat len);
        let tsn = JObject [(''mdc'', JNumber (int (length batch))), (''mdlt'', JArray batch)];
        let nev = JObject [(''net'', JNumber NET_REPORT_ON_MISSING_DATA_POINTS), (''rep'', JObject [(''m2m:tsn'', tsn)])];
        let sgn = cJSON_AddItemToObject
          (add_string (JObject []) ''sur'' (make_subscription_reference (get_ri_rtnode sub))) ''nev'' nev;
        (_, s) \<leftarrow> notify_to_nu E s sub (JObject [(''m2m:sgn'', sgn)]);
        Some s })"

definition net_has_8 :: "cjson option \<Rightarrow> bool" where
  "net_has_8 enc \<longleftrightarrow>
     (let net = cJSON_GetObjectItem enc ''net''
      in cJSON_IsArray net \<and> list_ex (\<lambda>v. cJSON_GetNumberValue v = Some NET_REPORT_ON_MISSING_DATA_POINTS) (elems net))"

definition md_num :: "cjson option \<Rightarrow> int" where
  "md_num enc =
     (case cJSON_GetObjectItem (cJSON_GetObjectItem enc ''md'') ''num'' of Some (JNumber n) \<Rightarrow> n | _ \<Rightarrow> 0)"

definition md_dur :: "'d env \<Rightarrow> cjson option \<Rightarrow> int" where
  "md_dur E enc =
     (case cJSON_GetObjectItem (cJSON_GetObjectItem enc ''md'') ''dur'' of
        Some (JString d) \<Rightarrow> parse_md_dur_to_us E d | _ \<Rightarrow> 0)"

definition mdlt_size :: "cjson option \<Rightarrow> int" where
  "mdlt_size mdlt = (if cJSON_IsArray mdlt then int (cJSON_GetArraySize mdlt) else 0)"

text \<open>One subscription of the time series \<open>ts\<close>, which has lost \<open>lost\<close> points so far.\<close>

definition notify_md_sub :: "'d env \<Rightarrow> 'd cse \<Rightarrow> rtnode \<Rightarrow> rtnode \<Rightarrow> int \<Rightarrow> int \<Rightarrow> 'd cse option" where
  "notify_md_sub E s ts sub lost new_count =
     (let w = cJSON_GetObjectItem (n_obj sub) ''m2m:sub'';
          subObj = (if w = None then n_obj sub else w);
          enc = cJSON_GetObjectItem subObj ''enc'';
          mdlt = cJSON_GetObjectItem (n_obj ts) ''mdlt''
      in if \<not> net_has_8 enc \<or> md_num enc \<le> 0 then Some s
         else (let (batch, told, m) = md_window_take (md s) (get_ri_rtnode sub) lost new_count (md_num enc) (md_dur E enc) (e_now_us E);
                   s = s\<lparr>md := m\<rparr>;
                   start = max 0 (mdlt_size mdlt - to_int32 (lost - told));
                   len = min batch (mdlt_size mdlt - start)
               in if batch \<le> 0 \<or> len \<le> 0 \<or> \<not> cJSON_IsArray (cJSON_GetObjectItem subObj ''nu'') then Some s
                  else md_send_notification E s sub mdlt start len))"

partial_function (option) notify_md_subs :: "'d env \<Rightarrow> 'd cse \<Rightarrow> addr \<Rightarrow> ptr \<Rightarrow> int \<Rightarrow> int \<Rightarrow> 'd cse option" where
  "notify_md_subs E s ts_node child lost new_count =
     (case child of
        None \<Rightarrow> Some s
      | Some a \<Rightarrow> do {
          n \<leftarrow> heap s a;
          ts \<leftarrow> heap s ts_node;
          s \<leftarrow> (if n_ty n = RT_SUB then notify_md_sub E s ts n lost new_count else Some s);
          n \<leftarrow> heap s a;
          notify_md_subs E s ts_node (n_sibling_right n) lost new_count })"

definition notify_missing_data :: "'d env \<Rightarrow> 'd cse \<Rightarrow> addr \<Rightarrow> int \<Rightarrow> 'd cse option" where
  "notify_missing_data E s ts_node new_count =
     do {
       n \<leftarrow> heap s ts_node;
       if n_child n = None then Some s
       else do {
         let k = (if 0 < new_count then new_count else 1);
         let (lost, m) = ts_add_missing_total (md s) (get_ri_rtnode n) k;
         notify_md_subs E (s\<lparr>md := m\<rparr>) ts_node (n_child n) lost k } }"

text \<open>The points a subscription has counted are reported when it is deleted.\<close>

definition ts_md_flush_sub :: "'d env \<Rightarrow> 'd cse \<Rightarrow> addr \<Rightarrow> 'd cse option" where
  "ts_md_flush_sub E s sub_rtnode =
     do {
       sub \<leftarrow> heap s sub_rtnode;
       if n_ty sub \<noteq> RT_SUB \<or> n_obj sub = None \<or> get_ri_rtnode sub = None then Some s
       else do {
         let ri = get_ri_rtnode sub;
         let forget = (\<lambda>s. s\<lparr>md := md_forget (md s) ri\<rparr>);
         let enc = cJSON_GetObjectItem (n_obj sub) ''enc'';
         parent \<leftarrow> (case n_parent sub of None \<Rightarrow> Some None | Some p \<Rightarrow> do { t \<leftarrow> heap s p; Some (Some t) });
         case parent of
           None \<Rightarrow> Some (forget s)
         | Some ts \<Rightarrow>
             if n_ty ts \<noteq> RT_TS \<or> n_obj ts = None \<or> \<not> net_has_8 enc \<or> \<not> cJSON_IsArray (cJSON_GetObjectItem (n_obj sub) ''nu'')
             then Some (forget s)
             else do {
               let pending = md_pending (md s) ri (ts_get_missing_total (md s) (get_ri_rtnode ts));
               let mdlt = cJSON_GetObjectItem (n_obj ts) ''mdlt'';
               let len = min (mdlt_size mdlt) pending;
               s \<leftarrow> (if 0 < pending \<and> 0 < mdlt_size mdlt
                     then md_send_notification E s sub mdlt (mdlt_size mdlt - len) len else Some s);
               Some (forget s) } } }"

section \<open>The monitoring thread\<close>

definition detects :: "cjson option \<Rightarrow> bool" where
  "detects mdd = (case mdd of Some JTrue \<Rightarrow> True | Some (JNumber n) \<Rightarrow> n \<noteq> 0 | _ \<Rightarrow> False)"

definition check_ts_missing :: "'d env \<Rightarrow> 'd cse \<Rightarrow> addr \<Rightarrow> int \<Rightarrow> 'd cse option" where
  "check_ts_missing E s a now =
     do {
       n \<leftarrow> heap s a;
       case n_obj n of
         None \<Rightarrow> Some s
       | Some obj \<Rightarrow>
           if n_ty n \<noteq> RT_TS \<or> \<not> detects (cJSON_GetObjectItem (Some obj) ''mdd'') then Some s
           else do {
             pei \<leftarrow> (case cJSON_GetObjectItem (Some obj) ''pei'' of Some (JNumber v) \<Rightarrow> ll (v * 1000) | _ \<Rightarrow> Some 0);
             (due, m) \<leftarrow> ts_md_take_due (md s) (get_ri_rtnode n) now pei;
             case due of
               None \<Rightarrow> Some s
             | Some expected \<Rightarrow> do {
                 h \<leftarrow> put_obj (heap s) a (add_missing obj (us_to_iso8601_monitor expected));
                 (_, s) \<leftarrow> (do { n \<leftarrow> h a; obj \<leftarrow> n_obj n; ri \<leftarrow> get_ri_rtnode n;
                   let (r, d) = e_db_update_resource E (db s) obj ri RT_TS;
                   Some (r, s\<lparr>heap := h, md := m, db := d\<rparr>) });
                 notify_missing_data E s a 1 } } }"

partial_function (option) traverse_and_check_ts_missing :: "'d env \<Rightarrow> 'd cse \<Rightarrow> ptr \<Rightarrow> int \<Rightarrow> 'd cse option" where
  "traverse_and_check_ts_missing E s p now =
     (case p of
        None \<Rightarrow> Some s
      | Some a \<Rightarrow> do {
          s \<leftarrow> check_ts_missing E s a now;
          n \<leftarrow> heap s a;
          s \<leftarrow> traverse_and_check_ts_missing E s (n_child n) now;
          n \<leftarrow> heap s a;
          traverse_and_check_ts_missing E s (n_sibling_right n) now })"

text \<open>One round of \<^verbatim>\<open>monitor_serve\<close>.\<close>

definition monitor_tick :: "'d env \<Rightarrow> 'd cse \<Rightarrow> 'd cse option" where
  "monitor_tick E s =
     (if \<not> ts_md_any_armed (md s) then Some s else traverse_and_check_ts_missing E s (cb s) (e_now_us E))"

end
