(* ===== verification/TimeSeries.thy ===== *)
theory TimeSeries
  imports Monitor
begin

text \<open>
  Time series and their instances (\<^verbatim>\<open>resources/ts.c\<close>, \<^verbatim>\<open>resources/tsi.c\<close>): creation, update, the eviction
  of the oldest instances, and the detection of missing points when an instance arrives.

  Numbers are integers: \<^verbatim>\<open>cJSON_GetNumberValue\<close> of something else is \<open>None\<close>, the NaN of the C code,
  and comparisons with it are false.
\<close>

section \<open>Time series\<close>

definition negative_number :: "cjson \<Rightarrow> string \<Rightarrow> bool" where
  "negative_number ts k = (case cJSON_GetObjectItem (Some ts) k of Some (JNumber n) \<Rightarrow> n < 0 | _ \<Rightarrow> False)"

definition validate_ts :: "oneM2MPrimitive \<Rightarrow> cjson \<Rightarrow> operation \<Rightarrow> checked" where
  "validate_ts o2pt ts op =
     (case validate_mandatory_attrs RT_TS (Some ts) op of
        Some err \<Rightarrow> (RSC_BAD_REQUEST, handle_error o2pt RSC_BAD_REQUEST err)
      | None \<Rightarrow>
          if list_ex (negative_number ts) [''pei'', ''peid'', ''mni'', ''mbs'', ''mdn'', ''mdt'']
          then (RSC_BAD_REQUEST, handle_error o2pt RSC_BAD_REQUEST ''negative value not allowed'')
          else (RSC_OK, o2pt))"

definition add_missing_key :: "cjson \<Rightarrow> string \<Rightarrow> cjson \<Rightarrow> cjson" where
  "add_missing_key obj k v = (if cJSON_GetObjectItem (Some obj) k = None then cJSON_AddItemToObject obj k v else obj)"

definition positive_number :: "cjson option \<Rightarrow> bool" where
  "positive_number j = (case j of Some (JNumber n) \<Rightarrow> 0 < n | _ \<Rightarrow> False)"

text \<open>The period and its delta: a period that is no positive number is dropped, with the delta.\<close>

definition ts_period :: "cjson \<Rightarrow> cjson" where
  "ts_period ts =
     (let bad = (case cJSON_GetObjectItem (Some ts) ''pei'' of
                   Some (JNumber n) \<Rightarrow> valueint (JNumber n) \<le> 0 | Some _ \<Rightarrow> True | None \<Rightarrow> False);
          ts = (if bad then cJSON_DeleteItemFromObject ts ''pei'' else ts)
      in if bad \<or> cJSON_GetObjectItem (Some ts) ''pei'' = None then cJSON_DeleteItemFromObject ts ''peid''
         else add_missing_key ts ''peid''
           (JNumber (valueint (the (cJSON_GetObjectItem (Some ts) ''pei'')) div 2)))"

definition cnf_error :: "cjson \<Rightarrow> string option" where
  "cnf_error ts =
     (case cJSON_GetObjectItem (Some ts) ''cnf'' of
        None \<Rightarrow> None
      | Some (JString cnf) \<Rightarrow> if validate_cnf cnf then None else Some ''attribute `cnf` is invalid''
      | Some _ \<Rightarrow> Some ''invalid attribute type : cnf'')"

definition ts_defaults :: "cjson \<Rightarrow> cjson" where
  "ts_defaults ts =
     (let ts = add_missing_key ts ''mbs'' (JNumber 262144);
          ts = add_missing_key ts ''mni'' (JNumber 100);
          ts = add_missing_key ts ''mdn'' (JNumber 10)
      in add_missing_key ts ''mdt'' (JNumber 0))"

definition ts_counters :: "cjson \<Rightarrow> cjson" where
  "ts_counters ts =
     (let ts = foldl cJSON_DeleteItemFromObject ts [''mdc'', ''cni'', ''cbs'', ''mdlt''];
          ts = cJSON_AddItemToObject ts ''mdc'' (JNumber 0);
          ts = cJSON_AddItemToObject ts ''cni'' (JNumber 0)
      in cJSON_AddItemToObject ts ''cbs'' (JNumber 0))"

definition peid_too_large :: "cjson \<Rightarrow> bool" where
  "peid_too_large ts =
     (case (cJSON_GetObjectItem (Some ts) ''pei'', cJSON_GetObjectItem (Some ts) ''peid'') of
        (Some pei, Some peid) \<Rightarrow> valueint pei div 2 < valueint peid
      | _ \<Rightarrow> False)"

definition store_ts :: "'d env \<Rightarrow> 'd cse \<Rightarrow> oneM2MPrimitive \<Rightarrow> addr \<Rightarrow> cjson \<Rightarrow> 'd outcome" where
  "store_ts E s o2pt parent ts =
     do {
       uri \<leftarrow> new_uri s parent ts;
       let (result, d) = e_db_store_resource E (db s) ts uri;
       let s = s\<lparr>db := d\<rparr>;
       if result \<noteq> 1 then Some (RSC_INTERNAL_SERVER_ERROR, handle_error o2pt RSC_INTERNAL_SERVER_ERROR ''DB fail'', s)
       else do {
         (child, s) \<leftarrow> create_rtnode s ts RT_TS;
         s \<leftarrow> add_child_resource_tree s parent child;
         (_, o2pt, s) \<leftarrow> make_response_body E s (o2pt\<lparr>p_rsc := RSC_CREATED\<rparr>) child;
         Some (RSC_CREATED, o2pt, s) } }"

definition create_ts :: "'d env \<Rightarrow> 'd cse \<Rightarrow> oneM2MPrimitive \<Rightarrow> addr \<Rightarrow> 'd outcome" where
  "create_ts E s o2pt parent =
     (let refuse = (\<lambda>o2pt s e. Some (RSC_BAD_REQUEST, handle_error o2pt RSC_BAD_REQUEST e, s)) in
      if p_rvi o2pt = RVI_1 then refuse o2pt s ''TS not supported in R1''
      else do {
        c \<leftarrow> cJSON_GetObjectItem (p_request_pc o2pt) ''m2m:ts'';
        (ts, s) \<leftarrow> add_general_attribute E s c parent RT_TS;
        let ts = (if cJSON_GetObjectItem (Some ts) ''cr'' = None then add_string ts ''cr'' (p_fr o2pt) else ts);
        let (rsc, o2pt) = validate_ts o2pt ts OP_CREATE;
        if rsc \<noteq> RSC_OK then Some (p_rsc o2pt, o2pt, s)
        else do {
          let ts = add_missing_key (ts_period ts) ''mdd'' JFalse;
          if cJSON_GetObjectItem (Some ts) ''mdd'' = Some JTrue \<and>
             \<not> (positive_number (cJSON_GetObjectItem (Some ts) ''mdt'') \<and> positive_number (cJSON_GetObjectItem (Some ts) ''mdn''))
          then refuse o2pt s ''mdt and mdn must be valid when mdd is true''
          else (case cnf_error ts of
                  Some e \<Rightarrow> refuse o2pt s e
                | None \<Rightarrow> do {
                    let ts = ts_counters (ts_defaults ts);
                    if peid_too_large ts then refuse o2pt s ''peid > pei/2''
                    else do {
                      (ts, s) \<leftarrow> announce_new E s parent ts;
                      store_ts E s o2pt parent ts } }) } })"

section \<open>Eviction\<close>

text \<open>The instance with the smallest creation time; among equal ones the first.\<close>

partial_function (option) oldest_tsi :: "heap \<Rightarrow> ptr \<Rightarrow> ptr \<Rightarrow> ptr option" where
  "oldest_tsi h child oldest =
     (case child of
        None \<Rightarrow> Some oldest
      | Some a \<Rightarrow> do {
          n \<leftarrow> h a;
          oldest \<leftarrow>
            (if n_ty n \<noteq> RT_TSI then Some oldest
             else (case oldest of
                     None \<Rightarrow> Some (Some a)
                   | Some b \<Rightarrow> do {
                       m \<leftarrow> h b;
                       ct_old \<leftarrow> member_string (n_obj m) ''ct'';
                       ct_curr \<leftarrow> member_string (n_obj n) ''ct'';
                       Some (Some (if strcmp ct_curr ct_old < 0 then a else b)) }));
          oldest_tsi h (n_sibling_right n) oldest })"

partial_function (option) left_of :: "heap \<Rightarrow> addr \<Rightarrow> addr \<Rightarrow> addr option" where
  "left_of h a b =
     do {
       n \<leftarrow> h a;
       if n_sibling_right n = Some b then Some a else do { r \<leftarrow> n_sibling_right n; left_of h r b } }"

definition add_to_member :: "cjson \<Rightarrow> string \<Rightarrow> int \<Rightarrow> cjson option" where
  "add_to_member obj k d =
     (case cJSON_GetObjectItem (Some obj) k of
        None \<Rightarrow> Some obj
      | Some j \<Rightarrow> do { v \<leftarrow> add_int (valueint j) d; Some (set_int obj k v) })"

definition bypass :: "heap \<Rightarrow> addr \<Rightarrow> addr \<Rightarrow> heap option" where
  "bypass h parent oldest =
     do {
       p \<leftarrow> h parent;
       o' \<leftarrow> h oldest;
       if n_child p = Some oldest then upd h parent (\<lambda>n. n\<lparr>n_child := n_sibling_right o'\<rparr>)
       else do {
         c \<leftarrow> n_child p;
         l \<leftarrow> left_of h c oldest;
         upd h l (\<lambda>n. n\<lparr>n_sibling_right := n_sibling_right o'\<rparr>) } }"

definition delete_oldest_tsi :: "'d env \<Rightarrow> 'd cse \<Rightarrow> addr \<Rightarrow> 'd cse option" where
  "delete_oldest_tsi E s parent =
     do {
       p \<leftarrow> heap s parent;
       oldest \<leftarrow> oldest_tsi (heap s) (n_child p) None;
       case oldest of
         None \<Rightarrow> Some s
       | Some a \<Rightarrow> do {
           n \<leftarrow> heap s a;
           cs \<leftarrow> member_int (n_obj n) ''cs'';
           obj \<leftarrow> n_obj p;
           obj \<leftarrow> add_to_member obj ''cni'' (- 1);
           obj \<leftarrow> add_to_member obj ''cbs'' (- cs);
           h \<leftarrow> put_obj (heap s) parent obj;
           let (_, d) = e_db_delete_onem2m_resource E (db s) n;
           h \<leftarrow> bypass h parent a;
           h \<leftarrow> free_rtnode h a;
           Some (s\<lparr>heap := h, db := d\<rparr>) } }"

definition exceeds :: "int option \<Rightarrow> int option \<Rightarrow> int \<Rightarrow> int \<Rightarrow> bool" where
  "exceeds mni mbs cni cbs \<longleftrightarrow>
     (case mni of None \<Rightarrow> False | Some m \<Rightarrow> m < cni) \<or> (case mbs of None \<Rightarrow> False | Some m \<Rightarrow> m < cbs)"

text \<open>The loop ends when the counters are within the limits; they change only with an instance.\<close>

partial_function (option) evict_tsi :: "'d env \<Rightarrow> 'd cse \<Rightarrow> addr \<Rightarrow> int option \<Rightarrow> int option \<Rightarrow> int \<Rightarrow> int \<Rightarrow> 'd cse option" where
  "evict_tsi E s ts mni mbs cni cbs =
     (if exceeds mni mbs cni cbs
      then do {
        s \<leftarrow> delete_oldest_tsi E s ts;
        n \<leftarrow> heap s ts;
        cni \<leftarrow> member_int (n_obj n) ''cni'';
        cbs \<leftarrow> member_int (n_obj n) ''cbs'';
        evict_tsi E s ts mni mbs cni cbs }
      else Some s)"

section \<open>Update\<close>

definition active :: "cjson option \<Rightarrow> bool" where
  "active mdd = (case mdd of None \<Rightarrow> False | Some j \<Rightarrow> j = JTrue \<or> valueint j = 1)"

text \<open>A number that was given: \<open>None\<close> for none, \<open>Some None\<close> for something that is no number.\<close>

definition number_at :: "cjson option \<Rightarrow> string \<Rightarrow> int option option" where
  "number_at obj k = map_option cJSON_GetNumberValue (cJSON_GetObjectItem obj k)"

definition not_positive :: "int option option \<Rightarrow> bool" where
  "not_positive v = (case v of None \<Rightarrow> True | Some None \<Rightarrow> False | Some (Some n) \<Rightarrow> n \<le> 0)"

definition mdd_error :: "cjson option \<Rightarrow> cjson \<Rightarrow> string option" where
  "mdd_error cur ts =
     (let new_mdd = cJSON_GetObjectItem (Some ts) ''mdd'';
          params = has_any (Some ts) [''pei'', ''peid'', ''mdt'', ''mdn''];
          on = (if new_mdd = None then active (cJSON_GetObjectItem cur ''mdd'') else active new_mdd)
      in if on
         then (if params then Some ''Cannot update params when mdd is true''
               else if not_positive (number_at cur ''mdt'') \<or> not_positive (number_at cur ''mdn'')
               then Some ''mdt and mdn must be valid when mdd is true'' else None)
         else if new_mdd \<noteq> None \<and> params then Some ''pei/peid/mdt/mdn update not allowed when disabling mdd''
         else None)"

text \<open>
  The new period. A period that is not positive removes period and delta; a delta that is not
  given is half of the period, and the conversion of NaN to \<^verbatim>\<open>int\<close> is undefined. The result is
  the contents, the new period and twice the new delta; -1 counts as not given.
\<close>

definition given :: "cjson \<Rightarrow> string \<Rightarrow> int option option" where
  "given ts k = (case number_at (Some ts) k of Some (Some n) \<Rightarrow> if n = - 1 then None else Some (Some n) | r \<Rightarrow> r)"

definition new_period :: "cjson \<Rightarrow> (cjson \<times> int option option \<times> int option option) option" where
  "new_period ts =
     (let drop = (case number_at (Some ts) ''pei'' of Some (Some n) \<Rightarrow> n \<le> 0 | _ \<Rightarrow> False);
          ts = (if drop then add_missing_key (cJSON_ReplaceItemInObject ts ''pei'' JNull) ''peid'' JNull else ts);
          pei = (if drop then None else given ts ''pei'');
          peid = (case given ts ''peid'' of Some (Some n) \<Rightarrow> Some (Some (2 * n)) | _ \<Rightarrow> None)
      in case (pei, peid) of
           (Some None, None) \<Rightarrow> None
         | (Some (Some p), None) \<Rightarrow> Some (cJSON_AddItemToObject ts ''peid'' (JNumber (p div 2)), pei, Some (Some p))
         | _ \<Rightarrow> Some (ts, pei, peid))"

definition period_error :: "cjson option \<Rightarrow> int option option \<Rightarrow> int option option \<Rightarrow> bool" where
  "period_error cur pei peid2 =
     (let p = (case pei of Some v \<Rightarrow> v | None \<Rightarrow> (case number_at cur ''pei'' of Some v \<Rightarrow> v | None \<Rightarrow> Some 0));
          d = (case peid2 of Some v \<Rightarrow> v
               | None \<Rightarrow> (case number_at cur ''peid'' of Some v \<Rightarrow> map_option ((*) 2) v | None \<Rightarrow> Some 0))
      in case (p, d) of (Some p, Some d) \<Rightarrow> 0 < p \<and> p < d | _ \<Rightarrow> False)"

definition put_lt :: "cjson \<Rightarrow> string \<Rightarrow> cjson" where
  "put_lt obj t =
     (if cJSON_GetObjectItem (Some obj) ''lt'' \<noteq> None then cJSON_ReplaceItemInObject obj ''lt'' (JString t)
      else cJSON_AddItemToObject obj ''lt'' (JString t))"

definition restart_detection :: "'d env \<Rightarrow> 'd cse \<Rightarrow> addr \<Rightarrow> cjson \<Rightarrow> 'd cse option" where
  "restart_detection E s target ts =
     (case cJSON_GetObjectItem (Some ts) ''mdd'' of
        None \<Rightarrow> Some s
      | Some mdd \<Rightarrow> do {
          n \<leftarrow> heap s target;
          let s = s\<lparr>md := ts_md_disarm (md s) (get_ri_rtnode n)\<rparr>;
          if \<not> active (Some mdd) then Some s
          else do {
            obj \<leftarrow> n_obj n;
            ri \<leftarrow> get_ri_rtnode n;
            let obj = (if cJSON_GetObjectItem (Some obj) ''mdc'' = None
                       then cJSON_AddItemToObject obj ''mdc'' (JNumber 0) else set_int obj ''mdc'' 0);
            let obj = cJSON_ReplaceItemInObject (cJSON_DeleteItemFromObject obj ''mdlt'') ''lt'' (JString (e_time E 0));
            h \<leftarrow> put_obj (heap s) target obj;
            Some (s\<lparr>heap := h, db := e_db_ts_clear_mdlt E (db s) ri\<rparr>) } })"

definition update_ts :: "'d env \<Rightarrow> 'd cse \<Rightarrow> oneM2MPrimitive \<Rightarrow> addr \<Rightarrow> 'd outcome" where
  "update_ts E s o2pt target =
     do {
       n \<leftarrow> heap s target;
       let cur = n_obj n;
       let refuse = (\<lambda>e. Some (RSC_BAD_REQUEST, handle_error o2pt RSC_BAD_REQUEST e, s));
       case cJSON_GetObjectItem (p_request_pc o2pt) ''m2m:ts'' of
         None \<Rightarrow> refuse ''Insufficient arguments''
       | Some ts \<Rightarrow>
           if has_any (Some ts) [''mdc'', ''mdlt'', ''cni'', ''cbs''] then refuse ''Cannot manually update read-only attributes''
           else (case cnf_error ts of
                   Some e \<Rightarrow> refuse e
                 | None \<Rightarrow>
                     (case mdd_error cur ts of
                        Some e \<Rightarrow> refuse e
                      | None \<Rightarrow> do {
                          (ts, pei, peid2) \<leftarrow> new_period ts;
                          if period_error cur pei peid2 then refuse ''peid > pei/2''
                          else do {
                            s \<leftarrow> restart_detection E s target ts;
                            (ts, s) \<leftarrow> process_annc_at_update E s target ts;
                            s \<leftarrow> merge_into s target ts;
                            n \<leftarrow> heap s target;
                            let num = (\<lambda>k. map_option valueint (cJSON_GetObjectItem (n_obj n) k));
                            s \<leftarrow> evict_tsi E s target (num ''mni'') (num ''mbs'')
                              (case num ''cni'' of None \<Rightarrow> 0 | Some v \<Rightarrow> v) (case num ''cbs'' of None \<Rightarrow> 0 | Some v \<Rightarrow> v);
                            s \<leftarrow> db_save E s target RT_TS;
                            (_, o2pt, s) \<leftarrow> make_response_body E s o2pt target;
                            Some (RSC_UPDATED, o2pt\<lparr>p_rsc := RSC_UPDATED\<rparr>, s) } })) }"

section \<open>Arrival of an instance\<close>

definition normal_counter :: "cjson \<Rightarrow> string \<Rightarrow> cjson" where
  "normal_counter obj k =
     (case cJSON_GetObjectItem (Some obj) k of
        None \<Rightarrow> cJSON_AddItemToObject obj k (JNumber 0)
      | Some (JNumber n) \<Rightarrow> set_int obj k (valueint (JNumber n))
      | Some _ \<Rightarrow> set_int obj k 0)"

text \<open>The sequence number and the name of an instance; \<open>None\<close> inside is an invalid sequence number.\<close>

definition number_instance :: "'d env \<Rightarrow> 'd \<Rightarrow> string option \<Rightarrow> cjson \<Rightarrow> (int \<times> cjson) option option" where
  "number_instance E d pri tsi =
     do {
       r \<leftarrow> (case cJSON_GetObjectItem (Some tsi) ''snr'' of
               None \<Rightarrow> do {
                 ri \<leftarrow> pri;
                 snr \<leftarrow> add_int (e_db_tsi_get_max_snr E d ri) 1;
                 Some (Some (snr, cJSON_AddItemToObject tsi ''snr'' (JNumber snr), ''tsi_'' @ dec_int snr)) }
             | Some (JNumber n) \<Rightarrow>
                 if valueint (JNumber n) < 0 then Some None
                 else do {
                   ri \<leftarrow> pri;
                   let snr = valueint (JNumber n);
                   Some (Some (snr, tsi, ''tsi_'' @ dec_int snr @ ''_'' @ dec_int (e_db_tsi_get_count E d ri))) }
             | Some _ \<Rightarrow> Some None);
       Some (case r of
               None \<Rightarrow> None
             | Some (snr, tsi, rn) \<Rightarrow> Some (snr, add_missing_key tsi ''rn'' (JString (take 63 rn)))) }"

text \<open>
  The slot of an instance on the grid and whether the slot was missed: an instance is early
  unless it starts the grid, or late once the series has started.
\<close>

definition slot_of :: "'d env \<Rightarrow> 'd cse \<Rightarrow> string \<Rightarrow> int \<Rightarrow> int \<Rightarrow> int \<Rightarrow> (int \<times> int) option" where
  "slot_of E s ri snr dgt pei_us =
     do {
       let base = e_db_tsi_get_min_snr E (db s) ri;
       let t = (case e_db_tsi_get_first_ct E (db s) ri of None \<Rightarrow> dgt | Some ct \<Rightarrow> parse_time_to_us_tsi (Some ct));
       let anchor = (if t \<le> 0 then dgt else t);
       k \<leftarrow> add_int snr (- base);
       off \<leftarrow> ll (k * pei_us);
       e \<leftarrow> ll (anchor + off);
       Some (e, base) }"

definition missed :: "int \<Rightarrow> int \<Rightarrow> int \<Rightarrow> bool \<Rightarrow> bool \<Rightarrow> bool" where
  "missed dgt expected peid_us first started \<longleftrightarrow>
     dgt < expected - peid_us \<and> \<not> first \<or> \<not> dgt < expected - peid_us \<and> expected + peid_us < dgt \<and> started"

definition detect_gap :: "'d env \<Rightarrow> 'd cse \<Rightarrow> addr \<Rightarrow> int \<Rightarrow> string option \<Rightarrow> 'd cse option" where
  "detect_gap E s parent snr dgt_str =
     do {
       p \<leftarrow> heap s parent;
       obj \<leftarrow> n_obj p;
       case (cJSON_GetObjectItem (Some obj) ''mdd'', cJSON_GetObjectItem (Some obj) ''pei'') of
         (Some JTrue, Some pei) \<Rightarrow>
           if valueint pei \<le> 0 then Some s
           else do {
             ri \<leftarrow> get_ri_rtnode p;
             let dgt = parse_time_to_us_tsi dgt_str;
             let pei_us = valueint pei * 1000;
             let peid_us = (case cJSON_GetObjectItem (Some obj) ''peid'' of None \<Rightarrow> 0 | Some j \<Rightarrow> valueint j * 1000);
             (expected, base) \<leftarrow> slot_of E s ri snr dgt pei_us;
             _ \<leftarrow> ll (expected - peid_us);
             _ \<leftarrow> ll (expected + peid_us);
             let m = missed dgt expected peid_us (snr = base) (ts_md_is_armed (md s) (Some ri));
             let obj = (if m then add_missing obj (us_to_iso8601_tsi expected) else obj);
             h \<leftarrow> put_obj (heap s) parent obj;
             grace \<leftarrow> (case cJSON_GetObjectItem (Some obj) ''mdt'' of
                         Some (JNumber n) \<Rightarrow> if 0 < n then ll (n * 1000) else Some peid_us
                       | _ \<Rightarrow> Some peid_us);
             deadline \<leftarrow> ll (e_now_us E + pei_us + grace);
             next_dgt \<leftarrow> ll (expected + pei_us);
             let s = s\<lparr>heap := h, md := ts_md_arm (md s) (Some ri) deadline next_dgt\<rparr>;
             if m then notify_missing_data E s parent 1 else Some s }
       | _ \<Rightarrow> Some s }"

definition count_tsi :: "'d env \<Rightarrow> 'd cse \<Rightarrow> addr \<Rightarrow> int \<Rightarrow> 'd cse option" where
  "count_tsi E s parent cs =
     do {
       p \<leftarrow> heap s parent;
       obj \<leftarrow> n_obj p;
       ri \<leftarrow> get_ri_rtnode p;
       cbs \<leftarrow> member_int (Some obj) ''cbs'';
       cbs' \<leftarrow> add_int cbs cs;
       h \<leftarrow> put_obj (heap s) parent (set_int (set_int obj ''cni'' (e_db_tsi_get_count E (db s) ri)) ''cbs'' cbs');
       Some (s\<lparr>heap := h\<rparr>) }"

definition touch_ts :: "'d env \<Rightarrow> 'd cse \<Rightarrow> addr \<Rightarrow> 'd cse option" where
  "touch_ts E s parent =
     do {
       p \<leftarrow> heap s parent;
       obj \<leftarrow> n_obj p;
       ri \<leftarrow> get_ri_rtnode p;
       h \<leftarrow> put_obj (heap s) parent (put_lt obj (e_time E 0));
       Some (s\<lparr>heap := h, db := snd (e_db_general_set_lt E (db s) ri (e_time E 0))\<rparr>) }"

text \<open>
  The end of \<^verbatim>\<open>create_tsi\<close>. The new instance is in the tree when the eviction starts and may be
  the one that is evicted; the answer is made from it afterwards.
\<close>

definition insert_tsi :: "'d env \<Rightarrow> 'd cse \<Rightarrow> oneM2MPrimitive \<Rightarrow> addr \<Rightarrow> cjson \<Rightarrow> int \<Rightarrow> 'd outcome" where
  "insert_tsi E s o2pt parent tsi mbs =
     do {
       (a, s) \<leftarrow> create_rtnode s tsi RT_TSI;
       s \<leftarrow> add_child_resource_tree s parent a;
       p \<leftarrow> heap s parent;
       mni \<leftarrow> member_int (n_obj p) ''mni'';
       cni \<leftarrow> member_int (n_obj p) ''cni'';
       cbs \<leftarrow> member_int (n_obj p) ''cbs'';
       s \<leftarrow> evict_tsi E s parent (Some mni) (Some mbs) cni cbs;
       s \<leftarrow> db_save E s parent RT_TS;
       (_, o2pt, s) \<leftarrow> make_response_body E s (o2pt\<lparr>p_rsc := RSC_CREATED\<rparr>) a;
       Some (RSC_CREATED, o2pt, s) }"

definition create_tsi :: "'d env \<Rightarrow> 'd cse \<Rightarrow> oneM2MPrimitive \<Rightarrow> addr \<Rightarrow> 'd outcome" where
  "create_tsi E s o2pt parent =
     do {
       p \<leftarrow> heap s parent;
       let refuse = (\<lambda>s rsc e. Some (rsc, handle_error o2pt rsc e, s));
       if n_ty p \<noteq> RT_TS then refuse s RSC_INVALID_CHILD_RESOURCETYPE ''Parent not TS''
       else (case cJSON_GetObjectItem (p_request_pc o2pt) ''m2m:tsi'' of
               None \<Rightarrow> refuse s RSC_BAD_REQUEST ''No tsi body''
             | Some tsi \<Rightarrow>
                 (case validate_mandatory_attrs RT_TSI (Some tsi) OP_CREATE of
                    Some err \<Rightarrow> refuse s RSC_BAD_REQUEST err
                  | None \<Rightarrow> do {
                      dgt_item \<leftarrow> cJSON_GetObjectItem (Some tsi) ''dgt'';
                      con \<leftarrow> member_string (Some tsi) ''con'';
                      let dgt = valuestring dgt_item;
                      let pri = get_ri_rtnode p;
                      let tsi = cJSON_DeleteItemFromObject tsi ''cs'';
                      let dup = (case (pri, dgt) of (Some r, Some t) \<Rightarrow> e_db_tsi_check_dgt_dup E (db s) r t | _ \<Rightarrow> False);
                      if dup then refuse s RSC_CONFLICT ''dgt dup''
                      else do {
                        let cs = int (length con);
                        let tsi = cJSON_AddItemToObject tsi ''cs'' (JNumber cs);
                        obj \<leftarrow> n_obj p;
                        mbs \<leftarrow> member_int (Some obj) ''mbs'';
                        if mbs < cs then refuse s RSC_NOT_ACCEPTABLE ''mbs exceed''
                        else do {
                          h \<leftarrow> put_obj (heap s) parent (normal_counter (normal_counter obj ''cni'') ''cbs'');
                          let s = s\<lparr>heap := h\<rparr>;
                          r \<leftarrow> number_instance E (db s) pri tsi;
                          case r of
                            None \<Rightarrow> refuse s RSC_BAD_REQUEST ''snr invalid''
                          | Some (snr, tsi) \<Rightarrow> do {
                              (tsi, s) \<leftarrow> add_general_attribute E s tsi parent RT_TSI;
                              puri \<leftarrow> n_uri p;
                              rn \<leftarrow> member_string (Some tsi) ''rn'';
                              if 2048 \<le> length (puri @ ''/'' @ rn) then None
                              else do {
                                let (result, d) = e_db_store_resource E (db s) tsi (puri @ ''/'' @ rn);
                                let s = s\<lparr>db := d\<rparr>;
                                if result \<noteq> 1 then refuse s RSC_INTERNAL_SERVER_ERROR ''DB fail''
                                else do {
                                  s \<leftarrow> count_tsi E s parent cs;
                                  s \<leftarrow> detect_gap E s parent snr dgt;
                                  s \<leftarrow> touch_ts E s parent;
                                  insert_tsi E s o2pt parent tsi mbs } } } } } })) }"

end
