(* ===== verification/TimeSeriesProps.thy ===== *)
theory TimeSeriesProps
  imports TimeSeries
begin

text \<open>
  The list of missing points stays within its bound, and an update with a negative limit makes
  the eviction loop run for ever.
\<close>

section \<open>The bound of the missing points\<close>

lemma find_mod_member:
  "find_member (mod_member kvs k f) k' = (if ci_eq k k' then map_option f (find_member kvs k) else find_member kvs k')"
  by (induction kvs) (auto simp: ci_eq_def)

lemma get_modify_member:
  "cJSON_GetObjectItem (Some (modify_member (JObject kvs) k f)) k' =
     (if ci_eq k k' then map_option f (find_member kvs k) else find_member kvs k')"
  by (simp add: find_mod_member)

definition missing_of :: "(string \<times> cjson) list \<Rightarrow> cjson list" where
  "missing_of kvs = (case find_member kvs ''mdlt'' of Some (JArray xs) \<Rightarrow> xs | _ \<Rightarrow> [])"

text \<open>A time series whose record of missing points has the types \<^verbatim>\<open>create_ts\<close> gives it.\<close>

definition md_typed :: "(string \<times> cjson) list \<Rightarrow> bool" where
  "md_typed kvs \<longleftrightarrow>
     (find_member kvs ''mdlt'' = None \<or> (\<exists>xs. find_member kvs ''mdlt'' = Some (JArray xs))) \<and>
     (find_member kvs ''mdc'' = None \<or> (\<exists>n. find_member kvs ''mdc'' = Some (JNumber n)))"

lemma key_distinct [simp]: "\<not> ci_eq ''mdlt'' ''mdn''" "\<not> ci_eq ''mdlt'' ''mdc''" "\<not> ci_eq ''mdc'' ''mdlt''"
  by (simp_all add: ci_eq_def tolower_def)

lemma mdlt_array_obj:
  assumes "md_typed kvs"
  shows "\<exists>kvs'. mdlt_array (JObject kvs) = JObject kvs' \<and> find_member kvs' ''mdlt'' = Some (JArray (missing_of kvs)) \<and>
    (\<forall>k. \<not> ci_eq ''mdlt'' k \<longrightarrow> find_member kvs' k = find_member kvs k)"
  using assms unfolding md_typed_def
  by (auto simp: mdlt_array_def missing_of_def find_member_append ci_eq_sym split: option.splits)

lemma put_mdc_obj:
  assumes "find_member kvs ''mdc'' = None \<or> (\<exists>n. find_member kvs ''mdc'' = Some (JNumber n))"
  shows "\<exists>kvs'. put_mdc (JObject kvs) v = JObject kvs' \<and> find_member kvs' ''mdc'' = Some (JNumber v) \<and>
    (\<forall>k. \<not> ci_eq ''mdc'' k \<longrightarrow> find_member kvs' k = find_member kvs k)"
  using assms by (auto simp: put_mdc_def find_member_append find_set_int_member ci_eq_sym split: option.splits)

text \<open>
  C39. The record of missing data points is bounded and its counter exact. Recording a point
  of a time series with a positive \<^verbatim>\<open>mdn\<close> appends its time, keeps the last \<^verbatim>\<open>mdn\<close> entries, sets
  \<^verbatim>\<open>mdc\<close> to the number of entries and changes no other attribute.
\<close>

theorem add_missing_bounded:
  assumes "md_typed kvs" "find_member kvs ''mdn'' = Some (JNumber (int n))" "0 < n"
  shows "\<exists>kvs' xs. add_missing (JObject kvs) t = JObject kvs' \<and>
    find_member kvs' ''mdlt'' = Some (JArray xs) \<and>
    xs = drop (length (missing_of kvs) + 1 - n) (missing_of kvs @ [JString t]) \<and>
    length xs = min n (length (missing_of kvs) + 1) \<and>
    find_member kvs' ''mdc'' = Some (JNumber (int (length xs))) \<and>
    (\<forall>k. \<not> ci_eq ''mdlt'' k \<and> \<not> ci_eq ''mdc'' k \<longrightarrow> find_member kvs' k = find_member kvs k)"
proof -
  let ?ms = "missing_of kvs"
  obtain k1 where k1: "mdlt_array (JObject kvs) = JObject k1" "find_member k1 ''mdlt'' = Some (JArray ?ms)"
    "\<forall>k. \<not> ci_eq ''mdlt'' k \<longrightarrow> find_member k1 k = find_member kvs k"
    using mdlt_array_obj [OF assms(1)] by blast
  let ?k2 = "mod_member (mod_member k1 ''mdlt'' (\<lambda>a. cJSON_AddItemToArray a (JString t))) ''mdlt'' (keep_last n)"
  let ?xs = "drop (length ?ms + 1 - n) (?ms @ [JString t])"
  have mdn: "mdn_of (JObject (mod_member k1 ''mdlt'' f)) = int n" for f
    using k1(3) assms(2) by (simp add: mdn_of_def find_mod_member)
  have xs: "find_member ?k2 ''mdlt'' = Some (JArray ?xs)"
    using k1(2) by (simp add: find_mod_member keep_last_def)
  have "find_member ?k2 ''mdc'' = find_member kvs ''mdc''" using k1(3) by (simp add: find_mod_member)
  then obtain k3 where k3: "put_mdc (JObject ?k2) (int (length ?xs)) = JObject k3"
    "find_member k3 ''mdc'' = Some (JNumber (int (length ?xs)))"
    "\<forall>k. \<not> ci_eq ''mdc'' k \<longrightarrow> find_member k3 k = find_member ?k2 k"
    using put_mdc_obj [of ?k2 "int (length ?xs)"] assms(1) unfolding md_typed_def by metis
  have "add_missing (JObject kvs) t = JObject k3"
    using k1(1) xs k3(1) mdn assms(3) by (simp add: add_missing_def cJSON_GetArraySize_def elems_def)
  moreover have "find_member k3 ''mdlt'' = Some (JArray ?xs)" using k3(3) xs by simp
  moreover have "find_member k3 k = find_member kvs k" if "\<not> ci_eq ''mdlt'' k" "\<not> ci_eq ''mdc'' k" for k
    using that k3(3) k1(3) by (simp add: find_mod_member)
  ultimately show ?thesis using k3(2) by (intro exI [of _ k3] exI [of _ ?xs]) auto
qed

theorem add_missing_bounded_witness:
  "\<exists>kvs' xs. add_missing (JObject [(''mdn'', JNumber 2), (''mdlt'', JArray [JString ''a'', JString ''b'']), (''mdc'', JNumber 2)]) ''c'' =
      JObject kvs' \<and> find_member kvs' ''mdlt'' = Some (JArray xs) \<and> xs = [JString ''b'', JString ''c'']"
  using add_missing_bounded [of "[(''mdn'', JNumber 2), (''mdlt'', JArray [JString ''a'', JString ''b'']), (''mdc'', JNumber 2)]" 2 "''c''"]
  by (force simp: md_typed_def missing_of_def ci_eq_def tolower_def)

section \<open>A limit below zero\<close>

text \<open>A time series without instances, with counters at zero.\<close>

definition empty_series :: "'d cse \<Rightarrow> addr \<Rightarrow> bool" where
  "empty_series s a \<longleftrightarrow>
     (\<exists>n. heap s a = Some n \<and> oldest_tsi (heap s) (n_child n) None = Some None \<and>
        member_int (n_obj n) ''cni'' = Some 0 \<and> member_int (n_obj n) ''cbs'' = Some 0)"

lemma delete_oldest_tsi_empty: "empty_series s a \<Longrightarrow> delete_oldest_tsi E s a = Some s"
  by (auto simp: empty_series_def delete_oldest_tsi_def)

lemma evict_tsi_no_result:
  assumes "empty_series s a" "m < 0" "evict_tsi E t b mni mbs cni cbs = Some y"
  shows "\<not> (t = s \<and> b = a \<and> mni = Some m \<and> cni = 0 \<and> cbs = 0)"
proof (rule evict_tsi.raw_induct
    [where P = "\<lambda>E t b mni mbs cni cbs y. \<not> (t = s \<and> b = a \<and> mni = Some m \<and> cni = 0 \<and> cbs = 0)", OF _ assms(3)],
    rule notI)
  fix f :: "'a env \<Rightarrow> 'a cse \<Rightarrow> addr \<Rightarrow> int option \<Rightarrow> int option \<Rightarrow> int \<Rightarrow> int \<Rightarrow> 'a cse option"
  fix E :: "'a env" and t b mni mbs cni cbs y
  assume IH: "\<And>E t b mni mbs cni cbs y. f E t b mni mbs cni cbs = Some y \<Longrightarrow>
      \<not> (t = s \<and> b = a \<and> mni = Some m \<and> cni = 0 \<and> cbs = 0)"
    and step: "(if exceeds mni mbs cni cbs
        then Option.bind (delete_oldest_tsi E t b) (\<lambda>s. Option.bind (heap s b) (\<lambda>n.
          Option.bind (member_int (n_obj n) ''cni'') (\<lambda>cni. Option.bind (member_int (n_obj n) ''cbs'') (f E s b mni mbs cni))))
        else Some t) = Some y"
    and e: "t = s \<and> b = a \<and> mni = Some m \<and> cni = 0 \<and> cbs = 0"
  obtain n where "heap s a = Some n" "member_int (n_obj n) ''cni'' = Some 0" "member_int (n_obj n) ''cbs'' = Some 0"
    using assms(1) by (auto simp: empty_series_def)
  then have "f E s a (Some m) mbs 0 0 = Some y"
    using step e assms(2) delete_oldest_tsi_empty [OF assms(1), of E] by (simp add: exceeds_def)
  with IH show False by blast
qed

text \<open>
  The eviction loop of a time series does not end when its limit is negative: with no
  instance left the body returns with the state unchanged and the condition still holds, so
  the loop has no result.
\<close>

theorem evict_tsi_negative_limit:
  assumes "empty_series s a" "m < 0"
  shows "delete_oldest_tsi E s a = Some s \<and> exceeds (Some m) mbs 0 0 \<and> evict_tsi E s a (Some m) mbs 0 0 = None"
  using evict_tsi_no_result [OF assms, of E s a "Some m" mbs 0 0] delete_oldest_tsi_empty [OF assms(1)] assms(2)
  by (cases "evict_tsi E s a (Some m) mbs 0 0") (auto simp: exceeds_def)

definition ex_series :: "rtnode list cse" where
  "ex_series = (ex_cse [])\<lparr>heap := [0 \<mapsto> (mk_node RT_TS ''ts'' ''29-1'' None None None None None)
     \<lparr>n_obj := Some (JObject [(''ri'', JString ''29-1''), (''cni'', JNumber 0), (''cbs'', JNumber 0)])\<rparr>]\<rparr>"

theorem evict_tsi_negative_limit_witness: "evict_tsi list_env ex_series 0 (Some (- 1)) (Some 100) 0 0 = None"
proof -
  have "empty_series ex_series 0"
    by (simp add: empty_series_def ex_series_def ex_cse_def mk_node_def member_int_def oldest_tsi.simps ci_eq_def tolower_def INT_MAX_def INT_MIN_def)
  then show ?thesis using evict_tsi_negative_limit [of ex_series 0 "- 1"] by simp
qed

end
