(* ===== verification/Group.thy ===== *)
theory Group
  imports Lifecycle
begin

text \<open>
  Groups (\<^verbatim>\<open>resources/grp.c\<close>): validation of the members, creation, update and the back references
  \<^verbatim>\<open>memberOf\<close>. The fan-out point is in the theory \<open>Dispatch\<close>.
\<close>

section \<open>Members\<close>

abbreviation (input) MAX_URI_LENGTH :: nat where "MAX_URI_LENGTH \<equiv> 1024"

text \<open>What the search for a member gives: the validation ends, the member is left out, or a node.\<close>

datatype located = Abort int | Leave_Out | Member addr bool

definition absent :: "int \<Rightarrow> located option" where
  "absent csy =
     (if csy = CSY_ABANDON_GROUP then Some (Abort RSC_BAD_REQUEST)
      else if csy = CSY_ABANDON_MEMBER \<or> csy = CSY_SET_MIXED then Some Leave_Out
      else None)"

definition present :: "int \<Rightarrow> ptr \<Rightarrow> bool \<Rightarrow> located option" where
  "present csy p remote = (case p of Some a \<Rightarrow> Some (Member a remote) | None \<Rightarrow> absent csy)"

text \<open>
  \<open>cur\<close> is the node of the member before, which an address of another kind would use again under
  the policy 0, and \<open>None\<close> while the variable is not set.
\<close>

definition locate_member :: "'d env \<Rightarrow> 'd cse \<Rightarrow> int \<Rightarrow> ptr option \<Rightarrow> string \<Rightarrow> (located \<times> 'd cse) option" where
  "locate_member E s csy cur t =
     do {
       rat \<leftarrow> checkResourceAddressingType (Some t);
       if rat = CSE_RELATIVE
       then do { (p, s) \<leftarrow> find_rtnode E s (Some t); l \<leftarrow> present csy p False; Some (l, s) }
       else if rat = SP_RELATIVE
       then (if isSpRelativeLocal (Some t)
             then do {
               (p, s) \<leftarrow> find_rtnode E s (Some (drop (length CSE_BASE_RI + 2) t));
               l \<leftarrow> present csy p False;
               Some (l, s) }
             else do {
               (p, rsc, s) \<leftarrow> get_remote_resource E s (Some t) None 0;
               if p = None \<and> csy = CSY_ABANDON_GROUP
               then Some (Abort (if rsc = RSC_ORIGINATOR_HAS_NO_PRIVILEGE then RSC_RECEIVER_HAS_NO_PRIVILEGES
                                 else RSC_GROUPMEMBER_TYPE_INCONSISTENT), s)
               else do { l \<leftarrow> present csy p True; Some (l, s) } })
       else (if csy = CSY_ABANDON_GROUP \<or> csy = CSY_ABANDON_MEMBER \<or> csy = CSY_SET_MIXED
             then do { l \<leftarrow> absent csy; Some (l, s) }
             else do { p \<leftarrow> cur; l \<leftarrow> present csy p False; Some (l, s) }) }"

definition set_mixed :: "cjson \<Rightarrow> cjson" where
  "set_mixed grp =
     (if cJSON_GetObjectItem (Some grp) ''mt'' = None then cJSON_AddItemToObject grp ''mt'' (JNumber RT_MIXED)
      else set_int grp ''mt'' RT_MIXED)"

definition release :: "'d cse \<Rightarrow> addr \<Rightarrow> bool \<Rightarrow> 'd cse option" where
  "release s a remote = (if remote then do { h \<leftarrow> free_rtnode (heap s) a; Some (s\<lparr>heap := h\<rparr>) } else Some s)"

definition member_id :: "rtnode \<Rightarrow> bool \<Rightarrow> string option" where
  "member_id n remote = (if remote then n_uri n else member_string (n_obj n) ''ri'')"

text \<open>
  The loop of \<^verbatim>\<open>validate_grp_member\<close>. A member that is the fan-out point of a group is validated
  with the strictest policy; groups that contain each other never come to an end.
\<close>

partial_function (option) validate_members ::
  "'d env \<Rightarrow> 'd cse \<Rightarrow> cjson \<Rightarrow> int \<Rightarrow> int \<Rightarrow> cjson list \<Rightarrow> string list \<Rightarrow> ptr option \<Rightarrow>
     (int \<times> cjson \<times> string list \<times> 'd cse) option" where
  "validate_members E s grp csy mt mids final_mid cur =
     (case mids of
        [] \<Rightarrow> Some (0, grp, final_mid, s)
      | m # mids \<Rightarrow> do {
          mid \<leftarrow> (if cJSON_IsString (Some m) then valuestring m else None);
          let fopt = isUriFopt (Some mid);
          if MAX_URI_LENGTH \<le> length mid then None
          else do {
            (l, s) \<leftarrow> locate_member E s csy cur (if fopt \<and> 5 < length mid then take (length mid - 5) mid else mid);
            case l of
              Abort rsc \<Rightarrow> Some (rsc, grp, final_mid, s)
            | Leave_Out \<Rightarrow> validate_members E s grp csy mt mids final_mid (Some None)
            | Member a remote \<Rightarrow> do {
                n \<leftarrow> heap s a;
                let other = (\<not> fopt \<and> mt \<noteq> 0 \<and> n_ty n \<noteq> mt);
                if other \<and> csy = CSY_ABANDON_GROUP
                then do { s \<leftarrow> release s a remote; Some (RSC_GROUPMEMBER_TYPE_INCONSISTENT, grp, final_mid, s) }
                else if other \<and> csy \<noteq> CSY_SET_MIXED
                then do { s \<leftarrow> release s a remote; validate_members E s grp csy mt mids final_mid (Some (Some a)) }
                else do {
                  let grp = (if other then set_mixed grp else grp);
                  let mt = (if other then RT_MIXED else mt);
                  (rsc, s) \<leftarrow>
                    (if fopt \<and> n_ty n = RT_GRP
                     then do {
                       sub \<leftarrow> n_obj n;
                       (rsc, _, _, s) \<leftarrow> validate_members E s sub CSY_ABANDON_GROUP mt
                         (elems (cJSON_GetObjectItem (Some sub) ''mid'')) [] None;
                       Some (rsc, s) }
                     else Some (0, s));
                  if rsc = RSC_GROUPMEMBER_TYPE_INCONSISTENT \<and> csy = CSY_ABANDON_GROUP
                  then Some (RSC_GROUPMEMBER_TYPE_INCONSISTENT, grp, final_mid, s)
                  else if rsc = RSC_GROUPMEMBER_TYPE_INCONSISTENT \<and> csy = CSY_ABANDON_MEMBER
                  then do { s \<leftarrow> release s a remote; validate_members E s grp csy mt mids final_mid (Some (Some a)) }
                  else do {
                    n \<leftarrow> heap s a;
                    id \<leftarrow> member_id n remote;
                    let entry = (if fopt then id @ ''/fopt'' else id);
                    if fopt \<and> id \<notin> set final_mid \<and> MAX_URI_LENGTH \<le> length entry then None
                    else do {
                      s \<leftarrow> release s a remote;
                      validate_members E s grp csy mt mids
                        (if id \<in> set final_mid then final_mid else final_mid @ [entry]) (Some (Some a)) } } } } } })"

definition validate_grp_member :: "'d env \<Rightarrow> 'd cse \<Rightarrow> cjson \<Rightarrow> int \<Rightarrow> int \<Rightarrow> (int \<times> cjson \<times> string list \<times> 'd cse) option" where
  "validate_grp_member E s grp csy mt =
     validate_members E s grp csy mt (elems (cJSON_GetObjectItem (Some grp) ''mid'')) [] None"

section \<open>Validation\<close>

definition gn_error :: "cjson \<Rightarrow> string option" where
  "gn_error grp =
     (case cJSON_GetObjectItem (Some grp) ''gn'' of
        None \<Rightarrow> None
      | Some (JString gn) \<Rightarrow>
          if is_blank_string (Some gn) then Some ''`gn` should not be empty''
          else if 30 < length gn then Some ''`gn` is too long'' else None
      | Some _ \<Rightarrow> Some ''`gn` should be string'')"

definition acpi_of :: "'d env \<Rightarrow> 'd cse \<Rightarrow> oneM2MPrimitive \<Rightarrow> cjson \<Rightarrow> operation \<Rightarrow> 'd outcome" where
  "acpi_of E s o2pt grp op =
     (case cJSON_GetObjectItem (Some grp) ''acpi'' of
        None \<Rightarrow> Some (RSC_OK, o2pt, s)
      | Some acpi \<Rightarrow> validate_acpi E s o2pt (Some acpi) op)"

text \<open>An empty \<^verbatim>\<open>macp\<close> is recorded as an error in the primitive, and the validation goes on.\<close>

definition new_macp :: "'d env \<Rightarrow> 'd cse \<Rightarrow> oneM2MPrimitive \<Rightarrow> cjson \<Rightarrow> 'd outcome" where
  "new_macp E s o2pt grp =
     (case cJSON_GetObjectItem (Some grp) ''macp'' of
        None \<Rightarrow> Some (RSC_OK, o2pt, s)
      | Some macp \<Rightarrow>
          if \<not> cJSON_IsArray (Some macp)
          then Some (RSC_BAD_REQUEST, handle_error o2pt RSC_BAD_REQUEST ''`macp` should be array'', s)
          else if cJSON_GetArraySize (Some macp) = 0
          then Some (RSC_OK, handle_error o2pt RSC_BAD_REQUEST ''`macp` should not be empty'', s)
          else do {
            (rsc, o2pt, s) \<leftarrow> validate_acpi E s o2pt (Some macp) OP_CREATE;
            Some (if rsc \<noteq> RSC_OK then p_rsc o2pt else RSC_OK, o2pt, s) })"

definition replace_mid :: "cjson \<Rightarrow> string list \<Rightarrow> cjson" where
  "replace_mid grp final_mid =
     cJSON_AddItemToObject (cJSON_DeleteItemFromObject grp ''mid'') ''mid'' (JArray (map JString final_mid))"

text \<open>The part of \<^verbatim>\<open>validate_grp\<close> after the checks of single attributes.\<close>

definition grp_members :: "'d env \<Rightarrow> 'd cse \<Rightarrow> oneM2MPrimitive \<Rightarrow> cjson \<Rightarrow> int \<Rightarrow> int \<Rightarrow> 'd validated" where
  "grp_members E s o2pt grp csy mt =
     do {
       (rsc, o2pt, s) \<leftarrow> new_macp E s o2pt grp;
       if rsc \<noteq> RSC_OK then Some (rsc, o2pt, grp, s)
       else do {
         (rsc, o2pt, s) \<leftarrow> acpi_of E s o2pt grp OP_CREATE;
         if rsc \<noteq> RSC_OK then Some (rsc, o2pt, grp, s)
         else do {
           (rsc, grp, final_mid, s) \<leftarrow> validate_grp_member E s grp csy mt;
           if RSC_BAD_REQUEST \<le> rsc then Some (rsc, handle_error o2pt rsc ''GRP member is invalid'', grp, s)
           else do {
             let grp = cJSON_AddItemToObject grp ''mtv'' (if rsc = 0 then JTrue else JFalse);
             Some (RSC_OK, o2pt, validate_aa o2pt (replace_mid grp final_mid) RT_GRP, s) } } } }"

definition validate_grp :: "'d env \<Rightarrow> 'd cse \<Rightarrow> oneM2MPrimitive \<Rightarrow> cjson \<Rightarrow> 'd validated" where
  "validate_grp E s o2pt grp =
     (case validate_mandatory_attrs RT_GRP (Some grp) OP_CREATE of
        Some err \<Rightarrow> Some (RSC_BAD_REQUEST, handle_error o2pt RSC_BAD_REQUEST err, grp, s)
      | None \<Rightarrow>
          (let given = cJSON_GetObjectItem (Some grp) ''mt'';
               mt = (case given of Some j \<Rightarrow> valueint j | None \<Rightarrow> RT_MIXED);
               grp = (if given = None then cJSON_AddItemToObject grp ''mt'' (JNumber RT_MIXED) else grp);
               csy = (case cJSON_GetObjectItem (Some grp) ''csy'' of Some j \<Rightarrow> valueint j | None \<Rightarrow> CSY_ABANDON_MEMBER);
               mid = cJSON_GetObjectItem (Some grp) ''mid'';
               refuse = (\<lambda>rsc e. Some (rsc, handle_error o2pt rsc e, grp, s))
           in if csy < 0 \<or> 3 < csy then refuse RSC_BAD_REQUEST ''`csy` is invalid''
              else if cJSON_GetObjectItem (Some grp) ''mtv'' = Some JTrue then Some (RSC_OK, o2pt, grp, s)
              else (case gn_error grp of
                      Some e \<Rightarrow> refuse RSC_BAD_REQUEST e
                    | None \<Rightarrow>
                        if mid \<noteq> None \<and> \<not> cJSON_IsArray mid then refuse RSC_BAD_REQUEST ''`mid` should be array''
                        else (case cJSON_GetObjectItem (Some grp) ''mnm'' of
                                Some mnm \<Rightarrow>
                                  if valueint mnm < int (cJSON_GetArraySize mid)
                                  then refuse RSC_MAX_NUMBER_OF_MEMBER_EXCEEDED ''`mnm` is less than `mid` size''
                                  else grp_members E s o2pt grp csy mt
                              | None \<Rightarrow> grp_members E s o2pt grp csy mt))))"

section \<open>Back references\<close>

definition put_memberOf :: "'d env \<Rightarrow> 'd cse \<Rightarrow> addr \<Rightarrow> cjson option \<Rightarrow> 'd cse option" where
  "put_memberOf E s a m =
     do {
       h \<leftarrow> upd (heap s) a (\<lambda>n. n\<lparr>n_memberOf := m\<rparr>);
       n \<leftarrow> h a;
       ri \<leftarrow> member_string (n_obj n) ''ri'';
       let (_, d) = e_db_update_resource E (db s) (add_opt (JObject []) ''memberOf'' m) ri (n_ty n);
       Some (s\<lparr>heap := h, db := d\<rparr>) }"

fun set_members :: "'d env \<Rightarrow> 'd cse \<Rightarrow> string \<Rightarrow> cjson list \<Rightarrow> 'd cse option" where
  "set_members E s uri [] = Some s"
| "set_members E s uri (m # ms) =
     do {
       (p, s) \<leftarrow> find_rtnode E s (valuestring m);
       case p of
         None \<Rightarrow> set_members E s uri ms
       | Some a \<Rightarrow> do {
           n \<leftarrow> heap s a;
           i \<leftarrow> cJSON_getArrayIdx (n_memberOf n) uri;
           s \<leftarrow> (if i = - 1
                 then put_memberOf E s a (map_option (\<lambda>l. cJSON_AddItemToArray l (JString uri)) (n_memberOf n)) else Some s);
           set_members E s uri ms } }"

definition set_grp_member :: "'d env \<Rightarrow> 'd cse \<Rightarrow> addr \<Rightarrow> 'd cse option" where
  "set_grp_member E s grp =
     do {
       n \<leftarrow> heap s grp;
       uri \<leftarrow> n_uri n;
       set_members E s uri (elems (cJSON_GetObjectItem (n_obj n) ''mid'')) }"

section \<open>Creation\<close>

text \<open>
  A validation that fails ends \<^verbatim>\<open>create_grp\<close> with the result of \<^verbatim>\<open>logger\<close>, the length of the message,
  and a creation that
  succeeds ends with the result of the validation, 2000, not with CREATED.
\<close>

definition create_grp :: "'d env \<Rightarrow> 'd cse \<Rightarrow> oneM2MPrimitive \<Rightarrow> addr \<Rightarrow> 'd outcome" where
  "create_grp E s o2pt parent =
     do {
       c \<leftarrow> cJSON_GetObjectItem (p_request_pc o2pt) ''m2m:grp'';
       (grp, s) \<leftarrow> add_general_attribute E s c parent RT_GRP;
       (rsc, o2pt, grp, s) \<leftarrow> validate_grp E s o2pt grp;
       if 4000 \<le> rsc then Some (int (length ''Group Validation failed''), o2pt, s)
       else (case set_creator o2pt grp of
               None \<Rightarrow> Some (RSC_BAD_REQUEST,
                 handle_error o2pt RSC_BAD_REQUEST ''creator attribute with arbitary value is not allowed'', s)
             | Some grp \<Rightarrow> do {
                 (grp, s) \<leftarrow> announce_new E s parent grp;
                 let grp = cJSON_AddItemToObject grp ''cnm''
                   (JNumber (int (cJSON_GetArraySize (cJSON_GetObjectItem (Some grp) ''mid''))));
                 let o2pt = o2pt\<lparr>p_rsc := RSC_CREATED\<rparr>;
                 p \<leftarrow> heap s parent;
                 puri \<leftarrow> n_uri p;
                 rn \<leftarrow> member_string (Some grp) ''rn'';
                 let (result, d) = e_db_store_resource E (db s) grp (puri @ ''/'' @ rn);
                 let s = s\<lparr>db := d\<rparr>;
                 if result \<noteq> 1
                 then Some (RSC_INTERNAL_SERVER_ERROR, handle_error o2pt RSC_INTERNAL_SERVER_ERROR ''DB store fail'', s)
                 else do {
                   (child, s) \<leftarrow> create_rtnode s grp RT_GRP;
                   s \<leftarrow> add_child_resource_tree s parent child;
                   s \<leftarrow> set_grp_member E s child;
                   (_, o2pt, s) \<leftarrow> make_response_body E s o2pt child;
                   Some (rsc, o2pt, s) } }) }"

section \<open>Update\<close>

text \<open>The members that the validation left out or renamed lose one entry of \<^verbatim>\<open>memberOf\<close>.\<close>

fun drop_members_of :: "'d env \<Rightarrow> 'd cse \<Rightarrow> string option \<Rightarrow> string list \<Rightarrow> cjson list \<Rightarrow> 'd cse option" where
  "drop_members_of E s to final_mid [] = Some s"
| "drop_members_of E s to final_mid (m # ms) =
     do {
       mid \<leftarrow> valuestring m;
       if mid \<in> set final_mid then drop_members_of E s to final_mid ms
       else do {
         (p, s) \<leftarrow> find_rtnode E s (Some mid);
         case p of
           None \<Rightarrow> drop_members_of E s to final_mid ms
         | Some a \<Rightarrow> do {
             n \<leftarrow> heap s a;
             t \<leftarrow> to;
             i \<leftarrow> cJSON_getArrayIdx (n_memberOf n) t;
             h \<leftarrow> upd (heap s) a (\<lambda>n. n\<lparr>n_memberOf :=
               (if i < 0 then n_memberOf n else map_option (\<lambda>l. cJSON_DeleteItemFromArray l (nat i)) (n_memberOf n))\<rparr>);
             drop_members_of E (s\<lparr>heap := h\<rparr>) to final_mid ms } } }"

definition mnm_error :: "cjson option \<Rightarrow> cjson \<Rightarrow> int \<Rightarrow> (int \<times> string) option option" where
  "mnm_error grp_old grp_new k =
     (case cJSON_GetObjectItem (Some grp_new) ''mnm'' of
        Some mnm \<Rightarrow>
          if valueint mnm < k then Some (Some (RSC_BAD_REQUEST, ''`mnm` is less than `mid` size''))
          else do {
            cnm \<leftarrow> member_int grp_old ''cnm'';
            Some (if valueint mnm < cnm then Some (RSC_BAD_REQUEST, ''`mnm` can't be smaller than `cnm` size'') else None) }
      | None \<Rightarrow>
          (case cJSON_GetObjectItem grp_old ''mnm'' of
             Some mnm \<Rightarrow>
               Some (if valueint mnm < k
                     then Some (RSC_MAX_NUMBER_OF_MEMBER_EXCEEDED, ''`mnm` is less than `mid` size'') else None)
           | None \<Rightarrow> Some None))"

definition changed_macp :: "'d env \<Rightarrow> 'd cse \<Rightarrow> oneM2MPrimitive \<Rightarrow> cjson \<Rightarrow> 'd validated" where
  "changed_macp E s o2pt grp =
     (case cJSON_GetObjectItem (Some grp) ''macp'' of
        None \<Rightarrow> Some (RSC_OK, o2pt, grp, s)
      | Some macp \<Rightarrow> do {
          (rsc, o2pt, s) \<leftarrow> validate_acpi E s o2pt (Some macp) OP_UPDATE;
          Some (if rsc \<noteq> RSC_OK then (RSC_BAD_REQUEST, o2pt, grp, s)
                else (RSC_OK, o2pt, if cJSON_GetArraySize (Some macp) = 0 then cJSON_DeleteItemFromObject grp ''macp'' else grp, s)) })"

definition changed_members :: "'d env \<Rightarrow> 'd cse \<Rightarrow> oneM2MPrimitive \<Rightarrow> cjson option \<Rightarrow> cjson \<Rightarrow> 'd validated" where
  "changed_members E s o2pt grp_old grp =
     (case cJSON_GetObjectItem (Some grp) ''mid'' of
        None \<Rightarrow> Some (RSC_OK, o2pt, validate_aa o2pt grp RT_GRP, s)
      | Some mid \<Rightarrow> do {
          let mt = (case cJSON_GetObjectItem grp_old ''mt'' of Some j \<Rightarrow> valueint j | None \<Rightarrow> 0);
          let csy = (case cJSON_GetObjectItem grp_old ''csy'' of Some j \<Rightarrow> valueint j | None \<Rightarrow> CSY_ABANDON_MEMBER);
          (rsc, grp, final_mid, s) \<leftarrow> validate_grp_member E s grp csy mt;
          if rsc \<noteq> 0 then Some (rsc, handle_error o2pt rsc ''GRP member is invalid'', grp, s)
          else do {
            s \<leftarrow> drop_members_of E s (p_to o2pt) final_mid (elems (Some mid));
            Some (RSC_OK, o2pt, validate_aa o2pt (replace_mid grp final_mid) RT_GRP, s) } })"

text \<open>
  \<^verbatim>\<open>cJSON_SetBoolValue\<close> of \<^verbatim>\<open>mtv\<close> has no effect: an update with that attribute is refused before.
\<close>

definition validate_grp_update :: "'d env \<Rightarrow> 'd cse \<Rightarrow> oneM2MPrimitive \<Rightarrow> cjson option \<Rightarrow> cjson \<Rightarrow> 'd validated" where
  "validate_grp_update E s o2pt grp_old grp =
     (let refuse = (\<lambda>e. Some (RSC_BAD_REQUEST, handle_error o2pt RSC_BAD_REQUEST e, grp, s));
          mid = cJSON_GetObjectItem (Some grp) ''mid''
      in case validate_mandatory_attrs RT_GRP (Some grp) OP_UPDATE of
        Some err \<Rightarrow> refuse err
      | None \<Rightarrow>
          if cJSON_GetObjectItem (Some grp) ''acpi'' \<noteq> None \<and> 1 < cJSON_GetArraySize (Some grp)
          then refuse ''`acpi` should be only attribute when updating''
          else do {
            (rsc, o2pt, s) \<leftarrow> acpi_of E s o2pt grp OP_UPDATE;
            let refuse = (\<lambda>rsc code e. Some (rsc, handle_error o2pt code e, grp, s));
            if rsc \<noteq> RSC_OK then Some (rsc, o2pt, grp, s)
            else if cJSON_GetObjectItem (Some grp) ''mt'' \<noteq> None then refuse RSC_BAD_REQUEST RSC_BAD_REQUEST ''`mt` is not updatable''
            else if cJSON_GetObjectItem (Some grp) ''csy'' \<noteq> None then refuse RSC_BAD_REQUEST RSC_BAD_REQUEST ''`csy` is not updatable''
            else if mid \<noteq> None \<and> \<not> cJSON_IsArray mid then refuse RSC_BAD_REQUEST RSC_BAD_REQUEST ''`mid` should be array''
            else do {
              e \<leftarrow> mnm_error grp_old grp (int (cJSON_GetArraySize mid));
              case e of
                Some (code, msg) \<Rightarrow> refuse RSC_MAX_NUMBER_OF_MEMBER_EXCEEDED code msg
              | None \<Rightarrow> do {
                  (rsc, o2pt, grp, s) \<leftarrow> changed_macp E s o2pt grp;
                  if rsc \<noteq> RSC_OK then Some (rsc, o2pt, grp, s) else changed_members E s o2pt grp_old grp } } })"

definition set_cnm :: "'d cse \<Rightarrow> addr \<Rightarrow> cjson option \<Rightarrow> 'd cse option" where
  "set_cnm s a mid =
     (case mid of
        None \<Rightarrow> Some s
      | Some _ \<Rightarrow> do {
          n \<leftarrow> heap s a;
          obj \<leftarrow> n_obj n;
          h \<leftarrow> put_obj (heap s) a (set_int obj ''cnm'' (int (cJSON_GetArraySize mid)));
          Some (s\<lparr>heap := h\<rparr>) })"

definition update_grp :: "'d env \<Rightarrow> 'd cse \<Rightarrow> oneM2MPrimitive \<Rightarrow> addr \<Rightarrow> 'd outcome" where
  "update_grp E s o2pt target =
     (let m2m_grp = cJSON_GetObjectItem (p_request_pc o2pt) ''m2m:grp'' in
      if has_any m2m_grp [''ty'', ''pi'', ''ri'', ''rn'', ''ct'', ''mtv'']
      then Some (RSC_BAD_REQUEST,
             handle_error o2pt RSC_BAD_REQUEST (''{'' @ [CHR 34] @ ''m2m:dbg'' @ [CHR 34] @ '': '' @ [CHR 34] @
               ''unsupported attribute on update'' @ [CHR 34] @ ''}''), s)
      else do {
        n \<leftarrow> heap s target;
        body \<leftarrow> m2m_grp;
        (rsc, o2pt, body, s) \<leftarrow> validate_grp_update E s o2pt (n_obj n) body;
        if 4000 \<le> rsc then Some (rsc, (put_contents o2pt ''m2m:grp'' body)\<lparr>p_rsc := rsc\<rparr>, s)
        else do {
          (body, s) \<leftarrow> process_annc_at_update E s target body;
          s \<leftarrow> set_cnm s target (cJSON_GetObjectItem (Some body) ''mid'');
          let body = with_lt E body;
          s \<leftarrow> merge_into s target body;
          (result, s) \<leftarrow> save_update E s target body RT_GRP;
          if result = 0 then Some (RSC_INTERNAL_SERVER_ERROR, put_contents o2pt ''m2m:grp'' body, s)
          else do {
            s \<leftarrow> set_grp_member E s target;
            answer_update E s o2pt target ''m2m:grp'' body (cJSON_GetArraySize m2m_grp) } } })"

end
