(* ===== verification/FlexContainer.thy ===== *)
theory FlexContainer
  imports Lifecycle
begin

text \<open>
  FlexContainers (\<^verbatim>\<open>resources/fcnt.c\<close>, \<^verbatim>\<open>util.c\<close>): custom attributes, validation, creation, update,
  and the instances that record earlier states.

  The printed form of the custom attributes, whose length is the content size, is the parameter
  \<open>e_print\<close>. cJSON keeps a number as an integer and as a floating-point value; the code that
  takes an increment back after a failure changes the integer only, which the model does not
  distinguish.
\<close>

abbreviation (input) DEFAULT_MAX_INSTANCE_AGE :: int where "DEFAULT_MAX_INSTANCE_AGE \<equiv> 157680000"

section \<open>Custom attributes\<close>

definition int_or_0 :: "cjson option \<Rightarrow> int" where
  "int_or_0 j = (case j of None \<Rightarrow> 0 | Some v \<Rightarrow> valueint v)"

definition is_standard_fcnt_attribute :: "string \<Rightarrow> bool" where
  "is_standard_fcnt_attribute k \<longleftrightarrow>
     k \<in> set [''rn'', ''ri'', ''pi'', ''ct'', ''lt'', ''ty'', ''acpi'', ''lbl'', ''loc'', ''at'', ''aa'', ''cr'', ''et'',
       ''cnd'', ''or'', ''oref'', ''nl'', ''st'', ''cs'', ''_sn'', ''fcied'', ''mni'', ''mbs'', ''mia'', ''cni'', ''cbs'',
       ''daci'', ''ast'', ''custom_attrs'', ''org'']"

text \<open>The members with a name that is not standard; \<open>None\<close> (null) when there is none.\<close>

fun custom_members :: "(string option \<times> cjson) list \<Rightarrow> (string \<times> cjson) list" where
  "custom_members [] = []"
| "custom_members ((None, v) # xs) = custom_members xs"
| "custom_members ((Some k, v) # xs) =
     (if is_standard_fcnt_attribute k then custom_members xs else (k, v) # custom_members xs)"

definition extract_custom_attributes :: "cjson option \<Rightarrow> cjson option" where
  "extract_custom_attributes fcnt =
     (case fcnt of
        None \<Rightarrow> None
      | Some f \<Rightarrow> (let kvs = custom_members (items f) in if kvs = [] then None else Some (JObject kvs)))"

definition validate_shortname_cnd :: "sdt_registry \<Rightarrow> string option \<Rightarrow> string option \<Rightarrow> int \<times> string option" where
  "validate_shortname_cnd g_sdt shortname cnd =
     (case (cnd, shortname) of
        (Some c, Some sn) \<Rightarrow>
          if sdt_find_by_type_and_cnd g_sdt sn c \<noteq> None then (RSC_OK, None)
          else (case sdt_find_by_type g_sdt sn of
                  None \<Rightarrow> (RSC_BAD_REQUEST, Some ''Unknown FlexContainer type'')
                | Some d \<Rightarrow>
                    (case sd_cnd d of
                       None \<Rightarrow> (RSC_OK, None)
                     | Some dc \<Rightarrow>
                         if dc = [] \<or> dc = c then (RSC_OK, None)
                         else if sdt_find_by_cnd g_sdt c = None
                         then (RSC_SPECIALIZATION_SCHEMA_NOT_FOUND, Some ''Schema not found for containerDefinition'')
                         else (RSC_BAD_REQUEST, Some ''Mismatch between shortname and containerDefinition'')))
      | _ \<Rightarrow> (RSC_OK, None))"

definition validate_custom_attributes :: "cjson option \<Rightarrow> string option \<Rightarrow> int \<times> string option" where
  "validate_custom_attributes customAttrs cnd =
     (case customAttrs of
        None \<Rightarrow> (RSC_OK, None)
      | Some c \<Rightarrow>
          if items c = [] then (RSC_OK, None)
          else if cnd = None
          then (RSC_BAD_REQUEST, Some ''containerDefinition (cnd) is required when custom attributes are present'')
          else (case find (\<lambda>(k, _). case k of None \<Rightarrow> True | Some k \<Rightarrow> starts_with k ''m2m:'') (items c) of
                  None \<Rightarrow> (RSC_OK, None)
                | Some (None, _) \<Rightarrow> (RSC_BAD_REQUEST, Some ''Custom attribute without name'')
                | Some (Some _, _) \<Rightarrow> (RSC_BAD_REQUEST, Some (''Custom attributes cannot use '' @ [CHR 39] @ ''m2m:'' @ [CHR 39] @ '' prefix''))))"

definition calculate_content_size :: "'d env \<Rightarrow> cjson option \<Rightarrow> int" where
  "calculate_content_size E customAttrs =
     (case customAttrs of None \<Rightarrow> 0 | Some c \<Rightarrow> if items c = [] then 0 else int (length (e_print E c)))"

section \<open>Validation\<close>

text \<open>One of the limits of the instances: not negative, and not 0 with \<^verbatim>\<open>fcied\<close>.\<close>

definition limit_error :: "cjson \<Rightarrow> string \<Rightarrow> string option" where
  "limit_error fcnt k =
     (let fcied = cJSON_GetObjectItem (Some fcnt) ''fcied''
      in case cJSON_GetObjectItem (Some fcnt) k of
           None \<Rightarrow> None
         | Some v \<Rightarrow>
             if valueint v < 0 then Some (''attribute `'' @ k @ ''` is invalid'')
             else if fcied \<noteq> None \<and> \<not> cJSON_IsNull fcied \<and> valueint v = 0 then Some (k @ '' cannot be 0 when fcied is present'')
             else None)"

definition fcnt_error :: "oneM2MPrimitive \<Rightarrow> cjson \<Rightarrow> operation \<Rightarrow> string option" where
  "fcnt_error o2pt fcnt op =
     (let fcied = cJSON_GetObjectItem (Some fcnt) ''fcied''
      in if cJSON_GetObjectItem (Some fcnt) ''cnd'' = Some (JString []) then Some ''attribute `cnd` cannot be empty''
         else if p_rvi o2pt < RVI_4
         then (if has_any (Some fcnt) [''fcied'', ''mni'', ''mbs'', ''mia'', ''cni'', ''cbs'']
               then Some ''fcied, mni, mbs, mia, cni, cbs are only supported in RVI 4 or higher'' else None)
         else if op = OP_CREATE \<and> has_any (Some fcnt) [''mni'', ''mbs'', ''mia''] \<and> (fcied = None \<or> cJSON_IsNull fcied)
         then Some ''mni, mbs, or mia requires fcied attribute''
         else (case limit_error fcnt ''mni'' of
                 Some e \<Rightarrow> Some e
               | None \<Rightarrow> (case limit_error fcnt ''mbs'' of Some e \<Rightarrow> Some e | None \<Rightarrow> limit_error fcnt ''mia'')))"

text \<open>\<^verbatim>\<open>strcmp\<close> with a name that is no string is undefined.\<close>

definition validate_fcnt :: "'d env \<Rightarrow> 'd cse \<Rightarrow> oneM2MPrimitive \<Rightarrow> cjson \<Rightarrow> operation \<Rightarrow> 'd validated" where
  "validate_fcnt E s o2pt fcnt op =
     do {
       let refuse = (\<lambda>e. Some (RSC_BAD_REQUEST, handle_error o2pt RSC_BAD_REQUEST e, fcnt, s));
       reserved \<leftarrow> (case cJSON_GetObjectItem (Some fcnt) ''rn'' of
                      None \<Rightarrow> Some False
                    | Some j \<Rightarrow> do { rn \<leftarrow> valuestring j; Some (rn \<in> {''la'', ''ol'', ''latest'', ''oldest''}) });
       let acpi = cJSON_GetObjectItem (Some fcnt) ''acpi'';
       if reserved then refuse ''attribute `rn` is invalid''
       else if acpi \<noteq> None \<and> op = OP_UPDATE \<and> 1 < cJSON_GetArraySize (Some fcnt)
       then refuse ''attribute `acpi` shall be the only attribute in an UPDATE request''
       else do {
         (rsc, o2pt, s) \<leftarrow> (if acpi = None then Some (RSC_OK, o2pt, s) else validate_acpi E s o2pt acpi op);
         if rsc \<noteq> RSC_OK then Some (rsc, o2pt, fcnt, s)
         else (case fcnt_error o2pt fcnt op of
                 Some e \<Rightarrow> Some (RSC_BAD_REQUEST, handle_error o2pt RSC_BAD_REQUEST e, fcnt, s)
               | None \<Rightarrow> Some (RSC_OK, o2pt, validate_aa o2pt fcnt RT_FCNT, s)) } }"

section \<open>State tag of the parent\<close>

definition increment_parent_statetag :: "'d env \<Rightarrow> 'd cse \<Rightarrow> addr \<Rightarrow> 'd cse option" where
  "increment_parent_statetag E s parent =
     do {
       p \<leftarrow> heap s parent;
       if n_ty p \<noteq> RT_FCNT then Some s
       else (case (n_obj p, cJSON_GetObjectItem (n_obj p) ''st'') of
               (Some obj, Some (JNumber n)) \<Rightarrow> do {
                 st \<leftarrow> add_int (valueint (JNumber n)) 1;
                 h \<leftarrow> put_obj (heap s) parent (set_int obj ''st'' st);
                 let s = s\<lparr>heap := h\<rparr>;
                 Some (case get_ri_rtnode p of
                         None \<Rightarrow> s
                       | Some ri \<Rightarrow> s\<lparr>db := snd (e_db_update_resource E (db s)
                           (JObject [(''st'', JNumber st), (''lt'', JString (e_time E 0))]) ri RT_FCNT)\<rparr>) }
             | _ \<Rightarrow> Some s) }"

section \<open>Instances\<close>

text \<open>A copy of the state of a flexContainer; \<open>None\<close> when the state tag is missing.\<close>

definition put_et :: "'d env \<Rightarrow> cjson option \<Rightarrow> cjson \<Rightarrow> cjson" where
  "put_et E fcnt fcin =
     (let set_et = (\<lambda>t. cJSON_AddItemToObject (cJSON_DeleteItemFromObject fcin ''et'') ''et'' (JString t));
          inherit = (case cJSON_GetObjectItem fcnt ''et'' of Some (JString t) \<Rightarrow> set_et t | _ \<Rightarrow> fcin)
      in case cJSON_GetObjectItem fcnt ''mia'' of
           Some (JNumber n) \<Rightarrow> if 0 < valueint (JNumber n) then set_et (e_time E (- valueint (JNumber n))) else inherit
         | _ \<Rightarrow> inherit)"

definition fcin_contents :: "oneM2MPrimitive \<Rightarrow> cjson option \<Rightarrow> string \<Rightarrow> int \<Rightarrow> bool \<Rightarrow> cjson" where
  "fcin_contents o2pt fcnt rn st is_create =
     JObject ([(''rn'', JString rn)] @
       List.concat (map (\<lambda>k. case cJSON_GetObjectItem fcnt k of None \<Rightarrow> [] | Some v \<Rightarrow> [(k, v)]) [''lbl'', ''fcied'', ''loc'']) @
       (case fcnt of None \<Rightarrow> [] | Some f \<Rightarrow> custom_members (items f)) @
       [(''st'', JNumber (if is_create then 0 else st)),
        (''cs'', JNumber (case cJSON_GetObjectItem fcnt ''cs'' of Some (JNumber n) \<Rightarrow> valueint (JNumber n) | _ \<Rightarrow> 0)),
        (''org'', JString (case p_fr o2pt of None \<Rightarrow> [] | Some f \<Rightarrow> f))])"

definition add_flexcontainer_instance :: "'d env \<Rightarrow> 'd cse \<Rightarrow> addr \<Rightarrow> oneM2MPrimitive \<Rightarrow> bool \<Rightarrow> (int \<times> 'd cse) option" where
  "add_flexcontainer_instance E s fcnt_rtnode o2pt is_create =
     do {
       n \<leftarrow> heap s fcnt_rtnode;
       if n_ty n \<noteq> RT_FCNT \<or> p_rvi o2pt < RVI_4 then Some (- 1, s)
       else (case cJSON_GetObjectItem (n_obj n) ''st'' of
               None \<Rightarrow> Some (- 1, s)
             | Some st_obj \<Rightarrow> do {
                 frn \<leftarrow> n_rn n;
                 let rn = frn @ ''_'' @ dec_int (valueint st_obj);
                 (fcin, s) \<leftarrow> add_general_attribute E s (fcin_contents o2pt (n_obj n) rn (valueint st_obj) is_create) fcnt_rtnode RT_FCIN;
                 let fcin = put_et E (n_obj n) (cJSON_DeleteItemFromObject fcin ''lt'');
                 furi \<leftarrow> n_uri n;
                 let (result, d) = e_db_store_resource E (db s) fcin (furi @ ''/'' @ rn);
                 let s = s\<lparr>db := d\<rparr>;
                 if result \<noteq> 1 then Some (- 1, s)
                 else do {
                   (a, s) \<leftarrow> create_rtnode s fcin RT_FCIN;
                   s \<leftarrow> add_child_resource_tree s fcnt_rtnode a;
                   i \<leftarrow> heap s a;
                   case extract_custom_attributes (n_obj i) of
                     None \<Rightarrow> Some (0, s)
                   | Some c \<Rightarrow> do {
                       ri \<leftarrow> get_ri_rtnode i;
                       Some (0, s\<lparr>db := e_db_store_fcnt_custom_attributes E (db s) ri c\<rparr>) } } }) }"

text \<open>The child with the greatest state tag.\<close>

definition latest_step :: "rtnode \<Rightarrow> addr \<Rightarrow> ptr \<times> int \<Rightarrow> ptr \<times> int" where
  "latest_step n a best =
     (case cJSON_GetObjectItem (n_obj n) ''st'' of
        Some (JNumber st) \<Rightarrow>
          if n_ty n = RT_FCIN \<and> snd best < valueint (JNumber st) then (Some a, valueint (JNumber st)) else best
      | _ \<Rightarrow> best)"

partial_function (option) latest_fcin :: "heap \<Rightarrow> ptr \<Rightarrow> ptr \<times> int \<Rightarrow> ptr option" where
  "latest_fcin h child best =
     (case child of
        None \<Rightarrow> Some (fst best)
      | Some a \<Rightarrow> do { n \<leftarrow> h a; latest_fcin h (n_sibling_right n) (latest_step n a best) })"

partial_function (option) drop_fcins :: "'d env \<Rightarrow> 'd cse \<Rightarrow> ptr \<Rightarrow> ptr \<Rightarrow> 'd cse option" where
  "drop_fcins E s child kept =
     (case child of
        None \<Rightarrow> Some s
      | Some a \<Rightarrow> do {
          n \<leftarrow> heap s a;
          s \<leftarrow> (if n_ty n = RT_FCIN \<and> kept \<noteq> Some a
                then do {
                  h \<leftarrow> free_rtnode (heap s) a;
                  Some (s\<lparr>heap := h, db := snd (e_db_delete_onem2m_resource E (db s) n)\<rparr>) }
                else Some s);
          drop_fcins E s (n_sibling_right n) kept })"

definition cleanup_fcnt_instances :: "'d env \<Rightarrow> 'd cse \<Rightarrow> addr \<Rightarrow> bool \<Rightarrow> 'd cse option" where
  "cleanup_fcnt_instances E s fcnt_rtnode keep =
     do {
       n \<leftarrow> heap s fcnt_rtnode;
       if n_ty n \<noteq> RT_FCNT then Some s
       else do {
         kept \<leftarrow> (if keep then latest_fcin (heap s) (n_child n) (None, - 1) else Some None);
         drop_fcins E s (n_child n) kept } }"

section \<open>Creation\<close>

text \<open>The contents of a request: \<^verbatim>\<open>m2m:fcnt\<close>, or the first object with a name that contains a colon.\<close>

fun flex_member :: "bool \<Rightarrow> (string option \<times> cjson) list \<Rightarrow> (string \<times> cjson) option" where
  "flex_member need_cnd [] = None"
| "flex_member need_cnd ((k, v) # xs) =
     (case k of
        Some name \<Rightarrow>
          if cJSON_IsObject (Some v) \<and> CHR '':'' \<in> set name \<and>
             (\<not> need_cnd \<or> cJSON_IsString (cJSON_GetObjectItem (Some v) ''cnd''))
          then Some (name, v) else flex_member need_cnd xs
      | None \<Rightarrow> flex_member need_cnd xs)"

text \<open>The name a member really has: lookups ignore case.\<close>

definition member_key :: "cjson \<Rightarrow> string \<Rightarrow> string" where
  "member_key j k = (case find (\<lambda>(k', _). case k' of None \<Rightarrow> False | Some n \<Rightarrow> ci_eq k n) (items j) of Some (Some n, _) \<Rightarrow> n | _ \<Rightarrow> k)"

definition rename_or :: "cjson \<Rightarrow> cjson" where
  "rename_or fcnt =
     (case cJSON_GetObjectItem (Some fcnt) ''or'' of
        None \<Rightarrow> fcnt
      | Some v \<Rightarrow> cJSON_AddItemToObject (cJSON_DeleteItemFromObject fcnt ''or'') ''oref'' v)"

text \<open>
  The checks before the general attributes are added; \<open>None\<close> is success, and a message may be
  null. \<^verbatim>\<open>handle_error\<close> needs a message.
\<close>

definition new_fcnt_error ::
    "'d env \<Rightarrow> oneM2MPrimitive \<Rightarrow> string option \<Rightarrow> cjson \<Rightarrow> (int \<times> string option) option option" where
  "new_fcnt_error E o2pt shortname fcnt =
     (case cJSON_GetObjectItem (Some fcnt) ''cnd'' of
        Some (JString cnd) \<Rightarrow>
          if cnd = [] then Some (Some (RSC_BAD_REQUEST, Some ''containerDefinition (cnd) is mandatory''))
          else (let c = extract_custom_attributes (Some fcnt);
                    (r1, e1) = validate_shortname_cnd (e_sdt E) shortname (Some cnd);
                    (r2, e2) = validate_custom_attributes c (Some cnd)
                in if r1 \<noteq> RSC_OK then Some (Some (r1, e1))
                   else if r2 \<noteq> RSC_OK then Some (Some (r2, e2))
                   else do {
                     (r3, e3) \<leftarrow> sdt_validate_fcnt (e_sdt E) shortname (Some cnd) c OP_CREATE;
                     Some (if r3 \<noteq> RSC_OK then Some (r3, e3)
                           else if has_any (Some fcnt) [''ty'', ''ri'', ''pi'', ''ct'', ''lt'', ''st'', ''cs'', ''cni'', ''cbs'']
                           then Some (RSC_BAD_REQUEST, Some ''not-permitted attribute on create'')
                           else if p_rvi o2pt < RVI_4 \<and> has_any (Some fcnt) [''fcied'', ''mni'', ''mbs'', ''mia'']
                           then Some (RSC_BAD_REQUEST, Some ''not supported attribute for this release version'')
                           else None) })
      | _ \<Rightarrow> Some (Some (RSC_BAD_REQUEST, Some ''containerDefinition (cnd) is mandatory'')))"

text \<open>
  Under a parent that is not announced the copy is announced as a child of the parent's parent,
  and not at all below the CSEBase.
\<close>

definition announce_flex :: "'d env \<Rightarrow> 'd cse \<Rightarrow> addr \<Rightarrow> cjson \<Rightarrow> (cjson \<times> 'd cse) option" where
  "announce_flex E s parent fcnt =
     do {
       p \<leftarrow> heap s parent;
       (final_at, s) \<leftarrow>
         (if n_ty p \<in> {RT_AE, RT_CNT, RT_FCNT} \<and> 0 < cJSON_GetArraySize (cJSON_GetObjectItem (n_obj p) ''at'')
          then handle_annc_create E s parent fcnt
          else (case n_parent p of None \<Rightarrow> Some ([], s) | Some q \<Rightarrow> handle_annc_create E s q fcnt));
       let fcnt = cJSON_DeleteItemFromObject fcnt ''at'';
       Some (if final_at \<noteq> [] then cJSON_AddItemToObject fcnt ''at'' (JArray final_at) else fcnt, s) }"

definition records_instances :: "cjson option \<Rightarrow> bool" where
  "records_instances fcnt \<longleftrightarrow>
     (let fcied = cJSON_GetObjectItem fcnt ''fcied'' in fcied \<noteq> None \<and> \<not> cJSON_IsNull fcied)"

definition add_default :: "string \<Rightarrow> int \<Rightarrow> cjson \<Rightarrow> cjson" where
  "add_default k n j = (if cJSON_GetObjectItem (Some j) k = None then cJSON_AddItemToObject j k (JNumber n) else j)"

definition instance_limits :: "cjson \<Rightarrow> cjson" where
  "instance_limits fcnt =
     add_default ''mia'' DEFAULT_MAX_INSTANCE_AGE
       (add_default ''mbs'' DEFAULT_MAX_BYTE_SIZE (add_default ''mni'' DEFAULT_MAX_NR_INSTANCES fcnt))"

text \<open>Storing, inserting and the first instance. The object keeps the name it had in the request.\<close>

definition store_fcnt ::
    "'d env \<Rightarrow> 'd cse \<Rightarrow> oneM2MPrimitive \<Rightarrow> addr \<Rightarrow> string \<Rightarrow> cjson \<Rightarrow> cjson option \<Rightarrow> int \<Rightarrow> 'd outcome" where
  "store_fcnt E s o2pt parent name fcnt customAttrs sz =
     do {
       p \<leftarrow> heap s parent;
       puri \<leftarrow> n_uri p;
       rn \<leftarrow> member_string (Some fcnt) ''rn'';
       let (result, d) = e_db_store_resource E (db s) fcnt (puri @ ''/'' @ rn);
       let s = s\<lparr>db := d\<rparr>;
       if result \<noteq> 1
       then Some (RSC_INTERNAL_SERVER_ERROR, handle_error o2pt RSC_INTERNAL_SERVER_ERROR ''DB store fail'', s)
       else do {
         s \<leftarrow> (case customAttrs of
                 None \<Rightarrow> Some s
               | Some c \<Rightarrow> do {
                   ri \<leftarrow> member_string (Some fcnt) ''ri'';
                   Some (s\<lparr>db := e_db_store_fcnt_custom_attributes E (db s) ri c\<rparr>) });
         (child, s) \<leftarrow> create_rtnode s fcnt RT_FCNT;
         h \<leftarrow> upd (heap s) child (\<lambda>n. n\<lparr>n_obj_string := Some name\<rparr>);
         s \<leftarrow> add_child_resource_tree (s\<lparr>heap := h\<rparr>) parent child;
         s \<leftarrow> (if RVI_4 \<le> p_rvi o2pt \<and> records_instances (Some fcnt)
               then do {
                 (r, s) \<leftarrow> add_flexcontainer_instance E s child o2pt True;
                 if r \<noteq> 0 then Some s
                 else do {
                   n \<leftarrow> heap s child;
                   obj \<leftarrow> n_obj n;
                   h \<leftarrow> put_obj (heap s) child (cJSON_AddItemToObject (cJSON_AddItemToObject obj ''cni'' (JNumber 1)) ''cbs'' (JNumber sz));
                   db_save E (s\<lparr>heap := h\<rparr>) child RT_FCNT } }
               else Some s);
         (_, o2pt, s) \<leftarrow> make_response_body E s o2pt child;
         Some (RSC_CREATED, o2pt, s) } }"

definition create_fcnt :: "'d env \<Rightarrow> 'd cse \<Rightarrow> oneM2MPrimitive \<Rightarrow> addr \<Rightarrow> 'd outcome" where
  "create_fcnt E s o2pt parent =
     do {
       root \<leftarrow> p_request_pc o2pt;
       let named = cJSON_GetObjectItem (Some root) ''m2m:fcnt'';
       let found = (case named of
                      Some f \<Rightarrow> Some (member_key root ''m2m:fcnt'', None, f)
                    | None \<Rightarrow> map_option (\<lambda>(k, f). (k, Some k, f)) (flex_member True (items root)));
       case found of
         None \<Rightarrow> Some (RSC_BAD_REQUEST, handle_error o2pt RSC_BAD_REQUEST ''FlexContainer resource not found'', s)
       | Some (name, shortname, fcnt) \<Rightarrow> do {
           let fcnt = (case shortname of None \<Rightarrow> fcnt | Some sn \<Rightarrow> cJSON_AddItemToObject fcnt ''_sn'' (JString sn));
           let fcnt = rename_or fcnt;
           let customAttrs = extract_custom_attributes (Some fcnt);
           e \<leftarrow> new_fcnt_error E o2pt shortname fcnt;
           case e of
             Some (rsc, msg) \<Rightarrow> do { m \<leftarrow> msg; Some (rsc, handle_error o2pt rsc m, s) }
           | None \<Rightarrow> do {
               (fcnt, s) \<leftarrow> add_general_attribute E s fcnt parent RT_FCNT;
               (rsc, o2pt, fcnt, s) \<leftarrow> validate_fcnt E s o2pt fcnt OP_CREATE;
               if rsc \<noteq> RSC_OK then Some (rsc, o2pt, s)
               else (case set_creator o2pt fcnt of
                       None \<Rightarrow> Some (RSC_BAD_REQUEST,
                         handle_error o2pt RSC_BAD_REQUEST ''creator attribute with arbitrary value is not allowed'', s)
                     | Some fcnt \<Rightarrow> do {
                         (fcnt, s) \<leftarrow> announce_flex E s parent fcnt;
                         let sz = calculate_content_size E customAttrs;
                         let fcnt = cJSON_AddItemToObject (cJSON_AddItemToObject fcnt ''st'' (JNumber 0)) ''cs'' (JNumber sz);
                         let recs = (RVI_4 \<le> p_rvi o2pt \<and> records_instances (Some fcnt));
                         let fcnt = (if recs then instance_limits fcnt else fcnt);
                         if recs \<and> cJSON_IsNumber (cJSON_GetObjectItem (Some fcnt) ''mbs'') \<and>
                            int_or_0 (cJSON_GetObjectItem (Some fcnt) ''mbs'') < sz
                         then Some (RSC_BAD_REQUEST, handle_error o2pt RSC_BAD_REQUEST ''mbs cannot be smaller than cs'', s)
                         else store_fcnt E s (o2pt\<lparr>p_rsc := RSC_CREATED\<rparr>) parent name fcnt customAttrs sz }) } } }"

section \<open>Update\<close>

definition kind :: "cjson \<Rightarrow> jtype" where
  "kind j = (if cJSON_type j = T_True then T_False else cJSON_type j)"

definition kind_clash :: "cjson option \<Rightarrow> cjson \<Rightarrow> bool" where
  "kind_clash existing c \<longleftrightarrow>
     list_ex (\<lambda>(k, v). case k of
                None \<Rightarrow> False
              | Some k \<Rightarrow> (case cJSON_GetObjectItem existing k of None \<Rightarrow> False | Some w \<Rightarrow> kind v \<noteq> kind w)) (items c)"

definition changed_custom_error ::
    "'d env \<Rightarrow> rtnode \<Rightarrow> cjson option \<Rightarrow> (int \<times> string option) option option" where
  "changed_custom_error E n customAttrs =
     (case customAttrs of
        None \<Rightarrow> Some None
      | Some c \<Rightarrow>
          (let cnd = member_string (n_obj n) ''cnd'';
               shortname = (if n_obj_string n = Some ''m2m:fcnt'' then None else n_obj_string n);
               (r1, e1) = validate_custom_attributes customAttrs cnd
           in if r1 \<noteq> RSC_OK then Some (Some (r1, e1))
              else do {
                (r2, e2) \<leftarrow> sdt_validate_fcnt (e_sdt E) shortname cnd customAttrs OP_UPDATE;
                Some (if r2 \<noteq> RSC_OK then Some (r2, e2)
                      else if kind_clash (extract_custom_attributes (n_obj n)) c
                      then Some (RSC_BAD_REQUEST, Some ''custom attribute type mismatch'') else None) }))"

fun overwrite :: "cjson \<Rightarrow> (string option \<times> cjson) list \<Rightarrow> cjson" where
  "overwrite obj [] = obj"
| "overwrite obj ((k, v) # xs) =
     overwrite (case k of None \<Rightarrow> obj | Some k \<Rightarrow> cJSON_AddItemToObject (cJSON_DeleteItemFromObject obj k) k v) xs"

text \<open>The time, the state tag and the content size that the update will give.\<close>

definition new_state :: "'d env \<Rightarrow> cjson option \<Rightarrow> cjson option \<Rightarrow> cjson \<Rightarrow> cjson option" where
  "new_state E fcnt customAttrs body =
     (let body = with_lt E body;
          existing = extract_custom_attributes fcnt;
          put_cs = (\<lambda>body c. cJSON_AddItemToObject body ''cs'' (JNumber (calculate_content_size E c)))
      in case customAttrs of
           None \<Rightarrow> Some (put_cs body existing)
         | Some c \<Rightarrow> do {
             body \<leftarrow> (case cJSON_GetObjectItem fcnt ''st'' of
                        Some (JNumber n) \<Rightarrow> do {
                          st \<leftarrow> add_int (valueint (JNumber n)) 1;
                          Some (cJSON_AddItemToObject body ''st'' (JNumber st)) }
                      | _ \<Rightarrow> Some body);
             Some (put_cs body (Some (case existing of None \<Rightarrow> c | Some ex \<Rightarrow> overwrite ex (items c)))) })"

definition limit_given :: "cjson \<Rightarrow> bool" where
  "limit_given body \<longleftrightarrow>
     list_ex (\<lambda>k. let v = cJSON_GetObjectItem (Some body) k in v \<noteq> None \<and> \<not> cJSON_IsNull v) [''mni'', ''mbs'', ''mia'']"

definition limit_zero :: "cjson \<Rightarrow> bool" where
  "limit_zero body \<longleftrightarrow>
     list_ex (\<lambda>k. case cJSON_GetObjectItem (Some body) k of Some (JNumber n) \<Rightarrow> n = 0 | _ \<Rightarrow> False) [''mni'', ''mbs'', ''mia'']"

definition either_member :: "cjson \<Rightarrow> cjson option \<Rightarrow> string \<Rightarrow> cjson option" where
  "either_member body fcnt k =
     (case cJSON_GetObjectItem (Some body) k of Some v \<Rightarrow> Some v | None \<Rightarrow> cJSON_GetObjectItem fcnt k)"

definition put_number :: "cjson \<Rightarrow> string \<Rightarrow> int \<Rightarrow> cjson" where
  "put_number body k n = cJSON_AddItemToObject (cJSON_DeleteItemFromObject body k) k (JNumber n)"

definition count_down :: "cjson option \<Rightarrow> int \<Rightarrow> cjson option option" where
  "count_down j d =
     (case j of
        Some (JNumber n) \<Rightarrow> do { v \<leftarrow> add_int (valueint (JNumber n)) (- d); Some (Some (JNumber v)) }
      | _ \<Rightarrow> Some j)"

text \<open>
  The two loops that delete the oldest instances: while \<^verbatim>\<open>cbs\<close> (\<open>by_size\<close>) or \<^verbatim>\<open>cni\<close> is above the
  limit. The result has both counters and the number of instances deleted.
\<close>

partial_function (option) evict_fcins ::
    "'d env \<Rightarrow> 'd cse \<Rightarrow> addr \<Rightarrow> int \<Rightarrow> bool \<Rightarrow> cjson option \<Rightarrow> cjson option \<Rightarrow> nat \<Rightarrow>
       (cjson option \<times> cjson option \<times> nat \<times> 'd cse) option" where
  "evict_fcins E s target lim by_size cbs cni k =
     (let w = (if by_size then cbs else cni) in
      if cJSON_IsNumber w \<and> lim < int_or_0 w \<and> 0 < int_or_0 w
      then do {
        (d, s) \<leftarrow> delete_oldest_fcin_rtnode E s (Some target);
        if d < 0 then Some (cbs, cni, k, s)
        else do {
          cbs \<leftarrow> count_down cbs d;
          cni \<leftarrow> count_down cni 1;
          evict_fcins E s target lim by_size cbs cni (Suc k) } }
      else Some (cbs, cni, k, s))"

text \<open>
  The limits. When the first loop has deleted instances, the counters in the request contents are
  replaced, and the second loop reads the old ones, which have been freed: undefined.
\<close>

definition enforce_limits :: "'d env \<Rightarrow> 'd cse \<Rightarrow> addr \<Rightarrow> cjson \<Rightarrow> ((string + cjson) \<times> 'd cse) option" where
  "enforce_limits E s target body =
     do {
       n \<leftarrow> heap s target;
       let get = either_member body (n_obj n);
       let mbs = get ''mbs'';
       let mni = get ''mni'';
       if cJSON_IsNumber mbs \<and> cJSON_IsNumber (get ''cs'') \<and> int_or_0 mbs < int_or_0 (get ''cs'')
       then Some (Inl ''mbs must be greater or equal to contentSize'', s)
       else do {
         (cbs, cni, k, s) \<leftarrow>
           (if cJSON_IsNumber mbs then evict_fcins E s target (int_or_0 mbs) True (get ''cbs'') (get ''cni'') 0
            else Some (get ''cbs'', get ''cni'', 0, s));
         let stale = (0 < k \<and> has_any (Some body) [''cbs'', ''cni'']);
         let body = (if 0 < k then put_number (put_number body ''cbs'' (int_or_0 cbs)) ''cni'' (int_or_0 cni) else body);
         if \<not> cJSON_IsNumber mni then Some (Inr body, s)
         else if stale then None
         else do {
           (cbs, cni, k, s) \<leftarrow> evict_fcins E s target (int_or_0 mni) False cbs cni 0;
           Some (Inr (if 0 < k then put_number (put_number body ''cni'' (int_or_0 cni)) ''cbs'' (int_or_0 cbs) else body), s) } } }"

definition start_recording :: "cjson \<Rightarrow> cjson option \<Rightarrow> bool \<Rightarrow> bool \<Rightarrow> (cjson \<times> bool) option" where
  "start_recording body fcnt custom starts =
     do {
       let body = (if starts then cJSON_AddItemToObject (cJSON_AddItemToObject body ''cni'' (JNumber 0)) ''cbs'' (JNumber 0) else body);
       let none = (\<lambda>k. either_member body fcnt k = None);
       let body = (if none ''mni'' \<and> none ''mbs'' \<and> none ''mia''
                   then cJSON_AddItemToObject (cJSON_AddItemToObject (cJSON_AddItemToObject body
                     ''mni'' (JNumber DEFAULT_MAX_NR_INSTANCES)) ''mbs'' (JNumber DEFAULT_MAX_BYTE_SIZE))
                     ''mia'' (JNumber DEFAULT_MAX_INSTANCE_AGE)
                   else body);
       let cs = int_or_0 (either_member body fcnt ''cs'');
       if custom \<or> has_any (Some body) [''lbl'', ''loc'']
       then do {
         cbs \<leftarrow> add_int (int_or_0 (cJSON_GetObjectItem fcnt ''cbs'')) cs;
         cni \<leftarrow> add_int (int_or_0 (cJSON_GetObjectItem fcnt ''cni'')) 1;
         let body = cJSON_DeleteItemFromObject (cJSON_DeleteItemFromObject body ''cbs'') ''cni'';
         Some (cJSON_AddItemToObject (cJSON_AddItemToObject body ''cbs'' (JNumber cbs)) ''cni'' (JNumber cni), True) }
       else if starts
       then do {
         let body = cJSON_DeleteItemFromObject (cJSON_DeleteItemFromObject body ''cni'') ''cbs'';
         Some (cJSON_AddItemToObject (cJSON_AddItemToObject body ''cni'' (JNumber 1)) ''cbs'' (JNumber cs), True) }
       else Some (body, False) }"

definition add_null :: "string \<Rightarrow> cjson \<Rightarrow> cjson" where
  "add_null k j = (if cJSON_GetObjectItem (Some j) k = None then cJSON_AddItemToObject j k JNull else j)"

text \<open>Recording ends: the counters and limits go and every instance is deleted.\<close>

definition stop_recording :: "'d env \<Rightarrow> 'd cse \<Rightarrow> addr \<Rightarrow> cjson \<Rightarrow> (cjson \<times> 'd cse) option" where
  "stop_recording E s target body =
     do {
       n \<leftarrow> heap s target;
       obj \<leftarrow> n_obj n;
       h \<leftarrow> put_obj (heap s) target (foldl cJSON_DeleteItemFromObject obj [''fcied'', ''cni'', ''cbs'', ''mbs'', ''mni'', ''mia'']);
       s \<leftarrow> cleanup_fcnt_instances E (s\<lparr>heap := h\<rparr>) target False;
       Some (fold add_null [''cni'', ''cbs'', ''mni'', ''mbs'', ''mia''] body, s) }"

text \<open>Recording goes on with the latest instance only.\<close>

definition pause_recording :: "'d env \<Rightarrow> 'd cse \<Rightarrow> oneM2MPrimitive \<Rightarrow> addr \<Rightarrow> cjson \<Rightarrow> bool \<Rightarrow> (cjson \<times> 'd cse) option" where
  "pause_recording E s o2pt target body first =
     do {
       (_, s) \<leftarrow> (if first then add_flexcontainer_instance E s target o2pt False else Some (0, s));
       s \<leftarrow> cleanup_fcnt_instances E s target True;
       n \<leftarrow> heap s target;
       Some (cJSON_AddItemToObject (cJSON_AddItemToObject body ''cni'' (JNumber 1)) ''cbs''
               (JNumber (int_or_0 (either_member body (n_obj n) ''cs''))), s) }"

text \<open>
  The part of \<^verbatim>\<open>update_fcnt\<close> for release 4: an error, or the contents and whether an instance
  has to be recorded.
\<close>

definition update_recording ::
    "'d env \<Rightarrow> 'd cse \<Rightarrow> oneM2MPrimitive \<Rightarrow> addr \<Rightarrow> cjson \<Rightarrow> bool \<Rightarrow> ((string + (cjson \<times> bool)) \<times> 'd cse) option" where
  "update_recording E s o2pt target body custom =
     do {
       n \<leftarrow> heap s target;
       let req = cJSON_GetObjectItem (Some body) ''fcied'';
       let cur = cJSON_GetObjectItem (n_obj n) ''fcied'';
       let final = (if req \<noteq> None then req else cur);
       if cJSON_IsNull req
       then (if limit_given body then Some (Inl ''mni, mbs, or mia must not be present when fcied is removed'', s)
             else do { (body, s) \<leftarrow> stop_recording E s target body; Some (Inr (body, False), s) })
       else if final = None \<or> cJSON_IsNull final
       then Some (if limit_given body then Inl ''mni, mbs, or mia must not be present when fcied is not present'' else Inr (body, False), s)
       else if limit_zero body then Some (Inl ''mni, mbs, or mia cannot be 0'', s)
       else if final = Some JFalse
       then (if req = Some JFalse \<and> (cur = None \<or> cur = Some JTrue \<or> cJSON_IsNull cur)
             then do {
               (body, s) \<leftarrow> pause_recording E s o2pt target body (cur = None \<or> cJSON_IsNull cur);
               Some (Inr (body, False), s) }
             else Some (Inr (body, False), s))
       else if final = Some JTrue
       then do {
         (body, fci) \<leftarrow> start_recording body (n_obj n) custom
           (req = Some JTrue \<and> (cur = None \<or> cur = Some JFalse \<or> cJSON_IsNull cur));
         (r, s) \<leftarrow> enforce_limits E s target body;
         Some (case r of Inl e \<Rightarrow> Inl e | Inr body \<Rightarrow> Inr (body, fci), s) }
       else Some (Inr (body, False), s) }"

text \<open>The increment of the counters is taken back when the instance cannot be stored.\<close>

definition record_instance :: "'d env \<Rightarrow> 'd cse \<Rightarrow> oneM2MPrimitive \<Rightarrow> addr \<Rightarrow> 'd cse option" where
  "record_instance E s o2pt target =
     do {
       (r, s) \<leftarrow> add_flexcontainer_instance E s target o2pt False;
       if r = 0 then Some s
       else do {
         n \<leftarrow> heap s target;
         obj \<leftarrow> n_obj n;
         let cs = cJSON_GetObjectItem (Some obj) ''cs'';
         let cbs = cJSON_GetObjectItem (Some obj) ''cbs'';
         cni' \<leftarrow> count_down (cJSON_GetObjectItem (Some obj) ''cni'') 1;
         cbs' \<leftarrow> (if cJSON_IsNumber cs then count_down cbs (int_or_0 cs) else Some cbs);
         h \<leftarrow> put_obj (heap s) target (set_int (set_int obj ''cni'' (int_or_0 cni')) ''cbs'' (int_or_0 cbs'));
         ri \<leftarrow> get_ri_rtnode n;
         Some (s\<lparr>heap := h, db := snd (e_db_update_resource E (db s)
           (JObject [(''cni'', JNumber (int_or_0 cni')), (''cbs'', JNumber (int_or_0 cbs'))]) ri RT_FCNT)\<rparr>) } }"

definition apply_fcnt_update ::
    "'d env \<Rightarrow> 'd cse \<Rightarrow> oneM2MPrimitive \<Rightarrow> addr \<Rightarrow> cjson \<Rightarrow> cjson option \<Rightarrow> bool \<Rightarrow> 'd cse option" where
  "apply_fcnt_update E s o2pt target body customAttrs fci =
     do {
       s \<leftarrow> merge_into s target body;
       (_, s) \<leftarrow> save_update E s target body RT_FCNT;
       s \<leftarrow> (case customAttrs of
               None \<Rightarrow> Some s
             | Some c \<Rightarrow> do {
                 n \<leftarrow> heap s target;
                 obj \<leftarrow> n_obj n;
                 ri \<leftarrow> get_ri_rtnode n;
                 h \<leftarrow> put_obj (heap s) target (overwrite obj (items c));
                 Some (s\<lparr>heap := h, db := e_db_update_fcnt_custom_attributes E (db s) ri c\<rparr>) });
       if RVI_4 \<le> p_rvi o2pt \<and> fci then record_instance E s o2pt target else Some s }"

text \<open>The contents of the request are changed in place, also when the update is refused later.\<close>

definition change_fcnt :: "'d env \<Rightarrow> 'd cse \<Rightarrow> oneM2MPrimitive \<Rightarrow> addr \<Rightarrow> string \<Rightarrow> cjson \<Rightarrow> nat \<Rightarrow> 'd outcome" where
  "change_fcnt E s o2pt target key body k =
     do {
       let customAttrs = extract_custom_attributes (Some body);
       n \<leftarrow> heap s target;
       e \<leftarrow> changed_custom_error E n customAttrs;
       case e of
         Some (rsc, msg) \<Rightarrow> do { m \<leftarrow> msg; Some (rsc, handle_error (put_contents o2pt key body) rsc m, s) }
       | None \<Rightarrow> do {
           (rsc, o2pt, body, s) \<leftarrow> validate_fcnt E s (put_contents o2pt key body) body OP_UPDATE;
           if rsc \<noteq> RSC_OK then Some (rsc, put_contents o2pt key body, s)
           else do {
             (body, s) \<leftarrow> process_annc_at_update E s target body;
             n \<leftarrow> heap s target;
             body \<leftarrow> new_state E (n_obj n) customAttrs body;
             (r, s) \<leftarrow> (if RVI_4 \<le> p_rvi o2pt then update_recording E s o2pt target body (customAttrs \<noteq> None)
                        else Some (Inr (body, False), s));
             case r of
               Inl m \<Rightarrow> Some (RSC_BAD_REQUEST, handle_error (put_contents o2pt key body) RSC_BAD_REQUEST m, s)
             | Inr (body, fci) \<Rightarrow> do {
                 s \<leftarrow> apply_fcnt_update E s o2pt target body customAttrs fci;
                 answer_update E s o2pt target key body k } } } }"

definition update_fcnt :: "'d env \<Rightarrow> 'd cse \<Rightarrow> oneM2MPrimitive \<Rightarrow> addr \<Rightarrow> 'd outcome" where
  "update_fcnt E s o2pt target =
     do {
       root \<leftarrow> p_request_pc o2pt;
       let found = (case cJSON_GetObjectItem (Some root) ''m2m:fcnt'' of
                      Some f \<Rightarrow> Some (''m2m:fcnt'', f)
                    | None \<Rightarrow> flex_member False (items root));
       let refuse = (\<lambda>e. Some (RSC_BAD_REQUEST, handle_error o2pt RSC_BAD_REQUEST e, s));
       case found of
         None \<Rightarrow> refuse ''FlexContainer resource not found''
       | Some (key, body) \<Rightarrow>
           if has_any (Some body) [''ty'', ''pi'', ''ri'', ''rn'', ''ct'', ''lt'', ''cr'', ''cnd'', ''cs'', ''st'', ''cni'', ''cbs'']
           then refuse ''unsupported attribute on update''
           else if p_rvi o2pt < RVI_4 \<and> has_any (Some body) [''fcied'', ''mni'', ''mbs'', ''mia'']
           then refuse ''not supported attribute for this release version''
           else change_fcnt E s o2pt target key (rename_or body) (cJSON_GetArraySize (Some body)) }"

end
