(* ===== verification/Deletion.thy ===== *)
theory Deletion
  imports Group TimeSeries FlexContainer
begin

text \<open>
  Deletion of resources and notification of subscriptions (\<^verbatim>\<open>onem2m.c\<close>): \<^verbatim>\<open>delete_process\<close>,
  \<^verbatim>\<open>notify_via_sub\<close> and \<^verbatim>\<open>delete_onem2m_resource\<close>. The two first call each other: a deletion notifies
  the subscriptions of the parent, and a subscription that has used up its count \<^verbatim>\<open>exc\<close> is deleted.
  They are one function on tasks.
\<close>

section \<open>Notification of an event\<close>

text \<open>The type of the event for a request on a node.\<close>

definition event_of :: "'d cse \<Rightarrow> operation \<Rightarrow> rtnode \<Rightarrow> int option" where
  "event_of s op n =
     (if op = OP_CREATE then Some NET_CREATE_OF_DIRECT_CHILD_RESOURCE
      else if op = OP_UPDATE then Some NET_UPDATE_OF_RESOURCE
      else if op = OP_DELETE
      then (if n_ty n = RT_SUB then Some NET_DELETE_OF_RESOURCE
            else (case n_parent n of
                    None \<Rightarrow> Some NET_NONE
                  | Some q \<Rightarrow> do {
                      p \<leftarrow> heap s q;
                      Some (if n_sub_cnt p \<noteq> 0 then NET_DELETE_OF_DIRECT_CHILD_RESOURCE else NET_NONE) }))
      else Some NET_NONE)"

text \<open>The subscriptions that may be notified.\<close>

definition subs_of :: "'d cse \<Rightarrow> int \<Rightarrow> rtnode \<Rightarrow> nodelist option" where
  "subs_of s net n =
     (if net = NET_CREATE_OF_DIRECT_CHILD_RESOURCE \<or> net = NET_UPDATE_OF_RESOURCE
      then Some (if 0 < n_sub_cnt n then n_subs n else [])
      else if net = NET_DELETE_OF_DIRECT_CHILD_RESOURCE
      then (case n_parent n of
              None \<Rightarrow> Some []
            | Some q \<Rightarrow> do { p \<leftarrow> heap s q; Some (if 0 < n_sub_cnt p then n_subs p else []) })
      else Some [])"

text \<open>The representation in the event, by the type of content the subscription asked for.\<close>

definition put_rep :: "oneM2MPrimitive \<Rightarrow> rtnode \<Rightarrow> rtnode \<Rightarrow> cjson \<Rightarrow> cjson" where
  "put_rep o2pt target sub nev =
     (case cJSON_GetObjectItem (n_obj sub) ''nct'' of
        None \<Rightarrow> nev
      | Some nct \<Rightarrow>
          (let nev = cJSON_DeleteItemFromObject nev ''rep'' in
           if valueint nct = 0 \<or> valueint nct = NCT_ALL_ATTRIBUTES then add_opt nev ''rep'' (p_response_pc o2pt)
           else if valueint nct = NCT_MODIFIED_ATTRIBUTES then add_opt nev ''rep'' (p_request_pc o2pt)
           else if valueint nct = NCT_RESOURCE_ID
           then cJSON_AddItemToObject nev ''rep'' (add_string (JObject []) ''m2m:uri'' (n_uri target))
           else nev))"

definition sgn_for :: "rtnode \<Rightarrow> cjson \<Rightarrow> cjson" where
  "sgn_for sub nev =
     JObject [(''m2m:sgn'',
       add_opt (add_string (JObject [(''nev'', nev)]) ''sur'' (subscription_reference sub)) ''cr'' (cJSON_GetObjectItem (n_obj sub) ''cr''))]"

text \<open>
  Delivery to one subscription; the result is whether the subscription has to be deleted. A
  subscription with a count gets one less.
\<close>

definition notify_sub :: "'d env \<Rightarrow> 'd cse \<Rightarrow> addr \<Rightarrow> cjson \<Rightarrow> (bool \<times> 'd cse) option" where
  "notify_sub E s a nev =
     do {
       sub \<leftarrow> heap s a;
       (_, s) \<leftarrow> notify_to_nu E s sub (sgn_for sub nev);
       case cJSON_GetObjectItem (n_obj sub) ''exc'' of
         None \<Rightarrow> Some (False, s)
       | Some exc \<Rightarrow> do {
           v \<leftarrow> add_int (valueint exc) (- 1);
           sub \<leftarrow> heap s a;
           obj \<leftarrow> n_obj sub;
           h \<leftarrow> put_obj (heap s) a (set_int obj ''exc'' v);
           let s = s\<lparr>heap := h\<rparr>;
           if v = 0 then Some (True, s)
           else do { s \<leftarrow> db_save E s a (n_ty sub); Some (False, s) } } }"

definition notify_deleted_sub :: "'d env \<Rightarrow> 'd cse \<Rightarrow> oneM2MPrimitive \<Rightarrow> rtnode \<Rightarrow> 'd cse option" where
  "notify_deleted_sub E s o2pt n =
     (case cJSON_GetObjectItem (n_obj n) ''su'' of
        Some (JString su) \<Rightarrow> do {
          (_, s) \<leftarrow> send_verification_request E s (p_to o2pt) su
            (JObject [(''m2m:sgn'', cJSON_AddItemToObject
               (add_string (JObject [(''nev'', JObject [(''net'', JNumber NET_DELETE_OF_RESOURCE)])]) ''sur'' (subscription_reference n))
               ''sud'' JTrue)]);
          Some s }
      | _ \<Rightarrow> Some s)"

section \<open>Effects of a deletion\<close>

text \<open>A deleted group leaves the lists \<^verbatim>\<open>memberOf\<close> of its members.\<close>

fun leave_members :: "'d env \<Rightarrow> 'd cse \<Rightarrow> string \<Rightarrow> cjson list \<Rightarrow> 'd cse option" where
  "leave_members E s uri [] = Some s"
| "leave_members E s uri (m # ms) =
     do {
       (p, s) \<leftarrow> find_rtnode E s (valuestring m);
       case p of
         None \<Rightarrow> leave_members E s uri ms
       | Some a \<Rightarrow> do {
           n \<leftarrow> heap s a;
           i \<leftarrow> cJSON_getArrayIdx (n_memberOf n) uri;
           s \<leftarrow> put_memberOf E s a
             (if 0 \<le> i then map_option (\<lambda>l. cJSON_DeleteItemFromArray l (nat i)) (n_memberOf n) else n_memberOf n);
           leave_members E s uri ms } }"

text \<open>A deleted resource leaves the groups it is a member of.\<close>

definition leave_group :: "'d env \<Rightarrow> 'd cse \<Rightarrow> rtnode \<Rightarrow> addr \<Rightarrow> 'd cse option" where
  "leave_group E s n g =
     do {
       grp \<leftarrow> heap s g;
       obj \<leftarrow> n_obj grp;
       ri \<leftarrow> member_string (n_obj n) ''ri'';
       i \<leftarrow> cJSON_getArrayIdx (cJSON_GetObjectItem (Some obj) ''mid'') ri;
       let obj = (if 0 \<le> i
                  then (let obj = modify_member obj ''mid'' (\<lambda>l. cJSON_DeleteItemFromArray l (nat i))
                        in set_int obj ''cnm'' (int (cJSON_GetArraySize (cJSON_GetObjectItem (Some obj) ''mid''))))
                  else obj);
       h \<leftarrow> put_obj (heap s) g obj;
       db_save E (s\<lparr>heap := h\<rparr>) g (n_ty grp) }"

fun leave_groups :: "'d env \<Rightarrow> 'd cse \<Rightarrow> rtnode \<Rightarrow> cjson list \<Rightarrow> 'd cse option" where
  "leave_groups E s n [] = Some s"
| "leave_groups E s n (m # ms) =
     do {
       (p, s) \<leftarrow> find_rtnode E s (valuestring m);
       s \<leftarrow> (case p of None \<Rightarrow> Some s | Some g \<Rightarrow> leave_group E s n g);
       leave_groups E s n ms }"

text \<open>A deleted remote CSE leaves the list of descendant CSEs.\<close>

definition forget_csr :: "'d env \<Rightarrow> 'd cse \<Rightarrow> addr \<Rightarrow> rtnode \<Rightarrow> 'd cse option" where
  "forget_csr E s a n =
     do {
       c \<leftarrow> cb s;
       cbn \<leftarrow> heap s c;
       obj \<leftarrow> n_obj cbn;
       csi \<leftarrow> member_string (n_obj n) ''csi'';
       i \<leftarrow> cJSON_getArrayIdx (cJSON_GetObjectItem (Some obj) ''dcse'') csi;
       h \<leftarrow> put_obj (heap s) c (if i \<noteq> - 1 then modify_member obj ''dcse'' (\<lambda>l. cJSON_DeleteItemFromArray l (nat i)) else obj);
       s \<leftarrow> update_remote_csr_dcse E (s\<lparr>heap := h\<rparr>);
       Some (detach_csrlist s a) }"

text \<open>The counters of a time series after the deletion of an instance; they do not fall below 0.\<close>

definition less_counter :: "cjson \<Rightarrow> string \<Rightarrow> int \<Rightarrow> cjson option" where
  "less_counter ts k d =
     (case cJSON_GetObjectItem (Some ts) k of
        Some (JNumber n) \<Rightarrow> do { v \<leftarrow> add_int (valueint (JNumber n)) (- d); Some (set_int ts k (max 0 v)) }
      | _ \<Rightarrow> Some (cJSON_AddItemToObject (cJSON_DeleteItemFromObject ts k) k (JNumber 0)))"

definition forget_tsi :: "'d env \<Rightarrow> 'd cse \<Rightarrow> rtnode \<Rightarrow> 'd cse option" where
  "forget_tsi E s n =
     (case n_parent n of
        None \<Rightarrow> Some s
      | Some q \<Rightarrow> do {
          p \<leftarrow> heap s q;
          case (n_obj p, n_obj n) of
            (Some ts, Some tsi) \<Rightarrow>
              if n_ty p \<noteq> RT_TS then Some s
              else do {
                let cs = (case cJSON_GetObjectItem (Some tsi) ''cs'' of Some (JNumber c) \<Rightarrow> valueint (JNumber c) | _ \<Rightarrow> 0);
                ts \<leftarrow> less_counter ts ''cni'' 1;
                ts \<leftarrow> less_counter ts ''cbs'' cs;
                h \<leftarrow> put_obj (heap s) q ts;
                s \<leftarrow> touch_ts E (s\<lparr>heap := h\<rparr>) q;
                db_save E s q RT_TS }
          | _ \<Rightarrow> Some s })"

definition delete_effect :: "'d env \<Rightarrow> 'd cse \<Rightarrow> addr \<Rightarrow> 'd cse option" where
  "delete_effect E s a =
     do {
       n \<leftarrow> heap s a;
       if n_ty n = RT_CIN then do { (_, s) \<leftarrow> update_cnt_cin E s (n_parent n) (Some a) (- 1); Some s }
       else if n_ty n = RT_FCIN then do { (_, s) \<leftarrow> update_fcnt_fcin E s (n_parent n) (Some a) (- 1); Some s }
       else if n_ty n = RT_SUB
       then do {
         s \<leftarrow> ts_md_flush_sub E s a;
         q \<leftarrow> n_parent n;
         h \<leftarrow> detach_subs (heap s) q a;
         Some (s\<lparr>heap := h\<rparr>) }
       else if n_ty n = RT_CSR then forget_csr E s a n
       else if n_ty n = RT_GRP
       then do { uri \<leftarrow> n_uri n; leave_members E s uri (elems (cJSON_GetObjectItem (n_obj n) ''mid'')) }
       else if n_ty n = RT_TS then Some (s\<lparr>md := ts_md_disarm (md s) (get_ri_rtnode n)\<rparr>)
       else if n_ty n = RT_TSI then forget_tsi E s n
       else Some s }"

text \<open>The announced copies are deleted too.\<close>

fun deannounce :: "'d env \<Rightarrow> 'd cse \<Rightarrow> int \<Rightarrow> cjson list \<Rightarrow> 'd cse option" where
  "deannounce E s ty [] = Some s"
| "deannounce E s ty (at # ats) =
     do {
       v \<leftarrow> valuestring at;
       csr \<leftarrow> find_csr_rtnode_by_uri s (Some v);
       (_, _, s) \<leftarrow> forwarding_onem2m_resource E s
         (empty_o2pt\<lparr>p_op := OP_DELETE, p_to := Some v, p_fr := Some (''/'' @ CSE_BASE_RI), p_ty := ty + 10000,
            p_rqi := Some ''deannounce'', p_rvi := CSE_RVI, p_isForwarding := True\<rparr>) csr;
       deannounce E s ty ats }"

section \<open>The two procedures\<close>

datatype task =
    Delete addr
  | Children ptr
  | Notify operation addr
  | Notify_Subs addr int cjson nodelist

text \<open>
  \<^verbatim>\<open>Delete\<close> is \<^verbatim>\<open>delete_process\<close>, which leaves the node in the tree, and \<^verbatim>\<open>Children\<close> its loop over the
  children; \<^verbatim>\<open>Notify\<close> is \<^verbatim>\<open>notify_via_sub\<close> for an operation and \<^verbatim>\<open>Notify_Subs\<close> its loop. The
  representation an event carries stays in place for the next subscription.
\<close>

partial_function (option) run :: "'d env \<Rightarrow> oneM2MPrimitive \<Rightarrow> 'd cse \<Rightarrow> task \<Rightarrow> 'd cse option" where
  "run E o2pt s t =
     (case t of
        Delete a \<Rightarrow> do {
          n \<leftarrow> heap s a;
          s \<leftarrow> run E o2pt s (Children (n_child n));
          s \<leftarrow> delete_effect E s a;
          n \<leftarrow> heap s a;
          s \<leftarrow> leave_groups E s n (elems (n_memberOf n));
          s \<leftarrow> run E o2pt s (Notify OP_DELETE a);
          n \<leftarrow> heap s a;
          s \<leftarrow> deannounce E s (n_ty n) (elems (cJSON_GetObjectItem (n_obj n) ''at''));
          case n_parent n of
            None \<Rightarrow> Some s
          | Some q \<Rightarrow> if n_ty n = RT_CNT \<or> n_ty n = RT_FCNT then increment_parent_statetag E s q else Some s }
      | Children p \<Rightarrow>
          (case p of
             None \<Rightarrow> Some s
           | Some c \<Rightarrow> do {
               s \<leftarrow> run E o2pt s (Delete c);
               n \<leftarrow> heap s c;
               run E o2pt s (Children (n_sibling_right n)) })
      | Notify op a \<Rightarrow>
          if p_ty o2pt = RT_SUB \<and> (op = OP_CREATE \<or> op = OP_UPDATE) then Some s
          else do {
            n \<leftarrow> heap s a;
            net \<leftarrow> event_of s op n;
            l \<leftarrow> subs_of s net n;
            s \<leftarrow> run E o2pt s (Notify_Subs a net (JObject [(''net'', JNumber net)]) l);
            if net = NET_DELETE_OF_RESOURCE then notify_deleted_sub E s o2pt n else Some s }
      | Notify_Subs a net nev l \<Rightarrow>
          (case l of
             [] \<Rightarrow> Some s
           | (sub, _) # l \<Rightarrow> do {
               target \<leftarrow> heap s a;
               n \<leftarrow> heap s sub;
               apt \<leftarrow> isAptEnc o2pt target n;
               if \<not> apt \<or> \<not> sub_has_net (n_obj n) net then run E o2pt s (Notify_Subs a net nev l)
               else do {
                 let nev = put_rep o2pt target n nev;
                 (used_up, s) \<leftarrow> notify_sub E s sub nev;
                 s \<leftarrow> (if used_up
                       then do {
                         s \<leftarrow> run E o2pt s (Delete sub);
                         n \<leftarrow> heap s sub;
                         h \<leftarrow> free_rtnode (heap s) sub;
                         Some (s\<lparr>heap := h, db := snd (e_db_delete_onem2m_resource E (db s) n)\<rparr>) }
                       else Some s);
                 run E o2pt s (Notify_Subs a net nev l) } }))"

definition delete_process :: "'d env \<Rightarrow> 'd cse \<Rightarrow> oneM2MPrimitive \<Rightarrow> addr \<Rightarrow> 'd cse option" where
  "delete_process E s o2pt a = run E o2pt s (Delete a)"

definition notify_via_sub :: "'d env \<Rightarrow> 'd cse \<Rightarrow> oneM2MPrimitive \<Rightarrow> addr \<Rightarrow> 'd cse option" where
  "notify_via_sub E s o2pt a = run E o2pt s (Notify (p_op o2pt) a)"

section \<open>The operation\<close>

text \<open>Another node of the tree for the same flexContainerInstance.\<close>

partial_function (option) same_fcin :: "heap \<Rightarrow> ptr \<Rightarrow> addr \<Rightarrow> string \<Rightarrow> ptr option" where
  "same_fcin h child target ri =
     (case child of
        None \<Rightarrow> Some None
      | Some a \<Rightarrow> do {
          n \<leftarrow> h a;
          same \<leftarrow> (if a \<noteq> target \<and> n_ty n = RT_FCIN
                   then (case cJSON_GetObjectItem (n_obj n) ''ri'' of
                           None \<Rightarrow> Some False
                         | Some j \<Rightarrow> do { v \<leftarrow> valuestring j; Some (v = ri) })
                   else Some False);
          if same then Some (Some a) else same_fcin h (n_sibling_right n) target ri })"

definition free_fcin :: "heap \<Rightarrow> addr \<Rightarrow> heap option" where
  "free_fcin h target =
     do {
       n \<leftarrow> h target;
       h \<leftarrow> (case (cJSON_GetObjectItem (n_obj n) ''ri'', n_parent n) of
               (Some j, Some q) \<Rightarrow> do {
                 ri \<leftarrow> valuestring j;
                 p \<leftarrow> h q;
                 other \<leftarrow> same_fcin h (n_child p) target ri;
                 case other of None \<Rightarrow> Some h | Some a \<Rightarrow> free_rtnode h a }
             | _ \<Rightarrow> Some h);
       free_rtnode h target }"

text \<open>The latest instance of a container keeps its node when there is another instance to show.\<close>

definition free_cin :: "'d env \<Rightarrow> 'd cse \<Rightarrow> addr \<Rightarrow> heap option" where
  "free_cin E s target =
     do {
       n \<leftarrow> heap s target;
       rn \<leftarrow> n_rn n;
       if rn \<noteq> ''la'' then free_rtnode (heap s) target
       else do {
         q \<leftarrow> n_parent n;
         p \<leftarrow> heap s q;
         case e_db_get_cin_laol E (db s) p 0 of
           None \<Rightarrow> free_rtnode (heap s) target
         | Some obj \<Rightarrow> put_obj (heap s) target obj } }"

definition delete_onem2m_resource :: "'d env \<Rightarrow> 'd cse \<Rightarrow> oneM2MPrimitive \<Rightarrow> addr \<Rightarrow> 'd outcome" where
  "delete_onem2m_resource E s o2pt target =
     do {
       n \<leftarrow> heap s target;
       if n_ty n = RT_CSE
       then Some (RSC_OPERATION_NOT_ALLOWED, handle_error o2pt RSC_OPERATION_NOT_ALLOWED ''CSE can not be deleted'', s)
       else do {
         (e, o2pt, s) \<leftarrow> check_privilege E s o2pt (Some target) ACOP_DELETE;
         if e = - 1 then Some (p_rsc o2pt, o2pt, s)
         else do {
           (_, o2pt, s) \<leftarrow> make_response_body E s o2pt target;
           s \<leftarrow> delete_process E s o2pt target;
           n \<leftarrow> heap s target;
           let s = s\<lparr>db := snd (e_db_delete_onem2m_resource E (db s) n)\<rparr>;
           h \<leftarrow> (if n_ty n = RT_CIN then free_cin E s target
                 else if n_ty n = RT_FCIN \<and> RVI_4 \<le> p_rvi o2pt then free_fcin (heap s) target
                 else free_rtnode (heap s) target);
           Some (RSC_DELETED, o2pt\<lparr>p_rsc := RSC_DELETED\<rparr>, s\<lparr>heap := h\<rparr>) } } }"

end
