(* ===== verification/Subscription.thy ===== *)
theory Subscription
  imports Notify
begin

text \<open>
  Subscriptions (\<^verbatim>\<open>resources/sub.c\<close>): validation, creation with the verification of the notification
  targets, and update.
\<close>

section \<open>Validation\<close>

definition bad_nct :: "int \<Rightarrow> int \<Rightarrow> bool" where
  "bad_nct net nct \<longleftrightarrow>
     (net = NET_UPDATE_OF_RESOURCE \<or> net = NET_DELETE_OF_RESOURCE) \<and>
       nct \<in> {NCT_TRIGGER_PAYLOAD, NCT_TIMESERIES_NOTIFICATION} \<or>
     (net = NET_CREATE_OF_DIRECT_CHILD_RESOURCE \<or> net = NET_DELETE_OF_DIRECT_CHILD_RESOURCE \<or>
      net = NET_RETRIEVE_OF_CONTAINER_RESOURCE_WITH_NO_CHILD_RESOURCE) \<and>
       nct \<in> {NCT_MODIFIED_ATTRIBUTES, NCT_TRIGGER_PAYLOAD, NCT_TIMESERIES_NOTIFICATION} \<or>
     net = NET_TRIGGER_RECIEVED_FOR_AE_RESOURCE \<and>
       nct \<in> {NCT_MODIFIED_ATTRIBUTES, NCT_ALL_ATTRIBUTES, NCT_RESOURCE_ID, NCT_TIMESERIES_NOTIFICATION} \<or>
     net = NET_BLOCKING_UPDATE \<and>
       nct \<in> {NCT_ALL_ATTRIBUTES, NCT_TRIGGER_PAYLOAD, NCT_RESOURCE_ID, NCT_TIMESERIES_NOTIFICATION}"

definition md_num_given :: "cjson option \<Rightarrow> bool" where
  "md_num_given enc =
     (case cJSON_GetObjectItem (cJSON_GetObjectItem enc ''md'') ''num'' of
        Some (JNumber n) \<Rightarrow> 0 < n
      | _ \<Rightarrow> False)"

definition net_error :: "cjson option \<Rightarrow> cjson option \<Rightarrow> cjson \<Rightarrow> string option" where
  "net_error enc nct v =
     (let net = valueint v
      in if net < 0 then Some ''attribute `net` is invalid''
         else (case nct of
                 None \<Rightarrow> None
               | Some j \<Rightarrow>
                   if bad_nct net (valueint j) then Some ''attribute `nct` is invalid''
                   else if net = NET_REPORT_ON_MISSING_DATA_POINTS
                   then (if valueint j \<noteq> NCT_TIMESERIES_NOTIFICATION
                         then Some ''`nct` must be 5 (timeSeries notification) for `net` 8''
                         else if \<not> md_num_given enc then Some ''`enc/md/num` is required for `net` 8''
                         else None)
                   else None))"

fun first_error :: "('a \<Rightarrow> string option) \<Rightarrow> 'a list \<Rightarrow> string option" where
  "first_error f [] = None"
| "first_error f (x # xs) = (case f x of Some e \<Rightarrow> Some e | None \<Rightarrow> first_error f xs)"

definition nu_valid :: "cjson \<Rightarrow> bool" where
  "nu_valid nu \<longleftrightarrow> cJSON_IsArray (Some nu) \<and> elems (Some nu) \<noteq> [] \<and> list_all (\<lambda>v. cJSON_IsString (Some v)) (elems (Some nu))"

text \<open>The errors after the check of \<^verbatim>\<open>acpi\<close>.\<close>

definition sub_error :: "cjson \<Rightarrow> string option" where
  "sub_error sub =
     (let enc = cJSON_GetObjectItem (Some sub) ''enc'';
          e = first_error (net_error enc (cJSON_GetObjectItem (Some sub) ''nct'')) (elems (cJSON_GetObjectItem enc ''net''))
      in case e of
           Some e \<Rightarrow> Some e
         | None \<Rightarrow>
             (case cJSON_GetObjectItem (Some sub) ''nu'' of
                Some nu \<Rightarrow> if nu_valid nu then None else Some ''attribute `nu` is invalid''
              | None \<Rightarrow> None))"

definition validate_sub :: "'d env \<Rightarrow> 'd cse \<Rightarrow> oneM2MPrimitive \<Rightarrow> cjson \<Rightarrow> operation \<Rightarrow> 'd outcome" where
  "validate_sub E s o2pt sub op =
     (case validate_mandatory_attrs RT_SUB (Some sub) op of
        Some err \<Rightarrow> Some (RSC_BAD_REQUEST, handle_error o2pt RSC_BAD_REQUEST err, s)
      | None \<Rightarrow> do {
          (rsc, o2pt, s) \<leftarrow>
            (case cJSON_GetObjectItem (Some sub) ''acpi'' of
               None \<Rightarrow> Some (RSC_OK, o2pt, s)
             | Some acpi \<Rightarrow>
                 if op = OP_UPDATE \<and> 1 < cJSON_GetArraySize (Some sub)
                 then Some (RSC_BAD_REQUEST, handle_error o2pt RSC_BAD_REQUEST
                        ''attribute `acpi` shall be the only attribute in an UPDATE request'', s)
                 else validate_acpi E s o2pt (Some acpi) op);
          if rsc \<noteq> RSC_OK then Some (rsc, o2pt, s)
          else (case sub_error sub of
                  Some err \<Rightarrow> Some (RSC_BAD_REQUEST, handle_error o2pt RSC_BAD_REQUEST err, s)
                | None \<Rightarrow> Some (RSC_OK, o2pt, s)) })"

section \<open>Verification of the targets\<close>

definition verification_request :: "oneM2MPrimitive \<Rightarrow> string option \<Rightarrow> cjson" where
  "verification_request o2pt sur =
     JObject [(''m2m:sgn'',
       cJSON_AddItemToObject (add_string (add_string (JObject []) ''cr'' (p_fr o2pt)) ''sur'' sur) ''vrq'' JTrue)]"

text \<open>What is known of a target before it is asked: it needs no verification, it is invalid, or it is asked.\<close>

datatype target_check = Skip | Invalid | Ask

definition is_originator :: "oneM2MPrimitive \<Rightarrow> string \<Rightarrow> bool option" where
  "is_originator o2pt v = do { fr \<leftarrow> p_fr o2pt; Some (v = fr) }"

definition check_node :: "oneM2MPrimitive \<Rightarrow> rtnode \<Rightarrow> target_check option" where
  "check_node o2pt n =
     (if n_ty n = RT_CSR then Some Skip
      else if n_ty n \<noteq> RT_AE then Some Invalid
      else (case member_string (n_obj n) ''aei'' of
              None \<Rightarrow> Some Ask
            | Some aei \<Rightarrow> do { b \<leftarrow> is_originator o2pt aei; Some (if b then Skip else Ask) }))"

definition check_new_target :: "'d env \<Rightarrow> 'd cse \<Rightarrow> oneM2MPrimitive \<Rightarrow> string \<Rightarrow> (target_check \<times> 'd cse) option" where
  "check_new_target E s o2pt v =
     do {
       (rtnode, s) \<leftarrow> find_rtnode E s (Some v);
       case rtnode of
         None \<Rightarrow> do { b \<leftarrow> is_originator o2pt v; Some (if b then Skip else Ask, s) }
       | Some a \<Rightarrow> do { n \<leftarrow> heap s a; c \<leftarrow> check_node o2pt n; Some (c, s) } }"

text \<open>An update does not ask targets that are URLs.\<close>

definition check_changed_target :: "'d env \<Rightarrow> 'd cse \<Rightarrow> oneM2MPrimitive \<Rightarrow> string \<Rightarrow> (target_check \<times> 'd cse) option" where
  "check_changed_target E s o2pt v =
     do {
       b \<leftarrow> is_originator o2pt v;
       if b then Some (Skip, s)
       else do {
         (rtnode, s) \<leftarrow> find_rtnode E s (Some v);
         c \<leftarrow> (case rtnode of None \<Rightarrow> Some Ask | Some a \<Rightarrow> do { n \<leftarrow> heap s a; check_node o2pt n });
         rat \<leftarrow> checkResourceAddressingType (Some v);
         Some (if c = Ask \<and> rat = PROTOCOL_BINDING then Skip else c, s) } }"

definition no_privilege :: "int \<Rightarrow> bool" where
  "no_privilege rsc \<longleftrightarrow>
     rsc = RSC_SUBSCRIPTION_CREATOR_HAS_NO_PRIVILEGE \<or> rsc = RSC_SUBSCRIPTION_HOST_HAS_NO_PRIVILEGE"

text \<open>
  The loop over the targets; \<open>strict\<close> is the one of \<^verbatim>\<open>create_sub\<close>, where every error code ends it.
  The result is the response code and message of the error.
\<close>

fun verify_targets ::
  "'d env \<Rightarrow> 'd cse \<Rightarrow> oneM2MPrimitive \<Rightarrow> cjson \<Rightarrow> bool \<Rightarrow> cjson list \<Rightarrow> ((int \<times> string) option \<times> 'd cse) option" where
  "verify_targets E s o2pt noti strict [] = Some (None, s)"
| "verify_targets E s o2pt noti strict (nu # nus) =
     do {
       v \<leftarrow> valuestring nu;
       (c, s) \<leftarrow> (if strict then check_new_target E s o2pt v else check_changed_target E s o2pt v);
       case c of
         Skip \<Rightarrow> verify_targets E s o2pt noti strict nus
       | Invalid \<Rightarrow> Some (Some (RSC_SUBSCRIPTION_VERIFICATION_INITIATION_FAILED, ''nu is invalid''), s)
       | Ask \<Rightarrow> do {
           (rsc, s) \<leftarrow> send_verification_request E s (p_to o2pt) v noti;
           if no_privilege rsc
           then Some (Some (rsc, if strict then ''subscription verification error'' else ''subscription verification failed''), s)
           else if strict \<and> (rsc div 1000 = 4 \<or> rsc div 1000 = 5)
           then Some (Some (RSC_SUBSCRIPTION_VERIFICATION_INITIATION_FAILED, ''subscription verification error''), s)
           else verify_targets E s o2pt noti strict nus } }"

section \<open>Creation and update\<close>

definition asks_missing_data :: "cjson \<Rightarrow> bool" where
  "asks_missing_data sub \<longleftrightarrow>
     list_ex (\<lambda>v. cJSON_GetNumberValue v = Some NET_REPORT_ON_MISSING_DATA_POINTS)
       (elems (cJSON_GetObjectItem (cJSON_GetObjectItem (Some sub) ''enc'') ''net''))"

definition store_sub :: "'d env \<Rightarrow> 'd cse \<Rightarrow> oneM2MPrimitive \<Rightarrow> addr \<Rightarrow> cjson \<Rightarrow> string \<Rightarrow> 'd outcome" where
  "store_sub E s o2pt parent sub uri =
     do {
       let (result, d) = e_db_store_resource E (db s) sub uri;
       let s = s\<lparr>db := d\<rparr>;
       if result \<noteq> 1
       then Some (RSC_INTERNAL_SERVER_ERROR, handle_error o2pt RSC_INTERNAL_SERVER_ERROR ''DB store fail'', s)
       else do {
         p \<leftarrow> heap s parent;
         if n_ty p = RT_CIN
         then Some (RSC_TARGET_NOT_SUBSCRIBABLE, handle_error o2pt RSC_TARGET_NOT_SUBSCRIBABLE ''TARGET_NOT_SUBSCRIPBABLE'', s)
         else do {
           (child, s) \<leftarrow> create_rtnode s sub RT_SUB;
           s \<leftarrow> add_child_resource_tree s parent child;
           (_, o2pt, s) \<leftarrow> make_response_body E s o2pt child;
           Some (RSC_CREATED, o2pt\<lparr>p_rsc := RSC_CREATED\<rparr>, s) } } }"

text \<open>The creator is checked before the result of the validation is looked at.\<close>

definition create_sub :: "'d env \<Rightarrow> 'd cse \<Rightarrow> oneM2MPrimitive \<Rightarrow> addr \<Rightarrow> 'd outcome" where
  "create_sub E s o2pt parent =
     do {
       c \<leftarrow> cJSON_GetObjectItem (p_request_pc o2pt) ''m2m:sub'';
       (sub, s) \<leftarrow> add_general_attribute E s c parent RT_SUB;
       (rsc, o2pt, s) \<leftarrow> validate_sub E s o2pt sub OP_CREATE;
       p \<leftarrow> heap s parent;
       if rsc = RSC_OK \<and> n_ty p \<noteq> RT_TS \<and> asks_missing_data sub
       then Some (RSC_BAD_REQUEST,
              handle_error o2pt RSC_BAD_REQUEST ''`net` 8 is only allowed under a <timeSeries> resource'', s)
       else do {
         let sub = (if cJSON_GetObjectItem (Some sub) ''nct'' = None
                    then cJSON_AddItemToObject sub ''nct'' (JNumber NCT_ALL_ATTRIBUTES) else sub);
         case set_creator o2pt sub of
           None \<Rightarrow> Some (RSC_BAD_REQUEST,
             handle_error o2pt RSC_BAD_REQUEST ''creator attribute with arbitary value is not allowed'', s)
         | Some sub \<Rightarrow>
             if rsc \<noteq> RSC_OK then Some (rsc, o2pt, s)
             else do {
               uri \<leftarrow> new_uri s parent sub;
               let sur = (case cJSON_GetObjectItem (Some sub) ''ri'' of
                            Some (JString ri) \<Rightarrow> make_subscription_reference (Some ri) | _ \<Rightarrow> Some uri);
               (err, s) \<leftarrow> verify_targets E s o2pt (verification_request o2pt sur) True
                 (elems (cJSON_GetObjectItem (Some sub) ''nu''));
               case err of
                 Some (rsc, msg) \<Rightarrow> Some (rsc, handle_error o2pt rsc msg, s)
               | None \<Rightarrow> store_sub E s o2pt parent sub uri } } }"

definition default_enc :: "cjson \<Rightarrow> cjson" where
  "default_enc sub =
     (if cJSON_GetObjectItem (Some sub) ''enc'' = Some JNull
      then cJSON_ReplaceItemInObject sub ''enc'' (JObject [(''net'', JArray [JNumber NET_UPDATE_OF_RESOURCE])]) else sub)"

definition update_sub :: "'d env \<Rightarrow> 'd cse \<Rightarrow> oneM2MPrimitive \<Rightarrow> addr \<Rightarrow> 'd outcome" where
  "update_sub E s o2pt target =
     (let m2m_sub = cJSON_GetObjectItem (p_request_pc o2pt) ''m2m:sub'' in
      if has_any m2m_sub [''ty'', ''pi'', ''ri'', ''rn'', ''ct'', ''su'']
      then Some (RSC_BAD_REQUEST,
             handle_error o2pt RSC_BAD_REQUEST (''{'' @ [CHR 34] @ ''m2m:dbg'' @ [CHR 34] @ '': '' @ [CHR 34] @
               ''unsupported attribute on update'' @ [CHR 34] @ ''}''), s)
      else do {
        body \<leftarrow> m2m_sub;
        (rsc, o2pt, s) \<leftarrow> validate_sub E s o2pt body (p_op o2pt);
        if rsc \<noteq> RSC_OK then Some (p_rsc o2pt, o2pt, s)
        else do {
          n \<leftarrow> heap s target;
          (err, s) \<leftarrow>
            (case cJSON_GetObjectItem (Some body) ''nu'' of
               None \<Rightarrow> Some (None, s)
             | Some nu \<Rightarrow>
                 verify_targets E s o2pt (verification_request o2pt (subscription_reference n)) False (elems (Some nu)));
          case err of
            Some (rsc, msg) \<Rightarrow> Some (rsc, handle_error o2pt rsc msg, s)
          | None \<Rightarrow> do {
              let body = with_lt E (default_enc body);
              s \<leftarrow> merge_into s target body;
              (_, s) \<leftarrow> save_update E s target body RT_SUB;
              (_, o2pt, s) \<leftarrow> make_response_body E s (put_contents o2pt ''m2m:sub'' body) target;
              Some (RSC_UPDATED, o2pt\<lparr>p_rsc := RSC_UPDATED\<rparr>, s) } } })"

end
