(* ===== verification/RegistrationTypes.thy ===== *)
theory RegistrationTypes
  imports Lifecycle
begin

text \<open>
  Remote CSEs and announced resources as resources (\<^verbatim>\<open>resources/csr.c\<close>, \<^verbatim>\<open>resources/annc.c\<close>,
  \<^verbatim>\<open>resources/fcin.c\<close>): registration of a CSE and its entry in \<^verbatim>\<open>dcse\<close> of the CSEBase, and copies that
  are announced to this CSE.
\<close>

section \<open>Remote CSEs\<close>

partial_function (option) csr_with_csi :: "heap \<Rightarrow> ptr \<Rightarrow> string \<Rightarrow> bool option" where
  "csr_with_csi h p csi =
     (case p of
        None \<Rightarrow> Some False
      | Some a \<Rightarrow> do {
          n \<leftarrow> h a;
          if n_ty n = RT_CSR \<and> member_string (n_obj n) ''csi'' = Some csi then Some True
          else csr_with_csi h (n_sibling_right n) csi })"

definition check_csi_duplicate :: "heap \<Rightarrow> string option \<Rightarrow> ptr \<Rightarrow> int option" where
  "check_csi_duplicate h new_csi parent =
     (case (parent, new_csi) of
        (Some a, Some csi) \<Rightarrow> do { p \<leftarrow> h a; b \<leftarrow> csr_with_csi h (n_child p) csi; Some (if b then - 1 else 0) }
      | _ \<Rightarrow> Some 0)"

text \<open>\<^verbatim>\<open>validate_csr\<close> returns 0 when nothing is wrong.\<close>

definition validate_csr :: "heap \<Rightarrow> oneM2MPrimitive \<Rightarrow> ptr \<Rightarrow> cjson option \<Rightarrow> operation \<Rightarrow> checked option" where
  "validate_csr h o2pt parent csr op =
     (case validate_mandatory_attrs RT_CSR csr op of
        Some err \<Rightarrow> Some (RSC_BAD_REQUEST, handle_error o2pt RSC_BAD_REQUEST err)
      | None \<Rightarrow>
          if op = OP_UPDATE \<and> cJSON_GetObjectItem csr ''cb'' \<noteq> None
          then Some (RSC_BAD_REQUEST, handle_error o2pt RSC_BAD_REQUEST ''attribute `cb` is not allowed'')
          else if op = OP_UPDATE \<and> cJSON_GetObjectItem csr ''ct'' \<noteq> None
          then Some (RSC_BAD_REQUEST, handle_error o2pt RSC_BAD_REQUEST ''attribute `ct` is not allowed'')
          else (case cJSON_GetObjectItem csr ''csi'' of
                  None \<Rightarrow> Some (0, o2pt)
                | Some csi \<Rightarrow> do {
                    e \<leftarrow> check_csi_duplicate h (valuestring csi) parent;
                    Some (if e = - 1
                          then (RSC_ORIGINATOR_HAS_ALREADY_REGISTERD,
                                handle_error o2pt RSC_ORIGINATOR_HAS_ALREADY_REGISTERD ''originator has already registered'')
                          else (0, o2pt)) }))"

text \<open>The identifier of a new remote CSE is appended to \<^verbatim>\<open>dcse\<close> of the CSEBase.\<close>

definition add_dcse :: "'d cse \<Rightarrow> string \<Rightarrow> 'd cse option" where
  "add_dcse s csi =
     do {
       c \<leftarrow> cb s;
       n \<leftarrow> heap s c;
       obj \<leftarrow> n_obj n;
       let obj = (if cJSON_GetObjectItem (Some obj) ''dcse'' = None
                  then cJSON_AddItemToObject obj ''dcse'' (JArray []) else obj);
       h \<leftarrow> put_obj (heap s) c (modify_member obj ''dcse'' (\<lambda>a. cJSON_AddItemToArray a (JString csi)));
       Some (s\<lparr>heap := h\<rparr>) }"

definition store_csr :: "'d env \<Rightarrow> 'd cse \<Rightarrow> oneM2MPrimitive \<Rightarrow> addr \<Rightarrow> cjson \<Rightarrow> 'd outcome" where
  "store_csr E s o2pt parent csr =
     do {
       uri \<leftarrow> new_uri s parent csr;
       let (result, d) = e_db_store_resource E (db s) csr uri;
       let s = s\<lparr>db := d\<rparr>;
       if result = - 1
       then Some (RSC_INTERNAL_SERVER_ERROR, handle_error o2pt RSC_INTERNAL_SERVER_ERROR ''database error'', s)
       else do {
         (child, s) \<leftarrow> create_rtnode s csr RT_CSR;
         s \<leftarrow> add_child_resource_tree s parent child;
         (_, o2pt, s) \<leftarrow> make_response_body E s o2pt child;
         n \<leftarrow> heap s child;
         csi \<leftarrow> member_string (n_obj n) ''csi'';
         s \<leftarrow> add_dcse s csi;
         s \<leftarrow> update_remote_csr_dcse E s;
         Some (RSC_CREATED, o2pt, s) } }"

definition create_csr :: "'d env \<Rightarrow> 'd cse \<Rightarrow> oneM2MPrimitive \<Rightarrow> addr \<Rightarrow> 'd outcome" where
  "create_csr E s o2pt parent =
     do {
       (e, o2pt) \<leftarrow> check_rn_invalid o2pt RT_CSR;
       if e = - 1 then Some (p_rsc o2pt, o2pt, s)
       else do {
         let c = cJSON_GetObjectItem (p_request_pc o2pt) ''m2m:csr'';
         (csr, s) \<leftarrow> add_general_attribute E s (case c of None \<Rightarrow> JNull | Some j \<Rightarrow> j) parent RT_CSR;
         case p_fr o2pt of
           Some (x # xs) \<Rightarrow> do {
             _ \<leftarrow> c;
             let csr = add_string (cJSON_DeleteItemFromObject csr ''csi'') ''csi'' (p_fr o2pt);
             (rsc, o2pt) \<leftarrow> validate_csr (heap s) o2pt (Some parent) (Some csr) OP_CREATE;
             if rsc \<noteq> 0 then Some (rsc, o2pt, s)
             else store_csr E s (o2pt\<lparr>p_rsc := RSC_CREATED\<rparr>) parent csr }
         | _ \<Rightarrow> Some (RSC_BAD_REQUEST, handle_error o2pt RSC_BAD_REQUEST ''missing originator'', s) } }"

definition update_csr :: "'d env \<Rightarrow> 'd cse \<Rightarrow> oneM2MPrimitive \<Rightarrow> addr \<Rightarrow> 'd outcome" where
  "update_csr E s o2pt target =
     (let m2m_csr = cJSON_GetObjectItem (p_request_pc o2pt) ''m2m:csr'' in
      if has_any m2m_csr [''ty'', ''pi'', ''ri'', ''rn'', ''ct'', ''csi'']
      then Some (RSC_BAD_REQUEST, handle_error o2pt RSC_BAD_REQUEST ''unsupported attribute on update'', s)
      else do {
        n \<leftarrow> heap s target;
        (rsc, o2pt) \<leftarrow> validate_csr (heap s) o2pt (n_parent n) m2m_csr OP_UPDATE;
        if rsc \<noteq> 0 then Some (rsc, o2pt, s)
        else do {
          body \<leftarrow> m2m_csr;
          let body = with_lt E body;
          s \<leftarrow> merge_into s target body;
          (_, s) \<leftarrow> save_update E s target body RT_CSR;
          s \<leftarrow> update_remote_csr_dcse E s;
          answer_update E s o2pt target ''m2m:csr'' body (cJSON_GetArraySize m2m_csr) } })"

section \<open>Announced resources\<close>


text \<open>The result of the check of the identifier is not used; the primitive keeps the error.\<close>

definition create_annc :: "'d env \<Rightarrow> 'd cse \<Rightarrow> oneM2MPrimitive \<Rightarrow> addr \<Rightarrow> 'd outcome" where
  "create_annc E s o2pt parent =
     do {
       let o2pt = (if p_ty o2pt = RT_AEA then snd (check_aei_invalid o2pt) else o2pt);
       c \<leftarrow> cJSON_GetObjectItem (p_request_pc o2pt) (get_resource_key (p_ty o2pt));
       (res, s) \<leftarrow> add_general_attribute E s c parent (p_ty o2pt);
       (rsc, o2pt, s) \<leftarrow> store_and_insert E s o2pt parent res (p_ty o2pt);
       Some (rsc, if rsc = RSC_CREATED then o2pt\<lparr>p_rsc := RSC_CREATED\<rparr> else o2pt, s) }"

text \<open>The originator of an update is the CSE of the original resource.\<close>

definition from_original :: "string \<Rightarrow> string \<Rightarrow> bool" where
  "from_original fr lnk \<longleftrightarrow> starts_with lnk (fr @ ''/'')"

text \<open>An update by anyone else goes to the original first, when it may be changed from here.\<close>

definition update_original :: "'d env \<Rightarrow> 'd cse \<Rightarrow> oneM2MPrimitive \<Rightarrow> rtnode \<Rightarrow> cjson option \<Rightarrow> string \<Rightarrow> (string option \<times> 'd cse) option" where
  "update_original E s o2pt n req_src lnk =
     (case cJSON_GetObjectItem (n_obj n) ''ast'' of
        None \<Rightarrow> Some (Some ''resource is uni-directional'', s)
      | Some ast \<Rightarrow>
          if valueint ast \<noteq> AST_BI_DIRECTIONAL then Some (Some ''resource is uni-directional'', s)
          else do {
            src \<leftarrow> req_src;
            if items src = [] then Some (None, s)
            else do {
              req \<leftarrow> o2ptcpy o2pt;
              csr \<leftarrow> find_csr_rtnode_by_uri s (Some lnk);
              (rsc, _, s) \<leftarrow> forwarding_onem2m_resource E s
                (req\<lparr>p_to := Some lnk, p_fr := Some (''/'' @ CSE_BASE_RI),
                   p_request_pc := Some (JObject [(get_resource_key (p_ty o2pt - 10000), src)])\<rparr>) csr;
              Some (if rsc \<noteq> RSC_UPDATED then Some ''failed to update original resource'' else None, s) } })"

definition update_annc :: "'d env \<Rightarrow> 'd cse \<Rightarrow> oneM2MPrimitive \<Rightarrow> addr \<Rightarrow> 'd outcome" where
  "update_annc E s o2pt target =
     (let req_src = cJSON_GetObjectItem (p_request_pc o2pt) (get_resource_key (p_ty o2pt)) in
      if has_any req_src [''ty'', ''pi'', ''ri'', ''rn'', ''ct'']
      then Some (RSC_BAD_REQUEST, handle_error o2pt RSC_BAD_REQUEST ''unsupported attribute on update'', s)
      else do {
        n \<leftarrow> heap s target;
        l \<leftarrow> cJSON_GetObjectItem (n_obj n) ''lnk'';
        case valuestring l of
          None \<Rightarrow> Some (RSC_INTERNAL_SERVER_ERROR, handle_error o2pt RSC_INTERNAL_SERVER_ERROR ''lnk is empty'', s)
        | Some lnk \<Rightarrow> do {
            fr \<leftarrow> p_fr o2pt;
            (err, s) \<leftarrow> (if from_original fr lnk then Some (None, s) else update_original E s o2pt n req_src lnk);
            case err of
              Some e \<Rightarrow> Some (RSC_BAD_REQUEST, handle_error o2pt RSC_BAD_REQUEST e, s)
            | None \<Rightarrow> do {
                body \<leftarrow> req_src;
                s \<leftarrow> merge_into s target body;
                n \<leftarrow> heap s target;
                (_, s) \<leftarrow> save_update E s target body (n_ty n);
                (_, o2pt, s) \<leftarrow> make_response_body E s o2pt target;
                Some (RSC_UPDATED, o2pt\<lparr>p_rsc := RSC_UPDATED\<rparr>, s) } } })"

section \<open>Instances of flexContainers\<close>

definition create_fcin :: "oneM2MPrimitive \<Rightarrow> checked" where
  "create_fcin o2pt =
     (RSC_OPERATION_NOT_ALLOWED, handle_error o2pt RSC_OPERATION_NOT_ALLOWED ''FlexContainerInstance cannot be created via API'')"

definition update_fcin :: "oneM2MPrimitive \<Rightarrow> checked" where
  "update_fcin o2pt =
     (RSC_OPERATION_NOT_ALLOWED, handle_error o2pt RSC_OPERATION_NOT_ALLOWED ''FlexContainerInstance cannot be updated via API'')"

end
