(* ===== verification/Retrieve.thy ===== *)
theory Retrieve
  imports Response AccessProps
begin

text \<open>
  Retrieval and discovery (\<^verbatim>\<open>onem2m.c\<close>, \<^verbatim>\<open>util.c\<close>): the index of descendants by parent identifier, the
  nested body, the attribute \<^verbatim>\<open>arp\<close> of the filter criteria, and the two operations.

  The list of descendants comes from the database (\<open>e_db_get_descendants\<close>). Their identifiers
  are distinct, so an object is attached at most once.
\<close>

unbundle bit_operations_syntax

section \<open>Index of the descendants\<close>

text \<open>
  \<^verbatim>\<open>PIMap\<close>: 1024 buckets of entries, an entry for a parent identifier with the list of its
  children. A child is its type and object, with its position in the list of descendants.
\<close>

abbreviation (input) PI_MAP_SIZE :: nat where "PI_MAP_SIZE \<equiv> 1024"

type_synonym child_slot = "nat \<times> int \<times> cjson"
type_synonym pimap = "(string \<times> child_slot list) list list"

definition hash_str :: "string \<Rightarrow> nat" where
  "hash_str s = unat (foldl (\<lambda>h c. (push_bit 5 h + h) XOR of_nat (of_char c)) (5381 :: 32 word) s) mod PI_MAP_SIZE"

definition pimap_empty :: pimap where
  "pimap_empty = replicate PI_MAP_SIZE []"

fun bucket_put :: "(string \<times> child_slot list) list \<Rightarrow> string \<Rightarrow> child_slot \<Rightarrow> (string \<times> child_slot list) list option" where
  "bucket_put [] pi c = None"
| "bucket_put ((p, cs) # es) pi c = (if p = pi then Some ((p, c # cs) # es) else map_option ((#) (p, cs)) (bucket_put es pi c))"

definition pimap_put :: "pimap \<Rightarrow> string \<Rightarrow> child_slot \<Rightarrow> pimap" where
  "pimap_put m pi c =
     (let b = hash_str pi
      in m[b := (case bucket_put (m ! b) pi c of Some es \<Rightarrow> es | None \<Rightarrow> (pi, [c]) # m ! b)])"

definition pimap_get :: "pimap \<Rightarrow> string \<Rightarrow> child_slot list" where
  "pimap_get m pi = (case map_of (m ! hash_str pi) pi of None \<Rightarrow> [] | Some cs \<Rightarrow> cs)"

text \<open>An item of the list without \<^verbatim>\<open>ty\<close>, \<^verbatim>\<open>pi\<close> or \<^verbatim>\<open>obj\<close> is undefined.\<close>

fun restruct_items :: "pimap \<Rightarrow> nat \<Rightarrow> cjson list \<Rightarrow> pimap option" where
  "restruct_items m i [] = Some m"
| "restruct_items m i (item # xs) =
     do {
       ty \<leftarrow> cJSON_GetObjectItem (Some item) ''ty'';
       pi \<leftarrow> member_string (Some item) ''pi'';
       obj \<leftarrow> cJSON_GetObjectItem (Some item) ''obj'';
       restruct_items (pimap_put m pi (i, valueint ty, obj)) (Suc i) xs }"

definition restruct_descendant_arr_to_hash :: "cjson option \<Rightarrow> pimap option" where
  "restruct_descendant_arr_to_hash arr = restruct_items pimap_empty 0 (elems arr)"

section \<open>Nested bodies\<close>

text \<open>\<^verbatim>\<open>flatten_fcnt_response\<close>: the members of \<^verbatim>\<open>custom_attrs\<close> become members of the resource.\<close>

definition flatten_fcnt_response :: "cjson \<Rightarrow> cjson" where
  "flatten_fcnt_response obj =
     (let rest = cJSON_DeleteItemFromObject obj ''custom_attrs''
      in sanitize_fcnt_response
           (case cJSON_GetObjectItem (Some obj) ''custom_attrs'' of
              Some (JObject kvs) \<Rightarrow> foldl (\<lambda>j (k, v). cJSON_AddItemToObject j k v) rest kvs
            | _ \<Rightarrow> rest))"

definition attach_to :: "cjson \<Rightarrow> string \<Rightarrow> cjson \<Rightarrow> cjson" where
  "attach_to parent key obj =
     (if cJSON_GetObjectItem (Some parent) key = None then cJSON_AddItemToObject parent key (JArray [obj])
      else modify_member parent key (\<lambda>a. cJSON_AddItemToArray a obj))"

definition flattened :: "int \<Rightarrow> cjson \<Rightarrow> cjson" where
  "flattened ty obj = (if ty = RT_FCNT \<or> ty = RT_FCIN then flatten_fcnt_response obj else obj)"

definition child_key :: "'d env \<Rightarrow> cjson \<Rightarrow> int \<Rightarrow> cjson \<Rightarrow> string" where
  "child_key E parent ty obj =
     (if ty = RT_FCNT then get_fcnt_response_key E (Some obj) ty
      else if ty = RT_FCIN then get_fcin_response_key E (Some parent)
      else get_resource_key ty)"

text \<open>
  \<^verbatim>\<open>attach_descendant_to_target\<close>, with the loop over the children as an argument: the object with its
  descendants, and the positions of the descendants attached so far.
\<close>

partial_function (option) attach_children :: "'d env \<Rightarrow> pimap \<Rightarrow> cjson \<Rightarrow> child_slot list \<Rightarrow> nat list \<Rightarrow> (cjson \<times> nat list) option" where
  "attach_children E m parent cs used =
     (case cs of
        [] \<Rightarrow> Some (parent, used)
      | (i, ty, obj) # cs \<Rightarrow> do {
          let obj = flattened ty obj;
          ri \<leftarrow> member_string (Some obj) ''ri'';
          (full, used) \<leftarrow> attach_children E m obj (pimap_get m ri) (i # used);
          attach_children E m (attach_to parent (child_key E parent ty obj) full) cs used })"

definition attach_descendant_to_target :: "'d env \<Rightarrow> cjson \<Rightarrow> pimap \<Rightarrow> string \<Rightarrow> (cjson \<times> nat list) option" where
  "attach_descendant_to_target E parent m ri = attach_children E m parent (pimap_get m ri) []"

text \<open>The descendants that no chain of parents connects with the target are attached to it directly.\<close>

fun attach_orphans :: "'d env \<Rightarrow> cjson \<Rightarrow> nat list \<Rightarrow> nat \<Rightarrow> cjson list \<Rightarrow> cjson" where
  "attach_orphans E target used i [] = target"
| "attach_orphans E target used i (item # xs) =
     attach_orphans E
       (case (cJSON_GetObjectItem (Some item) ''obj'', cJSON_GetObjectItem (Some item) ''ty'') of
          (Some obj, Some tyj) \<Rightarrow>
            if i \<in> set used then target
            else (let ty = valueint tyj; obj = flattened ty obj
                  in attach_to target (if ty = RT_FCNT then get_fcnt_response_key E (Some obj) ty else get_resource_key ty) obj)
        | _ \<Rightarrow> target) used (Suc i) xs"

definition attach_all :: "'d env \<Rightarrow> cjson \<Rightarrow> cjson option \<Rightarrow> string \<Rightarrow> cjson option" where
  "attach_all E target arr ri =
     do {
       m \<leftarrow> restruct_descendant_arr_to_hash arr;
       (target, used) \<leftarrow> attach_descendant_to_target E target m ri;
       Some (attach_orphans E target used 0 (elems arr)) }"

section \<open>Response body\<close>

definition response_key :: "'d env \<Rightarrow> heap \<Rightarrow> rtnode \<Rightarrow> string option" where
  "response_key E h n =
     (if n_ty n = RT_FCNT then Some (get_fcnt_response_key E (n_obj n) (n_ty n))
      else if n_ty n = RT_FCIN
      then (case n_parent n of
              None \<Rightarrow> Some (get_resource_key (n_ty n))
            | Some q \<Rightarrow> do {
                p \<leftarrow> h q;
                Some (if n_ty p = RT_FCNT then get_fcin_response_key E (n_obj p) else get_resource_key (n_ty n)) })
      else Some (get_resource_key (n_ty n)))"

text \<open>
  The values 0, 4, 8 need an object; \<^verbatim>\<open>RCN_NOTHING\<close> leaves a body that was there before as a freed
  object.
\<close>

definition make_response_body_retrieve ::
    "'d env \<Rightarrow> 'd cse \<Rightarrow> oneM2MPrimitive \<Rightarrow> addr \<Rightarrow> cjson option \<Rightarrow> cjson option \<Rightarrow> 'd outcome" where
  "make_response_body_retrieve E s o2pt a target_obj arr =
     do {
       n \<leftarrow> heap s a;
       key \<leftarrow> response_key E (heap s) n;
       let rcn = p_rcn o2pt;
       if rcn = RCN_NOTHING
       then (if p_response_pc o2pt \<noteq> None then None
             else do { (r, o2pt, s) \<leftarrow> finish_body o2pt s JNull; Some (r, o2pt\<lparr>p_response_pc := None\<rparr>, s) })
       else if rcn = RCN_ATTRIBUTES
       then finish_body o2pt s (add_opt (JObject []) key
              (map_option (if n_ty n = RT_FCNT then sanitize_fcnt_response else id) target_obj))
       else if rcn = RCN_ATTRIBUTES_AND_CHILD_RESOURCES
       then do {
         t \<leftarrow> target_obj;
         ri \<leftarrow> get_ri_rtnode n;
         t \<leftarrow> attach_all E t arr ri;
         finish_body o2pt s (JObject [(key, t)]) }
       else if rcn = RCN_ATTRIBUTES_AND_CHILD_RESOURCE_REFERENCES
       then finish_body o2pt s (add_opt (JObject []) key (map_option (\<lambda>t. add_opt t ''ch'' arr) target_obj))
       else if rcn = RCN_CHILD_RESOURCE_REFERENCES
       then finish_body o2pt s (JObject [(''m2m:rrl'', add_opt (JObject []) ''rrf'' arr)])
       else if rcn = RCN_ORIGINAL_RESOURCE then original_body E s o2pt n
       else if rcn = RCN_CHILD_RESOURCES
       then do {
         ri \<leftarrow> get_ri_rtnode n;
         t \<leftarrow> attach_all E (JObject []) arr ri;
         finish_body o2pt s (JObject [(key, t)]) }
       else if rcn = RCN_DISCOVERY_RESULT_REFERENCES then finish_body o2pt s (add_opt (JObject []) ''m2m:uril'' arr)
       else finish_body o2pt s (JObject []) }"

section \<open>Attribute path\<close>

text \<open>\<^verbatim>\<open>get_uri_from_item\<close>; the address of an item that is neither a string nor an object is undefined.\<close>

definition get_uri_from_item :: "'d env \<Rightarrow> 'd cse \<Rightarrow> cjson \<Rightarrow> int \<Rightarrow> (string option \<times> 'd cse) option" where
  "get_uri_from_item E s item drt =
     (let obj = cJSON_GetObjectItem (Some item) ''obj'';
          convert = (\<lambda>v. if drt = DRT_STRUCTURED then Some (Some v, s) else ri_to_uri E s v)
      in case item of
           JString v \<Rightarrow> convert v
         | _ \<Rightarrow> (if obj \<noteq> None then do { j \<leftarrow> cJSON_GetObjectItem obj ''uri''; Some (valuestring j, s) }
                 else do { v \<leftarrow> member_string (Some item) ''val''; convert v }))"

definition build_arp_item :: "rtnode \<Rightarrow> int \<Rightarrow> int \<Rightarrow> cjson option" where
  "build_arp_item n rcn drt =
     (let ri = get_ri_rtnode n; id_val = (if drt = DRT_STRUCTURED then n_uri n else ri)
      in if rcn = RCN_DISCOVERY_RESULT_REFERENCES then map_option JString id_val
         else if rcn = RCN_CHILD_RESOURCE_REFERENCES \<or> rcn = RCN_ATTRIBUTES_AND_CHILD_RESOURCE_REFERENCES
         then Some (add_string (cJSON_AddItemToObject (add_string (JObject []) ''nm'' (n_rn n)) ''typ'' (JNumber (n_ty n))) ''val'' id_val)
         else if rcn = RCN_CHILD_RESOURCES \<or> rcn = RCN_ATTRIBUTES_AND_CHILD_RESOURCES
         then (let w = add_string (JObject []) ''ri'' (Some (case ri of None \<Rightarrow> [] | Some r \<Rightarrow> r));
                   w = add_string w ''pi'' (case cJSON_GetObjectItem (n_obj n) ''pi'' of None \<Rightarrow> Some [] | Some j \<Rightarrow> valuestring j)
               in Some (add_opt (cJSON_AddItemToObject w ''ty'' (JNumber (n_ty n))) ''obj'' (n_obj n)))
         else None)"

text \<open>
  The loop over the descendants. \<open>guard\<close> is the test of the resource that is found: discovery
  checks the privilege, retrieval accepts it.
\<close>

fun arp_items ::
    "('d cse \<Rightarrow> oneM2MPrimitive \<Rightarrow> addr \<Rightarrow> 'd outcome) \<Rightarrow> 'd env \<Rightarrow> 'd cse \<Rightarrow> oneM2MPrimitive \<Rightarrow> string \<Rightarrow>
       cjson list \<Rightarrow> cjson list \<Rightarrow> (cjson list \<times> oneM2MPrimitive \<times> 'd cse) option" where
  "arp_items guard E s o2pt arp [] acc = Some (acc, o2pt, s)"
| "arp_items guard E s o2pt arp (item # xs) acc =
     do {
       (uri, s) \<leftarrow> get_uri_from_item E s item (p_drt o2pt);
       case uri of
         None \<Rightarrow> arp_items guard E s o2pt arp xs acc
       | Some u \<Rightarrow> do {
           (p, s) \<leftarrow> find_rtnode E s (Some (take 1023 (u @ ''/'' @ arp)));
           case p of
             None \<Rightarrow> arp_items guard E s o2pt arp xs acc
           | Some a \<Rightarrow> do {
               (e, o2pt, s) \<leftarrow> guard s o2pt a;
               n \<leftarrow> heap s a;
               arp_items guard E s o2pt arp xs
                 (if e = - 1 then acc
                  else acc @ (case build_arp_item n (p_rcn o2pt) (p_drt o2pt) of None \<Rightarrow> [] | Some j \<Rightarrow> [j])) } } }"

definition apply_arp ::
    "('d cse \<Rightarrow> oneM2MPrimitive \<Rightarrow> addr \<Rightarrow> 'd outcome) \<Rightarrow> 'd env \<Rightarrow> 'd cse \<Rightarrow> oneM2MPrimitive \<Rightarrow> cjson option \<Rightarrow>
       (cjson option \<times> oneM2MPrimitive \<times> 'd cse) option" where
  "apply_arp guard E s o2pt arr =
     (case cJSON_GetObjectItem (p_fc o2pt) ''arp'' of
        None \<Rightarrow> Some (arr, o2pt, s)
      | Some j \<Rightarrow> do {
          arp \<leftarrow> valuestring j;
          (xs, o2pt, s) \<leftarrow> arp_items guard E s o2pt arp (elems arr) [];
          Some (Some (JArray xs), o2pt, s) })"

section \<open>Operations\<close>

definition retrieve_onem2m_resource :: "'d env \<Rightarrow> 'd cse \<Rightarrow> oneM2MPrimitive \<Rightarrow> addr \<Rightarrow> 'd outcome" where
  "retrieve_onem2m_resource E s o2pt target =
     do {
       (e, o2pt, s) \<leftarrow> check_privilege E s o2pt (Some target) ACOP_RETRIEVE;
       if e = - 1 then Some (p_rsc o2pt, o2pt, s)
       else do {
         n \<leftarrow> heap s target;
         let rcn = p_rcn o2pt;
         let target_obj = (if rcn = RCN_CHILD_RESOURCES \<or> rcn = RCN_CHILD_RESOURCE_REFERENCES then None else n_obj n);
         let arr = (if rcn = RCN_ATTRIBUTES_AND_CHILD_RESOURCES \<or> rcn = RCN_CHILD_RESOURCES
                    then e_db_get_descendants E (db s) o2pt n False
                    else if rcn = RCN_ATTRIBUTES_AND_CHILD_RESOURCE_REFERENCES \<or> rcn = RCN_CHILD_RESOURCE_REFERENCES
                    then e_db_get_descendants E (db s) o2pt n True
                    else None);
         (arr, o2pt, s) \<leftarrow> apply_arp (\<lambda>s o2pt a. Some (0, o2pt, s)) E s o2pt arr;
         (_, o2pt, s) \<leftarrow> make_response_body_retrieve E s o2pt target target_obj arr;
         Some (RSC_OK, o2pt\<lparr>p_rsc := RSC_OK\<rparr>, s) } }"

text \<open>
  A refusal is answered with an empty result, but the primitive carries the error. With no filter
  criteria the code ends without an answer.
\<close>

definition discover_onem2m_resource :: "'d env \<Rightarrow> 'd cse \<Rightarrow> oneM2MPrimitive \<Rightarrow> addr \<Rightarrow> 'd outcome" where
  "discover_onem2m_resource E s o2pt target =
     do {
       (e, o2pt, s) \<leftarrow> check_privilege E s o2pt (Some target) ACOP_DISCOVERY;
       n \<leftarrow> heap s target;
       if e = - 1 \<or> n_ty n = RT_CIN
       then do { (_, o2pt, s) \<leftarrow> make_response_body_retrieve E s o2pt target None None; Some (RSC_OK, o2pt, s) }
       else if p_fc o2pt = None then Some (RSC_BAD_REQUEST, o2pt, s)
       else do {
         (arr, o2pt, s) \<leftarrow> apply_arp (\<lambda>s o2pt a. check_privilege E s o2pt (Some a) ACOP_DISCOVERY) E s o2pt
           (e_db_get_descendants E (db s) o2pt n True);
         (_, o2pt, s) \<leftarrow> make_response_body_retrieve E s o2pt target None arr;
         Some (RSC_OK, o2pt\<lparr>p_rsc := RSC_OK\<rparr>, s) } }"

section \<open>The index implements grouping by parent\<close>

subsection \<open>The contract\<close>

text \<open>An index from keys to lists: a new entry goes to the front of the list of its key.\<close>

locale child_index =
  fixes ok :: "'m \<Rightarrow> bool" and empty :: 'm and put :: "'m \<Rightarrow> 'k \<Rightarrow> 'v \<Rightarrow> 'm" and get :: "'m \<Rightarrow> 'k \<Rightarrow> 'v list"
  assumes ok_empty: "ok empty"
    and get_empty: "get empty k = []"
    and ok_put: "ok m \<Longrightarrow> ok (put m k v)"
    and get_put: "ok m \<Longrightarrow> get (put m k v) k' = (if k = k' then v # get m k' else get m k')"
begin

lemma fold_put:
  assumes "ok m"
  shows "ok (foldl (\<lambda>m (k, v). put m k v) m xs) \<and>
    get (foldl (\<lambda>m (k, v). put m k v) m xs) k = rev (map snd (filter (\<lambda>(k', _). k' = k) xs)) @ get m k"
  using assms by (induction xs arbitrary: m) (auto simp: ok_put get_put)

lemma index_of_list: "get (foldl (\<lambda>m (k, v). put m k v) empty xs) k = rev (map snd (filter (\<lambda>(k', _). k' = k) xs))"
  using fold_put [OF ok_empty] by (simp add: get_empty)

end

subsection \<open>The hash map\<close>

lemma hash_str_less [simp]: "hash_str s < PI_MAP_SIZE"
  by (simp add: hash_str_def)

lemma map_of_bucket_put:
  "bucket_put es pi c = Some es' \<Longrightarrow>
     map_of es' k = (if k = pi then Some (c # (case map_of es pi of None \<Rightarrow> [] | Some cs \<Rightarrow> cs)) else map_of es k)"
  by (induction es arbitrary: es') (auto split: if_splits)

lemma bucket_put_None: "bucket_put es pi c = None \<Longrightarrow> map_of es pi = None"
  by (induction es) (auto split: if_splits)

interpretation pi: child_index "\<lambda>m. length m = PI_MAP_SIZE" pimap_empty pimap_put pimap_get
proof unfold_locales
  fix m :: pimap and k k' :: string and v :: child_slot
  assume "length m = PI_MAP_SIZE"
  then have "hash_str k < length m" "hash_str k' < length m" using hash_str_less by auto
  then show "pimap_get (pimap_put m k v) k' = (if k = k' then v # pimap_get m k' else pimap_get m k')"
    by (auto simp: pimap_get_def pimap_put_def Let_def nth_list_update map_of_bucket_put dest: bucket_put_None split: option.splits)
qed (auto simp: pimap_empty_def pimap_get_def pimap_put_def Let_def)

text \<open>A descendant as the code reads it: its parent identifier, position, type and object.\<close>

definition descendant :: "nat \<Rightarrow> cjson \<Rightarrow> (string \<times> child_slot) option" where
  "descendant i item =
     do {
       ty \<leftarrow> cJSON_GetObjectItem (Some item) ''ty'';
       pi \<leftarrow> member_string (Some item) ''pi'';
       obj \<leftarrow> cJSON_GetObjectItem (Some item) ''obj'';
       Some (pi, i, valueint ty, obj) }"

lemma restruct_items_foldl:
  assumes "list_all2 (\<lambda>(i, item) d. descendant i item = Some d) (enumerate i xs) ds"
  shows "restruct_items m i xs = Some (foldl (\<lambda>m (k, v). pimap_put m k v) m ds)"
  using assms
proof (induction xs arbitrary: m i ds)
  case (Cons item xs)
  then obtain d ds' where ds: "ds = d # ds'" "descendant i item = Some d"
    "list_all2 (\<lambda>(i, item) d. descendant i item = Some d) (enumerate (Suc i) xs) ds'"
    by (auto simp: list_all2_Cons1)
  then have step: "restruct_items m i (item # xs) = restruct_items (pimap_put m (fst d) (snd d)) (Suc i) xs"
    by (auto simp: descendant_def bind_eq_Some_conv)
  show ?case
    unfolding step Cons.IH [OF ds(3)] by (cases d) (simp add: ds(1))
qed simp

text \<open>
  C40. The hash map groups the descendants by parent: whatever the identifiers hash to, looking
  a parent identifier up gives exactly the descendants with that parent, the last one first.
\<close>

theorem restruct_groups_children:
  assumes "list_all2 (\<lambda>(i, item) d. descendant i item = Some d) (enumerate 0 (elems arr)) ds"
  shows "\<exists>m. restruct_descendant_arr_to_hash arr = Some m \<and>
    (\<forall>ri. pimap_get m ri = rev (map snd (filter (\<lambda>(pi, _). pi = ri) ds)))"
  using restruct_items_foldl [OF assms] pi.index_of_list by (auto simp: restruct_descendant_arr_to_hash_def)

definition ex_descendants :: "cjson list" where
  "ex_descendants = map (\<lambda>(ri, pi). JObject [(''ty'', JNumber RT_CNT), (''pi'', JString pi), (''obj'', JObject [(''ri'', JString ri)])])
     [(''3-1'', ''cb''), (''3-2'', ''3-1''), (''3-3'', ''cb'')]"

theorem restruct_groups_children_witness:
  "\<exists>m. restruct_descendant_arr_to_hash (Some (JArray ex_descendants)) = Some m \<and>
    pimap_get m ''cb'' = [(2, RT_CNT, JObject [(''ri'', JString ''3-3'')]), (0, RT_CNT, JObject [(''ri'', JString ''3-1'')])]"
proof -
  let ?ds = "[(''cb'', 0, RT_CNT, JObject [(''ri'', JString ''3-1'')]), (''3-1'', 1, RT_CNT, JObject [(''ri'', JString ''3-2'')]),
    (''cb'', 2, RT_CNT, JObject [(''ri'', JString ''3-3'')])]"
  have "list_all2 (\<lambda>(i, item) d. descendant i item = Some d) (enumerate 0 (elems (Some (JArray ex_descendants)))) ?ds"
    by (simp add: ex_descendants_def descendant_def member_string_def ci_eq_def tolower_def enumerate_eq_zip INT_MAX_def INT_MIN_def)
  from restruct_groups_children [OF this] show ?thesis by force
qed

end
