(* ===== verification/Dispatch.thy ===== *)
theory Dispatch
  imports Deletion Subscription RegistrationTypes Retrieve
begin

text \<open>
  Requests (\<^verbatim>\<open>main.c\<close>, \<^verbatim>\<open>onem2m.c\<close>, \<^verbatim>\<open>rtManager.c\<close>): creation, update and notification of a resource with
  their checks, the choice of the operation, the fan-out of a group, the resolution of the target
  and the handling of a request from its arrival to the notification of subscriptions.
\<close>

section \<open>Creation\<close>

text \<open>The contents of a request for a flexContainer are under a name with a colon.\<close>

definition new_contents :: "oneM2MPrimitive \<Rightarrow> cjson option option" where
  "new_contents o2pt =
     (case cJSON_GetObjectItem (p_request_pc o2pt) (get_resource_key (p_ty o2pt)) of
        Some j \<Rightarrow> Some (Some j)
      | None \<Rightarrow>
          if p_ty o2pt \<noteq> RT_FCNT then Some None
          else do { pc \<leftarrow> p_request_pc o2pt; Some (map_option snd (flex_member True (items pc))) })"

text \<open>The check of \<^verbatim>\<open>et\<close>: a CSEBase announcement loses the attribute, elsewhere it must not be past.\<close>

definition check_et :: "'d env \<Rightarrow> oneM2MPrimitive \<Rightarrow> (bool \<times> oneM2MPrimitive) option" where
  "check_et E o2pt =
     do {
       pjson \<leftarrow> new_contents o2pt;
       Some (case cJSON_GetObjectItem pjson ''et'' of
               None \<Rightarrow> (True, o2pt)
             | Some et \<Rightarrow>
                 if p_ty o2pt = RT_CBA
                 then (True, o2pt\<lparr>p_request_pc := map_option (\<lambda>pc. modify_member pc (get_resource_key RT_CBA)
                         (\<lambda>j. cJSON_DeleteItemFromObject j ''et'')) (p_request_pc o2pt)\<rparr>)
                 else (isETvalid E (valuestring et), o2pt)) }"

definition create_by_type :: "'d env \<Rightarrow> 'd cse \<Rightarrow> oneM2MPrimitive \<Rightarrow> addr \<Rightarrow> 'd outcome" where
  "create_by_type E s o2pt parent =
     (let ty = p_ty o2pt; plain = (\<lambda>(rsc, o2pt). Some (rsc, o2pt, s)) in
      if ty = RT_AE then create_ae E s o2pt parent
      else if ty = RT_CNT then create_cnt E s o2pt parent
      else if ty = RT_CIN then create_cin E s o2pt parent
      else if ty = RT_SUB then create_sub E s o2pt parent
      else if ty = RT_ACP then create_acp E s o2pt parent
      else if ty = RT_GRP then create_grp E s o2pt parent
      else if ty = RT_CSR then create_csr E s o2pt parent
      else if ty = RT_TS then create_ts E s o2pt parent
      else if ty = RT_TSI then create_tsi E s o2pt parent
      else if ty = RT_FCNT then create_fcnt E s o2pt parent
      else if ty = RT_FCIN
      then plain (if RVI_4 \<le> p_rvi o2pt then create_fcin o2pt
                  else reject o2pt RSC_BAD_REQUEST ''resource type not supported'')
      else if ty \<in> {RT_ACPA, RT_AEA, RT_CBA, RT_CNTA, RT_CINA, RT_GRPA, RT_TSA} then create_annc E s o2pt parent
      else if ty = RT_MIXED then plain (reject o2pt RSC_BAD_REQUEST ''resource type error'')
      else Some (0, o2pt, s))"

text \<open>The checks before the creation: \<open>- 1\<close> when the request is refused.\<close>

definition create_checks :: "'d env \<Rightarrow> 'd cse \<Rightarrow> oneM2MPrimitive \<Rightarrow> addr \<Rightarrow> 'd outcome" where
  "create_checks E s o2pt parent =
     (let (e, o2pt) = check_resource_type_invalid o2pt in
      if e = - 1 then Some (- 1, o2pt, s)
      else let (e, o2pt) = check_payload_empty o2pt in
      if e = - 1 then Some (- 1, o2pt, s)
      else let (e, o2pt) = check_resource_type_equal o2pt in
      if e = - 1 then Some (- 1, o2pt, s)
      else do {
        (e, o2pt, s) \<leftarrow> check_privilege E s o2pt (Some parent) ACOP_CREATE;
        if e = - 1 then Some (- 1, o2pt, s)
        else do {
          (e, o2pt) \<leftarrow> check_rn_duplicate (e_db_check_cin_rn_dup E (db s)) (heap s) o2pt (Some parent);
          Some (e, o2pt, s) } })"

definition create_onem2m_resource :: "'d env \<Rightarrow> 'd cse \<Rightarrow> oneM2MPrimitive \<Rightarrow> addr \<Rightarrow> 'd outcome" where
  "create_onem2m_resource E s o2pt parent =
     do {
       (e, o2pt, s) \<leftarrow> create_checks E s o2pt parent;
       let refuse = (\<lambda>rsc m. Some (rsc, handle_error o2pt rsc m, s));
       if e = - 1 then Some (p_rsc o2pt, o2pt, s)
       else do {
         (ok, msg) \<leftarrow> (if p_ty o2pt \<noteq> RT_FCNT \<and> p_ty o2pt \<noteq> RT_FCIN then is_attr_valid (p_request_pc o2pt) (p_ty o2pt)
                       else Some (True, []));
         p \<leftarrow> heap s parent;
         if \<not> ok then refuse RSC_BAD_REQUEST msg
         else if \<not> isValidChildType (n_ty p) (p_ty o2pt)
         then (if p_ty o2pt = RT_SUB then refuse RSC_TARGET_NOT_SUBSCRIBABLE ''target not subscribable''
               else if p_ty o2pt = RT_FCIN then refuse RSC_OPERATION_NOT_ALLOWED ''creating FCIN is forbidden''
               else refuse RSC_INVALID_CHILD_RESOURCETYPE ''child type error'')
         else do {
           (ok, o2pt) \<leftarrow> check_et E o2pt;
           if \<not> ok then refuse RSC_BAD_REQUEST ''attribute `et` is invalid''
           else do {
             (rsc, o2pt, s) \<leftarrow> create_by_type E s o2pt parent;
             p \<leftarrow> heap s parent;
             s \<leftarrow> (if rsc = RSC_CREATED \<and> (p_ty o2pt = RT_CNT \<or> p_ty o2pt = RT_FCNT) \<and> n_ty p = RT_FCNT
                   then increment_parent_statetag E s parent else Some s);
             Some (rsc, o2pt, s) } } } }"

section \<open>Update\<close>

definition get_request_resource_content :: "oneM2MPrimitive \<Rightarrow> int \<Rightarrow> cjson option" where
  "get_request_resource_content o2pt ty =
     (case p_request_pc o2pt of
        None \<Rightarrow> None
      | Some pc \<Rightarrow>
          (case cJSON_GetObjectItem (Some pc) (get_resource_key ty) of
             Some j \<Rightarrow> Some j
           | None \<Rightarrow> if ty = RT_FCNT then map_option snd (flex_member False (items pc)) else None))"

text \<open>A case for a flexContainerInstance has no \<^verbatim>\<open>break\<close> and goes on with the update of a time series.\<close>

definition update_by_type :: "'d env \<Rightarrow> 'd cse \<Rightarrow> oneM2MPrimitive \<Rightarrow> addr \<Rightarrow> int \<Rightarrow> 'd outcome" where
  "update_by_type E s o2pt target ty =
     (let refuse = (\<lambda>m. Some (RSC_OPERATION_NOT_ALLOWED, handle_error o2pt RSC_OPERATION_NOT_ALLOWED m, s)) in
      if ty = RT_AE then update_ae E s o2pt target
      else if ty = RT_CNT then update_cnt E s o2pt target
      else if ty = RT_CIN then refuse ''operation `update` for cin is not allowed''
      else if ty = RT_SUB then update_sub E s o2pt target
      else if ty = RT_ACP then update_acp E s o2pt target
      else if ty = RT_GRP then update_grp E s o2pt target
      else if ty = RT_CSR then update_csr E s o2pt target
      else if ty = RT_FCNT then update_fcnt E s o2pt target
      else if ty = RT_FCIN
      then update_ts E s (snd (if RVI_4 \<le> p_rvi o2pt then update_fcin o2pt
                               else reject o2pt RSC_OPERATION_NOT_ALLOWED ''operation `update` is unsupported'')) target
      else if ty = RT_TS then update_ts E s o2pt target
      else if ty = RT_TSI then refuse ''operation `update` for tsi is not allowed''
      else if ty \<in> {RT_ACPA, RT_CBA, RT_AEA, RT_CNTA, RT_CINA, RT_GRPA, RT_TSA} then update_annc E s o2pt target
      else refuse ''operation `update` is unsupported'')"

text \<open>The update requests for the announced copies are sent one after the other.\<close>

fun send_announcements :: "'d env \<Rightarrow> 'd cse \<Rightarrow> oneM2MPrimitive list \<Rightarrow> 'd cse option" where
  "send_announcements E s [] = Some s"
| "send_announcements E s (req # reqs) =
     do {
       csr \<leftarrow> find_csr_rtnode_by_uri s (p_to req);
       (_, _, s) \<leftarrow> forwarding_onem2m_resource E s req csr;
       send_announcements E s reqs }"

definition update_checks :: "'d env \<Rightarrow> 'd cse \<Rightarrow> oneM2MPrimitive \<Rightarrow> addr \<Rightarrow> bool \<Rightarrow> 'd outcome" where
  "update_checks E s o2pt target acpi =
     (if acpi then check_acpi_update_privilege E s o2pt (Some target) else check_privilege E s o2pt (Some target) ACOP_UPDATE)"

definition apply_update :: "'d env \<Rightarrow> 'd cse \<Rightarrow> oneM2MPrimitive \<Rightarrow> addr \<Rightarrow> int \<Rightarrow> 'd outcome" where
  "apply_update E s o2pt target ty =
     do {
       n \<leftarrow> heap s target;
       let prev_aa = cJSON_GetObjectItem (n_obj n) ''aa'';
       snap \<leftarrow> getResource (p_request_pc o2pt) (n_ty n);
       (rsc, o2pt, s) \<leftarrow> update_by_type E s o2pt target ty;
       s \<leftarrow> (if rsc < RSC_BAD_REQUEST
             then do {
               n \<leftarrow> heap s target;
               reqs \<leftarrow> announce_to_annc o2pt n prev_aa snap;
               send_announcements E s reqs }
             else Some s);
       Some (rsc, o2pt, s) }"

definition update_onem2m_resource :: "'d env \<Rightarrow> 'd cse \<Rightarrow> oneM2MPrimitive \<Rightarrow> addr \<Rightarrow> 'd outcome" where
  "update_onem2m_resource E s o2pt target =
     do {
       n \<leftarrow> heap s target;
       let forbid = (\<lambda>o2pt m. Some (RSC_OPERATION_NOT_ALLOWED, handle_error o2pt RSC_OPERATION_NOT_ALLOWED m, s));
       if n_ty n = RT_CSE then forbid o2pt ''CSE cannot be updated''
       else if n_ty n = RT_FCIN then forbid o2pt ''updating FCIN is forbidden''
       else do {
         let o2pt = o2pt\<lparr>p_ty := n_ty n\<rparr>;
         if n_ty n = RT_CIN then forbid o2pt ''operation `update` for cin is not allowed''
         else if n_ty n = RT_TSI then forbid o2pt ''operation `update` for tsi is not allowed''
         else do {
           let (e, o2pt) = check_payload_empty o2pt;
           let ty = parse_object_type_cjson (p_request_pc o2pt);
           let (e, o2pt) = (if e = - 1 then (e, o2pt) else check_resource_type_equal o2pt);
           let contents = get_request_resource_content o2pt ty;
           let acpi = (cJSON_GetObjectItem contents ''acpi'' \<noteq> None);
           if e = - 1 then Some (p_rsc o2pt, o2pt, s)
           else if acpi \<and> cJSON_GetArraySize contents \<noteq> 1
           then Some (RSC_BAD_REQUEST, handle_error o2pt RSC_BAD_REQUEST
             ''attribute `acpi` shall be the only attribute in an UPDATE request'', s)
           else do {
             (e, o2pt, s) \<leftarrow> update_checks E s o2pt target acpi;
             if e = - 1 then Some (p_rsc o2pt, o2pt, s)
             else do {
               (ok, msg) \<leftarrow> (if p_ty o2pt \<noteq> RT_FCNT \<and> p_ty o2pt \<noteq> RT_FCIN then is_attr_valid (p_request_pc o2pt) (p_ty o2pt)
                             else Some (True, []));
               if \<not> ok then Some (RSC_BAD_REQUEST, handle_error o2pt RSC_BAD_REQUEST msg, s)
               else (case cJSON_GetObjectItem contents ''et'' of
                       None \<Rightarrow> apply_update E s o2pt target ty
                     | Some et \<Rightarrow>
                         if isETvalid E (valuestring et) then apply_update E s o2pt target ty
                         else Some (RSC_BAD_REQUEST, handle_error o2pt RSC_BAD_REQUEST ''attribute `et` is invalid'', s)) } } } } }"

section \<open>Notification requests\<close>

definition notify_onem2m_resource :: "'d env \<Rightarrow> 'd cse \<Rightarrow> oneM2MPrimitive \<Rightarrow> addr \<Rightarrow> (oneM2MPrimitive \<times> 'd cse) option" where
  "notify_onem2m_resource E s o2pt target =
     do {
       (e, o2pt', s) \<leftarrow> check_privilege E s o2pt (Some target) ACOP_NOTIFY;
       if cJSON_GetObjectItem (cJSON_GetObjectItem (p_request_pc o2pt) ''m2m:sgn'') ''vrq'' = Some JTrue
       then Some (o2pt'\<lparr>p_rsc := if e = - 1 then RSC_SUBSCRIPTION_CREATOR_HAS_NO_PRIVILEGE else RSC_OK\<rparr>, s)
       else if e \<noteq> 0
       then Some (handle_error o2pt' RSC_ORIGINATOR_HAS_NO_PRIVILEGE ''permission denied'', s)
       else do {
         (_, s) \<leftarrow> requestToResource E s o2pt' (Some target);
         Some (o2pt'\<lparr>p_rsc := RSC_OK\<rparr>, s) } }"

section \<open>Choice of the operation\<close>

definition rcn_refused :: "operation \<Rightarrow> int \<Rightarrow> string option" where
  "rcn_refused op rcn =
     (if op = OP_CREATE
      then (if rcn \<in> {RCN_ATTRIBUTES_AND_CHILD_RESOURCES, RCN_CHILD_RESOURCES, RCN_ATTRIBUTES_AND_CHILD_RESOURCE_REFERENCES,
                RCN_CHILD_RESOURCE_REFERENCES, RCN_ORIGINAL_RESOURCE, RCN_SEMANTIC_CONTENT, RCN_PERMISSIONS}
            then Some ''requested rcn is not supported for create operation'' else None)
      else if op = OP_RETRIEVE
      then (if rcn \<in> {RCN_MODIFIED_ATTRIBUTES, RCN_HIERARCHICAL_ADDRESS, RCN_HIERARCHICAL_ADDRESS_ATTRIBUTES, RCN_NOTHING,
                RCN_DISCOVERY_RESULT_REFERENCES}
            then Some ''requested rcn is not supported for retrieve operation'' else None)
      else if op = OP_UPDATE
      then (if rcn \<in> {RCN_HIERARCHICAL_ADDRESS, RCN_HIERARCHICAL_ADDRESS_ATTRIBUTES, RCN_CHILD_RESOURCES,
                RCN_ATTRIBUTES_AND_CHILD_RESOURCE_REFERENCES, RCN_CHILD_RESOURCE_REFERENCES, RCN_ORIGINAL_RESOURCE,
                RCN_SEMANTIC_CONTENT, RCN_PERMISSIONS}
            then Some ''requested rcn is not supported for update operation'' else None)
      else if op = OP_DELETE
      then (if rcn \<in> {RCN_MODIFIED_ATTRIBUTES, RCN_HIERARCHICAL_ADDRESS, RCN_HIERARCHICAL_ADDRESS_ATTRIBUTES, RCN_ORIGINAL_RESOURCE,
                RCN_SEMANTIC_CONTENT, RCN_PERMISSIONS}
            then Some ''requested rcn is not supported for delete operation'' else None)
      else if op = OP_DISCOVERY
      then (if rcn \<noteq> RCN_CHILD_RESOURCE_REFERENCES \<and> rcn \<noteq> RCN_DISCOVERY_RESULT_REFERENCES
            then Some ''requested rcn is not supported for discovery operation'' else None)
      else None)"

text \<open>A request that is refused for its result content, and a notification, return 0.\<close>

definition handle_onem2m_request :: "'d env \<Rightarrow> 'd cse \<Rightarrow> oneM2MPrimitive \<Rightarrow> ptr \<Rightarrow> 'd outcome" where
  "handle_onem2m_request E s o2pt target_rtnode =
     (case target_rtnode of
        None \<Rightarrow> Some (RSC_INTERNAL_SERVER_ERROR, o2pt\<lparr>p_rsc := RSC_INTERNAL_SERVER_ERROR\<rparr>, s)
      | Some target \<Rightarrow>
          (case rcn_refused (p_op o2pt) (p_rcn o2pt) of
             Some m \<Rightarrow> Some (0, handle_error o2pt RSC_BAD_REQUEST m, s)
           | None \<Rightarrow>
               (case p_op o2pt of
                  OP_CREATE \<Rightarrow> create_onem2m_resource E s o2pt target
                | OP_RETRIEVE \<Rightarrow> retrieve_onem2m_resource E s o2pt target
                | OP_UPDATE \<Rightarrow> update_onem2m_resource E s o2pt target
                | OP_DELETE \<Rightarrow> delete_onem2m_resource E s o2pt target
                | OP_OPTIONS \<Rightarrow> Some (RSC_OK, o2pt, s)
                | OP_DISCOVERY \<Rightarrow> discover_onem2m_resource E s o2pt target
                | OP_NOTIFY \<Rightarrow> do { (o2pt, s) \<leftarrow> notify_onem2m_resource E s o2pt target; Some (0, o2pt, s) }
                | _ \<Rightarrow> Some (RSC_INTERNAL_SERVER_ERROR,
                         handle_error o2pt RSC_INTERNAL_SERVER_ERROR ''internal server error'', s))))"

section \<open>Fan-out\<close>

text \<open>The address of the request to a member, which is stored by its identifier.\<close>

definition member_address :: "'d env \<Rightarrow> 'd cse \<Rightarrow> string option \<Rightarrow> string \<Rightarrow> (string \<times> 'd cse) option" where
  "member_address E s fopt mid =
     (case fopt of
        None \<Rightarrow> Some (mid, s)
      | Some rest \<Rightarrow>
          if starts_with mid CSE_BASE_NAME then Some (mid @ rest, s)
          else do { (uri, s) \<leftarrow> ri_to_uri E s mid; u \<leftarrow> uri; Some (u @ rest, s) })"

text \<open>
  The node of a member and the response code of a remote retrieval; an address that is neither relative to the CSE nor to the service provider
  leaves the node of the member before.
\<close>

definition member_node ::
    "'d env \<Rightarrow> 'd cse \<Rightarrow> oneM2MPrimitive \<Rightarrow> addressing \<Rightarrow> ptr \<Rightarrow> (ptr \<times> int \<times> oneM2MPrimitive \<times> 'd cse) option" where
  "member_node E s req rat cur =
     (if rat = CSE_RELATIVE \<or> rat = SP_RELATIVE \<and> isSpRelativeLocal (p_to req)
      then do { (p, s) \<leftarrow> find_rtnode E s (p_to req); Some (p, 0, req, s) }
      else if rat = SP_RELATIVE
      then do {
        (p, rsc, s) \<leftarrow> get_remote_resource E s (p_to req) (p_fr req) 0;
        Some (p, rsc, if p = None then req\<lparr>p_rsc := rsc\<rparr> else req, s) }
      else Some (cur, 0, req, s))"

text \<open>
  After a request other than a deletion an instance that is not the latest one is freed, and so is
  the copy of a remote member, whatever the operation was.
\<close>

definition release_member :: "'d cse \<Rightarrow> oneM2MPrimitive \<Rightarrow> addr \<Rightarrow> bool \<Rightarrow> (ptr \<times> 'd cse) option" where
  "release_member s req a remote =
     do {
       (p, s) \<leftarrow>
         (if p_op req = OP_DELETE then Some (Some a, s)
          else do {
            n \<leftarrow> heap s a;
            if n_ty n = RT_CIN
            then do {
              rn \<leftarrow> n_rn n;
              if rn \<noteq> ''la'' then do { h \<leftarrow> free_rtnode (heap s) a; Some (None, s\<lparr>heap := h\<rparr>) } else Some (Some a, s) }
            else Some (Some a, s) });
       if remote then do { b \<leftarrow> p; h \<leftarrow> free_rtnode (heap s) b; Some (None, s\<lparr>heap := h\<rparr>) } else Some (p, s) }"

text \<open>
  The loop over the members: the answers, whether a member was deleted, or \<open>Inl\<close> when a member
  cannot have the new child. \<open>cur\<close> is the node of the member before.
\<close>

fun fan_out ::
    "'d env \<Rightarrow> 'd cse \<Rightarrow> oneM2MPrimitive \<Rightarrow> int \<Rightarrow> cjson list \<Rightarrow> ptr \<Rightarrow> cjson list \<Rightarrow> bool \<Rightarrow>
       ((unit + cjson list \<times> bool) \<times> 'd cse) option" where
  "fan_out E s o2pt mt [] cur rsp updated = Some (Inr (rsp, updated), s)"
| "fan_out E s o2pt mt (m # ms) cur rsp updated =
     (case m of
        JString (c # cs) \<Rightarrow> do {
          let mid = c # cs;
          req \<leftarrow> o2ptcpy o2pt;
          (to, s) \<leftarrow> member_address E s (p_fopt o2pt) mid;
          let req = req\<lparr>p_to := Some to, p_isFopt := False\<rparr>;
          rat \<leftarrow> checkResourceAddressingType (Some mid);
          (p, rsc, req, s) \<leftarrow> member_node E s req rat cur;
          let remote = (rat = SP_RELATIVE \<and> \<not> isSpRelativeLocal (Some mid));
          case p of
            None \<Rightarrow> fan_out E s o2pt mt ms None (if remote then rsp @ [o2pt_to_json req] else rsp) (updated \<or> rsc = RSC_DELETED)
          | Some a \<Rightarrow> do {
              n \<leftarrow> heap s a;
              if p_op o2pt = OP_CREATE \<and> mt = RT_MIXED \<and> \<not> isValidChildType (n_ty n) (p_ty req) then Some (Inl (), s)
              else do {
                (rsc, req, s) \<leftarrow> handle_onem2m_request E s req (Some a);
                (cur, s) \<leftarrow> release_member s req a remote;
                fan_out E s o2pt mt ms cur (rsp @ [o2pt_to_json req]) (updated \<or> rsc = RSC_DELETED) } } }
      | _ \<Rightarrow> fan_out E s o2pt mt ms cur rsp updated)"

text \<open>
  \<^verbatim>\<open>check_macp_privilege\<close> returns the response code when it refuses, and only \<open>- 1\<close> stops the request.
\<close>

definition fopt_onem2m_resource :: "'d env \<Rightarrow> 'd cse \<Rightarrow> oneM2MPrimitive \<Rightarrow> ptr \<Rightarrow> 'd outcome" where
  "fopt_onem2m_resource E s o2pt parent_rtnode =
     (case parent_rtnode of
        None \<Rightarrow> Some (RSC_NOT_FOUND, o2pt\<lparr>p_rsc := RSC_NOT_FOUND\<rparr>, s)
      | Some g \<Rightarrow> do {
          n \<leftarrow> heap s g;
          mt \<leftarrow> member_int (n_obj n) ''mt'';
          (e, o2pt, s) \<leftarrow> check_macp_privilege E s o2pt (Some g) (op_to_acop (p_op o2pt));
          if e = - 1 then Some (p_rsc o2pt, o2pt, s)
          else do {
            n \<leftarrow> heap s g;
            cnm \<leftarrow> member_int (n_obj n) ''cnm'';
            if cnm = 0 then Some (RSC_NO_MEMBERS, o2pt\<lparr>p_rsc := RSC_NO_MEMBERS\<rparr>, s)
            else do {
              (r, s) \<leftarrow> fan_out E s o2pt mt (elems (cJSON_GetObjectItem (n_obj n) ''mid'')) None [] False;
              case r of
                Inl _ \<Rightarrow> Some (RSC_INVALID_CHILD_RESOURCETYPE,
                  handle_error o2pt RSC_INVALID_CHILD_RESOURCETYPE ''invalid child resource type'', s)
              | Inr (rsp, updated) \<Rightarrow> do {
                  s \<leftarrow> (if updated then db_save E s g RT_GRP else Some s);
                  Some (RSC_OK, o2pt\<lparr>p_rsc := RSC_OK,
                    p_response_pc := Some (JObject [(''m2m:agr'', JObject [(''m2m:rsp'', JArray rsp)])])\<rparr>, s) } } } })"

section \<open>Target of a request\<close>

definition forward_request ::
    "'d env \<Rightarrow> 'd cse \<Rightarrow> oneM2MPrimitive \<Rightarrow> string \<Rightarrow> int \<Rightarrow> string \<Rightarrow> (ptr \<times> oneM2MPrimitive \<times> 'd cse) option" where
  "forward_request E s o2pt uri missing m =
     do {
       let o2pt = o2pt\<lparr>p_isForwarding := True\<rparr>;
       csr \<leftarrow> find_csr_rtnode_by_uri s (Some uri);
       if csr = None then Some (None, handle_error o2pt missing m, s)
       else do {
         (rsc, o2pt, s) \<leftarrow> forwarding_onem2m_resource E s o2pt csr;
         Some (None, if 4000 \<le> rsc then handle_error o2pt rsc ''Forwarding Failed'' else o2pt, s) } }"

definition parse_spr_uri :: "'d env \<Rightarrow> 'd cse \<Rightarrow> oneM2MPrimitive \<Rightarrow> string \<Rightarrow> (ptr \<times> oneM2MPrimitive \<times> 'd cse) option" where
  "parse_spr_uri E s o2pt uri =
     (if isSpRelativeLocal (Some uri)
      then (let rest = drop 1 uri;
                k = (if starts_with rest CSE_BASE_NAME then length CSE_BASE_NAME else length CSE_BASE_RI)
            in if rest = CSE_BASE_RI \<or> rest = CSE_BASE_NAME \<or> drop (k + 2) uri = []
               then Some (None, handle_error o2pt RSC_BAD_REQUEST ''Invalid uri'', s)
               else do { (p, s) \<leftarrow> find_rtnode E s (Some (drop (k + 2) uri)); Some (p, o2pt, s) })
      else forward_request E s o2pt uri RSC_NOT_FOUND ''Resource Not Found'')"

definition parse_abs_uri :: "'d env \<Rightarrow> 'd cse \<Rightarrow> oneM2MPrimitive \<Rightarrow> string \<Rightarrow> (ptr \<times> oneM2MPrimitive \<times> 'd cse) option" where
  "parse_abs_uri E s o2pt uri =
     (if isSPIDLocal (Some uri)
      then (let rest = drop (length CSE_BASE_SP_ID + 2) uri
            in if drop 2 uri = CSE_BASE_SP_ID \<or> rest = []
               then Some (None, handle_error o2pt RSC_BAD_REQUEST ''Invalid uri'', s)
               else parse_spr_uri E s o2pt rest)
      else forward_request E s o2pt uri RSC_BAD_REQUEST ''Remote CSE not found'')"

text \<open>The part of the address after \<^verbatim>\<open>/fopt\<close>, when the target is a group and the address is longer than its own.\<close>

definition set_fopt :: "oneM2MPrimitive \<Rightarrow> rtnode \<Rightarrow> string \<Rightarrow> oneM2MPrimitive option" where
  "set_fopt o2pt n uri =
     (if n_ty n \<noteq> RT_GRP then Some o2pt
      else do {
        u \<leftarrow> get_uri_rtnode n;
        Some (if length uri \<le> length u then o2pt
              else (case strstr uri ''/fopt'' of
                      None \<Rightarrow> o2pt
                    | Some r \<Rightarrow>
                        if length r = 5 then o2pt\<lparr>p_isFopt := True, p_fopt := None\<rparr>
                        else if r ! 5 = CHR ''/'' then o2pt\<lparr>p_isFopt := True, p_fopt := Some (drop 5 r)\<rparr>
                        else o2pt)) })"

definition get_rtnode :: "'d env \<Rightarrow> 'd cse \<Rightarrow> oneM2MPrimitive \<Rightarrow> (ptr \<times> oneM2MPrimitive \<times> 'd cse) option" where
  "get_rtnode E s o2pt =
     (case p_to o2pt of
        None \<Rightarrow> Some (None, handle_error o2pt RSC_BAD_REQUEST ''Invalid uri'', s)
      | Some uri \<Rightarrow> do {
          rat \<leftarrow> checkResourceAddressingType (Some uri);
          (p, o2pt, s) \<leftarrow>
            (if rat = CSE_RELATIVE then do { (p, s) \<leftarrow> find_rtnode E s (Some uri); Some (p, o2pt, s) }
             else if rat = SP_RELATIVE then parse_spr_uri E s o2pt uri
             else if rat = ABSOLUTE then parse_abs_uri E s o2pt uri
             else Some (None, o2pt, s));
          case p of
            None \<Rightarrow> Some (None, o2pt, s)
          | Some a \<Rightarrow> do { n \<leftarrow> heap s a; o2pt \<leftarrow> set_fopt o2pt n uri; Some (Some a, o2pt, s) } })"

section \<open>A request from arrival to notification\<close>

text \<open>
  The target after the request: an instance that is not in the tree is freed, a deleted target is
  not used any more.
\<close>

definition free_temporary :: "'d cse \<Rightarrow> oneM2MPrimitive \<Rightarrow> addr \<Rightarrow> (ptr \<times> 'd cse) option" where
  "free_temporary s o2pt a =
     (if p_op o2pt = OP_DELETE then Some (Some a, s)
      else do {
        n \<leftarrow> heap s a;
        let free = do { h \<leftarrow> free_rtnode (heap s) a; Some (None, s\<lparr>heap := h\<rparr>) };
        if n_ty n = RT_CIN then do { rn \<leftarrow> n_rn n; if rn \<noteq> ''la'' then free else Some (Some a, s) }
        else if n_ty n = RT_FCIN
        then (case n_parent n of
                None \<Rightarrow> Some (Some a, s)
              | Some q \<Rightarrow> do {
                  p \<leftarrow> heap s q;
                  if n_child p \<noteq> Some a \<and> n_sibling_left n = None then free else Some (Some a, s) })
        else Some (Some a, s) })"

definition route :: "'d env \<Rightarrow> 'd cse \<Rightarrow> oneM2MPrimitive \<Rightarrow> (oneM2MPrimitive \<times> 'd cse) option" where
  "route E s o2pt =
     do {
       (p, o2pt, s) \<leftarrow> get_rtnode E s o2pt;
       if 4000 \<le> p_rsc o2pt \<or> p_isForwarding o2pt then Some (o2pt, s)
       else do {
         let (e, o2pt) = result_parse_uri o2pt p;
         let (e, o2pt) = (if e = - 1 then (e, o2pt) else check_mandatory_attributes o2pt);
         if e = - 1 then Some (o2pt, s)
         else do {
           target \<leftarrow> p;
           (rsc, o2pt) \<leftarrow> (if p_fc o2pt = None then Some (0, o2pt) else validate_filter_criteria o2pt);
           if 4000 \<le> rsc then Some (o2pt, s)
           else do {
             (p, o2pt, s) \<leftarrow>
               (if p_isFopt o2pt
                then do { (_, o2pt, s) \<leftarrow> fopt_onem2m_resource E s o2pt (Some target); Some (Some target, o2pt, s) }
                else do {
                  (_, o2pt, s) \<leftarrow> handle_onem2m_request E s o2pt (Some target);
                  (p, s) \<leftarrow> free_temporary s o2pt target;
                  Some (p, o2pt, s) });
             if p_op o2pt \<noteq> OP_DELETE \<and> \<not> p_errFlag o2pt
             then (case p of
                     None \<Rightarrow> Some (o2pt, s)
                   | Some a \<Rightarrow> do { s \<leftarrow> notify_via_sub E s o2pt a; Some (o2pt, s) })
             else Some (o2pt, s) } } } }"

end
