(* ===== verification/LifecycleProps.thy ===== *)
theory LifecycleProps
  imports Lifecycle
begin

text \<open>
  The creation of a container from the contents of the request to the answer: the resource has
  the attributes the CSE assigns, it is in the tree and resolves by its address, and the answer
  carries it.
\<close>

section \<open>Contents without server attributes\<close>

definition lacks :: "(string \<times> cjson) list \<Rightarrow> string list \<Rightarrow> bool" where
  "lacks kvs ks \<longleftrightarrow> list_all (\<lambda>k. find_member kvs k = None) ks"

definition general_members :: "'d env \<Rightarrow> 'd cse \<Rightarrow> int \<Rightarrow> string \<Rightarrow> (string \<times> cjson) list" where
  "general_members E s ty pri =
     [(''ty'', JNumber ty), (''ct'', JString (e_time E 0)),
      (''ri'', JString (fst (resource_identifier ty (e_time E 0) (ri_count s)))),
      (''lt'', JString (e_time E 0)), (''pi'', JString pri), (''et'', JString (e_time E DEFAULT_EXPIRE_TIME))]"

definition next_ri :: "'d env \<Rightarrow> 'd cse \<Rightarrow> int \<Rightarrow> 'd cse" where
  "next_ri E s ty = s\<lparr>ri_count := snd (resource_identifier ty (e_time E 0) (ri_count s))\<rparr>"

lemma next_ri_simps [simp]:
  "heap (next_ri E s ty) = heap s" "cb (next_ri E s ty) = cb s" "db (next_ri E s ty) = db s" "brk (next_ri E s ty) = brk s"
  by (simp_all add: next_ri_def)

lemma add_general_plain:
  assumes "heap s parent = Some p" "cJSON_GetObjectItem (n_obj p) ''ri'' = Some (JString pri)"
    and "find_member kvs ''rn'' = Some r" "find_member kvs ''et'' = None"
  shows "add_general_attribute E s (JObject kvs) parent ty =
    Some (JObject (kvs @ general_members E s ty pri), next_ri E s ty)"
  using assms
  by (simp add: add_general_attribute_def general_members_def next_ri_def find_member_append resource_identifier_def
      add_string_def ci_eq_def tolower_def Let_def)

lemma del_member_absent: "find_member kvs k = None \<Longrightarrow> del_member kvs k = kvs"
  by (induction kvs) (auto split: if_splits)

lemma announce_new_plain: "find_member kvs ''at'' = None \<Longrightarrow> announce_new E s parent (JObject kvs) = Some (JObject kvs, s)"
  by (simp add: announce_new_def handle_annc_create_def del_member_absent)

lemma restore_bool_absent: "find_member kvs k = None \<Longrightarrow> restore_bool (JObject kvs) k = JObject kvs"
  by (simp add: restore_bool_def)

definition leaf_node :: "cjson \<Rightarrow> int \<Rightarrow> string \<Rightarrow> rtnode" where
  "leaf_node obj ty rn =
     \<lparr>n_parent = None, n_child = None, n_subs = [], n_memberOf = Some (JArray []), n_sibling_left = None,
      n_sibling_right = None, n_rn = Some rn, n_uri = None, n_sub_cnt = 0, n_ty = ty, n_obj = Some obj, n_obj_string = None\<rparr>"

lemma new_rtnode_plain:
  assumes "lacks kvs [''uri'', ''memberOf'', ''rr'', ''mtv'', ''mdd'']" "find_member kvs ''rn'' = Some (JString rn)"
  shows "new_rtnode (JObject kvs) ty = Some (leaf_node (JObject kvs) ty rn)"
  using assms
  by (simp add: new_rtnode_def lacks_def take_member_def del_member_absent restore_bool_absent member_string_def leaf_node_def)

lemma find_member_new [simp]:
  "find_member (kvs @ ms) k = (case find_member kvs k of None \<Rightarrow> find_member ms k | Some v \<Rightarrow> Some v)"
  by (rule find_member_append)

section \<open>Storing and inserting\<close>

lemma named_rt_upd_other:
  assumes "a \<notin> set (addrs [t])"
  shows "named_rt (h(a := x)) t = named_rt h t"
proof -
  obtain b bs where t: "t = T b bs" by (cases t)
  have "rn_of (h(a := x)) c = rn_of h c \<and> uri_of (h(a := x)) c = uri_of h c" if "c \<in> set (addrs [t])" for c
    using that assms by (auto simp: rn_of_def uri_of_def)
  then show ?thesis
    using t named_cong [of bs "h(a := x)" h CSE_BASE_NAME] by (auto simp: named_rt_iff)
qed

definition stores :: "'d env \<Rightarrow> bool" where
  "stores E \<longleftrightarrow> (\<forall>d obj uri. fst (e_db_store_resource E d obj uri) = 1)"

text \<open>A place in the tree for a new resource: a node with an address and a name no child of it has.\<close>

definition free_place :: "'d cse \<Rightarrow> rtree \<Rightarrow> addr \<Rightarrow> string \<Rightarrow> string \<Rightarrow> bool" where
  "free_place s t parent puri rn \<longleftrightarrow>
     wf_rt (heap s) (cb s) t \<and> named_rt (heap s) t \<and> brk s \<notin> set (addrs [t]) \<and> segment rn \<and>
     length (puri @ ''/'' @ rn) < 1024 \<and>
     (\<exists>p cs. (parent, cs) \<in> set (nodes [t]) \<and> heap s parent = Some p \<and> n_uri p = Some puri \<and> in_int (n_sub_cnt p + 1) \<and>
        list_all (\<lambda>t. rn_of (heap s) (root t) \<noteq> Some rn) cs)"

lemma free_place_next_ri [simp]: "free_place (next_ri E s ty) t parent puri rn = free_place s t parent puri rn"
  by (simp add: free_place_def)

definition plain_answer :: "oneM2MPrimitive \<Rightarrow> bool" where
  "plain_answer o2pt \<longleftrightarrow> p_rcn o2pt = RCN_ATTRIBUTES \<and> p_fc o2pt = None \<and> p_cnst o2pt = 0"

text \<open>The tree after the insertion, what its addresses resolve to, and that the other resources are as before.\<close>

definition inserted :: "'d env \<Rightarrow> 'd cse \<Rightarrow> rtree \<Rightarrow> 'd cse \<Rightarrow> string \<Rightarrow> cjson \<Rightarrow> bool" where
  "inserted E s t s' u obj \<longleftrightarrow>
     (\<exists>t' a. wf_rt (heap s') (cb s') t' \<and> named_rt (heap s') t' \<and>
        find_rtnode_by_rn E s' u = Some (Some a, s') \<and> node_obj (heap s') a = Some obj \<and>
        (\<forall>b ds v. (b, ds) \<in> set (nodes [t]) \<longrightarrow> uri_of (heap s) b = Some v \<longrightarrow> find_rtnode_by_rn E s' v = Some (Some b, s')) \<and>
        (\<forall>b ds. (b, ds) \<in> set (nodes [t]) \<longrightarrow> names (heap s') b = names (heap s) b))"

lemma store_and_insert_plain:
  assumes "free_place s t parent puri rn" "stores E" "plain_answer o2pt"
    and "lacks kvs [''uri'', ''memberOf'', ''rr'', ''mtv'', ''mdd'']" "find_member kvs ''rn'' = Some (JString rn)"
    and "ty \<noteq> RT_FCNT" "ty \<noteq> RT_FCIN"
  shows "\<exists>s'. store_and_insert E s o2pt parent (JObject kvs) ty =
      Some (RSC_CREATED, o2pt\<lparr>p_response_pc := Some (JObject [(get_resource_key ty, JObject kvs)])\<rparr>, s') \<and>
    inserted E s t s' (puri @ ''/'' @ rn) (JObject kvs) \<and> db s' = snd (e_db_store_resource E (db s) (JObject kvs) (puri @ ''/'' @ rn))"
proof -
  obtain p cs where place: "(parent, cs) \<in> set (nodes [t])" "heap s parent = Some p" "n_uri p = Some puri"
    "in_int (n_sub_cnt p + 1)" "list_all (\<lambda>t. rn_of (heap s) (root t) \<noteq> Some rn) cs"
    and wf: "wf_rt (heap s) (cb s) t" "named_rt (heap s) t" "brk s \<notin> set (addrs [t])" "segment rn"
    "length (puri @ ''/'' @ rn) < 1024"
    using assms(1) unfolding free_place_def by blast
  let ?d = "snd (e_db_store_resource E (db s) (JObject kvs) (puri @ ''/'' @ rn))"
  let ?c = "leaf_node (JObject kvs) ty rn"
  let ?s = "s\<lparr>db := ?d, heap := (heap s)(brk s \<mapsto> ?c), brk := Suc (brk s)\<rparr>"
  have ne: "parent \<noteq> brk s" using place(1) wf(3) nodes_addr by blast
  have sub: "root u \<noteq> brk s" if "u \<in> set cs" for u
    using that root_in_addrs [of u cs] nodes_kids_sub [OF place(1)] wf(3) by (metis in_mono)
  have "list_all (\<lambda>t. rn_of (heap ?s) (root t) \<noteq> Some rn) cs"
    using place(5) sub by (auto simp: list_all_iff rn_of_def)
  moreover have "fresh_leaf (heap ?s) t (brk s) ?c" using wf(3) by (simp add: fresh_leaf_def leaf_node_def)
  moreover have "wf_rt (heap ?s) (cb ?s) t" "named_rt (heap ?s) t"
    using wf by (simp_all add: wf_rt_upd_other named_rt_upd_other del: addrs_simps)
  ultimately obtain s' t' where ins: "add_child_resource_tree ?s parent (brk s) = Some s'"
    "wf_rt (heap s') (cb s') t'" "named_rt (heap s') t'"
    "find_rtnode_by_rn E s' (puri @ ''/'' @ rn) = Some (Some (brk s), s')"
    "\<forall>b ds v. (b, ds) \<in> set (nodes [t]) \<longrightarrow> uri_of (heap ?s) b = Some v \<longrightarrow> find_rtnode_by_rn E s' v = Some (Some b, s')"
    "names (heap s') (brk s) = Some (Some rn, Some (puri @ ''/'' @ rn), ty, Some (JObject kvs))" "db s' = ?d"
    "\<forall>x. x \<noteq> brk s \<longrightarrow> names (heap s') x = names (heap ?s) x"
    using lookup_after_insert_aux [of ?s t parent cs p "brk s" ?c rn E] place ne wf(4) by (auto simp: leaf_node_def)
  obtain c' where c': "heap s' (brk s) = Some c'" "n_ty c' = ty" "n_obj c' = Some (JObject kvs)"
    using ins(6) by (auto simp: names_def)
  have "uri_of (heap ?s) b = uri_of (heap s) b \<and> names (heap s') b = names (heap s) b" if "(b, ds) \<in> set (nodes [t])" for b ds
  proof -
    have "b \<noteq> brk s" using that wf(3) nodes_addr by blast
    with ins(8) show ?thesis by (simp add: uri_of_def names_def)
  qed
  with ins c' have "inserted E s t s' (puri @ ''/'' @ rn) (JObject kvs)"
    unfolding inserted_def by (intro exI [of _ t'] exI [of _ "brk s"]) (auto simp: node_obj_def)
  moreover have "new_uri s parent (JObject kvs) = Some (puri @ ''/'' @ rn)"
    using place(2,3) wf(5) assms(5) by (simp add: new_uri_def member_string_def)
  moreover have "make_response_body E s' o2pt (brk s) =
      Some (0, o2pt\<lparr>p_response_pc := Some (JObject [(get_resource_key ty, JObject kvs)])\<rparr>, s')"
    using assms(3,6,7) c'
    by (simp add: make_response_body_def plain_answer_def attributes_body_def finish_body_def add_opt_def)
  moreover have "create_rtnode (s\<lparr>db := ?d\<rparr>) (JObject kvs) ty = Some (brk s, ?s)"
    using new_rtnode_plain [OF assms(4,5)] by (simp add: create_rtnode_def)
  ultimately show ?thesis
    using assms(2) ins(1,7)
    by (auto simp: store_and_insert_def stores_def case_prod_beta Let_def)
qed

section \<open>Creation of a container\<close>

definition server_set :: "string list" where
  "server_set = [''ty'', ''ct'', ''ri'', ''lt'', ''pi'', ''et'', ''st'', ''cni'', ''cbs'', ''uri'', ''memberOf'', ''rr'', ''mtv'', ''mdd'',
     ''acpi'', ''cr'', ''at'', ''aa'']"

definition counter_members :: "(string \<times> cjson) list \<Rightarrow> (string \<times> cjson) list" where
  "counter_members kvs =
     [(''st'', JNumber 0), (''cni'', JNumber 0), (''cbs'', JNumber 0)] @
     (if find_member kvs ''mni'' = None then [(''mni'', JNumber DEFAULT_MAX_NR_INSTANCES)] else [])"

lemma find_server_members [simp]:
  "find_member (general_members E s ty pri) ''cr'' = None" "find_member (general_members E s ty pri) ''acpi'' = None"
  "find_member (general_members E s ty pri) ''aa'' = None" "find_member (general_members E s ty pri) ''at'' = None"
  "find_member (general_members E s ty pri) ''mni'' = None" "find_member (general_members E s ty pri) ''mbs'' = None"
  "find_member (general_members E s ty pri) ''mia'' = None" "find_member (general_members E s ty pri) ''uri'' = None"
  "find_member (general_members E s ty pri) ''memberOf'' = None" "find_member (general_members E s ty pri) ''rr'' = None"
  "find_member (general_members E s ty pri) ''mtv'' = None" "find_member (general_members E s ty pri) ''mdd'' = None"
  by (simp_all add: general_members_def ci_eq_def tolower_def)

lemma find_counter_members [simp]:
  "find_member (counter_members kvs) ''at'' = None" "find_member (counter_members kvs) ''uri'' = None"
  "find_member (counter_members kvs) ''memberOf'' = None" "find_member (counter_members kvs) ''rr'' = None"
  "find_member (counter_members kvs) ''mtv'' = None" "find_member (counter_members kvs) ''mdd'' = None"
  by (simp_all add: counter_members_def ci_eq_def tolower_def)

lemma validate_cnt_plain:
  assumes "lacks kvs server_set" "find_member kvs ''rn'' = Some (JString rn)" "rn \<notin> {''la'', ''ol'', ''latest'', ''oldest''}"
    and "\<not> negative_attr (JObject kvs) ''mia''" "\<not> negative_attr (JObject kvs) ''mni''" "\<not> negative_attr (JObject kvs) ''mbs''"
  shows "validate_cnt E s o2pt (Some (JObject (kvs @ general_members E' s' RT_CNT pri))) OP_CREATE =
    Some (RSC_OK, o2pt, JObject (kvs @ general_members E' s' RT_CNT pri), s)"
  using assms
  by (auto simp: validate_cnt_def validate_mandatory_attrs_def get_create_m_fields_def M_TABLE_def reserved_rn_def
      lacks_def server_set_def cnt_acpi_def negative_attr_def validate_aa_def split: option.splits)

text \<open>
  Creation of a container once the checks of the request have passed. Let the request carry a container
  with a legal, unreserved name that no sibling has, without attributes the server assigns,
  without \<^verbatim>\<open>acpi\<close>, \<^verbatim>\<open>cr\<close> and announcement, and with no negative limit. If the database stores it,
  the response code is CREATED, the new resource is the request extended by type, times,
  identifier, parent, expiration, zero counters and a default limit, it is in the tree under
  its address and in the answer, the tree is well formed and every old address resolves to
  the resource it had.
\<close>

lemma create_cnt_run:
  assumes "cJSON_GetObjectItem (p_request_pc o2pt) ''m2m:cnt'' = Some (JObject kvs)"
    and kvs: "lacks kvs server_set" "find_member kvs ''rn'' = Some (JString rn)" "rn \<notin> {''la'', ''ol'', ''latest'', ''oldest''}"
    "\<not> negative_attr (JObject kvs) ''mia''" "\<not> negative_attr (JObject kvs) ''mni''" "\<not> negative_attr (JObject kvs) ''mbs''"
    and "heap s parent = Some p" "cJSON_GetObjectItem (n_obj p) ''ri'' = Some (JString pri)"
    and "free_place s t parent puri rn" "stores E" "plain_answer o2pt"
    and obj: "obj = JObject (kvs @ general_members E s RT_CNT pri @ counter_members kvs)"
  shows "\<exists>s'. create_cnt E s o2pt parent =
      Some (RSC_CREATED, o2pt\<lparr>p_rsc := RSC_CREATED, p_response_pc := Some (JObject [(''m2m:cnt'', obj)])\<rparr>, s') \<and>
    inserted E s t s' (puri @ ''/'' @ rn) obj \<and> db s' = snd (e_db_store_resource E (db s) obj (puri @ ''/'' @ rn))"
proof -
  let ?s = "next_ri E s RT_CNT" and ?o = "o2pt\<lparr>p_rsc := RSC_CREATED\<rparr>"
  let ?m = "kvs @ general_members E s RT_CNT pri @ counter_members kvs"
  have et: "find_member kvs ''et'' = None" "find_member kvs ''cr'' = None" "find_member kvs ''at'' = None"
    using kvs(1) by (simp_all add: lacks_def server_set_def)
  have "lacks ?m [''uri'', ''memberOf'', ''rr'', ''mtv'', ''mdd'']" "find_member ?m ''rn'' = Some (JString rn)"
    using kvs(1,2) by (simp_all add: lacks_def server_set_def)
  with store_and_insert_plain [of ?s t parent puri rn E ?o ?m RT_CNT] assms(10-12)
  obtain s' where s': "store_and_insert E ?s ?o parent (JObject ?m) RT_CNT =
      Some (RSC_CREATED, ?o\<lparr>p_response_pc := Some (JObject [(get_resource_key RT_CNT, JObject ?m)])\<rparr>, s')"
    "inserted E ?s t s' (puri @ ''/'' @ rn) (JObject ?m)"
    "db s' = snd (e_db_store_resource E (db s) (JObject ?m) (puri @ ''/'' @ rn))"
    by (auto simp: plain_answer_def)
  have "find_member (kvs @ general_members E s RT_CNT pri @ [(''st'', JNumber 0), (''cni'', JNumber 0), (''cbs'', JNumber 0)]) ''at'' = None"
    using et by (simp add: ci_eq_def tolower_def)
  from announce_new_plain [OF this, of E ?s parent]
  have "create_cnt E s o2pt parent = store_and_insert E ?s ?o parent (JObject ?m) RT_CNT"
    using assms(1,8,9) add_general_plain [OF assms(8,9) kvs(2) et(1), of E RT_CNT] validate_cnt_plain [OF kvs, of E ?s o2pt E s pri] et(2)
    by (auto simp: create_cnt_def set_creator_def counter_members_def ci_eq_def tolower_def)
  moreover have "inserted E s t s' (puri @ ''/'' @ rn) (JObject ?m)" using s'(2) by (simp add: inserted_def)
  ultimately show ?thesis using s'(1,3) obj by (simp add: get_resource_key_def resource_key_table_def)
qed

text \<open>The hypotheses at a concrete place and request.\<close>

abbreviation ex_new :: "(string \<times> cjson) list" where
  "ex_new \<equiv> [(''rn'', JString ''c9''), (''mni'', JNumber 7)]"

lemma ex_new_plain:
  "lacks ex_new server_set" "find_member ex_new ''rn'' = Some (JString ''c9'')" "''c9'' \<notin> {''la'', ''ol'', ''latest'', ''oldest''}"
  "\<not> negative_attr (JObject ex_new) ''mia''" "\<not> negative_attr (JObject ex_new) ''mni''" "\<not> negative_attr (JObject ex_new) ''mbs''"
  by (simp_all add: lacks_def server_set_def negative_attr_def ci_eq_def tolower_def INT_MAX_def INT_MIN_def)

lemma ex_place: "free_place (ex_cse d) ex_tree 1 ''TinyIoT/ae1'' ''c9''"
  unfolding free_place_def using ex_cse_wf ex_named
  by (auto simp: ex_tree_def ex_cse_def ex_heap_def mk_node_def segment_def rn_of_def in_int_def INT_MAX_def INT_MIN_def)

lemma list_env_stores: "stores list_env"
  by (simp add: stores_def list_env_def)

end
