(* ===== verification/DeletionProps.thy ===== *)
theory DeletionProps
  imports Deletion
begin

text \<open>
  What \<^verbatim>\<open>delete_process\<close> does to the state before the subtree is released: the parent of every
  subscription below loses it, the container of every instance counts down, the monitor of missing data
  forgets subscriptions and time series; the links of the tree stay as they are.
\<close>

section \<open>Heaps that differ in lists of subscriptions and counters\<close>

text \<open>The fields of a node that the deletion of another one leaves alone.\<close>

definition core :: "rtnode \<Rightarrow> rtnode" where
  "core n = n\<lparr>n_subs := [], n_sub_cnt := 0, n_obj := None\<rparr>"

lemma core_simps [simp]:
  "core (n\<lparr>n_subs := l\<rparr>) = core n" "core (n\<lparr>n_sub_cnt := i\<rparr>) = core n" "core (n\<lparr>n_obj := j\<rparr>) = core n"
  by (simp_all add: core_def)

lemma core_fields:
  assumes "core n = core m"
  shows "n_parent n = n_parent m" "n_child n = n_child m" "n_sibling_left n = n_sibling_left m"
    "n_sibling_right n = n_sibling_right m" "n_ty n = n_ty m" "n_memberOf n = n_memberOf m" "n_uri n = n_uri m" "n_rn n = n_rn m"
  using assms by (cases n; cases m; simp add: core_def)+

definition counted :: "rtnode \<Rightarrow> bool" where
  "counted p \<longleftrightarrow> n_sub_cnt p = int (length (n_subs p)) \<and> int (length (n_subs p)) \<le> INT_MAX"

definition is_counter :: "string \<Rightarrow> bool" where
  "is_counter k \<longleftrightarrow> ci_eq ''cni'' k \<or> ci_eq ''cbs'' k \<or> ci_eq ''st'' k"

definition kept_node :: "rtnode \<Rightarrow> rtnode \<Rightarrow> bool" where
  "kept_node n n' \<longleftrightarrow>
     core n' = core n \<and> set (n_subs n') \<subseteq> set (n_subs n) \<and> (counted n \<longrightarrow> counted n') \<and>
     (n_ty n \<noteq> RT_CNT \<longrightarrow> n_obj n' = n_obj n) \<and>
     (\<forall>k. \<not> is_counter k \<longrightarrow> cJSON_GetObjectItem (n_obj n') k = cJSON_GetObjectItem (n_obj n) k)"

definition kept :: "heap \<Rightarrow> heap \<Rightarrow> bool" where
  "kept h h' \<longleftrightarrow> (\<forall>x. case h x of None \<Rightarrow> h' x = None | Some n \<Rightarrow> (\<exists>n'. h' x = Some n' \<and> kept_node n n'))"

lemma kept_node_refl [simp]: "kept_node n n"
  by (simp add: kept_node_def)

lemma kept_node_trans: "kept_node n n1 \<Longrightarrow> kept_node n1 n2 \<Longrightarrow> kept_node n n2"
  unfolding kept_node_def by (metis (no_types, lifting) core_fields(5) subset_trans)

lemma kept_refl [simp]: "kept h h"
  by (simp add: kept_def split: option.splits)

lemma kept_Some: "kept h h' \<Longrightarrow> h x = Some n \<Longrightarrow> \<exists>n'. h' x = Some n' \<and> kept_node n n'"
  by (auto simp: kept_def dest: spec [of _ x] split: option.splits)

lemma kept_None: "kept h h' \<Longrightarrow> h x = None \<Longrightarrow> h' x = None"
  by (auto simp: kept_def dest: spec [of _ x] split: option.splits)

lemma kept_trans: "kept h h1 \<Longrightarrow> kept h1 h2 \<Longrightarrow> kept h h2"
proof -
  assume k: "kept h h1" "kept h1 h2"
  show ?thesis
    unfolding kept_def
  proof
    fix x
    show "case h x of None \<Rightarrow> h2 x = None | Some n \<Rightarrow> (\<exists>n'. h2 x = Some n' \<and> kept_node n n')"
    proof (cases "h x")
      case None
      then show ?thesis using kept_None [OF k(1)] kept_None [OF k(2)] by simp
    next
      case (Some n)
      then obtain n1 n2 where "h1 x = Some n1" "kept_node n n1" "h2 x = Some n2" "kept_node n1 n2"
        using kept_Some [OF k(1)] kept_Some [OF k(2)] by blast
      then show ?thesis using Some kept_node_trans by auto
    qed
  qed
qed

lemma kept_upd: "h q = Some p \<Longrightarrow> kept_node p p' \<Longrightarrow> kept h (h(q \<mapsto> p'))"
  by (auto simp: kept_def split: option.splits)

lemma kept_core: "kept h h' \<Longrightarrow> map_option core (h' x) = map_option core (h x)"
  by (cases "h x") (auto dest: kept_Some kept_None simp: kept_node_def)

lemma kept_field:
  assumes "kept h h'" "\<And>n m. core n = core m \<Longrightarrow> f n = f m"
  shows "map_option f (h' x) = map_option f (h x)"
proof (cases "h x")
  case (Some n)
  then obtain n' where "h' x = Some n'" "core n' = core n" using kept_core [OF assms(1), of x] by auto
  then show ?thesis using Some assms(2) [of n' n] by simp
qed (use kept_core [OF assms(1), of x] in simp)

lemma kept_links: "kept h h' \<Longrightarrow> map_option links (h' x) = map_option links (h x)"
  by (rule kept_field) (auto simp: links_def dest: core_fields)

lemma kept_seg: "kept h h' \<Longrightarrow> seg h' par left p ts q = seg h par left p ts q"
  by (rule seg_cong) (rule kept_links)

lemma kept_tyof: "kept h h' \<Longrightarrow> tyof h' = tyof h"
proof
  fix x
  assume "kept h h'"
  then have "map_option n_ty (h' x) = map_option n_ty (h x)" by (rule kept_field) (rule core_fields(5))
  then show "tyof h' x = tyof h x" by (cases "h x"; cases "h' x") (simp_all add: tyof_def)
qed

lemma kept_wf: "kept h h' \<Longrightarrow> wf_rt h r t \<Longrightarrow> wf_rt h' r t"
  by (simp add: wf_rt_def kept_seg kept_tyof)

lemma kept_node_ri: "kept_node n n' \<Longrightarrow> get_ri_rtnode n' = get_ri_rtnode n"
  by (simp add: kept_node_def get_ri_rtnode_def member_string_def is_counter_def ci_eq_def tolower_def)

section \<open>Resources whose deletion sends nothing\<close>

text \<open>The subscriptions of a node do not ask for the deletion of its children.\<close>

definition silent_sub :: "heap \<Rightarrow> addr \<Rightarrow> bool" where
  "silent_sub h a \<longleftrightarrow> (\<exists>n. h a = Some n \<and> n_ty n = RT_SUB \<and>
     (\<forall>e \<in> set (elems (cJSON_GetObjectItem (cJSON_GetObjectItem (n_obj n) ''enc'') ''atr'')). valuestring e \<noteq> None) \<and>
     \<not> sub_has_net (n_obj n) NET_DELETE_OF_DIRECT_CHILD_RESOURCE)"

definition silent :: "heap \<Rightarrow> rtnode \<Rightarrow> bool" where
  "silent h p \<longleftrightarrow> (\<forall>(sub, u) \<in> set (n_subs p). silent_sub h sub)"

text \<open>
  A resource whose deletion concerns its subtree, its parent and the monitor only: no CSEBase, remote CSE, group or instance of a
  flexContainer or time series, not announced, in no group, and no container below a flexContainer; the subscriptions of its parent do
  not ask for its deletion; a subscription has no \<^verbatim>\<open>su\<close> and does not report missing data.
\<close>

definition calm :: "heap \<Rightarrow> addr \<Rightarrow> bool" where
  "calm h a \<longleftrightarrow> (\<exists>n q p. h a = Some n \<and> n_parent n = Some q \<and> h q = Some p \<and>
     n_ty n \<notin> {RT_CSE, RT_FCIN, RT_CSR, RT_GRP, RT_TSI} \<and> elems (n_memberOf n) = [] \<and>
     elems (cJSON_GetObjectItem (n_obj n) ''at'') = [] \<and> silent h p \<and> counted p \<and>
     (n_ty n \<in> {RT_CNT, RT_FCNT} \<longrightarrow> n_ty p \<noteq> RT_FCNT) \<and>
     (n_ty n = RT_SUB \<longrightarrow> (\<forall>su. cJSON_GetObjectItem (n_obj n) ''su'' \<noteq> Some (JString su)) \<and>
        (n_ty p = RT_TS \<longrightarrow> \<not> net_has_8 (cJSON_GetObjectItem (n_obj n) ''enc''))))"

text \<open>A contentInstance below a container whose counters have room to count it down.\<close>

definition countable :: "heap \<Rightarrow> addr \<Rightarrow> bool" where
  "countable h a \<longleftrightarrow> (\<exists>n q p cnt cin cni cbs st cs. h a = Some n \<and> n_parent n = Some q \<and> h q = Some p \<and>
     n_ty p = RT_CNT \<and> n_obj p = Some cnt \<and> n_obj n = Some cin \<and> get_ri_rtnode p \<noteq> None \<and>
     member_int (Some cnt) ''cni'' = Some cni \<and> in_int (cni - 1) \<and> member_int (Some cnt) ''cbs'' = Some cbs \<and>
     member_int (Some cin) ''cs'' = Some cs \<and> in_int (- cs) \<and> in_int (cbs - cs) \<and>
     member_int (Some cnt) ''st'' = Some st \<and> in_int (st + 1))"

definition parent_of :: "heap \<Rightarrow> addr \<Rightarrow> ptr" where
  "parent_of h a = Option.bind (h a) n_parent"

text \<open>
  A set of resources that can be deleted: each is calm, the contentInstances can be counted down, and a
  container has one node for its instances at most (the latest one).
\<close>

definition deletable :: "heap \<Rightarrow> addr set \<Rightarrow> bool" where
  "deletable h A \<longleftrightarrow>
     (\<forall>a \<in> A. calm h a \<and> (tyof h a = RT_CIN \<longrightarrow> countable h a)) \<and>
     (\<forall>a \<in> A. \<forall>b \<in> A. tyof h a = RT_CIN \<longrightarrow> tyof h b = RT_CIN \<longrightarrow> parent_of h a = parent_of h b \<longrightarrow> a = b)"

lemma deletable_mono: "deletable h A \<Longrightarrow> B \<subseteq> A \<Longrightarrow> deletable h B"
  by (auto simp: deletable_def)

lemma silent_sub_kept: "kept h h' \<Longrightarrow> silent_sub h a \<Longrightarrow> silent_sub h' a"
  unfolding silent_sub_def by (elim exE conjE, drule (1) kept_Some) (auto simp: kept_node_def dest: core_fields)

lemma calm_kept:
  assumes "kept h h'" "calm h a"
  shows "calm h' a"
proof -
  from assms(2) obtain n q p where n: "h a = Some n" "n_parent n = Some q" "h q = Some p" and
    c: "n_ty n \<notin> {RT_CSE, RT_FCIN, RT_CSR, RT_GRP, RT_TSI}" "elems (n_memberOf n) = []"
      "elems (cJSON_GetObjectItem (n_obj n) ''at'') = []" "silent h p" "counted p" "n_ty n \<in> {RT_CNT, RT_FCNT} \<longrightarrow> n_ty p \<noteq> RT_FCNT"
      "n_ty n = RT_SUB \<longrightarrow> (\<forall>su. cJSON_GetObjectItem (n_obj n) ''su'' \<noteq> Some (JString su)) \<and>
         (n_ty p = RT_TS \<longrightarrow> \<not> net_has_8 (cJSON_GetObjectItem (n_obj n) ''enc''))"
    unfolding calm_def by blast
  obtain n' p' where k: "h' a = Some n'" "kept_node n n'" "h' q = Some p'" "kept_node p p'"
    using kept_Some [OF assms(1)] n by metis
  have f: "n_ty n' = n_ty n" "n_parent n' = n_parent n" "n_memberOf n' = n_memberOf n" "n_ty p' = n_ty p"
    "cJSON_GetObjectItem (n_obj n') ''at'' = cJSON_GetObjectItem (n_obj n) ''at''"
    "n_ty n = RT_SUB \<Longrightarrow> n_obj n' = n_obj n"
    using k core_fields [of n' n] core_fields [of p' p] by (auto simp: kept_node_def is_counter_def ci_eq_def tolower_def)
  have "silent h' p'" "counted p'"
    using c(4,5) k(4) silent_sub_kept [OF assms(1)] by (fastforce simp: silent_def kept_node_def)+
  then show ?thesis unfolding calm_def using k(1,3) n(2) c f by (intro exI [of _ n'] exI [of _ q] exI [of _ p']) simp
qed

lemma countable_kept:
  assumes "kept h h'" "countable h a" "parent_of h a = Some q" "node_obj h' q = node_obj h q" "tyof h a = RT_CIN"
  shows "countable h' a"
proof -
  from assms(2,3) obtain n p where n: "h a = Some n" "n_parent n = Some q" "h q = Some p"
    by (auto simp: countable_def parent_of_def)
  obtain n' p' where k: "h' a = Some n'" "kept_node n n'" "h' q = Some p'" "kept_node p p'"
    using kept_Some [OF assms(1)] n by metis
  have "n_obj p' = n_obj p" using assms(4) n(3) k(3) by (simp add: node_obj_def)
  moreover have "n_ty n = RT_CIN" using assms(5) n(1) by (simp add: tyof_def)
  then have "n_obj n' = n_obj n" "n_parent n' = n_parent n" "n_ty p' = n_ty p" "get_ri_rtnode p' = get_ri_rtnode p"
    using k core_fields [of n' n] core_fields [of p' p] kept_node_ri by (auto simp: kept_node_def)
  ultimately show ?thesis using assms(2) n k unfolding countable_def by auto
qed

lemma parent_of_kept: "kept h h' \<Longrightarrow> parent_of h' a = parent_of h a"
proof -
  assume "kept h h'"
  then have "map_option n_parent (h' a) = map_option n_parent (h a)" by (rule kept_field) (rule core_fields(1))
  then show ?thesis by (cases "h a"; cases "h' a") (simp_all add: parent_of_def)
qed

text \<open>A set stays deletable when the containers of its instances keep their attributes.\<close>

lemma deletable_kept:
  assumes "deletable h A" "kept h h'"
    and "\<And>a q. a \<in> A \<Longrightarrow> tyof h a = RT_CIN \<Longrightarrow> parent_of h a = Some q \<Longrightarrow> node_obj h' q = node_obj h q"
  shows "deletable h' A"
  unfolding deletable_def parent_of_kept [OF assms(2)] kept_tyof [OF assms(2)]
proof (intro conjI ballI impI)
  fix a
  assume a: "a \<in> A"
  then show "calm h' a" using assms(1) calm_kept [OF assms(2)] by (simp add: deletable_def)
  assume "tyof h a = RT_CIN"
  moreover from this obtain q where "countable h a" "parent_of h a = Some q"
    using assms(1) a by (auto simp: deletable_def countable_def parent_of_def)
  ultimately show "countable h' a" using countable_kept [OF assms(2)] assms(3) a by blast
qed (use assms(1) in \<open>simp add: deletable_def\<close>)

section \<open>The steps of a deletion\<close>

lemma nl_detach_set: "set (nl_detach l a) \<subseteq> set l"
  by (induction l a rule: nl_detach.induct) auto

lemma nl_detach_length: "nl_has l a \<Longrightarrow> Suc (length (nl_detach l a)) = length l"
  by (induction l a rule: nl_detach.induct) (auto simp: nl_has_def)

definition without_sub :: "rtnode \<Rightarrow> addr \<Rightarrow> rtnode" where
  "without_sub p a =
     (if nl_has (n_subs p) a then p\<lparr>n_subs := nl_detach (n_subs p) a, n_sub_cnt := n_sub_cnt p - 1\<rparr> else p)"

lemma kept_without_sub: "kept_node p (without_sub p a)"
  using nl_detach_set [of "n_subs p" a] nl_detach_length [of "n_subs p" a]
  by (auto simp: kept_node_def without_sub_def counted_def)

lemma detach_subs_run:
  assumes "h q = Some p" "counted p"
  shows "detach_subs h q a = Some (h(q \<mapsto> without_sub p a))"
proof (cases "nl_has (n_subs p) a")
  case True
  then have "in_int (n_sub_cnt p - 1)"
    using assms(2) nl_detach_length [of "n_subs p" a] by (simp add: counted_def in_int_def INT_MAX_def INT_MIN_def)
  with True assms(1) show ?thesis by (simp add: detach_subs_def add_int_def without_sub_def)
next
  case False
  with assms(1) show ?thesis by (simp add: detach_subs_def without_sub_def fun_upd_idem)
qed

text \<open>What the monitor of missing data forgets with a node.\<close>

definition md_drop :: "heap \<Rightarrow> addr \<Rightarrow> md_state \<Rightarrow> md_state" where
  "md_drop h a m =
     (case h a of
        None \<Rightarrow> m
      | Some n \<Rightarrow>
          if n_ty n = RT_SUB then md_forget m (get_ri_rtnode n)
          else if n_ty n = RT_TS then ts_md_disarm m (get_ri_rtnode n) else m)"

lemma md_drop_kept: "kept h h' \<Longrightarrow> md_drop h' = md_drop h"
proof (intro ext)
  fix a m
  assume k: "kept h h'"
  show "md_drop h' a m = md_drop h a m"
  proof (cases "h a")
    case (Some n)
    then obtain n' where "h' a = Some n'" "kept_node n n'" using kept_Some [OF k] by blast
    then show ?thesis using Some kept_node_ri [of n n'] core_fields(5) [of n' n] by (simp add: md_drop_def kept_node_def)
  qed (use kept_None [OF k] in \<open>simp add: md_drop_def\<close>)
qed

lemma flush_sub_run:
  assumes "heap s a = Some n" "n_ty n = RT_SUB" "n_parent n = Some q" "heap s q = Some p"
    and "n_ty p = RT_TS \<longrightarrow> \<not> net_has_8 (cJSON_GetObjectItem (n_obj n) ''enc'')"
  shows "ts_md_flush_sub E s a = Some (s\<lparr>md := md_drop (heap s) a (md s)\<rparr>)"
proof (cases "get_ri_rtnode n")
  case None
  then show ?thesis using assms by (simp add: ts_md_flush_sub_def md_drop_def md_forget_def)
next
  case (Some ri)
  then have "n_obj n \<noteq> None" by (auto simp: get_ri_rtnode_def member_string_def cJSON_GetObjectItem_def split: option.splits)
  with Some assms show ?thesis by (auto simp: ts_md_flush_sub_def md_drop_def Let_def)
qed

lemma count_down_run:
  assumes "countable (heap s) a" "heap s a = Some n" "n_parent n = Some q" "heap s q = Some p" "a \<noteq> q"
  shows "\<exists>p' d. update_cnt_cin E s (Some q) (Some a) (- 1) = Some (0, s\<lparr>heap := (heap s)(q \<mapsto> p'), db := d\<rparr>) \<and>
    kept_node p p' \<and> n_subs p' = n_subs p \<and> n_sub_cnt p' = n_sub_cnt p"
proof -
  from assms obtain cnt cin cni cbs st cs ri where c: "n_ty p = RT_CNT" "n_obj p = Some cnt" "n_obj n = Some cin"
    "get_ri_rtnode p = Some ri" "member_int (Some cnt) ''cni'' = Some cni" "in_int (cni - 1)" "member_int (Some cnt) ''cbs'' = Some cbs"
    "member_int (Some cin) ''cs'' = Some cs" "in_int (- cs)" "in_int (cbs - cs)" "member_int (Some cnt) ''st'' = Some st" "in_int (st + 1)"
    unfolding countable_def by auto
  let ?cnt = "set_int (set_int (set_int cnt ''cni'' (cni - 1)) ''cbs'' (cbs - cs)) ''st'' (st + 1)"
  let ?p = "p\<lparr>n_obj := Some ?cnt\<rparr>"
  have k: "kept_node p ?p" using c(1,2) by (auto simp: kept_node_def is_counter_def counted_def)
  have "update_cnt_cin E s (Some q) (Some a) (- 1) =
      Some (0, s\<lparr>heap := (heap s)(q \<mapsto> ?p), db := snd (e_db_update_resource E (db s) ?cnt ri RT_CNT)\<rparr>)"
    using assms(2-5) c kept_node_ri [OF k]
    by (auto simp: update_cnt_cin_def count_cin_def node_obj_def add_int_def add_signed_def put_obj_def db_save_def Let_def
        split: option.split)
  with k show ?thesis by (intro exI [of _ ?p]) auto
qed

text \<open>The effect of one deletion on its parent.\<close>

lemma delete_effect_run:
  assumes "calm (heap s) a" "tyof (heap s) a = RT_CIN \<longrightarrow> countable (heap s) a"
    and "heap s a = Some n" "n_parent n = Some q" "heap s q = Some p" "a \<noteq> q"
  shows "\<exists>p' d. delete_effect E s a = Some (s\<lparr>heap := (heap s)(q \<mapsto> p'), db := d, md := md_drop (heap s) a (md s)\<rparr>) \<and>
    kept_node p p' \<and> (n_ty n \<noteq> RT_CIN \<longrightarrow> n_obj p' = n_obj p \<and> d = db s) \<and>
    (n_ty n \<notin> {RT_CIN, RT_SUB} \<longrightarrow> p' = p) \<and> (n_ty n = RT_SUB \<longrightarrow> p' = without_sub p a)"
proof -
  have c: "n_ty n \<notin> {RT_CSE, RT_FCIN, RT_CSR, RT_GRP, RT_TSI}" "counted p"
    "n_ty n = RT_SUB \<longrightarrow> (n_ty p = RT_TS \<longrightarrow> \<not> net_has_8 (cJSON_GetObjectItem (n_obj n) ''enc''))"
    using assms(1,3-5) by (auto simp: calm_def)
  have idem: "(heap s)(q \<mapsto> p) = heap s" using assms(5) by (simp add: fun_upd_idem)
  consider "n_ty n = RT_CIN" | "n_ty n = RT_SUB" | "n_ty n = RT_TS" | "n_ty n \<notin> {RT_CIN, RT_SUB, RT_TS}" by blast
  then show ?thesis
  proof cases
    case 1
    then obtain p' d where "update_cnt_cin E s (Some q) (Some a) (- 1) = Some (0, s\<lparr>heap := (heap s)(q \<mapsto> p'), db := d\<rparr>)" "kept_node p p'"
      using count_down_run [OF _ assms(3-6), of E] assms(2,3) by (auto simp: tyof_def)
    with 1 assms(3,4) show ?thesis by (intro exI [of _ p'] exI [of _ d]) (simp add: delete_effect_def md_drop_def)
  next
    case 2
    have "n_obj (without_sub p a) = n_obj p" by (simp add: without_sub_def)
    with 2 show ?thesis
      using assms(3-5) c(2,3) flush_sub_run [OF assms(3) 2 assms(4,5), of E] detach_subs_run [of "heap s" q p a, OF assms(5) c(2)] kept_without_sub [of p a]
      by (intro exI [of _ "without_sub p a"] exI [of _ "db s"]) (simp add: delete_effect_def)
  next
    case 3
    with assms(3) idem show ?thesis by (intro exI [of _ p] exI [of _ "db s"]) (simp add: delete_effect_def md_drop_def)
  next
    case 4
    with c(1) assms(3) idem show ?thesis by (intro exI [of _ p] exI [of _ "db s"]) (simp add: delete_effect_def md_drop_def)
  qed
qed

lemma names_all_defined: "(\<And>e. e \<in> set es \<Longrightarrow> valuestring e \<noteq> None) \<Longrightarrow> names_all res es \<noteq> None"
proof (induction es)
  case (Cons e es)
  from Cons.prems [of e] obtain k where "valuestring e = Some k" by auto
  with Cons show ?case by (cases "cJSON_GetObjectItem res k") auto
qed simp

lemma notify_silent:
  assumes "heap s a = Some n"
  shows "\<forall>(sub, u) \<in> set l. silent_sub (heap s) sub \<Longrightarrow>
    run E o2pt s (Notify_Subs a NET_DELETE_OF_DIRECT_CHILD_RESOURCE nev l) = Some s"
proof (induction l)
  case (Cons e l)
  obtain sub u where e: "e = (sub, u)" by (cases e)
  with Cons.prems obtain sn where sn: "heap s sub = Some sn" "\<not> sub_has_net (n_obj sn) NET_DELETE_OF_DIRECT_CHILD_RESOURCE"
    "\<And>x. x \<in> set (elems (cJSON_GetObjectItem (cJSON_GetObjectItem (n_obj sn) ''enc'') ''atr'')) \<Longrightarrow> valuestring x \<noteq> None"
    by (auto simp: silent_sub_def)
  then obtain b where "isAptEnc o2pt n sn = Some b"
    using names_all_defined [OF sn(3)] by (fastforce simp: isAptEnc_def Let_def)
  then show ?case using Cons assms sn e by (subst run.simps) auto
qed (simp add: run.simps)

lemma notify_calm:
  assumes "calm (heap s) a"
  shows "run E o2pt s (Notify OP_DELETE a) = Some s"
proof -
  from assms obtain n q p where n: "heap s a = Some n" "n_parent n = Some q" "heap s q = Some p" "silent (heap s) p"
    "n_ty n = RT_SUB \<longrightarrow> (\<forall>su. cJSON_GetObjectItem (n_obj n) ''su'' \<noteq> Some (JString su))" by (auto simp: calm_def)
  show ?thesis
  proof (cases "n_ty n = RT_SUB")
    case True
    have "run E o2pt s (Notify_Subs a NET_DELETE_OF_RESOURCE nev []) = Some s" for nev by (simp add: run.simps)
    moreover have "notify_deleted_sub E s o2pt n = Some s"
      using n(5) True by (auto simp: notify_deleted_sub_def split: option.split cjson.split)
    ultimately show ?thesis
      using n(1) True by (subst run.simps) (simp add: event_of_def subs_of_def)
  next
    case False
    have "run E o2pt s (Notify_Subs a NET_NONE nev []) = Some s" for nev by (simp add: run.simps)
    moreover have "run E o2pt s (Notify_Subs a NET_DELETE_OF_DIRECT_CHILD_RESOURCE nev l) = Some s" if "l = [] \<or> l = n_subs p" for nev l
      using notify_silent [OF n(1), of l E o2pt nev] n(4) that by (auto simp: silent_def)
    ultimately show ?thesis
      using n(1-3) False by (subst run.simps) (simp add: event_of_def subs_of_def)
  qed
qed

section \<open>The whole subtree\<close>

text \<open>The order in which nodes are deleted: children first.\<close>

fun post :: "rtree list \<Rightarrow> addr list" where
  "post [] = []"
| "post (T a cs # ts) = post cs @ a # post ts"

text \<open>
  The state after the nodes \<open>as\<close>, which form the set \<open>A\<close> below \<open>q\<close>, have been deleted but not released: all other nodes are untouched,
  the monitor has forgotten the nodes, and the database has changed only if there was an instance to count down.
\<close>

definition deleted :: "'d cse \<Rightarrow> 'd cse \<Rightarrow> addr \<Rightarrow> addr list \<Rightarrow> bool" where
  "deleted s s' q as \<longleftrightarrow>
     kept (heap s) (heap s') \<and> (\<forall>x. x \<notin> insert q (set as) \<longrightarrow> heap s' x = heap s x) \<and>
     s' = s\<lparr>heap := heap s', db := db s', md := fold (md_drop (heap s)) as (md s)\<rparr> \<and>
     ((\<forall>a \<in> set as. tyof (heap s) a \<noteq> RT_CIN) \<longrightarrow> db s' = db s)"

lemma set_post [simp]: "set (post ts) = set (addrs ts)"
  by (induction ts rule: post.induct) auto

lemma seg_parent_in:
  "seg h par left p ts q \<Longrightarrow> x \<in> set (addrs ts) \<Longrightarrow> parent_of h x = par \<or> (\<exists>y \<in> set (addrs ts). parent_of h x = Some y)"
proof (induction h par left p ts q rule: seg.induct)
  case (2 h par left p a cs ts q)
  then show ?case by (fastforce simp: parent_of_def split: option.splits)
qed simp

lemma run_delete:
  assumes kids: "run E o2pt s (Children (n_child n)) = Some s1" "deleted s s1 a (post cs)"
    and a: "calm (heap s) a" "tyof (heap s) a = RT_CIN \<longrightarrow> countable (heap s) a" "heap s a = Some n" "n_parent n = Some q"
      "heap s q = Some p" "q \<notin> insert a (set (addrs cs))"
  shows "\<exists>s' p'. run E o2pt s (Delete a) = Some s' \<and> deleted s s' q (post cs @ [a]) \<and> heap s' q = Some p' \<and>
    (n_ty n \<noteq> RT_CIN \<longrightarrow> n_obj p' = n_obj p) \<and> (n_ty n \<notin> {RT_CIN, RT_SUB} \<longrightarrow> p' = p) \<and>
    (n_ty n = RT_SUB \<longrightarrow> p' = without_sub p a)"
proof -
  have k1: "kept (heap s) (heap s1)" and q1: "heap s1 q = Some p"
    using kids(2) a(5,6) by (auto simp: deleted_def)
  obtain n1 where n1: "heap s1 a = Some n1" "kept_node n n1" using kept_Some [OF k1 a(3)] by blast
  then have f: "n_parent n1 = Some q" "n_ty n1 = n_ty n" "tyof (heap s1) a = n_ty n" "tyof (heap s) a = n_ty n"
    using core_fields [of n1 n] a(3,4) by (auto simp: kept_node_def tyof_def)
  have c1: "calm (heap s1) a" using calm_kept [OF k1 a(1)] .
  have "tyof (heap s1) a = RT_CIN \<longrightarrow> countable (heap s1) a"
    using countable_kept [OF k1, of a q] a(2-5) q1 f by (auto simp: parent_of_def node_obj_def)
  from delete_effect_run [OF c1 this n1(1) f(1) q1, of E] a(6) obtain p' d where
    e: "delete_effect E s1 a = Some (s1\<lparr>heap := (heap s1)(q \<mapsto> p'), db := d, md := md_drop (heap s1) a (md s1)\<rparr>)" "kept_node p p'"
      "n_ty n \<noteq> RT_CIN \<longrightarrow> n_obj p' = n_obj p \<and> d = db s1" "n_ty n \<notin> {RT_CIN, RT_SUB} \<longrightarrow> p' = p"
      "n_ty n = RT_SUB \<longrightarrow> p' = without_sub p a"
    by (auto simp: f(2))
  define s2 where "s2 = s1\<lparr>heap := (heap s1)(q \<mapsto> p'), db := d, md := md_drop (heap s1) a (md s1)\<rparr>"
  have k2: "kept (heap s1) (heap s2)" using kept_upd [of "heap s1", OF q1 e(2)] by (simp add: s2_def)
  have c2: "calm (heap s2) a" using calm_kept [OF k2 c1] .
  have a2: "heap s2 a = Some n1" "heap s2 q = Some p'" using n1(1) a(6) by (simp_all add: s2_def)
  from c2 a2 f have m: "elems (n_memberOf n1) = []" "elems (cJSON_GetObjectItem (n_obj n1) ''at'') = []"
    "n_ty n1 \<in> {RT_CNT, RT_FCNT} \<longrightarrow> n_ty p' \<noteq> RT_FCNT" by (auto simp: calm_def)
  have "run E o2pt s2 (Notify OP_DELETE a) = Some s2" using notify_calm [OF c2] .
  then have "run E o2pt s (Delete a) = Some s2"
    using kids(1) a(3) e(1) a2 m f(1) by (subst run.simps) (auto simp: s2_def [symmetric] increment_parent_statetag_def)
  moreover have "deleted s s2 q (post cs @ [a])"
    unfolding deleted_def
  proof (intro conjI allI impI)
    show "kept (heap s) (heap s2)" using kept_trans [OF k1 k2] .
    fix x assume "x \<notin> insert q (set (post cs @ [a]))"
    then show "heap s2 x = heap s x" using kids(2) by (simp add: s2_def deleted_def)
  next
    have "s1 = s\<lparr>heap := heap s1, db := db s1, md := fold (md_drop (heap s)) (post cs) (md s)\<rparr>" using kids(2) by (simp add: deleted_def)
    moreover have "md_drop (heap s1) = md_drop (heap s)" using md_drop_kept [OF k1] .
    ultimately show "s2 = s\<lparr>heap := heap s2, db := db s2, md := fold (md_drop (heap s)) (post cs @ [a]) (md s)\<rparr>"
      by (cases s; cases s1) (simp add: s2_def)
  next
    assume "\<forall>x \<in> set (post cs @ [a]). tyof (heap s) x \<noteq> RT_CIN"
    then show "db s2 = db s" using kids(2) e(3) f(4) by (simp add: s2_def deleted_def)
  qed
  ultimately show ?thesis using a2(2) e(3-5) by blast
qed

lemma deleted_trans:
  assumes "deleted s s1 q as" "deleted s1 s2 q bs"
  shows "deleted s s2 q (as @ bs)"
proof -
  have k: "kept (heap s) (heap s1)" "kept (heap s1) (heap s2)" using assms by (simp_all add: deleted_def)
  have e: "s1 = s\<lparr>heap := heap s1, db := db s1, md := fold (md_drop (heap s)) as (md s)\<rparr>"
    "s2 = s1\<lparr>heap := heap s2, db := db s2, md := fold (md_drop (heap s1)) bs (md s1)\<rparr>"
    using assms by (simp_all add: deleted_def)
  have "s2 = s\<lparr>heap := heap s2, db := db s2, md := fold (md_drop (heap s)) (as @ bs) (md s)\<rparr>"
    using e md_drop_kept [OF k(1)] by (cases s; cases s1; cases s2) simp
  with assms kept_trans [OF k] kept_tyof [OF k(1)] show ?thesis by (auto simp: deleted_def)
qed

lemma run_children:
  assumes "seg (heap s) (Some q) left p ts None" "distinct (q # addrs ts)" "deletable (heap s) (set (addrs ts))" "heap s q \<noteq> None"
  shows "\<exists>s'. run E o2pt s (Children p) = Some s' \<and> deleted s s' q (post ts)"
  using assms
proof (induction ts arbitrary: s q left p rule: post.induct)
  case 1
  then show ?case by (simp add: run.simps deleted_def)
next
  case (2 a cs ts)
  from "2.prems"(1) obtain n where n: "heap s a = Some n" "p = Some a" "n_parent n = Some q"
    "seg (heap s) (Some a) None (n_child n) cs None" "seg (heap s) (Some q) (Some a) (n_sibling_right n) ts None"
    by (auto split: option.splits)
  obtain pn where pn: "heap s q = Some pn" using "2.prems"(4) by blast
  have del: "deletable (heap s) (set (addrs cs))" "deletable (heap s) (set (addrs ts))"
    using "2.prems"(3) by (auto intro: deletable_mono)
  obtain s1 where s1: "run E o2pt s (Children (n_child n)) = Some s1" "deleted s s1 a (post cs)"
    using "2.IH"(1) [OF n(4) _ del(1)] "2.prems"(2) n(1) by auto
  have a: "calm (heap s) a" "tyof (heap s) a = RT_CIN \<longrightarrow> countable (heap s) a"
    using "2.prems"(3) by (simp_all add: deletable_def)
  obtain s2 p' where s2: "run E o2pt s (Delete a) = Some s2" "deleted s s2 q (post cs @ [a])" "heap s2 q = Some p'"
    "n_ty n \<noteq> RT_CIN \<longrightarrow> n_obj p' = n_obj pn"
    using run_delete [OF s1 a n(1,3) pn] "2.prems"(2) by auto
  have k: "kept (heap s) (heap s2)" using s2(2) by (simp add: deleted_def)
  obtain n' where n': "heap s2 a = Some n'" "core n' = core n" using kept_Some [OF k n(1)] by (auto simp: kept_node_def)
  note right = core_fields(4) [OF n'(2)]
  have "deletable (heap s2) (set (addrs ts))"
  proof (rule deletable_kept [OF del(2) k])
    fix x y
    assume x: "x \<in> set (addrs ts)" "tyof (heap s) x = RT_CIN" "parent_of (heap s) x = Some y"
    show "node_obj (heap s2) y = node_obj (heap s) y"
    proof (cases "y = q")
      case True
      have "x \<noteq> a" using x(1) "2.prems"(2) by auto
      then have "tyof (heap s) a \<noteq> RT_CIN"
        using "2.prems"(3) x True n(1,3) by (auto simp: deletable_def parent_of_def)
      then show ?thesis using s2(3,4) True pn n(1) by (simp add: node_obj_def tyof_def)
    next
      case False
      then have "y \<in> set (addrs ts)" using seg_parent_in [OF n(5) x(1)] x(3) by auto
      then have "y \<notin> insert q (set (post cs @ [a]))" using "2.prems"(2) by auto
      then have "heap s2 y = heap s y" using s2(2) unfolding deleted_def by blast
      then show ?thesis by (simp add: node_obj_def)
    qed
  qed
  moreover have "seg (heap s2) (Some q) (Some a) (n_sibling_right n) ts None" using n(5) kept_seg [OF k] by simp
  ultimately obtain s3 where s3: "run E o2pt s2 (Children (n_sibling_right n)) = Some s3" "deleted s2 s3 q (post ts)"
    using "2.IH"(2) [of s2 q "Some a" "n_sibling_right n"] "2.prems"(2) s2(3) by auto
  have "run E o2pt s (Children p) = Some s3" using n(2) s2(1) n'(1) right s3(1) by (subst run.simps) simp
  then show ?case using deleted_trans [OF s2(2) s3(2)] by auto
qed

text \<open>
  \<^verbatim>\<open>delete_process\<close> on a resource of a tree whose subtree can be deleted returns, and changes nothing outside the subtree but
  the list of subscriptions of the parent, when a subscription is deleted, or the counters of the container of an instance.
\<close>

lemma delete_process_run:
  assumes "wf_rt (heap s) r t" "(q, us @ T a cs # vs) \<in> set (nodes [t])" "heap s a = Some n" "heap s q = Some p"
    and "deletable (heap s) (set (a # addrs cs))"
  shows "\<exists>s' p'. delete_process E s o2pt a = Some s' \<and> deleted s s' q (post cs @ [a]) \<and> heap s' q = Some p' \<and>
    (n_ty n \<notin> {RT_CIN, RT_SUB} \<longrightarrow> p' = p) \<and> (n_ty n = RT_SUB \<longrightarrow> p' = without_sub p a)"
proof -
  obtain m where m: "heap s q = Some m" "seg (heap s) (Some q) None (n_child m) (us @ T a cs # vs) None"
    using seg_node assms(1,2) unfolding wf_rt_def by blast
  from m(2) obtain left l where "seg (heap s) (Some q) left l (T a cs # vs) None" by (auto simp: seg_append)
  then have n: "n_parent n = Some q" "seg (heap s) (Some a) None (n_child n) cs None" using assms(3) by (auto split: option.splits)
  have "distinct (q # addrs (us @ T a cs # vs))"
    using distinct_node_kids assms(1,2) unfolding wf_rt_def by blast
  then have d: "distinct (a # addrs cs)" "q \<notin> insert a (set (addrs cs))" by auto
  have del: "deletable (heap s) (set (addrs cs))" using assms(5) by (rule deletable_mono) auto
  obtain s1 where s1: "run E o2pt s (Children (n_child n)) = Some s1" "deleted s s1 a (post cs)"
    using run_children [OF n(2) d(1) del, of E o2pt] assms(3) by auto
  have "calm (heap s) a" "tyof (heap s) a = RT_CIN \<longrightarrow> countable (heap s) a" using assms(5) by (simp_all add: deletable_def)
  from run_delete [OF s1 this assms(3) n(1) assms(4) d(2)] show ?thesis unfolding delete_process_def by blast
qed

end
