(* ===== verification/DispatchProps.thy ===== *)
theory DispatchProps
  imports Dispatch LifecycleProps DeletionProps
begin

text \<open>
  Properties of whole requests: no operation on a resource without the privilege for it, and the
  resources that no request changes.
\<close>

section \<open>Complete mediation\<close>

text \<open>
  An answer that reports an error and gives nothing of the resource away: its content is the
  debug message.
\<close>

definition error_answer :: "oneM2MPrimitive \<Rightarrow> bool" where
  "error_answer o2pt \<longleftrightarrow> p_errFlag o2pt \<and> 4000 \<le> p_rsc o2pt \<and>
     (\<exists>m. p_response_pc o2pt = Some (JObject [(''m2m:dbg'', JString m)]))"

lemma error_answer_handle_error [simp]: "4000 \<le> rsc \<Longrightarrow> error_answer (handle_error o2pt rsc m)"
  by (simp add: error_answer_def handle_error_def)

lemma check_payload_empty_cases:
  "check_payload_empty o2pt = pass o2pt \<or> (\<exists>o2pt'. check_payload_empty o2pt = (- 1, o2pt') \<and> error_answer o2pt')"
  by (auto simp: check_payload_empty_def split: option.splits)

lemma check_resource_type_equal_cases:
  "check_resource_type_equal o2pt = pass o2pt \<or> (\<exists>o2pt'. check_resource_type_equal o2pt = (- 1, o2pt') \<and> error_answer o2pt')"
  by (auto simp: check_resource_type_equal_def)

lemma check_resource_type_invalid_cases:
  "check_resource_type_invalid o2pt = pass o2pt \<or> (\<exists>o2pt'. check_resource_type_invalid o2pt = (- 1, o2pt') \<and> error_answer o2pt')"
  by (auto simp: check_resource_type_invalid_def)

lemma decided_refusal:
  "decided o2pt r \<Longrightarrow> r = Some (- 1, o2pt', s') \<Longrightarrow> error_answer o2pt'"
  by (auto simp: decided_def refused_def deny_privilege_def)

text \<open>The privilege that an operation needs, as the code asks for it.\<close>

definition required_check :: "'d env \<Rightarrow> 'd cse \<Rightarrow> oneM2MPrimitive \<Rightarrow> addr \<Rightarrow> 'd outcome" where
  "required_check E s o2pt a =
     (if p_op o2pt = OP_UPDATE
      then do {
        n \<leftarrow> heap s a;
        let contents = get_request_resource_content o2pt (parse_object_type_cjson (p_request_pc o2pt));
        update_checks E s (o2pt\<lparr>p_ty := n_ty n\<rparr>) a (cJSON_GetObjectItem contents ''acpi'' \<noteq> None) }
      else check_privilege E s o2pt (Some a)
        (if p_op o2pt = OP_CREATE then ACOP_CREATE else if p_op o2pt = OP_DELETE then ACOP_DELETE else ACOP_RETRIEVE))"

lemma required_check_refusal:
  "required_check E s o2pt a = Some (- 1, o2pt', s') \<Longrightarrow> error_answer o2pt'"
  by (auto simp: required_check_def update_checks_def bind_eq_Some_conv split: if_splits
      intro: decided_refusal check_privilege_decided check_acpi_update_decided)

lemma required_check_lookups: "required_check E s o2pt a = Some (rc, o2pt', s') \<Longrightarrow> lookups E s s'"
  by (auto simp: required_check_def update_checks_def bind_eq_Some_conv split: if_splits
      dest: check_privilege_lookups check_acpi_update_lookups)

lemma create_refused:
  assumes "p_op o2pt = OP_CREATE" "required_check E s o2pt a = Some (- 1, o1, s1)"
    "create_onem2m_resource E s o2pt a = Some (rsc, o2pt', s')"
  shows "error_answer o2pt' \<and> s' \<in> {s, s1}"
proof -
  have "check_privilege E s o2pt (Some a) ACOP_CREATE = Some (- 1, o1, s1)" "error_answer o1"
    using assms(1,2) required_check_refusal [OF assms(2)] by (auto simp: required_check_def)
  then have "\<exists>o2 s2. create_checks E s o2pt a = Some (- 1, o2, s2) \<and> error_answer o2 \<and> s2 \<in> {s, s1}"
    using check_resource_type_invalid_cases [of o2pt] check_payload_empty_cases [of o2pt] check_resource_type_equal_cases [of o2pt]
    by (auto simp: create_checks_def)
  with assms(3) show ?thesis
    by (auto simp: create_onem2m_resource_def)
qed

lemma delete_refused:
  assumes "p_op o2pt = OP_DELETE" "required_check E s o2pt a = Some (- 1, o1, s1)"
    "delete_onem2m_resource E s o2pt a = Some (rsc, o2pt', s')"
  shows "error_answer o2pt' \<and> s' \<in> {s, s1}"
  using assms required_check_refusal [OF assms(2)]
  by (auto simp: required_check_def delete_onem2m_resource_def bind_eq_Some_conv split: if_splits)

lemma retrieve_refused:
  assumes "p_op o2pt = OP_RETRIEVE" "required_check E s o2pt a = Some (- 1, o1, s1)"
    "retrieve_onem2m_resource E s o2pt a = Some (rsc, o2pt', s')"
  shows "error_answer o2pt' \<and> s' \<in> {s, s1}"
  using assms required_check_refusal [OF assms(2)]
  by (auto simp: required_check_def retrieve_onem2m_resource_def)

lemma update_refused:
  assumes "p_op o2pt = OP_UPDATE" "required_check E s o2pt a = Some (- 1, o1, s1)"
    "update_onem2m_resource E s o2pt a = Some (rsc, o2pt', s')"
  shows "error_answer o2pt' \<and> s' \<in> {s, s1}"
proof -
  obtain n where n: "heap s a = Some n" using assms(3) by (auto simp: update_onem2m_resource_def bind_eq_Some_conv)
  let ?o = "o2pt\<lparr>p_ty := n_ty n\<rparr>"
  have c: "get_request_resource_content ?o = get_request_resource_content o2pt"
    by (simp add: get_request_resource_content_def fun_eq_iff)
  show ?thesis
    using assms required_check_refusal [OF assms(2)] check_payload_empty_cases [of ?o] check_resource_type_equal_cases [of ?o]
    by (auto simp: required_check_def update_onem2m_resource_def n c Let_def split: if_splits)
qed

text \<open>
  C1. Complete mediation: when the check that goes with the operation refuses the request, a
  creation, retrieval, update or deletion is answered with an error whose content is a debug
  message only. The state is the one before the request or the one that the check itself left, and
  that differs from the one before by lookups alone: nodes made at new addresses for instances read
  from the database, and the removal of expired resources from tree and database. The handler of the
  operation has created, changed, deleted and sent nothing.
\<close>

theorem complete_mediation:
  assumes "p_op o2pt \<in> {OP_CREATE, OP_RETRIEVE, OP_UPDATE, OP_DELETE}"
    and "required_check E s o2pt a = Some (- 1, o1, s1)"
    and "handle_onem2m_request E s o2pt (Some a) = Some (rsc, o2pt', s')"
  shows "error_answer o2pt' \<and> s' \<in> {s, s1} \<and> lookups E s s'"
proof -
  have "error_answer o2pt' \<and> s' \<in> {s, s1}"
    using assms create_refused [OF _ assms(2)] delete_refused [OF _ assms(2)] retrieve_refused [OF _ assms(2)]
      update_refused [OF _ assms(2)]
    by (auto simp: handle_onem2m_request_def split: option.splits)
  with required_check_lookups [OF assms(2)] show ?thesis by auto
qed

lemma ex_node: "heap (ex_cse d) 3 = Some (mk_node RT_CNT ''cnt2'' ''3-2'' (Some ''TinyIoT/ae1/cnt2'') (Some 1) None None None)"
  by (simp add: ex_cse_def ex_heap_def)

lemma ex_policy: "first_policy (heap (ex_cse d)) fr [3, 1, 0] = Policy_Owner (''CAE1'' = fr)"
  by (simp add: ex_cse_def ex_heap_def mk_node_def ci_eq_def tolower_def get_ri_rtnode_def member_string_def)

lemma ex_check:
  assumes "plain_originator o2pt fr"
  shows "check_privilege E (ex_cse d) o2pt (Some 3) acop = decide o2pt (''CAE1'' = fr, ex_cse d)"
proof -
  have "effective_policy ex_heap fr (Some 3) = Some (Policy_Owner (''CAE1'' = fr))"
    using effective_policy_first [of ex_heap "Some 0" ex_tree 3 "[3, 1, 0]" fr] ex_wf ex_policy [of undefined fr]
    by (simp add: ex_cse_def ex_tree_def)
  moreover have "plain_resource (mk_node RT_CNT ''cnt2'' ''3-2'' (Some ''TinyIoT/ae1/cnt2'') (Some 1) None None None)"
    by (simp add: plain_resource_def mk_node_def ci_eq_def tolower_def)
  ultimately show ?thesis
    using check_privilege_plain [OF assms ex_node] by (simp add: policy_decision_def) (simp add: ex_cse_def)
qed

abbreviation ex_delete :: "string \<Rightarrow> oneM2MPrimitive" where
  "ex_delete fr \<equiv> (ex_request fr)\<lparr>p_op := OP_DELETE, p_rcn := RCN_NOTHING\<rparr>"

lemma ex_delete_originator: "plain_originator (ex_delete ''CAE1'') ''CAE1''" "plain_originator (ex_delete ''CAE9'') ''CAE9''"
  by (simp_all add: plain_originator_def ex_request_def)

theorem complete_mediation_witness:
  "\<exists>o2pt'. handle_onem2m_request list_env (ex_cse []) (ex_delete ''CAE9'') (Some 3) =
     Some (RSC_ORIGINATOR_HAS_NO_PRIVILEGE, o2pt', ex_cse []) \<and> error_answer o2pt'"
proof -
  let ?o = "ex_delete ''CAE9''"
  have c: "check_privilege list_env (ex_cse []) ?o (Some 3) ACOP_DELETE = denied ?o (ex_cse [])"
    using ex_check [OF ex_delete_originator(2), of list_env "[]" ACOP_DELETE] by (simp add: decide_def)
  then have r: "required_check list_env (ex_cse []) ?o 3 = Some (- 1, snd (deny_privilege ?o), ex_cse [])"
    by (simp add: required_check_def deny_privilege_def)
  have "handle_onem2m_request list_env (ex_cse []) ?o (Some 3) =
    Some (RSC_ORIGINATOR_HAS_NO_PRIVILEGE, snd (deny_privilege ?o), ex_cse [])"
    using c by (simp add: handle_onem2m_request_def rcn_refused_def delete_onem2m_resource_def deny_privilege_def ex_node mk_node_def)
  with complete_mediation [OF _ r this] show ?thesis by simp
qed

section \<open>Guards of a creation\<close>

definition clean :: "oneM2MPrimitive \<Rightarrow> checked option \<Rightarrow> bool" where
  "clean o2pt r \<longleftrightarrow> (\<forall>e o2pt'. r = Some (e, o2pt') \<longrightarrow> (e = 0 \<and> o2pt' = o2pt) \<or> (e = - 1 \<and> error_answer o2pt'))"

lemma clean_simps [simp]: "clean o2pt None" "clean o2pt (Some (pass o2pt))" "4000 \<le> rsc \<Longrightarrow> clean o2pt (Some (fail o2pt rsc m))"
  by (simp_all add: clean_def)

lemma clean_bind: "(\<And>x. clean o2pt (f x)) \<Longrightarrow> clean o2pt (Option.bind m f)"
  by (cases m) simp_all

lemma check_rn_duplicate_clean: "clean o2pt (check_rn_duplicate dup h o2pt r)"
  unfolding check_rn_duplicate_def
  by (cases r) (simp, simp only: option.case, intro clean_bind, simp add: clean_bind split: option.split)

lemma create_checks_cases:
  assumes "create_checks E s o2pt a = Some (e, o2pt', s')"
  shows "(e = - 1 \<and> error_answer o2pt') \<or>
    (e = 0 \<and> o2pt' = o2pt \<and> check_resource_type_invalid o2pt = pass o2pt \<and> check_resource_type_equal o2pt = pass o2pt \<and>
     check_privilege E s o2pt (Some a) ACOP_CREATE = granted o2pt s' \<and>
     check_rn_duplicate (e_db_check_cin_rn_dup E (db s')) (heap s') o2pt (Some a) = Some (pass o2pt))"
proof -
  have "rc = 0 \<and> o1 = o2pt \<or> rc = - 1 \<and> error_answer o1" if "check_privilege E s o2pt (Some a) ACOP_CREATE = Some (rc, o1, s1)" for rc o1 s1
    using check_privilege_decided [of o2pt E s "Some a" ACOP_CREATE] that
    by (auto simp: decided_def refused_def deny_privilege_def)
  then show ?thesis
    using assms check_resource_type_invalid_cases [of o2pt] check_payload_empty_cases [of o2pt] check_resource_type_equal_cases [of o2pt]
      check_rn_duplicate_clean
    by (fastforce simp: create_checks_def clean_def split: if_splits)
qed

text \<open>
  C14. No guard of a creation is bypassed: when the answer to a creation is CREATED, the originator had
  the privilege to create below the parent, the type in the request is the one of the contents and
  may be created, the parent may have a child of that type, the name was free, and the expiration
  time was not in the past.
\<close>

theorem create_guarded:
  assumes "create_onem2m_resource E s o2pt a = Some (RSC_CREATED, o2pt', s')"
  shows "\<exists>s1 p o1. check_privilege E s o2pt (Some a) ACOP_CREATE = granted o2pt s1 \<and> heap s1 a = Some p \<and>
    p_ty o2pt \<notin> {RT_CSE, RT_MIXED} \<and> (p_ty o2pt = RT_FCIN \<or> parse_object_type_cjson (p_request_pc o2pt) = p_ty o2pt) \<and>
    isValidChildType (n_ty p) (p_ty o2pt) \<and>
    check_rn_duplicate (e_db_check_cin_rn_dup E (db s1)) (heap s1) o2pt (Some a) = Some (pass o2pt) \<and>
    check_et E o2pt = Some (True, o1)"
proof -
  obtain e o1 s1 where c: "create_checks E s o2pt a = Some (e, o1, s1)"
    using assms by (auto simp: create_onem2m_resource_def)
  from create_checks_cases [OF c] have "e = - 1 \<and> error_answer o1 \<or> e = 0 \<and> o1 = o2pt" by auto
  moreover have "\<not> (e = - 1 \<and> error_answer o1)"
    using assms c by (auto simp: create_onem2m_resource_def error_answer_def)
  ultimately have e: "e = 0" "o1 = o2pt" by auto
  with create_checks_cases [OF c] show ?thesis
    using assms c
    by (auto simp: create_onem2m_resource_def check_resource_type_invalid_def check_resource_type_equal_def split: if_splits)
qed

section \<open>Creation of a container\<close>

text \<open>A request to create a container that passes the checks before the privilege and the attribute check.\<close>

definition asks_container :: "oneM2MPrimitive \<Rightarrow> (string \<times> cjson) list \<Rightarrow> bool" where
  "asks_container o2pt kvs \<longleftrightarrow> p_op o2pt = OP_CREATE \<and> p_ty o2pt = RT_CNT \<and>
     parse_object_type_cjson (p_request_pc o2pt) = RT_CNT \<and>
     cJSON_GetObjectItem (p_request_pc o2pt) ''m2m:cnt'' = Some (JObject kvs)"

lemma rn_free:
  assumes "free_place s t parent puri rn" "heap s parent = Some p"
  shows "find_sibling (heap s) (n_child p) rn = Some None"
proof -
  obtain cs where cs: "(parent, cs) \<in> set (nodes [t])" "list_all (\<lambda>t. rn_of (heap s) (root t) \<noteq> Some rn) cs"
    and wf: "wf_rt (heap s) (cb s) t" "named_rt (heap s) t"
    using assms(1) unfolding free_place_def by blast
  obtain n where n: "heap s parent = Some n" "seg (heap s) (Some parent) None (n_child n) cs None"
    using seg_node [OF _ cs(1)] wf(1) unfolding wf_rt_def by blast
  obtain v where "named (heap s) v cs" using named_rt_node [OF wf(2) cs(1)] by blast
  then have "list_all (\<lambda>t. rn_of (heap s) (root t) \<noteq> None) cs"
    using named_rn by (fastforce simp: list_all_iff)
  from find_sibling_find [OF n(2) this, of rn] n(1) assms(2) cs(2) show ?thesis
    by (auto simp: find_None_iff list_all_iff)
qed

lemma create_checks_container:
  assumes "asks_container o2pt kvs" "find_member kvs ''rn'' = Some (JString rn)" "free_place s t parent puri rn"
    and "heap s parent = Some p" "check_privilege E s o2pt (Some parent) ACOP_CREATE = granted o2pt s"
  shows "create_checks E s o2pt parent = Some (0, o2pt, s)"
proof -
  have "p_request_pc o2pt \<noteq> None" using assms(1) by (cases "p_request_pc o2pt") (auto simp: asks_container_def)
  then have c: "check_resource_type_invalid o2pt = pass o2pt" "check_payload_empty o2pt = pass o2pt"
    "check_resource_type_equal o2pt = pass o2pt"
    using assms(1)
    by (auto simp: asks_container_def check_resource_type_invalid_def check_payload_empty_def check_resource_type_equal_def)
  have "getResource (p_request_pc o2pt) RT_CNT = Some (Some (JObject kvs))"
    using assms(1) by (simp add: asks_container_def getResource_def get_resource_table_def)
  moreover have "find_sibling (heap s) (n_child p) (case n_child p of None \<Rightarrow> [] | Some _ \<Rightarrow> rn) = Some None"
    using rn_free [OF assms(3,4)] by (cases "n_child p") (simp_all add: find_sibling.simps)
  ultimately have "check_rn_duplicate dup (heap s) o2pt (Some parent) = Some (pass o2pt)" for dup
    using assms(1,2,4) by (auto simp: check_rn_duplicate_def asks_container_def split: option.splits)
  then show ?thesis using c assms(5) by (simp add: create_checks_def)
qed

lemma create_container_run:
  assumes "asks_container o2pt kvs"
    and kvs: "lacks kvs server_set" "find_member kvs ''rn'' = Some (JString rn)" "rn \<notin> {''la'', ''ol'', ''latest'', ''oldest''}"
    "\<not> negative_attr (JObject kvs) ''mia''" "\<not> negative_attr (JObject kvs) ''mni''" "\<not> negative_attr (JObject kvs) ''mbs''"
    and parent: "heap s parent = Some p" "cJSON_GetObjectItem (n_obj p) ''ri'' = Some (JString pri)"
    and "free_place s t parent puri rn" "stores E" "plain_answer o2pt"
    and ty: "isValidChildType (n_ty p) RT_CNT" "n_ty p \<noteq> RT_FCNT"
    and "check_privilege E s o2pt (Some parent) ACOP_CREATE = granted o2pt s" "is_attr_valid (p_request_pc o2pt) RT_CNT = Some (True, msg)"
    and obj: "obj = JObject (kvs @ general_members E s RT_CNT pri @ counter_members kvs)"
  shows "\<exists>s'. create_onem2m_resource E s o2pt parent =
      Some (RSC_CREATED, o2pt\<lparr>p_rsc := RSC_CREATED, p_response_pc := Some (JObject [(''m2m:cnt'', obj)])\<rparr>, s') \<and>
    inserted E s t s' (puri @ ''/'' @ rn) obj \<and> db s' = snd (e_db_store_resource E (db s) obj (puri @ ''/'' @ rn))"
proof -
  have o: "p_ty o2pt = RT_CNT" "cJSON_GetObjectItem (p_request_pc o2pt) ''m2m:cnt'' = Some (JObject kvs)"
    using assms(1) by (auto simp: asks_container_def)
  from create_cnt_run [OF o(2) kvs parent assms(10-12) obj] obtain s' where
    run: "create_cnt E s o2pt parent =
      Some (RSC_CREATED, o2pt\<lparr>p_rsc := RSC_CREATED, p_response_pc := Some (JObject [(''m2m:cnt'', obj)])\<rparr>, s')"
    and ins: "inserted E s t s' (puri @ ''/'' @ rn) obj" "db s' = snd (e_db_store_resource E (db s) obj (puri @ ''/'' @ rn))"
    by blast
  obtain cs where "(parent, cs) \<in> set (nodes [t])" using assms(10) unfolding free_place_def by blast
  with ins(1) have "names (heap s') parent = names (heap s) parent" unfolding inserted_def by blast
  then obtain p' where p': "heap s' parent = Some p'" "n_ty p' = n_ty p"
    using parent(1) by (auto simp: names_def)
  have "find_member kvs ''et'' = None" using kvs(1) by (simp add: lacks_def server_set_def)
  then have "check_et E o2pt = Some (True, o2pt)"
    using o by (simp add: check_et_def new_contents_def get_resource_key_def resource_key_table_def)
  moreover have "create_checks E s o2pt parent = Some (0, o2pt, s)"
    using create_checks_container [OF assms(1) kvs(2) assms(10) parent(1) assms(15)] .
  ultimately have "create_onem2m_resource E s o2pt parent = create_cnt E s o2pt parent"
    using o parent(1) ty assms(16) p' run by (simp add: create_onem2m_resource_def create_by_type_def)
  with run ins show ?thesis by simp
qed

text \<open>
  C2. Creation of a container, from the request to the answer. Let the originator have the privilege and
  let the contents pass the attribute check and be a container with a legal, unreserved name that no sibling
  has, without attributes the server assigns, without \<^verbatim>\<open>acpi\<close>, \<^verbatim>\<open>cr\<close> and announcement, and with no
  negative limit; the parent is no flexContainer, every resource of the tree has the address its names give, and the request asks for
  the attributes and has no filter criteria. If the database stores it, the answer is CREATED, the new resource is the request
  extended by type, times, identifier, parent, expiration, zero counters and a default limit, it is in
  the tree under its address and in the answer, the tree is well formed, every old address resolves to
  the resource it had, and no other resource has changed.
\<close>

theorem create_container_request:
  assumes "asks_container o2pt kvs"
    and kvs: "lacks kvs server_set" "find_member kvs ''rn'' = Some (JString rn)" "rn \<notin> {''la'', ''ol'', ''latest'', ''oldest''}"
    "\<not> negative_attr (JObject kvs) ''mia''" "\<not> negative_attr (JObject kvs) ''mni''" "\<not> negative_attr (JObject kvs) ''mbs''"
    and parent: "heap s parent = Some p" "cJSON_GetObjectItem (n_obj p) ''ri'' = Some (JString pri)"
    and "free_place s t parent puri rn" "stores E" "plain_answer o2pt"
    and ty: "isValidChildType (n_ty p) RT_CNT" "n_ty p \<noteq> RT_FCNT"
    and "check_privilege E s o2pt (Some parent) ACOP_CREATE = granted o2pt s" "is_attr_valid (p_request_pc o2pt) RT_CNT = Some (True, msg)"
    and obj: "obj = JObject (kvs @ general_members E s RT_CNT pri @ counter_members kvs)"
  shows "\<exists>s'. handle_onem2m_request E s o2pt (Some parent) =
      Some (RSC_CREATED, o2pt\<lparr>p_rsc := RSC_CREATED, p_response_pc := Some (JObject [(''m2m:cnt'', obj)])\<rparr>, s') \<and>
    inserted E s t s' (puri @ ''/'' @ rn) obj \<and> db s' = snd (e_db_store_resource E (db s) obj (puri @ ''/'' @ rn))"
proof -
  have "handle_onem2m_request E s o2pt (Some parent) = create_onem2m_resource E s o2pt parent"
    using assms(1,12) by (simp add: handle_onem2m_request_def rcn_refused_def plain_answer_def asks_container_def)
  then show ?thesis using create_container_run [OF assms] by simp
qed

subsection \<open>A concrete request\<close>

definition ex_create :: "string \<Rightarrow> oneM2MPrimitive" where
  "ex_create fr = (ex_request fr)\<lparr>p_op := OP_CREATE, p_ty := RT_CNT, p_rcn := RCN_ATTRIBUTES,
     p_request_pc := Some (JObject [(''m2m:cnt'', JObject ex_new)])\<rparr>"

lemma ex_ae: "heap (ex_cse d) 1 = Some (mk_node RT_AE ''ae1'' ''CAE1'' (Some ''TinyIoT/ae1'') (Some 0) (Some 3) None (Some 2))"
  by (simp add: ex_cse_def ex_heap_def)

lemma ex_create_granted: "check_privilege E (ex_cse d) (ex_create ''CAE1'') (Some 1) ACOP_CREATE = granted (ex_create ''CAE1'') (ex_cse d)"
proof -
  have "first_policy (heap (ex_cse d)) ''CAE1'' [1, 0] = Policy_Owner True"
    by (simp add: ex_cse_def ex_heap_def mk_node_def ci_eq_def tolower_def get_ri_rtnode_def member_string_def)
  then have "effective_policy (heap (ex_cse d)) ''CAE1'' (Some 1) = Some (Policy_Owner True)"
    using effective_policy_first [OF ex_cse_wf [of d], of 1 "[1, 0]" "''CAE1''"] by (simp add: ex_tree_def)
  moreover have "plain_originator (ex_create ''CAE1'') ''CAE1''"
    by (simp add: plain_originator_def ex_create_def ex_request_def)
  note check_privilege_plain [OF this ex_ae, of E d ACOP_CREATE]
  moreover have "plain_resource (mk_node RT_AE ''ae1'' ''CAE1'' (Some ''TinyIoT/ae1'') (Some 0) (Some 3) None (Some 2))"
    by (simp add: plain_resource_def mk_node_def ci_eq_def tolower_def)
  ultimately show ?thesis by (simp add: policy_decision_def decide_def)
qed

lemma ex_create_valid: "\<exists>msg. is_attr_valid (p_request_pc (ex_create fr)) RT_CNT = Some (True, msg)"
proof -
  have "map_option fst (is_attr_valid (Some (JObject [(''m2m:cnt'', JObject ex_new)])) RT_CNT) = Some True"
    by code_simp
  then show ?thesis by (auto simp: ex_create_def)
qed

lemma ex_create_asks: "asks_container (ex_create fr) ex_new" "plain_answer (ex_create fr)"
  by (simp_all add: asks_container_def ex_create_def plain_answer_def ex_request_def empty_o2pt_def parse_object_type_cjson_def
      object_type_keys_def ci_eq_def tolower_def)

lemma ex_ae_parent:
  "cJSON_GetObjectItem (n_obj (mk_node RT_AE ''ae1'' ''CAE1'' (Some ''TinyIoT/ae1'') (Some 0) (Some 3) None (Some 2))) ''ri'' =
     Some (JString ''CAE1'')"
  "isValidChildType (n_ty (mk_node RT_AE ''ae1'' ''CAE1'' (Some ''TinyIoT/ae1'') (Some 0) (Some 3) None (Some 2))) RT_CNT"
  "n_ty (mk_node RT_AE ''ae1'' ''CAE1'' (Some ''TinyIoT/ae1'') (Some 0) (Some 3) None (Some 2)) \<noteq> RT_FCNT"
  by (simp_all add: mk_node_def ci_eq_def tolower_def isValidChildType_def child_table_def)

theorem create_container_request_witness:
  "\<exists>o2pt' s' obj. handle_onem2m_request list_env (ex_cse []) (ex_create ''CAE1'') (Some 1) = Some (RSC_CREATED, o2pt', s') \<and>
     inserted list_env (ex_cse []) ex_tree s' ''TinyIoT/ae1/c9'' obj"
proof -
  obtain msg where "is_attr_valid (p_request_pc (ex_create ''CAE1'')) RT_CNT = Some (True, msg)" using ex_create_valid by blast
  from create_container_request [OF ex_create_asks(1) ex_new_plain ex_ae ex_ae_parent(1) ex_place list_env_stores ex_create_asks(2)
      ex_ae_parent(2,3) ex_create_granted this refl, of "[]"]
  show ?thesis by auto
qed

theorem create_guarded_witness:
  "isValidChildType RT_AE RT_CNT \<and> (\<exists>o1. check_et list_env (ex_create ''CAE1'') = Some (True, o1))"
proof -
  obtain msg where "is_attr_valid (p_request_pc (ex_create ''CAE1'')) RT_CNT = Some (True, msg)" using ex_create_valid by blast
  from create_container_run [OF ex_create_asks(1) ex_new_plain ex_ae ex_ae_parent(1) ex_place list_env_stores ex_create_asks(2)
      ex_ae_parent(2,3) ex_create_granted this refl, of "[]"]
  obtain o2pt' s' where "create_onem2m_resource list_env (ex_cse []) (ex_create ''CAE1'') 1 = Some (RSC_CREATED, o2pt', s')" by auto
  from create_guarded [OF this] show ?thesis
    unfolding ex_create_granted by (auto simp: ex_ae mk_node_def ex_create_def simp del: One_nat_def)
qed

section \<open>Resources that no request changes\<close>

text \<open>
  C38. Immutable resources: whoever asks, the CSEBase is neither created, updated nor deleted, and a
  contentInstance, timeSeriesInstance or flexContainerInstance is not updated; the answer is
  OPERATION\_NOT\_ALLOWED and the state of the CSE is the same.
\<close>

theorem immutable_resources:
  assumes "heap s a = Some n" "rcn_refused (p_op o2pt) (p_rcn o2pt) = None"
    and "p_op o2pt = OP_UPDATE \<and> n_ty n \<in> {RT_CSE, RT_CIN, RT_TSI, RT_FCIN} \<or> p_op o2pt = OP_DELETE \<and> n_ty n = RT_CSE \<or>
      p_op o2pt = OP_CREATE \<and> p_ty o2pt = RT_CSE"
  shows "\<exists>o2pt'. handle_onem2m_request E s o2pt (Some a) = Some (RSC_OPERATION_NOT_ALLOWED, o2pt', s) \<and> error_answer o2pt'"
  using assms
  by (auto simp: handle_onem2m_request_def update_onem2m_resource_def delete_onem2m_resource_def create_onem2m_resource_def
      create_checks_def check_resource_type_invalid_def)

theorem immutable_resources_witness:
  "\<exists>o2pt'. handle_onem2m_request list_env (ex_cse []) (ex_delete ADMIN_AE_ID) (Some 0) =
     Some (RSC_OPERATION_NOT_ALLOWED, o2pt', ex_cse []) \<and> error_answer o2pt'"
  by (rule immutable_resources) (auto simp: ex_cse_def ex_heap_def mk_node_def rcn_refused_def)

section \<open>Deletion of a subtree\<close>

lemma make_response_body_plain:
  assumes "heap s a = Some n" "p_rcn o2pt \<in> {RCN_NOTHING, RCN_ATTRIBUTES}" "p_cnst o2pt = 0"
  shows "\<exists>rsc o2pt'. make_response_body E s o2pt a = Some (rsc, o2pt', s) \<and> p_rvi o2pt' = p_rvi o2pt"
  using assms by (auto simp: make_response_body_def finish_body_def Let_def)

text \<open>
  C3. Deletion of a subtree: a request to delete a resource of a well-formed tree that the originator may delete
  is answered with DELETED, however deep the subtree is. Afterwards the tree is well formed,
  exactly the resource and its descendants are gone from it and from the memory, the other
  resources are as before, except that a deleted subscription has left the list of its parent; the database was told to delete the
  resource with its identifier and address, after the containers below counted their instances down; the monitor of missing data
  has forgotten the subscriptions and time series below, and nothing else of the state has changed, so nothing was sent.
  The resource may be a container, an AE, a policy, a flexContainer, a time series or a subscription, with subscriptions, time series and the
  latest contentInstances of containers below it. Not covered, for they reach resources elsewhere or send requests: groups and members of
  groups, remote CSEs, announced resources, instances of flexContainers and time series, a contentInstance as the target, containers in a
  flexContainer, and subscriptions that ask for the deletion of a child or of themselves or report missing data. The counts the nodes keep
  of their subscriptions agree with the lists, and the counters of containers stay in the range of an int.
\<close>

theorem delete_removes_subtree:
  assumes "wf_rt (heap s) (cb s) t" "(q, us @ T a cs # vs) \<in> set (nodes [t])" "heap s a = Some n" "heap s q = Some p"
    and "n_ty n \<noteq> RT_CIN" "deletable (heap s) (set (a # addrs cs))"
    and "p_op o2pt = OP_DELETE" "p_rcn o2pt \<in> {RCN_NOTHING, RCN_ATTRIBUTES}" "p_cnst o2pt = 0"
    and "check_privilege E s o2pt (Some a) ACOP_DELETE = granted o2pt s"
  shows "\<exists>o2pt' s' t' d n'. handle_onem2m_request E s o2pt (Some a) = Some (RSC_DELETED, o2pt', s') \<and>
    p_rsc o2pt' = RSC_DELETED \<and> set_kids q (us @ vs) [t] = [t'] \<and> wf_rt (heap s') (cb s') t' \<and>
    mset (addrs [t]) = mset (addrs [t']) + mset (a # addrs cs) \<and>
    (\<forall>x. x \<in> set (a # addrs cs) \<longrightarrow> heap s' x = None) \<and>
    (\<forall>x. x \<notin> set (a # addrs cs) \<longrightarrow> map_option payload (heap s' x) =
       map_option payload (if x = q \<and> n_ty n = RT_SUB then Some (without_sub p a) else heap s x)) \<and>
    s' = s\<lparr>heap := heap s', db := snd (e_db_delete_onem2m_resource E d n'), md := fold (md_drop (heap s)) (post cs @ [a]) (md s)\<rparr> \<and>
    get_ri_rtnode n' = get_ri_rtnode n \<and> n_uri n' = n_uri n \<and>
    ((\<forall>x \<in> set (a # addrs cs). tyof (heap s) x \<noteq> RT_CIN) \<longrightarrow> d = db s)"
proof -
  obtain rsc o1 where b: "make_response_body E s o2pt a = Some (rsc, o1, s)" "p_rvi o1 = p_rvi o2pt"
    using make_response_body_plain [OF assms(3,8,9)] by blast
  obtain s1 p' where d: "delete_process E s o1 a = Some s1" "deleted s s1 q (post cs @ [a])" "heap s1 q = Some p'"
    "n_ty n \<noteq> RT_SUB \<longrightarrow> p' = p" "n_ty n = RT_SUB \<longrightarrow> p' = without_sub p a"
    using delete_process_run [OF assms(1-4,6), of E o1] assms(5) by auto
  have out: "heap s1 x = heap s x" if "x \<noteq> q" "x \<notin> set (a # addrs cs)" for x
    using d(2) that by (auto simp: deleted_def)
  have e: "s1 = s\<lparr>heap := heap s1, db := db s1, md := fold (md_drop (heap s)) (post cs @ [a]) (md s)\<rparr>"
    "(\<forall>x \<in> set (a # addrs cs). tyof (heap s) x \<noteq> RT_CIN) \<longrightarrow> db s1 = db s"
    using d(2) by (auto simp: deleted_def)
  have kept: "kept (heap s) (heap s1)" using d(2) by (simp add: deleted_def)
  obtain n' where n': "heap s1 a = Some n'" "kept_node n n'" using kept_Some [OF kept assms(3)] by blast
  then have f: "n_ty n' = n_ty n" "n_uri n' = n_uri n" "get_ri_rtnode n' = get_ri_rtnode n"
    using core_fields [of n' n] kept_node_ri by (auto simp: kept_node_def)
  from free_rtnode_subtree_aux [OF kept_wf [OF kept assms(1)] assms(2)] obtain h' t' where
    h: "free_rtnode (heap s1) a = Some h'" and t: "set_kids q (us @ vs) [t] = [t']" "wf_rt h' (cb s) t'"
    "mset (addrs [t]) = mset (addrs [t']) + mset (a # addrs cs)"
    "\<forall>x. x \<in> set (a # addrs cs) \<longrightarrow> h' x = None"
    "\<forall>x. x \<notin> set (a # addrs cs) \<longrightarrow> map_option payload (h' x) = map_option payload (heap s1 x)"
    by blast
  let ?s = "s1\<lparr>db := snd (e_db_delete_onem2m_resource E (db s1) n'), heap := h'\<rparr>"
  have "n_ty n \<notin> {RT_CSE, RT_FCIN}" using assms(3,6) by (auto simp: deletable_def calm_def)
  then have "handle_onem2m_request E s o2pt (Some a) = Some (RSC_DELETED, o1\<lparr>p_rsc := RSC_DELETED\<rparr>, ?s)"
    using assms(3,5,7,8,10) b d(1) h n'(1) f(1)
    by (auto simp: handle_onem2m_request_def delete_onem2m_resource_def rcn_refused_def)
  moreover have "map_option payload (h' x) =
      map_option payload (if x = q \<and> n_ty n = RT_SUB then Some (without_sub p a) else heap s x)" if "x \<notin> set (a # addrs cs)" for x
  proof (cases "x = q")
    case True
    then show ?thesis using t(5) that d(3-5) assms(4) by (cases "n_ty n = RT_SUB") auto
  next
    case False
    then show ?thesis using t(5) that out [OF False that] by simp
  qed
  moreover have "?s = s\<lparr>heap := heap ?s, db := snd (e_db_delete_onem2m_resource E (db s1) n'),
      md := fold (md_drop (heap s)) (post cs @ [a]) (md s)\<rparr>" "cb ?s = cb s"
    using e(1) by (cases s; cases s1; simp)+
  ultimately show ?thesis
    using t f(2,3) e(2) by (intro exI [of _ "o1\<lparr>p_rsc := RSC_DELETED\<rparr>"] exI [of _ ?s] exI [of _ t'] exI [of _ "db s1"] exI [of _ n']) simp
qed

text \<open>A container (2) of an AE (1) with its latest instance (3) and a subscription (4) to its updates.\<close>

definition ex_del_heap :: heap where
  "ex_del_heap =
     [0 \<mapsto> mk_node RT_CSE ''TinyIoT'' ''tinyiot'' (Some ''TinyIoT'') None (Some 1) None None,
      1 \<mapsto> mk_node RT_AE ''ae1'' ''CAE1'' (Some ''TinyIoT/ae1'') (Some 0) (Some 2) None None,
      2 \<mapsto> (mk_node RT_CNT ''cnt'' ''3-1'' (Some ''TinyIoT/ae1/cnt'') (Some 1) (Some 3) None None)
        \<lparr>n_obj := Some (JObject [(''ri'', JString ''3-1''), (''cni'', JNumber 1), (''cbs'', JNumber 5), (''st'', JNumber 1)]),
         n_subs := [(4, ''TinyIoT/ae1/cnt/sub'')], n_sub_cnt := 1\<rparr>,
      3 \<mapsto> (mk_node RT_CIN ''la'' ''4-1'' (Some ''TinyIoT/ae1/cnt/la'') (Some 2) None None (Some 4))
        \<lparr>n_obj := Some (JObject [(''ri'', JString ''4-1''), (''cs'', JNumber 5)])\<rparr>,
      4 \<mapsto> (mk_node RT_SUB ''sub'' ''23-1'' (Some ''TinyIoT/ae1/cnt/sub'') (Some 2) None (Some 3) None)
        \<lparr>n_obj := Some (JObject [(''ri'', JString ''23-1''), (''enc'', JObject [(''net'', JArray [JNumber 1])])])\<rparr>]"

definition ex_del_cse :: "rtnode list cse" where
  "ex_del_cse = \<lparr>heap = ex_del_heap, brk = 5, cb = Some 0, registrar_csr = None, csr_list = [], ri_count = 0, md = md_init, db = []\<rparr>"

definition ex_del_tree :: rtree where
  "ex_del_tree = T 0 [T 1 [T 2 [T 3 [], T 4 []]]]"

lemma ex_del_wf: "wf_rt (heap ex_del_cse) (cb ex_del_cse) ex_del_tree"
  by (simp add: wf_rt_def ex_del_cse_def ex_del_tree_def ex_del_heap_def mk_node_def ty_sorted_def tyof_def)

lemma ex_deletable: "deletable (heap ex_del_cse) (set (2 # addrs [T 3 [], T 4 []]))"
proof -
  have sub: "silent_sub (heap ex_del_cse) 4"
    by (simp add: silent_sub_def ex_del_cse_def ex_del_heap_def mk_node_def sub_has_net_def unwrap_sub_def ex_eval cJSON_IsArray_def)
  have "calm (heap ex_del_cse) 2" "calm (heap ex_del_cse) 3" "calm (heap ex_del_cse) 4"
    using sub by (simp_all add: calm_def ex_del_cse_def ex_del_heap_def mk_node_def silent_def counted_def ex_eval INT_MAX_def)
  moreover have "countable (heap ex_del_cse) 3"
    by (simp add: countable_def ex_del_cse_def ex_del_heap_def mk_node_def ex_eval get_ri_rtnode_def in_int_def INT_MAX_def INT_MIN_def)
  moreover have "tyof (heap ex_del_cse) 2 = RT_CNT" "tyof (heap ex_del_cse) 3 = RT_CIN" "tyof (heap ex_del_cse) 4 = RT_SUB"
    by (simp_all add: tyof_def ex_del_cse_def ex_del_heap_def mk_node_def)
  ultimately show ?thesis by (simp add: deletable_def)
qed

lemma ex_del_granted:
  "check_privilege E ex_del_cse (ex_delete ''CAE1'') (Some 2) ACOP_DELETE = granted (ex_delete ''CAE1'') ex_del_cse"
proof -
  have "lineage 2 [] [ex_del_tree] = Some [2, 1, 0]" by (simp add: ex_del_tree_def)
  from effective_policy_first [OF ex_del_wf this, of "''CAE1''"]
  have pol: "effective_policy (heap ex_del_cse) ''CAE1'' (Some 2) = Some (Policy_Owner True)"
    by (simp add: ex_del_cse_def ex_del_heap_def mk_node_def ex_eval get_ri_rtnode_def)
  have n: "\<exists>n. heap ex_del_cse 2 = Some n \<and> plain_resource n"
    by (simp add: ex_del_cse_def ex_del_heap_def mk_node_def plain_resource_def ex_eval)
  then show ?thesis
    using check_privilege_plain [OF ex_delete_originator(1), of ex_del_cse 2] pol by (auto simp: policy_decision_def decide_def)
qed

theorem delete_removes_subtree_witness:
  "\<exists>o2pt' s'. handle_onem2m_request list_env ex_del_cse (ex_delete ''CAE1'') (Some 2) = Some (RSC_DELETED, o2pt', s') \<and>
     wf_rt (heap s') (Some 0) (T 0 [T 1 []]) \<and> heap s' 2 = None \<and> heap s' 3 = None \<and> heap s' 4 = None"
proof -
  have q: "(1, [] @ T 2 [T 3 [], T 4 []] # []) \<in> set (nodes [ex_del_tree])" by (simp add: ex_del_tree_def)
  obtain n p where n: "heap ex_del_cse 2 = Some n" "heap ex_del_cse 1 = Some p" "n_ty n \<noteq> RT_CIN"
    by (simp add: ex_del_cse_def ex_del_heap_def mk_node_def)
  have o: "p_op (ex_delete ''CAE1'') = OP_DELETE" "p_rcn (ex_delete ''CAE1'') \<in> {RCN_NOTHING, RCN_ATTRIBUTES}"
    "p_cnst (ex_delete ''CAE1'') = 0"
    by (simp_all add: ex_request_def empty_o2pt_def)
  from delete_removes_subtree [OF ex_del_wf q n ex_deletable o ex_del_granted [of list_env]] obtain o2pt' s' t' d n' where
    r: "handle_onem2m_request list_env ex_del_cse (ex_delete ''CAE1'') (Some 2) = Some (RSC_DELETED, o2pt', s')"
      "set_kids 1 ([] @ []) [ex_del_tree] = [t']" "wf_rt (heap s') (cb s') t'"
      "\<forall>x. x \<in> set (2 # addrs [T 3 [], T 4 []]) \<longrightarrow> heap s' x = None"
    and s': "s' = ex_del_cse\<lparr>heap := heap s', db := snd (e_db_delete_onem2m_resource list_env d n'),
      md := fold (md_drop (heap ex_del_cse)) (post [T 3 [], T 4 []] @ [2]) (md ex_del_cse)\<rparr>"
    by blast
  have "cb s' = Some 0" using arg_cong [OF s', of cb] by (simp add: ex_del_cse_def)
  moreover have "t' = T 0 [T 1 []]" using r(2) by (simp add: ex_del_tree_def)
  ultimately show ?thesis using r(1,3,4) by auto
qed

end
