(* ===== verification/HttpMessage.thy ===== *)
theory HttpMessage
  imports Primitive Decimal
begin

text \<open>
  Messages of the HTTP binding (\<^verbatim>\<open>httpd.c\<close>): the parser of requests and responses, the text of a request
  that the server sends to another CSE, and the text of an answer. A packet is the C string in the
  receive buffer; the bytes behind it are zero. Sockets are not modelled.
\<close>

section \<open>Records\<close>

text \<open>
  The header list of a message. The parser appends an empty cell after a header that is not the
  last one; when the packet ends there, the empty cell stays (\<open>r_dangling\<close>) and a search that reaches
  it compares a null pointer.
\<close>

record HTTPRequest =
  r_method :: string
  r_uri :: string
  r_qs :: "string option"
  r_prot :: string
  r_payload :: "string option"
  r_payload_size :: int
  r_headers :: "(string \<times> string) list"
  r_dangling :: bool

record HTTPResponse =
  res_status_code :: int
  res_protocol :: string
  res_headers :: "(string \<times> string) list"
  res_dangling :: bool
  res_payload :: "string option"
  res_payload_size :: int

definition header_of :: "(string \<times> string) list \<Rightarrow> bool \<Rightarrow> string \<Rightarrow> string option option" where
  "header_of hs d name =
     (case search_header hs name of
        Some v \<Rightarrow> Some (Some v)
      | None \<Rightarrow> if d then None else Some None)"

section \<open>Tokens\<close>

text \<open>
  \<^verbatim>\<open>strtok_r\<close> on the rest of the packet: the token and what follows the delimiter that ends it, or
  \<open>None\<close> when only delimiters are left.
\<close>

definition strtok_r :: "string \<Rightarrow> string \<Rightarrow> (string \<times> string) option" where
  "strtok_r delims s =
     (case dropWhile (\<lambda>c. c \<in> set delims) s of
        [] \<Rightarrow> None
      | t \<Rightarrow> Some (takeWhile (\<lambda>c. c \<notin> set delims) t, drop 1 (dropWhile (\<lambda>c. c \<notin> set delims) t)))"

lemma strtok_r_shorter: "strtok_r d s = Some (t, r) \<Longrightarrow> length r < length s"
proof -
  assume a: "strtok_r d s = Some (t, r)"
  then obtain c u where u: "dropWhile (\<lambda>c. c \<in> set d) s = c # u" "r = drop 1 (dropWhile (\<lambda>c. c \<notin> set d) (c # u))"
    by (auto simp: strtok_r_def split: list.splits)
  have "c \<notin> set d" using u(1) by (metis hd_dropWhile list.distinct(1) list.sel(1))
  then have "length r \<le> length (dropWhile (\<lambda>c. c \<notin> set d) u)" using u(2) by simp
  also have "\<dots> \<le> length u" by (rule length_dropWhile_le)
  also have "\<dots> < length s" using length_dropWhile_le [of "\<lambda>c. c \<in> set d" s] u(1) by simp
  finally show ?thesis .
qed

definition CR :: char where "CR = CHR 0x0D"
definition LF :: char where "LF = CHR 0x0A"
definition TAB :: char where "TAB = CHR 0x09"
definition CRLF :: string where "CRLF = [CR, LF]"

section \<open>Parts of a request\<close>

definition http_parse_operation :: "string \<Rightarrow> operation option" where
  "http_parse_operation m =
     (if m = ''POST'' then Some OP_CREATE
      else if m = ''GET'' then Some OP_RETRIEVE
      else if m = ''PUT'' then Some OP_UPDATE
      else if m = ''DELETE'' then Some OP_DELETE
      else if m = ''OPTIONS'' then Some OP_OPTIONS
      else None)"

fun op_to_method :: "operation \<Rightarrow> string option" where
  "op_to_method OP_CREATE = Some ''POST''"
| "op_to_method OP_NOTIFY = Some ''POST''"
| "op_to_method OP_UPDATE = Some ''PUT''"
| "op_to_method OP_DELETE = Some ''DELETE''"
| "op_to_method OP_RETRIEVE = Some ''GET''"
| "op_to_method OP_DISCOVERY = Some ''GET''"
| "op_to_method OP_OPTIONS = Some ''OPTIONS''"
| "op_to_method _ = None"

text \<open>
  The value of a hexadecimal digit as the code computes it, for every character: \<^verbatim>\<open>char\<close> is signed, so a
  byte above 127 is not greater than the digit 9.
\<close>

definition hex_val :: "char \<Rightarrow> nat" where
  "hex_val c = (let n = (of_char c :: nat) in n mod 16 + (if 57 < n \<and> n < 128 then 9 else 0))"

fun unescape :: "string \<Rightarrow> string" where
  "unescape [] = []"
| "unescape (c # s) =
     (if isspace c then []
      else if c = CHR ''+'' then CHR '' '' # unescape s
      else if c = CHR ''%''
      then (case s of
              a # b # r \<Rightarrow> char_of ((hex_val a * 16 + hex_val b) mod 256) # unescape r
            | _ \<Rightarrow> c # unescape s)
      else c # unescape s)"

text \<open>
  A plus sign is decoded only behind the first percent sign. A byte 0 that was decoded ends the string
  for everything that reads it.
\<close>

definition uri_unescape :: "string \<Rightarrow> string" where
  "uri_unescape u =
     (let plain = (\<lambda>c. \<not> isspace c \<and> c \<noteq> CHR ''%'')
      in takeWhile (\<lambda>c. c \<noteq> CHR 0x00) (takeWhile plain u @ unescape (dropWhile plain u)))"

definition headerToLowercase :: "string \<Rightarrow> string" where
  "headerToLowercase = map tolower"

definition normalize_payload :: "string \<Rightarrow> string" where
  "normalize_payload = filter is_json_valid_char"

section \<open>The parser\<close>

text \<open>
  The headers: the list, whether an empty cell is left at its end, and the rest of the packet. A name
  without a value dereferences a null pointer.
\<close>

function parse_headers :: "string \<Rightarrow> ((string \<times> string) list \<times> bool \<times> string) option" where
  "parse_headers s =
     (case strtok_r [CR, LF, CHR '':'', CHR '' '', TAB] s of
        None \<Rightarrow> Some ([], True, [])
      | Some (key, s) \<Rightarrow>
          (case strtok_r CRLF s of
             None \<Rightarrow> None
           | Some (val, s) \<Rightarrow>
               (let h = (headerToLowercase key, dropWhile (\<lambda>c. c = CHR '' '') val)
                in if take 2 (drop 1 s) = CRLF then Some ([h], False, s)
                   else do { (hs, d, s) \<leftarrow> parse_headers s; Some (h # hs, d, s) })))"
  by pat_completeness auto

termination parse_headers
  by (relation "measure length") (auto dest!: strtok_r_shorter)

declare parse_headers.simps [simp del]

text \<open>The body: from the next line, or behind it when that line is the empty one.\<close>

definition body_of :: "string \<Rightarrow> string option" where
  "body_of s =
     (case strtok_r [LF] s of
        None \<Rightarrow> None
      | Some (t, r) \<Rightarrow>
          if hd t = CR then Some (if length t = 1 then r else drop 2 t) else Some t)"

definition parse_http_request :: "string \<Rightarrow> HTTPRequest option" where
  "parse_http_request packet =
     do {
       (m, r) \<leftarrow> strtok_r [CHR '' '', TAB, CR, LF] packet;
       op \<leftarrow> http_parse_operation m;
       m \<leftarrow> op_to_method op;
       (u, r) \<leftarrow> strtok_r [CHR '' '', TAB] r;
       (p, r) \<leftarrow> strtok_r [CHR '' '', TAB, CR, LF] r;
       let u = uri_unescape u;
       (hs, d, r) \<leftarrow> parse_headers r;
       n \<leftarrow> header_of hs d ''content-length'';
       Some \<lparr>r_method = m, r_uri = before CHR ''?'' u, r_qs = map_option (drop 1) (strchr u CHR ''?''), r_prot = p,
             r_payload = body_of r, r_payload_size = (case n of None \<Rightarrow> 0 | Some v \<Rightarrow> to_int32 (fst (strtol v))),
             r_headers = hs, r_dangling = d\<rparr> }"

definition parse_http_response :: "string \<Rightarrow> HTTPResponse option" where
  "parse_http_response packet =
     do {
       (p, r) \<leftarrow> strtok_r '' '' packet;
       (c, r) \<leftarrow> strtok_r CRLF r;
       (hs, d, r) \<leftarrow> parse_headers r;
       n \<leftarrow> header_of hs d ''content-length'';
       Some \<lparr>res_status_code = atoi c, res_protocol = p, res_headers = hs, res_dangling = d, res_payload = body_of r,
             res_payload_size = (case n of None \<Rightarrow> 0 | Some v \<Rightarrow> to_int32 (fst (strtol v)))\<rparr> }"

section \<open>The text of a message\<close>

text \<open>
  \<^verbatim>\<open>set_header\<close> formats a header in a buffer of 128 bytes and appends it to one of 2048. A null value is
  skipped. \<open>set_headers\<close> is the sequence of such calls.
\<close>

definition set_header :: "string \<Rightarrow> string option \<Rightarrow> string \<Rightarrow> string option" where
  "set_header key value response_headers =
     (case value of
        None \<Rightarrow> Some response_headers
      | Some v \<Rightarrow>
          (let h = key @ '': '' @ v @ CRLF
           in if length h < 128 \<and> length (response_headers @ h) < 2048 then Some (response_headers @ h) else None))"

fun set_headers :: "(string \<times> string option) list \<Rightarrow> string \<Rightarrow> string option" where
  "set_headers [] acc = Some acc"
| "set_headers ((k, v) # hs) acc = do { acc \<leftarrow> set_header k v acc; set_headers hs acc }"

definition print_int :: "int \<Rightarrow> string" where
  "print_int n = (if n < 0 then CHR ''-'' # dec (nat (- n)) else dec (nat n))"

abbreviation HTTP_PROTOCOL_VERSION :: string where
  "HTTP_PROTOCOL_VERSION \<equiv> ''HTTP/1.1''"

abbreviation BUF_SIZE :: nat where
  "BUF_SIZE \<equiv> 65535"

text \<open>The text that \<^verbatim>\<open>send_http_request\<close> writes, in a buffer of \<^verbatim>\<open>BUF_SIZE\<close> bytes.\<close>

definition request_text :: "string \<Rightarrow> int \<Rightarrow> HTTPRequest \<Rightarrow> string option" where
  "request_text host port req =
     do {
       h \<leftarrow> set_headers ((''Host'', Some (host @ '':'' @ print_int port)) # map (\<lambda>(k, v). (k, Some v)) (r_headers req) @
              (if 0 < r_payload_size req then [(''Content-Length'', Some (print_int (r_payload_size req)))] else [])) [];
       let q = (case r_qs req of None \<Rightarrow> [] | Some q \<Rightarrow> q);
       let text = r_method req @ '' '' @ r_uri req @ (if q \<noteq> [] then ''?'' else []) @ q @ '' '' @ HTTP_PROTOCOL_VERSION @ CRLF @ h @ CRLF @
             (case r_payload req of None \<Rightarrow> [] | Some p \<Rightarrow> p);
       if length text < BUF_SIZE then Some text else None }"

section \<open>What is sent is understood\<close>

subsection \<open>Tokens\<close>

lemma dropWhile_all: "list_all P pre \<Longrightarrow> dropWhile P (pre @ s) = dropWhile P s"
  by (induction pre) auto

lemma strtok_r_token:
  assumes "list_all (\<lambda>c. c \<in> set d) pre" "t \<noteq> []" "list_all (\<lambda>c. c \<notin> set d) t" "c \<in> set d"
  shows "strtok_r d (pre @ t @ c # r) = Some (t, r)"
proof -
  have "dropWhile (\<lambda>c. c \<in> set d) (pre @ t @ c # r) = t @ c # r"
    using assms(2,3) by (cases t) (simp_all add: dropWhile_all [OF assms(1)])
  moreover have "takeWhile (\<lambda>c. c \<notin> set d) (t @ c # r) = t" "dropWhile (\<lambda>c. c \<notin> set d) (t @ c # r) = c # r"
    using assms(3,4) by (simp_all add: takeWhile_append dropWhile_append list_all_iff)
  ultimately show ?thesis using assms(2) by (cases t) (simp_all add: strtok_r_def)
qed

lemmas control_chars = CR_def LF_def TAB_def CRLF_def

subsection \<open>Headers\<close>

definition good_header :: "string \<times> string \<Rightarrow> bool" where
  "good_header h \<longleftrightarrow> fst h \<noteq> [] \<and> list_all (\<lambda>c. c \<notin> set [CR, LF, CHR '':'', CHR '' '', TAB]) (fst h) \<and>
     list_all (\<lambda>c. c \<notin> set CRLF) (snd h) \<and> (snd h = [] \<or> hd (snd h) \<noteq> CHR '' '')"

fun header_lines :: "(string \<times> string) list \<Rightarrow> string" where
  "header_lines [] = []"
| "header_lines ((k, v) # hs) = k @ '': '' @ v @ CRLF @ header_lines hs"

definition lowered :: "(string \<times> string) list \<Rightarrow> (string \<times> string) list" where
  "lowered = map (\<lambda>(k, v). (headerToLowercase k, v))"

lemma set_headers_lines:
  "set_headers (map (\<lambda>(k, v). (k, Some v)) hs) acc = Some h \<Longrightarrow> h = acc @ header_lines hs"
proof (induction hs arbitrary: acc)
  case (Cons kv hs)
  then show ?case
    using Cons.IH [of "acc @ fst kv @ '': '' @ snd kv @ CRLF"]
    by (cases kv) (auto simp: set_header_def Let_def split: if_splits)
qed simp

lemma parse_headers_lines:
  assumes "hs \<noteq> []" "list_all good_header hs" "pre \<in> {[], [LF]}"
  shows "parse_headers (pre @ header_lines hs @ CRLF @ body) = Some (lowered hs, False, LF # CRLF @ body)"
  using assms
proof (induction hs arbitrary: pre)
  case (Cons h hs)
  obtain k v where h: "h = (k, v)" by (cases h)
  have k: "k \<noteq> []" "list_all (\<lambda>c. c \<notin> set [CR, LF, CHR '':'', CHR '' '', TAB]) k"
    and v: "list_all (\<lambda>c. c \<notin> set CRLF) ('' '' @ v)" "dropWhile (\<lambda>c. c = CHR '' '') ('' '' @ v) = v"
    using Cons.prems(2) h by (auto simp: good_header_def control_chars) (cases v; simp)+
  let ?rest = "header_lines hs @ CRLF @ body"
  have t1: "strtok_r [CR, LF, CHR '':'', CHR '' '', TAB] (pre @ header_lines (h # hs) @ CRLF @ body) =
      Some (k, '' '' @ v @ CRLF @ ?rest)"
    using strtok_r_token [of "[CR, LF, CHR '':'', CHR '' '', TAB]" pre k "CHR '':''" "'' '' @ v @ CRLF @ ?rest"] Cons.prems(3) k h
    by auto
  have t2: "strtok_r CRLF ('' '' @ v @ CRLF @ ?rest) = Some ('' '' @ v, LF # ?rest)"
    using strtok_r_token [of CRLF "[]" "'' '' @ v" CR "LF # ?rest"] v(1) by (simp add: CRLF_def)
  have step: "parse_headers (pre @ header_lines (h # hs) @ CRLF @ body) =
      (if take 2 ?rest = CRLF then Some ([(headerToLowercase k, v)], False, LF # ?rest)
       else do { (hs, d, s) \<leftarrow> parse_headers (LF # ?rest); Some ((headerToLowercase k, v) # hs, d, s) })"
    by (subst parse_headers.simps) (simp only: t1 t2 option.case prod.case v(2) Let_def drop_Suc_Cons drop0 One_nat_def)
  show ?case
  proof (cases hs)
    case Nil
    then show ?thesis unfolding step by (simp add: lowered_def h CRLF_def)
  next
    case (Cons h2 hs2)
    obtain k2 v2 where h2: "h2 = (k2, v2)" by (cases h2)
    have "k2 \<noteq> []" "hd k2 \<noteq> CR"
      using Cons.prems(2) Cons h2 by (auto simp: good_header_def) (cases k2; auto)+
    then have "take 2 ?rest \<noteq> CRLF" by (cases k2) (auto simp: Cons h2 CRLF_def)
    moreover have "parse_headers (LF # ?rest) = Some (lowered hs, False, LF # CRLF @ body)"
      using Cons.IH [of "[LF]"] Cons.prems(2) Cons by simp
    ultimately show ?thesis unfolding step by (simp add: lowered_def h)
  qed
qed simp

subsection \<open>Requests\<close>

text \<open>The characters of a target that the server reads back as they are.\<close>

definition plain_target :: "string \<Rightarrow> bool" where
  "plain_target u \<longleftrightarrow> list_all (\<lambda>c. \<not> isspace c \<and> c \<noteq> CHR ''%'' \<and> c \<noteq> CHR 0x00) u"

lemma uri_unescape_plain: "plain_target u \<Longrightarrow> uri_unescape u = u"
proof -
  assume p: "plain_target u"
  then have "takeWhile (\<lambda>c. \<not> isspace c \<and> c \<noteq> CHR ''%'') u = u" "dropWhile (\<lambda>c. \<not> isspace c \<and> c \<noteq> CHR ''%'') u = []"
    "takeWhile (\<lambda>c. c \<noteq> CHR 0x00) u = u"
    by (auto simp: plain_target_def list_all_iff takeWhile_eq_all_conv)
  then show ?thesis unfolding uri_unescape_def Let_def by (simp only: unescape.simps append_Nil2)
qed

lemma plain_target_append [simp]: "plain_target (a @ b) \<longleftrightarrow> plain_target a \<and> plain_target b"
  by (simp add: plain_target_def)

lemma plain_target_base [simp]: "plain_target []" "plain_target ''?''"
  by (simp_all add: plain_target_def isspace_def)

lemma plain_target_blank: "plain_target u \<Longrightarrow> list_all (\<lambda>c. c \<notin> set [CHR '' '', TAB]) u"
  unfolding plain_target_def by (erule list.pred_mono_strong) (auto simp: isspace_def TAB_def)

lemma target_parts:
  assumes "CHR ''?'' \<notin> set u"
  shows "before CHR ''?'' (u @ (if q \<noteq> [] then ''?'' else []) @ q) = u"
    "map_option (drop 1) (strchr (u @ (if q \<noteq> [] then ''?'' else []) @ q) CHR ''?'') = (if q = [] then None else Some q)"
  using assms by (cases "q = []"; simp)+

definition plain_request :: "HTTPRequest \<Rightarrow> bool" where
  "plain_request req \<longleftrightarrow>
     r_method req \<in> {''POST'', ''GET'', ''PUT'', ''DELETE'', ''OPTIONS''} \<and>
     r_uri req \<noteq> [] \<and> plain_target (r_uri req) \<and> CHR ''?'' \<notin> set (r_uri req) \<and>
     (case r_qs req of None \<Rightarrow> True | Some q \<Rightarrow> plain_target q) \<and>
     list_all good_header (r_headers req) \<and> search_header (r_headers req) ''content-length'' = None \<and>
     0 \<le> r_payload_size req \<and> r_payload_size req \<le> INT_MAX"

text \<open>The headers a request carries besides its own.\<close>

definition all_headers :: "string \<Rightarrow> int \<Rightarrow> HTTPRequest \<Rightarrow> (string \<times> string) list" where
  "all_headers host port req =
     (''Host'', host @ '':'' @ print_int port) # r_headers req @
     (if 0 < r_payload_size req then [(''Content-Length'', print_int (r_payload_size req))] else [])"

lemma to_int32_id: "0 \<le> n \<Longrightarrow> n \<le> INT_MAX \<Longrightarrow> to_int32 n = n"
  unfolding to_int32_def by (simp only: sint_sbintrunc') (simp add: signed_take_bit_int_eq_self INT_MAX_def)

lemma print_int_nat: "0 \<le> n \<Longrightarrow> n \<le> INT_MAX \<Longrightarrow> to_int32 (fst (strtol (print_int n))) = n"
  using atoi_dec [of "nat n"] by (simp add: print_int_def atoi_def INT_MAX_def)

lemma dec_value: "list_all (\<lambda>c. c \<notin> set CRLF) (dec n)" "hd (dec n) \<noteq> CHR '' ''"
  using dec_digits [of "hd (dec n)" n] by (auto simp: list_all_iff control_chars is_digit_def dest: dec_digits)

lemma print_int_value: "list_all (\<lambda>c. c \<notin> set CRLF) (print_int n)" "hd (print_int n) \<noteq> CHR '' ''"
  using dec_value by (simp_all add: print_int_def control_chars)

lemma search_header_append:
  "search_header (hs @ hs') n = (case search_header hs n of None \<Rightarrow> search_header hs' n | Some v \<Rightarrow> Some v)"
  by (induction hs n rule: search_header.induct) auto

lemma tolower_idem: "tolower (tolower c) = tolower c"
  by (cases "65 \<le> (of_char c :: nat) \<and> (of_char c :: nat) \<le> 90") (auto simp: tolower_def)

lemma search_header_lowered: "search_header (lowered hs) n = search_header hs n"
  by (induction hs n rule: search_header.induct) (simp_all add: lowered_def headerToLowercase_def tolower_idem o_def)

lemma tolower_letters:
  "tolower CHR ''A'' = CHR ''a''" "tolower CHR ''B'' = CHR ''b''" "tolower CHR ''C'' = CHR ''c''" "tolower CHR ''D'' = CHR ''d''"
  "tolower CHR ''E'' = CHR ''e''" "tolower CHR ''F'' = CHR ''f''" "tolower CHR ''G'' = CHR ''g''" "tolower CHR ''H'' = CHR ''h''"
  "tolower CHR ''I'' = CHR ''i''" "tolower CHR ''J'' = CHR ''j''" "tolower CHR ''K'' = CHR ''k''" "tolower CHR ''L'' = CHR ''l''"
  "tolower CHR ''M'' = CHR ''m''" "tolower CHR ''N'' = CHR ''n''" "tolower CHR ''O'' = CHR ''o''" "tolower CHR ''P'' = CHR ''p''"
  "tolower CHR ''Q'' = CHR ''q''" "tolower CHR ''R'' = CHR ''r''" "tolower CHR ''S'' = CHR ''s''" "tolower CHR ''T'' = CHR ''t''"
  "tolower CHR ''U'' = CHR ''u''" "tolower CHR ''V'' = CHR ''v''" "tolower CHR ''W'' = CHR ''w''" "tolower CHR ''X'' = CHR ''x''"
  "tolower CHR ''Y'' = CHR ''y''" "tolower CHR ''Z'' = CHR ''z''" "tolower CHR ''a'' = CHR ''a''" "tolower CHR ''b'' = CHR ''b''"
  "tolower CHR ''c'' = CHR ''c''" "tolower CHR ''d'' = CHR ''d''" "tolower CHR ''e'' = CHR ''e''" "tolower CHR ''f'' = CHR ''f''"
  "tolower CHR ''g'' = CHR ''g''" "tolower CHR ''h'' = CHR ''h''" "tolower CHR ''i'' = CHR ''i''" "tolower CHR ''j'' = CHR ''j''"
  "tolower CHR ''k'' = CHR ''k''" "tolower CHR ''l'' = CHR ''l''" "tolower CHR ''m'' = CHR ''m''" "tolower CHR ''n'' = CHR ''n''"
  "tolower CHR ''o'' = CHR ''o''" "tolower CHR ''p'' = CHR ''p''" "tolower CHR ''q'' = CHR ''q''" "tolower CHR ''r'' = CHR ''r''"
  "tolower CHR ''s'' = CHR ''s''" "tolower CHR ''t'' = CHR ''t''" "tolower CHR ''u'' = CHR ''u''" "tolower CHR ''v'' = CHR ''v''"
  "tolower CHR ''w'' = CHR ''w''" "tolower CHR ''x'' = CHR ''x''" "tolower CHR ''y'' = CHR ''y''" "tolower CHR ''z'' = CHR ''z''"
  "tolower CHR ''-'' = CHR ''-''" "tolower CHR ''2'' = CHR ''2''"
  by code_simp+

lemma content_length_found:
  assumes "plain_request req"
  shows "search_header (lowered (all_headers host port req)) ''content-length'' =
    (if 0 < r_payload_size req then Some (print_int (r_payload_size req)) else None)"
  using assms
  by (simp add: search_header_lowered all_headers_def search_header_append plain_request_def tolower_letters)

lemma all_headers_good:
  assumes "plain_request req" "list_all (\<lambda>c. c \<notin> set CRLF) host" "host \<noteq> [] \<longrightarrow> hd host \<noteq> CHR '' ''"
  shows "list_all good_header (all_headers host port req)"
  using assms print_int_value [of port] print_int_value [of "r_payload_size req"]
  by (cases host) (auto simp: all_headers_def plain_request_def good_header_def control_chars)

text \<open>
  What the client of the server sends, its parser understands: for a request with a target free of
  blanks and percent signs and with well-formed headers, the text that is sent is parsed to the
  same method, target, query string and body, and to the headers in lower case behind the host.
\<close>

lemma http_request_understood:
  assumes "plain_request req" "list_all (\<lambda>c. c \<notin> set CRLF) host" "host \<noteq> [] \<longrightarrow> hd host \<noteq> CHR '' ''"
    and "request_text host port req = Some text"
  shows "parse_http_request text =
    Some (req\<lparr>r_prot := HTTP_PROTOCOL_VERSION, r_headers := lowered (all_headers host port req), r_dangling := False,
      r_qs := (if r_qs req = Some [] then None else r_qs req),
      r_payload := Some (case r_payload req of None \<Rightarrow> [] | Some p \<Rightarrow> p)\<rparr>)"
proof -
  let ?q = "case r_qs req of None \<Rightarrow> [] | Some q \<Rightarrow> q" and ?p = "case r_payload req of None \<Rightarrow> [] | Some p \<Rightarrow> p"
  let ?hs = "all_headers host port req"
  let ?u = "r_uri req @ (if ?q \<noteq> [] then ''?'' else []) @ ?q"
  let ?tail = "header_lines ?hs @ CRLF @ ?p"
  have "map (\<lambda>(k, v). (k, Some v)) ?hs = (''Host'', Some (host @ '':'' @ print_int port)) # map (\<lambda>(k, v). (k, Some v)) (r_headers req) @
      (if 0 < r_payload_size req then [(''Content-Length'', Some (print_int (r_payload_size req)))] else [])"
    by (simp add: all_headers_def)
  with assms(4) obtain h where "set_headers (map (\<lambda>(k, v). (k, Some v)) ?hs) [] = Some h"
    and msg: "text = r_method req @ '' '' @ ?u @ '' '' @ HTTP_PROTOCOL_VERSION @ CRLF @ h @ CRLF @ ?p"
    by (auto simp: request_text_def Let_def split: if_splits)
  then have h: "h = header_lines ?hs" using set_headers_lines by fastforce
  have m: "r_method req \<noteq> []" "list_all (\<lambda>c. c \<notin> set [CHR '' '', TAB, CR, LF]) (r_method req)"
    "\<exists>op. http_parse_operation (r_method req) = Some op \<and> op_to_method op = Some (r_method req)"
    using assms(1) by (auto simp: plain_request_def http_parse_operation_def control_chars)
  have u: "plain_target ?u" "CHR ''?'' \<notin> set (r_uri req)" "?u \<noteq> []"
    using assms(1) by (simp_all add: plain_request_def split: option.splits)
  note u2 = plain_target_blank [OF u(1)]
  have t1: "strtok_r [CHR '' '', TAB, CR, LF] text = Some (r_method req, ?u @ '' '' @ HTTP_PROTOCOL_VERSION @ CRLF @ ?tail)"
    using strtok_r_token [of _ "[]" "r_method req" "CHR '' ''"] m(1,2) by (simp add: msg h)
  have t2: "strtok_r [CHR '' '', TAB] (?u @ '' '' @ HTTP_PROTOCOL_VERSION @ CRLF @ ?tail) = Some (?u, HTTP_PROTOCOL_VERSION @ CRLF @ ?tail)"
    using strtok_r_token [of "[CHR '' '', TAB]" "[]" ?u "CHR '' ''" "HTTP_PROTOCOL_VERSION @ CRLF @ ?tail"] u(3) u2 by simp
  have t3: "strtok_r [CHR '' '', TAB, CR, LF] (HTTP_PROTOCOL_VERSION @ CRLF @ ?tail) = Some (HTTP_PROTOCOL_VERSION, LF # ?tail)"
    using strtok_r_token [of "[CHR '' '', TAB, CR, LF]" "[]" HTTP_PROTOCOL_VERSION CR "LF # ?tail"] by (simp add: control_chars)
  have hs: "parse_headers (LF # ?tail) = Some (lowered ?hs, False, LF # CRLF @ ?p)"
    using parse_headers_lines [of ?hs "[LF]" ?p] all_headers_good [OF assms(1-3)] by (simp add: all_headers_def)
  have b: "body_of (LF # CRLF @ ?p) = Some ?p"
    using strtok_r_token [of "[LF]" "[LF]" "[CR]" LF ?p] by (simp add: body_of_def CRLF_def) (simp add: CR_def LF_def)
  have n: "header_of (lowered ?hs) False ''content-length'' = Some (if 0 < r_payload_size req then Some (print_int (r_payload_size req)) else None)"
    using content_length_found [OF assms(1)] by (simp add: header_of_def)
  have "(case if 0 < r_payload_size req then Some (print_int (r_payload_size req)) else None of
      None \<Rightarrow> 0 | Some v \<Rightarrow> to_int32 (fst (strtol v))) = r_payload_size req"
    using assms(1) print_int_nat [of "r_payload_size req"] by (auto simp: plain_request_def)
  note size = this
  from m(3) obtain op where op: "http_parse_operation (r_method req) = Some op" "op_to_method op = Some (r_method req)" by blast
  have "parse_http_request text = Some \<lparr>r_method = r_method req, r_uri = r_uri req, r_qs = (if ?q = [] then None else Some ?q),
      r_prot = HTTP_PROTOCOL_VERSION, r_payload = Some ?p, r_payload_size = r_payload_size req, r_headers = lowered ?hs,
      r_dangling = False\<rparr>"
    unfolding parse_http_request_def
    by (simp only: t1 t2 t3 hs b n op Option.bind.bind_lunit prod.case Let_def uri_unescape_plain [OF u(1)] target_parts [OF u(2)] size)
  then show ?thesis by (simp split: option.splits)
qed

end
