(* ===== verification/Http.thy ===== *)
theory Http
  imports HttpMessage Dispatch
begin

text \<open>
  The HTTP binding (\<^verbatim>\<open>httpd.c\<close>, \<^verbatim>\<open>util.c\<close>, \<^verbatim>\<open>filterCriteria.c\<close>): from a request message to the primitive, through
  \<^verbatim>\<open>route\<close> to the text of the answer, and the request that forwards a primitive to another CSE. The
  parser of cJSON is the parameter \<open>parse\<close>, its printer the field \<open>e_print\<close>; the network gives
  the packets.
\<close>

section \<open>Query strings\<close>

text \<open>
  The loop over the query string: an equals sign ends a key, an ampersand or the end a value, and a
  pair is complete as soon as both are there, whichever came first.
\<close>

fun qs_pairs :: "string \<Rightarrow> string \<Rightarrow> string option \<Rightarrow> string option \<Rightarrow> (string \<times> string) list" where
  "qs_pairs [] cur key val = (case key of None \<Rightarrow> [] | Some k \<Rightarrow> [(k, cur)])"
| "qs_pairs (c # s) cur key val =
     (if c = CHR ''=''
      then (case val of None \<Rightarrow> qs_pairs s [] (Some cur) None | Some v \<Rightarrow> (cur, v) # qs_pairs s [] None None)
      else if c = CHR ''&''
      then (case key of None \<Rightarrow> qs_pairs s [] None (Some cur) | Some k \<Rightarrow> (k, cur) # qs_pairs s [] None None)
      else qs_pairs s (cur @ [c]) key val)"

text \<open>A pair as a member of a JSON text; a value with plus signs is a list.\<close>

definition DQ :: char where "DQ = CHR 0x22"

definition pair_text :: "string \<times> string \<Rightarrow> string" where
  "pair_text kv =
     (let (k, v) = kv in
      if CHR ''+'' \<in> set v
      then (let t = DQ # k @ [DQ] @ '':['' @ [DQ] @ concat (map (\<lambda>x. x @ [DQ] @ '','' @ [DQ]) (strtok CHR ''+'' v))
            in take (length t - 2) t @ ''],'')
      else DQ # k @ [DQ] @ '':'' @ [DQ] @ v @ [DQ] @ '','')"

text \<open>Both buffers have 256 bytes.\<close>

definition qs_to_json :: "(string \<Rightarrow> cjson option) \<Rightarrow> string \<Rightarrow> cjson option option" where
  "qs_to_json parse q =
     (let ts = map pair_text (qs_pairs q [] None None);
          buf = ''{'' @ concat ts
      in if list_all (\<lambda>t. length t < 256) ts \<and> length buf < 256
         then Some (parse (butlast buf @ ''}'')) else None)"

text \<open>\<^verbatim>\<open>fc_to_qs\<close> prints strings with their quotes; its buffer has 256 bytes.\<close>

fun fc_members :: "'d env \<Rightarrow> (string option \<times> cjson) list \<Rightarrow> string option" where
  "fc_members E [] = Some []"
| "fc_members E ((k, j) # kvs) =
     do {
       k \<leftarrow> k;
       t \<leftarrow> fc_members E kvs;
       Some (k @ (if cJSON_IsArray (Some j) \<or> cJSON_IsNumber (Some j) \<or> cJSON_IsString (Some j) then ''='' @ e_print E j else []) @
         ''&'' @ t) }"

definition fc_to_qs :: "'d env \<Rightarrow> cjson \<Rightarrow> string option" where
  "fc_to_qs E fc =
     do {
       t \<leftarrow> fc_members E (items fc);
       if t \<noteq> [] \<and> length t < 256 then Some (butlast t) else None }"

definition append_query_parameter :: "string option \<Rightarrow> string \<Rightarrow> string \<Rightarrow> string" where
  "append_query_parameter query key value =
     (let q = (case query of None \<Rightarrow> [] | Some q \<Rightarrow> q) in q @ (if q = [] then [] else ''&'') @ key @ ''='' @ value)"

section \<open>From the message to the primitive\<close>

text \<open>The target: \<^verbatim>\<open>/~/\<close> stands for an address relative to the service provider, \<^verbatim>\<open>/_/\<close> for an absolute one.\<close>

definition http_to :: "string \<Rightarrow> string option" where
  "http_to u =
     (if u = [] then None
      else if take 1 (drop 1 u) = ''~'' then (if length u < 3 then None else Some (''/'' @ drop 3 u))
      else if take 2 (drop 1 u) = ''_/'' then Some (''//'' @ drop 3 u)
      else Some (drop 1 u))"

definition default_rcn :: "operation \<Rightarrow> int" where
  "default_rcn op = (if op \<in> {OP_CREATE, OP_RETRIEVE, OP_UPDATE} then RCN_ATTRIBUTES else 0)"

text \<open>The parameters in the query string; an error is recorded and \<^verbatim>\<open>route\<close> stops there.\<close>

definition take_drt :: "oneM2MPrimitive \<Rightarrow> cjson option \<Rightarrow> oneM2MPrimitive \<times> cjson option" where
  "take_drt o2pt q =
     (case cJSON_GetObjectItem q ''drt'' of
        None \<Rightarrow> (o2pt\<lparr>p_drt := DRT_STRUCTURED\<rparr>, q)
      | Some d \<Rightarrow>
          (let o2pt = o2pt\<lparr>p_drt := valueint d\<rparr>
           in (if p_drt o2pt \<noteq> 1 \<and> p_drt o2pt \<noteq> 2
               then handle_error o2pt RSC_BAD_REQUEST ''Invalid Discovery Reesult Type (drt) value'' else o2pt,
               map_option (\<lambda>j. cJSON_DeleteItemFromObject j ''drt'') q)))"

definition take_fu :: "oneM2MPrimitive \<Rightarrow> cjson option \<Rightarrow> oneM2MPrimitive" where
  "take_fu o2pt q =
     (case cJSON_GetObjectItem q ''fu'' of
        None \<Rightarrow> o2pt
      | Some f \<Rightarrow>
          if valueint f < 1 \<or> 4 < valueint f then handle_error o2pt RSC_BAD_REQUEST ''Invalid Filter Usage (fu) value''
          else if valueint f = 1 then o2pt\<lparr>p_op := OP_DISCOVERY, p_rcn := RCN_DISCOVERY_RESULT_REFERENCES\<rparr>
          else o2pt)"

definition take_rcn :: "oneM2MPrimitive \<Rightarrow> cjson option \<Rightarrow> oneM2MPrimitive \<times> cjson option" where
  "take_rcn o2pt q =
     (case cJSON_GetObjectItem q ''rcn'' of
        None \<Rightarrow> (o2pt, q)
      | Some r \<Rightarrow>
          (let o2pt = o2pt\<lparr>p_rcn := valueint r\<rparr>
           in (if p_rcn o2pt < 0 \<or> 12 < p_rcn o2pt
               then handle_error o2pt RSC_BAD_REQUEST ''Invalid Result Content (rcn) value''
               else o2pt\<lparr>p_rcn_explicit := True\<rparr>,
               map_option (\<lambda>j. cJSON_DeleteItemFromObject j ''rcn'') q)))"

definition apply_qs :: "(string \<Rightarrow> cjson option) \<Rightarrow> oneM2MPrimitive \<Rightarrow> string \<Rightarrow> oneM2MPrimitive option" where
  "apply_qs parse o2pt qstr =
     do {
       q \<leftarrow> qs_to_json parse qstr;
       let (ok, q) = (case q of None \<Rightarrow> (True, None) | Some j \<Rightarrow> map_prod id Some (parse_qs j));
       let o2pt = (if ok then o2pt else handle_error o2pt RSC_BAD_REQUEST ''Invalid Query String Format'');
       let (o2pt, q) = take_drt o2pt q;
       let o2pt = take_fu o2pt q;
       let (o2pt, q) = take_rcn o2pt q;
       Some (o2pt\<lparr>p_fc := q\<rparr>) }"

text \<open>The type in the content type: whether there is one, and its number.\<close>

definition content_ty :: "string option \<Rightarrow> bool \<times> int" where
  "content_ty h =
     (case h of
        None \<Rightarrow> (False, 0)
      | Some h \<Rightarrow> (case strstr h ''ty='' of None \<Rightarrow> (False, 0) | Some t \<Rightarrow> (True, atoi (drop 3 t))))"

text \<open>
  The primitive of a request; \<open>Inl\<close> when it is answered at once (contents that are not JSON, and
  \<^verbatim>\<open>OPTIONS\<close>).
\<close>

definition http_primitive ::
    "(string \<Rightarrow> cjson option) \<Rightarrow> HTTPRequest \<Rightarrow> string \<Rightarrow> (oneM2MPrimitive + oneM2MPrimitive) option" where
  "http_primitive parse req ip =
     (let body = (case r_payload req of None \<Rightarrow> [] | Some p \<Rightarrow> p);
          pc = (if body = [] then None else parse body);
          header = header_of (r_headers req) (r_dangling req)
      in if body \<noteq> [] \<and> pc = None
         then Some (Inl (handle_error empty_o2pt RSC_BAD_REQUEST ''Invalid JSON format''))
         else do {
           fr \<leftarrow> header ''x-m2m-origin'';
           rqi \<leftarrow> header ''x-m2m-ri'';
           rsc \<leftarrow> header ''x-m2m-rsc'';
           rvi \<leftarrow> header ''x-m2m-rvi'';
           ct \<leftarrow> header ''content-type'';
           to \<leftarrow> http_to (r_uri req);
           op \<leftarrow> http_parse_operation (r_method req);
           let (typed, ty) = content_ty ct;
           let o2pt = empty_o2pt\<lparr>p_request_pc := pc, p_fr := fr, p_rqi := rqi,
             p_rsc := (case rsc of None \<Rightarrow> 0 | Some v \<Rightarrow> atoi v), p_rvi := to_rvi rvi, p_ty := ty, p_to := Some to,
             p_rcn := default_rcn op, p_ip := Some ip,
             p_op := (if op = OP_CREATE \<and> \<not> typed \<and> cJSON_IsObject (cJSON_GetObjectItem pc ''m2m:sgn'') then OP_NOTIFY else op)\<rparr>;
           if op = OP_OPTIONS then Some (Inl (o2pt\<lparr>p_rsc := RSC_OK\<rparr>))
           else (case r_qs req of
                   Some (c # q) \<Rightarrow> map_option Inr (apply_qs parse o2pt (c # q))
                 | _ \<Rightarrow> Some (Inr o2pt)) })"

section \<open>The answer\<close>

definition DEFAULT_RESPONSE_HEADERS :: string where
  "DEFAULT_RESPONSE_HEADERS =
     ''Connection: Close'' @ CRLF @ ''Server: tinyIoT v0.1'' @ CRLF @ ''Accept: application/json'' @ CRLF @
     ''Content-Type: application/vnd.onem2m-res+json'' @ CRLF @
     ''Access-Control-Allow-Origin: *'' @ CRLF @
     ''Access-Control-Allow-Headers: Accept, Accept-Language, Content-Language, Content-Type, X-M2M-Origin, X-M2M-RI, X-M2M-RVI'' @ CRLF @
     ''Access-Control-Allow-Methods: GET, PUT, POST, DELETE, OPTIONS'' @ CRLF @
     ''Access-Control-Request-Methods: GET, PUT, POST, DELETE, OPTIONS'' @ CRLF"

text \<open>The address of a new resource: in the answer itself or in its first member.\<close>

definition content_location :: "oneM2MPrimitive \<Rightarrow> string option" where
  "content_location o2pt =
     (if p_op o2pt \<noteq> OP_CREATE then None
      else (case p_response_pc o2pt of
              None \<Rightarrow> None
            | Some pc \<Rightarrow>
                (case (cJSON_GetObjectItem (Some pc) ''m2m:uri'', cJSON_GetArrayItem (Some pc) 0) of
                   (Some u, _) \<Rightarrow> valuestring u
                 | (None, Some c) \<Rightarrow> Option.bind (cJSON_GetObjectItem (Some c) ''uri'') valuestring
                 | _ \<Rightarrow> None)))"

text \<open>A response code outside the table has no reason phrase, which is formatted with \<^verbatim>\<open>%s\<close>.\<close>

definition http_respond_to_client :: "'d env \<Rightarrow> oneM2MPrimitive \<Rightarrow> string option" where
  "http_respond_to_client E o2pt =
     (let (msg, code) = rsc_to_http_status (p_rsc o2pt);
          pc = map_option (e_print E) (p_response_pc o2pt)
      in do {
        h \<leftarrow> set_headers
          [(''Content-Location'', content_location o2pt),
           (''Content-Length'', map_option (\<lambda>t. print_int (int (length t))) pc),
           (''X-M2M-RSC'', Some (print_int (p_rsc o2pt))), (''X-M2M-RVI'', from_rvi (p_rvi o2pt)), (''X-M2M-RI'', p_rqi o2pt),
           (''X-M2M-CTS'', if 0 < p_cnst o2pt then Some (print_int (p_cnst o2pt)) else None),
           (''X-M2M-CTO'', if 0 < p_cnot o2pt then Some (print_int (p_cnot o2pt)) else None)] [];
        m \<leftarrow> msg;
        Some (HTTP_PROTOCOL_VERSION @ '' '' @ print_int code @ '' '' @ m @ CRLF @ DEFAULT_RESPONSE_HEADERS @ h @ CRLF @
          (case pc of None \<Rightarrow> [] | Some t \<Rightarrow> t @ CRLF)) })"

definition handle_http_request ::
    "(string \<Rightarrow> cjson option) \<Rightarrow> 'd env \<Rightarrow> 'd cse \<Rightarrow> HTTPRequest \<Rightarrow> string \<Rightarrow> (string \<times> 'd cse) option" where
  "handle_http_request parse E s req ip =
     do {
       r \<leftarrow> http_primitive parse req ip;
       (o2pt, s) \<leftarrow> (case r of Inl o2pt \<Rightarrow> Some (o2pt, s) | Inr o2pt \<Rightarrow> route E s o2pt);
       t \<leftarrow> http_respond_to_client E o2pt;
       Some (t, s) }"

text \<open>
  The body may follow in a second packet, \<open>second\<close>. A packet that fills the buffer is terminated behind
  its end.
\<close>

abbreviation MAX_PAYLOAD_SIZE :: nat where
  "MAX_PAYLOAD_SIZE \<equiv> 65536"

definition fetch_payload :: "HTTPRequest \<Rightarrow> string \<Rightarrow> HTTPRequest option" where
  "fetch_payload req second =
     (let missing = (0 < r_payload_size req \<and> (r_payload req = None \<or> r_payload req = Some []))
      in if missing \<and> MAX_PAYLOAD_SIZE \<le> length second then None
         else Some (req\<lparr>r_payload := map_option normalize_payload (if missing then Some second else r_payload req)\<rparr>))"

definition respond ::
    "(string \<Rightarrow> cjson option) \<Rightarrow> 'd env \<Rightarrow> 'd cse \<Rightarrow> string \<Rightarrow> string \<Rightarrow> string \<Rightarrow> (string \<times> 'd cse) option" where
  "respond parse E s packet second ip =
     (if BUF_SIZE \<le> length packet + 2 then None
      else do {
        req \<leftarrow> parse_http_request packet;
        req \<leftarrow> fetch_payload req second;
        handle_http_request parse E s req ip })"

section \<open>Forwarding\<close>

definition given_headers :: "(string \<times> string option) list \<Rightarrow> (string \<times> string) list" where
  "given_headers hs = [(k, v). (k, Some v) \<leftarrow> hs]"

definition forwarding_uri :: "string \<Rightarrow> string option" where
  "forwarding_uri to =
     do {
       rat \<leftarrow> checkResourceAddressingType (Some to);
       Some (if rat = SP_RELATIVE then ''/~'' @ to
             else if rat = ABSOLUTE then ''/_'' @ drop 1 to
             else ''/'' @ to) }"

definition forwarding_request :: "'d env \<Rightarrow> oneM2MPrimitive \<Rightarrow> HTTPRequest option" where
  "forwarding_request E o2pt =
     do {
       to \<leftarrow> p_to o2pt;
       m \<leftarrow> op_to_method (p_op o2pt);
       u \<leftarrow> forwarding_uri to;
       q \<leftarrow> (case p_fc o2pt of None \<Rightarrow> Some None | Some fc \<Rightarrow> map_option Some (fc_to_qs E fc));
       let q = (if p_rcn_explicit o2pt then Some (append_query_parameter q ''rcn'' (print_int (p_rcn o2pt))) else q);
       let ct = (if 0 < p_ty o2pt \<and> p_op o2pt = OP_CREATE then ''application/json;ty='' @ print_int (p_ty o2pt) else ''application/json'');
       let body = map_option (e_print E) (p_request_pc o2pt);
       Some \<lparr>r_method = m, r_uri = u, r_qs = q, r_prot = [], r_payload = body,
             r_payload_size = (case body of None \<Rightarrow> 0 | Some t \<Rightarrow> to_int32 (int (length t))),
             r_headers = given_headers [(''X-M2M-Origin'', p_fr o2pt), (''X-M2M-RVI'', from_rvi CSE_RVI), (''X-M2M-RI'', p_rqi o2pt),
               (''Content-Type'', Some ct)], r_dangling = False\<rparr> }"

text \<open>
  The network: for a host and port, the error code when there is no connection, or else the answer to
  a text that is sent, in one packet and a second one for the body, if any comes.
\<close>

type_synonym network = "string \<Rightarrow> int \<Rightarrow> int + (string \<Rightarrow> (string \<times> string) option)"

definition no_answer :: "int \<Rightarrow> HTTPResponse" where
  "no_answer code = \<lparr>res_status_code = code, res_protocol = [], res_headers = [], res_dangling = False,
     res_payload = None, res_payload_size = 0\<rparr>"

definition send_http_request :: "network \<Rightarrow> string \<Rightarrow> int \<Rightarrow> HTTPRequest \<Rightarrow> HTTPResponse option" where
  "send_http_request net host port req =
     (case net host port of
        Inl code \<Rightarrow> Some (no_answer code)
      | Inr exchange \<Rightarrow> do {
          t \<leftarrow> request_text host port req;
          case exchange t of
            None \<Rightarrow> Some (no_answer 500)
          | Some (packet, second) \<Rightarrow>
              if BUF_SIZE \<le> length packet + 2 then None
              else do {
                res \<leftarrow> parse_http_response packet;
                let missing = (0 < res_payload_size res \<and> (res_payload res = None \<or> res_payload res = Some []));
                if missing \<and> MAX_PAYLOAD_SIZE \<le> length second then None
                else Some (res\<lparr>res_payload := map_option normalize_payload (if missing then Some second else res_payload res)\<rparr>) } })"

definition http_forwarding ::
    "(string \<Rightarrow> cjson option) \<Rightarrow> 'd env \<Rightarrow> network \<Rightarrow> string \<Rightarrow> int \<Rightarrow> oneM2MPrimitive \<Rightarrow> oneM2MPrimitive option" where
  "http_forwarding parse E net host port o2pt =
     do {
       req \<leftarrow> forwarding_request E o2pt;
       res \<leftarrow> send_http_request net host port req;
       rsc \<leftarrow> header_of (res_headers res) (res_dangling res) ''x-m2m-rsc'';
       let o2pt = o2pt\<lparr>p_rsc := (case rsc of None \<Rightarrow> RSC_TARGET_NOT_REACHABLE | Some v \<Rightarrow> atoi v)\<rparr>;
       Some (case res_payload res of None \<Rightarrow> o2pt | Some b \<Rightarrow> o2pt\<lparr>p_response_pc := parse b\<rparr>) }"

end
