(* ===== verification/HttpProps.thy ===== *)
theory HttpProps
  imports Http
begin

text \<open>
  A request that one CSE forwards to another over HTTP arrives there as it was.
\<close>

lemma http_to_forwarding:
  assumes "take 1 to \<noteq> ''~''" "take 2 to \<noteq> ''_/''" "forwarding_uri to = Some u"
  shows "http_to u = Some to"
proof -
  consider (abs) r where "to = CHR ''/'' # CHR ''/'' # r" | (sp) r where "to = CHR ''/'' # r" "take 1 r \<noteq> ''/''"
    | (other) "take 1 to \<noteq> ''/''"
    by (cases to rule: remdups_adj.cases) auto
  then show ?thesis
  proof cases
    case sp
    then have "\<not> starts_with to ''//''" "starts_with to ''/''" by (cases r; simp add: starts_with_def)+
    then show ?thesis using assms(3) sp by (auto simp: forwarding_uri_def checkResourceAddressingType_def http_to_def)
  next
    case other
    then have "\<not> starts_with to ''//''" "\<not> starts_with to ''/''" by (cases to; simp add: starts_with_def)+
    then show ?thesis using assms
      by (auto simp: forwarding_uri_def checkResourceAddressingType_def http_to_def split: if_splits)
  qed (use assms(3) in \<open>auto simp: forwarding_uri_def checkResourceAddressingType_def http_to_def starts_with_def\<close>)
qed

lemma forwarding_uri_plain:
  assumes "forwarding_uri to = Some u" "plain_target to" "CHR ''?'' \<notin> set to"
  shows "u \<noteq> [] \<and> plain_target u \<and> CHR ''?'' \<notin> set u"
proof -
  have d: "plain_target (drop 1 to)" "CHR ''?'' \<notin> set (drop 1 to)"
    using assms(2,3) in_set_dropD [of _ 1 to] by (auto simp: plain_target_def list_all_iff)
  have "plain_target (''/~'' @ to)" "plain_target (''/_'' @ drop 1 to)" "plain_target (''/'' @ to)"
    unfolding plain_target_append using assms(2) d(1) by (simp_all add: plain_target_def isspace_def)
  then show ?thesis using assms d(2) by (auto simp: forwarding_uri_def split: if_splits)
qed

definition good_value :: "string \<Rightarrow> bool" where
  "good_value v \<longleftrightarrow> list_all (\<lambda>c. c \<notin> set CRLF) v \<and> (v = [] \<or> hd v \<noteq> CHR '' '')"

lemma content_ty_plain: "content_ty (Some ''application/json'') = (False, 0)"
  by (simp add: content_ty_def starts_with_def)

lemma content_ty_printed:
  "0 \<le> ty \<Longrightarrow> ty \<le> INT_MAX \<Longrightarrow> content_ty (Some (''application/json;ty='' @ print_int ty)) = (True, ty)"
  using print_int_nat [of ty] by (simp add: content_ty_def starts_with_def atoi_def)

text \<open>A request that needs no query string and whose parts can be written in headers and target.\<close>

definition forwardable :: "oneM2MPrimitive \<Rightarrow> string \<Rightarrow> string \<Rightarrow> string \<Rightarrow> bool" where
  "forwardable o2pt to fr rqi \<longleftrightarrow>
     p_op o2pt \<in> {OP_CREATE, OP_RETRIEVE, OP_UPDATE, OP_DELETE} \<and>
     (p_op o2pt = OP_CREATE \<longrightarrow> 0 < p_ty o2pt \<and> p_ty o2pt \<le> INT_MAX) \<and>
     p_to o2pt = Some to \<and> plain_target to \<and> CHR ''?'' \<notin> set to \<and> take 1 to \<noteq> ''~'' \<and> take 2 to \<noteq> ''_/'' \<and>
     p_fr o2pt = Some fr \<and> good_value fr \<and> p_rqi o2pt = Some rqi \<and> good_value rqi \<and>
     p_fc o2pt = None \<and> \<not> p_rcn_explicit o2pt"

text \<open>What is relied on of the printer and the parser of cJSON for the contents of the request.\<close>

definition printable :: "(string \<Rightarrow> cjson option) \<Rightarrow> 'd env \<Rightarrow> cjson \<Rightarrow> bool" where
  "printable parse E j \<longleftrightarrow> e_print E j \<noteq> [] \<and> list_all is_json_valid_char (e_print E j) \<and> parse (e_print E j) = Some j"

definition content_type_of :: "oneM2MPrimitive \<Rightarrow> string" where
  "content_type_of o2pt = (if 0 < p_ty o2pt \<and> p_op o2pt = OP_CREATE then ''application/json;ty='' @ print_int (p_ty o2pt) else ''application/json'')"

lemma forwarding_request_plain:
  assumes "forwardable o2pt to fr rqi" "forwarding_request E o2pt = Some req"
    and "\<forall>j. p_request_pc o2pt = Some j \<longrightarrow> int (length (e_print E j)) \<le> INT_MAX"
  shows "plain_request req \<and> r_method req = the (op_to_method (p_op o2pt)) \<and> forwarding_uri to = Some (r_uri req) \<and> r_qs req = None \<and>
    r_payload req = map_option (e_print E) (p_request_pc o2pt) \<and>
    r_payload_size req = (case p_request_pc o2pt of None \<Rightarrow> 0 | Some j \<Rightarrow> int (length (e_print E j))) \<and>
    r_headers req = [(''X-M2M-Origin'', fr), (''X-M2M-RVI'', ''3''), (''X-M2M-RI'', rqi), (''Content-Type'', content_type_of o2pt)]"
proof -
  have size: "to_int32 (int (length (e_print E j))) = int (length (e_print E j))" if "p_request_pc o2pt = Some j" for j
    using assms(3) that by (simp add: to_int32_id)
  have r: "r_method req = the (op_to_method (p_op o2pt))" "forwarding_uri to = Some (r_uri req)" "r_qs req = None"
    "r_payload req = map_option (e_print E) (p_request_pc o2pt)"
    "r_payload_size req = (case p_request_pc o2pt of None \<Rightarrow> 0 | Some j \<Rightarrow> int (length (e_print E j)))"
    "r_headers req = [(''X-M2M-Origin'', fr), (''X-M2M-RVI'', ''3''), (''X-M2M-RI'', rqi), (''Content-Type'', content_type_of o2pt)]"
    using assms(1,2) size
    by (auto simp: forwarding_request_def forwardable_def given_headers_def content_type_of_def split: option.splits)
  have "list_all good_header (r_headers req)"
    using assms(1) print_int_value [of "p_ty o2pt"]
    by (auto simp: r(6) forwardable_def good_header_def good_value_def content_type_of_def control_chars)
  moreover have "search_header (r_headers req) ''content-length'' = None"
    by (simp add: r(6) tolower_letters)
  moreover have "0 \<le> r_payload_size req \<and> r_payload_size req \<le> INT_MAX"
    using assms(3) by (auto simp: r(5) INT_MAX_def split: option.splits)
  moreover have "r_uri req \<noteq> [] \<and> plain_target (r_uri req) \<and> CHR ''?'' \<notin> set (r_uri req)"
    using forwarding_uri_plain [OF r(2)] assms(1) by (simp add: forwardable_def)
  moreover have "r_method req \<in> {''POST'', ''GET'', ''PUT'', ''DELETE'', ''OPTIONS''}"
    using assms(1) by (auto simp: r(1) forwardable_def)
  ultimately show ?thesis using r by (simp add: plain_request_def)
qed

lemma forwarded_headers:
  assumes "plain_request req"
    and h: "r_headers req = [(''X-M2M-Origin'', fr), (''X-M2M-RVI'', ''3''), (''X-M2M-RI'', rqi), (''Content-Type'', ct)]"
  shows "header_of (lowered (all_headers host port req)) False ''x-m2m-origin'' = Some (Some fr)"
    "header_of (lowered (all_headers host port req)) False ''x-m2m-ri'' = Some (Some rqi)"
    "header_of (lowered (all_headers host port req)) False ''x-m2m-rsc'' = Some None"
    "header_of (lowered (all_headers host port req)) False ''x-m2m-rvi'' = Some (Some ''3'')"
    "header_of (lowered (all_headers host port req)) False ''content-type'' = Some (Some ct)"
  by (simp_all add: header_of_def search_header_lowered all_headers_def h tolower_letters)

text \<open>The primitive that arrives: the request without what belongs to its handling.\<close>

definition arrived :: "oneM2MPrimitive \<Rightarrow> string \<Rightarrow> oneM2MPrimitive" where
  "arrived o2pt ip =
     empty_o2pt\<lparr>p_request_pc := p_request_pc o2pt, p_fr := p_fr o2pt, p_rqi := p_rqi o2pt, p_rvi := CSE_RVI,
       p_ty := (if p_op o2pt = OP_CREATE then p_ty o2pt else 0), p_to := p_to o2pt, p_rcn := default_rcn (p_op o2pt),
       p_ip := Some ip, p_op := p_op o2pt\<rparr>"

text \<open>
  C6. A forwarded request arrives: let a create, retrieve, update or delete request without query
  parameters be forwarded over HTTP, its target, originator and identifier being free of blanks and
  line ends, and let its contents be printed and parsed back by cJSON. Then the CSE that receives the text
  handles a request with the same operation, target, originator, identifier, type and contents, and
  answers with what \<^verbatim>\<open>route\<close> makes of it.
\<close>

theorem forwarded_request_arrives:
  assumes "forwardable o2pt to fr rqi" "forwarding_request E o2pt = Some req"
    and "\<forall>j. p_request_pc o2pt = Some j \<longrightarrow> printable parse E j"
    and host: "list_all (\<lambda>c. c \<notin> set CRLF) host" "host \<noteq> [] \<longrightarrow> hd host \<noteq> CHR '' ''"
    and msg: "request_text host port req = Some t" "length t + 2 < BUF_SIZE"
  shows "respond parse E' s t second ip =
    do { (o2pt', s') \<leftarrow> route E' s (arrived o2pt ip); a \<leftarrow> http_respond_to_client E' o2pt'; Some (a, s') }"
proof -
  have "r_payload req = map_option (e_print E) (p_request_pc o2pt)"
    using assms(2) by (auto simp: forwarding_request_def)
  then have len: "\<forall>j. p_request_pc o2pt = Some j \<longrightarrow> int (length (e_print E j)) \<le> INT_MAX"
    using msg by (auto simp: request_text_def INT_MAX_def Let_def split: if_splits)
  note r = forwarding_request_plain [OF assms(1,2) len]
  then have pr: "plain_request req" by blast
  let ?body = "case r_payload req of None \<Rightarrow> [] | Some p \<Rightarrow> p"
  let ?req = "req\<lparr>r_prot := HTTP_PROTOCOL_VERSION, r_headers := lowered (all_headers host port req), r_dangling := False,
      r_qs := None, r_payload := Some ?body\<rparr>"
  have p: "parse_http_request t = Some ?req"
    using http_request_understood [OF pr host msg(1)] r by simp
  have f: "fetch_payload ?req second = Some ?req"
    using r assms(3) by (cases "p_request_pc o2pt") (auto simp: fetch_payload_def normalize_payload_def printable_def list_all_iff)
  have pc: "(if ?body = [] then None else parse ?body) = p_request_pc o2pt" "?body \<noteq> [] \<longrightarrow> parse ?body \<noteq> None"
    using r assms(3) by (cases "p_request_pc o2pt"; simp add: printable_def)+
  have ty: "content_ty (Some (content_type_of o2pt)) =
      (p_op o2pt = OP_CREATE, if p_op o2pt = OP_CREATE then p_ty o2pt else 0)"
    using assms(1) content_ty_printed [of "p_ty o2pt"] content_ty_plain by (auto simp: content_type_of_def forwardable_def)
  have to: "http_to (r_uri req) = Some to" using http_to_forwarding r assms(1) unfolding forwardable_def by blast
  have op: "http_parse_operation (r_method req) = Some (p_op o2pt)"
    using r assms(1) by (auto simp: forwardable_def http_parse_operation_def)
  have "r_headers req = [(''X-M2M-Origin'', fr), (''X-M2M-RVI'', ''3''), (''X-M2M-RI'', rqi), (''Content-Type'', content_type_of o2pt)]"
    using r by blast
  note h = forwarded_headers [OF pr this]
  have "http_primitive parse ?req ip = Some (Inr (arrived o2pt ip))"
  proof -
    have fields: "r_payload ?req = Some ?body" "r_headers ?req = lowered (all_headers host port req)" "\<not> r_dangling ?req"
      "r_uri ?req = r_uri req" "r_method ?req = r_method req" "r_qs ?req = None"
      by simp_all
    have o: "p_to o2pt = Some to" "p_fr o2pt = Some fr" "p_rqi o2pt = Some rqi" "p_op o2pt \<noteq> OP_OPTIONS"
      using assms(1) by (auto simp: forwardable_def)
    have "to_rvi (Some ''3'') = CSE_RVI" by (simp add: to_rvi_def)
    moreover have "\<not> (?body \<noteq> [] \<and> p_request_pc o2pt = None)"
      using pc by (cases "?body = []") simp_all
    ultimately show ?thesis using o(4)
      unfolding http_primitive_def fields option.case Let_def pc(1) arrived_def o(1-3)
      by (simp add: h ty to op fields(3) empty_o2pt_def del: bind_eq_Some)
  qed
  then show ?thesis
    using msg(2) by (simp add: respond_def p f handle_http_request_def)
qed

text \<open>A printer and parser of the empty object.\<close>

definition ex_parse :: "string \<Rightarrow> cjson option" where
  "ex_parse t = (if t = ''{}'' then Some (JObject []) else None)"

definition ex_http_env :: "rtnode list env" where
  "ex_http_env = list_env\<lparr>e_print := \<lambda>j. ''{}''\<rparr>"

definition ex_forward :: oneM2MPrimitive where
  "ex_forward = empty_o2pt\<lparr>p_op := OP_UPDATE, p_to := Some ''/other/cnt'', p_fr := Some ''/tinyiot/CAE1'', p_rqi := Some ''r1'',
     p_request_pc := Some (JObject [])\<rparr>"

theorem forwarded_request_arrives_witness:
  "\<exists>t. Option.bind (forwarding_request ex_http_env ex_forward) (request_text ''cse2'' 3000) = Some t \<and>
     respond ex_parse list_env (ex_cse []) t [] ''10.0.0.1'' =
       do { (o2pt', s') \<leftarrow> route list_env (ex_cse []) (arrived ex_forward ''10.0.0.1'');
            a \<leftarrow> http_respond_to_client list_env o2pt'; Some (a, s') }"
proof -
  let ?short = "\<lambda>r. case r of None \<Rightarrow> False | Some t \<Rightarrow> length t < 1000"
  have e: "?short (Option.bind (forwarding_request ex_http_env ex_forward) (request_text ''cse2'' 3000))"
    by (simp add: forwarding_request_def request_text_def ex_forward_def ex_http_env_def empty_o2pt_def forwarding_uri_def
        checkResourceAddressingType_def starts_with_def given_headers_def set_header_def print_int_def dec_large dec_small
        digit_def to_int32_id INT_MAX_def CRLF_def)
  obtain req where r1: "forwarding_request ex_http_env ex_forward = Some req"
    using e by (cases "forwarding_request ex_http_env ex_forward") simp_all
  obtain t where "request_text ''cse2'' 3000 req = Some t" "length t < 1000"
    using e unfolding r1 by (cases "request_text ''cse2'' 3000 req") simp_all
  note req = r1 this
  have "forwardable ex_forward ''/other/cnt'' ''/tinyiot/CAE1'' ''r1''" by code_simp
  moreover have "\<forall>j. p_request_pc ex_forward = Some j \<longrightarrow> printable ex_parse ex_http_env j"
    by (simp add: ex_forward_def printable_def ex_http_env_def ex_parse_def is_json_valid_char_def)
  moreover have "list_all (\<lambda>c. c \<notin> set CRLF) ''cse2''" by code_simp
  ultimately have "respond ex_parse list_env (ex_cse []) t [] ''10.0.0.1'' =
       do { (o2pt', s') \<leftarrow> route list_env (ex_cse []) (arrived ex_forward ''10.0.0.1'');
            a \<leftarrow> http_respond_to_client list_env o2pt'; Some (a, s') }"
    using forwarded_request_arrives [OF _ req(1) _ _ _ req(2)] req(3) by simp
  with req show ?thesis by auto
qed

end
