(* ===== verification/Restart.thy ===== *)
theory Restart
  imports Lookup
begin

text \<open>
  Rebuilding the resource tree at start-up (\<^verbatim>\<open>rtManager.c\<close>): the database returns the stored resources
  as one list of nodes, and \<^verbatim>\<open>restruct_resource_tree\<close> moves each node below the node whose identifier
  it names as its parent. The theory proves that every resource finds its place.
\<close>

section \<open>The list of stored resources\<close>

text \<open>
  The database layer creates a node for every row and links it behind the one before. A row is the
  object read from the tables and its type; the rows are parameters.
\<close>

type_synonym row = "cjson \<times> int"

fun link_rows :: "'d cse \<Rightarrow> addr \<Rightarrow> row list \<Rightarrow> 'd cse option" where
  "link_rows s l [] = Some s"
| "link_rows s l ((j, ty) # rows) =
     do {
       (a, s) \<leftarrow> create_rtnode s j ty;
       h \<leftarrow> upd (heap s) l (\<lambda>n. n\<lparr>n_sibling_right := Some a\<rparr>);
       h \<leftarrow> upd h a (\<lambda>n. n\<lparr>n_sibling_left := Some l\<rparr>);
       link_rows (s\<lparr>heap := h\<rparr>) a rows }"

definition rtnode_list :: "'d cse \<Rightarrow> row list \<Rightarrow> (ptr \<times> 'd cse) option" where
  "rtnode_list s rows =
     (case rows of
        [] \<Rightarrow> Some (None, s)
      | (j, ty) # rows \<Rightarrow> do {
          (a, s) \<leftarrow> create_rtnode s j ty;
          s \<leftarrow> link_rows s a rows;
          Some (Some a, s) })"

section \<open>Moving the nodes to their parents\<close>

text \<open>The first loop: the nodes that name the parent leave the list and become its children.\<close>

definition take_out :: "heap \<Rightarrow> addr \<Rightarrow> ptr \<Rightarrow> (ptr \<times> heap) option" where
  "take_out h a list =
     do {
       n \<leftarrow> h a;
       let left = n_sibling_left n;
       let right = n_sibling_right n;
       h \<leftarrow> upd_if h left (\<lambda>m. m\<lparr>n_sibling_right := right\<rparr>);
       h \<leftarrow> upd_if h right (\<lambda>m. m\<lparr>n_sibling_left := left\<rparr>);
       h \<leftarrow> upd h a (\<lambda>m. m\<lparr>n_sibling_left := None, n_sibling_right := None\<rparr>);
       Some (if left = None then right else list, h) }"

partial_function (option) adopt :: "'d cse \<Rightarrow> addr \<Rightarrow> ptr \<Rightarrow> ptr \<Rightarrow> (ptr \<times> 'd cse) option" where
  "adopt s parent list rtnode =
     (case rtnode of
        None \<Rightarrow> Some (list, s)
      | Some a \<Rightarrow> do {
          n \<leftarrow> heap s a;
          p \<leftarrow> heap s parent;
          ri \<leftarrow> get_ri_rtnode p;
          pi \<leftarrow> get_pi_rtnode n;
          if ri = pi
          then do {
            (list, h) \<leftarrow> take_out (heap s) a list;
            s \<leftarrow> add_child_resource_tree (s\<lparr>heap := h\<rparr>) parent a;
            adopt s parent list (n_sibling_right n) }
          else adopt s parent list (n_sibling_right n) })"

text \<open>
  \<^verbatim>\<open>restruct_resource_tree\<close> calls itself for every child that was adopted. The function and its
  second loop are the two tasks of one function.
\<close>

datatype restruct_task = Below addr ptr | Children ptr ptr

partial_function (option) restruct :: "'d cse \<Rightarrow> restruct_task \<Rightarrow> (ptr \<times> 'd cse) option" where
  "restruct s t =
     (case t of
        Below parent list \<Rightarrow> do {
          (list, s) \<leftarrow> adopt s parent list list;
          p \<leftarrow> heap s parent;
          restruct s (Children (n_child p) list) }
      | Children child list \<Rightarrow>
          (case child of
             None \<Rightarrow> Some (list, s)
           | Some c \<Rightarrow> do {
               (list, s) \<leftarrow> restruct s (Below c list);
               n \<leftarrow> heap s c;
               restruct s (Children (n_sibling_right n) list) }))"

definition restruct_resource_tree :: "'d cse \<Rightarrow> addr \<Rightarrow> ptr \<Rightarrow> (ptr \<times> 'd cse) option" where
  "restruct_resource_tree s parent list = restruct s (Below parent list)"

section \<open>Start of the tree\<close>

text \<open>The last node of a list, and the loop that names the latest instances.\<close>

partial_function (option) tail_of :: "heap \<Rightarrow> addr \<Rightarrow> addr option" where
  "tail_of h tail =
     do {
       n \<leftarrow> h tail;
       case n_sibling_right n of None \<Rightarrow> Some tail | Some r \<Rightarrow> tail_of h r }"

partial_function (option) name_latest :: "heap \<Rightarrow> addr \<Rightarrow> heap option" where
  "name_latest h tail =
     do {
       n \<leftarrow> h tail;
       case n_sibling_right n of
         None \<Rightarrow> Some h
       | Some r \<Rightarrow> do {
           h \<leftarrow> upd h r (\<lambda>n. n\<lparr>n_rn := Some ''la''\<rparr>);
           name_latest h r } }"

text \<open>A node of zeros, the head of the list while it is built.\<close>

definition zero_node :: rtnode where
  "zero_node = \<lparr>n_parent = None, n_child = None, n_subs = [], n_memberOf = None, n_sibling_left = None,
     n_sibling_right = None, n_rn = None, n_uri = None, n_sub_cnt = 0, n_ty = 0, n_obj = None, n_obj_string = None\<rparr>"

definition stored_list :: "'d cse \<Rightarrow> row list \<Rightarrow> row list \<Rightarrow> (ptr \<times> 'd cse) option" where
  "stored_list s resources latest_cins =
     do {
       let d = brk s;
       let s = s\<lparr>heap := (heap s)(d \<mapsto> zero_node), brk := Suc d\<rparr>;
       (resource_list, s) \<leftarrow> rtnode_list s resources;
       h \<leftarrow> upd (heap s) d (\<lambda>n. n\<lparr>n_sibling_right := resource_list\<rparr>);
       h \<leftarrow> upd_if h resource_list (\<lambda>n. n\<lparr>n_sibling_left := Some d\<rparr>);
       tail \<leftarrow> tail_of h d;
       (temp, s) \<leftarrow> rtnode_list (s\<lparr>heap := h\<rparr>) latest_cins;
       h \<leftarrow> (case temp of
               None \<Rightarrow> Some (heap s)
             | Some t \<Rightarrow> do {
                 h \<leftarrow> upd (heap s) tail (\<lambda>n. n\<lparr>n_sibling_right := Some t\<rparr>);
                 h \<leftarrow> upd h t (\<lambda>n. n\<lparr>n_sibling_left := Some tail\<rparr>);
                 name_latest h tail });
       n \<leftarrow> h d;
       let rtnode_list = n_sibling_right n;
       h \<leftarrow> upd_if h rtnode_list (\<lambda>n. n\<lparr>n_sibling_left := None\<rparr>);
       h \<leftarrow> free_rtnode h d;
       Some (rtnode_list, s\<lparr>heap := h\<rparr>) }"

definition init_resource_tree :: "'d cse \<Rightarrow> row list \<Rightarrow> row list \<Rightarrow> 'd cse option" where
  "init_resource_tree s resources latest_cins =
     do {
       (rtnode_list, s) \<leftarrow> stored_list s resources latest_cins;
       if rtnode_list = None then Some s
       else do {
         c \<leftarrow> cb s;
         (_, s) \<leftarrow> restruct_resource_tree s c rtnode_list;
         Some s } }"

section \<open>Lists of nodes without parent\<close>

abbreviation leaf :: "addr \<Rightarrow> rtree" where
  "leaf a \<equiv> T a []"

definition chain :: "heap \<Rightarrow> ptr \<Rightarrow> ptr \<Rightarrow> addr list \<Rightarrow> ptr \<Rightarrow> bool" where
  "chain h left p as q = seg h None left p (map leaf as) q"

lemma addrs_leaves [simp]: "addrs (map leaf as) = as"
  by (induction as) simp_all

lemma nodes_leaves [simp]: "nodes (map leaf as) = map (\<lambda>a. (a, [])) as"
  by (induction as) simp_all

lemma root_leaves [simp]: "map root (map leaf as) = as" "root \<circ> leaf = id"
  by (simp_all add: comp_def id_def)

lemma last_leaf: "last_of left (map leaf as) = (if as = [] then left else Some (last as))"
  by (simp add: last_of_def last_map)

lemma chain_Nil [simp]: "chain h left p [] q \<longleftrightarrow> p = q"
  by (simp add: chain_def)

lemma chain_Cons [simp]:
  "chain h left p (a # as) q \<longleftrightarrow>
     p = Some a \<and> (\<exists>n. h a = Some n \<and> n_parent n = None \<and> n_sibling_left n = left \<and> n_child n = None \<and>
       chain h (Some a) (n_sibling_right n) as q)"
  by (auto simp: chain_def split: option.splits)

lemma chain_append:
  "chain h left p (as @ bs) q \<longleftrightarrow>
     (\<exists>m. chain h left p as m \<and> chain h (if as = [] then left else Some (last as)) m bs q)"
  by (simp add: chain_def seg_append last_leaf)

lemma chain_cong:
  "(\<And>a. a \<in> set as \<Longrightarrow> map_option links (h' a) = map_option links (h a)) \<Longrightarrow> chain h' left p as q = chain h left p as q"
  unfolding chain_def by (rule seg_cong) simp

text \<open>The data of a node that a move does not change.\<close>

definition ident :: "heap \<Rightarrow> addr \<Rightarrow> (string option \<times> int \<times> cjson option) option" where
  "ident h a = map_option (\<lambda>n. (n_rn n, n_ty n, n_obj n)) (h a)"

definition ri_of :: "heap \<Rightarrow> addr \<Rightarrow> string option" where
  "ri_of h a = Option.bind (h a) get_ri_rtnode"

definition pi_of :: "heap \<Rightarrow> addr \<Rightarrow> string option" where
  "pi_of h a = Option.bind (h a) get_pi_rtnode"

lemma uri_of_alt: "uri_of h a = (case map_option n_uri (h a) of None \<Rightarrow> None | Some u \<Rightarrow> u)"
  by (cases "h a") (simp_all add: uri_of_def)

lemma ident_fields:
  assumes "ident h' a = ident h a"
  shows "ri_of h' a = ri_of h a" "pi_of h' a = pi_of h a" "rn_of h' a = rn_of h a" "tyof h' a = tyof h a"
    "h' a = None \<longleftrightarrow> h a = None"
  using assms
  by (cases "h a"; cases "h' a";
      simp add: ident_def ri_of_def pi_of_def rn_of_def tyof_def get_ri_rtnode_def get_pi_rtnode_def)+

lemma ident_payload: "same_payload h h' \<Longrightarrow> ident h' a = ident h a"
proof -
  assume "same_payload h h'"
  then have p: "map_option payload (h' a) = map_option payload (h a)" by (simp add: same_payload_def)
  show ?thesis
  proof (cases "h a")
    case (Some n)
    with p obtain n' where "h' a = Some n'" "payload n' = payload n" by auto
    with Some payload_fields [of n' n] payload_ty [of n' n] show ?thesis by (simp add: ident_def)
  qed (use p in \<open>simp add: ident_def\<close>)
qed

lemma same_payload_field:
  assumes "same_payload h h'" "\<And>n m. payload n = payload m \<Longrightarrow> f n = f m"
  shows "map_option f (h' x) = map_option f (h x)"
proof -
  have "map_option payload (h' x) = map_option payload (h x)" using assms(1) by (simp add: same_payload_def)
  then show ?thesis by (cases "h x"; cases "h' x") (auto dest: assms(2))
qed


definition hd_ptr :: "addr list \<Rightarrow> ptr" where
  "hd_ptr as = (case as of [] \<Rightarrow> None | a # _ \<Rightarrow> Some a)"

lemma hd_ptr_simps [simp]: "hd_ptr [] = None" "hd_ptr (a # as) = Some a"
  by (simp_all add: hd_ptr_def)

lemma hd_ptr_append [simp]: "hd_ptr (as @ bs) = (if as = [] then hd_ptr bs else hd_ptr as)"
  by (cases as) simp_all

lemma chain_hd: "chain h left p as None \<Longrightarrow> p = hd_ptr as"
  by (cases as) simp_all

lemma chain_upd [simp]: "a \<notin> set as \<Longrightarrow> chain (h(a := x)) left p as q = chain h left p as q"
  by (rule chain_cong) auto

section \<open>Taking a node out of the list\<close>

lemma same_payload_link:
  assumes "h a = Some n"
  shows "same_payload h (h(a \<mapsto> n\<lparr>n_sibling_left := l\<rparr>))" "same_payload h (h(a \<mapsto> n\<lparr>n_sibling_right := r\<rparr>))"
    "same_payload h (h(a \<mapsto> n\<lparr>n_sibling_left := l, n_sibling_right := r\<rparr>))"
  using assms by (auto simp: same_payload_def payload_def)

lemma take_out_chain:
  assumes "chain h None l (us @ a # vs) None" "distinct (us @ a # vs)"
  shows "\<exists>n h'. h a = Some n \<and> n_sibling_right n = hd_ptr vs \<and> n_child n = None \<and>
    take_out h a l = Some (hd_ptr (us @ vs), h') \<and> chain h' None (hd_ptr (us @ vs)) (us @ vs) None \<and>
    h' a = Some (n\<lparr>n_sibling_left := None, n_sibling_right := None\<rparr>) \<and>
    (\<forall>x. x \<notin> set (us @ a # vs) \<longrightarrow> h' x = h x) \<and> same_payload h h'"
proof -
  from assms(1) obtain n m where n: "chain h None l us (Some a)" "h a = Some n" "n_parent n = None" "n_child n = None"
    "n_sibling_left n = (if us = [] then None else Some (last us))" "chain h (Some a) (n_sibling_right n) vs None"
    by (auto simp: chain_append)
  note r = chain_hd [OF n(6)]
  show ?thesis
  proof (cases us rule: rev_cases)
    case Nil
    show ?thesis
    proof (cases vs)
      case Nil
      with \<open>us = []\<close> n r show ?thesis
        by (auto simp: take_out_def intro!: same_payload_link)
    next
      case (Cons b ws)
      with \<open>us = []\<close> n r assms(2) show ?thesis
        by (auto simp: take_out_def intro!: same_payload_trans [OF same_payload_link(1) same_payload_link(3)])
    qed
  next
    case (snoc ws b)
    then obtain k where k: "h b = Some k" "chain h None l ws (Some b)" "n_parent k = None" "n_child k = None"
      "n_sibling_left k = (if ws = [] then None else Some (last ws))" "n_sibling_right k = Some a"
      using n(1) by (auto simp: chain_append split: if_splits)
    have l: "l = hd_ptr us" using k(2) snoc by (cases ws) auto
    show ?thesis
    proof (cases vs)
      case Nil
      with snoc n r k l assms(2) show ?thesis
        by (auto simp: take_out_def chain_append
            intro!: same_payload_trans [OF same_payload_link(2) same_payload_link(3)])
    next
      case (Cons c xs)
      with snoc n r k l assms(2) show ?thesis
        by (auto simp: take_out_def chain_append
            intro!: same_payload_trans [OF same_payload_link(2) same_payload_trans [OF same_payload_link(1) same_payload_link(3)]])
    qed
  qed
qed

text \<open>The subscriptions a node keeps, and the remote CSEs that are registered.\<close>

definition sub_nodes :: "rtnode \<Rightarrow> addr set" where
  "sub_nodes n = fst ` set (n_subs n)"

definition csrs :: "'d cse \<Rightarrow> addr set" where
  "csrs s = fst ` set (csr_list s)"

section \<open>Adding a child, seen from its parent\<close>

lemma add_child_local:
  assumes p: "heap s p = Some pn" "n_uri pn = Some pu" "in_int (n_sub_cnt pn + 1)"
    and kids: "seg (heap s) (Some p) None (n_child pn) ts None" "ty_sorted (tyof (heap s)) ts"
    and c: "heap s c = Some cn" "n_child cn = None" "n_sibling_left cn = None" "n_sibling_right cn = None"
      "n_rn cn = Some rn" "distinct (p # c # addrs ts)"
  shows "\<exists>s' pn'. add_child_resource_tree s p c = Some s' \<and> heap s' p = Some pn' \<and>
    seg (heap s') (Some p) None (n_child pn') (ins_sib (tyof (heap s)) (leaf c) ts) None \<and>
    (\<forall>x. x \<notin> set (p # c # addrs ts) \<longrightarrow> heap s' x = heap s x) \<and>
    (\<forall>x. ident (heap s') x = ident (heap s) x) \<and> (\<forall>x. x \<noteq> c \<longrightarrow> uri_of (heap s') x = uri_of (heap s) x) \<and>
    (\<forall>x. x \<noteq> p \<longrightarrow> map_option n_sub_cnt (heap s' x) = map_option n_sub_cnt (heap s x)) \<and>
    uri_of (heap s') c = Some (pu @ ''/'' @ rn) \<and>
    pn' = pn\<lparr>n_child := n_child pn', n_subs := n_subs pn', n_sub_cnt := n_sub_cnt pn'\<rparr> \<and>
    n_sub_cnt pn' \<in> {n_sub_cnt pn, n_sub_cnt pn + 1} \<and>
    sub_nodes pn' = sub_nodes pn \<union> (if n_ty cn = RT_SUB then {c} else {}) \<and>
    (\<forall>x. x \<noteq> p \<longrightarrow> map_option sub_nodes (heap s' x) = map_option sub_nodes (heap s x)) \<and>
    csrs s' = csrs s \<union> (if n_ty cn = RT_CSR then {c} else {}) \<and>
    cb s' = cb s \<and> brk s' = brk s \<and> db s' = db s"
proof -
  let ?c = "cn\<lparr>n_parent := Some p, n_uri := Some (pu @ ''/'' @ rn)\<rparr>"
  let ?h = "(heap s)(c \<mapsto> ?c)"
  have ne: "p \<noteq> c" "c \<notin> set (addrs ts)" using c(6) by auto
  have ty: "tyof ?h = tyof (heap s)" using c(1) by (auto simp: tyof_def)
  have "seg ?h (Some p) None (n_child pn) ts None" using kids(1) ne(2) by (simp add: seg_upd_other)
  then obtain h' where l: "link_child ?h p c (n_child pn) = Some h'"
    "linked ?h h' p pn c ts (ins_sib (tyof (heap s)) (leaf c) ts)"
    using link_child_sorted [of ?h p pn ts c ?c "[]"] p(1) c kids(2) ne unfolding ty by auto
  then obtain q where q: "h' p = Some (pn\<lparr>n_child := q\<rparr>)"
    "seg h' (Some p) None q (ins_sib (tyof (heap s)) (leaf c) ts) None"
    and pay: "same_payload ?h h'" and same: "\<And>x. x \<notin> set (p # c # addrs ts) \<Longrightarrow> h' x = ?h x"
    by (auto simp: linked_def)
  have data: "ident h' x = ident (heap s) x" for x
    using ident_payload [OF pay, of x] c(1) by (auto simp: ident_def)
  have uri: "map_option n_uri (h' x) = map_option n_uri (?h x)" for x by (rule same_payload_field [OF pay]) (erule payload_fields)
  have cnt: "map_option n_sub_cnt (h' x) = map_option n_sub_cnt (?h x)" for x by (rule same_payload_field [OF pay]) (erule payload_fields)
  have u': "uri_of h' x = (if x = c then Some (pu @ ''/'' @ rn) else uri_of (heap s) x)" for x
    unfolding uri_of_alt uri by simp
  have cnt': "map_option n_sub_cnt (h' x) = map_option n_sub_cnt (heap s x)" for x
    using cnt [of x] c(1) by (cases "x = c") simp_all
  have "map_option sub_nodes (h' x) = map_option sub_nodes (?h x)" for x
    by (rule same_payload_field [OF pay]) (drule payload_fields(4), simp add: sub_nodes_def)
  then have subs': "map_option sub_nodes (h' x) = map_option sub_nodes (heap s x)" for x
    using c(1) by (cases "x = c") (simp_all add: sub_nodes_def)
  have run: "add_child_resource_tree s p c =
      do {
        s1 \<leftarrow> (if n_ty cn = RT_CSR then add_csrlist (s\<lparr>heap := h'\<rparr>) c else Some (s\<lparr>heap := h'\<rparr>));
        if n_ty cn = RT_SUB
        then do { h1 \<leftarrow> add_subs (heap s1) p c; Some (s1\<lparr>heap := h1\<rparr>) } else Some s1 }"
    using p(1,2) ne c(1,5) l(1) by (simp add: add_child_resource_tree_def)
  obtain c' where c': "h' c = Some c'" "n_uri c' = Some (pu @ ''/'' @ rn)"
    using u' [of c] by (auto simp: uri_of_def bind_eq_Some_conv)
  show ?thesis
  proof (cases "n_ty cn = RT_SUB")
    case True
    let ?p = "pn\<lparr>n_child := q, n_subs := n_subs pn @ [(c, pu @ ''/'' @ rn)], n_sub_cnt := n_sub_cnt pn + 1\<rparr>"
    let ?s = "s\<lparr>heap := h'(p \<mapsto> ?p)\<rparr>"
    have "add_child_resource_tree s p c = Some ?s"
      using True run q(1) c' p(3) by (simp add: add_subs_def nl_append_def add_int_in)
    moreover have "seg (heap ?s) (Some p) None q (ins_sib (tyof (heap s)) (leaf c) ts) None"
      using q by (simp add: seg_upd_same links_def)
    ultimately show ?thesis
      using q(1) same data u' cnt' subs' ne p(1) True
      by (intro exI [of _ ?s] exI [of _ ?p]) (auto simp: ident_def uri_of_def sub_nodes_def csrs_def)
  next
    case False
    obtain s' where s': "add_child_resource_tree s p c = Some s'" "heap s' = h'" "cb s' = cb s" "brk s' = brk s" "db s' = db s"
      "csrs s' = csrs s \<union> (if n_ty cn = RT_CSR then {c} else {})"
      using False run c' by (cases "n_ty cn = RT_CSR") (auto simp: add_csrlist_def csrs_def nl_append_def)
    then show ?thesis
      using q same data u' cnt' subs' ne False
      by (intro exI [of _ s'] exI [of _ "pn\<lparr>n_child := q\<rparr>"]) (auto simp: sub_nodes_def)
  qed
qed

section \<open>The first loop\<close>

text \<open>A node that waits for its parent: it has a name and identifiers, and no subscription yet.\<close>

definition waiting :: "heap \<Rightarrow> addr \<Rightarrow> bool" where
  "waiting h a \<longleftrightarrow> rn_of h a \<noteq> None \<and> ri_of h a \<noteq> None \<and> pi_of h a \<noteq> None \<and>
     map_option n_sub_cnt (h a) = Some 0 \<and> map_option sub_nodes (h a) = Some {}"

text \<open>What a node and its children have to do with each other.\<close>

definition family :: "heap \<Rightarrow> addr \<Rightarrow> addr list \<Rightarrow> bool" where
  "family h p ks \<longleftrightarrow>
     (\<forall>c\<in>set ks. pi_of h c = ri_of h p \<and>
        (\<exists>u rn. uri_of h p = Some u \<and> rn_of h c = Some rn \<and> uri_of h c = Some (u @ ''/'' @ rn))) \<and>
     map_option sub_nodes (h p) = Some {c \<in> set ks. tyof h c = RT_SUB}"

text \<open>A part of the restructuring: it writes to the addresses \<open>X\<close> and keeps the data of the nodes.\<close>

definition moved :: "'d cse \<Rightarrow> 'd cse \<Rightarrow> addr set \<Rightarrow> bool" where
  "moved s s' X \<longleftrightarrow> (\<forall>x. x \<notin> X \<longrightarrow> heap s' x = heap s x) \<and> (\<forall>x. ident (heap s') x = ident (heap s) x) \<and>
     cb s' = cb s \<and> brk s' = brk s \<and> db s' = db s"

lemma moved_refl [simp]: "moved s s X"
  by (simp add: moved_def)

lemma moved_trans: "moved s s' X \<Longrightarrow> moved s' s'' Y \<Longrightarrow> X \<union> Y \<subseteq> Z \<Longrightarrow> moved s s'' Z"
  by (simp add: moved_def subset_iff) metis

lemma movedD:
  assumes "moved s s' X"
  shows "x \<notin> X \<Longrightarrow> heap s' x = heap s x" "ri_of (heap s') x = ri_of (heap s) x" "pi_of (heap s') x = pi_of (heap s) x"
    "rn_of (heap s') x = rn_of (heap s) x" "tyof (heap s') = tyof (heap s)"
  using assms ident_fields [of "heap s'" _ "heap s"] by (auto simp: moved_def)

lemma waiting_cong:
  assumes "ident h' a = ident h a" "map_option n_sub_cnt (h' a) = map_option n_sub_cnt (h a)"
    "map_option sub_nodes (h' a) = map_option sub_nodes (h a)"
  shows "waiting h' a = waiting h a"
  using assms ident_fields [OF assms(1)] by (simp add: waiting_def)

lemma waiting_same: "h' a = h a \<Longrightarrow> waiting h' a = waiting h a"
  by (rule waiting_cong) (simp_all add: ident_def)

lemma same_payload_data:
  assumes "same_payload h h'"
  shows "ident h' x = ident h x" "map_option n_sub_cnt (h' x) = map_option n_sub_cnt (h x)"
    "map_option sub_nodes (h' x) = map_option sub_nodes (h x)" "uri_of h' x = uri_of h x"
proof -
  show "ident h' x = ident h x" by (rule ident_payload [OF assms])
  show "map_option n_sub_cnt (h' x) = map_option n_sub_cnt (h x)"
    by (rule same_payload_field [OF assms]) (erule payload_fields)
  show "map_option sub_nodes (h' x) = map_option sub_nodes (h x)"
    by (rule same_payload_field [OF assms]) (drule payload_fields(4), simp add: sub_nodes_def)
  have "map_option n_uri (h' x) = map_option n_uri (h x)"
    by (rule same_payload_field [OF assms]) (erule payload_fields)
  then show "uri_of h' x = uri_of h x" by (simp add: uri_of_alt)
qed

lemma family_cong:
  assumes "\<And>x. x \<in> set (p # ks) \<Longrightarrow> ident h' x = ident h x \<and> uri_of h' x = uri_of h x"
    "map_option sub_nodes (h' p) = map_option sub_nodes (h p)"
  shows "family h' p ks = family h p ks"
proof -
  have f: "ri_of h' x = ri_of h x" "pi_of h' x = pi_of h x" "rn_of h' x = rn_of h x" "tyof h' x = tyof h x"
    "uri_of h' x = uri_of h x" if "x \<in> set (p # ks)" for x
    using assms(1) [OF that] ident_fields [of h' x h] by auto
  have "{c \<in> set ks. tyof h' c = RT_SUB} = {c \<in> set ks. tyof h c = RT_SUB}" using f by auto
  then show ?thesis using f assms(2) by (simp add: family_def)
qed

lemma ins_leaf: "\<exists>ks'. ins_sib ty (leaf c) (map leaf ks) = map leaf ks' \<and> mset ks' = add_mset c (mset ks)"
proof -
  let ?P = "\<lambda>u. ty u \<le> ty c"
  have "ins_sib ty (leaf c) (map leaf ks) = map leaf (takeWhile ?P ks @ c # dropWhile ?P ks)"
    by (simp add: ins_sib_def takeWhile_map dropWhile_map comp_def)
  moreover have "mset (takeWhile ?P ks @ c # dropWhile ?P ks) = add_mset c (mset ks)"
    using arg_cong [OF takeWhile_dropWhile_id [of ?P ks], of mset] by (metis add_mset_add_single mset_append union_mset_add_mset_right mset.simps(2))
  ultimately show ?thesis by blast
qed


text \<open>The new child of a node.\<close>

lemma family_add:
  assumes f: "family h p ks" and d: "p \<noteq> c" "c \<notin> set ks" "p \<notin> set ks" and ks: "set ks' = insert c (set ks)"
    and same: "\<And>x. ident h' x = ident h x" "\<And>x. x \<noteq> c \<Longrightarrow> uri_of h' x = uri_of h x"
    and c: "pi_of h c = ri_of h p" "uri_of h p = Some u" "rn_of h c = Some rn" "uri_of h' c = Some (u @ ''/'' @ rn)"
    and n: "h p = Some pn" "h' p = Some pn'" "sub_nodes pn' = sub_nodes pn \<union> (if tyof h c = RT_SUB then {c} else {})"
  shows "family h' p ks'"
proof -
  have i: "ri_of h' x = ri_of h x" "pi_of h' x = pi_of h x" "rn_of h' x = rn_of h x" "tyof h' x = tyof h x" for x
    using same(1) ident_fields [of h' x h] by auto
  have up: "uri_of h' p = Some u" using same(2) d c by simp
  have "sub_nodes pn' = {k \<in> set ks'. tyof h' k = RT_SUB}"
    using f n ks i by (auto simp: family_def split: if_splits)
  moreover have "pi_of h' k = ri_of h' p \<and> (\<exists>rn. rn_of h' k = Some rn \<and> uri_of h' k = Some (u @ ''/'' @ rn))"
    if "k \<in> set ks'" for k
  proof (cases "k = c")
    case True
    then show ?thesis using c i by simp
  next
    case False
    with that ks f same(2) c(2) show ?thesis by (auto simp: family_def i)
  qed
  ultimately show ?thesis using up n(2) by (simp add: family_def)
qed

text \<open>
  The state of the loop: \<open>ks\<close> are the children of \<open>p\<close> so far, \<open>as\<close> the nodes in the list.
\<close>

definition adopting :: "'d cse \<Rightarrow> addr \<Rightarrow> rtnode \<Rightarrow> string \<Rightarrow> string \<Rightarrow> addr list \<Rightarrow> addr list \<Rightarrow> bool" where
  "adopting s p pn pu r ks as \<longleftrightarrow>
     chain (heap s) None (hd_ptr as) as None \<and> heap s p = Some pn \<and> n_uri pn = Some pu \<and> get_ri_rtnode pn = Some r \<and>
     seg (heap s) (Some p) None (n_child pn) (map leaf ks) None \<and> ty_sorted (tyof (heap s)) (map leaf ks) \<and>
     family (heap s) p ks \<and> distinct (p # ks @ as) \<and> (\<forall>a\<in>set (ks @ as). waiting (heap s) a)"

definition parent_only :: "rtnode \<Rightarrow> rtnode \<Rightarrow> bool" where
  "parent_only n n' \<longleftrightarrow> n' = n\<lparr>n_child := n_child n', n_subs := n_subs n', n_sub_cnt := n_sub_cnt n'\<rparr>"

lemma parent_only_fields:
  "parent_only n n' \<Longrightarrow> n_uri n' = n_uri n \<and> n_obj n' = n_obj n \<and> n_parent n' = n_parent n \<and>
     n_sibling_left n' = n_sibling_left n \<and> n_sibling_right n' = n_sibling_right n \<and> get_ri_rtnode n' = get_ri_rtnode n"
  by (cases n; cases n') (simp add: parent_only_def get_ri_rtnode_def)

lemma parent_only_refl [simp]: "parent_only n n"
  by (simp add: parent_only_def)

lemma parent_only_trans: "parent_only n n' \<Longrightarrow> parent_only n' n'' \<Longrightarrow> parent_only n n''"
  by (cases n; cases n'; cases n'') (simp add: parent_only_def)

lemma adopt_step:
  assumes inv: "adopting s p pn pu r ks (us @ a # vs)" and a: "pi_of (heap s) a = Some r" and cnt: "in_int (n_sub_cnt pn + 1)"
  shows "\<exists>h s' pn' ks'. take_out (heap s) a (hd_ptr (us @ a # vs)) = Some (hd_ptr (us @ vs), h) \<and>
    add_child_resource_tree (s\<lparr>heap := h\<rparr>) p a = Some s' \<and> adopting s' p pn' pu r ks' (us @ vs) \<and>
    mset ks' = add_mset a (mset ks) \<and> parent_only pn pn' \<and> n_sub_cnt pn' \<in> {n_sub_cnt pn, n_sub_cnt pn + 1} \<and>
    moved s s' (set (p # ks @ us @ a # vs)) \<and> csrs s' = csrs s \<union> (if tyof (heap s) a = RT_CSR then {a} else {})"
proof -
  have i: "chain (heap s) None (hd_ptr (us @ a # vs)) (us @ a # vs) None" "heap s p = Some pn" "n_uri pn = Some pu"
    "get_ri_rtnode pn = Some r" "seg (heap s) (Some p) None (n_child pn) (map leaf ks) None"
    "ty_sorted (tyof (heap s)) (map leaf ks)" "family (heap s) p ks" "distinct (p # ks @ us @ a # vs)"
    "\<forall>b\<in>set (ks @ us @ a # vs). waiting (heap s) b"
    using inv by (auto simp: adopting_def)
  obtain n h where n: "heap s a = Some n" "n_child n = None" "take_out (heap s) a (hd_ptr (us @ a # vs)) = Some (hd_ptr (us @ vs), h)"
    "chain h None (hd_ptr (us @ vs)) (us @ vs) None" "h a = Some (n\<lparr>n_sibling_left := None, n_sibling_right := None\<rparr>)"
    and same: "\<And>x. x \<notin> set (us @ a # vs) \<Longrightarrow> h x = heap s x" and pay: "same_payload (heap s) h"
    using take_out_chain [OF i(1)] i(8) by auto
  note data = same_payload_data [OF pay]
  let ?s = "s\<lparr>heap := h\<rparr>"
  have "waiting (heap s) a" using i(9) by simp
  then obtain rn where rn: "n_rn n = Some rn" using n(1) by (auto simp: waiting_def rn_of_def)
  have ty: "tyof h = tyof (heap s)" using tyof_payload [OF pay] .
  have out: "x \<in> set (p # ks) \<Longrightarrow> h x = heap s x" for x using i(8) by (intro same) auto
  have "seg h (Some p) None (n_child pn) (map leaf ks) None = seg (heap s) (Some p) None (n_child pn) (map leaf ks) None"
    using out by (intro seg_cong) simp
  then obtain s' pn' where s': "add_child_resource_tree ?s p a = Some s'" "heap s' p = Some pn'"
    "seg (heap s') (Some p) None (n_child pn') (ins_sib (tyof (heap s)) (leaf a) (map leaf ks)) None"
    "\<forall>x. x \<notin> set (p # a # ks) \<longrightarrow> heap s' x = h x" "\<forall>x. ident (heap s') x = ident h x"
    "\<forall>x. x \<noteq> a \<longrightarrow> uri_of (heap s') x = uri_of h x"
    "\<forall>x. x \<noteq> p \<longrightarrow> map_option n_sub_cnt (heap s' x) = map_option n_sub_cnt (h x)"
    "uri_of (heap s') a = Some (pu @ ''/'' @ rn)" "parent_only pn pn'" "n_sub_cnt pn' \<in> {n_sub_cnt pn, n_sub_cnt pn + 1}"
    "sub_nodes pn' = sub_nodes pn \<union> (if n_ty n = RT_SUB then {a} else {})"
    "\<forall>x. x \<noteq> p \<longrightarrow> map_option sub_nodes (heap s' x) = map_option sub_nodes (h x)"
    "csrs s' = csrs s \<union> (if n_ty n = RT_CSR then {a} else {})" "cb s' = cb s" "brk s' = brk s" "db s' = db s"
    using add_child_local [of ?s p pn pu "map leaf ks" a "n\<lparr>n_sibling_left := None, n_sibling_right := None\<rparr>" rn]
      i(2,3,5,6,8) cnt n rn out [of p] by (auto simp: ty parent_only_def csrs_def)
  obtain ks' where ks': "ins_sib (tyof (heap s)) (leaf a) (map leaf ks) = map leaf ks'" "mset ks' = add_mset a (mset ks)"
    using ins_leaf by blast
  then have set: "set ks' = insert a (set ks)" by (metis set_mset_mset set_mset_add_mset_insert)
  have mv: "moved s s' (set (p # ks @ us @ a # vs))"
    using s'(4,5,14-16) same data(1) by (auto simp: moved_def)
  have "chain (heap s') None (hd_ptr (us @ vs)) (us @ vs) None"
    using n(4) s'(4) i(8) by (subst chain_cong [where h = h]) auto
  moreover have "ty_sorted (tyof (heap s')) (map leaf ks')"
    unfolding movedD(5) [OF mv] ks'(1) [symmetric] by (rule ty_sorted_ins_sib [OF i(6)])
  moreover have "family (heap s') p ks'"
  proof (rule family_add [OF i(7) _ _ _ set])
    show "pi_of (heap s) a = ri_of (heap s) p" using a i(2,4) by (simp add: ri_of_def)
    show "uri_of (heap s) p = Some pu" using i(2,3) by (simp add: uri_of_def)
    show "rn_of (heap s) a = Some rn" using n(1) rn by (simp add: rn_of_def)
    show "uri_of (heap s') x = uri_of (heap s) x" if "x \<noteq> a" for x using s'(6) that data(4) by simp
    show "sub_nodes pn' = sub_nodes pn \<union> (if tyof (heap s) a = RT_SUB then {a} else {})"
      using s'(11) n(1) by (simp add: tyof_def)
  qed (use s' data i in auto)
  moreover have "waiting (heap s') b" if "b \<in> set (ks' @ us @ vs)" for b
  proof -
    have "b \<noteq> p" "waiting (heap s) b" using that i(8,9) set by auto
    then show ?thesis using s'(5,7,12) data by (subst waiting_cong [where h = "heap s"]) auto
  qed
  moreover have "distinct (p # ks' @ us @ vs)"
    using i(8) set mset_eq_imp_distinct_iff [of ks' "a # ks"] ks'(2) by auto
  moreover note s'(2,3) parent_only_fields [OF s'(9)]
  ultimately have "adopting s' p pn' pu r ks' (us @ vs)" using i(3,4) ks'(1) by (simp add: adopting_def)
  then show ?thesis using n(1,3) s' ks'(2) mv by (auto simp: tyof_def)
qed

lemma adopt_run:
  assumes "adopting s p pn pu r ks (us @ vs)" "0 \<le> n_sub_cnt pn" "n_sub_cnt pn + int (length vs) \<le> INT_MAX"
    and "rest = us @ filter (\<lambda>a. pi_of (heap s) a \<noteq> Some r) vs"
  shows "\<exists>s' ks' pn'. adopt s p (hd_ptr (us @ vs)) (hd_ptr vs) = Some (hd_ptr rest, s') \<and>
    adopting s' p pn' pu r ks' rest \<and> parent_only pn pn' \<and>
    mset ks' = mset ks + mset (filter (\<lambda>a. pi_of (heap s) a = Some r) vs) \<and> moved s s' (set (p # ks @ us @ vs)) \<and>
    csrs s' = csrs s \<union> {a \<in> set vs. pi_of (heap s) a = Some r \<and> tyof (heap s) a = RT_CSR}"
  using assms
proof (induction vs arbitrary: us s ks pn)
  case Nil
  then show ?case by (subst adopt.simps) (auto intro!: exI [of _ ks])
next
  case (Cons a vs)
  have i: "waiting (heap s) a" "chain (heap s) None (hd_ptr (us @ a # vs)) (us @ a # vs) None" "distinct (us @ a # vs)"
    "heap s p = Some pn" "get_ri_rtnode pn = Some r"
    using Cons.prems(1) by (auto simp: adopting_def)
  obtain n pi where n: "heap s a = Some n" "get_pi_rtnode n = Some pi"
    using i(1) by (auto simp: waiting_def pi_of_def bind_eq_Some_conv)
  have pi: "pi_of (heap s) a = Some pi" using n by (simp add: pi_of_def)
  have right: "n_sibling_right n = hd_ptr vs" using take_out_chain [OF i(2,3)] n(1) by auto
  show ?case
  proof (cases "r = pi")
    case False
    then have run: "adopt s p (hd_ptr (us @ a # vs)) (hd_ptr (a # vs)) = adopt s p (hd_ptr ((us @ [a]) @ vs)) (hd_ptr vs)"
      using n i right by (subst adopt.simps) simp
    have "{b \<in> set (a # vs). pi_of (heap s) b = Some r \<and> tyof (heap s) b = RT_CSR} =
        {a \<in> set vs. pi_of (heap s) a = Some r \<and> tyof (heap s) a = RT_CSR}"
      using False pi by auto
    then show ?thesis using Cons.IH [of s pn ks "us @ [a]"] Cons.prems False pi unfolding run by simp
  next
    case True
    have "in_int (n_sub_cnt pn + 1)" using Cons.prems(2,3) by (simp add: in_int_def INT_MIN_def)
    then obtain h s1 pn1 ks1 where s1: "take_out (heap s) a (hd_ptr (us @ a # vs)) = Some (hd_ptr (us @ vs), h)"
      "add_child_resource_tree (s\<lparr>heap := h\<rparr>) p a = Some s1" "adopting s1 p pn1 pu r ks1 (us @ vs)"
      "mset ks1 = add_mset a (mset ks)" "parent_only pn pn1" "n_sub_cnt pn1 \<in> {n_sub_cnt pn, n_sub_cnt pn + 1}"
      "moved s s1 (set (p # ks @ us @ a # vs))" "csrs s1 = csrs s \<union> (if tyof (heap s) a = RT_CSR then {a} else {})"
      using adopt_step [OF Cons.prems(1)] True pi by blast
    have run: "adopt s p (hd_ptr (us @ a # vs)) (hd_ptr (a # vs)) = adopt s1 p (hd_ptr (us @ vs)) (hd_ptr vs)"
      using n i right True s1(1,2) by (subst adopt.simps) simp
    have pis: "pi_of (heap s1) = pi_of (heap s)" and tys: "tyof (heap s1) = tyof (heap s)"
      using movedD [OF s1(7)] by auto
    have k1: "set ks1 = insert a (set ks)" using s1(4) by (metis set_mset_mset set_mset_add_mset_insert)
    have "0 \<le> n_sub_cnt pn1" "n_sub_cnt pn1 + int (length vs) \<le> INT_MAX" using s1(6) Cons.prems(2,3) by auto
    moreover have "rest = us @ filter (\<lambda>a. pi_of (heap s1) a \<noteq> Some r) vs"
      using Cons.prems(4) True pi pis by simp
    ultimately obtain s' ks' pn' where s': "adopt s1 p (hd_ptr (us @ vs)) (hd_ptr vs) = Some (hd_ptr rest, s')"
      "adopting s' p pn' pu r ks' rest" "parent_only pn1 pn'"
      "mset ks' = mset ks1 + mset (filter (\<lambda>a. pi_of (heap s) a = Some r) vs)" "moved s1 s' (set (p # ks1 @ us @ vs))"
      "csrs s' = csrs s1 \<union> {a \<in> set vs. pi_of (heap s) a = Some r \<and> tyof (heap s) a = RT_CSR}"
      using Cons.IH [OF s1(3)] unfolding pis tys by blast
    moreover have "moved s s' (set (p # ks @ us @ a # vs))"
      using k1 by (intro moved_trans [OF s1(7) s'(5)]) auto
    moreover have "csrs s' = csrs s \<union> {b \<in> set (a # vs). pi_of (heap s) b = Some r \<and> tyof (heap s) b = RT_CSR}"
      using s'(6) s1(8) True pi by auto
    ultimately show ?thesis
      using s1(4) parent_only_trans [OF s1(5) s'(3)] True pi unfolding run by auto
  qed
qed

section \<open>The whole tree\<close>

definition grown :: "heap \<Rightarrow> rtree list \<Rightarrow> bool" where
  "grown h ts \<longleftrightarrow> (\<forall>(a, cs)\<in>set (nodes ts). family h a (map root cs))"

lemma grown_simps [simp]:
  "grown h []" "grown h (T a cs # ts) \<longleftrightarrow> family h a (map root cs) \<and> grown h cs \<and> grown h ts"
  by (auto simp: grown_def)

lemma family_same: "(\<And>x. x \<in> set (p # ks) \<Longrightarrow> h' x = h x) \<Longrightarrow> family h' p ks = family h p ks"
  by (rule family_cong) (auto simp: ident_def uri_of_def)

lemma grown_same: "(\<And>x. x \<in> set (addrs ts) \<Longrightarrow> h' x = h x) \<Longrightarrow> grown h' ts = grown h ts"
proof (induction ts rule: nodes.induct)
  case (2 a cs ts)
  have "family h' a (map root cs) = family h a (map root cs)"
    using 2(3) root_in_addrs [of _ cs] by (intro family_same) auto
  with 2 show ?case by simp
qed simp

text \<open>No node that is left in the list belongs below one of the nodes \<open>bs\<close>.\<close>

definition strangers :: "heap \<Rightarrow> addr list \<Rightarrow> addr list \<Rightarrow> bool" where
  "strangers h as bs \<longleftrightarrow> (\<forall>a\<in>set as. \<forall>b\<in>set bs. pi_of h a \<noteq> ri_of h b)"

definition remaining :: "heap \<Rightarrow> addr list \<Rightarrow> bool" where
  "remaining h as \<longleftrightarrow> chain h None (hd_ptr as) as None \<and> (\<forall>a\<in>set as. waiting h a)"

text \<open>The outcome below one node: its children \<open>ts\<close> and the list \<open>rest\<close> that is left of \<open>as\<close>.\<close>

definition settled ::
    "'d cse \<Rightarrow> 'd cse \<Rightarrow> addr \<Rightarrow> rtnode \<Rightarrow> rtree list \<Rightarrow> addr list \<Rightarrow> addr list \<Rightarrow> bool" where
  "settled s s' p pn ts as rest \<longleftrightarrow>
     (\<exists>pn'. heap s' p = Some pn' \<and> parent_only pn pn' \<and> seg (heap s') (Some p) None (n_child pn') ts None) \<and>
     kids_sorted (tyof (heap s')) [T p ts] \<and> grown (heap s') [T p ts] \<and> mset (addrs ts) + mset rest = mset as \<and>
     remaining (heap s') rest \<and> strangers (heap s') rest (p # addrs ts) \<and> moved s s' (set (p # as)) \<and>
     csrs s' = csrs s \<union> {a \<in> set (addrs ts). tyof (heap s) a = RT_CSR}"

text \<open>The outcome for the children \<open>cs\<close> of a node, from the child \<open>left\<close> of them on.\<close>

definition siblings_settled ::
    "'d cse \<Rightarrow> 'd cse \<Rightarrow> addr \<Rightarrow> ptr \<Rightarrow> addr list \<Rightarrow> rtree list \<Rightarrow> addr list \<Rightarrow> addr list \<Rightarrow> bool" where
  "siblings_settled s s' p left cs ts as rest \<longleftrightarrow>
     seg (heap s') (Some p) left (hd_ptr cs) ts None \<and> map root ts = cs \<and> kids_sorted (tyof (heap s')) ts \<and>
     grown (heap s') ts \<and> mset (addrs ts) + mset rest = mset (cs @ as) \<and> remaining (heap s') rest \<and>
     strangers (heap s') rest (addrs ts) \<and> moved s s' (set (cs @ as)) \<and>
     (\<forall>c\<in>set cs. uri_of (heap s') c = uri_of (heap s) c) \<and>
     csrs s' = csrs s \<union> {a \<in> set (addrs ts). a \<notin> set cs \<and> tyof (heap s) a = RT_CSR}"

lemma seg_hd: "seg h par left p (map leaf as) None \<Longrightarrow> p = hd_ptr as"
  by (cases as) simp_all

lemma mset_split:
  assumes "mset xs + mset ys = mset zs"
  shows "set zs = set xs \<union> set ys" "distinct zs \<longleftrightarrow> distinct (xs @ ys)" "length ys \<le> length zs"
proof -
  have m: "mset zs = mset (xs @ ys)" using assms by simp
  show "set zs = set xs \<union> set ys" using mset_eq_setD [OF m] by simp
  show "distinct zs \<longleftrightarrow> distinct (xs @ ys)" using mset_eq_imp_distinct_iff [OF m] .
  show "length ys \<le> length zs" using mset_eq_length [OF m] by simp
qed

lemma restruct_children:
  assumes IH: "\<And>(s :: 'd cse) p pn pu r as. length as < N \<Longrightarrow> adopting s p pn pu r [] as \<Longrightarrow> n_sub_cnt pn = 0 \<Longrightarrow>
      int (length as) \<le> INT_MAX \<Longrightarrow>
      \<exists>s' ts rest. restruct s (Below p (hd_ptr as)) = Some (hd_ptr rest, s') \<and> settled s s' p pn ts as rest"
    and "seg (heap s) (Some p) left (hd_ptr cs) (map leaf cs) None" "remaining (heap s) as"
    and "distinct (cs @ as)" "\<forall>c\<in>set cs. waiting (heap s) c \<and> uri_of (heap s) c \<noteq> None"
    and "cs = [] \<or> length as < N" "int (length as) \<le> INT_MAX"
  shows "\<exists>(s' :: 'd cse) ts rest. restruct s (Children (hd_ptr cs) (hd_ptr as)) = Some (hd_ptr rest, s') \<and>
    siblings_settled s s' p left cs ts as rest"
  using assms(2-)
proof (induction cs arbitrary: s left as)
  case Nil
  then show ?case
    by (subst restruct.simps) (auto simp: siblings_settled_def strangers_def intro!: exI [of _ as])
next
  case (Cons c cs)
  obtain cn where cn: "heap s c = Some cn" "n_parent cn = Some p" "n_sibling_left cn = left" "n_child cn = None"
    "seg (heap s) (Some p) (Some c) (n_sibling_right cn) (map leaf cs) None"
    using Cons.prems(1) by (auto split: option.splits)
  have right: "n_sibling_right cn = hd_ptr cs" using seg_hd [OF cn(5)] .
  obtain cu r where cr: "n_uri cn = Some cu" "get_ri_rtnode cn = Some r" "n_sub_cnt cn = 0" "sub_nodes cn = {}"
    using Cons.prems(4) cn(1) by (auto simp: waiting_def ri_of_def uri_of_def)
  have "adopting s c cn cu r [] as"
    using Cons.prems(2,3) cn cr by (simp add: adopting_def remaining_def family_def ty_sorted_def)
  then obtain s1 kc rest1 where r1: "restruct s (Below c (hd_ptr as)) = Some (hd_ptr rest1, s1)"
    and st: "settled s s1 c cn kc as rest1"
    using IH [of as s c cn cu r] Cons.prems(5,6) cr(3) by auto
  obtain cn1 where c1: "heap s1 c = Some cn1" "parent_only cn cn1" "seg (heap s1) (Some c) None (n_child cn1) kc None"
    "kids_sorted (tyof (heap s1)) [T c kc]" "grown (heap s1) [T c kc]" "mset (addrs kc) + mset rest1 = mset as"
    "remaining (heap s1) rest1" "strangers (heap s1) rest1 (c # addrs kc)" "moved s s1 (set (c # as))"
    "csrs s1 = csrs s \<union> {a \<in> set (addrs kc). tyof (heap s) a = RT_CSR}"
    using st by (auto simp: settled_def)
  note f1 = parent_only_fields [OF c1(2)] and m1 = mset_split [OF c1(6)]
  have out: "heap s1 x = heap s x" if "x \<in> set cs" for x using Cons.prems(3) that by (intro movedD(1) [OF c1(9)]) auto
  have "seg (heap s1) (Some p) (Some c) (hd_ptr cs) (map leaf cs) None"
    using cn(5) right out by (subst seg_cong [where h = "heap s"]) auto
  moreover have "distinct (cs @ rest1)" using Cons.prems(3) m1 by auto
  moreover have "\<forall>b\<in>set cs. waiting (heap s1) b \<and> uri_of (heap s1) b \<noteq> None"
    using Cons.prems(4) waiting_same [of "heap s1" _ "heap s"] out by (auto simp: uri_of_def simp del: not_None_eq)
  moreover have "cs = [] \<or> length rest1 < N" "int (length rest1) \<le> INT_MAX" using Cons.prems(5,6) m1(3) by auto
  ultimately obtain s' ts rest where run1: "restruct s1 (Children (hd_ptr cs) (hd_ptr rest1)) = Some (hd_ptr rest, s')"
    and ss: "siblings_settled s1 s' p (Some c) cs ts rest1 rest"
    using Cons.IH [of s1 "Some c" rest1, OF _ c1(7)] by blast
  have s': "restruct s1 (Children (hd_ptr cs) (hd_ptr rest1)) = Some (hd_ptr rest, s')"
    "seg (heap s') (Some p) (Some c) (hd_ptr cs) ts None" "map root ts = cs" "kids_sorted (tyof (heap s')) ts"
    "grown (heap s') ts" "mset (addrs ts) + mset rest = mset (cs @ rest1)" "remaining (heap s') rest"
    "strangers (heap s') rest (addrs ts)" "moved s1 s' (set (cs @ rest1))"
    "\<forall>c\<in>set cs. uri_of (heap s') c = uri_of (heap s1) c"
    "csrs s' = csrs s1 \<union> {a \<in> set (addrs ts). a \<notin> set cs \<and> tyof (heap s1) a = RT_CSR}"
    using run1 ss by (simp_all add: siblings_settled_def)
  note m2 = mset_split [OF s'(6)]
  have d: "distinct (c # addrs kc @ cs @ rest1)" using Cons.prems(3) m1 by auto
  have keep: "heap s' x = heap s1 x" if "x \<in> set (c # addrs kc)" for x
    using d that by (intro movedD(1) [OF s'(9)]) auto
  have run: "restruct s (Children (hd_ptr (c # cs)) (hd_ptr as)) = Some (hd_ptr rest, s')"
    using r1 c1(1) f1 right s'(1) by (subst restruct.simps) simp
  have "seg (heap s') (Some c) None (n_child cn1) kc None"
    using c1(3) keep by (subst seg_cong [where h = "heap s1"]) auto
  then have "seg (heap s') (Some p) left (hd_ptr (c # cs)) (T c kc # ts) None"
    using keep [of c] c1(1) f1 cn right s'(2) by simp
  moreover have "kids_sorted (tyof (heap s')) (T c kc # ts)"
    using c1(4) s'(4) movedD(5) [OF s'(9)] by simp
  moreover have "grown (heap s') (T c kc # ts)"
    using c1(5) s'(5) keep grown_same [of "[T c kc]" "heap s'" "heap s1"] by simp
  moreover have "mset (addrs (T c kc # ts)) + mset rest = mset ((c # cs) @ as)"
    using s'(6) c1(6) by (simp add: union_assoc)
  moreover have "strangers (heap s') rest (addrs (T c kc # ts))"
  proof -
    have "set cs \<subseteq> set (addrs ts)" using s'(3) root_in_addrs by fastforce
    moreover have "distinct (addrs ts @ rest)" using m2(2) d by simp
    ultimately have "set rest \<subseteq> set rest1" using m2(1) by auto
    then show ?thesis using c1(8) s'(8) by (auto simp: strangers_def movedD(2,3) [OF s'(9)])
  qed
  moreover have "moved s s' (set ((c # cs) @ as))"
    using m1(1) by (intro moved_trans [OF c1(9) s'(9)]) auto
  moreover have "\<forall>b\<in>set (c # cs). uri_of (heap s') b = uri_of (heap s) b"
    using s'(10) out keep [of c] c1(1) cn(1) f1 by (auto simp: uri_of_def)
  moreover have "csrs s' = csrs s \<union> {a \<in> set (addrs (T c kc # ts)). a \<notin> set (c # cs) \<and> tyof (heap s) a = RT_CSR}"
    using s'(11) c1(10) movedD(5) [OF c1(9)] d m2 by auto
  ultimately show ?case
    using run s'(3,7)
    by (intro exI [of _ s'] exI [of _ "T c kc # ts"] exI [of _ rest]) (simp add: siblings_settled_def)
qed


lemma restruct_below:
  assumes "adopting s p pn pu r [] as" "n_sub_cnt pn = 0" "int (length as) \<le> INT_MAX"
  shows "\<exists>s' ts rest. restruct s (Below p (hd_ptr as)) = Some (hd_ptr rest, s') \<and> settled s s' p pn ts as rest"
  using assms
proof (induction as arbitrary: s p pn pu r rule: length_induct)
  case (1 as)
  let ?rest = "filter (\<lambda>a. pi_of (heap s) a \<noteq> Some r) as"
  obtain s1 cs pn1 where a: "adopt s p (hd_ptr as) (hd_ptr as) = Some (hd_ptr ?rest, s1)"
    "adopting s1 p pn1 pu r cs ?rest" "parent_only pn pn1" "mset cs = mset (filter (\<lambda>a. pi_of (heap s) a = Some r) as)"
    "moved s s1 (set (p # as))" "csrs s1 = csrs s \<union> {a \<in> set as. pi_of (heap s) a = Some r \<and> tyof (heap s) a = RT_CSR}"
    using adopt_run [of s p pn pu r "[]" "[]" as ?rest] 1(2-4) by auto
  have i: "remaining (heap s1) ?rest" "heap s1 p = Some pn1" "get_ri_rtnode pn1 = Some r"
    "seg (heap s1) (Some p) None (n_child pn1) (map leaf cs) None" "ty_sorted (tyof (heap s1)) (map leaf cs)"
    "family (heap s1) p cs" "distinct (p # cs @ ?rest)" "\<forall>c\<in>set cs. waiting (heap s1) c"
    using a(2) by (auto simp: adopting_def remaining_def)
  have set: "set cs = {a \<in> set as. pi_of (heap s) a = Some r}" using mset_eq_setD [OF a(4)] by simp
  have len: "cs = [] \<or> length ?rest < length as"
    using set length_filter_less [of _ as "\<lambda>a. pi_of (heap s) a \<noteq> Some r"] by (cases cs) auto
  have "seg (heap s1) (Some p) None (hd_ptr cs) (map leaf cs) None" using i(4) seg_hd [OF i(4)] by simp
  moreover have "\<forall>c\<in>set cs. waiting (heap s1) c \<and> uri_of (heap s1) c \<noteq> None"
    using i(6,8) by (auto simp: family_def)
  moreover have "int (length ?rest) \<le> INT_MAX" using 1(4) length_filter_le [of "\<lambda>a. pi_of (heap s) a \<noteq> Some r" as] by linarith
  moreover have "distinct (cs @ ?rest)" using i(7) by simp
  ultimately obtain s' ts rest where run1: "restruct s1 (Children (hd_ptr cs) (hd_ptr ?rest)) = Some (hd_ptr rest, s')"
    and ss: "siblings_settled s1 s' p None cs ts ?rest rest"
    using restruct_children [of "length as" s1 p None cs ?rest, OF _ _ i(1)] 1(1) len by blast
  have s': "restruct s1 (Children (hd_ptr cs) (hd_ptr ?rest)) = Some (hd_ptr rest, s')"
    "seg (heap s') (Some p) None (hd_ptr cs) ts None" "map root ts = cs" "kids_sorted (tyof (heap s')) ts"
    "grown (heap s') ts" "mset (addrs ts) + mset rest = mset (cs @ ?rest)" "remaining (heap s') rest"
    "strangers (heap s') rest (addrs ts)" "moved s1 s' (set (cs @ ?rest))"
    "\<forall>c\<in>set cs. uri_of (heap s') c = uri_of (heap s1) c"
    "csrs s' = csrs s1 \<union> {a \<in> set (addrs ts). a \<notin> set cs \<and> tyof (heap s1) a = RT_CSR}"
    using run1 ss by (simp_all add: siblings_settled_def)
  note m = mset_split [OF s'(6)]
  have pp: "heap s' p = Some pn1" using i(2,7) movedD(1) [OF s'(9), of p] by auto
  have run: "restruct s (Below p (hd_ptr as)) = Some (hd_ptr rest, s')"
    using a(1) i(2) seg_hd [OF i(4)] s'(1) by (subst restruct.simps) simp
  have tree: "set cs \<subseteq> set (addrs ts)" using s'(3) root_in_addrs by fastforce
  have rest: "set rest \<subseteq> set ?rest" using tree m i(7) by auto
  have "family (heap s') p cs"
    using i(6) s'(10) movedD(1) [OF s'(9), of p] i(7) s'(9)
    by (subst family_cong [where h = "heap s1"]) (auto simp: moved_def uri_of_def)
  moreover have "ty_sorted (tyof (heap s')) ts"
    using i(5) ty_sorted_roots [of ts "map leaf cs"] s'(3) movedD(5) [OF s'(9)] by simp
  moreover have "mset (addrs ts) + mset rest = mset as"
    using s'(6) a(4) multiset_partition [of "mset as" "\<lambda>a. pi_of (heap s) a = Some r"] by simp
  moreover have "strangers (heap s') rest (p # addrs ts)"
  proof -
    have "pi_of (heap s') b \<noteq> ri_of (heap s') p" if "b \<in> set rest" for b
      using that rest pp i(3) movedD(3) [OF s'(9)] movedD(3) [OF a(5)] by (auto simp: ri_of_def)
    then show ?thesis using s'(8) by (auto simp: strangers_def)
  qed
  moreover have "moved s s' (set (p # as))" using set by (intro moved_trans [OF a(5) s'(9)]) auto
  moreover have "csrs s' = csrs s \<union> {a \<in> set (addrs ts). tyof (heap s) a = RT_CSR}"
    using s'(11) a(6) movedD(5) [OF a(5)] set tree by auto
  ultimately have "settled s s' p pn ts as rest"
    using pp a(3) s'(2-5,7) seg_hd [OF i(4)] by (simp add: settled_def)
  then show ?case using run by blast
qed

section \<open>The list the database returns\<close>

text \<open>A block of consecutive addresses.\<close>

fun block :: "addr \<Rightarrow> nat \<Rightarrow> addr list" where
  "block b 0 = []"
| "block b (Suc k) = b # block (Suc b) k"

lemma set_block [simp]: "set (block b k) = {b..<b + k}"
  by (induction k arbitrary: b) auto

lemma distinct_block [simp]: "distinct (block b k)"
  by (induction k arbitrary: b) simp_all

lemma length_block [simp]: "length (block b k) = k"
  by (induction k arbitrary: b) simp_all

lemma block_append: "block b (m + n) = block b m @ block (b + m) n"
  by (induction m arbitrary: b) simp_all

lemma nth_block [simp]: "i < k \<Longrightarrow> block b k ! i = b + i"
  by (induction k arbitrary: b i) (auto simp: nth_Cons')

text \<open>The nodes at the addresses \<open>as\<close> carry the data of \<open>ns\<close>.\<close>

definition carries :: "heap \<Rightarrow> addr list \<Rightarrow> rtnode list \<Rightarrow> bool" where
  "carries h = list_all2 (\<lambda>a n. map_option payload (h a) = Some (payload n))"

definition creates :: "row list \<Rightarrow> rtnode list \<Rightarrow> bool" where
  "creates = list_all2 (\<lambda>(j, ty) n. new_rtnode j ty = Some n)"

lemma carries_same: "same_payload h h' \<Longrightarrow> carries h as ns \<Longrightarrow> carries h' as ns"
  by (simp add: carries_def same_payload_def)

lemma carries_cong:
  assumes "carries h as ns" "\<And>a. a \<in> set as \<Longrightarrow> map_option payload (h' a) = map_option payload (h a)"
  shows "carries h' as ns"
  using assms unfolding carries_def by (elim list.rel_mono_strong) simp

lemma new_rtnode_fields:
  assumes "new_rtnode j ty = Some n"
  shows "n_parent n = None" "n_child n = None" "n_sibling_left n = None" "n_sibling_right n = None"
    "n_sub_cnt n = 0" "n_subs n = []" "n_rn n \<noteq> None" "n_ty n = ty"
  using assms by (auto simp: new_rtnode_def take_member_def Let_def split: option.splits)

lemma creates_fields:
  assumes "creates rows ns" "n \<in> set ns"
  shows "n_rn n \<noteq> None \<and> n_sub_cnt n = 0 \<and> n_subs n = []"
proof -
  have "\<exists>j ty. new_rtnode j ty = Some n"
    using assms unfolding creates_def by (induction rule: list_all2_induct) auto
  then show ?thesis using new_rtnode_fields by metis
qed

text \<open>Two lists become one.\<close>

lemma chain_glue:
  assumes "chain h None p (as @ [l]) None" "chain h None (Some b) (b # bs) None" "distinct (as @ l # b # bs)"
  shows "\<exists>h1 h'. upd h l (\<lambda>n. n\<lparr>n_sibling_right := Some b\<rparr>) = Some h1 \<and>
    upd h1 b (\<lambda>n. n\<lparr>n_sibling_left := Some l\<rparr>) = Some h' \<and> chain h' None p (as @ l # b # bs) None \<and>
    same_payload h h' \<and> (\<forall>x. x \<notin> {l, b} \<longrightarrow> h' x = h x)"
proof -
  from assms obtain n m where n: "h l = Some n" "h b = Some m" by (auto simp: chain_append)
  let ?h1 = "h(l \<mapsto> n\<lparr>n_sibling_right := Some b\<rparr>)"
  let ?h = "?h1(b \<mapsto> m\<lparr>n_sibling_left := Some l\<rparr>)"
  have "chain ?h None p (as @ l # b # bs) None" using assms n by (auto simp: chain_append)
  moreover have "same_payload h ?h"
    using n assms(3) by (intro same_payload_trans [OF same_payload_link(2) same_payload_link(1)]) auto
  ultimately show ?thesis using n assms(3) by (intro exI [of _ ?h1] exI [of _ ?h]) auto
qed

definition fresh :: "'d cse \<Rightarrow> bool" where
  "fresh s \<longleftrightarrow> (\<forall>x\<ge>brk s. heap s x = None)"

lemma create_rtnode_run:
  assumes "new_rtnode j ty = Some n"
  shows "create_rtnode s j ty = Some (brk s, s\<lparr>heap := (heap s)(brk s \<mapsto> n), brk := Suc (brk s)\<rparr>)"
  using assms by (simp add: create_rtnode_def)

text \<open>What allocation leaves alone: everything but the heap.\<close>

definition allocated :: "'d cse \<Rightarrow> 'd cse \<Rightarrow> nat \<Rightarrow> bool" where
  "allocated s s' k \<longleftrightarrow> s' = s\<lparr>heap := heap s', brk := brk s + k\<rparr> \<and> fresh s'"

lemma allocated_fields:
  assumes "allocated s s' k"
  shows "brk s' = brk s + k" "fresh s'" "cb s' = cb s" "db s' = db s" "csr_list s' = csr_list s"
proof -
  have e: "s' = s\<lparr>heap := heap s', brk := brk s + k\<rparr>" using assms by (simp add: allocated_def)
  show "brk s' = brk s + k" "cb s' = cb s" "db s' = db s" "csr_list s' = csr_list s" by (subst e, simp)+
  show "fresh s'" using assms by (simp add: allocated_def)
qed

lemma link_rows_run:
  assumes "creates rows ns" "fresh s" "chain (heap s) None p (as @ [l]) None" "set (as @ [l]) \<subseteq> {..<brk s}" "distinct (as @ [l])"
  shows "\<exists>s'. link_rows s l rows = Some s' \<and> allocated s s' (length rows) \<and>
    chain (heap s') None p (as @ l # (block (brk s) (length rows))) None \<and> carries (heap s') (block (brk s) (length rows)) ns \<and>
    (\<forall>x<brk s. x \<noteq> l \<longrightarrow> heap s' x = heap s x) \<and> (\<forall>x<brk s. map_option payload (heap s' x) = map_option payload (heap s x))"
  using assms
proof (induction rows arbitrary: ns s as l)
  case Nil
  then show ?case by (simp add: allocated_def creates_def carries_def)
next
  case (Cons row rows)
  obtain j ty where row: "row = (j, ty)" by (cases row)
  obtain n ns' where n: "ns = n # ns'" "new_rtnode j ty = Some n" "creates rows ns'"
    using Cons.prems(1) row by (auto simp: creates_def list_all2_Cons1)
  note nf = new_rtnode_fields [OF n(2)]
  let ?b = "brk s"
  let ?h = "(heap s)(?b \<mapsto> n)"
  have b: "?b \<notin> set (as @ [l])" "heap s ?b = None" using Cons.prems(2,4) by (auto simp: fresh_def)
  have "chain ?h None p (as @ [l]) None" using Cons.prems(3) b by simp
  moreover have "chain ?h None (Some ?b) [?b] None" using nf by simp
  ultimately obtain h1 h2 where h: "upd ?h l (\<lambda>n. n\<lparr>n_sibling_right := Some ?b\<rparr>) = Some h1"
    "upd h1 ?b (\<lambda>n. n\<lparr>n_sibling_left := Some l\<rparr>) = Some h2" "chain h2 None p (as @ l # [?b]) None"
    "same_payload ?h h2" "\<forall>x. x \<notin> {l, ?b} \<longrightarrow> h2 x = ?h x"
    using chain_glue [of ?h p as l ?b "[]"] Cons.prems(5) b by auto
  let ?s = "s\<lparr>brk := Suc ?b, heap := h2\<rparr>"
  have pay: "map_option payload (h2 x) = map_option payload (?h x)" for x using h(4) by (simp add: same_payload_def)
  have "fresh ?s" using Cons.prems(2,4) h(5) by (auto simp: fresh_def)
  moreover have "set ((as @ [l]) @ [?b]) \<subseteq> {..<brk ?s}" using Cons.prems(4) by auto
  ultimately obtain s' where s': "link_rows ?s ?b rows = Some s'" "allocated ?s s' (length rows)"
    "chain (heap s') None p ((as @ [l]) @ ?b # (block (Suc ?b) (length rows))) None"
    "carries (heap s') (block (Suc ?b) (length rows)) ns'"
    "\<forall>x<Suc ?b. x \<noteq> ?b \<longrightarrow> heap s' x = h2 x" "\<forall>x<Suc ?b. map_option payload (heap s' x) = map_option payload (h2 x)"
    using Cons.IH [of ns' ?s "as @ [l]" ?b] n(3) h(3) Cons.prems(4,5) b by auto
  have up: "(block ?b (length (row # rows))) = ?b # (block (Suc ?b) (length rows))" by simp
  have "link_rows s l (row # rows) = Some s'"
    using s'(1) h(1,2) row n(2) by (simp add: create_rtnode_run)
  moreover have "allocated s s' (length (row # rows))" using s'(2) by (simp add: allocated_def)
  moreover have "carries (heap s') (block ?b (length (row # rows))) ns"
    using s'(4) spec [OF s'(6), of ?b] pay [of ?b] n(1) unfolding up by (simp add: carries_def)
  moreover have "chain (heap s') None p (as @ l # (block ?b (length (row # rows)))) None"
    using s'(3) unfolding up by simp
  moreover have "\<forall>x<?b. x \<noteq> l \<longrightarrow> heap s' x = heap s x" using s'(5) h(5) by auto
  moreover have "\<forall>x<?b. map_option payload (heap s' x) = map_option payload (heap s x)" using s'(6) pay by auto
  ultimately show ?case by blast
qed

lemma rtnode_list_run:
  assumes "creates rows ns" "fresh s"
  shows "\<exists>s'. rtnode_list s rows = Some (hd_ptr (block (brk s) (length rows)), s') \<and> allocated s s' (length rows) \<and>
    chain (heap s') None (hd_ptr (block (brk s) (length rows))) (block (brk s) (length rows)) None \<and>
    carries (heap s') (block (brk s) (length rows)) ns \<and> (\<forall>x<brk s. heap s' x = heap s x)"
proof (cases rows)
  case Nil
  with assms show ?thesis by (simp add: rtnode_list_def allocated_def creates_def carries_def)
next
  case (Cons row rows')
  obtain j ty where row: "row = (j, ty)" by (cases row)
  obtain n ns' where n: "ns = n # ns'" "new_rtnode j ty = Some n" "creates rows' ns'"
    using assms(1) row Cons by (auto simp: creates_def list_all2_Cons1)
  let ?b = "brk s"
  let ?s = "s\<lparr>heap := (heap s)(?b \<mapsto> n), brk := Suc ?b\<rparr>"
  have "fresh ?s" using assms(2) by (simp add: fresh_def)
  then obtain s' where s': "link_rows ?s ?b rows' = Some s'" "allocated ?s s' (length rows')"
    "chain (heap s') None (Some ?b) (?b # (block (Suc ?b) (length rows'))) None"
    "carries (heap s') (block (Suc ?b) (length rows')) ns'"
    "\<forall>x<Suc ?b. x \<noteq> ?b \<longrightarrow> heap s' x = (heap ?s) x" "\<forall>x<Suc ?b. map_option payload (heap s' x) = map_option payload (heap ?s x)"
    using link_rows_run [OF n(3), of ?s "Some ?b" "[]" ?b] new_rtnode_fields [OF n(2)] by auto
  have up: "(block ?b (length rows)) = ?b # (block (Suc ?b) (length rows'))" using Cons by simp
  have "rtnode_list s rows = Some (Some ?b, s')"
    using s'(1) row n(2) Cons by (simp add: rtnode_list_def create_rtnode_run)
  moreover have "allocated s s' (length rows)" using s'(2) Cons by (simp add: allocated_def)
  moreover have "carries (heap s') (block ?b (length rows)) ns"
    using s'(4) spec [OF s'(6), of ?b] n(1) unfolding up by (simp add: carries_def)
  ultimately show ?thesis using s'(3,5) unfolding up by auto
qed


section \<open>The start of the tree\<close>

lemma tail_of_chain: "chain h left (Some l) (l # bs) None \<Longrightarrow> tail_of h l = Some (last (l # bs))"
proof (induction bs arbitrary: l left)
  case Nil
  then show ?case by (subst tail_of.simps) auto
next
  case (Cons b bs)
  then obtain n where "h l = Some n" "n_sibling_right n = Some b" "chain h (Some l) (Some b) (b # bs) None" by auto
  with Cons.IH show ?case by (subst tail_of.simps) simp
qed

definition name_la :: "addr list \<Rightarrow> heap \<Rightarrow> heap" where
  "name_la bs h = (\<lambda>x. if x \<in> set bs then map_option (\<lambda>n. n\<lparr>n_rn := Some ''la''\<rparr>) (h x) else h x)"

lemma name_latest_chain:
  "chain h left (Some l) (l # bs) None \<Longrightarrow> distinct (l # bs) \<Longrightarrow> name_latest h l = Some (name_la bs h)"
proof (induction bs arbitrary: h l left)
  case Nil
  then show ?case by (subst name_latest.simps) (auto simp: name_la_def)
next
  case (Cons b bs)
  then obtain n m where n: "h l = Some n" "n_sibling_right n = Some b" "h b = Some m" "chain h (Some l) (Some b) (b # bs) None" by auto
  let ?h = "h(b \<mapsto> m\<lparr>n_rn := Some ''la''\<rparr>)"
  have c: "chain ?h (Some l) (Some b) (b # bs) None" using n(3,4) Cons.prems(2) by auto
  have "name_la bs ?h = name_la (b # bs) h" using n(3) Cons.prems(2) by (auto simp: name_la_def)
  moreover have "name_latest ?h b = Some (name_la bs ?h)" by (rule Cons.IH [OF c]) (use Cons.prems(2) in simp)
  ultimately have "name_latest ?h b = Some (name_la (b # bs) h)" by (simp only:)
  then show ?case using n by (subst name_latest.simps) (simp del: fun_upd_apply)
qed

lemma chain_name_la: "chain (name_la bs h) left p as q = chain h left p as q"
proof (rule chain_cong)
  fix a
  show "map_option links (name_la bs h a) = map_option links (h a)"
    by (cases "h a") (simp_all add: name_la_def links_def)
qed

text \<open>The head of the list is released: the rest of the list stays.\<close>

lemma free_head:
  assumes "chain h None (Some d) (d # as) None" "distinct (d # as)"
  shows "\<exists>h1 h'. upd_if h (hd_ptr as) (\<lambda>n. n\<lparr>n_sibling_left := None\<rparr>) = Some h1 \<and> free_rtnode h1 d = Some h' \<and>
    chain h' None (hd_ptr as) as None \<and> h' d = None \<and> (\<forall>x. x \<noteq> d \<longrightarrow> map_option payload (h' x) = map_option payload (h x)) \<and>
    (\<forall>x. x \<notin> set (d # as) \<longrightarrow> h' x = h x)"
proof -
  obtain n where n: "h d = Some n" "n_parent n = None" "n_child n = None" "n_sibling_left n = None"
    "chain h (Some d) (n_sibling_right n) as None"
    using assms(1) by auto
  have free: "free_rtnode h1 d = Some (h2(d := None))" if "unlink h1 d = Some h2" "h2 d = Some m" "n_child m = None" for h1 h2 m
    using that unfolding free_rtnode_def by (subst free_run.simps, subst free_run.simps) simp
  show ?thesis
  proof (cases as)
    case Nil
    with n have "unlink h d = Some (h(d \<mapsto> cleared n))" by (simp add: unlink_def cleared_def)
    then have "free_rtnode h d = Some (h(d := None))" using free [of h "h(d \<mapsto> cleared n)" "cleared n"] n(3) by simp
    with Nil n show ?thesis by auto
  next
    case (Cons b bs)
    then obtain m where m: "h b = Some m" "n_sibling_right n = Some b" "n_parent m = None" "n_child m = None"
      "chain h (Some b) (n_sibling_right m) bs None"
      using n(5) by auto
    let ?h1 = "h(b \<mapsto> m\<lparr>n_sibling_left := None\<rparr>)"
    have ne: "b \<noteq> d" "d \<notin> set bs" "b \<notin> set bs" using assms(2) Cons by auto
    have "unlink ?h1 d = Some (?h1(d \<mapsto> cleared n))"
      using n m ne by (auto simp: unlink_def cleared_def)
    moreover have "chain (?h1(d := None)) None (Some b) (b # bs) None" using m ne by simp
    moreover have "map_option payload (?h1 x) = map_option payload (h x)" for x
      using m(1) by (simp add: payload_def)
    moreover have "free_rtnode ?h1 d = Some (?h1(d := None))"
      using free [of ?h1 "?h1(d \<mapsto> cleared n)" "cleared n"] calculation(1) n(3) by simp
    ultimately show ?thesis using Cons m ne by (intro exI [of _ ?h1] exI [of _ "?h1(d := None)"]) auto
  qed
qed


lemma glue_head:
  assumes "chain h None (Some d) [d] None" "chain h None (hd_ptr bs) bs None" "distinct (d # bs)"
  shows "\<exists>h1 h'. upd h d (\<lambda>n. n\<lparr>n_sibling_right := hd_ptr bs\<rparr>) = Some h1 \<and>
    upd_if h1 (hd_ptr bs) (\<lambda>n. n\<lparr>n_sibling_left := Some d\<rparr>) = Some h' \<and> chain h' None (Some d) (d # bs) None \<and>
    same_payload h h' \<and> (\<forall>x. x \<notin> set (d # bs) \<longrightarrow> h' x = h x)"
proof (cases bs)
  case Nil
  with assms(1) show ?thesis by (auto intro!: same_payload_link)
next
  case (Cons b cs)
  with chain_glue [of h "Some d" "[]" d b cs] assms show ?thesis by fastforce
qed

lemma latest_linked:
  assumes "chain h None p (as @ [l]) None" "chain h None (hd_ptr bs) bs None" "distinct (as @ l # bs)"
  shows "\<exists>h0. (case hd_ptr bs of
      None \<Rightarrow> Some h
    | Some t \<Rightarrow> do {
        h \<leftarrow> upd h l (\<lambda>n. n\<lparr>n_sibling_right := Some t\<rparr>);
        h \<leftarrow> upd h t (\<lambda>n. n\<lparr>n_sibling_left := Some l\<rparr>);
        name_latest h l }) = Some (name_la bs h0) \<and> same_payload h h0 \<and>
    chain (name_la bs h0) None p (as @ l # bs) None \<and> (\<forall>x. x \<notin> set (l # bs) \<longrightarrow> h0 x = h x)"
proof (cases bs)
  case Nil
  with assms(1) show ?thesis by (auto simp: name_la_def intro!: exI [of _ h])
next
  case (Cons b cs)
  obtain h1 h0 where g: "upd h l (\<lambda>n. n\<lparr>n_sibling_right := Some b\<rparr>) = Some h1"
    "upd h1 b (\<lambda>n. n\<lparr>n_sibling_left := Some l\<rparr>) = Some h0" "chain h0 None p (as @ l # bs) None"
    "same_payload h h0" "\<forall>x. x \<notin> {l, b} \<longrightarrow> h0 x = h x"
    using chain_glue [of h p as l b cs] assms Cons by auto
  have "\<exists>left. chain h0 left (Some l) (l # bs) None" using g(3) by (auto simp: chain_append)
  then have "name_latest h0 l = Some (name_la bs h0)" using name_latest_chain assms(3) by auto
  then show ?thesis using g Cons by (intro exI [of _ h0]) (simp add: chain_name_la del: chain_Cons)
qed

lemma carries_name_la:
  assumes "carries h as ns" "carries h bs ms" "set as \<inter> set bs = {}"
  shows "carries (name_la bs h) (as @ bs) (ns @ map (\<lambda>n. n\<lparr>n_rn := Some ''la''\<rparr>) ms)"
proof -
  have *: "payload (n\<lparr>n_rn := u\<rparr>) = (payload n)\<lparr>n_rn := u\<rparr>" for n u by (simp add: payload_def)
  have "carries (name_la bs h) as ns"
    using assms(1,3) unfolding carries_def by (elim list.rel_mono_strong) (auto simp: name_la_def)
  moreover have "carries (name_la bs h) bs (map (\<lambda>n. n\<lparr>n_rn := Some ''la''\<rparr>) ms)"
    using assms(2) unfolding carries_def list_all2_map2 by (elim list.rel_mono_strong) (auto simp: name_la_def *)
  ultimately show ?thesis unfolding carries_def by (rule list_all2_appendI)
qed

text \<open>
  The list of all stored resources: it holds the nodes of the two queries in order, each named as
  stored or, when it is the latest instance of its container, \<^verbatim>\<open>la\<close>.
\<close>

lemma stored_list_run:
  assumes "fresh s" "creates resources ns" "creates latest ms"
    and as: "as = block (Suc (brk s)) (length resources + length latest)"
  shows "\<exists>s'. stored_list s resources latest = Some (hd_ptr as, s') \<and> chain (heap s') None (hd_ptr as) as None \<and>
    carries (heap s') as (ns @ map (\<lambda>n. n\<lparr>n_rn := Some ''la''\<rparr>) ms) \<and> (\<forall>x<brk s. heap s' x = heap s x) \<and>
    s' = s\<lparr>heap := heap s', brk := brk s'\<rparr>"
proof -
  let ?d = "brk s"
  let ?s0 = "s\<lparr>heap := (heap s)(?d \<mapsto> zero_node), brk := Suc ?d\<rparr>"
  define l1 where "l1 = block (Suc ?d) (length resources)"
  have "fresh ?s0" using assms(1) by (simp add: fresh_def)
  then obtain s1 where s1: "rtnode_list ?s0 resources = Some (hd_ptr l1, s1)" "allocated ?s0 s1 (length resources)"
    "chain (heap s1) None (hd_ptr l1) l1 None" "carries (heap s1) l1 ns" "\<forall>x<Suc ?d. heap s1 x = heap ?s0 x"
    using rtnode_list_run [OF assms(2), of ?s0] by (auto simp: l1_def)
  have set1: "set l1 = {Suc ?d..<brk s1}" "brk s1 = Suc ?d + length resources"
    using allocated_fields(1) [OF s1(2)] by (auto simp: l1_def)
  have d1: "chain (heap s1) None (Some ?d) [?d] None" using s1(5) by (simp add: zero_node_def)
  have "distinct (?d # l1)" using set1 by (simp add: l1_def)
  then obtain h1 h2 where h2: "upd (heap s1) ?d (\<lambda>n. n\<lparr>n_sibling_right := hd_ptr l1\<rparr>) = Some h1"
    "upd_if h1 (hd_ptr l1) (\<lambda>n. n\<lparr>n_sibling_left := Some ?d\<rparr>) = Some h2" "chain h2 None (Some ?d) (?d # l1) None"
    "same_payload (heap s1) h2" "\<forall>x. x \<notin> set (?d # l1) \<longrightarrow> h2 x = heap s1 x"
    using glue_head [OF d1 s1(3)] by blast
  let ?s1 = "s1\<lparr>heap := h2\<rparr>"
  define l2 where "l2 = block (brk s1) (length latest)"
  have "fresh ?s1" using s1(2) h2(5) set1 by (auto simp: allocated_def fresh_def)
  then obtain s2 where s2: "rtnode_list ?s1 latest = Some (hd_ptr l2, s2)" "allocated ?s1 s2 (length latest)"
    "chain (heap s2) None (hd_ptr l2) l2 None" "carries (heap s2) l2 ms" "\<forall>x<brk s1. heap s2 x = h2 x"
    using rtnode_list_run [OF assms(3), of ?s1] by (auto simp: l2_def)
  have set2: "set l2 = {brk s1..<brk s1 + length latest}" by (simp add: l2_def)
  have d: "distinct (?d # l1 @ l2)" using set1 set2 by (auto simp: l1_def l2_def)
  have "chain (heap s2) None (Some ?d) (?d # l1) None"
    using h2(3) s2(5) set1 by (subst chain_cong [where h = h2]) (auto simp del: chain_Cons)
  moreover define bl l where "bl = butlast (?d # l1)" and "l = last (?d # l1)"
  moreover have split: "bl @ [l] = ?d # l1" unfolding bl_def l_def by (rule append_butlast_last_id) simp
  moreover have join: "bl @ l # l2 = ?d # l1 @ l2" using split by (metis append.assoc append_Cons append_Nil)
  ultimately obtain h0 where h0: "(case hd_ptr l2 of
      None \<Rightarrow> Some (heap s2)
    | Some t \<Rightarrow> do {
        h \<leftarrow> upd (heap s2) l (\<lambda>n. n\<lparr>n_sibling_right := Some t\<rparr>);
        h \<leftarrow> upd h t (\<lambda>n. n\<lparr>n_sibling_left := Some l\<rparr>);
        name_latest h l }) = Some (name_la l2 h0)" "same_payload (heap s2) h0"
    "chain (name_la l2 h0) None (Some ?d) (?d # l1 @ l2) None" "\<forall>x. x \<notin> set (l # l2) \<longrightarrow> h0 x = heap s2 x"
    using latest_linked [of "heap s2" "Some ?d" bl l l2] s2(3) d by (metis (no_types, lifting))
  obtain h3 h4 where h4: "upd_if (name_la l2 h0) (hd_ptr (l1 @ l2)) (\<lambda>n. n\<lparr>n_sibling_left := None\<rparr>) = Some h3"
    "free_rtnode h3 ?d = Some h4" "chain h4 None (hd_ptr (l1 @ l2)) (l1 @ l2) None" "h4 ?d = None"
    "\<forall>x. x \<noteq> ?d \<longrightarrow> map_option payload (h4 x) = map_option payload (name_la l2 h0 x)"
    "\<forall>x. x \<notin> set (?d # l1 @ l2) \<longrightarrow> h4 x = name_la l2 h0 x"
    using free_head [OF h0(3) d] by blast
  obtain n where n: "name_la l2 h0 ?d = Some n" "n_sibling_right n = hd_ptr (l1 @ l2)"
    using h0(3) chain_hd by (auto simp del: hd_ptr_append)
  have "tail_of h2 ?d = Some l" unfolding l_def by (rule tail_of_chain [OF h2(3)])
  then have run: "stored_list s resources latest = Some (hd_ptr (l1 @ l2), s2\<lparr>heap := h4\<rparr>)"
    using s1(1) h2(1,2) s2(1) h0(1) n h4(1,2) by (simp add: stored_list_def del: hd_ptr_append)
  have "carries (heap s2) l1 ns"
    by (rule carries_cong [OF carries_same [OF h2(4) s1(4)]]) (use s2(5) set1 in auto)
  note carries_name_la [OF carries_same [OF h0(2) this] carries_same [OF h0(2) s2(4)]]
  then have "carries (name_la l2 h0) (l1 @ l2) (ns @ map (\<lambda>n. n\<lparr>n_rn := Some ''la''\<rparr>) ms)" using d by auto
  then have "carries h4 (l1 @ l2) (ns @ map (\<lambda>n. n\<lparr>n_rn := Some ''la''\<rparr>) ms)"
    by (rule carries_cong, intro h4(5) [rule_format]) (use d in auto)
  moreover have "h4 x = heap s x" if "x < ?d" for x
  proof -
    have "l \<in> set (?d # l1)" unfolding l_def by (rule last_in_set) simp
    then have "x \<notin> set (?d # l1 @ l2)" "x \<noteq> l" using that set1 set2 by auto
    then show ?thesis using h4(6) h0(4) s2(5) h2(5) s1(5) that set1(2) by (simp add: name_la_def)
  qed
  moreover have "l1 @ l2 = as" unfolding as l1_def l2_def set1(2) by (rule block_append [symmetric])
  moreover have "s2 = s\<lparr>heap := heap s2, brk := brk s2\<rparr>"
    using s1(2) s2(2) allocated_fields(1) [OF s2(2)] unfolding allocated_def
    by (cases s; cases s1; cases s2) simp
  ultimately show ?thesis using run h4(3) by (intro exI [of _ "s2\<lparr>heap := h4\<rparr>"]) (cases s; cases s2; simp)
qed


section \<open>Every resource finds its place\<close>

text \<open>
  The identifiers that are connected with the root: its own, and that of every stored resource whose
  parent is connected.
\<close>

inductive_set connected :: "string \<Rightarrow> rtnode list \<Rightarrow> string set" for r ns where
  root_known: "r \<in> connected r ns"
| child_known: "n \<in> set ns \<Longrightarrow> get_pi_rtnode n = Some p \<Longrightarrow> p \<in> connected r ns \<Longrightarrow> get_ri_rtnode n = Some i \<Longrightarrow>
    i \<in> connected r ns"

definition belongs :: "string \<Rightarrow> rtnode list \<Rightarrow> rtnode \<Rightarrow> bool" where
  "belongs r ns n \<longleftrightarrow> (\<exists>p. get_pi_rtnode n = Some p \<and> p \<in> connected r ns)"

definition identified :: "rtnode list \<Rightarrow> bool" where
  "identified ns \<longleftrightarrow> (\<forall>n\<in>set ns. get_ri_rtnode n \<noteq> None \<and> get_pi_rtnode n \<noteq> None)"

text \<open>A node without relatives.\<close>

definition lone :: "rtnode \<Rightarrow> bool" where
  "lone n \<longleftrightarrow> n_parent n = None \<and> n_child n = None \<and> n_sibling_left n = None \<and> n_sibling_right n = None \<and>
     n_sub_cnt n = 0 \<and> n_subs n = []"

lemma carries_at:
  assumes "carries h as ns" "a \<in> set as"
  shows "\<exists>n\<in>set ns. ident h a = Some (n_rn n, n_ty n, n_obj n) \<and> ri_of h a = get_ri_rtnode n \<and> pi_of h a = get_pi_rtnode n \<and>
    rn_of h a = n_rn n \<and> map_option n_sub_cnt (h a) = Some (n_sub_cnt n) \<and> map_option sub_nodes (h a) = Some (sub_nodes n)"
proof -
  obtain i where i: "i < length as" "as ! i = a" using assms(2) by (auto simp: in_set_conv_nth)
  then obtain m where m: "h a = Some m" "payload m = payload (ns ! i)" "i < length ns"
    using assms(1) by (auto simp: carries_def list_all2_conv_all_nth)
  note f = payload_fields [OF m(2)] payload_ty [OF m(2)]
  then show ?thesis using m(1,3)
    by (intro bexI [of _ "ns ! i"])
      (simp_all add: ident_def ri_of_def pi_of_def rn_of_def sub_nodes_def get_ri_rtnode_def get_pi_rtnode_def)
qed

lemma carries_all:
  assumes "carries h as ns" "n \<in> set ns"
  shows "\<exists>a\<in>set as. ri_of h a = get_ri_rtnode n \<and> pi_of h a = get_pi_rtnode n"
proof -
  obtain i where i: "i < length ns" "ns ! i = n" using assms(2) by (auto simp: in_set_conv_nth)
  then obtain m where m: "h (as ! i) = Some m" "payload m = payload n" "i < length as"
    using assms(1) by (auto simp: carries_def list_all2_conv_all_nth)
  then show ?thesis using payload_fields [OF m(2)]
    by (intro bexI [of _ "as ! i"]) (simp_all add: ri_of_def pi_of_def get_ri_rtnode_def get_pi_rtnode_def)
qed

text \<open>The nodes at the addresses \<open>as\<close> have the identifiers of \<open>ns\<close>.\<close>

definition listed :: "heap \<Rightarrow> addr list \<Rightarrow> rtnode list \<Rightarrow> bool" where
  "listed h as ns \<longleftrightarrow> identified ns \<and>
     (\<forall>a\<in>set as. \<exists>n\<in>set ns. ri_of h a = get_ri_rtnode n \<and> pi_of h a = get_pi_rtnode n) \<and>
     (\<forall>n\<in>set ns. \<exists>a\<in>set as. ri_of h a = get_ri_rtnode n \<and> pi_of h a = get_pi_rtnode n)"

lemma carries_listed: "carries h as ns \<Longrightarrow> identified ns \<Longrightarrow> listed h as ns"
  using carries_at [of h as ns] carries_all [of h as ns] unfolding listed_def by blast

lemma listed_moved: "moved s s' X \<Longrightarrow> listed (heap s) as ns \<Longrightarrow> listed (heap s') as ns"
  by (simp add: listed_def movedD)

text \<open>What is connected with the root is found, and nothing else.\<close>

lemma connected_found:
  assumes "listed h as ns" "ri_of h p = Some r" "strangers h rest (p # ts)" "set as = set ts \<union> set rest"
    and "i \<in> connected r ns"
  shows "\<exists>b\<in>set (p # ts). ri_of h b = Some i"
  using assms(5)
proof (induction rule: connected.induct)
  case root_known
  then show ?case using assms(2) by auto
next
  case (child_known n q i)
  then obtain b where b: "b \<in> set (p # ts)" "ri_of h b = Some q" by blast
  obtain c where c: "c \<in> set as" "ri_of h c = Some i" "pi_of h c = Some q"
    using assms(1) child_known unfolding listed_def by metis
  then have "c \<notin> set rest" using b assms(3) unfolding strangers_def by metis
  then show ?case using c assms(4) by auto
qed

lemma grown_connected:
  assumes "listed h as ns"
  shows "grown h ts \<Longrightarrow> set (addrs ts) \<subseteq> set as \<Longrightarrow>
    \<forall>a\<in>root ` set ts. \<exists>q. pi_of h a = Some q \<and> q \<in> connected r ns \<Longrightarrow>
    \<forall>a\<in>set (addrs ts). \<exists>q. pi_of h a = Some q \<and> q \<in> connected r ns"
proof (induction ts rule: nodes.induct)
  case (2 a cs ts)
  obtain n where n: "n \<in> set ns" "ri_of h a = get_ri_rtnode n" "pi_of h a = get_pi_rtnode n"
    using assms 2(4) by (auto simp: listed_def)
  have "\<exists>q. pi_of h b = Some q \<and> q \<in> connected r ns" if b: "b \<in> root ` set cs" for b
  proof -
    have "pi_of h b = ri_of h a" using 2(3) b by (auto simp: family_def)
    moreover obtain i where "get_ri_rtnode n = Some i" using assms n(1) by (auto simp: listed_def identified_def)
    ultimately show ?thesis using n 2(5) connected.child_known [OF n(1)] by auto
  qed
  with 2 show ?case by auto
qed simp

lemma place_iff_connected:
  assumes l: "listed h as ns" "ri_of h c = Some r" and g: "grown h [T c ts]" and st: "strangers h rest (c # addrs ts)"
    "set as = set (addrs ts) \<union> set rest" and a: "a \<in> set as"
  shows "a \<in> set (addrs ts) \<longleftrightarrow> (\<exists>q. pi_of h a = Some q \<and> q \<in> connected r ns)"
proof
  have "family h c (map root ts)" "grown h ts" using g by simp_all
  then show "a \<in> set (addrs ts) \<Longrightarrow> \<exists>q. pi_of h a = Some q \<and> q \<in> connected r ns"
    using grown_connected [OF l(1), of ts r] st(2) l(2) by (auto simp: family_def intro: root_known)
  assume "\<exists>q. pi_of h a = Some q \<and> q \<in> connected r ns"
  then show "a \<in> set (addrs ts)"
    using connected_found [OF l st] st a unfolding strangers_def by (metis Un_iff)
qed

lemma carries_waiting:
  assumes "carries h as ns" and rows: "creates resources n1" "creates latest n2" "ns = n1 @ map (\<lambda>n. n\<lparr>n_rn := Some ''la''\<rparr>) n2"
    and "identified ns"
  shows "\<forall>a\<in>set as. waiting h a"
proof
  fix a
  assume "a \<in> set as"
  from carries_at [OF assms(1) this] obtain n where n: "n \<in> set ns" "ri_of h a = get_ri_rtnode n" "pi_of h a = get_pi_rtnode n"
    "rn_of h a = n_rn n" "map_option n_sub_cnt (h a) = Some (n_sub_cnt n)" "map_option sub_nodes (h a) = Some (sub_nodes n)"
    by blast
  have "n_rn n \<noteq> None \<and> n_sub_cnt n = 0 \<and> n_subs n = []"
    using n(1) rows(3) creates_fields [OF rows(1)] creates_fields [OF rows(2)] by auto
  then show "waiting h a" using n assms(5) by (auto simp: waiting_def identified_def sub_nodes_def)
qed

lemma init_resource_tree_run:
  assumes s: "fresh s" "cb s = Some c" "c < brk s" "heap s c = Some cn" "lone cn" "n_uri cn = Some u" "get_ri_rtnode cn = Some r"
    and rows: "creates resources n1" "creates latest n2" "ns = n1 @ map (\<lambda>n. n\<lparr>n_rn := Some ''la''\<rparr>) n2"
    and "identified ns" "int (length ns) \<le> INT_MAX"
  shows "\<exists>s' ts. init_resource_tree s resources latest = Some s' \<and> wf_rt (heap s') (cb s') (T c ts) \<and>
    grown (heap s') [T c ts] \<and> set (addrs ts) \<subseteq> {brk s<..brk s + length ns} \<and>
    (\<forall>i<length ns. Suc (brk s) + i \<in> set (addrs ts) \<longleftrightarrow> belongs r ns (ns ! i)) \<and>
    (\<forall>i<length ns. ident (heap s') (Suc (brk s) + i) = Some (n_rn (ns ! i), n_ty (ns ! i), n_obj (ns ! i))) \<and>
    csrs s' = csrs s \<union> {a \<in> set (addrs ts). tyof (heap s') a = RT_CSR} \<and> cb s' = cb s \<and> db s' = db s \<and>
    ident (heap s') c = Some (n_rn cn, n_ty cn, n_obj cn) \<and> uri_of (heap s') c = n_uri cn"
proof -
  define as where "as = block (Suc (brk s)) (length resources + length latest)"
  have len: "length as = length ns" "length ns = length resources + length latest"
    using rows(3) list_all2_lengthD [OF rows(1) [unfolded creates_def]] list_all2_lengthD [OF rows(2) [unfolded creates_def]]
    by (simp_all add: as_def)
  obtain s1 where s1: "stored_list s resources latest = Some (hd_ptr as, s1)" "chain (heap s1) None (hd_ptr as) as None"
    "carries (heap s1) as ns" "\<forall>x<brk s. heap s1 x = heap s x" "s1 = s\<lparr>heap := heap s1, brk := brk s1\<rparr>"
    using stored_list_run [OF s(1) rows(1,2) as_def] rows(3) by blast
  have same: "cb s1 = cb s" "db s1 = db s" "csrs s1 = csrs s" by (subst s1(5), simp add: csrs_def)+
  have c1: "heap s1 c = Some cn" "c \<notin> set as" using s s1(4) by (auto simp: as_def)
  have "adopting s1 c cn u r [] as"
    using s1(2) c1 s carries_waiting [OF s1(3) rows assms(11)] by (auto simp: adopting_def lone_def family_def sub_nodes_def ty_sorted_def as_def)
  then obtain s' ts rest where s': "restruct s1 (Below c (hd_ptr as)) = Some (hd_ptr rest, s')" "settled s1 s' c cn ts as rest"
    using restruct_below [of s1 c cn u r as] s(5) len assms(12) by (auto simp: lone_def)
  then obtain cn' where st: "heap s' c = Some cn'" "parent_only cn cn'" "seg (heap s') (Some c) None (n_child cn') ts None"
    "kids_sorted (tyof (heap s')) [T c ts]" "grown (heap s') [T c ts]" "mset (addrs ts) + mset rest = mset as"
    "strangers (heap s') rest (c # addrs ts)" "moved s1 s' (set (c # as))"
    "csrs s' = csrs s1 \<union> {a \<in> set (addrs ts). tyof (heap s1) a = RT_CSR}"
    by (auto simp: settled_def)
  note mv = movedD [OF st(8)] and m = mset_split [OF st(6)]
  have l: "listed (heap s') as ns" using listed_moved [OF st(8) carries_listed [OF s1(3) assms(11)]] .
  have rc: "ri_of (heap s') c = Some r" using c1(1) s(7) mv(2) by (simp add: ri_of_def)
  have all: "set (addrs ts) \<subseteq> set as" "distinct (addrs ts)" using m by (auto simp: as_def)
  have iff: "a \<in> set (addrs ts) \<longleftrightarrow> (\<exists>q. pi_of (heap s') a = Some q \<and> q \<in> connected r ns)" if "a \<in> set as" for a
    using place_iff_connected [OF l rc st(5,7) m(1) that] .
  have run: "init_resource_tree s resources latest = Some s'"
  proof (cases "as = []")
    case True
    then have "restruct s1 (Below c (hd_ptr as)) = Some (None, s1)"
      using c1(1) s(5) by (subst restruct.simps, subst adopt.simps) (simp add: lone_def restruct.simps)
    then show ?thesis using True s'(1) s1(1) by (simp add: init_resource_tree_def)
  next
    case False
    then show ?thesis
      using s1(1) s'(1) same(1) s(2) by (cases as) (simp_all add: init_resource_tree_def restruct_resource_tree_def)
  qed
  have "c \<notin> set (addrs ts)" using all(1) c1(2) by auto
  then have "wf_rt (heap s') (cb s') (T c ts)"
    using st(1,3,4) parent_only_fields [OF st(2)] s(2,5) all c1(2) same(1) st(8)
    by (simp add: wf_rt_def lone_def moved_def)
  moreover have "ident (heap s') (Suc (brk s) + i) = Some (n_rn (ns ! i), n_ty (ns ! i), n_obj (ns ! i))" if "i < length ns" for i
  proof -
    obtain n where n: "heap s1 (as ! i) = Some n" "payload n = payload (ns ! i)"
      using list_all2_nthD2 [OF s1(3) [unfolded carries_def] \<open>i < length ns\<close>] by auto
    then have "ident (heap s1) (as ! i) = Some (n_rn (ns ! i), n_ty (ns ! i), n_obj (ns ! i))"
      using payload_fields [OF n(2)] payload_ty [OF n(2)] by (simp add: ident_def)
    then show ?thesis using st(8) that len by (simp add: moved_def as_def)
  qed
  moreover have "Suc (brk s) + i \<in> set (addrs ts) \<longleftrightarrow> belongs r ns (ns ! i)" if "i < length ns" for i
  proof -
    have "ident (heap s') (Suc (brk s) + i) = Some (n_rn (ns ! i), n_ty (ns ! i), n_obj (ns ! i))" using calculation that by blast
    then have "pi_of (heap s') (Suc (brk s) + i) = get_pi_rtnode (ns ! i)"
      by (auto simp: ident_def pi_of_def get_pi_rtnode_def)
    then show ?thesis using iff [of "Suc (brk s) + i"] that len by (simp add: as_def belongs_def)
  qed
  moreover have "set (addrs ts) \<subseteq> {brk s<..brk s + length ns}" using all(1) len by (auto simp: as_def)
  moreover have "ident (heap s') c = Some (n_rn cn, n_ty cn, n_obj cn)"
    using st(8) c1(1) by (simp add: moved_def ident_def)
  moreover have "uri_of (heap s') c = n_uri cn" using st(1) parent_only_fields [OF st(2)] by (simp add: uri_of_def)
  ultimately show ?thesis using run st(5,8,9) same mv(5) by (auto simp: moved_def)
qed

end
