(* ===== verification/Startup.thy ===== *)
theory Startup
  imports Restart Http
begin

text \<open>
  Start-up (\<^verbatim>\<open>onem2m.c\<close>, \<^verbatim>\<open>util.c\<close>): the CSEBase and the default access control policy of a new database, the
  tree of a database that has resources, and the registration with a remote CSE. Threads, signals and the
  configuration of the network interface are not modelled.
\<close>

section \<open>Configuration\<close>

text \<open>
  The values of \<^verbatim>\<open>config.h\<close> that decide how the server starts: its kind and the CSE it registers with. The
  functions take them as an argument; \<open>config\<close> holds the values of the file.
\<close>

abbreviation (input) IN_CSE :: int where "IN_CSE \<equiv> 1"
abbreviation (input) MN_CSE :: int where "MN_CSE \<equiv> 2"
abbreviation (input) ASN_CSE :: int where "ASN_CSE \<equiv> 3"
abbreviation (input) SERVER_IP :: string where "SERVER_IP \<equiv> ''127.0.0.1''"
abbreviation (input) SERVER_PORT :: string where "SERVER_PORT \<equiv> ''3000''"
abbreviation (input) ALLOWED_REMOTE_CSE_ID :: string where "ALLOWED_REMOTE_CSE_ID \<equiv> ''/id-in,/id-mn''"

record registrar =
  SERVER_TYPE :: int
  REMOTE_CSE_ID :: string
  REMOTE_CSE_NAME :: string
  REMOTE_CSE_HOST :: string
  REMOTE_CSE_PORT :: int

definition config :: registrar where
  "config = \<lparr>SERVER_TYPE = IN_CSE, REMOTE_CSE_ID = [], REMOTE_CSE_NAME = [], REMOTE_CSE_HOST = [], REMOTE_CSE_PORT = 0\<rparr>"

section \<open>The first resources\<close>

definition init_cse :: "registrar \<Rightarrow> 'd env \<Rightarrow> cjson" where
  "init_cse G E =
     JObject
      [(''ct'', JString (e_time E 0)), (''ri'', JString CSE_BASE_RI), (''lt'', JString (e_time E 0)), (''rn'', JString CSE_BASE_NAME),
       (''cst'', JNumber (SERVER_TYPE G)),
       (''srt'', JArray (map JNumber [RT_ACP, RT_AE, RT_CNT, RT_CIN, RT_CSE, RT_GRP, RT_CSR, RT_SUB, RT_TS, RT_TSI, RT_ACPA,
          RT_AEA, RT_CNTA, RT_GRPA, RT_TSA, RT_CINA, RT_CBA, RT_FCNT, RT_FCIN])),
       (''acpi'', JArray [JString (CSE_BASE_NAME @ ''/defaultACP'')]), (''srv'', JArray [JString ''3'', JString ''4'']),
       (''pi'', JString []), (''ty'', JNumber RT_CSE), (''uri'', JString CSE_BASE_NAME), (''csi'', JString (''/'' @ CSE_BASE_RI)),
       (''rr'', JTrue)]"

definition acr_rule :: "cjson \<Rightarrow> int \<Rightarrow> cjson" where
  "acr_rule acor acop = JObject [(''acor'', acor), (''acop'', JNumber acop)]"

definition init_acp :: "'d env \<Rightarrow> 'd cse \<Rightarrow> (cjson \<times> 'd cse) option" where
  "init_acp E s =
     do {
       let ct = e_time E 0;
       let (ri, n) = resource_identifier RT_ACP ct (ri_count s);
       remote \<leftarrow> string_to_cjson_string_list_item (Some ALLOWED_REMOTE_CSE_ID);
       Some
        (JObject
          [(''ct'', JString ct), (''lt'', JString ct), (''ri'', JString ri), (''pi'', JString CSE_BASE_RI), (''rn'', JString ''defaultACP''),
           (''pv'', JObject [(''acr'', JArray [acr_rule (JArray [JString ''all'']) DEFAULT_ACOP, acr_rule remote ALL_ACOP])]),
           (''pvs'', JObject [(''acr'', JArray [acr_rule (JArray [JString ADMIN_AE_ID]) ALL_ACOP])]),
           (''ty'', JNumber RT_ACP), (''et'', JString (e_time E DEFAULT_EXPIRE_TIME))],
         s\<lparr>ri_count := n\<rparr>) }"

text \<open>
  The CSEBase comes from the database, or is created and stored there. The database returns
  \<^verbatim>\<open>rr\<close> as a number. The second component tells whether it is new.
\<close>

definition with_poa :: "cjson \<Rightarrow> cjson" where
  "with_poa cse = cJSON_AddItemToObject cse ''poa'' (JArray [JString (''http://'' @ SERVER_IP @ '':'' @ SERVER_PORT)])"

definition init_server :: "registrar \<Rightarrow> 'd env \<Rightarrow> 'd cse \<Rightarrow> (bool \<times> 'd cse) option" where
  "init_server G E s =
     do {
       let s = s\<lparr>cb := None, registrar_csr := None, csr_list := []\<rparr>;
       (setup, cse, s) \<leftarrow>
         (case e_db_get_resource E (db s) CSE_BASE_RI RT_CSE of
            None \<Rightarrow> (let cse = init_cse G E in Some (True, cse, s\<lparr>db := snd (e_db_store_resource E (db s) cse CSE_BASE_NAME)\<rparr>))
          | Some cse \<Rightarrow> do {
              rr \<leftarrow> cJSON_GetObjectItem (Some cse) ''rr'';
              Some (False, cJSON_ReplaceItemInObject cse ''rr'' (if valueint rr = 1 then JTrue else JFalse), s) });
       (c, s) \<leftarrow> create_rtnode s (with_poa cse) RT_CSE;
       Some (setup, s\<lparr>cb := Some c\<rparr>) }"

section \<open>Registration with a remote CSE\<close>

text \<open>The object that announces this CSE: its CSEBase without what the remote CSE decides.\<close>

definition init_csr :: "cjson \<Rightarrow> cjson option" where
  "init_csr csr =
     do {
       let csr = cJSON_AddItemToObject csr ''cb'' (JString (''/'' @ CSE_BASE_RI @ ''/'' @ CSE_BASE_NAME));
       let csr = cJSON_AddItemToObject csr ''dcse'' (JArray []);
       rn \<leftarrow> cJSON_GetObjectItem (Some csr) ''rn'';
       let csr = (if cJSON_IsString (Some rn) then cJSON_ReplaceItemInObject csr ''rn'' (JString CSE_BASE_RI) else csr);
       Some (fold (\<lambda>k j. cJSON_DeleteItemFromObject j k)
         [''ri'', ''lt'', ''ct'', ''et'', ''srt'', ''ty'', ''pi'', ''at'', ''aa'', ''acpi''] csr) }"

definition registration_request :: "string \<Rightarrow> string \<Rightarrow> string \<Rightarrow> (string \<times> string) list \<Rightarrow> string option \<Rightarrow> HTTPRequest" where
  "registration_request m uri ri extra body =
     \<lparr>r_method = m, r_uri = uri, r_qs = None, r_prot = ''HTTP/1.1'', r_payload = body,
      r_payload_size = (case body of None \<Rightarrow> 0 | Some b \<Rightarrow> to_int32 (int (length b))),
      r_headers = [(''X-M2M-Origin'', ''/'' @ CSE_BASE_RI), (''X-M2M-RI'', ri), (''Accept'', ''application/json'')] @ extra @
        [(''X-M2M-RVI'', ''3'')], r_dangling = False\<rparr>"

text \<open>A failed registration gives the error code; 0 means that this CSE is registered.\<close>

definition register_remote_cse :: "registrar \<Rightarrow> 'd env \<Rightarrow> network \<Rightarrow> 'd cse \<Rightarrow> int option" where
  "register_remote_cse G E net s =
     (let uri = ''/'' @ REMOTE_CSE_NAME G @ ''/'' @ CSE_BASE_RI in
      if 1024 \<le> length uri then None
      else do {
        res \<leftarrow> send_http_request net (REMOTE_CSE_HOST G) (REMOTE_CSE_PORT G) (registration_request ''GET'' uri ''check-cse-registered'' [] None);
        if res_status_code res = 999 \<or> res_status_code res = 500 then Some (res_status_code res)
        else if res_status_code res \<noteq> 200
        then do {
          c \<leftarrow> cb s;
          n \<leftarrow> heap s c;
          obj \<leftarrow> n_obj n;
          csr \<leftarrow> init_csr obj;
          res \<leftarrow> send_http_request net (REMOTE_CSE_HOST G) (REMOTE_CSE_PORT G)
            (registration_request ''POST'' (''/'' @ REMOTE_CSE_NAME G) ''register-cse'' [(''Content-Type'', ''application/json;ty=16'')]
              (Some (e_print E (JObject [(get_resource_key RT_CSR, csr)]))));
          rsc \<leftarrow> header_of (res_headers res) (res_dangling res) ''x-m2m-rsc'';
          Some (case rsc of
                  None \<Rightarrow> - 1
                | Some v \<Rightarrow> if atoi v \<noteq> RSC_CREATED then atoi v else 0) }
        else Some 0 })"

text \<open>What the CSEBase of the remote CSE tells about it.\<close>

definition remote_members :: "cjson option \<Rightarrow> cjson \<Rightarrow> cjson" where
  "remote_members remote_cb csr =
     (let put = (\<lambda>k csr. case cJSON_GetObjectItem remote_cb k of None \<Rightarrow> csr | Some j \<Rightarrow> cJSON_AddItemToObject csr k j);
          csr = put ''dcse'' (put ''cst'' csr);
          csr = (case cJSON_GetObjectItem remote_cb ''poa'' of None \<Rightarrow> csr | Some j \<Rightarrow> cJSON_ReplaceItemInObject csr ''poa'' j)
      in put ''srv'' (put ''rr'' csr))"

text \<open>
  The remote CSE as a resource of this CSE. A status of 404 is returned from memory that has been
  released (\<open>None\<close>).
\<close>

definition create_local_csr ::
    "registrar \<Rightarrow> (string \<Rightarrow> cjson option) \<Rightarrow> 'd env \<Rightarrow> network \<Rightarrow> 'd cse \<Rightarrow> (int \<times> 'd cse) option" where
  "create_local_csr G parse E net s =
     do {
       let cse_ri = (case strchr (REMOTE_CSE_ID G) CHR ''/'' of None \<Rightarrow> REMOTE_CSE_ID G | Some t \<Rightarrow> drop 1 t);
       let uri = CSE_BASE_NAME @ ''/'' @ cse_ri;
       (existing_csr, s) \<leftarrow> find_rtnode E s (Some (take 255 uri));
       if existing_csr \<noteq> None then Some (0, s\<lparr>registrar_csr := existing_csr\<rparr>)
       else do {
         res \<leftarrow> send_http_request net (REMOTE_CSE_HOST G) (REMOTE_CSE_PORT G)
           (registration_request ''GET'' (''/'' @ REMOTE_CSE_NAME G) ''retrieve-cb'' [] None);
         if res_status_code res = 404 then None
         else do {
           c \<leftarrow> cb s;
           (csr, s) \<leftarrow> add_general_attribute E s (JObject []) c RT_CSR;
           let csr = cJSON_DeleteItemFromObject csr ''rn'';
           let csr = cJSON_AddItemToObject csr ''csi'' (JString (take 255 (''/'' @ cse_ri)));
           let csr = cJSON_AddItemToObject csr ''cb'' (JString (take 255 (''/'' @ cse_ri @ ''/'' @ REMOTE_CSE_NAME G)));
           let csr = cJSON_AddItemToObject csr ''rn'' (JString cse_ri);
           let csr = cJSON_AddItemToObject csr ''poa''
             (JArray [JString (take 127 (''http://'' @ REMOTE_CSE_HOST G @ '':'' @ print_int (REMOTE_CSE_PORT G)))]);
           let root = Option.bind (res_payload res) parse;
           let csr = remote_members (cJSON_GetObjectItem root (get_resource_key RT_CSE)) csr;
           if 1024 \<le> length uri then None
           else do {
             let csr = cJSON_AddItemToObject csr ''uri'' (JString uri);
             let (result, d) = e_db_store_resource E (db s) csr uri;
             let s = s\<lparr>db := d\<rparr>;
             if result = - 1 then Some (RSC_INTERNAL_SERVER_ERROR, s)
             else do {
               (a, s) \<leftarrow> create_rtnode s csr RT_CSR;
               s \<leftarrow> add_child_resource_tree s c a;
               Some (0, s\<lparr>registrar_csr := Some a\<rparr>) } } } } }"

text \<open>Leaving the remote CSEs at shutdown.\<close>

partial_function (option) deregister_from :: "'d env \<Rightarrow> 'd cse \<Rightarrow> ptr \<Rightarrow> 'd cse option" where
  "deregister_from E s rtnode =
     (case rtnode of
        None \<Rightarrow> Some s
      | Some a \<Rightarrow> do {
          n \<leftarrow> heap s a;
          s \<leftarrow> (if n_ty n = RT_CSR
               then do {
                 csi \<leftarrow> member_string (n_obj n) ''csi'';
                 let to = csi @ ''/'' @ CSE_BASE_RI;
                 (_, _, s) \<leftarrow> (if length to < 1024
                   then forwarding_onem2m_resource E s
                     (empty_o2pt\<lparr>p_op := OP_DELETE, p_fr := Some (''/'' @ CSE_BASE_RI), p_to := Some to,
                        p_rqi := Some ''delete-csr'', p_rvi := CSE_RVI\<rparr>) (Some a)
                   else None);
                 Some (s\<lparr>db := snd (e_db_delete_onem2m_resource E (db s) n)\<rparr>) }
               else Some s);
          deregister_from E s (n_sibling_right n) })"

definition deRegister_csr :: "'d env \<Rightarrow> 'd cse \<Rightarrow> (int \<times> 'd cse) option" where
  "deRegister_csr E s =
     do {
       c \<leftarrow> cb s;
       n \<leftarrow> heap s c;
       s \<leftarrow> deregister_from E s (n_child n);
       Some (0, s) }"

section \<open>Bootstrap\<close>

text \<open>
  \<open>resources\<close> and \<open>latest_cins\<close> are the rows the queries return; for a new database the CSEBase that has just been stored.
\<close>

definition default_policy :: "'d env \<Rightarrow> 'd cse \<Rightarrow> 'd cse option" where
  "default_policy E s =
     do {
       (acp, s) \<leftarrow> init_acp E s;
       let s = s\<lparr>db := snd (e_db_store_resource E (db s) acp (CSE_BASE_NAME @ ''/defaultACP''))\<rparr>;
       (a, s) \<leftarrow> create_rtnode s acp RT_ACP;
       c \<leftarrow> cb s;
       add_child_resource_tree s c a }"

definition bootstrap_cse ::
    "registrar \<Rightarrow> (string \<Rightarrow> cjson option) \<Rightarrow> 'd env \<Rightarrow> network \<Rightarrow> row list \<Rightarrow> row list \<Rightarrow> 'd cse \<Rightarrow> (bool \<times> 'd cse) option" where
  "bootstrap_cse G parse E net resources latest_cins s =
     do {
       (initialBoot, s) \<leftarrow> init_server G E s;
       s \<leftarrow> init_resource_tree s resources latest_cins;
       s \<leftarrow> (if initialBoot then default_policy E s else Some s);
       if SERVER_TYPE G = MN_CSE \<or> SERVER_TYPE G = ASN_CSE
       then do {
         e \<leftarrow> register_remote_cse G E net s;
         if e \<noteq> 0 then Some (False, s)
         else do {
           (e, s) \<leftarrow> create_local_csr G parse E net s;
           Some (e = 0, s) } }
       else Some (True, s) }"

end
