(* ===== verification/StartupProps.thy ===== *)
theory StartupProps
  imports Startup AccessProps
begin

text \<open>
  Properties of start-up: a new database gets the CSEBase and the default policy, with the privileges
  the configuration names; a database with resources gets its tree back.
\<close>

section \<open>The first start\<close>

lemmas json_eval = ci_eq_def tolower_def member_string_def member_int_def

definition base_node :: "'d env \<Rightarrow> rtnode" where
  "base_node E = \<lparr>n_parent = None, n_child = None, n_subs = [], n_memberOf = Some (JArray []), n_sibling_left = None,
     n_sibling_right = None, n_rn = Some CSE_BASE_NAME, n_uri = Some CSE_BASE_NAME, n_sub_cnt = 0, n_ty = RT_CSE,
     n_obj = Some (cJSON_DeleteItemFromObject (cJSON_DeleteItemFromObject (with_poa (init_cse config E)) ''uri'') ''memberOf''), n_obj_string = None\<rparr>"

lemma new_base: "new_rtnode (with_poa (init_cse config E)) RT_CSE = Some (base_node E)"
  by (simp add: new_rtnode_def take_member_def init_cse_def with_poa_def restore_bool_def base_node_def json_eval)

text \<open>
  The query of the stored resources returns the CSEBase that has just been stored as well: its row becomes a node of the
  list, is no child of the CSEBase and stays over.
\<close>

lemma stored_list_single:
  assumes "new_rtnode row ty = Some bn"
  shows "stored_list s [(row, ty)] [] =
    Some (Some (Suc (brk s)), s\<lparr>brk := Suc (Suc (brk s)), heap := (heap s)(brk s := None, Suc (brk s) \<mapsto> bn)\<rparr>)"
proof -
  let ?d = "brk s" and ?z = "zero_node\<lparr>n_sibling_right := Some (Suc (brk s))\<rparr>"
  have bn: "n_sibling_left bn = None" "n_sibling_right bn = None" "n_child bn = None" "n_parent bn = None"
    using new_rtnode_fields [OF assms] by simp_all
  let ?h1 = "(heap s)(?d \<mapsto> ?z, Suc ?d \<mapsto> bn\<lparr>n_sibling_left := Some ?d\<rparr>)"
  have t: "tail_of ?h1 ?d = Some (Suc ?d)"
    by (subst tail_of.simps, simp add: zero_node_def, subst tail_of.simps) (simp add: bn)
  have e: "bn\<lparr>n_sibling_left := None\<rparr> = bn" using bn by (cases bn) simp
  let ?h2 = "(heap s)(?d \<mapsto> ?z, Suc ?d \<mapsto> bn)"
  have "free_rtnode ?h2 ?d = Some ((heap s)(?d := None, Suc ?d \<mapsto> bn))"
    unfolding free_rtnode_def
    by (subst free_run.simps, subst free_run.simps) (simp add: zero_node_def unlink_def bn e fun_upd_twist)
  with t e show ?thesis
    by (simp add: stored_list_def rtnode_list_def create_rtnode_run [OF assms] zero_node_def Let_def fun_upd_twist)
qed

lemma init_base_row:
  assumes "cb s = Some c" "heap s c = Some cn" "c < brk s" "n_child cn = None" "get_ri_rtnode cn = Some r"
    and "new_rtnode row ty = Some bn" "get_pi_rtnode bn = Some q" "q \<noteq> r"
  shows "init_resource_tree s [(row, ty)] [] =
    Some (s\<lparr>brk := Suc (Suc (brk s)), heap := (heap s)(brk s := None, Suc (brk s) \<mapsto> bn)\<rparr>)"
proof -
  let ?s = "s\<lparr>brk := Suc (Suc (brk s)), heap := (heap s)(brk s := None, Suc (brk s) \<mapsto> bn)\<rparr>"
  have c: "heap ?s c = Some cn" using assms(2,3) by simp
  have bn: "n_sibling_right bn = None" using new_rtnode_fields [OF assms(6)] by simp
  have "adopt ?s c (Some (Suc (brk s))) (Some (Suc (brk s))) = Some (Some (Suc (brk s)), ?s)"
    using c bn assms by (subst adopt.simps, simp, subst adopt.simps) auto
  moreover have "restruct ?s (restruct_task.Children None (Some (Suc (brk s)))) = Some (Some (Suc (brk s)), ?s)"
    by (subst restruct.simps) simp
  ultimately have "restruct ?s (Below c (Some (Suc (brk s)))) = Some (Some (Suc (brk s)), ?s)"
    using c assms(4) by (subst restruct.simps) simp
  then show ?thesis
    using assms(1) by (simp add: init_resource_tree_def stored_list_single [OF assms(6)] restruct_resource_tree_def)
qed

definition acp_json :: "'d env \<Rightarrow> nat \<Rightarrow> cjson" where
  "acp_json E k =
     JObject
      [(''ct'', JString (e_time E 0)), (''lt'', JString (e_time E 0)), (''ri'', JString (fst (resource_identifier RT_ACP (e_time E 0) k))),
       (''pi'', JString CSE_BASE_RI), (''rn'', JString ''defaultACP''),
       (''pv'', JObject [(''acr'', JArray [acr_rule (JArray [JString ''all'']) ACOP_CREATE,
          acr_rule (JArray [JString ''/id-in'', JString ''/id-mn'']) ALL_ACOP])]),
       (''pvs'', JObject [(''acr'', JArray [acr_rule (JArray [JString ADMIN_AE_ID]) ALL_ACOP])]),
       (''ty'', JNumber RT_ACP), (''et'', JString (e_time E DEFAULT_EXPIRE_TIME))]"

lemma allowed_ids: "string_to_cjson_string_list_item (Some ALLOWED_REMOTE_CSE_ID) = Some (JArray [JString ''/id-in'', JString ''/id-mn''])"
  by code_simp

lemma init_acp_run:
  "init_acp E s = Some (acp_json E (ri_count s), s\<lparr>ri_count := snd (resource_identifier RT_ACP (e_time E 0) (ri_count s))\<rparr>)"
  unfolding init_acp_def allowed_ids by (simp add: acp_json_def case_prod_unfold Let_def)

definition acp_node :: "'d env \<Rightarrow> nat \<Rightarrow> rtnode" where
  "acp_node E k = \<lparr>n_parent = None, n_child = None, n_subs = [], n_memberOf = Some (JArray []), n_sibling_left = None,
     n_sibling_right = None, n_rn = Some ''defaultACP'', n_uri = None, n_sub_cnt = 0, n_ty = RT_ACP,
     n_obj = Some (acp_json E k), n_obj_string = None\<rparr>"

lemma new_acp: "new_rtnode (acp_json E k) RT_ACP = Some (acp_node E k)"
  by (simp add: new_rtnode_def take_member_def acp_json_def restore_bool_def acp_node_def json_eval)

text \<open>The heap after the first start: the CSEBase at \<open>c\<close> and the policy at \<open>a\<close>.\<close>

definition booted :: "'d env \<Rightarrow> 'd cse \<Rightarrow> addr \<Rightarrow> addr \<Rightarrow> bool" where
  "booted E s c a \<longleftrightarrow> c \<noteq> a \<and> cb s = Some c \<and> (\<exists>k.
     heap s c = Some ((base_node E)\<lparr>n_child := Some a\<rparr>) \<and>
     heap s a = Some ((acp_node E k)\<lparr>n_parent := Some c, n_uri := Some ''TinyIoT/defaultACP''\<rparr>))"

lemma first_boot_run:
  assumes "e_db_get_resource E (db s) CSE_BASE_RI RT_CSE = None"
    and "new_rtnode row RT_CSE = Some bn" "get_pi_rtnode bn = Some q" "q \<noteq> CSE_BASE_RI"
  shows "\<exists>s' c a. bootstrap_cse config parse E net [(row, RT_CSE)] [] s = Some (True, s') \<and> booted E s' c a \<and> csr_list s' = []"
proof -
  obtain s1 where i: "init_server config E s = Some (True, s1)" "cb s1 = Some (brk s)" "brk s1 = Suc (brk s)"
    "heap s1 = (heap s)(brk s \<mapsto> base_node E)" "csr_list s1 = []"
    using assms(1) by (simp add: init_server_def create_rtnode_run [OF new_base] Let_def)
  let ?s = "s1\<lparr>brk := Suc (Suc (brk s1)), heap := (heap s1)(brk s1 := None, Suc (brk s1) \<mapsto> bn)\<rparr>"
  have base: "n_child (base_node E) = None" "get_ri_rtnode (base_node E) = Some CSE_BASE_RI"
    by (simp_all add: base_node_def get_ri_rtnode_def init_cse_def with_poa_def json_eval)
  have t: "init_resource_tree s1 [(row, RT_CSE)] [] = Some ?s"
    using i base by (intro init_base_row [OF i(2) _ _ _ _ assms(2-4)]) simp_all
  obtain s2 where d: "default_policy E ?s = Some s2" "booted E s2 (brk s) (Suc (Suc (brk s1)))" "csr_list s2 = []"
    using i by (auto simp: default_policy_def init_acp_run create_rtnode_run [OF new_acp] Let_def case_prod_unfold
        add_child_resource_tree_def link_child_def booted_def base_node_def acp_node_def)
  show ?thesis
    using i(1) t d by (intro exI [of _ s2] exI [of _ "brk s"] exI [of _ "Suc (Suc (brk s1))"])
      (simp add: bootstrap_cse_def config_def)
qed

lemma booted_tree:
  assumes "booted E s c a"
  shows "wf_rt (heap s) (cb s) (T c [T a []])" "named_rt (heap s) (T c [T a []])"
  using assms
  by (auto simp: booted_def wf_rt_def base_node_def acp_node_def ty_sorted_def named_rt_def rn_of_def segment_def)

lemma booted_policy:
  assumes "booted E s c a" "strcmp (e_time E 0) (e_time E DEFAULT_EXPIRE_TIME) \<le> 0"
  shows "find_rtnode E s (Some ''TinyIoT/defaultACP'') = Some (Some a, s)"
proof -
  obtain n where n: "heap s a = Some n" "n_uri n = Some ''TinyIoT/defaultACP''"
    "member_string (n_obj n) ''et'' = Some (e_time E DEFAULT_EXPIRE_TIME)"
    using assms(1) by (auto simp: booted_def acp_node_def acp_json_def json_eval)
  have "find_rtnode_by_rn E s ''TinyIoT/defaultACP'' = Some (Some a, s)"
    using uri_resolves_aux [OF booted_tree [OF assms(1)], of a "[]"] n by simp
  moreover have "cut_fopt ''TinyIoT/defaultACP'' = ''TinyIoT/defaultACP''" by code_simp
  ultimately show ?thesis using n assms(2)
    by (simp add: find_rtnode_def structured_def starts_with_def drop_if_expired_def isExpired_def)
qed

lemma booted_no_group:
  assumes "booted E s c a"
  shows "find_rtnode E s (Some ''all'') = Some (None, s)" "find_rtnode E s (Some ''/id-in'') = Some (None, s)"
    "find_rtnode E s (Some ''/id-mn'') = Some (None, s)"
proof -
  obtain k where k: "ri_of (heap s) c = Some CSE_BASE_RI" "ri_of (heap s) a = Some (fst (resource_identifier RT_ACP (e_time E 0) k))"
    "heap s c \<noteq> None" "heap s a \<noteq> None"
    using assms by (auto simp: booted_def ri_of_def get_ri_rtnode_def base_node_def acp_node_def acp_json_def init_cse_def
        with_poa_def json_eval)
  have seg: "seg (heap s) None None (cb s) [T c [T a []]] None" using booted_tree(1) [OF assms] by (simp add: wf_rt_def)
  have "rt_search_ri (heap s) (cb s) ''all'' = Some (find (ri_is (heap s) ''all'') (addrs [T c [T a []]]))"
    by (rule rt_search_ri_find [OF seg]) (use k in \<open>auto simp: has_ri_def ri_of_def\<close>)
  also have "find (ri_is (heap s) ''all'') (addrs [T c [T a []]]) = None"
    using k by (auto simp: ri_is_def ri_of_def resource_identifier_def ri_prefix_table_def bind_eq_Some_conv)
  finally show "find_rtnode E s (Some ''all'') = Some (None, s)"
    by (simp add: find_rtnode_def structured_def starts_with_def find_rtnode_by_ri_def strncmp_def drop_if_expired_def)
  show "find_rtnode E s (Some ''/id-in'') = Some (None, s)" "find_rtnode E s (Some ''/id-mn'') = Some (None, s)"
    by (simp_all add: find_rtnode_def structured_def starts_with_def find_rtnode_by_hybrid_def drop_if_expired_def before_def Let_def)
qed

text \<open>Who the rules of the default policy name.\<close>

lemma booted_acor:
  assumes "booted E s c a" "acor \<in> {''all'', ''/id-in'', ''/id-mn''}"
  shows "acor_match E s (strip_local acor) origin = Some (acor = origin \<or> acor = ''all'', s)"
  using assms(2) booted_no_group [OF assms(1)]
  by (auto simp: acor_match_def acor_matches_group_member_def strip_local_def strncmp_def)

lemma booted_rules:
  assumes "booted E s c a" "origin \<noteq> ADMIN_AE_ID"
  shows "get_acop_origin E s o2pt origin (Some a) False =
    Some (if origin \<in> {''/id-in'', ''/id-mn''} then ALL_ACOP else ACOP_CREATE, s)"
proof -
  obtain k where n: "heap s a = Some ((acp_node E k)\<lparr>n_parent := Some c, n_uri := Some ''TinyIoT/defaultACP''\<rparr>)"
    using assms(1) by (auto simp: booted_def)
  have "acr_list ((acp_node E k)\<lparr>n_parent := Some c, n_uri := Some ''TinyIoT/defaultACP''\<rparr>) False =
      [acr_rule (JArray [JString ''all'']) ACOP_CREATE, acr_rule (JArray [JString ''/id-in'', JString ''/id-mn'']) ALL_ACOP]"
    by (simp add: acr_list_def acp_node_def acp_json_def json_eval)
  note rules = this
  have members: "cJSON_GetObjectItem (Some (acr_rule l acop)) ''acor'' = Some l"
    "cJSON_GetObjectItem (Some (acr_rule l acop)) ''acco'' = None"
    "member_int (Some (acr_rule l ACOP_CREATE)) ''acop'' = Some ACOP_CREATE" "member_int (Some (acr_rule l ALL_ACOP)) ''acop'' = Some ALL_ACOP"
    for l acop
    by (simp_all add: acr_rule_def json_eval INT_MAX_def INT_MIN_def)
  have "rule_acop E s (p_ip o2pt) origin (acr_rule l ACOP_CREATE) [JString ''all''] = Some (ACOP_CREATE, s)" for l
    using booted_acor [OF assms(1), of "''all''" origin] by (simp add: members check_acco_def)
  moreover have "rule_acop E s (p_ip o2pt) origin (acr_rule l ALL_ACOP) [JString ''/id-in'', JString ''/id-mn''] =
      Some (if origin \<in> {''/id-in'', ''/id-mn''} then ALL_ACOP else 0, s)" for l
    using booted_acor [OF assms(1), of "''/id-in''" origin] booted_acor [OF assms(1), of "''/id-mn''" origin]
    by (auto simp: members check_acco_def)
  ultimately show ?thesis
    using n assms(2) by (simp add: get_acop_origin_def rules members del: rule_acop.simps bind_eq_Some)
qed

text \<open>
  C5. The first start is closed: when the database has no CSEBase the server stores one, and the query of the stored resources returns that row,
  whose parent identifier is not the CSEBase (it is empty and left out). The server then starts, its tree is the CSEBase with the default
  policy below it (the row returned is not in it), no remote CSE is registered, and while the policy has not expired its rules decide
  about the CSEBase: the CSEs of the configuration may do everything, every other originator
  except the administrator may create and nothing else.
\<close>

theorem first_boot_privileges:
  assumes "e_db_get_resource E (db s) CSE_BASE_RI RT_CSE = None"
    and "strcmp (e_time E 0) (e_time E DEFAULT_EXPIRE_TIME) \<le> 0"
    and "new_rtnode row RT_CSE = Some bn" "get_pi_rtnode bn = Some q" "q \<noteq> CSE_BASE_RI"
  shows "\<exists>s' c a. bootstrap_cse config parse E net [(row, RT_CSE)] [] s = Some (True, s') \<and> csr_list s' = [] \<and>
    wf_rt (heap s') (cb s') (T c [T a []]) \<and> find_rtnode E s' (Some ''TinyIoT/defaultACP'') = Some (Some a, s') \<and>
    (\<forall>o2pt origin. get_acop E s' o2pt origin c =
       Some (if origin \<in> {ADMIN_AE_ID, ''/id-in'', ''/id-mn''} then ALL_ACOP else ACOP_CREATE, s'))"
proof -
  obtain s' c a where b: "bootstrap_cse config parse E net [(row, RT_CSE)] [] s = Some (True, s')" "booted E s' c a" "csr_list s' = []"
    using first_boot_run [OF assms(1,3-5)] by blast
  note p = booted_policy [OF b(2) assms(2)]
  have c: "heap s' c = Some ((base_node E)\<lparr>n_child := Some a\<rparr>)" "\<exists>m. heap s' a = Some m \<and> n_ty m = RT_ACP"
    using b(2) by (auto simp: booted_def acp_node_def)
  have "get_acpi_rtnode ((base_node E)\<lparr>n_child := Some a\<rparr>) = Some (JArray [JString ''TinyIoT/defaultACP''])"
    by (simp add: get_acpi_rtnode_def base_node_def init_cse_def with_poa_def json_eval)
  moreover have "n_ty ((base_node E)\<lparr>n_child := Some a\<rparr>) = RT_CSE" by (simp add: base_node_def)
  ultimately have "get_acop E s' o2pt origin c =
      Some (if origin \<in> {ADMIN_AE_ID, ''/id-in'', ''/id-mn''} then ALL_ACOP else ACOP_CREATE, s')" for o2pt origin
    using c p booted_rules [OF b(2)] by (auto simp: get_acop_def)
  then show ?thesis using b(1,3) p booted_tree(1) [OF b(2)] by blast
qed

text \<open>The row of the CSEBase as the columns of the tables give it: no \<^verbatim>\<open>pi\<close>, and \<^verbatim>\<open>rr\<close> is a number.\<close>

definition base_row :: "'d env \<Rightarrow> cjson" where
  "base_row E =
     JObject
      [(''rn'', JString CSE_BASE_NAME), (''ri'', JString CSE_BASE_RI), (''ct'', JString (e_time E 0)), (''lt'', JString (e_time E 0)),
       (''uri'', JString CSE_BASE_NAME), (''acpi'', JArray [JString (CSE_BASE_NAME @ ''/defaultACP'')]), (''ty'', JNumber RT_CSE),
       (''cst'', JNumber IN_CSE), (''csi'', JString (''/'' @ CSE_BASE_RI)), (''srv'', JArray [JString ''3'', JString ''4'']),
       (''rr'', JNumber 1)]"

theorem first_boot_privileges_witness:
  "\<exists>s' c. bootstrap_cse config (\<lambda>t. None) list_env (\<lambda>h p. Inl 504) [(base_row list_env, RT_CSE)] []
       ((ex_cse [])\<lparr>heap := \<lambda>a. None, brk := 0\<rparr>) = Some (True, s') \<and>
     get_acop list_env s' (ex_request ''CAE9'') ''CAE9'' c = Some (ACOP_CREATE, s') \<and>
     get_acop list_env s' (ex_request ''CAdmin'') ''CAdmin'' c = Some (ALL_ACOP, s')"
proof -
  let ?s = "(ex_cse [])\<lparr>heap := \<lambda>a. None, brk := 0\<rparr>"
  have e: "e_db_get_resource list_env (db ?s) CSE_BASE_RI RT_CSE = None"
    "strcmp (e_time list_env 0) (e_time list_env DEFAULT_EXPIRE_TIME) \<le> 0"
    by (simp_all add: list_env_def)
  obtain bn where n: "new_rtnode (base_row list_env) RT_CSE = Some bn" "get_pi_rtnode bn = Some []"
    by (simp add: new_rtnode_def take_member_def base_row_def restore_bool_def get_pi_rtnode_def json_eval INT_MAX_def INT_MIN_def)
  from first_boot_privileges [OF e n, of "\<lambda>t. None" "\<lambda>h p. Inl 504"] obtain s' c where
    "bootstrap_cse config (\<lambda>t. None) list_env (\<lambda>h p. Inl 504) [(base_row list_env, RT_CSE)] [] ?s = Some (True, s')"
    "\<forall>o2pt origin. get_acop list_env s' o2pt origin c =
       Some (if origin \<in> {ADMIN_AE_ID, ''/id-in'', ''/id-mn''} then ALL_ACOP else ACOP_CREATE, s')"
    by auto
  then show ?thesis by (intro exI [of _ s'] exI [of _ c]) simp
qed

section \<open>The restart\<close>

text \<open>The names below a node of a tree that was rebuilt.\<close>

lemma grown_named:
  assumes "grown h ts" "uri_of h p = Some u"
    and "\<forall>c\<in>root ` set ts. pi_of h c = ri_of h p \<and> (\<exists>rn. rn_of h c = Some rn \<and> uri_of h c = Some (u @ ''/'' @ rn))"
    and "\<forall>a\<in>set (addrs ts). \<exists>rn. rn_of h a = Some rn \<and> segment rn" "distinct (addrs ts)"
    and "\<forall>a\<in>set (addrs ts). \<forall>b\<in>set (addrs ts). pi_of h a = pi_of h b \<and> rn_of h a = rn_of h b \<longrightarrow> a = b"
  shows "named h u ts"
  using assms
proof (induction ts arbitrary: p u rule: nodes.induct)
  case (2 a cs ts)
  obtain rn where rn: "rn_of h a = Some rn" "segment rn" "uri_of h a = Some (u @ ''/'' @ rn)" "pi_of h a = ri_of h p"
    using 2(5,6) by auto
  have "rn_of h (root t) \<noteq> Some rn" if t: "t \<in> set ts" for t
  proof
    assume r: "rn_of h (root t) = Some rn"
    have "pi_of h (root t) = pi_of h a" "root t \<in> set (addrs ts)" using 2(5) t rn(4) root_in_addrs by auto
    then show False using 2(7,8) rn(1) r by auto
  qed
  moreover have "family h a (map root cs)" using 2(3) by simp
  then have "named h (u @ ''/'' @ rn) cs"
    using 2(3,6,7,8) rn(3) by (intro 2(1) [of a]) (auto simp: family_def)
  moreover have "named h u ts" using 2(3-8) by (intro 2(2) [of p]) auto
  ultimately show ?case using rn by (simp add: list_all_iff uri_of_def)
qed simp

lemma named_uri: "named h u ts \<Longrightarrow> a \<in> set (addrs ts) \<Longrightarrow> \<exists>v. uri_of h a = Some v"
  by (induction h u ts rule: named.induct) (auto simp: uri_of_def split: option.splits)

text \<open>The CSEBase as the database returns it, with its point of access.\<close>

definition stored_base :: "cjson \<Rightarrow> cjson \<Rightarrow> cjson" where
  "stored_base cse rr = with_poa (cJSON_ReplaceItemInObject cse ''rr'' (if valueint rr = 1 then JTrue else JFalse))"

lemma restart_run:
  assumes db: "e_db_get_resource E (db s) CSE_BASE_RI RT_CSE = Some cse" "cJSON_GetObjectItem (Some cse) ''rr'' = Some rr"
    and base: "new_rtnode (stored_base cse rr) RT_CSE = Some cn" "n_uri cn = Some u" "get_ri_rtnode cn = Some r"
    and rows: "creates resources n1" "creates latest n2" "ns = n1 @ map (\<lambda>n. n\<lparr>n_rn := Some ''la''\<rparr>) n2"
    and ok: "fresh s" "identified ns" "int (length ns) \<le> INT_MAX"
  shows "\<exists>s' ts. bootstrap_cse config parse E net resources latest s = Some (True, s') \<and>
    wf_rt (heap s') (cb s') (T (brk s) ts) \<and> grown (heap s') [T (brk s) ts] \<and>
    set (addrs ts) \<subseteq> {brk s + 2..<brk s + 2 + length ns} \<and>
    (\<forall>i<length ns. brk s + 2 + i \<in> set (addrs ts) \<longleftrightarrow> belongs r ns (ns ! i)) \<and>
    (\<forall>i<length ns. ident (heap s') (brk s + 2 + i) = Some (n_rn (ns ! i), n_ty (ns ! i), n_obj (ns ! i))) \<and>
    csrs s' = {a \<in> set (addrs ts). tyof (heap s') a = RT_CSR} \<and> db s' = db s \<and>
    ident (heap s') (brk s) = Some (n_rn cn, n_ty cn, n_obj cn) \<and> uri_of (heap s') (brk s) = n_uri cn"
proof -
  obtain s1 where i: "init_server config E s = Some (False, s1)" "cb s1 = Some (brk s)" "brk s1 = Suc (brk s)"
    "heap s1 = (heap s)(brk s \<mapsto> cn)" "csr_list s1 = []" "db s1 = db s"
    using db base(1) by (simp add: init_server_def create_rtnode_run stored_base_def Let_def)
  have "fresh s1" using ok(1) i by (simp add: fresh_def)
  moreover have "lone cn" using new_rtnode_fields [OF base(1)] by (simp add: lone_def)
  ultimately obtain s' ts where t: "init_resource_tree s1 resources latest = Some s'" "wf_rt (heap s') (cb s') (T (brk s) ts)"
    "grown (heap s') [T (brk s) ts]" "set (addrs ts) \<subseteq> {brk s1<..brk s1 + length ns}"
    "\<forall>i<length ns. Suc (brk s1) + i \<in> set (addrs ts) \<longleftrightarrow> belongs r ns (ns ! i)"
    "\<forall>i<length ns. ident (heap s') (Suc (brk s1) + i) = Some (n_rn (ns ! i), n_ty (ns ! i), n_obj (ns ! i))"
    "csrs s' = csrs s1 \<union> {a \<in> set (addrs ts). tyof (heap s') a = RT_CSR}" "db s' = db s1"
    "ident (heap s') (brk s) = Some (n_rn cn, n_ty cn, n_obj cn)" "uri_of (heap s') (brk s) = n_uri cn"
    using init_resource_tree_run [of s1 "brk s" cn u r, OF _ i(2) _ _ _ base(2,3) rows ok(2,3)] i by auto
  moreover have "bootstrap_cse config parse E net resources latest s = Some (True, s')"
    using i(1) t(1) by (simp add: bootstrap_cse_def config_def)
  ultimately show ?thesis using i by (intro exI [of _ s'] exI [of _ ts]) (auto simp: csrs_def)
qed

text \<open>
  C4. A restart restores the tree: on a database that holds the CSEBase and whose queries return the rows of other
  resources the server starts, and its tree is well formed; a returned resource is in it exactly when its
  parents lead to the CSEBase; every node is below the node it names as its parent, has the URI of that
  node extended by its name and the stored attributes, the latest instance of a container is named
  \<^verbatim>\<open>la\<close>, every subscription is registered with its parent, and the remote CSEs are
  those of the tree.
\<close>

theorem restart_restores_tree:
  assumes "e_db_get_resource E (db s) CSE_BASE_RI RT_CSE = Some cse" "cJSON_GetObjectItem (Some cse) ''rr'' = Some rr"
    and "new_rtnode (stored_base cse rr) RT_CSE = Some cn" "n_uri cn = Some u" "get_ri_rtnode cn = Some r"
    and "creates resources n1" "creates latest n2" "ns = n1 @ map (\<lambda>n. n\<lparr>n_rn := Some ''la''\<rparr>) n2"
    and "fresh s" "identified ns" "int (length ns) \<le> INT_MAX"
  shows "\<exists>s' ts. bootstrap_cse config parse E net resources latest s = Some (True, s') \<and>
    wf_rt (heap s') (cb s') (T (brk s) ts) \<and> grown (heap s') [T (brk s) ts] \<and>
    set (addrs ts) \<subseteq> {brk s + 2..<brk s + 2 + length ns} \<and>
    (\<forall>i<length ns. brk s + 2 + i \<in> set (addrs ts) \<longleftrightarrow> belongs r ns (ns ! i)) \<and>
    (\<forall>i<length ns. ident (heap s') (brk s + 2 + i) = Some (n_rn (ns ! i), n_ty (ns ! i), n_obj (ns ! i))) \<and>
    csrs s' = {a \<in> set (addrs ts). tyof (heap s') a = RT_CSR} \<and> db s' = db s"
  using restart_run [OF assms] by blast

text \<open>
  After a restart every resource is found under its address again: if the names are single
  segments and no two resources share parent and name, then each stored resource whose parents
  lead to the CSEBase has a URI, and the search by that URI returns it.
\<close>

theorem restart_resolves_addresses:
  assumes db: "e_db_get_resource E (db s) CSE_BASE_RI RT_CSE = Some cse" "cJSON_GetObjectItem (Some cse) ''rr'' = Some rr"
    and base: "new_rtnode (stored_base cse rr) RT_CSE = Some cn" "n_uri cn = Some CSE_BASE_NAME" "get_ri_rtnode cn = Some r"
      "n_rn cn = Some CSE_BASE_NAME"
    and rows: "creates resources n1" "creates latest n2" "ns = n1 @ map (\<lambda>n. n\<lparr>n_rn := Some ''la''\<rparr>) n2"
    and ok: "fresh s" "identified ns" "int (length ns) \<le> INT_MAX"
    and names: "\<forall>n\<in>set ns. \<exists>rn. n_rn n = Some rn \<and> segment rn"
      "\<forall>i<length ns. \<forall>j<length ns. get_pi_rtnode (ns ! i) = get_pi_rtnode (ns ! j) \<and> n_rn (ns ! i) = n_rn (ns ! j) \<longrightarrow> i = j"
    and i: "i < length ns" "belongs r ns (ns ! i)"
  shows "\<exists>s' uri. bootstrap_cse config parse E net resources latest s = Some (True, s') \<and>
    ident (heap s') (brk s + 2 + i) = Some (n_rn (ns ! i), n_ty (ns ! i), n_obj (ns ! i)) \<and>
    uri_of (heap s') (brk s + 2 + i) = Some uri \<and> find_rtnode_by_rn E s' uri = Some (Some (brk s + 2 + i), s')"
proof -
  let ?a = "\<lambda>i. brk s + 2 + i"
  obtain s' ts where r: "bootstrap_cse config parse E net resources latest s = Some (True, s')"
    "wf_rt (heap s') (cb s') (T (brk s) ts)" "grown (heap s') [T (brk s) ts]"
    "set (addrs ts) \<subseteq> {brk s + 2..<brk s + 2 + length ns}" "\<forall>i<length ns. ?a i \<in> set (addrs ts) \<longleftrightarrow> belongs r ns (ns ! i)"
    "\<forall>i<length ns. ident (heap s') (?a i) = Some (n_rn (ns ! i), n_ty (ns ! i), n_obj (ns ! i))"
    "ident (heap s') (brk s) = Some (n_rn cn, n_ty cn, n_obj cn)" "uri_of (heap s') (brk s) = Some CSE_BASE_NAME"
    using restart_run [OF db base(1-3) rows ok, of parse net] unfolding base(2) by blast
  let ?h = "heap s'"
  have data: "rn_of ?h (?a k) = n_rn (ns ! k)" "pi_of ?h (?a k) = get_pi_rtnode (ns ! k)" if "k < length ns" for k
    using r(6) that by (auto simp: ident_def rn_of_def pi_of_def get_pi_rtnode_def)
  have idx: "\<exists>k<length ns. a = ?a k" if "a \<in> set (addrs ts)" for a
    using subsetD [OF r(4) that] by (intro exI [of _ "a - (brk s + 2)"]) auto
  have f: "family ?h (brk s) (map root ts)" "grown ?h ts" using r(3) by simp_all
  have "named ?h CSE_BASE_NAME ts"
  proof (rule grown_named [OF f(2) r(8)])
    show "\<forall>c\<in>root ` set ts. pi_of ?h c = ri_of ?h (brk s) \<and> (\<exists>rn. rn_of ?h c = Some rn \<and> uri_of ?h c = Some (CSE_BASE_NAME @ ''/'' @ rn))"
      using f(1) r(8) by (auto simp: family_def)
    show "\<forall>a\<in>set (addrs ts). \<exists>rn. rn_of ?h a = Some rn \<and> segment rn"
      using idx data(1) names(1) by (metis nth_mem)
    show "distinct (addrs ts)" using r(2) by (simp add: wf_rt_def)
    show "\<forall>a\<in>set (addrs ts). \<forall>b\<in>set (addrs ts). pi_of ?h a = pi_of ?h b \<and> rn_of ?h a = rn_of ?h b \<longrightarrow> a = b"
      using idx data names(2) by metis
  qed
  then have named: "named_rt ?h (T (brk s) ts)"
    using r(7,8) base(4) by (auto simp: named_rt_def rn_of_def ident_def uri_of_def)
  have a: "?a i \<in> set (addrs ts)" using r(5) i by blast
  then obtain cs where cs: "(?a i, cs) \<in> set (nodes [T (brk s) ts])" by (auto simp: addrs_def)
  obtain u where u: "uri_of ?h (?a i) = Some u" using named_uri [OF _ a] named by (auto simp: named_rt_def)
  then have "find_rtnode_by_rn E s' u = Some (Some (?a i), s')"
    using uri_resolves_aux [OF r(2) named cs] by (simp add: uri_of_def)
  then show ?thesis using r(1,6) i(1) u by blast
qed


subsection \<open>A database with a few resources\<close>

text \<open>
  An application entity with a container, the container stored first; an orphan, whose parent is not
  stored; and the latest instance of the container.
\<close>

definition ex_row :: "int \<Rightarrow> string \<Rightarrow> string \<Rightarrow> string \<Rightarrow> row" where
  "ex_row ty rn ri pi = (JObject [(''rn'', JString rn), (''ri'', JString ri), (''pi'', JString pi), (''ty'', JNumber ty)], ty)"

definition ex_node :: "int \<Rightarrow> string \<Rightarrow> string \<Rightarrow> string \<Rightarrow> rtnode" where
  "ex_node ty rn ri pi = \<lparr>n_parent = None, n_child = None, n_subs = [], n_memberOf = Some (JArray []), n_sibling_left = None,
     n_sibling_right = None, n_rn = Some rn, n_uri = None, n_sub_cnt = 0, n_ty = ty, n_obj = Some (fst (ex_row ty rn ri pi)),
     n_obj_string = None\<rparr>"

definition ex_rows :: "row list" where
  "ex_rows = [ex_row RT_CNT ''cnt1'' ''3-1'' ''CAE1'', ex_row RT_AE ''ae1'' ''CAE1'' ''tinyiot'', ex_row RT_CNT ''lost'' ''3-2'' ''gone'']"

definition ex_stored :: "rtnode list" where
  "ex_stored = [ex_node RT_CNT ''cnt1'' ''3-1'' ''CAE1'', ex_node RT_AE ''ae1'' ''CAE1'' ''tinyiot'',
     ex_node RT_CNT ''lost'' ''3-2'' ''gone'', (ex_node RT_CIN ''4-1'' ''4-1'' ''3-1'')\<lparr>n_rn := Some ''la''\<rparr>]"

definition ex_base :: cjson where
  "ex_base = JObject [(''ri'', JString ''tinyiot''), (''rn'', JString ''TinyIoT''), (''uri'', JString ''TinyIoT''), (''rr'', JNumber 1)]"

definition ex_boot_env :: "rtnode list env" where
  "ex_boot_env = list_env\<lparr>e_db_get_resource := \<lambda>d ri ty. Some ex_base\<rparr>"

definition ex_off :: "rtnode list cse" where
  "ex_off = (ex_cse [])\<lparr>heap := \<lambda>a. None, brk := 0\<rparr>"

lemma ex_creates:
  "creates ex_rows (take 3 ex_stored)" "creates [ex_row RT_CIN ''4-1'' ''4-1'' ''3-1''] [ex_node RT_CIN ''4-1'' ''4-1'' ''3-1'']"
  by (simp_all add: creates_def ex_rows_def ex_stored_def ex_row_def ex_node_def new_rtnode_def take_member_def restore_bool_def json_eval)

lemma ex_stored_split: "ex_stored = take 3 ex_stored @ map (\<lambda>n. n\<lparr>n_rn := Some ''la''\<rparr>) [ex_node RT_CIN ''4-1'' ''4-1'' ''3-1'']"
  by (simp add: ex_stored_def)

definition ex_base_node :: rtnode where
  "ex_base_node = (ex_node RT_CSE ''TinyIoT'' ''tinyiot'' [])\<lparr>n_uri := Some ''TinyIoT'',
     n_obj := Some (JObject [(''ri'', JString ''tinyiot''), (''rn'', JString ''TinyIoT''), (''rr'', JTrue),
       (''poa'', JArray [JString ''http://127.0.0.1:3000''])])\<rparr>"

lemma ex_new_base:
  "new_rtnode (stored_base ex_base (JNumber 1)) RT_CSE = Some ex_base_node" "n_uri ex_base_node = Some CSE_BASE_NAME"
  "get_ri_rtnode ex_base_node = Some ''tinyiot''" "n_rn ex_base_node = Some CSE_BASE_NAME"
  by (simp_all add: new_rtnode_def take_member_def restore_bool_def stored_base_def with_poa_def ex_base_def ex_base_node_def
      ex_node_def get_ri_rtnode_def json_eval INT_MAX_def INT_MIN_def)

lemma ex_db:
  "e_db_get_resource ex_boot_env (db ex_off) CSE_BASE_RI RT_CSE = Some ex_base"
  "cJSON_GetObjectItem (Some ex_base) ''rr'' = Some (JNumber 1)" "fresh ex_off" "identified ex_stored" "int (length ex_stored) \<le> INT_MAX"
  by (simp_all add: ex_boot_env_def ex_base_def ex_off_def fresh_def identified_def ex_stored_def ex_node_def ex_row_def
      get_ri_rtnode_def get_pi_rtnode_def json_eval INT_MAX_def)

lemma ex_ids:
  "get_pi_rtnode (ex_stored ! 0) = Some ''CAE1''" "get_pi_rtnode (ex_stored ! 1) = Some ''tinyiot''"
  "get_ri_rtnode (ex_stored ! 1) = Some ''CAE1''" "get_pi_rtnode (ex_stored ! 2) = Some ''gone''" "length ex_stored = 4"
  by (simp_all add: ex_stored_def ex_node_def ex_row_def get_ri_rtnode_def get_pi_rtnode_def json_eval)

lemma ex_belongs: "belongs ''tinyiot'' ex_stored (ex_stored ! 0)" "\<not> belongs ''tinyiot'' ex_stored (ex_stored ! 2)"
proof -
  have "''CAE1'' \<in> connected ''tinyiot'' ex_stored"
    by (rule child_known [OF nth_mem ex_ids(2) root_known ex_ids(3)]) (simp add: ex_ids)
  then show "belongs ''tinyiot'' ex_stored (ex_stored ! 0)" by (simp add: belongs_def ex_ids)
  have "i \<noteq> ''gone''" if "i \<in> connected ''tinyiot'' ex_stored" for i
    using that by cases (auto simp: ex_stored_def ex_node_def ex_row_def get_ri_rtnode_def json_eval)
  then show "\<not> belongs ''tinyiot'' ex_stored (ex_stored ! 2)" by (auto simp: belongs_def ex_ids)
qed

lemmas ex_restart = ex_db(1,2) ex_new_base(1-3) ex_creates ex_stored_split ex_db(3-5)

theorem restart_restores_tree_witness:
  "\<exists>s' ts. bootstrap_cse config (\<lambda>t. None) ex_boot_env (\<lambda>h p. Inl 504) ex_rows [ex_row RT_CIN ''4-1'' ''4-1'' ''3-1''] ex_off =
       Some (True, s') \<and> wf_rt (heap s') (cb s') (T 0 ts) \<and> 2 \<in> set (addrs ts) \<and> 4 \<notin> set (addrs ts)"
proof -
  have e: "brk ex_off = 0" by (simp add: ex_off_def)
  obtain s' ts where "bootstrap_cse config (\<lambda>t. None) ex_boot_env (\<lambda>h p. Inl 504) ex_rows [ex_row RT_CIN ''4-1'' ''4-1'' ''3-1''] ex_off =
      Some (True, s')" "wf_rt (heap s') (cb s') (T 0 ts)"
    and m: "\<forall>i<4. 2 + i \<in> set (addrs ts) \<longleftrightarrow> belongs ''tinyiot'' ex_stored (ex_stored ! i)"
    using restart_restores_tree [OF ex_restart, of "\<lambda>t. None" "\<lambda>h p. Inl 504"] unfolding e ex_ids(5) add_0 by blast
  moreover have "2 \<in> set (addrs ts)" "4 \<notin> set (addrs ts)"
    using ex_belongs m [rule_format, of 0] m [rule_format, of 2] by (simp_all add: numeral_2_eq_2 numeral_eq_Suc)
  ultimately show ?thesis by blast
qed

theorem restart_resolves_addresses_witness:
  "\<exists>s' uri. bootstrap_cse config (\<lambda>t. None) ex_boot_env (\<lambda>h p. Inl 504) ex_rows [ex_row RT_CIN ''4-1'' ''4-1'' ''3-1''] ex_off =
       Some (True, s') \<and> uri_of (heap s') 2 = Some uri \<and> find_rtnode_by_rn ex_boot_env s' uri = Some (Some 2, s')"
proof -
  have "\<forall>n\<in>set ex_stored. \<exists>rn. n_rn n = Some rn \<and> segment rn"
    by (simp add: ex_stored_def ex_node_def segment_def)
  moreover have "\<forall>i<length ex_stored. \<forall>j<length ex_stored.
      get_pi_rtnode (ex_stored ! i) = get_pi_rtnode (ex_stored ! j) \<and> n_rn (ex_stored ! i) = n_rn (ex_stored ! j) \<longrightarrow> i = j"
    by (simp add: ex_stored_def ex_node_def ex_row_def get_pi_rtnode_def json_eval less_Suc_eq all_conj_distrib)
  moreover have e: "brk ex_off = 0" by (simp add: ex_off_def)
  ultimately show ?thesis
    using restart_resolves_addresses [OF ex_db(1,2) ex_new_base(1-4) ex_creates ex_stored_split ex_db(3-5), of 0 "\<lambda>t. None" "\<lambda>h p. Inl 504"]
      ex_belongs(1) ex_ids(5) by (auto simp: e numeral_2_eq_2)
qed

end
