(* ===== verification/Postgres.thy ===== *)
theory Postgres
  imports Restart HttpMessage "HOL-Library.Log_Nat"
begin

text \<open>
  The database layer on PostgreSQL (\<^verbatim>\<open>postgresql_implement.c\<close>): the lock and the transactions, the
  statements sent for the store, update, delete and read operations, and the objects made of the rows
  that come back. The client library \<^verbatim>\<open>libpq\<close> and the server behind it are the record \<open>libpq\<close>;
  \<open>world\<close> is their state. A statement is its text. A result is the fields and rows of
  the server, where a null column reads as the empty string and each row has a value for every field.
  The parser and the printer of cJSON are the fields \<open>cJSON_Parse\<close> and \<open>cJSON_PrintUnformatted\<close>.

  Every operation is called by a thread and is atomic: it holds the lock, or, for the few that do not
  lock, runs alone. The statements of an operation go to the connection of the state; that an operation
  goes on with the connection it read first when a later \<^verbatim>\<open>get_pg_conn\<close> replaced it is modelled for
  \<^verbatim>\<open>init_dbp\<close> only. \<open>None\<close> is undefined behaviour (a statement longer than its buffer, a
  null pointer) or a thread that waits for the lock.
\<close>

section \<open>The client library\<close>

datatype PGresult =
    PGRES_COMMAND_OK
  | PGRES_TUPLES_OK "string list" "string list list"
  | PGRES_FATAL_ERROR

fun PQntuples :: "PGresult \<Rightarrow> nat" where
  "PQntuples (PGRES_TUPLES_OK cols rows) = length rows"
| "PQntuples _ = 0"

fun is_tuples :: "PGresult \<Rightarrow> bool" where
  "is_tuples (PGRES_TUPLES_OK cols rows) = True"
| "is_tuples _ = False"

text \<open>The value of a column of a row; null outside the table.\<close>

fun PQgetvalue :: "PGresult \<Rightarrow> nat \<Rightarrow> nat \<Rightarrow> string option" where
  "PQgetvalue (PGRES_TUPLES_OK cols rows) r c =
     (if r < length rows \<and> c < length (rows ! r) then Some (rows ! r ! c) else None)"
| "PQgetvalue _ r c = None"

text \<open>The columns of each row with their names.\<close>

fun table :: "PGresult \<Rightarrow> (string \<times> string) list list" where
  "table (PGRES_TUPLES_OK cols rows) = map (zip cols) rows"
| "table _ = []"

record 'w libpq =
  PQconnectdb :: "string \<Rightarrow> 'w \<Rightarrow> bool \<times> 'w"
  PQstatus :: "'w \<Rightarrow> bool"
  PQfinish :: "'w \<Rightarrow> 'w"
  PQexec :: "'w \<Rightarrow> string \<Rightarrow> PGresult \<times> 'w"
  PQescapeStringConn :: "string \<Rightarrow> string"
  cJSON_Parse :: "string \<Rightarrow> cjson option"
  cJSON_PrintUnformatted :: "cjson \<Rightarrow> string"

text \<open>
  The static variables of the file: whether \<^verbatim>\<open>pg_conn\<close> is not null, the recursive mutex as its holder
  and count, and the transaction with its owner.
\<close>

record 'w pg =
  world :: 'w
  pg_conn :: bool
  pg_conninfo :: string
  pg_lock_initialized :: bool
  pg_conn_lock :: "(nat \<times> nat) option"
  pg_tx_depth :: int
  pg_tx_owner :: nat
  pg_tx_owner_valid :: bool

text \<open>Text of the statements: a quoted value, and the bound of a buffer that is written without one.\<close>

definition quoted :: "string \<Rightarrow> string" where
  "quoted v = CHR 0x27 # v @ [CHR 0x27]"

definition in_buf :: "nat \<Rightarrow> string \<Rightarrow> string option" where
  "in_buf n sql = (if length sql < n then Some sql else None)"

definition snprintf :: "nat \<Rightarrow> string \<Rightarrow> string" where
  "snprintf n txt = take (n - 1) txt"

fun joined :: "string \<Rightarrow> string list \<Rightarrow> string" where
  "joined sep [] = []"
| "joined sep [x] = x"
| "joined sep (x # xs) = x @ sep @ joined sep xs"

section \<open>Lock and connection\<close>

definition pg_lock :: "nat \<Rightarrow> 'w pg \<Rightarrow> 'w pg option" where
  "pg_lock t s =
     (if \<not> pg_lock_initialized s then Some s
      else case pg_conn_lock s of
        None \<Rightarrow> Some (s\<lparr>pg_conn_lock := Some (t, 1)\<rparr>)
      | Some (u, n) \<Rightarrow> if u = t then Some (s\<lparr>pg_conn_lock := Some (t, n + 1)\<rparr>) else None)"

text \<open>A thread that does not hold the mutex gets an error from unlock, which is not looked at.\<close>

definition pg_unlock :: "nat \<Rightarrow> 'w pg \<Rightarrow> 'w pg" where
  "pg_unlock t s =
     (if \<not> pg_lock_initialized s then s
      else case pg_conn_lock s of
        None \<Rightarrow> s
      | Some (u, n) \<Rightarrow>
          if u = t then s\<lparr>pg_conn_lock := (if n \<le> 1 then None else Some (t, n - 1))\<rparr> else s)"

definition get_pg_conn :: "'w libpq \<Rightarrow> 'w pg \<Rightarrow> bool \<times> 'w pg" where
  "get_pg_conn L s =
     (if pg_conn s \<and> PQstatus L (world s) then (True, s)
      else
        let w = (if pg_conn s then PQfinish L (world s) else world s);
            (ok, w) = PQconnectdb L (pg_conninfo s) w
        in if ok then (True, s\<lparr>world := w, pg_conn := True\<rparr>)
           else (False, s\<lparr>world := PQfinish L w, pg_conn := False\<rparr>))"

text \<open>\<^verbatim>\<open>PQexec\<close> on the connection.\<close>

definition exec :: "'w libpq \<Rightarrow> 'w pg \<Rightarrow> string \<Rightarrow> PGresult \<times> 'w pg" where
  "exec L s sql = (let (res, w) = PQexec L (world s) sql in (res, s\<lparr>world := w\<rparr>))"

text \<open>
  The frame of the operations: lock, get the connection, return \<open>r\<close> if there is none, and unlock on
  every path.
\<close>

definition with_conn :: "'w libpq \<Rightarrow> nat \<Rightarrow> 'w pg \<Rightarrow> 'a \<Rightarrow> ('w pg \<Rightarrow> ('a \<times> 'w pg) option) \<Rightarrow> ('a \<times> 'w pg) option" where
  "with_conn L t s r body =
     do {
       s \<leftarrow> pg_lock t s;
       let (ok, s) = get_pg_conn L s;
       (if ok then do { (r, s) \<leftarrow> body s; Some (r, pg_unlock t s) } else Some (r, pg_unlock t s)) }"

section \<open>Transactions\<close>

definition db_begin_tx :: "'w libpq \<Rightarrow> nat \<Rightarrow> 'w pg \<Rightarrow> (int \<times> 'w pg) option" where
  "db_begin_tx L t s =
     (if pg_tx_owner_valid s \<and> pg_tx_owner s = t
      then do { d \<leftarrow> add_int (pg_tx_depth s) 1; Some (1, s\<lparr>pg_tx_depth := d\<rparr>) }
      else do {
        s \<leftarrow> pg_lock t s;
        (if pg_tx_depth s \<noteq> 0 then Some (0, pg_unlock t s)
         else
           let (ok, s) = get_pg_conn L s
           in if \<not> ok then Some (0, pg_unlock t s)
              else
                let (res, s) = exec L s ''BEGIN''
                in if res \<noteq> PGRES_COMMAND_OK then Some (0, pg_unlock t s)
                   else Some (1, s\<lparr>pg_tx_owner := t, pg_tx_owner_valid := True, pg_tx_depth := 1\<rparr>)) })"

definition db_commit_tx :: "'w libpq \<Rightarrow> nat \<Rightarrow> 'w pg \<Rightarrow> (int \<times> 'w pg) option" where
  "db_commit_tx L t s =
     (if \<not> pg_tx_owner_valid s \<or> pg_tx_owner s \<noteq> t then Some (0, s)
      else if pg_tx_depth s = 0 then Some (0, s)
      else do {
        d \<leftarrow> add_int (pg_tx_depth s) (- 1);
        let s = s\<lparr>pg_tx_depth := d\<rparr>;
        (if d = 0 \<and> pg_conn s
         then
           let (res, s) = exec L s ''COMMIT''
           in if res \<noteq> PGRES_COMMAND_OK then Some (0, s)
              else Some (1, pg_unlock t (s\<lparr>pg_tx_owner_valid := False\<rparr>))
         else Some (1, s)) })"

definition db_rollback_tx :: "'w libpq \<Rightarrow> nat \<Rightarrow> 'w pg \<Rightarrow> (int \<times> 'w pg) option" where
  "db_rollback_tx L t s =
     (if \<not> pg_tx_owner_valid s \<or> pg_tx_owner s \<noteq> t then Some (0, s)
      else if pg_tx_depth s = 0 \<or> \<not> pg_conn s
      then Some (0, pg_unlock t (s\<lparr>pg_tx_depth := 0, pg_tx_owner_valid := False\<rparr>))
      else
        let (res, s) = exec L (s\<lparr>pg_tx_depth := 0\<rparr>) ''ROLLBACK''
        in if res \<noteq> PGRES_COMMAND_OK then Some (0, s)
           else Some (1, pg_unlock t (s\<lparr>pg_tx_owner_valid := False\<rparr>)))"

section \<open>Values in statements\<close>

definition pg_escape_string_value :: "'w libpq \<Rightarrow> 'w pg \<Rightarrow> string option \<Rightarrow> string option \<times> 'w pg" where
  "pg_escape_string_value L s v =
     (case v of
        None \<Rightarrow> (None, s)
      | Some v \<Rightarrow>
          let (ok, s) = get_pg_conn L s
          in if ok then (Some (PQescapeStringConn L v), s) else (None, s))"

text \<open>An escaped value that is printed with \<^verbatim>\<open>%s\<close>: a null pointer is undefined.\<close>

definition escaped :: "'w libpq \<Rightarrow> 'w pg \<Rightarrow> string option \<Rightarrow> (string \<times> 'w pg) option" where
  "escaped L s v =
     (case pg_escape_string_value L s v of (Some e, s) \<Rightarrow> Some (e, s) | (None, s) \<Rightarrow> None)"

definition pg_format_json_value :: "'w libpq \<Rightarrow> 'w pg \<Rightarrow> cjson \<Rightarrow> string option \<times> 'w pg" where
  "pg_format_json_value L s obj = pg_escape_string_value L s (Some (cJSON_PrintUnformatted L obj))"

text \<open>The text of an attribute in a statement.\<close>

definition sql_value :: "'w libpq \<Rightarrow> 'w pg \<Rightarrow> cjson option \<Rightarrow> (string \<times> 'w pg) option" where
  "sql_value L s pjson =
     (case pjson of
        Some (JString v) \<Rightarrow> do { (e, s) \<leftarrow> escaped L s (Some v); Some (quoted e, s) }
      | Some (JNumber n) \<Rightarrow> Some (print_int (valueint (JNumber n)), s)
      | Some JTrue \<Rightarrow> Some (''1'', s)
      | Some JFalse \<Rightarrow> Some (''0'', s)
      | Some JNull \<Rightarrow> Some (''NULL'', s)
      | Some obj \<Rightarrow>
          (case pg_format_json_value L s obj of
             (Some e, s) \<Rightarrow> Some (quoted e, s)
           | (None, s) \<Rightarrow> None)
      | None \<Rightarrow> Some (''NULL'', s))"

fun sql_values :: "'w libpq \<Rightarrow> 'w pg \<Rightarrow> cjson option list \<Rightarrow> (string list \<times> 'w pg) option" where
  "sql_values L s [] = Some ([], s)"
| "sql_values L s (j # js) =
     do { (v, s) \<leftarrow> sql_value L s j; (vs, s) \<leftarrow> sql_values L s js; Some (v # vs, s) }"

section \<open>Tables and attributes\<close>

text \<open>The attributes that are stored, by the key of their type (\<^verbatim>\<open>main.c\<close>); a column has the name of its attribute.\<close>

definition stored_attributes :: "(string \<times> string list) list" where
  "stored_attributes =
     [(''general'', [''rn'', ''ri'', ''pi'', ''ct'', ''et'', ''lt'', ''uri'', ''acpi'', ''lbl'', ''ty'', ''memberOf'']),
      (''m2m:ae'', [''api'', ''aei'', ''rr'', ''poa'', ''apn'', ''srv'', ''at'', ''aa'', ''ast'']),
      (''m2m:cnt'', [''cr'', ''mni'', ''mbs'', ''mia'', ''st'', ''cni'', ''cbs'', ''at'', ''aa'', ''ast'']),
      (''m2m:cin'', [''cs'', ''cr'', ''con'', ''cnf'', ''st'', ''at'', ''aa'', ''ast'']),
      (''m2m:acp'', [''pv'', ''pvs'', ''at'', ''aa'', ''ast'']),
      (''m2m:sub'', [''enc'', ''exc'', ''nu'', ''gpi'', ''nfu'', ''bn'', ''rl'', ''sur'', ''nct'', ''cr'', ''su'']),
      (''m2m:grp'', [''gn'', ''cr'', ''mt'', ''cnm'', ''mnm'', ''mid'', ''macp'', ''mtv'', ''csy'', ''at'', ''aa'', ''ast'']),
      (''m2m:csr'', [''cst'', ''poa'', ''cb'', ''dcse'', ''csi'', ''mei'', ''tri'', ''csz'', ''rr'', ''nl'', ''srv'', ''spi'']),
      (''m2m:cb'', [''cst'', ''csi'', ''srt'', ''rr'', ''poa'', ''srv'', ''at'', ''aa'', ''ast'', ''spi'']),
      (''m2m:acpA'', [''lnk'', ''pv'', ''pvs'', ''ast'']),
      (''m2m:cbA'', [''lnk'', ''cst'', ''csi'', ''srt'', ''poa'', ''srv'', ''rr'', ''ast'']),
      (''m2m:aeA'', [''lnk'', ''api'', ''aei'', ''rr'', ''poa'', ''apn'', ''srv'', ''ast'']),
      (''m2m:cntA'', [''lnk'', ''cr'', ''mni'', ''mbs'', ''st'', ''cni'', ''cbs'', ''ast'']),
      (''m2m:grpA'', [''lnk'', ''cr'', ''mt'', ''cnm'', ''mnm'', ''mid'', ''macp'', ''mtv'', ''csy'', ''gn'', ''at'', ''aa'', ''ast'']),
      (''m2m:cinA'', [''lnk'', ''cs'', ''cr'', ''con'', ''cnf'', ''st'', ''ast'']),
      (''m2m:fcnt'', [''cnd'', ''oref'', ''nl'', ''cr'', ''at'', ''aa'', ''ast'', ''st'', ''cs'', ''fcied'', ''mni'', ''mbs'', ''mia'', ''cni'', ''cbs'', ''loc'', ''daci'']),
      (''m2m:fcin'', [''cs'', ''st'', ''org'', ''loc'', ''at'', ''aa'', ''ast'']),
      (''m2m:ts'', [''cr'', ''mni'', ''mbs'', ''mia'', ''cni'', ''cbs'', ''cnf'', ''pei'', ''peid'', ''mdd'', ''mdn'', ''mdt'', ''mdc'', ''mdlt'', ''at'', ''aa'', ''ast'']),
      (''m2m:tsA'', [''lnk'', ''cr'', ''mni'', ''mbs'', ''mia'', ''cni'', ''cbs'', ''cnf'', ''pei'', ''peid'', ''mdd'', ''mdn'', ''mdt'', ''ast'']),
      (''m2m:tsi'', [''dgt'', ''con'', ''snr'', ''cs''])]"

fun attributes_of :: "(string \<times> string list) list \<Rightarrow> string \<Rightarrow> string list option" where
  "attributes_of [] k = None"
| "attributes_of ((k', attrs) # rest) k = (if ci_eq k k' then Some attrs else attributes_of rest k)"

definition GENERAL_ATTR :: "string list" where
  "GENERAL_ATTR = (case attributes_of stored_attributes ''general'' of Some attrs \<Rightarrow> attrs | None \<Rightarrow> [])"

definition table_names :: "(int \<times> string) list" where
  "table_names =
     [(RT_CSE, ''cb''), (RT_AE, ''ae''), (RT_CNT, ''cnt''), (RT_CIN, ''cin''), (RT_ACP, ''acp''), (RT_GRP, ''grp''),
      (RT_SUB, ''sub''), (RT_CSR, ''csr''), (RT_ACPA, ''acpA''), (RT_AEA, ''aeA''), (RT_CBA, ''cbA''), (RT_CNTA, ''cntA''),
      (RT_GRPA, ''grpA''), (RT_TSA, ''tsA''), (RT_CINA, ''cinA''), (RT_FCNT, ''fcnt''), (RT_FCIN, ''fcin''), (RT_TS, ''ts''),
      (RT_TSI, ''tsi'')]"

definition get_table_name :: "int \<Rightarrow> string option" where
  "get_table_name ty = map_of table_names ty"

section \<open>Store\<close>

definition store_sql :: "string list \<Rightarrow> string \<Rightarrow> string list \<Rightarrow> string list \<Rightarrow> string" where
  "store_sql general table_name specific_attr specific =
     ''WITH ins AS (INSERT INTO general ('' @ joined '','' GENERAL_ATTR @ '') VALUES ('' @ joined '','' general @
     '') RETURNING id) INSERT INTO '' @ table_name @ '' (id, '' @ joined '','' specific_attr @
     '') SELECT id, '' @ joined '','' specific @ '' FROM ins;''"

text \<open>The transaction of a single operation: \<open>None\<close> if it could not be started, otherwise whether it was.\<close>

definition start_tx :: "'w libpq \<Rightarrow> 'w pg \<Rightarrow> bool option \<times> 'w pg" where
  "start_tx L s =
     (if pg_tx_depth s = 0
      then let (res, s) = exec L s ''BEGIN'' in (if res = PGRES_COMMAND_OK then Some True else None, s)
      else (Some False, s))"

definition abort_tx :: "'w libpq \<Rightarrow> bool \<Rightarrow> 'w pg \<Rightarrow> 'w pg" where
  "abort_tx L started_tx s = (if started_tx then snd (exec L s ''ROLLBACK'') else s)"

definition end_tx :: "'w libpq \<Rightarrow> bool \<Rightarrow> 'w pg \<Rightarrow> bool \<times> 'w pg" where
  "end_tx L started_tx s =
     (if started_tx then let (res, s) = exec L s ''COMMIT'' in (res = PGRES_COMMAND_OK, s) else (True, s))"

text \<open>The statement of a store, in a buffer of 4096 bytes.\<close>

definition store_statement ::
  "'w libpq \<Rightarrow> 'w pg \<Rightarrow> cjson \<Rightarrow> string \<Rightarrow> string \<Rightarrow> string list \<Rightarrow> (string \<times> 'w pg) option" where
  "store_statement L s obj uri table_name specific_attr =
     do {
       (general, s) \<leftarrow> sql_values L s (map (\<lambda>attr. if attr = ''uri'' then Some (JString uri) else cJSON_GetObjectItem (Some obj) attr) GENERAL_ATTR);
       (specific, s) \<leftarrow> sql_values L s (map (cJSON_GetObjectItem (Some obj)) specific_attr);
       sql \<leftarrow> in_buf 4096 (store_sql general table_name specific_attr specific);
       Some (sql, s) }"

definition db_store_resource :: "'w libpq \<Rightarrow> nat \<Rightarrow> 'w pg \<Rightarrow> cjson option \<Rightarrow> string \<Rightarrow> (int \<times> 'w pg) option" where
  "db_store_resource L t s obj uri =
     with_conn L t s (- 1) (\<lambda>s.
       case obj of
         None \<Rightarrow> Some (- 1, s)
       | Some obj \<Rightarrow>
           (case cJSON_GetObjectItem (Some obj) ''ty'' of
              None \<Rightarrow> Some (- 1, s)
            | Some ty_obj \<Rightarrow>
                let ty = valueint ty_obj
                in (case attributes_of stored_attributes (get_resource_key ty) of
                      None \<Rightarrow> Some (- 1, s)
                    | Some specific_attr \<Rightarrow>
                        (case get_table_name ty of
                           None \<Rightarrow> Some (- 1, s)
                         | Some table_name \<Rightarrow>
                             (case start_tx L s of
                                (None, s) \<Rightarrow> Some (- 1, s)
                              | (Some started_tx, s) \<Rightarrow>
                                  do {
                                    (sql, s) \<leftarrow> store_statement L s obj uri table_name specific_attr;
                                    let (res, s) = exec L s sql;
                                    (if res \<noteq> PGRES_COMMAND_OK then Some (- 1, abort_tx L started_tx s)
                                     else
                                       let (ok, s) = end_tx L started_tx s
                                       in Some (if ok then 1 else - 1, s)) })))))"

section \<open>Update\<close>

text \<open>The assignments of the attributes that the object has.\<close>

definition assignments :: "'w libpq \<Rightarrow> 'w pg \<Rightarrow> cjson \<Rightarrow> string list \<Rightarrow> (string list \<times> 'w pg) option" where
  "assignments L s obj attrs =
     (let given = filter (\<lambda>attr. cJSON_GetObjectItem (Some obj) attr \<noteq> None) attrs
      in do {
           (vs, s) \<leftarrow> sql_values L s (map (cJSON_GetObjectItem (Some obj)) given);
           Some (map2 (\<lambda>attr v. attr @ ''='' @ v) given vs, s) })"

text \<open>
  One of the two statements of an update; both are built in a buffer of 2048 bytes, also when there is
  nothing to update. The result is whether it succeeded.
\<close>

definition update_table ::
  "'w libpq \<Rightarrow> 'w pg \<Rightarrow> cjson \<Rightarrow> string \<Rightarrow> string list \<Rightarrow> string \<Rightarrow> string \<Rightarrow> string \<Rightarrow> (bool \<times> 'w pg) option" where
  "update_table L s obj table_name attrs pre ri post =
     do {
       (as, s) \<leftarrow> assignments L s obj attrs;
       sql \<leftarrow> in_buf 2048 (''UPDATE '' @ table_name @ '' SET '' @ joined '', '' as);
       (if as = [] then Some (True, s)
        else do {
          (escaped_ri, s) \<leftarrow> escaped L s (Some ri);
          sql \<leftarrow> in_buf 2048 (sql @ pre @ quoted escaped_ri @ post);
          let (res, s) = exec L s sql;
          Some (res = PGRES_COMMAND_OK, s) }) }"

definition db_update_resource :: "'w libpq \<Rightarrow> nat \<Rightarrow> 'w pg \<Rightarrow> cjson \<Rightarrow> string \<Rightarrow> int \<Rightarrow> (int \<times> 'w pg) option" where
  "db_update_resource L t s obj ri ty =
     with_conn L t s 0 (\<lambda>s.
       case start_tx L s of
         (None, s) \<Rightarrow> Some (0, s)
       | (Some started_tx, s) \<Rightarrow>
           do {
             (ok, s) \<leftarrow> update_table L s obj ''general'' GENERAL_ATTR '' WHERE ri='' ri '';'';
             (if \<not> ok then Some (0, abort_tx L started_tx s)
              else
                (case get_table_name ty of
                   None \<Rightarrow> Some (0, abort_tx L started_tx s)
                 | Some table_name \<Rightarrow>
                     do {
                       (ok, s) \<leftarrow> update_table L s obj table_name
                         (case attributes_of stored_attributes (get_resource_key ty) of Some attrs \<Rightarrow> attrs | None \<Rightarrow> [])
                         '' WHERE id=(SELECT id FROM general WHERE ri='' ri '');'';
                       (if \<not> ok then Some (0, abort_tx L started_tx s)
                        else
                          let (ok, s) = end_tx L started_tx s
                          in Some (if ok then 1 else 0, s)) })) })"

section \<open>Delete\<close>

definition delete_sql :: "string \<Rightarrow> string \<Rightarrow> string" where
  "delete_sql escaped_uri escaped_ri =
     ''DELETE FROM general WHERE uri LIKE '' @ quoted (escaped_uri @ ''/%'') @ '' OR ri='' @ quoted escaped_ri @ '';''"

definition db_delete_onem2m_resource :: "'w libpq \<Rightarrow> nat \<Rightarrow> 'w pg \<Rightarrow> rtnode \<Rightarrow> (int \<times> 'w pg) option" where
  "db_delete_onem2m_resource L t s rtnode =
     with_conn L t s 0 (\<lambda>s.
       case get_ri_rtnode rtnode of
         None \<Rightarrow> Some (0, s)
       | Some ri \<Rightarrow>
           do {
             (escaped_uri, s) \<leftarrow> escaped L s (get_uri_rtnode rtnode);
             (escaped_ri, s) \<leftarrow> escaped L s (Some ri);
             sql \<leftarrow> in_buf 1024 (delete_sql escaped_uri escaped_ri);
             let (res, s) = exec L s sql;
             Some (if res = PGRES_COMMAND_OK then 1 else 0, s) })"

text \<open>The oldest instance of a container is selected and deleted; the result is its size.\<close>

definition db_delete_one_cin_mni :: "'w libpq \<Rightarrow> nat \<Rightarrow> 'w pg \<Rightarrow> rtnode option \<Rightarrow> (int \<times> 'w pg) option" where
  "db_delete_one_cin_mni L t s cnt =
     with_conn L t s (- 1) (\<lambda>s.
       case (case cnt of Some n \<Rightarrow> get_ri_rtnode n | None \<Rightarrow> None) of
         None \<Rightarrow> Some (- 1, s)
       | Some cnt_ri \<Rightarrow>
           do {
             (e, s) \<leftarrow> escaped L s (Some cnt_ri);
             sql \<leftarrow> in_buf 1024 (''SELECT general.ri, cin.cs FROM general, cin WHERE general.pi='' @ quoted e @
                      '' AND general.id = cin.id ORDER BY general.lt ASC LIMIT 1;'');
             let (res, s) = exec L s sql;
             (if \<not> is_tuples res then Some (- 1, s)
              else if PQntuples res = 0 then Some (0, s)
              else do {
                latest_ri \<leftarrow> PQgetvalue res 0 0;
                cs \<leftarrow> PQgetvalue res 0 1;
                (e, s) \<leftarrow> escaped L s (Some latest_ri);
                sql \<leftarrow> in_buf 1024 (''DELETE FROM general WHERE ri='' @ quoted e @ '';'');
                let (res, s) = exec L s sql;
                Some (if res = PGRES_COMMAND_OK then atoi cs else - 1, s) }) })"

section \<open>Rows as objects\<close>

text \<open>A \<^verbatim>\<open>long\<close> as a \<^verbatim>\<open>double\<close>: rounded to 53 bits, ties to even.\<close>

definition to_double :: "int \<Rightarrow> int" where
  "to_double n =
     (let k = nat (bitlen \<bar>n\<bar> - 53); q = \<bar>n\<bar> div 2 ^ k; r = \<bar>n\<bar> mod 2 ^ k
      in if k = 0 then n
         else sgn n * 2 ^ k * (if 2 * r < 2 ^ k \<or> 2 * r = 2 ^ k \<and> even q then q else q + 1))"

text \<open>
  The item of a column: an array or object if the text parses as one, a number if \<^verbatim>\<open>strtol\<close> reads all
  of it (a boolean for \<^verbatim>\<open>fcied\<close>, where the operation knows it), otherwise the text.
\<close>

definition column_value :: "'w libpq \<Rightarrow> bool \<Rightarrow> string \<Rightarrow> string \<Rightarrow> cjson" where
  "column_value L bools colname value =
     (let scalar =
            (case strtol value of (n, _, endptr) \<Rightarrow>
               if endptr = []
               then (if bools \<and> colname = ''fcied'' then (if to_int32 n \<noteq> 0 then JTrue else JFalse) else JNumber (to_double n))
               else JString value)
      in case cJSON_Parse L value of
           Some (JArray xs) \<Rightarrow> JArray xs
         | Some (JObject kvs) \<Rightarrow> JObject kvs
         | _ \<Rightarrow> scalar)"

definition row_members :: "'w libpq \<Rightarrow> bool \<Rightarrow> (string \<times> string) list \<Rightarrow> (string \<times> cjson) list" where
  "row_members L bools row = map (\<lambda>(c, v). (c, column_value L bools c v)) (filter (\<lambda>(c, v). v \<noteq> []) row)"

definition no_id :: "(string \<times> string) list \<Rightarrow> (string \<times> string) list" where
  "no_id row = filter (\<lambda>(c, v). c \<noteq> ''id'') row"

text \<open>The custom attributes of a flexContainer become members of the object.\<close>

definition add_members :: "cjson \<Rightarrow> (string \<times> cjson) list \<Rightarrow> cjson" where
  "add_members j kvs = foldl (\<lambda>j (k, v). cJSON_AddItemToObject j k v) j kvs"

definition merge_custom_attrs :: "cjson \<Rightarrow> cjson" where
  "merge_custom_attrs resource =
     (case cJSON_GetObjectItem (Some resource) ''custom_attrs'' of
        Some (JObject kvs) \<Rightarrow> cJSON_DeleteItemFromObject (add_members resource kvs) ''custom_attrs''
      | _ \<Rightarrow> resource)"

text \<open>The object of the first row of a result.\<close>

definition first_row :: "'w libpq \<Rightarrow> int \<Rightarrow> PGresult \<Rightarrow> cjson option" where
  "first_row L ty res =
     (case table res of
        [] \<Rightarrow> None
      | row # _ \<Rightarrow>
          let resource = JObject (row_members L True (no_id row))
          in Some (if ty = RT_FCNT \<or> ty = RT_FCIN then merge_custom_attrs resource else resource))"

definition by_uri_sql :: "string \<Rightarrow> string \<Rightarrow> string" where
  "by_uri_sql table_name uri =
     ''SELECT * FROM general, '' @ table_name @ '' WHERE general.uri='' @ quoted uri @ '' and '' @ table_name @ ''.id=general.id;''"

definition db_get_resource_by_uri :: "'w libpq \<Rightarrow> nat \<Rightarrow> 'w pg \<Rightarrow> string \<Rightarrow> int \<Rightarrow> (cjson option \<times> 'w pg) option" where
  "db_get_resource_by_uri L t s uri ty =
     with_conn L t s None (\<lambda>s.
       case get_table_name ty of
         None \<Rightarrow> Some (None, s)
       | Some table_name \<Rightarrow>
           do {
             sql \<leftarrow> in_buf 1024 (by_uri_sql table_name uri);
             let (res, s) = exec L s sql;
             Some (if is_tuples res then first_row L ty res else None, s) })"

definition by_ri_sql :: "string \<Rightarrow> string \<Rightarrow> string" where
  "by_ri_sql table_name ri =
     ''SELECT * FROM general, '' @ table_name @ '' WHERE general.id='' @ table_name @ ''.id AND general.ri='' @ quoted ri @ '';''"

definition db_get_resource :: "'w libpq \<Rightarrow> nat \<Rightarrow> 'w pg \<Rightarrow> string \<Rightarrow> int \<Rightarrow> (cjson option \<times> 'w pg) option" where
  "db_get_resource L t s ri ty =
     with_conn L t s None (\<lambda>s.
       case get_table_name ty of
         None \<Rightarrow> Some (None, s)
       | Some table_name \<Rightarrow>
           do {
             sql \<leftarrow> in_buf 1024 (by_ri_sql table_name ri);
             let (res, s) = exec L s sql;
             Some (if is_tuples res then first_row L ty res else None, s) })"

section \<open>Rows as nodes\<close>

text \<open>
  The resources read at start-up. A row of the general table is completed by the row of the table of its
  type; it is skipped when there is no such table or the query fails.
\<close>

definition read_row :: "'w libpq \<Rightarrow> 'w pg \<Rightarrow> (string \<times> string) list \<Rightarrow> (row option \<times> 'w pg) option" where
  "read_row L s general =
     do {
       let json = JObject (row_members L False general);
       ty \<leftarrow> map_option valueint (cJSON_GetObjectItem (Some json) ''ty'');
       i \<leftarrow> map_option valueint (cJSON_GetObjectItem (Some json) ''id'');
       (case get_table_name ty of
          None \<Rightarrow> Some (None, s)
        | Some table_name \<Rightarrow>
            do {
              sql2 \<leftarrow> in_buf 1024 (''SELECT * FROM '' @ table_name @ '' WHERE id='' @ print_int i @ '';'');
              let (res2, s) = exec L s sql2;
              (if \<not> is_tuples res2 then Some (None, s)
               else
                 let specific = (case table res2 of [] \<Rightarrow> [] | row # _ \<Rightarrow> no_id row);
                     json = cJSON_DeleteItemFromObject (add_members json (row_members L True specific)) ''id''
                 in Some (Some (if ty = RT_FCNT then merge_custom_attrs json else json, ty), s)) }) }"

fun read_rows :: "'w libpq \<Rightarrow> 'w pg \<Rightarrow> (string \<times> string) list list \<Rightarrow> (row list \<times> 'w pg) option" where
  "read_rows L s [] = Some ([], s)"
| "read_rows L s (general # rest) =
     do {
       (r, s) \<leftarrow> read_row L s general;
       (rs, s) \<leftarrow> read_rows L s rest;
       Some (case r of Some r \<Rightarrow> r # rs | None \<Rightarrow> rs, s) }"

definition all_resources :: "'w libpq \<Rightarrow> nat \<Rightarrow> 'w pg \<Rightarrow> (row list \<times> 'w pg) option" where
  "all_resources L t s =
     with_conn L t s [] (\<lambda>s.
       let (res, s) = exec L s ''SELECT * FROM general WHERE ty != 4 AND ty != 23 AND ty != 58;''
       in if is_tuples res then read_rows L s (table res) else Some ([], s))"

definition db_get_all_resource_as_rtnode :: "'w libpq \<Rightarrow> nat \<Rightarrow> 'w pg \<Rightarrow> 'd cse \<Rightarrow> (ptr \<times> 'd cse \<times> 'w pg) option" where
  "db_get_all_resource_as_rtnode L t s c =
     do { (rows, s) \<leftarrow> all_resources L t s; (head, c) \<leftarrow> rtnode_list c rows; Some (head, c, s) }"

text \<open>The rows of a query for instances.\<close>

definition instance_rows :: "'w libpq \<Rightarrow> int \<Rightarrow> PGresult \<Rightarrow> row list" where
  "instance_rows L ty res =
     (if is_tuples res then map (\<lambda>row. (JObject (row_members L False (no_id row)), ty)) (table res) else [])"

definition latest_cins :: "'w libpq \<Rightarrow> nat \<Rightarrow> 'w pg \<Rightarrow> (row list \<times> 'w pg) option" where
  "latest_cins L t s =
     with_conn L t s [] (\<lambda>s.
       let (res, s) = exec L s (''SELECT * FROM general, cin WHERE general.id IN (SELECT max(id) FROM general WHERE ty=4 '' @
             ''GROUP BY pi) AND general.id=cin.id;'')
       in Some (instance_rows L RT_CIN res, s))"

definition db_get_latest_cins :: "'w libpq \<Rightarrow> nat \<Rightarrow> 'w pg \<Rightarrow> 'd cse \<Rightarrow> (ptr \<times> 'd cse \<times> 'w pg) option" where
  "db_get_latest_cins L t s c =
     do { (rows, s) \<leftarrow> latest_cins L t s; (head, c) \<leftarrow> rtnode_list c rows; Some (head, c, s) }"

definition db_get_cin_rtnode_list :: "'w libpq \<Rightarrow> nat \<Rightarrow> 'w pg \<Rightarrow> rtnode option \<Rightarrow> 'd cse \<Rightarrow> (ptr \<times> 'd cse \<times> 'w pg) option" where
  "db_get_cin_rtnode_list L t s parent_rtnode c =
     (case (case parent_rtnode of Some n \<Rightarrow> get_ri_rtnode n | None \<Rightarrow> None) of
        None \<Rightarrow> Some (None, c, s)
      | Some p \<Rightarrow>
          do {
            (rows, s) \<leftarrow> with_conn L t s [] (\<lambda>s.
              do {
                (e, s) \<leftarrow> escaped L s (Some p);
                sql \<leftarrow> in_buf 1024 (''SELECT * FROM general, cin WHERE general.pi='' @ quoted e @
                         '' AND general.id=cin.id ORDER BY general.id ASC;'');
                let (res, s) = exec L s sql;
                Some (instance_rows L RT_CIN res, s) });
            (head, c) \<leftarrow> rtnode_list c rows;
            Some (head, c, s) })"

definition laol_order :: "int \<Rightarrow> string option" where
  "laol_order laol = (if laol = 0 then Some ''DESC'' else if laol = 1 then Some ''ASC'' else None)"

definition db_get_cin_laol :: "'w libpq \<Rightarrow> nat \<Rightarrow> 'w pg \<Rightarrow> rtnode option \<Rightarrow> int \<Rightarrow> (cjson option \<times> 'w pg) option" where
  "db_get_cin_laol L t s parent_rtnode laol =
     (case parent_rtnode of
        None \<Rightarrow> Some (None, s)
      | Some parent \<Rightarrow>
          with_conn L t s None (\<lambda>s.
            case (laol_order laol, get_ri_rtnode parent) of
              (Some ord, Some parent_ri) \<Rightarrow>
                do {
                  (e, s) \<leftarrow> escaped L s (Some parent_ri);
                  sql \<leftarrow> in_buf 1024 (''SELECT * FROM general, cin WHERE general.pi='' @ quoted e @
                           '' AND general.id = cin.id ORDER BY general.lt '' @ ord @ '', general.id '' @ ord @ '' LIMIT 1;'');
                  let (res, s) = exec L s sql;
                  Some (case instance_rows L RT_CIN res of [] \<Rightarrow> None | (json, _) # _ \<Rightarrow> Some json, s) }
            | _ \<Rightarrow> Some (None, s)))"

definition db_check_cin_rn_dup :: "'w libpq \<Rightarrow> nat \<Rightarrow> 'w pg \<Rightarrow> string \<Rightarrow> string \<Rightarrow> (bool \<times> 'w pg) option" where
  "db_check_cin_rn_dup L t s rn p =
     with_conn L t s False (\<lambda>s.
       do {
         (escaped_rn, s) \<leftarrow> escaped L s (Some rn);
         (escaped_pi, s) \<leftarrow> escaped L s (Some p);
         sql \<leftarrow> in_buf 1024 (''SELECT * FROM general WHERE rn='' @ quoted escaped_rn @ '' AND pi='' @ quoted escaped_pi @ '';'');
         let (res, s) = exec L s sql;
         Some (0 < PQntuples res, s) })"

section \<open>Custom attributes and instances of flexContainers\<close>

text \<open>These operations use \<^verbatim>\<open>pg_conn\<close> directly and do not lock.\<close>

definition exec_conn :: "'w libpq \<Rightarrow> 'w pg \<Rightarrow> string \<Rightarrow> PGresult \<times> 'w pg" where
  "exec_conn L s sql = (if pg_conn s then exec L s sql else (PGRES_FATAL_ERROR, s))"

definition custom_sql :: "string \<Rightarrow> string \<Rightarrow> string \<Rightarrow> string" where
  "custom_sql table_name escaped_json ri =
     ''UPDATE '' @ table_name @ '' SET custom_attrs = '' @ quoted escaped_json @
     ''::jsonb WHERE id = (SELECT id FROM general WHERE ri = '' @ quoted ri @ '');''"

definition db_store_fcnt_custom_attributes :: "'w libpq \<Rightarrow> 'w pg \<Rightarrow> string \<Rightarrow> cjson option \<Rightarrow> (int \<times> 'w pg) option" where
  "db_store_fcnt_custom_attributes L s ri customAttrs =
     (case customAttrs of
        None \<Rightarrow> Some (0, s)
      | Some attrs \<Rightarrow>
          (case pg_escape_string_value L s (Some (cJSON_PrintUnformatted L attrs)) of
             (None, s) \<Rightarrow> Some (0, s)
           | (Some escaped_json, s) \<Rightarrow>
               do {
                 sql \<leftarrow> in_buf 4096 (custom_sql ''fcnt'' escaped_json ri);
                 let (res, s) = exec_conn L s sql;
                 (if res \<noteq> PGRES_COMMAND_OK then Some (0, s)
                  else do {
                    sql \<leftarrow> in_buf 4096 (custom_sql ''fcin'' escaped_json ri);
                    let (res, s) = exec_conn L s sql;
                    Some (if res \<noteq> PGRES_COMMAND_OK then 0 else 1, s) }) }))"

definition db_update_fcnt_custom_attributes :: "'w libpq \<Rightarrow> 'w pg \<Rightarrow> string \<Rightarrow> cjson option \<Rightarrow> (int \<times> 'w pg) option" where
  "db_update_fcnt_custom_attributes L s ri customAttrs = db_store_fcnt_custom_attributes L s ri customAttrs"

definition db_get_fcnt_custom_attributes :: "'w libpq \<Rightarrow> 'w pg \<Rightarrow> string \<Rightarrow> (cjson option \<times> 'w pg) option" where
  "db_get_fcnt_custom_attributes L s ri =
     do {
       sql \<leftarrow> in_buf 1024 (''SELECT COALESCE(fcnt.custom_attrs, fcin.custom_attrs) AS custom_attrs FROM general LEFT JOIN fcnt ON '' @
                ''general.id = fcnt.id LEFT JOIN fcin ON general.id = fcin.id WHERE general.ri = '' @ quoted ri @ '';'');
       let (res, s) = exec_conn L s sql;
       Some (case PQgetvalue res 0 0 of
               None \<Rightarrow> None
             | Some json_str \<Rightarrow> if json_str = [] \<or> json_str = ''null'' then None else cJSON_Parse L json_str, s) }"

definition db_get_fcin_rtnode_list :: "'w libpq \<Rightarrow> 'w pg \<Rightarrow> rtnode option \<Rightarrow> 'd cse \<Rightarrow> (ptr \<times> 'd cse \<times> 'w pg) option" where
  "db_get_fcin_rtnode_list L s rtnode c =
     (case (case rtnode of Some n \<Rightarrow> get_ri_rtnode n | None \<Rightarrow> None) of
        None \<Rightarrow> Some (None, c, s)
      | Some p \<Rightarrow>
          do {
            (e, s) \<leftarrow> escaped L s (Some p);
            sql \<leftarrow> in_buf 1024 (''SELECT * FROM general, fcin WHERE general.pi='' @ quoted e @
                     '' AND general.ty=58 AND general.id = fcin.id ORDER BY fcin.st ASC;'');
            let (res, s) = exec_conn L s sql;
            (head, c) \<leftarrow> rtnode_list c (instance_rows L RT_FCIN res);
            Some (head, c, s) })"

definition named_items :: "cjson \<Rightarrow> (string \<times> cjson) list" where
  "named_items j = List.map_filter (\<lambda>(k, v). map_option (\<lambda>k. (k, v)) k) (items j)"

definition db_get_fcin_laol :: "'w libpq \<Rightarrow> 'w pg \<Rightarrow> rtnode option \<Rightarrow> int \<Rightarrow> (cjson option \<times> 'w pg) option" where
  "db_get_fcin_laol L s parent_rtnode laol =
     (case (laol_order laol, (case parent_rtnode of Some n \<Rightarrow> get_ri_rtnode n | None \<Rightarrow> None)) of
        (Some ord, Some parent_ri) \<Rightarrow>
          do {
            (e, s) \<leftarrow> escaped L s (Some parent_ri);
            sql \<leftarrow> in_buf 1024 (''SELECT * FROM general, fcin WHERE general.pi='' @ quoted e @
                     '' AND general.ty=58 AND general.id = fcin.id ORDER BY fcin.st '' @ ord @ '' LIMIT 1;'');
            let (res, s) = exec_conn L s sql;
            (case table res of
               [] \<Rightarrow> Some (None, s)
             | row # _ \<Rightarrow>
                 let json = JObject (row_members L False (filter (\<lambda>(c, v). c \<noteq> ''custom_attrs'') (no_id row)))
                 in (case cJSON_GetObjectItem (Some json) ''ri'' of
                       Some (JString ri) \<Rightarrow>
                         do {
                           (customAttrs, s) \<leftarrow> db_get_fcnt_custom_attributes L s ri;
                           Some (Some (case customAttrs of Some a \<Rightarrow> add_members json (named_items a) | None \<Rightarrow> json), s) }
                     | _ \<Rightarrow> Some (Some json, s))) }
      | _ \<Rightarrow> Some (None, s))"

section \<open>Time series\<close>

text \<open>A query of one value about a resource; the statement is cut at the size of its buffer.\<close>

definition ask :: "'w libpq \<Rightarrow> nat \<Rightarrow> 'w pg \<Rightarrow> 'a \<Rightarrow> nat \<Rightarrow> string \<Rightarrow> string \<Rightarrow> string \<Rightarrow> (PGresult \<Rightarrow> 'a option) \<Rightarrow> ('a \<times> 'w pg) option" where
  "ask L t s d n pre ri post f =
     with_conn L t s d (\<lambda>s.
       do {
         (e, s) \<leftarrow> escaped L s (Some ri);
         let (res, s) = exec L s (snprintf n (pre @ quoted e @ post));
         r \<leftarrow> f res;
         Some (r, s) })"

definition first_int :: "PGresult \<Rightarrow> int option" where
  "first_int res = (if 0 < PQntuples res then map_option atoi (PQgetvalue res 0 0) else Some 0)"

definition done_ok :: "PGresult \<Rightarrow> int option" where
  "done_ok res = Some (if res = PGRES_COMMAND_OK then 1 else 0)"

definition db_tsi_get_count :: "'w libpq \<Rightarrow> nat \<Rightarrow> 'w pg \<Rightarrow> string \<Rightarrow> (int \<times> 'w pg) option" where
  "db_tsi_get_count L t s ts_ri =
     ask L t s 0 512 ''SELECT COUNT(*) FROM tsi JOIN general ON tsi.id = general.id WHERE general.pi = '' ts_ri '';'' first_int"

definition db_tsi_get_max_snr :: "'w libpq \<Rightarrow> nat \<Rightarrow> 'w pg \<Rightarrow> string \<Rightarrow> (int \<times> 'w pg) option" where
  "db_tsi_get_max_snr L t s ts_ri =
     ask L t s 0 512 ''SELECT COALESCE(MAX(tsi.snr),0) FROM tsi JOIN general ON tsi.id = general.id WHERE general.pi = '' ts_ri '';'' first_int"

definition db_tsi_get_min_snr :: "'w libpq \<Rightarrow> nat \<Rightarrow> 'w pg \<Rightarrow> string \<Rightarrow> (int \<times> 'w pg) option" where
  "db_tsi_get_min_snr L t s ts_ri =
     ask L t s 0 512 ''SELECT COALESCE(MIN(tsi.snr),0) FROM tsi JOIN general ON tsi.id = general.id WHERE general.pi = '' ts_ri '';'' first_int"

definition db_tsi_get_first_ct :: "'w libpq \<Rightarrow> nat \<Rightarrow> 'w pg \<Rightarrow> string \<Rightarrow> (string option \<times> 'w pg) option" where
  "db_tsi_get_first_ct L t s ts_ri =
     ask L t s None 512 ''SELECT general.ct FROM tsi JOIN general ON tsi.id = general.id WHERE general.pi = '' ts_ri
       '' ORDER BY tsi.snr ASC LIMIT 1;''
       (\<lambda>res. Some (case PQgetvalue res 0 0 of Some v \<Rightarrow> if v = [] then None else Some v | None \<Rightarrow> None))"

definition db_ts_clear_mdlt :: "'w libpq \<Rightarrow> nat \<Rightarrow> 'w pg \<Rightarrow> string \<Rightarrow> (int \<times> 'w pg) option" where
  "db_ts_clear_mdlt L t s ts_ri =
     ask L t s 0 512 ''UPDATE ts SET mdlt = NULL WHERE id = (SELECT id FROM general WHERE ri = '' ts_ri '');'' done_ok"

definition db_clear_attribute :: "'w libpq \<Rightarrow> nat \<Rightarrow> 'w pg \<Rightarrow> string \<Rightarrow> int \<Rightarrow> string \<Rightarrow> (int \<times> 'w pg) option" where
  "db_clear_attribute L t s ri ty attr =
     (case get_table_name ty of
        None \<Rightarrow> Some (0, s)
      | Some table_name \<Rightarrow>
          ask L t s 0 512 (''UPDATE '' @ table_name @ '' SET '' @ attr @ '' = NULL WHERE id = (SELECT id FROM general WHERE ri = '') ri
            '');'' done_ok)"

definition db_general_update_lt :: "'w libpq \<Rightarrow> nat \<Rightarrow> 'w pg \<Rightarrow> string \<Rightarrow> string \<Rightarrow> (int \<times> 'w pg) option" where
  "db_general_update_lt L t s ri lt =
     with_conn L t s 0 (\<lambda>s.
       do {
         (escaped_ri, s) \<leftarrow> escaped L s (Some ri);
         (escaped_lt, s) \<leftarrow> escaped L s (Some lt);
         let (res, s) = exec L s (snprintf 512 (''UPDATE general SET lt = '' @ quoted escaped_lt @ '' WHERE ri = '' @ quoted escaped_ri @ '';''));
         Some (if res = PGRES_COMMAND_OK then 1 else 0, s) })"

definition db_general_set_lt :: "'w libpq \<Rightarrow> nat \<Rightarrow> 'w pg \<Rightarrow> string \<Rightarrow> string \<Rightarrow> (int \<times> 'w pg) option" where
  "db_general_set_lt L t s ri lt = db_general_update_lt L t s ri lt"

definition db_tsi_check_dgt_dup :: "'w libpq \<Rightarrow> nat \<Rightarrow> 'w pg \<Rightarrow> string \<Rightarrow> string \<Rightarrow> (bool \<times> 'w pg) option" where
  "db_tsi_check_dgt_dup L t s ts_ri dgt =
     with_conn L t s False (\<lambda>s.
       do {
         (escaped_ts_ri, s) \<leftarrow> escaped L s (Some ts_ri);
         (escaped_dgt, s) \<leftarrow> escaped L s (Some dgt);
         let (res, s) = exec L s (snprintf 1024 (''SELECT 1 FROM tsi JOIN general ON tsi.id = general.id WHERE general.pi = '' @
               quoted escaped_ts_ri @ '' AND tsi.dgt = '' @ quoted escaped_dgt @ '' LIMIT 1;''));
         Some (0 < PQntuples res, s) })"

text \<open>The latest or oldest instance of a time series has its own conversion of columns.\<close>

definition number_columns :: "string list" where
  "number_columns = [''ty'', ''cs'', ''st'', ''mni'', ''snr'', ''cni'', ''cbs'', ''mbs'', ''pei'', ''peid'', ''mdc'']"

definition tsi_column :: "'w libpq \<Rightarrow> string \<Rightarrow> string \<Rightarrow> cjson" where
  "tsi_column L colname value =
     (if colname = ''mdd'' then (if hd value = CHR ''t'' \<or> hd value = CHR ''1'' then JTrue else JFalse)
      else if colname \<in> set number_columns then JNumber (atoi value)
      else if hd value = CHR ''{'' \<or> hd value = CHR ''[''
      then (case cJSON_Parse L value of Some obj \<Rightarrow> obj | None \<Rightarrow> JString value)
      else JString value)"

definition db_get_tsi_laol :: "'w libpq \<Rightarrow> nat \<Rightarrow> 'w pg \<Rightarrow> rtnode option \<Rightarrow> int \<Rightarrow> (cjson option \<times> 'w pg) option" where
  "db_get_tsi_laol L t s parent_rtnode laol =
     (case (case parent_rtnode of Some n \<Rightarrow> get_ri_rtnode n | None \<Rightarrow> None) of
        None \<Rightarrow> Some (None, s)
      | Some parent_ri \<Rightarrow>
          let ord = (if laol = 0 then ''DESC'' else ''ASC'')
          in ask L t s None 1024 ''SELECT * FROM general, tsi WHERE general.pi='' parent_ri
               ('' AND general.id = tsi.id AND general.ty = 30 ORDER BY general.ct '' @ ord @ '', general.id '' @ ord @ '' LIMIT 1;'')
               (\<lambda>res. Some (case table res of
                  [] \<Rightarrow> None
                | row # _ \<Rightarrow> Some (JObject (map (\<lambda>(c, v). (c, tsi_column L c v)) (filter (\<lambda>(c, v). v \<noteq> []) (no_id row)))))))"

end
