(* ===== verification/Schema.thy ===== *)
theory Schema
  imports Postgres
begin

text \<open>
  The tables of the database (\<^verbatim>\<open>table_definitions\<close> of \<^verbatim>\<open>postgresql_implement.c\<close> for the schema type that
  \<^verbatim>\<open>config.h\<close> selects) and the functions that create them at start-up and close the connection. The theorems: the
  tables have a column for every attribute that the statements name, and \<^verbatim>\<open>init_dbp\<close> creates them in one
  transaction and leaves the lock free.
\<close>

section \<open>Tables\<close>

text \<open>The columns of each table with their types, without the column \<^verbatim>\<open>id\<close> that every table has.\<close>

definition general_columns :: "(string \<times> string) list" where
  "general_columns =
     [(''rn'', ''TEXT''), (''ri'', ''TEXT''), (''pi'', ''TEXT''), (''ct'', ''TEXT''), (''et'', ''TEXT''),
      (''lt'', ''TEXT''), (''uri'', ''TEXT''), (''acpi'', ''TEXT''), (''lbl'', ''TEXT''), (''ty'', ''INT''),
      (''memberOf'', ''TEXT'')]"

definition csr_columns :: "(string \<times> string) list" where
  "csr_columns =
     [(''cst'', ''INT''), (''poa'', ''TEXT''), (''cb'', ''TEXT''), (''csi'', ''TEXT''), (''mei'', ''TEXT''),
      (''tri'', ''TEXT''), (''rr'', ''INT''), (''nl'', ''TEXT''), (''srv'', ''TEXT''), (''dcse'', ''TEXT''),
      (''csz'', ''TEXT''), (''spi'', ''TEXT'')]"

definition ae_columns :: "(string \<times> string) list" where
  "ae_columns =
     [(''api'', ''TEXT''), (''aei'', ''TEXT''), (''rr'', ''INT''), (''poa'', ''TEXT''), (''apn'', ''TEXT''),
      (''srv'', ''TEXT''), (''at'', ''TEXT''), (''aa'', ''TEXT''), (''ast'', ''INT'')]"

definition cnt_columns :: "(string \<times> string) list" where
  "cnt_columns =
     [(''cr'', ''TEXT''), (''mni'', ''INT''), (''mbs'', ''INT''), (''mia'', ''INT''), (''st'', ''INT''),
      (''cni'', ''INT''), (''cbs'', ''INT''), (''li'', ''TEXT''), (''oref'', ''TEXT''), (''disr'', ''TEXT''),
      (''at'', ''TEXT''), (''aa'', ''TEXT''), (''ast'', ''INT'')]"

definition cin_columns :: "(string \<times> string) list" where
  "cin_columns =
     [(''cs'', ''INT''), (''cr'', ''TEXT''), (''cnf'', ''TEXT''), (''oref'', ''TEXT''), (''con'', ''TEXT''),
      (''st'', ''INT''), (''at'', ''TEXT''), (''aa'', ''TEXT''), (''ast'', ''INT'')]"

definition acp_columns :: "(string \<times> string) list" where
  "acp_columns =
     [(''pv'', ''TEXT''), (''pvs'', ''TEXT''), (''at'', ''TEXT''), (''aa'', ''TEXT''), (''ast'', ''INT'')]"

definition sub_columns :: "(string \<times> string) list" where
  "sub_columns =
     [(''enc'', ''TEXT''), (''exc'', ''INT''), (''nu'', ''TEXT''), (''gpi'', ''TEXT''), (''nfu'', ''TEXT''),
      (''bn'', ''TEXT''), (''rl'', ''TEXT''), (''sur'', ''TEXT''), (''nct'', ''TEXT''), (''net'', ''TEXT''),
      (''cr'', ''TEXT''), (''su'', ''TEXT''), (''at'', ''TEXT''), (''aa'', ''TEXT''), (''ast'', ''INT'')]"

definition grp_columns :: "(string \<times> string) list" where
  "grp_columns =
     [(''cr'', ''TEXT''), (''mt'', ''INT''), (''cnm'', ''INT''), (''mnm'', ''INT''), (''mid'', ''TEXT''),
      (''macp'', ''TEXT''), (''mtv'', ''INT''), (''csy'', ''INT''), (''gn'', ''TEXT''), (''at'', ''TEXT''),
      (''aa'', ''TEXT''), (''ast'', ''INT'')]"

definition cb_columns :: "(string \<times> string) list" where
  "cb_columns =
     [(''cst'', ''INT''), (''csi'', ''TEXT''), (''srt'', ''TEXT''), (''poa'', ''TEXT''), (''nl'', ''TEXT''),
      (''ncp'', ''TEXT''), (''srv'', ''TEXT''), (''rr'', ''INT''), (''at'', ''TEXT''), (''aa'', ''TEXT''),
      (''ast'', ''INT''), (''spi'', ''TEXT'')]"

definition acpA_columns :: "(string \<times> string) list" where
  "acpA_columns =
     [(''lnk'', ''TEXT''), (''pv'', ''TEXT''), (''pvs'', ''TEXT''), (''ast'', ''INT'')]"

definition cbA_columns :: "(string \<times> string) list" where
  "cbA_columns =
     [(''cst'', ''INT''), (''lnk'', ''TEXT''), (''csi'', ''TEXT''), (''srt'', ''TEXT''), (''poa'', ''TEXT''),
      (''nl'', ''TEXT''), (''ncp'', ''TEXT''), (''srv'', ''TEXT''), (''rr'', ''INT''), (''at'', ''TEXT''),
      (''aa'', ''TEXT''), (''ast'', ''INT'')]"

definition aeA_columns :: "(string \<times> string) list" where
  "aeA_columns =
     [(''api'', ''TEXT''), (''lnk'', ''TEXT''), (''aei'', ''TEXT''), (''rr'', ''INT''), (''poa'', ''TEXT''),
      (''apn'', ''TEXT''), (''srv'', ''TEXT''), (''at'', ''TEXT''), (''aa'', ''TEXT''), (''ast'', ''INT'')]"

definition cntA_columns :: "(string \<times> string) list" where
  "cntA_columns =
     [(''lnk'', ''TEXT''), (''cr'', ''TEXT''), (''mni'', ''INT''), (''mbs'', ''INT''), (''st'', ''INT''),
      (''cni'', ''INT''), (''cbs'', ''INT''), (''ast'', ''INT'')]"

definition grpA_columns :: "(string \<times> string) list" where
  "grpA_columns =
     [(''lnk'', ''TEXT''), (''cr'', ''TEXT''), (''mt'', ''INT''), (''cnm'', ''INT''), (''mnm'', ''INT''),
      (''mid'', ''TEXT''), (''macp'', ''TEXT''), (''mtv'', ''INT''), (''csy'', ''INT''), (''gn'', ''TEXT''),
      (''at'', ''TEXT''), (''aa'', ''TEXT''), (''ast'', ''INT'')]"

definition cinA_columns :: "(string \<times> string) list" where
  "cinA_columns =
     [(''lnk'', ''TEXT''), (''cs'', ''INT''), (''cr'', ''TEXT''), (''cnf'', ''TEXT''), (''st'', ''TEXT''),
      (''con'', ''TEXT''), (''ast'', ''INT'')]"

definition tsA_columns :: "(string \<times> string) list" where
  "tsA_columns =
     [(''lnk'', ''TEXT''), (''cr'', ''TEXT''), (''mni'', ''INT''), (''mbs'', ''INT''), (''mia'', ''INT''),
      (''cni'', ''INT''), (''cbs'', ''INT''), (''pei'', ''INT''), (''peid'', ''INT''), (''mdd'', ''INT''),
      (''mdn'', ''INT''), (''mdt'', ''INT''), (''cnf'', ''TEXT''), (''ast'', ''INT'')]"

definition fcnt_columns :: "(string \<times> string) list" where
  "fcnt_columns =
     [(''cnd'', ''TEXT''), (''oref'', ''TEXT''), (''nl'', ''TEXT''), (''cr'', ''TEXT''), (''at'', ''TEXT''),
      (''aa'', ''TEXT''), (''ast'', ''INT''), (''st'', ''INT''), (''cs'', ''INT''), (''fcied'', ''INT''),
      (''mni'', ''INT''), (''mbs'', ''INT''), (''mia'', ''INT''), (''cni'', ''INT''), (''cbs'', ''INT''),
      (''custom_attrs'', ''JSONB''), (''loc'', ''TEXT''), (''daci'', ''TEXT'')]"

definition fcin_columns :: "(string \<times> string) list" where
  "fcin_columns =
     [(''cs'', ''INT''), (''st'', ''INT''), (''org'', ''TEXT''), (''loc'', ''TEXT''), (''at'', ''TEXT''),
      (''aa'', ''TEXT''), (''ast'', ''INT''), (''custom_attrs'', ''JSONB'')]"

definition ts_columns :: "(string \<times> string) list" where
  "ts_columns =
     [(''cr'', ''TEXT''), (''mni'', ''INT''), (''mbs'', ''INT''), (''mia'', ''INT''), (''cni'', ''INT''),
      (''cbs'', ''INT''), (''pei'', ''INT''), (''peid'', ''INT''), (''mdd'', ''INT''), (''mdn'', ''INT''),
      (''mdt'', ''INT''), (''mdc'', ''INT''), (''mdlt'', ''TEXT''), (''cnf'', ''TEXT''), (''at'', ''TEXT''),
      (''aa'', ''TEXT''), (''ast'', ''INT'')]"

definition tsi_columns :: "(string \<times> string) list" where
  "tsi_columns =
     [(''dgt'', ''TEXT''), (''con'', ''TEXT''), (''snr'', ''INT''), (''cs'', ''INT''), (''vrq'', ''INT'')]"

definition table_columns :: "(string \<times> (string \<times> string) list) list" where
  "table_columns =
     [(''general'', general_columns), (''csr'', csr_columns), (''ae'', ae_columns), (''cnt'', cnt_columns),
      (''cin'', cin_columns), (''acp'', acp_columns), (''sub'', sub_columns), (''grp'', grp_columns),
      (''cb'', cb_columns), (''acpA'', acpA_columns), (''cbA'', cbA_columns), (''aeA'', aeA_columns),
      (''cntA'', cntA_columns), (''grpA'', grpA_columns), (''cinA'', cinA_columns), (''tsA'', tsA_columns),
      (''fcnt'', fcnt_columns), (''fcin'', fcin_columns), (''ts'', ts_columns), (''tsi'', tsi_columns)]"

definition create_sql :: "string \<Rightarrow> (string \<times> string) list \<Rightarrow> string" where
  "create_sql name cols =
     ''CREATE TABLE IF NOT EXISTS '' @ name @ '' ( id '' @ (if name = ''general'' then ''SERIAL PRIMARY KEY'' else ''INTEGER'') @ '', '' @
     joined '', '' (map (\<lambda>(c, t). c @ '' '' @ t) cols) @
     (if name = ''general'' then [] else '', CONSTRAINT fk_id FOREIGN KEY (id) REFERENCES general(id) ON DELETE CASCADE'') @ '' );''"

definition table_definitions :: "(string \<times> string) list" where
  "table_definitions = map (\<lambda>(name, cols). (name, create_sql name cols)) table_columns"

definition index_definitions :: "(string \<times> string) list" where
  "index_definitions = [(''idx_cin_id'', ''CREATE INDEX IF NOT EXISTS idx_cin_id ON cin(id DESC);'')]"

section \<open>Start and end of the connection\<close>

definition execute_sql_with_error_handling :: "'w libpq \<Rightarrow> 'w pg \<Rightarrow> string \<Rightarrow> bool \<times> 'w pg" where
  "execute_sql_with_error_handling L s sql =
     (let (ok, s) = get_pg_conn L s
      in if ok then (let (res, s) = exec L s sql in (res = PGRES_COMMAND_OK, s)) else (False, s))"

text \<open>
  The statements of a loop over the definitions, up to the first that fails. \<open>stale\<close> is whether the connection
  was replaced since \<^verbatim>\<open>init_dbp\<close> read it into its variable \<^verbatim>\<open>conn\<close>, which then points to a released
  connection.
\<close>

definition replaces :: "'w libpq \<Rightarrow> 'w pg \<Rightarrow> bool" where
  "replaces L s \<longleftrightarrow> \<not> (pg_conn s \<and> PQstatus L (world s))"

fun create_all :: "'w libpq \<Rightarrow> bool \<Rightarrow> 'w pg \<Rightarrow> string list \<Rightarrow> bool \<times> bool \<times> 'w pg" where
  "create_all L stale s [] = (True, stale, s)"
| "create_all L stale s (sql # sqls) =
     (let stale' = (stale \<or> replaces L s); (ok, s') = execute_sql_with_error_handling L s sql
      in if ok then create_all L stale' s' sqls else (False, stale', s'))"

text \<open>Roll back on \<^verbatim>\<open>conn\<close>, close it and return 0.\<close>

definition give_up :: "'w libpq \<Rightarrow> nat \<Rightarrow> bool \<Rightarrow> 'w pg \<Rightarrow> (int \<times> 'w pg) option" where
  "give_up L t stale s =
     (if stale then None
      else let (_, s) = exec L s ''ROLLBACK'' in Some (0, pg_unlock t (s\<lparr>world := PQfinish L (world s), pg_conn := False\<rparr>)))"

definition conninfo :: string where
  "conninfo = ''host=localhost port=5432 user=tinyuser password=tinypass dbname=tinydb''"

definition init_dbp :: "'w libpq \<Rightarrow> nat \<Rightarrow> 'w pg \<Rightarrow> (int \<times> 'w pg) option" where
  "init_dbp L t s =
     do {
       let s = (if pg_lock_initialized s then s else s\<lparr>pg_lock_initialized := True, pg_conn_lock := None\<rparr>);
       s \<leftarrow> pg_lock t s;
       let (ok, s) = get_pg_conn L (s\<lparr>pg_conninfo := snprintf 256 conninfo\<rparr>);
       (if \<not> ok then Some (0, pg_unlock t s)
        else
          let (ok, stale, s) = create_all L False s [''BEGIN'']
          in if \<not> ok then Some (0, pg_unlock t s)
             else
               let (ok, stale, s) = create_all L stale s (map snd table_definitions)
               in if \<not> ok then give_up L t stale s
                  else
                    let (ok, stale, s) = create_all L stale s (map snd index_definitions)
                    in if \<not> ok then give_up L t stale s
                       else
                         let (ok, stale, s) = create_all L stale s [''COMMIT'']
                         in if ok then Some (1, pg_unlock t s) else give_up L t stale s) }"

definition close_dbp :: "'w libpq \<Rightarrow> nat \<Rightarrow> 'w pg \<Rightarrow> (int \<times> 'w pg) option" where
  "close_dbp L t s =
     do {
       s \<leftarrow> pg_lock t s;
       Some (1, pg_unlock t (if pg_conn s then s\<lparr>world := PQfinish L (world s), pg_conn := False\<rparr> else s)) }"

section \<open>Columns and attributes\<close>

definition columns :: "string \<Rightarrow> string list" where
  "columns tbl = (case map_of table_columns tbl of Some cols \<Rightarrow> map fst cols | None \<Rightarrow> [])"

text \<open>The names of columns: none is \<^verbatim>\<open>id\<close>, and they differ also in lower case.\<close>

definition columns_ok :: "string list \<Rightarrow> bool" where
  "columns_ok cols \<longleftrightarrow> distinct (map (map tolower) cols) \<and> ''id'' \<notin> set (map (map tolower) cols)"

lemma tolower_lower: "list_all (\<lambda>ch. tolower ch = ch) ''abcdefghijklmnopqrstuvwxyz:2_''"
  by (simp add: tolower_def)

lemma tolower_upper: "tolower (CHR ''O'') = CHR ''o''" "tolower (CHR ''A'') = CHR ''a''"
  by (simp_all add: tolower_def char_of_def bit_Suc_0_iff)

lemmas tolower_simps = tolower_lower [simplified] tolower_upper

lemmas column_lists = general_columns_def csr_columns_def ae_columns_def cnt_columns_def cin_columns_def acp_columns_def
  sub_columns_def grp_columns_def cb_columns_def acpA_columns_def cbA_columns_def aeA_columns_def cntA_columns_def grpA_columns_def
  cinA_columns_def tsA_columns_def fcnt_columns_def fcin_columns_def ts_columns_def tsi_columns_def

lemma columns_general: "columns ''general'' = GENERAL_ATTR"
  by (simp add: columns_def table_columns_def general_columns_def GENERAL_ATTR_def stored_attributes_def ci_eq_def tolower_simps)

lemma tables_columns_ok: "list_all (\<lambda>(tbl, cols). columns_ok (GENERAL_ATTR @ map fst cols)) (tl table_columns)"
  unfolding columns_general [symmetric]
  by (simp add: columns_ok_def columns_def table_columns_def column_lists tolower_simps)

lemma attributes_columns: "list_all (\<lambda>(k, attrs). attrs \<noteq> [] \<and> set attrs \<subseteq> set (columns (drop 4 k))) (tl stored_attributes)"
  by (simp add: stored_attributes_def columns_def table_columns_def column_lists)

lemma keys_distinct: "distinct (map (map tolower \<circ> fst) stored_attributes)"
  by (simp add: stored_attributes_def tolower_simps)

lemma type_keys: "list_all (\<lambda>(ty, tbl). get_resource_key ty = ''m2m:'' @ tbl) table_names"
  by (simp add: table_names_def get_resource_key_def resource_key_table_def)

lemma table_keys: "map fst (tl stored_attributes) = map (\<lambda>tbl. ''m2m:'' @ tbl)
    [''ae'', ''cnt'', ''cin'', ''acp'', ''sub'', ''grp'', ''csr'', ''cb'', ''acpA'', ''cbA'', ''aeA'', ''cntA'', ''grpA'', ''cinA'', ''fcnt'', ''fcin'', ''ts'', ''tsA'', ''tsi'']"
  by (simp add: stored_attributes_def)

lemma tables_known: "set (map snd table_names) \<subseteq> set (map (drop 4) (map fst (tl stored_attributes)))"
  unfolding table_keys by (simp add: table_names_def)

lemma no_general: "''general'' \<notin> set (map snd table_names)"
  by (simp add: table_names_def)

lemma tables_created: "set (map snd table_names) \<subseteq> set (map fst (tl table_columns))"
  by (simp add: table_names_def table_columns_def)

lemma attributes_of_member: "attributes_of A key = Some attrs \<Longrightarrow> \<exists>k. (k, attrs) \<in> set A \<and> ci_eq key k"
  by (induction A) (auto split: if_splits)

lemma attributes_of_key:
  "distinct (map (map tolower \<circ> fst) A) \<Longrightarrow> (k, attrs) \<in> set A \<Longrightarrow> attributes_of A k = Some attrs"
proof (induction A)
  case (Cons e A)
  then show ?case by (cases e) (force simp: ci_eq_def)
qed simp

lemma type_table:
  assumes "get_table_name ty = Some tbl"
  obtains attrs cols where "attributes_of stored_attributes (get_resource_key ty) = Some attrs" "attrs \<noteq> []" "set attrs \<subseteq> set (columns tbl)"
    "(tbl, cols) \<in> set table_columns" "columns tbl = map fst cols" "columns_ok (GENERAL_ATTR @ columns tbl)"
proof -
  have ty: "(ty, tbl) \<in> set table_names" using assms by (simp add: get_table_name_def map_of_SomeD)
  then have key: "get_resource_key ty = ''m2m:'' @ tbl" using type_keys by (auto simp: list_all_iff)
  have "tbl \<in> set (map (drop 4) (map fst (tl stored_attributes)))" using tables_known ty by force
  then have "''m2m:'' @ tbl \<in> set (map fst (tl stored_attributes))" unfolding table_keys by auto
  then obtain attrs where a: "(''m2m:'' @ tbl, attrs) \<in> set (tl stored_attributes)" by auto
  then have "(''m2m:'' @ tbl, attrs) \<in> set stored_attributes" by (cases "stored_attributes = []") (auto intro: list.set_sel(2))
  then have at: "attributes_of stored_attributes (get_resource_key ty) = Some attrs" unfolding key by (rule attributes_of_key [OF keys_distinct])
  have sub: "attrs \<noteq> []" "set attrs \<subseteq> set (columns tbl)" using bspec [OF attributes_columns [unfolded list_all_iff] a] by simp_all
  obtain g where t: "table_columns = (''general'', g) # tl table_columns" by (simp add: table_columns_def)
  have tb: "tbl \<in> fst ` set (tl table_columns)" "tbl \<noteq> ''general''"
    using tables_created ty no_general by force+
  then obtain cols where c: "map_of (tl table_columns) tbl = Some cols" by (metis map_of_eq_None_iff not_None_eq)
  then have "map_of table_columns tbl = Some cols" using tb(2) t by (metis map_of_Cons_code(2))
  then have cols: "columns tbl = map fst cols" "(tbl, cols) \<in> set table_columns" by (simp_all add: columns_def map_of_SomeD)
  have "columns_ok (GENERAL_ATTR @ columns tbl)"
    using tables_columns_ok map_of_SomeD [OF c] unfolding cols by (auto simp: list_all_iff)
  then show ?thesis using that [OF at sub cols(2,1)] by simp
qed

text \<open>
  C25. The schema has what the statements name: every resource type that has a table also has a list of stored
  attributes, the tables \<^verbatim>\<open>general\<close> and that of the type are created with a column for each general attribute and
  each attribute of the type, and the names of the columns of both are distinct, also when the server folds their case, so that a
  row of the join has each of them once.
\<close>

theorem schema_covers_attributes:
  assumes "get_table_name ty = Some tbl"
  shows "\<exists>attrs gcols cols. attributes_of stored_attributes (get_resource_key ty) = Some attrs \<and> attrs \<noteq> [] \<and>
    (''general'', create_sql ''general'' gcols) \<in> set table_definitions \<and> (tbl, create_sql tbl cols) \<in> set table_definitions \<and>
    set GENERAL_ATTR \<subseteq> fst ` set gcols \<and> set attrs \<subseteq> fst ` set cols \<and>
    distinct (map (map tolower \<circ> fst) (gcols @ cols))"
proof -
  obtain attrs cols where a: "attributes_of stored_attributes (get_resource_key ty) = Some attrs" "attrs \<noteq> []" "set attrs \<subseteq> set (columns tbl)"
    "(tbl, cols) \<in> set table_columns" "columns tbl = map fst cols" "columns_ok (GENERAL_ATTR @ columns tbl)"
    by (rule type_table [OF assms])
  have g: "(''general'', general_columns) \<in> set table_columns" by (simp add: table_columns_def)
  have gen: "map fst general_columns = GENERAL_ATTR" using columns_general by (simp add: columns_def table_columns_def)
  have created: "(t, create_sql t cs) \<in> set table_definitions" if "(t, cs) \<in> set table_columns" for t cs
    using that unfolding table_definitions_def by force
  have "distinct (map (map tolower) (map fst general_columns @ map fst cols))" using a(5,6) gen by (simp add: columns_ok_def)
  then have "distinct (map (map tolower \<circ> fst) (general_columns @ cols))" by (simp only: map_append map_map)
  moreover have "set GENERAL_ATTR \<subseteq> fst ` set general_columns" using gen by (metis image_set order_refl)
  moreover have "set attrs \<subseteq> fst ` set cols" using a(3,5) by simp
  ultimately show ?thesis using a(1,2) created [OF g] created [OF a(4)] by blast
qed

theorem schema_covers_attributes_witness:
  "\<exists>attrs cols. attributes_of stored_attributes (get_resource_key RT_CNT) = Some attrs \<and> (''cnt'', create_sql ''cnt'' cols) \<in> set table_definitions \<and>
     set attrs \<subseteq> fst ` set cols"
  using schema_covers_attributes [of RT_CNT "''cnt''"] by (auto simp: get_table_name_def table_names_def)

section \<open>The tables are created\<close>

definition init_statements :: "string list" where
  "init_statements = [''BEGIN''] @ map snd table_definitions @ map snd index_definitions @ [''COMMIT'']"

text \<open>A server that stays up and accepts the statements.\<close>

definition accepts :: "'w libpq \<Rightarrow> string list \<Rightarrow> bool" where
  "accepts L sqls \<longleftrightarrow> (\<forall>w. PQstatus L w \<and> list_all (\<lambda>sql. fst (PQexec L w sql) = PGRES_COMMAND_OK) sqls)"

abbreviation (input) executed :: "'w libpq \<Rightarrow> string list \<Rightarrow> 'w \<Rightarrow> 'w" where
  "executed L \<equiv> fold (\<lambda>sql w. snd (PQexec L w sql))"

lemma create_all_accepted:
  "accepts L sqls \<Longrightarrow> pg_conn s \<Longrightarrow> create_all L stale s sqls = (True, stale, s\<lparr>world := executed L sqls (world s)\<rparr>)"
proof (induction sqls arbitrary: s)
  case (Cons sql sqls)
  have up: "PQstatus L w" "fst (PQexec L w sql) = PGRES_COMMAND_OK" for w using Cons.prems(1) by (simp_all add: accepts_def)
  then have "execute_sql_with_error_handling L s sql = (True, s\<lparr>world := snd (PQexec L (world s) sql)\<rparr>)"
    using Cons.prems(2) by (simp add: execute_sql_with_error_handling_def get_pg_conn_def exec_def split_beta)
  moreover have "accepts L sqls" using Cons.prems(1) by (simp add: accepts_def)
  ultimately show ?case using Cons up by (simp add: replaces_def)
qed simp

lemma accepts_append [simp]: "accepts L (xs @ ys) \<longleftrightarrow> accepts L xs \<and> accepts L ys"
  by (auto simp: accepts_def)

text \<open>
  C26. On a server that accepts connections and statements \<^verbatim>\<open>init_dbp\<close> returns 1: exactly the statements of one transaction that
  creates all tables and indexes were executed, in the order of the definitions, the connection is open, and the lock is free.
\<close>

theorem init_dbp_creates_schema:
  assumes "\<not> pg_conn s" "pg_lock_initialized s \<longrightarrow> pg_conn_lock s = None"
    and "PQconnectdb L conninfo (world s) = (True, w)" "accepts L init_statements"
  shows "\<exists>s'. init_dbp L t s = Some (1, s') \<and> world s' = executed L init_statements w \<and>
    pg_conn s' \<and> pg_lock_initialized s' \<and> pg_conn_lock s' = None \<and> pg_conninfo s' = conninfo"
proof -
  define s0 where "s0 = (if pg_lock_initialized s then s else s\<lparr>pg_lock_initialized := True, pg_conn_lock := None\<rparr>)"
  then have s0: "pg_lock_initialized s0" "pg_conn_lock s0 = None" "\<not> pg_conn s0" "world s0 = world s"
    using assms(1,2) by simp_all
  let ?s = "s0\<lparr>pg_conn_lock := Some (t, 1), pg_conninfo := conninfo, world := w, pg_conn := True\<rparr>"
  have acc: "accepts L [''BEGIN'']" "accepts L (map snd table_definitions)" "accepts L (map snd index_definitions)" "accepts L [''COMMIT'']"
    using assms(4) unfolding init_statements_def accepts_append by simp_all
  have "snprintf 256 conninfo = conninfo" by (simp add: conninfo_def snprintf_def)
  then have "init_dbp L t s = Some (1, pg_unlock t (?s\<lparr>world := executed L init_statements w\<rparr>))"
    using s0 assms(3) unfolding init_statements_def init_dbp_def s0_def [symmetric]
    by (simp add: pg_lock_def get_pg_conn_def create_all_accepted [OF acc(1)] create_all_accepted [OF acc(2)]
        create_all_accepted [OF acc(3)] create_all_accepted [OF acc(4)] del: create_all.simps)
  then show ?thesis using s0 by (simp add: pg_unlock_def)
qed

text \<open>A server that keeps the statements it executed.\<close>

definition log_pq :: "string list libpq" where
  "log_pq =
     \<lparr>PQconnectdb = \<lambda>info w. (True, w), PQstatus = \<lambda>w. True, PQfinish = \<lambda>w. w, PQexec = \<lambda>w sql. (PGRES_COMMAND_OK, w @ [sql]),
      PQescapeStringConn = \<lambda>v. v, cJSON_Parse = \<lambda>v. None, cJSON_PrintUnformatted = \<lambda>j. []\<rparr>"

definition fresh_pg :: "string list pg" where
  "fresh_pg = \<lparr>world = [], pg_conn = False, pg_conninfo = [], pg_lock_initialized = False, pg_conn_lock = None,
     pg_tx_depth = 0, pg_tx_owner = 0, pg_tx_owner_valid = False\<rparr>"

lemma executed_log: "executed log_pq sqls w = w @ sqls"
  by (induction sqls arbitrary: w) (simp_all add: log_pq_def)

theorem init_dbp_creates_schema_witness:
  "\<exists>s'. init_dbp log_pq 1 fresh_pg = Some (1, s') \<and> world s' = init_statements \<and> pg_conn_lock s' = None"
proof -
  have "accepts log_pq init_statements" by (simp add: accepts_def log_pq_def list_all_iff)
  moreover have "PQconnectdb log_pq conninfo (world fresh_pg) = (True, [])" by (simp add: log_pq_def fresh_pg_def)
  ultimately show ?thesis using init_dbp_creates_schema [of fresh_pg log_pq "[]" 1] by (auto simp: fresh_pg_def executed_log)
qed

text \<open>Whatever the server answers, \<^verbatim>\<open>init_dbp\<close> and \<^verbatim>\<open>close_dbp\<close> release the lock they take.\<close>

lemma get_pg_conn_lock: "get_pg_conn L s = (ok, s') \<Longrightarrow> pg_conn_lock s' = pg_conn_lock s \<and> pg_lock_initialized s' = pg_lock_initialized s"
  by (auto simp: get_pg_conn_def Let_def split: if_splits prod.splits)

lemma execute_sql_lock:
  "execute_sql_with_error_handling L s sql = (ok, s') \<Longrightarrow> pg_conn_lock s' = pg_conn_lock s \<and> pg_lock_initialized s' = pg_lock_initialized s"
  by (auto simp: execute_sql_with_error_handling_def exec_def dest!: get_pg_conn_lock split: if_splits prod.splits)

lemma create_all_lock:
  "create_all L stale s sqls = (ok, stale', s') \<Longrightarrow> pg_conn_lock s' = pg_conn_lock s \<and> pg_lock_initialized s' = pg_lock_initialized s"
proof (induction sqls arbitrary: s stale)
  case (Cons sql sqls)
  obtain ok1 s1 where e: "execute_sql_with_error_handling L s sql = (ok1, s1)" by fastforce
  then show ?case using Cons execute_sql_lock [OF e] by (cases ok1) auto
qed simp

lemma unlock_free: "pg_lock_initialized s \<Longrightarrow> pg_conn_lock s = Some (t, 1) \<Longrightarrow> pg_conn_lock (pg_unlock t s) = None"
  by (simp add: pg_unlock_def)

lemma give_up_lock:
  "pg_lock_initialized s \<Longrightarrow> pg_conn_lock s = Some (t, 1) \<Longrightarrow> give_up L t stale s = Some (r, s') \<Longrightarrow> pg_conn_lock s' = None \<and> \<not> pg_conn s'"
  by (auto simp: give_up_def exec_def pg_unlock_def Let_def split: if_splits prod.splits)

lemma init_dbp_lock:
  assumes "pg_lock_initialized s \<longrightarrow> pg_conn_lock s = None" "init_dbp L t s = Some (r, s')"
  shows "pg_conn_lock s' = None"
proof -
  define s0 where "s0 = (if pg_lock_initialized s then s else s\<lparr>pg_lock_initialized := True, pg_conn_lock := None\<rparr>)"
  then have s0: "pg_lock_initialized s0" "pg_conn_lock s0 = None" using assms(1) by simp_all
  obtain ok s1 where g: "get_pg_conn L (s0\<lparr>pg_conn_lock := Some (t, 1), pg_conninfo := snprintf 256 conninfo\<rparr>) = (ok, s1)" by fastforce
  then have s1: "pg_lock_initialized s1" "pg_conn_lock s1 = Some (t, 1)" using get_pg_conn_lock [OF g] s0 by simp_all
  obtain okB stB sB where B: "create_all L False s1 [''BEGIN''] = (okB, stB, sB)" by (metis prod_cases3)
  obtain okT stT sT where T: "create_all L stB sB (map snd table_definitions) = (okT, stT, sT)" by (metis prod_cases3)
  obtain okI stI sI where I: "create_all L stT sT (map snd index_definitions) = (okI, stI, sI)" by (metis prod_cases3)
  obtain okC stC sC where C: "create_all L stI sI [''COMMIT''] = (okC, stC, sC)" by (metis prod_cases3)
  note locks = s1 create_all_lock [OF B] create_all_lock [OF T] create_all_lock [OF I] create_all_lock [OF C]
  have "(if \<not> ok then Some (0, pg_unlock t s1) else if \<not> okB then Some (0, pg_unlock t sB) else if \<not> okT then give_up L t stT sT
      else if \<not> okI then give_up L t stI sI else if okC then Some (1, pg_unlock t sC) else give_up L t stC sC) = Some (r, s')"
    using assms(2) s0 unfolding init_dbp_def s0_def [symmetric] by (simp add: pg_lock_def g B T I C del: create_all.simps One_nat_def cong: if_cong)
  then show ?thesis using locks by (auto dest: give_up_lock simp: unlock_free split: if_splits)
qed

lemma close_dbp_lock:
  "pg_conn_lock s = None \<Longrightarrow> \<exists>s'. close_dbp L t s = Some (1, s') \<and> \<not> pg_conn s' \<and> pg_conn_lock s' = None"
  by (auto simp: close_dbp_def pg_lock_def pg_unlock_def)

end
