(* ===== verification/PostgresProps.thy ===== *)
theory PostgresProps
  imports Schema
begin

text \<open>
  Theorems about the database layer: a transaction keeps out the operations of other threads that lock; the statements carry the
  values of a request in literals only; a stored resource reads back as it was; a deletion selects the
  subtree. What the theorems use of PostgreSQL is stated here: how it reads a literal and how
  \<^verbatim>\<open>LIKE\<close> matches.
\<close>

section \<open>Transactions of threads\<close>

text \<open>
  The operations on the database as steps of threads: all functions of the layer but the start and reset of the database, the queries of
  discovery and the counters of missing data.
\<close>

datatype db_op =
    Begin_Tx
  | Commit_Tx
  | Rollback_Tx
  | Store "cjson option" string
  | Update cjson string int
  | Delete rtnode
  | Evict_Cin "rtnode option"
  | Get string int
  | Get_By_Uri string int
  | Get_All
  | Get_Latest_Cins
  | Check_Name string string
  | Clear_Attribute string int string
  | Set_Lt string string
  | Check_Dgt string string
  | Tsi_Count string
  | Tsi_Max_Snr string
  | Tsi_Min_Snr string
  | Tsi_First_Ct string
  | Clear_Mdlt string
  | Cin_Laol "rtnode option" int
  | Cin_List "rtnode option" "unit cse"
  | Tsi_Laol "rtnode option" int
  | Store_Custom string "cjson option"
  | Update_Custom string "cjson option"
  | Get_Custom string
  | Fcin_List "rtnode option" "unit cse"
  | Fcin_Laol "rtnode option" int

text \<open>
  The functions on custom attributes and instances of flexContainers use the connection without the lock.
\<close>

fun takes_lock :: "db_op \<Rightarrow> bool" where
  "takes_lock (Store_Custom ri attrs) = False"
| "takes_lock (Update_Custom ri attrs) = False"
| "takes_lock (Get_Custom ri) = False"
| "takes_lock (Fcin_List n c) = False"
| "takes_lock (Fcin_Laol n laol) = False"
| "takes_lock _ = True"

fun run_op :: "'w libpq \<Rightarrow> nat \<Rightarrow> db_op \<Rightarrow> 'w pg \<Rightarrow> 'w pg option" where
  "run_op L t Begin_Tx s = map_option snd (db_begin_tx L t s)"
| "run_op L t Commit_Tx s = map_option snd (db_commit_tx L t s)"
| "run_op L t Rollback_Tx s = map_option snd (db_rollback_tx L t s)"
| "run_op L t (Store obj uri) s = map_option snd (db_store_resource L t s obj uri)"
| "run_op L t (Update obj ri ty) s = map_option snd (db_update_resource L t s obj ri ty)"
| "run_op L t (Delete n) s = map_option snd (db_delete_onem2m_resource L t s n)"
| "run_op L t (Evict_Cin n) s = map_option snd (db_delete_one_cin_mni L t s n)"
| "run_op L t (Get ri ty) s = map_option snd (db_get_resource L t s ri ty)"
| "run_op L t (Get_By_Uri uri ty) s = map_option snd (db_get_resource_by_uri L t s uri ty)"
| "run_op L t Get_All s = map_option snd (all_resources L t s)"
| "run_op L t Get_Latest_Cins s = map_option snd (latest_cins L t s)"
| "run_op L t (Check_Name rn p) s = map_option snd (db_check_cin_rn_dup L t s rn p)"
| "run_op L t (Clear_Attribute ri ty attr) s = map_option snd (db_clear_attribute L t s ri ty attr)"
| "run_op L t (Set_Lt ri lt) s = map_option snd (db_general_set_lt L t s ri lt)"
| "run_op L t (Check_Dgt ri dgt) s = map_option snd (db_tsi_check_dgt_dup L t s ri dgt)"
| "run_op L t (Tsi_Count ri) s = map_option snd (db_tsi_get_count L t s ri)"
| "run_op L t (Tsi_Max_Snr ri) s = map_option snd (db_tsi_get_max_snr L t s ri)"
| "run_op L t (Tsi_Min_Snr ri) s = map_option snd (db_tsi_get_min_snr L t s ri)"
| "run_op L t (Tsi_First_Ct ri) s = map_option snd (db_tsi_get_first_ct L t s ri)"
| "run_op L t (Clear_Mdlt ri) s = map_option snd (db_ts_clear_mdlt L t s ri)"
| "run_op L t (Cin_Laol n laol) s = map_option snd (db_get_cin_laol L t s n laol)"
| "run_op L t (Cin_List n c) s = map_option (snd \<circ> snd) (db_get_cin_rtnode_list L t s n c)"
| "run_op L t (Tsi_Laol n laol) s = map_option snd (db_get_tsi_laol L t s n laol)"
| "run_op L t (Store_Custom ri attrs) s = map_option snd (db_store_fcnt_custom_attributes L s ri attrs)"
| "run_op L t (Update_Custom ri attrs) s = map_option snd (db_update_fcnt_custom_attributes L s ri attrs)"
| "run_op L t (Get_Custom ri) s = map_option snd (db_get_fcnt_custom_attributes L s ri)"
| "run_op L t (Fcin_List n c) s = map_option (snd \<circ> snd) (db_get_fcin_rtnode_list L s n c)"
| "run_op L t (Fcin_Laol n laol) s = map_option snd (db_get_fcin_laol L s n laol)"

definition tx_init :: "'w pg \<Rightarrow> bool" where
  "tx_init s \<longleftrightarrow> pg_lock_initialized s \<and> pg_conn_lock s = None \<and> pg_tx_depth s = 0 \<and> \<not> pg_tx_owner_valid s"

inductive db_reachable :: "'w libpq \<Rightarrow> 'w pg \<Rightarrow> bool" for L where
  initial: "tx_init s \<Longrightarrow> db_reachable L s"
| step: "db_reachable L s \<Longrightarrow> run_op L t op s = Some s' \<Longrightarrow> db_reachable L s'"

text \<open>The lock is held exactly while there is an owner, once and by the owner.\<close>

definition tx_inv :: "'w pg \<Rightarrow> bool" where
  "tx_inv s \<longleftrightarrow> pg_lock_initialized s \<and> 0 \<le> pg_tx_depth s \<and>
     (if pg_tx_owner_valid s then pg_conn_lock s = Some (pg_tx_owner s, 1)
      else pg_conn_lock s = None \<and> pg_tx_depth s = 0)"

text \<open>A part of an operation that leaves lock and transaction alone.\<close>

definition quiet :: "'w pg \<Rightarrow> 'w pg \<Rightarrow> bool" where
  "quiet s s' \<longleftrightarrow> pg_lock_initialized s' = pg_lock_initialized s \<and> pg_conn_lock s' = pg_conn_lock s \<and>
     pg_tx_depth s' = pg_tx_depth s \<and> pg_tx_owner s' = pg_tx_owner s \<and> pg_tx_owner_valid s' = pg_tx_owner_valid s"

lemma quiet_refl [simp]: "quiet s s"
  by (simp add: quiet_def)

lemma quiet_trans: "quiet s s' \<Longrightarrow> quiet s' s'' \<Longrightarrow> quiet s s''"
  by (simp add: quiet_def)

text \<open>A computation that, started after \<open>s\<close>, leaves lock and transaction as they were in \<open>s\<close>.\<close>

definition settles :: "'w pg \<Rightarrow> ('a \<times> 'w pg) option \<Rightarrow> bool" where
  "settles s m \<longleftrightarrow> (\<forall>r s'. m = Some (r, s') \<longrightarrow> quiet s s')"

named_theorems settle

lemma settles_Some [settle]: "quiet s s' \<Longrightarrow> settles s (Some (r, s'))"
  by (simp add: settles_def)

lemma settles_None [settle]: "settles s None"
  by (simp add: settles_def)

lemma settles_if [settle]: "settles s a \<Longrightarrow> settles s b \<Longrightarrow> settles s (if c then a else b)"
  by simp

lemma settles_bind_pair:
  "settles s m \<Longrightarrow> (\<And>r s'. quiet s s' \<Longrightarrow> settles s (f r s')) \<Longrightarrow> settles s (m \<bind> (\<lambda>(r, s'). f r s'))"
  by (auto simp: settles_def)

lemma settles_bind: "(\<And>x. settles s (f x)) \<Longrightarrow> settles s (m \<bind> f)"
  by (auto simp: settles_def)

lemmas settles_in_buf [settle] = settles_bind [of s f "in_buf n t" for s f n t]
lemmas settles_PQgetvalue [settle] = settles_bind [of s f "PQgetvalue res r c" for s f res r c]
lemmas settles_map_option [settle] = settles_bind [of s f "map_option g x" for s f g x]

lemma settles_option [settle]:
  "settles s a \<Longrightarrow> (\<And>y. settles s (f y)) \<Longrightarrow> settles s (case x of None \<Rightarrow> a | Some y \<Rightarrow> f y)"
  by (cases x) auto

lemma settles_pair:
  "quiet s (snd p) \<Longrightarrow> (\<And>a b. quiet s b \<Longrightarrow> settles s (f a b)) \<Longrightarrow> settles s (case p of (a, b) \<Rightarrow> f a b)"
  by (auto split: prod.splits)

lemma quiet_exec [settle]: "quiet s0 s \<Longrightarrow> quiet s0 (snd (exec L s sql))"
  by (auto simp: exec_def quiet_def split_def Let_def)

lemma quiet_get_pg_conn [settle]: "quiet s0 s \<Longrightarrow> quiet s0 (snd (get_pg_conn L s))"
  by (auto simp: get_pg_conn_def quiet_def Let_def split_def)

lemma quiet_escape [settle]: "quiet s0 s \<Longrightarrow> quiet s0 (snd (pg_escape_string_value L s v))"
  using quiet_get_pg_conn [of s0 s L]
  by (auto simp: pg_escape_string_value_def Let_def split_def split: option.splits)

lemma quiet_start_tx [settle]: "quiet s0 s \<Longrightarrow> quiet s0 (snd (start_tx L s))"
  using quiet_exec [of s0 s L "''BEGIN''"] by (auto simp: start_tx_def Let_def split_def)

lemma quiet_end_tx [settle]: "quiet s0 s \<Longrightarrow> quiet s0 (snd (end_tx L b s))"
  using quiet_exec [of s0 s L "''COMMIT''"] by (auto simp: end_tx_def Let_def split_def)

lemma quiet_abort_tx [settle]: "quiet s0 s \<Longrightarrow> quiet s0 (abort_tx L b s)"
  using quiet_exec [of s0 s L "''ROLLBACK''"] by (auto simp: abort_tx_def)

lemma settles_escaped [settle]: "quiet s0 s \<Longrightarrow> settles s0 (escaped L s v)"
  using quiet_escape [of s0 s L v] by (auto simp: escaped_def settles_def split: prod.splits option.splits)

lemma settles_sql_value [settle]: "quiet s0 s \<Longrightarrow> settles s0 (sql_value L s j)"
  using quiet_escape [of s0 s L] settles_escaped [of s0 s L]
  by (auto simp: sql_value_def pg_format_json_value_def settles_def split: option.splits cjson.splits prod.splits)
    (metis snd_conv)+

lemma settles_sql_values [settle]: "quiet s0 s \<Longrightarrow> settles s0 (sql_values L s js)"
  by (induction js arbitrary: s) (auto intro!: settle settles_bind_pair)

lemma settles_store_statement [settle]: "quiet s0 s \<Longrightarrow> settles s0 (store_statement L s obj uri tbl attrs)"
  unfolding store_statement_def by (intro settle settles_bind_pair)

lemma settles_update_table [settle]: "quiet s0 s \<Longrightarrow> settles s0 (update_table L s obj tbl attrs pre ri post)"
  unfolding update_table_def assignments_def Let_def by (intro settle settles_bind_pair settles_pair)

lemma settles_read_row [settle]: "quiet s0 s \<Longrightarrow> settles s0 (read_row L s row)"
  unfolding read_row_def Let_def by (intro settle settles_pair)

lemma settles_read_rows [settle]: "quiet s0 s \<Longrightarrow> settles s0 (read_rows L s rows)"
  by (induction rows arbitrary: s) (auto intro!: settle settles_bind_pair)

text \<open>An operation in the frame of lock and connection leaves lock and transaction alone, and waits for the owner.\<close>

lemma with_conn_quiet:
  assumes "tx_inv s" "with_conn L t s r body = Some (x, s')" "\<And>s0 s. quiet s0 s \<Longrightarrow> settles s0 (body s)"
  shows "quiet s s' \<and> (pg_tx_owner_valid s \<longrightarrow> pg_tx_owner s = t)"
proof -
  obtain s1 where s1: "pg_lock t s = Some s1"
    using assms(2) by (auto simp: with_conn_def)
  obtain ok s2 where s2: "get_pg_conn L s1 = (ok, s2)" by fastforce
  have q: "quiet s1 s2" using quiet_get_pg_conn [OF quiet_refl, of s1 L] s2 by simp
  have "\<exists>s3. quiet s1 s3 \<and> s' = pg_unlock t s3"
  proof (cases ok)
    case True
    then show ?thesis using assms(2) s1 s2 assms(3) [OF q] by (auto simp: with_conn_def settles_def)
  next
    case False
    then show ?thesis using assms(2) s1 s2 q by (auto simp: with_conn_def)
  qed
  then obtain s3 where s3: "quiet s1 s3" "s' = pg_unlock t s3" by blast
  show ?thesis
  proof (cases "pg_tx_owner_valid s")
    case True
    then have l: "pg_lock_initialized s" "pg_conn_lock s = Some (pg_tx_owner s, 1)" using assms(1) by (simp_all add: tx_inv_def)
    then have "pg_tx_owner s = t" "s1 = s\<lparr>pg_conn_lock := Some (t, Suc (Suc 0))\<rparr>"
      using s1 by (auto simp: pg_lock_def split: if_splits)
    then show ?thesis using l s3 by (simp add: quiet_def pg_unlock_def)
  next
    case False
    then have l: "pg_lock_initialized s" "pg_conn_lock s = None" using assms(1) by (simp_all add: tx_inv_def)
    then have "s1 = s\<lparr>pg_conn_lock := Some (t, 1)\<rparr>" using s1 by (simp add: pg_lock_def)
    then show ?thesis using False l s3 by (simp add: quiet_def pg_unlock_def)
  qed
qed

text \<open>Whether an operation begins or ends a transaction.\<close>

fun is_tx :: "db_op \<Rightarrow> bool" where
  "is_tx Begin_Tx = True"
| "is_tx Commit_Tx = True"
| "is_tx Rollback_Tx = True"
| "is_tx _ = False"

lemmas settle_all = settle settles_bind_pair settles_pair

text \<open>An operation of a thread leaves lock and transaction alone and does not pass the owner; or it does nothing.\<close>

definition framed :: "nat \<Rightarrow> 'w pg \<Rightarrow> ('a \<times> 'w pg) option \<Rightarrow> bool" where
  "framed t s m \<longleftrightarrow> (\<forall>x s'. m = Some (x, s') \<longrightarrow> (quiet s s' \<and> (pg_tx_owner_valid s \<longrightarrow> pg_tx_owner s = t)) \<or> s' = s)"

lemma framed_with_conn: "tx_inv s \<Longrightarrow> (\<And>s0 s. quiet s0 s \<Longrightarrow> settles s0 (body s)) \<Longrightarrow> framed t s (with_conn L t s r body)"
  unfolding framed_def by (intro allI impI disjI1) (rule with_conn_quiet)

lemma framed_option: "framed t s a \<Longrightarrow> (\<And>y. framed t s (f y)) \<Longrightarrow> framed t s (case x of None \<Rightarrow> a | Some y \<Rightarrow> f y)"
  by (cases x) auto

lemma framed_Some: "framed t s (Some (r, s))"
  by (simp add: framed_def)

named_theorems framed_rules

lemma framed_store [framed_rules]: "tx_inv s \<Longrightarrow> framed t s (db_store_resource L t s obj uri)"
  unfolding db_store_resource_def Let_def by (rule framed_with_conn) (assumption, intro settle_all)

lemma framed_update [framed_rules]: "tx_inv s \<Longrightarrow> framed t s (db_update_resource L t s j ri ty)"
  unfolding db_update_resource_def Let_def by (rule framed_with_conn) (assumption, intro settle_all)

lemma framed_delete [framed_rules]: "tx_inv s \<Longrightarrow> framed t s (db_delete_onem2m_resource L t s n)"
  unfolding db_delete_onem2m_resource_def Let_def by (rule framed_with_conn) (assumption, intro settle_all)

lemma framed_evict [framed_rules]: "tx_inv s \<Longrightarrow> framed t s (db_delete_one_cin_mni L t s p)"
  unfolding db_delete_one_cin_mni_def Let_def by (rule framed_with_conn) (assumption, intro settle_all)

lemma framed_get [framed_rules]: "tx_inv s \<Longrightarrow> framed t s (db_get_resource L t s ri ty)"
  unfolding db_get_resource_def Let_def by (rule framed_with_conn) (assumption, intro settle_all)

lemma framed_get_by_uri [framed_rules]: "tx_inv s \<Longrightarrow> framed t s (db_get_resource_by_uri L t s uri ty)"
  unfolding db_get_resource_by_uri_def Let_def by (rule framed_with_conn) (assumption, intro settle_all)

lemma framed_get_all [framed_rules]: "tx_inv s \<Longrightarrow> framed t s (all_resources L t s)"
  unfolding all_resources_def Let_def by (rule framed_with_conn) (assumption, intro settle_all)

lemma framed_latest [framed_rules]: "tx_inv s \<Longrightarrow> framed t s (latest_cins L t s)"
  unfolding latest_cins_def Let_def by (rule framed_with_conn) (assumption, intro settle_all)

lemma framed_check_name [framed_rules]: "tx_inv s \<Longrightarrow> framed t s (db_check_cin_rn_dup L t s rn p)"
  unfolding db_check_cin_rn_dup_def Let_def by (rule framed_with_conn) (assumption, intro settle_all)

lemma framed_clear [framed_rules]: "tx_inv s \<Longrightarrow> framed t s (db_clear_attribute L t s ri ty attr)"
  unfolding db_clear_attribute_def ask_def Let_def
  by (intro framed_option framed_Some, rule framed_with_conn) (assumption, intro settle_all settles_bind [of s f "g res" for s f g res])

lemma framed_set_lt [framed_rules]: "tx_inv s \<Longrightarrow> framed t s (db_general_set_lt L t s ri lt)"
  unfolding db_general_set_lt_def db_general_update_lt_def Let_def by (rule framed_with_conn) (assumption, intro settle_all)

lemma framed_check_dgt [framed_rules]: "tx_inv s \<Longrightarrow> framed t s (db_tsi_check_dgt_dup L t s ri dgt)"
  unfolding db_tsi_check_dgt_dup_def Let_def by (rule framed_with_conn) (assumption, intro settle_all)

lemma framed_ask: "tx_inv s \<Longrightarrow> framed t s (ask L t s d n pre ri post f)"
  unfolding ask_def Let_def
  by (rule framed_with_conn) (assumption, intro settle_all settles_bind [of s f "g res" for s f g res])

lemma framed_time_series [framed_rules]:
  assumes "tx_inv s"
  shows "framed t s (db_tsi_get_count L t s ri)" "framed t s (db_tsi_get_max_snr L t s ri)"
    "framed t s (db_tsi_get_min_snr L t s ri)" "framed t s (db_tsi_get_first_ct L t s ri)"
    "framed t s (db_ts_clear_mdlt L t s ri)" "framed t s (db_get_tsi_laol L t s p laol)"
  using assms
  by (auto simp: db_tsi_get_count_def db_tsi_get_max_snr_def db_tsi_get_min_snr_def db_tsi_get_first_ct_def db_ts_clear_mdlt_def
      db_get_tsi_laol_def Let_def framed_Some split: option.split intro!: framed_ask)

lemma framed_cin_laol [framed_rules]: "tx_inv s \<Longrightarrow> framed t s (db_get_cin_laol L t s p laol)"
  unfolding db_get_cin_laol_def Let_def
  by (intro framed_option framed_Some framed_with_conn) (auto split: option.split intro!: settle_all)

lemma framed_cin_list [framed_rules]: "tx_inv s \<Longrightarrow> framed t s (map_option (\<lambda>r. ((), snd (snd r))) (db_get_cin_rtnode_list L t s p c))"
proof -
  assume inv: "tx_inv s"
  have "framed t s (with_conn L t s [] (\<lambda>s. do {
      (e, s) \<leftarrow> escaped L s (Some ri);
      sql \<leftarrow> in_buf 1024 (''SELECT * FROM general, cin WHERE general.pi='' @ quoted e @ '' AND general.id=cin.id ORDER BY general.id ASC;'');
      let (res, s) = exec L s sql;
      Some (instance_rows L RT_CIN res, s) }))" for ri
    unfolding Let_def by (rule framed_with_conn [OF inv]) (intro settle_all)
  then show ?thesis
    by (auto simp: framed_def db_get_cin_rtnode_list_def bind_eq_Some_conv split: option.splits)
qed

lemma framedD:
  "map_option snd m = Some s' \<Longrightarrow> framed t s m \<Longrightarrow> (quiet s s' \<and> (pg_tx_owner_valid s \<longrightarrow> pg_tx_owner s = t)) \<or> s' = s"
  "map_option (snd \<circ> snd) l = Some s' \<Longrightarrow> framed t s (map_option (\<lambda>r. ((), snd (snd r))) l) \<Longrightarrow>
     (quiet s s' \<and> (pg_tx_owner_valid s \<longrightarrow> pg_tx_owner s = t)) \<or> s' = s"
  by (auto simp: framed_def)

lemma run_op_framed:
  assumes "tx_inv s" "run_op L t op s = Some s'" "\<not> is_tx op" "takes_lock op"
  shows "(quiet s s' \<and> (pg_tx_owner_valid s \<longrightarrow> pg_tx_owner s = t)) \<or> s' = s"
  using assms(2-4)
  by (cases op) (simp_all only: run_op.simps is_tx.simps takes_lock.simps simp_thms,
      (erule framedD, rule framed_rules, rule assms(1))+)

text \<open>The operations that do not lock send statements, but keep lock and transaction.\<close>

lemma quiet_exec_conn [settle]: "quiet s0 s \<Longrightarrow> quiet s0 (snd (exec_conn L s sql))"
  by (simp add: exec_conn_def quiet_exec)

lemma settles_store_custom [settle]: "quiet s0 s \<Longrightarrow> settles s0 (db_store_fcnt_custom_attributes L s ri attrs)"
proof -
  assume q: "quiet s0 s"
  show ?thesis
  proof (cases attrs)
    case (Some a)
    obtain v s1 where v: "pg_escape_string_value L s (Some (cJSON_PrintUnformatted L a)) = (v, s1)" by fastforce
    then have "quiet s0 s1" using quiet_escape [OF q, of L "Some (cJSON_PrintUnformatted L a)"] by simp
    then show ?thesis
      using Some v unfolding db_store_fcnt_custom_attributes_def Let_def
      by (auto split: option.split intro!: settle_all quiet_exec_conn)
  qed (simp add: db_store_fcnt_custom_attributes_def settles_def q)
qed

lemma settles_get_custom [settle]: "quiet s0 s \<Longrightarrow> settles s0 (db_get_fcnt_custom_attributes L s ri)"
  unfolding db_get_fcnt_custom_attributes_def Let_def by (intro settle_all quiet_exec_conn)

lemma settles_fcin_laol: "quiet s0 s \<Longrightarrow> settles s0 (db_get_fcin_laol L s p laol)"
  unfolding db_get_fcin_laol_def Let_def
  by (auto split: option.split list.split cjson.split intro!: settle_all quiet_exec_conn settles_get_custom)

lemma quiet_fcin_list:
  assumes "db_get_fcin_rtnode_list L s p c = Some (h, c', s')"
  shows "quiet s s'"
proof (cases "case p of Some n \<Rightarrow> get_ri_rtnode n | None \<Rightarrow> None")
  case (Some ri)
  then obtain e s1 sql where "escaped L s (Some ri) = Some (e, s1)" "s' = snd (exec_conn L s1 sql)"
    using assms by (auto simp: db_get_fcin_rtnode_list_def bind_eq_Some_conv Let_def split_beta)
  then show ?thesis using settles_escaped [OF quiet_refl, of s L "Some ri"] quiet_exec_conn [of s s1 L sql] by (simp add: settles_def)
qed (use assms in \<open>simp add: db_get_fcin_rtnode_list_def\<close>)

lemma unlocked_quiet:
  assumes "run_op L t op s = Some s'" "\<not> takes_lock op"
  shows "quiet s s'"
  using assms settles_store_custom [OF quiet_refl, of s L] settles_get_custom [OF quiet_refl, of s L]
    settles_fcin_laol [OF quiet_refl, of s L] quiet_fcin_list [of L s]
  by (cases op) (auto simp: settles_def db_update_fcnt_custom_attributes_def)

text \<open>The steps that begin and end transactions keep the invariant, and refuse everybody but the owner.\<close>

lemma begin_inv:
  assumes "tx_inv s" "db_begin_tx L t s = Some (r, s')"
  shows "tx_inv s'"
proof (cases "pg_tx_owner_valid s")
  case True
  then have "pg_tx_owner s = t" using assms by (auto simp: db_begin_tx_def pg_lock_def tx_inv_def split: if_splits)
  then show ?thesis using True assms by (auto simp: db_begin_tx_def tx_inv_def add_int_def split: if_splits)
next
  case False
  let ?s = "s\<lparr>pg_conn_lock := Some (t, 1)\<rparr>"
  have l: "pg_lock t s = Some ?s" "pg_tx_depth s = 0" "pg_lock_initialized s" "pg_conn_lock s = None"
    using False assms(1) by (auto simp: tx_inv_def pg_lock_def)
  obtain ok s1 where s1: "get_pg_conn L ?s = (ok, s1)" by fastforce
  obtain res s2 where s2: "exec L s1 ''BEGIN'' = (res, s2)" by fastforce
  have q: "quiet ?s s1" "quiet ?s s2"
    using quiet_get_pg_conn [of ?s ?s L] quiet_exec [of ?s s1 L "''BEGIN''"] s1 s2 by auto
  show ?thesis using assms(2) False l s1 s2 q
    by (auto simp: db_begin_tx_def tx_inv_def quiet_def pg_unlock_def split: if_splits)
qed

lemma commit_inv:
  assumes "tx_inv s" "db_commit_tx L t s = Some (r, s')"
  shows "tx_inv s'"
proof (cases "pg_tx_owner_valid s \<and> pg_tx_owner s = t \<and> pg_tx_depth s \<noteq> 0")
  case True
  obtain res s2 where s2: "exec L (s\<lparr>pg_tx_depth := pg_tx_depth s - 1\<rparr>) ''COMMIT'' = (res, s2)" by fastforce
  have "quiet (s\<lparr>pg_tx_depth := pg_tx_depth s - 1\<rparr>) s2" using quiet_exec [OF quiet_refl] s2 by (metis snd_conv)
  then show ?thesis using assms True s2
    by (auto simp: db_commit_tx_def tx_inv_def quiet_def pg_unlock_def add_int_def Let_def split: if_splits)
next
  case False
  then show ?thesis using assms by (auto simp: db_commit_tx_def split: if_splits)
qed

lemma rollback_inv:
  assumes "tx_inv s" "db_rollback_tx L t s = Some (r, s')"
  shows "tx_inv s'"
proof (cases "pg_tx_owner_valid s \<and> pg_tx_owner s = t")
  case True
  obtain res s2 where s2: "exec L (s\<lparr>pg_tx_depth := 0\<rparr>) ''ROLLBACK'' = (res, s2)" by fastforce
  have "quiet (s\<lparr>pg_tx_depth := 0\<rparr>) s2" using quiet_exec [OF quiet_refl] s2 by (metis snd_conv)
  then show ?thesis using assms True s2
    by (auto simp: db_rollback_tx_def tx_inv_def quiet_def pg_unlock_def Let_def split: if_splits)
next
  case False
  then show ?thesis using assms by (auto simp: db_rollback_tx_def split: if_splits)
qed

lemma tx_inv_step:
  assumes "tx_inv s" "run_op L t op s = Some s'"
  shows "tx_inv s'"
proof (cases "is_tx op")
  case True
  then show ?thesis using assms by (cases op) (auto dest: begin_inv commit_inv rollback_inv)
next
  case False
  then have "quiet s s' \<or> s' = s" using run_op_framed [OF assms] unlocked_quiet [OF assms(2)] by blast
  then show ?thesis using assms(1) by (auto simp: quiet_def tx_inv_def)
qed

lemma tx_inv_reachable: "db_reachable L s \<Longrightarrow> tx_inv s"
proof (induction rule: db_reachable.induct)
  case (initial s)
  then show ?case by (simp add: tx_init_def tx_inv_def)
qed (rule tx_inv_step)

lemma other_thread:
  assumes "tx_inv s" "pg_tx_owner_valid s" "t \<noteq> pg_tx_owner s" "run_op L t op s = Some s'" "takes_lock op"
  shows "s' = s"
proof (cases "is_tx op")
  case True
  then show ?thesis using assms
    by (cases op) (auto simp: tx_inv_def db_begin_tx_def db_commit_tx_def db_rollback_tx_def pg_lock_def split: if_splits)
next
  case False
  then show ?thesis using run_op_framed [OF assms(1,4) _ assms(5)] assms(2,3) by auto
qed

text \<open>
  C7. Transactions and the lock: in every state the threads can reach, the lock is held exactly while there is a transaction, once
  and by its owner. While there is one, an operation of another thread that takes the lock waits or is refused and changes
  nothing at all. The functions on the custom attributes and the instances of flexContainers do not take the lock: they are not excluded, their
  statements run inside the transaction of the owner, and all that holds is that they leave the lock, the owner and the depth of
  the transaction as they are.
\<close>

theorem transaction_exclusive:
  assumes "db_reachable L s"
  shows "pg_conn_lock s = (if pg_tx_owner_valid s then Some (pg_tx_owner s, 1) else None) \<and>
    (pg_tx_owner_valid s \<longrightarrow> (\<forall>t op s'. t \<noteq> pg_tx_owner s \<longrightarrow> run_op L t op s = Some s' \<longrightarrow>
       (if takes_lock op then s' = s else quiet s s')))"
  using tx_inv_reachable [OF assms] other_thread [OF tx_inv_reachable [OF assms]] unlocked_quiet by (auto simp: tx_inv_def)

text \<open>A server that accepts every statement and answers every query with one table; it doubles quotes to escape them.\<close>

fun doubled :: "string \<Rightarrow> string" where
  "doubled [] = []"
| "doubled (ch # v) = (if ch = CHR 0x27 then [ch, ch] else [ch]) @ doubled v"

definition demo_pq :: "PGresult \<Rightarrow> (string \<Rightarrow> cjson option) \<Rightarrow> (cjson \<Rightarrow> string) \<Rightarrow> unit libpq" where
  "demo_pq answer parse print =
     \<lparr>PQconnectdb = \<lambda>info w. (True, w), PQstatus = \<lambda>w. True, PQfinish = \<lambda>w. w,
      PQexec = \<lambda>w sql. (if take 6 sql = ''SELECT'' then answer else PGRES_COMMAND_OK, w),
      PQescapeStringConn = doubled, cJSON_Parse = parse, cJSON_PrintUnformatted = print\<rparr>"

definition demo_state :: "unit pg" where
  "demo_state = \<lparr>world = (), pg_conn = True, pg_conninfo = [], pg_lock_initialized = True, pg_conn_lock = None,
     pg_tx_depth = 0, pg_tx_owner = 0, pg_tx_owner_valid = False\<rparr>"

theorem transaction_exclusive_witness:
  "\<exists>s. run_op (demo_pq PGRES_FATAL_ERROR (\<lambda>v. None) (\<lambda>j. [])) 1 Begin_Tx demo_state = Some s \<and> pg_conn_lock s = Some (1, 1) \<and>
     run_op (demo_pq PGRES_FATAL_ERROR (\<lambda>v. None) (\<lambda>j. [])) 2 Commit_Tx s = Some s"
proof -
  let ?L = "demo_pq PGRES_FATAL_ERROR (\<lambda>v. None) (\<lambda>j. [])"
  let ?s = "demo_state\<lparr>pg_conn_lock := Some (1, 1), pg_tx_depth := 1, pg_tx_owner := 1, pg_tx_owner_valid := True\<rparr>"
  have b: "run_op ?L 1 Begin_Tx demo_state = Some ?s"
    by (simp add: demo_state_def demo_pq_def db_begin_tx_def pg_lock_def get_pg_conn_def exec_def)
  have "db_reachable ?L demo_state" by (rule initial) (simp add: tx_init_def demo_state_def)
  then have "db_reachable ?L ?s" using b by (rule step)
  note x = transaction_exclusive [OF this]
  have "\<exists>s'. run_op ?L 2 Commit_Tx ?s = Some s'" by (simp add: db_commit_tx_def)
  then have "run_op ?L 2 Commit_Tx ?s = Some ?s" using x [THEN conjunct2, rule_format, of 2 Commit_Tx] by force
  then show ?thesis using b by (intro exI [of _ ?s] conjI) simp_all
qed

section \<open>Literals\<close>

text \<open>
  How PostgreSQL reads a statement (with standard conforming strings): a literal ends at a quote that is not
  doubled. A statement is a list of plain characters and literals.
\<close>

datatype sql_item = Outside char | Literal string

fun literal :: "string \<Rightarrow> (string \<times> string) option" where
  "literal [] = None"
| "literal [ch] = (if ch = CHR 0x27 then Some ([], []) else None)"
| "literal (ch # ch' # v) =
     (if ch \<noteq> CHR 0x27 then map_option (apfst ((#) ch)) (literal (ch' # v))
      else if ch' = CHR 0x27 then map_option (apfst ((#) ch)) (literal v)
      else Some ([], ch' # v))"

lemma literal_shorter: "literal v = Some (l, rest) \<Longrightarrow> length rest < length v"
  by (induction v arbitrary: l rule: literal.induct) (fastforce split: if_splits)+

function sql_items :: "string \<Rightarrow> sql_item list option" where
  "sql_items [] = Some []"
| "sql_items (ch # v) =
     (if ch \<noteq> CHR 0x27 then map_option ((#) (Outside ch)) (sql_items v)
      else (case literal v of None \<Rightarrow> None | Some (l, rest) \<Rightarrow> map_option ((#) (Literal l)) (sql_items rest)))"
  by pat_completeness auto
termination
  by (relation "measure length") (auto dest: literal_shorter)

definition no_quote :: "string \<Rightarrow> bool" where
  "no_quote v \<longleftrightarrow> CHR 0x27 \<notin> set v"

lemma no_quote_simps [simp]:
  "no_quote []" "no_quote (ch # v) \<longleftrightarrow> ch \<noteq> CHR 0x27 \<and> no_quote v" "no_quote (v @ w) \<longleftrightarrow> no_quote v \<and> no_quote w"
  by (auto simp: no_quote_def)

text \<open>The documented effect of \<^verbatim>\<open>PQescapeStringConn\<close>: between quotes the result reads as the value.\<close>

definition escapes :: "'w libpq \<Rightarrow> bool" where
  "escapes L \<longleftrightarrow> (\<forall>v post rest. no_quote post \<longrightarrow> take 1 rest \<noteq> [CHR 0x27] \<longrightarrow>
     literal (PQescapeStringConn L v @ post @ CHR 0x27 # rest) = Some (v @ post, rest))"

lemma literal_plain: "no_quote v \<Longrightarrow> literal w = Some (l, rest) \<Longrightarrow> literal (v @ w) = Some (v @ l, rest)"
proof (induction v)
  case (Cons ch v)
  then have "literal (v @ w) = Some (v @ l, rest)" by simp
  then show ?case using Cons.prems(1) by (cases "v @ w") auto
qed simp

lemma literal_end: "take 1 rest \<noteq> [CHR 0x27] \<Longrightarrow> literal (CHR 0x27 # rest) = Some ([], rest)"
  by (cases rest) auto

lemma literal_doubled: "literal w = Some (l, rest) \<Longrightarrow> literal (doubled v @ w) = Some (v @ l, rest)"
proof (induction v)
  case (Cons ch v)
  then show ?case by (cases "doubled v @ w") auto
qed simp

lemma demo_escapes: "escapes (demo_pq answer parse print)"
  unfolding escapes_def demo_pq_def libpq.simps
  by (intro allI impI literal_doubled) (simp add: literal_plain [where l = "[]", simplified] literal_end)

abbreviation (input) outside :: "string \<Rightarrow> sql_item list" where "outside v \<equiv> map Outside v"

lemma sql_items_plain: "no_quote v \<Longrightarrow> sql_items w = Some xs \<Longrightarrow> sql_items (v @ w) = Some (outside v @ xs)"
  by (induction v) auto

lemma sql_items_pattern:
  assumes "escapes L" "no_quote pre" "no_quote post" "take 1 w \<noteq> [CHR 0x27]" "sql_items w = Some xs"
  shows "sql_items (quoted (pre @ PQescapeStringConn L v @ post) @ w) = Some (Literal (pre @ v @ post) # xs)"
proof -
  have "literal (PQescapeStringConn L v @ post @ CHR 0x27 # w) = Some (v @ post, w)"
    using assms(1,3,4) unfolding escapes_def by blast
  then show ?thesis using literal_plain [OF assms(2)] assms(5) by (simp add: quoted_def)
qed

lemma sql_items_quoted:
  "escapes L \<Longrightarrow> take 1 w \<noteq> [CHR 0x27] \<Longrightarrow> sql_items w = Some xs \<Longrightarrow>
    sql_items (quoted (PQescapeStringConn L v) @ w) = Some (Literal v # xs)"
  using sql_items_pattern [of L "[]" "[]"] by simp

text \<open>What the text of an attribute is in a statement: the value of a string, an array or an object is one literal.\<close>

definition value_items :: "'w libpq \<Rightarrow> cjson option \<Rightarrow> sql_item list" where
  "value_items L j =
     (case j of
        Some (JString v) \<Rightarrow> [Literal v]
      | Some (JNumber n) \<Rightarrow> outside (print_int (valueint (JNumber n)))
      | Some JTrue \<Rightarrow> outside ''1''
      | Some JFalse \<Rightarrow> outside ''0''
      | Some JNull \<Rightarrow> outside ''NULL''
      | Some obj \<Rightarrow> [Literal (cJSON_PrintUnformatted L obj)]
      | None \<Rightarrow> outside ''NULL'')"

fun joined_items :: "sql_item list \<Rightarrow> sql_item list list \<Rightarrow> sql_item list" where
  "joined_items sep [] = []"
| "joined_items sep [x] = x"
| "joined_items sep (x # xs) = x @ sep @ joined_items sep xs"

definition online :: "'w libpq \<Rightarrow> 'w pg \<Rightarrow> bool" where
  "online L s \<longleftrightarrow> pg_conn s \<and> PQstatus L (world s)"

lemma escape_online [simp]: "online L s \<Longrightarrow> pg_escape_string_value L s (Some v) = (Some (PQescapeStringConn L v), s)"
  by (simp add: pg_escape_string_value_def get_pg_conn_def online_def)

lemma escaped_online [simp]: "online L s \<Longrightarrow> escaped L s (Some v) = Some (PQescapeStringConn L v, s)"
  by (simp add: escaped_def)

text \<open>On an open connection the text of a value depends on the value only.\<close>

definition value_text :: "'w libpq \<Rightarrow> cjson option \<Rightarrow> string" where
  "value_text L j =
     (case j of
        Some (JString v) \<Rightarrow> quoted (PQescapeStringConn L v)
      | Some (JNumber n) \<Rightarrow> print_int (valueint (JNumber n))
      | Some JTrue \<Rightarrow> ''1''
      | Some JFalse \<Rightarrow> ''0''
      | Some JNull \<Rightarrow> ''NULL''
      | Some obj \<Rightarrow> quoted (PQescapeStringConn L (cJSON_PrintUnformatted L obj))
      | None \<Rightarrow> ''NULL'')"

lemma sql_value_online: "online L s \<Longrightarrow> sql_value L s j = Some (value_text L j, s)"
  by (auto simp: sql_value_def value_text_def pg_format_json_value_def split: option.splits cjson.splits)

lemma sql_values_online: "online L s \<Longrightarrow> sql_values L s js = Some (map (value_text L) js, s)"
  by (induction js) (auto simp: sql_value_online)

lemma quote_no_digit: "\<not> is_digit (CHR 0x27)"
  by (simp add: is_digit_def)

lemma no_quote_print_int [simp]: "no_quote (print_int n)"
  using dec_digits quote_no_digit unfolding no_quote_def print_int_def by auto

lemma value_text_items:
  assumes "escapes L" "take 1 w \<noteq> [CHR 0x27]" "sql_items w = Some xs"
  shows "sql_items (value_text L j @ w) = Some (value_items L j @ xs)"
proof -
  have p: "no_quote v \<Longrightarrow> sql_items (v @ w) = Some (outside v @ xs)" for v by (rule sql_items_plain [OF _ assms(3)])
  note q = sql_items_quoted [OF assms]
  show ?thesis
    using p [of "''1''"] p [of "''0''"] p [of "''NULL''"] p [OF no_quote_print_int] q
    by (auto simp: value_text_def value_items_def split: option.splits cjson.splits)
qed

lemma values_items:
  assumes "escapes L" "take 1 w \<noteq> [CHR 0x27]" "sql_items w = Some xs"
  shows "sql_items (joined '','' (map (value_text L) js) @ w) = Some (joined_items (outside '','') (map (value_items L) js) @ xs)"
  using assms(2,3)
proof (induction js rule: induct_list012)
  case (2 j)
  then show ?case using value_text_items [OF assms(1)] by simp
next
  case (3 j k js)
  let ?w = "CHR '','' # joined '','' (map (value_text L) (k # js)) @ w"
  have "sql_items ?w = Some (outside '','' @ joined_items (outside '','') (map (value_items L) (k # js)) @ xs)"
    using 3 sql_items_plain [of "'',''"] by simp
  then show ?case using value_text_items [OF assms(1), of ?w] by simp
qed simp

lemma no_quote_joined: "no_quote sep \<Longrightarrow> list_all no_quote vs \<Longrightarrow> no_quote (joined sep vs)"
  by (induction sep vs rule: joined.induct) auto

lemma no_quote_attributes: "attributes_of stored_attributes key = Some attrs \<Longrightarrow> list_all no_quote attrs"
proof -
  have "list_all (\<lambda>(k, attrs). list_all no_quote attrs) stored_attributes" by (simp add: stored_attributes_def)
  moreover have "list_all (\<lambda>(k, attrs). list_all no_quote attrs) A \<Longrightarrow> attributes_of A key = Some attrs \<Longrightarrow> list_all no_quote attrs" for A
    by (induction A) (auto split: if_splits)
  ultimately show "attributes_of stored_attributes key = Some attrs \<Longrightarrow> list_all no_quote attrs" by blast
qed

lemma no_quote_table: "get_table_name ty = Some tbl \<Longrightarrow> no_quote tbl"
proof -
  have "list_all (\<lambda>(t, n). no_quote n) table_names" by (simp add: table_names_def)
  then show "get_table_name ty = Some tbl \<Longrightarrow> no_quote tbl"
    by (auto simp: get_table_name_def list_all_iff dest: map_of_SomeD)
qed

lemma no_quote_general: "no_quote (joined '','' GENERAL_ATTR)"
  by (intro no_quote_joined) (simp_all add: GENERAL_ATTR_def stored_attributes_def)

text \<open>The statement of a store as it is meant: the text of the program, and one item for every attribute.\<close>

definition general_value :: "cjson \<Rightarrow> string \<Rightarrow> string \<Rightarrow> cjson option" where
  "general_value obj uri attr = (if attr = ''uri'' then Some (JString uri) else cJSON_GetObjectItem (Some obj) attr)"

definition store_items :: "'w libpq \<Rightarrow> cjson \<Rightarrow> string \<Rightarrow> string \<Rightarrow> string list \<Rightarrow> sql_item list" where
  "store_items L obj uri tbl attrs =
     outside (''WITH ins AS (INSERT INTO general ('' @ joined '','' GENERAL_ATTR @ '') VALUES ('') @
     joined_items (outside '','') (map (\<lambda>attr. value_items L (general_value obj uri attr)) GENERAL_ATTR) @
     outside ('') RETURNING id) INSERT INTO '' @ tbl @ '' (id, '' @ joined '','' attrs @ '') SELECT id, '') @
     joined_items (outside '','') (map (\<lambda>attr. value_items L (cJSON_GetObjectItem (Some obj) attr)) attrs) @
     outside '' FROM ins;''"

lemma store_sql_items:
  assumes "escapes L" "no_quote tbl" "list_all no_quote attrs"
  shows "sql_items (store_sql (map (\<lambda>attr. value_text L (general_value obj uri attr)) GENERAL_ATTR) tbl attrs
      (map (\<lambda>attr. value_text L (cJSON_GetObjectItem (Some obj) attr)) attrs)) = Some (store_items L obj uri tbl attrs)"
proof -
  let ?a = "'' FROM ins;''"
  let ?b = "'') RETURNING id) INSERT INTO '' @ tbl @ '' (id, '' @ joined '','' attrs @ '') SELECT id, ''"
  let ?c = "''WITH ins AS (INSERT INTO general ('' @ joined '','' GENERAL_ATTR @ '') VALUES (''"
  have "sql_items (?a @ []) = Some (outside ?a @ [])" by (rule sql_items_plain) simp_all
  note values_items [OF assms(1) _ this, of "map (cJSON_GetObjectItem (Some obj)) attrs"]
  then have "sql_items (?b @ joined '','' (map (value_text L) (map (cJSON_GetObjectItem (Some obj)) attrs)) @ ?a) =
      Some (outside ?b @ joined_items (outside '','') (map (value_items L) (map (cJSON_GetObjectItem (Some obj)) attrs)) @ outside ?a)"
    using assms(2,3) by (intro sql_items_plain) (simp_all add: no_quote_joined)
  note values_items [OF assms(1) _ this, of "map (general_value obj uri) GENERAL_ATTR"]
  then have "sql_items (?c @ joined '','' (map (value_text L) (map (general_value obj uri) GENERAL_ATTR)) @
        ?b @ joined '','' (map (value_text L) (map (cJSON_GetObjectItem (Some obj)) attrs)) @ ?a) =
      Some (outside ?c @ joined_items (outside '','') (map (value_items L) (map (general_value obj uri) GENERAL_ATTR)) @
        outside ?b @ joined_items (outside '','') (map (value_items L) (map (cJSON_GetObjectItem (Some obj)) attrs)) @ outside ?a)"
    by (intro sql_items_plain) (simp_all add: no_quote_general)
  then show ?thesis by (simp add: store_sql_def store_items_def o_def)
qed

lemma store_statement_online:
  "online L s \<Longrightarrow> store_statement L s obj uri tbl attrs = map_option (\<lambda>sql. (sql, s)) (in_buf 4096
    (store_sql (map (value_text L) (map (general_value obj uri) GENERAL_ATTR)) tbl attrs
      (map (value_text L) (map (cJSON_GetObjectItem (Some obj)) attrs))))"
  by (simp add: store_statement_def sql_values_online o_def general_value_def in_buf_def)

text \<open>
  C8. A resource is stored by the statement the program means: on an open connection, the server reads in
  the statement exactly the text of the program, and every string, array or object of the resource as one
  literal with its value. No value of a request is read as SQL, whatever characters it has.
\<close>

theorem store_statement_literals:
  assumes "online L s" "escapes L" "get_table_name ty = Some tbl" "attributes_of stored_attributes (get_resource_key ty) = Some attrs"
    and "store_statement L s obj uri tbl attrs = Some (sql, s')"
  shows "s' = s \<and> length sql < 4096 \<and> sql_items sql = Some (store_items L obj uri tbl attrs)"
proof -
  note items = store_sql_items [OF assms(2) no_quote_table [OF assms(3)] no_quote_attributes [OF assms(4)], of obj uri]
  show ?thesis using assms(1,5) items
    by (auto simp: store_statement_online in_buf_def o_def split: if_splits)
qed

section \<open>Reading back\<close>

text \<open>The text a column has after the statement: that of the literal or the number; a null column reads as empty.\<close>

definition stored_text :: "'w libpq \<Rightarrow> cjson option \<Rightarrow> string" where
  "stored_text L j =
     (if j = None \<or> j = Some JNull then []
      else concat (map (\<lambda>x. case x of Outside ch \<Rightarrow> [ch] | Literal v \<Rightarrow> v) (value_items L j)))"

definition parses_scalar :: "'w libpq \<Rightarrow> string \<Rightarrow> bool" where
  "parses_scalar L txt \<longleftrightarrow> (case cJSON_Parse L txt of Some (JArray xs) \<Rightarrow> False | Some (JObject kvs) \<Rightarrow> False | _ \<Rightarrow> True)"

text \<open>
  The values that survive: texts that are not empty, not a number and not the text of an array or object;
  numbers in the range of int; arrays and objects that the parser gives back.
\<close>

definition survives :: "'w libpq \<Rightarrow> cjson option \<Rightarrow> bool" where
  "survives L j \<longleftrightarrow>
     (case j of
        None \<Rightarrow> True
      | Some (JString v) \<Rightarrow> v \<noteq> [] \<and> parses_scalar L v \<and> snd (snd (strtol v)) \<noteq> []
      | Some (JNumber n) \<Rightarrow> in_int n \<and> parses_scalar L (print_int n)
      | Some (JArray xs) \<Rightarrow> cJSON_PrintUnformatted L (JArray xs) \<noteq> [] \<and> cJSON_Parse L (cJSON_PrintUnformatted L (JArray xs)) = Some (JArray xs)
      | Some (JObject kvs) \<Rightarrow> cJSON_PrintUnformatted L (JObject kvs) \<noteq> [] \<and> cJSON_Parse L (cJSON_PrintUnformatted L (JObject kvs)) = Some (JObject kvs)
      | _ \<Rightarrow> False)"

lemma to_double_int: "in_int n \<Longrightarrow> to_double n = n"
proof -
  assume "in_int n"
  then have "\<bar>n\<bar> < 2 ^ 53" by (auto simp: in_int_def INT_MAX_def INT_MIN_def)
  then have "bitlen \<bar>n\<bar> \<le> 53" using bitlen_le_iff_power [of "\<bar>n\<bar>" 53] by simp
  then show "to_double n = n" by (simp add: to_double_def)
qed

lemma strtol_print_int: "in_int n \<Longrightarrow> strtol (print_int n) = (n, False, [])"
proof (cases "n < 0")
  case True
  let ?d = "dec (nat (- n))"
  have d: "takeWhile is_digit ?d \<noteq> []" "dropWhile is_digit ?d = []"
    using dec_digits [of _ "nat (- n)"] by (simp_all add: takeWhile_eq_Nil_iff)
  assume "in_int n"
  then have "LONG_MIN \<le> n" "n \<le> LONG_MAX" by (auto simp: in_int_def INT_MAX_def INT_MIN_def LONG_MIN_def LONG_MAX_def)
  moreover have "\<not> isspace (CHR ''-'')" by (simp add: isspace_def)
  ultimately show ?thesis using True d by (simp add: print_int_def strtol_def digits_val_dec Let_def)
next
  case False
  moreover assume "in_int n"
  ultimately have "nat n \<le> 2147483647" "0 \<le> n" by (auto simp: in_int_def INT_MAX_def)
  then show ?thesis using strtol_dec [of "nat n"] by (simp add: print_int_def)
qed

lemma print_int_nonempty [simp]: "print_int n \<noteq> []"
  by (simp add: print_int_def)

lemma concat_outside [simp]: "concat (map (case_sql_item (\<lambda>ch. [ch]) f \<circ> Outside) v) = v"
  by (induction v) auto

lemma survives_column:
  assumes "survives L (Some j)"
  shows "stored_text L (Some j) \<noteq> []" "c \<noteq> ''fcied'' \<Longrightarrow> column_value L b c (stored_text L (Some j)) = j"
proof -
  have s: "column_value L b c v = (case strtol v of (n, _, r) \<Rightarrow> if r = [] then JNumber (to_double n) else JString v)"
    if "parses_scalar L v" "c \<noteq> ''fcied''" for v
    using that by (auto simp: column_value_def parses_scalar_def Let_def split: option.splits cjson.splits prod.splits)
  show "stored_text L (Some j) \<noteq> []"
    using assms by (cases j) (auto simp: survives_def stored_text_def value_items_def)
  show "column_value L b c (stored_text L (Some j)) = j" if "c \<noteq> ''fcied''"
  proof (cases j)
    case (JNumber n)
    then show ?thesis using assms that s [of "print_int n"]
      by (simp add: survives_def stored_text_def value_items_def strtol_print_int to_double_int del: valueint.simps)
  next
    case (JString v)
    then show ?thesis using assms that s [of v]
      by (auto simp: survives_def stored_text_def value_items_def split: prod.splits)
  qed (use assms in \<open>auto simp: survives_def stored_text_def value_items_def column_value_def\<close>)
qed

text \<open>The columns of attributes in a row; PostgreSQL folds the names to lower case.\<close>

definition column :: "('a \<Rightarrow> string) \<Rightarrow> (string \<Rightarrow> 'a) \<Rightarrow> string \<Rightarrow> string \<times> string" where
  "column txt val attr = (map tolower attr, txt (val attr))"

lemma row_members_column:
  "row_members L b (map (column txt val) (a # as)) =
    (if txt (val a) = [] then [] else [(map tolower a, column_value L b (map tolower a) (txt (val a)))]) @ row_members L b (map (column txt val) as)"
  by (simp add: row_members_def column_def)

lemma find_no_column:
  "map tolower a \<notin> map tolower ` set as \<Longrightarrow> find_member (row_members L b (map (column txt val) as)) a = None"
proof (induction as)
  case (Cons x as)
  then show ?case unfolding row_members_column by (auto simp: ci_eq_def tolower_idem o_def)
qed (simp add: row_members_def)

lemma find_columns:
  assumes "distinct (map (map tolower) as)" "a \<in> set as"
  shows "find_member (row_members L b (map (column txt val) as)) a =
    (if txt (val a) = [] then None else Some (column_value L b (map tolower a) (txt (val a))))"
  using assms
proof (induction as)
  case (Cons x as)
  show ?case
  proof (cases "x = a")
    case True
    then have "map tolower a \<notin> map tolower ` set as" using Cons.prems(1) by simp
    then have "find_member (row_members L b (map (column txt val) as)) a = None" by (rule find_no_column)
    then show ?thesis using True unfolding row_members_column by (auto simp: ci_eq_def tolower_idem o_def)
  next
    case False
    then have "a \<in> set as" "map tolower x \<noteq> map tolower a" using Cons.prems by auto
    then show ?thesis using Cons unfolding row_members_column by (auto simp: ci_eq_def tolower_idem o_def)
  qed
qed simp

lemma no_id_columns:
  "''id'' \<notin> set (map (map tolower) as) \<Longrightarrow> no_id (map (column txt val) as) = map (column txt val) as"
proof -
  assume n: "''id'' \<notin> set (map (map tolower) as)"
  have "fst x \<in> set (map (map tolower) as)" if "x \<in> set (map (column txt val) as)" for x
    using that by (auto simp: column_def)
  then have "\<forall>x\<in>set (map (column txt val) as). fst x \<noteq> ''id''" using n by metis
  then show "no_id (map (column txt val) as) = map (column txt val) as"
    unfolding no_id_def by (simp add: filter_id_conv split_def)
qed

lemma with_conn_online:
  assumes "online L s" "pg_lock t s = Some s1" "body s1 = Some (r, s2)"
  shows "with_conn L t s d body = Some (r, pg_unlock t s2)"
proof -
  have "world s1 = world s" "pg_conn s1 = pg_conn s"
    using assms(2) by (auto simp: pg_lock_def split: if_splits option.splits)
  then have "get_pg_conn L s1 = (True, s1)" using assms(1) by (simp add: online_def get_pg_conn_def)
  then show ?thesis using assms(2,3) by (simp add: with_conn_def)
qed

lemma pg_lock_world: "pg_lock t s = Some s1 \<Longrightarrow> world s1 = world s"
  by (auto simp: pg_lock_def split: if_splits option.splits)

lemma row_reads_back:
  assumes "columns_ok (G @ as)" "a \<in> set (G @ as)" "survives L (val a)" "map tolower a \<noteq> ''fcied''"
  shows "cJSON_GetObjectItem (Some (JObject (row_members L True (no_id
      ((''id'', i) # map (column (stored_text L) val) G @ (''id'', i) # map (column (stored_text L) val) as))))) a = val a"
proof -
  have "no_id ((''id'', i) # map (column (stored_text L) val) G @ (''id'', i) # map (column (stored_text L) val) as) =
      no_id (map (column (stored_text L) val) (G @ as))"
    by (simp add: no_id_def)
  also have "\<dots> = map (column (stored_text L) val) (G @ as)" using assms(1) by (intro no_id_columns) (simp add: columns_ok_def)
  moreover have "find_member (row_members L True (map (column (stored_text L) val) (G @ as))) a =
      (if stored_text L (val a) = [] then None else Some (column_value L True (map tolower a) (stored_text L (val a))))"
    using assms(1,2) unfolding columns_ok_def by (intro find_columns) (elim conjE)
  ultimately have c: "cJSON_GetObjectItem (Some (JObject (row_members L True (no_id
      ((''id'', i) # map (column (stored_text L) val) G @ (''id'', i) # map (column (stored_text L) val) as))))) a =
      (if stored_text L (val a) = [] then None else Some (column_value L True (map tolower a) (stored_text L (val a))))"
    by simp
  show ?thesis
  proof (cases "val a")
    case None
    then show ?thesis using c by (simp add: stored_text_def)
  next
    case (Some j)
    then show ?thesis using c survives_column(1) [of L j] survives_column(2) [of L j "map tolower a" True] assms(3,4) by simp
  qed
qed

text \<open>
  The row of a resource in the join of the table \<^verbatim>\<open>general\<close> and that of its type: the columns of the schema, with the
  values that the statement of the store wrote; the other columns are null.
\<close>

definition stored_value :: "cjson \<Rightarrow> string \<Rightarrow> string list \<Rightarrow> string \<Rightarrow> cjson option" where
  "stored_value obj uri attrs a = (if a \<in> set (GENERAL_ATTR @ attrs) then general_value obj uri a else None)"

definition joined_row :: "'w libpq \<Rightarrow> string \<Rightarrow> cjson \<Rightarrow> string \<Rightarrow> string \<Rightarrow> string list \<Rightarrow> (string \<times> string) list" where
  "joined_row L i obj uri tbl attrs =
     (''id'', i) # map (column (stored_text L) (stored_value obj uri attrs)) (columns ''general'') @
     (''id'', i) # map (column (stored_text L) (stored_value obj uri attrs)) (columns tbl)"

text \<open>
  C9. A stored resource reads back: if the server answers with the row of the tables that holds what the statement of the store
  wrote, then \<^verbatim>\<open>db_get_resource\<close> returns an object in which every stored attribute has the value of the resource, provided
  the values are of the kinds that survive the conversion of columns.
\<close>

theorem stored_resource_reads_back:
  assumes "online L s" "pg_lock t s = Some s1" "length (by_ri_sql tbl ri) < 1024"
    and ty: "get_table_name ty = Some tbl" "attributes_of stored_attributes (get_resource_key ty) = Some attrs" "ty \<notin> {RT_FCNT, RT_FCIN}"
    and answer: "PQexec L (world s) (by_ri_sql tbl ri) = (PGRES_TUPLES_OK cols [vals], w)" "zip cols vals = joined_row L i obj uri tbl attrs"
    and kinds: "\<forall>a\<in>set (GENERAL_ATTR @ attrs). survives L (general_value obj uri a) \<and> map tolower a \<noteq> ''fcied''"
  shows "\<exists>r s'. db_get_resource L t s ri ty = Some (Some r, s') \<and> world s' = w \<and>
    (\<forall>a\<in>set (GENERAL_ATTR @ attrs). cJSON_GetObjectItem (Some r) a = general_value obj uri a)"
proof -
  let ?r = "JObject (row_members L True (no_id (zip cols vals)))"
  have c: "columns_ok (columns ''general'' @ columns tbl)" "set (GENERAL_ATTR @ attrs) \<subseteq> set (columns ''general'' @ columns tbl)"
    using type_table [OF ty(1)] ty(2) unfolding columns_general by (metis option.inject, metis Un_mono order_refl option.inject set_append)
  have "cJSON_GetObjectItem (Some ?r) a = general_value obj uri a" if "a \<in> set (GENERAL_ATTR @ attrs)" for a
    using row_reads_back [OF c(1), of a L "stored_value obj uri attrs" i] that c(2) kinds
    unfolding answer(2) joined_row_def by (auto simp: stored_value_def)
  moreover have "db_get_resource L t s ri ty = Some (Some ?r, pg_unlock t (s1\<lparr>world := w\<rparr>))"
    unfolding db_get_resource_def
    by (rule with_conn_online [OF assms(1,2)])
      (use assms(3) ty answer(1) pg_lock_world [OF assms(2)] in \<open>simp add: in_buf_def exec_def first_row_def\<close>)
  moreover have "world (pg_unlock t (s1\<lparr>world := w\<rparr>)) = w" by (simp add: pg_unlock_def split: option.splits prod.splits)
  ultimately show ?thesis by blast
qed

text \<open>A container whose name has a quote.\<close>

definition ex_name :: string where "ex_name = ''o'' @ [CHR 0x27] @ ''neill''"

definition ex_container :: cjson where
  "ex_container = JObject [(''rn'', JString ex_name), (''ri'', JString ''3-x1''), (''pi'', JString ''tinyiot''), (''ty'', JNumber 3),
     (''lbl'', JArray [JString ''a'']), (''cni'', JNumber 0)]"

definition ex_labels :: string where "ex_labels = ''['' @ [CHR 0x22] @ ''a'' @ [CHR 0x22] @ '']''"

abbreviation (input) ex_pq :: "PGresult \<Rightarrow> unit libpq" where
  "ex_pq answer \<equiv> demo_pq answer (\<lambda>v. if v = ex_labels then Some (JArray [JString ''a'']) else None) (\<lambda>j. ex_labels)"

definition cnt_attrs :: "string list" where
  "cnt_attrs = [''cr'', ''mni'', ''mbs'', ''mia'', ''st'', ''cni'', ''cbs'', ''at'', ''aa'', ''ast'']"

lemma cnt_attributes: "attributes_of stored_attributes (get_resource_key RT_CNT) = Some cnt_attrs" "get_table_name RT_CNT = Some ''cnt''"
  by (simp_all add: stored_attributes_def get_resource_key_def resource_key_table_def ci_eq_def tolower_simps cnt_attrs_def
      get_table_name_def table_names_def)

lemma ex_values:
  "map (general_value ex_container u) GENERAL_ATTR =
    [Some (JString ex_name), Some (JString ''3-x1''), Some (JString ''tinyiot''), None, None, None, Some (JString u), None,
     Some (JArray [JString ''a'']), Some (JNumber 3), None]"
  "map (cJSON_GetObjectItem (Some ex_container)) cnt_attrs = [None, None, None, None, None, Some (JNumber 0), None, None, None, None]"
  by (simp_all add: general_value_def ex_container_def GENERAL_ATTR_def stored_attributes_def cnt_attrs_def ci_eq_def tolower_simps)

lemma ex_online: "online (ex_pq answer) demo_state"
  by (simp add: online_def demo_pq_def demo_state_def)

theorem store_statement_literals_witness:
  "\<exists>sql. store_statement (ex_pq PGRES_FATAL_ERROR) demo_state ex_container (''TinyIoT/'' @ ex_name) ''cnt'' cnt_attrs = Some (sql, demo_state) \<and>
     sql_items sql = Some (store_items (ex_pq PGRES_FATAL_ERROR) ex_container (''TinyIoT/'' @ ex_name) ''cnt'' cnt_attrs) \<and>
     Literal ex_name \<in> set (store_items (ex_pq PGRES_FATAL_ERROR) ex_container (''TinyIoT/'' @ ex_name) ''cnt'' cnt_attrs)"
proof -
  let ?L = "ex_pq PGRES_FATAL_ERROR" and ?u = "''TinyIoT/'' @ ex_name"
  have "\<exists>sql. store_statement ?L demo_state ex_container ?u ''cnt'' cnt_attrs = Some (sql, demo_state)"
    unfolding store_statement_online [OF ex_online] ex_values
    by (simp add: in_buf_def store_sql_def value_text_def quoted_def demo_pq_def ex_name_def ex_labels_def
        cnt_attrs_def GENERAL_ATTR_def stored_attributes_def print_int_def dec_small INT_MAX_def INT_MIN_def)
  then obtain sql where s: "store_statement ?L demo_state ex_container ?u ''cnt'' cnt_attrs = Some (sql, demo_state)" by blast
  note store_statement_literals [OF ex_online demo_escapes cnt_attributes(2,1) this]
  moreover have "Literal ex_name \<in> set (store_items ?L ex_container ?u ''cnt'' cnt_attrs)"
    by (simp add: store_items_def GENERAL_ATTR_def stored_attributes_def general_value_def value_items_def ex_container_def)
  ultimately show ?thesis using s by blast
qed

theorem stored_resource_reads_back_witness:
  "\<exists>cols vals r s'. db_get_resource (ex_pq (PGRES_TUPLES_OK cols [vals])) 1 demo_state ''3-x1'' RT_CNT = Some (Some r, s') \<and>
     cJSON_GetObjectItem (Some r) ''rn'' = Some (JString ex_name) \<and> cJSON_GetObjectItem (Some r) ''lbl'' = Some (JArray [JString ''a''])"
proof -
  let ?val = "general_value ex_container ''TinyIoT/x''"
  define cells where "cells = joined_row (ex_pq PGRES_FATAL_ERROR) ''7'' ex_container ''TinyIoT/x'' ''cnt'' cnt_attrs"
  let ?L = "ex_pq (PGRES_TUPLES_OK (map fst cells) [map snd cells])"
  have st: "stored_text ?L = stored_text (ex_pq PGRES_FATAL_ERROR)"
    by (simp add: fun_eq_iff stored_text_def value_items_def demo_pq_def split: option.splits cjson.splits)
  have z: "zip (map fst cells) (map snd cells) = joined_row ?L ''7'' ex_container ''TinyIoT/x'' ''cnt'' cnt_attrs"
    unfolding joined_row_def st unfolding joined_row_def [symmetric] cells_def [symmetric] by (rule zip_map_fst_snd)
  have "\<forall>a\<in>set (GENERAL_ATTR @ cnt_attrs). survives ?L (?val a) \<and> map tolower a \<noteq> ''fcied''"
    by (simp add: GENERAL_ATTR_def stored_attributes_def cnt_attrs_def general_value_def ex_container_def ci_eq_def tolower_simps survives_def
        parses_scalar_def demo_pq_def ex_labels_def ex_name_def strtol_def is_digit_def isspace_def in_int_def INT_MAX_def INT_MIN_def
        print_int_def dec_small digit_def)
  note kinds = this
  have "\<exists>s1. pg_lock 1 demo_state = Some s1" by (simp add: pg_lock_def demo_state_def)
  then obtain s1 where l: "pg_lock 1 demo_state = Some s1" by blast
  have "length (by_ri_sql ''cnt'' ''3-x1'') < 1024" "RT_CNT \<notin> {RT_FCNT, RT_FCIN}"
    "PQexec ?L (world demo_state) (by_ri_sql ''cnt'' ''3-x1'') = (PGRES_TUPLES_OK (map fst cells) [map snd cells], ())"
    by (simp_all add: by_ri_sql_def quoted_def demo_pq_def)
  from stored_resource_reads_back [OF ex_online l this(1) cnt_attributes(2,1) this(2,3) z kinds]
  obtain r s' where r: "db_get_resource ?L 1 demo_state ''3-x1'' RT_CNT = Some (Some r, s')"
    "\<forall>a\<in>set (GENERAL_ATTR @ cnt_attrs). cJSON_GetObjectItem (Some r) a = ?val a" by blast
  have "{''rn'', ''lbl''} \<subseteq> set (GENERAL_ATTR @ cnt_attrs)" by (simp add: GENERAL_ATTR_def stored_attributes_def)
  then have "cJSON_GetObjectItem (Some r) ''rn'' = ?val ''rn''" "cJSON_GetObjectItem (Some r) ''lbl'' = ?val ''lbl''" using r(2) by blast+
  then show ?thesis using r(1)
    by (intro exI [of _ "map fst cells"] exI [of _ "map snd cells"] exI [of _ r] exI [of _ s'])
      (simp add: general_value_def ex_container_def ci_eq_def tolower_simps)
qed

section \<open>Patterns\<close>

text \<open>
  How \<^verbatim>\<open>LIKE\<close> matches: a percent sign any text, an underscore any character, and a backslash takes the next
  character as it is.
\<close>

fun like :: "string \<Rightarrow> string \<Rightarrow> bool" where
  "like [] t \<longleftrightarrow> t = []"
| "like (ch # p) [] \<longleftrightarrow> ch = CHR ''%'' \<and> like p []"
| "like (ch # p) (x # t) \<longleftrightarrow>
     (if ch = CHR ''%'' then like p (x # t) \<or> like (ch # p) t
      else if ch = CHR ''_'' then like p t
      else if ch = CHR 0x5C then (case p of [] \<Rightarrow> False | d # p' \<Rightarrow> x = d \<and> like p' t)
      else x = ch \<and> like p t)"

definition no_wildcard :: "string \<Rightarrow> bool" where
  "no_wildcard v \<longleftrightarrow> set v \<inter> {CHR ''%'', CHR ''_'', CHR 0x5C} = {}"

lemma like_plain: "no_wildcard v \<Longrightarrow> like (v @ p) t \<longleftrightarrow> (\<exists>r. t = v @ r \<and> like p r)"
proof (induction v arbitrary: t)
  case (Cons ch v)
  then have "no_wildcard v" "ch \<notin> {CHR ''%'', CHR ''_'', CHR 0x5C}" by (auto simp: no_wildcard_def)
  then show ?case using Cons.IH by (cases t) auto
qed simp

lemma like_percent: "like (CHR ''%'' # p) t \<longleftrightarrow> (\<exists>a b. t = a @ b \<and> like p b)"
proof (induction t)
  case (Cons x t)
  have "(\<exists>a b. x # t = a @ b \<and> like p b) \<longleftrightarrow> like p (x # t) \<or> (\<exists>a b. t = a @ b \<and> like p b)"
    by (auto simp: Cons_eq_append_conv)
  then show ?case using Cons by simp
qed simp

lemma like_below: "no_wildcard u \<Longrightarrow> like (u @ ''/%'') t \<longleftrightarrow> (\<exists>r. t = u @ ''/'' @ r)"
  using like_plain [of "u @ ''/''" "''%''" t] by (auto simp: no_wildcard_def like_percent)

text \<open>A name with an underscore matches resources below a sibling.\<close>

lemma like_underscore_sibling: "like (''TinyIoT/a_b'' @ ''/%'') ''TinyIoT/axb/c''"
  by simp

text \<open>The statements that read a resource are not escaped: a quote in the address ends the literal.\<close>

lemma by_uri_not_escaped:
  "sql_items (by_uri_sql ''cnt'' (''x'' @ [CHR 0x27] @ '' or ri='' @ [CHR 0x27] @ ''y'')) =
     Some (outside ''SELECT * FROM general, cnt WHERE general.uri='' @ [Literal ''x''] @ outside '' or ri='' @ [Literal ''y''] @
       outside '' and cnt.id=general.id;'')"
  by (simp add: by_uri_sql_def quoted_def)

text \<open>A name of digits comes back as a number, and no node can be made of it.\<close>

lemma numeric_name_breaks_restart:
  "cJSON_Parse L ''42'' = Some (JNumber 42) \<Longrightarrow>
    new_rtnode (JObject (row_members L False [(''rn'', ''42'')])) RT_CNT = None"
  by (simp add: row_members_def column_value_def strtol_def is_digit_def isspace_def LONG_MAX_def LONG_MIN_def Let_def member_string_def
      new_rtnode_def take_member_def restore_bool_def ci_eq_def tolower_simps)

lemma delete_sql_items:
  assumes "escapes L"
  shows "sql_items (delete_sql (PQescapeStringConn L uri) (PQescapeStringConn L ri)) =
    Some (outside ''DELETE FROM general WHERE uri LIKE '' @ [Literal (uri @ ''/%'')] @ outside '' OR ri='' @ [Literal ri] @ outside '';'')"
proof -
  have "sql_items ('' OR ri='' @ quoted (PQescapeStringConn L ri) @ '';'') = Some (outside '' OR ri='' @ Literal ri # outside '';'')"
    by (intro sql_items_plain sql_items_quoted assms) simp_all
  then have "sql_items (quoted (PQescapeStringConn L uri @ ''/%'') @ '' OR ri='' @ quoted (PQescapeStringConn L ri) @ '';'') =
      Some (Literal (uri @ ''/%'') # outside '' OR ri='' @ Literal ri # outside '';'')"
    using sql_items_pattern [OF assms, of "[]" "''/%''"] by simp
  then show ?thesis unfolding delete_sql_def by simp
qed

text \<open>
  C17. A deletion selects the subtree: \<^verbatim>\<open>db_delete_onem2m_resource\<close> sends one statement, and the server reads it as
  the deletion of the rows whose address matches the literal pattern made of the address of the resource, or
  that have its identifier; if the address has no character that is special in a pattern, the pattern
  matches exactly the addresses below it.
\<close>

theorem delete_selects_subtree:
  assumes "online L s" "pg_lock t s = Some s1" "escapes L" "get_ri_rtnode n = Some ri" "n_uri n = Some uri"
    and "length (delete_sql (PQescapeStringConn L uri) (PQescapeStringConn L ri)) < 1024"
  shows "\<exists>sql res w. PQexec L (world s) sql = (res, w) \<and>
    db_delete_onem2m_resource L t s n = Some (if res = PGRES_COMMAND_OK then 1 else 0, pg_unlock t (s1\<lparr>world := w\<rparr>)) \<and>
    sql_items sql = Some (outside ''DELETE FROM general WHERE uri LIKE '' @ [Literal (uri @ ''/%'')] @ outside '' OR ri='' @ [Literal ri] @ outside '';'') \<and>
    (no_wildcard uri \<longrightarrow> (\<forall>u. like (uri @ ''/%'') u \<longleftrightarrow> (\<exists>r. u = uri @ ''/'' @ r)))"
proof -
  let ?sql = "delete_sql (PQescapeStringConn L uri) (PQescapeStringConn L ri)"
  obtain res w where e: "PQexec L (world s) ?sql = (res, w)" by fastforce
  have o: "online L s1" using assms(1,2) by (auto simp: online_def pg_lock_def split: if_splits option.splits)
  have "db_delete_onem2m_resource L t s n = Some (if res = PGRES_COMMAND_OK then 1 else 0, pg_unlock t (s1\<lparr>world := w\<rparr>))"
    unfolding db_delete_onem2m_resource_def
    by (rule with_conn_online [OF assms(1,2)])
      (use assms(4-6) e o pg_lock_world [OF assms(2)] in \<open>simp add: in_buf_def exec_def get_uri_rtnode_def\<close>)
  then show ?thesis using e delete_sql_items [OF assms(3)] like_below by blast
qed

theorem delete_selects_subtree_witness:
  "\<exists>n s1. get_ri_rtnode n = Some ''3-x1'' \<and> n_uri n = Some ''TinyIoT/a'' \<and>
     db_delete_onem2m_resource (ex_pq PGRES_FATAL_ERROR) 1 demo_state n = Some (1, s1)"
proof -
  define n where "n = zero_node\<lparr>n_uri := Some ''TinyIoT/a'', n_obj := Some ex_container\<rparr>"
  have n: "get_ri_rtnode n = Some ''3-x1''" "n_uri n = Some ''TinyIoT/a''"
    by (simp_all add: n_def get_ri_rtnode_def ex_container_def member_string_def ci_eq_def tolower_simps)
  obtain s1 where l: "pg_lock 1 demo_state = Some s1" by (simp add: pg_lock_def demo_state_def)
  have len: "length (delete_sql (PQescapeStringConn (ex_pq PGRES_FATAL_ERROR) ''TinyIoT/a'') (PQescapeStringConn (ex_pq PGRES_FATAL_ERROR) ''3-x1'')) < 1024"
    by (simp add: demo_pq_def delete_sql_def quoted_def)
  obtain sql res w where r: "PQexec (ex_pq PGRES_FATAL_ERROR) (world demo_state) sql = (res, w)"
    "db_delete_onem2m_resource (ex_pq PGRES_FATAL_ERROR) 1 demo_state n = Some (if res = PGRES_COMMAND_OK then 1 else 0, pg_unlock 1 (s1\<lparr>world := w\<rparr>))"
    "sql_items sql = Some (outside ''DELETE FROM general WHERE uri LIKE '' @ [Literal (''TinyIoT/a'' @ ''/%'')] @ outside '' OR ri='' @ [Literal ''3-x1''] @ outside '';'')"
    using delete_selects_subtree [OF ex_online l demo_escapes n len] by blast
  have "take 6 sql \<noteq> ''SELECT''"
  proof
    assume "take 6 sql = ''SELECT''"
    then have "sql = CHR ''S'' # tl sql" by (cases sql) auto
    then have "sql_items (CHR ''S'' # tl sql) = sql_items sql" by simp
    then show False using r(3) by (auto simp: map_option_case split: option.splits)
  qed
  then have "res = PGRES_COMMAND_OK" using r(1) by (simp add: demo_pq_def)
  then show ?thesis using r(2) n by auto
qed

section \<open>Space\<close>

lemma literal_length: "literal v = Some (l, rest) \<Longrightarrow> length l + length rest < length v"
  by (induction v arbitrary: l rule: literal.induct) (fastforce split: if_splits)+

lemma escape_length: "escapes L \<Longrightarrow> length v \<le> length (PQescapeStringConn L v)"
proof -
  assume "escapes L"
  then have "literal (PQescapeStringConn L v @ [] @ CHR 0x27 # []) = Some (v @ [], [])"
    unfolding escapes_def by (metis no_quote_simps(1) not_Cons_self2 take_Nil)
  from literal_length [OF this] show ?thesis by simp
qed

lemma joined_length: "v \<in> set vs \<Longrightarrow> length v \<le> length (joined sep vs)"
  by (induction sep vs rule: joined.induct) auto

text \<open>
  The buffer of a store holds 4096 bytes and is filled without a bound: a statement is built exactly when
  it is shorter, so a resource with a text attribute of 4096 characters or more, for example the content of a
  content instance, overruns it.
\<close>

theorem store_overruns_buffer:
  assumes "online L s" "escapes L" "a \<in> set attrs" "cJSON_GetObjectItem (Some obj) a = Some (JString v)" "4096 \<le> length v"
  shows "store_statement L s obj uri tbl attrs = None"
proof -
  let ?vs = "map (value_text L) (map (cJSON_GetObjectItem (Some obj)) attrs)"
  have "value_text L (Some (JString v)) \<in> set ?vs" using assms(3,4) by (metis image_eqI list.set_map)
  then have "length (value_text L (Some (JString v))) \<le> length (joined '','' ?vs)" by (rule joined_length)
  then have "4096 \<le> length (joined '','' ?vs)" using assms(5) escape_length [OF assms(2), of v] by (simp add: value_text_def quoted_def)
  then show ?thesis using assms(1) by (simp add: store_statement_online in_buf_def store_sql_def)
qed

theorem store_overruns_buffer_witness:
  "store_statement (ex_pq PGRES_FATAL_ERROR) demo_state (JObject [(''con'', JString (replicate 5000 (CHR ''x'')))]) ''TinyIoT/x'' ''cin'' [''con''] = None"
  by (rule store_overruns_buffer [OF ex_online demo_escapes, of "''con''" _ _ "replicate 5000 (CHR ''x'')"]) (simp_all add: ci_eq_def)

end
