(* ===== verification/Discovery.thy ===== *)
theory Discovery
  imports Postgres AccessControl Response
begin

text \<open>
  The query for the descendants of a resource on PostgreSQL (\<^verbatim>\<open>db_get_descendants\<close> and its helper
  functions): the conditions of the filter criteria as SQL text, the policies that forbid discovery, the
  queries and the items made of their rows. The tree \<open>c\<close> and the connection \<open>s\<close> are passed side by
  side. Buffers are kept at their sizes: \<open>in_buf\<close> where the code writes without a bound,
  \<open>snprintf\<close> where it cuts.
\<close>

section \<open>Criteria as conditions\<close>

datatype FcOp =
    FC_OP_EQ | FC_OP_LT | FC_OP_GT | FC_OP_LE | FC_OP_GE
  | FC_OP_CONTAINS | FC_OP_STARTS_WITH | FC_OP_ENDS_WITH | FC_OP_IN_ARRAY | FC_OP_EXISTS

abbreviation (input) dquote :: string where "dquote \<equiv> [CHR 0x22]"

text \<open>The criteria on attributes of a type: name, type, column and comparison.\<close>

definition RES_FC_MAP :: "(string \<times> int \<times> string \<times> FcOp) list" where
  "RES_FC_MAP =
     [(''cty'', RT_CIN, ''cnf'', FC_OP_EQ), (''sza'', RT_CIN, ''cs'', FC_OP_GE), (''szb'', RT_CIN, ''cs'', FC_OP_LT),
      (''con'', RT_CIN, ''con'', FC_OP_EQ), (''cnf'', RT_CIN, ''cnf'', FC_OP_EQ), (''cs'', RT_CIN, ''cs'', FC_OP_EQ),
      (''cr'', RT_CIN, ''cr'', FC_OP_CONTAINS), (''sts'', RT_CIN, ''st'', FC_OP_LT), (''stb'', RT_CIN, ''st'', FC_OP_GE),
      (''st'', RT_CIN, ''st'', FC_OP_EQ),
      (''sts'', RT_CNT, ''st'', FC_OP_LT), (''stb'', RT_CNT, ''st'', FC_OP_GE), (''st'', RT_CNT, ''st'', FC_OP_EQ),
      (''mni'', RT_CNT, ''mni'', FC_OP_EQ), (''cni'', RT_CNT, ''cni'', FC_OP_EQ), (''cr'', RT_CNT, ''cr'', FC_OP_CONTAINS),
      (''api'', RT_AE, ''api'', FC_OP_EQ), (''aei'', RT_AE, ''aei'', FC_OP_EQ), (''apn'', RT_AE, ''apn'', FC_OP_CONTAINS),
      (''poa'', RT_AE, ''poa'', FC_OP_IN_ARRAY),
      (''mid'', RT_GRP, ''mid'', FC_OP_IN_ARRAY), (''macp'', RT_GRP, ''macp'', FC_OP_IN_ARRAY), (''gn'', RT_GRP, ''gn'', FC_OP_CONTAINS),
      (''nu'', RT_SUB, ''nu'', FC_OP_IN_ARRAY),
      (''pv'', RT_ACP, ''pv'', FC_OP_EXISTS), (''pvs'', RT_ACP, ''pvs'', FC_OP_EXISTS),
      (''lnk'', RT_ACPA, ''lnk'', FC_OP_EQ), (''lnk'', RT_AEA, ''lnk'', FC_OP_EQ), (''lnk'', RT_CNTA, ''lnk'', FC_OP_EQ),
      (''lnk'', RT_CINA, ''lnk'', FC_OP_EQ), (''lnk'', RT_CBA, ''lnk'', FC_OP_EQ), (''lnk'', RT_GRPA, ''lnk'', FC_OP_EQ),
      (''lnk'', RT_FCNTA, ''lnk'', FC_OP_EQ), (''lnk'', RT_TSA, ''lnk'', FC_OP_EQ)]"

definition get_res_specific_fc_attrs :: "cjson option \<Rightarrow> (string \<times> int \<times> string \<times> FcOp) list" where
  "get_res_specific_fc_attrs fc = filter (\<lambda>(short_name, _). cJSON_GetObjectItem fc short_name \<noteq> None) RES_FC_MAP"

definition fc_needs_ty :: "int \<Rightarrow> (string \<times> int \<times> string \<times> FcOp) list \<Rightarrow> bool" where
  "fc_needs_ty ty res_attrs \<longleftrightarrow> list_ex (\<lambda>(_, t, _). t = ty) res_attrs"

fun string_condition :: "FcOp \<Rightarrow> string \<Rightarrow> string \<Rightarrow> string" where
  "string_condition FC_OP_EQ col e = col @ '' = '' @ quoted e"
| "string_condition FC_OP_CONTAINS col e = col @ '' LIKE '' @ quoted (''%'' @ e @ ''%'')"
| "string_condition FC_OP_IN_ARRAY col e = col @ '' LIKE '' @ quoted (''%'' @ dquote @ e @ dquote @ ''%'')"
| "string_condition FC_OP_STARTS_WITH col e = col @ '' LIKE '' @ quoted (e @ ''%'')"
| "string_condition _ col e = col @ '' LIKE '' @ quoted (''%'' @ e)"

fun number_condition :: "FcOp \<Rightarrow> string \<Rightarrow> int \<Rightarrow> string option" where
  "number_condition FC_OP_EQ col n = Some (col @ '' = '' @ print_int n)"
| "number_condition FC_OP_LT col n = Some (col @ '' < '' @ print_int n)"
| "number_condition FC_OP_GT col n = Some (col @ '' > '' @ print_int n)"
| "number_condition FC_OP_LE col n = Some (col @ '' <= '' @ print_int n)"
| "number_condition FC_OP_GE col n = Some (col @ '' >= '' @ print_int n)"
| "number_condition _ col n = None"

text \<open>A number as an \<^verbatim>\<open>int\<close>; a conversion out of range is undefined.\<close>

definition to_int :: "cjson \<Rightarrow> int option" where
  "to_int j = (case j of JNumber n \<Rightarrow> if in_int n then Some n else None | _ \<Rightarrow> Some 0)"

text \<open>
  \<^verbatim>\<open>fc_to_query\<close> writes the condition into the buffer, which keeps its contents when the value has no
  such comparison.
\<close>

definition fc_to_query :: "'w libpq \<Rightarrow> 'w pg \<Rightarrow> string \<Rightarrow> string \<Rightarrow> FcOp \<Rightarrow> cjson \<Rightarrow> (string \<times> 'w pg) option" where
  "fc_to_query L s buf col op val =
     (case val of
        JString str \<Rightarrow>
          if str = [] then Some (buf, s)
          else
            let (e, s) = pg_escape_string_value L s (Some str)
            in if op \<in> {FC_OP_LT, FC_OP_GT, FC_OP_LE, FC_OP_GE} then Some (buf, s)
               else if op = FC_OP_EXISTS then Some (snprintf 512 (col @ '' IS NOT NULL''), s)
               else do { e \<leftarrow> e; Some (snprintf 512 (string_condition op col e), s) }
      | JNumber n \<Rightarrow>
          do {
            n \<leftarrow> to_int (JNumber n);
            Some (case number_condition op col n of Some txt \<Rightarrow> snprintf 512 txt | None \<Rightarrow> buf, s) }
      | _ \<Rightarrow> Some (buf, s))"

text \<open>The operator between criteria; \<^verbatim>\<open>fo\<close> must be a number that an unsigned int can hold.\<close>

definition fo_op :: "cjson \<Rightarrow> int option" where
  "fo_op fc =
     (case cJSON_GetObjectItem (Some fc) ''fo'' of
        Some (JNumber n) \<Rightarrow> if 0 \<le> n \<and> n < 4294967296 then Some n else None
      | _ \<Rightarrow> None)"

definition fo_name :: "int \<Rightarrow> string option" where
  "fo_name op =
     (if op = 0 then Some [] else if op = 1 then Some ''AND'' else if op = 2 then Some ''OR''
      else if op = 3 then Some ''XOR'' else None)"

definition connective :: "bool \<Rightarrow> int \<Rightarrow> string option" where
  "connective and_flag op = (if and_flag then Some ''AND ('' else fo_name op)"

section \<open>Policies that forbid discovery\<close>

text \<open>
  The addresses of the policies in the tree that do not grant the operations; a policy without an
  address is left out. \<^verbatim>\<open>getNonDiscoverableAcp\<close> is the same loop for discovery.
\<close>

partial_function (option) getNoPermAcopDiscovery ::
    "'d env \<Rightarrow> 'd cse \<Rightarrow> oneM2MPrimitive \<Rightarrow> ptr \<Rightarrow> int \<Rightarrow> (string list \<times> 'd cse) option" where
  "getNoPermAcopDiscovery E c o2pt p acop =
     (case p of
        None \<Rightarrow> Some ([], c)
      | Some a \<Rightarrow>
          do {
            n \<leftarrow> heap c a;
            (own, c) \<leftarrow>
              (if n_ty n = RT_ACP
               then do {
                 fr \<leftarrow> p_fr o2pt;
                 (r, c) \<leftarrow> get_acop_origin E c o2pt fr (Some a) False;
                 Some (if and r acop \<noteq> acop then (case n_uri n of Some u \<Rightarrow> [u] | None \<Rightarrow> []) else [], c) }
               else Some ([], c));
            n \<leftarrow> heap c a;
            (below, c) \<leftarrow> (if n_child n = None then Some ([], c) else getNoPermAcopDiscovery E c o2pt (n_child n) acop);
            n \<leftarrow> heap c a;
            (right, c) \<leftarrow> getNoPermAcopDiscovery E c o2pt (n_sibling_right n) acop;
            Some (own @ below @ right, c) })"

definition getNonDiscoverableAcp :: "'d env \<Rightarrow> 'd cse \<Rightarrow> oneM2MPrimitive \<Rightarrow> ptr \<Rightarrow> (string list \<times> 'd cse) option" where
  "getNonDiscoverableAcp E c o2pt p = getNoPermAcopDiscovery E c o2pt p ACOP_DISCOVERY"

fun acpi_conditions :: "'w libpq \<Rightarrow> 'w pg \<Rightarrow> string list \<Rightarrow> (string list \<times> 'w pg) option" where
  "acpi_conditions L s [] = Some ([], s)"
| "acpi_conditions L s (acp # acps) =
     do {
       (e, s) \<leftarrow> escaped L s (Some acp);
       condition \<leftarrow> in_buf 512 (''acpi LIKE '' @ quoted (''%'' @ dquote @ e @ dquote @ ''%''));
       (cs, s) \<leftarrow> acpi_conditions L s acps;
       Some (condition # cs, s) }"

definition getForbiddenUri :: "'w libpq \<Rightarrow> nat \<Rightarrow> 'w pg \<Rightarrow> string list \<Rightarrow> (string list \<times> 'w pg) option" where
  "getForbiddenUri L t s acp_list =
     (if acp_list = [] then Some ([], s)
      else
        with_conn L t s [] (\<lambda>s.
          do {
            (conditions, s) \<leftarrow> acpi_conditions L s acp_list;
            sql \<leftarrow> in_buf 2048 (''SELECT uri FROM general WHERE '' @ joined '' OR '' conditions @ '';'');
            let (res, s) = exec L s sql;
            Some (filter (\<lambda>u. u \<noteq> []) (List.map_filter (\<lambda>r. PQgetvalue res r 0) [0..<PQntuples res]), s) }))"

fun uri_conditions :: "'w libpq \<Rightarrow> 'w pg \<Rightarrow> string \<Rightarrow> string list \<Rightarrow> (string list \<times> 'w pg) option" where
  "uri_conditions L s post [] = Some ([], s)"
| "uri_conditions L s post (u # us) =
     do {
       (e, s) \<leftarrow> escaped L s (Some u);
       buf \<leftarrow> in_buf 512 (''uri NOT LIKE '' @ quoted (e @ post));
       (cs, s) \<leftarrow> uri_conditions L s post us;
       Some (buf # cs, s) }"

text \<open>The condition that leaves out the resources with one of the policies.\<close>

definition forbid :: "'w libpq \<Rightarrow> nat \<Rightarrow> 'w pg \<Rightarrow> string \<Rightarrow> string list \<Rightarrow> (string \<times> 'w pg) option" where
  "forbid L t s post acp_list =
     do {
       (forbidden, s) \<leftarrow> getForbiddenUri L t s acp_list;
       (cs, s) \<leftarrow> uri_conditions L s post forbidden;
       Some (if cs = [] then [] else '' AND ('' @ joined '' AND '' cs @ '')'', s) }"

definition append_forbidden ::
  "'w libpq \<Rightarrow> nat \<Rightarrow> 'd env \<Rightarrow> oneM2MPrimitive \<Rightarrow> cjson \<Rightarrow> 'd cse \<Rightarrow> 'w pg \<Rightarrow> (string \<times> 'd cse \<times> 'w pg) option" where
  "append_forbidden L t E o2pt fc c s =
     do {
       (acps, c) \<leftarrow> getNonDiscoverableAcp E c o2pt (cb c);
       (x, s) \<leftarrow> forbid L t s [] acps;
       (case cJSON_GetObjectItem (Some fc) ''ops'' of
          None \<Rightarrow> Some (x, c, s)
        | Some ops \<Rightarrow>
            do {
              (acps, c) \<leftarrow> getNoPermAcopDiscovery E c o2pt (cb c) (valueint ops);
              (y, s) \<leftarrow> forbid L t s ''%'' acps;
              Some (x @ y, c, s) }) }"

section \<open>The conditions of a query\<close>

text \<open>
  A condition of the general table: the operator, then the text; the first one opens the
  parenthesis. \<open>acc\<close> is the flag and the text so far.
\<close>

definition join_condition :: "int \<Rightarrow> bool \<times> string \<Rightarrow> string \<Rightarrow> (bool \<times> string) option" where
  "join_condition op acc txt =
     do {
       k \<leftarrow> connective (fst acc) op;
       buf \<leftarrow> in_buf 512 ('' '' @ k @ '' '' @ txt);
       Some (False, snd acc @ buf) }"

definition append_time ::
  "'w libpq \<Rightarrow> cjson \<Rightarrow> int \<Rightarrow> string \<times> string \<Rightarrow> (bool \<times> string) \<times> 'w pg \<Rightarrow> ((bool \<times> string) \<times> 'w pg) option" where
  "append_time L fc op crit st =
     (case cJSON_GetObjectItem (Some fc) (fst crit) of
        None \<Rightarrow> Some st
      | Some p \<Rightarrow>
          (case pg_escape_string_value L (snd st) (valuestring p) of
             (None, s) \<Rightarrow> Some (fst st, s)
           | (Some e, s) \<Rightarrow> do { acc \<leftarrow> join_condition op (fst st) (snd crit @ quoted e); Some (acc, s) }))"

definition time_criteria :: "(string \<times> string) list" where
  "time_criteria =
     [(''cra'', ''ct > ''), (''crb'', ''ct <= ''), (''exa'', ''et > ''), (''exb'', ''et <= ''), (''ms'', ''lt > ''), (''us'', ''lt <= '')]"

fun append_times ::
  "'w libpq \<Rightarrow> cjson \<Rightarrow> int \<Rightarrow> (string \<times> string) list \<Rightarrow> (bool \<times> string) \<times> 'w pg \<Rightarrow> ((bool \<times> string) \<times> 'w pg) option" where
  "append_times L fc op [] st = Some st"
| "append_times L fc op (crit # crits) st = do { st \<leftarrow> append_time L fc op crit st; append_times L fc op crits st }"

fun ty_conditions :: "cjson list \<Rightarrow> string list option" where
  "ty_conditions [] = Some []"
| "ty_conditions (j # js) = do { n \<leftarrow> to_int j; cs \<leftarrow> ty_conditions js; Some ((''ty = '' @ print_int n) # cs) }"

definition append_ty :: "cjson \<Rightarrow> int \<Rightarrow> bool \<times> string \<Rightarrow> (bool \<times> string) option" where
  "append_ty fc op acc =
     (case cJSON_GetObjectItem (Some fc) ''ty'' of
        None \<Rightarrow> Some acc
      | Some p \<Rightarrow>
          do {
            cs \<leftarrow> (case p of JArray js \<Rightarrow> ty_conditions js | JNumber n \<Rightarrow> ty_conditions [p] | _ \<Rightarrow> Some []);
            k \<leftarrow> connective (fst acc) op;
            Some (False, snd acc @ '' '' @ k @ '' ('' @ joined '' OR '' cs @ '')'') })"

text \<open>An element of the labels that is no string leaves an empty condition.\<close>

fun lbl_conditions :: "'w libpq \<Rightarrow> 'w pg \<Rightarrow> cjson list \<Rightarrow> (string list \<times> 'w pg) option" where
  "lbl_conditions L s [] = Some ([], s)"
| "lbl_conditions L s (j # js) =
     do {
       let (e, s) = pg_escape_string_value L s (valuestring j);
       txt \<leftarrow> (case e of Some e \<Rightarrow> in_buf 512 (''lbl LIKE '' @ quoted (''%'' @ dquote @ e @ dquote @ ''%'')) | None \<Rightarrow> Some []);
       (cs, s) \<leftarrow> lbl_conditions L s js;
       Some (txt # cs, s) }"

definition append_lbl :: "'w libpq \<Rightarrow> cjson \<Rightarrow> int \<Rightarrow> (bool \<times> string) \<times> 'w pg \<Rightarrow> ((bool \<times> string) \<times> 'w pg) option" where
  "append_lbl L fc op st =
     (case cJSON_GetObjectItem (Some fc) ''lbl'' of
        None \<Rightarrow> Some st
      | Some p \<Rightarrow>
          do {
            (cs, s) \<leftarrow> lbl_conditions L (snd st) (case p of JArray js \<Rightarrow> js | JString v \<Rightarrow> [p] | _ \<Rightarrow> []);
            k \<leftarrow> connective (fst (fst st)) op;
            Some ((False, snd (fst st) @ '' '' @ k @ '' ('' @ joined '' OR '' cs @ '')''), s) })"

text \<open>Descendants deeper than the level are left out; the pattern is longer by \<^verbatim>\<open>/%%\<close> for each level.\<close>

definition level_condition :: "string \<Rightarrow> cjson \<Rightarrow> string option" where
  "level_condition esc_uri fc =
     (case cJSON_GetObjectItem (Some fc) ''lvl'' of
        None \<Rightarrow> Some []
      | Some p \<Rightarrow>
          do {
            n \<leftarrow> to_int p;
            _ \<leftarrow> in_buf 512 ('' AND uri NOT LIKE '' @ CHR 0x27 # esc_uri @ ''/%'');
            Some ('' AND uri NOT LIKE '' @ quoted (esc_uri @ ''/%'' @ concat (replicate (nat n) ''/%%''))) })"

text \<open>
  The general conditions in a buffer of 3000 bytes. The result is whether no criterion was added yet (the
  parenthesis is not open), the text, and the criteria without \<^verbatim>\<open>arp\<close>.
\<close>

definition append_general_fc ::
  "'w libpq \<Rightarrow> nat \<Rightarrow> 'd env \<Rightarrow> oneM2MPrimitive \<Rightarrow> cjson \<Rightarrow> string \<Rightarrow> bool \<Rightarrow> 'd cse \<Rightarrow> 'w pg \<Rightarrow>
    (bool \<times> string \<times> cjson \<times> 'd cse \<times> 'w pg) option" where
  "append_general_fc L t E o2pt fc esc_uri is_discover c s =
     do {
       op \<leftarrow> fo_op fc;
       let start = snprintf 512 (''WHERE uri LIKE '' @ quoted (esc_uri @ ''/%''));
       (forbidden, c, s) \<leftarrow>
         (if is_discover \<and> cJSON_GetObjectItem (Some fc) ''arp'' = None then append_forbidden L t E o2pt fc c s
          else Some ([], c, s));
       let fc = (if cJSON_GetObjectItem (Some fc) ''arp'' \<noteq> None then cJSON_DeleteItemFromObject fc ''arp'' else fc);
       lvl \<leftarrow> level_condition esc_uri fc;
       (acc, s) \<leftarrow> append_times L fc op time_criteria ((True, start @ forbidden @ lvl), s);
       acc \<leftarrow> append_ty fc op acc;
       (acc, s) \<leftarrow> append_lbl L fc op (acc, s);
       sql \<leftarrow> in_buf 3000 (snd acc);
       Some (fst acc, sql, fc, c, s) }"

section \<open>Criteria on attributes of a type\<close>

text \<open>Of several entries for the same criterion the first is used.\<close>

fun first_entries :: "string list \<Rightarrow> (string \<times> int \<times> string \<times> FcOp) list \<Rightarrow> (string \<times> int \<times> string \<times> FcOp) list" where
  "first_entries seen [] = []"
| "first_entries seen (e # es) =
     (if fst e \<in> set seen then first_entries seen es else e # first_entries (fst e # seen) es)"

text \<open>
  The wildcard \<^verbatim>\<open>*\<close> of \<^verbatim>\<open>con\<close> and \<^verbatim>\<open>lnk\<close>. The condition of the loop is \<^verbatim>\<open>i < str[i] != '\0'\<close>, so it goes on
  while the index is below the (signed) character.
\<close>

definition schar :: "char \<Rightarrow> int" where
  "schar ch = (let n = of_char ch in if n < 128 then n else n - 256)"

fun wildcards :: "int \<Rightarrow> string \<Rightarrow> string" where
  "wildcards i [] = []"
| "wildcards i (ch # str) =
     (if i < schar ch then (if ch = CHR ''*'' then CHR ''%'' else ch) # wildcards (i + 1) str else ch # str)"

fun res_conditions ::
  "'w libpq \<Rightarrow> int \<Rightarrow> cjson \<Rightarrow> (string \<times> int \<times> string \<times> FcOp) list \<Rightarrow> bool \<times> string \<Rightarrow> 'w pg \<Rightarrow> ((bool \<times> string) \<times> 'w pg) option" where
  "res_conditions L op fc [] acc s = Some (acc, s)"
| "res_conditions L op fc ((attr, _, col, fcop) # es) acc s =
     do {
       k \<leftarrow> connective (fst acc) op;
       let buf = (if fst acc then '' AND ('' else '' '' @ k @ '' '');
       (case cJSON_GetObjectItem (Some fc) attr of
          None \<Rightarrow> res_conditions L op fc es (False, snd acc @ buf) s
        | Some val \<Rightarrow>
            do {
              (val, fcop) \<leftarrow>
                (if attr = ''con'' \<or> attr = ''lnk''
                 then map_option (\<lambda>str. (JString (wildcards 0 str), FC_OP_CONTAINS)) (valuestring val)
                 else Some (val, fcop));
              (txt, s) \<leftarrow> fc_to_query L s buf col fcop val;
              res_conditions L op fc es (False, snd acc @ buf @ txt) s }) }"

definition append_res_fc ::
  "'w libpq \<Rightarrow> cjson \<Rightarrow> (string \<times> int \<times> string \<times> FcOp) list \<Rightarrow> bool \<Rightarrow> 'w pg \<Rightarrow> (string \<times> 'w pg) option" where
  "append_res_fc L fc res_attrs and_flag s =
     do {
       op \<leftarrow> fo_op fc;
       (acc, s) \<leftarrow> res_conditions L op fc (first_entries [] res_attrs) (and_flag, []) s;
       sql \<leftarrow> in_buf 3000 (snd acc @ (if fst acc then [] else '')''));
       Some (sql, s) }"

section \<open>Items of the rows\<close>

text \<open>
  The column \<^verbatim>\<open>obj\<close> is the resource as an object of the server, where arrays and objects are texts; they are
  parsed. A scalar in that column is freed before it is read.
\<close>

fun replace_first :: "(string \<times> cjson) list \<Rightarrow> string \<Rightarrow> cjson \<Rightarrow> (string \<times> cjson) list" where
  "replace_first [] k v = []"
| "replace_first ((k', v') # kvs) k v = (if k' = k then (k, v) # kvs else (k', v') # replace_first kvs k v)"

definition parse_texts :: "'w libpq \<Rightarrow> (string \<times> cjson) list \<Rightarrow> (string \<times> cjson) list" where
  "parse_texts L kvs =
     foldl (\<lambda>acc (k, v).
       case v of
         JString txt \<Rightarrow>
           (case cJSON_Parse L txt of
              Some (JArray xs) \<Rightarrow> replace_first acc k (JArray xs)
            | Some (JObject os) \<Rightarrow> replace_first acc k (JObject os)
            | _ \<Rightarrow> acc)
       | _ \<Rightarrow> acc) kvs kvs"

definition column_item :: "'w libpq \<Rightarrow> string \<Rightarrow> string \<Rightarrow> cjson option" where
  "column_item L colname value =
     (if colname \<noteq> ''obj'' then Some (column_value L True colname value)
      else
        (case cJSON_Parse L value of
           Some (JObject kvs) \<Rightarrow> Some (JObject (parse_texts L kvs))
         | Some (JArray xs) \<Rightarrow> Some (JArray xs)
         | Some _ \<Rightarrow> None
         | None \<Rightarrow> Some (column_value L True colname value)))"

fun column_items :: "'w libpq \<Rightarrow> (string \<times> string) list \<Rightarrow> (string \<times> cjson) list option" where
  "column_items L [] = Some []"
| "column_items L ((c, v) # cvs) =
     (if v = [] then column_items L cvs
      else do { j \<leftarrow> column_item L c v; kvs \<leftarrow> column_items L cvs; Some ((c, j) # kvs) })"

definition row_to_cjson_object :: "'w libpq \<Rightarrow> (string \<times> string) list \<Rightarrow> cjson option" where
  "row_to_cjson_object L row = map_option JObject (column_items L (no_id row))"

fun row_objects :: "'w libpq \<Rightarrow> (string \<times> string) list list \<Rightarrow> cjson list option" where
  "row_objects L [] = Some []"
| "row_objects L (row # rows) = do { j \<leftarrow> row_to_cjson_object L row; js \<leftarrow> row_objects L rows; Some (j # js) }"

text \<open>References: the addresses, or name, type and address; a query that fails gives nothing.\<close>

definition references :: "'w libpq \<Rightarrow> int \<Rightarrow> PGresult \<Rightarrow> cjson list option" where
  "references L rcn res =
     (if rcn = RCN_DISCOVERY_RESULT_REFERENCES
      then Some (List.map_filter (\<lambda>r. map_option JString (PQgetvalue res r 0)) [0..<PQntuples res])
      else row_objects L (table res))"

section \<open>The query\<close>

abbreviation (input) sort_dir :: string where "sort_dir \<equiv> ''DESC''"

definition ref_cols :: "oneM2MPrimitive \<Rightarrow> string" where
  "ref_cols o2pt =
     (let col = (if p_drt o2pt = DRT_STRUCTURED then ''uri'' else ''ri'')
      in snprintf 32 (if p_rcn o2pt = RCN_DISCOVERY_RESULT_REFERENCES then col
                      else ''rn as nm, ty as typ, '' @ col @ '' as val''))"

text \<open>The limit of the query and its offset.\<close>

definition query_limit :: "cjson \<Rightarrow> int option" where
  "query_limit fc =
     (case cJSON_GetObjectItem (Some fc) ''lim'' of
        Some (JNumber n) \<Rightarrow>
          do { n \<leftarrow> to_int (JNumber n); Some (if DEFAULT_DISCOVERY_LIMIT < n then n else DEFAULT_DISCOVERY_LIMIT + 1) }
      | _ \<Rightarrow> Some (DEFAULT_DISCOVERY_LIMIT + 1))"

definition query_offset :: "cjson \<Rightarrow> int option" where
  "query_offset fc =
     (case cJSON_GetObjectItem (Some fc) ''ofst'' of Some (JNumber n) \<Rightarrow> to_int (JNumber n) | _ \<Rightarrow> Some 0)"

definition limit_offset :: "int \<Rightarrow> int \<Rightarrow> string" where
  "limit_offset lm ofst = ''ORDER BY id '' @ sort_dir @ '' LIMIT '' @ print_int lm @ '' OFFSET '' @ print_int ofst"

text \<open>The types that occur, at most 64.\<close>

definition types_of :: "PGresult \<Rightarrow> int list" where
  "types_of res =
     take 64 (map atoi (filter (\<lambda>v. v \<noteq> []) (List.map_filter (\<lambda>r. PQgetvalue res r 0) [0..<PQntuples res])))"

text \<open>One part of the union for each type that has a table; \<open>part\<close> is its text before the cut at 8000 bytes.\<close>

definition union_sql :: "(bool \<Rightarrow> string \<Rightarrow> string) \<Rightarrow> int list \<Rightarrow> string" where
  "union_sql part tys =
     (case List.map_filter get_table_name tys of
        [] \<Rightarrow> []
      | tbl # tbls \<Rightarrow> snprintf 8000 (part True tbl) @ concat (map (\<lambda>tbl. snprintf 8000 (part False tbl)) tbls))"

definition ref_part :: "string \<Rightarrow> string \<Rightarrow> int \<Rightarrow> bool \<Rightarrow> string \<Rightarrow> string" where
  "ref_part general res n fst_part tbl =
     (if fst_part then ''('' else '' UNION ALL ('') @ ''SELECT id, ty, rn, uri, ri FROM general JOIN '' @ tbl @ '' USING(id) '' @
     general @ '' '' @ res @ '' ORDER BY id '' @ sort_dir @ '' LIMIT '' @ print_int n @ '')''"

definition detail_part :: "string \<Rightarrow> string \<Rightarrow> int \<Rightarrow> bool \<Rightarrow> string \<Rightarrow> string" where
  "detail_part general res n fst_part tbl =
     (if fst_part then '' '' else '' UNION ALL '') @ ''SELECT id, ri, pi, ty, jsonb_strip_nulls(to_jsonb(x) - '' @ quoted ''id'' @
     '') as obj FROM (SELECT *FROM general JOIN '' @ tbl @ '' USING(id) '' @
     general @ '' '' @ res @ '' ORDER BY id '' @ sort_dir @ '' LIMIT '' @ print_int n @ '') as x''"

text \<open>
  The second query, over the tables of the types. A detailed query that fails is read after it was freed.
\<close>

definition query_types ::
  "'w libpq \<Rightarrow> oneM2MPrimitive \<Rightarrow> bool \<Rightarrow> string \<Rightarrow> string \<Rightarrow> int \<Rightarrow> int \<Rightarrow> int list \<Rightarrow> 'w pg \<Rightarrow> (cjson list \<times> 'w pg) option" where
  "query_types L o2pt need_details general res lm ofst tys s =
     do {
       n \<leftarrow> add_int lm ofst;
       let part = (if need_details then detail_part general res n else ref_part general res n);
       let tail = snprintf 128 ('') SELECT '' @ (if need_details then ''ri, pi, ty, obj'' else ref_cols o2pt) @
             '' FROM combined '' @ limit_offset lm ofst @ '';'');
       sql \<leftarrow> in_buf 12288 (''WITH combined AS ('' @ union_sql part tys @ tail);
       let (result, s) = exec L s sql;
       (if need_details
        then (if is_tuples result then do { js \<leftarrow> row_objects L (table result); Some (js, s) } else None)
        else do { js \<leftarrow> references L (p_rcn o2pt) result; Some (js, s) }) }"

definition descendant_query ::
  "'w libpq \<Rightarrow> nat \<Rightarrow> 'd env \<Rightarrow> oneM2MPrimitive \<Rightarrow> cjson \<Rightarrow> string \<Rightarrow> bool \<Rightarrow> 'd cse \<Rightarrow> 'w pg \<Rightarrow> (cjson list \<times> 'd cse \<times> 'w pg) option" where
  "descendant_query L t E o2pt fc esc_uri is_discover c s =
     do {
       let needed = get_res_specific_fc_attrs (Some fc);
       let need_details = p_rcn o2pt \<in> {RCN_ATTRIBUTES_AND_CHILD_RESOURCES, RCN_CHILD_RESOURCES};
       lm \<leftarrow> query_limit fc;
       ofst \<leftarrow> query_offset fc;
       (and_flag, general, fc, c, s) \<leftarrow> append_general_fc L t E o2pt fc esc_uri is_discover c s;
       let close = (if and_flag then [] else '')'');
       (if \<not> need_details \<and> needed = []
        then do {
          let (res, s) = exec L s (snprintf 12288 (''SELECT '' @ ref_cols o2pt @ '' FROM general '' @ general @ close @ '' '' @ limit_offset lm ofst @ '';''));
          js \<leftarrow> references L (p_rcn o2pt) res;
          Some (js, c, s) }
        else do {
          let first_query = (if needed \<noteq> [] then ''SELECT DISTINCT ty FROM general '' @ general @ close @ '';''
                else ''SELECT DISTINCT ty FROM (SELECT ty FROM general '' @ general @ close @ '' '' @ limit_offset lm ofst @ '') sub;'');
          let (res, s) = exec L s (snprintf 12288 first_query);
          let tys = types_of res;
          (if tys = [] then Some ([], c, s)
           else if needed \<noteq> []
           then do {
             (where_res, s) \<leftarrow> append_res_fc L fc needed and_flag s;
             let join_tys = filter (\<lambda>ty. fc_needs_ty ty needed) tys;
             (if join_tys = [] then Some ([], c, s)
              else do { (js, s) \<leftarrow> query_types L o2pt need_details general where_res lm ofst join_tys s; Some (js, c, s) }) }
           else do {
             general \<leftarrow> in_buf 3000 (general @ close);
             (js, s) \<leftarrow> query_types L o2pt need_details general [] lm ofst tys s;
             Some (js, c, s) }) }) }"

definition db_get_descendants ::
  "'w libpq \<Rightarrow> nat \<Rightarrow> 'd env \<Rightarrow> oneM2MPrimitive \<Rightarrow> rtnode \<Rightarrow> bool \<Rightarrow> 'd cse \<Rightarrow> 'w pg \<Rightarrow> (cjson \<times> 'd cse \<times> 'w pg) option" where
  "db_get_descendants L t E o2pt target is_discover c s =
     (case p_fc o2pt of
        None \<Rightarrow> Some (JArray [], c, s)
      | Some fc \<Rightarrow>
          do {
            ((js, c), s) \<leftarrow> with_conn L t s ([], c) (\<lambda>s.
              case pg_escape_string_value L s (n_uri target) of
                (None, s) \<Rightarrow> Some (([], c), s)
              | (Some esc_uri, s) \<Rightarrow>
                  do { (js, c, s) \<leftarrow> descendant_query L t E o2pt fc esc_uri is_discover c s; Some ((js, c), s) });
            Some (JArray js, c, s) })"

end
