(* ===== verification/DiscoveryProps.thy ===== *)
theory DiscoveryProps
  imports Discovery PostgresProps AccessProps
begin

text \<open>
  Theorems about the query for descendants: the level criterion keeps exactly the resources up to that depth;
  the conditions built from the criteria of a request are complete SQL, whatever values they have, and leave
  open exactly the parenthesis that the query closes; the policies that forbid discovery are those of the tree.
\<close>

section \<open>Levels\<close>

lemma like_double_percent: "like (CHR ''%'' # CHR ''%'' # p) t \<longleftrightarrow> like (CHR ''%'' # p) t"
  unfolding like_percent [of "CHR ''%'' # p"] unfolding like_percent by (metis append.assoc append_Nil)

lemma like_levels: "like (CHR ''%'' # concat (replicate n ''/%%'')) r \<longleftrightarrow> n \<le> count_list r (CHR ''/'')"
proof (induction n arbitrary: r)
  case 0
  then show ?case by (simp add: like_percent)
next
  case (Suc n)
  let ?p = "concat (replicate n ''/%%'')"
  have level: "like (''/'' @ CHR ''%'' # CHR ''%'' # ?p) b \<longleftrightarrow> (\<exists>c. b = CHR ''/'' # c \<and> n \<le> count_list c (CHR ''/''))" for b
    using like_plain [of "''/''" "CHR ''%'' # CHR ''%'' # ?p" b] unfolding like_double_percent Suc by (simp add: no_wildcard_def)
  have "concat (replicate (Suc n) ''/%%'') = ''/'' @ CHR ''%'' # CHR ''%'' # ?p" by simp
  then have "like (CHR ''%'' # concat (replicate (Suc n) ''/%%'')) r \<longleftrightarrow>
      (\<exists>a c. r = a @ CHR ''/'' # c \<and> n \<le> count_list c (CHR ''/''))"
    unfolding like_percent by (simp only: level) blast
  also have "\<dots> \<longleftrightarrow> Suc n \<le> count_list r (CHR ''/'')"
  proof
    assume "Suc n \<le> count_list r (CHR ''/'')"
    then have "CHR ''/'' \<in> set r" by (metis Suc_le_D count_notin nat.distinct(1))
    then obtain a c where "r = a @ CHR ''/'' # c" "CHR ''/'' \<notin> set a" using split_list_first by fastforce
    then show "\<exists>a c. r = a @ CHR ''/'' # c \<and> n \<le> count_list c (CHR ''/'')"
      using \<open>Suc n \<le> count_list r (CHR ''/'')\<close> by (intro exI [of _ a] exI [of _ c]) simp
  qed auto
  finally show ?case .
qed

text \<open>
  C23. The level criterion: for an address without characters that are special in a pattern, the condition
  that \<^verbatim>\<open>lvl\<close> adds is one literal pattern, and it excludes exactly the descendants that lie more than
  that many levels below the target.
\<close>

theorem level_filter_depth:
  assumes "escapes L" "cJSON_GetObjectItem (Some fc) ''lvl'' = Some (JNumber n)" "0 \<le> n" "no_wildcard uri"
    and "level_condition (PQescapeStringConn L uri) fc = Some sql"
  shows "\<exists>pattern. sql_items sql = Some (outside '' AND uri NOT LIKE '' @ [Literal pattern]) \<and>
    (\<forall>u. like pattern u \<longleftrightarrow> (\<exists>r. u = uri @ ''/'' @ r \<and> n < int (count_list r (CHR ''/'')) + 1))"
proof -
  let ?post = "''/%'' @ concat (replicate (nat n) ''/%%'')"
  have sql: "sql = '' AND uri NOT LIKE '' @ quoted (PQescapeStringConn L uri @ ?post) @ []"
    using assms(2,5) by (auto simp: level_condition_def to_int_def in_buf_def split: if_splits)
  have q: "no_quote ?post" by (auto simp: no_quote_def)
  have "sql_items sql = Some (outside '' AND uri NOT LIKE '' @ [Literal (uri @ ?post)])"
    unfolding sql using sql_items_pattern [OF assms(1), of "[]" ?post "[]" "[]" uri] q by (intro sql_items_plain) simp_all
  moreover have "like (uri @ ?post) u \<longleftrightarrow> (\<exists>r. u = uri @ ''/'' @ r \<and> n < int (count_list r (CHR ''/'')) + 1)" for u
  proof -
    have "no_wildcard (uri @ ''/'')" using assms(4) by (simp add: no_wildcard_def)
    from like_plain [OF this, of "CHR ''%'' # concat (replicate (nat n) ''/%%'')" u]
    have "like (uri @ ?post) u \<longleftrightarrow> (\<exists>r. u = (uri @ ''/'') @ r \<and> nat n \<le> count_list r (CHR ''/''))"
      unfolding like_levels by simp
    moreover have "nat n \<le> count_list r (CHR ''/'') \<longleftrightarrow> n < int (count_list r (CHR ''/'')) + 1" for r
      using assms(3) by (simp add: nat_le_iff)
    ultimately show ?thesis by simp
  qed
  ultimately show ?thesis by blast
qed

theorem level_filter_depth_witness:
  "\<exists>pattern. like pattern ''TinyIoT/a/b/c'' \<and> \<not> like pattern ''TinyIoT/a/b'' \<and>
     (\<exists>sql. level_condition (PQescapeStringConn (ex_pq PGRES_FATAL_ERROR) ''TinyIoT'') (JObject [(''lvl'', JNumber 2)]) = Some sql)"
proof -
  let ?L = "ex_pq PGRES_FATAL_ERROR" and ?fc = "JObject [(''lvl'', JNumber 2)]"
  have lvl: "cJSON_GetObjectItem (Some ?fc) ''lvl'' = Some (JNumber 2)" by (simp add: ci_eq_def)
  have "no_wildcard ''TinyIoT''" by (simp add: no_wildcard_def)
  moreover have "\<exists>sql. level_condition (PQescapeStringConn ?L ''TinyIoT'') ?fc = Some sql"
    by (simp add: level_condition_def lvl to_int_def in_int_def INT_MAX_def INT_MIN_def in_buf_def demo_pq_def ci_eq_def)
  then obtain sql where sql: "level_condition (PQescapeStringConn ?L ''TinyIoT'') ?fc = Some sql" by blast
  ultimately obtain pattern where p: "like pattern u \<longleftrightarrow> (\<exists>r. u = ''TinyIoT'' @ ''/'' @ r \<and> 2 < int (count_list r (CHR ''/'')) + 1)" for u
    using level_filter_depth [OF demo_escapes lvl _ _ sql] by auto
  have "like pattern ''TinyIoT/a/b/c''" unfolding p by (intro exI [of _ "''a/b/c''"]) simp
  moreover have "\<not> like pattern ''TinyIoT/a/b''" unfolding p by simp
  ultimately show ?thesis using sql by blast
qed

section \<open>Complete conditions\<close>

text \<open>
  A text is complete if the server reads all its literals to their end, whatever follows; the number is that of the
  parentheses it leaves open.
\<close>

fun paren :: "sql_item \<Rightarrow> int" where
  "paren (Outside ch) = (if ch = CHR ''('' then 1 else if ch = CHR '')'' then - 1 else 0)"
| "paren (Literal v) = 0"

definition sql_complete :: "string \<Rightarrow> int \<Rightarrow> bool" where
  "sql_complete sql n \<longleftrightarrow> take 1 sql \<noteq> [CHR 0x27] \<and>
     (\<exists>xs. sum_list (map paren xs) = n \<and>
       (\<forall>w ys. take 1 w \<noteq> [CHR 0x27] \<longrightarrow> sql_items w = Some ys \<longrightarrow> sql_items (sql @ w) = Some (xs @ ys)))"

lemma complete_plain: "no_quote v \<Longrightarrow> sql_complete v (sum_list (map paren (outside v)))"
  unfolding sql_complete_def by (intro conjI exI [of _ "outside v"]) (auto simp: sql_items_plain, cases v, auto)

lemma complete_append:
  assumes "sql_complete a n" "sql_complete b m"
  shows "sql_complete (a @ b) (n + m)"
proof -
  obtain xs ys where x: "sum_list (map paren xs) = n" "\<And>w zs. take 1 w \<noteq> [CHR 0x27] \<Longrightarrow> sql_items w = Some zs \<Longrightarrow> sql_items (a @ w) = Some (xs @ zs)"
    and y: "sum_list (map paren ys) = m" "\<And>w zs. take 1 w \<noteq> [CHR 0x27] \<Longrightarrow> sql_items w = Some zs \<Longrightarrow> sql_items (b @ w) = Some (ys @ zs)"
    using assms unfolding sql_complete_def by metis
  have h: "take 1 (b @ w) \<noteq> [CHR 0x27]" if "take 1 w \<noteq> [CHR 0x27]" for w
    using that assms(2) unfolding sql_complete_def by (cases b) auto
  have "sql_items ((a @ b) @ w) = Some ((xs @ ys) @ zs)" if "take 1 w \<noteq> [CHR 0x27]" "sql_items w = Some zs" for w zs
    using x(2) [OF h [OF that(1)] y(2) [OF that]] by simp
  moreover have "take 1 (a @ b) \<noteq> [CHR 0x27]" using assms unfolding sql_complete_def by (cases a) auto
  ultimately show ?thesis using x(1) y(1) unfolding sql_complete_def by (intro conjI exI [of _ "xs @ ys"]) auto
qed

lemma complete_value:
  assumes "escapes L" "no_quote a" "a \<noteq> []" "no_quote pre" "no_quote post"
  shows "sql_complete (a @ quoted (pre @ PQescapeStringConn L v @ post)) (sum_list (map paren (outside a)))"
proof -
  have "sql_items ((a @ quoted (pre @ PQescapeStringConn L v @ post)) @ w) = Some ((outside a @ [Literal (pre @ v @ post)]) @ ys)"
    if "take 1 w \<noteq> [CHR 0x27]" "sql_items w = Some ys" for w ys
    using sql_items_plain [OF assms(2) sql_items_pattern [OF assms(1,4,5) that]] by simp
  moreover have "take 1 (a @ quoted (pre @ PQescapeStringConn L v @ post)) \<noteq> [CHR 0x27]" using assms(2,3) by (cases a) auto
  ultimately show ?thesis unfolding sql_complete_def by (intro conjI exI [of _ "outside a @ [Literal (pre @ v @ post)]"]) auto
qed

lemma complete_joined:
  "sql_complete sep 0 \<Longrightarrow> list_all (\<lambda>v. sql_complete v 0) vs \<Longrightarrow> sql_complete (joined sep vs) 0"
proof (induction sep vs rule: joined.induct)
  case (1 sep)
  then show ?case using complete_plain [of "[]"] by simp
next
  case (3 sep x y vs)
  then show ?case using complete_append [of x 0 "sep @ joined sep (y # vs)" 0] complete_append [of sep 0 "joined sep (y # vs)" 0] by simp
qed simp

lemma complete_enclosed: "sql_complete v 0 \<Longrightarrow> no_quote a \<Longrightarrow> no_quote b \<Longrightarrow>
    sql_complete (a @ v @ b) (sum_list (map paren (outside a)) + sum_list (map paren (outside b)))"
  using complete_append [OF complete_plain [of a] complete_append [of v 0 b "sum_list (map paren (outside b))"]] complete_plain [of b]
  by simp

lemma escape_value: "pg_escape_string_value L s v = (Some e, s') \<Longrightarrow> \<exists>u. v = Some u \<and> e = PQescapeStringConn L u"
  by (auto simp: pg_escape_string_value_def Let_def split: option.splits prod.splits if_splits)

lemma escaped_value: "escaped L s v = Some (e, s') \<Longrightarrow> \<exists>u. v = Some u \<and> e = PQescapeStringConn L u"
  by (auto simp: escaped_def dest!: escape_value split: prod.splits option.splits)

lemma complete_uri_conditions:
  "escapes L \<Longrightarrow> no_quote post \<Longrightarrow> uri_conditions L s post us = Some (cs, s') \<Longrightarrow> list_all (\<lambda>v. sql_complete v 0) cs"
proof (induction us arbitrary: s cs)
  case (Cons u us)
  then show ?case using complete_value [OF Cons.prems(1), of "''uri NOT LIKE ''" "[]" post]
    by (auto simp: in_buf_def dest!: escaped_value split: if_splits)
qed simp

lemma complete_forbid:
  assumes "escapes L" "no_quote post" "forbid L t s post acps = Some (x, s')"
  shows "sql_complete x 0"
proof -
  obtain cs s1 s2 us where cs: "uri_conditions L s1 post us = Some (cs, s2)"
    "x = (if cs = [] then [] else '' AND ('' @ joined '' AND '' cs @ '')'')"
    using assms(3) by (auto simp: forbid_def)
  have "sql_complete (joined '' AND '' cs) 0"
    using complete_uri_conditions [OF assms(1,2) cs(1)] complete_plain [of "'' AND ''"] by (intro complete_joined) auto
  then show ?thesis using cs(2) complete_enclosed [of "joined '' AND '' cs" "'' AND (''" "'')''"] complete_plain [of "[]"] by simp
qed

lemma complete_append_forbidden:
  assumes "escapes L" "append_forbidden L t E o2pt fc c s = Some (x, c', s')"
  shows "sql_complete x 0"
  using assms(2) complete_forbid [OF assms(1), of "[]"] complete_forbid [OF assms(1), of "''%''"] complete_append [of _ 0 _ 0]
  by (auto simp: append_forbidden_def split: option.splits)

lemma complete_level:
  assumes "escapes L" "level_condition (PQescapeStringConn L uri) fc = Some x"
  shows "sql_complete x 0"
proof -
  have "sql_complete ('' AND uri NOT LIKE '' @ quoted ([] @ PQescapeStringConn L uri @ ''/%'' @ concat (replicate n ''/%%''))) 0" for n
    using complete_value [OF assms(1), of "'' AND uri NOT LIKE ''" "[]" "''/%'' @ concat (replicate n ''/%%'')"] by (auto simp: no_quote_def)
  then show ?thesis using assms(2) complete_plain [of "[]"] by (auto simp: level_condition_def split: option.splits)
qed

text \<open>The text so far with its flag: one parenthesis is open once there is a criterion.\<close>

definition flagged :: "bool \<times> string \<Rightarrow> bool" where
  "flagged acc \<longleftrightarrow> sql_complete (snd acc) (if fst acc then 0 else 1)"

lemma connective_plain: "connective f op = Some k \<Longrightarrow> no_quote k \<and> sum_list (map paren (outside k)) = (if f then 1 else 0)"
  by (auto simp: connective_def fo_name_def split: if_splits)

lemma flagged_add:
  assumes "flagged acc" "connective (fst acc) op = Some k" "sql_complete v 0"
  shows "flagged (False, snd acc @ '' '' @ k @ '' '' @ v)"
proof -
  note k = connective_plain [OF assms(2)]
  have "sql_complete ('' '' @ k @ '' '') (if fst acc then 1 else 0)" using complete_plain [of "'' '' @ k @ '' ''"] k by simp
  from complete_append [OF this assms(3)] show ?thesis using complete_append [OF assms(1) [unfolded flagged_def]] unfolding flagged_def
    by (cases "fst acc") fastforce+
qed

lemma flagged_time:
  assumes "escapes L" "no_quote a" "a \<noteq> []" "sum_list (map paren (outside a)) = 0" "flagged (fst st)"
    and "append_time L fc op (k, a) st = Some st'"
  shows "flagged (fst st')"
proof (cases "cJSON_GetObjectItem (Some fc) k")
  case None
  then show ?thesis using assms(5,6) by (simp add: append_time_def)
next
  case (Some p)
  obtain e s1 where e: "pg_escape_string_value L (snd st) (valuestring p) = (e, s1)" by fastforce
  show ?thesis
  proof (cases e)
    case None
    then show ?thesis using assms(5,6) Some e by (auto simp: append_time_def)
  next
    case (Some x)
    then obtain u where u: "x = PQescapeStringConn L u" using escape_value e by blast
    obtain acc kw where acc: "connective (fst (fst st)) op = Some kw" "acc = (False, snd (fst st) @ '' '' @ kw @ '' '' @ a @ quoted x)" "st' = (acc, s1)"
      using assms(6) \<open>cJSON_GetObjectItem (Some fc) k = Some p\<close> e Some
      by (auto simp: append_time_def join_condition_def in_buf_def split: if_splits)
    have "sql_complete (a @ quoted x) 0" using complete_value [OF assms(1-3), of "[]" "[]" u] assms(4) u by simp
    then show ?thesis using flagged_add [OF assms(5) acc(1)] acc(2,3) by simp
  qed
qed

lemma flagged_times:
  "escapes L \<Longrightarrow> list_all (\<lambda>(k, a). no_quote a \<and> a \<noteq> [] \<and> sum_list (map paren (outside a)) = 0) crits \<Longrightarrow> flagged (fst st) \<Longrightarrow>
    append_times L fc op crits st = Some st' \<Longrightarrow> flagged (fst st')"
proof (induction crits arbitrary: st)
  case (Cons crit crits)
  obtain k a where k: "crit = (k, a)" by fastforce
  obtain st1 where st1: "append_time L fc op (k, a) st = Some st1" "append_times L fc op crits st1 = Some st'" using Cons.prems(4) k by auto
  have a: "no_quote a" "a \<noteq> []" "sum_list (map paren (outside a)) = 0"
    and rest: "list_all (\<lambda>(k, a). no_quote a \<and> a \<noteq> [] \<and> sum_list (map paren (outside a)) = 0) crits"
    using Cons.prems(2) k by simp_all
  show ?case by (rule Cons.IH [OF Cons.prems(1) rest flagged_time [OF Cons.prems(1) a Cons.prems(3) st1(1)] st1(2)])
qed simp

lemma paren_print_int: "sum_list (map paren (outside (print_int n))) = 0"
proof -
  have "paren (Outside ch) = 0" if "ch \<in> set (print_int n)" for ch
    using that dec_digits [of ch] by (auto simp: print_int_def is_digit_def split: if_splits)
  then have "map (paren \<circ> Outside) (print_int n) = map (\<lambda>_. 0) (print_int n)" by (intro map_cong) simp_all
  then show ?thesis by (simp add: map_replicate_const sum_list_replicate)
qed

lemma complete_ty_conditions: "ty_conditions js = Some cs \<Longrightarrow> list_all (\<lambda>v. sql_complete v 0) cs"
proof (induction js arbitrary: cs)
  case (Cons j js)
  have "sql_complete (''ty = '' @ print_int n) 0" for n using complete_plain [of "''ty = '' @ print_int n"] paren_print_int [of n] by simp
  then show ?case using Cons by auto
qed simp

lemma complete_lbl_conditions: "escapes L \<Longrightarrow> lbl_conditions L s js = Some (cs, s') \<Longrightarrow> list_all (\<lambda>v. sql_complete v 0) cs"
proof (induction js arbitrary: s cs)
  case (Cons j js)
  obtain e s1 where e: "pg_escape_string_value L s (valuestring j) = (e, s1)" by fastforce
  have "sql_complete (''lbl LIKE '' @ quoted (''%'' @ dquote @ PQescapeStringConn L u @ dquote @ ''%'')) 0" for u
    using complete_value [OF Cons.prems(1), of "''lbl LIKE ''" "''%'' @ dquote" "dquote @ ''%''" u] by simp
  moreover have "sql_complete [] 0" using complete_plain [of "[]"] by simp
  ultimately show ?case using Cons e escape_value [of L s "valuestring j" _ s1]
    by (cases e) (auto simp: in_buf_def split: if_splits)
qed simp

lemma flagged_list:
  assumes "flagged acc" "connective (fst acc) op = Some k" "list_all (\<lambda>v. sql_complete v 0) cs"
  shows "flagged (False, snd acc @ '' '' @ k @ '' ('' @ joined '' OR '' cs @ '')'')"
proof -
  have "sql_complete (joined '' OR '' cs) 0" using assms(3) complete_plain [of "'' OR ''"] by (intro complete_joined) simp_all
  then have "sql_complete (''('' @ joined '' OR '' cs @ '')'') 0" using complete_enclosed [of "joined '' OR '' cs" "''(''" "'')''"] by simp
  from flagged_add [OF assms(1,2) this] show ?thesis by simp
qed

lemma flagged_ty:
  assumes "flagged acc" "append_ty fc op acc = Some acc'"
  shows "flagged acc'"
proof (cases "cJSON_GetObjectItem (Some fc) ''ty''")
  case None
  then show ?thesis using assms by (simp add: append_ty_def)
next
  case (Some p)
  obtain cs where cs: "(case p of JArray js \<Rightarrow> ty_conditions js | JNumber n \<Rightarrow> ty_conditions [p] | _ \<Rightarrow> Some []) = Some cs"
    using assms(2) Some by (cases "case p of JArray js \<Rightarrow> ty_conditions js | JNumber n \<Rightarrow> ty_conditions [p] | _ \<Rightarrow> Some []")
      (simp_all add: append_ty_def del: ty_conditions.simps)
  obtain k where k: "connective (fst acc) op = Some k" "acc' = (False, snd acc @ '' '' @ k @ '' ('' @ joined '' OR '' cs @ '')'')"
    using assms(2) Some cs by (cases "connective (fst acc) op") (auto simp: append_ty_def)
  have "list_all (\<lambda>v. sql_complete v 0) cs"
  proof (cases p)
    case (JNumber n)
    then show ?thesis using cs complete_ty_conditions [of "[p]"] by (simp only: cjson.case)
  next
    case (JArray js)
    then show ?thesis using cs complete_ty_conditions [of js] by (simp only: cjson.case)
  qed (use cs in simp_all)
  then show ?thesis using flagged_list [OF assms(1) k(1)] k(2) by simp
qed

lemma flagged_lbl:
  assumes "escapes L" "flagged (fst st)" "append_lbl L fc op st = Some st'"
  shows "flagged (fst st')"
proof (cases "cJSON_GetObjectItem (Some fc) ''lbl''")
  case None
  then show ?thesis using assms by (simp add: append_lbl_def)
next
  case (Some p)
  let ?js = "case p of JArray js \<Rightarrow> js | JString v \<Rightarrow> [p] | _ \<Rightarrow> []"
  obtain cs s where cs: "lbl_conditions L (snd st) ?js = Some (cs, s)"
    using assms(3) Some by (cases "lbl_conditions L (snd st) ?js") (auto simp: append_lbl_def simp del: lbl_conditions.simps)
  obtain k where k: "connective (fst (fst st)) op = Some k" "fst st' = (False, snd (fst st) @ '' '' @ k @ '' ('' @ joined '' OR '' cs @ '')'')"
    using assms(3) Some cs by (cases "connective (fst (fst st)) op") (auto simp: append_lbl_def)
  show ?thesis using flagged_list [OF assms(2) k(1) complete_lbl_conditions [OF assms(1) cs]] k(2) by simp
qed



section \<open>Policies that forbid discovery\<close>

text \<open>
  A policy that does not grant the operations, by its address: some operation is listed by no rule
  of its \<^verbatim>\<open>pv\<close> that names the originator and accepts its address.
\<close>

definition denying :: "heap \<Rightarrow> addr list \<Rightarrow> string option \<Rightarrow> string \<Rightarrow> int \<Rightarrow> addr \<Rightarrow> string list" where
  "denying h as ip fr acop a =
     (case h a of
        Some n \<Rightarrow>
          if n_ty n = RT_ACP \<and> \<not> rules_grant h as ip fr (acr_list n False) acop
          then (case n_uri n of Some u \<Rightarrow> [u] | None \<Rightarrow> []) else []
      | None \<Rightarrow> [])"

lemma no_perm_walk:
  assumes "seg (heap c) par left p ts None" "p_fr o2pt = Some fr"
    and "\<And>a n. a \<in> set (addrs ts) \<Longrightarrow> heap c a = Some n \<Longrightarrow> n_ty n = RT_ACP \<Longrightarrow>
      \<exists>r. get_acop_origin E c o2pt fr (Some a) False = Some (r, c) \<and>
        (\<forall>acop. and r acop = acop \<longleftrightarrow> rules_grant (heap c) as (p_ip o2pt) fr (acr_list n False) acop)"
  shows "getNoPermAcopDiscovery E c o2pt p acop = Some (concat (map (denying (heap c) as (p_ip o2pt) fr acop) (addrs ts)), c)"
  using assms(1,3)
proof (induction "heap c" par left p ts "None :: ptr" rule: seg.induct)
  case (1 par left p)
  then show ?case by (simp add: getNoPermAcopDiscovery.simps)
next
  case (2 par left p a cs ts)
  let ?d = "denying (heap c) as (p_ip o2pt) fr acop"
  from 2(3) obtain n where n: "heap c a = Some n" "p = Some a"
    "seg (heap c) (Some a) None (n_child n) cs None" "seg (heap c) par (Some a) (n_sibling_right n) ts None"
    by (auto split: option.splits)
  have kids: "getNoPermAcopDiscovery E c o2pt (n_child n) acop = Some (concat (map ?d (addrs cs)), c)"
    using n(1,3) 2(4) by (intro 2(1)) auto
  have sib: "getNoPermAcopDiscovery E c o2pt (n_sibling_right n) acop = Some (concat (map ?d (addrs ts)), c)"
    using n(1,4) 2(4) by (intro 2(2)) auto
  have kids': "(if n_child n = None then Some ([], c) else getNoPermAcopDiscovery E c o2pt (n_child n) acop) =
      Some (concat (map ?d (addrs cs)), c)"
    using kids by (cases "n_child n") (simp_all add: getNoPermAcopDiscovery.simps)
  have own: "(if n_ty n = RT_ACP
       then do {
         fr \<leftarrow> p_fr o2pt;
         (r, c) \<leftarrow> get_acop_origin E c o2pt fr (Some a) False;
         Some (if and r acop \<noteq> acop then (case n_uri n of Some u \<Rightarrow> [u] | None \<Rightarrow> []) else [], c) }
       else Some ([], c)) = Some (?d a, c)"
  proof (cases "n_ty n = RT_ACP")
    case True
    then obtain r where "get_acop_origin E c o2pt fr (Some a) False = Some (r, c)"
      "and r acop = acop \<longleftrightarrow> rules_grant (heap c) as (p_ip o2pt) fr (acr_list n False) acop"
      using 2(4) [of a n] n(1) by auto
    then show ?thesis using True n(1) assms(2) by (simp add: denying_def)
  qed (simp add: denying_def n(1))
  show ?case
    unfolding n(2) by (subst getNoPermAcopDiscovery.simps) (simp add: n(1) own kids' sib)
qed



section \<open>Limits of the query\<close>

text \<open>A limit of at most 150 is not passed on: the query returns up to 151 resources.\<close>

lemma small_limit_ignored:
  assumes "cJSON_GetObjectItem (Some fc) ''lim'' = Some (JNumber n)" "0 \<le> n" "n \<le> 150"
  shows "query_limit fc = Some 151"
  using assms by (simp add: query_limit_def to_int_def in_int_def INT_MAX_def INT_MIN_def)

text \<open>A string criterion on an attribute of a type that is longer than its buffer is cut inside its literal.\<close>

lemma literal_open: "no_quote v \<Longrightarrow> literal v = None"
  by (induction v rule: literal.induct) auto

lemma doubled_plain: "no_quote v \<Longrightarrow> doubled v = v"
  by (induction v) auto

lemma long_criterion_cut:
  assumes "no_quote v" "512 \<le> length v"
  shows "\<exists>txt s. fc_to_query (ex_pq PGRES_FATAL_ERROR) demo_state buf ''cnf'' FC_OP_EQ (JString v) = Some (txt, s) \<and> sql_items txt = None"
proof -
  have "no_quote (take 504 v)" using assms(1) by (auto simp: no_quote_def dest: in_set_takeD)
  then have "sql_items (''cnf = '' @ CHR 0x27 # take 504 v) = None" by (simp add: literal_open)
  moreover have "fc_to_query (ex_pq PGRES_FATAL_ERROR) demo_state buf ''cnf'' FC_OP_EQ (JString v) =
      Some (''cnf = '' @ CHR 0x27 # take 504 v, demo_state)"
    using assms by (auto simp: fc_to_query_def pg_escape_string_value_def get_pg_conn_def demo_pq_def demo_state_def
        doubled_plain snprintf_def quoted_def)
  ultimately show ?thesis by blast
qed

end
