(* ===== verification/Coap.thy ===== *)
theory Coap
  imports Http
begin

text \<open>
  The CoAP binding (\<^verbatim>\<open>coap.c\<close>): the handler of a request with its code, its options and a payload that arrives in one body, the
  primitive it makes of them, and the answer. The library \<^verbatim>\<open>libcoap\<close> is not modelled: the parts of a packet are
  arguments. \<open>parse\<close> and \<open>print\<close> are the parser and the printer of cJSON; \<open>rel5\<close> is the global variable that
  says whether the request is one of release 5, whose parameters are in the payload. The text for the log that collects the
  options and the payload of a request is not modelled, nor are a body in several blocks and requests forwarded over CoAP.
\<close>

section \<open>Codes\<close>

abbreviation (input) COAP_OPTION_URI_PATH :: int where "COAP_OPTION_URI_PATH \<equiv> 11"
abbreviation (input) COAP_OPTION_CONTENT_FORMAT :: int where "COAP_OPTION_CONTENT_FORMAT \<equiv> 12"
abbreviation (input) COAP_OPTION_URI_QUERY :: int where "COAP_OPTION_URI_QUERY \<equiv> 15"
abbreviation (input) COAP_OPTION_SIZE2 :: int where "COAP_OPTION_SIZE2 \<equiv> 28"
abbreviation (input) COAP_OPTION_SIZE1 :: int where "COAP_OPTION_SIZE1 \<equiv> 60"
abbreviation (input) COAP_OPTION_RTAG :: int where "COAP_OPTION_RTAG \<equiv> 292"
abbreviation (input) oneM2M_FR :: int where "oneM2M_FR \<equiv> 279"
abbreviation (input) oneM2M_RQI :: int where "oneM2M_RQI \<equiv> 283"
abbreviation (input) oneM2M_RSC :: int where "oneM2M_RSC \<equiv> 307"
abbreviation (input) oneM2M_TY :: int where "oneM2M_TY \<equiv> 267"
abbreviation (input) oneM2M_RVI :: int where "oneM2M_RVI \<equiv> 271"
abbreviation (input) COAP_REQUEST_FETCH :: int where "COAP_REQUEST_FETCH \<equiv> 5"

definition COAP_RESPONSE_CODE :: "int \<Rightarrow> int" where
  "COAP_RESPONSE_CODE n = or (n div 100 * 32) (n mod 100)"

text \<open>A value without a case is the undefined result of a function that ends without a return.\<close>

definition coap_parse_req_code :: "int \<Rightarrow> string option" where
  "coap_parse_req_code code = map_of [(1, ''GET''), (2, ''POST''), (3, ''PUT''), (4, ''DELETE''), (5, ''FETCH'')] code"

definition coap_parse_operation :: "string \<Rightarrow> operation option" where
  "coap_parse_operation method =
     (if method = ''POST'' then Some OP_CREATE
      else if method = ''GET'' \<or> method = ''FETCH'' then Some OP_RETRIEVE
      else if method = ''PUT'' then Some OP_UPDATE
      else if method = ''DELETE'' then Some OP_DELETE
      else None)"

fun op_to_code :: "bool \<Rightarrow> operation \<Rightarrow> int option" where
  "op_to_code rel5 OP_CREATE = Some 2"
| "op_to_code rel5 OP_UPDATE = Some 3"
| "op_to_code rel5 OP_DELETE = Some 4"
| "op_to_code rel5 OP_RETRIEVE = Some (if rel5 then COAP_REQUEST_FETCH else 1)"
| "op_to_code rel5 OP_DISCOVERY = Some (if rel5 then COAP_REQUEST_FETCH else 1)"
| "op_to_code rel5 _ = None"

definition coap_rcn :: "operation \<Rightarrow> int" where
  "coap_rcn op = (if op \<in> {OP_CREATE, OP_RETRIEVE, OP_UPDATE} then RCN_ATTRIBUTES else if op = OP_DELETE then RCN_NOTHING else 0)"

section \<open>Options\<close>

text \<open>A query option replaces the criteria of the one before; that its conversion fails is ignored.\<close>

definition query_option :: "(string \<Rightarrow> cjson option) \<Rightarrow> oneM2MPrimitive \<Rightarrow> string \<Rightarrow> oneM2MPrimitive option" where
  "query_option parse o2pt opt_buf =
     do {
       q \<leftarrow> qs_to_json parse opt_buf;
       let q = map_option (\<lambda>j. snd (parse_qs j)) q;
       let o2pt = o2pt\<lparr>p_drt := (case cJSON_GetObjectItem q ''drt'' of Some j \<Rightarrow> valueint j | None \<Rightarrow> DRT_STRUCTURED)\<rparr>;
       let o2pt = (if Option.bind (cJSON_GetObjectItem q ''fu'') cJSON_GetNumberValue = Some 1
                   then o2pt\<lparr>p_op := OP_DISCOVERY, p_rcn := RCN_DISCOVERY_RESULT_REFERENCES\<rparr> else o2pt);
       Some (case cJSON_GetObjectItem q ''rcn'' of
               None \<Rightarrow> o2pt\<lparr>p_fc := q\<rparr>
             | Some j \<Rightarrow> o2pt\<lparr>p_rcn := valueint j, p_fc := map_option (\<lambda>j. cJSON_DeleteItemFromObject j ''rcn'') q\<rparr>) }"

definition opt_to_o2pt :: "(string \<Rightarrow> cjson option) \<Rightarrow> bool \<Rightarrow> oneM2MPrimitive \<Rightarrow> int \<Rightarrow> string \<Rightarrow> (bool \<times> oneM2MPrimitive) option" where
  "opt_to_o2pt parse rel5 o2pt opt_num opt_buf =
     (if opt_num = COAP_OPTION_URI_PATH
      then Some (rel5, o2pt\<lparr>p_to := Some (case p_to o2pt of None \<Rightarrow> opt_buf | Some to \<Rightarrow> to @ ''/'' @ opt_buf)\<rparr>)
      else if opt_num = COAP_OPTION_URI_QUERY then map_option (Pair rel5) (query_option parse o2pt opt_buf)
      else if opt_num = oneM2M_FR then Some (rel5, o2pt\<lparr>p_fr := Some opt_buf\<rparr>)
      else if opt_num = oneM2M_RQI then Some (rel5, o2pt\<lparr>p_rqi := Some opt_buf\<rparr>)
      else if opt_num = oneM2M_RVI
      then Some (rel5 \<or> to_rvi (Some opt_buf) = RVI_5, o2pt\<lparr>p_rvi := to_rvi (Some opt_buf)\<rparr>)
      else if opt_num = oneM2M_TY then Some (rel5, o2pt\<lparr>p_ty := coap_parse_object_type (atoi opt_buf)\<rparr>)
      else if opt_num = oneM2M_RSC then Some (rel5, o2pt\<lparr>p_rsc := atoi opt_buf\<rparr>)
      else Some (rel5, o2pt))"

text \<open>
  The text of an option: of a type the number of its first byte, otherwise its bytes up to a zero, in a buffer of 255 bytes. A
  number is read behind the end of an empty option. \<open>Some None\<close> is a content format other than JSON.
\<close>

definition option_text :: "int \<Rightarrow> string \<Rightarrow> string option option" where
  "option_text opt_num val =
     (if opt_num \<in> {COAP_OPTION_RTAG, COAP_OPTION_SIZE1, COAP_OPTION_SIZE2} then Some (Some [])
      else if opt_num = oneM2M_TY then (case val of [] \<Rightarrow> None | ch # _ \<Rightarrow> Some (Some (print_int (of_char ch))))
      else if opt_num = COAP_OPTION_CONTENT_FORMAT
      then (case val of [] \<Rightarrow> None | ch # _ \<Rightarrow> Some (if ch = CHR ''2'' then Some ''application/json'' else None))
      else if length val < 255 then Some (Some (takeWhile (\<lambda>ch. ch \<noteq> CHR 0x00) val))
      else None)"

text \<open>The options in the order of the packet; \<open>Inl\<close> when one of them is refused.\<close>

fun coap_options :: "(string \<Rightarrow> cjson option) \<Rightarrow> bool \<Rightarrow> oneM2MPrimitive \<Rightarrow> (int \<times> string) list \<Rightarrow> (bool + bool \<times> oneM2MPrimitive) option" where
  "coap_options parse rel5 o2pt [] = Some (Inr (rel5, o2pt))"
| "coap_options parse rel5 o2pt ((opt_num, val) # opts) =
     do {
       txt \<leftarrow> option_text opt_num val;
       (case txt of
          None \<Rightarrow> Some (Inl rel5)
        | Some opt_buf \<Rightarrow> do { (rel5, o2pt) \<leftarrow> opt_to_o2pt parse rel5 o2pt opt_num opt_buf; coap_options parse rel5 o2pt opts }) }"

section \<open>The payload\<close>

definition text_member :: "cjson option \<Rightarrow> string \<Rightarrow> string option \<Rightarrow> string option option" where
  "text_member pc k old =
     (case cJSON_GetObjectItem pc k of None \<Rightarrow> Some old | Some j \<Rightarrow> map_option Some (valuestring j))"

text \<open>
  The parameters of a request of release 5. The criteria are converted where they are, so contents without the member \<^verbatim>\<open>pc\<close>
  keep them converted.
\<close>

definition payload_opt_to_o2pt :: "oneM2MPrimitive \<Rightarrow> oneM2MPrimitive option" where
  "payload_opt_to_o2pt o2pt =
     do {
       let pc = p_request_pc o2pt;
       fr \<leftarrow> text_member pc ''fr'' (p_fr o2pt);
       rqi \<leftarrow> text_member pc ''rqi'' (p_rqi o2pt);
       let fc = parse_filter_criteria (case cJSON_GetObjectItem pc ''fc'' of Some fc \<Rightarrow> fc | None \<Rightarrow> JObject []);
       let discovery = (cJSON_GetObjectItem pc ''fc'' \<noteq> None \<and> Option.bind (cJSON_GetObjectItem (Some fc) ''fu'') cJSON_GetNumberValue = Some 1);
       let o2pt = o2pt\<lparr>p_fr := fr, p_rqi := rqi,
             p_rvi := (case cJSON_GetObjectItem pc ''rvi'' of Some j \<Rightarrow> to_rvi (valuestring j) | None \<Rightarrow> p_rvi o2pt),
             p_ty := (case cJSON_GetObjectItem pc ''ty'' of Some j \<Rightarrow> valueint j | None \<Rightarrow> p_ty o2pt),
             p_fc := Some fc,
             p_op := (if discovery then OP_DISCOVERY else p_op o2pt),
             p_drt := (case cJSON_GetObjectItem pc ''drt'' of Some j \<Rightarrow> valueint j | None \<Rightarrow> DRT_STRUCTURED),
             p_rcn := (case cJSON_GetObjectItem pc ''rcn'' of
                         Some j \<Rightarrow> valueint j
                       | None \<Rightarrow> if discovery then RCN_DISCOVERY_RESULT_REFERENCES else p_rcn o2pt)\<rparr>;
       Some (o2pt\<lparr>p_request_pc :=
               (case cJSON_GetObjectItem pc ''pc'' of
                  Some j \<Rightarrow> Some j
                | None \<Rightarrow> if cJSON_GetObjectItem pc ''fc'' = None then pc else map_option (\<lambda>j. put_value j ''fc'' fc) pc)\<rparr>) }"

section \<open>Answers and the handler\<close>

record coap_response =
  coap_code :: int
  coap_data :: string

definition coap_answer :: "oneM2MPrimitive \<Rightarrow> cjson" where
  "coap_answer o2pt =
     (let json = add_string (add_string (JObject []) ''rqi'' (p_rqi o2pt)) ''rvi'' (from_rvi (p_rvi o2pt));
          json = cJSON_AddItemToObject json ''rsc'' (JNumber (p_rsc o2pt))
      in case p_response_pc o2pt of Some pc \<Rightarrow> cJSON_AddItemToObject json ''pc'' pc | None \<Rightarrow> json)"

text \<open>
  The answer to a request of another release formats its version, a number, as a text for the log, which is undefined. The text of
  an answer is copied into a buffer of 65535 bytes behind its first line.
\<close>

definition coap_respond_to_client :: "(cjson \<Rightarrow> string) \<Rightarrow> bool \<Rightarrow> oneM2MPrimitive \<Rightarrow> coap_response option" where
  "coap_respond_to_client print rel5 o2pt =
     (let normalized_pc = normalize_payload (print (coap_answer o2pt));
          code = (if p_rsc o2pt < 169 then p_rsc o2pt else COAP_RESPONSE_CODE (rsc_to_coap_status (p_rsc o2pt)))
      in if rel5 \<and> length (print_int (p_rsc o2pt)) + length normalized_pc + 11 < 65535
         then Some \<lparr>coap_code = code, coap_data = normalized_pc\<rparr> else None)"

definition hnd_coap_req ::
  "'d env \<Rightarrow> (string \<Rightarrow> cjson option) \<Rightarrow> (cjson \<Rightarrow> string) \<Rightarrow> bool \<Rightarrow> 'd cse \<Rightarrow> int \<Rightarrow> (int \<times> string) list \<Rightarrow> string \<Rightarrow> string \<Rightarrow>
    (coap_response \<times> bool \<times> 'd cse) option" where
  "hnd_coap_req E parse print rel5 s code opts data ip =
     do {
       method \<leftarrow> coap_parse_req_code code;
       op \<leftarrow> coap_parse_operation method;
       r \<leftarrow> coap_options parse rel5 (empty_o2pt\<lparr>p_op := op, p_rcn := coap_rcn op\<rparr>) opts;
       (case r of
          Inl rel5 \<Rightarrow> Some (\<lparr>coap_code = COAP_RESPONSE_CODE 415, coap_data = []\<rparr>, rel5, s)
        | Inr (rel5, o2pt) \<Rightarrow>
            do {
              (refused, rel5, o2pt) \<leftarrow>
                (if data = [] then Some (False, rel5, o2pt)
                 else do {
                   let pc = parse data;
                   v \<leftarrow> text_member pc ''rvi'' None;
                   let rel5 = (rel5 \<or> v = Some ''5'');
                   (if rel5 then map_option (\<lambda>o2pt. (False, rel5, o2pt)) (payload_opt_to_o2pt (o2pt\<lparr>p_request_pc := pc\<rparr>))
                    else Some (code = COAP_REQUEST_FETCH, rel5, o2pt\<lparr>p_request_pc := pc\<rparr>)) });
              if refused then Some (\<lparr>coap_code = COAP_RESPONSE_CODE 400, coap_data = []\<rparr>, rel5, s)
              else do {
                let o2pt = o2pt\<lparr>p_request_pc := Some (case p_request_pc o2pt of Some pc \<Rightarrow> pc | None \<Rightarrow> JObject []),
                      p_ip := Some ip, p_errFlag := False\<rparr>;
                (o2pt, s) \<leftarrow> route E s o2pt;
                response \<leftarrow> coap_respond_to_client print rel5 o2pt;
                Some (response, False, s) } }) }"

section \<open>Notifications\<close>

text \<open>
  A notification is a packet of its own, whose path is one option. \<open>ready\<close> is whether the library has given a context, a session
  and a packet.
\<close>

record coap_request =
  coap_request_code :: int
  coap_request_options :: "(int \<times> string) list"
  coap_request_data :: string

definition coap_notify :: "bool \<Rightarrow> string \<Rightarrow> string \<Rightarrow> coap_request option" where
  "coap_notify ready noti_json target =
     (if ready
      then Some \<lparr>coap_request_code = 2, coap_request_options = [(COAP_OPTION_URI_PATH, drop 1 target)], coap_request_data = noti_json\<rparr>
      else None)"

section \<open>Requests of release 5\<close>

lemma other_release_unanswered: "coap_respond_to_client print False o2pt = None"
  by (simp add: coap_respond_to_client_def Let_def)

text \<open>Two query options: the criteria of the first are lost.\<close>

lemma last_query_counts:
  "query_option parse o2pt q1 = Some o1 \<Longrightarrow> query_option parse o1 q2 = Some o2 \<Longrightarrow> query_option parse o2pt q2 = Some o3 \<Longrightarrow> p_fc o2 = p_fc o3"
  by (auto simp: query_option_def Let_def split: option.splits if_splits)

definition path_segment :: "string \<Rightarrow> bool" where
  "path_segment g \<longleftrightarrow> length g < 255 \<and> CHR 0x00 \<notin> set g"

lemma path_text: "path_segment g \<Longrightarrow> option_text COAP_OPTION_URI_PATH g = Some (Some g)"
  by (simp add: option_text_def path_segment_def takeWhile_eq_all_conv) (metis)

lemma coap_path_more:
  "list_all path_segment gs \<Longrightarrow> p_to o2pt = Some to \<Longrightarrow>
    coap_options parse rel5 o2pt (map (Pair COAP_OPTION_URI_PATH) gs) =
      Some (Inr (rel5, o2pt\<lparr>p_to := Some (to @ concat (map (\<lambda>g. ''/'' @ g) gs))\<rparr>))"
proof (induction gs arbitrary: o2pt to)
  case (Cons g gs)
  then show ?case by (simp add: path_text opt_to_o2pt_def)
qed simp

lemma coap_path:
  assumes "list_all path_segment (g # gs)" "p_to o2pt = None"
  shows "coap_options parse rel5 o2pt (map (Pair COAP_OPTION_URI_PATH) (g # gs)) =
    Some (Inr (rel5, o2pt\<lparr>p_to := Some (g @ concat (map (\<lambda>g. ''/'' @ g) gs))\<rparr>))"
  using assms coap_path_more [of gs "o2pt\<lparr>p_to := Some g\<rparr>" g] by (simp add: path_text opt_to_o2pt_def)

text \<open>
  C19. A creation over CoAP in release 5 reaches the dispatcher as it was meant: the segments of the path are the target, the
  parameters and the contents are those of the payload, and the answer is the parameters and contents that the dispatcher gave,
  with no trace of the request left in the binding.
\<close>

theorem coap_request_routed:
  assumes path: "list_all path_segment (g # gs)"
    and json: "data \<noteq> []" "parse data = Some json"
      "cJSON_GetObjectItem (Some json) ''rvi'' = Some (JString ''5'')" "cJSON_GetObjectItem (Some json) ''fr'' = Some (JString fr)"
      "cJSON_GetObjectItem (Some json) ''rqi'' = Some (JString rqi)" "cJSON_GetObjectItem (Some json) ''ty'' = Some ty"
      "cJSON_GetObjectItem (Some json) ''pc'' = Some pc" "cJSON_GetObjectItem (Some json) ''fc'' = None"
      "cJSON_GetObjectItem (Some json) ''drt'' = None" "cJSON_GetObjectItem (Some json) ''rcn'' = None"
    and prim: "prim = empty_o2pt\<lparr>p_op := OP_CREATE, p_rcn := RCN_ATTRIBUTES, p_to := Some (g @ concat (map (\<lambda>g. ''/'' @ g) gs)),
      p_fr := Some fr, p_rqi := Some rqi, p_rvi := RVI_5, p_ty := valueint ty, p_fc := Some (parse_filter_criteria (JObject [])),
      p_drt := DRT_STRUCTURED, p_request_pc := Some pc, p_ip := Some ip\<rparr>"
    and answer: "route E s prim = Some (o2pt, s')"
      "length (print_int (p_rsc o2pt)) + length (normalize_payload (print (coap_answer o2pt))) + 11 < 65535"
  shows "\<exists>response. hnd_coap_req E parse print False s 2 (map (Pair COAP_OPTION_URI_PATH) (g # gs)) data ip = Some (response, False, s') \<and>
    coap_data response = normalize_payload (print (coap_answer o2pt))"
proof -
  let ?o = "empty_o2pt\<lparr>p_op := OP_CREATE, p_rcn := coap_rcn OP_CREATE\<rparr>"
  let ?o' = "?o\<lparr>p_to := Some (g @ concat (map (\<lambda>g. ''/'' @ g) gs))\<rparr>"
  have opts: "coap_options parse False ?o (map (Pair COAP_OPTION_URI_PATH) (g # gs)) = Some (Inr (False, ?o'))"
    by (rule coap_path [OF path]) (simp add: empty_o2pt_def)
  have "to_rvi (Some ''5'') = RVI_5" by (simp add: to_rvi_def)
  then have "payload_opt_to_o2pt (?o'\<lparr>p_request_pc := Some json\<rparr>) = Some (prim\<lparr>p_ip := None\<rparr>)"
    using json(3-) unfolding payload_opt_to_o2pt_def text_member_def prim by (simp add: empty_o2pt_def coap_rcn_def Let_def)
  moreover have "prim\<lparr>p_ip := None, p_request_pc := Some pc, p_ip := Some ip, p_errFlag := False\<rparr> = prim"
    unfolding prim by (simp add: empty_o2pt_def)
  ultimately show ?thesis
    using json(1,2,3) answer opts
    by (simp add: hnd_coap_req_def coap_parse_req_code_def coap_parse_operation_def text_member_def coap_respond_to_client_def Let_def prim
        del: coap_options.simps)
qed

definition ex_coap :: cjson where
  "ex_coap = JObject [(''rvi'', JString ''5''), (''fr'', JString ''CAE1''), (''rqi'', JString ''r1''), (''ty'', JNumber 3), (''pc'', JObject [])]"

lemma ex_coap_members:
  "cJSON_GetObjectItem (Some ex_coap) ''rvi'' = Some (JString ''5'')" "cJSON_GetObjectItem (Some ex_coap) ''fr'' = Some (JString ''CAE1'')"
  "cJSON_GetObjectItem (Some ex_coap) ''rqi'' = Some (JString ''r1'')" "cJSON_GetObjectItem (Some ex_coap) ''ty'' = Some (JNumber 3)"
  "cJSON_GetObjectItem (Some ex_coap) ''pc'' = Some (JObject [])" "cJSON_GetObjectItem (Some ex_coap) ''fc'' = None"
  "cJSON_GetObjectItem (Some ex_coap) ''drt'' = None" "cJSON_GetObjectItem (Some ex_coap) ''rcn'' = None"
  by (simp_all add: ex_coap_def ci_eq_def tolower_def)

theorem coap_request_routed_witness:
  "\<exists>response. hnd_coap_req list_env (\<lambda>txt. Some ex_coap) (\<lambda>j. ''{}'') False (ex_cse []) 2
     (map (Pair COAP_OPTION_URI_PATH) [[], ''tinyiot'']) ''{}'' ''10.0.0.1'' = Some (response, False, ex_cse [])"
proof -
  define prim where "prim = empty_o2pt\<lparr>p_op := OP_CREATE, p_rcn := RCN_ATTRIBUTES, p_to := Some ([] @ concat (map (\<lambda>g. ''/'' @ g) [''tinyiot''])),
      p_fr := Some ''CAE1'', p_rqi := Some ''r1'', p_rvi := RVI_5, p_ty := valueint (JNumber 3), p_fc := Some (parse_filter_criteria (JObject [])),
      p_drt := DRT_STRUCTURED, p_request_pc := Some (JObject []), p_ip := Some ''10.0.0.1''\<rparr>"
  have "isSpRelativeLocal (Some ''/tinyiot'')" "checkResourceAddressingType (Some ''/tinyiot'') = Some SP_RELATIVE"
    by (simp_all add: isSpRelativeLocal_def starts_with_def local_id_def checkResourceAddressingType_def)
  then have r: "route list_env (ex_cse []) prim = Some (handle_error prim RSC_BAD_REQUEST ''Invalid uri'', ex_cse [])"
    by (simp add: route_def get_rtnode_def parse_spr_uri_def prim_def)
  have len: "length (print_int (p_rsc (handle_error prim RSC_BAD_REQUEST ''Invalid uri''))) + length (normalize_payload ''{}'') + 11 < 65535"
    by (simp add: print_int_def dec.simps normalize_payload_def)
  have path: "list_all path_segment [[], ''tinyiot'']" by (simp add: path_segment_def)
  from coap_request_routed [OF path _ _ ex_coap_members(1-3) ex_coap_members(4-8) prim_def r, of "''{}''" "\<lambda>txt. Some ex_coap" "\<lambda>j. ''{}''"] len
  show ?thesis by auto
qed

end
