(* ===== verification/Mqtt.thy ===== *)
theory Mqtt
  imports Dispatch
begin

text \<open>
  The MQTT binding (\<^verbatim>\<open>mqttClient.c\<close>): the callback for a message with its topic and payload, the primitive it
  makes of them, and the answer that is published. The client library is not modelled: a message is an
  argument, a publication a result, and the parser of cJSON the parameter \<open>parse\<close>. The binding is enabled by
  \<^verbatim>\<open>ENABLE_MQTT\<close> with the settings of \<^verbatim>\<open>config.h\<close>.
\<close>

section \<open>Identifiers and topics\<close>

definition MqttClientIdToId :: "string \<Rightarrow> string" where
  "MqttClientIdToId cseid = map (\<lambda>ch. if ch = CHR '':'' then CHR ''/'' else ch) cseid"

definition idToMqttClientId :: "string \<Rightarrow> string" where
  "idToMqttClientId cseid =
     map (\<lambda>ch. if ch = CHR ''/'' then CHR '':'' else ch) (if take 1 cseid = ''/'' then drop 1 cseid else cseid)"

abbreviation (input) MAX_PACKET_ID :: nat where "MAX_PACKET_ID \<equiv> 65535"
abbreviation (input) PRINT_BUFFER_SIZE :: nat where "PRINT_BUFFER_SIZE \<equiv> 131072"

definition mqtt_get_packetid :: "16 word \<Rightarrow> 16 word" where
  "mqtt_get_packetid mPacketIdLast = (if MAX_PACKET_ID \<le> unat mPacketIdLast then 0 else mPacketIdLast) + 1"

record publication =
  topic_name :: string
  packet_id :: "16 word"
  buffer :: string

text \<open>The answer is published on the topic of the originator; the topic is written into 512 bytes.\<close>

definition resp_topic :: "string \<Rightarrow> string \<Rightarrow> string" where
  "resp_topic req_type client =
     (if req_type = ''req'' then ''/oneM2M/resp/'' else ''/oneM2M/reg_resp/'') @ client @ ''/'' @ CSE_BASE_RI @ ''/json''"

definition mqtt_respond_to_client :: "'d env \<Rightarrow> 16 word \<Rightarrow> oneM2MPrimitive \<Rightarrow> string \<Rightarrow> publication option" where
  "mqtt_respond_to_client E mPacketIdLast o2pt req_type =
     do {
       mqtt_origin \<leftarrow> p_mqtt_origin o2pt;
       let respTopic = resp_topic req_type (idToMqttClientId mqtt_origin);
       if length respTopic < 512
       then Some \<lparr>topic_name = respTopic, packet_id = mqtt_get_packetid mPacketIdLast, buffer = e_print E (o2pt_to_json o2pt)\<rparr>
       else None }"

section \<open>The primitive of a message\<close>

text \<open>A value of \<^verbatim>\<open>Operation\<close>; a number without an enumerator takes the default branches, like \<^verbatim>\<open>OP_NONE\<close>.\<close>

definition to_operation :: "int \<Rightarrow> operation" where
  "to_operation n =
     (case map_of [(1, OP_CREATE), (2, OP_RETRIEVE), (3, OP_UPDATE), (4, OP_DELETE), (5, OP_NOTIFY), (6, OP_DISCOVERY),
        (1000, OP_VIEWER), (1001, OP_OPTIONS), (1002, OP_FORWARDING), (1003, OP_UPPERTESTER)] n of
        Some op \<Rightarrow> op
      | None \<Rightarrow> OP_NONE)"

text \<open>A number, or a text that is read as one; \<^verbatim>\<open>atoi\<close> of a null pointer is undefined.\<close>

definition int_or_text :: "cjson \<Rightarrow> int option" where
  "int_or_text j = (if valueint j \<noteq> 0 then Some (valueint j) else map_option atoi (valuestring j))"

definition mqtt_rcn :: "operation \<Rightarrow> int" where
  "mqtt_rcn op = (if op \<in> {OP_CREATE, OP_RETRIEVE, OP_UPDATE} then RCN_ATTRIBUTES else if op = OP_DELETE then RCN_NOTHING else 0)"

definition overwrite_int :: "cjson \<Rightarrow> string \<Rightarrow> int \<Rightarrow> int" where
  "overwrite_int json k n =
     (case cJSON_GetObjectItem (Some json) k of Some j \<Rightarrow> if valueint j \<noteq> 0 then valueint j else n | None \<Rightarrow> n)"

text \<open>
  The filter criteria: refused with an error, or taken over. The flag \<^verbatim>\<open>fu\<close> is read from the message as it was, before
  its texts are converted.
\<close>

definition mqtt_fc :: "oneM2MPrimitive \<Rightarrow> cjson \<Rightarrow> (bool \<times> oneM2MPrimitive) option" where
  "mqtt_fc o2pt json =
     (case cJSON_GetObjectItem (Some json) ''fc'' of
        None \<Rightarrow> Some (True, o2pt)
      | Some fc \<Rightarrow>
          do {
            (rsc, o2pt) \<leftarrow> validate_filter_criteria (o2pt\<lparr>p_fc := Some (parse_filter_criteria fc)\<rparr>);
            Some (if 4000 < rsc then (False, handle_error o2pt rsc ''Invalid FilterCriteria'')
                  else if map_option valueint (cJSON_GetObjectItem (Some fc) ''fu'') = Some 1
                  then (True, o2pt\<lparr>p_op := OP_DISCOVERY, p_rcn := RCN_DISCOVERY_RESULT_REFERENCES, p_drt := DRT_STRUCTURED\<rparr>)
                  else (True, o2pt)) })"

datatype mqtt_parsed = Mqtt_Invalid | Mqtt_Refused oneM2MPrimitive | Mqtt_Accepted oneM2MPrimitive

text \<open>The members behind the mandatory ones.\<close>

definition mqtt_members :: "oneM2MPrimitive \<Rightarrow> cjson \<Rightarrow> mqtt_parsed option" where
  "mqtt_members o2pt json =
     do {
       rqi \<leftarrow> (case cJSON_GetObjectItem (Some json) ''rqi'' of Some j \<Rightarrow> map_option Some (valuestring j) | None \<Rightarrow> Some None);
       (ok, o2pt) \<leftarrow> mqtt_fc (o2pt\<lparr>p_rqi := rqi\<rparr>) json;
       if \<not> ok then Some (Mqtt_Refused o2pt)
       else do {
         ty \<leftarrow> (case cJSON_GetObjectItem (Some json) ''ty'' of Some j \<Rightarrow> int_or_text j | None \<Rightarrow> Some (p_ty o2pt));
         Some (Mqtt_Accepted (o2pt\<lparr>p_rcn := overwrite_int json ''rcn'' (p_rcn o2pt), p_ty := ty,
           p_drt := overwrite_int json ''drt'' (p_drt o2pt), p_fopt := None, p_isFopt := False\<rparr>)) } }"

definition mqtt_primitive :: "string \<Rightarrow> cjson \<Rightarrow> mqtt_parsed option" where
  "mqtt_primitive originator json =
     (case cJSON_GetObjectItem (Some json) ''op'' of
        None \<Rightarrow> Some Mqtt_Invalid
      | Some j \<Rightarrow>
          do {
            n \<leftarrow> int_or_text j;
            let op = to_operation n;
            let o2pt = empty_o2pt\<lparr>p_mqtt_origin := Some (MqttClientIdToId originator), p_op := op, p_rcn := mqtt_rcn op\<rparr>;
            (case cJSON_GetObjectItem (Some json) ''to'' of
               None \<Rightarrow> Some Mqtt_Invalid
             | Some j \<Rightarrow>
                 do {
                   to \<leftarrow> valuestring j;
                   (case cJSON_GetObjectItem (Some json) ''fr'' of
                      None \<Rightarrow> Some Mqtt_Invalid
                    | Some j \<Rightarrow>
                        let o2pt = o2pt\<lparr>p_to := Some to, p_fr := valuestring j, p_request_pc := cJSON_GetObjectItem (Some json) ''pc''\<rparr>
                        in (case cJSON_GetObjectItem (Some json) ''rvi'' of
                              None \<Rightarrow> Some (Mqtt_Refused (handle_error o2pt RSC_BAD_REQUEST ''rvi is mandatory''))
                            | Some j \<Rightarrow> mqtt_members (o2pt\<lparr>p_rvi := to_rvi (valuestring j)\<rparr>) json)) }) })"

section \<open>The callback\<close>

text \<open>
  The levels of a topic are the prefix \<^verbatim>\<open>oneM2M\<close>, the kind of message, originator, receiver and content type. \<open>None\<close> is a
  level that is read although it is missing, or a second part of a message, for which the levels are not set.
\<close>

definition topic_level :: "string \<Rightarrow> nat \<Rightarrow> string option" where
  "topic_level topic i = (let levels = strtok (CHR ''/'') topic in if i < length levels then Some (levels ! i) else None)"

definition mqtt_message_cb ::
  "'d env \<Rightarrow> (string \<Rightarrow> cjson option) \<Rightarrow> 16 word \<Rightarrow> 'd cse \<Rightarrow> bool \<Rightarrow> string \<Rightarrow> string \<Rightarrow> (publication option \<times> 'd cse) option" where
  "mqtt_message_cb E parse mPacketIdLast s msg_new topic data =
     (if \<not> msg_new then None
      else do {
        req_type \<leftarrow> topic_level topic 1;
        if req_type = ''resp'' \<or> req_type = ''reg_resp'' then Some (None, s)
        else do {
          reciever \<leftarrow> topic_level topic 3;
          if reciever \<noteq> CSE_BASE_RI then Some (None, s)
          else case parse (take PRINT_BUFFER_SIZE data) of
            None \<Rightarrow> Some (None, s)
          | Some json \<Rightarrow>
              do {
                originator \<leftarrow> topic_level topic 2;
                parsed \<leftarrow> mqtt_primitive originator json;
                (case parsed of
                   Mqtt_Invalid \<Rightarrow> Some (None, s)
                 | Mqtt_Refused o2pt \<Rightarrow> do { pub \<leftarrow> mqtt_respond_to_client E mPacketIdLast o2pt req_type; Some (Some pub, s) }
                 | Mqtt_Accepted o2pt \<Rightarrow>
                     do {
                       contentType \<leftarrow> topic_level topic 4;
                       (o2pt, s) \<leftarrow>
                         (if contentType \<noteq> ''json''
                          then Some (handle_error o2pt RSC_UNSUPPORTED_MEDIATYPE ''Unsupported media type for content-type: 5'', s)
                          else route E s o2pt);
                       pub \<leftarrow> mqtt_respond_to_client E mPacketIdLast o2pt req_type;
                       Some (Some pub, s) }) } } })"

section \<open>Requests to others\<close>

text \<open>The topic of a notification, in 1024 bytes; \<open>target\<close> is the path of a point of access.\<close>

definition notify_topic :: "string \<Rightarrow> string option" where
  "notify_topic target =
     (let t = ''/oneM2M/req/'' @ CSE_BASE_RI @ ''/'' @ drop 1 target
      in if length t < 1024 then Some t else None)"

text \<open>\<open>connected\<close> is whether the broker of the target accepts the connection; the result is what is published.\<close>

definition mqtt_notify ::
  "'d env \<Rightarrow> bool \<Rightarrow> 16 word \<Rightarrow> cjson option \<Rightarrow> string \<Rightarrow> publication option option" where
  "mqtt_notify E connected mPacketIdLast noti_json target =
     do {
       topic \<leftarrow> notify_topic target;
       Some (if \<not> connected then None
             else map_option (\<lambda>noti. \<lparr>topic_name = topic, packet_id = mqtt_get_packetid mPacketIdLast, buffer = e_print E noti\<rparr>) noti_json) }"

text \<open>
  A forwarded request subscribes to the answers, with a topic in 256 bytes, and publishes the text of its contents, a null pointer for
  contents that are no text. \<open>connected\<close> is whether the broker accepts connection and subscription.
\<close>

definition forwarding_topic :: "string \<Rightarrow> string option" where
  "forwarding_topic csi =
     (let t = ''/oneM2M/req/'' @ CSE_BASE_RI @ ''/'' @ csi @ ''/json'' in if length t < 1024 then Some t else None)"

definition forwarding_answers :: "string \<Rightarrow> string option" where
  "forwarding_answers csi =
     (let t = ''/oneM2M/resp/'' @ CSE_BASE_RI @ ''/'' @ csi @ ''/#'' in if length t < 256 then Some t else None)"

definition mqtt_forwarding :: "bool \<Rightarrow> 16 word \<Rightarrow> oneM2MPrimitive \<Rightarrow> cjson \<Rightarrow> publication option option" where
  "mqtt_forwarding connected mPacketIdLast o2pt csr =
     do {
       csi \<leftarrow> cJSON_GetObjectItem (Some csr) ''csi'';
       csi \<leftarrow> valuestring csi;
       topic \<leftarrow> forwarding_topic csi;
       if \<not> connected then Some None
       else do {
         _ \<leftarrow> forwarding_answers csi;
         pc \<leftarrow> p_request_pc o2pt;
         txt \<leftarrow> valuestring pc;
         Some (Some \<lparr>topic_name = topic, packet_id = mqtt_get_packetid (mqtt_get_packetid mPacketIdLast), buffer = txt\<rparr>) } }"

text \<open>The subscriptions of the server: requests for it from anybody, and answers to it.\<close>

definition subscriptions :: "string list" where
  "subscriptions =
     [''/oneM2M/req/+/'' @ CSE_BASE_RI @ ''/#'', ''/oneM2M/resp/'' @ CSE_BASE_RI @ ''/+/#'',
      ''/oneM2M/reg_req/+/'' @ CSE_BASE_RI @ ''/#'', ''/oneM2M/reg_resp/'' @ CSE_BASE_RI @ ''/+/#'']"

section \<open>Answers\<close>

lemma client_id_roundtrip:
  assumes "CHR ''/'' \<notin> set client" "take 1 client \<noteq> '':''"
  shows "idToMqttClientId (MqttClientIdToId client) = client"
proof -
  have "take 1 (MqttClientIdToId client) \<noteq> ''/''" using assms by (cases client) (auto simp: MqttClientIdToId_def)
  moreover have "map (\<lambda>ch. if ch = CHR ''/'' then CHR '':'' else ch) (MqttClientIdToId client) = client"
    unfolding MqttClientIdToId_def map_map using assms(1) by (intro map_idI) auto
  ultimately show ?thesis by (simp add: idToMqttClientId_def)
qed

text \<open>An identifier that starts with a colon loses it on the way back, so its answer goes to another topic.\<close>

lemma leading_colon_lost: "idToMqttClientId (MqttClientIdToId (CHR '':'' # client)) = idToMqttClientId (MqttClientIdToId client) \<or>
    take 1 client = '':''  \<or> take 1 client = ''/''"
  by (cases client) (auto simp: idToMqttClientId_def MqttClientIdToId_def)

lemma packet_id_positive: "mqtt_get_packetid n \<noteq> 0"
proof (cases "MAX_PACKET_ID \<le> unat n")
  case False
  then have "unat n + 1 < 2 ^ LENGTH(16)" by simp
  then have "unat (n + 1) = unat n + 1" by (metis unat_1 unat_add_lem)
  then show ?thesis using False by (auto simp: mqtt_get_packetid_def)
qed (simp add: mqtt_get_packetid_def)

section \<open>Requests\<close>

lemma request_levels:
  assumes "client \<noteq> []" "CHR ''/'' \<notin> set client"
  shows "strtok (CHR ''/'') (''/oneM2M/req/'' @ client @ ''/'' @ CSE_BASE_RI @ ''/json'') = [''oneM2M'', ''req'', client, CSE_BASE_RI, ''json'']"
proof -
  have "strtok (CHR ''/'') (CHR ''/'' # t) = strtok (CHR ''/'') t" for t by (simp add: strtok_def split_on.simps)
  then show ?thesis
    using assms strtok_cons [of "CHR ''/''" "''oneM2M''"] strtok_cons [of "CHR ''/''" "''req''"] strtok_cons [of "CHR ''/''" client]
      strtok_cons [of "CHR ''/''" CSE_BASE_RI] strtok_single [of "CHR ''/''" "''json''"]
    by simp
qed

text \<open>
  C18. A request over MQTT reaches the dispatcher as it was meant: a message on the request topic of the CSE whose payload has
  operation, target, originator, version, identifier and type, but no filter criteria, result content or result type, is handled by \<^verbatim>\<open>route\<close> as exactly the primitive with these
  values, and the answer is published on the answer topic of the client that the request came from, if the dispatcher keeps that client in
  the primitive.
\<close>

theorem mqtt_request_routed:
  assumes client: "client \<noteq> []" "CHR ''/'' \<notin> set client" "take 1 client \<noteq> '':''" "length client < 480"
    and json: "parse (take PRINT_BUFFER_SIZE data) = Some json"
      "cJSON_GetObjectItem (Some json) ''op'' = Some (JNumber n)" "0 < n" "n < 1000"
      "cJSON_GetObjectItem (Some json) ''to'' = Some (JString to)" "cJSON_GetObjectItem (Some json) ''fr'' = Some (JString fr)"
      "cJSON_GetObjectItem (Some json) ''rvi'' = Some (JString rvi)" "cJSON_GetObjectItem (Some json) ''rqi'' = Some (JString rqi)"
      "cJSON_GetObjectItem (Some json) ''ty'' = Some (JNumber ty)" "0 < ty" "ty < INT_MAX"
      "cJSON_GetObjectItem (Some json) ''fc'' = None" "cJSON_GetObjectItem (Some json) ''rcn'' = None" "cJSON_GetObjectItem (Some json) ''drt'' = None"
    and prim: "prim = empty_o2pt\<lparr>p_mqtt_origin := Some (MqttClientIdToId client), p_op := to_operation n, p_rcn := mqtt_rcn (to_operation n),
      p_to := Some to, p_fr := Some fr, p_request_pc := cJSON_GetObjectItem (Some json) ''pc'', p_rvi := to_rvi (Some rvi), p_rqi := Some rqi, p_ty := ty\<rparr>"
    and answer: "route E s prim = Some (o2pt, s')" "p_mqtt_origin o2pt = p_mqtt_origin prim"
  shows "\<exists>pub. mqtt_message_cb E parse pid s True (''/oneM2M/req/'' @ client @ ''/'' @ CSE_BASE_RI @ ''/json'') data = Some (Some pub, s') \<and>
    topic_name pub = ''/oneM2M/resp/'' @ client @ ''/'' @ CSE_BASE_RI @ ''/json'' \<and> buffer pub = e_print E (o2pt_to_json o2pt)"
proof -
  have "INT_MIN < n" "n < INT_MAX" using json(3,4) by (simp_all add: INT_MAX_def INT_MIN_def)
  then have "int_or_text (JNumber n) = Some n" using json(3) by (simp add: int_or_text_def)
  moreover have "int_or_text (JNumber ty) = Some ty" using json(10,11) by (simp add: int_or_text_def INT_MIN_def)
  ultimately have "mqtt_primitive client json = Some (Mqtt_Accepted prim)"
    using json(2,5-9,12-14) unfolding mqtt_primitive_def mqtt_members_def mqtt_fc_def overwrite_int_def prim
    by (simp add: empty_o2pt_def Let_def)
  moreover have "mqtt_respond_to_client E pid o2pt ''req'' =
      Some \<lparr>topic_name = resp_topic ''req'' client, packet_id = mqtt_get_packetid pid, buffer = e_print E (o2pt_to_json o2pt)\<rparr>"
    using answer(2) client(4) client_id_roundtrip [OF client(2,3)] unfolding prim
    by (simp add: mqtt_respond_to_client_def resp_topic_def)
  ultimately show ?thesis
    using json(1) answer(1) request_levels [OF client(1,2)]
    by (simp add: mqtt_message_cb_def topic_level_def resp_topic_def)
qed

definition ex_mqtt :: cjson where
  "ex_mqtt = JObject [(''op'', JNumber 2), (''to'', JString ''/tinyiot''), (''fr'', JString ''CAE1''), (''rvi'', JString ''3''),
     (''rqi'', JString ''r1''), (''ty'', JNumber 3)]"

lemma ex_mqtt_members:
  "cJSON_GetObjectItem (Some ex_mqtt) ''op'' = Some (JNumber 2)" "cJSON_GetObjectItem (Some ex_mqtt) ''to'' = Some (JString ''/tinyiot'')"
  "cJSON_GetObjectItem (Some ex_mqtt) ''fr'' = Some (JString ''CAE1'')" "cJSON_GetObjectItem (Some ex_mqtt) ''rvi'' = Some (JString ''3'')"
  "cJSON_GetObjectItem (Some ex_mqtt) ''rqi'' = Some (JString ''r1'')" "cJSON_GetObjectItem (Some ex_mqtt) ''ty'' = Some (JNumber 3)"
  "cJSON_GetObjectItem (Some ex_mqtt) ''fc'' = None" "cJSON_GetObjectItem (Some ex_mqtt) ''rcn'' = None" "cJSON_GetObjectItem (Some ex_mqtt) ''drt'' = None"
  by (simp_all add: ex_mqtt_def ci_eq_def tolower_def)

theorem mqtt_request_routed_witness:
  "\<exists>pub. mqtt_message_cb list_env (\<lambda>txt. Some ex_mqtt) 7 (ex_cse []) True ''/oneM2M/req/CAE1/tinyiot/json'' [] = Some (Some pub, ex_cse []) \<and>
     topic_name pub = ''/oneM2M/resp/CAE1/tinyiot/json''"
proof -
  define prim where "prim = empty_o2pt\<lparr>p_mqtt_origin := Some (MqttClientIdToId ''CAE1''), p_op := to_operation 2, p_rcn := mqtt_rcn (to_operation 2),
    p_to := Some ''/tinyiot'', p_fr := Some ''CAE1'', p_request_pc := cJSON_GetObjectItem (Some ex_mqtt) ''pc'', p_rvi := to_rvi (Some ''3''),
    p_rqi := Some ''r1'', p_ty := 3\<rparr>"
  have "isSpRelativeLocal (Some ''/tinyiot'')" "checkResourceAddressingType (Some ''/tinyiot'') = Some SP_RELATIVE"
    by (simp_all add: isSpRelativeLocal_def starts_with_def local_id_def checkResourceAddressingType_def)
  then have "route list_env (ex_cse []) prim = Some (handle_error prim RSC_BAD_REQUEST ''Invalid uri'', ex_cse [])"
    by (simp add: route_def get_rtnode_def parse_spr_uri_def prim_def)
  note r = mqtt_request_routed [OF _ _ _ _ _ ex_mqtt_members(1) _ _ ex_mqtt_members(2-6) _ _ ex_mqtt_members(7-9) prim_def this,
      of "\<lambda>txt. Some ex_mqtt" "[]" 7]
  show ?thesis using r by (auto simp: handle_error_def INT_MAX_def)
qed

end
