(* ===== verification/Websocket.thy ===== *)
theory Websocket
  imports Mqtt AccessProps
begin

text \<open>
  The WebSocket binding (\<^verbatim>\<open>websocket/websocket_server.c\<close>), enabled by \<^verbatim>\<open>ENABLE_WS\<close>: the table that says on which
  connection an AE is reached, the callback for the events of a connection, the answers, and notifications to an AE that is
  connected. The library \<^verbatim>\<open>libwebsockets\<close> is not modelled: events are arguments, and what the code relies on of the
  library and of \<^verbatim>\<open>malloc\<close> is the record \<open>lws\<close>. A connection is a number. \<open>None\<close> is a run that the C standard
  does not define.
\<close>

section \<open>The session table\<close>

abbreviation (input) MAX_SESSIONS :: nat where "MAX_SESSIONS \<equiv> 100"

record session =
  ae :: ptr
  connection_handle :: "nat option"
  is_active :: bool

definition session_table :: "session list" where
  "session_table = replicate MAX_SESSIONS \<lparr>ae = None, connection_handle = None, is_active = False\<rparr>"

text \<open>A loop over an array that changes the first entry with a property and stops.\<close>

fun update_first :: "('a \<Rightarrow> bool) \<Rightarrow> ('a \<Rightarrow> 'a) \<Rightarrow> 'a list \<Rightarrow> 'a list" where
  "update_first P f [] = []"
| "update_first P f (x # xs) = (if P x then f x # xs else x # update_first P f xs)"

definition handle_duplicate_session :: "ptr \<Rightarrow> session list \<Rightarrow> session list" where
  "handle_duplicate_session p t = update_first (\<lambda>e. is_active e \<and> ae e = p) (\<lambda>e. e\<lparr>is_active := False\<rparr>) t"

definition add_session_connected :: "nat \<Rightarrow> ptr \<Rightarrow> session list \<Rightarrow> int \<times> session list" where
  "add_session_connected wsi p t =
     (if list_ex (\<lambda>e. \<not> is_active e) t
      then (0, update_first (\<lambda>e. \<not> is_active e) (\<lambda>e. \<lparr>ae = p, connection_handle = Some wsi, is_active = True\<rparr>) t)
      else (- 1, t))"

definition remove_session_from_Session_Table :: "nat \<Rightarrow> session list \<Rightarrow> session list" where
  "remove_session_from_Session_Table wsi t =
     update_first (\<lambda>e. is_active e \<and> connection_handle e = Some wsi) (\<lambda>e. e\<lparr>is_active := False, connection_handle := None\<rparr>) t"

definition find_wsi_from_session_table :: "ptr \<Rightarrow> session list \<Rightarrow> nat option" where
  "find_wsi_from_session_table p t =
     (case List.find (\<lambda>e. is_active e \<and> ae e = p) t of Some e \<Rightarrow> connection_handle e | None \<Rightarrow> None)"

text \<open>
  A new connection. The administrator, an anonymous, an unknown and an unprivileged originator are accepted without a
  session. A full table is the result -1.
\<close>

definition hendle_incomming_connection ::
  "'d env \<Rightarrow> 'd cse \<Rightarrow> nat \<Rightarrow> oneM2MPrimitive \<Rightarrow> session list \<Rightarrow> (int \<times> session list \<times> 'd cse) option" where
  "hendle_incomming_connection E s wsi o2pt t =
     (if p_fr o2pt = Some ADMIN_AE_ID then Some (0, t, s)
      else if p_fr o2pt = None \<or> p_fr o2pt = Some [] \<or> p_fr o2pt = Some ''C'' then Some (0, t, s)
      else do {
        (rtnode, s) \<leftarrow> find_rtnode E s (p_fr o2pt);
        (case rtnode of
           None \<Rightarrow> Some (0, t, s)
         | Some a \<Rightarrow>
             do {
               (r, _, s) \<leftarrow> check_privilege E s o2pt rtnode ACOP_CREATE;
               let (r, t) = (if r = 0 then add_session_connected wsi rtnode (handle_duplicate_session rtnode t) else (0, t));
               Some (r, t, s) }) })"

section \<open>Messages to a connection\<close>

text \<open>
  \<open>lws_pre\<close> is the room the library needs in front of a text, \<open>zeroed\<close> whether the memory of a new link of a queue happens
  to be zero: nothing sets its pointer \<^verbatim>\<open>next\<close>. \<open>lws_write\<close> is the result of a write, \<open>parse\<close> the parser of cJSON.
\<close>

record lws =
  lws_pre :: nat
  zeroed :: bool
  lws_write :: "nat \<Rightarrow> string \<Rightarrow> int"
  ws_parse :: "string \<Rightarrow> cjson option"

text \<open>The table, the queue of each connection (\<^verbatim>\<open>per_session_data\<close>), and the texts that were written, in their order.\<close>

record ws =
  sessions :: "session list"
  outbox :: "nat \<Rightarrow> string list"
  written :: "(nat \<times> string) list"

text \<open>A text and its final zero are copied into the 2048 bytes of a link, behind the room of the library.\<close>

definition queue_message :: "lws \<Rightarrow> nat \<Rightarrow> string \<Rightarrow> ws \<Rightarrow> ws option" where
  "queue_message L wsi txt w =
     (if (outbox w wsi = [] \<or> zeroed L) \<and> lws_pre L + length txt < 2048
      then Some (w\<lparr>outbox := (outbox w)(wsi := outbox w wsi @ [txt])\<rparr>)
      else None)"

fun write_all :: "lws \<Rightarrow> nat \<Rightarrow> string list \<Rightarrow> (int \<times> string list) option" where
  "write_all L wsi [] = Some (0, [])"
| "write_all L wsi (m # ms) =
     (if lws_write L wsi m < 0 then Some (- 1, [])
      else if \<not> zeroed L then None
      else map_option (map_prod id (Cons m)) (write_all L wsi ms))"

text \<open>After a failed write the callback returns -1, the library closes the connection and frees its queue.\<close>

definition server_writeable :: "lws \<Rightarrow> nat \<Rightarrow> ws \<Rightarrow> (int \<times> ws) option" where
  "server_writeable L wsi w =
     do {
       (r, ms) \<leftarrow> write_all L wsi (outbox w wsi);
       Some (r, w\<lparr>outbox := (outbox w)(wsi := []), written := written w @ map (Pair wsi) ms\<rparr>) }"

section \<open>Answers\<close>

definition response_head :: "oneM2MPrimitive \<Rightarrow> cjson" where
  "response_head o2pt =
     add_string (add_string (JObject [(''rsc'', JNumber (p_rsc o2pt))]) ''rqi'' (p_rqi o2pt)) ''rvi'' (from_rvi (p_rvi o2pt))"

definition response_create :: "oneM2MPrimitive \<Rightarrow> cjson \<Rightarrow> string \<Rightarrow> oneM2MPrimitive" where
  "response_create o2pt resource_obj resource_key =
     o2pt\<lparr>p_response_pc := Some (cJSON_AddItemToObject (response_head o2pt) ''pc'' (JObject [(resource_key, resource_obj)]))\<rparr>"

definition response_update :: "oneM2MPrimitive \<Rightarrow> cjson \<Rightarrow> string \<Rightarrow> oneM2MPrimitive" where
  "response_update o2pt resource_obj resource_key =
     o2pt\<lparr>p_response_pc := Some (cJSON_AddItemToObject (response_head o2pt) ''pc'' (JObject [(resource_key, resource_obj)]))\<rparr>"

definition response_delete :: "oneM2MPrimitive \<Rightarrow> oneM2MPrimitive" where
  "response_delete o2pt =
     o2pt\<lparr>p_response_pc := Some (add_string (add_string (cJSON_AddItemToObject (response_head o2pt) ''op'' (JNumber 4))
       ''fr'' (p_fr o2pt)) ''to'' (p_to o2pt))\<rparr>"

definition response_retrieve :: "oneM2MPrimitive \<Rightarrow> cjson \<Rightarrow> string \<Rightarrow> oneM2MPrimitive" where
  "response_retrieve o2pt resource_obj resource_key =
     o2pt\<lparr>p_response_pc := Some (cJSON_AddItemToObject (add_string (add_string (response_head o2pt) ''fr'' (p_fr o2pt)) ''to'' (p_to o2pt))
       ''pc'' (JObject [(resource_key, resource_obj)]))\<rparr>"

text \<open>The answer is made of the object of a node, when there is one; otherwise it stays what it was.\<close>

definition respond_with_node ::
  "(oneM2MPrimitive \<Rightarrow> cjson \<Rightarrow> string \<Rightarrow> oneM2MPrimitive) \<Rightarrow> 'd env \<Rightarrow> 'd cse \<Rightarrow> oneM2MPrimitive \<Rightarrow> string option \<Rightarrow>
    (oneM2MPrimitive \<times> 'd cse) option" where
  "respond_with_node f E s o2pt uri =
     do {
       (p, s) \<leftarrow> find_rtnode E s uri;
       (case p of
          None \<Rightarrow> Some (o2pt, s)
        | Some a \<Rightarrow>
            do {
              n \<leftarrow> heap s a;
              Some (case n_obj n of None \<Rightarrow> o2pt | Some obj \<Rightarrow> f o2pt obj (get_resource_key (p_ty o2pt)), s) }) }"

text \<open>The address of a created resource, in a buffer of 256 bytes; without a member \<^verbatim>\<open>rn\<close> in the request it is undefined.\<close>

definition created_ri :: "oneM2MPrimitive \<Rightarrow> string option" where
  "created_ri o2pt =
     do {
       rn \<leftarrow> cJSON_GetObjectItem (cJSON_GetObjectItem (p_request_pc o2pt) (get_resource_key (p_ty o2pt))) ''rn'';
       rn \<leftarrow> valuestring rn;
       to \<leftarrow> p_to o2pt;
       Some (take 255 (to @ ''/'' @ rn)) }"

definition websocket_respond_to_client :: "'d env \<Rightarrow> lws \<Rightarrow> 'd cse \<Rightarrow> oneM2MPrimitive \<Rightarrow> nat \<Rightarrow> ws \<Rightarrow> (ws \<times> 'd cse) option" where
  "websocket_respond_to_client E L s o2pt wsi w =
     do {
       (txt, s) \<leftarrow>
         (if p_rsc o2pt \<in> {RSC_CREATED, RSC_OK, RSC_DELETED, RSC_UPDATED}
          then do {
            (o2pt, s) \<leftarrow>
              (if p_rsc o2pt = RSC_CREATED then do { uri \<leftarrow> created_ri o2pt; respond_with_node response_create E s o2pt (Some uri) }
               else if p_rsc o2pt = RSC_OK then respond_with_node response_retrieve E s o2pt (p_to o2pt)
               else if p_rsc o2pt = RSC_UPDATED then respond_with_node response_update E s o2pt (p_to o2pt)
               else Some (response_delete o2pt, s));
            pc \<leftarrow> p_response_pc o2pt;
            Some (e_print E pc, s) }
          else Some (e_print E (o2pt_to_json o2pt), s));
       w \<leftarrow> queue_message L wsi txt w;
       Some (w, s) }"

section \<open>The callback\<close>

text \<open>The target without a slash at its start, and without the prefix of an SP-relative or absolute address.\<close>

definition ws_to :: "string \<Rightarrow> string option" where
  "ws_to to_str =
     (if take 1 to_str \<noteq> ''/'' then Some to_str
      else if take 1 (drop 1 to_str) = ''~'' \<or> take 1 (drop 1 to_str) = ''_''
      then (if length to_str < 3 then None else Some (drop 3 to_str))
      else Some (drop 1 to_str))"

definition ws_rcn :: "oneM2MPrimitive \<Rightarrow> oneM2MPrimitive" where
  "ws_rcn o2pt =
     (if p_op o2pt \<in> {OP_CREATE, OP_RETRIEVE, OP_UPDATE} then o2pt\<lparr>p_rcn := RCN_ATTRIBUTES\<rparr>
      else if p_op o2pt = OP_DELETE then o2pt\<lparr>p_rcn := RCN_NOTHING\<rparr>
      else if p_op o2pt = OP_DISCOVERY then o2pt\<lparr>p_rcn := RCN_DISCOVERY_RESULT_REFERENCES\<rparr>
      else handle_error o2pt RSC_BAD_REQUEST ''Unsupported operation'')"

text \<open>The identifier of a request is read only when it is a number, and then as a text.\<close>

definition ws_rqi :: "cjson \<Rightarrow> string option option" where
  "ws_rqi msg =
     (case cJSON_GetObjectItem (Some msg) ''rqi'' of
        Some j \<Rightarrow> if cJSON_IsNumber (Some j) then map_option Some (valuestring j) else Some None
      | None \<Rightarrow> Some None)"

text \<open>
  The primitive of a message, \<open>Some None\<close> without an operation. Without an originator the address of a local array is
  taken for it and freed at the end.
\<close>

definition ws_primitive :: "cjson \<Rightarrow> oneM2MPrimitive option option" where
  "ws_primitive msg =
     do {
       fr \<leftarrow> (case cJSON_GetObjectItem (Some msg) ''fr'' of Some (JString t) \<Rightarrow> Some t | _ \<Rightarrow> None);
       rqi \<leftarrow> ws_rqi msg;
       to \<leftarrow> (case cJSON_GetObjectItem (Some msg) ''to'' of Some (JString t) \<Rightarrow> map_option Some (ws_to t) | _ \<Rightarrow> Some None);
       Some (case cJSON_GetObjectItem (Some msg) ''op'' of
          None \<Rightarrow> None
        | Some j \<Rightarrow>
            Some (ws_rcn (empty_o2pt\<lparr>p_fr := Some fr, p_rqi := rqi, p_to := to,
              p_op := (if cJSON_IsNumber (Some j) then to_operation (valueint j) else OP_NONE),
              p_ty := (case cJSON_GetObjectItem (Some msg) ''ty'' of
                         Some j \<Rightarrow> if cJSON_IsNumber (Some j) then valueint j else 0
                       | None \<Rightarrow> 0),
              p_request_pc := cJSON_GetObjectItem (Some msg) ''pc'',
              p_rvi := (case cJSON_GetObjectItem (Some msg) ''rvi'' of Some (JString t) \<Rightarrow> to_rvi (Some t) | _ \<Rightarrow> RVI_NONE)\<rparr>))) }"

definition ws_receive :: "'d env \<Rightarrow> lws \<Rightarrow> 'd cse \<Rightarrow> nat \<Rightarrow> string \<Rightarrow> ws \<Rightarrow> (int \<times> ws \<times> 'd cse) option" where
  "ws_receive E L s wsi txt w =
     (case ws_parse L txt of
        None \<Rightarrow>
          do {
            (w, s) \<leftarrow> websocket_respond_to_client E L s (handle_error empty_o2pt RSC_BAD_REQUEST ''Invalid JSON format'') wsi w;
            Some (0, w, s) }
      | Some msg \<Rightarrow>
          do {
            prim \<leftarrow> ws_primitive msg;
            (case prim of
               None \<Rightarrow> Some (- 1, w, s)
             | Some o2pt \<Rightarrow>
                 do {
                   (o2pt, s) \<leftarrow> route E s o2pt;
                   (w, s) \<leftarrow> websocket_respond_to_client E L s o2pt wsi w;
                   Some (0, w, s) }) })"

text \<open>
  The events of a connection: its start with the value of the header \<^verbatim>\<open>X-M2M-Origin\<close>, a text received, the permission to
  write, and its end. A start that the table has no room for falls through to the branch that writes.
\<close>

datatype ws_event = Filter_Protocol_Connection "string option" | Server_Writeable | Receive string | Closed

fun callback_websocket :: "'d env \<Rightarrow> lws \<Rightarrow> 'd cse \<Rightarrow> nat \<Rightarrow> ws_event \<Rightarrow> ws \<Rightarrow> (int \<times> ws \<times> 'd cse) option" where
  "callback_websocket E L s wsi (Filter_Protocol_Connection hdr) w =
     do {
       let aei = (case hdr of Some v \<Rightarrow> v | None \<Rightarrow> []);
       (n, t, s) \<leftarrow> hendle_incomming_connection E s wsi (empty_o2pt\<lparr>p_fr := Some aei\<rparr>) (sessions w);
       let w = w\<lparr>sessions := t\<rparr>;
       if n = 0 then Some (0, w, s) else map_option (\<lambda>(r, w). (r, w, s)) (server_writeable L wsi w) }"
| "callback_websocket E L s wsi Server_Writeable w = map_option (\<lambda>(r, w). (r, w, s)) (server_writeable L wsi w)"
| "callback_websocket E L s wsi (Receive txt) w = ws_receive E L s wsi txt w"
| "callback_websocket E L s wsi Closed w = Some (0, w\<lparr>sessions := remove_session_from_Session_Table wsi (sessions w)\<rparr>, s)"

section \<open>Notifications\<close>

definition notify_object :: "oneM2MPrimitive \<Rightarrow> cjson option \<Rightarrow> cjson" where
  "notify_object o2pt pc =
     (let json = add_string (JObject [(''op'', JNumber 5)]) ''fr'' (p_fr o2pt);
          json = add_string (add_string (add_string json ''to'' (p_to o2pt)) ''rqi'' (p_rqi o2pt)) ''rvi'' (from_rvi (p_rvi o2pt))
      in case pc of Some pc \<Rightarrow> cJSON_AddItemToObject json ''pc'' pc | None \<Rightarrow> json)"

definition websocket_check_and_forwarding_from_sessionTable ::
  "'d env \<Rightarrow> lws \<Rightarrow> oneM2MPrimitive \<Rightarrow> ptr \<Rightarrow> ws \<Rightarrow> ws option" where
  "websocket_check_and_forwarding_from_sessionTable E L o2pt target_rtnode w =
     (case find_wsi_from_session_table target_rtnode (sessions w) of
        None \<Rightarrow> Some w
      | Some wsi \<Rightarrow> queue_message L wsi (e_print E (notify_object o2pt (p_request_pc o2pt))) w)"

text \<open>
  A notification on a connection of its own. The events are those that the library reports until its loop ends; an answer whose
  object has no \<^verbatim>\<open>rsc\<close> is undefined.
\<close>

datatype client_event = Client_Receive string | Timer | Client_Connection_Error | Client_Closed

fun callback_notify_verify :: "lws \<Rightarrow> client_event \<Rightarrow> int \<Rightarrow> int option" where
  "callback_notify_verify L (Client_Receive txt) rsc =
     (case ws_parse L txt of
        None \<Rightarrow> Some rsc
      | Some msg \<Rightarrow>
          map_option valueint
            (case cJSON_GetObjectItem (Some msg) ''rsc'' of
               None \<Rightarrow> cJSON_GetObjectItem (cJSON_GetObjectItem (Some msg) ''m2m:rsp'') ''rsc''
             | Some j \<Rightarrow> Some j))"
| "callback_notify_verify L Timer rsc = Some rsc"
| "callback_notify_verify L Client_Connection_Error rsc = Some 4000"
| "callback_notify_verify L Client_Closed rsc = Some rsc"

fun notify_events :: "lws \<Rightarrow> client_event list \<Rightarrow> int \<Rightarrow> int option" where
  "notify_events L [] rsc = Some rsc"
| "notify_events L (ev # evs) rsc = Option.bind (callback_notify_verify L ev rsc) (notify_events L evs)"

definition ws_protocol_binding_notify ::
  "'d env \<Rightarrow> lws \<Rightarrow> bool \<Rightarrow> client_event list \<Rightarrow> oneM2MPrimitive \<Rightarrow> string \<Rightarrow> (string \<times> int) option" where
  "ws_protocol_binding_notify E L connected evs o2pt noti_json =
     (let txt = e_print E (notify_object o2pt (ws_parse L noti_json))
      in if \<not> connected then Some (txt, 4000)
         else map_option (\<lambda>rsc. (txt, if rsc \<noteq> 0 then rsc else 4000)) (notify_events L evs 0))"

section \<open>What a request loses\<close>

text \<open>A message without an originator is undefined, and the identifier of a request never reaches the dispatcher.\<close>

lemma originator_needed: "cJSON_GetObjectItem (Some msg) ''fr'' = None \<Longrightarrow> ws_primitive msg = None"
  by (simp add: ws_primitive_def)

lemma ws_rqi_none: "ws_rqi msg = Some rqi \<Longrightarrow> rqi = None"
  by (auto simp: ws_rqi_def cJSON_IsNumber_def split: option.splits cjson.splits if_splits)

lemma ws_rcn_rqi: "p_rqi (ws_rcn o2pt) = p_rqi o2pt"
  by (simp add: ws_rcn_def handle_error_def)

lemma identifier_lost: "ws_primitive msg = Some (Some o2pt) \<Longrightarrow> p_rqi o2pt = None"
  unfolding ws_primitive_def bind_eq_Some_conv
  by (elim exE conjE, drule ws_rqi_none) (simp split: option.splits, auto simp: ws_rcn_rqi)

text \<open>The result of a successful retrieval or discovery is replaced by the object of the target.\<close>

lemma retrieval_result_lost:
  assumes "p_rsc o2pt = RSC_OK" "find_rtnode E s (p_to o2pt) = Some (Some a, s1)" "heap s1 a = Some n" "n_obj n \<noteq> None"
  shows "websocket_respond_to_client E L s (o2pt\<lparr>p_response_pc := pc\<rparr>) wsi w = websocket_respond_to_client E L s o2pt wsi w"
  using assms by (auto simp: websocket_respond_to_client_def respond_with_node_def response_retrieve_def response_head_def)

section \<open>The table as a map from AEs to connections\<close>

text \<open>
  What the sessions are for: an AE is reached on its latest connection, until that connection ends. The contract is stated
  over an abstract table; \<open>room\<close> is whether a session for an AE can be entered.
\<close>

locale session_registry =
  fixes ok :: "'t \<Rightarrow> bool"
    and room :: "addr \<Rightarrow> 't \<Rightarrow> bool"
    and reached :: "'t \<Rightarrow> addr \<Rightarrow> nat option"
    and enter :: "nat \<Rightarrow> addr \<Rightarrow> 't \<Rightarrow> 't"
    and leave :: "nat \<Rightarrow> 't \<Rightarrow> 't"
  assumes reached_inj: "ok t \<Longrightarrow> reached t a = Some wsi \<Longrightarrow> reached t b = Some wsi \<Longrightarrow> a = b"
    and enter_ok: "ok t \<Longrightarrow> room a t \<Longrightarrow> wsi \<notin> ran (reached t) \<Longrightarrow> ok (enter wsi a t)"
    and enter_reached: "ok t \<Longrightarrow> room a t \<Longrightarrow> wsi \<notin> ran (reached t) \<Longrightarrow> reached (enter wsi a t) = (reached t)(a \<mapsto> wsi)"
    and room_again: "ok t \<Longrightarrow> reached t a = Some wsi \<Longrightarrow> room a t"
    and leave_ok: "ok t \<Longrightarrow> ok (leave wsi t)"
    and leave_reached: "ok t \<Longrightarrow> reached (leave wsi t) b = (if reached t b = Some wsi then None else reached t b)"
begin

text \<open>The end of an unknown connection changes nothing; an AE that connects again is not lost when its first connection ends.\<close>

lemma leave_unknown: "ok t \<Longrightarrow> wsi \<notin> ran (reached t) \<Longrightarrow> reached (leave wsi t) = reached t"
  by (rule ext) (auto simp: leave_reached ran_def)

lemma reconnect:
  assumes "ok t" "reached t a = Some old" "new \<notin> ran (reached t)"
  shows "reached (leave old (enter new a t)) = (reached t)(a \<mapsto> new)"
proof -
  have room: "room a t" using assms(1,2) by (rule room_again)
  have e: "reached (enter new a t) = (reached t)(a \<mapsto> new)" using assms(1) room assms(3) by (rule enter_reached)
  have "old \<noteq> new" using assms(2,3) by (auto intro: ranI)
  then have "old \<notin> ran (reached (enter new a t))"
    unfolding e using reached_inj [OF assms(1,2)] by (auto simp: ran_def split: if_splits)
  then show ?thesis using leave_unknown [OF enter_ok [OF assms(1) room assms(3)]] e by simp
qed

end

definition live_sessions :: "session list \<Rightarrow> (ptr \<times> nat option) list" where
  "live_sessions t = map (\<lambda>e. (ae e, connection_handle e)) (filter is_active t)"

definition table_ok :: "session list \<Rightarrow> bool" where
  "table_ok t \<longleftrightarrow> length t = MAX_SESSIONS \<and> distinct (map fst (live_sessions t)) \<and> distinct (map snd (live_sessions t)) \<and>
     (\<forall>(p, c) \<in> set (live_sessions t). p \<noteq> None \<and> c \<noteq> None)"

definition reached_on :: "session list \<Rightarrow> addr \<Rightarrow> nat option" where
  "reached_on t a = find_wsi_from_session_table (Some a) t"

definition has_room :: "addr \<Rightarrow> session list \<Rightarrow> bool" where
  "has_room a t \<longleftrightarrow> list_ex (\<lambda>e. \<not> is_active e) (handle_duplicate_session (Some a) t)"

definition open_session :: "nat \<Rightarrow> addr \<Rightarrow> session list \<Rightarrow> session list" where
  "open_session wsi a t = snd (add_session_connected wsi (Some a) (handle_duplicate_session (Some a) t))"

lemma update_first_none: "\<not> list_ex P xs \<Longrightarrow> update_first P f xs = xs"
  by (induction xs) auto

lemma update_first_split:
  "list_ex P xs \<Longrightarrow> \<exists>us x vs. xs = us @ x # vs \<and> P x \<and> (\<forall>u \<in> set us. \<not> P u) \<and> update_first P f xs = us @ f x # vs"
proof (induction xs)
  case (Cons y ys)
  show ?case
  proof (cases "P y")
    case True
    then show ?thesis by (intro exI [of _ "[]"] exI [of _ y] exI [of _ ys]) simp
  next
    case False
    then obtain us x vs where "ys = us @ x # vs" "P x" "\<forall>u \<in> set us. \<not> P u" "update_first P f ys = us @ f x # vs"
      using Cons by auto
    with False show ?thesis by (intro exI [of _ "y # us"] exI [of _ x] exI [of _ vs]) simp
  qed
qed simp

lemma length_update_first [simp]: "length (update_first P f xs) = length xs"
  by (induction xs) auto

lemma find_live: "find_wsi_from_session_table p t = (case map_of (live_sessions t) p of Some c \<Rightarrow> c | None \<Rightarrow> None)"
  by (induction t) (auto simp: find_wsi_from_session_table_def live_sessions_def)

lemma reached_live:
  assumes "table_ok t"
  shows "reached_on t a = Some wsi \<longleftrightarrow> (Some a, Some wsi) \<in> set (live_sessions t)"
proof -
  have d: "distinct (map fst (live_sessions t))" using assms by (simp add: table_ok_def)
  have "reached_on t a = Some wsi \<longleftrightarrow> map_of (live_sessions t) (Some a) = Some (Some wsi)"
    by (auto simp: reached_on_def find_live split: option.splits)
  then show ?thesis using map_of_eq_Some_iff [OF d, of "Some a" "Some wsi"] by simp
qed

lemma live_clear:
  assumes "\<And>e. f (e :: session) = e\<lparr>is_active := False, connection_handle := g e\<rparr>"
  obtains us vs where "live_sessions (update_first (\<lambda>e. is_active e \<and> k (ae e, connection_handle e) = p) f t) = us @ vs"
    "live_sessions t = us @ vs \<and> (\<forall>x \<in> set (live_sessions t). k x \<noteq> p) \<or> (\<exists>x. k x = p \<and> live_sessions t = us @ x # vs)"
proof (cases "list_ex (\<lambda>e. is_active e \<and> k (ae e, connection_handle e) = p) t")
  case False
  then have "\<forall>x \<in> set (live_sessions t). k x \<noteq> p" by (auto simp: live_sessions_def list_ex_iff)
  then show ?thesis using False by (intro that [of "live_sessions t" "[]"]) (simp_all add: update_first_none)
next
  case True
  from update_first_split [OF True, of f] obtain us e vs where
    t: "t = us @ e # vs" "is_active e" "k (ae e, connection_handle e) = p"
    "update_first (\<lambda>e. is_active e \<and> k (ae e, connection_handle e) = p) f t = us @ f e # vs" by blast
  then show ?thesis by (intro that [of "live_sessions us" "live_sessions vs"]) (auto simp: live_sessions_def assms)
qed

lemma drop_key:
  assumes "distinct (map k xs)" "xs = us @ vs \<and> (\<forall>x \<in> set xs. k x \<noteq> p) \<or> (\<exists>x. k x = p \<and> xs = us @ x # vs)"
  shows "set (us @ vs) = {x \<in> set xs. k x \<noteq> p}"
  using assms(2)
proof
  assume "\<exists>x. k x = p \<and> xs = us @ x # vs"
  then obtain x where x: "k x = p" "xs = us @ x # vs" by blast
  then have "p \<notin> k ` set (us @ vs)" using assms(1) by auto
  then have "\<forall>y \<in> set (us @ vs). k y \<noteq> p" by blast
  then show ?thesis unfolding x(2) using x(1) by auto
qed auto

lemma distinct_drop: "distinct (us @ x # vs) \<Longrightarrow> distinct (us @ vs)"
  by simp

lemma clear_live:
  assumes "\<And>e. f (e :: session) = e\<lparr>is_active := False, connection_handle := g e\<rparr>"
    and t': "t' = update_first (\<lambda>e. is_active e \<and> k (ae e, connection_handle e) = p) f t"
  shows "distinct (map k (live_sessions t)) \<Longrightarrow> set (live_sessions t') = {x \<in> set (live_sessions t). k x \<noteq> p}"
    "distinct (map h (live_sessions t)) \<Longrightarrow> distinct (map h (live_sessions t'))"
proof -
  obtain us vs where l: "live_sessions t' = us @ vs" and
    c: "live_sessions t = us @ vs \<and> (\<forall>x \<in> set (live_sessions t). k x \<noteq> p) \<or> (\<exists>x. k x = p \<and> live_sessions t = us @ x # vs)"
    using live_clear [OF assms(1), of k p t] unfolding t' by blast
  show "distinct (map k (live_sessions t)) \<Longrightarrow> set (live_sessions t') = {x \<in> set (live_sessions t). k x \<noteq> p}"
    unfolding l using c by (rule drop_key [rotated])
  show "distinct (map h (live_sessions t)) \<Longrightarrow> distinct (map h (live_sessions t'))"
    unfolding l using c distinct_drop [of "map h us"] by fastforce
qed

lemma duplicate_live:
  "distinct (map fst (live_sessions t)) \<Longrightarrow> set (live_sessions (handle_duplicate_session p t)) = {x \<in> set (live_sessions t). fst x \<noteq> p}"
  "distinct (map h (live_sessions t)) \<Longrightarrow> distinct (map h (live_sessions (handle_duplicate_session p t)))"
  using clear_live [of "\<lambda>e. e\<lparr>is_active := False\<rparr>" connection_handle _ fst p t, OF _ refl] by (simp_all add: handle_duplicate_session_def)

lemma remove_live:
  "distinct (map snd (live_sessions t)) \<Longrightarrow>
    set (live_sessions (remove_session_from_Session_Table wsi t)) = {x \<in> set (live_sessions t). snd x \<noteq> Some wsi}"
  "distinct (map h (live_sessions t)) \<Longrightarrow> distinct (map h (live_sessions (remove_session_from_Session_Table wsi t)))"
  using clear_live [of "\<lambda>e. e\<lparr>is_active := False, connection_handle := None\<rparr>" "\<lambda>e. None" _ snd "Some wsi" t, OF _ refl]
  by (simp_all add: remove_session_from_Session_Table_def)

lemma add_live:
  assumes "list_ex (\<lambda>e. \<not> is_active e) t"
  obtains us vs where "live_sessions t = us @ vs" "live_sessions (snd (add_session_connected wsi p t)) = us @ (p, Some wsi) # vs"
proof -
  from update_first_split [OF assms] obtain us e vs where
    "t = us @ e # vs" "\<not> is_active e"
    "update_first (\<lambda>e. \<not> is_active e) (\<lambda>e. \<lparr>ae = p, connection_handle = Some wsi, is_active = True\<rparr>) t =
      us @ \<lparr>ae = p, connection_handle = Some wsi, is_active = True\<rparr> # vs" by blast
  then show ?thesis using assms by (intro that [of "live_sessions us" "live_sessions vs"]) (auto simp: live_sessions_def add_session_connected_def)
qed

lemma open_session_live:
  assumes t: "table_ok t" and room: "has_room a t" and new: "wsi \<notin> ran (reached_on t)"
  shows "set (live_sessions (open_session wsi a t)) = insert (Some a, Some wsi) {x \<in> set (live_sessions t). fst x \<noteq> Some a}"
    "table_ok (open_session wsi a t)"
proof -
  let ?d = "handle_duplicate_session (Some a) t"
  have d: "distinct (map fst (live_sessions t))" "distinct (map snd (live_sessions t))" "length t = MAX_SESSIONS"
    and c: "\<forall>(p, c) \<in> set (live_sessions t). p \<noteq> None \<and> c \<noteq> None" using t by (simp_all add: table_ok_def)
  note dup = duplicate_live(1) [OF d(1), of "Some a"] duplicate_live(2) [OF d(1), of "Some a"] duplicate_live(2) [OF d(2), of "Some a"]
  obtain us vs where l: "live_sessions ?d = us @ vs" "live_sessions (open_session wsi a t) = us @ (Some a, Some wsi) # vs"
    using add_live [OF room [unfolded has_room_def]] unfolding open_session_def by blast
  show s: "set (live_sessions (open_session wsi a t)) = insert (Some a, Some wsi) {x \<in> set (live_sessions t). fst x \<noteq> Some a}"
    using dup(1) l by auto
  have "Some wsi \<notin> snd ` set (live_sessions t)"
  proof
    assume "Some wsi \<in> snd ` set (live_sessions t)"
    then obtain b where "(Some b, Some wsi) \<in> set (live_sessions t)" using c by fastforce
    then show False using new reached_live [OF t] by (auto simp: ran_def)
  qed
  then have "Some a \<notin> fst ` set (us @ vs)" "Some wsi \<notin> snd ` set (us @ vs)" using dup(1) l(1) by auto
  then have "distinct (map fst (us @ (Some a, Some wsi) # vs))" "distinct (map snd (us @ (Some a, Some wsi) # vs))"
    using dup(2,3) unfolding l(1) by auto
  moreover have "length (open_session wsi a t) = MAX_SESSIONS"
    using d(3) by (simp add: open_session_def add_session_connected_def handle_duplicate_session_def)
  ultimately show "table_ok (open_session wsi a t)" using c l(2) s unfolding table_ok_def by auto
qed

lemma remove_ok: "table_ok t \<Longrightarrow> table_ok (remove_session_from_Session_Table wsi t)"
  using remove_live(1) [of t wsi] remove_live(2) [of fst t wsi] remove_live(2) [of snd t wsi]
  unfolding table_ok_def by (auto simp: remove_session_from_Session_Table_def)

lemma option_eq_iff: "(\<And>w. x = Some w \<longleftrightarrow> y = Some w) \<Longrightarrow> x = y"
  by (cases x; cases y) auto

interpretation st: session_registry table_ok has_room reached_on open_session remove_session_from_Session_Table
proof unfold_locales
  fix t a wsi b
  assume t: "table_ok t"
  then have d: "distinct (map snd (live_sessions t))" by (simp add: table_ok_def)
  show "reached_on t a = Some wsi \<Longrightarrow> reached_on t b = Some wsi \<Longrightarrow> a = b"
    using t d inj_onD [of snd "set (live_sessions t)" "(Some a, Some wsi)" "(Some b, Some wsi)"] by (simp add: reached_live distinct_map)
  show "has_room a t \<Longrightarrow> wsi \<notin> ran (reached_on t) \<Longrightarrow> table_ok (open_session wsi a t)" by (rule open_session_live(2) [OF t])
  show "has_room a t \<Longrightarrow> wsi \<notin> ran (reached_on t) \<Longrightarrow> reached_on (open_session wsi a t) = (reached_on t)(a \<mapsto> wsi)"
    using open_session_live [OF t] by (intro ext option_eq_iff) (simp add: reached_live t, auto)
  show "table_ok (remove_session_from_Session_Table wsi t)" using t by (rule remove_ok)
  show "reached_on (remove_session_from_Session_Table wsi t) b = (if reached_on t b = Some wsi then None else reached_on t b)"
  proof (rule option_eq_iff)
    fix w
    have "reached_on (remove_session_from_Session_Table wsi t) b = Some w \<longleftrightarrow> reached_on t b = Some w \<and> w \<noteq> wsi"
      using remove_live(1) [OF d] by (simp add: reached_live t remove_ok)
    then show "reached_on (remove_session_from_Session_Table wsi t) b = Some w \<longleftrightarrow>
        (if reached_on t b = Some wsi then None else reached_on t b) = Some w" by auto
  qed
  show "reached_on t a = Some wsi \<Longrightarrow> has_room a t"
  proof -
    assume "reached_on t a = Some wsi"
    then have "list_ex (\<lambda>e. is_active e \<and> ae e = Some a) t" using t by (auto simp: reached_live live_sessions_def list_ex_iff)
    from update_first_split [OF this, of "\<lambda>e. e\<lparr>is_active := False\<rparr>"] show "has_room a t"
      by (auto simp: has_room_def handle_duplicate_session_def)
  qed
qed

section \<open>Every run of the binding\<close>

text \<open>
  The states that the binding can be in: the events of connections and the notifications of other requests come in any order, each
  under an environment of \<open>Es\<close> and with any resource tree. The library reports the start of a connection once, so a
  connection that starts is not in the table.
\<close>

inductive ws_reachable :: "'d env set \<Rightarrow> lws \<Rightarrow> ws \<Rightarrow> bool" for Es :: "'d env set" and L :: lws where
  ws_start: "ws_reachable Es L \<lparr>sessions = session_table, outbox = (\<lambda>wsi. []), written = []\<rparr>"
| ws_callback: "ws_reachable Es L w \<Longrightarrow> E \<in> Es \<Longrightarrow>
    (\<forall>hdr. ev = Filter_Protocol_Connection hdr \<longrightarrow> wsi \<notin> ran (reached_on (sessions w))) \<Longrightarrow>
    callback_websocket E L s wsi ev w = Some (r, w', s') \<Longrightarrow> ws_reachable Es L w'"
| ws_forward: "ws_reachable Es L w \<Longrightarrow> E \<in> Es \<Longrightarrow>
    websocket_check_and_forwarding_from_sessionTable E L o2pt p w = Some w' \<Longrightarrow> ws_reachable Es L w'"

lemma connection_table:
  "hendle_incomming_connection E s wsi o2pt t = Some (r, t', s') \<Longrightarrow>
    t' = t \<or> (\<exists>a. has_room a t \<and> t' = open_session wsi a t) \<or> (\<exists>a. \<not> has_room a t \<and> r = - 1 \<and> t' = handle_duplicate_session (Some a) t)"
  by (auto simp: hendle_incomming_connection_def open_session_def has_room_def add_session_connected_def bind_eq_Some_conv Let_def
      split: if_splits option.splits prod.splits)

lemma no_room_unchanged:
  assumes "table_ok t" "\<not> has_room a t"
  shows "handle_duplicate_session (Some a) t = t"
proof -
  have "\<not> list_ex (\<lambda>e. is_active e \<and> ae e = Some a) t"
  proof
    assume "list_ex (\<lambda>e. is_active e \<and> ae e = Some a) t"
    from update_first_split [OF this, of "\<lambda>e. e\<lparr>is_active := False\<rparr>"] assms(2) show False
      by (auto simp: has_room_def handle_duplicate_session_def)
  qed
  then show ?thesis by (simp add: handle_duplicate_session_def update_first_none)
qed

lemma queue_sessions: "queue_message L wsi txt w = Some w' \<Longrightarrow> sessions w' = sessions w"
  by (auto simp: queue_message_def split: if_splits)

lemma respond_sessions: "websocket_respond_to_client E L s o2pt wsi w = Some (w', s') \<Longrightarrow> sessions w' = sessions w"
  by (auto simp: websocket_respond_to_client_def bind_eq_Some_conv dest!: queue_sessions)

lemma writeable_sessions: "server_writeable L wsi w = Some (r, w') \<Longrightarrow> sessions w' = sessions w"
  by (auto simp: server_writeable_def bind_eq_Some_conv)

lemma receive_sessions: "ws_receive E L s wsi txt w = Some (r, w', s') \<Longrightarrow> sessions w' = sessions w"
  by (auto simp: ws_receive_def bind_eq_Some_conv split: option.splits dest!: respond_sessions)

lemma forward_sessions:
  "websocket_check_and_forwarding_from_sessionTable E L o2pt p w = Some w' \<Longrightarrow> sessions w' = sessions w"
  by (auto simp: websocket_check_and_forwarding_from_sessionTable_def split: option.splits dest!: queue_sessions)

lemma initial_ok: "table_ok session_table"
  by (simp add: table_ok_def session_table_def live_sessions_def)

lemma reachable_ok: "ws_reachable Es L w \<Longrightarrow> table_ok (sessions w)"
proof (induction rule: ws_reachable.induct)
  case (ws_callback w E ev wsi s r w' s')
  show ?case
  proof (cases ev)
    case (Filter_Protocol_Connection hdr)
    then obtain n t s'' where c: "hendle_incomming_connection E s wsi (empty_o2pt\<lparr>p_fr := Some (case hdr of Some v \<Rightarrow> v | None \<Rightarrow> [])\<rparr>) (sessions w) = Some (n, t, s'')"
      and "sessions w' = t" using ws_callback.hyps(4)
      by (auto simp: bind_eq_Some_conv Let_def split: if_splits dest!: writeable_sessions)
    then show ?thesis
      using connection_table [OF c] no_room_unchanged [OF ws_callback.IH] st.enter_ok [OF ws_callback.IH] ws_callback.IH
        ws_callback.hyps(3) Filter_Protocol_Connection by auto
  qed (use ws_callback in \<open>auto dest: receive_sessions writeable_sessions intro: remove_ok\<close>)
qed (auto simp: initial_ok dest: forward_sessions)

lemma distinct_filter_nth:
  "distinct (map f (filter P xs)) \<Longrightarrow> i < length xs \<Longrightarrow> j < length xs \<Longrightarrow> P (xs ! i) \<Longrightarrow> P (xs ! j) \<Longrightarrow> f (xs ! i) = f (xs ! j) \<Longrightarrow> i = j"
proof (induction xs arbitrary: i j)
  case (Cons x xs)
  have "k < length xs \<Longrightarrow> P (xs ! k) \<Longrightarrow> P x \<Longrightarrow> f x \<noteq> f (xs ! k)" for k
    using Cons.prems(1) by (auto simp: image_iff)
  moreover have "distinct (map f (filter P xs))" using Cons.prems(1) by (simp split: if_splits)
  ultimately show ?case using Cons.prems(2-) Cons.IH by (cases i; cases j) (auto, metis)
qed simp

text \<open>
  C20. However connections start, end and are used, the table of sessions keeps its 100 entries, and no two active entries
  have the same AE or the same connection.
\<close>

theorem ws_sessions_unique:
  assumes "ws_reachable Es L w"
  shows "length (sessions w) = MAX_SESSIONS \<and>
    (\<forall>i < MAX_SESSIONS. \<forall>j < MAX_SESSIONS. i \<noteq> j \<and> is_active (sessions w ! i) \<and> is_active (sessions w ! j) \<longrightarrow>
       ae (sessions w ! i) \<noteq> ae (sessions w ! j) \<and> connection_handle (sessions w ! i) \<noteq> connection_handle (sessions w ! j))"
proof -
  have "table_ok (sessions w)" using assms by (rule reachable_ok)
  then have l: "length (sessions w) = MAX_SESSIONS" and
    d: "distinct (map ae (filter is_active (sessions w)))" "distinct (map connection_handle (filter is_active (sessions w)))"
    by (simp_all add: table_ok_def live_sessions_def comp_def)
  then show ?thesis using distinct_filter_nth [OF d(1)] distinct_filter_nth [OF d(2)] by metis
qed

lemma connection_opens:
  assumes "fr \<notin> {ADMIN_AE_ID, [], ''C''}" "find_rtnode E s (Some fr) = Some (Some a, s1)"
    "check_privilege E s1 (empty_o2pt\<lparr>p_fr := Some fr\<rparr>) (Some a) ACOP_CREATE = Some (0, o2pt, s2)" "has_room a (sessions w)"
  shows "callback_websocket E L s wsi (Filter_Protocol_Connection (Some fr)) w = Some (0, w\<lparr>sessions := open_session wsi a (sessions w)\<rparr>, s2)"
  using assms by (simp add: hendle_incomming_connection_def open_session_def has_room_def add_session_connected_def)

text \<open>
  C21. An AE is reached on its latest connection: when an AE with a session connects again and its first connection
  ends afterwards, notifications go to the second one, and those to every other AE go where they went.
\<close>

theorem ws_reconnected:
  assumes w: "ws_reachable Es L w" "find_wsi_from_session_table (Some a) (sessions w) = Some old"
      "\<forall>b. find_wsi_from_session_table (Some b) (sessions w) \<noteq> Some new"
    and origin: "fr \<notin> {ADMIN_AE_ID, [], ''C''}" "find_rtnode E s (Some fr) = Some (Some a, s1)"
      "check_privilege E s1 (empty_o2pt\<lparr>p_fr := Some fr\<rparr>) (Some a) ACOP_CREATE = Some (0, o2pt, s2)"
  shows "\<exists>w1 w2. callback_websocket E L s new (Filter_Protocol_Connection (Some fr)) w = Some (0, w1, s2) \<and>
    callback_websocket E' L s' old Closed w1 = Some (0, w2, s') \<and>
    (\<forall>b. find_wsi_from_session_table (Some b) (sessions w2) =
       (if b = a then Some new else find_wsi_from_session_table (Some b) (sessions w)))"
proof -
  let ?w1 = "w\<lparr>sessions := open_session new a (sessions w)\<rparr>"
  have ok: "table_ok (sessions w)" using w(1) by (rule reachable_ok)
  have a: "reached_on (sessions w) a = Some old" and n: "new \<notin> ran (reached_on (sessions w))"
    using w(2,3) by (auto simp: reached_on_def ran_def)
  have "reached_on (remove_session_from_Session_Table old (open_session new a (sessions w))) = (reached_on (sessions w))(a \<mapsto> new)"
    using st.reconnect [OF ok a n] .
  then have "\<forall>b. find_wsi_from_session_table (Some b) (remove_session_from_Session_Table old (sessions ?w1)) =
      (if b = a then Some new else find_wsi_from_session_table (Some b) (sessions w))"
    by (simp add: reached_on_def fun_eq_iff)
  then show ?thesis
    using connection_opens [OF origin st.room_again [OF ok a], of L new]
    by (intro exI [of _ ?w1] exI [of _ "?w1\<lparr>sessions := remove_session_from_Session_Table old (sessions ?w1)\<rparr>"])
      (simp del: callback_websocket.simps(1))
qed

lemma write_all_ok: "zeroed L \<Longrightarrow> \<forall>m \<in> set ms. 0 \<le> lws_write L wsi m \<Longrightarrow> write_all L wsi ms = Some (0, ms)"
  by (induction ms) auto

text \<open>
  A notification to an AE that is connected is queued behind the messages of its connection, and when the
  connection can be written all of them are written in their order, with no effect on other connections. It has to fit into a link
  of the queue, and the memory of links has to be zero. As nothing in the program sets that memory (the pointer \<^verbatim>\<open>next\<close> of a link), this is what the
  queue is meant to do and not what it does.
\<close>

theorem ws_notification_delivered:
  assumes "find_wsi_from_session_table p (sessions w) = Some wsi" "zeroed L"
    and "txt = e_print E (notify_object o2pt (p_request_pc o2pt))" "lws_pre L + length txt < 2048"
    and "\<forall>m \<in> set (outbox w wsi @ [txt]). 0 \<le> lws_write L wsi m"
  shows "\<exists>w1 w2. websocket_check_and_forwarding_from_sessionTable E L o2pt p w = Some w1 \<and>
    callback_websocket E' L s wsi Server_Writeable w1 = Some (0, w2, s) \<and>
    written w2 = written w @ map (Pair wsi) (outbox w wsi @ [txt]) \<and> outbox w2 = (outbox w)(wsi := []) \<and> sessions w2 = sessions w"
  using assms write_all_ok [OF assms(2,5)]
  by (simp add: websocket_check_and_forwarding_from_sessionTable_def queue_message_def server_writeable_def)

section \<open>Examples\<close>

abbreviation ex_lws :: lws where
  "ex_lws \<equiv> \<lparr>lws_pre = 16, zeroed = True, lws_write = (\<lambda>wsi txt. int (length txt)), ws_parse = (\<lambda>txt. None)\<rparr>"

definition ex_ws :: ws where
  "ex_ws = \<lparr>sessions = open_session 7 1 session_table, outbox = (\<lambda>wsi. []), written = []\<rparr>"

lemma ex_ws_originator:
  "find_rtnode list_env (ex_cse []) (Some ''CAE1'') = Some (Some 1, ex_cse [])"
  "\<exists>o2pt. check_privilege list_env (ex_cse []) (empty_o2pt\<lparr>p_fr := Some ''CAE1''\<rparr>) (Some 1) ACOP_CREATE = Some (0, o2pt, ex_cse [])"
proof -
  let ?n = "mk_node RT_AE ''ae1'' ''CAE1'' (Some ''TinyIoT/ae1'') (Some 0) (Some 3) None (Some 2)"
  let ?o = "empty_o2pt\<lparr>p_fr := Some ''CAE1''\<rparr>"
  have n: "heap (ex_cse ([] :: rtnode list)) 1 = Some ?n" by (simp add: ex_cse_def ex_heap_def)
  have "list_all (has_ri ex_heap) (addrs [ex_tree])"
    by (simp add: ex_tree_def ex_heap_def mk_node_def has_ri_def get_ri_rtnode_def member_string_def ci_eq_def tolower_def)
  from rt_search_ri_preorder [OF ex_wf this, of "''CAE1''"] have "rt_search_ri ex_heap (Some 0) ''CAE1'' = Some (Some 1)"
    by (simp add: ex_tree_def ex_heap_def mk_node_def ri_is_def get_ri_rtnode_def member_string_def ci_eq_def tolower_def)
  then have "find_rtnode_by_ri list_env (ex_cse []) ''CAE1'' = Some (Some 1, ex_cse [])"
    by (simp add: find_rtnode_by_ri_def ex_cse_def strncmp_def)
  then show "find_rtnode list_env (ex_cse []) (Some ''CAE1'') = Some (Some 1, ex_cse [])"
    using n by (simp add: find_rtnode_def structured_def starts_with_def drop_if_expired_def mk_node_not_expired)
  have "effective_policy ex_heap ''CAE1'' (Some 1) = Some (Policy_Owner True)"
    using effective_policy_first [of ex_heap "Some 0" ex_tree 1 "[1, 0]" "''CAE1''"] ex_wf
    by (simp add: ex_tree_def ex_heap_def mk_node_def ci_eq_def tolower_def get_ri_rtnode_def member_string_def)
  moreover have "plain_originator ?o ''CAE1''" by (simp add: plain_originator_def)
  moreover have "plain_resource ?n" by (simp add: plain_resource_def mk_node_def ci_eq_def tolower_def)
  ultimately show "\<exists>o2pt. check_privilege list_env (ex_cse []) ?o (Some 1) ACOP_CREATE = Some (0, o2pt, ex_cse [])"
    using check_privilege_plain [of ?o "''CAE1''" "ex_cse ([] :: rtnode list)" 1 ?n] n
    by (simp add: policy_decision_def decide_def) (simp add: ex_cse_def decide_def, blast)
qed

lemma inactive_table:
  assumes "\<forall>e \<in> set t. \<not> is_active e"
  shows "find_wsi_from_session_table p t = None" "handle_duplicate_session p t = t"
  using assms by (induction t) (auto simp: find_wsi_from_session_table_def handle_duplicate_session_def)

lemma ex_table: "sessions ex_ws = \<lparr>ae = Some 1, connection_handle = Some 7, is_active = True\<rparr> # replicate 99 \<lparr>ae = None, connection_handle = None, is_active = False\<rparr>"
proof -
  let ?e = "\<lparr>ae = None, connection_handle = None, is_active = False\<rparr>"
  have t: "session_table = ?e # replicate 99 ?e" by (simp add: session_table_def numeral_eq_Suc)
  have "handle_duplicate_session (Some 1) (?e # replicate 99 ?e) = ?e # replicate 99 ?e" by (rule inactive_table(2)) simp
  then show ?thesis by (simp add: ex_ws_def open_session_def add_session_connected_def t)
qed

lemma ex_reached: "find_wsi_from_session_table (Some b) (sessions ex_ws) = (if b = 1 then Some 7 else None)"
  using inactive_table(1) [of "replicate 99 \<lparr>ae = None, connection_handle = None, is_active = False\<rparr>" "Some b"]
  by (simp add: ex_table find_wsi_from_session_table_def)

lemma ex_ws_reachable: "ws_reachable {list_env} L ex_ws"
proof -
  let ?w = "\<lparr>sessions = session_table, outbox = (\<lambda>wsi. []), written = []\<rparr>"
  obtain o2pt where c: "check_privilege list_env (ex_cse []) (empty_o2pt\<lparr>p_fr := Some ''CAE1''\<rparr>) (Some 1) ACOP_CREATE = Some (0, o2pt, ex_cse [])"
    using ex_ws_originator(2) by blast
  have t: "\<forall>e \<in> set session_table. \<not> is_active e" by (simp add: session_table_def)
  have "has_room 1 (sessions ?w)"
    by (simp add: has_room_def inactive_table(2) [OF t]) (simp add: session_table_def list_ex_iff)
  from connection_opens [OF _ ex_ws_originator(1) c this, of L 7]
  have "callback_websocket list_env L (ex_cse []) 7 (Filter_Protocol_Connection (Some ''CAE1'')) ?w = Some (0, ex_ws, ex_cse [])"
    by (simp add: ex_ws_def del: callback_websocket.simps)
  moreover have "reached_on session_table = Map.empty"
    by (simp add: fun_eq_iff reached_on_def inactive_table(1) [OF t])
  ultimately show ?thesis using ws_callback [OF ws_start, of list_env "{list_env}" _ 7 L] by fastforce
qed

theorem ws_sessions_unique_witness:
  "length (sessions ex_ws) = MAX_SESSIONS \<and> is_active (sessions ex_ws ! 0)"
  using ws_sessions_unique [OF ex_ws_reachable] ex_table by simp

theorem ws_reconnected_witness:
  "\<exists>w1 w2. callback_websocket list_env ex_lws (ex_cse []) 8 (Filter_Protocol_Connection (Some ''CAE1'')) ex_ws = Some (0, w1, ex_cse []) \<and>
     callback_websocket list_env ex_lws (ex_cse []) 7 Closed w1 = Some (0, w2, ex_cse []) \<and>
     find_wsi_from_session_table (Some 1) (sessions w2) = Some 8"
proof -
  obtain o2pt where c: "check_privilege list_env (ex_cse []) (empty_o2pt\<lparr>p_fr := Some ''CAE1''\<rparr>) (Some 1) ACOP_CREATE = Some (0, o2pt, ex_cse [])"
    using ex_ws_originator(2) by blast
  have "find_wsi_from_session_table (Some 1) (sessions ex_ws) = Some 7" "\<forall>b. find_wsi_from_session_table (Some b) (sessions ex_ws) \<noteq> Some 8"
    by (simp_all add: ex_reached)
  from ws_reconnected [OF ex_ws_reachable this _ ex_ws_originator(1) c, of ex_lws list_env "ex_cse []"] show ?thesis
    by (simp del: callback_websocket.simps) fastforce
qed

theorem ws_notification_delivered_witness:
  "\<exists>w1 w2. websocket_check_and_forwarding_from_sessionTable list_env ex_lws empty_o2pt (Some 1) ex_ws = Some w1 \<and>
     callback_websocket list_env ex_lws (ex_cse []) 7 Server_Writeable w1 = Some (0, w2, ex_cse []) \<and> written w2 = [(7, [])]"
proof -
  have "find_wsi_from_session_table (Some 1) (sessions ex_ws) = Some 7" by (simp add: ex_reached)
  moreover have "[] = e_print list_env (notify_object empty_o2pt (p_request_pc empty_o2pt))" by (simp add: list_env_def)
  moreover have "outbox ex_ws 7 = []" "written ex_ws = []" by (simp_all add: ex_ws_def)
  ultimately show ?thesis
    using ws_notification_delivered [of "Some 1" ex_ws 7 ex_lws "[]" list_env empty_o2pt list_env "ex_cse []"]
    by (simp del: callback_websocket.simps) blast
qed

end
