(* ===== verification/Spec2Isabelle.thy ===== *)
theory Spec2Isabelle
  imports ValidationProps ResponseProps TimeSeriesProps DispatchProps HttpProps StartupProps PostgresProps DiscoveryProps
    Coap Websocket
begin

text \<open>
  \<^bold>\<open>tinyIoT: a oneM2M common services entity.\<close>

  The server under \<^verbatim>\<open>src/source/server\<close> keeps a tree of oneM2M resources (CSEBase, AE, container,
  content instance, access control policy, subscription, group, ...), receives requests over
  HTTP, MQTT, CoAP and WebSocket, and stores the resources in a database. A request is turned
  into a \<^verbatim>\<open>oneM2MPrimitive\<close>, its target is looked up in the tree, the originator's privileges
  are checked, the contents are validated, and the operation changes tree and database.

  \<^bold>\<open>Theories.\<close>
  \<^item> \<open>Prelude\<close>: C integers, strings and searches (\<^verbatim>\<open>strcmp\<close>, \<^verbatim>\<open>strtok\<close>, \<^verbatim>\<open>atoi\<close>, ...) and the
    simplification collections.
  \<^item> \<open>CJson\<close>: the values of \<^verbatim>\<open>cJSON.c\<close> and the merge \<^verbatim>\<open>update_resource\<close>. The locale of attribute maps
    is the interface; the cJSON operations are its interpretation.
  \<^item> \<open>Onem2mTypes\<close>, \<open>Decimal\<close>, \<open>ResourceTypes\<close>, \<open>Addressing\<close>: enumerations and code tables, decimal
    printing and timestamps, resource type tables and identifiers, addresses.
  \<^item> \<open>Primitive\<close>: the request record, \<^verbatim>\<open>handle_error\<close> and the checks before dispatch; the locale
    \<open>request_check\<close> is their common contract.
  \<^item> \<open>ResourceTree\<close>, \<open>TreeInvariant\<close>: nodes on a heap with parent, child and sibling pointers;
    insertion, release and search, and the proof that they keep the pointer structure a tree.
  \<^item> \<open>Container\<close>: the counters of containers and the eviction of instances.
  \<^item> \<open>Lookup\<close>: resolution of structured, unstructured and hybrid addresses (\<^verbatim>\<open>rtManager.c\<close>).
  \<^item> \<open>AccessControl\<close>, \<open>AccessProps\<close>: evaluation of access control policies (\<^verbatim>\<open>util.c\<close>).
  \<^item> \<open>FilterCriteria\<close>, \<open>FilterProps\<close>: \<^verbatim>\<open>filterCriteria.c\<close>.
  \<^item> \<open>Announce\<close>: the attributes announced to other CSEs and their updates.
  \<^item> \<open>Validation\<close>, \<open>ValidationProps\<close>: the checks of request contents.
  \<^item> \<open>Sdt\<close>: the definitions of flexContainer types and the check of custom attributes (\<^verbatim>\<open>sdt.c\<close>).
  \<^item> \<open>Remote\<close>: selection of a remote CSE, forwarding, and the announced copies of a resource.
  \<^item> \<open>Response\<close>, \<open>ResponseProps\<close>: the body of an answer for every result content value.
  \<^item> \<open>Lifecycle\<close>, \<open>LifecycleProps\<close>: creation and update of containers, instances, policies and AEs.
  \<^item> \<open>Calendar\<close>, \<open>MissingData\<close>, \<open>Monitor\<close>, \<open>TimeSeries\<close>, \<open>TimeSeriesProps\<close>: time series
    (\<^verbatim>\<open>resources/ts.c\<close>, \<^verbatim>\<open>resources/tsi.c\<close>) and the thread that detects missing data points
    (\<^verbatim>\<open>monitor.c\<close>), one tick at a time; the notification window is stated as a locale and the
    counters of the code are its interpretation.
  \<^item> \<open>Notify\<close>, \<open>Subscription\<close>: the conditions of subscriptions, delivery of notifications, and
    \<^verbatim>\<open>resources/sub.c\<close>.
  \<^item> \<open>RegistrationTypes\<close>, \<open>Group\<close>, \<open>FlexContainer\<close>: \<^verbatim>\<open>resources/csr.c\<close>, \<^verbatim>\<open>annc.c\<close>, \<^verbatim>\<open>fcin.c\<close>, \<^verbatim>\<open>grp.c\<close>
    and \<^verbatim>\<open>fcnt.c\<close>.
  \<^item> \<open>Retrieve\<close>: retrieval and discovery, and the hash map that puts descendants under their parents.
  \<^item> \<open>Deletion\<close>, \<open>DeletionProps\<close>: deletion and the notification of subscriptions, which call each other, and what they do
    to the state before the nodes are released.
  \<^item> \<open>Dispatch\<close>, \<open>DispatchProps\<close>: a request from its target address to its answer (\<^verbatim>\<open>route\<close>,
    \<^verbatim>\<open>handle_onem2m_request\<close>), with the create, update and fan-out operations of \<^verbatim>\<open>onem2m.c\<close>.
  \<^item> \<open>HttpMessage\<close>, \<open>Http\<close>, \<open>HttpProps\<close>: the HTTP binding (\<^verbatim>\<open>httpd.c\<close>): the parser of messages, the
    primitive of a request, the text of its answer, and the requests sent to other CSEs. Packets
    are arguments; the parser of cJSON is the parameter \<open>parse\<close>.
  \<^item> \<open>Restart\<close>: the tree that \<^verbatim>\<open>init_resource_tree\<close> builds from the rows of the database, an
    argument, and the proof that it is the tree the rows describe.
  \<^item> \<open>Startup\<close>, \<open>StartupProps\<close>: \<^verbatim>\<open>init_server\<close>, the resources of a first start and the registration
    with a remote CSE; the values of \<^verbatim>\<open>config.h\<close> are the record \<open>config\<close>.
  \<^item> \<open>Postgres\<close>, \<open>Schema\<close>, \<open>PostgresProps\<close>: the database layer (\<^verbatim>\<open>postgresql_implement.c\<close>): the connection with its
    lock and transaction, the text of every statement in buffers of their size, and the objects
    made of the rows. The client library and the parser and printer of cJSON are the record
    \<open>libpq\<close>, a parameter; what PostgreSQL does with a statement is the value of its \<open>PQexec\<close>.
    \<open>Schema\<close> has the tables and their creation at start-up.
  \<^item> \<open>Discovery\<close>, \<open>DiscoveryProps\<close>: the query for the descendants of a resource: filter criteria as
    conditions, the policies that forbid discovery, the union over the tables of the types.
  \<^item> \<open>Mqtt\<close>, \<open>Coap\<close>, \<open>Websocket\<close>: the other bindings (\<^verbatim>\<open>mqttClient.c\<close>, \<^verbatim>\<open>coap.c\<close>,
    \<^verbatim>\<open>websocket/websocket_server.c\<close>), which \<^verbatim>\<open>config.h\<close> disables: the primitive of a message, its answer
    and notifications, and the table of WebSocket sessions with its runs as an inductive relation. The
    locale \<open>session_registry\<close> states what the table is for, a map from AEs to connections, and the table
    is its interpretation. Messages and packets are arguments.

  \<^bold>\<open>Conventions.\<close> Undefined behaviour of C (null and dangling pointers, signed overflow, overrun of a
  buffer) and non-termination are the value \<open>None\<close> of the option monad, so a theorem that a
  result is \<open>Some\<close> also shows their absence. Pointer loops are \<open>partial_function (option)\<close>; their
  termination on well-formed trees is proved, no fuel is used. The database, the clock, the HTTP
  client, the printer of cJSON and \<^verbatim>\<open>strtod\<close> are parameters: the fields of the record \<open>env\<close>
  (\<open>e_db_...\<close>, \<open>e_time\<close>, \<open>e_now\<close>, \<open>e_http_send\<close>, \<open>e_http_forwarding\<close>, \<open>e_print\<close>, \<open>e_strtod_us\<close>).
  The concrete environment of the witnesses is \<open>list_env\<close>, whose database is a list of instances.

  \<^bold>\<open>What the theorems show.\<close> A request that the privilege check refuses learns no more than a debug message, and all that has
  happened to the state are the lookups of the check itself, which may read instances from the database and remove
  expired resources; a creation passes every guard. A container is created and a subtree is deleted as the operations
  promise, from the request to the answer (the deletion for resources that reach nothing outside the subtree but their
  parent: no groups, remote CSEs, announcements or notifications). The tree stays a
  tree, and the address of every resource resolves to it. The effective policy and the
  operations it grants are those of the specification, a policy itself is protected by its self privileges alone, and contents
  and custom attributes are accepted exactly when they have the names and kinds of values of their tables. Instances stay within the limits of
  their container, missing data points within the record of their series, and lost points are
  reported. Announced copies follow their original. Parsers and printers are inverse, and a
  request that is forwarded over HTTP is handled by the receiver as the same request. A restart
  gives the tree of the rows the queries return, whatever their order, and on a first start only the
  administrator and the configured CSEs have every privilege. In the database layer a transaction excludes the operations of other
  threads that take the lock (those on flexContainer attributes and instances do not), the values of a resource and of the general filter criteria
  stay inside their literals and a stored
  resource is read back as it was; the tables have a column for every attribute; the deletion and the level criterion select exactly the
  subtree for addresses without pattern characters. A request over MQTT or CoAP reaches the
  dispatcher as it was sent; over WebSocket an AE is found on its latest connection (the queue of its messages follows memory that is never set). Where the code falls short of its intention the theorem
  states what it does.

  \<^bold>\<open>Not modelled.\<close> Sockets, TLS and the loops that wait for messages; of the CoAP binding bodies in several
  blocks and forwarded requests (their caches and tokens are kept by the library); MQTT over WebSocket;
  the implementation of the database interface on SQLite (not compiled
  with the \<^verbatim>\<open>DB_TYPE\<close> of \<^verbatim>\<open>config.h\<close>), the SQL server itself and the functions of \<^verbatim>\<open>postgresql_implement.c\<close> that are never called, \<^verbatim>\<open>main\<close> with its
  signals, threads and shutdown, logging, the locks of the tree, and the vendored libraries (sqlite, libcoap,
  wolfmqtt, the parser and printer of cJSON).
\<close>

section \<open>Attributes of validation and storage\<close>

text \<open>The attributes that the database stores are those that the check of contents admits, in the same order.\<close>

lemma stored_attributes_admitted:
  "(case ATTRIBUTES of
      JObject kvs \<Rightarrow> map (\<lambda>(k, v). (k, case v of JObject attrs \<Rightarrow> map fst attrs | _ \<Rightarrow> [])) kvs
    | _ \<Rightarrow> []) = stored_attributes"
  by (simp add: ATTRIBUTES_def stored_attributes_def)

end
